(* ===== verification/Pebra_Base.thy ===== *)
theory Pebra_Base
  imports Complex_Main "HOL-Library.List_Lexorder" "HOL-Library.Char_ord"
begin

text \<open>
  Shared vocabulary of the development: the Python values and dictionaries the repository passes
  between its components, the errors it raises, the string and sorting functions of the language
  that the modelled code calls, and the generic lemmas the component theories rest on.

  Conventions. A Python \<open>str\<close> is a \<^typ>\<open>string\<close>: the bytes of its UTF-8 encoding, one
  \<^typ>\<open>char\<close> each. Encoding a string is then the identity, the order of code points is the order of
  bytes, and searching for an ASCII character or prefix is the same on both. A Python \<open>float\<close> that the code computes with is a \<^typ>\<open>real\<close>; where the code asks
  \<open>math.isfinite\<close> of a value it has not computed, the value has the type \<open>pyfloat\<close> below, which
  has the infinities and NaN. A Python \<open>dict\<close> is an association list in insertion order, a
  \<open>set\<close> that the code only tests is a HOL set or list, a \<open>tuple\<close> is a list.
\<close>

section \<open>Errors and results\<close>

text \<open>
  A raised exception is an \<open>Inl\<close> value; the text is the constant part of the message of the
  source.
\<close>

datatype pyerr =
    ValueError string
  | KeyError string
  | TypeError string
  | AssertionError string
  | AttributeError string
  | IndexError string
  | ZeroDivisionError
  | OverflowError string
  | MeasurementAlreadyRecordedError string
  | OutcomeNotRecordedError string

type_synonym 'a res = "pyerr + 'a"

definition rbind :: "'a res \<Rightarrow> ('a \<Rightarrow> 'b res) \<Rightarrow> 'b res" where
  "rbind r f = (case r of Inl e \<Rightarrow> Inl e | Inr x \<Rightarrow> f x)"

named_theorems py_simps \<open>evaluation rules of the Python vocabulary\<close>

lemma rbind_simps [simp, py_simps]:
  "rbind (Inl e) f = Inl e"
  "rbind (Inr x) f = f x"
  by (simp_all add: rbind_def)

lemma rbind_Inr_iff: "rbind r f = Inr y \<longleftrightarrow> (\<exists>x. r = Inr x \<and> f x = Inr y)"
  by (cases r) auto

lemma rbind_Inl_iff: "rbind r f = Inl e \<longleftrightarrow> r = Inl e \<or> (\<exists>x. r = Inr x \<and> f x = Inl e)"
  by (cases r) auto

definition is_ok :: "'a res \<Rightarrow> bool" where
  "is_ok r = (case r of Inl _ \<Rightarrow> False | Inr _ \<Rightarrow> True)"

lemma is_ok_simps [simp]: "is_ok (Inr x)" "\<not> is_ok (Inl e)"
  by (simp_all add: is_ok_def)

lemma is_ok_iff: "is_ok r \<longleftrightarrow> (\<exists>x. r = Inr x)"
  by (cases r) auto

lemma is_ok_rbind: "is_ok (rbind r f) \<longleftrightarrow> (\<exists>x. r = Inr x \<and> is_ok (f x))"
  by (cases r) auto

section \<open>Python values\<close>

datatype pyfloat = Fin real | PosInf | NegInf | NaN

datatype pyval =
    VNone
  | VBool bool
  | VInt int
  | VFloat pyfloat
  | VStr string
  | VList "pyval list"
  | VDict "(string \<times> pyval) list"

abbreviation vreal :: "real \<Rightarrow> pyval" where
  "vreal x \<equiv> VFloat (Fin x)"

fun is_finite_float :: "pyfloat \<Rightarrow> bool" where
  "is_finite_float (Fin _) = True"
| "is_finite_float _ = False"

text \<open>The truth value of an object, as \<open>bool(x)\<close> and the conditions of \<open>if\<close> read it.\<close>

fun truthy :: "pyval \<Rightarrow> bool" where
  "truthy VNone = False"
| "truthy (VBool b) = b"
| "truthy (VInt i) = (i \<noteq> 0)"
| "truthy (VFloat (Fin x)) = (x \<noteq> 0)"
| "truthy (VFloat _) = True"
| "truthy (VStr s) = (s \<noteq> [])"
| "truthy (VList xs) = (xs \<noteq> [])"
| "truthy (VDict d) = (d \<noteq> [])"

text \<open>
  A finite number that is not a \<open>bool\<close>: the test
  \<open>not isinstance(v, bool) and isinstance(v, (int, float)) and math.isfinite(v)\<close>.
\<close>

fun finite_number :: "pyval \<Rightarrow> bool" where
  "finite_number (VInt _) = True"
| "finite_number (VFloat f) = is_finite_float f"
| "finite_number _ = False"

fun number_value :: "pyval \<Rightarrow> real" where
  "number_value (VInt i) = of_int i"
| "number_value (VFloat (Fin x)) = x"
| "number_value _ = 0"

definition vopt :: "string option \<Rightarrow> pyval" where
  "vopt x = (case x of None \<Rightarrow> VNone | Some s \<Rightarrow> VStr s)"

definition vnum_opt :: "real option \<Rightarrow> pyval" where
  "vnum_opt x = (case x of None \<Rightarrow> VNone | Some r \<Rightarrow> vreal r)"

definition vfloat_opt :: "pyfloat option \<Rightarrow> pyval" where
  "vfloat_opt x = (case x of None \<Rightarrow> VNone | Some f \<Rightarrow> VFloat f)"

abbreviation vstrs :: "string list \<Rightarrow> pyval" where
  "vstrs xs \<equiv> VList (map VStr xs)"

section \<open>Dictionaries\<close>

text \<open>
  \<open>dict_set\<close> is \<open>d[k] = v\<close>: a key that is present keeps its place, a new key goes to the end.
  \<open>dict_get\<close> is \<open>d.get(k, default)\<close>, \<open>dict_merge d e\<close> is \<open>{**d, **e}\<close>.
\<close>

type_synonym 'v dict = "(string \<times> 'v) list"

definition dict_get :: "'v dict \<Rightarrow> string \<Rightarrow> 'v \<Rightarrow> 'v" where
  "dict_get d k v = (case map_of d k of None \<Rightarrow> v | Some x \<Rightarrow> x)"

definition dict_has :: "'v dict \<Rightarrow> string \<Rightarrow> bool" where
  "dict_has d k = (map_of d k \<noteq> None)"

fun dict_set :: "'v dict \<Rightarrow> string \<Rightarrow> 'v \<Rightarrow> 'v dict" where
  "dict_set [] k v = [(k, v)]"
| "dict_set ((a, x) # d) k v = (if a = k then (a, v) # d else (a, x) # dict_set d k v)"

fun dict_merge :: "'v dict \<Rightarrow> 'v dict \<Rightarrow> 'v dict" where
  "dict_merge d [] = d"
| "dict_merge d ((k, v) # e) = dict_merge (dict_set d k v) e"

text \<open>
  What the components rely on of a dictionary: reading after writing, and that writing one key
  leaves the others alone.
\<close>

locale py_dict =
  fixes get :: "'m \<Rightarrow> string \<Rightarrow> 'v option"
    and put :: "'m \<Rightarrow> string \<Rightarrow> 'v \<Rightarrow> 'm"
  assumes get_put: "get (put m k v) a = (if a = k then Some v else get m a)"
begin

lemma get_put_same: "get (put m k v) k = Some v"
  by (simp add: get_put)

lemma get_put_other: "a \<noteq> k \<Longrightarrow> get (put m k v) a = get m a"
  by (simp add: get_put)

lemma get_fold_put:
  "get (fold (\<lambda>(k, v) m. put m k v) kvs m) a
    = (case map_of (rev kvs) a of None \<Rightarrow> get m a | Some v \<Rightarrow> Some v)"
proof (induction kvs arbitrary: m)
  case Nil
  then show ?case by simp
next
  case (Cons kv kvs)
  then show ?case
    by (cases kv) (simp add: get_put map_add_def split: option.splits)
qed

lemma get_put_twice: "get (put (put m k v) k w) a = get (put m k w) a"
  by (simp add: get_put)

end

lemma map_of_dict_set: "map_of (dict_set d k v) a = (if a = k then Some v else map_of d a)"
  by (induction d) auto

interpretation alist_dict: py_dict map_of dict_set
  by unfold_locales (simp add: map_of_dict_set)

lemma dict_merge_fold: "dict_merge d e = fold (\<lambda>(k, v) m. dict_set m k v) e d"
  by (induction e arbitrary: d) auto

lemma map_of_dict_merge:
  "map_of (dict_merge d e) a
    = (case map_of (rev e) a of None \<Rightarrow> map_of d a | Some v \<Rightarrow> Some v)"
  by (simp only: dict_merge_fold alist_dict.get_fold_put)

lemma keys_dict_set: "fst ` set (dict_set d k v) = insert k (fst ` set d)"
  by (induction d k v rule: dict_set.induct) (simp_all add: insert_commute)

lemma distinct_dict_set: "distinct (map fst d) \<Longrightarrow> distinct (map fst (dict_set d k v))"
proof (induction d)
  case (Cons x d)
  then show ?case
    using keys_dict_set [of d k v] by (cases x) (auto simp: image_iff)
qed simp

lemma dict_get_set_same [simp]: "dict_get (dict_set d k v) k w = v"
  by (simp add: dict_get_def map_of_dict_set)

lemma dict_get_set_other: "a \<noteq> k \<Longrightarrow> dict_get (dict_set d k v) a w = dict_get d a w"
  by (simp add: dict_get_def map_of_dict_set)

lemma dict_get_Nil [simp, py_simps]: "dict_get [] k v = v"
  by (simp add: dict_get_def)

lemma dict_get_Cons [simp, py_simps]:
  "dict_get ((a, x) # d) k v = (if a = k then x else dict_get d k v)"
  by (simp add: dict_get_def)

lemma dict_has_simps [simp, py_simps]:
  "dict_has [] k = False"
  "dict_has ((a, x) # d) k = (a = k \<or> dict_has d k)"
  by (simp_all add: dict_has_def)

section \<open>Equality of values\<close>

text \<open>Python's \<open>==\<close>: dictionaries regardless of order, numbers by value.\<close>

fun py_number :: "pyval \<Rightarrow> pyfloat option" where
  "py_number (VBool b) = Some (Fin (of_bool b))"
| "py_number (VInt i) = Some (Fin (of_int i))"
| "py_number (VFloat x) = Some x"
| "py_number _ = None"

fun py_eq :: "pyval \<Rightarrow> pyval \<Rightarrow> bool" where
  "py_eq VNone w = (w = VNone)"
| "py_eq (VStr s) w = (w = VStr s)"
| "py_eq (VList xs) w = (case w of VList ys \<Rightarrow> list_all2 py_eq xs ys | _ \<Rightarrow> False)"
| "py_eq (VDict d) w =
     (case w of
        VDict e \<Rightarrow>
          length d = length e
          \<and> list_all (\<lambda>kv. case map_of e (fst kv) of None \<Rightarrow> False | Some u \<Rightarrow> py_eq (snd kv) u) d
      | _ \<Rightarrow> False)"
| "py_eq v w = (py_number v = py_number w \<and> py_number v \<noteq> Some NaN)"

text \<open>\<open>v in xs\<close> on a list.\<close>

definition py_in :: "pyval \<Rightarrow> pyval list \<Rightarrow> bool" where
  "py_in v xs = list_ex (py_eq v) xs"

lemma py_eq_VStr: "py_eq v (VStr s) \<longleftrightarrow> v = VStr s"
  by (cases v) auto

lemma py_in_VStr: "py_in (VStr s) xs \<longleftrightarrow> VStr s \<in> set xs"
  by (auto simp: py_in_def list_ex_iff)

section \<open>Strings\<close>

definition starts_with :: "string \<Rightarrow> string \<Rightarrow> bool" where
  "starts_with s p = (take (length p) s = p)"

definition ends_with :: "string \<Rightarrow> string \<Rightarrow> bool" where
  "ends_with s p = (length p \<le> length s \<and> drop (length s - length p) s = p)"

text \<open>\<open>sub in s\<close>.\<close>

fun contains :: "string \<Rightarrow> string \<Rightarrow> bool" where
  "contains [] p = (p = [])"
| "contains (c # s) p = (starts_with (c # s) p \<or> contains s p)"

definition remove_prefix :: "string \<Rightarrow> string \<Rightarrow> string" where
  "remove_prefix s p = (if starts_with s p then drop (length p) s else s)"

text \<open>\<open>value.replace("\\", "/")\<close>: the separator normalisation every path goes through.\<close>

definition slashes :: "string \<Rightarrow> string" where
  "slashes s = map (\<lambda>c. if c = CHR 0x5C then CHR ''/'' else c) s"

text \<open>
  \<open>lower\<close> and \<open>upper\<close> on ASCII letters; the code compares the results with ASCII words only.
\<close>

definition lower_char :: "char \<Rightarrow> char" where
  "lower_char c = (let n = (of_char c :: nat) in if 65 \<le> n \<and> n \<le> 90 then char_of (n + 32) else c)"

definition lower :: "string \<Rightarrow> string" where
  "lower s = map lower_char s"

definition upper_char :: "char \<Rightarrow> char" where
  "upper_char c = (let n = (of_char c :: nat) in if 97 \<le> n \<and> n \<le> 122 then char_of (n - 32) else c)"

definition ascii_upper :: "string \<Rightarrow> string" where
  "ascii_upper s = map upper_char s"

text \<open>
  Whitespace, as \<open>str.isspace\<close> and the \<open>\s\<close> of regular expressions have it: the number of
  bytes of the whitespace character at the front of a string, 0 if there is none.
\<close>

definition is_ascii_space :: "char \<Rightarrow> bool" where
  "is_ascii_space c = (let n = (of_char c :: nat) in 9 \<le> n \<and> n \<le> 13 \<or> 28 \<le> n \<and> n \<le> 32)"

definition space_len :: "string \<Rightarrow> nat" where
  "space_len s =
     (case map of_char s of
        [] \<Rightarrow> 0
      | a # r \<Rightarrow>
          if is_ascii_space (hd s) then 1
          else (case r of
                  [] \<Rightarrow> 0
                | b # r' \<Rightarrow>
                    if a = (194 :: nat) \<and> b \<in> {133, 160} then 2
                    else (case r' of
                            [] \<Rightarrow> 0
                          | c # _ \<Rightarrow>
                              if a = 225 \<and> b = 154 \<and> c = 128
                                 \<or> a = 226 \<and> b = 128 \<and> (128 \<le> c \<and> c \<le> 138 \<or> c \<in> {168, 169, 175})
                                 \<or> a = 226 \<and> b = 129 \<and> c = 159
                                 \<or> a = 227 \<and> b = 128 \<and> c = 128
                              then 3 else 0)))"

text \<open>\<open>not value.strip()\<close>: the string is empty or all whitespace.\<close>

fun blank_rest :: "nat \<Rightarrow> string \<Rightarrow> bool" where
  "blank_rest n [] = (n = 0)"
| "blank_rest (Suc n) (c # s) = blank_rest n s"
| "blank_rest 0 (c # s) = (space_len (c # s) > 0 \<and> blank_rest (space_len (c # s) - 1) s)"

definition blank :: "string \<Rightarrow> bool" where
  "blank s = blank_rest 0 s"

text \<open>\<open>value.strip()\<close>: the first number counts bytes of a whitespace character still to drop.\<close>

fun lstrip_rest :: "nat \<Rightarrow> string \<Rightarrow> string" where
  "lstrip_rest n [] = []"
| "lstrip_rest (Suc n) (c # s) = lstrip_rest n s"
| "lstrip_rest 0 (c # s) = (if space_len (c # s) > 0 then lstrip_rest (space_len (c # s) - 1) s else c # s)"

fun rstrip :: "string \<Rightarrow> string" where
  "rstrip [] = []"
| "rstrip (c # s) = (if blank (c # s) then [] else c # rstrip s)"

definition strip :: "string \<Rightarrow> string" where
  "strip s = rstrip (lstrip_rest 0 s)"

text \<open>The longest prefix without whitespace, and what follows it.\<close>

fun nonspace_span :: "string \<Rightarrow> string \<times> string" where
  "nonspace_span [] = ([], [])"
| "nonspace_span (c # s) =
     (if space_len (c # s) > 0 then ([], c # s)
      else (case nonspace_span s of (t, r) \<Rightarrow> (c # t, r)))"

text \<open>\<open>s.split(c, 1)[0]\<close>, the part before the first separator.\<close>

definition before_char :: "char \<Rightarrow> string \<Rightarrow> string" where
  "before_char c s = takeWhile (\<lambda>x. x \<noteq> c) s"

text \<open>\<open>s.split(c)\<close> for a one-character separator.\<close>

fun split_on :: "char \<Rightarrow> string \<Rightarrow> string list" where
  "split_on c [] = [[]]"
| "split_on c (x # s) =
     (if x = c then [] # split_on c s
      else (case split_on c s of [] \<Rightarrow> [[x]] | t # ts \<Rightarrow> (x # t) # ts))"

fun digit_char :: "nat \<Rightarrow> char" where
  "digit_char n = char_of (48 + n mod 10)"

fun show_nat :: "nat \<Rightarrow> string" where
  "show_nat n = (if n < 10 then [digit_char n] else show_nat (n div 10) @ [digit_char n])"

declare show_nat.simps [simp del]

lemma starts_with_Nil [simp, py_simps]: "starts_with s []"
  by (simp add: starts_with_def)

lemma starts_with_Cons [simp, py_simps]:
  "starts_with [] (c # p) = False"
  "starts_with (a # s) (c # p) = (a = c \<and> starts_with s p)"
  by (auto simp: starts_with_def)

lemma starts_with_append [simp]: "starts_with (p @ s) p"
  by (simp add: starts_with_def)

lemma starts_with_iff: "starts_with s p \<longleftrightarrow> (\<exists>r. s = p @ r)"
  by (metis append_take_drop_id starts_with_append starts_with_def)

lemma length_slashes [simp]: "length (slashes s) = length s"
  by (simp add: slashes_def)

lemma slashes_simps [simp, py_simps]:
  "slashes [] = []"
  "slashes (c # s) = (if c = CHR 0x5C then CHR ''/'' else c) # slashes s"
  by (simp_all add: slashes_def)

lemma slashes_idem [simp]: "slashes (slashes s) = slashes s"
  by (simp add: slashes_def)

lemma slashes_id: "CHR 0x5C \<notin> set s \<Longrightarrow> slashes s = s"
  by (induction s) (auto simp: slashes_def)

lemma no_backslash_slashes [simp]: "CHR 0x5C \<notin> set (slashes s)"
  by (auto simp: slashes_def)

section \<open>Sorting and selection\<close>

text \<open>
  \<open>sorted(set(xs))\<close>, the canonical form the code gives a set of strings, and Python's
  \<open>max(xs, key=f)\<close>, which returns the first element with the greatest key.
\<close>

definition sorted_set :: "string list \<Rightarrow> string list" where
  "sorted_set xs = remdups (sort xs)"

lemma set_sorted_set [simp]: "set (sorted_set xs) = set xs"
  by (simp add: sorted_set_def)

lemma distinct_sorted_set [simp]: "distinct (sorted_set xs)"
  by (simp add: sorted_set_def)

lemma sorted_sorted_set [simp]: "sorted (sorted_set xs)"
  by (simp add: sorted_set_def sorted_remdups)

lemma sorted_set_cong: "set xs = set ys \<Longrightarrow> sorted_set xs = sorted_set ys"
  by (metis distinct_sorted_set set_sorted_set sorted_distinct_set_unique sorted_sorted_set)

lemma sorted_set_Nil_iff [simp]: "sorted_set xs = [] \<longleftrightarrow> xs = []"
  by (metis set_empty set_sorted_set)

lemma length_sorted_set: "length (sorted_set xs) = card (set xs)"
  by (metis distinct_card distinct_sorted_set set_sorted_set)

fun first_max :: "('a \<Rightarrow> 'k::linorder) \<Rightarrow> 'a \<Rightarrow> 'a list \<Rightarrow> 'a" where
  "first_max f best [] = best"
| "first_max f best (x # xs) = first_max f (if f best < f x then x else best) xs"

lemma first_max_ge: "x \<in> set (b # xs) \<Longrightarrow> f x \<le> f (first_max f b xs)"
proof (induction xs arbitrary: b x)
  case (Cons y ys)
  let ?c = "if f b < f y then y else b"
  have c: "f ?c \<le> f (first_max f ?c ys)" using Cons.IH by simp
  show ?case
  proof (cases "x \<in> set ys")
    case True
    then show ?thesis using Cons.IH [of x ?c] by simp
  next
    case False
    with Cons.prems have "f x \<le> f ?c" by auto
    with c show ?thesis by simp
  qed
qed simp

lemma first_max_mem: "first_max f b xs \<in> set (b # xs)"
proof (induction xs arbitrary: b)
  case (Cons x xs)
  then show ?case using Cons.IH [of "if f b < f x then x else b"] by (auto split: if_splits)
qed simp

lemma first_max_key: "f (first_max f b xs) = Max (f ` set (b # xs))"
proof -
  have "f (first_max f b xs) \<in> f ` set (b # xs)"
    by (rule imageI) (rule first_max_mem)
  moreover have "y \<le> f (first_max f b xs)" if "y \<in> f ` set (b # xs)" for y
    using that by (elim imageE) (simp only: first_max_ge)
  ultimately show ?thesis by (intro Max_eqI [symmetric]) (auto simp del: set_simps)
qed

text \<open>
  A severity scale: an enumeration with an injective rank, of which the code takes the most severe
  member present. The choice then depends only on the set of members, not on their order.
\<close>

locale severity_scale =
  fixes rank :: "'a \<Rightarrow> nat"
  assumes rank_inj: "rank x = rank y \<Longrightarrow> x = y"
begin

lemma most_severe_unique:
  assumes "x \<in> set (b # xs)" and "\<And>y. y \<in> set (b # xs) \<Longrightarrow> rank y \<le> rank x"
  shows "first_max rank b xs = x"
  using assms first_max_ge [of x b xs rank] first_max_mem [of rank b xs]
  by (metis le_antisym rank_inj)

lemma most_severe_order_free:
  assumes "set (b # xs) = set (c # ys)"
  shows "first_max rank b xs = first_max rank c ys"
  using assms by (intro rank_inj) (simp only: first_max_key)

lemma most_severe_mono:
  assumes "set (b # xs) \<subseteq> set (c # ys)"
  shows "rank (first_max rank b xs) \<le> rank (first_max rank c ys)"
  using assms first_max_mem [of rank b xs] first_max_ge [of _ c ys rank] by blast

lemma most_severe_bottom:
  assumes "rank b = 0"
  shows "first_max rank b xs = b \<longleftrightarrow> (\<forall>x \<in> set xs. x = b)"
proof
  assume "first_max rank b xs = b"
  then have "\<And>x. x \<in> set xs \<Longrightarrow> rank x \<le> rank b" using first_max_ge [of _ b xs rank] by simp
  with assms show "\<forall>x \<in> set xs. x = b" by (metis le_zero_eq rank_inj)
next
  assume "\<forall>x \<in> set xs. x = b"
  then show "first_max rank b xs = b" using first_max_mem [of rank b xs] by auto
qed

end

section \<open>Bounds\<close>

text \<open>\<open>max(lo, min(hi, x))\<close>, the clamp that appears throughout the scoring code.\<close>

definition clamp :: "real \<Rightarrow> real \<Rightarrow> real \<Rightarrow> real" where
  "clamp lo hi x = max lo (min hi x)"

lemma clamp_bounds: "lo \<le> hi \<Longrightarrow> lo \<le> clamp lo hi x \<and> clamp lo hi x \<le> hi"
  by (simp add: clamp_def)

lemma clamp_ge [simp]: "lo \<le> clamp lo hi x"
  by (simp add: clamp_def)

lemma clamp_le [simp]: "lo \<le> hi \<Longrightarrow> clamp lo hi x \<le> hi"
  by (simp add: clamp_def)

lemma clamp_mono: "x \<le> y \<Longrightarrow> clamp lo hi x \<le> clamp lo hi y"
  by (auto simp: clamp_def)

lemma clamp_id: "lo \<le> x \<Longrightarrow> x \<le> hi \<Longrightarrow> clamp lo hi x = x"
  by (simp add: clamp_def)

text \<open>\<open>int(x)\<close> of a float truncates towards zero.\<close>

definition py_int :: "real \<Rightarrow> int" where
  "py_int x = (if 0 \<le> x then \<lfloor>x\<rfloor> else \<lceil>x\<rceil>)"

lemma py_int_of_int [simp]: "py_int (of_int i) = i"
  by (simp add: py_int_def)

lemma py_int_numeral [simp]: "py_int (numeral n) = numeral n" "py_int 0 = 0" "py_int 1 = 1"
  by (simp_all add: py_int_def)

lemma sum_list_nonneg_real: "(\<And>x. x \<in> set xs \<Longrightarrow> 0 \<le> (f x :: real)) \<Longrightarrow> 0 \<le> (\<Sum>x\<leftarrow>xs. f x)"
  by (induction xs) auto

lemma sum_list_le_real:
  "(\<And>x. x \<in> set xs \<Longrightarrow> (f x :: real) \<le> g x) \<Longrightarrow> (\<Sum>x\<leftarrow>xs. f x) \<le> (\<Sum>x\<leftarrow>xs. g x)"
  by (induction xs) (auto intro: add_mono)

end
