(* ===== verification/Pebra_Patch_Paths.thy ===== *)
theory Pebra_Patch_Paths
  imports Pebra_Base
begin

text \<open>
  \<open>pebra/core/patch_paths.py\<close>: the strict extraction of repository paths from unified-diff
  headers. The regular expressions of the module are written out as the parsers they denote (their
  alternatives are deterministic but for the two forms of a path token, which are tried in the
  order of the source); \<open>\d\<close> is an ASCII digit.

  The parser is a loop over the lines with one state record. A line either continues with a new
  state, ends the loop with the empty result (the \<open>return ()\<close> of a malformed patch), or raises:
  an octal escape above \<open>\377\<close> in a quoted path makes \<open>bytearray.append\<close> raise \<open>ValueError\<close>.
\<close>

section \<open>Lines and bytes\<close>

definition LF :: char where "LF = CHR 0x0A"
definition TAB :: char where "TAB = CHR 0x09"
definition QUOTE :: char where "QUOTE = CHR 0x22"
definition BACKSLASH :: char where "BACKSLASH = CHR 0x5C"

text \<open>
  \<open>str.splitlines\<close>: the number of bytes of the line break at the front of a string. A carriage
  return and the line feed after it are one break.
\<close>

definition break_len :: "string \<Rightarrow> nat" where
  "break_len s =
     (case map of_char s of
        [] \<Rightarrow> 0
      | a # r \<Rightarrow>
          if a = (13 :: nat) then (case r of b # _ \<Rightarrow> if b = 10 then 2 else 1 | [] \<Rightarrow> 1)
          else if a \<in> {10, 11, 12, 28, 29, 30} then 1
          else (case r of
                  b # r' \<Rightarrow>
                    if a = 194 \<and> b = 133 then 2
                    else (case r' of
                            c # _ \<Rightarrow> if a = 226 \<and> b = 128 \<and> c \<in> {168, 169} then 3 else 0
                          | [] \<Rightarrow> 0)
                | [] \<Rightarrow> 0))"

function splitlines_loop :: "string \<Rightarrow> string \<Rightarrow> string list" where
  "splitlines_loop acc [] = (if acc = [] then [] else [rev acc])"
| "splitlines_loop acc (c # s) =
     (if break_len (c # s) > 0
      then rev acc # splitlines_loop [] (drop (break_len (c # s)) (c # s))
      else splitlines_loop (c # acc) s)"
  by pat_completeness auto
termination
  by (relation "measure (\<lambda>(acc, s). length s)") auto

definition splitlines :: "string \<Rightarrow> string list" where
  "splitlines s = splitlines_loop [] s"

definition is_digit :: "char \<Rightarrow> bool" where
  "is_digit c = (let n = (of_char c :: nat) in 48 \<le> n \<and> n \<le> 57)"

definition is_octal :: "char \<Rightarrow> bool" where
  "is_octal c = (let n = (of_char c :: nat) in 48 \<le> n \<and> n \<le> 55)"

definition number_of_digits :: "nat \<Rightarrow> string \<Rightarrow> nat" where
  "number_of_digits base ds = foldl (\<lambda>n c. n * base + (of_char c - 48)) 0 ds"

definition is_cont :: "nat \<Rightarrow> bool" where
  "is_cont b = (128 \<le> b \<and> b \<le> 191)"

text \<open>The characters of a string, each as its UTF-8 bytes.\<close>

fun code_points :: "string \<Rightarrow> string list" where
  "code_points [] = []"
| "code_points (c # s) =
     (case code_points s of
        [] \<Rightarrow> [[c]]
      | p # ps \<Rightarrow> if is_cont (of_char (hd p)) then (c # p) # ps else [c] # p # ps)"

text \<open>Strict UTF-8, as \<open>bytes.decode("utf-8")\<close> accepts it.\<close>

fun valid_utf8 :: "nat list \<Rightarrow> bool" where
  "valid_utf8 [] = True"
| "valid_utf8 (a # s) =
     (if a < 128 then valid_utf8 s
      else case s of
        [] \<Rightarrow> False
      | b # s2 \<Rightarrow>
        if 194 \<le> a \<and> a \<le> 223 then is_cont b \<and> valid_utf8 s2
        else case s2 of
          [] \<Rightarrow> False
        | c # s3 \<Rightarrow>
          if 224 \<le> a \<and> a \<le> 239
          then is_cont b \<and> is_cont c \<and> (a = 224 \<longrightarrow> 160 \<le> b) \<and> (a = 237 \<longrightarrow> b \<le> 159)
               \<and> valid_utf8 s3
          else case s3 of
            [] \<Rightarrow> False
          | d # s4 \<Rightarrow>
            240 \<le> a \<and> a \<le> 244 \<and> is_cont b \<and> is_cont c \<and> is_cont d
            \<and> (a = 240 \<longrightarrow> 144 \<le> b) \<and> (a = 244 \<longrightarrow> b \<le> 143) \<and> valid_utf8 s4)"

section \<open>Quoted paths\<close>

text \<open>
  \<open>is_safe_repo_path\<close>. \<open>PureWindowsPath(value).drive\<close> is non-empty without a colon only for
  a path that starts with two separators, which is absolute after the replacement.
\<close>

definition path_parts :: "string \<Rightarrow> string list" where
  "path_parts s = filter (\<lambda>p. p \<noteq> [] \<and> p \<noteq> ''.'') (split_on (CHR ''/'') s)"

definition is_safe_repo_path :: "string \<Rightarrow> bool" where
  "is_safe_repo_path v =
     (if v = [] \<or> CHR '':'' \<in> set v then False
      else \<not> starts_with (slashes v) ''/'' \<and> ''..'' \<notin> set (path_parts (slashes v)))"

definition escape_byte :: "char \<Rightarrow> nat option" where
  "escape_byte c = map_of
     [(CHR ''a'', 7), (CHR ''b'', 8), (CHR ''t'', 9), (CHR ''n'', 10), (CHR ''v'', 11),
      (CHR ''f'', 12), (CHR ''r'', 13), (QUOTE, 34), (BACKSLASH, 92)] c"

datatype unescaped = Bytes "nat list" | BadEscape | OctalOverflow

fun prepend :: "nat \<Rightarrow> unescaped \<Rightarrow> unescaped" where
  "prepend b (Bytes bs) = Bytes (b # bs)"
| "prepend b u = u"

text \<open>The longest run of at most three octal digits.\<close>

definition octal_run :: "string \<Rightarrow> string" where
  "octal_run s = takeWhile is_octal (take 3 s)"

function unescape :: "string \<Rightarrow> unescaped" where
  "unescape [] = Bytes []"
| "unescape (c # s) =
     (if c \<noteq> BACKSLASH then prepend (of_char c) (unescape s)
      else case s of
        [] \<Rightarrow> BadEscape
      | d # s' \<Rightarrow>
        if is_octal d
        then (let n = number_of_digits 8 (octal_run s)
              in if n < 256 then prepend n (unescape (drop (length (octal_run s)) s))
                 else OctalOverflow)
        else (case escape_byte d of
                None \<Rightarrow> BadEscape
              | Some b \<Rightarrow> prepend b (unescape s')))"
  by pat_completeness auto
termination
  by (relation "measure length") (auto simp: octal_run_def)

definition decode_git_path :: "string \<Rightarrow> string res" where
  "decode_git_path raw =
     (let v = before_char TAB raw
      in if \<not> (starts_with v [QUOTE] \<and> ends_with v [QUOTE]) then Inr v
         else (case unescape (butlast (tl v)) of
                 BadEscape \<Rightarrow> Inr []
               | OctalOverflow \<Rightarrow> Inl (ValueError ''byte must be in range(0, 256)'')
               | Bytes bs \<Rightarrow> Inr (if valid_utf8 bs then map char_of bs else [])))"

section \<open>Headers\<close>

text \<open>\<open>"(?:\\.|[^"\\])*"\<close> at the front of a string, and the rest.\<close>

fun quoted_body :: "string \<Rightarrow> (string \<times> string) option" where
  "quoted_body [] = None"
| "quoted_body (c # s) =
     (if c = QUOTE then Some ([c], s)
      else if c = BACKSLASH
      then (case s of
              [] \<Rightarrow> None
            | d # s' \<Rightarrow> if d = LF then None
                        else map_option (\<lambda>(t, r). (c # d # t, r)) (quoted_body s'))
      else map_option (\<lambda>(t, r). (c # t, r)) (quoted_body s))"

definition quoted_token :: "string \<Rightarrow> (string \<times> string) option" where
  "quoted_token s = (case s of
     c # r \<Rightarrow> if c = QUOTE then map_option (\<lambda>(t, r'). (c # t, r')) (quoted_body r) else None
   | [] \<Rightarrow> None)"

definition plain_token :: "string \<Rightarrow> (string \<times> string) option" where
  "plain_token s = (case nonspace_span s of (t, r) \<Rightarrow> if t = [] then None else Some (t, r))"

definition is_last_token :: "string \<Rightarrow> bool" where
  "is_last_token s =
     ((case quoted_token s of Some (t, r) \<Rightarrow> r = [] | None \<Rightarrow> False)
      \<or> (case plain_token s of Some (t, r) \<Rightarrow> r = [] | None \<Rightarrow> False))"

definition two_tokens :: "(string \<times> string) option \<Rightarrow> (string \<times> string) option" where
  "two_tokens first = (case first of
     Some (t, c # r) \<Rightarrow> if c = CHR '' '' \<and> is_last_token r then Some (t, r) else None
   | _ \<Rightarrow> None)"

definition match_diff_git :: "string \<Rightarrow> (string \<times> string) option" where
  "match_diff_git line =
     (if starts_with line ''diff --git ''
      then let s = drop 11 line
           in case two_tokens (quoted_token s) of
                Some p \<Rightarrow> Some p
              | None \<Rightarrow> two_tokens (plain_token s)
      else None)"

definition parse_unquoted_diff_header :: "string \<Rightarrow> (string \<times> string) option" where
  "parse_unquoted_diff_header line =
     (if \<not> starts_with line ''diff --git '' then None
      else
        let v = drop 11 line;
            separators = filter (\<lambda>i. starts_with (drop i v) '' b/'') [0..<length v];
            candidates = filter (\<lambda>(old, new). starts_with old ''a/'' \<and> starts_with new ''b/'')
              (map (\<lambda>i. (take i v, drop (i + 1) v)) separators);
            matching = filter (\<lambda>(old, new). drop 2 old = drop 2 new) candidates
        in (case matching of
              [p] \<Rightarrow> Some p
            | [] \<Rightarrow> (case candidates of [p] \<Rightarrow> Some p | _ \<Rightarrow> None)
            | _ \<Rightarrow> None))"

definition parse_diff_header :: "string \<Rightarrow> (string \<times> string) option res" where
  "parse_diff_header line =
     rbind (case match_diff_git line of
              Some (o1, n1) \<Rightarrow>
                rbind (decode_git_path o1) (\<lambda>old. rbind (decode_git_path n1) (\<lambda>new. Inr (Some (old, new))))
            | None \<Rightarrow> Inr (parse_unquoted_diff_header line))
       (\<lambda>header. case header of
          None \<Rightarrow> Inr None
        | Some (old, new) \<Rightarrow>
            if \<not> starts_with old ''a/'' \<or> \<not> starts_with new ''b/'' then Inr None
            else Inr (Some (drop 2 old, drop 2 new)))"

text \<open>\<open>^@@ -\d+(?:,(\d+))? \+\d+(?:,(\d+))? @@\<close>, with \<open>int(group or 1)\<close>.\<close>

definition digit_span :: "string \<Rightarrow> string \<times> string" where
  "digit_span s = (takeWhile is_digit s, dropWhile is_digit s)"

definition hunk_range :: "string \<Rightarrow> (int \<times> string) option" where
  "hunk_range s =
     (case digit_span s of (start, r) \<Rightarrow>
        if start = [] then None
        else (case r of
                c # r' \<Rightarrow>
                  if c = CHR '',''
                  then (case digit_span r' of (count, r'') \<Rightarrow>
                          if count = [] then Some (1, r)
                          else Some (int (number_of_digits 10 count), r''))
                  else Some (1, r)
              | [] \<Rightarrow> Some (1, r)))"

definition match_hunk :: "string \<Rightarrow> (int \<times> int) option" where
  "match_hunk line =
     (if \<not> starts_with line ''@@ -'' then None
      else case hunk_range (drop 4 line) of
        None \<Rightarrow> None
      | Some (old, r) \<Rightarrow>
          if \<not> starts_with r '' +'' then None
          else (case hunk_range (drop 2 r) of
                  None \<Rightarrow> None
                | Some (new, r') \<Rightarrow> if starts_with r' '' @@'' then Some (old, new) else None))"

section \<open>The line loop\<close>

record tf_state =
  tf_paths :: "string list"
  tf_current :: "(string \<times> string) option"
  tf_old_seen :: bool
  tf_new_seen :: bool
  tf_saw_header :: bool
  tf_plain_old :: "string option"
  tf_hunk_old :: int
  tf_hunk_new :: int

definition tf_init :: tf_state where
  "tf_init = \<lparr>tf_paths = [], tf_current = None, tf_old_seen = False, tf_new_seen = False,
     tf_saw_header = False, tf_plain_old = None, tf_hunk_old = 0, tf_hunk_new = 0\<rparr>"

text \<open>\<open>None\<close> is the early \<open>return ()\<close>.\<close>

definition hunk_line :: "tf_state \<Rightarrow> string \<Rightarrow> tf_state option" where
  "hunk_line st line =
     (if starts_with line [BACKSLASH] then Some st
      else
        let moved =
          (if starts_with line '' '' \<or> line = []
           then Some (tf_hunk_old st - 1, tf_hunk_new st - 1)
           else if starts_with line ''-'' then Some (tf_hunk_old st - 1, tf_hunk_new st)
           else if starts_with line ''+'' then Some (tf_hunk_old st, tf_hunk_new st - 1)
           else None)
        in case moved of
             None \<Rightarrow> None
           | Some (old, new) \<Rightarrow>
               if old < 0 \<or> new < 0 then None
               else Some (st\<lparr>tf_hunk_old := old, tf_hunk_new := new\<rparr>))"

definition header_line :: "tf_state \<Rightarrow> string \<times> string \<Rightarrow> tf_state option" where
  "header_line st header =
     (if tf_current st \<noteq> None \<and> tf_old_seen st \<noteq> tf_new_seen st then None
      else Some (st\<lparr>tf_current := Some header, tf_saw_header := True, tf_old_seen := False,
        tf_new_seen := False, tf_paths := tf_paths st @ [fst header, snd header]\<rparr>))"

definition old_file_line :: "tf_state \<Rightarrow> string \<Rightarrow> tf_state option" where
  "old_file_line st v =
     (if \<not> tf_saw_header st
      then if tf_plain_old st \<noteq> None \<or> v \<noteq> ''/dev/null'' \<and> \<not> starts_with v ''a/'' then None
           else Some (st\<lparr>tf_plain_old := Some v\<rparr>)
      else (case tf_current st of
              None \<Rightarrow> None
            | Some (old, new) \<Rightarrow>
                if tf_old_seen st then None
                else if v \<notin> {''a/'' @ old, ''/dev/null''} then None
                else Some (st\<lparr>tf_old_seen := True\<rparr>)))"

definition new_file_line :: "tf_state \<Rightarrow> string \<Rightarrow> tf_state option" where
  "new_file_line st v =
     (if \<not> tf_saw_header st
      then (case tf_plain_old st of
              None \<Rightarrow> None
            | Some plain_old \<Rightarrow>
                if v \<noteq> ''/dev/null'' \<and> \<not> starts_with v ''b/'' then None
                else Some (st\<lparr>tf_plain_old := None,
                  tf_paths := tf_paths st
                    @ (if plain_old \<noteq> ''/dev/null'' then [drop 2 plain_old] else [])
                    @ (if v \<noteq> ''/dev/null'' then [drop 2 v] else [])\<rparr>))
      else (case tf_current st of
              None \<Rightarrow> None
            | Some (old, new) \<Rightarrow>
                if tf_new_seen st then None
                else if v \<notin> {''b/'' @ new, ''/dev/null''} then None
                else Some (st\<lparr>tf_new_seen := True\<rparr>)))"

text \<open>A rename or copy line must name the side of the current header.\<close>

definition side_line :: "tf_state \<Rightarrow> (string \<times> string \<Rightarrow> string) \<Rightarrow> string \<Rightarrow> tf_state option res" where
  "side_line st side raw =
     (case tf_current st of
        None \<Rightarrow> Inr None
      | Some cur \<Rightarrow>
          rbind (decode_git_path raw) (\<lambda>v. Inr (if v \<noteq> side cur then None else Some st)))"

definition plain_line :: "tf_state \<Rightarrow> string \<Rightarrow> tf_state option res" where
  "plain_line st line =
     (if starts_with line ''diff --git '' then Inr None
      else if starts_with line ''--- '' \<and> 4 < length line
      then rbind (decode_git_path (drop 4 line)) (\<lambda>v. Inr (old_file_line st v))
      else if starts_with line ''+++ '' \<and> 4 < length line
      then rbind (decode_git_path (drop 4 line)) (\<lambda>v. Inr (new_file_line st v))
      else if starts_with line ''rename from '' then side_line st fst (drop 12 line)
      else if starts_with line ''rename to '' then side_line st snd (drop 10 line)
      else if starts_with line ''copy from '' then side_line st fst (drop 10 line)
      else if starts_with line ''copy to '' then side_line st snd (drop 8 line)
      else Inr (Some st))"

definition tf_step :: "tf_state \<Rightarrow> string \<Rightarrow> tf_state option res" where
  "tf_step st line =
     (if tf_hunk_old st > 0 \<or> tf_hunk_new st > 0 then Inr (hunk_line st line)
      else (case match_hunk line of
              Some (old, new) \<Rightarrow> Inr (Some (st\<lparr>tf_hunk_old := old, tf_hunk_new := new\<rparr>))
            | None \<Rightarrow>
                rbind (parse_diff_header line)
                  (\<lambda>header. case header of
                     Some h \<Rightarrow> Inr (header_line st h)
                   | None \<Rightarrow> plain_line st line)))"

fun tf_loop :: "tf_state \<Rightarrow> string list \<Rightarrow> tf_state option res" where
  "tf_loop st [] = Inr (Some st)"
| "tf_loop st (line # ls) =
     rbind (tf_step st line) (\<lambda>next. case next of None \<Rightarrow> Inr None | Some st' \<Rightarrow> tf_loop st' ls)"

definition touched_files :: "string \<Rightarrow> string list res" where
  "touched_files patch =
     (let ls = splitlines patch
      in if list_ex (\<lambda>line. starts_with line ''*** '') ls then Inr []
         else rbind (tf_loop tf_init ls)
           (\<lambda>end. case end of
              None \<Rightarrow> Inr []
            | Some st \<Rightarrow>
                if tf_plain_old st \<noteq> None \<or> tf_current st \<noteq> None \<and> tf_old_seen st \<noteq> tf_new_seen st
                then Inr []
                else Inr (sorted_set (tf_paths st))))"

section \<open>Quoting and decoding\<close>

text \<open>
  Git's C-style quoting, the inverse the decoder is written against: the nine named escapes, the
  other printable ASCII characters as they are, every other byte as three octal digits.
\<close>

definition named_escape :: "char \<Rightarrow> char option" where
  "named_escape c = map_of
     [(CHR 0x07, CHR ''a''), (CHR 0x08, CHR ''b''), (TAB, CHR ''t''), (LF, CHR ''n''),
      (CHR 0x0B, CHR ''v''), (CHR 0x0C, CHR ''f''), (CHR 0x0D, CHR ''r''), (QUOTE, QUOTE),
      (BACKSLASH, BACKSLASH)] c"

definition octal_char :: "nat \<Rightarrow> char" where
  "octal_char d = char_of (48 + d)"

definition git_quote_byte :: "char \<Rightarrow> string" where
  "git_quote_byte c =
     (case named_escape c of
        Some e \<Rightarrow> [BACKSLASH, e]
      | None \<Rightarrow>
          let n = (of_char c :: nat)
          in if 32 \<le> n \<and> n < 127 then [c]
             else [BACKSLASH, octal_char (n div 64), octal_char (n div 8 mod 8), octal_char (n mod 8)])"

definition git_quote :: "string \<Rightarrow> string" where
  "git_quote s = QUOTE # concat (map git_quote_byte s) @ [QUOTE]"

named_theorems path_chars \<open>the characters the path grammar names\<close>

lemmas [path_chars] = LF_def TAB_def QUOTE_def BACKSLASH_def

lemma of_char_octal_char: "d < 8 \<Longrightarrow> of_char (octal_char d) = 48 + d"
  by (simp add: octal_char_def)

lemma is_octal_octal_char: "d < 8 \<Longrightarrow> is_octal (octal_char d)"
  by (simp add: is_octal_def Let_def of_char_octal_char)

lemma not_octal_special: "\<not> is_octal BACKSLASH" "\<not> is_octal QUOTE"
  by (simp_all add: is_octal_def BACKSLASH_def QUOTE_def)

lemma unescape_plain: "c \<noteq> BACKSLASH \<Longrightarrow> unescape (c # s) = prepend (of_char c) (unescape s)"
  by simp

lemma unescape_named:
  "\<not> is_octal e \<Longrightarrow> escape_byte e = Some b \<Longrightarrow>
     unescape (BACKSLASH # e # s) = prepend b (unescape s)"
  by simp

lemma unescape_octal:
  assumes "a < 8" "b < 8" "c < 8" "a * 64 + b * 8 + c < 256"
  shows "unescape (BACKSLASH # octal_char a # octal_char b # octal_char c # s)
    = prepend (a * 64 + b * 8 + c) (unescape s)"
proof -
  let ?ds = "[octal_char a, octal_char b, octal_char c]"
  have run: "octal_run (?ds @ s) = ?ds"
    using assms by (simp add: octal_run_def is_octal_octal_char numeral_3_eq_3)
  have num: "number_of_digits 8 ?ds = a * 64 + b * 8 + c"
    using assms by (simp add: number_of_digits_def of_char_octal_char)
  show ?thesis
    using assms run num by (simp add: is_octal_octal_char Let_def)
qed

lemma named_escape_cases:
  assumes "named_escape c = Some e"
  shows "\<not> is_octal e \<and> escape_byte e = Some (of_char c)"
  using assms
  by (auto simp: named_escape_def escape_byte_def is_octal_def path_chars split: if_splits)

lemma octal_digits:
  fixes n :: nat
  assumes "n < 256"
  shows "n div 64 < 8" "n div 8 mod 8 < 8" "n mod 8 < 8"
    and "n div 64 * 64 + n div 8 mod 8 * 8 + n mod 8 = n"
proof -
  have "n div 64 = n div 8 div 8"
    by (simp flip: div_mult2_eq)
  moreover have "n div 8 div 8 * 8 + n div 8 mod 8 = n div 8" and "n div 8 * 8 + n mod 8 = n"
    by simp_all
  ultimately show "n div 64 * 64 + n div 8 mod 8 * 8 + n mod 8 = n" by linarith
  from assms show "n div 64 < 8" by linarith
qed simp_all

lemma git_quote_byte_no_TAB: "TAB \<notin> set (git_quote_byte c)"
proof -
  have oct: "octal_char d \<noteq> TAB" if "d < 8" for d
  proof
    assume "octal_char d = TAB"
    then have "of_char (octal_char d) = (9 :: nat)" by (simp add: TAB_def)
    with of_char_octal_char [OF that] show False by simp
  qed
  have "(of_char c :: nat) < 256" by simp
  then have "(of_char c :: nat) div 64 < 8" by linarith
  moreover have "e \<noteq> TAB" if "named_escape c = Some e" for e
    using that by (auto simp: named_escape_def path_chars split: if_splits)
  moreover have "c \<noteq> TAB" if "named_escape c = None"
    using that by (auto simp: named_escape_def path_chars)
  moreover have "TAB \<noteq> BACKSLASH"
    by (simp add: path_chars)
  ultimately show ?thesis
    using oct by (cases "named_escape c") (simp_all add: git_quote_byte_def Let_def eq_commute [of TAB])
qed

lemma unescape_git_quote_byte: "unescape (git_quote_byte c @ s) = prepend (of_char c) (unescape s)"
proof (cases "named_escape c")
  case (Some e)
  from named_escape_cases [OF Some] show ?thesis
    by (simp add: git_quote_byte_def Some unescape_named del: unescape.simps)
next
  case None
  let ?n = "of_char c :: nat"
  show ?thesis
  proof (cases "32 \<le> ?n \<and> ?n < 127")
    case True
    have "c \<noteq> BACKSLASH" using None by (auto simp: named_escape_def path_chars)
    with True None show ?thesis by (simp add: git_quote_byte_def unescape_plain Let_def del: unescape.simps)
  next
    case False
    have n: "?n < 256" by simp
    note d = octal_digits [OF n]
    have "unescape (BACKSLASH # octal_char (?n div 64) # octal_char (?n div 8 mod 8)
        # octal_char (?n mod 8) # s) = prepend ?n (unescape s)"
      using unescape_octal [OF d(1-3)] by (simp only: d(4) n)
    moreover have "git_quote_byte c = [BACKSLASH, octal_char (?n div 64), octal_char (?n div 8 mod 8),
        octal_char (?n mod 8)]"
      using False None by (simp only: git_quote_byte_def Let_def option.case if_False)
    ultimately show ?thesis by (simp only: append.simps)
  qed
qed

lemma unescape_git_quote: "unescape (concat (map git_quote_byte s)) = Bytes (map of_char s)"
  by (induction s) (simp_all add: unescape_git_quote_byte del: unescape.simps(2))

lemma decode_git_quote:
  assumes "valid_utf8 (map of_char s)"
  shows "decode_git_path (git_quote s) = Inr s"
proof -
  let ?b = "concat (map git_quote_byte s)"
  have "TAB \<notin> set (git_quote s)"
    using git_quote_byte_no_TAB by (auto simp: git_quote_def path_chars)
  then have v: "before_char TAB (git_quote s) = git_quote s"
    by (simp add: before_char_def takeWhile_eq_all_conv) (metis)
  have "starts_with (git_quote s) [QUOTE]" and "ends_with (git_quote s) [QUOTE]"
    by (simp_all add: git_quote_def ends_with_def)
  moreover have "butlast (tl (git_quote s)) = ?b"
    by (simp add: git_quote_def)
  ultimately show ?thesis
    using assms by (simp add: decode_git_path_def v unescape_git_quote Let_def o_def)
qed

lemma decode_git_path_plain:
  assumes "TAB \<notin> set s" and "\<not> starts_with s [QUOTE]"
  shows "decode_git_path s = Inr s"
proof -
  have "before_char TAB s = s"
    using assms(1) by (simp add: before_char_def takeWhile_eq_all_conv) (metis)
  with assms(2) show ?thesis by (simp add: decode_git_path_def)
qed

section \<open>Facts of the loop\<close>

text \<open>Lines inside a hunk are content: whatever they look like, they add no path.\<close>

lemma hunk_line_paths:
  "hunk_line st line = Some st' \<Longrightarrow> tf_paths st' = tf_paths st \<and> tf_current st' = tf_current st"
  by (auto simp: hunk_line_def Let_def split: if_splits option.splits prod.splits)

lemma tf_step_in_hunk:
  "tf_hunk_old st > 0 \<or> tf_hunk_new st > 0 \<Longrightarrow> tf_step st line = Inr (hunk_line st line)"
  by (simp add: tf_step_def)

definition hunk_counts_ok :: "tf_state \<Rightarrow> bool" where
  "hunk_counts_ok st = (0 \<le> tf_hunk_old st \<and> 0 \<le> tf_hunk_new st)"

lemma hunk_range_nonneg: "hunk_range s = Some (n, r) \<Longrightarrow> 0 \<le> n"
  by (auto simp: hunk_range_def split: prod.splits if_splits list.splits)

lemma match_hunk_nonneg: "match_hunk line = Some (old, new) \<Longrightarrow> 0 \<le> old \<and> 0 \<le> new"
  by (auto simp: match_hunk_def dest: hunk_range_nonneg split: if_splits option.splits prod.splits)

lemma header_line_counts: "header_line st h = Some st' \<Longrightarrow> hunk_counts_ok st \<Longrightarrow> hunk_counts_ok st'"
  by (auto simp: header_line_def hunk_counts_ok_def split: if_splits)

lemma old_file_line_counts: "old_file_line st v = Some st' \<Longrightarrow> hunk_counts_ok st \<Longrightarrow> hunk_counts_ok st'"
  by (auto simp: old_file_line_def hunk_counts_ok_def split: if_splits option.splits)

lemma new_file_line_counts: "new_file_line st v = Some st' \<Longrightarrow> hunk_counts_ok st \<Longrightarrow> hunk_counts_ok st'"
  by (auto simp: new_file_line_def hunk_counts_ok_def split: if_splits option.splits)

lemma side_line_same: "side_line st side raw = Inr (Some st') \<Longrightarrow> st' = st"
  by (auto simp: side_line_def rbind_Inr_iff split: option.splits if_splits)

lemma plain_line_counts:
  assumes "plain_line st line = Inr (Some st')" and "hunk_counts_ok st"
  shows "hunk_counts_ok st'"
  using assms
  by (auto simp: plain_line_def rbind_Inr_iff split: if_splits
      dest: old_file_line_counts new_file_line_counts side_line_same)

lemma hunk_line_counts: "hunk_line st line = Some st' \<Longrightarrow> hunk_counts_ok st \<Longrightarrow> hunk_counts_ok st'"
  by (auto simp: hunk_line_def hunk_counts_ok_def Let_def split: if_splits option.splits prod.splits)

lemma tf_step_counts:
  assumes "tf_step st line = Inr (Some st')" and "hunk_counts_ok st"
  shows "hunk_counts_ok st'"
  using assms
  by (auto simp: tf_step_def rbind_Inr_iff hunk_counts_ok_def split: if_splits option.splits
      dest!: match_hunk_nonneg hunk_line_counts [unfolded hunk_counts_ok_def]
        header_line_counts [unfolded hunk_counts_ok_def] plain_line_counts [unfolded hunk_counts_ok_def])

lemma touched_files_cases:
  assumes "touched_files patch = Inr paths"
  shows "paths = [] \<or> (\<exists>st. tf_loop tf_init (splitlines patch) = Inr (Some st)
    \<and> paths = sorted_set (tf_paths st))"
  using assms
  by (auto simp: touched_files_def rbind_Inr_iff Let_def split: if_splits option.splits)

lemma touched_files_canonical:
  assumes "touched_files patch = Inr paths"
  shows "sorted paths \<and> distinct paths"
  using touched_files_cases [OF assms] by auto

lemma touched_files_apply_patch_marker:
  assumes "list_ex (\<lambda>line. starts_with line ''*** '') (splitlines patch)"
  shows "touched_files patch = Inr []"
  using assms by (simp add: touched_files_def Let_def)

text \<open>
  Paths come from headers only: the two sides of a \<open>diff --git\<close> line, or the plain \<open>---\<close> and
  \<open>+++\<close> lines of a diff without one.
\<close>

inductive header_path :: "string list \<Rightarrow> string \<Rightarrow> bool" for ls where
  git_old: "line \<in> set ls \<Longrightarrow> parse_diff_header line = Inr (Some (old, new)) \<Longrightarrow> header_path ls old"
| git_new: "line \<in> set ls \<Longrightarrow> parse_diff_header line = Inr (Some (old, new)) \<Longrightarrow> header_path ls new"
| plain: "line \<in> set ls \<Longrightarrow> starts_with line ''--- '' \<or> starts_with line ''+++ '' \<Longrightarrow>
    decode_git_path (drop 4 line) = Inr v \<Longrightarrow> starts_with v ''a/'' \<or> starts_with v ''b/'' \<Longrightarrow>
    header_path ls (drop 2 v)"

definition paths_from_headers :: "string list \<Rightarrow> tf_state \<Rightarrow> bool" where
  "paths_from_headers ls st \<longleftrightarrow>
     (\<forall>p \<in> set (tf_paths st). header_path ls p)
     \<and> (\<forall>v. tf_plain_old st = Some v \<longrightarrow> v = ''/dev/null'' \<or> header_path ls (drop 2 v))"

lemma plain_line_headers:
  assumes "plain_line st line = Inr (Some st')" and "line \<in> set ls" and "paths_from_headers ls st"
  shows "paths_from_headers ls st'"
proof -
  have side: "side_line st side raw = Inr (Some st') \<Longrightarrow> paths_from_headers ls st'" for side raw
    using assms(3) side_line_same by blast
  have same: "st = st' \<Longrightarrow> paths_from_headers ls st'"
    using assms(3) by simp
  have old: "paths_from_headers ls st'"
    if "decode_git_path (drop 4 line) = Inr v" "old_file_line st v = Some st'"
      "starts_with line ''--- ''" for v
    using that assms(2,3)
    by (auto simp: old_file_line_def paths_from_headers_def split: if_splits option.splits
        intro: header_path.plain)
  have new: "paths_from_headers ls st'"
    if "decode_git_path (drop 4 line) = Inr v" "new_file_line st v = Some st'"
      "starts_with line ''+++ ''" for v
    using that assms(2,3)
    by (auto simp: new_file_line_def paths_from_headers_def split: if_splits option.splits
        intro: header_path.plain)
  show ?thesis
    using assms(1)
    by (auto simp: plain_line_def rbind_Inr_iff split: if_splits intro: same side old new)
qed

lemma header_line_headers:
  assumes "header_line st h = Some st'" and "parse_diff_header line = Inr (Some h)"
    and "line \<in> set ls" and "paths_from_headers ls st"
  shows "paths_from_headers ls st'"
  using assms
  by (cases h) (auto simp: header_line_def paths_from_headers_def split: if_splits
      intro: header_path.git_old header_path.git_new)

lemma hunk_line_headers:
  "hunk_line st line = Some st' \<Longrightarrow> paths_from_headers ls st \<Longrightarrow> paths_from_headers ls st'"
  by (auto simp: hunk_line_def paths_from_headers_def Let_def split: if_splits option.splits prod.splits)

lemma tf_step_headers:
  assumes "tf_step st line = Inr (Some st')" and "line \<in> set ls" and "paths_from_headers ls st"
  shows "paths_from_headers ls st'"
proof (cases "tf_hunk_old st > 0 \<or> tf_hunk_new st > 0")
  case True
  with assms show ?thesis by (auto simp: tf_step_in_hunk dest: hunk_line_headers)
next
  case False
  show ?thesis
  proof (cases "match_hunk line")
    case None
    with False assms show ?thesis
      by (auto simp: tf_step_def rbind_Inr_iff split: option.splits
          dest: header_line_headers plain_line_headers)
  next
    case (Some p)
    with False assms show ?thesis
      by (cases p) (auto simp: tf_step_def paths_from_headers_def)
  qed
qed

lemma tf_loop_headers:
  assumes "tf_loop st ls = Inr (Some st')" and "set ls \<subseteq> set all" and "paths_from_headers all st"
  shows "paths_from_headers all st'"
  using assms
proof (induction ls arbitrary: st)
  case (Cons line ls)
  then obtain st1 where "tf_step st line = Inr (Some st1)" "tf_loop st1 ls = Inr (Some st')"
    by (auto simp: rbind_Inr_iff split: option.splits)
  with Cons show ?case using tf_step_headers [of st line st1 all] by auto
qed simp

lemma touched_files_from_headers:
  assumes "touched_files patch = Inr paths" and "p \<in> set paths"
  shows "header_path (splitlines patch) p"
proof -
  obtain st where st: "tf_loop tf_init (splitlines patch) = Inr (Some st)" and "p \<in> set (tf_paths st)"
    using touched_files_cases [OF assms(1)] assms(2) by auto
  have "paths_from_headers (splitlines patch) tf_init"
    by (simp add: paths_from_headers_def tf_init_def)
  with st have "paths_from_headers (splitlines patch) st" by (rule tf_loop_headers [OF _ order_refl])
  with \<open>p \<in> set (tf_paths st)\<close> show ?thesis by (simp add: paths_from_headers_def)
qed

section \<open>Properties\<close>

text \<open>The decoder of quoted header paths inverts Git's C-style quoting on every path that is valid
  UTF-8.\<close>

theorem decode_inverts_git_quoting:
  assumes "valid_utf8 (map of_char s)"
  shows "decode_git_path (git_quote s) = Inr s"
  using assms by (rule decode_git_quote)

lemma decode_inverts_git_quoting_witness:
  "decode_git_path (git_quote (''a/x'' @ [TAB, QUOTE, CHR 0xC3, CHR 0xA9])) = Inr (''a/x'' @ [TAB, QUOTE, CHR 0xC3, CHR 0xA9])"
  by (rule decode_inverts_git_quoting) (simp add: path_chars is_cont_def)

text \<open>The touched files of a patch are a sorted list without duplicates, and each of them stands in a
  header of the patch: hunk content, whatever it looks like, contributes no path.\<close>

theorem touched_files_come_from_headers:
  assumes "touched_files patch = Inr paths"
  shows "sorted paths \<and> distinct paths \<and> (\<forall>p \<in> set paths. header_path (splitlines patch) p)"
  using touched_files_canonical [OF assms] touched_files_from_headers [OF assms] by blast

lemma touched_files_come_from_headers_witness:
  "\<exists>paths. touched_files (''--- a/x'' @ [LF] @ ''+++ b/x'' @ [LF]) = Inr paths \<and> paths = [''x''] \<and> sorted paths"
proof -
  let ?p = "''--- a/x'' @ [LF] @ ''+++ b/x'' @ [LF]"
  have t: "touched_files ?p = Inr [''x'']"
    by (code_simp)
  from touched_files_come_from_headers [OF t] t show ?thesis by blast
qed

text \<open>A header whose quoted path has an octal escape above \<open>\377\<close> makes \<open>touched_files\<close> raise,
  although its contract is to return the empty tuple for a malformed patch.\<close>

theorem touched_files_raises_on_octal_overflow:
  "touched_files (''--- '' @ [QUOTE] @ ''a/'' @ [BACKSLASH] @ ''777'' @ [QUOTE] @ [LF])
    = Inl (ValueError ''byte must be in range(0, 256)'')"
  by code_simp

end
