(* ===== verification/Pebra_Fnmatch.thy ===== *)
theory Pebra_Fnmatch
  imports Pebra_Patch_Paths
begin

text \<open>
  \<open>fnmatch.fnmatch(name, pattern)\<close> of the standard library, which the scope envelope and the learned
  facts use for glob patterns. It works on characters, not bytes; \<open>os.path.normcase\<close> is the identity,
  as on POSIX systems. \<open>*\<close> matches any run of characters, \<open>/\<close> included.
\<close>

type_synonym code_point = string

text \<open>A member of a bracket: one character or a range; a range that is empty matches nothing.\<close>

datatype glob_item = One code_point | Span code_point code_point

datatype glob_atom =
    Star
  | Question
  | Bracket bool "glob_item list"
  | Literal code_point

fun bracket_items :: "code_point list \<Rightarrow> glob_item list" where
  "bracket_items (x # d # y # r) =
     (if d = ''-'' then Span x y # bracket_items r else One x # bracket_items (d # y # r))"
| "bracket_items (x # r) = One x # bracket_items r"
| "bracket_items [] = []"

text \<open>
  The body of a bracket and what follows it: a leading \<open>!\<close> and a \<open>]\<close> in the first place belong to
  the body.
\<close>

definition bracket_body :: "code_point list \<Rightarrow> (code_point list \<times> code_point list) option" where
  "bracket_body r =
     (let negation = (if take 1 r = [''!''] then 1 else 0);
          skip = negation + (if take 1 (drop negation r) = ['']''] then 1 else 0);
          inner = takeWhile (\<lambda>c. c \<noteq> '']'') (drop skip r)
      in if length inner = length (drop skip r) then None
         else Some (take skip r @ inner, drop (skip + length inner + 1) r))"

definition bracket_atom :: "code_point list \<Rightarrow> glob_atom" where
  "bracket_atom body =
     (if take 1 body = [''!''] then Bracket True (bracket_items (drop 1 body))
      else Bracket False (bracket_items body))"

lemma bracket_body_shorter: "bracket_body r = Some (body, rest) \<Longrightarrow> length rest < Suc (length r)"
  by (auto simp: bracket_body_def Let_def split: if_splits)

function parse_glob :: "code_point list \<Rightarrow> glob_atom list" where
  "parse_glob [] = []"
| "parse_glob (c # r) =
     (if c = ''*'' then Star # parse_glob r
      else if c = ''?'' then Question # parse_glob r
      else if c = ''['' then
        (case bracket_body r of
           None \<Rightarrow> Literal c # parse_glob r
         | Some (body, rest) \<Rightarrow> bracket_atom body # parse_glob rest)
      else Literal c # parse_glob r)"
  by pat_completeness auto
termination by (relation "measure length") (auto dest: bracket_body_shorter)

fun item_has :: "code_point \<Rightarrow> glob_item \<Rightarrow> bool" where
  "item_has c (One x) = (c = x)"
| "item_has c (Span x y) = (x \<le> c \<and> c \<le> y)"

fun atom_has :: "glob_atom \<Rightarrow> code_point \<Rightarrow> bool" where
  "atom_has Star c = True"
| "atom_has Question c = True"
| "atom_has (Bracket negated items) c = (list_ex (item_has c) items \<noteq> negated)"
| "atom_has (Literal x) c = (c = x)"

fun glob_match :: "glob_atom list \<Rightarrow> code_point list \<Rightarrow> bool" where
  "glob_match [] s = (s = [])"
| "glob_match (a # atoms) [] = (a = Star \<and> glob_match atoms [])"
| "glob_match (a # atoms) (c # s) =
     (if a = Star then glob_match atoms (c # s) \<or> glob_match (a # atoms) s
      else atom_has a c \<and> glob_match atoms s)"

definition fnmatch :: "string \<Rightarrow> string \<Rightarrow> bool" where
  "fnmatch name pattern = glob_match (parse_glob (code_points pattern)) (code_points name)"

section \<open>Lemmas\<close>

definition glob_special :: "code_point \<Rightarrow> bool" where
  "glob_special c = (c \<in> {''*'', ''?'', ''[''})"

lemma parse_literal: "list_all (\<lambda>c. \<not> glob_special c) p \<Longrightarrow> parse_glob p = map Literal p"
  by (induction p) (auto simp: glob_special_def)

lemma match_literal: "glob_match (map Literal p) s \<longleftrightarrow> s = p"
proof (induction p arbitrary: s)
  case (Cons c p)
  then show ?case by (cases s) auto
qed simp

lemma match_star: "glob_match [Star] s"
  by (induction s) auto

lemma code_points_concat: "concat (code_points s) = s"
proof (induction s)
  case (Cons c s)
  then show ?case by (cases "code_points s") auto
qed simp

lemma code_points_inj: "code_points s = code_points t \<Longrightarrow> s = t"
  by (metis code_points_concat)

text \<open>A pattern without special characters matches itself only; \<open>p*\<close> matches what starts with \<open>p\<close>.\<close>

lemma fnmatch_literal:
  "list_all (\<lambda>c. \<not> glob_special c) (code_points p) \<Longrightarrow> fnmatch s p \<longleftrightarrow> s = p"
  by (auto simp: fnmatch_def parse_literal match_literal dest: code_points_inj)

end
