(* ===== verification/Pebra_Constants.thy ===== *)
theory Pebra_Constants
  imports Pebra_Base
begin

text \<open>
  \<open>pebra/core/constants.py\<close>: the vocabularies of the engine as datatypes with the wire value of
  each member, the stage map, the consequence-bearing events and the scoring constants.
\<close>

section \<open>Vocabularies\<close>

datatype decision = PROCEED | INSPECT_FIRST | TEST_FIRST | REVISE_SAFER | ASK_HUMAN | REJECT

fun decision_value :: "decision \<Rightarrow> string" where
  "decision_value PROCEED = ''proceed''"
| "decision_value INSPECT_FIRST = ''inspect_first''"
| "decision_value TEST_FIRST = ''test_first''"
| "decision_value REVISE_SAFER = ''revise_safer''"
| "decision_value ASK_HUMAN = ''ask_human''"
| "decision_value REJECT = ''reject''"

definition all_decisions :: "decision list" where
  "all_decisions = [PROCEED, INSPECT_FIRST, TEST_FIRST, REVISE_SAFER, ASK_HUMAN, REJECT]"

text \<open>\<open>Decision(value)\<close>, with \<open>None\<close> for the \<open>ValueError\<close> of an unknown value.\<close>

definition decision_of_value :: "string \<Rightarrow> decision option" where
  "decision_of_value s = find (\<lambda>d. decision_value d = s) all_decisions"

datatype action_status = PENDING | COMPLETED | SKIPPED | REJECTED

fun action_status_value :: "action_status \<Rightarrow> string" where
  "action_status_value PENDING = ''pending''"
| "action_status_value COMPLETED = ''completed''"
| "action_status_value SKIPPED = ''skipped''"
| "action_status_value REJECTED = ''rejected''"

definition UNCERTAIN_STRUCTURE_TIERS :: "string list" where
  "UNCERTAIN_STRUCTURE_TIERS = [''codegraph_structural'', ''codegraph_semantic'']"

datatype risk_mode = NORMAL | SENSITIVE_CONTEXT | ELEVATED_REVIEW | CONTROLLED_HIGH_RISK

fun risk_mode_value :: "risk_mode \<Rightarrow> string" where
  "risk_mode_value NORMAL = ''normal''"
| "risk_mode_value SENSITIVE_CONTEXT = ''sensitive_context''"
| "risk_mode_value ELEVATED_REVIEW = ''elevated_review''"
| "risk_mode_value CONTROLLED_HIGH_RISK = ''controlled_high_risk''"

datatype graph_freshness = GF_FRESH | GF_REBUILT | GF_STALE | GF_UNKNOWN

datatype change_kind =
  CK_COSMETIC | CK_DIRECTIVE | CK_TEST_ONLY | CK_BEHAVIORAL | CK_CONTRACT | CK_SIDE_EFFECT
  | CK_UNKNOWN

fun change_kind_value :: "change_kind \<Rightarrow> string" where
  "change_kind_value CK_COSMETIC = ''COSMETIC''"
| "change_kind_value CK_DIRECTIVE = ''DIRECTIVE''"
| "change_kind_value CK_TEST_ONLY = ''TEST_ONLY''"
| "change_kind_value CK_BEHAVIORAL = ''BEHAVIORAL''"
| "change_kind_value CK_CONTRACT = ''CONTRACT''"
| "change_kind_value CK_SIDE_EFFECT = ''SIDE_EFFECT''"
| "change_kind_value CK_UNKNOWN = ''UNKNOWN''"

definition all_change_kinds :: "change_kind list" where
  "all_change_kinds = [CK_COSMETIC, CK_DIRECTIVE, CK_TEST_ONLY, CK_BEHAVIORAL, CK_CONTRACT,
     CK_SIDE_EFFECT, CK_UNKNOWN]"

definition change_kind_of_value :: "string \<Rightarrow> change_kind option" where
  "change_kind_of_value s = find (\<lambda>k. change_kind_value k = s) all_change_kinds"

lemma decision_of_value_value [simp]: "decision_of_value (decision_value d) = Some d"
  by (cases d) (simp_all add: decision_of_value_def all_decisions_def)

lemma decision_of_value_Some: "decision_of_value s = Some d \<longleftrightarrow> s = decision_value d"
proof
  assume "decision_of_value s = Some d"
  then show "s = decision_value d"
    by (auto simp: decision_of_value_def find_Some_iff)
qed simp

lemma decision_value_inj [simp]: "decision_value d = decision_value e \<longleftrightarrow> d = e"
  by (metis decision_of_value_value option.inject)

lemma change_kind_of_value_value [simp]: "change_kind_of_value (change_kind_value k) = Some k"
  by (cases k) (simp_all add: change_kind_of_value_def all_change_kinds_def)

lemma change_kind_of_value_Some: "change_kind_of_value s = Some k \<longleftrightarrow> s = change_kind_value k"
proof
  assume "change_kind_of_value s = Some k"
  then show "s = change_kind_value k"
    by (auto simp: change_kind_of_value_def find_Some_iff)
qed simp

lemma change_kind_value_inj [simp]: "change_kind_value k = change_kind_value l \<longleftrightarrow> k = l"
  by (metis change_kind_of_value_value option.inject)

lemma change_kind_value_UNKNOWN_iff [simp]: "change_kind_value k = ''UNKNOWN'' \<longleftrightarrow> k = CK_UNKNOWN"
  by (cases k) simp_all

section \<open>Stages, events and scoring constants\<close>

definition STAGE_MAP :: "real dict" where
  "STAGE_MAP = [(''C0'', 0.10), (''C1'', 0.30), (''C2'', 0.50), (''C3'', 0.80), (''C4'', 1.00)]"

definition CONSEQUENCE_BEARING_EVENTS :: "string list" where
  "CONSEQUENCE_BEARING_EVENTS = [
     ''public_api_break'',
     ''security_sensitive_change'',
     ''external_state_damage'',
     ''migration_failure'',
     ''dependency_break'',
     ''api_contract_break'',
     ''route_behavior_break'',
     ''tool_schema_break'',
     ''response_shape_mismatch'',
     ''consumer_shape_mismatch'',
     ''path_migration_break'']"

definition LOG_LOSS_CLIP_EPS :: real where "LOG_LOSS_CLIP_EPS = 1 / 10 ^ 15"

definition Z_ALPHA_90 :: real where "Z_ALPHA_90 = 1.28"

definition EDIT_CONFIDENCE_FACTORS :: "string list" where
  "EDIT_CONFIDENCE_FACTORS = [
     ''p_success'',
     ''evidence_quality'',
     ''testability'',
     ''reversibility'',
     ''source_reliability'',
     ''scope_control'']"

definition EDIT_CONFIDENCE_WEIGHT :: real where
  "EDIT_CONFIDENCE_WEIGHT = 1 / real (length EDIT_CONFIDENCE_FACTORS)"

text \<open>
  \<open>COLD_START_VARIANCES[component]\<close>: the six components are the only keys the code uses; an
  unknown one raises \<open>KeyError\<close>.
\<close>

datatype variance_component =
  V_p_success | V_benefit | V_p_event | V_disutility | V_review_cost | V_scenario_variance

fun COLD_START_VARIANCES :: "variance_component \<Rightarrow> real" where
  "COLD_START_VARIANCES V_p_success = 0.04"
| "COLD_START_VARIANCES V_benefit = 0.01"
| "COLD_START_VARIANCES V_p_event = 0.0025"
| "COLD_START_VARIANCES V_disutility = 0.0025"
| "COLD_START_VARIANCES V_review_cost = 0.01"
| "COLD_START_VARIANCES V_scenario_variance = 0.0003"

lemma COLD_START_VARIANCES_pos: "0 < COLD_START_VARIANCES c"
  by (cases c) simp_all

definition LEARNED_VARIANCE_FLOOR_RATIO :: real where "LEARNED_VARIANCE_FLOOR_RATIO = 0.10"

definition WARM_PRIOR_VARIANCE_FLOOR_RATIO :: real where "WARM_PRIOR_VARIANCE_FLOOR_RATIO = 0.20"

definition CODEGRAPH_FILE_PARSE_ERROR_PENALTY :: real where
  "CODEGRAPH_FILE_PARSE_ERROR_PENALTY = 0.08"

definition CODEGRAPH_FILE_METADATA_SCOPE_PENALTY :: real where
  "CODEGRAPH_FILE_METADATA_SCOPE_PENALTY = 0.04"

definition CODEGRAPH_LARGE_FILE_SIZE_BYTES :: int where "CODEGRAPH_LARGE_FILE_SIZE_BYTES = 200000"

definition CODEGRAPH_LARGE_FILE_NODE_COUNT :: int where "CODEGRAPH_LARGE_FILE_NODE_COUNT = 500"

definition ANCHOR_MIN_IN_DEGREE :: int where "ANCHOR_MIN_IN_DEGREE = 3"

definition ANCHOR_FANIN_PERCENTILE :: real where "ANCHOR_FANIN_PERCENTILE = 0.90"

definition MIN_CALIBRATION_SAMPLES :: int where "MIN_CALIBRATION_SAMPLES = 100"

end
