(* ===== verification/Pebra_Language_Capability.thy ===== *)
theory Pebra_Language_Capability
  imports Pebra_Base
begin

text \<open>
  \<open>pebra/core/language_capability.py\<close>: what the indexed graph was measured to provide for a language,
  the support tier derived from it, and the visibility filled in from an export flag. The set
  \<open>edge_kinds\<close> is a list; the ratios are reals.
\<close>

section \<open>Languages\<close>

definition DECLARED_LANGUAGES :: "string list" where
  "DECLARED_LANGUAGES =
     [''c'', ''cpp'', ''csharp'', ''dart'', ''go'', ''java'', ''javascript'', ''jsx'', ''kotlin'', ''lua'', ''luau'',
      ''objc'', ''pascal'', ''php'', ''python'', ''r'', ''ruby'', ''rust'', ''scala'', ''swift'', ''tsx'', ''typescript'']"

definition EXPORT_AS_VISIBILITY_LANGUAGES :: "string list" where
  "EXPORT_AS_VISIBILITY_LANGUAGES = [''go'', ''javascript'', ''jsx'', ''tsx'', ''typescript'']"

text \<open>\<open>is_exported\<close> is a boolean, an integer or absent.\<close>

definition derive_visibility_from_export :: "string option \<Rightarrow> string option \<Rightarrow> int option \<Rightarrow> string option" where
  "derive_visibility_from_export language visibility is_exported =
     (if visibility \<notin> {None, Some []} then visibility
      else if (case language of None \<Rightarrow> True | Some l \<Rightarrow> l \<notin> set EXPORT_AS_VISIBILITY_LANGUAGES) then None
      else case is_exported of
             None \<Rightarrow> None
           | Some x \<Rightarrow> Some (if x \<noteq> 0 then ''exported'' else ''unexported''))"

section \<open>Tiers\<close>

record language_capability =
  lc_language :: string
  lc_probe_status :: string
  lc_node_count :: int
  lc_signature_coverage_ratio :: real
  lc_visibility_coverage_ratio :: real
  lc_edge_kinds :: "string list"
  lc_fallback_reason :: "string option"

definition default_language_capability :: language_capability where
  "default_language_capability =
     \<lparr>lc_language = ''unknown'', lc_probe_status = ''unmeasured'', lc_node_count = 0,
      lc_signature_coverage_ratio = 0, lc_visibility_coverage_ratio = 0, lc_edge_kinds = [],
      lc_fallback_reason = None\<rparr>"

definition SIGNATURE_COVERAGE_FLOOR :: real where "SIGNATURE_COVERAGE_FLOOR = 0.5"
definition VISIBILITY_COVERAGE_FLOOR :: real where "VISIBILITY_COVERAGE_FLOOR = 0.5"

definition classify_tier :: "language_capability \<Rightarrow> string" where
  "classify_tier cap =
     (if lc_probe_status cap \<noteq> ''measured'' then ''unknown''
      else if lc_node_count cap \<le> 0 then ''risk_only''
      else
        let has_visibility = (lc_visibility_coverage_ratio cap \<ge> VISIBILITY_COVERAGE_FLOOR);
            has_signatures = (lc_signature_coverage_ratio cap \<ge> SIGNATURE_COVERAGE_FLOOR)
        in if has_signatures \<and> has_visibility then ''full''
           else if has_visibility then ''partial''
           else ''risk_only'')"

section \<open>Lemmas\<close>

text \<open>An emitted visibility is never replaced, and a filled one comes from a listed language.\<close>

lemma derive_visibility_keeps: "v \<noteq> [] \<Longrightarrow> derive_visibility_from_export l (Some v) e = Some v"
  by (simp add: derive_visibility_from_export_def)

lemma derive_visibility_filled:
  assumes "derive_visibility_from_export l v e = Some w" and "v \<in> {None, Some []}"
  shows "w \<in> {''exported'', ''unexported''} \<and> (\<exists>lang \<in> set EXPORT_AS_VISIBILITY_LANGUAGES. l = Some lang)"
  using assms by (auto simp: derive_visibility_from_export_def split: option.splits if_splits)

text \<open>A tier that allows diffs is claimed only on a measurement that covers it.\<close>

lemma classify_tier_full_iff:
  "classify_tier cap = ''full'' \<longleftrightarrow> lc_probe_status cap = ''measured'' \<and> 0 < lc_node_count cap
     \<and> 0.5 \<le> lc_signature_coverage_ratio cap \<and> 0.5 \<le> lc_visibility_coverage_ratio cap"
  by (auto simp: classify_tier_def Let_def SIGNATURE_COVERAGE_FLOOR_def VISIBILITY_COVERAGE_FLOOR_def)

lemma classify_tier_values: "classify_tier cap \<in> {''unknown'', ''risk_only'', ''partial'', ''full''}"
  by (simp add: classify_tier_def Let_def)

lemma default_capability_unknown [simp]: "classify_tier default_language_capability = ''unknown''"
  by (simp add: classify_tier_def default_language_capability_def)

end
