(* ===== verification/Pebra_Models.thy ===== *)
theory Pebra_Models
  imports Pebra_Constants Pebra_Language_Capability
begin

text \<open>
  \<open>pebra/core/models.py\<close>: the dataclasses of the IR seam as records, field by field, in the
  order of the source. Each field carries a two-letter prefix of its class. \<open>default_*\<close> is the
  value of the class called with no argument; it is given for the classes the code builds that way.

  Event rows are dictionaries in the source. The keys the engine reads or writes are the fields of
  \<open>risk_event\<close>; an optional key is an option (or an empty list for \<open>owner_node_ids\<close>, which the
  code reads with the default \<open>()\<close>). \<open>thresholds\<close> has the declared type \<open>dict[str, float]\<close>; a
  Python \<open>bool\<close> among its values counts as 1 or 0, as it does in Python arithmetic.
\<close>

section \<open>Requests\<close>

record candidate_action =
  ca_id :: string
  ca_label :: string
  ca_action_type :: string
  ca_proposed_patch :: "string option"
  ca_affected_symbols :: "string list"
  ca_expected_files :: "string list"
  ca_is_dependency_change :: bool
  ca_is_schema_change :: bool
  ca_is_migration :: bool

record assessment_request =
  ar_task :: string
  ar_candidate_actions :: "candidate_action list"
  ar_evidence :: "pyval dict"
  ar_thresholds :: "real dict"
  ar_schema_version :: string

definition SCHEMA_VERSION :: string where "SCHEMA_VERSION = ''0.1''"

text \<open>The short form: the canonical request of one action.\<close>

definition single_action :: "string \<Rightarrow> candidate_action \<Rightarrow> assessment_request" where
  "single_action task action =
     \<lparr>ar_task = task, ar_candidate_actions = [action], ar_evidence = [], ar_thresholds = [],
      ar_schema_version = SCHEMA_VERSION\<rparr>"

section \<open>Evidence\<close>

record symbol_diff_evidence =
  sd_parsed_patch_available :: bool
  sd_changed_symbols :: "string list"
  sd_max_change_kind :: string
  sd_visibility :: string
  sd_consequential_symbol_changed :: bool
  sd_consequence_reason :: "string list"
  sd_symbol_fan_in_percentile :: real
  sd_transitive_reaches_consequence_symbol :: bool
  sd_directive_comment_changed :: bool
  sd_fallback_reason :: "string option"
  sd_file_operation_kind :: string
  sd_file_operation_paths :: "string list"
  sd_structure_tier :: string

definition default_symbol_diff :: symbol_diff_evidence where
  "default_symbol_diff =
     \<lparr>sd_parsed_patch_available = False, sd_changed_symbols = [], sd_max_change_kind = ''UNKNOWN'',
      sd_visibility = ''unknown'', sd_consequential_symbol_changed = False,
      sd_consequence_reason = [], sd_symbol_fan_in_percentile = 0,
      sd_transitive_reaches_consequence_symbol = False, sd_directive_comment_changed = False,
      sd_fallback_reason = None, sd_file_operation_kind = ''NONE'', sd_file_operation_paths = [],
      sd_structure_tier = ''unavailable''\<rparr>"

record impact_witness =
  iw_impacted_node_id :: string
  iw_qualified_name :: string
  iw_file_path :: string
  iw_line :: "int option"
  iw_column :: "int option"
  iw_edge_kind :: string
  iw_depth :: int
  iw_location_source :: string

record owner_risk_evidence =
  ow_node_id :: string
  ow_file_path :: string
  ow_language :: string
  ow_qualified_name :: string
  ow_fan_in_percentile :: real
  ow_impact_percentile :: real
  ow_transitive_impact_percentile :: real
  ow_impacted_node_ids :: "string list"
  ow_impact_witnesses :: "impact_witness list"
  ow_is_public_contract :: bool

record candidate_aggregate_evidence =
  cg_file_count :: int
  cg_resolved_file_count :: int
  cg_unresolved_file_count :: int
  cg_owner_count :: int
  cg_languages :: "string list"
  cg_domain_count :: int
  cg_impacted_node_count :: int
  cg_public_contract_count :: int
  cg_changed_owner_edge_count :: int
  cg_max_owner_exposure :: real
  cg_weighted_owner_exposure :: real
  cg_cumulative_exposure :: real
  cg_breadth_bonus :: real
  cg_resolution_coverage :: real

definition default_candidate_aggregate :: candidate_aggregate_evidence where
  "default_candidate_aggregate =
     \<lparr>cg_file_count = 0, cg_resolved_file_count = 0, cg_unresolved_file_count = 0,
      cg_owner_count = 0, cg_languages = [], cg_domain_count = 0, cg_impacted_node_count = 0,
      cg_public_contract_count = 0, cg_changed_owner_edge_count = 0, cg_max_owner_exposure = 0,
      cg_weighted_owner_exposure = 0, cg_cumulative_exposure = 0, cg_breadth_bonus = 0,
      cg_resolution_coverage = 0\<rparr>"

record materialized_diff_row =
  md_file_path :: string
  md_qualified_name :: string
  md_language :: string
  md_operation :: string
  md_kind :: "string option"
  md_signature_changed :: "bool option"
  md_return_type_changed :: "bool option"
  md_visibility_changed :: "bool option"
  md_is_abstract :: "bool option"
  md_is_abstract_changed :: "bool option"

record materialized_diff_result =
  mr_available :: bool
  mr_rows :: "materialized_diff_row list"
  mr_fallback_reason :: "string option"
  mr_latency_ms :: real

record fanin_evidence =
  fi_symbol_fan_in_percentile :: real
  fi_symbol_caller_count :: int
  fi_resolution_method :: string
  fi_node_ids_resolved :: "string list"
  fi_provider_version :: "string option"
  fi_index_version :: "string option"
  fi_graph_freshness :: string
  fi_fallback_reason :: "string option"
  fi_owner_kinds :: "string list"
  fi_max_owner_span_lines :: int
  fi_resolved_symbol_count :: int
  fi_incoming_edge_counts :: "int dict"
  fi_outgoing_edge_counts :: "int dict"
  fi_modify_impact_count :: int
  fi_modify_impact_percentile :: real
  fi_modify_impact_edge_counts :: "int dict"
  fi_modify_transitive_impact_count :: int
  fi_modify_transitive_impact_percentile :: real
  fi_modify_transitive_depth_buckets :: "(int \<times> int) list"
  fi_modify_repo_blast_fraction :: real
  fi_modify_repo_graph_node_count :: int
  fi_container_hierarchy_kinds :: "string list"
  fi_graph_file_size_bytes :: int
  fi_graph_file_node_count :: int
  fi_graph_file_error_count :: int
  fi_contract_surface_kind :: string
  fi_is_exported_contract :: bool
  fi_is_abstract_or_interface_contract :: bool
  fi_has_signature_metadata :: bool
  fi_resolved_language :: "string option"
  fi_resolved_languages :: "string list"
  fi_resolved_file_paths :: "string list"
  fi_resolved_qualified_names :: "string list"
  fi_owner_risk :: "owner_risk_evidence list"
  fi_changed_owner_edge_count :: int

definition default_fanin :: fanin_evidence where
  "default_fanin =
     \<lparr>fi_symbol_fan_in_percentile = 0, fi_symbol_caller_count = 0,
      fi_resolution_method = ''unresolved'', fi_node_ids_resolved = [],
      fi_provider_version = None, fi_index_version = None, fi_graph_freshness = ''unknown'',
      fi_fallback_reason = None, fi_owner_kinds = [], fi_max_owner_span_lines = 0,
      fi_resolved_symbol_count = 0, fi_incoming_edge_counts = [], fi_outgoing_edge_counts = [],
      fi_modify_impact_count = 0, fi_modify_impact_percentile = 0,
      fi_modify_impact_edge_counts = [], fi_modify_transitive_impact_count = 0,
      fi_modify_transitive_impact_percentile = 0, fi_modify_transitive_depth_buckets = [],
      fi_modify_repo_blast_fraction = 0, fi_modify_repo_graph_node_count = 0,
      fi_container_hierarchy_kinds = [], fi_graph_file_size_bytes = 0,
      fi_graph_file_node_count = 0, fi_graph_file_error_count = 0,
      fi_contract_surface_kind = ''unknown'', fi_is_exported_contract = False,
      fi_is_abstract_or_interface_contract = False, fi_has_signature_metadata = False,
      fi_resolved_language = None, fi_resolved_languages = [], fi_resolved_file_paths = [],
      fi_resolved_qualified_names = [], fi_owner_risk = [], fi_changed_owner_edge_count = 0\<rparr>"

record file_fanin_rollup =
  fr_max_caller_count :: int
  fr_distinct_caller_count :: int
  fr_symbol_count :: int
  fr_percentile :: real
  fr_resolution_method :: string
  fr_graph_freshness :: string
  fr_fallback_reason :: "string option"
  fr_caller_node_ids :: "string list"
  fr_file_count :: int
  fr_cumulative_breadth_bonus :: real

definition default_file_rollup :: file_fanin_rollup where
  "default_file_rollup =
     \<lparr>fr_max_caller_count = 0, fr_distinct_caller_count = 0, fr_symbol_count = 0,
      fr_percentile = 0, fr_resolution_method = ''unresolved'', fr_graph_freshness = ''unknown'',
      fr_fallback_reason = None, fr_caller_node_ids = [], fr_file_count = 1,
      fr_cumulative_breadth_bonus = 0\<rparr>"

record blast_evidence =
  bl_direct_count :: int
  bl_transitive_count :: int
  bl_depth_buckets :: "(int \<times> int) list"
  bl_edge_confidence_mean :: real
  bl_edge_confidence_min :: real
  bl_low_confidence_edge_count :: int
  bl_entrypoint_signal :: bool
  bl_import_cycle_detected :: bool
  bl_missing_file_count :: int
  bl_parse_error_count :: int
  bl_unresolved_import_count :: int
  bl_dynamic_import_count :: int
  bl_wildcard_import_count :: int
  bl_external_import_count :: int
  bl_graph_uncertainty_score :: real
  bl_graph_uncertainty_reason :: string
  bl_unresolved_imports :: "string list"
  bl_dynamic_imports :: "string list"
  bl_wildcard_imports :: "string list"
  bl_missing_files :: "string list"
  bl_parse_error_files :: "string list"

definition default_blast :: blast_evidence where
  "default_blast =
     \<lparr>bl_direct_count = 0, bl_transitive_count = 0, bl_depth_buckets = [],
      bl_edge_confidence_mean = 0, bl_edge_confidence_min = 0, bl_low_confidence_edge_count = 0,
      bl_entrypoint_signal = False, bl_import_cycle_detected = False, bl_missing_file_count = 0,
      bl_parse_error_count = 0, bl_unresolved_import_count = 0, bl_dynamic_import_count = 0,
      bl_wildcard_import_count = 0, bl_external_import_count = 0, bl_graph_uncertainty_score = 0,
      bl_graph_uncertainty_reason = [], bl_unresolved_imports = [], bl_dynamic_imports = [],
      bl_wildcard_imports = [], bl_missing_files = [], bl_parse_error_files = []\<rparr>"

record architecture_evidence =
  ae_graph_commit :: "string option"
  ae_graph_freshness :: graph_freshness
  ae_matched_anchors :: "string list"
  ae_matched_domains :: "string list"
  ae_architecture_anchor_score :: real
  ae_god_node_score :: real
  ae_bridge_centrality :: real
  ae_domain_entrypoint :: bool
  ae_fan_out :: int
  ae_cycle_participation :: bool
  ae_domain_criticality_hint :: "string option"
  ae_source_files :: "string list"

definition default_architecture :: architecture_evidence where
  "default_architecture =
     \<lparr>ae_graph_commit = None, ae_graph_freshness = GF_UNKNOWN, ae_matched_anchors = [],
      ae_matched_domains = [], ae_architecture_anchor_score = 0, ae_god_node_score = 0,
      ae_bridge_centrality = 0, ae_domain_entrypoint = False, ae_fan_out = 0,
      ae_cycle_participation = False, ae_domain_criticality_hint = None, ae_source_files = []\<rparr>"

text \<open>
  The deltas come from callers and are tested with \<open>isinstance\<close> and \<open>math.isfinite\<close> before use,
  so their values are Python values.
\<close>

record benefit_delta_evidence =
  bd_scope :: string
  bd_source_type :: string
  bd_deltas :: "pyval dict"
  bd_future_change_exposure :: pyval
  bd_future_change_exposure_explicit :: bool
  bd_auto_exposure_allowed :: bool
  bd_file_deltas :: "real dict dict"

definition default_benefit_delta :: benefit_delta_evidence where
  "default_benefit_delta =
     \<lparr>bd_scope = [], bd_source_type = ''projected'', bd_deltas = [],
      bd_future_change_exposure = vreal 0, bd_future_change_exposure_explicit = False,
      bd_auto_exposure_allowed = False, bd_file_deltas = []\<rparr>"

record candidate_verification =
  cv_status :: string
  cv_checks :: "string dict"
  cv_required_checks :: "string list"
  cv_domain :: "string option"
  cv_reason :: "string option"
  cv_verified_patch_hash :: "string option"
  cv_retryable_infrastructure :: bool

definition default_candidate_verification :: candidate_verification where
  "default_candidate_verification =
     \<lparr>cv_status = ''not_applicable'', cv_checks = [], cv_required_checks = [], cv_domain = None,
      cv_reason = None, cv_verified_patch_hash = None, cv_retryable_infrastructure = False\<rparr>"

record scoped_graph_risk_fact =
  sf_fact_kind :: string
  sf_event :: string
  sf_risk_source :: string
  sf_owner_node_ids :: "string list"
  sf_confidence :: pyfloat
  sf_provenance :: string

record graph_risk_scope =
  gs_event :: string
  gs_risk_source :: string
  gs_owner_node_ids :: "string list"
  gs_owner_file_paths :: "string list"
  gs_owner_qualified_names :: "string list"
  gs_expected_consumer_count :: int
  gs_language :: "string option"

record candidate_graph_risk_evidence =
  ce_status :: string
  ce_facts :: "scoped_graph_risk_fact list"
  ce_verified_patch_hash :: "string option"
  ce_provider :: "string option"
  ce_language :: "string option"
  ce_witness :: "string option"
  ce_witness_version :: "string option"
  ce_engine_version :: "string option"
  ce_reason :: "string option"
  ce_retryable_infrastructure :: bool
  ce_manifest_hash :: "string option"
  ce_cache_hit :: bool
  ce_context_file_count :: int
  ce_context_bytes :: int
  ce_context_truncated :: bool
  ce_prefilter_latency_ms :: real
  ce_materialize_latency_ms :: real
  ce_index_latency_ms :: real
  ce_query_latency_ms :: real
  ce_total_latency_ms :: real

definition default_graph_risk_evidence :: candidate_graph_risk_evidence where
  "default_graph_risk_evidence =
     \<lparr>ce_status = ''not_applicable'', ce_facts = [], ce_verified_patch_hash = None,
      ce_provider = None, ce_language = None, ce_witness = None, ce_witness_version = None,
      ce_engine_version = None, ce_reason = None, ce_retryable_infrastructure = False,
      ce_manifest_hash = None, ce_cache_hit = False, ce_context_file_count = 0,
      ce_context_bytes = 0, ce_context_truncated = False, ce_prefilter_latency_ms = 0,
      ce_materialize_latency_ms = 0, ce_index_latency_ms = 0, ce_query_latency_ms = 0,
      ce_total_latency_ms = 0\<rparr>"

record task_obligations =
  to_required_files :: "string list"
  to_required_symbols :: "string list"
  to_required_checks :: "string list"

definition default_task_obligations :: task_obligations where
  "default_task_obligations =
     \<lparr>to_required_files = [], to_required_symbols = [], to_required_checks = []\<rparr>"

record revision_completeness =
  rc_is_revision :: bool
  rc_origin_available :: bool
  rc_origin_files :: "string list"
  rc_origin_public_symbols :: "string list"
  rc_missing_files :: "string list"
  rc_missing_public_symbols :: "string list"
  rc_origin_expected_loss :: "real option"
  rc_origin_benefit :: "real option"
  rc_origin_expected_utility :: "real option"
  rc_origin_utility_sd :: "real option"
  rc_origin_rau :: "real option"
  rc_fallback_reason :: "string option"

definition default_revision_completeness :: revision_completeness where
  "default_revision_completeness =
     \<lparr>rc_is_revision = False, rc_origin_available = True, rc_origin_files = [],
      rc_origin_public_symbols = [], rc_missing_files = [], rc_missing_public_symbols = [],
      rc_origin_expected_loss = None, rc_origin_benefit = None, rc_origin_expected_utility = None,
      rc_origin_utility_sd = None, rc_origin_rau = None, rc_fallback_reason = None\<rparr>"

record actual_diff_summary =
  ad_current_head :: "string option"
  ad_changed_files :: "string list"
  ad_dependency_changed :: bool
  ad_schema_changed :: bool
  ad_migration_changed :: bool
  ad_actual_max_change_kind :: string
  ad_actual_changed_symbols :: "string list"
  ad_actual_consequential_symbol_changed :: bool
  ad_actual_consequence_reason :: "string list"
  ad_measured_benefit_deltas :: "real dict"
  ad_reclassification_attempted :: bool
  ad_actual_structure_tier :: string

section \<open>Event rows\<close>

record graph_risk_update =
  gu_fact_kind :: string
  gu_provider :: "string option"
  gu_event :: string
  gu_risk_source :: string
  gu_fact_confidence :: real
  gu_original_probability :: real
  gu_revised_probability :: real
  gu_probability_multiplier :: real
  gu_probability_floor :: real
  gu_structural_probability_floor :: real
  gu_independent_probability_floor :: real
  gu_binding_term :: string
  gu_calibration :: string
  gu_language :: "string option"
  gu_witness :: "string option"
  gu_witness_version :: "string option"
  gu_engine_version :: "string option"
  gu_owner_node_ids :: "string list"

record risk_event =
  ev_event :: string
  ev_p_event :: real
  ev_elicited_disutility :: real
  ev_probability_source_type :: "string option"
  ev_disutility_source_type :: "string option"
  ev_risk_source :: "string option"
  ev_owner_node_ids :: "string list"
  ev_independent_probability_floor :: "pyfloat option"
  ev_graph_risk_update :: "graph_risk_update option"

text \<open>A row with the three required keys only.\<close>

definition plain_event :: "string \<Rightarrow> real \<Rightarrow> real \<Rightarrow> risk_event" where
  "plain_event e p d =
     \<lparr>ev_event = e, ev_p_event = p, ev_elicited_disutility = d, ev_probability_source_type = None,
      ev_disutility_source_type = None, ev_risk_source = None, ev_owner_node_ids = [],
      ev_independent_probability_floor = None, ev_graph_risk_update = None\<rparr>"

section \<open>Provider results\<close>

record contract_surface_findings =
  cs_changes :: "string list"

record evidence_bundle =
  eb_events :: "risk_event list"
  eb_p_success :: real
  eb_immediate_benefit :: pyval
  eb_review_cost :: real
  eb_criticality_stage :: string
  eb_criticality_value :: real
  eb_edit_confidence_factors :: "real dict"
  eb_thresholds :: "real dict"
  eb_policy_violations :: "string list"
  eb_variance_breakdown :: "real dict option"
  eb_p_success_variance :: "real option"
  eb_review_cost_variance :: "real option"
  eb_benefit_delta_evidence :: benefit_delta_evidence
  eb_architecture_evidence :: architecture_evidence
  eb_candidate_verification :: candidate_verification

section \<open>The assessment input\<close>

record assessment_input =
  ai_request :: assessment_request
  ai_action :: candidate_action
  ai_events :: "risk_event list"
  ai_p_success :: real
  ai_immediate_benefit :: pyval
  ai_review_cost :: real
  ai_criticality_stage :: string
  ai_criticality_value :: real
  ai_edit_confidence_factors :: "real dict"
  ai_thresholds :: "real dict"
  ai_repo_id :: string
  ai_repo_root :: string
  ai_policy_violations :: "string list"
  ai_p_success_variance :: "real option"
  ai_review_cost_variance :: "real option"
  ai_event_probability_variances :: "real dict"
  ai_variance_breakdown :: "real dict option"
  ai_benefit_delta_evidence :: benefit_delta_evidence
  ai_symbol_diff_evidence :: symbol_diff_evidence
  ai_fanin_evidence :: "fanin_evidence option"
  ai_candidate_aggregate_evidence :: candidate_aggregate_evidence
  ai_file_fanin_rollup :: "file_fanin_rollup option"
  ai_blast_evidence :: blast_evidence
  ai_architecture_evidence :: architecture_evidence
  ai_candidate_verification :: candidate_verification
  ai_candidate_graph_risk_evidence :: candidate_graph_risk_evidence
  ai_task_obligations :: task_obligations
  ai_revision_completeness :: revision_completeness
  ai_language_capability :: language_capability
  ai_sanction :: "pyval dict option"
  ai_structural_features :: "pyval dict option"
  ai_applied_snapshot_provenance :: "pyval dict option"
  ai_warm_prior_provenance :: "pyval dict option"
  ai_benefit_override :: "real option"
  ai_benefit_variance_override :: "pyval option"

end
