(* ===== verification/Pebra_Change_Classifier.thy ===== *)
theory Pebra_Change_Classifier
  imports Pebra_Models
begin

text \<open>
  \<open>pebra/core/change_classifier.py\<close>: the classification of parsed symbol-diff rows into a change
  kind, the consequence verdict, and the two graph tiers that produce rows without an AST. A row is
  a dictionary in the source; its keys are the fields of \<open>diff_row\<close>, an absent flag being
  \<open>False\<close>. Reasons that the source formats into a string keep their number unformatted.
\<close>

section \<open>Severity\<close>

fun severity :: "change_kind \<Rightarrow> nat" where
  "severity CK_COSMETIC = 0"
| "severity CK_TEST_ONLY = 1"
| "severity CK_DIRECTIVE = 2"
| "severity CK_BEHAVIORAL = 3"
| "severity CK_UNKNOWN = 4"
| "severity CK_CONTRACT = 5"
| "severity CK_SIDE_EFFECT = 6"

lemma severity_inj: "severity k = severity l \<Longrightarrow> k = l"
  by (cases k; cases l) simp_all

interpretation kinds: severity_scale severity
  by unfold_locales (rule severity_inj)

text \<open>The order of change kinds is their severity.\<close>

instantiation change_kind :: linorder
begin

definition less_eq_change_kind :: "change_kind \<Rightarrow> change_kind \<Rightarrow> bool" where
  "k \<le> l \<longleftrightarrow> severity k \<le> severity l"

definition less_change_kind :: "change_kind \<Rightarrow> change_kind \<Rightarrow> bool" where
  "k < l \<longleftrightarrow> severity k < severity l"

instance
  by intro_classes (auto simp: less_eq_change_kind_def less_change_kind_def intro: severity_inj)

end

definition CONSEQUENTIAL_KINDS :: "change_kind list" where
  "CONSEQUENTIAL_KINDS = [CK_BEHAVIORAL, CK_CONTRACT, CK_SIDE_EFFECT, CK_DIRECTIVE, CK_UNKNOWN]"

definition DEFAULT_FAN_IN_PERCENTILE :: real where "DEFAULT_FAN_IN_PERCENTILE = 0.90"

section \<open>Rows\<close>

record diff_row =
  dr_symbol_id :: "string option"
  dr_visibility :: "string option"
  dr_body_changed :: bool
  dr_control_flow_changed :: bool
  dr_signature_changed :: bool
  dr_return_shape_changed :: bool
  dr_visibility_changed :: bool
  dr_abstract_contract_member_changed :: bool
  dr_abstract_member_changed :: bool
  dr_identity_replacement_suspected :: bool
  dr_payment_api_changed :: bool
  dr_db_write_changed :: bool
  dr_migration_changed :: bool
  dr_external_side_effect_changed :: bool
  dr_directive_comment_changed :: bool
  dr_test_only :: bool
  dr_callers_percentile :: real
  dr_transitive_reaches_consequence_symbol :: bool
  dr_materialized_operation :: "string option"
  dr_materialized_owner :: "string option"
  dr_materialized_kind :: "string option"

definition empty_row :: diff_row where
  "empty_row =
     \<lparr>dr_symbol_id = None, dr_visibility = None, dr_body_changed = False,
      dr_control_flow_changed = False, dr_signature_changed = False,
      dr_return_shape_changed = False, dr_visibility_changed = False,
      dr_abstract_contract_member_changed = False, dr_abstract_member_changed = False,
      dr_identity_replacement_suspected = False, dr_payment_api_changed = False,
      dr_db_write_changed = False, dr_migration_changed = False,
      dr_external_side_effect_changed = False, dr_directive_comment_changed = False,
      dr_test_only = False, dr_callers_percentile = 0,
      dr_transitive_reaches_consequence_symbol = False, dr_materialized_operation = None,
      dr_materialized_owner = None, dr_materialized_kind = None\<rparr>"

definition publicly_visible :: "diff_row \<Rightarrow> bool" where
  "publicly_visible row \<longleftrightarrow> dr_visibility row \<in> {Some ''exported'', Some ''public_api''}"

definition classify_symbol :: "diff_row \<Rightarrow> change_kind" where
  "classify_symbol row =
     (if dr_payment_api_changed row \<or> dr_db_write_changed row \<or> dr_migration_changed row
         \<or> dr_external_side_effect_changed row
      then CK_SIDE_EFFECT
      else if dr_identity_replacement_suspected row then CK_CONTRACT
      else if dr_signature_changed row \<or> dr_return_shape_changed row \<or> dr_visibility_changed row
         \<or> dr_abstract_contract_member_changed row \<or> dr_abstract_member_changed row
         \<or> publicly_visible row \<and> dr_body_changed row
      then CK_CONTRACT
      else if dr_body_changed row \<or> dr_control_flow_changed row then CK_BEHAVIORAL
      else if dr_directive_comment_changed row then CK_DIRECTIVE
      else if dr_test_only row then CK_TEST_ONLY
      else CK_COSMETIC)"

datatype consequence_reason =
    VisibilityReason string
  | CallersPercentileReason real
  | TransitiveReachReason
  | FlagReason string

definition consequence_flags :: "diff_row \<Rightarrow> (string \<times> bool) list" where
  "consequence_flags row =
     [(''external_side_effect_changed'', dr_external_side_effect_changed row),
      (''db_write_changed'', dr_db_write_changed row),
      (''payment_api_changed'', dr_payment_api_changed row),
      (''migration_changed'', dr_migration_changed row)]"

definition is_consequential ::
  "diff_row \<Rightarrow> change_kind \<Rightarrow> real \<Rightarrow> bool \<times> consequence_reason list" where
  "is_consequential row kind fan_in_threshold =
     (if kind \<notin> set CONSEQUENTIAL_KINDS then (False, [])
      else
        let reasons =
          (case dr_visibility row of
             Some v \<Rightarrow> if publicly_visible row then [VisibilityReason v] else []
           | None \<Rightarrow> [])
          @ (if dr_callers_percentile row \<ge> fan_in_threshold
             then [CallersPercentileReason fan_in_threshold] else [])
          @ (if dr_transitive_reaches_consequence_symbol row then [TransitiveReachReason] else [])
          @ map (\<lambda>(flag, _). FlagReason flag) (filter snd (consequence_flags row))
        in (0 < length reasons, reasons))"

text \<open>An unrecognised kind counts as \<open>UNKNOWN\<close>.\<close>

definition kind_or_unknown :: "string \<Rightarrow> change_kind" where
  "kind_or_unknown s = (case change_kind_of_value s of Some k \<Rightarrow> k | None \<Rightarrow> CK_UNKNOWN)"

definition is_high_fanin_consequential :: "symbol_diff_evidence \<Rightarrow> real \<Rightarrow> bool" where
  "is_high_fanin_consequential sde fan_in_threshold =
     (if kind_or_unknown (sd_max_change_kind sde) \<notin> set CONSEQUENTIAL_KINDS then False
      else sd_symbol_fan_in_percentile sde \<ge> fan_in_threshold)"

section \<open>Summaries\<close>

record change_summary =
  sm_max_change_kind :: string
  sm_changed_symbols :: "string list"
  sm_visibility :: string
  sm_consequential_symbol_changed :: bool
  sm_consequence_reason :: "consequence_reason list"
  sm_fallback_reason :: "string option"

text \<open>\<open>list(dict.fromkeys(xs))\<close>: duplicates go, first occurrences stay in order.\<close>

definition dedupe :: "'a list \<Rightarrow> 'a list" where
  "dedupe xs = rev (remdups (rev xs))"

lemma set_dedupe [simp]: "set (dedupe xs) = set xs"
  by (simp add: dedupe_def)

lemma distinct_dedupe [simp]: "distinct (dedupe xs)"
  by (simp add: dedupe_def)

lemma dedupe_Nil_iff [simp]: "dedupe xs = [] \<longleftrightarrow> xs = []"
  by (simp add: dedupe_def)

definition max_kind :: "diff_row list \<Rightarrow> change_kind" where
  "max_kind rows = first_max severity CK_COSMETIC (map classify_symbol rows)"

definition classify_diff :: "diff_row list \<Rightarrow> real dict \<Rightarrow> change_summary" where
  "classify_diff rows thresholds =
     (let fan_in_threshold =
            dict_get thresholds ''consequential_symbol_fan_in_percentile'' DEFAULT_FAN_IN_PERCENTILE
      in if rows = []
         then \<lparr>sm_max_change_kind = change_kind_value CK_UNKNOWN, sm_changed_symbols = [],
               sm_visibility = ''unknown'', sm_consequential_symbol_changed = False,
               sm_consequence_reason = [],
               sm_fallback_reason =
                 Some ''no parsed symbol rows; fall back to file/path-level risk''\<rparr>
         else
           let verdicts = map (\<lambda>r. is_consequential r (classify_symbol r) fan_in_threshold) rows
           in \<lparr>sm_max_change_kind = change_kind_value (max_kind rows),
               sm_changed_symbols =
                 map (\<lambda>r. case dr_symbol_id r of Some s \<Rightarrow> s | None \<Rightarrow> ''?'') rows,
               sm_visibility =
                 (case find (\<lambda>r. classify_symbol r = max_kind rows) rows of
                    Some r \<Rightarrow> (case dr_visibility r of Some v \<Rightarrow> v | None \<Rightarrow> ''unknown'')
                  | None \<Rightarrow> ''unknown''),
               sm_consequential_symbol_changed = list_ex fst verdicts,
               sm_consequence_reason = dedupe (concat (map snd (filter fst verdicts))),
               sm_fallback_reason = None\<rparr>)"

section \<open>Rows from the graph\<close>

definition fanin_row_names :: "fanin_evidence \<Rightarrow> string list" where
  "fanin_row_names fanin =
     (let names = (if fi_resolved_qualified_names fanin \<noteq> []
                   then fi_resolved_qualified_names fanin else fi_node_ids_resolved fanin)
      in if names = [] \<and> fi_resolved_symbol_count fanin > 0
         then map (\<lambda>i. ''<owner '' @ show_nat (i + 1) @ ''>'')
                [0..<nat (fi_resolved_symbol_count fanin)]
         else names)"

definition rows_from_fanin :: "fanin_evidence \<Rightarrow> diff_row list" where
  "rows_from_fanin fanin =
     (let exported = fi_is_exported_contract fanin \<or> fi_is_abstract_or_interface_contract fanin;
          visibility = (if exported then ''exported'' else ''internal'')
      in map (\<lambda>name. empty_row\<lparr>dr_symbol_id := Some name, dr_body_changed := True,
                 dr_visibility := Some visibility,
                 dr_callers_percentile := fi_symbol_fan_in_percentile fanin\<rparr>)
           (fanin_row_names fanin))"

definition qualified_name_belongs_to_owner :: "string \<Rightarrow> string \<Rightarrow> bool" where
  "qualified_name_belongs_to_owner qualified_name owner =
     (qualified_name = owner
      \<or> list_ex (\<lambda>sep. starts_with qualified_name (owner @ sep)) [''.'', ''::'', ''#'', ''$''])"

text \<open>A diff row that proves a change of the owner the coarse floor resolved.\<close>

definition proven_change :: "string \<Rightarrow> string \<Rightarrow> materialized_diff_row \<Rightarrow> bool" where
  "proven_change floor_name floor_path r =
     (md_qualified_name r = floor_name \<and> slashes (md_file_path r) = floor_path
      \<and> md_operation r = ''modified''
      \<and> (md_signature_changed r = Some True \<or> md_return_type_changed r = Some True
         \<or> md_visibility_changed r = Some True \<or> md_is_abstract_changed r = Some True))"

text \<open>An abstract member of the owner that was added or removed.\<close>

definition member_added_removed :: "string \<Rightarrow> string \<Rightarrow> materialized_diff_row \<Rightarrow> bool" where
  "member_added_removed floor_name floor_path r =
     (md_operation r \<in> {''added'', ''removed''}
      \<and> slashes (md_file_path r) = floor_path
      \<and> md_kind r \<in> Some ` {''function'', ''method'', ''class'', ''struct'', ''interface'',
           ''trait'', ''protocol''}
      \<and> qualified_name_belongs_to_owner (md_qualified_name r) floor_name
      \<and> md_is_abstract r = Some True)"

definition overwrite :: "bool option \<Rightarrow> bool \<Rightarrow> bool" where
  "overwrite x old = (case x of Some b \<Rightarrow> b | None \<Rightarrow> old)"

definition enrich_changed :: "diff_row \<Rightarrow> materialized_diff_row \<Rightarrow> diff_row" where
  "enrich_changed row r =
     row\<lparr>dr_signature_changed := overwrite (md_signature_changed r) (dr_signature_changed row),
         dr_return_shape_changed := overwrite (md_return_type_changed r) (dr_return_shape_changed row),
         dr_visibility_changed := overwrite (md_visibility_changed r) (dr_visibility_changed row),
         dr_abstract_member_changed :=
           overwrite (md_is_abstract_changed r) (dr_abstract_member_changed row)\<rparr>"

definition enrich_member :: "diff_row \<Rightarrow> materialized_diff_row \<Rightarrow> diff_row" where
  "enrich_member row r =
     row\<lparr>dr_materialized_operation := Some (md_operation r),
         dr_materialized_owner := Some (md_qualified_name r),
         dr_materialized_kind :=
           (case md_kind r of None \<Rightarrow> dr_materialized_kind row
            | Some k \<Rightarrow> if k = [] then dr_materialized_kind row else Some k),
         dr_abstract_contract_member_changed := True\<rparr>"

definition rows_from_materialized_graph_diff ::
  "materialized_diff_result \<Rightarrow> fanin_evidence \<Rightarrow> diff_row list" where
  "rows_from_materialized_graph_diff result fanin =
     (let floor = rows_from_fanin fanin
      in case (floor, fi_resolved_file_paths fanin) of
           ([row], [owner_path]) \<Rightarrow>
             if \<not> mr_available result then floor
             else
               let floor_name = the (dr_symbol_id row);
                   floor_path = slashes owner_path
               in (case filter (proven_change floor_name floor_path) (mr_rows result) of
                     [diff] \<Rightarrow> [enrich_changed row diff]
                   | _ \<Rightarrow>
                     (case filter (member_added_removed floor_name floor_path) (mr_rows result) of
                        [diff] \<Rightarrow> [enrich_member row diff]
                      | _ \<Rightarrow> floor))
         | _ \<Rightarrow> floor)"

section \<open>Lemmas\<close>

named_theorems classifier_defs \<open>definitions the classification lemmas unfold\<close>

lemmas [classifier_defs] =
  classify_symbol_def publicly_visible_def enrich_changed_def enrich_member_def overwrite_def

lemma max_kind_upper: "r \<in> set rows \<Longrightarrow> severity (classify_symbol r) \<le> severity (max_kind rows)"
  unfolding max_kind_def by (rule first_max_ge) simp

lemma max_kind_attained:
  assumes "rows \<noteq> []"
  shows "\<exists>r \<in> set rows. classify_symbol r = max_kind rows"
proof -
  have "max_kind rows \<in> set (CK_COSMETIC # map classify_symbol rows)"
    unfolding max_kind_def by (rule first_max_mem)
  moreover have "\<exists>r \<in> set rows. classify_symbol r = CK_COSMETIC" if "max_kind rows = CK_COSMETIC"
  proof -
    obtain r where r: "r \<in> set rows" using assms by (cases rows) auto
    then have "severity (classify_symbol r) \<le> severity CK_COSMETIC"
      using max_kind_upper [OF r] that by simp
    with r show ?thesis by (metis le_zero_eq severity.simps(1) severity_inj)
  qed
  ultimately show ?thesis by auto
qed

lemma max_kind_mono: "set rows \<subseteq> set rows' \<Longrightarrow> severity (max_kind rows) \<le> severity (max_kind rows')"
  unfolding max_kind_def by (rule kinds.most_severe_mono) auto

lemma max_kind_order_free: "set rows = set rows' \<Longrightarrow> max_kind rows = max_kind rows'"
  unfolding max_kind_def by (rule kinds.most_severe_order_free) simp

lemma max_kind_ge_linorder: "r \<in> set rows \<Longrightarrow> classify_symbol r \<le> max_kind rows"
  by (simp add: less_eq_change_kind_def max_kind_upper)

lemma is_consequential_reasons:
  "fst (is_consequential row k t) \<longleftrightarrow> snd (is_consequential row k t) \<noteq> []"
  by (auto simp: is_consequential_def Let_def)

lemma is_consequential_iff:
  "fst (is_consequential row k t) \<longleftrightarrow>
     k \<in> set CONSEQUENTIAL_KINDS
     \<and> (publicly_visible row \<or> t \<le> dr_callers_percentile row
        \<or> dr_transitive_reaches_consequence_symbol row \<or> dr_external_side_effect_changed row
        \<or> dr_db_write_changed row \<or> dr_payment_api_changed row \<or> dr_migration_changed row)"
  by (auto simp: is_consequential_def consequence_flags_def publicly_visible_def Let_def
      split: option.splits)

lemma classify_diff_kind:
  "rows \<noteq> [] \<Longrightarrow> sm_max_change_kind (classify_diff rows t) = change_kind_value (max_kind rows)"
  by (simp add: classify_diff_def Let_def)

lemma classify_diff_consequential:
  "sm_consequential_symbol_changed (classify_diff rows t) \<longleftrightarrow>
     (\<exists>r \<in> set rows. fst (is_consequential r (classify_symbol r)
        (dict_get t ''consequential_symbol_fan_in_percentile'' DEFAULT_FAN_IN_PERCENTILE)))"
  by (auto simp: classify_diff_def Let_def list_ex_iff)

lemma list_ex_fst_concat:
  assumes "\<And>v. v \<in> set vs \<Longrightarrow> fst v \<longleftrightarrow> snd v \<noteq> []"
  shows "list_ex fst vs \<longleftrightarrow> concat (map snd (filter fst vs)) \<noteq> []"
  using assms by (induction vs) auto

lemma classify_diff_reasons:
  "sm_consequential_symbol_changed (classify_diff rows t) \<longleftrightarrow>
     sm_consequence_reason (classify_diff rows t) \<noteq> []"
proof (cases "rows = []")
  case False
  let ?vs = "map (\<lambda>r. is_consequential r (classify_symbol r)
    (dict_get t ''consequential_symbol_fan_in_percentile'' DEFAULT_FAN_IN_PERCENTILE)) rows"
  have "list_ex fst ?vs \<longleftrightarrow> concat (map snd (filter fst ?vs)) \<noteq> []"
    by (rule list_ex_fst_concat) (clarsimp simp only: set_map, rule is_consequential_reasons)
  with False show ?thesis
    by (simp only: classify_diff_def Let_def if_False change_summary.simps dedupe_Nil_iff not_False_eq_True)
qed (simp add: classify_diff_def Let_def)

lemma rows_from_fanin_shape:
  assumes "r \<in> set (rows_from_fanin fanin)"
  obtains name where "r = empty_row\<lparr>dr_symbol_id := Some name, dr_body_changed := True,
    dr_visibility := Some (if fi_is_exported_contract fanin \<or> fi_is_abstract_or_interface_contract fanin
      then ''exported'' else ''internal''),
    dr_callers_percentile := fi_symbol_fan_in_percentile fanin\<rparr>"
  using assms unfolding rows_from_fanin_def Let_def by fastforce

lemma rows_from_fanin_all:
  assumes "r \<in> set (rows_from_fanin fanin)"
  shows "dr_body_changed r" "\<not> dr_signature_changed r" "\<not> dr_return_shape_changed r"
    "\<not> dr_visibility_changed r" "\<not> dr_abstract_member_changed r"
    "classify_symbol r = (if fi_is_exported_contract fanin \<or> fi_is_abstract_or_interface_contract fanin
       then CK_CONTRACT else CK_BEHAVIORAL)"
proof -
  let ?ex = "fi_is_exported_contract fanin \<or> fi_is_abstract_or_interface_contract fanin"
  obtain name where r: "r = empty_row\<lparr>dr_symbol_id := Some name, dr_body_changed := True,
    dr_visibility := Some (if ?ex then ''exported'' else ''internal''),
    dr_callers_percentile := fi_symbol_fan_in_percentile fanin\<rparr>"
    by (rule rows_from_fanin_shape [OF assms])
  show "dr_body_changed r" "\<not> dr_signature_changed r" "\<not> dr_return_shape_changed r"
    "\<not> dr_visibility_changed r" "\<not> dr_abstract_member_changed r"
    by (simp_all add: r empty_row_def)
  show "classify_symbol r = (if ?ex then CK_CONTRACT else CK_BEHAVIORAL)"
    by (cases ?ex) (simp_all add: r empty_row_def classify_symbol_def publicly_visible_def)
qed

lemma enrich_changed_severity:
  assumes "dr_body_changed row" and "\<not> dr_signature_changed row" and "\<not> dr_return_shape_changed row"
    and "\<not> dr_visibility_changed row" and "\<not> dr_abstract_member_changed row"
  shows "severity (classify_symbol row) \<le> severity (classify_symbol (enrich_changed row r))"
  using assms by (auto simp: classifier_defs split: option.splits)

lemma enrich_member_severity:
  "severity (classify_symbol row) \<le> severity (classify_symbol (enrich_member row r))"
  by (auto simp: classifier_defs)

lemma enrich_consequential_fields:
  "publicly_visible (enrich_changed row r) = publicly_visible row"
  "dr_callers_percentile (enrich_changed row r) = dr_callers_percentile row"
  "publicly_visible (enrich_member row r) = publicly_visible row"
  "dr_callers_percentile (enrich_member row r) = dr_callers_percentile row"
  by (simp_all add: classifier_defs)

lemma proven_change_contract:
  "proven_change n p r \<Longrightarrow> dr_body_changed row \<Longrightarrow>
     severity CK_CONTRACT \<le> severity (classify_symbol (enrich_changed row r))"
  by (auto simp: proven_change_def classifier_defs)

text \<open>The three shapes the semantic tier can return.\<close>

lemma materialized_cases:
  obtains
    (floor) "rows_from_materialized_graph_diff result fanin = rows_from_fanin fanin"
  | (changed) row diff where "rows_from_fanin fanin = [row]" and "mr_available result"
      and "diff \<in> set (mr_rows result)" and "md_qualified_name diff = the (dr_symbol_id row)"
      and "proven_change (the (dr_symbol_id row)) (slashes (hd (fi_resolved_file_paths fanin))) diff"
      and "rows_from_materialized_graph_diff result fanin = [enrich_changed row diff]"
  | (member) row diff where "rows_from_fanin fanin = [row]" and "mr_available result"
      and "diff \<in> set (mr_rows result)"
      and "member_added_removed (the (dr_symbol_id row)) (slashes (hd (fi_resolved_file_paths fanin))) diff"
      and "rows_from_materialized_graph_diff result fanin = [enrich_member row diff]"
proof (cases "\<exists>row p. rows_from_fanin fanin = [row] \<and> fi_resolved_file_paths fanin = [p] \<and> mr_available result")
  case False
  then have "rows_from_materialized_graph_diff result fanin = rows_from_fanin fanin"
    by (auto simp: rows_from_materialized_graph_diff_def Let_def split: list.splits)
  then show thesis by (rule floor)
next
  case True
  then obtain row p where rp: "rows_from_fanin fanin = [row]" "fi_resolved_file_paths fanin = [p]"
    "mr_available result" by blast
  let ?n = "the (dr_symbol_id row)"
  let ?c = "filter (proven_change ?n (slashes p)) (mr_rows result)"
  let ?m = "filter (member_added_removed ?n (slashes p)) (mr_rows result)"
  show thesis
  proof (cases "\<exists>d. ?c = [d]")
    case True
    then obtain d where d: "?c = [d]" by blast
    then have "d \<in> set ?c" by simp
    then have "d \<in> set (mr_rows result)" and "proven_change ?n (slashes p) d" by simp_all
    moreover from this(2) have "md_qualified_name d = ?n" by (simp add: proven_change_def)
    moreover have "rows_from_materialized_graph_diff result fanin = [enrich_changed row d]"
      using rp d by (simp add: rows_from_materialized_graph_diff_def Let_def)
    ultimately show thesis using changed [of row d] rp by simp
  next
    case False
    note no_change = this
    show thesis
    proof (cases "\<exists>d. ?m = [d]")
      case True
      then obtain d where d: "?m = [d]" by blast
      then have "d \<in> set ?m" by simp
      then have "d \<in> set (mr_rows result)" and "member_added_removed ?n (slashes p) d" by simp_all
      moreover have "rows_from_materialized_graph_diff result fanin = [enrich_member row d]"
        using rp d no_change
        by (auto simp: rows_from_materialized_graph_diff_def Let_def split: list.splits)
      ultimately show thesis using member [of row d] rp by simp
    next
      case False
      then have "rows_from_materialized_graph_diff result fanin = rows_from_fanin fanin"
        using rp no_change
        by (auto simp: rows_from_materialized_graph_diff_def Let_def split: list.splits)
      then show thesis by (rule floor)
    qed
  qed
qed

section \<open>Properties\<close>

text \<open>The kind of a classified diff is the most severe kind among its rows: no row is more severe,
  some row attains it, and the verdict \<open>consequential\<close> is given exactly when a reason is listed.\<close>

theorem classification_is_most_severe:
  assumes "rows \<noteq> []"
  shows "\<exists>k. sm_max_change_kind (classify_diff rows t) = change_kind_value k
    \<and> (\<forall>r \<in> set rows. severity (classify_symbol r) \<le> severity k)
    \<and> (\<exists>r \<in> set rows. classify_symbol r = k)
    \<and> (sm_consequential_symbol_changed (classify_diff rows t)
         = (sm_consequence_reason (classify_diff rows t) \<noteq> []))"
  using classify_diff_kind [OF assms, of t] max_kind_upper max_kind_attained [OF assms]
    classify_diff_reasons [of rows t] by blast

lemma classification_is_most_severe_witness:
  "\<exists>k. sm_max_change_kind (classify_diff [empty_row\<lparr>dr_body_changed := True\<rparr>] []) = change_kind_value k"
  using classification_is_most_severe [of "[empty_row\<lparr>dr_body_changed := True\<rparr>]" "[]"] by blast

text \<open>The semantic graph tier refines the coarse owner tier: enriching the resolved owner with rows
  of a materialized diff never lowers the severity of the change and never drops the fan-in reason.\<close>

theorem semantic_tier_never_less_severe:
  "severity (max_kind (rows_from_fanin fanin))
     \<le> severity (max_kind (rows_from_materialized_graph_diff result fanin))
   \<and> map dr_callers_percentile (rows_from_materialized_graph_diff result fanin)
     = map dr_callers_percentile (rows_from_fanin fanin)"
proof -
  have single: "max_kind [r] = (if severity CK_COSMETIC < severity (classify_symbol r)
      then classify_symbol r else CK_COSMETIC)" for r
    by (simp add: max_kind_def)
  have up: "severity (max_kind [r]) \<le> severity (max_kind [q])"
    if "severity (classify_symbol r) \<le> severity (classify_symbol q)" for r q
    using that by (simp add: single)
  show ?thesis
  proof (cases rule: materialized_cases [of result fanin])
    case floor
    then show ?thesis by simp
  next
    case (changed row diff)
    have "severity (classify_symbol row) \<le> severity (classify_symbol (enrich_changed row diff))"
      by (rule enrich_changed_severity) (use rows_from_fanin_all [of row fanin] changed(1) in auto)
    then show ?thesis using changed(1,6) up [of row] by (simp add: enrich_consequential_fields)
  next
    case (member row diff)
    then show ?thesis
      using up [of row] enrich_member_severity [of row diff] by (simp add: enrich_consequential_fields)
  qed
qed

end
