(* ===== verification/Pebra_Guardrails.thy ===== *)
theory Pebra_Guardrails
  imports Pebra_Fnmatch Pebra_Change_Classifier Pebra_Models
begin

text \<open>
  \<open>pebra/core/post_assessment_guardrails.py\<close>: the check of the actual diff against the approved
  envelope. \<open>evaluate\<close> runs the rules in the order of the source; each rule that fires adds one reason
  and one candidate decision, and the most severe candidate wins. A reason keeps the parts of its text
  as constructor arguments. An entry of \<open>risky_scope\<close> is a dictionary; one whose \<open>signal\<close> is a list or
  a dictionary cannot be looked up in the set of signals, which raises \<open>TypeError\<close>.
\<close>

fun decision_rank :: "decision \<Rightarrow> nat" where
  "decision_rank PROCEED = 0"
| "decision_rank INSPECT_FIRST = 1"
| "decision_rank TEST_FIRST = 2"
| "decision_rank REVISE_SAFER = 3"
| "decision_rank ASK_HUMAN = 4"
| "decision_rank REJECT = 5"

lemma decision_rank_inj: "decision_rank d = decision_rank e \<Longrightarrow> d = e"
  by (cases d; cases e) simp_all

interpretation verdicts: severity_scale decision_rank
  by unfold_locales (rule decision_rank_inj)

definition DEDICATED_RULE_SIGNALS :: "string list" where
  "DEDICATED_RULE_SIGNALS =
     [''dependency_changed'', ''schema_changed'', ''migration_changed'', ''contract_change'']"

definition GLOB_SCOPE_PREFIX :: string where "GLOB_SCOPE_PREFIX = ''glob:''"

record guardrail_input =
  gi_assessed_commit :: "string option"
  gi_current_head :: "string option"
  gi_safe_scope_files :: "string list"
  gi_changed_files :: "string list"
  gi_dependency_changed :: bool
  gi_schema_changed :: bool
  gi_migration_changed :: bool
  gi_pre_edit_max_change_kind :: string
  gi_actual_max_change_kind :: string
  gi_actual_changed_symbols :: "string list"
  gi_contract_surface_changes :: "string list"
  gi_risky_scope :: "pyval dict list"
  gi_triggered_signals :: "string list"
  gi_required_checks :: "string list"
  gi_completed_checks :: "string dict"
  gi_requires_dry_run :: bool
  gi_dry_run_preview_present :: bool
  gi_policy_forbidden :: bool
  gi_reclassification_attempted :: bool
  gi_pre_edit_consequential :: bool
  gi_actual_consequential :: bool
  gi_pre_edit_structure_tier :: string
  gi_actual_structure_tier :: string

datatype guardrail_reason =
    FreshnessUnknown
  | EvidenceStale string string
  | OutsideSafeScope "string list"
  | OutsideEnvelope
  | MoreSevereThanAssessed string string
  | Unclassifiable
  | NewlyConsequential
  | SemanticNotReproduced
  | ContractSurfaceChanged "string list"
  | ForbiddenTouched pyval
  | NecessityMissing pyval
  | ReassessmentTouched pyval
  | PreviewMissing
  | ChecksMissing "string list"
  | ChecksFailed "string list"
  | PolicyViolation

record guardrail_result =
  gr_evidence_freshness :: string
  gr_assessed_commit :: "string option"
  gr_current_head :: "string option"
  gr_scope_drift_detected :: bool
  gr_unexpected_files :: "string list"
  gr_pre_edit_symbol_diff_summary :: string
  gr_actual_symbol_diff_summary :: string
  gr_symbol_change_mismatch :: bool
  gr_contract_surface_changes :: "string list"
  gr_dry_run_required :: bool
  gr_classification_failed :: bool
  gr_pre_commit_decision :: decision
  gr_reasons :: "guardrail_reason list"
  gr_safe_scope_status :: string
  gr_risky_scope_triggered :: "pyval list"
  gr_risky_scope_actions_triggered :: "pyval list"
  gr_completed_checks :: "string dict"
  gr_missing_checks :: "string list"
  gr_failed_checks :: "string list"
  gr_necessity_evidence_present :: bool
  gr_newly_consequential :: bool
  gr_verify_decision :: string

section \<open>Scope\<close>

text \<open>\<open>scope_entry.split("::", 1)[0]\<close>.\<close>

fun file_part :: "string \<Rightarrow> string" where
  "file_part [] = []"
| "file_part (c # s) = (if starts_with (c # s) ''::'' then [] else c # file_part s)"

definition covers :: "string \<Rightarrow> string \<Rightarrow> bool" where
  "covers path scope_entry =
     (let candidate = file_part scope_entry
      in if starts_with candidate GLOB_SCOPE_PREFIX
         then fnmatch path (remove_prefix candidate GLOB_SCOPE_PREFIX)
         else path = candidate)"

definition is_covered :: "string \<Rightarrow> string list \<Rightarrow> bool" where
  "is_covered path safe_scope_files = list_ex (covers path) safe_scope_files"

definition kind_severity :: "string \<Rightarrow> nat" where
  "kind_severity kind =
     (case change_kind_of_value kind of
        Some k \<Rightarrow> severity k
      | None \<Rightarrow> severity CK_UNKNOWN)"

section \<open>The rules\<close>

type_synonym rule_findings = "(guardrail_reason \<times> decision) list"

definition freshness_rule :: "guardrail_input \<Rightarrow> string \<times> rule_findings" where
  "freshness_rule inp =
     (case (gi_assessed_commit inp, gi_current_head inp) of
        (Some assessed, Some head) \<Rightarrow>
          if assessed = head then (''fresh'', [])
          else (''stale'', [(EvidenceStale assessed head, INSPECT_FIRST)])
      | _ \<Rightarrow> (''unknown'', [(FreshnessUnknown, INSPECT_FIRST)]))"

definition unexpected_files :: "guardrail_input \<Rightarrow> string list" where
  "unexpected_files inp = filter (\<lambda>f. \<not> is_covered f (gi_safe_scope_files inp)) (gi_changed_files inp)"

definition broad_drift :: "guardrail_input \<Rightarrow> bool" where
  "broad_drift inp = (gi_dependency_changed inp \<or> gi_schema_changed inp \<or> gi_migration_changed inp)"

definition fired :: "bool \<Rightarrow> guardrail_reason \<Rightarrow> decision \<Rightarrow> rule_findings" where
  "fired condition reason decision = (if condition then [(reason, decision)] else [])"

definition symbol_change_mismatch :: "guardrail_input \<Rightarrow> bool" where
  "symbol_change_mismatch inp =
     (gi_actual_max_change_kind inp \<noteq> change_kind_value CK_UNKNOWN
      \<and> kind_severity (gi_actual_max_change_kind inp) > kind_severity (gi_pre_edit_max_change_kind inp))"

definition classification_failed :: "guardrail_input \<Rightarrow> bool" where
  "classification_failed inp =
     (gi_actual_max_change_kind inp = change_kind_value CK_UNKNOWN \<and> gi_reclassification_attempted inp)"

definition newly_consequential :: "guardrail_input \<Rightarrow> bool" where
  "newly_consequential inp = (gi_actual_consequential inp \<and> \<not> gi_pre_edit_consequential inp)"

definition semantic_not_reproduced :: "guardrail_input \<Rightarrow> bool" where
  "semantic_not_reproduced inp =
     (gi_pre_edit_structure_tier inp = ''codegraph_semantic''
      \<and> gi_actual_structure_tier inp \<noteq> ''codegraph_semantic'')"

text \<open>Rules 2 to 4, up to the risky scope.\<close>

definition envelope_rules :: "guardrail_input \<Rightarrow> rule_findings" where
  "envelope_rules inp =
     fired (unexpected_files inp \<noteq> []) (OutsideSafeScope (unexpected_files inp)) INSPECT_FIRST
     @ fired (broad_drift inp) OutsideEnvelope ASK_HUMAN
     @ fired (symbol_change_mismatch inp)
         (MoreSevereThanAssessed (gi_actual_max_change_kind inp) (gi_pre_edit_max_change_kind inp)) ASK_HUMAN
     @ fired (classification_failed inp) Unclassifiable INSPECT_FIRST
     @ fired (newly_consequential inp) NewlyConsequential INSPECT_FIRST
     @ fired (semantic_not_reproduced inp) SemanticNotReproduced INSPECT_FIRST
     @ fired (gi_contract_surface_changes inp \<noteq> [])
         (ContractSurfaceChanged (gi_contract_surface_changes inp)) ASK_HUMAN"

record risky_state =
  rk_findings :: rule_findings
  rk_triggered :: "pyval list"
  rk_actions :: "pyval list"
  rk_necessity :: bool

text \<open>\<open>signal in triggered_signals\<close> for a set of strings.\<close>

definition signal_triggered :: "pyval \<Rightarrow> string list \<Rightarrow> bool res" where
  "signal_triggered signal signals =
     (case signal of
        VStr s \<Rightarrow> Inr (s \<in> set signals)
      | VList _ \<Rightarrow> Inl (TypeError ''unhashable type'')
      | VDict _ \<Rightarrow> Inl (TypeError ''unhashable type'')
      | _ \<Rightarrow> Inr False)"

definition risky_entry :: "pyval dict \<Rightarrow> pyval \<Rightarrow> risky_state \<Rightarrow> risky_state" where
  "risky_entry entry signal st =
     (let action = dict_get entry ''action'' (VStr ''requires_reassessment'');
          change = dict_get entry ''change'' VNone;
          st = st\<lparr>rk_triggered := rk_triggered st @ [dict_get entry ''change'' signal],
                  rk_actions := rk_actions st @ [action]\<rparr>
      in if action = VStr ''forbidden''
         then st\<lparr>rk_findings := rk_findings st @ [(ForbiddenTouched change, REJECT)]\<rparr>
         else if action = VStr ''avoid_unless_required''
         then (let present = truthy (dict_get entry ''necessity_evidence'' VNone)
               in st\<lparr>rk_necessity := present,
                     rk_findings := rk_findings st @ fired (\<not> present) (NecessityMissing change) ASK_HUMAN\<rparr>)
         else if \<exists>s \<in> set DEDICATED_RULE_SIGNALS. signal = VStr s then st
         else st\<lparr>rk_findings := rk_findings st @ [(ReassessmentTouched change, INSPECT_FIRST)]\<rparr>)"

fun risky_rules :: "string list \<Rightarrow> pyval dict list \<Rightarrow> risky_state \<Rightarrow> risky_state res" where
  "risky_rules signals [] st = Inr st"
| "risky_rules signals (entry # entries) st =
     (let signal = dict_get entry ''signal'' VNone
      in if \<not> truthy signal then risky_rules signals entries st
         else rbind (signal_triggered signal signals) (\<lambda>triggered.
           risky_rules signals entries (if triggered then risky_entry entry signal st else st)))"

definition risky_start :: risky_state where
  "risky_start = \<lparr>rk_findings = [], rk_triggered = [], rk_actions = [], rk_necessity = False\<rparr>"

definition dry_run_required :: "guardrail_input \<Rightarrow> bool" where
  "dry_run_required inp = (gi_requires_dry_run inp \<and> \<not> gi_dry_run_preview_present inp)"

definition missing_checks :: "guardrail_input \<Rightarrow> string list" where
  "missing_checks inp = filter (\<lambda>c. \<not> dict_has (gi_completed_checks inp) c) (gi_required_checks inp)"

definition failed_checks :: "guardrail_input \<Rightarrow> string list" where
  "failed_checks inp = map fst (filter (\<lambda>(c, status). status = ''failed'') (gi_completed_checks inp))"

text \<open>Rule 5, the checks and the policy.\<close>

definition commit_rules :: "guardrail_input \<Rightarrow> rule_findings" where
  "commit_rules inp =
     fired (dry_run_required inp) PreviewMissing INSPECT_FIRST
     @ fired (missing_checks inp \<noteq> []) (ChecksMissing (missing_checks inp)) TEST_FIRST
     @ fired (failed_checks inp \<noteq> []) (ChecksFailed (failed_checks inp)) ASK_HUMAN
     @ fired (gi_policy_forbidden inp) PolicyViolation REJECT"

definition all_findings :: "guardrail_input \<Rightarrow> rule_findings \<Rightarrow> rule_findings" where
  "all_findings inp risky = snd (freshness_rule inp) @ envelope_rules inp @ risky @ commit_rules inp"

definition evaluate :: "guardrail_input \<Rightarrow> guardrail_result res" where
  "evaluate inp =
     rbind (risky_rules (gi_triggered_signals inp) (gi_risky_scope inp) risky_start) (\<lambda>risky.
       let findings = all_findings inp (rk_findings risky);
           decision = first_max decision_rank PROCEED (map snd findings)
       in Inr \<lparr>gr_evidence_freshness = fst (freshness_rule inp),
               gr_assessed_commit = gi_assessed_commit inp,
               gr_current_head = gi_current_head inp,
               gr_scope_drift_detected =
                 (unexpected_files inp \<noteq> [] \<or> broad_drift inp \<or> symbol_change_mismatch inp),
               gr_unexpected_files = unexpected_files inp,
               gr_pre_edit_symbol_diff_summary = gi_pre_edit_max_change_kind inp,
               gr_actual_symbol_diff_summary = gi_actual_max_change_kind inp,
               gr_symbol_change_mismatch = symbol_change_mismatch inp,
               gr_contract_surface_changes = gi_contract_surface_changes inp,
               gr_dry_run_required = dry_run_required inp,
               gr_classification_failed = classification_failed inp,
               gr_pre_commit_decision = decision,
               gr_reasons = map fst findings,
               gr_safe_scope_status =
                 (if unexpected_files inp \<noteq> [] \<or> broad_drift inp then ''violated'' else ''ok''),
               gr_risky_scope_triggered = rk_triggered risky,
               gr_risky_scope_actions_triggered = rk_actions risky,
               gr_completed_checks = gi_completed_checks inp,
               gr_missing_checks = missing_checks inp,
               gr_failed_checks = failed_checks inp,
               gr_necessity_evidence_present = rk_necessity risky,
               gr_newly_consequential = newly_consequential inp,
               gr_verify_decision = decision_value decision\<rparr>)"

section \<open>Lemmas\<close>

lemma fired_set [simp]: "set (fired c r d) = (if c then {(r, d)} else {})"
  by (simp add: fired_def)

lemma fired_Nil [simp]: "fired c r d = [] \<longleftrightarrow> \<not> c"
  by (simp add: fired_def)

text \<open>What one entry of the risky scope contributes.\<close>

definition entry_findings :: "string list \<Rightarrow> pyval dict \<Rightarrow> rule_findings" where
  "entry_findings signals entry =
     (let signal = dict_get entry ''signal'' VNone;
          action = dict_get entry ''action'' (VStr ''requires_reassessment'');
          change = dict_get entry ''change'' VNone
      in if \<not> (truthy signal \<and> signal_triggered signal signals = Inr True) then []
         else if action = VStr ''forbidden'' then [(ForbiddenTouched change, REJECT)]
         else if action = VStr ''avoid_unless_required''
         then fired (\<not> truthy (dict_get entry ''necessity_evidence'' VNone)) (NecessityMissing change) ASK_HUMAN
         else fired (\<not> (\<exists>s \<in> set DEDICATED_RULE_SIGNALS. signal = VStr s)) (ReassessmentTouched change)
                INSPECT_FIRST)"

lemma risky_entry_findings:
  assumes "truthy (dict_get entry ''signal'' VNone)"
    and "signal_triggered (dict_get entry ''signal'' VNone) signals = Inr True"
  shows "rk_findings (risky_entry entry (dict_get entry ''signal'' VNone) st)
    = rk_findings st @ entry_findings signals entry"
  using assms by (simp add: risky_entry_def entry_findings_def Let_def fired_def)

lemma risky_rules_findings:
  "risky_rules signals entries st = Inr st' \<Longrightarrow>
     rk_findings st' = rk_findings st @ concat (map (entry_findings signals) entries)"
proof (induction entries arbitrary: st)
  case (Cons entry entries)
  let ?signal = "dict_get entry ''signal'' VNone"
  show ?case
  proof (cases "truthy ?signal \<and> signal_triggered ?signal signals = Inr True")
    case True
    then have "risky_rules signals entries (risky_entry entry ?signal st) = Inr st'"
      using Cons.prems by (simp add: Let_def)
    from Cons.IH [OF this] show ?thesis using risky_entry_findings [of entry signals st] True by simp
  next
    case False
    then have "risky_rules signals entries st = Inr st'"
      using Cons.prems by (auto simp: Let_def rbind_Inr_iff split: if_splits)
    moreover have "entry_findings signals entry = []"
      using False by (simp add: entry_findings_def Let_def)
    ultimately show ?thesis using Cons.IH by simp
  qed
qed simp

definition risky_findings :: "guardrail_input \<Rightarrow> rule_findings" where
  "risky_findings inp = concat (map (entry_findings (gi_triggered_signals inp)) (gi_risky_scope inp))"

lemma evaluate_decision:
  assumes "evaluate inp = Inr r"
  shows "gr_pre_commit_decision r
      = first_max decision_rank PROCEED (map snd (all_findings inp (risky_findings inp)))"
    and "gr_reasons r = map fst (all_findings inp (risky_findings inp))"
proof -
  obtain risky where k: "risky_rules (gi_triggered_signals inp) (gi_risky_scope inp) risky_start = Inr risky"
    using assms by (auto simp: evaluate_def rbind_Inr_iff)
  then have "rk_findings risky = risky_findings inp"
    using risky_rules_findings [OF k] by (simp add: risky_start_def risky_findings_def)
  with assms k show "gr_pre_commit_decision r
      = first_max decision_rank PROCEED (map snd (all_findings inp (risky_findings inp)))"
    and "gr_reasons r = map fst (all_findings inp (risky_findings inp))"
    by (auto simp: evaluate_def Let_def)
qed

text \<open>The findings, rule by rule.\<close>

lemma fired_stop: "PROCEED \<in> snd ` set (fired c r d) \<longleftrightarrow> c \<and> d = PROCEED"
  by auto

lemma entry_findings_stop: "PROCEED \<notin> snd ` set (entry_findings signals entry)"
  by (simp add: entry_findings_def Let_def del: fired_set) (simp add: fired_stop)

lemma findings_stop: "PROCEED \<notin> snd ` set (all_findings inp (risky_findings inp))"
proof -
  have "PROCEED \<notin> snd ` set (risky_findings inp)"
    using entry_findings_stop by (simp add: risky_findings_def image_UN)
  moreover have "PROCEED \<notin> snd ` set (snd (freshness_rule inp))"
    by (simp add: freshness_rule_def split: option.splits)
  moreover have "PROCEED \<notin> snd ` set (envelope_rules inp)" "PROCEED \<notin> snd ` set (commit_rules inp)"
    by (simp_all add: envelope_rules_def commit_rules_def image_Un fired_stop del: fired_set)
  ultimately show ?thesis by (simp add: all_findings_def image_Un)
qed

lemma findings_reject:
  "REJECT \<in> snd ` set (all_findings inp (risky_findings inp)) \<longleftrightarrow>
     gi_policy_forbidden inp \<or> (\<exists>entry \<in> set (gi_risky_scope inp).
       (\<exists>s \<in> set (gi_triggered_signals inp). s \<noteq> [] \<and> dict_get entry ''signal'' VNone = VStr s)
       \<and> dict_get entry ''action'' VNone = VStr ''forbidden'')"
proof -
  have t: "truthy v \<and> signal_triggered v signals = Inr True \<longleftrightarrow> (\<exists>s \<in> set signals. s \<noteq> [] \<and> v = VStr s)"
    for v signals
    by (cases v) (auto simp: signal_triggered_def)
  have a: "dict_get entry ''action'' (VStr ''requires_reassessment'') = VStr ''forbidden''
      \<longleftrightarrow> dict_get entry ''action'' VNone = VStr ''forbidden''" for entry
    by (simp add: dict_get_def split: option.split)
  have e: "REJECT \<in> snd ` set (entry_findings signals entry) \<longleftrightarrow>
      (\<exists>s \<in> set signals. s \<noteq> [] \<and> dict_get entry ''signal'' VNone = VStr s)
      \<and> dict_get entry ''action'' VNone = VStr ''forbidden''" for signals entry
    unfolding t [symmetric] by (auto simp: entry_findings_def Let_def a)
  have "REJECT \<in> snd ` set (risky_findings inp) \<longleftrightarrow>
      (\<exists>entry \<in> set (gi_risky_scope inp). REJECT \<in> snd ` set (entry_findings (gi_triggered_signals inp) entry))"
    by (auto simp: risky_findings_def)
  moreover have "REJECT \<notin> snd ` set (snd (freshness_rule inp) @ envelope_rules inp)"
    by (auto simp: freshness_rule_def envelope_rules_def split: option.splits)
  moreover have "REJECT \<in> snd ` set (commit_rules inp) \<longleftrightarrow> gi_policy_forbidden inp"
    by (auto simp: commit_rules_def)
  ultimately show ?thesis
    unfolding e by (auto simp: all_findings_def)
qed

lemma first_max_bottom:
  assumes "\<And>x. x \<in> set xs \<Longrightarrow> x \<noteq> PROCEED"
  shows "first_max decision_rank PROCEED xs = PROCEED \<longleftrightarrow> xs = []"
  using verdicts.most_severe_bottom [of PROCEED xs] assms by (cases xs) auto

lemma first_max_top: "first_max decision_rank PROCEED xs = REJECT \<longleftrightarrow> REJECT \<in> set xs"
proof
  assume "first_max decision_rank PROCEED xs = REJECT"
  then show "REJECT \<in> set xs" using first_max_mem [of decision_rank PROCEED xs] by simp
next
  assume "REJECT \<in> set xs"
  then have "decision_rank REJECT \<le> decision_rank (first_max decision_rank PROCEED xs)"
    by (intro first_max_ge) simp
  then show "first_max decision_rank PROCEED xs = REJECT"
    by (cases "first_max decision_rank PROCEED xs") simp_all
qed

section \<open>Properties\<close>

text \<open>C8: The commit is cleared exactly when the diff stays inside the approved envelope: the evidence
  is fresh, every changed file is covered, no dependency, schema or migration drift, no more severe or
  unclassifiable or newly consequential change, no unreproduced semantic check, no contract change, no
  triggered risky entry that objects, the preview is there, every required check was run and no check
  failed, and no policy forbids it.\<close>

theorem cleared_inside_envelope:
  assumes "evaluate inp = Inr r"
  shows "gr_pre_commit_decision r = PROCEED \<longleftrightarrow>
      (gi_assessed_commit inp \<noteq> None \<and> gi_current_head inp = gi_assessed_commit inp)
      \<and> list_all (\<lambda>f. is_covered f (gi_safe_scope_files inp)) (gi_changed_files inp)
      \<and> \<not> broad_drift inp \<and> \<not> symbol_change_mismatch inp \<and> \<not> classification_failed inp
      \<and> \<not> newly_consequential inp \<and> \<not> semantic_not_reproduced inp
      \<and> gi_contract_surface_changes inp = [] \<and> risky_findings inp = []
      \<and> \<not> dry_run_required inp
      \<and> list_all (dict_has (gi_completed_checks inp)) (gi_required_checks inp)
      \<and> list_all (\<lambda>(c, status). status \<noteq> ''failed'') (gi_completed_checks inp)
      \<and> \<not> gi_policy_forbidden inp"
proof -
  have "gr_pre_commit_decision r = PROCEED \<longleftrightarrow> all_findings inp (risky_findings inp) = []"
    unfolding evaluate_decision [OF assms]
    using findings_stop [of inp] by (subst first_max_bottom) (auto simp: image_iff)
  moreover have "snd (freshness_rule inp) = [] \<longleftrightarrow>
      gi_assessed_commit inp \<noteq> None \<and> gi_current_head inp = gi_assessed_commit inp"
    by (auto simp: freshness_rule_def split: option.splits)
  moreover have "unexpected_files inp = [] \<longleftrightarrow>
      list_all (\<lambda>f. is_covered f (gi_safe_scope_files inp)) (gi_changed_files inp)"
    by (simp add: unexpected_files_def filter_empty_conv list_all_iff)
  moreover have "missing_checks inp = [] \<longleftrightarrow>
      list_all (dict_has (gi_completed_checks inp)) (gi_required_checks inp)"
    by (simp add: missing_checks_def filter_empty_conv list_all_iff)
  moreover have "failed_checks inp = [] \<longleftrightarrow>
      list_all (\<lambda>(c, status). status \<noteq> ''failed'') (gi_completed_checks inp)"
    by (auto simp: failed_checks_def filter_empty_conv list_all_iff)
  ultimately show ?thesis
    by (simp only: all_findings_def envelope_rules_def commit_rules_def append_is_Nil_conv fired_Nil) blast
qed

definition clean_input :: guardrail_input where
  "clean_input =
     \<lparr>gi_assessed_commit = Some ''c1'', gi_current_head = Some ''c1'',
      gi_safe_scope_files = [''src/a.py::f'', ''glob:docs/*''], gi_changed_files = [''src/a.py'', ''docs/x.md''],
      gi_dependency_changed = False, gi_schema_changed = False, gi_migration_changed = False,
      gi_pre_edit_max_change_kind = ''BEHAVIORAL'', gi_actual_max_change_kind = ''BEHAVIORAL'',
      gi_actual_changed_symbols = [''f''], gi_contract_surface_changes = [],
      gi_risky_scope = [[(''signal'', VStr ''dependency_changed''), (''action'', VStr ''forbidden'')]],
      gi_triggered_signals = [], gi_required_checks = [''unit''],
      gi_completed_checks = [(''unit'', ''passed'')], gi_requires_dry_run = False,
      gi_dry_run_preview_present = False, gi_policy_forbidden = False,
      gi_reclassification_attempted = True, gi_pre_edit_consequential = False,
      gi_actual_consequential = False, gi_pre_edit_structure_tier = ''python_ast'',
      gi_actual_structure_tier = ''python_ast''\<rparr>"

lemma clean_evaluates: "\<exists>r. evaluate clean_input = Inr r"
  by (simp add: evaluate_def clean_input_def signal_triggered_def Let_def)

lemma cleared_inside_envelope_witness:
  "\<exists>r. evaluate clean_input = Inr r \<and> gr_pre_commit_decision r = PROCEED"
proof -
  obtain r where r: "evaluate clean_input = Inr r" using clean_evaluates by blast
  have c: "is_covered ''src/a.py'' [''src/a.py::f'', ''glob:docs/*'']"
    "is_covered ''docs/x.md'' [''src/a.py::f'', ''glob:docs/*'']"
    by code_simp+
  show ?thesis
    using r cleared_inside_envelope [OF r] c
    by (simp add: clean_input_def broad_drift_def symbol_change_mismatch_def classification_failed_def
        newly_consequential_def semantic_not_reproduced_def risky_findings_def entry_findings_def
        signal_triggered_def dry_run_required_def Let_def)
qed

text \<open>A reject at the commit boundary means exactly a policy violation or a forbidden change that
  was touched, and nothing in the diff can outweigh it.\<close>

theorem guardrail_reject_iff_forbidden:
  assumes "evaluate inp = Inr r"
  shows "gr_pre_commit_decision r = REJECT \<longleftrightarrow>
      gi_policy_forbidden inp \<or> (\<exists>entry \<in> set (gi_risky_scope inp).
        (\<exists>s \<in> set (gi_triggered_signals inp). s \<noteq> [] \<and> dict_get entry ''signal'' VNone = VStr s)
        \<and> dict_get entry ''action'' VNone = VStr ''forbidden'')"
  unfolding evaluate_decision [OF assms] first_max_top set_map by (rule findings_reject)

lemma guardrail_reject_iff_forbidden_witness:
  "\<exists>r. evaluate (clean_input\<lparr>gi_triggered_signals := [''dependency_changed'']\<rparr>) = Inr r
    \<and> gr_pre_commit_decision r = REJECT"
proof -
  obtain r where r: "evaluate (clean_input\<lparr>gi_triggered_signals := [''dependency_changed'']\<rparr>) = Inr r"
    by (auto simp: evaluate_def clean_input_def signal_triggered_def Let_def)
  with guardrail_reject_iff_forbidden [OF r] show ?thesis by (simp add: clean_input_def)
qed

text \<open>
  Evidence only adds: if every verdict some rule gives on one diff is also given on another, the
  second verdict is at least as severe; the order of the rules does not matter.
\<close>

lemma guardrails_monotone:
  assumes "evaluate inp = Inr r" and "evaluate inp' = Inr r'"
    and "snd ` set (all_findings inp (risky_findings inp)) \<subseteq> snd ` set (all_findings inp' (risky_findings inp'))"
  shows "decision_rank (gr_pre_commit_decision r) \<le> decision_rank (gr_pre_commit_decision r')"
  unfolding evaluate_decision [OF assms(1)] evaluate_decision [OF assms(2)]
  using assms(3) by (intro verdicts.most_severe_mono) auto

end
