(* ===== verification/Pebra_Score_Math.thy ===== *)
theory Pebra_Score_Math
  imports Pebra_Constants
begin

text \<open>
  The scoring arithmetic: \<open>pebra/core/score_math.py\<close>, \<open>score_normalizer.py\<close>,
  \<open>variance_bounds.py\<close> and \<open>confidence_gate.py\<close>. Each function is the function of the source of
  the same name; a \<open>raise\<close> is an \<open>Inl\<close>.
\<close>

section \<open>score_math\<close>

definition MIN_CONFIDENCE_FACTOR :: real where "MIN_CONFIDENCE_FACTOR = 1 / 10 ^ 6"

definition apply_criticality_floor :: "string \<Rightarrow> real \<Rightarrow> real \<Rightarrow> real \<times> bool" where
  "apply_criticality_floor event elicited_disutility criticality_value =
     (if event \<in> set CONSEQUENCE_BEARING_EVENTS
      then if criticality_value > elicited_disutility then (criticality_value, True)
           else (elicited_disutility, False)
      else (elicited_disutility, False))"

record floored_event =
  fe_event :: string
  fe_p_event :: real
  fe_disutility :: real
  fe_floor_applied :: bool

record loss_component =
  lc_event :: string
  lc_p_event :: real
  lc_disutility :: real
  lc_expected_loss :: real

fun expected_loss_loop ::
  "real \<Rightarrow> loss_component list \<Rightarrow> floored_event list \<Rightarrow> real \<times> loss_component list" where
  "expected_loss_loop tot components [] = (tot, components)"
| "expected_loss_loop tot components (ev # events) =
     (let contribution = fe_p_event ev * fe_disutility ev
      in expected_loss_loop (tot + contribution)
           (components @ [\<lparr>lc_event = fe_event ev, lc_p_event = fe_p_event ev,
              lc_disutility = fe_disutility ev, lc_expected_loss = contribution\<rparr>]) events)"

definition expected_loss :: "floored_event list \<Rightarrow> real \<times> loss_component list" where
  "expected_loss events = expected_loss_loop 0 [] events"

definition expected_utility :: "real \<Rightarrow> real \<Rightarrow> real \<Rightarrow> real \<Rightarrow> real" where
  "expected_utility p_success benefit exp_loss review_cost =
     p_success * benefit - exp_loss - review_cost"

definition net_benefit_score :: "real \<Rightarrow> real \<Rightarrow> real \<Rightarrow> real" where
  "net_benefit_score benefit exp_loss review_cost = benefit - exp_loss - review_cost"

text \<open>
  A result of this magnitude is beyond the largest double and rounds to infinity. \<open>fsum_overflows\<close>
  is \<open>math.fsum\<close>'s \<open>OverflowError\<close>: the running sum of the finite terms leaves the range.
\<close>

definition float_overflows :: "real \<Rightarrow> bool" where
  "float_overflows x \<longleftrightarrow> 2 ^ 1024 - 2 ^ 970 \<le> \<bar>x\<bar>"

definition fsum_overflows :: "real list \<Rightarrow> bool" where
  "fsum_overflows xs =
     (let finite_terms = filter (\<lambda>x. \<not> float_overflows x) xs
      in list_ex (\<lambda>n. float_overflows (sum_list (take n finite_terms))) [0..<Suc (length finite_terms)])"

definition utility_sd :: "real list \<Rightarrow> real res" where
  "utility_sd variance_terms =
     (if fsum_overflows variance_terms then Inl (OverflowError ''intermediate overflow in fsum'')
      else let tot = sum_list variance_terms
           in if tot < 0 then Inl (ValueError ''variance must be non-negative'')
              else Inr (sqrt tot))"

definition risk_adjusted_utility :: "real \<Rightarrow> real \<Rightarrow> real" where
  "risk_adjusted_utility eu usd = eu - Z_ALPHA_90 * usd"

fun log_sum_loop :: "real dict \<Rightarrow> real \<Rightarrow> string list \<Rightarrow> real res" where
  "log_sum_loop factors log_sum [] = Inr log_sum"
| "log_sum_loop factors log_sum (f # fs) =
     (let x = dict_get factors f 0
      in if \<not> (0 < x \<and> x \<le> 1) then Inl (ValueError ''edit_confidence factor out of (0, 1]'')
         else log_sum_loop factors (log_sum + EDIT_CONFIDENCE_WEIGHT * ln x) fs)"

definition edit_confidence :: "real dict \<Rightarrow> real res" where
  "edit_confidence factors =
     (let missing = filter (\<lambda>f. \<not> dict_has factors f) EDIT_CONFIDENCE_FACTORS
      in if missing \<noteq> [] then Inl (ValueError ''edit_confidence missing factors'')
         else rbind (log_sum_loop factors 0 EDIT_CONFIDENCE_FACTORS) (\<lambda>s. Inr (exp s)))"

definition penalized_confidence_factor :: "real \<Rightarrow> real \<Rightarrow> real" where
  "penalized_confidence_factor current penalty = max MIN_CONFIDENCE_FACTOR (current - penalty)"

definition risk_budget_used :: "real \<Rightarrow> real \<Rightarrow> real res" where
  "risk_budget_used exp_loss effective_threshold =
     (if effective_threshold \<le> 0 then Inl (ValueError ''effective_threshold must be positive'')
      else Inr (exp_loss / effective_threshold))"

definition blast_score :: "real \<Rightarrow> real \<Rightarrow> real \<Rightarrow> real res" where
  "blast_score direct transitive scale =
     (let raw = direct + 0.5 * transitive
      in if raw < 0 then Inl (ValueError ''blast counts must be non-negative'')
         else if raw + scale = 0 then Inl ZeroDivisionError
         else Inr (raw / (raw + scale)))"

text \<open>\<open>bisect.bisect_right(xs, v)\<close>: the binary search of the standard library.\<close>

function bisect_loop :: "'a::linorder list \<Rightarrow> 'a \<Rightarrow> nat \<Rightarrow> nat \<Rightarrow> nat" where
  "bisect_loop xs v lo hi =
     (if lo < hi
      then let mid = (lo + hi) div 2
           in if v < xs ! mid then bisect_loop xs v lo mid else bisect_loop xs v (Suc mid) hi
      else lo)"
  by pat_completeness auto
termination
  by (relation "measure (\<lambda>(xs, v, lo, hi). hi - lo)") auto

declare bisect_loop.simps [simp del]

definition bisect_right :: "'a::linorder list \<Rightarrow> 'a \<Rightarrow> nat" where
  "bisect_right xs v = bisect_loop xs v 0 (length xs)"

definition fractional_rank :: "int \<Rightarrow> int list \<Rightarrow> real" where
  "fractional_rank v sorted_distribution =
     (if sorted_distribution = [] then 0
      else real (bisect_right sorted_distribution v) / real (length sorted_distribution))"

subsection \<open>Expected loss\<close>

lemma expected_loss_loop_eq:
  "expected_loss_loop tot components events =
     (tot + (\<Sum>e\<leftarrow>events. fe_p_event e * fe_disutility e),
      components @ map (\<lambda>e. \<lparr>lc_event = fe_event e, lc_p_event = fe_p_event e,
        lc_disutility = fe_disutility e, lc_expected_loss = fe_p_event e * fe_disutility e\<rparr>) events)"
  by (induction events arbitrary: tot components) (simp_all add: Let_def)

lemma expected_loss_sum:
  "fst (expected_loss events) = (\<Sum>e\<leftarrow>events. fe_p_event e * fe_disutility e)"
  by (simp add: expected_loss_def expected_loss_loop_eq)

lemma expected_loss_components:
  "map lc_expected_loss (snd (expected_loss events)) = map (\<lambda>e. fe_p_event e * fe_disutility e) events"
  "map lc_event (snd (expected_loss events)) = map fe_event events"
  by (simp_all add: expected_loss_def expected_loss_loop_eq)

lemma expected_loss_nonneg:
  assumes "\<And>e. e \<in> set events \<Longrightarrow> 0 \<le> fe_p_event e \<and> 0 \<le> fe_disutility e"
  shows "0 \<le> fst (expected_loss events)"
  unfolding expected_loss_sum using assms by (auto intro: sum_list_nonneg_real)

lemma criticality_floor_ge: "d \<le> fst (apply_criticality_floor e d c)"
  by (simp add: apply_criticality_floor_def)

lemma criticality_floor_le: "fst (apply_criticality_floor e d c) \<le> max d c"
  by (auto simp: apply_criticality_floor_def)

lemma criticality_floor_consequence:
  "e \<in> set CONSEQUENCE_BEARING_EVENTS \<Longrightarrow> fst (apply_criticality_floor e d c) = max d c"
  by (auto simp: apply_criticality_floor_def)

lemma criticality_floor_mono:
  "c \<le> c' \<Longrightarrow> fst (apply_criticality_floor e d c) \<le> fst (apply_criticality_floor e d c')"
  by (auto simp: apply_criticality_floor_def)

lemma criticality_floor_flag:
  "snd (apply_criticality_floor e d c) \<longleftrightarrow>
     e \<in> set CONSEQUENCE_BEARING_EVENTS \<and> d < c"
  by (auto simp: apply_criticality_floor_def)

subsection \<open>Edit confidence\<close>

lemma log_sum_loop_ok:
  assumes "\<And>f. f \<in> set fs \<Longrightarrow> 0 < dict_get factors f 0 \<and> dict_get factors f 0 \<le> 1"
  shows "log_sum_loop factors s fs
    = Inr (s + EDIT_CONFIDENCE_WEIGHT * (\<Sum>f\<leftarrow>fs. ln (dict_get factors f 0)))"
  using assms by (induction fs arbitrary: s) (simp_all add: Let_def algebra_simps)

lemma log_sum_loop_err:
  assumes "f \<in> set fs" and "\<not> (0 < dict_get factors f 0 \<and> dict_get factors f 0 \<le> 1)"
  shows "\<not> is_ok (log_sum_loop factors s fs)"
  using assms by (induction fs arbitrary: s) (auto simp: Let_def)

definition confidence_factors_valid :: "real dict \<Rightarrow> bool" where
  "confidence_factors_valid factors =
     (\<forall>f \<in> set EDIT_CONFIDENCE_FACTORS. dict_has factors f \<and> 0 < dict_get factors f 0 \<and> dict_get factors f 0 \<le> 1)"

lemma edit_confidence_ok:
  assumes "confidence_factors_valid factors"
  shows "edit_confidence factors
    = Inr (exp (EDIT_CONFIDENCE_WEIGHT * (\<Sum>f\<leftarrow>EDIT_CONFIDENCE_FACTORS. ln (dict_get factors f 0))))"
proof -
  have "filter (\<lambda>f. \<not> dict_has factors f) EDIT_CONFIDENCE_FACTORS = []"
    using assms by (simp add: confidence_factors_valid_def filter_empty_conv)
  moreover have "log_sum_loop factors 0 EDIT_CONFIDENCE_FACTORS
    = Inr (0 + EDIT_CONFIDENCE_WEIGHT * (\<Sum>f\<leftarrow>EDIT_CONFIDENCE_FACTORS. ln (dict_get factors f 0)))"
    by (rule log_sum_loop_ok) (use assms in \<open>simp add: confidence_factors_valid_def\<close>)
  ultimately show ?thesis by (simp add: edit_confidence_def Let_def)
qed

lemma edit_confidence_is_ok_iff:
  "is_ok (edit_confidence factors) \<longleftrightarrow> confidence_factors_valid factors"
proof
  assume ok: "is_ok (edit_confidence factors)"
  show "confidence_factors_valid factors"
  proof (rule ccontr)
    assume "\<not> confidence_factors_valid factors"
    then obtain f where f: "f \<in> set EDIT_CONFIDENCE_FACTORS"
      and bad: "dict_has factors f \<Longrightarrow> \<not> (0 < dict_get factors f 0 \<and> dict_get factors f 0 \<le> 1)"
      by (auto simp: confidence_factors_valid_def)
    show False
    proof (cases "filter (\<lambda>f. \<not> dict_has factors f) EDIT_CONFIDENCE_FACTORS = []")
      case True
      with f have "dict_has factors f" by (auto simp: filter_empty_conv)
      with f bad have "\<not> is_ok (log_sum_loop factors 0 EDIT_CONFIDENCE_FACTORS)"
        by (intro log_sum_loop_err) auto
      with ok True show False
        by (cases "log_sum_loop factors 0 EDIT_CONFIDENCE_FACTORS")
          (auto simp: edit_confidence_def Let_def)
    next
      case False
      with ok show False by (simp add: edit_confidence_def Let_def)
    qed
  qed
qed (simp add: edit_confidence_ok)

text \<open>A weighted mean with equal weights lies between the bounds of its terms.\<close>

lemma mean_bounds:
  fixes lo hi :: real
  assumes "xs \<noteq> []" and "\<And>x. x \<in> set xs \<Longrightarrow> lo \<le> f x \<and> f x \<le> hi"
  shows "lo \<le> (1 / real (length xs)) * (\<Sum>x\<leftarrow>xs. f x) \<and> (1 / real (length xs)) * (\<Sum>x\<leftarrow>xs. f x) \<le> hi"
proof -
  have n: "0 < real (length xs)" using assms(1) by simp
  have "(\<Sum>x\<leftarrow>xs. lo) \<le> (\<Sum>x\<leftarrow>xs. f x)" and "(\<Sum>x\<leftarrow>xs. f x) \<le> (\<Sum>x\<leftarrow>xs. hi)"
    using assms(2) by (auto intro: sum_list_le_real)
  then have "real (length xs) * lo \<le> (\<Sum>x\<leftarrow>xs. f x)" and "(\<Sum>x\<leftarrow>xs. f x) \<le> real (length xs) * hi"
    by (simp_all add: sum_list_triv)
  with n show ?thesis by (simp add: field_simps)
qed

lemma edit_confidence_between:
  assumes ok: "edit_confidence factors = Inr c"
    and lo: "\<And>f. f \<in> set EDIT_CONFIDENCE_FACTORS \<Longrightarrow> lo \<le> dict_get factors f 0" and "0 < lo"
    and hi: "\<And>f. f \<in> set EDIT_CONFIDENCE_FACTORS \<Longrightarrow> dict_get factors f 0 \<le> hi"
  shows "lo \<le> c \<and> c \<le> hi"
proof -
  let ?m = "EDIT_CONFIDENCE_WEIGHT * (\<Sum>f\<leftarrow>EDIT_CONFIDENCE_FACTORS. ln (dict_get factors f 0))"
  have valid: "confidence_factors_valid factors"
    using ok edit_confidence_is_ok_iff [of factors] by simp
  then have c: "c = exp ?m" using ok edit_confidence_ok by simp
  have ne: "EDIT_CONFIDENCE_FACTORS \<noteq> []" by (simp add: EDIT_CONFIDENCE_FACTORS_def)
  then obtain f0 where f0: "f0 \<in> set EDIT_CONFIDENCE_FACTORS" by (meson hd_in_set)
  have "0 < hi" using lo [OF f0] hi [OF f0] \<open>0 < lo\<close> by linarith
  have "ln lo \<le> ?m \<and> ?m \<le> ln hi"
    unfolding EDIT_CONFIDENCE_WEIGHT_def
  proof (rule mean_bounds [OF ne])
    fix f assume f: "f \<in> set EDIT_CONFIDENCE_FACTORS"
    have "0 < dict_get factors f 0" using valid f by (simp add: confidence_factors_valid_def)
    then show "ln lo \<le> ln (dict_get factors f 0) \<and> ln (dict_get factors f 0) \<le> ln hi"
      using lo [OF f] hi [OF f] \<open>0 < lo\<close> \<open>0 < hi\<close> by simp
  qed
  then have "exp (ln lo) \<le> c \<and> c \<le> exp (ln hi)" by (simp add: c)
  with \<open>0 < lo\<close> \<open>0 < hi\<close> show ?thesis by simp
qed

lemma edit_confidence_unit:
  assumes "edit_confidence factors = Inr c"
  shows "0 < c \<and> c \<le> 1"
proof -
  have valid: "confidence_factors_valid factors"
    using assms edit_confidence_is_ok_iff [of factors] by simp
  then have c: "c = exp (EDIT_CONFIDENCE_WEIGHT * (\<Sum>f\<leftarrow>EDIT_CONFIDENCE_FACTORS. ln (dict_get factors f 0)))"
    using assms edit_confidence_ok by simp
  have "(\<Sum>f\<leftarrow>EDIT_CONFIDENCE_FACTORS. ln (dict_get factors f 0)) \<le> (\<Sum>f\<leftarrow>EDIT_CONFIDENCE_FACTORS. 0)"
    by (rule sum_list_le_real) (use valid in \<open>simp add: confidence_factors_valid_def\<close>)
  then show ?thesis
    unfolding c by (simp add: EDIT_CONFIDENCE_WEIGHT_def EDIT_CONFIDENCE_FACTORS_def)
qed

lemma penalized_factor_pos [simp]: "0 < penalized_confidence_factor x p"
  by (simp add: penalized_confidence_factor_def MIN_CONFIDENCE_FACTOR_def less_max_iff_disj)

lemma penalized_factor_le:
  "0 \<le> p \<Longrightarrow> x \<le> 1 \<Longrightarrow> penalized_confidence_factor x p \<le> 1"
  by (simp add: penalized_confidence_factor_def MIN_CONFIDENCE_FACTOR_def)

lemma penalized_factor_antimono:
  "p \<le> q \<Longrightarrow> penalized_confidence_factor x q \<le> penalized_confidence_factor x p"
  by (auto simp: penalized_confidence_factor_def)

subsection \<open>Ranks and reach\<close>

text \<open>
  The search returns the number of entries that are not above the value: the invariant is that
  everything before \<open>lo\<close> is at most \<open>v\<close> and everything from \<open>hi\<close> on is above it.
\<close>

lemma bisect_loop_spec:
  assumes "sorted xs" and "lo \<le> hi" and "hi \<le> length xs"
    and "\<And>i. i < lo \<Longrightarrow> xs ! i \<le> v"
    and "\<And>i. hi \<le> i \<Longrightarrow> i < length xs \<Longrightarrow> v < xs ! i"
  shows "bisect_loop xs v lo hi \<le> length xs
    \<and> (\<forall>i < bisect_loop xs v lo hi. xs ! i \<le> v)
    \<and> (\<forall>i < length xs. bisect_loop xs v lo hi \<le> i \<longrightarrow> v < xs ! i)"
  using assms
proof (induction xs v lo hi rule: bisect_loop.induct)
  case (1 xs v lo hi)
  show ?case
  proof (cases "lo < hi")
    case False
    then have "bisect_loop xs v lo hi = lo"
      by (subst bisect_loop.simps) simp
    moreover have "lo = hi" using False "1.prems"(2) by simp
    ultimately show ?thesis using "1.prems" by auto
  next
    case True
    define mid where "mid = (lo + hi) div 2"
    have mid: "lo \<le> mid" "mid < hi" using True by (auto simp: mid_def)
    have mono: "xs ! i \<le> xs ! j" if "i \<le> j" "j < length xs" for i j
      using that "1.prems"(1) by (simp add: sorted_nth_mono)
    show ?thesis
    proof (cases "v < xs ! mid")
      case lt: True
      have step: "bisect_loop xs v lo hi = bisect_loop xs v lo mid"
        using True lt by (subst bisect_loop.simps) (simp add: mid_def)
      have above: "v < xs ! i" if "mid \<le> i" "i < length xs" for i
        using mono [OF that] lt by simp
      show ?thesis
        unfolding step
        by (rule "1.IH"(1) [OF True mid_def lt "1.prems"(1)])
          (use "1.prems" mid above in auto)
    next
      case ge: False
      have step: "bisect_loop xs v lo hi = bisect_loop xs v (Suc mid) hi"
        using True ge by (subst bisect_loop.simps) (simp add: mid_def)
      have below: "xs ! i \<le> v" if "i < Suc mid" for i
        using mono [of i mid] that ge mid "1.prems"(3) by fastforce
      show ?thesis
        unfolding step
        by (rule "1.IH"(2) [OF True mid_def ge "1.prems"(1)])
          (use "1.prems" mid below in auto)
    qed
  qed
qed

lemma bisect_right_count:
  assumes "sorted xs"
  shows "bisect_right xs v = length (filter (\<lambda>x. x \<le> v) xs)"
proof -
  let ?k = "bisect_right xs v"
  have k: "?k \<le> length xs" "\<And>i. i < ?k \<Longrightarrow> xs ! i \<le> v"
    "\<And>i. ?k \<le> i \<Longrightarrow> i < length xs \<Longrightarrow> v < xs ! i"
    using bisect_loop_spec [of xs 0 "length xs" v] assms by (auto simp: bisect_right_def)
  have "{i. i < length xs \<and> xs ! i \<le> v} = {..<?k}"
    using k by (auto simp: not_less [symmetric])
  then show ?thesis by (simp add: length_filter_conv_card)
qed

lemma fractional_rank_unit:
  assumes "sorted d"
  shows "0 \<le> fractional_rank v d \<and> fractional_rank v d \<le> 1"
proof (cases "d = []")
  case False
  then have "0 < real (length d)" by simp
  moreover have "bisect_right d v \<le> length d"
    using assms by (simp add: bisect_right_count)
  ultimately show ?thesis by (simp add: fractional_rank_def field_simps)
qed (simp add: fractional_rank_def)

lemma fractional_rank_mono:
  assumes "sorted d" and "v \<le> w"
  shows "fractional_rank v d \<le> fractional_rank w d"
proof -
  have "length (filter (\<lambda>x. x \<le> v) d) \<le> length (filter (\<lambda>x. x \<le> w) d)"
    using assms(2) by (induction d) auto
  then show ?thesis
    using assms(1) by (simp add: fractional_rank_def bisect_right_count divide_right_mono)
qed

lemma blast_score_unit:
  assumes "blast_score d t s = Inr x" and "0 \<le> s"
  shows "0 \<le> x \<and> x \<le> 1"
proof -
  have "x = (d + 0.5 * t) / ((d + 0.5 * t) + s)" and "0 \<le> d + 0.5 * t"
    using assms(1) by (auto simp: blast_score_def Let_def split: if_splits)
  with assms(2) show ?thesis by (auto simp: divide_le_eq_1)
qed

lemma rau_le_eu: "0 \<le> usd \<Longrightarrow> risk_adjusted_utility eu usd \<le> eu"
  by (simp add: risk_adjusted_utility_def Z_ALPHA_90_def)

lemma rau_antimono:
  "usd \<le> usd' \<Longrightarrow> risk_adjusted_utility eu usd' \<le> risk_adjusted_utility eu usd"
  by (simp add: risk_adjusted_utility_def Z_ALPHA_90_def)

lemma utility_sd_nonneg: "utility_sd vs = Inr x \<Longrightarrow> 0 \<le> x"
  by (auto simp: utility_sd_def Let_def split: if_splits)

lemma float_overflows_mono: "\<not> float_overflows y \<Longrightarrow> \<bar>x\<bar> \<le> \<bar>y\<bar> \<Longrightarrow> \<not> float_overflows x"
  unfolding float_overflows_def by linarith

lemma not_float_overflows: "\<bar>x\<bar> \<le> 10 ^ 200 \<Longrightarrow> \<not> float_overflows x"
proof -
  have "(10 :: real) ^ 200 < 2 ^ 1024 - 2 ^ 970" by simp
  then show "\<bar>x\<bar> \<le> 10 ^ 200 \<Longrightarrow> \<not> float_overflows x" unfolding float_overflows_def by linarith
qed

lemma abs_sum_take_filter: "\<bar>sum_list (take n (filter P xs))\<bar> \<le> (\<Sum>x\<leftarrow>xs. \<bar>x\<bar> :: real)"
proof (induction xs arbitrary: n)
  case (Cons x xs)
  show ?case
  proof (cases "P x \<and> n \<noteq> 0")
    case True
    then obtain m where "n = Suc m" using not0_implies_Suc by blast
    with True Cons.IH [of m] show ?thesis by simp
  next
    case False
    with Cons.IH [of n] show ?thesis by (cases "P x") auto
  qed
qed simp

text \<open>Terms whose magnitudes add up to a double are summed without an error.\<close>

lemma fsum_fits:
  assumes "(\<Sum>x\<leftarrow>xs. \<bar>x\<bar>) \<le> 10 ^ 200"
  shows "\<not> fsum_overflows xs"
  unfolding fsum_overflows_def Let_def list_ex_iff
  using not_float_overflows [OF order_trans [OF abs_sum_take_filter assms]] by blast

lemma utility_sd_is_ok_iff: "is_ok (utility_sd vs) \<longleftrightarrow> \<not> fsum_overflows vs \<and> 0 \<le> sum_list vs"
  by (simp add: utility_sd_def Let_def)

lemma utility_sd_negative:
  "\<not> fsum_overflows vs \<Longrightarrow> sum_list vs < 0 \<Longrightarrow>
    utility_sd vs = Inl (ValueError ''variance must be non-negative'')"
  by (simp add: utility_sd_def)

section \<open>score_normalizer\<close>

definition COLD_START_UTILITY_VARIANCE :: real where
  "COLD_START_UTILITY_VARIANCE =
     sum_list (map COLD_START_VARIANCES
       [V_p_success, V_benefit, V_p_event, V_disutility, V_review_cost, V_scenario_variance])"

definition clamp_unit :: "real \<Rightarrow> real" where
  "clamp_unit x = (if x < 0 then 0 else if x > 1 then 1 else x)"

definition variance_from_confidence :: "real \<Rightarrow> real" where
  "variance_from_confidence confidence = ((1 - clamp_unit confidence) / 2) ^ 2"

definition component_variance ::
  "real option \<Rightarrow> real option \<Rightarrow> variance_component \<Rightarrow> real" where
  "component_variance supplied confidence cold_start_key =
     (case supplied of
        Some s \<Rightarrow> if 0 \<le> s then s
                  else (case confidence of Some c \<Rightarrow> variance_from_confidence c
                        | None \<Rightarrow> COLD_START_VARIANCES cold_start_key)
      | None \<Rightarrow> (case confidence of Some c \<Rightarrow> variance_from_confidence c
                 | None \<Rightarrow> COLD_START_VARIANCES cold_start_key))"

text \<open>The keyword arguments of \<open>resolve_utility_variance\<close>; an omitted one is \<open>None\<close>.\<close>

record variance_inputs =
  vi_benefit :: "real option"
  vi_p_success :: "real option"
  vi_var_p_success :: "real option"
  vi_var_benefit :: "real option"
  vi_var_review_cost :: "real option"
  vi_event_variance :: "real option"
  vi_scenario_variance :: "real option"
  vi_p_success_confidence :: "real option"
  vi_benefit_confidence :: "real option"
  vi_review_cost_confidence :: "real option"
  vi_event_confidence :: "real option"
  vi_disutility_confidence :: "real option"

definition first_order_breakdown :: "variance_inputs \<Rightarrow> real \<Rightarrow> real \<Rightarrow> real dict" where
  "first_order_breakdown vi benefit p_success =
     (let p_success_var = component_variance (vi_var_p_success vi) (vi_p_success_confidence vi) V_p_success;
          benefit_var = component_variance (vi_var_benefit vi) (vi_benefit_confidence vi) V_benefit;
          review_cost_var =
            component_variance (vi_var_review_cost vi) (vi_review_cost_confidence vi) V_review_cost;
          event_var =
            (case vi_event_variance vi of
               Some v \<Rightarrow> v
             | None \<Rightarrow> component_variance None (vi_event_confidence vi) V_p_event
                        + component_variance None (vi_disutility_confidence vi) V_disutility)
      in [(''p_success'', benefit ^ 2 * p_success_var),
          (''benefit'', p_success ^ 2 * benefit_var),
          (''event_losses'', event_var),
          (''review_cost'', review_cost_var),
          (''scenario_variance'',
             (case vi_scenario_variance vi of Some v \<Rightarrow> v
              | None \<Rightarrow> COLD_START_VARIANCES V_scenario_variance))])"

definition cold_start_breakdown :: "real dict" where
  "cold_start_breakdown =
     [(''p_success'', COLD_START_VARIANCES V_p_success),
      (''benefit'', COLD_START_VARIANCES V_benefit),
      (''event_losses'', COLD_START_VARIANCES V_p_event + COLD_START_VARIANCES V_disutility),
      (''review_cost'', COLD_START_VARIANCES V_review_cost),
      (''scenario_variance'', COLD_START_VARIANCES V_scenario_variance)]"

definition resolve_utility_variance ::
  "real dict option \<Rightarrow> variance_inputs \<Rightarrow> real dict \<times> real \<times> string" where
  "resolve_utility_variance explicit_breakdown vi =
     (case explicit_breakdown of
        Some (kv # kvs) \<Rightarrow> (kv # kvs, sum_list (map snd (kv # kvs)), ''explicit'')
      | _ \<Rightarrow>
        (case (vi_benefit vi, vi_p_success vi) of
           (Some benefit, Some p_success) \<Rightarrow>
             (let breakdown = first_order_breakdown vi benefit p_success
              in (breakdown, sum_list (map snd breakdown), ''first_order''))
         | _ \<Rightarrow> (cold_start_breakdown, COLD_START_UTILITY_VARIANCE, ''cold_start'')))"

lemma clamp_unit_clamp: "clamp_unit x = clamp 0 1 x"
  by (simp add: clamp_unit_def clamp_def)

lemma variance_from_confidence_bounds:
  "0 \<le> variance_from_confidence c \<and> variance_from_confidence c \<le> 1 / 4"
proof -
  let ?u = "(1 - clamp_unit c) / 2"
  have "0 \<le> ?u \<and> ?u \<le> 1 / 2" by (auto simp: clamp_unit_def)
  then have "?u ^ 2 \<le> (1 / 2) ^ 2" by (intro power_mono) auto
  then show ?thesis by (simp add: variance_from_confidence_def power2_eq_square)
qed

lemma component_variance_nonneg [simp]: "0 \<le> component_variance s c k"
  using variance_from_confidence_bounds COLD_START_VARIANCES_pos [of k]
  by (auto simp: component_variance_def split: option.splits intro: less_imp_le)

lemma resolve_utility_variance_total:
  "resolve_utility_variance eb vi = (breakdown, tot, src) \<Longrightarrow> tot = sum_list (map snd breakdown)"
  by (auto simp: resolve_utility_variance_def cold_start_breakdown_def Let_def
        COLD_START_UTILITY_VARIANCE_def split: option.splits list.splits)

lemma first_order_total_nonneg:
  assumes "case vi_event_variance vi of None \<Rightarrow> True | Some v \<Rightarrow> 0 \<le> v"
    and "case vi_scenario_variance vi of None \<Rightarrow> True | Some v \<Rightarrow> 0 \<le> v"
  shows "0 \<le> sum_list (map snd (first_order_breakdown vi b p))"
  using assms
  by (auto simp: first_order_breakdown_def Let_def split: option.splits
      intro!: add_nonneg_nonneg mult_nonneg_nonneg)

lemma component_variance_le:
  assumes "case supplied of None \<Rightarrow> True | Some v \<Rightarrow> v \<le> m" and "1 \<le> m"
  shows "component_variance supplied confidence k \<le> m"
proof -
  have "COLD_START_VARIANCES k \<le> 1" by (cases k) simp_all
  then have "COLD_START_VARIANCES k \<le> m" using assms(2) by simp
  moreover have "variance_from_confidence c \<le> m" for c
    using variance_from_confidence_bounds [of c] assms(2) by simp
  ultimately show ?thesis
    using assms(1) by (auto simp: component_variance_def split: option.splits)
qed

text \<open>The terms of the propagated breakdown are not negative and at most these.\<close>

lemma first_order_terms:
  assumes "vi_scenario_variance vi = None" and "vi_event_variance vi = Some ev" and "0 \<le> ev"
    and "\<bar>b\<bar> \<le> 1" and "case vi_var_p_success vi of None \<Rightarrow> True | Some v \<Rightarrow> v \<le> m"
    and "case vi_var_benefit vi of None \<Rightarrow> True | Some v \<Rightarrow> v \<le> 1"
    and "case vi_var_review_cost vi of None \<Rightarrow> True | Some v \<Rightarrow> v \<le> m" and "1 \<le> m"
  shows "(\<Sum>x\<leftarrow>map snd (first_order_breakdown vi b p). \<bar>x\<bar>) \<le> 2 * m + p\<^sup>2 + ev + 1"
proof -
  let ?p = "component_variance (vi_var_p_success vi) (vi_p_success_confidence vi) V_p_success"
  let ?b = "component_variance (vi_var_benefit vi) (vi_benefit_confidence vi) V_benefit"
  let ?r = "component_variance (vi_var_review_cost vi) (vi_review_cost_confidence vi) V_review_cost"
  have "b\<^sup>2 \<le> 1" using assms(4) by (simp add: abs_square_le_1)
  then have "b\<^sup>2 * ?p \<le> 1 * m"
    using component_variance_le [OF assms(5,8)] assms(8) by (intro mult_mono) auto
  moreover have "p\<^sup>2 * ?b \<le> p\<^sup>2 * 1"
    using component_variance_le [OF assms(6)] by (intro mult_left_mono) auto
  moreover have "?r \<le> m" by (rule component_variance_le [OF assms(7,8)])
  moreover have "(\<Sum>x\<leftarrow>map snd (first_order_breakdown vi b p). \<bar>x\<bar>) \<le> b\<^sup>2 * ?p + p\<^sup>2 * ?b + ev + ?r + 1"
    using assms(1,2,3) by (simp add: first_order_breakdown_def Let_def abs_mult)
  ultimately show ?thesis by linarith
qed

section \<open>variance_bounds\<close>

record bounded_variance =
  bv_epistemic_variance :: real
  bv_aleatoric_variance :: "real option"
  bv_applied_variance :: real
  bv_variance_floor :: real
  bv_variance_cap :: real

fun nonneg_finite :: "pyfloat \<Rightarrow> bool" where
  "nonneg_finite (Fin x) = (0 \<le> x)"
| "nonneg_finite _ = False"

fun fin_value :: "pyfloat \<Rightarrow> real" where
  "fin_value (Fin x) = x"
| "fin_value _ = 0"

definition bound_predictive_variance ::
  "variance_component \<Rightarrow> pyfloat \<Rightarrow> pyfloat option \<Rightarrow> pyfloat \<Rightarrow> bounded_variance res" where
  "bound_predictive_variance component epistemic aleatoric ratio =
     (if \<not> nonneg_finite epistemic
      then Inl (ValueError ''epistemic_variance must be finite and nonnegative'')
      else if (case aleatoric of None \<Rightarrow> False | Some a \<Rightarrow> \<not> nonneg_finite a)
      then Inl (ValueError ''aleatoric_variance must be finite and nonnegative'')
      else if \<not> is_finite_float ratio \<or> \<not> (0 \<le> fin_value ratio \<and> fin_value ratio \<le> 1)
      then Inl (ValueError ''floor_ratio must be finite and between 0 and 1'')
      else
        let cap = COLD_START_VARIANCES component;
            floor = cap * fin_value ratio;
            applied = (case aleatoric of
                         None \<Rightarrow> cap
                       | Some a \<Rightarrow> max floor (min cap (fin_value epistemic + fin_value a)))
        in Inr \<lparr>bv_epistemic_variance = fin_value epistemic,
                bv_aleatoric_variance = map_option fin_value aleatoric,
                bv_applied_variance = applied,
                bv_variance_floor = floor,
                bv_variance_cap = cap\<rparr>)"

lemma bound_predictive_variance_within:
  assumes "bound_predictive_variance c e a r = Inr b"
  shows "bv_variance_floor b \<le> bv_applied_variance b \<and> bv_applied_variance b \<le> bv_variance_cap b
    \<and> bv_variance_cap b = COLD_START_VARIANCES c \<and> 0 \<le> bv_variance_floor b"
proof -
  have r: "0 \<le> fin_value r" "fin_value r \<le> 1"
    using assms by (auto simp: bound_predictive_variance_def Let_def split: if_splits)
  have "COLD_START_VARIANCES c * fin_value r \<le> COLD_START_VARIANCES c * 1"
    using r COLD_START_VARIANCES_pos [of c] by (intro mult_left_mono) auto
  moreover have "0 \<le> COLD_START_VARIANCES c * fin_value r"
    using r COLD_START_VARIANCES_pos [of c] by (intro mult_nonneg_nonneg) auto
  ultimately show ?thesis
    using assms
    by (auto simp: bound_predictive_variance_def Let_def split: if_splits option.splits)
qed

section \<open>confidence_gate\<close>

record confidence_result =
  cf_band :: string
  cf_requires_evidence :: bool
  cf_edit_confidence :: real

definition confidence_gate :: "real \<Rightarrow> real dict \<Rightarrow> confidence_result" where
  "confidence_gate ec thresholds =
     (let high = dict_get thresholds ''high_edit_confidence'' 0.75;
          low = dict_get thresholds ''low_edit_confidence'' 0.50
      in if ec \<ge> high
         then \<lparr>cf_band = ''high'', cf_requires_evidence = False, cf_edit_confidence = ec\<rparr>
         else if ec \<ge> low
         then \<lparr>cf_band = ''medium'', cf_requires_evidence = True, cf_edit_confidence = ec\<rparr>
         else \<lparr>cf_band = ''low'', cf_requires_evidence = True, cf_edit_confidence = ec\<rparr>)"

lemma confidence_gate_high_iff:
  "cf_band (confidence_gate ec t) = ''high'' \<longleftrightarrow> dict_get t ''high_edit_confidence'' 0.75 \<le> ec"
  by (simp add: confidence_gate_def Let_def)

lemma confidence_gate_evidence:
  "cf_requires_evidence (confidence_gate ec t) \<longleftrightarrow> cf_band (confidence_gate ec t) \<in> {''low'', ''medium''}"
  by (simp add: confidence_gate_def Let_def)

section \<open>Properties\<close>

text \<open>The edit confidence is the geometric mean of its six factors: it is returned exactly when
  every factor is present and in \<open>(0, 1]\<close>, and then it lies between the smallest and the largest
  factor; otherwise the call raises.\<close>

theorem edit_confidence_contract:
  "(\<exists>c. edit_confidence factors = Inr c) = confidence_factors_valid factors
    \<and> (\<forall>c. edit_confidence factors = Inr c \<longrightarrow>
        Min ((\<lambda>f. dict_get factors f 0) ` set EDIT_CONFIDENCE_FACTORS) \<le> c
        \<and> c \<le> Max ((\<lambda>f. dict_get factors f 0) ` set EDIT_CONFIDENCE_FACTORS))"
proof (intro conjI allI impI)
  show "(\<exists>c. edit_confidence factors = Inr c) = confidence_factors_valid factors"
    using edit_confidence_is_ok_iff [of factors] by (simp add: is_ok_iff)
next
  fix c assume c: "edit_confidence factors = Inr c"
  let ?V = "(\<lambda>f. dict_get factors f 0) ` set EDIT_CONFIDENCE_FACTORS"
  have valid: "confidence_factors_valid factors"
    using c edit_confidence_is_ok_iff [of factors] by simp
  have V: "finite ?V" "?V \<noteq> {}" by (simp_all add: EDIT_CONFIDENCE_FACTORS_def)
  then have "0 < Min ?V" using valid by (simp add: confidence_factors_valid_def)
  with edit_confidence_between [OF c, of "Min ?V" "Max ?V"] V
  show "Min ?V \<le> c" and "c \<le> Max ?V" by simp_all
qed

lemma edit_confidence_contract_witness:
  "\<exists>c. edit_confidence (map (\<lambda>f. (f, 1 / 2)) EDIT_CONFIDENCE_FACTORS) = Inr c \<and> c = 1 / 2"
proof -
  let ?d = "map (\<lambda>f. (f, 1 / 2 :: real)) EDIT_CONFIDENCE_FACTORS"
  have "confidence_factors_valid ?d"
    by (simp add: confidence_factors_valid_def EDIT_CONFIDENCE_FACTORS_def)
  then obtain c where c: "edit_confidence ?d = Inr c"
    using edit_confidence_contract [of ?d] by blast
  have "(\<lambda>f. dict_get ?d f 0) ` set EDIT_CONFIDENCE_FACTORS = {1 / 2}"
    by (simp add: EDIT_CONFIDENCE_FACTORS_def)
  with c edit_confidence_contract [of ?d] have "1 / 2 \<le> c \<and> c \<le> 1 / 2" by simp
  with c show ?thesis by auto
qed

text \<open>The percentile rank, a binary search in the source, is the share of the distribution that is
  not above the value.\<close>

theorem fractional_rank_is_share:
  assumes "sorted d" and "d \<noteq> []"
  shows "fractional_rank v d = real (length (filter (\<lambda>x. x \<le> v) d)) / real (length d)"
  using assms by (simp add: fractional_rank_def bisect_right_count)

lemma fractional_rank_is_share_witness: "fractional_rank 3 [1, 3, 3, 7] = 3 / 4"
  using fractional_rank_is_share [of "[1, 3, 3, 7]" 3] by simp

text \<open>A learned variance can narrow the cold-start variance of its component but never widen it,
  and never falls below the floor; malformed variances and ratios are rejected.\<close>

theorem predictive_variance_bounded:
  assumes "bound_predictive_variance c e a r = Inr b"
  shows "bv_variance_floor b \<le> bv_applied_variance b \<and> bv_applied_variance b \<le> COLD_START_VARIANCES c
    \<and> 0 \<le> bv_variance_floor b \<and> nonneg_finite e \<and> (\<forall>x. a = Some x \<longrightarrow> nonneg_finite x)"
proof -
  have "nonneg_finite e \<and> (\<forall>x. a = Some x \<longrightarrow> nonneg_finite x)"
    using assms by (auto simp: bound_predictive_variance_def split: if_splits)
  with bound_predictive_variance_within [OF assms] show ?thesis by simp
qed

lemma predictive_variance_bounded_witness:
  "\<exists>b. bound_predictive_variance V_p_success (Fin 0.01) (Some (Fin 0.02)) (Fin 0.1) = Inr b
    \<and> bv_applied_variance b \<le> COLD_START_VARIANCES V_p_success"
proof -
  obtain b where b: "bound_predictive_variance V_p_success (Fin 0.01) (Some (Fin 0.02)) (Fin 0.1) = Inr b"
    by (simp add: bound_predictive_variance_def Let_def)
  from predictive_variance_bounded [OF b] b show ?thesis by blast
qed

end
