(* ===== verification/Pebra_Aggregation.thy ===== *)
theory Pebra_Aggregation
  imports Pebra_Models Pebra_Score_Math Pebra_Patch_Paths "HOL-Library.Product_Lexorder" "HOL-Library.Multiset"
begin

text \<open>
  \<open>pebra/core/candidate_aggregation.py\<close>, \<open>file_risk_aggregation.py\<close>, \<open>benefit_aggregation.py\<close> and
  \<open>benefit_model.py\<close>: how the evidence about the owners and files of one candidate is combined, and
  the benefit term. The set of touched files comes from the patch parser, so the aggregation of a
  candidate can raise where \<open>touched_files\<close> does.
\<close>

section \<open>candidate_aggregation\<close>

definition BREADTH_CAP :: real where "BREADTH_CAP = 0.08"

definition strip_slashes :: "string \<Rightarrow> string" where
  "strip_slashes s =
     rev (dropWhile (\<lambda>c. c = CHR ''/'') (rev (dropWhile (\<lambda>c. c = CHR ''/'') s)))"

definition domain_of_path :: "string \<Rightarrow> string" where
  "domain_of_path path =
     (let normalized = strip_slashes (slashes path)
      in if CHR ''/'' \<in> set normalized then before_char (CHR ''/'') normalized else ''.'')"

definition owner_exposure :: "owner_risk_evidence \<Rightarrow> real" where
  "owner_exposure owner =
     max 0 (min 1 (max (max (ow_fan_in_percentile owner) (ow_impact_percentile owner))
                       (ow_transitive_impact_percentile owner)))"

fun max_default :: "real \<Rightarrow> real list \<Rightarrow> real" where
  "max_default d [] = d"
| "max_default d (x # xs) = fold max xs x"

definition owner_weight :: "owner_risk_evidence \<Rightarrow> real" where
  "owner_weight owner =
     (let impacted = sorted_set (ow_impacted_node_ids owner)
      in if impacted \<noteq> [] then real (length impacted) else 1)"

fun accumulate_owners ::
  "string list \<Rightarrow> real \<Rightarrow> real \<Rightarrow> owner_risk_evidence list \<Rightarrow> string list \<times> real \<times> real" where
  "accumulate_owners impacted weighted_total weight_total [] = (impacted, weighted_total, weight_total)"
| "accumulate_owners impacted weighted_total weight_total (owner # owners) =
     accumulate_owners (sorted_set (impacted @ ow_impacted_node_ids owner))
       (weighted_total + owner_exposure owner * owner_weight owner)
       (weight_total + owner_weight owner) owners"

definition log2_count :: "nat \<Rightarrow> real" where
  "log2_count n = log 2 (real (max 1 n))"

definition candidate_breadth :: "nat \<Rightarrow> nat \<Rightarrow> nat \<Rightarrow> nat \<Rightarrow> real" where
  "candidate_breadth owners files domains public_owners =
     0.025 * log2_count owners + 0.020 * log2_count files
     + 0.010 * of_int (max 0 (int domains - 1)) + 0.010 * of_int (max 0 (int public_owners - 1))"

definition union_exposure :: "fanin_evidence option \<Rightarrow> real" where
  "union_exposure fanin =
     (case fanin of
        None \<Rightarrow> 0
      | Some f \<Rightarrow>
          let a = 0;
              a = (if fi_symbol_caller_count f > 0 then max a (fi_symbol_fan_in_percentile f) else a);
              a = (if fi_modify_impact_count f > 0 then max a (fi_modify_impact_percentile f) else a)
          in if fi_modify_transitive_impact_count f > 0
             then max a (fi_modify_transitive_impact_percentile f) else a)"

definition sorted_owners :: "fanin_evidence option \<Rightarrow> owner_risk_evidence list" where
  "sorted_owners fanin =
     sort_key ow_node_id (case fanin of None \<Rightarrow> [] | Some f \<Rightarrow> fi_owner_risk f)"

definition aggregate_of_files ::
  "string list \<Rightarrow> candidate_action \<Rightarrow> fanin_evidence option \<Rightarrow> candidate_aggregate_evidence" where
  "aggregate_of_files touched action fanin =
     (let owners = sorted_owners fanin;
          resolved_files = sorted_set (map (slashes \<circ> ow_file_path)
            (filter (\<lambda>o'. ow_file_path o' \<noteq> []) owners));
          files = sorted_set (map slashes (filter (\<lambda>f. f \<noteq> []) (ca_expected_files action))
                              @ touched @ resolved_files);
          languages = sorted_set (filter (\<lambda>l. l \<noteq> []) (map ow_language owners));
          domains = sorted_set (map domain_of_path files);
          (impacted, weighted_total, weight_total) = accumulate_owners [] 0 0 owners;
          max_exposure = max_default 0 (map owner_exposure owners);
          public_count = length (filter ow_is_public_contract owners);
          breadth = candidate_breadth (length owners) (length files) (length domains) public_count;
          file_count = length files;
          resolved_count = (if files \<noteq> [] then length (filter (\<lambda>f. f \<in> set files) resolved_files)
                            else length resolved_files)
      in \<lparr>cg_file_count = int file_count,
          cg_resolved_file_count = int resolved_count,
          cg_unresolved_file_count = max 0 (int file_count - int resolved_count),
          cg_owner_count = int (length owners),
          cg_languages = languages,
          cg_domain_count = int (length domains),
          cg_impacted_node_count = int (length impacted),
          cg_public_contract_count = int public_count,
          cg_changed_owner_edge_count =
            (case fanin of None \<Rightarrow> 0 | Some f \<Rightarrow> fi_changed_owner_edge_count f),
          cg_max_owner_exposure = max_exposure,
          cg_weighted_owner_exposure =
            (if weight_total \<noteq> 0 then weighted_total / weight_total else 0),
          cg_cumulative_exposure = max max_exposure (min 1 (union_exposure fanin)),
          cg_breadth_bonus = min BREADTH_CAP (max 0 breadth),
          cg_resolution_coverage =
            (if file_count \<noteq> 0 then real resolved_count / real file_count else 0)\<rparr>)"

definition aggregate_candidate ::
  "candidate_action \<Rightarrow> fanin_evidence option \<Rightarrow> candidate_aggregate_evidence res" where
  "aggregate_candidate action fanin =
     rbind (touched_files (case ca_proposed_patch action of None \<Rightarrow> [] | Some p \<Rightarrow> p))
       (\<lambda>touched. Inr (aggregate_of_files touched action fanin))"

section \<open>file_risk_aggregation\<close>

definition unresolved_text :: "nat \<Rightarrow> nat \<Rightarrow> string" where
  "unresolved_text n m = show_nat n @ '' of '' @ show_nat m @ '' file rollups unresolved''"

definition rollup_key :: "file_fanin_rollup \<Rightarrow> real \<times> int" where
  "rollup_key r = (fr_percentile r, fr_distinct_caller_count r)"

definition max_int_default :: "int list \<Rightarrow> int" where
  "max_int_default xs = (case xs of [] \<Rightarrow> 0 | y # ys \<Rightarrow> fold max ys y)"

definition aggregate_file_rollups :: "file_fanin_rollup list \<Rightarrow> file_fanin_rollup" where
  "aggregate_file_rollups rollups =
     (if rollups = [] then default_file_rollup\<lparr>fr_file_count := 0\<rparr>
      else
        (case filter (\<lambda>r. fr_resolution_method r \<noteq> ''unresolved'') rollups of
           [] \<Rightarrow> default_file_rollup\<lparr>fr_file_count := int (length rollups),
                   fr_fallback_reason := Some (unresolved_text (length rollups) (length rollups))\<rparr>
         | r # rs \<Rightarrow>
             let trusted = r # rs;
                 hottest = first_max rollup_key r rs;
                 callers = sorted_set (concat (map fr_caller_node_ids trusted));
                 max_known_callers = max_int_default (map fr_distinct_caller_count trusted);
                 breadth = min BREADTH_CAP (0.02 * log2_count (length rollups));
                 unresolved = length rollups - length trusted
             in \<lparr>fr_max_caller_count = max_int_default (map fr_max_caller_count trusted),
                 fr_distinct_caller_count = max max_known_callers (int (length callers)),
                 fr_symbol_count = sum_list (map fr_symbol_count trusted),
                 fr_percentile = fr_percentile hottest,
                 fr_resolution_method = ''file_location'',
                 fr_graph_freshness = fr_graph_freshness hottest,
                 fr_fallback_reason =
                   (if unresolved \<noteq> 0 then Some (unresolved_text unresolved (length rollups)) else None),
                 fr_caller_node_ids = callers,
                 fr_file_count = int (length rollups),
                 fr_cumulative_breadth_bonus = breadth\<rparr>))"

section \<open>benefit_aggregation\<close>

definition file_multiplier :: "real \<Rightarrow> real" where
  "file_multiplier raw_weight =
     (let weight = max 0 raw_weight in if weight > 0 then 1 + weight / (weight + 10) else 1)"

definition aggregate_file_deltas :: "(real \<times> real \<times> real) dict \<Rightarrow> real dict" where
  "aggregate_file_deltas file_deltas =
     (let paths = sort (map fst file_deltas);
          ordered = map (\<lambda>p. dict_get file_deltas p (0, 0, 0)) paths;
          complexity = (\<Sum>(cc, mi, w)\<leftarrow>ordered. cc)
      in (case ordered of
            [] \<Rightarrow> []
          | [(cc, mi, w)] \<Rightarrow>
              [(''complexity_delta'', complexity), (''maintainability_index_delta'', mi)]
          | _ \<Rightarrow>
              if list_all (\<lambda>(cc, mi, w). w \<le> 0) ordered
              then [(''complexity_delta'', complexity),
                    (''maintainability_index_delta'',
                     (\<Sum>(cc, mi, w)\<leftarrow>ordered. mi) / real (length ordered))]
              else [(''complexity_delta'', complexity),
                    (''maintainability_index_delta'',
                     (\<Sum>(cc, mi, w)\<leftarrow>ordered. mi * file_multiplier w))]))"

section \<open>benefit_model\<close>

definition METRIC_DIRECTION :: "real dict" where
  "METRIC_DIRECTION = [
     (''complexity_delta'', -1), (''coupling_delta'', -1), (''duplication_delta'', -1),
     (''api_surface_delta'', -1), (''technical_debt_interest_delta'', -1), (''recurrence_delta'', -1),
     (''maintainability_index_delta'', 1), (''testability_delta'', 1), (''cohesion_delta'', 1),
     (''modularity_delta'', 1), (''encapsulation_delta'', 1), (''observability_delta'', 1),
     (''operability_delta'', 1), (''analyzability_delta'', 1), (''modifiability_delta'', 1),
     (''reusability_delta'', 1), (''portability_delta'', 1)]"

definition PROJECTED_BENEFIT_VARIANCE :: real where "PROJECTED_BENEFIT_VARIANCE = 0.04"
definition MEASURED_BENEFIT_VARIANCE :: real where "MEASURED_BENEFIT_VARIANCE = 0.0004"
definition BENEFIT_OVERRIDE_MAX :: real where "BENEFIT_OVERRIDE_MAX = 1"

record benefit_breakdown =
  bb_immediate_benefit :: real
  bb_maintainability_gain :: real
  bb_credited_maintainability_gain :: real
  bb_benefit :: real
  bb_benefit_variance :: real
  bb_source_type :: string
  bb_component_provenance :: "pyval dict list"

definition unit_benefit :: "pyval \<Rightarrow> real" where
  "unit_benefit value =
     (if \<not> finite_number value then 0
      else max 0 (min BENEFIT_OVERRIDE_MAX (number_value value)))"

fun gain_signals :: "pyval dict \<Rightarrow> real list" where
  "gain_signals [] = []"
| "gain_signals ((metric, value) # deltas) =
     (case map_of METRIC_DIRECTION metric of
        None \<Rightarrow> gain_signals deltas
      | Some direction \<Rightarrow>
          if \<not> finite_number value then gain_signals deltas
          else direction * number_value value / (1 + \<bar>number_value value\<bar>) # gain_signals deltas)"

definition maintainability_gain :: "pyval dict \<Rightarrow> pyval \<Rightarrow> real" where
  "maintainability_gain deltas future_change_exposure =
     (let signals = gain_signals deltas
      in if signals = [] then 0
         else if \<not> finite_number future_change_exposure then 0
         else max 0 (min 1 (number_value future_change_exposure))
              * (sum_list signals / real (length signals)))"

definition component_provenance :: "string \<Rightarrow> pyval dict list" where
  "component_provenance source_type =
     map (\<lambda>c. [(''component'', VStr c), (''source_type'', VStr source_type), (''provider'', VStr ''pebra'')])
       [''immediate_benefit'', ''maintainability_gain'']"

definition benefit_variance_of :: "string \<Rightarrow> pyval option \<Rightarrow> real" where
  "benefit_variance_of source_type variance_override =
     (case variance_override of
        None \<Rightarrow> if source_type = ''measured'' then MEASURED_BENEFIT_VARIANCE
                 else PROJECTED_BENEFIT_VARIANCE
      | Some v \<Rightarrow>
          if \<not> finite_number v \<or> number_value v < 0 then PROJECTED_BENEFIT_VARIANCE
          else min PROJECTED_BENEFIT_VARIANCE (number_value v))"

definition resolve_benefit ::
  "pyval \<Rightarrow> pyval dict \<Rightarrow> string \<Rightarrow> pyval \<Rightarrow> pyval option \<Rightarrow> benefit_breakdown" where
  "resolve_benefit immediate_benefit deltas source_type future_change_exposure variance_override =
     (let bounded_immediate = unit_benefit immediate_benefit;
          gain = maintainability_gain deltas future_change_exposure;
          credited = (if source_type = ''projected'' then 0 else gain)
      in \<lparr>bb_immediate_benefit = bounded_immediate,
          bb_maintainability_gain = gain,
          bb_credited_maintainability_gain = credited,
          bb_benefit = unit_benefit (vreal (bounded_immediate + credited)),
          bb_benefit_variance = benefit_variance_of source_type variance_override,
          bb_source_type = source_type,
          bb_component_provenance = component_provenance source_type\<rparr>)"

section \<open>Bounds of the aggregates\<close>

lemma owner_exposure_bounds: "0 \<le> owner_exposure w \<and> owner_exposure w \<le> 1"
  by (simp add: owner_exposure_def)

lemma owner_weight_ge_1: "1 \<le> owner_weight w"
proof -
  have "1 \<le> real (length xs)" if "xs \<noteq> []" for xs :: "string list"
    using that by (cases xs) auto
  then show ?thesis by (simp add: owner_weight_def Let_def)
qed

lemma fold_max_ge:
  fixes x :: "'a::linorder"
  shows "y \<in> set (x # xs) \<Longrightarrow> y \<le> fold max xs x"
proof (induction xs arbitrary: x y)
  case (Cons z zs)
  have "max z x \<le> fold max zs (max z x)" by (rule Cons.IH) simp
  with Cons.IH [of y "max z x"] Cons.prems show ?case by auto
qed simp

lemma fold_max_in:
  fixes x :: "'a::linorder"
  shows "fold max xs x \<in> set (x # xs)"
proof (induction xs arbitrary: x)
  case (Cons z zs)
  then show ?case using Cons [of "max z x"] by (auto simp: max_def split: if_splits)
qed simp

lemma max_default_ge: "y \<in> set xs \<Longrightarrow> y \<le> max_default d xs"
  using fold_max_ge [of y] by (cases xs) auto

lemma max_default_in: "xs \<noteq> [] \<Longrightarrow> max_default d xs \<in> set xs"
  using fold_max_in by (cases xs) auto

lemma max_default_bounds:
  assumes "\<And>y. y \<in> set xs \<Longrightarrow> lo \<le> y \<and> y \<le> hi" and "lo \<le> d" and "d \<le> hi"
  shows "lo \<le> max_default d xs \<and> max_default d xs \<le> hi"
  using assms max_default_in [of xs d] by (cases "xs = []") auto

lemma max_int_default_ge: "y \<in> set xs \<Longrightarrow> y \<le> max_int_default xs"
  using fold_max_ge [of y] by (cases xs) (auto simp: max_int_default_def)

lemma accumulate_owners_eq:
  "accumulate_owners imp wt tot owners =
     (fold (\<lambda>w i. sorted_set (i @ ow_impacted_node_ids w)) owners imp,
      wt + (\<Sum>w\<leftarrow>owners. owner_exposure w * owner_weight w),
      tot + (\<Sum>w\<leftarrow>owners. owner_weight w))"
  by (induction owners arbitrary: imp wt tot) simp_all

lemma weighted_mean_bounds:
  assumes "\<And>w. w \<in> set ws \<Longrightarrow> 0 \<le> f w \<and> f w \<le> m" and "\<And>w. w \<in> set ws \<Longrightarrow> (0 :: real) < g w"
    and "0 \<le> m"
  shows "0 \<le> (\<Sum>w\<leftarrow>ws. f w * g w) / (\<Sum>w\<leftarrow>ws. g w) \<and> (\<Sum>w\<leftarrow>ws. f w * g w) / (\<Sum>w\<leftarrow>ws. g w) \<le> m"
proof -
  have g: "\<And>w. w \<in> set ws \<Longrightarrow> 0 \<le> g w" using assms(2) less_imp_le by blast
  then have num: "0 \<le> (\<Sum>w\<leftarrow>ws. f w * g w)" and den: "0 \<le> (\<Sum>w\<leftarrow>ws. g w)"
    using assms(1) by (simp_all add: sum_list_nonneg_real)
  have "(\<Sum>w\<leftarrow>ws. f w * g w) \<le> (\<Sum>w\<leftarrow>ws. m * g w)"
    using assms(1) g by (intro sum_list_le_real mult_right_mono) simp_all
  then have "(\<Sum>w\<leftarrow>ws. f w * g w) \<le> m * (\<Sum>w\<leftarrow>ws. g w)"
    by (simp add: sum_list_const_mult)
  with num den \<open>0 \<le> m\<close> show ?thesis
    by (cases "(\<Sum>w\<leftarrow>ws. g w) = 0") (simp_all add: divide_le_eq)
qed

lemma log2_count_nonneg: "0 \<le> log2_count n"
  by (simp add: log2_count_def)

lemma log2_count_mono: "n \<le> m \<Longrightarrow> log2_count n \<le> log2_count m"
  by (simp add: log2_count_def)

lemma candidate_breadth_nonneg: "0 \<le> candidate_breadth a b c d"
  using log2_count_nonneg [of a] log2_count_nonneg [of b] by (simp add: candidate_breadth_def)

lemma candidate_breadth_mono:
  assumes "a \<le> a'" "b \<le> b'" "c \<le> c'" "d \<le> d'"
  shows "candidate_breadth a b c d \<le> candidate_breadth a' b' c' d'"
  unfolding candidate_breadth_def
  by (intro add_mono mult_left_mono log2_count_mono) (use assms in \<open>auto simp: of_int_le_iff\<close>)

lemma candidate_breadth_identity: "candidate_breadth 1 1 1 d = 0.010 * of_int (max 0 (int d - 1))"
  by (simp add: candidate_breadth_def log2_count_def)

definition aggregate_ok :: "candidate_aggregate_evidence \<Rightarrow> bool" where
  "aggregate_ok agg \<longleftrightarrow>
     0 \<le> cg_breadth_bonus agg \<and> cg_breadth_bonus agg \<le> BREADTH_CAP
     \<and> 0 \<le> cg_max_owner_exposure agg \<and> cg_max_owner_exposure agg \<le> cg_cumulative_exposure agg
     \<and> cg_cumulative_exposure agg \<le> 1
     \<and> 0 \<le> cg_weighted_owner_exposure agg
     \<and> cg_weighted_owner_exposure agg \<le> cg_max_owner_exposure agg
     \<and> 0 \<le> cg_resolution_coverage agg \<and> cg_resolution_coverage agg \<le> 1
     \<and> cg_resolved_file_count agg + cg_unresolved_file_count agg = cg_file_count agg"

lemma resolved_files_count:
  assumes "distinct rs" and "set rs \<subseteq> set files" and "distinct files"
  shows "length (filter (\<lambda>f. f \<in> set files) rs) = length rs" and "length rs \<le> length files"
proof -
  show "length (filter (\<lambda>f. f \<in> set files) rs) = length rs"
    using assms(2) by (simp add: subset_eq filter_id_conv)
  show "length rs \<le> length files"
    using assms by (metis card_mono distinct_card finite_set)
qed

lemma max_owner_exposure_bounds:
  "0 \<le> max_default 0 (map owner_exposure ws) \<and> max_default 0 (map owner_exposure ws) \<le> 1"
  by (rule max_default_bounds) (use owner_exposure_bounds in auto)

lemma weighted_exposure_bounds:
  "0 \<le> (\<Sum>w\<leftarrow>ws. owner_exposure w * owner_weight w) / (\<Sum>w\<leftarrow>ws. owner_weight w)
   \<and> (\<Sum>w\<leftarrow>ws. owner_exposure w * owner_weight w) / (\<Sum>w\<leftarrow>ws. owner_weight w)
     \<le> max_default 0 (map owner_exposure ws)"
proof (rule weighted_mean_bounds)
  fix w assume "w \<in> set ws"
  then show "0 \<le> owner_exposure w \<and> owner_exposure w \<le> max_default 0 (map owner_exposure ws)"
    using owner_exposure_bounds [of w] by (auto intro: max_default_ge)
  show "0 < owner_weight w" using owner_weight_ge_1 [of w] by simp
qed (use max_owner_exposure_bounds in simp)

lemma aggregate_of_files_ok: "aggregate_ok (aggregate_of_files touched action fanin)"
proof -
  let ?owners = "sorted_owners fanin"
  define rs where "rs = sorted_set (map (slashes \<circ> ow_file_path) (filter (\<lambda>o'. ow_file_path o' \<noteq> []) ?owners))"
  define files where
    "files = sorted_set (map slashes (filter (\<lambda>f. f \<noteq> []) (ca_expected_files action)) @ touched @ rs)"
  have rs: "length (filter (\<lambda>f. f \<in> set files) rs) = length rs" "length rs \<le> length files"
    by (rule resolved_files_count; auto simp: files_def rs_def)+
  have empty: "files = [] \<Longrightarrow> rs = []" by (simp add: files_def)
  have cov: "real (length rs) / real (length files) \<le> 1"
    using rs(2) by (simp add: divide_le_eq)
  show ?thesis
    using max_owner_exposure_bounds [of ?owners] weighted_exposure_bounds [of ?owners]
      candidate_breadth_nonneg rs cov empty
    unfolding aggregate_ok_def aggregate_of_files_def Let_def accumulate_owners_eq prod.case
      rs_def [symmetric] files_def [symmetric]
    by (auto simp: BREADTH_CAP_def)
qed

text \<open>The order in which the graph lists the owners does not matter.\<close>

lemma sort_key_eq_of_mset:
  assumes "mset xs = mset ys" and "inj_on f (set xs)"
  shows "sort_key f xs = sort_key f ys"
proof (rule sort_key_inj_key_eq)
  show "inj_on f (set xs)" by (rule assms(2))
qed (use assms(1) in simp_all)

lemma sorted_owners_order_free:
  assumes "mset (fi_owner_risk f) = mset (fi_owner_risk g)" and "inj_on ow_node_id (set (fi_owner_risk f))"
  shows "sorted_owners (Some f) = sorted_owners (Some g)"
  unfolding sorted_owners_def option.case
  by (rule sort_key_eq_of_mset [OF assms])

text \<open>A single owner in a single file adds no breadth beyond its own measure.\<close>

lemma aggregate_file_rollups_bounds:
  "0 \<le> fr_cumulative_breadth_bonus (aggregate_file_rollups rs)
   \<and> fr_cumulative_breadth_bonus (aggregate_file_rollups rs) \<le> BREADTH_CAP"
  using log2_count_nonneg [of "length rs"]
  by (auto simp: aggregate_file_rollups_def Let_def default_file_rollup_def BREADTH_CAP_def
      split: list.splits)

lemma filter_Cons_set:
  "filter P xs = y # ys \<Longrightarrow> set (y # ys) = {x \<in> set xs. P x}"
  by (metis set_filter)

lemma aggregate_file_rollups_hottest:
  assumes "r \<in> set rs" and "fr_resolution_method r \<noteq> ''unresolved''"
  shows "fr_percentile r \<le> fr_percentile (aggregate_file_rollups rs)"
    and "fr_max_caller_count r \<le> fr_max_caller_count (aggregate_file_rollups rs)"
    and "fr_distinct_caller_count r \<le> fr_distinct_caller_count (aggregate_file_rollups rs)"
    and "set (fr_caller_node_ids r) \<subseteq> set (fr_caller_node_ids (aggregate_file_rollups rs))"
proof -
  let ?t = "filter (\<lambda>r. fr_resolution_method r \<noteq> ''unresolved'') rs"
  have r: "r \<in> set ?t" using assms by simp
  then obtain x xs where t: "?t = x # xs" by (cases ?t) auto
  have r': "r \<in> set (x # xs)" using r t by metis
  have agg: "aggregate_file_rollups rs = (let trusted = x # xs;
                 hottest = first_max rollup_key x xs;
                 callers = sorted_set (concat (map fr_caller_node_ids trusted));
                 max_known_callers = max_int_default (map fr_distinct_caller_count trusted);
                 breadth = min BREADTH_CAP (0.02 * log2_count (length rs));
                 unresolved = length rs - length trusted
             in \<lparr>fr_max_caller_count = max_int_default (map fr_max_caller_count trusted),
                 fr_distinct_caller_count = max max_known_callers (int (length callers)),
                 fr_symbol_count = sum_list (map fr_symbol_count trusted),
                 fr_percentile = fr_percentile hottest,
                 fr_resolution_method = ''file_location'',
                 fr_graph_freshness = fr_graph_freshness hottest,
                 fr_fallback_reason =
                   (if unresolved \<noteq> 0 then Some (unresolved_text unresolved (length rs)) else None),
                 fr_caller_node_ids = callers,
                 fr_file_count = int (length rs),
                 fr_cumulative_breadth_bonus = breadth\<rparr>)"
    unfolding aggregate_file_rollups_def t list.case using assms(1) by (intro if_not_P) auto
  have "rollup_key r \<le> rollup_key (first_max rollup_key x xs)"
    by (rule first_max_ge [OF r'])
  then show "fr_percentile r \<le> fr_percentile (aggregate_file_rollups rs)"
    by (auto simp: agg Let_def rollup_key_def less_eq_prod_def)
  show "fr_max_caller_count r \<le> fr_max_caller_count (aggregate_file_rollups rs)"
    unfolding agg Let_def file_fanin_rollup.simps by (rule max_int_default_ge) (use r' in auto)
  have "fr_distinct_caller_count r \<le> max_int_default (map fr_distinct_caller_count (x # xs))"
    by (rule max_int_default_ge) (use r' in auto)
  then show "fr_distinct_caller_count r \<le> fr_distinct_caller_count (aggregate_file_rollups rs)"
    by (simp add: agg Let_def)
  show "set (fr_caller_node_ids r) \<subseteq> set (fr_caller_node_ids (aggregate_file_rollups rs))"
    using r' by (auto simp: agg Let_def)
qed

section \<open>Bounds of the benefit\<close>

lemma unit_benefit_bounds: "0 \<le> unit_benefit v \<and> unit_benefit v \<le> 1"
  by (simp add: unit_benefit_def BENEFIT_OVERRIDE_MAX_def)

lemma signal_bounds:
  fixes x d :: real
  assumes "\<bar>d\<bar> \<le> 1"
  shows "\<bar>d * x / (1 + \<bar>x\<bar>)\<bar> \<le> 1"
proof -
  have "\<bar>d\<bar> * \<bar>x\<bar> \<le> 1 * \<bar>x\<bar>" using assms by (intro mult_right_mono) auto
  then show ?thesis by (simp add: abs_mult divide_le_eq)
qed

lemma METRIC_DIRECTION_abs: "map_of METRIC_DIRECTION m = Some d \<Longrightarrow> \<bar>d\<bar> \<le> 1"
  by (drule map_of_SomeD) (auto simp: METRIC_DIRECTION_def)

lemma gain_signals_bounds: "s \<in> set (gain_signals deltas) \<Longrightarrow> \<bar>s\<bar> \<le> 1"
  by (induction deltas rule: gain_signals.induct)
    (auto split: option.splits if_splits intro: signal_bounds METRIC_DIRECTION_abs)

lemma maintainability_gain_bounds: "\<bar>maintainability_gain deltas e\<bar> \<le> 1"
proof (cases "gain_signals deltas = [] \<or> \<not> finite_number e")
  case True
  then show ?thesis by (auto simp: maintainability_gain_def Let_def)
next
  case False
  let ?s = "gain_signals deltas"
  let ?m = "(1 / real (length ?s)) * (\<Sum>s\<leftarrow>?s. s)"
  have "-1 \<le> ?m \<and> ?m \<le> 1"
    by (rule mean_bounds) (use False gain_signals_bounds in \<open>auto simp: abs_le_iff\<close>)
  then have m: "\<bar>sum_list ?s / real (length ?s)\<bar> \<le> 1" by (simp only: abs_le_iff) simp
  let ?e = "max 0 (min 1 (number_value e))"
  have "\<bar>?e\<bar> * \<bar>sum_list ?s / real (length ?s)\<bar> \<le> 1 * 1"
    by (rule mult_mono) (use m in auto)
  with False show ?thesis by (simp add: maintainability_gain_def Let_def abs_mult)
qed

lemma resolve_benefit_bounds:
  assumes "b = resolve_benefit imm deltas src e vo"
  shows "0 \<le> bb_benefit b \<and> bb_benefit b \<le> 1"
    and "0 \<le> bb_benefit_variance b \<and> bb_benefit_variance b \<le> PROJECTED_BENEFIT_VARIANCE"
    and "\<bar>bb_maintainability_gain b\<bar> \<le> 1"
  using unit_benefit_bounds maintainability_gain_bounds
  by (auto simp: assms resolve_benefit_def Let_def benefit_variance_of_def PROJECTED_BENEFIT_VARIANCE_def
      MEASURED_BENEFIT_VARIANCE_def min_def split: option.splits)

lemma unit_benefit_id: "0 \<le> x \<Longrightarrow> x \<le> 1 \<Longrightarrow> unit_benefit (vreal x) = x"
  by (simp add: unit_benefit_def BENEFIT_OVERRIDE_MAX_def)

lemma resolve_benefit_projected:
  "bb_benefit (resolve_benefit imm deltas ''projected'' e vo) = unit_benefit imm"
  using unit_benefit_bounds [of imm]
  by (simp add: resolve_benefit_def Let_def unit_benefit_id)

lemma resolve_benefit_no_exposure:
  "number_value e \<le> 0 \<Longrightarrow> bb_benefit (resolve_benefit imm deltas src e vo) = unit_benefit imm"
  using unit_benefit_bounds [of imm]
  by (simp add: resolve_benefit_def maintainability_gain_def Let_def unit_benefit_id)

section \<open>Properties\<close>

lemma owner_risk_unused:
  "union_exposure (Some (f\<lparr>fi_owner_risk := x\<rparr>)) = union_exposure (Some f)"
  "fi_changed_owner_edge_count (f\<lparr>fi_owner_risk := x\<rparr>) = fi_changed_owner_edge_count f"
  by (simp_all add: union_exposure_def)

text \<open>The aggregate of a candidate is well-formed: breadth in \<open>[0, 0.08]\<close>, weighted exposure below
  the worst owner's, worst owner below the cumulative exposure, that at most 1, coverage in \<open>[0, 1]\<close>,
  resolved and unresolved files add up; and it does not depend on the order in which the graph lists
  the owners.\<close>

theorem candidate_aggregate_bounded:
  assumes "aggregate_candidate action (Some f) = Inr agg"
    and "mset owners = mset (fi_owner_risk f)" and "inj_on ow_node_id (set (fi_owner_risk f))"
  shows "aggregate_ok agg \<and> aggregate_candidate action (Some (f\<lparr>fi_owner_risk := owners\<rparr>)) = Inr agg"
proof -
  let ?g = "f\<lparr>fi_owner_risk := owners\<rparr>"
  have o: "sorted_owners (Some ?g) = sorted_owners (Some f)"
    using sorted_owners_order_free [OF _ assms(3), of ?g] assms(2) by simp
  have "aggregate_of_files touched action (Some ?g) = aggregate_of_files touched action (Some f)" for touched
    by (simp only: aggregate_of_files_def o owner_risk_unused option.case)
  then show ?thesis
    using assms(1) aggregate_of_files_ok by (auto simp: aggregate_candidate_def rbind_Inr_iff)
qed

definition sample_owner :: "string \<Rightarrow> owner_risk_evidence" where
  "sample_owner n =
     \<lparr>ow_node_id = n, ow_file_path = ''src/a.py'', ow_language = ''python'', ow_qualified_name = n,
      ow_fan_in_percentile = 0.4, ow_impact_percentile = 0.2, ow_transitive_impact_percentile = 0.1,
      ow_impacted_node_ids = [''m''], ow_impact_witnesses = [], ow_is_public_contract = False\<rparr>"

definition sample_patchless_action :: candidate_action where
  "sample_patchless_action =
     \<lparr>ca_id = ''a'', ca_label = ''l'', ca_action_type = ''edit'', ca_proposed_patch = None,
      ca_affected_symbols = [], ca_expected_files = [''src/a.py''], ca_is_dependency_change = False,
      ca_is_schema_change = False, ca_is_migration = False\<rparr>"

lemma touched_files_Nil: "touched_files [] = Inr []"
  by (simp add: touched_files_def splitlines_def splitlines_loop.simps tf_init_def sorted_set_def)

lemma candidate_aggregate_bounded_witness:
  "\<exists>agg. aggregate_ok agg \<and> aggregate_candidate sample_patchless_action
     (Some (default_fanin\<lparr>fi_owner_risk := [sample_owner ''y'', sample_owner ''x'']\<rparr>)) = Inr agg"
proof -
  let ?f = "default_fanin\<lparr>fi_owner_risk := [sample_owner ''x'', sample_owner ''y'']\<rparr>"
  obtain agg where "aggregate_candidate sample_patchless_action (Some ?f) = Inr agg"
    by (simp add: aggregate_candidate_def sample_patchless_action_def touched_files_Nil)
  from candidate_aggregate_bounded [OF this, of "[sample_owner ''y'', sample_owner ''x'']"] show ?thesis
    by (auto simp: sample_owner_def inj_on_def add_mset_commute)
qed

text \<open>The benefit that enters the score is in \<open>[0, 1]\<close> whatever the callers supply (infinities, NaN,
  booleans and unknown metrics included), its variance never exceeds the projected variance, and in
  projected mode maintainability deltas earn nothing.\<close>

theorem benefit_bounded:
  "0 \<le> bb_benefit (resolve_benefit imm deltas src e vo)
   \<and> bb_benefit (resolve_benefit imm deltas src e vo) \<le> 1
   \<and> 0 \<le> bb_benefit_variance (resolve_benefit imm deltas src e vo)
   \<and> bb_benefit_variance (resolve_benefit imm deltas src e vo) \<le> PROJECTED_BENEFIT_VARIANCE
   \<and> bb_benefit (resolve_benefit imm deltas ''projected'' e vo) = unit_benefit imm"
  using resolve_benefit_bounds [OF refl, of imm deltas src e vo] resolve_benefit_projected by simp

end
