(* ===== verification/Pebra_Sha256.thy ===== *)
theory Pebra_Sha256
  imports Pebra_Base "HOL-Library.Word"
begin

text \<open>
  The digest of the standard library that binds evidence to a candidate patch:
  \<open>hashlib.sha256(text.encode("utf-8")).hexdigest()\<close>. It is written out on 32-bit words, so that
  the components that compare digests compute with the function the code computes with. What they
  rely on is that a digest has 64 lower-case hexadecimal characters; nothing assumes that it is
  injective.
\<close>

unbundle bit_operations_syntax

type_synonym u32 = "32 word"

type_synonym hash_state = "u32 \<times> u32 \<times> u32 \<times> u32 \<times> u32 \<times> u32 \<times> u32 \<times> u32"

section \<open>UTF-8 and padding\<close>

text \<open>A string is its UTF-8 bytes already.\<close>

definition utf8_encode :: "string \<Rightarrow> nat list" where
  "utf8_encode s = map of_char s"

definition be_bytes :: "nat \<Rightarrow> nat \<Rightarrow> nat list" where
  "be_bytes k n = map (\<lambda>i. n div 256 ^ i mod 256) (rev [0..<k])"

definition pad_message :: "nat list \<Rightarrow> nat list" where
  "pad_message bs = bs @ [128] @ replicate ((119 - length bs mod 64) mod 64) 0
     @ be_bytes 8 (8 * length bs)"

fun words_of_bytes :: "nat list \<Rightarrow> u32 list" where
  "words_of_bytes (a # b # c # d # bs) =
     of_nat (((a * 256 + b) * 256 + c) * 256 + d) # words_of_bytes bs"
| "words_of_bytes _ = []"

section \<open>The compression function\<close>

text \<open>The fractional parts of the cube roots of the first 64 primes, in units of \<open>2^-32\<close>.\<close>

definition round_constants :: "u32 list" where
  "round_constants =
     [1116352408, 1899447441, 3049323471, 3921009573, 961987163, 1508970993, 2453635748,
      2870763221, 3624381080, 310598401, 607225278, 1426881987, 1925078388, 2162078206,
      2614888103, 3248222580, 3835390401, 4022224774, 264347078, 604807628, 770255983,
      1249150122, 1555081692, 1996064986, 2554220882, 2821834349, 2952996808, 3210313671,
      3336571891, 3584528711, 113926993, 338241895, 666307205, 773529912, 1294757372,
      1396182291, 1695183700, 1986661051, 2177026350, 2456956037, 2730485921, 2820302411,
      3259730800, 3345764771, 3516065817, 3600352804, 4094571909, 275423344, 430227734,
      506948616, 659060556, 883997877, 958139571, 1322822218, 1537002063, 1747873779,
      1955562222, 2024104815, 2227730452, 2361852424, 2428436474, 2756734187, 3204031479,
      3329325298]"

definition small_sigma0 :: "u32 \<Rightarrow> u32" where
  "small_sigma0 x = word_rotr 7 x XOR word_rotr 18 x XOR drop_bit 3 x"

definition small_sigma1 :: "u32 \<Rightarrow> u32" where
  "small_sigma1 x = word_rotr 17 x XOR word_rotr 19 x XOR drop_bit 10 x"

text \<open>The message schedule, most recent word first.\<close>

fun schedule :: "nat \<Rightarrow> u32 list \<Rightarrow> u32 list" where
  "schedule 0 ws = ws"
| "schedule (Suc k) ws =
     schedule k ((small_sigma1 (ws ! 1) + ws ! 6 + small_sigma0 (ws ! 14) + ws ! 15) # ws)"

fun compress_round :: "hash_state \<Rightarrow> u32 \<times> u32 \<Rightarrow> hash_state" where
  "compress_round (a, b, c, d, e, f, g, h) (k, w) =
     (let s1 = word_rotr 6 e XOR word_rotr 11 e XOR word_rotr 25 e;
          ch = (e AND f) XOR (NOT e AND g);
          t1 = h + s1 + ch + k + w;
          s0 = word_rotr 2 a XOR word_rotr 13 a XOR word_rotr 22 a;
          maj = (a AND b) XOR (a AND c) XOR (b AND c);
          t2 = s0 + maj
      in (t1 + t2, a, b, c, d + t1, e, f, g))"

fun add_state :: "hash_state \<Rightarrow> hash_state \<Rightarrow> hash_state" where
  "add_state (a, b, c, d, e, f, g, h) (a', b', c', d', e', f', g', h') =
     (a + a', b + b', c + c', d + d', e + e', f + f', g + g', h + h')"

definition compress :: "hash_state \<Rightarrow> u32 list \<Rightarrow> hash_state" where
  "compress st block =
     add_state st (foldl compress_round st
       (zip round_constants (rev (schedule 48 (rev block)))))"

fun blocks :: "nat \<Rightarrow> u32 list \<Rightarrow> u32 list list" where
  "blocks 0 ws = []"
| "blocks (Suc k) ws = take 16 ws # blocks k (drop 16 ws)"

definition initial_state :: hash_state where
  "initial_state = (0x6a09e667, 0xbb67ae85, 0x3c6ef372, 0xa54ff53a,
     0x510e527f, 0x9b05688c, 0x1f83d9ab, 0x5be0cd19)"

definition sha256_words :: "nat list \<Rightarrow> hash_state" where
  "sha256_words bs =
     (let ws = words_of_bytes (pad_message bs)
      in foldl compress initial_state (blocks (length ws div 16) ws))"

section \<open>The hexadecimal digest\<close>

definition hex_digit :: "nat \<Rightarrow> char" where
  "hex_digit n = (if n < 10 then char_of (48 + n) else char_of (87 + n))"

definition hex_word :: "u32 \<Rightarrow> string" where
  "hex_word w = map (\<lambda>i. hex_digit (unat w div 16 ^ i mod 16)) (rev [0..<8])"

fun state_words :: "hash_state \<Rightarrow> u32 list" where
  "state_words (a, b, c, d, e, f, g, h) = [a, b, c, d, e, f, g, h]"

definition sha256_hex :: "string \<Rightarrow> string" where
  "sha256_hex s = concat (map hex_word (state_words (sha256_words (utf8_encode s))))"

definition is_hex_char :: "char \<Rightarrow> bool" where
  "is_hex_char c = (let n = (of_char c :: nat) in 48 \<le> n \<and> n \<le> 57 \<or> 97 \<le> n \<and> n \<le> 102)"

text \<open>The shape \<open>[0-9a-f]{64}\<close> that the binding contracts test.\<close>

definition is_sha256_digest :: "string \<Rightarrow> bool" where
  "is_sha256_digest d = (length d = 64 \<and> list_all is_hex_char d)"

lemma prod_cases8:
  obtains a b c d e f g h where "(st :: hash_state) = (a, b, c, d, e, f, g, h)"
  by (cases st) auto

lemma length_hex_word [simp]: "length (hex_word w) = 8"
  by (simp add: hex_word_def)

lemma is_hex_char_hex_digit: "n < 16 \<Longrightarrow> is_hex_char (hex_digit n)"
  by (auto simp: is_hex_char_def hex_digit_def Let_def)

lemma list_all_hex_word: "list_all is_hex_char (hex_word w)"
  by (auto simp: hex_word_def list_all_iff intro: is_hex_char_hex_digit)

lemma sha256_hex_is_digest: "is_sha256_digest (sha256_hex s)"
proof -
  obtain a b c d e f g h where "sha256_words (utf8_encode s) = (a, b, c, d, e, f, g, h)"
    by (metis prod_cases8)
  then show ?thesis
    by (simp add: is_sha256_digest_def sha256_hex_def list_all_hex_word)
qed

lemma sha256_hex_not_Nil [simp]: "sha256_hex s \<noteq> []"
  using sha256_hex_is_digest [of s] by (auto simp: is_sha256_digest_def)

text \<open>
  What the evidence gates use of a digest: it is never empty, so a recorded digest is never
  confused with an absent one. A proof carries the digest of the patch it was run against; it is
  honoured for a patch exactly when the two digests are equal.
\<close>

locale patch_digest =
  fixes digest :: "string \<Rightarrow> string"
  assumes digest_not_Nil: "digest p \<noteq> []"
begin

lemma absent_never_bound: "Some [] \<noteq> Some (digest p)"
  using digest_not_Nil [of p] by auto

lemma bound_truthy: "h = Some (digest p) \<Longrightarrow> h \<noteq> None \<and> h \<noteq> Some []"
  using digest_not_Nil [of p] by auto

lemma replay_needs_collision:
  "h = Some (digest p) \<Longrightarrow> h = Some (digest q) \<Longrightarrow> p \<noteq> q \<Longrightarrow> \<not> inj digest"
  by (auto simp: inj_def)

end

interpretation sha256: patch_digest sha256_hex
  by unfold_locales simp

end
