(* ===== verification/Pebra_Candidate_Refinement.thy ===== *)
theory Pebra_Candidate_Refinement
  imports Pebra_Models "HOL-Library.Product_Lexorder" "HOL-Library.Multiset"
begin

text \<open>
  \<open>pebra/core/candidate_refinement.py\<close>: the bounded update of event probabilities by a structural
  fact about the very patch under assessment, and the deterministic ranking of candidates that
  still need refinement.

  A fact applies to an event only when label, risk source and owner set agree exactly, the key is
  unique among the facts and among the events, and the confidence lies in \<open>[0.90, 1]\<close>. The
  dictionary \<open>fact_by_key\<close> and the set \<open>duplicate_keys\<close> are built by the loop of the source.
\<close>

section \<open>Constants and keys\<close>

definition STRUCTURAL_CONTINUITY_MULTIPLIER :: real where "STRUCTURAL_CONTINUITY_MULTIPLIER = 0.35"

definition STRUCTURAL_CONTINUITY_PROBABILITY_FLOOR :: real where
  "STRUCTURAL_CONTINUITY_PROBABILITY_FLOOR = 0.05"

definition STRUCTURAL_CONTINUITY_MIN_CONFIDENCE :: real where
  "STRUCTURAL_CONTINUITY_MIN_CONFIDENCE = 0.90"

definition STRUCTURAL_CONTINUITY_CALIBRATION :: string where
  "STRUCTURAL_CONTINUITY_CALIBRATION = ''multilang_continuity_provisional_v1''"

definition ALLOWED_FACT_SCOPES :: "(string \<times> string) list dict" where
  "ALLOWED_FACT_SCOPES =
     [(''exported_binding_continuity'', [(''public_api_break'', ''graph_modify_risk'')])]"

type_synonym scope_key = "string \<times> string \<times> string list"

definition fact_key :: "scoped_graph_risk_fact \<Rightarrow> scope_key" where
  "fact_key gf = (sf_event gf, sf_risk_source gf, sorted_set (sf_owner_node_ids gf))"

definition event_owners :: "risk_event \<Rightarrow> string list" where
  "event_owners event = sorted_set (filter (\<lambda>v. v \<noteq> []) (ev_owner_node_ids event))"

definition event_key :: "risk_event \<Rightarrow> scope_key" where
  "event_key event =
     (ev_event event, (case ev_risk_source event of None \<Rightarrow> [] | Some s \<Rightarrow> s), event_owners event)"

fun index_facts ::
  "(scope_key \<times> scoped_graph_risk_fact) list \<Rightarrow> scope_key list \<Rightarrow> scoped_graph_risk_fact list
    \<Rightarrow> (scope_key \<times> scoped_graph_risk_fact) list \<times> scope_key list" where
  "index_facts by_key dups [] = (by_key, dups)"
| "index_facts by_key dups (gf # facts) =
     (let key = fact_key gf
      in index_facts ((key, gf) # by_key)
           (if map_of by_key key \<noteq> None then key # dups else dups) facts)"

section \<open>The update of one event\<close>

definition fact_applies ::
  "scope_key list \<Rightarrow> scope_key list \<Rightarrow> scope_key \<Rightarrow> scoped_graph_risk_fact \<Rightarrow> bool" where
  "fact_applies event_keys dups key gf =
     (snd (snd key) \<noteq> []
      \<and> count_list event_keys key = 1
      \<and> key \<notin> set dups
      \<and> (fst key, fst (snd key)) \<in> set (dict_get ALLOWED_FACT_SCOPES (sf_fact_kind gf) [])
      \<and> (case sf_confidence gf of
           Fin c \<Rightarrow> STRUCTURAL_CONTINUITY_MIN_CONFIDENCE \<le> c \<and> c \<le> 1
         | _ \<Rightarrow> False))"

fun confidence_value :: "pyfloat \<Rightarrow> real" where
  "confidence_value (Fin c) = c"
| "confidence_value _ = 0"

definition independent_floor_of :: "risk_event \<Rightarrow> real" where
  "independent_floor_of event =
     (case ev_independent_probability_floor event of
        Some (Fin x) \<Rightarrow> if x < 0 then 0 else x
      | _ \<Rightarrow> 0)"

definition fact_multiplier :: "scoped_graph_risk_fact \<Rightarrow> real" where
  "fact_multiplier gf =
     1 - (1 - STRUCTURAL_CONTINUITY_MULTIPLIER) * confidence_value (sf_confidence gf)"

definition effective_floor_of :: "risk_event \<Rightarrow> real" where
  "effective_floor_of event =
     max STRUCTURAL_CONTINUITY_PROBABILITY_FLOOR (independent_floor_of event)"

definition revised_probability :: "risk_event \<Rightarrow> scoped_graph_risk_fact \<Rightarrow> real" where
  "revised_probability event gf =
     min (ev_p_event event)
       (max (effective_floor_of event) (ev_p_event event * fact_multiplier gf))"

definition binding_term_of :: "risk_event \<Rightarrow> scoped_graph_risk_fact \<Rightarrow> string" where
  "binding_term_of event gf =
     (if revised_probability event gf = ev_p_event event then ''original_probability''
      else if effective_floor_of event \<ge> ev_p_event event * fact_multiplier gf
      then if independent_floor_of event > STRUCTURAL_CONTINUITY_PROBABILITY_FLOOR
           then ''independent_probability_floor'' else ''structural_probability_floor''
      else ''probability_multiplier'')"

definition update_event ::
  "candidate_graph_risk_evidence \<Rightarrow> risk_event \<Rightarrow> scoped_graph_risk_fact \<Rightarrow> risk_event" where
  "update_event evidence event gf =
     event\<lparr>ev_p_event := revised_probability event gf,
           ev_graph_risk_update := Some
             \<lparr>gu_fact_kind = sf_fact_kind gf,
              gu_provider = ce_provider evidence,
              gu_event = sf_event gf,
              gu_risk_source = sf_risk_source gf,
              gu_fact_confidence = confidence_value (sf_confidence gf),
              gu_original_probability = ev_p_event event,
              gu_revised_probability = revised_probability event gf,
              gu_probability_multiplier = fact_multiplier gf,
              gu_probability_floor = effective_floor_of event,
              gu_structural_probability_floor = STRUCTURAL_CONTINUITY_PROBABILITY_FLOOR,
              gu_independent_probability_floor = independent_floor_of event,
              gu_binding_term = binding_term_of event gf,
              gu_calibration = STRUCTURAL_CONTINUITY_CALIBRATION,
              gu_language = ce_language evidence,
              gu_witness = ce_witness evidence,
              gu_witness_version = ce_witness_version evidence,
              gu_engine_version = ce_engine_version evidence,
              gu_owner_node_ids = event_owners event\<rparr>\<rparr>"

definition evidence_bound :: "candidate_graph_risk_evidence \<Rightarrow> string option \<Rightarrow> bool" where
  "evidence_bound evidence patch_hash =
     (ce_status evidence = ''available''
      \<and> (case patch_hash of None \<Rightarrow> False | Some h \<Rightarrow> h \<noteq> [])
      \<and> ce_verified_patch_hash evidence = patch_hash)"

fun adjust_events ::
  "candidate_graph_risk_evidence \<Rightarrow> (scope_key \<times> scoped_graph_risk_fact) list \<Rightarrow> scope_key list
    \<Rightarrow> scope_key list \<Rightarrow> risk_event list \<Rightarrow> risk_event list \<times> string list" where
  "adjust_events evidence by_key dups event_keys [] = ([], [])"
| "adjust_events evidence by_key dups event_keys (event # events) =
     (let (adjusted, applied) = adjust_events evidence by_key dups event_keys events
      in case map_of by_key (event_key event) of
           Some gf \<Rightarrow>
             if fact_applies event_keys dups (event_key event) gf
             then (update_event evidence event gf # adjusted, fst (event_key event) # applied)
             else (event # adjusted, applied)
         | None \<Rightarrow> (event # adjusted, applied))"

definition apply_scoped_adjustments ::
  "risk_event list \<Rightarrow> candidate_graph_risk_evidence \<Rightarrow> string option
    \<Rightarrow> risk_event list \<times> string list" where
  "apply_scoped_adjustments events evidence patch_hash =
     (if \<not> evidence_bound evidence patch_hash then (events, [])
      else
        let (by_key, dups) = index_facts [] [] (ce_facts evidence)
        in adjust_events evidence by_key dups (map event_key events) events)"

section \<open>Ranking\<close>

record candidate_rank_input =
  ri_action_id :: string
  ri_eligible :: bool
  ri_needs_refinement :: bool
  ri_benefit :: real
  ri_expected_loss :: real
  ri_rau :: real
  ri_cumulative_exposure :: real
  ri_file_count :: int
  ri_owner_count :: int
  ri_domain_count :: int
  ri_resolution_coverage :: real
  ri_patch_hash :: string

definition rank_key ::
  "candidate_rank_input \<Rightarrow>
     real \<times> real \<times> real \<times> real \<times> int \<times> int \<times> int \<times> real \<times> string \<times> string" where
  "rank_key c =
     (- ri_rau c, ri_expected_loss c, - ri_benefit c, ri_cumulative_exposure c, ri_file_count c,
      ri_owner_count c, ri_domain_count c, - ri_resolution_coverage c, ri_patch_hash c, ri_action_id c)"

definition rank_candidates :: "candidate_rank_input list \<Rightarrow> candidate_rank_input list" where
  "rank_candidates candidates =
     sort_key rank_key (filter (\<lambda>c. ri_eligible c \<and> ri_needs_refinement c) candidates)"

section \<open>Facts of the index\<close>

text \<open>The dictionary holds the last fact of a key, the duplicate set the keys seen twice.\<close>

lemma index_facts_map_of:
  "map_of (fst (index_facts by_key dups facts)) k
    = (case filter (\<lambda>f. fact_key f = k) facts of
         [] \<Rightarrow> map_of by_key k
       | f # fs \<Rightarrow> Some (last (f # fs)))"
proof (induction facts arbitrary: by_key dups)
  case (Cons a facts)
  then show ?case by (auto simp: Let_def split: list.splits)
qed simp

lemma index_facts_dups:
  "k \<in> set (snd (index_facts by_key dups facts)) \<longleftrightarrow>
     k \<in> set dups
     \<or> length (filter (\<lambda>f. fact_key f = k) facts) \<ge> (if map_of by_key k = None then 2 else 1)"
proof (induction facts arbitrary: by_key dups)
  case (Cons a facts)
  show ?case
    using Cons.IH [of "(fact_key a, a) # by_key" "if map_of by_key (fact_key a) \<noteq> None then fact_key a # dups else dups"]
    by (cases "map_of by_key k"; cases "fact_key a = k")
      (auto simp: Let_def Suc_le_eq numeral_2_eq_2)
qed simp

lemma index_facts_unique:
  assumes "map_of (fst (index_facts [] [] facts)) k = Some f" and "k \<notin> set (snd (index_facts [] [] facts))"
  shows "filter (\<lambda>f. fact_key f = k) facts = [f]"
proof -
  have "length (filter (\<lambda>f. fact_key f = k) facts) < 2"
    using assms(2) by (simp add: index_facts_dups)
  with assms(1) show ?thesis
    by (cases "filter (\<lambda>f. fact_key f = k) facts") (auto simp: index_facts_map_of split: list.splits)
qed

section \<open>Facts of the update\<close>

lemma fact_multiplier_bounds:
  assumes "fact_applies keys dups k gf"
  shows "STRUCTURAL_CONTINUITY_MULTIPLIER \<le> fact_multiplier gf \<and> fact_multiplier gf \<le> 0.415"
  using assms
  by (auto simp: fact_applies_def fact_multiplier_def STRUCTURAL_CONTINUITY_MULTIPLIER_def
      STRUCTURAL_CONTINUITY_MIN_CONFIDENCE_def split: pyfloat.splits)

lemma revised_probability_le: "revised_probability event gf \<le> ev_p_event event"
  by (simp add: revised_probability_def)

lemma revised_probability_ge:
  "min (ev_p_event event) (effective_floor_of event) \<le> revised_probability event gf"
  by (auto simp: revised_probability_def)

lemma revised_probability_ge_multiplier:
  assumes "0 \<le> ev_p_event event" and "fact_applies keys dups k gf"
  shows "ev_p_event event * STRUCTURAL_CONTINUITY_MULTIPLIER \<le> revised_probability event gf"
proof -
  have m: "STRUCTURAL_CONTINUITY_MULTIPLIER \<le> fact_multiplier gf"
    using fact_multiplier_bounds [OF assms(2)] by simp
  have "ev_p_event event * STRUCTURAL_CONTINUITY_MULTIPLIER \<le> ev_p_event event * fact_multiplier gf"
    using m assms(1) by (rule mult_left_mono)
  moreover have "ev_p_event event * STRUCTURAL_CONTINUITY_MULTIPLIER \<le> ev_p_event event * 1"
    using assms(1) by (intro mult_left_mono) (auto simp: STRUCTURAL_CONTINUITY_MULTIPLIER_def)
  ultimately show ?thesis by (auto simp: revised_probability_def)
qed

lemma effective_floor_ge: "STRUCTURAL_CONTINUITY_PROBABILITY_FLOOR \<le> effective_floor_of event"
  by (simp add: effective_floor_of_def)

lemma update_event_fields:
  "ev_event (update_event ce e f) = ev_event e"
  "ev_elicited_disutility (update_event ce e f) = ev_elicited_disutility e"
  "ev_risk_source (update_event ce e f) = ev_risk_source e"
  "ev_owner_node_ids (update_event ce e f) = ev_owner_node_ids e"
  "ev_p_event (update_event ce e f) = revised_probability e f"
  by (simp_all add: update_event_def)

text \<open>What one position of the result can be.\<close>

definition adjusted_by ::
  "candidate_graph_risk_evidence \<Rightarrow> scope_key list \<Rightarrow> risk_event \<Rightarrow> risk_event \<Rightarrow> bool" where
  "adjusted_by evidence event_keys e e' \<longleftrightarrow>
     e' = e
     \<or> (\<exists>gf dups. filter (\<lambda>f. fact_key f = event_key e) (ce_facts evidence) = [gf]
         \<and> fact_applies event_keys dups (event_key e) gf \<and> e' = update_event evidence e gf)"

lemma adjust_events_pointwise:
  assumes "\<And>k f. map_of by_key k = Some f \<Longrightarrow> k \<notin> set dups \<Longrightarrow>
      filter (\<lambda>f. fact_key f = k) (ce_facts evidence) = [f]"
  shows "list_all2 (adjusted_by evidence event_keys) events
    (fst (adjust_events evidence by_key dups event_keys events))"
proof (induction events)
  case (Cons e events)
  have "adjusted_by evidence event_keys e (update_event evidence e gf)"
    if "map_of by_key (event_key e) = Some gf" "fact_applies event_keys dups (event_key e) gf" for gf
    using that assms [OF that(1)] unfolding adjusted_by_def by (auto simp: fact_applies_def)
  moreover have "adjusted_by evidence event_keys e e" by (simp add: adjusted_by_def)
  ultimately show ?case
    using Cons by (auto simp: Let_def split: prod.splits option.splits)
qed simp

lemma apply_scoped_adjustments_pointwise:
  "list_all2 (adjusted_by evidence (map event_key events)) events
     (fst (apply_scoped_adjustments events evidence h))"
proof (cases "evidence_bound evidence h")
  case True
  obtain by_key dups where idx: "index_facts [] [] (ce_facts evidence) = (by_key, dups)" by fastforce
  show ?thesis
    using True idx index_facts_unique [of "ce_facts evidence"]
    by (auto simp: apply_scoped_adjustments_def intro!: adjust_events_pointwise)
next
  case False
  then show ?thesis
    by (simp add: apply_scoped_adjustments_def list_all2_same adjusted_by_def)
qed

lemma adjusted_by_weaker:
  assumes "adjusted_by evidence keys e e'"
  shows "ev_event e' = ev_event e" and "ev_elicited_disutility e' = ev_elicited_disutility e"
    and "ev_p_event e' \<le> ev_p_event e"
    and "min (ev_p_event e) STRUCTURAL_CONTINUITY_PROBABILITY_FLOOR \<le> ev_p_event e'"
    and "0 \<le> ev_p_event e \<Longrightarrow> ev_p_event e * STRUCTURAL_CONTINUITY_MULTIPLIER \<le> ev_p_event e'"
proof -
  consider "e' = e" | f dups where "fact_applies keys dups (event_key e) f" "e' = update_event evidence e f"
    using assms by (auto simp: adjusted_by_def)
  then have "ev_event e' = ev_event e \<and> ev_elicited_disutility e' = ev_elicited_disutility e
    \<and> ev_p_event e' \<le> ev_p_event e
    \<and> min (ev_p_event e) STRUCTURAL_CONTINUITY_PROBABILITY_FLOOR \<le> ev_p_event e'
    \<and> (0 \<le> ev_p_event e \<longrightarrow> ev_p_event e * STRUCTURAL_CONTINUITY_MULTIPLIER \<le> ev_p_event e')"
  proof cases
    case 1
    then show ?thesis
      by (auto simp: STRUCTURAL_CONTINUITY_MULTIPLIER_def)
  next
    case 2
    then show ?thesis
      using revised_probability_le [of e f] revised_probability_ge [of e f] effective_floor_ge [of e]
        revised_probability_ge_multiplier [of e keys dups "event_key e" f]
      by (auto simp: update_event_fields)
  qed
  then show "ev_event e' = ev_event e" and "ev_elicited_disutility e' = ev_elicited_disutility e"
    and "ev_p_event e' \<le> ev_p_event e"
    and "min (ev_p_event e) STRUCTURAL_CONTINUITY_PROBABILITY_FLOOR \<le> ev_p_event e'"
    and "0 \<le> ev_p_event e \<Longrightarrow> ev_p_event e * STRUCTURAL_CONTINUITY_MULTIPLIER \<le> ev_p_event e'"
    by simp_all
qed

lemma rank_candidates_sorted: "sorted (map rank_key (rank_candidates cs))"
  by (simp add: rank_candidates_def)

lemma rank_candidates_set:
  "set (rank_candidates cs) = {c \<in> set cs. ri_eligible c \<and> ri_needs_refinement c}"
  by (simp add: rank_candidates_def)

section \<open>Properties\<close>

text \<open>C33: A scoped graph fact can only lower the probability of the event it is about, and within
  bounds: no event is added, removed or relabelled, no probability rises, none falls below 35 percent
  of its value or below the smaller of itself and the floor 0.05; evidence that is not bound to the
  hash of the very patch changes nothing.\<close>

theorem refinement_never_raises_risk:
  assumes "list_all (\<lambda>e. 0 \<le> ev_p_event e) events"
  shows "list_all2 (\<lambda>e e'. ev_event e' = ev_event e \<and> ev_elicited_disutility e' = ev_elicited_disutility e
      \<and> ev_p_event e' \<le> ev_p_event e \<and> min (ev_p_event e) 0.05 \<le> ev_p_event e'
      \<and> ev_p_event e * 0.35 \<le> ev_p_event e')
    events (fst (apply_scoped_adjustments events evidence h))
   \<and> (evidence_bound evidence h \<or> apply_scoped_adjustments events evidence h = (events, []))"
proof
  have "list_all2 (\<lambda>e e'. e \<in> set events \<and> adjusted_by evidence (map event_key events) e e')
      events (fst (apply_scoped_adjustments events evidence h))"
    using apply_scoped_adjustments_pointwise [of evidence events h]
    by (auto simp: list_all2_conv_all_nth)
  then show "list_all2 (\<lambda>e e'. ev_event e' = ev_event e \<and> ev_elicited_disutility e' = ev_elicited_disutility e
      \<and> ev_p_event e' \<le> ev_p_event e \<and> min (ev_p_event e) 0.05 \<le> ev_p_event e'
      \<and> ev_p_event e * 0.35 \<le> ev_p_event e')
    events (fst (apply_scoped_adjustments events evidence h))"
    by (rule list_all2_mono)
      (use assms adjusted_by_weaker in \<open>auto simp: list_all_iff STRUCTURAL_CONTINUITY_PROBABILITY_FLOOR_def
        STRUCTURAL_CONTINUITY_MULTIPLIER_def\<close>)
qed (auto simp: apply_scoped_adjustments_def)

definition sample_break :: risk_event where
  "sample_break = (plain_event ''public_api_break'' 0.4 0.7)
     \<lparr>ev_risk_source := Some ''graph_modify_risk'', ev_owner_node_ids := [''n1'']\<rparr>"

definition sample_continuity :: candidate_graph_risk_evidence where
  "sample_continuity = default_graph_risk_evidence
     \<lparr>ce_status := ''available'', ce_verified_patch_hash := Some ''h'',
      ce_facts := [\<lparr>sf_fact_kind = ''exported_binding_continuity'', sf_event = ''public_api_break'',
        sf_risk_source = ''graph_modify_risk'', sf_owner_node_ids = [''n1''], sf_confidence = Fin 1,
        sf_provenance = ''p''\<rparr>]\<rparr>"

text \<open>The fact is applied: the probability of the sample event drops from 0.4 to 0.14.\<close>

lemma refinement_never_raises_risk_witness:
  "\<exists>e'. fst (apply_scoped_adjustments [sample_break] sample_continuity (Some ''h'')) = [e']
    \<and> ev_p_event e' = 0.14 \<and> min (ev_p_event sample_break) 0.05 \<le> ev_p_event e'"
proof -
  have "\<exists>e'. fst (apply_scoped_adjustments [sample_break] sample_continuity (Some ''h'')) = [e']
    \<and> ev_p_event e' = 0.14"
    by (simp add: apply_scoped_adjustments_def evidence_bound_def sample_continuity_def sample_break_def
        default_graph_risk_evidence_def plain_event_def fact_key_def event_key_def event_owners_def
        sorted_set_def fact_applies_def ALLOWED_FACT_SCOPES_def STRUCTURAL_CONTINUITY_MIN_CONFIDENCE_def
        update_event_def revised_probability_def effective_floor_of_def independent_floor_of_def
        fact_multiplier_def STRUCTURAL_CONTINUITY_MULTIPLIER_def STRUCTURAL_CONTINUITY_PROBABILITY_FLOOR_def)
  moreover have "list_all (\<lambda>e. 0 \<le> ev_p_event e) [sample_break]"
    by (simp add: sample_break_def plain_event_def)
  note refinement_never_raises_risk [OF this, of sample_continuity "Some ''h''"]
  ultimately show ?thesis by auto
qed

text \<open>The ranking is deterministic: it lists exactly the eligible candidates that need refinement,
  by risk-adjusted utility, then loss, then benefit and the further tie-breakers, and any order of the
  input gives the same list when the keys differ.\<close>

theorem ranking_is_deterministic:
  assumes "mset cs = mset ds" and "inj_on rank_key (set cs)"
  shows "rank_candidates cs = rank_candidates ds \<and> sorted (map rank_key (rank_candidates cs))
    \<and> set (rank_candidates cs) = {c \<in> set cs. ri_eligible c \<and> ri_needs_refinement c}"
proof -
  let ?P = "\<lambda>c. ri_eligible c \<and> ri_needs_refinement c"
  have "sort_key rank_key (filter ?P cs) = sort_key rank_key (filter ?P ds)"
  proof (rule sort_key_inj_key_eq)
    show "inj_on rank_key (set (filter ?P cs))" using assms(2) by (auto intro: inj_on_subset)
  qed (use assms(1) in simp_all)
  then have "rank_candidates cs = rank_candidates ds" by (simp add: rank_candidates_def)
  with rank_candidates_sorted rank_candidates_set show ?thesis by blast
qed

definition sample_rank :: "string \<Rightarrow> real \<Rightarrow> candidate_rank_input" where
  "sample_rank n rau =
     \<lparr>ri_action_id = n, ri_eligible = True, ri_needs_refinement = True, ri_benefit = 0.5,
      ri_expected_loss = 0.1, ri_rau = rau, ri_cumulative_exposure = 0, ri_file_count = 1,
      ri_owner_count = 1, ri_domain_count = 1, ri_resolution_coverage = 1, ri_patch_hash = n\<rparr>"

lemma ranking_is_deterministic_witness:
  "rank_candidates [sample_rank ''a'' 0.1, sample_rank ''b'' 0.3]
    = rank_candidates [sample_rank ''b'' 0.3, sample_rank ''a'' 0.1]"
  using ranking_is_deterministic [of "[sample_rank ''a'' 0.1, sample_rank ''b'' 0.3]"
      "[sample_rank ''b'' 0.3, sample_rank ''a'' 0.1]"]
  by (simp add: inj_on_def sample_rank_def rank_key_def)

end
