(* ===== verification/Pebra_Assessment_Builder.thy ===== *)
theory Pebra_Assessment_Builder
  imports Pebra_Sha256 Pebra_Score_Math Pebra_Aggregation Pebra_Candidate_Refinement
begin

text \<open>
  \<open>pebra/core/assessment_builder.py\<close>: the composition of the score modules into one scored
  assessment. The bag \<open>scores\<close> of the source is the record \<open>assessment_scores\<close>, one field per key;
  the nested dictionaries that are only serialised are Python values. A dictionary with integer
  keys is the list of its items.

  Four steps can raise, in this order: the squares of the variance terms on a magnitude whose square
  is beyond a double, \<open>utility_sd\<close> on a sum out of range or a negative variance, \<open>edit_confidence\<close> on
  a missing or out-of-range factor, \<open>risk_budget_used\<close> on a threshold that is not positive. Scores are
  real numbers otherwise: rounding, and a product or sum that becomes infinite without an error, are
  not modelled.
\<close>

section \<open>The scored assessment\<close>

record assessment_scores =
  sc_expected_loss :: real
  sc_verified_risk_events_removed :: "string list"
  sc_risk_probability_updates :: "graph_risk_update list"
  sc_graph_risk_events_updated :: "string list"
  sc_loss_components :: "loss_component list"
  sc_benefit :: real
  sc_benefit_breakdown :: benefit_breakdown
  sc_benefit_file_deltas :: "real dict dict"
  sc_expected_utility :: real
  sc_utility_sd :: real
  sc_variance_breakdown :: "real dict"
  sc_variance_source :: string
  sc_rau :: real
  sc_edit_confidence :: real
  sc_edit_confidence_factors :: "real dict"
  sc_effective_threshold :: real
  sc_budget_threshold_key :: string
  sc_risk_budget_used :: real
  sc_candidate_aggregate :: candidate_aggregate_evidence
  sc_criticality_stage :: string
  sc_criticality_value :: real
  sc_symbol_scope_evidence :: "pyval dict"
  sc_candidate_verification :: "pyval dict"

record assessment =
  as_input :: assessment_input
  as_scores :: assessment_scores
  as_confidence_band :: string
  as_action_status :: action_status
  as_provenance :: "string dict"

section \<open>Thresholds and penalties\<close>

definition effective_threshold :: "string \<Rightarrow> real dict \<Rightarrow> real \<times> string" where
  "effective_threshold criticality_stage thresholds =
     (let key = ''max_expected_loss_without_human'';
          eff = dict_get thresholds key 0.45;
          stage_key = lower criticality_stage @ ''_max_expected_loss_without_human''
      in case map_of thresholds stage_key of
           Some t \<Rightarrow> if t < eff then (t, stage_key) else (eff, key)
         | None \<Rightarrow> (eff, key))"

definition architecture_scope_penalty :: "architecture_evidence \<Rightarrow> real" where
  "architecture_scope_penalty arch =
     (let penalty = (0 :: real);
          penalty = (if ae_god_node_score arch \<ge> 0.90 then penalty + 0.08
                     else if ae_god_node_score arch \<ge> 0.75 then penalty + 0.04 else penalty);
          penalty = (if ae_cycle_participation arch then penalty + 0.04 else penalty);
          penalty = (if ae_bridge_centrality arch \<ge> 0.50 then penalty + 0.03 else penalty);
          penalty = (if ae_domain_entrypoint arch then penalty + 0.03 else penalty)
      in min 0.15 penalty)"

text \<open>\<open>factors[name] = penalized_confidence_factor(factors.get(name, 1.0), penalty)\<close>.\<close>

definition penalize :: "real dict \<Rightarrow> string \<Rightarrow> real \<Rightarrow> real dict" where
  "penalize factors name penalty =
     dict_set factors name (penalized_confidence_factor (dict_get factors name 1) penalty)"

definition file_scope_penalty :: "fanin_evidence \<Rightarrow> real" where
  "file_scope_penalty fanin =
     (if fi_graph_file_size_bytes fanin \<ge> CODEGRAPH_LARGE_FILE_SIZE_BYTES
      then CODEGRAPH_FILE_METADATA_SCOPE_PENALTY else 0)
     + (if fi_graph_file_node_count fanin \<ge> CODEGRAPH_LARGE_FILE_NODE_COUNT
        then CODEGRAPH_FILE_METADATA_SCOPE_PENALTY else 0)"

definition penalized_factors :: "assessment_input \<Rightarrow> real dict" where
  "penalized_factors inp =
     (let arch_penalty = architecture_scope_penalty (ai_architecture_evidence inp);
          factors = ai_edit_confidence_factors inp;
          factors = (if arch_penalty > 0 then penalize factors ''scope_control'' arch_penalty else factors)
      in case ai_fanin_evidence inp of
           None \<Rightarrow> factors
         | Some fanin \<Rightarrow>
             let factors =
                   (if fi_graph_file_error_count fanin > 0
                    then penalize factors ''evidence_quality''
                           (min 0.20 (CODEGRAPH_FILE_PARSE_ERROR_PENALTY
                                      * of_int (fi_graph_file_error_count fanin)))
                    else factors)
             in if file_scope_penalty fanin > 0
                then penalize factors ''scope_control'' (min 0.12 (file_scope_penalty fanin))
                else factors)"

section \<open>Projections\<close>

definition MAX_SERIALIZED_IMPACT_WITNESSES :: nat where "MAX_SERIALIZED_IMPACT_WITNESSES = 5"

type_synonym witness_key =
  "int \<times> string \<times> string \<times> string \<times> bool \<times> int \<times> bool \<times> int \<times> string"

definition vint_opt :: "int option \<Rightarrow> pyval" where
  "vint_opt x = (case x of None \<Rightarrow> VNone | Some i \<Rightarrow> VInt i)"

definition witness_row :: "owner_risk_evidence \<Rightarrow> impact_witness \<Rightarrow> witness_key \<times> pyval dict" where
  "witness_row owner w =
     ((iw_depth w, ow_qualified_name owner, iw_qualified_name w, slashes (iw_file_path w),
       iw_line w = None, (case iw_line w of None \<Rightarrow> 0 | Some i \<Rightarrow> i),
       iw_column w = None, (case iw_column w of None \<Rightarrow> 0 | Some i \<Rightarrow> i), iw_edge_kind w),
      [(''owner_qualified_name'', VStr (ow_qualified_name owner)),
       (''dependent_qualified_name'', VStr (iw_qualified_name w)),
       (''file_path'', VStr (slashes (iw_file_path w))),
       (''line'', vint_opt (iw_line w)),
       (''column'', vint_opt (iw_column w)),
       (''edge_kind'', VStr (iw_edge_kind w)),
       (''depth'', VInt (iw_depth w)),
       (''location_source'',
        VStr (if iw_location_source w = [] then ''node_definition'' else iw_location_source w))])"

definition witness_rows :: "owner_risk_evidence list \<Rightarrow> (witness_key \<times> pyval dict) list" where
  "witness_rows owner_risk =
     concat (map (\<lambda>owner. map (witness_row owner) (ow_impact_witnesses owner)) owner_risk)"

definition project_impact_witnesses :: "owner_risk_evidence list \<Rightarrow> int \<Rightarrow> pyval dict list" where
  "project_impact_witnesses owner_risk limit =
     map snd (take (nat limit) (sort_key fst (witness_rows owner_risk)))"

definition vcounts :: "int dict \<Rightarrow> pyval" where
  "vcounts d = VDict (map (\<lambda>(k, v). (k, VInt v)) d)"

definition symbol_fanin_payload :: "fanin_evidence option \<Rightarrow> pyval" where
  "symbol_fanin_payload fanin =
     (case fanin of
        None \<Rightarrow> VNone
      | Some f \<Rightarrow> VDict (
          [(''percentile'', vreal (fi_symbol_fan_in_percentile f)),
           (''caller_count'', VInt (fi_symbol_caller_count f)),
           (''resolution_method'', VStr (fi_resolution_method f)),
           (''graph_freshness'', VStr (fi_graph_freshness f)),
           (''fallback_reason'', vopt (fi_fallback_reason f)),
           (''owner_kinds'', vstrs (sort (fi_owner_kinds f))),
           (''max_owner_span_lines'', VInt (fi_max_owner_span_lines f)),
           (''resolved_symbol_count'', VInt (fi_resolved_symbol_count f)),
           (''incoming_edge_counts'', vcounts (fi_incoming_edge_counts f)),
           (''outgoing_edge_counts'', vcounts (fi_outgoing_edge_counts f)),
           (''modify_impact_count'', VInt (fi_modify_impact_count f)),
           (''modify_impact_percentile'', vreal (fi_modify_impact_percentile f)),
           (''modify_impact_edge_counts'', vcounts (fi_modify_impact_edge_counts f)),
           (''modify_transitive_impact_count'', VInt (fi_modify_transitive_impact_count f)),
           (''modify_transitive_impact_percentile'', vreal (fi_modify_transitive_impact_percentile f)),
           (''modify_transitive_depth_buckets'',
            VList (map (\<lambda>(k, v). VList [VInt k, VInt v]) (fi_modify_transitive_depth_buckets f))),
           (''modify_repo_blast_fraction'', vreal (fi_modify_repo_blast_fraction f)),
           (''modify_repo_graph_node_count'', VInt (fi_modify_repo_graph_node_count f)),
           (''container_hierarchy_kinds'', vstrs (sort (fi_container_hierarchy_kinds f))),
           (''graph_file_size_bytes'', VInt (fi_graph_file_size_bytes f)),
           (''graph_file_node_count'', VInt (fi_graph_file_node_count f)),
           (''graph_file_error_count'', VInt (fi_graph_file_error_count f)),
           (''contract_surface_kind'', VStr (fi_contract_surface_kind f)),
           (''is_exported_contract'', VBool (fi_is_exported_contract f)),
           (''is_abstract_or_interface_contract'', VBool (fi_is_abstract_or_interface_contract f)),
           (''has_signature_metadata'', VBool (fi_has_signature_metadata f)),
           (''resolved_qualified_names'', vstrs (fi_resolved_qualified_names f)),
           (''resolved_file_paths'', vstrs (fi_resolved_file_paths f)),
           (''changed_owner_edge_count'', VInt (fi_changed_owner_edge_count f))]
          @ (let witnesses = project_impact_witnesses (fi_owner_risk f)
                               (int MAX_SERIALIZED_IMPACT_WITNESSES)
             in if witnesses \<noteq> [] then [(''impact_witnesses'', VList (map VDict witnesses))] else [])))"

definition file_rollup_payload :: "file_fanin_rollup option \<Rightarrow> pyval" where
  "file_rollup_payload rollup =
     (case rollup of
        None \<Rightarrow> VNone
      | Some r \<Rightarrow> VDict
          [(''percentile'', vreal (fr_percentile r)),
           (''distinct_caller_count'', VInt (fr_distinct_caller_count r)),
           (''max_caller_count'', VInt (fr_max_caller_count r)),
           (''symbol_count'', VInt (fr_symbol_count r)),
           (''resolution_method'', VStr (fr_resolution_method r)),
           (''graph_freshness'', VStr (fr_graph_freshness r)),
           (''fallback_reason'', vopt (fr_fallback_reason r)),
           (''file_count'', VInt (fr_file_count r)),
           (''cumulative_breadth_bonus'', vreal (fr_cumulative_breadth_bonus r))])"

definition scope_basis_of :: "symbol_diff_evidence \<Rightarrow> string" where
  "scope_basis_of sde =
     (if sd_structure_tier sde = ''codegraph_semantic'' then ''graph_semantic''
      else if sd_structure_tier sde = ''codegraph_structural'' then ''graph_identity''
      else if sd_parsed_patch_available sde then ''symbol''
      else if sd_changed_symbols sde \<noteq> [] then ''file_fallback''
      else ''unknown_fallback'')"

definition symbol_scope_payload :: "assessment_input \<Rightarrow> pyval dict" where
  "symbol_scope_payload inp =
     (let sde = ai_symbol_diff_evidence inp
      in [(''scope_basis'', VStr (scope_basis_of sde)),
          (''changed_symbols'', vstrs (sd_changed_symbols sde)),
          (''max_change_kind'', VStr (sd_max_change_kind sde)),
          (''visibility'', VStr (sd_visibility sde)),
          (''symbol_fan_in_percentile'', vreal (sd_symbol_fan_in_percentile sde)),
          (''symbol_fanin'', symbol_fanin_payload (ai_fanin_evidence inp)),
          (''consequential_symbol_changed'', VBool (sd_consequential_symbol_changed sde)),
          (''consequence_reason'', vstrs (sd_consequence_reason sde)),
          (''file_operation_kind'', VStr (sd_file_operation_kind sde)),
          (''file_operation_paths'', vstrs (sd_file_operation_paths sde)),
          (''file_fanin_rollup'', file_rollup_payload (ai_file_fanin_rollup inp)),
          (''fallback_reason'', vopt (sd_fallback_reason sde)),
          (''structure_tier'', VStr (sd_structure_tier sde))])"

definition verification_payload :: "candidate_verification \<Rightarrow> pyval dict" where
  "verification_payload v =
     [(''status'', VStr (cv_status v)),
      (''checks'', VDict (map (\<lambda>(k, s). (k, VStr s)) (cv_checks v))),
      (''required_checks'', vstrs (cv_required_checks v)),
      (''domain'', vopt (cv_domain v)),
      (''reason'', vopt (cv_reason v)),
      (''verified_patch_hash'', vopt (cv_verified_patch_hash v)),
      (''retryable_infrastructure'', VBool (cv_retryable_infrastructure v))]"

section \<open>The build\<close>

definition proposed_patch_hash :: "assessment_input \<Rightarrow> string option" where
  "proposed_patch_hash inp = map_option sha256_hex (ca_proposed_patch (ai_action inp))"

definition scoped_graph_risk_update :: "assessment_input \<Rightarrow> risk_event list \<times> string list" where
  "scoped_graph_risk_update inp =
     apply_scoped_adjustments (ai_events inp) (ai_candidate_graph_risk_evidence inp)
       (proposed_patch_hash inp)"

definition floor_event :: "real \<Rightarrow> risk_event \<Rightarrow> floored_event" where
  "floor_event criticality ev =
     (case apply_criticality_floor (ev_event ev) (ev_elicited_disutility ev) criticality of
        (disutility, floor_applied) \<Rightarrow>
          \<lparr>fe_event = ev_event ev, fe_p_event = ev_p_event ev, fe_disutility = disutility,
           fe_floor_applied = floor_applied\<rparr>)"

definition floored_events :: "assessment_input \<Rightarrow> floored_event list" where
  "floored_events inp =
     map (floor_event (ai_criticality_value inp)) (fst (scoped_graph_risk_update inp))"

definition event_variance_term :: "real dict \<Rightarrow> floored_event \<Rightarrow> real" where
  "event_variance_term variances ev =
     fe_disutility ev ^ 2 * dict_get variances (fe_event ev) (COLD_START_VARIANCES V_p_event)
     + fe_p_event ev ^ 2 * COLD_START_VARIANCES V_disutility"

definition event_variance_of :: "real dict \<Rightarrow> floored_event list \<Rightarrow> real" where
  "event_variance_of variances evs = foldl (\<lambda>acc ev. acc + event_variance_term variances ev) 0 evs"

definition benefit_of_input :: "assessment_input \<Rightarrow> benefit_breakdown" where
  "benefit_of_input inp =
     (let bd = ai_benefit_delta_evidence inp;
          breakdown = resolve_benefit (ai_immediate_benefit inp) (bd_deltas bd) (bd_source_type bd)
            (bd_future_change_exposure bd) (ai_benefit_variance_override inp)
      in case ai_benefit_override inp of
           None \<Rightarrow> breakdown
         | Some b \<Rightarrow> breakdown\<lparr>bb_benefit := max 0 (min BENEFIT_OVERRIDE_MAX b)\<rparr>)"

definition variance_of_input :: "assessment_input \<Rightarrow> real dict \<times> real \<times> string" where
  "variance_of_input inp =
     resolve_utility_variance (ai_variance_breakdown inp)
       \<lparr>vi_benefit = Some (bb_benefit (benefit_of_input inp)),
        vi_p_success = Some (ai_p_success inp),
        vi_var_p_success = ai_p_success_variance inp,
        vi_var_benefit = Some (bb_benefit_variance (benefit_of_input inp)),
        vi_var_review_cost = ai_review_cost_variance inp,
        vi_event_variance =
          Some (event_variance_of (ai_event_probability_variances inp) (floored_events inp)),
        vi_scenario_variance = None,
        vi_p_success_confidence = None,
        vi_benefit_confidence = None,
        vi_review_cost_confidence = None,
        vi_event_confidence = None,
        vi_disutility_confidence = None\<rparr>"

text \<open>\<open>x**2\<close> on a float raises \<open>OverflowError\<close>; an explicit breakdown leaves \<open>p_success\<close> unsquared.\<close>

definition squares_overflow :: "assessment_input \<Rightarrow> bool" where
  "squares_overflow inp \<longleftrightarrow>
     list_ex (\<lambda>e. float_overflows (fe_disutility e ^ 2) \<or> float_overflows (fe_p_event e ^ 2)) (floored_events inp)
     \<or> (ai_variance_breakdown inp = None \<or> ai_variance_breakdown inp = Some [])
        \<and> float_overflows (ai_p_success inp ^ 2)"

definition build_assessment :: "assessment_input \<Rightarrow> assessment res" where
  "build_assessment inp =
     (if squares_overflow inp then Inl (OverflowError ''Numerical result out of range'')
      else let (risk_events, updated) = scoped_graph_risk_update inp;
          (exp_loss, components) = expected_loss (floored_events inp);
          breakdown = benefit_of_input inp;
          benefit = bb_benefit breakdown;
          eu = expected_utility (ai_p_success inp) benefit exp_loss (ai_review_cost inp);
          (variance_breakdown, tot, variance_source) = variance_of_input inp;
          factors = penalized_factors inp;
          (threshold, budget_key) = effective_threshold (ai_criticality_stage inp) (ai_thresholds inp)
      in rbind (utility_sd (map snd variance_breakdown)) (\<lambda>usd.
         rbind (edit_confidence factors) (\<lambda>edit_conf.
         rbind (risk_budget_used exp_loss threshold) (\<lambda>budget.
           Inr \<lparr>as_input = inp,
                as_scores =
                  \<lparr>sc_expected_loss = exp_loss,
                   sc_verified_risk_events_removed = [],
                   sc_risk_probability_updates = List.map_filter ev_graph_risk_update risk_events,
                   sc_graph_risk_events_updated = updated,
                   sc_loss_components = components,
                   sc_benefit = benefit,
                   sc_benefit_breakdown = breakdown,
                   sc_benefit_file_deltas = bd_file_deltas (ai_benefit_delta_evidence inp),
                   sc_expected_utility = eu,
                   sc_utility_sd = usd,
                   sc_variance_breakdown = variance_breakdown,
                   sc_variance_source = variance_source,
                   sc_rau = risk_adjusted_utility eu usd,
                   sc_edit_confidence = edit_conf,
                   sc_edit_confidence_factors = factors,
                   sc_effective_threshold = threshold,
                   sc_budget_threshold_key = budget_key,
                   sc_risk_budget_used = budget,
                   sc_candidate_aggregate = ai_candidate_aggregate_evidence inp,
                   sc_criticality_stage = ai_criticality_stage inp,
                   sc_criticality_value = ai_criticality_value inp,
                   sc_symbol_scope_evidence = symbol_scope_payload inp,
                   sc_candidate_verification = verification_payload (ai_candidate_verification inp)\<rparr>,
                as_confidence_band = cf_band (confidence_gate edit_conf (ai_thresholds inp)),
                as_action_status = PENDING,
                as_provenance = [(''provider'', ''pebra''), (''source_type'', ''derived'')]\<rparr>))))"

section \<open>Confidence factors\<close>

lemma dict_has_set: "dict_has (dict_set d k v) a \<longleftrightarrow> a = k \<or> dict_has d a"
  by (simp add: dict_has_def map_of_dict_set)

lemma dict_get_default_irrelevant: "dict_has d k \<Longrightarrow> dict_get d k v = dict_get d k w"
  by (auto simp: dict_has_def dict_get_def)

lemma penalize_valid:
  assumes "confidence_factors_valid factors" and "0 \<le> p"
  shows "confidence_factors_valid (penalize factors name p)"
  unfolding confidence_factors_valid_def
proof
  fix f assume f: "f \<in> set EDIT_CONFIDENCE_FACTORS"
  with assms(1) have v: "dict_has factors f" "0 < dict_get factors f 0" "dict_get factors f 0 \<le> 1"
    by (auto simp: confidence_factors_valid_def)
  show "dict_has (penalize factors name p) f \<and> 0 < dict_get (penalize factors name p) f 0
    \<and> dict_get (penalize factors name p) f 0 \<le> 1"
  proof (cases "f = name")
    case True
    have "dict_get factors f 1 \<le> 1" using v dict_get_default_irrelevant [of factors f 1 0] by simp
    with True assms(2) show ?thesis
      by (simp add: penalize_def dict_has_set penalized_factor_le)
  next
    case False
    with v show ?thesis by (simp add: penalize_def dict_has_set dict_get_set_other)
  qed
qed

lemma penalize_le:
  assumes "0 \<le> p" and "MIN_CONFIDENCE_FACTOR \<le> dict_get factors name 1" and "dict_has factors name"
  shows "dict_get (penalize factors name p) f 0 \<le> dict_get factors f 0"
  using assms dict_get_default_irrelevant [OF assms(3), of 1 0]
  by (cases "f = name") (auto simp: penalize_def dict_get_set_other penalized_confidence_factor_def)

lemma file_scope_penalty_nonneg: "0 \<le> file_scope_penalty fanin"
  by (simp add: file_scope_penalty_def CODEGRAPH_FILE_METADATA_SCOPE_PENALTY_def)

lemma architecture_scope_penalty_bounds:
  "0 \<le> architecture_scope_penalty arch \<and> architecture_scope_penalty arch \<le> 0.15"
  by (simp add: architecture_scope_penalty_def Let_def)

lemma penalized_factors_valid:
  assumes "confidence_factors_valid (ai_edit_confidence_factors inp)"
  shows "confidence_factors_valid (penalized_factors inp)"
  using assms file_scope_penalty_nonneg
  by (auto simp: penalized_factors_def Let_def CODEGRAPH_FILE_PARSE_ERROR_PENALTY_def
      intro!: penalize_valid split: option.splits)

section \<open>Losses and variances\<close>

lemma floor_event_fields:
  "fe_event (floor_event c ev) = ev_event ev"
  "fe_p_event (floor_event c ev) = ev_p_event ev"
  "fe_disutility (floor_event c ev) = fst (apply_criticality_floor (ev_event ev) (ev_elicited_disutility ev) c)"
  by (simp_all add: floor_event_def split: prod.splits)

lemma event_variance_of_sum:
  "event_variance_of variances evs = (\<Sum>e\<leftarrow>evs. event_variance_term variances e)"
proof -
  have "foldl (\<lambda>acc ev. acc + event_variance_term variances ev) a evs
    = a + (\<Sum>e\<leftarrow>evs. event_variance_term variances e)" for a
    by (induction evs arbitrary: a) simp_all
  then show ?thesis by (simp add: event_variance_of_def)
qed

definition event_variances_ok :: "real dict \<Rightarrow> bool" where
  "event_variances_ok variances = list_all (\<lambda>(_, v). 0 \<le> v) variances"

lemma dict_get_nonneg:
  "list_all (\<lambda>(_, v). (0 :: real) \<le> v) d \<Longrightarrow> 0 \<le> x \<Longrightarrow> 0 \<le> dict_get d k x"
  by (induction d) auto

lemma event_variance_nonneg:
  assumes "event_variances_ok variances"
  shows "0 \<le> event_variance_of variances evs"
  using assms unfolding event_variance_of_sum event_variances_ok_def
  by (intro sum_list_nonneg_real)
    (simp add: event_variance_term_def dict_get_nonneg less_imp_le [OF COLD_START_VARIANCES_pos])

lemma effective_threshold_le:
  "fst (effective_threshold stage t) \<le> dict_get t ''max_expected_loss_without_human'' 0.45"
  by (auto simp: effective_threshold_def Let_def split: option.splits)

lemma effective_threshold_le_stage:
  "map_of t (lower stage @ ''_max_expected_loss_without_human'') = Some x \<Longrightarrow>
     fst (effective_threshold stage t) \<le> x"
  by (auto simp: effective_threshold_def Let_def)

section \<open>The assessment\<close>

lemma build_assessment_Inr:
  assumes "build_assessment inp = Inr a"
  shows "as_input a = inp"
    and "sc_expected_loss (as_scores a) = fst (expected_loss (floored_events inp))"
    and "sc_benefit (as_scores a) = bb_benefit (benefit_of_input inp)"
    and "sc_expected_utility (as_scores a) =
      expected_utility (ai_p_success inp) (sc_benefit (as_scores a)) (sc_expected_loss (as_scores a))
        (ai_review_cost inp)"
    and "utility_sd (map snd (fst (variance_of_input inp))) = Inr (sc_utility_sd (as_scores a))"
    and "sc_rau (as_scores a) =
      risk_adjusted_utility (sc_expected_utility (as_scores a)) (sc_utility_sd (as_scores a))"
    and "edit_confidence (penalized_factors inp) = Inr (sc_edit_confidence (as_scores a))"
    and "sc_effective_threshold (as_scores a) =
      fst (effective_threshold (ai_criticality_stage inp) (ai_thresholds inp))"
    and "risk_budget_used (sc_expected_loss (as_scores a)) (sc_effective_threshold (as_scores a))
      = Inr (sc_risk_budget_used (as_scores a))"
    and "as_confidence_band a = cf_band (confidence_gate (sc_edit_confidence (as_scores a)) (ai_thresholds inp))"
    and "as_action_status a = PENDING"
  using assms by (auto simp: build_assessment_def Let_def rbind_Inr_iff split: prod.splits if_splits)

lemma build_assessment_is_ok_iff:
  "is_ok (build_assessment inp) \<longleftrightarrow>
     \<not> squares_overflow inp \<and> \<not> fsum_overflows (map snd (fst (variance_of_input inp)))
     \<and> 0 \<le> sum_list (map snd (fst (variance_of_input inp)))
     \<and> confidence_factors_valid (penalized_factors inp)
     \<and> 0 < fst (effective_threshold (ai_criticality_stage inp) (ai_thresholds inp))"
proof -
  have b: "is_ok (risk_budget_used l t) \<longleftrightarrow> 0 < t" for l t
    by (auto simp: risk_budget_used_def)
  show ?thesis
    unfolding conj_assoc [of "\<not> fsum_overflows _", symmetric] utility_sd_is_ok_iff [symmetric] edit_confidence_is_ok_iff [symmetric]
    by (auto simp: build_assessment_def Let_def is_ok_rbind is_ok_iff [symmetric] b split: prod.splits)
qed

lemma variance_of_input_nonneg:
  assumes "ai_variance_breakdown inp = None \<or> ai_variance_breakdown inp = Some []"
    and "event_variances_ok (ai_event_probability_variances inp)"
  shows "0 \<le> sum_list (map snd (fst (variance_of_input inp)))"
  using assms event_variance_nonneg [OF assms(2)]
  by (auto simp: variance_of_input_def resolve_utility_variance_def Let_def
      intro!: first_order_total_nonneg split: prod.splits)

lemma variance_not_negative:
  assumes "event_variances_ok (ai_event_probability_variances inp)"
    and "\<forall>d. ai_variance_breakdown inp = Some d \<longrightarrow> 0 \<le> sum_list (map snd d)"
  shows "0 \<le> sum_list (map snd (fst (variance_of_input inp)))"
proof (cases "ai_variance_breakdown inp = None \<or> ai_variance_breakdown inp = Some []")
  case True then show ?thesis using assms(1) by (rule variance_of_input_nonneg)
next
  case False
  then obtain x xs where "ai_variance_breakdown inp = Some (x # xs)" by (metis list.exhaust option.exhaust)
  with assms(2) show ?thesis by (simp add: variance_of_input_def resolve_utility_variance_def)
qed

text \<open>Every number of the input that a variance is computed from is at most \<open>10 ^ 30\<close> in magnitude.\<close>

definition ordinary :: "real \<Rightarrow> bool" where "ordinary x \<longleftrightarrow> \<bar>x\<bar> \<le> 10 ^ 30"

definition ordinary_input :: "assessment_input \<Rightarrow> bool" where
  "ordinary_input inp \<longleftrightarrow>
     ordinary (ai_p_success inp) \<and> ordinary (ai_criticality_value inp)
     \<and> list_all (\<lambda>e. ordinary (ev_p_event e) \<and> ordinary (ev_elicited_disutility e)) (ai_events inp)
     \<and> list_all (\<lambda>(_, v). ordinary v) (ai_event_probability_variances inp)
     \<and> (case ai_p_success_variance inp of None \<Rightarrow> True | Some v \<Rightarrow> ordinary v)
     \<and> (case ai_review_cost_variance inp of None \<Rightarrow> True | Some v \<Rightarrow> ordinary v)
     \<and> (case ai_variance_breakdown inp of
          None \<Rightarrow> True
        | Some d \<Rightarrow> list_all (\<lambda>(_, v). ordinary v) d \<and> length d \<le> 10 ^ 30)
     \<and> length (ai_events inp) \<le> 10 ^ 30"

lemma ordinary_square: "ordinary x \<Longrightarrow> x\<^sup>2 \<le> 10 ^ 60"
  using power_mono [of "\<bar>x\<bar>" "10 ^ 30" 2] by (simp add: ordinary_def)

lemma ordinary_square_fits: "ordinary x \<Longrightarrow> \<not> float_overflows (x ^ 2)"
  by (rule not_float_overflows) (use ordinary_square [of x] in simp)

lemma sum_list_le_length:
  assumes "\<And>x. x \<in> set xs \<Longrightarrow> f x \<le> c"
  shows "(\<Sum>x\<leftarrow>xs. f x) \<le> real (length xs) * c"
  using assms by (induction xs) (auto simp: algebra_simps intro: add_mono)

lemma floored_event_origin:
  assumes "e \<in> set (floored_events inp)"
  obtains ev where "ev \<in> set (ai_events inp)" and "fe_p_event e \<le> ev_p_event ev"
    and "min (ev_p_event ev) STRUCTURAL_CONTINUITY_PROBABILITY_FLOOR \<le> fe_p_event e"
    and "fe_disutility e
      = fst (apply_criticality_floor (ev_event ev) (ev_elicited_disutility ev) (ai_criticality_value inp))"
proof -
  obtain e' where e': "e' \<in> set (fst (scoped_graph_risk_update inp))"
    "e = floor_event (ai_criticality_value inp) e'"
    using assms by (auto simp: floored_events_def)
  obtain ev keys where "ev \<in> set (ai_events inp)"
    "adjusted_by (ai_candidate_graph_risk_evidence inp) keys ev e'"
    using apply_scoped_adjustments_pointwise e'(1)
    by (metis in_set_conv_nth list_all2_conv_all_nth scoped_graph_risk_update_def)
  then show thesis
    using that [of ev] adjusted_by_weaker by (auto simp: e'(2) floor_event_fields)
qed

lemma floored_event_ordinary:
  assumes "ordinary_input inp" and "e \<in> set (floored_events inp)"
  shows "ordinary (fe_p_event e) \<and> ordinary (fe_disutility e)"
proof -
  obtain ev where ev: "ev \<in> set (ai_events inp)" "fe_p_event e \<le> ev_p_event ev"
      "min (ev_p_event ev) STRUCTURAL_CONTINUITY_PROBABILITY_FLOOR \<le> fe_p_event e"
      "fe_disutility e
        = fst (apply_criticality_floor (ev_event ev) (ev_elicited_disutility ev) (ai_criticality_value inp))"
    using floored_event_origin [OF assms(2)] .
  have o: "ordinary (ev_p_event ev)" "ordinary (ev_elicited_disutility ev)" "ordinary (ai_criticality_value inp)"
    using assms(1) ev(1) by (auto simp: ordinary_input_def list_all_iff)
  have "ordinary (fe_p_event e)"
    using o(1) ev(2,3) by (auto simp: ordinary_def abs_le_iff STRUCTURAL_CONTINUITY_PROBABILITY_FLOOR_def min_def split: if_splits)
  moreover have "ordinary (fe_disutility e)"
    using o(2,3) by (simp add: ev(4) apply_criticality_floor_def)
  ultimately show ?thesis ..
qed

lemma ordinary_squares: "ordinary_input inp \<Longrightarrow> \<not> squares_overflow inp"
  using floored_event_ordinary ordinary_square_fits
  by (fastforce simp: squares_overflow_def list_ex_iff ordinary_input_def)

lemma dict_get_le: "list_all (\<lambda>(_, v). v \<le> m) d \<Longrightarrow> x \<le> m \<Longrightarrow> dict_get d k x \<le> (m :: real)"
  by (induction d) auto

lemma ordinary_event_variance:
  assumes "ordinary_input inp" and "event_variances_ok (ai_event_probability_variances inp)"
  shows "event_variance_of (ai_event_probability_variances inp) (floored_events inp) \<le> 10 ^ 150"
proof -
  let ?v = "ai_event_probability_variances inp"
  have v: "dict_get ?v k (COLD_START_VARIANCES V_p_event) \<le> 10 ^ 30" for k
    using assms(1) by (intro dict_get_le) (auto simp: ordinary_input_def ordinary_def list_all_iff)
  have p: "0 \<le> dict_get ?v k (COLD_START_VARIANCES V_p_event)" for k
    using assms(2) by (intro dict_get_nonneg) (simp_all add: event_variances_ok_def)
  have "event_variance_term ?v e \<le> 10 ^ 60 * 10 ^ 30 + 10 ^ 60 * 1" if "e \<in> set (floored_events inp)" for e
    unfolding event_variance_term_def
    using floored_event_ordinary [OF assms(1) that] v p ordinary_square by (intro add_mono mult_mono') auto
  then have "event_variance_of ?v (floored_events inp)
    \<le> real (length (floored_events inp)) * (10 ^ 60 * 10 ^ 30 + 10 ^ 60 * 1)"
    unfolding event_variance_of_sum by (rule sum_list_le_length)
  also have "\<dots> \<le> 10 ^ 30 * (10 ^ 60 * 10 ^ 30 + 10 ^ 60 * 1)"
    using assms(1) list_all2_lengthD [OF apply_scoped_adjustments_pointwise]
    by (intro mult_right_mono) (auto simp: floored_events_def scoped_graph_risk_update_def ordinary_input_def)
  finally show ?thesis by simp
qed

lemma ordinary_first_order:
  assumes "ordinary_input inp" and "event_variances_ok (ai_event_probability_variances inp)"
    and "ai_variance_breakdown inp = None \<or> ai_variance_breakdown inp = Some []"
  shows "\<not> fsum_overflows (map snd (fst (variance_of_input inp)))"
proof (rule fsum_fits)
  let ?vi = "\<lparr>vi_benefit = Some (bb_benefit (benefit_of_input inp)), vi_p_success = Some (ai_p_success inp),
    vi_var_p_success = ai_p_success_variance inp,
    vi_var_benefit = Some (bb_benefit_variance (benefit_of_input inp)),
    vi_var_review_cost = ai_review_cost_variance inp,
    vi_event_variance = Some (event_variance_of (ai_event_probability_variances inp) (floored_events inp)),
    vi_scenario_variance = None, vi_p_success_confidence = None, vi_benefit_confidence = None,
    vi_review_cost_confidence = None, vi_event_confidence = None, vi_disutility_confidence = None\<rparr>"
  have v: "bb_benefit_variance (resolve_benefit i ds src e vo) \<le> 1" for i ds src e vo
    using resolve_benefit_bounds(2) [OF refl, of i ds src e vo] by (simp add: PROJECTED_BENEFIT_VARIANCE_def)
  have "\<bar>bb_benefit (benefit_of_input inp)\<bar> \<le> 1 \<and> bb_benefit_variance (benefit_of_input inp) \<le> 1"
    using resolve_benefit_bounds(1) [OF refl] v
    by (auto simp: benefit_of_input_def Let_def BENEFIT_OVERRIDE_MAX_def split: option.splits)
  then have "(\<Sum>x\<leftarrow>map snd (first_order_breakdown ?vi (bb_benefit (benefit_of_input inp)) (ai_p_success inp)). \<bar>x\<bar>)
    \<le> 2 * 10 ^ 30 + (ai_p_success inp)\<^sup>2
      + event_variance_of (ai_event_probability_variances inp) (floored_events inp) + 1"
    using assms(1) event_variance_nonneg [OF assms(2)]
    by (intro first_order_terms) (auto simp: ordinary_input_def ordinary_def split: option.splits)
  also have "\<dots> \<le> 2 * 10 ^ 30 + 10 ^ 60 + 10 ^ 150 + 1"
    using ordinary_event_variance [OF assms(1,2)] ordinary_square [of "ai_p_success inp"] assms(1)
    by (simp add: ordinary_input_def)
  also have "\<dots> \<le> 10 ^ 200" by simp
  finally show "(\<Sum>x\<leftarrow>map snd (fst (variance_of_input inp)). \<bar>x\<bar>) \<le> 10 ^ 200"
    using assms(3) by (auto simp: variance_of_input_def resolve_utility_variance_def Let_def)
qed

lemma ordinary_explicit:
  assumes "ordinary_input inp" and "ai_variance_breakdown inp = Some d" and "d \<noteq> []"
  shows "fst (variance_of_input inp) = d" and "\<not> fsum_overflows (map snd d)"
proof -
  show "fst (variance_of_input inp) = d"
    using assms(2,3) by (cases d) (simp_all add: variance_of_input_def resolve_utility_variance_def Let_def)
  have "(\<Sum>x\<leftarrow>map snd d. \<bar>x\<bar>) \<le> real (length (map snd d)) * 10 ^ 30"
    by (rule sum_list_le_length) (use assms(1,2) in \<open>auto simp: ordinary_input_def ordinary_def list_all_iff\<close>)
  also have "\<dots> \<le> 10 ^ 30 * 10 ^ 30"
    using assms(1,2) by (simp add: ordinary_input_def)
  also have "\<dots> \<le> 10 ^ 200" by simp
  finally show "\<not> fsum_overflows (map snd d)" by (rule fsum_fits)
qed

lemma ordinary_fsum:
  assumes "ordinary_input inp" and "event_variances_ok (ai_event_probability_variances inp)"
  shows "\<not> fsum_overflows (map snd (fst (variance_of_input inp)))"
proof (cases "ai_variance_breakdown inp = None \<or> ai_variance_breakdown inp = Some []")
  case True then show ?thesis by (rule ordinary_first_order [OF assms])
next
  case False
  then obtain d where "ai_variance_breakdown inp = Some d" "d \<noteq> []" by auto
  then show ?thesis using ordinary_explicit [OF assms(1)] by simp
qed

lemma build_assessment_negative:
  assumes "ordinary_input inp" and "ai_variance_breakdown inp = Some d" and "sum_list (map snd d) < 0"
  shows "build_assessment inp = Inl (ValueError ''variance must be non-negative'')"
proof -
  have d: "d \<noteq> []" using assms(3) by auto
  have "utility_sd (map snd (fst (variance_of_input inp))) = Inl (ValueError ''variance must be non-negative'')"
    using ordinary_explicit [OF assms(1,2) d] assms(3) by (simp add: utility_sd_negative)
  then show ?thesis
    by (auto simp: build_assessment_def Let_def ordinary_squares [OF assms(1)] rbind_def split: prod.splits)
qed

text \<open>The scoped update never raises the loss: each event keeps its label and its disutility.\<close>

lemma floored_loss_le:
  assumes "list_all2 (adjusted_by ce keys) evs evs'" and "\<And>e. e \<in> set evs \<Longrightarrow> 0 \<le> ev_elicited_disutility e"
    and "0 \<le> c"
  shows "(\<Sum>e\<leftarrow>map (floor_event c) evs'. fe_p_event e * fe_disutility e)
    \<le> (\<Sum>e\<leftarrow>map (floor_event c) evs. fe_p_event e * fe_disutility e)"
  using assms(1,2)
proof (induction evs evs' rule: list_all2_induct)
  case (Cons e evs e' evs')
  have d: "0 \<le> fst (apply_criticality_floor (ev_event e) (ev_elicited_disutility e) c)"
    using Cons.prems [of e] criticality_floor_ge [of "ev_elicited_disutility e" "ev_event e" c] by simp
  have "ev_p_event e' * fst (apply_criticality_floor (ev_event e) (ev_elicited_disutility e) c)
    \<le> ev_p_event e * fst (apply_criticality_floor (ev_event e) (ev_elicited_disutility e) c)"
    by (rule mult_right_mono [OF adjusted_by_weaker(3) [OF Cons.hyps(1)] d])
  then show ?case
    using Cons adjusted_by_weaker(1,2) [OF Cons.hyps(1)] by (simp add: floor_event_fields)
qed simp

lemma adjusted_loss_le:
  assumes "\<And>e. e \<in> set (ai_events inp) \<Longrightarrow> 0 \<le> ev_elicited_disutility e" and "0 \<le> ai_criticality_value inp"
  shows "fst (expected_loss (floored_events inp))
    \<le> fst (expected_loss (map (floor_event (ai_criticality_value inp)) (ai_events inp)))"
  unfolding expected_loss_sum floored_events_def scoped_graph_risk_update_def
  by (rule floored_loss_le [OF apply_scoped_adjustments_pointwise assms])

section \<open>Properties\<close>

text \<open>C35: Building an assessment fails on valid evidence in one case only. With all six confidence
  factors in \<open>(0, 1]\<close>, a positive loss threshold, event variances that are not negative and numbers of
  ordinary size (at most \<open>10 ^ 30\<close>, in lists of at most \<open>10 ^ 30\<close>), it returns an assessment, whether
  the variance is propagated or given explicitly, unless an explicit breakdown adds up to less than
  zero, which is the \<open>ValueError\<close> of a negative variance. In particular the graph refinement, the
  criticality floor and the architecture and file penalties never make valid evidence invalid.\<close>

theorem build_assessment_total:
  assumes "confidence_factors_valid (ai_edit_confidence_factors inp)"
    and "event_variances_ok (ai_event_probability_variances inp)"
    and "0 < fst (effective_threshold (ai_criticality_stage inp) (ai_thresholds inp))"
    and "ordinary_input inp"
  shows "case ai_variance_breakdown inp of
      None \<Rightarrow> \<exists>a. build_assessment inp = Inr a
    | Some d \<Rightarrow>
        if sum_list (map snd d) < 0
        then build_assessment inp = Inl (ValueError ''variance must be non-negative'')
        else \<exists>a. build_assessment inp = Inr a"
proof -
  have "\<exists>a. build_assessment inp = Inr a" if "\<forall>d. ai_variance_breakdown inp = Some d \<longrightarrow> 0 \<le> sum_list (map snd d)"
    unfolding is_ok_iff [symmetric] build_assessment_is_ok_iff
    using that assms ordinary_squares ordinary_fsum penalized_factors_valid variance_not_negative by blast
  then show ?thesis
    using build_assessment_negative [OF assms(4)] by (auto split: option.split)
qed

definition small_input :: assessment_input where
  "small_input =
     \<lparr>ai_request = single_action ''task'' sample_patchless_action, ai_action = sample_patchless_action,
      ai_events = [plain_event ''dependency_break'' 0.1 0.5], ai_p_success = 0.9,
      ai_immediate_benefit = vreal 0.8, ai_review_cost = 0.1, ai_criticality_stage = ''C1'',
      ai_criticality_value = 0.3,
      ai_edit_confidence_factors = map (\<lambda>f. (f, 1)) EDIT_CONFIDENCE_FACTORS, ai_thresholds = [],
      ai_repo_id = ''r'', ai_repo_root = ''/r'', ai_policy_violations = [],
      ai_p_success_variance = None, ai_review_cost_variance = None,
      ai_event_probability_variances = [], ai_variance_breakdown = None,
      ai_benefit_delta_evidence = default_benefit_delta, ai_symbol_diff_evidence = default_symbol_diff,
      ai_fanin_evidence = None, ai_candidate_aggregate_evidence = default_candidate_aggregate,
      ai_file_fanin_rollup = None, ai_blast_evidence = default_blast,
      ai_architecture_evidence = default_architecture,
      ai_candidate_verification = default_candidate_verification,
      ai_candidate_graph_risk_evidence = default_graph_risk_evidence,
      ai_task_obligations = default_task_obligations,
      ai_revision_completeness = default_revision_completeness,
      ai_language_capability = default_language_capability, ai_sanction = None,
      ai_structural_features = None, ai_applied_snapshot_provenance = None,
      ai_warm_prior_provenance = None, ai_benefit_override = None,
      ai_benefit_variance_override = None\<rparr>"

text \<open>The same evidence with an explicit variance, of either sign.\<close>

definition explicit_input :: "real \<Rightarrow> assessment_input" where
  "explicit_input v = small_input\<lparr>ai_variance_breakdown := Some [(''p_success'', 0.5), (''event_losses'', v)]\<rparr>"

lemma small_input_ok:
  "confidence_factors_valid (ai_edit_confidence_factors small_input)"
  "event_variances_ok (ai_event_probability_variances small_input)"
  "0 < fst (effective_threshold (ai_criticality_stage small_input) (ai_thresholds small_input))"
  "ordinary_input small_input"
  by (simp_all add: small_input_def confidence_factors_valid_def EDIT_CONFIDENCE_FACTORS_def
      event_variances_ok_def effective_threshold_def dict_get_def ordinary_input_def ordinary_def plain_event_def)

lemma explicit_input_ok:
  assumes "\<bar>v\<bar> \<le> 1"
  shows "confidence_factors_valid (ai_edit_confidence_factors (explicit_input v))"
    and "event_variances_ok (ai_event_probability_variances (explicit_input v))"
    and "0 < fst (effective_threshold (ai_criticality_stage (explicit_input v)) (ai_thresholds (explicit_input v)))"
    and "ordinary_input (explicit_input v)"
  using small_input_ok assms by (simp_all add: explicit_input_def ordinary_input_def ordinary_def)

lemma build_assessment_total_witness:
  "(\<exists>a. build_assessment small_input = Inr a) \<and> (\<exists>a. build_assessment (explicit_input 0.1) = Inr a)
   \<and> build_assessment (explicit_input (-1)) = Inl (ValueError ''variance must be non-negative'')"
  using build_assessment_total [OF small_input_ok] build_assessment_total [OF explicit_input_ok [of "0.1"]]
    build_assessment_total [OF explicit_input_ok [of "-1"]]
  by (simp add: small_input_def explicit_input_def)

text \<open>Outside the ordinary sizes the build can raise: a disutility whose square is no double.\<close>

lemma huge_disutility_raises:
  "build_assessment (small_input\<lparr>ai_events := [plain_event ''dependency_break'' 0.1 (10 ^ 200)]\<rparr>)
    = Inl (OverflowError ''Numerical result out of range'')"
proof -
  let ?inp = "small_input\<lparr>ai_events := [plain_event ''dependency_break'' 0.1 (10 ^ 200)]\<rparr>"
  have "float_overflows ((10 ^ 200) ^ 2)" by (simp add: float_overflows_def)
  moreover have "\<exists>e \<in> set (floored_events ?inp). fe_disutility e = 10 ^ 200"
    by (simp add: floored_events_def scoped_graph_risk_update_def small_input_def default_graph_risk_evidence_def
        apply_scoped_adjustments_def plain_event_def floor_event_def apply_criticality_floor_def)
  ultimately have "squares_overflow ?inp" unfolding squares_overflow_def list_ex_iff by metis
  then show ?thesis by (simp add: build_assessment_def)
qed

text \<open>The scores of an assessment are consistent: the expected loss is the sum of probability times
  floored disutility over the events and never above the loss without graph refinement, the benefit is
  in \<open>[0, 1]\<close>, the risk-adjusted utility is at most the expected utility, the edit confidence is in
  \<open>(0, 1]\<close>, the risk budget is loss over a positive threshold no looser than the global one.\<close>

theorem assessment_scores_consistent:
  assumes "build_assessment inp = Inr a" and "0 \<le> ai_criticality_value inp"
    and "list_all (\<lambda>e. 0 \<le> ev_elicited_disutility e) (ai_events inp)"
  shows "sc_expected_loss (as_scores a) = (\<Sum>e\<leftarrow>floored_events inp. fe_p_event e * fe_disutility e)
    \<and> sc_expected_loss (as_scores a) \<le> (\<Sum>e\<leftarrow>ai_events inp. ev_p_event e
        * fst (apply_criticality_floor (ev_event e) (ev_elicited_disutility e) (ai_criticality_value inp)))
    \<and> 0 \<le> sc_benefit (as_scores a) \<and> sc_benefit (as_scores a) \<le> 1
    \<and> sc_rau (as_scores a) \<le> sc_expected_utility (as_scores a)
    \<and> 0 < sc_edit_confidence (as_scores a) \<and> sc_edit_confidence (as_scores a) \<le> 1
    \<and> 0 < sc_effective_threshold (as_scores a)
    \<and> sc_effective_threshold (as_scores a)
        \<le> dict_get (ai_thresholds inp) ''max_expected_loss_without_human'' 0.45
    \<and> sc_risk_budget_used (as_scores a) = sc_expected_loss (as_scores a) / sc_effective_threshold (as_scores a)"
proof -
  note b = build_assessment_Inr [OF assms(1)]
  have loss: "sc_expected_loss (as_scores a) \<le> (\<Sum>e\<leftarrow>ai_events inp. ev_p_event e
        * fst (apply_criticality_floor (ev_event e) (ev_elicited_disutility e) (ai_criticality_value inp)))"
    using adjusted_loss_le [of inp] assms(2,3) b(2)
    by (simp add: expected_loss_sum floor_event_fields o_def list_all_iff)
  have benefit: "0 \<le> bb_benefit (benefit_of_input inp) \<and> bb_benefit (benefit_of_input inp) \<le> 1"
    using resolve_benefit_bounds(1) [OF refl]
    by (simp add: benefit_of_input_def Let_def BENEFIT_OVERRIDE_MAX_def split: option.splits)
  have budget: "0 < sc_effective_threshold (as_scores a)
    \<and> sc_risk_budget_used (as_scores a) = sc_expected_loss (as_scores a) / sc_effective_threshold (as_scores a)"
    using b(9) by (auto simp: risk_budget_used_def split: if_splits)
  show ?thesis
    using loss benefit budget b(2,3) edit_confidence_unit [OF b(7)] rau_le_eu [OF utility_sd_nonneg [OF b(5)]]
      effective_threshold_le [of "ai_criticality_stage inp" "ai_thresholds inp"] b(6,8)
    by (simp add: expected_loss_sum)
qed

lemma assessment_scores_consistent_witness:
  "\<exists>a. build_assessment small_input = Inr a \<and> sc_rau (as_scores a) \<le> sc_expected_utility (as_scores a)"
proof -
  have "is_ok (build_assessment small_input)"
    unfolding build_assessment_is_ok_iff
    using small_input_ok ordinary_squares ordinary_fsum penalized_factors_valid
      variance_not_negative [of small_input] by (simp add: small_input_def)
  then obtain a where a: "build_assessment small_input = Inr a" by (auto simp: is_ok_iff)
  moreover have "0 \<le> ai_criticality_value small_input"
    "list_all (\<lambda>e. 0 \<le> ev_elicited_disutility e) (ai_events small_input)"
    by (simp_all add: small_input_def plain_event_def)
  ultimately show ?thesis using assessment_scores_consistent [OF a] by blast
qed

end
