(* ===== verification/Pebra_Risk_Models.thy ===== *)
theory Pebra_Risk_Models
  imports Pebra_Models Pebra_Score_Math Pebra_Change_Classifier
begin

text \<open>
  \<open>pebra/core/graph_trust.py\<close>, \<open>exposure_model.py\<close>, \<open>modify_risk_model.py\<close> and
  \<open>destructive_op_model.py\<close>: the models that turn graph evidence into event rows. Both event
  models share one contract, stated as the locale \<open>event_model\<close>: at most one row, its probability
  at most 0.45, its label one of the consequence-bearing events. What the scoring code gains from
  the contract, a bound on the loss a model can add, is proved once inside the locale.
\<close>

named_theorems risk_consts \<open>the numeric constants of the risk models\<close>

section \<open>graph_trust\<close>

definition TRUSTED_FANIN_RESOLUTION_METHODS :: "string list" where
  "TRUSTED_FANIN_RESOLUTION_METHODS = [''location'', ''name_fallback'']"

definition is_trusted_fanin :: "fanin_evidence option \<Rightarrow> bool" where
  "is_trusted_fanin fanin =
     (case fanin of
        None \<Rightarrow> False
      | Some f \<Rightarrow> fi_graph_freshness f = ''fresh''
          \<and> fi_resolution_method f \<in> set TRUSTED_FANIN_RESOLUTION_METHODS
          \<and> fi_graph_file_error_count f = 0)"

definition effective_impact_percentile :: "fanin_evidence \<Rightarrow> real" where
  "effective_impact_percentile fanin =
     (let direct = (if fi_symbol_caller_count fanin > 0 then fi_symbol_fan_in_percentile fanin else 0);
          structural = (if fi_modify_impact_count fanin > 0 then fi_modify_impact_percentile fanin else 0);
          transitive = (if fi_modify_transitive_impact_count fanin > 0
                        then fi_modify_transitive_impact_percentile fanin else 0)
      in max (max direct structural) transitive)"

lemma is_trusted_fanin_Some:
  "is_trusted_fanin fanin \<Longrightarrow> \<exists>f. fanin = Some f"
  by (cases fanin) (simp_all add: is_trusted_fanin_def)

section \<open>exposure_model\<close>

definition derive_exposure :: "fanin_evidence option \<Rightarrow> real \<Rightarrow> real" where
  "derive_exposure fanin cap =
     (case fanin of
        Some f \<Rightarrow>
          if is_trusted_fanin (Some f)
          then max 0 (min (max 0 (min 1 cap)) (effective_impact_percentile f)) else 0
      | None \<Rightarrow> 0)"

lemma derive_exposure_clamp:
  "is_trusted_fanin (Some f) \<Longrightarrow>
     derive_exposure (Some f) cap = clamp 0 (clamp 0 1 cap) (effective_impact_percentile f)"
  by (simp add: derive_exposure_def clamp_def)

lemma derive_exposure_bounds:
  "0 \<le> derive_exposure fanin cap \<and> derive_exposure fanin cap \<le> clamp 0 1 cap"
  by (auto simp: derive_exposure_def clamp_def split: option.splits)

lemma derive_exposure_untrusted: "\<not> is_trusted_fanin fanin \<Longrightarrow> derive_exposure fanin cap = 0"
  by (auto simp: derive_exposure_def split: option.splits)

section \<open>The contract of an event model\<close>

text \<open>
  \<open>floored_loss c evs\<close> is what the rows add to the expected loss at criticality value \<open>c\<close>: the
  probability times the disutility after the event-class floor.
\<close>

definition floored_loss :: "real \<Rightarrow> risk_event list \<Rightarrow> real" where
  "floored_loss c evs =
     (\<Sum>e\<leftarrow>evs. ev_p_event e * fst (apply_criticality_floor (ev_event e) (ev_elicited_disutility e) c))"

locale event_model =
  fixes events :: "'e \<Rightarrow> risk_event list"
    and valid :: "'e \<Rightarrow> bool"
    and cap :: real
  assumes at_most_one: "length (events e) \<le> 1"
    and p_cap: "x \<in> set (events e) \<Longrightarrow> ev_p_event x \<le> cap"
    and p_nonneg: "valid e \<Longrightarrow> x \<in> set (events e) \<Longrightarrow> 0 \<le> ev_p_event x"
    and disutility: "x \<in> set (events e) \<Longrightarrow> 0 \<le> ev_elicited_disutility x \<and> ev_elicited_disutility x \<le> 1"
    and consequence: "x \<in> set (events e) \<Longrightarrow> ev_event x \<in> set CONSEQUENCE_BEARING_EVENTS"
begin

lemma events_cases: "events e = [] \<or> (\<exists>x. events e = [x])"
  using at_most_one [of e] by (cases "events e") auto

lemma floored_disutility:
  assumes "x \<in> set (events e)"
  shows "fst (apply_criticality_floor (ev_event x) (ev_elicited_disutility x) c)
    = max (ev_elicited_disutility x) c"
  using consequence [OF assms] by (auto simp: apply_criticality_floor_def max_def)

lemma loss_nonneg: "valid e \<Longrightarrow> 0 \<le> c \<Longrightarrow> 0 \<le> floored_loss c (events e)"
  using events_cases [of e] p_nonneg [of e] disutility [of _ e] floored_disutility [of _ e c]
  by (auto simp: floored_loss_def le_max_iff_disj intro!: mult_nonneg_nonneg)

lemma loss_le:
  assumes "valid e" and "0 \<le> cap" and "c \<le> 1"
  shows "floored_loss c (events e) \<le> cap"
proof -
  consider "events e = []" | x where "events e = [x]" using events_cases [of e] by blast
  then show ?thesis
  proof cases
    case 2
    then have x: "x \<in> set (events e)" by simp
    have "ev_p_event x * max (ev_elicited_disutility x) c \<le> cap * 1"
      using p_cap [OF x] p_nonneg [OF assms(1) x] disutility [OF x] assms(2,3)
      by (intro mult_mono) (auto simp: le_max_iff_disj)
    then show ?thesis using 2 floored_disutility [OF x, of c] by (simp add: floored_loss_def)
  qed (use assms in \<open>simp add: floored_loss_def\<close>)
qed

lemma loss_ge_criticality:
  assumes "valid e" and "events e = [x]"
  shows "ev_p_event x * c \<le> floored_loss c (events e)"
  using assms p_nonneg [OF assms(1), of x] floored_disutility [of x e c]
  by (auto simp: floored_loss_def intro!: mult_left_mono)

end

section \<open>modify_risk_model\<close>

definition P_EVENT_CAP :: real where "P_EVENT_CAP = 0.45"
definition HIGH_FANIN_THRESHOLD :: real where "HIGH_FANIN_THRESHOLD = 0.90"
definition FANIN_BONUS_MAX :: real where "FANIN_BONUS_MAX = 0.28"
definition BASELINE_CONTRACT :: real where "BASELINE_CONTRACT = 0.08"
definition BASELINE_PUBLIC_API :: real where "BASELINE_PUBLIC_API = 0.12"
definition BASELINE_SCHEMA_OR_MIGRATION :: real where "BASELINE_SCHEMA_OR_MIGRATION = 0.18"
definition ARCH_ENTRYPOINT_BONUS :: real where "ARCH_ENTRYPOINT_BONUS = 0.04"
definition LARGE_OWNER_SPAN_LINES :: int where "LARGE_OWNER_SPAN_LINES = 60"
definition VERY_LARGE_OWNER_SPAN_LINES :: int where "VERY_LARGE_OWNER_SPAN_LINES = 120"
definition LARGE_OWNER_BONUS :: real where "LARGE_OWNER_BONUS = 0.06"
definition VERY_LARGE_OWNER_BONUS :: real where "VERY_LARGE_OWNER_BONUS = 0.10"
definition MULTI_SYMBOL_BONUS_MAX :: real where "MULTI_SYMBOL_BONUS_MAX = 0.05"
definition OUTGOING_EDGE_BONUS_MAX :: real where "OUTGOING_EDGE_BONUS_MAX = 0.06"
definition OWNER_KIND_BONUS :: real where "OWNER_KIND_BONUS = 0.03"

definition RISKY_OWNER_KINDS :: "string list" where
  "RISKY_OWNER_KINDS = [''class'', ''interface'', ''trait'', ''protocol'', ''component'', ''route'']"

definition BASE_DISUTILITY_DEPENDENCY_BREAK :: real where "BASE_DISUTILITY_DEPENDENCY_BREAK = 0.60"
definition BASE_DISUTILITY_PUBLIC_API_BREAK :: real where "BASE_DISUTILITY_PUBLIC_API_BREAK = 0.70"
definition BASE_DISUTILITY_API_CONTRACT_BREAK :: real where "BASE_DISUTILITY_API_CONTRACT_BREAK = 0.70"

lemmas [risk_consts] =
  P_EVENT_CAP_def HIGH_FANIN_THRESHOLD_def FANIN_BONUS_MAX_def BASELINE_CONTRACT_def
  BASELINE_PUBLIC_API_def BASELINE_SCHEMA_OR_MIGRATION_def ARCH_ENTRYPOINT_BONUS_def
  LARGE_OWNER_SPAN_LINES_def VERY_LARGE_OWNER_SPAN_LINES_def LARGE_OWNER_BONUS_def
  VERY_LARGE_OWNER_BONUS_def MULTI_SYMBOL_BONUS_MAX_def OUTGOING_EDGE_BONUS_MAX_def
  OWNER_KIND_BONUS_def BASE_DISUTILITY_DEPENDENCY_BREAK_def BASE_DISUTILITY_PUBLIC_API_BREAK_def
  BASE_DISUTILITY_API_CONTRACT_BREAK_def

definition modify_event :: "string \<Rightarrow> real \<Rightarrow> real \<Rightarrow> string list \<Rightarrow> risk_event" where
  "modify_event name p_event disutility owner_node_ids =
     \<lparr>ev_event = name, ev_p_event = p_event, ev_elicited_disutility = disutility,
      ev_probability_source_type = Some ''prior_uncalibrated'',
      ev_disutility_source_type = Some ''prior_uncalibrated'',
      ev_risk_source = Some ''graph_modify_risk'', ev_owner_node_ids = owner_node_ids,
      ev_independent_probability_floor = None, ev_graph_risk_update = None\<rparr>"

definition modify_dominant_event :: "real \<Rightarrow> bool \<Rightarrow> bool \<Rightarrow> string list \<Rightarrow> risk_event" where
  "modify_dominant_event p_event public_or_exported schema_or_migration owner_node_ids =
     (if schema_or_migration
      then modify_event ''api_contract_break'' p_event BASE_DISUTILITY_API_CONTRACT_BREAK owner_node_ids
      else if public_or_exported
      then modify_event ''public_api_break'' p_event BASE_DISUTILITY_PUBLIC_API_BREAK owner_node_ids
      else modify_event ''dependency_break'' p_event BASE_DISUTILITY_DEPENDENCY_BREAK owner_node_ids)"

definition kind_of_diff :: "symbol_diff_evidence \<Rightarrow> change_kind" where
  "kind_of_diff sde =
     (case change_kind_of_value (sd_max_change_kind sde) of Some k \<Rightarrow> k | None \<Rightarrow> CK_UNKNOWN)"

definition is_public_diff :: "symbol_diff_evidence \<Rightarrow> bool" where
  "is_public_diff sde = (sd_visibility sde \<in> {''public'', ''public_api'', ''exported''})"

definition graph_public_contract :: "fanin_evidence \<Rightarrow> bool" where
  "graph_public_contract fanin =
     (fi_is_exported_contract fanin \<or> fi_is_abstract_or_interface_contract fanin)"

definition modify_base ::
  "symbol_diff_evidence \<Rightarrow> fanin_evidence \<Rightarrow> architecture_evidence \<Rightarrow> bool \<Rightarrow> bool
    \<Rightarrow> candidate_aggregate_evidence \<Rightarrow> real" where
  "modify_base sde fanin arch is_schema_change is_migration candidate_aggregate =
     (let base = (if is_public_diff sde \<or> graph_public_contract fanin then BASELINE_PUBLIC_API
                  else BASELINE_CONTRACT);
          base = (if is_schema_change \<or> is_migration then max base BASELINE_SCHEMA_OR_MIGRATION else base);
          base = (if ae_domain_entrypoint arch \<or> ae_architecture_anchor_score arch > 0
                  then base + ARCH_ENTRYPOINT_BONUS else base);
          base = (if fi_max_owner_span_lines fanin \<ge> VERY_LARGE_OWNER_SPAN_LINES
                  then base + VERY_LARGE_OWNER_BONUS
                  else if fi_max_owner_span_lines fanin \<ge> LARGE_OWNER_SPAN_LINES
                  then base + LARGE_OWNER_BONUS else base);
          base = (if list_ex (\<lambda>k. k \<in> set RISKY_OWNER_KINDS) (fi_owner_kinds fanin)
                  then base + OWNER_KIND_BONUS else base);
          base = (if cg_owner_count candidate_aggregate > 0
                  then base + cg_breadth_bonus candidate_aggregate
                  else if fi_resolved_symbol_count fanin > 1
                  then base + min MULTI_SYMBOL_BONUS_MAX
                                (0.02 * of_int (fi_resolved_symbol_count fanin - 1))
                  else base);
          outgoing_total = sum_list (map snd (fi_outgoing_edge_counts fanin))
      in if outgoing_total \<noteq> 0 then base + min OUTGOING_EDGE_BONUS_MAX (0.01 * of_int outgoing_total)
         else base)"

definition modify_fanin_bonus :: "fanin_evidence \<Rightarrow> real" where
  "modify_fanin_bonus fanin =
     min FANIN_BONUS_MAX
       (max 0 (effective_impact_percentile fanin) * (FANIN_BONUS_MAX / HIGH_FANIN_THRESHOLD))"

definition modify_p_event ::
  "symbol_diff_evidence \<Rightarrow> fanin_evidence \<Rightarrow> architecture_evidence \<Rightarrow> bool \<Rightarrow> bool
    \<Rightarrow> candidate_aggregate_evidence \<Rightarrow> real" where
  "modify_p_event sde fanin arch is_schema_change is_migration candidate_aggregate =
     min P_EVENT_CAP
       (modify_base sde fanin arch is_schema_change is_migration candidate_aggregate
        + modify_fanin_bonus fanin)"

text \<open>The conditions under which a MODIFY edit is graph-important, over the locals of the source.\<close>

definition modify_risk_applies :: "symbol_diff_evidence \<Rightarrow> fanin_evidence \<Rightarrow> bool \<Rightarrow> bool \<Rightarrow> bool" where
  "modify_risk_applies symbol_diff fanin is_schema_change is_migration =
     (let kind = kind_of_diff symbol_diff;
          high_fanin = effective_impact_percentile fanin \<ge> HIGH_FANIN_THRESHOLD;
          large_owner = fi_max_owner_span_lines fanin \<ge> LARGE_OWNER_SPAN_LINES;
          broad_symbol_edit = fi_resolved_symbol_count fanin > 1;
          known_contractish = kind \<in> {CK_CONTRACT, CK_SIDE_EFFECT};
          unknown_change = kind = CK_UNKNOWN
            \<or> sd_structure_tier symbol_diff \<in> set UNCERTAIN_STRUCTURE_TIERS;
          public_consequential = is_public_diff symbol_diff \<and> sd_consequential_symbol_changed symbol_diff;
          graph_important_modify = (high_fanin \<or> large_owner \<or> broad_symbol_edit)
            \<and> (known_contractish \<or> unknown_change \<or> sd_consequential_symbol_changed symbol_diff
               \<or> is_schema_change \<or> is_migration);
          public_known_contract = is_public_diff symbol_diff \<and> known_contractish;
          graph_public_known_contract =
            graph_public_contract fanin \<and> known_contractish \<and> high_fanin
      in graph_important_modify \<or> public_consequential \<or> public_known_contract
         \<or> graph_public_known_contract)"

text \<open>The argument \<open>criticality_stage\<close> is deleted by the first statement of the source.\<close>

definition events_for_modify_risk ::
  "symbol_diff_evidence \<Rightarrow> fanin_evidence option \<Rightarrow> architecture_evidence \<Rightarrow> string \<Rightarrow> bool \<Rightarrow> bool
    \<Rightarrow> candidate_aggregate_evidence \<Rightarrow> risk_event list" where
  "events_for_modify_risk symbol_diff fanin arch criticality_stage is_schema_change is_migration
     candidate_aggregate =
     (case fanin of
        None \<Rightarrow> []
      | Some f \<Rightarrow>
          if sd_file_operation_kind symbol_diff \<noteq> ''NONE'' \<or> \<not> is_trusted_fanin fanin then []
          else if \<not> modify_risk_applies symbol_diff f is_schema_change is_migration then []
          else [modify_dominant_event
                  (modify_p_event symbol_diff f arch is_schema_change is_migration candidate_aggregate)
                  (is_public_diff symbol_diff \<or> graph_public_contract f)
                  (is_schema_change \<or> is_migration)
                  (sorted_set (fi_node_ids_resolved f))])"

subsection \<open>Bounds and contract\<close>

definition modify_evidence_ok :: "fanin_evidence option \<Rightarrow> candidate_aggregate_evidence \<Rightarrow> bool" where
  "modify_evidence_ok fanin agg =
     (0 \<le> cg_breadth_bonus agg
      \<and> (case fanin of None \<Rightarrow> True | Some f \<Rightarrow> list_all (\<lambda>(_, n). 0 \<le> n) (fi_outgoing_edge_counts f)))"

lemma sum_counts_nonneg: "list_all (\<lambda>(_, n). 0 \<le> (n :: int)) d \<Longrightarrow> 0 \<le> sum_list (map snd d)"
  by (induction d) auto

text \<open>The accumulation pattern \<open>if c: base += x\<close> never lowers a bound.\<close>

lemma bonus_le:
  "a \<le> b \<Longrightarrow> (c \<Longrightarrow> 0 \<le> x) \<Longrightarrow> a \<le> (if c then b + x else b)"
  "a \<le> b \<Longrightarrow> (c \<Longrightarrow> 0 \<le> x) \<Longrightarrow> (d \<Longrightarrow> 0 \<le> y) \<Longrightarrow>
     a \<le> (if c then b + x else if d then b + y else b)"
  "a \<le> b \<Longrightarrow> a \<le> (if c then max b m else b)"
  for a b x y m :: real
  by auto

lemma modify_base_ge:
  assumes "0 \<le> cg_breadth_bonus agg" and "list_all (\<lambda>(_, n). 0 \<le> n) (fi_outgoing_edge_counts f)"
  shows "BASELINE_CONTRACT \<le> modify_base sde f arch sch mig agg"
proof -
  note edges = sum_counts_nonneg [OF assms(2)]
  show ?thesis
    unfolding modify_base_def Let_def
    by (intro bonus_le) (use edges assms(1) in \<open>simp_all add: risk_consts\<close>)
qed

lemma modify_fanin_bonus_bounds: "0 \<le> modify_fanin_bonus f \<and> modify_fanin_bonus f \<le> FANIN_BONUS_MAX"
  by (simp add: modify_fanin_bonus_def risk_consts)

lemma modify_fanin_bonus_mono:
  "effective_impact_percentile f \<le> effective_impact_percentile g \<Longrightarrow>
     modify_fanin_bonus f \<le> modify_fanin_bonus g"
  by (auto simp: modify_fanin_bonus_def risk_consts)

lemma modify_events_shape:
  assumes "x \<in> set (events_for_modify_risk sde fanin arch stage sch mig agg)"
  obtains f where "fanin = Some f" and "is_trusted_fanin fanin" and "sd_file_operation_kind sde = ''NONE''"
    and "modify_risk_applies sde f sch mig"
    and "x = modify_dominant_event (modify_p_event sde f arch sch mig agg)
        (is_public_diff sde \<or> graph_public_contract f) (sch \<or> mig) (sorted_set (fi_node_ids_resolved f))"
  using assms by (auto simp: events_for_modify_risk_def split: option.splits if_splits)

lemma modify_dominant_event_fields:
  "ev_p_event (modify_dominant_event p pub sch owners) = p"
  "ev_risk_source (modify_dominant_event p pub sch owners) = Some ''graph_modify_risk''"
  "ev_owner_node_ids (modify_dominant_event p pub sch owners) = owners"
  "ev_event (modify_dominant_event p pub sch owners) =
     (if sch then ''api_contract_break'' else if pub then ''public_api_break'' else ''dependency_break'')"
  "ev_elicited_disutility (modify_dominant_event p pub sch owners) =
     (if sch then BASE_DISUTILITY_API_CONTRACT_BREAK
      else if pub then BASE_DISUTILITY_PUBLIC_API_BREAK else BASE_DISUTILITY_DEPENDENCY_BREAK)"
  by (simp_all add: modify_dominant_event_def modify_event_def)

type_synonym modify_inputs =
  "symbol_diff_evidence \<times> fanin_evidence option \<times> architecture_evidence \<times> string \<times> bool \<times> bool
    \<times> candidate_aggregate_evidence"

fun modify_model :: "modify_inputs \<Rightarrow> risk_event list" where
  "modify_model (sde, fanin, arch, stage, sch, mig, agg) =
     events_for_modify_risk sde fanin arch stage sch mig agg"

fun modify_model_ok :: "modify_inputs \<Rightarrow> bool" where
  "modify_model_ok (sde, fanin, arch, stage, sch, mig, agg) = modify_evidence_ok fanin agg"

interpretation modify: event_model modify_model modify_model_ok P_EVENT_CAP
proof unfold_locales
  fix e :: modify_inputs and x
  obtain sde fanin arch stage sch mig agg where e: "e = (sde, fanin, arch, stage, sch, mig, agg)"
    by (cases e)
  show "length (modify_model e) \<le> 1"
    by (simp add: e events_for_modify_risk_def split: option.splits)
  assume "x \<in> set (modify_model e)"
  then have "x \<in> set (events_for_modify_risk sde fanin arch stage sch mig agg)" by (simp add: e)
  then obtain f where f: "fanin = Some f"
    and x: "x = modify_dominant_event (modify_p_event sde f arch sch mig agg)
      (is_public_diff sde \<or> graph_public_contract f) (sch \<or> mig) (sorted_set (fi_node_ids_resolved f))"
    by (rule modify_events_shape)
  show "ev_p_event x \<le> P_EVENT_CAP"
    by (simp add: x modify_dominant_event_fields modify_p_event_def)
  show "0 \<le> ev_elicited_disutility x \<and> ev_elicited_disutility x \<le> 1"
    by (simp add: x modify_dominant_event_fields risk_consts)
  show "ev_event x \<in> set CONSEQUENCE_BEARING_EVENTS"
    by (simp add: x modify_dominant_event_fields CONSEQUENCE_BEARING_EVENTS_def)
  assume "modify_model_ok e"
  then have "BASELINE_CONTRACT \<le> modify_base sde f arch sch mig agg"
    by (intro modify_base_ge) (simp_all add: e f modify_evidence_ok_def)
  with modify_fanin_bonus_bounds [of f] show "0 \<le> ev_p_event x"
    by (simp add: x modify_dominant_event_fields modify_p_event_def risk_consts)
qed

section \<open>destructive_op_model\<close>

definition ABSOLUTE_FLOOR :: real where "ABSOLUTE_FLOOR = 0.03"
definition BASELINE_ENTRYPOINT :: real where "BASELINE_ENTRYPOINT = 0.15"
definition BASELINE_MIGRATION_SCHEMA :: real where "BASELINE_MIGRATION_SCHEMA = 0.20"
definition BASELINE_GOD_NODE :: real where "BASELINE_GOD_NODE = 0.10"
definition BASELINE_ANCHOR :: real where "BASELINE_ANCHOR = 0.08"
definition GOD_NODE_THRESHOLD :: real where "GOD_NODE_THRESHOLD = 0.75"
definition ROLLUP_BONUS_MAX :: real where "ROLLUP_BONUS_MAX = 0.25"
definition FANIN_ANCHOR_PCTL :: real where "FANIN_ANCHOR_PCTL = 0.90"
definition BASE_DISUTILITY_PATH_MIGRATION_BREAK :: real where
  "BASE_DISUTILITY_PATH_MIGRATION_BREAK = 0.55"

lemmas [risk_consts] =
  ABSOLUTE_FLOOR_def BASELINE_ENTRYPOINT_def BASELINE_MIGRATION_SCHEMA_def BASELINE_GOD_NODE_def
  BASELINE_ANCHOR_def GOD_NODE_THRESHOLD_def ROLLUP_BONUS_MAX_def FANIN_ANCHOR_PCTL_def
  BASE_DISUTILITY_PATH_MIGRATION_BREAK_def

definition baseline_p_event :: "architecture_evidence \<Rightarrow> bool \<Rightarrow> bool \<Rightarrow> real" where
  "baseline_p_event arch is_migration is_schema_change =
     (let p = ABSOLUTE_FLOOR;
          p = (if ae_domain_entrypoint arch then max p BASELINE_ENTRYPOINT else p);
          p = (if is_migration \<or> is_schema_change then max p BASELINE_MIGRATION_SCHEMA else p);
          p = (if ae_god_node_score arch \<ge> GOD_NODE_THRESHOLD then max p BASELINE_GOD_NODE else p)
      in if ae_architecture_anchor_score arch > 0 then max p BASELINE_ANCHOR else p)"

definition fan_in_bonus :: "file_fanin_rollup \<Rightarrow> real" where
  "fan_in_bonus rollup =
     (if fr_resolution_method rollup = ''unresolved'' then 0
      else min ROLLUP_BONUS_MAX (max 0 (fr_percentile rollup) * (ROLLUP_BONUS_MAX / FANIN_ANCHOR_PCTL)))"

definition destructive_event :: "string \<Rightarrow> real \<Rightarrow> real \<Rightarrow> risk_event" where
  "destructive_event name p_event disutility =
     (plain_event name p_event disutility)
       \<lparr>ev_probability_source_type := Some ''prior_uncalibrated'',
        ev_disutility_source_type := Some ''prior_uncalibrated''\<rparr>"

definition destructive_dominant_event :: "string \<Rightarrow> real \<Rightarrow> bool \<Rightarrow> risk_event" where
  "destructive_dominant_event op_kind p_event is_public_api =
     (if op_kind \<in> {''RENAME'', ''MOVE''}
      then destructive_event ''path_migration_break'' p_event BASE_DISUTILITY_PATH_MIGRATION_BREAK
      else if is_public_api
      then destructive_event ''public_api_break'' p_event BASE_DISUTILITY_PUBLIC_API_BREAK
      else destructive_event ''dependency_break'' p_event BASE_DISUTILITY_DEPENDENCY_BREAK)"

definition events_for_destructive_op ::
  "string \<Rightarrow> file_fanin_rollup \<Rightarrow> architecture_evidence \<Rightarrow> bool \<Rightarrow> bool \<Rightarrow> bool \<Rightarrow> risk_event list" where
  "events_for_destructive_op op_kind rollup arch is_public_api is_migration is_schema_change =
     (if op_kind \<notin> {''DELETE'', ''RENAME'', ''MOVE''} then []
      else [destructive_dominant_event op_kind
              (min P_EVENT_CAP
                 (baseline_p_event arch is_migration is_schema_change + fan_in_bonus rollup
                  + fr_cumulative_breadth_bonus rollup))
              is_public_api])"

subsection \<open>Bounds and contract\<close>

lemma baseline_p_event_bounds:
  "ABSOLUTE_FLOOR \<le> baseline_p_event arch mig sch \<and> baseline_p_event arch mig sch \<le> 0.20"
  by (simp add: baseline_p_event_def Let_def risk_consts)

lemma fan_in_bonus_bounds: "0 \<le> fan_in_bonus r \<and> fan_in_bonus r \<le> ROLLUP_BONUS_MAX"
  by (simp add: fan_in_bonus_def risk_consts min_def)

lemma destructive_dominant_event_fields:
  "ev_p_event (destructive_dominant_event k p pub) = p"
  "ev_event (destructive_dominant_event k p pub) =
     (if k \<in> {''RENAME'', ''MOVE''} then ''path_migration_break''
      else if pub then ''public_api_break'' else ''dependency_break'')"
  "0 \<le> ev_elicited_disutility (destructive_dominant_event k p pub)"
  "ev_elicited_disutility (destructive_dominant_event k p pub) \<le> 1"
  by (simp_all add: destructive_dominant_event_def destructive_event_def plain_event_def risk_consts)

type_synonym destructive_inputs =
  "string \<times> file_fanin_rollup \<times> architecture_evidence \<times> bool \<times> bool \<times> bool"

fun destructive_model :: "destructive_inputs \<Rightarrow> risk_event list" where
  "destructive_model (op, rollup, arch, pub, mig, sch) =
     events_for_destructive_op op rollup arch pub mig sch"

fun destructive_model_ok :: "destructive_inputs \<Rightarrow> bool" where
  "destructive_model_ok (op, rollup, arch, pub, mig, sch) = (0 \<le> fr_cumulative_breadth_bonus rollup)"

interpretation destructive: event_model destructive_model destructive_model_ok P_EVENT_CAP
proof unfold_locales
  fix e :: destructive_inputs and x
  obtain op r arch pub mig sch where e: "e = (op, r, arch, pub, mig, sch)" by (cases e)
  show "length (destructive_model e) \<le> 1" by (simp add: e events_for_destructive_op_def)
  assume "x \<in> set (destructive_model e)"
  then have x: "x = destructive_dominant_event op
      (min P_EVENT_CAP (baseline_p_event arch mig sch + fan_in_bonus r + fr_cumulative_breadth_bonus r)) pub"
    by (simp add: e events_for_destructive_op_def split: if_splits)
  show "ev_p_event x \<le> P_EVENT_CAP"
    by (simp add: x destructive_dominant_event_fields)
  show "0 \<le> ev_elicited_disutility x \<and> ev_elicited_disutility x \<le> 1"
    by (simp add: x destructive_dominant_event_fields)
  show "ev_event x \<in> set CONSEQUENCE_BEARING_EVENTS"
    by (simp add: x destructive_dominant_event_fields CONSEQUENCE_BEARING_EVENTS_def)
  assume "destructive_model_ok e"
  then show "0 \<le> ev_p_event x"
    using baseline_p_event_bounds [of arch mig sch] fan_in_bonus_bounds [of r]
    by (simp add: x e destructive_dominant_event_fields risk_consts)
qed

lemma destructive_emits_iff:
  "events_for_destructive_op k r a pub mig sch \<noteq> [] \<longleftrightarrow> k \<in> {''DELETE'', ''RENAME'', ''MOVE''}"
  by (simp add: events_for_destructive_op_def)

lemma destructive_floor:
  assumes "0 \<le> fr_cumulative_breadth_bonus r"
    and "x \<in> set (events_for_destructive_op k r a pub mig sch)"
  shows "ABSOLUTE_FLOOR \<le> ev_p_event x"
  using assms baseline_p_event_bounds [of a mig sch] fan_in_bonus_bounds [of r]
  by (auto simp: events_for_destructive_op_def destructive_dominant_event_fields risk_consts min_def
      split: if_splits)

section \<open>Properties\<close>

text \<open>The MODIFY risk model adds at most one event, only for trusted graph evidence and never for a
  file operation; its probability is in \<open>[0, 0.45]\<close>, its label is consequence-bearing, so with the
  criticality floor it adds at most 0.45 to the expected loss.\<close>

theorem modify_risk_bounded:
  assumes "0 \<le> cg_breadth_bonus agg"
    and "\<forall>f. fanin = Some f \<longrightarrow> list_all (\<lambda>(_, n). 0 \<le> n) (fi_outgoing_edge_counts f)"
    and "0 \<le> c" and "c \<le> 1"
  shows "length (events_for_modify_risk sde fanin arch stage sch mig agg) \<le> 1
    \<and> (\<forall>x \<in> set (events_for_modify_risk sde fanin arch stage sch mig agg).
         0 \<le> ev_p_event x \<and> ev_p_event x \<le> 0.45 \<and> ev_event x \<in> set CONSEQUENCE_BEARING_EVENTS
         \<and> is_trusted_fanin fanin \<and> sd_file_operation_kind sde = ''NONE'')
    \<and> 0 \<le> floored_loss c (events_for_modify_risk sde fanin arch stage sch mig agg)
    \<and> floored_loss c (events_for_modify_risk sde fanin arch stage sch mig agg) \<le> 0.45"
proof -
  let ?e = "(sde, fanin, arch, stage, sch, mig, agg) :: modify_inputs"
  have ok: "modify_model_ok ?e"
    using assms(1,2) by (simp add: modify_evidence_ok_def split: option.splits)
  have trust: "is_trusted_fanin fanin \<and> sd_file_operation_kind sde = ''NONE''"
    if "x \<in> set (modify_model ?e)" for x
    using that by (auto elim: modify_events_shape)
  show ?thesis
    using modify.at_most_one [of ?e] modify.p_cap [of _ ?e] modify.p_nonneg [OF ok]
      modify.consequence [of _ ?e] trust modify.loss_nonneg [OF ok assms(3)]
      modify.loss_le [OF ok _ assms(4)]
    by (simp add: P_EVENT_CAP_def)
qed

definition sample_fanin :: fanin_evidence where
  "sample_fanin = default_fanin\<lparr>fi_graph_freshness := ''fresh'', fi_resolution_method := ''location'',
     fi_symbol_caller_count := 40, fi_symbol_fan_in_percentile := 0.95,
     fi_node_ids_resolved := [''n1'']\<rparr>"

lemma modify_risk_bounded_witness:
  "\<exists>x. events_for_modify_risk default_symbol_diff (Some sample_fanin) default_architecture ''C2'' False False
      default_candidate_aggregate = [x] \<and> ev_p_event x \<le> 0.45"
proof -
  have "\<exists>x. events_for_modify_risk default_symbol_diff (Some sample_fanin) default_architecture ''C2'' False False
      default_candidate_aggregate = [x]"
    by (simp add: events_for_modify_risk_def sample_fanin_def default_symbol_diff_def default_fanin_def
        is_trusted_fanin_def TRUSTED_FANIN_RESOLUTION_METHODS_def modify_risk_applies_def Let_def
        effective_impact_percentile_def HIGH_FANIN_THRESHOLD_def kind_of_diff_def change_kind_of_value_def
        all_change_kinds_def)
  then show ?thesis
    using modify_risk_bounded [of default_candidate_aggregate "Some sample_fanin" "1 / 2" default_symbol_diff
        default_architecture "''C2''" False False]
    by (auto simp: sample_fanin_def default_fanin_def default_candidate_aggregate_def)
qed

text \<open>The destructive-operation model emits exactly one consequence-bearing event for a delete, a
  rename or a move, with a probability between the absolute floor 0.03 and the cap 0.45 even when no
  graph evidence exists, and none for any other operation.\<close>

theorem destructive_risk_bounded:
  assumes "0 \<le> fr_cumulative_breadth_bonus r"
  shows "(op \<in> {''DELETE'', ''RENAME'', ''MOVE''} \<longleftrightarrow>
       length (events_for_destructive_op op r arch pub mig sch) = 1)
    \<and> (op \<notin> {''DELETE'', ''RENAME'', ''MOVE''} \<longleftrightarrow> events_for_destructive_op op r arch pub mig sch = [])
    \<and> (\<forall>x \<in> set (events_for_destructive_op op r arch pub mig sch).
         0.03 \<le> ev_p_event x \<and> ev_p_event x \<le> 0.45 \<and> ev_event x \<in> set CONSEQUENCE_BEARING_EVENTS)"
  using destructive_floor [OF assms, of _ op arch pub mig sch]
    destructive.p_cap [of _ "(op, r, arch, pub, mig, sch)"]
    destructive.consequence [of _ "(op, r, arch, pub, mig, sch)"]
  by (auto simp: events_for_destructive_op_def ABSOLUTE_FLOOR_def P_EVENT_CAP_def)

lemma destructive_risk_bounded_witness:
  "length (events_for_destructive_op ''DELETE'' default_file_rollup default_architecture False False False) = 1"
  using destructive_risk_bounded [of default_file_rollup "''DELETE''"] by (simp add: default_file_rollup_def)

end
