(* ===== verification/Pebra_Human_Review.thy ===== *)
theory Pebra_Human_Review
  imports Pebra_Constants
begin

text \<open>
  \<open>pebra/core/human_review.py\<close>: which persisted gate records a human may override. The records come
  back from storage, so they are Python values whose shape the functions check themselves; a
  \<open>Mapping\<close> is a \<open>VDict\<close>, \<open>type(x) is int\<close> is \<open>VInt\<close>.
\<close>

definition SANCTION_CONVERTIBLE_GATES :: "int list" where
  "SANCTION_CONVERTIBLE_GATES = [2, 3, 4, 9]"

definition REJECT_OVERRIDE_GATES :: "int list" where
  "REJECT_OVERRIDE_GATES = filter (\<lambda>g. g \<noteq> 2) SANCTION_CONVERTIBLE_GATES"

definition REJECT_GATE_NAMES :: "(int \<times> string) list" where
  "REJECT_GATE_NAMES =
     [(3, ''expected_loss_over_threshold''), (4, ''negative_rau''),
      (9, ''revision_has_no_credible_benefit'')]"

fun controlling_gate :: "pyval list \<Rightarrow> int option" where
  "controlling_gate [] = None"
| "controlling_gate (VDict entry # gates_fired) =
     (if dict_get entry ''advisory'' VNone = VBool True then controlling_gate gates_fired
      else case dict_get entry ''gate'' VNone of
             VInt gate \<Rightarrow> if gate > 0 then Some gate else controlling_gate gates_fired
           | _ \<Rightarrow> controlling_gate gates_fired)"
| "controlling_gate (_ # gates_fired) = controlling_gate gates_fired"

text \<open>The shape every record must have; one bad record makes the whole list inadmissible.\<close>

definition valid_gate_record :: "pyval dict \<Rightarrow> bool" where
  "valid_gate_record record =
     ((case dict_get record ''gate'' VNone of VInt gate \<Rightarrow> gate > 0 | _ \<Rightarrow> False)
      \<and> (case dict_get record ''name'' VNone of VStr name \<Rightarrow> name \<noteq> [] | _ \<Rightarrow> False)
      \<and> (case dict_get record ''advisory'' (VBool False) of VBool _ \<Rightarrow> True | _ \<Rightarrow> False))"

fun controlling_record :: "pyval dict option \<Rightarrow> pyval list \<Rightarrow> pyval dict option option" where
  "controlling_record controlling [] = Some controlling"
| "controlling_record controlling (VDict record # records) =
     (if \<not> valid_gate_record record then None
      else controlling_record
             (if controlling = None \<and> dict_get record ''advisory'' (VBool False) = VBool False
              then Some record else controlling) records)"
| "controlling_record controlling (_ # records) = None"

definition override_values :: "int \<Rightarrow> pyval dict \<Rightarrow> pyval list" where
  "override_values gate controlling =
     (if gate = 3 then [dict_get controlling ''expected_loss'' VNone, dict_get controlling ''threshold'' VNone]
      else if gate = 4 then [dict_get controlling ''rau'' VNone]
      else [dict_get controlling ''benefit'' VNone])"

definition reject_override_gate :: "pyval list \<Rightarrow> pyval dict option" where
  "reject_override_gate gates_fired =
     (case controlling_record None gates_fired of
        Some (Some controlling) \<Rightarrow>
          (case dict_get controlling ''gate'' VNone of
             VInt gate \<Rightarrow>
               if gate \<notin> set REJECT_OVERRIDE_GATES
                  \<or> dict_get controlling ''name'' VNone \<noteq> VStr (the (map_of REJECT_GATE_NAMES gate))
               then None
               else if list_all finite_number (override_values gate controlling)
               then Some controlling else None
           | _ \<Rightarrow> None)
      | _ \<Rightarrow> None)"

definition reject_override_eligible :: "string \<Rightarrow> pyval list \<Rightarrow> bool" where
  "reject_override_eligible decision_text gates_fired =
     (case decision_of_value decision_text of
        None \<Rightarrow> False
      | Some d \<Rightarrow> d = REJECT \<and> reject_override_gate gates_fired \<noteq> None)"

section \<open>Lemmas\<close>

lemma REJECT_OVERRIDE_GATES_set: "set REJECT_OVERRIDE_GATES = {3, 4, 9}"
  by (auto simp: REJECT_OVERRIDE_GATES_def SANCTION_CONVERTIBLE_GATES_def)

lemma controlling_record_kept:
  "controlling_record (Some c) gates \<noteq> None \<Longrightarrow> controlling_record (Some c) gates = Some (Some c)"
  by (induction "Some c" gates rule: controlling_record.induct) (auto split: if_splits)

lemma controlling_record_valid:
  "controlling_record c gates = Some (Some r) \<Longrightarrow>
     c = Some r \<or> VDict r \<in> set gates \<and> valid_gate_record r
       \<and> dict_get r ''advisory'' (VBool False) = VBool False"
  by (induction c gates rule: controlling_record.induct) (auto split: if_splits)

lemma controlling_record_first:
  assumes "valid_gate_record r" and "dict_get r ''advisory'' (VBool False) = VBool False"
    and "list_all (\<lambda>g. \<exists>d. g = VDict d \<and> valid_gate_record d) gates"
  shows "controlling_record None (VDict r # gates) = Some (Some r)"
proof -
  have "controlling_record (Some r) gates = Some (Some r)"
    using assms(3) by (induction gates) auto
  with assms(1,2) show ?thesis by simp
qed

text \<open>On admissible records the controlling record is the one \<open>controlling_gate\<close> names.\<close>

lemma controlling_record_gate:
  assumes "controlling_record None gates = Some (Some r)"
  shows "\<exists>g. dict_get r ''gate'' VNone = VInt g \<and> controlling_gate gates = Some g"
  using assms
proof (induction gates rule: controlling_gate.induct)
  case (2 entry gates)
  have v: "valid_gate_record entry" using "2.prems" by (auto split: if_splits)
  show ?case
  proof (cases "dict_get entry ''advisory'' (VBool False) = VBool False")
    case True
    then have "r = entry" using "2.prems" v controlling_record_kept [of entry gates] by auto
    moreover have "dict_get entry ''advisory'' VNone \<noteq> VBool True"
      using True by (auto simp: dict_get_def split: option.splits)
    ultimately show ?thesis
      using v by (auto simp: valid_gate_record_def split: pyval.splits)
  next
    case False
    then have "dict_get entry ''advisory'' VNone = VBool True"
      using v by (auto simp: valid_gate_record_def dict_get_def split: option.splits pyval.splits)
    then show ?thesis using False v "2.prems" "2.IH" by simp
  qed
qed simp_all

lemma reject_override_gate_gate:
  assumes "reject_override_gate gates = Some r"
  shows "\<exists>g \<in> {3, 4, 9}. controlling_gate gates = Some g \<and> dict_get r ''gate'' VNone = VInt g
    \<and> dict_get r ''name'' VNone = VStr (the (map_of REJECT_GATE_NAMES g))"
proof -
  have c: "controlling_record None gates = Some (Some r)"
    using assms by (auto simp: reject_override_gate_def split: option.splits pyval.splits if_splits)
  from controlling_record_gate [OF this] obtain g
    where g: "dict_get r ''gate'' VNone = VInt g" "controlling_gate gates = Some g" by blast
  with assms c show ?thesis
    by (auto simp: reject_override_gate_def REJECT_OVERRIDE_GATES_set split: if_splits)
qed

end
