(* ===== verification/Pebra_Decision_Engine.thy ===== *)
theory Pebra_Decision_Engine
  imports Pebra_Assessment_Builder Pebra_Risk_Models Pebra_Human_Review
begin

text \<open>
  \<open>pebra/core/decision_engine.py\<close>: the ordered gate sequence. \<open>decide\<close> is composed as the source
  composes it: the evidence signals, the revision outcome, the \<open>elif\<close> chain of the risk gates
  (\<open>risk_gates\<close>), the task-obligation gate, the advisory entries, the two sanction resolutions, the
  terminal result.

  Entries of \<open>gates_fired\<close> are dictionaries. \<open>decision_reason\<close> keeps the parts of its text as the
  constructor arguments of \<open>decision_reason\<close>. A threshold read with a boolean default is true when
  it is not 0. The value is an error where the source raises: \<open>touched_files\<close> on an octal overflow,
  and a sanction whose \<open>converts_gates\<close> or \<open>high_risk_triggers\<close> cannot be iterated.
\<close>

section \<open>Patch binding\<close>

definition candidate_patch_hash :: "string \<Rightarrow> string" where
  "candidate_patch_hash patch = sha256_hex patch"

definition check_passed :: "candidate_verification \<Rightarrow> string \<Rightarrow> bool" where
  "check_passed v check = (lower (dict_get (cv_checks v) check []) = ''passed'')"

definition candidate_verification_is_bound_and_passed :: "assessment \<Rightarrow> bool" where
  "candidate_verification_is_bound_and_passed a =
     (let verification = ai_candidate_verification (as_input a);
          required = cv_required_checks verification
      in cv_status verification = ''passed''
         \<and> (case ca_proposed_patch (ai_action (as_input a)) of
              None \<Rightarrow> False
            | Some patch \<Rightarrow>
                required \<noteq> [] \<and> list_all (check_passed verification) required
                \<and> cv_verified_patch_hash verification = Some (candidate_patch_hash patch)))"

text \<open>\<open>patch is not None and bool(hash) and hash == candidate_patch_hash(patch)\<close>.\<close>

definition hash_bound :: "candidate_verification \<Rightarrow> string option \<Rightarrow> bool" where
  "hash_bound verification proposed_patch =
     (case (proposed_patch, cv_verified_patch_hash verification) of
        (Some patch, Some h) \<Rightarrow> h \<noteq> [] \<and> h = candidate_patch_hash patch
      | _ \<Rightarrow> False)"

section \<open>Vocabulary\<close>

definition SENSITIVE_STAGES :: "string list" where "SENSITIVE_STAGES = [''C3'', ''C4'']"

definition HARD_TERMINAL_EVENTS :: "string list" where
  "HARD_TERMINAL_EVENTS =
     [''security_sensitive_change'', ''external_state_damage'', ''migration_failure'']"

definition STRUCTURAL_RISK_EVENTS :: "string list" where
  "STRUCTURAL_RISK_EVENTS =
     [''public_api_break'', ''dependency_break'', ''api_contract_break'', ''route_behavior_break'',
      ''tool_schema_break'', ''response_shape_mismatch'', ''consumer_shape_mismatch'']"

definition DEFAULT_REPO_BLAST_FRACTION_INSPECT_THRESHOLD :: real where
  "DEFAULT_REPO_BLAST_FRACTION_INSPECT_THRESHOLD = 0.40"

definition DEFAULT_REPO_BLAST_MIN_REPO_NODE_COUNT :: real where
  "DEFAULT_REPO_BLAST_MIN_REPO_NODE_COUNT = 50"

definition flag_on :: "real dict \<Rightarrow> string \<Rightarrow> bool" where
  "flag_on thresholds key = (dict_get thresholds key 1 \<noteq> 0)"

definition gate_entry :: "int \<Rightarrow> string \<Rightarrow> pyval dict \<Rightarrow> pyval dict" where
  "gate_entry gate name rest = (''gate'', VInt gate) # (''name'', VStr name) # rest"

definition has_gate :: "int \<Rightarrow> pyval dict list \<Rightarrow> bool" where
  "has_gate n gates = list_ex (\<lambda>g. dict_get g ''gate'' VNone = VInt n) gates"

record flat_scores =
  fl_expected_loss :: real
  fl_expected_utility :: real
  fl_utility_sd :: real
  fl_rau :: real
  fl_edit_confidence :: real
  fl_risk_budget_used :: real
  fl_effective_threshold :: real
  fl_budget_threshold_key :: string
  fl_benefit :: real
  fl_benefit_breakdown :: benefit_breakdown
  fl_benefit_file_deltas :: "real dict dict"
  fl_candidate_aggregate :: candidate_aggregate_evidence
  fl_criticality_stage :: string
  fl_criticality_value :: real
  fl_confidence_band :: string
  fl_loss_components :: "loss_component list"
  fl_verified_risk_events_removed :: "string list"
  fl_risk_probability_updates :: "graph_risk_update list"
  fl_graph_risk_events_updated :: "string list"
  fl_symbol_scope_evidence :: "pyval dict"
  fl_variance_breakdown :: "real dict"
  fl_variance_source :: string

definition flatten_scores :: "assessment \<Rightarrow> flat_scores" where
  "flatten_scores a =
     (let s = as_scores a
      in \<lparr>fl_expected_loss = sc_expected_loss s,
          fl_expected_utility = sc_expected_utility s,
          fl_utility_sd = sc_utility_sd s,
          fl_rau = sc_rau s,
          fl_edit_confidence = sc_edit_confidence s,
          fl_risk_budget_used = sc_risk_budget_used s,
          fl_effective_threshold = sc_effective_threshold s,
          fl_budget_threshold_key = sc_budget_threshold_key s,
          fl_benefit = sc_benefit s,
          fl_benefit_breakdown = sc_benefit_breakdown s,
          fl_benefit_file_deltas = sc_benefit_file_deltas s,
          fl_candidate_aggregate = sc_candidate_aggregate s,
          fl_criticality_stage = sc_criticality_stage s,
          fl_criticality_value = sc_criticality_value s,
          fl_confidence_band = as_confidence_band a,
          fl_loss_components = sc_loss_components s,
          fl_verified_risk_events_removed = sc_verified_risk_events_removed s,
          fl_risk_probability_updates = sc_risk_probability_updates s,
          fl_graph_risk_events_updated = sc_graph_risk_events_updated s,
          fl_symbol_scope_evidence = sc_symbol_scope_evidence s,
          fl_variance_breakdown = sc_variance_breakdown s,
          fl_variance_source = sc_variance_source s\<rparr>)"

definition decide_risk_mode :: "string \<Rightarrow> bool \<Rightarrow> bool \<Rightarrow> risk_mode" where
  "decide_risk_mode stage controlled elevated =
     (if controlled then CONTROLLED_HIGH_RISK
      else if elevated then ELEVATED_REVIEW
      else if stage \<in> set SENSITIVE_STAGES then SENSITIVE_CONTEXT
      else NORMAL)"

section \<open>Narrowing and revision\<close>

definition revision_exhausted :: "real dict \<Rightarrow> bool" where
  "revision_exhausted thresholds =
     (let attempt = py_int (dict_get thresholds ''revise_safer_attempt'' 0);
          cap = min 3 (py_int (dict_get thresholds ''max_revise_safer_attempts'' 1))
      in cap \<le> 0 \<or> attempt \<ge> cap)"

fun vlist_length :: "pyval \<Rightarrow> nat" where
  "vlist_length (VList xs) = length xs"
| "vlist_length _ = 0"

definition loss_events :: "assessment \<Rightarrow> string list" where
  "loss_events a = map lc_event (sc_loss_components (as_scores a))"

fun vstr_of :: "pyval \<Rightarrow> string" where
  "vstr_of (VStr s) = s"
| "vstr_of _ = []"

definition has_narrowing_headroom :: "assessment \<Rightarrow> bool" where
  "has_narrowing_headroom a =
     (let action = ai_action (as_input a);
          sse = sc_symbol_scope_evidence (as_scores a);
          file_op = vstr_of (dict_get sse ''file_operation_kind'' (VStr ''NONE''));
          changed_symbols = vlist_length (dict_get sse ''changed_symbols'' VNone);
          events = loss_events a
      in if file_op \<in> {''DELETE'', ''RENAME'', ''MOVE''} then True
         else if list_ex (\<lambda>e. e \<in> {''api_contract_break'', ''public_api_break''}) events
            \<and> ascii_upper (vstr_of (dict_get sse ''max_change_kind'' (VStr []))) = ''CONTRACT''
            \<and> (truthy (dict_get sse ''consequential_symbol_changed'' VNone)
               \<or> dict_get sse ''visibility'' VNone = VStr ''public_api'')
         then True
         else if (case ca_proposed_patch action of None \<Rightarrow> False | Some p \<Rightarrow> p \<noteq> [])
            \<and> file_op = ''NONE'' \<and> changed_symbols = 0
            \<and> dict_get sse ''max_change_kind'' VNone = VStr ''UNKNOWN''
         then (case dict_get sse ''symbol_fanin'' VNone of
                 VDict fanin \<Rightarrow> number_value (dict_get fanin ''resolved_symbol_count'' VNone) > 1
               | _ \<Rightarrow> False)
         else changed_symbols > 1 \<or> length (ca_expected_files action) > 1)"

definition should_revise_safer :: "assessment \<Rightarrow> bool" where
  "should_revise_safer a =
     (let thresholds = ai_thresholds (as_input a); events = loss_events a
      in if \<not> flag_on thresholds ''revise_safer_enabled'' then False
         else if revision_exhausted thresholds then False
         else if sc_benefit (as_scores a) \<le> 0 then False
         else if list_ex (\<lambda>e. e \<in> set HARD_TERMINAL_EVENTS) events then False
         else if \<not> list_ex (\<lambda>e. e \<in> set STRUCTURAL_RISK_EVENTS) events then False
         else has_narrowing_headroom a)"

definition vchecks :: "string dict \<Rightarrow> pyval" where
  "vchecks checks = VDict (map (\<lambda>(k, s). (k, VStr s)) checks)"

text \<open>The decision, whether it asks for confirmation, the gate, and the entries fired so far.\<close>

type_synonym gate_outcome = "decision \<times> bool \<times> int \<times> pyval dict list"

definition revise_candidate_decision :: "assessment \<Rightarrow> pyval dict list \<Rightarrow> int \<Rightarrow> gate_outcome" where
  "revise_candidate_decision a gates_fired source_gate =
     (let verification = ai_candidate_verification (as_input a);
          status = cv_status verification;
          required_checks = cv_required_checks verification;
          missing_or_failed = filter (\<lambda>c. \<not> check_passed verification c) required_checks;
          proposed_patch = ca_proposed_patch (ai_action (as_input a))
      in if status = ''passed'' \<and> required_checks \<noteq> [] \<and> missing_or_failed = []
         then if \<not> hash_bound verification proposed_patch
              then (REVISE_SAFER, False, source_gate,
                    gates_fired @ [gate_entry 7 ''candidate_verification_patch_mismatch''
                      [(''domain'', vopt (cv_domain verification)),
                       (''required_checks'', vstrs required_checks),
                       (''reason'', VStr ''a passed candidate verification must be bound to the candidate patch under assessment via verified_patch_hash; unbound/absent/mismatched proof is not honored'')]])
              else (PROCEED, sc_criticality_stage (as_scores a) \<in> set SENSITIVE_STAGES, 7,
                    gates_fired @ [gate_entry 7 ''candidate_verification_passed''
                      [(''domain'', vopt (cv_domain verification)),
                       (''checks'', vchecks (cv_checks verification)),
                       (''required_checks'', vstrs required_checks)]])
         else if status \<in> {''passed'', ''failed'', ''unavailable''}
         then (REVISE_SAFER, False, source_gate,
               gates_fired @ [gate_entry 7 ''candidate_verification_not_passed''
                 [(''status'', VStr status),
                  (''domain'', vopt (cv_domain verification)),
                  (''checks'', vchecks (cv_checks verification)),
                  (''required_checks'', vstrs required_checks),
                  (''missing_or_failed_checks'', vstrs missing_or_failed),
                  (''reason'', vopt (cv_reason verification))]])
         else (REVISE_SAFER, False, source_gate, gates_fired @ [gate_entry 6 ''revise_safer'' []]))"

definition revision_completeness_issue :: "assessment_input \<Rightarrow> pyval dict option" where
  "revision_completeness_issue inp =
     (let evidence = ai_revision_completeness inp
      in if \<not> rc_is_revision evidence then None
         else if \<not> rc_origin_available evidence
         then Some (gate_entry 9 ''revision_envelope_unavailable''
                [(''reason'', VStr (case rc_fallback_reason evidence of
                     Some r \<Rightarrow> if r = [] then ''origin revision envelope unavailable'' else r
                   | None \<Rightarrow> ''origin revision envelope unavailable''))])
         else if rc_missing_files evidence = [] \<and> rc_missing_public_symbols evidence = [] then None
         else Some (gate_entry 9 ''revision_envelope_incomplete''
                [(''missing_files'', vstrs (rc_missing_files evidence)),
                 (''missing_public_symbols'', vstrs (rc_missing_public_symbols evidence))]))"

definition score_comparison :: "revision_completeness \<Rightarrow> assessment_scores \<Rightarrow> pyval dict" where
  "score_comparison evidence s =
     [(''origin_expected_loss'', vnum_opt (rc_origin_expected_loss evidence)),
      (''revised_expected_loss'', vreal (sc_expected_loss s)),
      (''origin_benefit'', vnum_opt (rc_origin_benefit evidence)),
      (''revised_benefit'', vreal (sc_benefit s)),
      (''origin_expected_utility'', vnum_opt (rc_origin_expected_utility evidence)),
      (''revised_expected_utility'', vreal (sc_expected_utility s)),
      (''origin_utility_sd'', vnum_opt (rc_origin_utility_sd evidence)),
      (''revised_utility_sd'', vreal (sc_utility_sd s)),
      (''origin_rau'', vnum_opt (rc_origin_rau evidence)),
      (''revised_rau'', vreal (sc_rau s))]"

definition exhausted_or_revise :: "assessment \<Rightarrow> decision" where
  "exhausted_or_revise a =
     (if revision_exhausted (ai_thresholds (as_input a)) then ASK_HUMAN else REVISE_SAFER)"

text \<open>The pair of the source and the entries: approved, terminal decision, \<open>gates_fired\<close>.\<close>

definition revision_risk_benefit_outcome ::
  "assessment \<Rightarrow> pyval dict list \<Rightarrow> pyval dict option \<Rightarrow> bool \<times> decision option \<times> pyval dict list" where
  "revision_risk_benefit_outcome a gates_fired revision_issue =
     (let evidence = ai_revision_completeness (as_input a); s = as_scores a;
          comparison = score_comparison evidence s
      in if \<not> rc_is_revision evidence then (False, None, gates_fired)
         else (case revision_issue of
           Some issue \<Rightarrow> (False, Some (exhausted_or_revise a), gates_fired @ [issue])
         | None \<Rightarrow>
           (case (rc_origin_expected_loss evidence, rc_origin_rau evidence) of
              (Some origin_loss, Some _) \<Rightarrow>
                if sc_benefit s \<le> 0
                then (False, Some REJECT, gates_fired @ [gate_entry 9 ''revision_has_no_credible_benefit''
                        ((''benefit'', vreal (sc_benefit s)) # comparison)])
                else if sc_expected_loss s \<ge> origin_loss
                then (False, Some ASK_HUMAN, gates_fired @ [gate_entry 9 ''revision_risk_not_reduced'' comparison])
                else if sc_rau s < 0
                then (False, Some ASK_HUMAN,
                      gates_fired @ [gate_entry 9 ''revision_risk_still_outweighs_benefit'' comparison])
                else
                  let (verification_decision, _, _, gates') =
                        (if cv_status (ai_candidate_verification (as_input a)) \<noteq> ''not_applicable''
                         then revise_candidate_decision a gates_fired 9
                         else (PROCEED, False, 9, gates_fired))
                  in if verification_decision \<noteq> PROCEED
                     then (False, Some (exhausted_or_revise a), gates')
                     else (True, None,
                           gates' @ [gate_entry 9 ''revision_risk_benefit_improved'' comparison])
            | _ \<Rightarrow>
                (False, Some ASK_HUMAN, gates_fired @ [gate_entry 9 ''revision_origin_scores_unavailable''
                   [(''reason'', VStr ''the origin risk-benefit scores are unavailable for comparison'')]]))))"

section \<open>Task obligations\<close>

definition task_obligations_issue :: "assessment_input \<Rightarrow> pyval dict option res" where
  "task_obligations_issue inp =
     (let obligations = ai_task_obligations inp;
          proposed_patch = ca_proposed_patch (ai_action inp);
          verification = ai_candidate_verification inp;
          changed_symbols = sd_changed_symbols (ai_symbol_diff_evidence inp)
      in if to_required_files obligations = [] \<and> to_required_symbols obligations = []
            \<and> to_required_checks obligations = []
         then Inr None
         else rbind (touched_files (case proposed_patch of None \<Rightarrow> [] | Some p \<Rightarrow> p)) (\<lambda>action_files.
           let missing_files = sort (filter (\<lambda>p. slashes p \<notin> set action_files) (to_required_files obligations));
               missing_symbols = sorted_set
                 (filter (\<lambda>sym. sym \<notin> set changed_symbols) (to_required_symbols obligations));
               proof_bound = cv_status verification = ''passed'' \<and> hash_bound verification proposed_patch;
               missing_checks = sort (filter (\<lambda>c. \<not> proof_bound \<or> \<not> check_passed verification c)
                 (to_required_checks obligations))
           in if missing_files = [] \<and> missing_symbols = [] \<and> missing_checks = [] then Inr None
              else Inr (Some (gate_entry 15 ''task_obligations_incomplete''
                [(''missing_files'', vstrs missing_files),
                 (''missing_symbols'', vstrs missing_symbols),
                 (''missing_or_unverified_checks'', vstrs missing_checks)]))))"

section \<open>Evidence signals\<close>

definition graph_evidence_of :: "blast_evidence \<Rightarrow> pyval dict" where
  "graph_evidence_of blast =
     (if bl_graph_uncertainty_score blast \<le> 0 then []
      else [(''score'', vreal (bl_graph_uncertainty_score blast)),
            (''reason'', VStr (bl_graph_uncertainty_reason blast)),
            (''unresolved_import_count'', VInt (bl_unresolved_import_count blast)),
            (''dynamic_import_count'', VInt (bl_dynamic_import_count blast)),
            (''wildcard_import_count'', VInt (bl_wildcard_import_count blast)),
            (''missing_file_count'', VInt (bl_missing_file_count blast)),
            (''parse_error_count'', VInt (bl_parse_error_count blast)),
            (''unresolved_imports'', vstrs (bl_unresolved_imports blast)),
            (''dynamic_imports'', vstrs (bl_dynamic_imports blast)),
            (''wildcard_imports'', vstrs (bl_wildcard_imports blast)),
            (''missing_files'', vstrs (bl_missing_files blast)),
            (''parse_error_files'', vstrs (bl_parse_error_files blast))])"

definition graph_required_by_candidate :: "assessment_input \<Rightarrow> bool" where
  "graph_required_by_candidate inp =
     (let symbol_diff = ai_symbol_diff_evidence inp
      in sd_file_operation_kind symbol_diff \<in> {''DELETE'', ''RENAME'', ''MOVE''}
         \<or> sd_max_change_kind symbol_diff \<in> {''CONTRACT'', ''SIDE_EFFECT'', ''UNKNOWN''}
         \<or> sd_consequential_symbol_changed symbol_diff
         \<or> ca_is_migration (ai_action inp)
         \<or> ca_is_schema_change (ai_action inp))"

definition graph_required :: "assessment_input \<Rightarrow> bool" where
  "graph_required inp =
     (if dict_has (ai_thresholds inp) ''require_graph''
      then dict_get (ai_thresholds inp) ''require_graph'' 0 \<noteq> 0
      else graph_required_by_candidate inp)"

definition fanin_validity :: "assessment_input \<Rightarrow> pyval dict" where
  "fanin_validity inp =
     (case ai_fanin_evidence inp of
        None \<Rightarrow>
          if \<not> graph_required inp then []
          else [(''resolution_method'', VStr ''unresolved''),
                (''graph_freshness'', VStr ''unknown''),
                (''required'', VBool True),
                (''reason'', VStr ''graph engine required but no fan-in evidence was produced; run: pebra setup-graph'')]
      | Some ev \<Rightarrow>
          if is_trusted_fanin (Some ev) then []
          else [(''resolution_method'', VStr (fi_resolution_method ev)),
                (''graph_freshness'', VStr (fi_graph_freshness ev)),
                (''required'', VBool (graph_required inp)),
                (''reason'', VStr (case fi_fallback_reason ev of
                    Some r \<Rightarrow> if r = [] then ''graph evidence unavailable'' else r
                  | None \<Rightarrow> ''graph evidence unavailable''))])"

definition repo_blast_advisory :: "assessment_input \<Rightarrow> pyval dict" where
  "repo_blast_advisory inp =
     (case ai_fanin_evidence inp of
        None \<Rightarrow> []
      | Some ev \<Rightarrow>
          if \<not> is_trusted_fanin (Some ev) then []
          else if fi_modify_repo_blast_fraction ev \<le> 0 \<or> fi_modify_repo_graph_node_count ev \<le> 0 then []
          else [(''modify_repo_blast_fraction'', vreal (fi_modify_repo_blast_fraction ev)),
                (''repo_node_count'', VInt (fi_modify_repo_graph_node_count ev)),
                (''affected_node_count'', VInt (fi_modify_transitive_impact_count ev)),
                (''depth'', VInt 3)])"

definition repo_blast_gate :: "assessment_input \<Rightarrow> pyval dict" where
  "repo_blast_gate inp =
     (let advisory = repo_blast_advisory inp; t = ai_thresholds inp;
          min_nodes = py_int (dict_get t ''repo_blast_min_repo_node_count''
            DEFAULT_REPO_BLAST_MIN_REPO_NODE_COUNT);
          threshold = dict_get t ''repo_blast_fraction_inspect_threshold''
            DEFAULT_REPO_BLAST_FRACTION_INSPECT_THRESHOLD
      in if advisory = [] \<or> \<not> flag_on t ''inspect_on_large_repo_blast'' then []
         else if number_value (dict_get advisory ''repo_node_count'' VNone) < of_int min_nodes then []
         else if number_value (dict_get advisory ''modify_repo_blast_fraction'' VNone) < threshold then []
         else gate_entry 14 ''large_repo_blast_fraction''
                (advisory @ [(''threshold'', vreal threshold), (''min_repo_node_count'', VInt min_nodes)]))"

section \<open>The result\<close>

datatype decision_reason =
    PolicyReason "string list"
  | ConfirmedProceedReason
  | ObligationsNotWaivedReason
  | ControlledProceedReason int decision
  | TerminalReason decision int real real real real

definition calibration_lanes :: "flat_scores \<Rightarrow> decision \<Rightarrow> pyval dict" where
  "calibration_lanes flat decision =
     [(''schema_version'', VInt 1),
      (''state'', VStr ''collecting_multi_target_outcomes''),
      (''risk'', VDict
        [(''targets'', vstrs [''p_success'', ''p_event'', ''observed_harm'']),
         (''structural_continuity_multiplier'', vreal STRUCTURAL_CONTINUITY_MULTIPLIER),
         (''structural_continuity_probability_floor'', vreal STRUCTURAL_CONTINUITY_PROBABILITY_FLOOR),
         (''probability_update_count'', VInt (int (length (fl_risk_probability_updates flat)))),
         (''active'', VBool (fl_risk_probability_updates flat \<noteq> []))]),
      (''benefit'', VDict
        [(''targets'', vstrs [''immediate_benefit_realized'', ''maintainability_delta'', ''measured_benefit'']),
         (''predicted_value'', vreal (fl_benefit flat)),
         (''source_type'', VStr (bb_source_type (fl_benefit_breakdown flat))),
         (''variance'', vreal (bb_benefit_variance (fl_benefit_breakdown flat))),
         (''normalization_ceiling'', vreal BENEFIT_OVERRIDE_MAX)]),
      (''uncertainty'', VDict
        [(''targets'', vstrs [''utility_variance'', ''rau_coverage'']),
         (''utility_sd'', vreal (fl_utility_sd flat)),
         (''variance_source'', VStr (fl_variance_source flat)),
         (''rau_z_alpha'', vreal Z_ALPHA_90)]),
      (''decision_policy'', VDict
        [(''targets'', vstrs [''observed_harm'', ''task_completion'', ''human_escalation'']),
         (''decision'', VStr (decision_value decision)),
         (''effective_threshold'', vreal (fl_effective_threshold flat))])]"

record assessment_result =
  re_recommended_decision :: decision
  re_requires_confirmation :: bool
  re_action_status :: action_status
  re_risk_mode :: risk_mode
  re_scores :: flat_scores
  re_calibration_lanes :: "pyval dict"
  re_repo_id :: string
  re_repo_root :: string
  re_gates_fired :: "pyval dict list"
  re_high_risk_triggers :: "pyval list"
  re_symbol_scope_evidence :: "pyval dict"
  re_graph_evidence :: "pyval dict"
  re_fanin_validity :: "pyval dict"
  re_provenance :: "pyval dict"
  re_decision_reason :: decision_reason

definition decide_result ::
  "assessment \<Rightarrow> decision \<Rightarrow> bool \<Rightarrow> risk_mode \<Rightarrow> pyval dict list \<Rightarrow> pyval list \<Rightarrow> decision_reason
    \<Rightarrow> assessment_result" where
  "decide_result a decision requires_confirmation risk_mode gates_fired triggers reason =
     \<lparr>re_recommended_decision = decision,
      re_requires_confirmation = requires_confirmation,
      re_action_status = PENDING,
      re_risk_mode = risk_mode,
      re_scores = flatten_scores a,
      re_calibration_lanes = calibration_lanes (flatten_scores a) decision,
      re_repo_id = ai_repo_id (as_input a),
      re_repo_root = ai_repo_root (as_input a),
      re_gates_fired = gates_fired,
      re_high_risk_triggers = triggers,
      re_symbol_scope_evidence = sc_symbol_scope_evidence (as_scores a),
      re_graph_evidence = graph_evidence_of (ai_blast_evidence (as_input a)),
      re_fanin_validity = fanin_validity (as_input a),
      re_provenance = [(''provider'', VStr ''pebra''), (''source_type'', VStr ''derived'')]
        @ (if repo_blast_advisory (as_input a) \<noteq> []
           then [(''repo_blast'', VDict (repo_blast_advisory (as_input a)))] else []),
      re_decision_reason = reason\<rparr>"

section \<open>The gates\<close>

definition consequential_or_unknown :: "pyval dict \<Rightarrow> bool" where
  "consequential_or_unknown sse =
     (truthy (dict_get sse ''consequential_symbol_changed'' VNone)
      \<or> dict_get sse ''max_change_kind'' VNone = VStr ''UNKNOWN''
      \<or> (\<exists>tier \<in> set UNCERTAIN_STRUCTURE_TIERS. dict_get sse ''structure_tier'' VNone = VStr tier))"

definition gate_3 :: "assessment \<Rightarrow> pyval dict list \<Rightarrow> gate_outcome" where
  "gate_3 a gates =
     (let s = as_scores a;
          entry = gate_entry 3 ''expected_loss_over_threshold''
            [(''expected_loss'', vreal (sc_expected_loss s)), (''threshold'', vreal (sc_effective_threshold s))]
      in if should_revise_safer a
         then (REVISE_SAFER, False, 3, gates @ [gate_entry 6 ''revise_safer'' [], entry])
         else if sc_expected_utility s < 0 then (REJECT, False, 3, gates @ [entry])
         else (ASK_HUMAN, True, 3, gates @ [entry]))"

definition gate_4 :: "assessment \<Rightarrow> pyval dict list \<Rightarrow> gate_outcome" where
  "gate_4 a gates =
     (let s = as_scores a;
          entry = gate_entry 4 ''negative_rau'' [(''rau'', vreal (sc_rau s))]
      in if should_revise_safer a
         then (REVISE_SAFER, False, 4, gates @ [gate_entry 6 ''revise_safer'' [], entry])
         else if flag_on (ai_thresholds (as_input a)) ''ask_on_negative_rau''
         then (ASK_HUMAN, True, 4, gates @ [entry])
         else (REJECT, False, 4, gates @ [entry]))"

text \<open>
  The \<open>elif\<close> chain. The entry of gate 11 is appended after gate 15 has had its say, so it is not
  among the entries here.
\<close>

definition risk_gates :: "assessment \<Rightarrow> bool \<Rightarrow> decision option \<Rightarrow> pyval dict list \<Rightarrow> gate_outcome" where
  "risk_gates a revision_approved revision_terminal gates =
     (let s = as_scores a; inp = as_input a; t = ai_thresholds inp; stage = sc_criticality_stage s;
          sse = sc_symbol_scope_evidence s; cg = fanin_validity inp; repo_blast = repo_blast_gate inp
      in if stage = ''C4'' \<and> flag_on t ''c4_always_ask_human'' \<and> consequential_or_unknown sse
         then (ASK_HUMAN, True, 2, gates @ [gate_entry 2 ''c4_consequential_ask_human'' []])
         else if revision_terminal \<noteq> None
         then (the revision_terminal, the revision_terminal = ASK_HUMAN, 9, gates)
         else if sc_expected_loss s > sc_effective_threshold s \<and> \<not> revision_approved
         then gate_3 a gates
         else if sc_rau s < 0 \<and> \<not> revision_approved
         then gate_4 a gates
         else if sc_utility_sd s > dict_get t ''max_utility_sd_without_human'' 0.20
            \<and> sc_expected_utility s > 0 \<and> \<not> revision_approved
         then (ASK_HUMAN, True, 5,
               gates @ [gate_entry 5 ''utility_sd_over_limit'' [(''utility_sd'', vreal (sc_utility_sd s))]])
         else if bl_import_cycle_detected (ai_blast_evidence inp)
            \<and> \<not> candidate_verification_is_bound_and_passed a
         then (TEST_FIRST, False, 16, gates @ [gate_entry 16 ''import_cycle_requires_tests'' []])
         else if as_confidence_band a \<in> {''low'', ''medium''}
         then (INSPECT_FIRST, False, 8,
               gates @ [gate_entry 8 (as_confidence_band a @ ''_edit_confidence'')
                          [(''edit_confidence'', vreal (sc_edit_confidence s))]])
         else if ae_graph_freshness (ai_architecture_evidence inp) = GF_STALE
            \<and> flag_on t ''inspect_on_stale_arch_map''
         then (INSPECT_FIRST, False, 12, gates @ [gate_entry 12 ''stale_architecture_map'' []])
         else if cg \<noteq> [] \<and> truthy (dict_get cg ''required'' (VBool True))
         then (INSPECT_FIRST, False, 13, gates @ [gate_entry 13 ''fanin_evidence_invalid'' cg])
         else if repo_blast \<noteq> []
         then (INSPECT_FIRST, False, 14, gates @ [repo_blast])
         else (PROCEED, stage \<in> set SENSITIVE_STAGES, 11, gates))"

definition obligations_gate :: "pyval dict option \<Rightarrow> gate_outcome \<Rightarrow> gate_outcome" where
  "obligations_gate issue outcome =
     (case outcome of (provisional, requires_confirmation, fired_gate, gates) \<Rightarrow>
        if provisional = PROCEED \<and> issue \<noteq> None
        then (ASK_HUMAN, True, 15, gates @ [the issue])
        else if fired_gate = 11
        then (provisional, requires_confirmation, fired_gate, gates @ [gate_entry 11 ''proceed'' []])
        else outcome)"

definition advisory_gates :: "assessment_input \<Rightarrow> pyval dict list \<Rightarrow> pyval dict list" where
  "advisory_gates inp gates =
     (let cg = fanin_validity inp; repo_blast = repo_blast_gate inp;
          gates = (if ae_graph_freshness (ai_architecture_evidence inp) = GF_STALE \<and> \<not> has_gate 12 gates
                   then gates @ [gate_entry 12 ''stale_architecture_map'' [(''advisory'', VBool True)]]
                   else gates);
          gates = (if cg \<noteq> [] \<and> \<not> has_gate 13 gates
                   then gates @ [gate_entry 13 ''fanin_evidence_invalid'' ((''advisory'', VBool True) # cg)]
                   else gates)
      in if repo_blast \<noteq> [] \<and> \<not> has_gate 14 gates
         then gates @ [(''advisory'', VBool True) # repo_blast] else gates)"

section \<open>Sanctions\<close>

text \<open>Iteration over a stored value: \<open>list(v)\<close>, and \<open>n in set(v)\<close> for an integer \<open>n\<close>.\<close>

fun py_list :: "pyval \<Rightarrow> pyval list res" where
  "py_list (VList xs) = Inr xs"
| "py_list (VStr s) = Inr (map VStr (code_points s))"
| "py_list (VDict d) = Inr (map (\<lambda>(k, _). VStr k) d)"
| "py_list _ = Inl (TypeError ''object is not iterable'')"

fun hashable :: "pyval \<Rightarrow> bool" where
  "hashable (VList _) = False"
| "hashable (VDict _) = False"
| "hashable _ = True"

fun equals_int :: "int \<Rightarrow> pyval \<Rightarrow> bool" where
  "equals_int n (VInt i) = (i = n)"
| "equals_int n (VFloat (Fin x)) = (x = of_int n)"
| "equals_int n (VBool b) = ((if b then 1 else 0) = n)"
| "equals_int n _ = False"

definition in_set :: "int \<Rightarrow> pyval \<Rightarrow> bool res" where
  "in_set n v =
     rbind (py_list v) (\<lambda>xs.
       if list_all hashable xs then Inr (list_ex (equals_int n) xs)
       else Inl (TypeError ''unhashable type''))"

text \<open>The last three conjuncts of both sanction conditions, in their order.\<close>

definition sanction_grants :: "pyval dict \<Rightarrow> int \<Rightarrow> bool res" where
  "sanction_grants sanction gate =
     (if truthy (dict_get sanction ''valid'' VNone)
         \<and> truthy (dict_get sanction ''pre_edit_authorization_controls_satisfied'' VNone)
      then in_set gate (dict_get sanction ''converts_gates'' (VList []))
      else Inr False)"

definition sanction_entry :: "string \<Rightarrow> pyval dict \<Rightarrow> pyval dict" where
  "sanction_entry converted_from sanction =
     gate_entry 10 ''sanction_resolution''
       [(''converted_from'', VStr converted_from),
        (''sanction_assessment_id'', dict_get sanction ''assessment_id'' VNone)]"

definition sanction_triggers :: "pyval dict \<Rightarrow> pyval list res" where
  "sanction_triggers sanction = py_list (dict_get sanction ''high_risk_triggers'' (VList []))"

definition terminal_result :: "assessment \<Rightarrow> gate_outcome \<Rightarrow> assessment_result" where
  "terminal_result a outcome =
     (case outcome of (provisional, requires_confirmation, fired_gate, gates) \<Rightarrow>
        let s = as_scores a; stage = sc_criticality_stage s;
            elevated = provisional \<in> {INSPECT_FIRST, TEST_FIRST, REVISE_SAFER}
              \<and> stage \<in> set SENSITIVE_STAGES
        in decide_result a provisional requires_confirmation (decide_risk_mode stage False elevated) gates []
             (TerminalReason provisional fired_gate (sc_expected_loss s) (sc_benefit s)
                (sc_expected_utility s) (sc_rau s)))"

definition confirm_proceed :: "assessment \<Rightarrow> pyval dict \<Rightarrow> pyval dict list \<Rightarrow> assessment_result res" where
  "confirm_proceed a sanction gates =
     rbind (sanction_triggers sanction) (\<lambda>triggers.
       Inr (decide_result a PROCEED False CONTROLLED_HIGH_RISK
              (gates @ [sanction_entry ''confirmation_required'' sanction]) triggers ConfirmedProceedReason))"

definition convert_risk_gate ::
  "assessment \<Rightarrow> pyval dict \<Rightarrow> pyval dict option \<Rightarrow> gate_outcome \<Rightarrow> assessment_result res" where
  "convert_risk_gate a sanction obligations_issue outcome =
     (case outcome of (provisional, requires_confirmation, fired_gate, gates) \<Rightarrow>
        let stage = sc_criticality_stage (as_scores a);
            gates = gates @ [sanction_entry (decision_value provisional) sanction]
        in case obligations_issue of
             Some issue \<Rightarrow>
               Inr (decide_result a REVISE_SAFER False (decide_risk_mode stage False False)
                      (gates @ [issue]) [] ObligationsNotWaivedReason)
           | None \<Rightarrow>
               rbind (sanction_triggers sanction) (\<lambda>triggers.
                 Inr (decide_result a PROCEED False (decide_risk_mode stage True False) gates triggers
                        (ControlledProceedReason fired_gate provisional))))"

definition resolve_sanction ::
  "assessment \<Rightarrow> pyval dict option \<Rightarrow> gate_outcome \<Rightarrow> assessment_result res" where
  "resolve_sanction a obligations_issue outcome =
     (case outcome of (provisional, requires_confirmation, fired_gate, gates) \<Rightarrow>
        case ai_sanction (as_input a) of
          None \<Rightarrow> Inr (terminal_result a outcome)
        | Some sanction \<Rightarrow>
            if sanction = [] then Inr (terminal_result a outcome)
            else if provisional = PROCEED \<and> requires_confirmation \<and> fired_gate = 11
            then rbind (sanction_grants sanction 11) (\<lambda>granted.
                   if granted then confirm_proceed a sanction gates else Inr (terminal_result a outcome))
            else if provisional \<in> {ASK_HUMAN, REJECT} \<and> fired_gate \<in> set SANCTION_CONVERTIBLE_GATES
            then rbind (sanction_grants sanction fired_gate) (\<lambda>granted.
                   if granted then convert_risk_gate a sanction obligations_issue outcome
                   else Inr (terminal_result a outcome))
            else Inr (terminal_result a outcome))"

section \<open>The decision\<close>

definition policy_result :: "assessment \<Rightarrow> string list \<Rightarrow> assessment_result" where
  "policy_result a policy_violations =
     decide_result a REJECT False (decide_risk_mode (sc_criticality_stage (as_scores a)) False False)
       [gate_entry 1 ''policy_violation'' [(''detail'', vstrs policy_violations)]]
       [VDict [(''trigger_id'', VStr ''pol_001''), (''risk_class'', VStr ''policy_violation''),
               (''trigger_source'', VStr ''policy''), (''severity'', VStr ''critical''),
               (''decision_effect'', VStr ''reject'')]]
       (PolicyReason policy_violations)"

text \<open>The outcome of the gates, before the advisory entries.\<close>

definition gate_sequence :: "assessment \<Rightarrow> pyval dict option \<Rightarrow> gate_outcome" where
  "gate_sequence a obligations_issue =
     (case revision_risk_benefit_outcome a [] (revision_completeness_issue (as_input a)) of
        (approved, terminal, gates) \<Rightarrow> obligations_gate obligations_issue (risk_gates a approved terminal gates))"

definition decide :: "assessment \<Rightarrow> string list \<Rightarrow> assessment_result res" where
  "decide a policy_violations =
     rbind (task_obligations_issue (as_input a)) (\<lambda>obligations_issue.
       if policy_violations \<noteq> [] then Inr (policy_result a policy_violations)
       else
         (case gate_sequence a obligations_issue of
            (provisional, requires_confirmation, fired_gate, gates) \<Rightarrow>
              resolve_sanction a obligations_issue
                (provisional, requires_confirmation, fired_gate, advisory_gates (as_input a) gates)))"

section \<open>The gates as an ordered rule list\<close>

text \<open>
  The specification of the chain: numbered conditions in the order of precedence. The gate that
  fires is the first whose condition holds.
\<close>

definition gate_conditions :: "assessment \<Rightarrow> bool \<Rightarrow> decision option \<Rightarrow> (int \<times> bool) list" where
  "gate_conditions a approved terminal =
     (let s = as_scores a; inp = as_input a; t = ai_thresholds inp
      in [(2, sc_criticality_stage s = ''C4'' \<and> flag_on t ''c4_always_ask_human''
              \<and> consequential_or_unknown (sc_symbol_scope_evidence s)),
          (9, terminal \<noteq> None),
          (3, sc_expected_loss s > sc_effective_threshold s \<and> \<not> approved),
          (4, sc_rau s < 0 \<and> \<not> approved),
          (5, sc_utility_sd s > dict_get t ''max_utility_sd_without_human'' 0.20
              \<and> sc_expected_utility s > 0 \<and> \<not> approved),
          (16, bl_import_cycle_detected (ai_blast_evidence inp)
               \<and> \<not> candidate_verification_is_bound_and_passed a),
          (8, as_confidence_band a \<in> {''low'', ''medium''}),
          (12, ae_graph_freshness (ai_architecture_evidence inp) = GF_STALE
               \<and> flag_on t ''inspect_on_stale_arch_map''),
          (13, fanin_validity inp \<noteq> [] \<and> truthy (dict_get (fanin_validity inp) ''required'' (VBool True))),
          (14, repo_blast_gate inp \<noteq> [])])"

definition first_gate :: "(int \<times> bool) list \<Rightarrow> int" where
  "first_gate conds = (case find snd conds of Some (g, _) \<Rightarrow> g | None \<Rightarrow> 11)"

lemma gate_3_shape:
  "\<exists>d c gs. gate_3 a gates = (d, c, 3, gs) \<and> d \<in> {REVISE_SAFER, REJECT, ASK_HUMAN} \<and> (c \<longleftrightarrow> d = ASK_HUMAN)"
  by (auto simp: gate_3_def Let_def)

lemma gate_4_shape:
  "\<exists>d c gs. gate_4 a gates = (d, c, 4, gs) \<and> d \<in> {REVISE_SAFER, REJECT, ASK_HUMAN} \<and> (c \<longleftrightarrow> d = ASK_HUMAN)"
  by (auto simp: gate_4_def Let_def)

text \<open>The decision each gate can emit.\<close>

definition gate_decisions :: "int \<Rightarrow> decision set" where
  "gate_decisions g =
     (if g = 2 \<or> g = 5 then {ASK_HUMAN}
      else if g = 9 \<or> g = 3 \<or> g = 4 then {REVISE_SAFER, REJECT, ASK_HUMAN}
      else if g = 16 then {TEST_FIRST}
      else if g \<in> {8, 12, 13, 14} then {INSPECT_FIRST}
      else if g = 15 then {ASK_HUMAN}
      else {PROCEED})"

lemma revision_outcome_terminal:
  assumes "revision_risk_benefit_outcome a gates issue = (approved, Some d, gs)"
  shows "d \<in> {REVISE_SAFER, REJECT, ASK_HUMAN} \<and> \<not> approved"
  using assms
  by (auto simp: revision_risk_benefit_outcome_def exhausted_or_revise_def Let_def
      split: if_splits option.splits prod.splits)

text \<open>The chain as a fold over the rule list: the outcome of the first rule that holds.\<close>

fun chain :: "bool list \<Rightarrow> 'a list \<Rightarrow> 'a \<Rightarrow> 'a" where
  "chain (c # cs) (x # xs) d = (if c then x else chain cs xs d)"
| "chain _ _ d = d"

lemma chain_first:
  assumes "list_all2 (\<lambda>(n, c) x. c \<longrightarrow> ok n x) conds xs" and "ok 11 d"
  shows "ok (first_gate conds) (chain (map snd conds) xs d)"
  using assms(1)
proof (induction conds xs rule: list_all2_induct)
  case Nil
  then show ?case using assms(2) by (simp add: first_gate_def)
next
  case (Cons nc conds x xs)
  then show ?case by (cases nc) (auto simp: first_gate_def)
qed

definition rule_outcomes :: "assessment \<Rightarrow> decision option \<Rightarrow> pyval dict list \<Rightarrow> gate_outcome list" where
  "rule_outcomes a terminal gates =
     (let s = as_scores a; inp = as_input a
      in [(ASK_HUMAN, True, 2, gates @ [gate_entry 2 ''c4_consequential_ask_human'' []]),
          (the terminal, the terminal = ASK_HUMAN, 9, gates),
          gate_3 a gates,
          gate_4 a gates,
          (ASK_HUMAN, True, 5,
           gates @ [gate_entry 5 ''utility_sd_over_limit'' [(''utility_sd'', vreal (sc_utility_sd s))]]),
          (TEST_FIRST, False, 16, gates @ [gate_entry 16 ''import_cycle_requires_tests'' []]),
          (INSPECT_FIRST, False, 8,
           gates @ [gate_entry 8 (as_confidence_band a @ ''_edit_confidence'')
                      [(''edit_confidence'', vreal (sc_edit_confidence s))]]),
          (INSPECT_FIRST, False, 12, gates @ [gate_entry 12 ''stale_architecture_map'' []]),
          (INSPECT_FIRST, False, 13, gates @ [gate_entry 13 ''fanin_evidence_invalid'' (fanin_validity inp)]),
          (INSPECT_FIRST, False, 14, gates @ [repo_blast_gate inp])])"

lemma risk_gates_chain:
  "risk_gates a approved terminal gates =
     chain (map snd (gate_conditions a approved terminal)) (rule_outcomes a terminal gates)
       (PROCEED, sc_criticality_stage (as_scores a) \<in> set SENSITIVE_STAGES, 11, gates)"
  by (simp only: risk_gates_def gate_conditions_def rule_outcomes_def Let_def list.map snd_conv chain.simps)

text \<open>What an outcome says of its gate.\<close>

definition outcome_ok :: "assessment \<Rightarrow> int \<Rightarrow> gate_outcome \<Rightarrow> bool" where
  "outcome_ok a n out =
     (case out of (d, c, g, gs) \<Rightarrow>
        g = n \<and> d \<in> gate_decisions n
        \<and> (c \<longleftrightarrow> d = ASK_HUMAN
             \<or> d = PROCEED \<and> sc_criticality_stage (as_scores a) \<in> set SENSITIVE_STAGES))"

lemma rule_outcomes_ok:
  assumes "\<And>t. terminal = Some t \<Longrightarrow> t \<in> {REVISE_SAFER, REJECT, ASK_HUMAN}"
  shows "list_all2 (\<lambda>(n, c) x. c \<longrightarrow> outcome_ok a n x)
    (gate_conditions a approved terminal) (rule_outcomes a terminal gates)"
proof -
  have "outcome_ok a 3 (gate_3 a gates)" and "outcome_ok a 4 (gate_4 a gates)"
    using gate_3_shape [of a gates] gate_4_shape [of a gates]
    by (auto simp: outcome_ok_def gate_decisions_def)
  moreover have "terminal \<noteq> None \<longrightarrow> outcome_ok a 9 (the terminal, the terminal = ASK_HUMAN, 9, gates)"
    using assms by (auto simp: outcome_ok_def gate_decisions_def)
  ultimately show ?thesis
    unfolding gate_conditions_def rule_outcomes_def Let_def list_all2_Cons list_all2_Nil prod.case
    by (simp add: outcome_ok_def gate_decisions_def)
qed

lemma risk_gates_ok:
  assumes "\<And>t. terminal = Some t \<Longrightarrow> t \<in> {REVISE_SAFER, REJECT, ASK_HUMAN}"
  shows "outcome_ok a (first_gate (gate_conditions a approved terminal)) (risk_gates a approved terminal gates)"
  unfolding risk_gates_chain
  by (rule chain_first [OF rule_outcomes_ok [OF assms]]) (simp_all add: outcome_ok_def gate_decisions_def)

lemma gate_sequence_cases:
  assumes "gate_sequence a issue = (d, c, g, gs)"
  obtains approved terminal gates d0 c0 g0 gs0 where
    "revision_risk_benefit_outcome a [] (revision_completeness_issue (as_input a)) = (approved, terminal, gates)"
    "risk_gates a approved terminal gates = (d0, c0, g0, gs0)"
    "g0 = first_gate (gate_conditions a approved terminal)"
    "d0 \<in> gate_decisions g0"
    "(d, c, g) = (if d0 = PROCEED \<and> issue \<noteq> None then (ASK_HUMAN, True, 15) else (d0, c0, g0))"
    "c0 \<longleftrightarrow> d0 = ASK_HUMAN \<or> d0 = PROCEED \<and> sc_criticality_stage (as_scores a) \<in> set SENSITIVE_STAGES"
proof -
  obtain approved terminal gates where r:
    "revision_risk_benefit_outcome a [] (revision_completeness_issue (as_input a)) = (approved, terminal, gates)"
    by (metis prod_cases3)
  obtain d0 c0 g0 gs0 where g: "risk_gates a approved terminal gates = (d0, c0, g0, gs0)"
    by (metis prod_cases4)
  have t: "t \<in> {REVISE_SAFER, REJECT, ASK_HUMAN}" if "terminal = Some t" for t
    using revision_outcome_terminal r that by blast
  have "(d, c, g) = (if d0 = PROCEED \<and> issue \<noteq> None then (ASK_HUMAN, True, 15) else (d0, c0, g0))"
    using assms r g by (auto simp: gate_sequence_def obligations_gate_def split: if_splits)
  moreover have "outcome_ok a (first_gate (gate_conditions a approved terminal)) (d0, c0, g0, gs0)"
    unfolding g [symmetric] by (rule risk_gates_ok [OF t])
  ultimately show thesis
    by (intro that [OF r g]) (auto simp: outcome_ok_def)
qed

lemma gate_conditions_numbers:
  "map fst (gate_conditions a approved terminal) = [2, 9, 3, 4, 5, 16, 8, 12, 13, 14]"
  by (simp add: gate_conditions_def Let_def)

lemma first_gate_in: "first_gate conds \<in> insert 11 (fst ` set conds)"
  by (induction conds) (auto simp: first_gate_def)

lemma first_gate_number:
  "first_gate (gate_conditions a approved terminal) \<in> {11, 2, 9, 3, 4, 5, 16, 8, 12, 13, 14}"
proof -
  have "fst ` set (gate_conditions a approved terminal) = set [2, 9, 3, 4, 5, 16, 8, 12, 13, 14]"
    using gate_conditions_numbers [of a approved terminal] by (metis list.set_map)
  with first_gate_in [of "gate_conditions a approved terminal"] show ?thesis by auto
qed

lemma gate_decisions_PROCEED:
  assumes "g = first_gate (gate_conditions a p t)" and "PROCEED \<in> gate_decisions g"
  shows "g = 11"
  using first_gate_number [of a p t] assms by (auto simp: gate_decisions_def)

lemma first_gate_11:
  assumes "first_gate (gate_conditions a approved terminal) = 11" and "x \<in> set (gate_conditions a approved terminal)"
  shows "\<not> snd x"
proof -
  have "find snd (gate_conditions a approved terminal) = None"
  proof (rule ccontr)
    assume "\<not> ?thesis"
    then obtain y where y: "find snd (gate_conditions a approved terminal) = Some y" by blast
    then have "y \<in> set (gate_conditions a approved terminal)" by (auto simp: find_Some_iff)
    then have "fst y \<in> set (map fst (gate_conditions a approved terminal))" by simp
    then have "fst y \<noteq> 11" unfolding gate_conditions_numbers by auto
    with assms(1) y show False by (simp add: first_gate_def split: prod.splits)
  qed
  with assms(2) show ?thesis unfolding find_None_iff by blast
qed

section \<open>What the sanction can change\<close>

lemma decide_result_fields:
  "re_recommended_decision (decide_result a d c m gs tr r) = d"
  "re_requires_confirmation (decide_result a d c m gs tr r) = c"
  "re_risk_mode (decide_result a d c m gs tr r) = m"
  "re_gates_fired (decide_result a d c m gs tr r) = gs"
  "re_decision_reason (decide_result a d c m gs tr r) = r"
  "re_action_status (decide_result a d c m gs tr r) = PENDING"
  "re_scores (decide_result a d c m gs tr r) = flatten_scores a"
  "re_graph_evidence (decide_result a d c m gs tr r) = graph_evidence_of (ai_blast_evidence (as_input a))"
  "re_fanin_validity (decide_result a d c m gs tr r) = fanin_validity (as_input a)"
  by (simp_all add: decide_result_def)

lemma terminal_result_fields:
  "re_recommended_decision (terminal_result a (d, c, g, gs)) = d"
  "re_requires_confirmation (terminal_result a (d, c, g, gs)) = c"
  "re_gates_fired (terminal_result a (d, c, g, gs)) = gs"
  "re_scores (terminal_result a (d, c, g, gs)) = flatten_scores a"
  "re_graph_evidence (terminal_result a (d, c, g, gs)) = graph_evidence_of (ai_blast_evidence (as_input a))"
  "re_fanin_validity (terminal_result a (d, c, g, gs)) = fanin_validity (as_input a)"
  by (simp_all add: terminal_result_def decide_result_fields Let_def)

lemma terminal_result_reason:
  "\<exists>loss benefit utility rau. re_decision_reason (terminal_result a (d, c, g, gs)) = TerminalReason d g loss benefit utility rau"
  by (simp add: terminal_result_def decide_result_fields Let_def)

text \<open>The sanction holds the authority for a gate.\<close>

definition sanctioned :: "assessment \<Rightarrow> int \<Rightarrow> bool" where
  "sanctioned a g =
     (case ai_sanction (as_input a) of None \<Rightarrow> False
      | Some s \<Rightarrow> s \<noteq> [] \<and> truthy (dict_get s ''valid'' VNone)
          \<and> truthy (dict_get s ''pre_edit_authorization_controls_satisfied'' VNone)
          \<and> in_set g (dict_get s ''converts_gates'' (VList [])) = Inr True)"

lemma sanction_grants_True: "sanction_grants s g = Inr True \<longleftrightarrow>
    truthy (dict_get s ''valid'' VNone)
    \<and> truthy (dict_get s ''pre_edit_authorization_controls_satisfied'' VNone)
    \<and> in_set g (dict_get s ''converts_gates'' (VList [])) = Inr True"
  by (auto simp: sanction_grants_def)

lemma resolve_sanction_cases:
  assumes "resolve_sanction a issue (d, c, g, gs) = Inr r"
  obtains
    (terminal) "r = terminal_result a (d, c, g, gs)"
  | (confirmed) "d = PROCEED" "c" "g = 11" "sanctioned a 11" "re_recommended_decision r = PROCEED"
      "\<not> re_requires_confirmation r" "re_risk_mode r = CONTROLLED_HIGH_RISK"
  | (converted) "d \<in> {ASK_HUMAN, REJECT}" "g \<in> {2, 3, 4, 9}" "sanctioned a g" "issue = None"
      "re_recommended_decision r = PROCEED" "\<not> re_requires_confirmation r"
      "re_risk_mode r = CONTROLLED_HIGH_RISK" "re_decision_reason r = ControlledProceedReason g d"
  | (obliged) "d \<in> {ASK_HUMAN, REJECT}" "g \<in> {2, 3, 4, 9}" "sanctioned a g" "issue \<noteq> None"
      "re_recommended_decision r = REVISE_SAFER" "\<not> re_requires_confirmation r"
proof -
  consider "r = terminal_result a (d, c, g, gs)"
    | s where "ai_sanction (as_input a) = Some s" "s \<noteq> []" "d = PROCEED" "c" "g = 11"
        "sanction_grants s 11 = Inr True" "confirm_proceed a s gs = Inr r"
    | s where "ai_sanction (as_input a) = Some s" "s \<noteq> []" "d \<in> {ASK_HUMAN, REJECT}"
        "g \<in> set SANCTION_CONVERTIBLE_GATES" "sanction_grants s g = Inr True"
        "convert_risk_gate a s issue (d, c, g, gs) = Inr r"
    using assms
    by (auto simp: resolve_sanction_def rbind_Inr_iff split: option.splits if_splits)
  then show thesis
  proof cases
    case 1
    then show thesis by (rule terminal)
  next
    case 2
    then show thesis
      by (intro confirmed)
        (auto simp: sanctioned_def sanction_grants_True confirm_proceed_def rbind_Inr_iff decide_result_fields)
  next
    case 3
    then have s: "sanctioned a g" and g: "g \<in> {2, 3, 4, 9}"
      by (auto simp: sanctioned_def sanction_grants_True SANCTION_CONVERTIBLE_GATES_def)
    show thesis
    proof (cases issue)
      case None
      with 3 s g show thesis
        by (intro converted)
          (auto simp: convert_risk_gate_def rbind_Inr_iff decide_result_fields decide_risk_mode_def Let_def)
    next
      case (Some i)
      with 3 s g show thesis
        by (intro obliged) (auto simp: convert_risk_gate_def decide_result_fields Let_def)
    qed
  qed
qed

lemma decide_cases:
  assumes "decide a [] = Inr r"
  obtains issue d c g gs where "task_obligations_issue (as_input a) = Inr issue"
    "gate_sequence a issue = (d, c, g, gs)"
    "resolve_sanction a issue (d, c, g, advisory_gates (as_input a) gs) = Inr r"
proof -
  obtain issue where i: "task_obligations_issue (as_input a) = Inr issue"
    using assms by (auto simp: decide_def rbind_Inr_iff)
  obtain d c g gs where s: "gate_sequence a issue = (d, c, g, gs)" by (metis prod_cases4)
  show thesis using that [OF i s] assms i s by (simp add: decide_def)
qed

lemma decide_policy:
  assumes "policy_violations \<noteq> []" and "decide a policy_violations = Inr r"
  shows "r = policy_result a policy_violations"
  using assms by (auto simp: decide_def rbind_Inr_iff)

section \<open>The same candidate under a sanction\<close>

text \<open>An assessment with a sanction on file: only the sanction resolution can see it.\<close>

definition with_sanction :: "assessment \<Rightarrow> pyval dict \<Rightarrow> assessment" where
  "with_sanction a sanction = a\<lparr>as_input := (as_input a)\<lparr>ai_sanction := Some sanction\<rparr>\<rparr>"

named_theorems sanction_free \<open>functions that do not read the sanction\<close>

lemma with_sanction_fields [sanction_free]:
  "as_scores (with_sanction a s) = as_scores a"
  "as_confidence_band (with_sanction a s) = as_confidence_band a"
  "ai_thresholds (as_input (with_sanction a s)) = ai_thresholds (as_input a)"
  "ai_action (as_input (with_sanction a s)) = ai_action (as_input a)"
  "ai_candidate_verification (as_input (with_sanction a s)) = ai_candidate_verification (as_input a)"
  "ai_revision_completeness (as_input (with_sanction a s)) = ai_revision_completeness (as_input a)"
  "ai_task_obligations (as_input (with_sanction a s)) = ai_task_obligations (as_input a)"
  "ai_symbol_diff_evidence (as_input (with_sanction a s)) = ai_symbol_diff_evidence (as_input a)"
  "ai_fanin_evidence (as_input (with_sanction a s)) = ai_fanin_evidence (as_input a)"
  "ai_blast_evidence (as_input (with_sanction a s)) = ai_blast_evidence (as_input a)"
  "ai_architecture_evidence (as_input (with_sanction a s)) = ai_architecture_evidence (as_input a)"
  "ai_repo_id (as_input (with_sanction a s)) = ai_repo_id (as_input a)"
  "ai_repo_root (as_input (with_sanction a s)) = ai_repo_root (as_input a)"
  "ai_sanction (as_input (with_sanction a s)) = Some s"
  by (simp_all add: with_sanction_def)

lemma sanction_free_evidence [sanction_free]:
  "graph_required (as_input (with_sanction a s)) = graph_required (as_input a)"
  "task_obligations_issue (as_input (with_sanction a s)) = task_obligations_issue (as_input a)"
  "repo_blast_advisory (as_input (with_sanction a s)) = repo_blast_advisory (as_input a)"
  "revision_completeness_issue (as_input (with_sanction a s)) = revision_completeness_issue (as_input a)"
  "loss_events (with_sanction a s) = loss_events a"
  "candidate_verification_is_bound_and_passed (with_sanction a s) = candidate_verification_is_bound_and_passed a"
  "revise_candidate_decision (with_sanction a s) gs n = revise_candidate_decision a gs n"
  "exhausted_or_revise (with_sanction a s) = exhausted_or_revise a"
  by (simp_all only: graph_required_def graph_required_by_candidate_def task_obligations_issue_def
      repo_blast_advisory_def revision_completeness_issue_def loss_events_def
      candidate_verification_is_bound_and_passed_def revise_candidate_decision_def exhausted_or_revise_def
      with_sanction_fields)

lemma sanction_free_gates [sanction_free]:
  "fanin_validity (as_input (with_sanction a s)) = fanin_validity (as_input a)"
  "repo_blast_gate (as_input (with_sanction a s)) = repo_blast_gate (as_input a)"
  "should_revise_safer (with_sanction a s) = should_revise_safer a"
  "revision_risk_benefit_outcome (with_sanction a s) gs issue = revision_risk_benefit_outcome a gs issue"
  by (simp_all only: fanin_validity_def repo_blast_gate_def should_revise_safer_def has_narrowing_headroom_def
      revision_risk_benefit_outcome_def with_sanction_fields sanction_free_evidence)

lemma sanction_free_sequence [sanction_free]:
  "gate_3 (with_sanction a s) gs = gate_3 a gs"
  "gate_4 (with_sanction a s) gs = gate_4 a gs"
  "advisory_gates (as_input (with_sanction a s)) gs = advisory_gates (as_input a) gs"
  by (simp_all only: gate_3_def gate_4_def advisory_gates_def with_sanction_fields sanction_free_evidence
      sanction_free_gates)

lemma gate_sequence_with_sanction [sanction_free]:
  "gate_sequence (with_sanction a s) issue = gate_sequence a issue"
  by (simp only: gate_sequence_def risk_gates_def Let_def with_sanction_fields sanction_free_evidence
      sanction_free_gates sanction_free_sequence)

lemma decide_result_with_sanction [sanction_free]:
  "decide_result (with_sanction a s) d c m gs tr r = decide_result a d c m gs tr r"
  by (simp only: decide_result_def flatten_scores_def Let_def with_sanction_fields sanction_free_evidence
      sanction_free_gates)

lemma terminal_result_with_sanction [sanction_free]:
  "terminal_result (with_sanction a s) outcome = terminal_result a outcome"
  "policy_result (with_sanction a s) violations = policy_result a violations"
  by (simp_all only: terminal_result_def policy_result_def with_sanction_fields decide_result_with_sanction)

lemma decide_with_sanction:
  assumes "task_obligations_issue (as_input a) = Inr issue" and "gate_sequence a issue = (d, c, g, gs)"
  shows "decide (with_sanction a s) []
    = resolve_sanction (with_sanction a s) issue (d, c, g, advisory_gates (as_input a) gs)"
  using assms by (simp add: decide_def sanction_free)

lemma resolve_with_sanction:
  assumes "d = PROCEED \<Longrightarrow> issue = None"
  shows "resolve_sanction (with_sanction a s) issue (d, c, g, gs) = Inr (terminal_result a (d, c, g, gs))
    \<or> truthy (dict_get s ''valid'' VNone)
      \<and> truthy (dict_get s ''pre_edit_authorization_controls_satisfied'' VNone)
      \<and> in_set g (dict_get s ''converts_gates'' (VList [])) \<noteq> Inr False
      \<and> (d \<in> {ASK_HUMAN, REJECT} \<and> g \<in> {2, 3, 4, 9} \<or> d = PROCEED \<and> g = 11 \<and> c)
      \<and> (\<forall>r. resolve_sanction (with_sanction a s) issue (d, c, g, gs) = Inr r \<longrightarrow>
          re_recommended_decision r = (if issue = None then PROCEED else REVISE_SAFER)
          \<and> re_scores r = flatten_scores a \<and> re_graph_evidence r = graph_evidence_of (ai_blast_evidence (as_input a))
          \<and> re_fanin_validity r = fanin_validity (as_input a) \<and> (\<exists>more. re_gates_fired r = gs @ more))"
proof (cases "sanction_grants s g = Inr False \<or> s = []")
  case True
  then show ?thesis
    by (auto simp: resolve_sanction_def sanction_free)
next
  case False
  then have grants: "truthy (dict_get s ''valid'' VNone)" "truthy (dict_get s ''pre_edit_authorization_controls_satisfied'' VNone)"
    "in_set g (dict_get s ''converts_gates'' (VList [])) \<noteq> Inr False"
    by (auto simp: sanction_grants_def split: if_splits)
  show ?thesis
  proof (cases "d \<in> {ASK_HUMAN, REJECT} \<and> g \<in> {2, 3, 4, 9} \<or> d = PROCEED \<and> g = 11 \<and> c")
    case outside: False
    then show ?thesis
      by (auto simp: resolve_sanction_def sanction_free SANCTION_CONVERTIBLE_GATES_def)
  next
    case True
    have "re_recommended_decision r = (if issue = None then PROCEED else REVISE_SAFER)
          \<and> re_scores r = flatten_scores a \<and> re_graph_evidence r = graph_evidence_of (ai_blast_evidence (as_input a))
          \<and> re_fanin_validity r = fanin_validity (as_input a) \<and> (\<exists>more. re_gates_fired r = gs @ more)"
      if r: "resolve_sanction (with_sanction a s) issue (d, c, g, gs) = Inr r" for r
    proof -
      have "s \<noteq> []" using False by simp
      from True show ?thesis
      proof
        assume risk: "d \<in> {ASK_HUMAN, REJECT} \<and> g \<in> {2, 3, 4, 9}"
        then have "rbind (sanction_grants s g) (\<lambda>granted. if granted then convert_risk_gate (with_sanction a s) s issue (d, c, g, gs)
            else Inr (terminal_result (with_sanction a s) (d, c, g, gs))) = Inr r"
          using r \<open>s \<noteq> []\<close> by (auto simp: resolve_sanction_def with_sanction_fields SANCTION_CONVERTIBLE_GATES_def)
        then have "convert_risk_gate (with_sanction a s) s issue (d, c, g, gs) = Inr r"
          using False by (auto simp: rbind_Inr_iff split: if_splits)
        then show ?thesis
          by (cases issue) (auto simp: convert_risk_gate_def rbind_Inr_iff Let_def sanction_free decide_result_fields)
      next
        assume confirm: "d = PROCEED \<and> g = 11 \<and> c"
        then have "c = True" by simp
        from confirm have "rbind (sanction_grants s 11) (\<lambda>granted. if granted then confirm_proceed (with_sanction a s) s gs
            else Inr (terminal_result (with_sanction a s) (d, c, g, gs))) = Inr r"
          unfolding \<open>c = True\<close>
          using r \<open>s \<noteq> []\<close> by (auto simp: resolve_sanction_def with_sanction_fields \<open>c = True\<close>)
        then have "confirm_proceed (with_sanction a s) s gs = Inr r"
          using False confirm by (auto simp: rbind_Inr_iff split: if_splits)
        then show ?thesis
          using assms confirm by (auto simp: confirm_proceed_def rbind_Inr_iff sanction_free decide_result_fields)
      qed
    qed
    then show ?thesis using grants True by blast
  qed
qed

end
