(* ===== verification/Pebra_Samples.thy ===== *)
theory Pebra_Samples
  imports Pebra_Models
begin

text \<open>A small assessment input on which the witnesses of several theories evaluate the model: one
  action on one file, one event, explicit confidence factors, defaults for the rest.\<close>

definition sample_action :: candidate_action where
  "sample_action =
     \<lparr>ca_id = ''a1'', ca_label = ''edit'', ca_action_type = ''edit'', ca_proposed_patch = None,
      ca_affected_symbols = [], ca_expected_files = [''src/a.py''], ca_is_dependency_change = False,
      ca_is_schema_change = False, ca_is_migration = False\<rparr>"

definition sample_factors :: "real dict" where
  "sample_factors = map (\<lambda>f. (f, 1)) EDIT_CONFIDENCE_FACTORS"

definition sample_diff :: symbol_diff_evidence where
  "sample_diff = default_symbol_diff
     \<lparr>sd_parsed_patch_available := True, sd_changed_symbols := [''f''], sd_max_change_kind := ''BEHAVIORAL'',
      sd_visibility := ''internal'', sd_structure_tier := ''python_ast''\<rparr>"

definition sample_input :: assessment_input where
  "sample_input =
     \<lparr>ai_request = single_action ''task'' sample_action, ai_action = sample_action,
      ai_events = [plain_event ''dependency_break'' 0.1 0.5], ai_p_success = 0.9,
      ai_immediate_benefit = vreal 0.8, ai_review_cost = 0.1, ai_criticality_stage = ''C1'',
      ai_criticality_value = 0.3, ai_edit_confidence_factors = sample_factors, ai_thresholds = [],
      ai_repo_id = ''r'', ai_repo_root = ''/r'', ai_policy_violations = [],
      ai_p_success_variance = None, ai_review_cost_variance = None,
      ai_event_probability_variances = [], ai_variance_breakdown = None,
      ai_benefit_delta_evidence = default_benefit_delta, ai_symbol_diff_evidence = sample_diff,
      ai_fanin_evidence = None, ai_candidate_aggregate_evidence = default_candidate_aggregate,
      ai_file_fanin_rollup = None, ai_blast_evidence = default_blast,
      ai_architecture_evidence = default_architecture,
      ai_candidate_verification = default_candidate_verification,
      ai_candidate_graph_risk_evidence = default_graph_risk_evidence,
      ai_task_obligations = default_task_obligations,
      ai_revision_completeness = default_revision_completeness,
      ai_language_capability = default_language_capability, ai_sanction = None,
      ai_structural_features = None, ai_applied_snapshot_provenance = None,
      ai_warm_prior_provenance = None, ai_benefit_override = None,
      ai_benefit_variance_override = None\<rparr>"

end
