(* ===== verification/Pebra_Decision_Properties.thy ===== *)
theory Pebra_Decision_Properties
  imports Pebra_Decision_Engine Pebra_Samples
begin

text \<open>
  The properties of the decision engine. The witnesses evaluate \<open>decide\<close> on variations of one
  sample assessment: an internal one-symbol edit with high confidence and a small expected loss.
\<close>

section \<open>Entries and the controlling gate\<close>

definition plain_entry :: "int \<Rightarrow> pyval dict \<Rightarrow> bool" where
  "plain_entry n e =
     (dict_get e ''gate'' VNone = VInt n
      \<and> (case dict_get e ''name'' VNone of VStr name \<Rightarrow> name \<noteq> [] | _ \<Rightarrow> False)
      \<and> \<not> dict_has e ''advisory'')"

lemma plain_entry_gate_entry [simp]:
  "plain_entry n (gate_entry m name rest) \<longleftrightarrow> n = m \<and> name \<noteq> [] \<and> \<not> dict_has rest ''advisory''"
  by (auto simp: plain_entry_def gate_entry_def)

lemma no_advisory_get: "\<not> dict_has e ''advisory'' \<Longrightarrow> dict_get e ''advisory'' v = v"
  by (simp add: dict_has_def dict_get_def)

lemma controlling_gate_plain:
  "plain_entry n e \<Longrightarrow> n > 0 \<Longrightarrow> controlling_gate (VDict e # gs) = Some n"
  by (simp add: plain_entry_def no_advisory_get)

lemma plain_entry_valid: "plain_entry n e \<Longrightarrow> n > 0 \<Longrightarrow> valid_gate_record e"
  by (simp add: plain_entry_def valid_gate_record_def no_advisory_get)

lemma fanin_validity_no_advisory: "\<not> dict_has (fanin_validity inp) ''advisory''"
  by (simp add: fanin_validity_def split: option.splits)

lemma repo_blast_gate_plain: "repo_blast_gate inp \<noteq> [] \<Longrightarrow> plain_entry 14 (repo_blast_gate inp)"
  by (auto simp: repo_blast_gate_def repo_blast_advisory_def Let_def split: option.splits if_splits)

lemma advisory_gates_append: "\<exists>more. advisory_gates inp gs = gs @ more"
  by (auto simp: advisory_gates_def Let_def)

lemma controlling_gate_advisory_append:
  assumes "gs = e # rest" and "plain_entry n e" and "n > 0"
  shows "controlling_gate (map VDict (advisory_gates inp gs)) = Some n"
proof -
  obtain more where "advisory_gates inp gs = e # rest @ more"
    using advisory_gates_append [of inp gs] assms(1) by auto
  then show ?thesis using controlling_gate_plain [OF assms(2,3)] by (simp del: controlling_gate.simps)
qed

text \<open>
  Outside a revision loop the first entry a gate leaves is its own, unless it asked for a safer
  revision.
\<close>

definition own_entry :: "int \<Rightarrow> gate_outcome \<Rightarrow> bool" where
  "own_entry n out =
     (case out of (d, c, g, gs) \<Rightarrow>
        if n = 11 then gs = [] else d \<noteq> REVISE_SAFER \<longrightarrow> (\<exists>e. gs = [e] \<and> plain_entry n e))"

lemma own_entry_gate_3: "own_entry 3 (gate_3 a [])"
  by (auto simp: own_entry_def gate_3_def Let_def)

lemma own_entry_gate_4: "own_entry 4 (gate_4 a [])"
  by (auto simp: own_entry_def gate_4_def Let_def)

lemma own_entry_simple:
  "n \<noteq> 11 \<Longrightarrow> \<not> dict_has rest ''advisory'' \<Longrightarrow> name \<noteq> [] \<Longrightarrow> own_entry n (d, c, n, [] @ [gate_entry n name rest])"
  by (auto simp: own_entry_def)

lemma rule_outcomes_own:
  "list_all2 (\<lambda>(n, c) x. c \<longrightarrow> own_entry n x) (gate_conditions a approved None) (rule_outcomes a None [])"
  unfolding gate_conditions_def rule_outcomes_def Let_def list_all2_Cons list_all2_Nil prod.case
  by (intro conjI impI own_entry_gate_3 own_entry_gate_4 own_entry_simple)
    (auto simp: fanin_validity_no_advisory own_entry_def repo_blast_gate_plain)

lemma risk_gates_own:
  "own_entry (first_gate (gate_conditions a approved None)) (risk_gates a approved None [])"
  unfolding risk_gates_chain
  by (rule chain_first [OF rule_outcomes_own]) (simp add: own_entry_def)

lemma revision_outcome_no_revision:
  "\<not> rc_is_revision (ai_revision_completeness (as_input a)) \<Longrightarrow>
     revision_risk_benefit_outcome a gs issue = (False, None, gs)"
  by (simp add: revision_risk_benefit_outcome_def Let_def)

lemma task_obligations_entry:
  "task_obligations_issue inp = Inr (Some e) \<Longrightarrow> plain_entry 15 e"
  by (auto simp: task_obligations_issue_def rbind_Inr_iff Let_def split: if_splits)

lemma first_gate_pos: "first_gate (gate_conditions a approved terminal) > 0"
  using first_gate_number [of a approved terminal] by auto

lemma no_revision_controlling_gate:
  assumes "\<not> rc_is_revision (ai_revision_completeness (as_input a))"
    and "task_obligations_issue (as_input a) = Inr issue"
    and "gate_sequence a issue = (d, c, g, gs)" and "d \<noteq> REVISE_SAFER"
  shows "\<exists>e rest. gs = e # rest \<and> plain_entry g e \<and> g > 0"
proof -
  obtain d0 c0 g0 gs0 where r: "risk_gates a False None [] = (d0, c0, g0, gs0)" by (metis prod_cases4)
  have own: "own_entry (first_gate (gate_conditions a False None)) (d0, c0, g0, gs0)"
    using risk_gates_own [of a False] by (simp add: r)
  have ok: "outcome_ok a (first_gate (gate_conditions a False None)) (d0, c0, g0, gs0)"
    using risk_gates_ok [of None a False "[]"] by (simp add: r)
  have s: "gate_sequence a issue = obligations_gate issue (d0, c0, g0, gs0)"
    using assms(1) r by (simp add: gate_sequence_def revision_outcome_no_revision)
  have g0: "g0 = first_gate (gate_conditions a False None)" using ok by (simp add: outcome_ok_def)
  show ?thesis
  proof (cases "d0 = PROCEED \<and> issue \<noteq> None")
    case True
    then obtain i where i: "issue = Some i" by blast
    have "g0 = 11"
      using gate_decisions_PROCEED [OF g0] ok True by (simp add: outcome_ok_def g0)
    then have "gs0 = []" using own by (simp add: own_entry_def g0 [symmetric])
    moreover have "plain_entry 15 i" using task_obligations_entry assms(2) i by blast
    ultimately show ?thesis
      using True i s assms(3) by (auto simp: obligations_gate_def)
  next
    case False
    show ?thesis
    proof (cases "g0 = 11")
      case True
      then have "gs0 = []" using own by (simp add: own_entry_def g0 [symmetric])
      with False True s assms(3) show ?thesis
        by (auto simp: obligations_gate_def)
    next
      case g: False
      with False s assms(3) have eq: "(d, c, g, gs) = (d0, c0, g0, gs0)"
        by (auto simp: obligations_gate_def)
      with assms(4) own g obtain e where "gs = [e]" "plain_entry g0 e"
        by (auto simp: own_entry_def g0 [symmetric])
      with eq first_gate_pos [of a False None] show ?thesis
        by (intro exI [of _ e] exI [of _ "[]"]) (auto simp: g0 [symmetric])
    qed
  qed
qed

section \<open>Rejections\<close>

definition reject_entry :: "int \<Rightarrow> pyval dict \<Rightarrow> bool" where
  "reject_entry g e \<longleftrightarrow>
     g \<in> {3, 4, 9} \<and> plain_entry g e
     \<and> dict_get e ''name'' VNone = VStr (the (map_of REJECT_GATE_NAMES g))
     \<and> list_all finite_number (override_values g e)"

lemma revision_outcome_shape:
  assumes "revision_risk_benefit_outcome a [] issue = (approved, terminal, gates)"
  shows "terminal = None \<and> (approved \<or> gates = [])
    \<or> terminal = Some REJECT \<and> (\<exists>e. gates = [e] \<and> reject_entry 9 e)
    \<or> terminal \<in> {Some ASK_HUMAN, Some REVISE_SAFER}"
  using assms
  by (auto simp: revision_risk_benefit_outcome_def exhausted_or_revise_def Let_def reject_entry_def
      REJECT_GATE_NAMES_def override_values_def gate_entry_def plain_entry_def score_comparison_def
      split: if_splits option.splits prod.splits)

lemma gate_3_reject: "gate_3 a [] = (REJECT, c, g, gs) \<Longrightarrow> \<exists>e. gs = [e] \<and> reject_entry 3 e"
  by (auto simp: gate_3_def reject_entry_def REJECT_GATE_NAMES_def override_values_def gate_entry_def
      plain_entry_def Let_def split: if_splits)

lemma gate_4_reject: "gate_4 a [] = (REJECT, c, g, gs) \<Longrightarrow> \<exists>e. gs = [e] \<and> reject_entry 4 e"
  by (auto simp: gate_4_def reject_entry_def REJECT_GATE_NAMES_def override_values_def gate_entry_def
      plain_entry_def Let_def split: if_splits)

definition rejects_with_entry :: "int \<Rightarrow> gate_outcome \<Rightarrow> bool" where
  "rejects_with_entry n out =
     (case out of (d, c, g, gs) \<Rightarrow> d = REJECT \<longrightarrow> (\<exists>e. gs = [e] \<and> reject_entry n e))"

lemma rejects_with_entry_other: "d \<noteq> REJECT \<Longrightarrow> rejects_with_entry n (d, c, g, gs)"
  by (simp add: rejects_with_entry_def)

lemma risk_gates_reject:
  assumes "approved \<or> gates = []"
  shows "rejects_with_entry (first_gate (gate_conditions a approved None)) (risk_gates a approved None gates)"
proof -
  have g3: "\<not> approved \<longrightarrow> rejects_with_entry 3 (gate_3 a gates)"
    using assms gate_3_reject [of a] by (cases "gate_3 a []") (auto simp: rejects_with_entry_def)
  have g4: "\<not> approved \<longrightarrow> rejects_with_entry 4 (gate_4 a gates)"
    using assms gate_4_reject [of a] by (cases "gate_4 a []") (auto simp: rejects_with_entry_def)
  show ?thesis
    unfolding risk_gates_chain
  proof (rule chain_first)
    show "list_all2 (\<lambda>(n, c) x. c \<longrightarrow> rejects_with_entry n x)
        (gate_conditions a approved None) (rule_outcomes a None gates)"
      unfolding gate_conditions_def rule_outcomes_def Let_def list_all2_Cons list_all2_Nil prod.case
      using g3 g4 by (simp add: rejects_with_entry_other)
  qed (simp add: rejects_with_entry_other)
qed

lemma risk_gates_terminal:
  "\<exists>gs. risk_gates a approved (Some t) gates \<in> {(ASK_HUMAN, True, 2, gs), (t, t = ASK_HUMAN, 9, gates)}"
  by (auto simp: risk_gates_def Let_def)

lemma gate_sequence_reject:
  assumes "gate_sequence a issue = (REJECT, c, g, gs)"
  shows "\<exists>e. gs = [e] \<and> reject_entry g e"
proof -
  obtain approved terminal gates where r:
    "revision_risk_benefit_outcome a [] (revision_completeness_issue (as_input a)) = (approved, terminal, gates)"
    by (metis prod_cases3)
  obtain d0 c0 g0 gs0 where g0: "risk_gates a approved terminal gates = (d0, c0, g0, gs0)"
    by (metis prod_cases4)
  have "obligations_gate issue (d0, c0, g0, gs0) = (REJECT, c, g, gs)"
    using assms r g0 by (simp add: gate_sequence_def)
  moreover have "outcome_ok a (first_gate (gate_conditions a approved terminal)) (d0, c0, g0, gs0)"
    unfolding g0 [symmetric] by (rule risk_gates_ok) (use revision_outcome_terminal r in blast)
  ultimately have eq: "d0 = REJECT" "g0 = g" "gs0 = gs"
    and first: "first_gate (gate_conditions a approved terminal) = g"
    by (auto simp: obligations_gate_def outcome_ok_def gate_decisions_def split: if_splits)
  show ?thesis
  proof (cases terminal)
    case None
    then have "rejects_with_entry g (REJECT, c0, g, gs)"
      using revision_outcome_shape [OF r] risk_gates_reject [of approved gates a] g0 eq first by simp
    then show ?thesis by (simp add: rejects_with_entry_def)
  next
    case (Some t)
    with risk_gates_terminal [of a approved t gates] g0 eq have "t = REJECT" "g = 9" "gs = gates" by auto
    with Some revision_outcome_shape [OF r] show ?thesis by auto
  qed
qed

lemma advisory_gates_valid:
  "\<exists>more. advisory_gates inp gs = gs @ more \<and> list_all valid_gate_record more"
proof -
  have 14: "valid_gate_record ((''advisory'', VBool True) # repo_blast_gate inp)"
    if "repo_blast_gate inp \<noteq> []"
    using repo_blast_gate_plain [OF that] by (simp add: plain_entry_def valid_gate_record_def)
  show ?thesis
    using 14 by (auto simp: advisory_gates_def Let_def valid_gate_record_def gate_entry_def)
qed

lemma reject_eligible:
  assumes "reject_entry g e"
  shows "reject_override_gate (map VDict (advisory_gates inp [e])) = Some e"
proof -
  obtain more where more: "advisory_gates inp [e] = e # more" "list_all valid_gate_record more"
    using advisory_gates_valid [of inp "[e]"] by auto
  have e: "valid_gate_record e" "dict_get e ''advisory'' (VBool False) = VBool False"
    using assms plain_entry_valid [of g e] by (auto simp: reject_entry_def plain_entry_def no_advisory_get)
  have "controlling_record None (VDict e # map VDict more) = Some (Some e)"
    by (rule controlling_record_first [OF e]) (use more(2) in \<open>auto simp: list_all_iff\<close>)
  then show ?thesis
    using assms more(1)
    by (auto simp: reject_override_gate_def reject_entry_def plain_entry_def REJECT_OVERRIDE_GATES_set
        simp del: controlling_record.simps)
qed

section \<open>Approved revisions\<close>

lemma revision_approved:
  assumes "revision_risk_benefit_outcome a gs (revision_completeness_issue (as_input a)) = (True, t, gs')"
  shows "t = None" and "rc_is_revision (ai_revision_completeness (as_input a))"
    and "rc_origin_available (ai_revision_completeness (as_input a))"
    and "rc_missing_files (ai_revision_completeness (as_input a)) = []"
    and "rc_missing_public_symbols (ai_revision_completeness (as_input a)) = []"
    and "0 < sc_benefit (as_scores a)" and "0 \<le> sc_rau (as_scores a)"
    and "\<exists>l. rc_origin_expected_loss (ai_revision_completeness (as_input a)) = Some l
      \<and> sc_expected_loss (as_scores a) < l"
    and "cv_status (ai_candidate_verification (as_input a)) = ''not_applicable''
      \<or> candidate_verification_is_bound_and_passed a"
proof -
  have v: "candidate_verification_is_bound_and_passed a"
    if "revise_candidate_decision a g n = (PROCEED, x)" for g n x
    using that
    by (auto simp: revise_candidate_decision_def candidate_verification_is_bound_and_passed_def
        hash_bound_def filter_empty_conv list_all_iff Let_def split: if_splits option.splits)
  show "t = None" and "rc_is_revision (ai_revision_completeness (as_input a))"
    and "rc_origin_available (ai_revision_completeness (as_input a))"
    and "rc_missing_files (ai_revision_completeness (as_input a)) = []"
    and "rc_missing_public_symbols (ai_revision_completeness (as_input a)) = []"
    and "0 < sc_benefit (as_scores a)" and "0 \<le> sc_rau (as_scores a)"
    and "\<exists>l. rc_origin_expected_loss (ai_revision_completeness (as_input a)) = Some l
      \<and> sc_expected_loss (as_scores a) < l"
    and "cv_status (ai_candidate_verification (as_input a)) = ''not_applicable''
      \<or> candidate_verification_is_bound_and_passed a"
    using assms v
    by (auto simp: revision_risk_benefit_outcome_def revision_completeness_issue_def Let_def
        split: if_splits option.splits prod.splits)
qed

section \<open>No gate\<close>

lemma all_gates_clear:
  assumes "first_gate (gate_conditions a approved terminal) = 11"
  defines "s \<equiv> as_scores a" and "inp \<equiv> as_input a" and "t \<equiv> ai_thresholds (as_input a)"
  shows "\<not> (sc_criticality_stage s = ''C4'' \<and> flag_on t ''c4_always_ask_human''
              \<and> consequential_or_unknown (sc_symbol_scope_evidence s))
    \<and> \<not> terminal \<noteq> None
    \<and> \<not> (sc_expected_loss s > sc_effective_threshold s \<and> \<not> approved)
    \<and> \<not> (sc_rau s < 0 \<and> \<not> approved)
    \<and> \<not> (sc_utility_sd s > dict_get t ''max_utility_sd_without_human'' 0.20
              \<and> sc_expected_utility s > 0 \<and> \<not> approved)
    \<and> \<not> (bl_import_cycle_detected (ai_blast_evidence inp) \<and> \<not> candidate_verification_is_bound_and_passed a)
    \<and> \<not> as_confidence_band a \<in> {''low'', ''medium''}
    \<and> \<not> (ae_graph_freshness (ai_architecture_evidence inp) = GF_STALE
               \<and> flag_on t ''inspect_on_stale_arch_map'')
    \<and> \<not> (fanin_validity inp \<noteq> [] \<and> truthy (dict_get (fanin_validity inp) ''required'' (VBool True)))
    \<and> \<not> repo_blast_gate inp \<noteq> []"
proof -
  have "list_all (\<lambda>x. \<not> snd x) (gate_conditions a approved terminal)"
    using first_gate_11 [OF assms(1)] by (simp add: list_all_iff)
  then show ?thesis
    by (simp only: gate_conditions_def Let_def list.pred_inject snd_conv simp_thms s_def inp_def t_def)
qed

section \<open>Sample assessments\<close>

definition sample_breakdown :: benefit_breakdown where
  "sample_breakdown =
     \<lparr>bb_immediate_benefit = 0.8, bb_maintainability_gain = 0, bb_credited_maintainability_gain = 0,
      bb_benefit = 0.8, bb_benefit_variance = 0.04, bb_source_type = ''projected'',
      bb_component_provenance = []\<rparr>"

text \<open>An assessment at a given stage with given expected loss, utilities and change kind.\<close>

definition sample_assessment :: "assessment_input \<Rightarrow> string \<Rightarrow> real \<Rightarrow> real \<Rightarrow> real \<Rightarrow> string \<Rightarrow> assessment" where
  "sample_assessment inp stage loss eu rau kind =
     \<lparr>as_input = inp,
      as_scores =
        \<lparr>sc_expected_loss = loss, sc_verified_risk_events_removed = [], sc_risk_probability_updates = [],
         sc_graph_risk_events_updated = [],
         sc_loss_components = [\<lparr>lc_event = ''dependency_break'', lc_p_event = 0.1, lc_disutility = 0.5,
           lc_expected_loss = 0.05\<rparr>],
         sc_benefit = 0.8, sc_benefit_breakdown = sample_breakdown, sc_benefit_file_deltas = [],
         sc_expected_utility = eu, sc_utility_sd = 0.1, sc_variance_breakdown = [],
         sc_variance_source = ''explicit'', sc_rau = rau, sc_edit_confidence = 0.9,
         sc_edit_confidence_factors = [], sc_effective_threshold = 0.45,
         sc_budget_threshold_key = ''max_expected_loss_without_human'', sc_risk_budget_used = 0.1,
         sc_candidate_aggregate = default_candidate_aggregate, sc_criticality_stage = stage,
         sc_criticality_value = 0.3,
         sc_symbol_scope_evidence =
           [(''changed_symbols'', vstrs [''f'']), (''max_change_kind'', VStr kind),
            (''visibility'', VStr ''internal''), (''consequential_symbol_changed'', VBool False),
            (''file_operation_kind'', VStr ''NONE''), (''structure_tier'', VStr ''python_ast'')],
         sc_candidate_verification = []\<rparr>,
      as_confidence_band = ''high'', as_action_status = PENDING, as_provenance = []\<rparr>"

definition sample_sanction :: "int list \<Rightarrow> pyval dict" where
  "sample_sanction gates =
     [(''valid'', VBool True), (''pre_edit_authorization_controls_satisfied'', VBool True),
      (''assessment_id'', VStr ''A1''), (''converts_gates'', VList (map VInt gates))]"

named_theorems sample_eval \<open>definitions the evaluation of a sample unfolds\<close>

lemmas [sample_eval] =
  sample_action_def sample_diff_def sample_input_def sample_assessment_def sample_sanction_def
  default_symbol_diff_def default_architecture_def default_blast_def default_candidate_verification_def
  default_task_obligations_def default_revision_completeness_def
  task_obligations_issue_def gate_sequence_def revision_risk_benefit_outcome_def
  revision_completeness_issue_def risk_gates_def flag_on_def consequential_or_unknown_def
  UNCERTAIN_STRUCTURE_TIERS_def fanin_validity_def graph_required_def graph_required_by_candidate_def
  repo_blast_gate_def repo_blast_advisory_def obligations_gate_def advisory_gates_def has_gate_def
  gate_entry_def resolve_sanction_def sanction_grants_def in_set_def SANCTION_CONVERTIBLE_GATES_def
  SENSITIVE_STAGES_def terminal_result_def decide_result_def confirm_proceed_def convert_risk_gate_def
  sanction_triggers_def decide_def dict_get_def dict_has_def decide_risk_mode_def
  gate_3_def gate_4_def should_revise_safer_def revision_exhausted_def loss_events_def
  HARD_TERMINAL_EVENTS_def STRUCTURAL_RISK_EVENTS_def has_narrowing_headroom_def
  sanctioned_def Let_def

lemma as_input_sample [simp]: "as_input (sample_assessment inp stage loss eu rau kind) = inp"
  by (simp add: sample_assessment_def)

section \<open>Properties\<close>

text \<open>C3: A policy violation is final: whatever the scores and whatever sanction is on file, the
  decision is a reject with gate 1 as the only entry, and no human review can override it.\<close>

theorem policy_violation_is_final:
  assumes "policy_violations \<noteq> []" and "decide a policy_violations = Inr r"
  shows "re_recommended_decision r = REJECT
    \<and> re_gates_fired r = [gate_entry 1 ''policy_violation'' [(''detail'', vstrs policy_violations)]]
    \<and> \<not> reject_override_eligible (decision_value (re_recommended_decision r)) (map VDict (re_gates_fired r))"
  using decide_policy [OF assms]
  by (simp_all add: policy_result_def decide_result_fields reject_override_eligible_def
      reject_override_gate_def valid_gate_record_def gate_entry_def REJECT_OVERRIDE_GATES_set
      del: decision_value.simps)

text \<open>The same assessment would be a sanctioned proceed without the violation.\<close>

lemma policy_violation_is_final_witness:
  "\<exists>r. decide (sample_assessment (sample_input\<lparr>ai_sanction := Some (sample_sanction [2, 3, 4, 9])\<rparr>)
        ''C1'' 0.6 0.2 0.1 ''BEHAVIORAL'') [''no-prod-edits''] = Inr r
    \<and> re_recommended_decision r = REJECT"
proof -
  let ?a = "sample_assessment (sample_input\<lparr>ai_sanction := Some (sample_sanction [2, 3, 4, 9])\<rparr>)
    ''C1'' 0.6 0.2 0.1 ''BEHAVIORAL''"
  have d: "decide ?a [''no-prod-edits''] = Inr (policy_result ?a [''no-prod-edits''])"
    by (simp add: decide_def task_obligations_issue_def sample_assessment_def sample_input_def
        default_task_obligations_def)
  from policy_violation_is_final [OF _ d] d show ?thesis by simp
qed

text \<open>The gate that decides is the first one, in the documented order 2, 9, 3, 4, 5, 16, 8, 12,
  13, 14, whose condition holds, and gate 11 if none does: the \<open>elif\<close> chain is the rule list.\<close>

theorem first_satisfied_gate_decides:
  "fst (snd (snd (risk_gates a approved terminal gates)))
    = first_gate (gate_conditions a approved terminal)"
proof -
  have "(\<lambda>n x. fst (snd (snd x)) = n) (first_gate (gate_conditions a approved terminal))
      (chain (map snd (gate_conditions a approved terminal)) (rule_outcomes a terminal gates)
        (PROCEED, sc_criticality_stage (as_scores a) \<in> set SENSITIVE_STAGES, 11, gates))"
    by (rule chain_first)
      (simp_all add: gate_conditions_def rule_outcomes_def gate_3_def gate_4_def Let_def)
  then show ?thesis by (simp only: risk_gates_chain)
qed

text \<open>C1: A proceed without a sanction is sound: the expected loss is within the threshold and the
  risk-adjusted utility is not negative, or the candidate is a revision that passed the comparison
  with its origin; the confidence band is high; an import cycle has a passed verification bound to
  the patch; the architecture map is not stale and required graph evidence is trusted, unless the
  checks are switched off; no large-blast gate; no C4 consequential change; all obligations met.\<close>

theorem unsanctioned_proceed_is_sound:
  assumes "decide a [] = Inr r" and "re_recommended_decision r = PROCEED"
    and "ai_sanction (as_input a) = None"
  shows "(sc_expected_loss (as_scores a) \<le> sc_effective_threshold (as_scores a)
        \<and> 0 \<le> sc_rau (as_scores a)
        \<and> (sc_utility_sd (as_scores a)
              \<le> dict_get (ai_thresholds (as_input a)) ''max_utility_sd_without_human'' 0.20
           \<or> sc_expected_utility (as_scores a) \<le> 0)
      \<or> fst (revision_risk_benefit_outcome a [] (revision_completeness_issue (as_input a))))
    \<and> as_confidence_band a \<notin> {''low'', ''medium''}
    \<and> (bl_import_cycle_detected (ai_blast_evidence (as_input a)) \<longrightarrow>
         candidate_verification_is_bound_and_passed a)
    \<and> \<not> (sc_criticality_stage (as_scores a) = ''C4'' \<and> flag_on (ai_thresholds (as_input a)) ''c4_always_ask_human''
           \<and> consequential_or_unknown (sc_symbol_scope_evidence (as_scores a)))
    \<and> \<not> (ae_graph_freshness (ai_architecture_evidence (as_input a)) = GF_STALE
           \<and> flag_on (ai_thresholds (as_input a)) ''inspect_on_stale_arch_map'')
    \<and> (graph_required (as_input a) \<longrightarrow> is_trusted_fanin (ai_fanin_evidence (as_input a)))
    \<and> repo_blast_gate (as_input a) = []
    \<and> task_obligations_issue (as_input a) = Inr None"
proof -
  from assms(1) obtain issue d c g gs where
    i: "task_obligations_issue (as_input a) = Inr issue" and s: "gate_sequence a issue = (d, c, g, gs)"
    and res: "resolve_sanction a issue (d, c, g, advisory_gates (as_input a) gs) = Inr r"
    by (rule decide_cases)
  have "d = PROCEED"
    using res assms(2,3) by (auto simp: resolve_sanction_def terminal_result_fields)
  with s obtain approved terminal gates where
    r: "revision_risk_benefit_outcome a [] (revision_completeness_issue (as_input a)) = (approved, terminal, gates)"
    and g: "PROCEED \<in> gate_decisions (first_gate (gate_conditions a approved terminal))" and n: "issue = None"
    by (elim gate_sequence_cases) (auto split: if_splits)
  note c = all_gates_clear [OF gate_decisions_PROCEED [OF refl g]]
  have "fanin_validity (as_input a) = [] \<or> \<not> truthy (dict_get (fanin_validity (as_input a)) ''required'' (VBool True))"
    using c by blast
  then have "graph_required (as_input a) \<longrightarrow> is_trusted_fanin (ai_fanin_evidence (as_input a))"
    by (auto simp: fanin_validity_def split: option.splits if_splits)
  with c show ?thesis
    unfolding r fst_conv not_less [symmetric] i n by blast
qed

lemma sample_proceeds:
  "\<exists>r. decide (sample_assessment sample_input ''C1'' 0.05 0.6 0.4 ''BEHAVIORAL'') [] = Inr r
    \<and> re_recommended_decision r = PROCEED"
  by (simp add: sample_eval)

lemma unsanctioned_proceed_is_sound_witness:
  "task_obligations_issue sample_input = Inr None \<and> as_confidence_band
    (sample_assessment sample_input ''C1'' 0.05 0.6 0.4 ''BEHAVIORAL'') \<notin> {''low'', ''medium''}"
proof -
  let ?a = "sample_assessment sample_input ''C1'' 0.05 0.6 0.4 ''BEHAVIORAL''"
  obtain r where r: "decide ?a [] = Inr r" "re_recommended_decision r = PROCEED"
    using sample_proceeds by blast
  have "ai_sanction (as_input ?a) = None" by (simp add: sample_input_def)
  from unsanctioned_proceed_is_sound [OF r this] show ?thesis unfolding as_input_sample by blast
qed

text \<open>C2: A sanction changes nothing beyond its authority. The same assessment is decided once without a sanction and
  once with one on file, whatever the sanction says: an error stays the same error, and the result stays the same
  result, unless no policy is violated, the sanction is valid with its controls satisfied and names the gate that
  decided (or the list of the gates it names cannot be read, which raises), and that gate is one of the risk gates 2, 3,
  4 and 9 asking or rejecting, or the confirmation of a sensitive proceed. Even then, when a result is returned, the
  scores, the graph evidence and the entries of the gates stay; the decision becomes a proceed, or a request to revise
  while a task obligation is open.\<close>

theorem sanction_scope:
  assumes "ai_sanction (as_input a) = None"
  shows "case decide a violations of
      Inl e \<Rightarrow> decide (with_sanction a s) violations = Inl e
    | Inr r \<Rightarrow>
        decide (with_sanction a s) violations = Inr r
        \<or> violations = []
          \<and> truthy (dict_get s ''valid'' VNone)
          \<and> truthy (dict_get s ''pre_edit_authorization_controls_satisfied'' VNone)
          \<and> (\<exists>d g loss benefit utility rau. re_decision_reason r = TerminalReason d g loss benefit utility rau
              \<and> (d \<in> {ASK_HUMAN, REJECT} \<and> g \<in> {2, 3, 4, 9} \<or> d = PROCEED \<and> g = 11 \<and> re_requires_confirmation r)
              \<and> in_set g (dict_get s ''converts_gates'' (VList [])) \<noteq> Inr False)
          \<and> (\<forall>r'. decide (with_sanction a s) violations = Inr r' \<longrightarrow>
              re_recommended_decision r' = (if task_obligations_issue (as_input a) = Inr None then PROCEED else REVISE_SAFER)
              \<and> re_scores r' = re_scores r \<and> re_graph_evidence r' = re_graph_evidence r
              \<and> re_fanin_validity r' = re_fanin_validity r
              \<and> (\<exists>more. re_gates_fired r' = re_gates_fired r @ more))"
proof (cases "task_obligations_issue (as_input a)")
  case (Inl e)
  then show ?thesis by (simp add: decide_def sanction_free)
next
  case (Inr issue)
  show ?thesis
  proof (cases "violations = []")
    case False
    then show ?thesis using Inr by (simp add: decide_def sanction_free)
  next
    case True
    obtain d c g gs where seq: "gate_sequence a issue = (d, c, g, gs)" by (metis prod_cases4)
    have plain: "decide a [] = Inr (terminal_result a (d, c, g, advisory_gates (as_input a) gs))"
      using Inr seq assms by (simp add: decide_def resolve_sanction_def)
    have with_s: "decide (with_sanction a s) []
        = resolve_sanction (with_sanction a s) issue (d, c, g, advisory_gates (as_input a) gs)"
      by (rule decide_with_sanction [OF Inr seq])
    have "d = PROCEED \<Longrightarrow> issue = None"
      using seq by (elim gate_sequence_cases) (auto split: if_splits)
    then show ?thesis
      using resolve_with_sanction [of d issue a s c g "advisory_gates (as_input a) gs"]
      unfolding True plain with_s Inr sum.case
      by (simp only: terminal_result_fields terminal_result_reason sum.inject simp_thms option.inject option.distinct) (metis terminal_result_reason)
  qed
qed

lemma sanction_scope_witness:
  "\<exists>r. decide (with_sanction ((sample_assessment sample_input ''C1'' 0.05 0.6 0.4 ''BEHAVIORAL'')\<lparr>as_confidence_band := ''low''\<rparr>)
        (sample_sanction [5, 8, 11])) [] = Inr r
    \<and> re_recommended_decision r = INSPECT_FIRST"
proof -
  let ?a = "(sample_assessment sample_input ''C1'' 0.05 0.6 0.4 ''BEHAVIORAL'')\<lparr>as_confidence_band := ''low''\<rparr>"
  have i: "ai_sanction (as_input ?a) = None" by (simp add: sample_input_def)
  have o: "task_obligations_issue (as_input ?a) = Inr None" by (simp add: sample_eval)
  have "fst (gate_sequence ?a None) = INSPECT_FIRST" "fst (snd (snd (gate_sequence ?a None))) = 8"
    by (simp_all add: sample_eval)
  then obtain c gs where g: "gate_sequence ?a None = (INSPECT_FIRST, c, 8, gs)"
    by (cases "gate_sequence ?a None") auto
  let ?r = "terminal_result ?a (INSPECT_FIRST, c, 8, advisory_gates (as_input ?a) gs)"
  have r: "decide ?a [] = Inr ?r" using o g i by (simp add: decide_def resolve_sanction_def)
  obtain l b u v where "re_decision_reason ?r = TerminalReason INSPECT_FIRST 8 l b u v"
    using terminal_result_reason by blast
  with sanction_scope [OF i, where violations = "[]" and s = "sample_sanction [5, 8, 11]", unfolded r sum.case]
  have "decide (with_sanction ?a (sample_sanction [5, 8, 11])) [] = Inr ?r" by auto
  then show ?thesis by (simp add: terminal_result_fields)
qed

text \<open>C4: Task obligations are never waived: while one is open no decision is a proceed, and a
  sanction of the risk decision turns into a request to revise.\<close>

theorem obligations_never_waived:
  assumes "task_obligations_issue (as_input a) = Inr (Some issue)" and "decide a [] = Inr r"
  shows "re_recommended_decision r \<noteq> PROCEED"
proof -
  obtain d c g gs where s: "gate_sequence a (Some issue) = (d, c, g, gs)" by (metis prod_cases4)
  have "d \<noteq> PROCEED" using s by (elim gate_sequence_cases) (auto split: if_splits)
  moreover have "resolve_sanction a (Some issue) (d, c, g, advisory_gates (as_input a) gs) = Inr r"
    using assms s by (simp add: decide_def)
  ultimately show ?thesis
    by (elim resolve_sanction_cases) (auto simp: terminal_result_fields)
qed

definition obliged_input :: assessment_input where
  "obliged_input = sample_input\<lparr>
     ai_task_obligations := default_task_obligations\<lparr>to_required_checks := [''unit'']\<rparr>,
     ai_sanction := Some (sample_sanction [2, 3, 4, 9])\<rparr>"

lemma obligations_never_waived_witness:
  "\<exists>r. decide (sample_assessment obliged_input ''C1'' 0.6 0.2 0.1 ''BEHAVIORAL'') [] = Inr r
    \<and> re_recommended_decision r \<noteq> PROCEED"
proof -
  let ?a = "sample_assessment obliged_input ''C1'' 0.6 0.2 0.1 ''BEHAVIORAL''"
  have t: "touched_files [] = Inr []" by (simp add: touched_files_def splitlines_def splitlines_loop.simps tf_init_def sorted_set_def)
  have i: "\<exists>e. task_obligations_issue (as_input ?a) = Inr (Some e)"
    by (simp add: sample_eval obliged_input_def t)
  have "\<exists>r. decide ?a [] = Inr r"
    by (simp add: sample_eval obliged_input_def t)
  with i obligations_never_waived [of ?a] show ?thesis by blast
qed

text \<open>At the sensitive stages C3 and C4 a proceed asks for confirmation, or a sanction whose
  controls are satisfied has converted the very gate that stopped the edit.\<close>

theorem sensitive_proceed_is_confirmed:
  assumes "sc_criticality_stage (as_scores a) \<in> set SENSITIVE_STAGES" and "decide a [] = Inr r"
    and "re_recommended_decision r = PROCEED"
  shows "re_requires_confirmation r
    \<or> re_risk_mode r = CONTROLLED_HIGH_RISK \<and> (\<exists>g \<in> {2, 3, 4, 9, 11}. sanctioned a g)"
proof -
  from assms(2) obtain issue d c g gs where
    s: "gate_sequence a issue = (d, c, g, gs)"
    and res: "resolve_sanction a issue (d, c, g, advisory_gates (as_input a) gs) = Inr r"
    by (rule decide_cases)
  have "d = PROCEED \<Longrightarrow> c" using s assms(1) by (elim gate_sequence_cases) (auto split: if_splits)
  with res assms(3) show ?thesis
    by (elim resolve_sanction_cases) (auto simp: terminal_result_fields)
qed

lemma sensitive_proceed_is_confirmed_witness:
  "\<exists>r. decide (sample_assessment sample_input ''C3'' 0.05 0.6 0.4 ''BEHAVIORAL'') [] = Inr r
    \<and> (re_requires_confirmation r \<or> re_risk_mode r = CONTROLLED_HIGH_RISK)"
proof -
  let ?a = "sample_assessment sample_input ''C3'' 0.05 0.6 0.4 ''BEHAVIORAL''"
  obtain r where r: "decide ?a [] = Inr r" "re_recommended_decision r = PROCEED"
    by (simp add: sample_eval)
  have "sc_criticality_stage (as_scores ?a) \<in> set SENSITIVE_STAGES" by (simp add: sample_eval)
  from sensitive_proceed_is_confirmed [OF this r] r show ?thesis by blast
qed

text \<open>Every reject that is not a policy violation can be reviewed by a human: the entries the
  engine leaves name the rejecting gate first, in the form \<open>reject_override_gate\<close> accepts.\<close>

theorem reject_is_reviewable:
  assumes "decide a [] = Inr r" and "re_recommended_decision r = REJECT"
  shows "reject_override_eligible (decision_value (re_recommended_decision r)) (map VDict (re_gates_fired r))"
proof -
  from assms(1) obtain issue d c g gs where
    s: "gate_sequence a issue = (d, c, g, gs)"
    and res: "resolve_sanction a issue (d, c, g, advisory_gates (as_input a) gs) = Inr r"
    by (rule decide_cases)
  from res assms(2) have r: "r = terminal_result a (d, c, g, advisory_gates (as_input a) gs)"
    by (elim resolve_sanction_cases) auto
  with assms(2) have "d = REJECT" by (simp add: terminal_result_fields)
  with s gate_sequence_reject [of a issue c g gs] obtain e where "gs = [e]" "reject_entry g e" by auto
  with reject_eligible [of g e "as_input a"] r assms(2) show ?thesis
    by (simp add: reject_override_eligible_def terminal_result_fields del: decision_value.simps)
qed

lemma reject_is_reviewable_witness:
  "\<exists>r. decide (sample_assessment sample_input ''C1'' 0.6 (-0.2) (-0.3) ''BEHAVIORAL'') [] = Inr r
    \<and> reject_override_eligible (decision_value (re_recommended_decision r)) (map VDict (re_gates_fired r))"
proof -
  obtain r where "decide (sample_assessment sample_input ''C1'' 0.6 (-0.2) (-0.3) ''BEHAVIORAL'') [] = Inr r"
      "re_recommended_decision r = REJECT"
    by (simp add: sample_eval)
  from reject_is_reviewable [OF this] this(1) show ?thesis by blast
qed

text \<open>A revision is approved only if it is measurably better than its origin: the envelope of the
  origin is complete, the benefit is positive, the expected loss is strictly below the origin's, the
  risk-adjusted utility is not negative, and verification, where it applies, passed and is bound to
  the patch.\<close>

theorem approved_revision_improves:
  assumes "revision_risk_benefit_outcome a [] (revision_completeness_issue (as_input a)) = (True, t, gs)"
  shows "t = None \<and> rc_origin_available (ai_revision_completeness (as_input a))
    \<and> rc_missing_files (ai_revision_completeness (as_input a)) = []
    \<and> rc_missing_public_symbols (ai_revision_completeness (as_input a)) = []
    \<and> 0 < sc_benefit (as_scores a) \<and> 0 \<le> sc_rau (as_scores a)
    \<and> (\<exists>l. rc_origin_expected_loss (ai_revision_completeness (as_input a)) = Some l
         \<and> sc_expected_loss (as_scores a) < l)
    \<and> (cv_status (ai_candidate_verification (as_input a)) = ''not_applicable''
       \<or> candidate_verification_is_bound_and_passed a)"
  using revision_approved [OF assms] by blast

definition revision_input :: assessment_input where
  "revision_input = sample_input\<lparr>ai_revision_completeness :=
     default_revision_completeness\<lparr>rc_is_revision := True, rc_origin_expected_loss := Some 0.6,
       rc_origin_rau := Some (-0.1)\<rparr>\<rparr>"

lemma approved_revision_improves_witness:
  "0 \<le> sc_rau (as_scores (sample_assessment revision_input ''C1'' 0.5 0.3 0.1 ''BEHAVIORAL''))"
proof -
  let ?a = "sample_assessment revision_input ''C1'' 0.5 0.3 0.1 ''BEHAVIORAL''"
  have "fst (revision_risk_benefit_outcome ?a [] (revision_completeness_issue (as_input ?a))) = True"
    by (simp add: sample_eval revision_input_def)
  then obtain t gs where
    "revision_risk_benefit_outcome ?a [] (revision_completeness_issue (as_input ?a)) = (True, t, gs)"
    by (cases "revision_risk_benefit_outcome ?a [] (revision_completeness_issue (as_input ?a))") auto
  from approved_revision_improves [OF this] show ?thesis by blast
qed

end
