(* ===== verification/Pebra_Hash_Chain.thy ===== *)
theory Pebra_Hash_Chain
  imports Pebra_Sha256
begin

text \<open>
  The hash chains of \<open>pebra/adapters/store/db.py\<close>. Each table of the audit ledger is a list of rows in
  the order of their ids; a row stores the hash of its predecessor and the hash of that followed by
  its own content. \<open>chain_from\<close> is the loop every \<open>_validate_*_chain\<close> method runs, with the content a
  method hashes as a parameter; \<open>chain_last\<close> is the \<open>_last_*_hash\<close> query. The interface
  \<open>chained_table\<close> states what validation promises: appending with the last hash keeps a chain valid,
  and two valid tables with one last hash hold the same contents unless the rows exhibit a collision.
\<close>

definition GENESIS :: string where "GENESIS = ''GENESIS''"

definition row_hash :: "string \<Rightarrow> string \<Rightarrow> string" where
  "row_hash prev_hash content_json = sha256_hex (prev_hash @ content_json)"

fun chain_from :: "('r \<Rightarrow> string) \<Rightarrow> ('r \<Rightarrow> string) \<Rightarrow> ('r \<Rightarrow> string) \<Rightarrow> string \<Rightarrow> 'r list \<Rightarrow> bool" where
  "chain_from content stored_prev stored_hash prev_hash [] = True"
| "chain_from content stored_prev stored_hash prev_hash (r # rows) =
     (if stored_prev r \<noteq> prev_hash then False
      else if row_hash prev_hash (content r) \<noteq> stored_hash r then False
      else chain_from content stored_prev stored_hash (stored_hash r) rows)"

definition chain_last :: "('r \<Rightarrow> string) \<Rightarrow> 'r list \<Rightarrow> string" where
  "chain_last stored_hash rows = (if rows = [] then GENESIS else stored_hash (last rows))"

text \<open>The texts a table hashes.\<close>

definition preimages :: "('r \<Rightarrow> string) \<Rightarrow> ('r \<Rightarrow> string) \<Rightarrow> 'r list \<Rightarrow> string set" where
  "preimages content stored_prev rows = (\<lambda>r. stored_prev r @ content r) ` set rows"

definition collision_between :: "string set \<Rightarrow> string set \<Rightarrow> bool" where
  "collision_between A B = (\<exists>x \<in> A. \<exists>y \<in> B. x \<noteq> y \<and> sha256_hex x = sha256_hex y)"

lemma collision_mono: "collision_between A B \<Longrightarrow> A \<subseteq> C \<Longrightarrow> B \<subseteq> D \<Longrightarrow> collision_between C D"
  unfolding collision_between_def by blast

text \<open>The first row is recognisable: no digest is the word \<open>GENESIS\<close>, and all digests have one length.\<close>

lemma row_hash_is_digest [simp]: "is_sha256_digest (row_hash p c)"
  by (simp add: row_hash_def sha256_hex_is_digest)

lemma GENESIS_no_digest: "\<not> is_sha256_digest GENESIS"
  by (simp add: is_sha256_digest_def GENESIS_def)

lemma row_hash_not_GENESIS [simp]: "row_hash p c \<noteq> GENESIS" "GENESIS \<noteq> row_hash p c"
  using row_hash_is_digest [of p c] GENESIS_no_digest by metis+

lemma GENESIS_no_digest_prefix:
  assumes "is_sha256_digest h" shows "GENESIS @ c \<noteq> h @ d"
proof (cases h)
  case Nil
  with assms show ?thesis by (simp add: is_sha256_digest_def)
next
  case (Cons x xs)
  with assms have "is_hex_char x" by (simp add: is_sha256_digest_def)
  then have "x \<noteq> CHR ''G''" by (auto simp: is_hex_char_def)
  then show ?thesis by (simp add: Cons GENESIS_def)
qed

definition chain_head :: "string \<Rightarrow> bool" where
  "chain_head h = (h = GENESIS \<or> is_sha256_digest h)"

lemma chain_head_append:
  assumes "chain_head h" and "chain_head k" and "h @ c = k @ d"
  shows "h = k \<and> c = d"
proof -
  have "length h = length k \<Longrightarrow> ?thesis" using assms(3) by simp
  then show ?thesis
    using assms GENESIS_no_digest_prefix [of h d c] GENESIS_no_digest_prefix [of k c d]
    by (auto simp: chain_head_def is_sha256_digest_def)
qed

locale chained_table =
  fixes content :: "'r \<Rightarrow> string" and stored_prev :: "'r \<Rightarrow> string" and stored_hash :: "'r \<Rightarrow> string"
    and valid :: "'r list \<Rightarrow> bool"
  assumes valid_Nil: "valid []"
    and valid_snoc: "valid (rows @ [r]) \<longleftrightarrow>
      valid rows \<and> stored_prev r = chain_last stored_hash rows
      \<and> stored_hash r = row_hash (stored_prev r) (content r)"
begin

lemma valid_append_row:
  "valid rows \<Longrightarrow> stored_prev r = chain_last stored_hash rows \<Longrightarrow>
     stored_hash r = row_hash (stored_prev r) (content r) \<Longrightarrow> valid (rows @ [r])"
  by (simp add: valid_snoc)

lemma valid_prefix: "valid (rows @ more) \<Longrightarrow> valid rows"
proof (induction more rule: rev_induct)
  case (snoc r more)
  then show ?case using valid_snoc [of "rows @ more" r] by simp
qed simp

lemma chain_last_head: "valid rows \<Longrightarrow> chain_head (chain_last stored_hash rows)"
  by (induction rows rule: rev_induct) (auto simp: chain_last_def chain_head_def valid_snoc)

text \<open>Tamper evidence: the last hash determines every content.\<close>

lemma last_hash_determines:
  assumes "valid rows" and "valid rows'" and "chain_last stored_hash rows = chain_last stored_hash rows'"
    and "\<not> collision_between (preimages content stored_prev rows) (preimages content stored_prev rows')"
  shows "map content rows = map content rows'"
  using assms
proof (induction rows arbitrary: rows' rule: rev_induct)
  case Nil
  then show ?case
  proof (cases rows' rule: rev_cases)
    case (snoc rs r)
    with Nil show ?thesis by (simp add: valid_snoc chain_last_def)
  qed simp
next
  case (snoc r rows)
  show ?case
  proof (cases rows' rule: rev_cases)
    case Nil
    with snoc.prems show ?thesis by (simp add: valid_snoc chain_last_def)
  next
    case (snoc rs r')
    note v = snoc.prems(1,2) [unfolded snoc valid_snoc]
    have "sha256_hex (stored_prev r @ content r) = sha256_hex (stored_prev r' @ content r')"
      using snoc.prems(3) v by (simp add: snoc chain_last_def row_hash_def)
    then have "stored_prev r @ content r = stored_prev r' @ content r'"
      using snoc.prems(4) by (auto simp: collision_between_def preimages_def snoc)
    then have eq: "stored_prev r = stored_prev r'" "content r = content r'"
      using v chain_head_append chain_last_head by metis+
    have "\<not> collision_between (preimages content stored_prev rows) (preimages content stored_prev rs)"
      using snoc.prems(4) by (rule contrapos_nn) (auto intro: collision_mono simp: preimages_def snoc)
    then have "map content rows = map content rs" using v eq snoc.IH [of rs] by simp
    with eq show ?thesis by (simp add: snoc)
  qed
qed

end

lemma chain_from_append:
  "chain_from content stored_prev stored_hash p (rows @ [r]) \<longleftrightarrow>
     chain_from content stored_prev stored_hash p rows
     \<and> stored_prev r = (if rows = [] then p else stored_hash (last rows))
     \<and> stored_hash r = row_hash (stored_prev r) (content r)"
  by (induction rows arbitrary: p) auto

interpretation chain: chained_table content stored_prev stored_hash
    "chain_from content stored_prev stored_hash GENESIS"
  for content stored_prev stored_hash :: "'r \<Rightarrow> string"
  by unfold_locales (simp_all only: chain_from.simps chain_from_append chain_last_def)

section \<open>Contents that are parsed\<close>

text \<open>
  Most tables do not store the text they hash: validation rebuilds it from the columns, and parsing a
  column may raise. \<open>chain_res\<close> is the loop of such a method.
\<close>

fun chain_res ::
  "('r \<Rightarrow> string res) \<Rightarrow> ('r \<Rightarrow> string) \<Rightarrow> ('r \<Rightarrow> string) \<Rightarrow> string \<Rightarrow> 'r list \<Rightarrow> bool res" where
  "chain_res content stored_prev stored_hash prev_hash [] = Inr True"
| "chain_res content stored_prev stored_hash prev_hash (r # rows) =
     (if stored_prev r \<noteq> prev_hash then Inr False
      else rbind (content r) (\<lambda>content_json.
        if row_hash prev_hash content_json \<noteq> stored_hash r then Inr False
        else chain_res content stored_prev stored_hash (stored_hash r) rows))"

locale audited_table =
  fixes content :: "'r \<Rightarrow> string res" and stored_prev :: "'r \<Rightarrow> string" and stored_hash :: "'r \<Rightarrow> string"
    and valid :: "'r list \<Rightarrow> bool"
  assumes audited_Nil: "valid []"
    and audited_snoc: "valid (rows @ [r]) \<longleftrightarrow>
      valid rows \<and> stored_prev r = chain_last stored_hash rows
      \<and> (\<exists>t. content r = Inr t \<and> stored_hash r = row_hash (stored_prev r) t)"
begin

definition rebuilt :: "'r \<Rightarrow> string" where
  "rebuilt r = (case content r of Inl _ \<Rightarrow> [] | Inr t \<Rightarrow> t)"

text \<open>A valid table is a chain over the rebuilt contents, so it inherits the facts about chains.\<close>

lemma valid_iff_chain:
  "valid rows \<longleftrightarrow> list_all (is_ok \<circ> content) rows \<and> chain_from rebuilt stored_prev stored_hash GENESIS rows"
proof (induction rows rule: rev_induct)
  case (snoc r rows)
  then show ?case
    by (cases "content r") (auto simp: audited_snoc chain.valid_snoc rebuilt_def)
qed (simp add: audited_Nil)

lemma audited_append:
  "valid rows \<Longrightarrow> content r = Inr t \<Longrightarrow> stored_prev r = chain_last stored_hash rows
    \<Longrightarrow> stored_hash r = row_hash (stored_prev r) t \<Longrightarrow> valid (rows @ [r])"
  by (simp add: audited_snoc)

lemma audited_prefix: "valid (rows @ newer) \<Longrightarrow> valid rows"
  unfolding valid_iff_chain using chain.valid_prefix by force

lemma audited_determines:
  assumes "valid rows" and "valid rows'" and "chain_last stored_hash rows = chain_last stored_hash rows'"
    and "\<not> collision_between (preimages rebuilt stored_prev rows) (preimages rebuilt stored_prev rows')"
  shows "map content rows = map content rows'"
proof -
  have same: "map rebuilt rows = map rebuilt rows'"
    using chain.last_hash_determines [OF _ _ assms(3,4)] assms(1,2) valid_iff_chain by blast
  have parsed: "valid xs \<Longrightarrow> map content xs = map Inr (map rebuilt xs)" for xs
    by (induction xs rule: rev_induct) (auto simp: audited_snoc rebuilt_def)
  show ?thesis using parsed [OF assms(1)] parsed [OF assms(2)] same by simp
qed

end

lemma chain_res_append:
  "chain_res content stored_prev stored_hash p (rows @ [r]) = Inr True \<longleftrightarrow>
     chain_res content stored_prev stored_hash p rows = Inr True
     \<and> stored_prev r = (if rows = [] then p else stored_hash (last rows))
     \<and> (\<exists>t. content r = Inr t \<and> stored_hash r = row_hash (stored_prev r) t)"
proof (induction rows arbitrary: p)
  case Nil
  then show ?case by (auto simp: rbind_Inr_iff)
next
  case (Cons a rows)
  then show ?case by (cases "content a") auto
qed

interpretation audited: audited_table content stored_prev stored_hash
    "\<lambda>rows. chain_res content stored_prev stored_hash GENESIS rows = Inr True"
  for content :: "'r \<Rightarrow> string res" and stored_prev stored_hash
  by unfold_locales (simp, simp only: chain_res_append chain_last_def)

end
