(* ===== verification/Pebra_Sanction_Store.thy ===== *)
theory Pebra_Sanction_Store
  imports Pebra_Hash_Chain
begin

text \<open>
  The sanction ledger of \<open>pebra/adapters/store/db.py\<close>: the table \<open>sanction_events\<close> as the list of its
  rows in the order of their ids, and the four operations on it. Every operation runs inside one
  \<open>BEGIN IMMEDIATE\<close> transaction, so concurrent callers interleave whole operations: \<open>sanction_step\<close> is
  one of them, \<open>sanction_run\<close> a sequence.

  \<open>json.dumps(_, sort_keys=True)\<close> and \<open>json.loads\<close> are the arguments \<open>dumps\<close> and \<open>loads\<close>.
  \<open>assessment_id\<close> is a nullable text column; the code stores strings in it
  (\<open>accept_risk_controller._validated_binding\<close>).
\<close>

section \<open>Rows and operations\<close>

datatype sanction_status = ACTIVE | CONSUMED | INVALIDATED

record sanction_row =
  se_id :: nat
  se_repo_id :: string
  se_assessment_id :: "string option"
  se_sanction_json :: string
  se_status :: sanction_status
  se_invalidated_reason :: "string option"
  se_prev_hash :: string
  se_row_hash :: string

abbreviation sanction_chain :: "sanction_row list \<Rightarrow> bool" where
  "sanction_chain \<equiv> chain_from se_sanction_json se_prev_hash se_row_hash GENESIS"

definition validate_sanction_chain :: "sanction_row list \<Rightarrow> bool" where
  "validate_sanction_chain rows = sanction_chain rows"

definition last_sanction_hash :: "sanction_row list \<Rightarrow> string" where
  "last_sanction_hash rows = chain_last se_row_hash rows"

text \<open>\<open>AUTOINCREMENT\<close>: one more than the greatest id the table has held; no row is ever deleted.\<close>

definition next_sanction_id :: "sanction_row list \<Rightarrow> nat" where
  "next_sanction_id rows = (if rows = [] then 1 else Suc (se_id (last rows)))"

fun opt_str :: "pyval \<Rightarrow> string option" where
  "opt_str (VStr s) = Some s"
| "opt_str _ = None"

definition create_sanction ::
  "(pyval dict \<Rightarrow> string) \<Rightarrow> string \<Rightarrow> pyval dict \<Rightarrow> sanction_row list \<Rightarrow> string \<times> sanction_row list" where
  "create_sanction dumps repo_id sanction rows =
     (let sanction_json = dumps sanction;
          assessment_id = opt_str (dict_get sanction ''assessment_id'' VNone);
          prev_hash = last_sanction_hash rows;
          new_id = next_sanction_id rows
      in (''sx_'' @ show_nat new_id,
          rows @ [\<lparr>se_id = new_id, se_repo_id = repo_id, se_assessment_id = assessment_id,
                   se_sanction_json = sanction_json, se_status = ACTIVE, se_invalidated_reason = None,
                   se_prev_hash = prev_hash, se_row_hash = row_hash prev_hash sanction_json\<rparr>]))"

definition live :: "sanction_row \<Rightarrow> bool" where
  "live row = (se_status row \<in> {ACTIVE, CONSUMED})"

definition active_sanction_for_assessment ::
  "(string \<Rightarrow> pyval dict) \<Rightarrow> string \<Rightarrow> sanction_row list \<Rightarrow> pyval dict option" where
  "active_sanction_for_assessment loads assessment_id rows =
     map_option (\<lambda>row. loads (se_sanction_json row))
       (find (\<lambda>row. se_assessment_id row = Some assessment_id \<and> live row) (rev rows))"

text \<open>The four \<open>continue\<close> tests of the claim loop.\<close>

definition authorises :: "pyval dict \<Rightarrow> string \<Rightarrow> pyval dict \<Rightarrow> bool" where
  "authorises sanction action_id candidate_binding =
     (dict_get sanction ''valid'' VNone = VBool True
      \<and> (case dict_get sanction ''risk_profile'' VNone of
           VDict profile \<Rightarrow>
             dict_get profile ''action_id'' VNone = VStr action_id
             \<and> py_eq (dict_get profile ''candidate_binding'' VNone) (VDict candidate_binding)
         | _ \<Rightarrow> False))"

definition claim_row ::
  "(string \<Rightarrow> pyval dict) \<Rightarrow> string \<Rightarrow> string \<Rightarrow> pyval dict \<Rightarrow> sanction_row list \<Rightarrow> sanction_row option" where
  "claim_row loads repo_id action_id candidate_binding rows =
     find (\<lambda>row. authorises (loads (se_sanction_json row)) action_id candidate_binding)
       (filter (\<lambda>row. se_repo_id row = repo_id \<and> se_status row = ACTIVE) (rev rows))"

definition consume :: "nat \<Rightarrow> sanction_row \<Rightarrow> sanction_row" where
  "consume row_id row =
     (if se_id row = row_id \<and> se_status row = ACTIVE then row\<lparr>se_status := CONSUMED\<rparr> else row)"

definition claim_sanction_for_candidate ::
  "(string \<Rightarrow> pyval dict) \<Rightarrow> string \<Rightarrow> string \<Rightarrow> pyval dict \<Rightarrow> sanction_row list
    \<Rightarrow> pyval dict option \<times> sanction_row list" where
  "claim_sanction_for_candidate loads repo_id action_id candidate_binding rows =
     (case claim_row loads repo_id action_id candidate_binding rows of
        None \<Rightarrow> (None, rows)
      | Some row \<Rightarrow>
          (let updated = filter (\<lambda>r. se_id r = se_id row \<and> se_status r = ACTIVE) rows
           in if length updated \<noteq> 1 then (None, rows)
              else (Some (loads (se_sanction_json row)), map (consume (se_id row)) rows)))"

definition bound_live :: "string \<Rightarrow> sanction_row \<Rightarrow> bool" where
  "bound_live assessment_id row = (se_assessment_id row = Some assessment_id \<and> live row)"

definition invalidate_sanctions_for_assessment ::
  "string \<Rightarrow> string \<Rightarrow> sanction_row list \<Rightarrow> string list \<times> sanction_row list" where
  "invalidate_sanctions_for_assessment assessment_id reason rows =
     (map (\<lambda>row. ''sx_'' @ show_nat (se_id row)) (filter (bound_live assessment_id) rows),
      map (\<lambda>row. if bound_live assessment_id row
                  then row\<lparr>se_status := INVALIDATED, se_invalidated_reason := Some reason\<rparr> else row) rows)"

section \<open>Runs\<close>

datatype sanction_event =
    Created nat
  | Claimed nat
  | NothingToClaim
  | Invalidation string

inductive sanction_step ::
  "(pyval dict \<Rightarrow> string) \<Rightarrow> (string \<Rightarrow> pyval dict) \<Rightarrow> sanction_row list \<Rightarrow> sanction_event
    \<Rightarrow> sanction_row list \<Rightarrow> bool"
  for dumps loads where
  step_create: "create_sanction dumps repo_id sanction rows = (sid, rows') \<Longrightarrow>
     sanction_step dumps loads rows (Created (next_sanction_id rows)) rows'"
| step_claim: "claim_sanction_for_candidate loads repo_id action_id binding rows = (Some sanction, rows') \<Longrightarrow>
     claim_row loads repo_id action_id binding rows = Some row \<Longrightarrow>
     sanction_step dumps loads rows (Claimed (se_id row)) rows'"
| step_refuse: "claim_sanction_for_candidate loads repo_id action_id binding rows = (None, rows') \<Longrightarrow>
     sanction_step dumps loads rows NothingToClaim rows'"
| step_invalidate: "invalidate_sanctions_for_assessment assessment_id reason rows = (sids, rows') \<Longrightarrow>
     sanction_step dumps loads rows (Invalidation assessment_id) rows'"

inductive_cases created_cases: "sanction_step dumps loads rows (Created i) rows'"
inductive_cases claimed_cases: "sanction_step dumps loads rows (Claimed i) rows'"

inductive sanction_run ::
  "(pyval dict \<Rightarrow> string) \<Rightarrow> (string \<Rightarrow> pyval dict) \<Rightarrow> sanction_row list \<Rightarrow> sanction_event list
    \<Rightarrow> sanction_row list \<Rightarrow> bool"
  for dumps loads where
  run_start: "sanction_run dumps loads rows [] rows"
| run_step: "sanction_run dumps loads rows es rows' \<Longrightarrow> sanction_step dumps loads rows' e rows'' \<Longrightarrow>
     sanction_run dumps loads rows (es @ [e]) rows''"

section \<open>The invariant of the ledger\<close>

interpretation sanction_table: chained_table se_sanction_json se_prev_hash se_row_hash validate_sanction_chain
  unfolding validate_sanction_chain_def
  by unfold_locales (simp_all only: chain.valid_Nil chain.valid_snoc)

text \<open>The columns the hash chain is made of, which no operation rewrites.\<close>

definition frozen :: "sanction_row \<Rightarrow> string \<times> string \<times> string" where
  "frozen row = (se_sanction_json row, se_prev_hash row, se_row_hash row)"

lemma chain_from_frozen:
  "map frozen rows = map frozen rows' \<Longrightarrow>
     chain_from se_sanction_json se_prev_hash se_row_hash p rows
     = chain_from se_sanction_json se_prev_hash se_row_hash p rows'"
proof (induction rows arbitrary: p rows')
  case (Cons r rows)
  then show ?case by (cases rows') (auto simp: frozen_def)
qed simp

lemma validate_frozen:
  "map frozen rows = map frozen rows' \<Longrightarrow> validate_sanction_chain rows = validate_sanction_chain rows'"
  unfolding validate_sanction_chain_def by (rule chain_from_frozen)

lemma consume_fields [simp]:
  "se_id (consume i r) = se_id r" "frozen (consume i r) = frozen r"
  "se_assessment_id (consume i r) = se_assessment_id r" "se_repo_id (consume i r) = se_repo_id r"
  by (simp_all add: consume_def frozen_def)

definition numbered :: "sanction_row list \<Rightarrow> bool" where
  "numbered rows = (map se_id rows = [1..<Suc (length rows)])"

lemma next_id_numbered: "numbered rows \<Longrightarrow> next_sanction_id rows = Suc (length rows)"
proof (cases rows rule: rev_cases)
  case (snoc rs r)
  assume "numbered rows"
  then show ?thesis by (simp add: numbered_def next_sanction_id_def snoc)
qed (simp add: next_sanction_id_def)

lemma numbered_distinct: "numbered rows \<Longrightarrow> distinct (map se_id rows)"
  by (simp add: numbered_def del: upt_Suc)

lemma numbered_unique:
  "numbered rows \<Longrightarrow> r \<in> set rows \<Longrightarrow> s \<in> set rows \<Longrightarrow> se_id r = se_id s \<Longrightarrow> r = s"
  using numbered_distinct by (metis distinct_map inj_onD)

lemma claim_row_Some:
  assumes "claim_row loads repo_id action_id binding rows = Some row"
  shows "row \<in> set rows" and "se_repo_id row = repo_id" and "se_status row = ACTIVE"
    and "authorises (loads (se_sanction_json row)) action_id binding"
  using assms by (auto simp: claim_row_def find_Some_iff dest: nth_mem)

text \<open>The row just read is there once: the branch that rolls the claim back is not taken.\<close>

lemma claim_one_row:
  assumes "numbered rows" and "row \<in> set rows" and "se_status row = ACTIVE"
  shows "filter (\<lambda>r. se_id r = se_id row \<and> se_status r = ACTIVE) rows = [row]"
proof -
  obtain xs ys where rows: "rows = xs @ row # ys" using split_list [OF assms(2)] by blast
  then have "se_id row \<notin> se_id ` set xs" "se_id row \<notin> se_id ` set ys"
    using numbered_distinct [OF assms(1)] by auto
  then have "filter (\<lambda>r. se_id r = se_id row \<and> se_status r = ACTIVE) xs = []"
    "filter (\<lambda>r. se_id r = se_id row \<and> se_status r = ACTIVE) ys = []"
    by (auto simp: filter_empty_conv image_iff)
  then show ?thesis using assms(3) by (simp add: rows)
qed

lemma claim_numbered:
  assumes "numbered rows"
  shows "claim_sanction_for_candidate loads repo_id action_id binding rows
    = (case claim_row loads repo_id action_id binding rows of
         None \<Rightarrow> (None, rows)
       | Some row \<Rightarrow> (Some (loads (se_sanction_json row)), map (consume (se_id row)) rows))"
  using claim_one_row [OF assms] claim_row_Some
  by (fastforce simp: claim_sanction_for_candidate_def split: option.splits)

definition ledger_ok :: "sanction_row list \<Rightarrow> bool" where
  "ledger_ok rows = (validate_sanction_chain rows \<and> numbered rows)"

lemma ledger_ok_Nil: "ledger_ok []"
  by (simp add: ledger_ok_def numbered_def sanction_table.valid_Nil)

lemma create_ledger_ok:
  assumes "ledger_ok rows" and "create_sanction dumps repo_id sanction rows = (sid, rows')"
  shows "ledger_ok rows'"
proof -
  have "numbered rows'"
    using assms next_id_numbered by (auto simp: ledger_ok_def create_sanction_def numbered_def Let_def)
  moreover have "validate_sanction_chain rows'"
    using assms by (auto simp: ledger_ok_def create_sanction_def last_sanction_hash_def Let_def
        intro!: sanction_table.valid_append_row)
  ultimately show ?thesis by (simp add: ledger_ok_def)
qed

lemma same_rows_ledger_ok:
  assumes "ledger_ok rows" and "map frozen rows' = map frozen rows" and "map se_id rows' = map se_id rows"
  shows "ledger_ok rows'"
proof -
  have "length rows' = length rows" using assms(3) by (metis length_map)
  then show ?thesis using assms validate_frozen [OF assms(2)] by (simp add: ledger_ok_def numbered_def)
qed

lemma step_ledger_ok:
  assumes "sanction_step dumps loads rows e rows'" and "ledger_ok rows"
  shows "ledger_ok rows'"
  using assms(1)
proof (cases rule: sanction_step.cases)
  case (step_create repo_id sanction sid)
  then show ?thesis using create_ledger_ok assms(2) by blast
next
  case (step_claim repo_id action_id binding sanction row)
  then have "rows' = map (consume (se_id row)) rows"
    using assms(2) by (auto simp: claim_numbered ledger_ok_def)
  then show ?thesis by (intro same_rows_ledger_ok [OF assms(2)]) simp_all
next
  case (step_refuse repo_id action_id binding)
  then show ?thesis
    using assms(2) by (auto simp: claim_numbered ledger_ok_def split: option.splits)
next
  case (step_invalidate assessment_id reason sids)
  then show ?thesis
    by (intro same_rows_ledger_ok [OF assms(2)])
      (auto simp: invalidate_sanctions_for_assessment_def frozen_def)
qed

lemma run_ledger_ok: "sanction_run dumps loads rows es rows' \<Longrightarrow> ledger_ok rows \<Longrightarrow> ledger_ok rows'"
  by (induction rule: sanction_run.induct) (auto intro: step_ledger_ok)

section \<open>The life of a sanction\<close>

fun status_rank :: "sanction_status \<Rightarrow> nat" where
  "status_rank ACTIVE = 0"
| "status_rank CONSUMED = 1"
| "status_rank INVALIDATED = 2"

text \<open>A later table extends an earlier one: rows keep their place, and a status only moves on.\<close>

definition later :: "sanction_row \<Rightarrow> sanction_row \<Rightarrow> bool" where
  "later r s =
     (se_id s = se_id r \<and> se_repo_id s = se_repo_id r \<and> se_assessment_id s = se_assessment_id r
      \<and> frozen s = frozen r \<and> status_rank (se_status r) \<le> status_rank (se_status s))"

definition extends :: "sanction_row list \<Rightarrow> sanction_row list \<Rightarrow> bool" where
  "extends rows rows' = list_all2 later rows (take (length rows) rows')"

lemma later_refl: "later r r"
  by (simp add: later_def)

lemma later_trans: "later r s \<Longrightarrow> later s t \<Longrightarrow> later r t"
  by (auto simp: later_def)

lemma extends_refl: "extends rows rows"
  by (simp add: extends_def list_all2_same later_refl)

lemma extends_nth:
  "extends rows rows' \<longleftrightarrow>
     length rows \<le> length rows' \<and> (\<forall>i < length rows. later (rows ! i) (rows' ! i))"
  by (auto simp: extends_def list_all2_conv_all_nth)

lemma extends_trans: "extends rows rows' \<Longrightarrow> extends rows' rows'' \<Longrightarrow> extends rows rows''"
  unfolding extends_nth by (meson later_trans le_trans less_le_trans)

lemma extends_map: "(\<And>r. later r (f r)) \<Longrightarrow> extends rows (map f rows)"
  by (simp add: extends_nth)

lemma status_rank_final [simp]: "status_rank s \<le> 2"
  by (cases s) simp_all

lemma step_extends:
  assumes "sanction_step dumps loads rows e rows'"
  shows "extends rows rows'"
  using assms
proof (cases rule: sanction_step.cases)
  case (step_create repo_id sanction sid)
  then show ?thesis by (auto simp: create_sanction_def extends_def list_all2_same later_refl Let_def)
next
  case (step_claim repo_id action_id binding sanction row)
  then have "rows' = map (consume (se_id row)) rows"
    by (auto simp: claim_sanction_for_candidate_def Let_def split: if_splits)
  then show ?thesis by (auto intro!: extends_map simp: later_def consume_def frozen_def)
next
  case (step_refuse repo_id action_id binding)
  then have "rows' = rows"
    by (auto simp: claim_sanction_for_candidate_def Let_def split: if_splits option.splits)
  then show ?thesis by (simp add: extends_refl)
next
  case (step_invalidate assessment_id reason sids)
  then have "rows' = map (\<lambda>row. if bound_live assessment_id row
      then row\<lparr>se_status := INVALIDATED, se_invalidated_reason := Some reason\<rparr> else row) rows"
    by (simp add: invalidate_sanctions_for_assessment_def)
  then show ?thesis
    by (auto intro!: extends_map simp: later_def frozen_def)
qed

lemma run_extends: "sanction_run dumps loads rows es rows' \<Longrightarrow> extends rows rows'"
  by (induction rule: sanction_run.induct) (auto intro: extends_refl extends_trans step_extends)

fun claimed_ids :: "sanction_event list \<Rightarrow> nat list" where
  "claimed_ids [] = []"
| "claimed_ids (Claimed i # es) = i # claimed_ids es"
| "claimed_ids (_ # es) = claimed_ids es"

lemma claimed_ids_append [simp]: "claimed_ids (es @ fs) = claimed_ids es @ claimed_ids fs"
  by (induction es rule: claimed_ids.induct) auto

definition used :: "nat \<Rightarrow> sanction_row list \<Rightarrow> bool" where
  "used i rows = (\<exists>r \<in> set rows. se_id r = i \<and> se_status r \<noteq> ACTIVE)"

lemma status_rank_zero: "status_rank s = 0 \<longleftrightarrow> s = ACTIVE"
  by (cases s) simp_all

lemma used_extends:
  assumes "used i rows" and "extends rows rows'"
  shows "used i rows'"
proof -
  from assms(1) obtain n where n: "n < length rows" "se_id (rows ! n) = i" "se_status (rows ! n) \<noteq> ACTIVE"
    by (auto simp: used_def in_set_conv_nth)
  with assms(2) have "later (rows ! n) (rows' ! n)" "n < length rows'" by (auto simp: extends_nth)
  with n have "rows' ! n \<in> set rows'" "se_id (rows' ! n) = i" "se_status (rows' ! n) \<noteq> ACTIVE"
    by (auto simp: later_def simp flip: status_rank_zero)
  then show ?thesis by (auto simp: used_def)
qed

lemma claimed_step:
  assumes "sanction_step dumps loads rows (Claimed i) rows'" and "ledger_ok rows"
  shows "\<not> used i rows" and "used i rows'"
proof -
  from assms(1) obtain repo_id action_id binding row sanction where
    c: "claim_row loads repo_id action_id binding rows = Some row" "i = se_id row"
      "claim_sanction_for_candidate loads repo_id action_id binding rows = (Some sanction, rows')"
    by (auto elim: claimed_cases)
  have n: "numbered rows" using assms(2) by (simp add: ledger_ok_def)
  note row = claim_row_Some [OF c(1)]
  show "\<not> used i rows"
    using numbered_unique [OF n row(1)] row(3) by (fastforce simp: used_def c(2))
  have "rows' = map (consume (se_id row)) rows"
    using c by (simp add: claim_numbered [OF n])
  moreover have "se_status (consume (se_id row) row) = CONSUMED" using row(3) by (simp add: consume_def)
  ultimately show "used i rows'"
    unfolding used_def c(2) by (intro bexI [of _ "consume (se_id row) row"]) (use row(1) in simp_all)
qed

lemma run_used:
  "sanction_run dumps loads rows es rows' \<Longrightarrow> ledger_ok rows \<Longrightarrow>
     (\<forall>i. used i rows \<longrightarrow> i \<notin> set (claimed_ids es)) \<and> distinct (claimed_ids es)
     \<and> (\<forall>i \<in> set (claimed_ids es). used i rows')"
proof (induction rule: sanction_run.induct)
  case (run_step rows es rows' e rows'')
  then have ok: "ledger_ok rows'" and ext: "extends rows rows'" "extends rows' rows''"
    using run_ledger_ok run_extends step_extends by blast+
  show ?case
  proof (cases "\<exists>i. e = Claimed i")
    case True
    then obtain i where e: "e = Claimed i" by blast
    with claimed_step [OF _ ok] run_step.hyps(2) have i: "\<not> used i rows'" "used i rows''" by blast+
    show ?thesis
      using run_step.IH [OF run_step.prems] i used_extends ext by (auto simp: e)
  next
    case False
    then have "claimed_ids [e] = []" by (cases e) auto
    then show ?thesis
      using run_step.IH [OF run_step.prems] used_extends ext by auto
  qed
qed simp

section \<open>Properties\<close>

text \<open>Whatever sequence of approvals, claims and invalidations runs on an empty ledger, the hash
  chain validates: status changes never break it, and the ids number the rows.\<close>

theorem sanction_ledger_validates:
  assumes "sanction_run dumps loads [] es rows"
  shows "validate_sanction_chain rows \<and> map se_id rows = [1..<Suc (length rows)]"
  using run_ledger_ok [OF assms ledger_ok_Nil] by (simp add: ledger_ok_def numbered_def del: upt_Suc)

definition demo_sanction :: "pyval dict" where
  "demo_sanction =
     [(''valid'', VBool True), (''assessment_id'', VStr ''asm_1''),
      (''risk_profile'', VDict [(''action_id'', VStr ''a1''),
         (''candidate_binding'', VDict [(''algorithm'', VStr ''sha256'')])])]"

definition demo_rows :: "sanction_row list" where
  "demo_rows = snd (create_sanction (\<lambda>_. ''{}'') ''repo'' demo_sanction [])"

lemma demo_created: "sanction_step (\<lambda>_. ''{}'') (\<lambda>_. demo_sanction) [] (Created 1) demo_rows"
proof -
  have "create_sanction (\<lambda>_. ''{}'') ''repo'' demo_sanction []
      = (fst (create_sanction (\<lambda>_. ''{}'') ''repo'' demo_sanction []), demo_rows)"
    by (simp add: demo_rows_def)
  from step_create [OF this] show ?thesis by (simp add: next_sanction_id_def)
qed

lemma demo_run: "sanction_run (\<lambda>_. ''{}'') (\<lambda>_. demo_sanction) [] [Created 1] demo_rows"
  using run_step [OF run_start demo_created] by simp

lemma sanction_ledger_validates_witness:
  "validate_sanction_chain demo_rows \<and> map se_id demo_rows = [1]"
proof -
  have "length demo_rows = 1" by (simp add: demo_rows_def create_sanction_def Let_def)
  with sanction_ledger_validates [OF demo_run] show ?thesis by simp
qed

text \<open>The ledger is tamper evident: two tables that validate and end in the same hash hold the
  same sanctions in the same order, unless the texts they hash contain a SHA-256 collision.\<close>

theorem sanction_ledger_tamper_evident:
  assumes "validate_sanction_chain rows" and "validate_sanction_chain rows'"
    and "last_sanction_hash rows = last_sanction_hash rows'"
  shows "map se_sanction_json rows = map se_sanction_json rows'
    \<or> collision_between (preimages se_sanction_json se_prev_hash rows)
        (preimages se_sanction_json se_prev_hash rows')"
  using sanction_table.last_hash_determines [OF assms(1,2)] assms(3)
  unfolding last_sanction_hash_def by blast

lemma sanction_ledger_tamper_evident_witness:
  "map se_sanction_json demo_rows
      = map se_sanction_json (map (\<lambda>r. r\<lparr>se_status := INVALIDATED\<rparr>) demo_rows)
    \<or> collision_between (preimages se_sanction_json se_prev_hash demo_rows)
        (preimages se_sanction_json se_prev_hash (map (\<lambda>r. r\<lparr>se_status := INVALIDATED\<rparr>) demo_rows))"
proof (rule sanction_ledger_tamper_evident)
  show v: "validate_sanction_chain demo_rows"
    using run_ledger_ok [OF demo_run ledger_ok_Nil] by (simp add: ledger_ok_def)
  have "map frozen (map (\<lambda>r. r\<lparr>se_status := INVALIDATED\<rparr>) demo_rows) = map frozen demo_rows"
    by (simp add: frozen_def)
  from validate_frozen [OF this] v
  show "validate_sanction_chain (map (\<lambda>r. r\<lparr>se_status := INVALIDATED\<rparr>) demo_rows)" by simp
qed (simp add: last_sanction_hash_def chain_last_def demo_rows_def create_sanction_def Let_def)

text \<open>C18: A sanction is spent once: in every run, however callers interleave, no row is claimed twice,
  so one approval authorises one reassessment.\<close>

theorem sanction_claimed_once:
  assumes "sanction_run dumps loads [] es rows"
  shows "distinct (claimed_ids es)"
  using run_used [OF assms ledger_ok_Nil] by blast

lemma demo_claim:
  "\<exists>rows. sanction_step (\<lambda>_. ''{}'') (\<lambda>_. demo_sanction) demo_rows (Claimed 1) rows"
proof -
  let ?c = "claim_sanction_for_candidate (\<lambda>_. demo_sanction) ''repo'' ''a1'' [(''algorithm'', VStr ''sha256'')] demo_rows"
  have r: "claim_row (\<lambda>_. demo_sanction) ''repo'' ''a1'' [(''algorithm'', VStr ''sha256'')] demo_rows
      = Some (hd demo_rows)" and i: "se_id (hd demo_rows) = 1"
    by (simp_all add: claim_row_def demo_rows_def create_sanction_def next_sanction_id_def authorises_def
        demo_sanction_def Let_def)
  have "ledger_ok demo_rows" by (rule run_ledger_ok [OF demo_run ledger_ok_Nil])
  then have "?c = (Some demo_sanction, snd ?c)"
    by (simp add: claim_numbered ledger_ok_def r)
  from step_claim [OF this r] show ?thesis by (auto simp: i)
qed

lemma sanction_claimed_once_witness:
  "\<exists>rows. sanction_run (\<lambda>_. ''{}'') (\<lambda>_. demo_sanction) [] [Created 1, Claimed 1] rows
    \<and> distinct (claimed_ids [Created 1, Claimed 1])"
proof -
  obtain rows where "sanction_step (\<lambda>_. ''{}'') (\<lambda>_. demo_sanction) demo_rows (Claimed 1) rows"
    using demo_claim by blast
  from run_step [OF demo_run this]
  have "sanction_run (\<lambda>_. ''{}'') (\<lambda>_. demo_sanction) [] [Created 1, Claimed 1] rows" by simp
  with sanction_claimed_once [OF this] show ?thesis by blast
qed

text \<open>A claim hands out exactly what was approved: the sanction of an active row of the same
  repository that is valid and names this action and this candidate binding. The row is consumed and
  no other row changes.\<close>

theorem claim_is_exact:
  assumes "ledger_ok rows"
    and "claim_sanction_for_candidate loads repo_id action_id binding rows = (Some sanction, rows')"
  shows "\<exists>row \<in> set rows. se_repo_id row = repo_id \<and> se_status row = ACTIVE
    \<and> sanction = loads (se_sanction_json row) \<and> dict_get sanction ''valid'' VNone = VBool True
    \<and> (\<exists>profile. dict_get sanction ''risk_profile'' VNone = VDict profile
         \<and> dict_get profile ''action_id'' VNone = VStr action_id
         \<and> py_eq (dict_get profile ''candidate_binding'' VNone) (VDict binding))
    \<and> rows' = map (\<lambda>r. if r = row then r\<lparr>se_status := CONSUMED\<rparr> else r) rows"
proof -
  have n: "numbered rows" using assms(1) by (simp add: ledger_ok_def)
  from assms(2) obtain row where r: "claim_row loads repo_id action_id binding rows = Some row"
    and s: "sanction = loads (se_sanction_json row)" and m: "rows' = map (consume (se_id row)) rows"
    by (auto simp: claim_numbered [OF n] split: option.splits)
  note row = claim_row_Some [OF r]
  have "rows' = map (\<lambda>r. if r = row then r\<lparr>se_status := CONSUMED\<rparr> else r) rows"
    using numbered_unique [OF n _ row(1)] row(3) by (auto simp: m consume_def)
  with row s show ?thesis
    by (intro bexI [of _ row]) (auto simp: authorises_def split: pyval.splits)
qed

lemma claim_is_exact_witness:
  "\<exists>row \<in> set demo_rows. se_status row = ACTIVE"
proof -
  obtain rows repo_id action_id binding sanction where
    "claim_sanction_for_candidate (\<lambda>_. demo_sanction) repo_id action_id binding demo_rows = (Some sanction, rows)"
    using demo_claim by (auto elim: claimed_cases)
  from claim_is_exact [OF run_ledger_ok [OF demo_run ledger_ok_Nil] this] show ?thesis by blast
qed

text \<open>Invalidation is final: after the sanctions of an assessment are invalidated, none of them is
  ever claimed or found active again, whatever runs later.\<close>

theorem invalidation_is_final:
  assumes "ledger_ok rows" and "invalidate_sanctions_for_assessment assessment_id reason rows = (sids, rows1)"
    and "sanction_run dumps loads rows1 es rows2"
  shows "active_sanction_for_assessment loads assessment_id rows1 = None
    \<and> (\<forall>n < length rows. se_assessment_id (rows ! n) = Some assessment_id \<longrightarrow>
         se_status (rows2 ! n) = INVALIDATED \<and> se_id (rows ! n) \<notin> set (claimed_ids es))"
proof -
  have r1: "rows1 = map (\<lambda>row. if bound_live assessment_id row
      then row\<lparr>se_status := INVALIDATED, se_invalidated_reason := Some reason\<rparr> else row) rows"
    using assms(2) by (simp add: invalidate_sanctions_for_assessment_def)
  have s: "se_status r = INVALIDATED \<longleftrightarrow> \<not> live r" for r
    by (cases "se_status r") (auto simp: live_def)
  have ok: "ledger_ok rows1"
    using step_ledger_ok [OF step_invalidate [OF assms(2)] assms(1)] .
  have "se_status (rows2 ! n) = INVALIDATED \<and> se_id (rows ! n) \<notin> set (claimed_ids es)"
    if n: "n < length rows" "se_assessment_id (rows ! n) = Some assessment_id" for n
  proof -
    have dead: "se_status (rows1 ! n) = INVALIDATED" and i: "se_id (rows1 ! n) = se_id (rows ! n)"
      using n by (auto simp: r1 bound_live_def simp flip: s)
    have "n < length rows1" using n by (simp add: r1)
    then have "later (rows1 ! n) (rows2 ! n)"
      using run_extends [OF assms(3)] by (auto simp: extends_nth)
    then have "se_status (rows2 ! n) = INVALIDATED"
      using dead by (cases "se_status (rows2 ! n)") (auto simp: later_def)
    moreover have "used (se_id (rows ! n)) rows1"
      unfolding used_def using dead i \<open>n < length rows1\<close>
      by (intro bexI [of _ "rows1 ! n"]) auto
    ultimately show ?thesis using run_used [OF assms(3) ok] by blast
  qed
  moreover have "active_sanction_for_assessment loads assessment_id rows1 = None"
    by (auto simp: active_sanction_for_assessment_def find_None_iff r1 bound_live_def live_def)
  ultimately show ?thesis by blast
qed

lemma invalidation_is_final_witness:
  "active_sanction_for_assessment (\<lambda>_. demo_sanction) ''asm_1''
     (snd (invalidate_sanctions_for_assessment ''asm_1'' ''drift'' demo_rows)) = None"
  using invalidation_is_final
    [OF run_ledger_ok [OF demo_run ledger_ok_Nil] surjective_pairing
       run_start [of "\<lambda>_. ''{}''" "\<lambda>_. demo_sanction"]]
  by blast

text \<open>The repository a row belongs to is outside the chain: rewriting it keeps the ledger valid.\<close>

lemma repo_column_outside_chain:
  "validate_sanction_chain (map (\<lambda>r. r\<lparr>se_repo_id := repo_id\<rparr>) rows) = validate_sanction_chain rows"
  by (rule validate_frozen) (simp add: frozen_def)

end
