(* ===== verification/Pebra_Human_Approval.thy ===== *)
theory Pebra_Human_Approval
  imports Pebra_Decision_Properties Pebra_Sanction_Store
begin

text \<open>
  The approval of one pending candidate by a human: the binding contract
  (\<open>pebra/core/candidate_binding_contract.py\<close>), the creation of the sanction
  (\<open>pebra/app/accept_risk_controller.py\<close>), and the selection, approval and application flow
  (\<open>pebra/app/human_approval_controller.py\<close>).

  Stored assessments are JSON values. The flow acts on the sanction ledger; what it calls besides
  (\<open>store.validate_chain\<close>, \<open>load_assessment\<close>, \<open>load_candidate_replay\<close>, \<open>assess\<close>,
  \<open>apply_candidate\<close>) is an argument, of which the theorems assume nothing: each may change the ledger
  and may raise.
\<close>

section \<open>The candidate binding\<close>

definition CANDIDATE_BINDING_ALGORITHM :: string where
  "CANDIDATE_BINDING_ALGORITHM = ''sha256-normalized-content-v1''"

definition binding_file_ok :: "string \<times> pyval \<Rightarrow> bool" where
  "binding_file_ok file =
     (fst file \<noteq> [] \<and> (case snd file of VStr digest \<Rightarrow> is_sha256_digest digest | _ \<Rightarrow> False))"

fun candidate_binding_is_valid :: "pyval \<Rightarrow> bool" where
  "candidate_binding_is_valid (VDict candidate) =
     (dict_get candidate ''algorithm'' VNone = VStr CANDIDATE_BINDING_ALGORITHM
      \<and> (case dict_get candidate ''files'' VNone of
           VDict files \<Rightarrow> files \<noteq> [] \<and> list_all binding_file_ok files
         | _ \<Rightarrow> False))"
| "candidate_binding_is_valid _ = False"

section \<open>Accepting a risk\<close>

fun nonempty_str :: "pyval \<Rightarrow> string option" where
  "nonempty_str (VStr s) = (if s = [] then None else Some s)"
| "nonempty_str _ = None"

definition validated_binding :: "pyval dict \<Rightarrow> pyval \<Rightarrow> (string \<times> string \<times> pyval) res" where
  "validated_binding sanction_spec risk_profile =
     (case risk_profile of
        VDict profile \<Rightarrow>
          (case nonempty_str (dict_get sanction_spec ''assessment_id'' VNone) of
             None \<Rightarrow> Inl (ValueError ''a sanction must name its assessment_id'')
           | Some assessment_id \<Rightarrow>
             (case nonempty_str (dict_get sanction_spec ''action_id'' VNone) of
                None \<Rightarrow> Inl (ValueError ''a sanction must name one action_id'')
              | Some action_id \<Rightarrow>
                  let candidate = dict_get profile ''candidate_binding'' VNone
                  in if dict_get profile ''assessment_id'' VNone \<noteq> VStr assessment_id
                     then Inl (ValueError ''risk_profile assessment_id does not match the sanction'')
                     else if dict_get profile ''action_id'' VNone \<noteq> VStr action_id
                     then Inl (ValueError ''risk_profile action_id does not match the sanction'')
                     else if \<not> candidate_binding_is_valid candidate
                     then Inl (ValueError ''a sanction must use the normalized-content candidate binding'')
                     else Inr (assessment_id, action_id, candidate)))
      | _ \<Rightarrow> Inl (ValueError ''a sanction risk_profile must be an exact candidate profile''))"

definition spec_list :: "pyval dict \<Rightarrow> string \<Rightarrow> pyval list \<Rightarrow> pyval list res" where
  "spec_list sanction_spec key fallback = py_list (dict_get sanction_spec key (VList fallback))"

definition accepted_sanction :: "pyval dict \<Rightarrow> pyval dict res" where
  "accepted_sanction sanction_spec =
     (let risk_profile = dict_get sanction_spec ''risk_profile'' VNone
      in if \<not> truthy risk_profile
         then Inl (ValueError ''a sanction must be bound to a risk_profile (AD-26)'')
         else rbind (validated_binding sanction_spec risk_profile) (\<lambda>(assessment_id, action_id, _).
              rbind (spec_list sanction_spec ''converts_gates'' (map VInt (sort SANCTION_CONVERTIBLE_GATES))) (\<lambda>converts.
              rbind (spec_list sanction_spec ''pre_commit_required_controls'' []) (\<lambda>controls.
              rbind (spec_list sanction_spec ''high_risk_triggers'' []) (\<lambda>triggers.
                Inr [(''valid'', VBool True),
                     (''risk_profile'', risk_profile),
                     (''action_id'', VStr action_id),
                     (''action_ids'', VList [VStr action_id]),
                     (''assessment_id'', VStr assessment_id),
                     (''pre_edit_authorization_controls_satisfied'',
                      VBool (truthy (dict_get sanction_spec ''pre_edit_authorization_controls_satisfied''
                        (VBool False)))),
                     (''converts_gates'', VList converts),
                     (''pre_commit_required_controls'', VList controls),
                     (''high_risk_triggers'', VList triggers)])))))"

definition accept_risk ::
  "(pyval dict \<Rightarrow> string) \<Rightarrow> string \<Rightarrow> pyval dict \<Rightarrow> sanction_row list \<Rightarrow> (string \<times> sanction_row list) res" where
  "accept_risk dumps repo_id sanction_spec rows =
     rbind (accepted_sanction sanction_spec) (\<lambda>sanction. Inr (create_sanction dumps repo_id sanction rows))"

section \<open>Pending candidates\<close>

datatype approval_error = HumanApprovalError string | Raised pyerr

record candidate_replay =
  cr_assessment :: "pyval dict"
  cr_request :: assessment_request
  cr_metadata :: "pyval dict"

record pending_approval =
  pa_assessment_id :: string
  pa_replay :: candidate_replay
  pa_summary :: "pyval dict"

text \<open>\<open>v or {}\<close> before a \<open>get\<close>, and \<open>v or []\<close> before an iteration.\<close>

definition or_dict :: "pyval \<Rightarrow> pyval dict res" where
  "or_dict v =
     (if \<not> truthy v then Inr []
      else case v of VDict d \<Rightarrow> Inr d | _ \<Rightarrow> Inl (AttributeError ''object has no attribute get''))"

definition or_list :: "pyval \<Rightarrow> pyval list res" where
  "or_list v = (if \<not> truthy v then Inr [] else py_list v)"

definition sub_dict :: "pyval dict \<Rightarrow> string \<Rightarrow> pyval dict res" where
  "sub_dict d key = or_dict (dict_get d key VNone)"

definition gates_of :: "pyval dict \<Rightarrow> pyval list res" where
  "gates_of stored = or_list (dict_get stored ''gates_fired'' VNone)"

definition review_eligible :: "pyval dict \<Rightarrow> bool res" where
  "review_eligible stored =
     (let decision = dict_get stored ''decision'' VNone
      in if decision = VStr ''ask_human'' then Inr True
         else if decision = VStr ''proceed''
         then Inr (dict_get stored ''requires_confirmation'' VNone = VBool True)
         else
           (case decision of
              VStr d \<Rightarrow>
                (case or_list (dict_get stored ''gates_fired'' VNone) of
                   Inl _ \<Rightarrow> Inr False
                 | Inr gates \<Rightarrow> Inr (reject_override_eligible d gates))
            | _ \<Rightarrow> Inr False))"

definition first_action :: "assessment_request \<Rightarrow> candidate_action res" where
  "first_action request =
     (case ar_candidate_actions request of [] \<Rightarrow> Inl (IndexError ''list index out of range'')
      | action # _ \<Rightarrow> Inr action)"

definition packet_binding :: "pyval dict \<Rightarrow> pyval dict res" where
  "packet_binding stored =
     rbind (sub_dict stored ''model_guidance_packet'') (\<lambda>packet. sub_dict packet ''binding'')"

definition vgate :: "int option \<Rightarrow> pyval" where
  "vgate g = (case g of None \<Rightarrow> VNone | Some n \<Rightarrow> VInt n)"

text \<open>
  The summary a human sees. The fallback of \<open>reason\<close> joins the advisory reasons into one text; the
  list of them stands for it here.
\<close>

definition summary :: "string \<Rightarrow> candidate_replay \<Rightarrow> pyval dict res" where
  "summary assessment_id replay =
     (let stored = cr_assessment replay
      in rbind (sub_dict stored ''scores'') (\<lambda>scores.
         rbind (sub_dict stored ''model_guidance_packet'') (\<lambda>packet.
         rbind (first_action (cr_request replay)) (\<lambda>action.
         rbind (gates_of stored) (\<lambda>gates.
         rbind (sub_dict packet ''advisory'') (\<lambda>advisory.
         rbind (py_list (dict_get advisory ''why'' (VList []))) (\<lambda>why.
         rbind (sub_dict packet ''binding'') (\<lambda>binding.
         rbind (or_list (dict_get binding ''required_controls'' VNone)) (\<lambda>controls.
           let reason = dict_get stored ''decision_reason'' VNone
           in Inr [(''assessment_id'', VStr assessment_id),
                   (''decision'', dict_get stored ''decision'' VNone),
                   (''controlling_gate'', vgate (controlling_gate gates)),
                   (''task'', VStr (ar_task (cr_request replay))),
                   (''action_id'', VStr (ca_id action)),
                   (''files'', vstrs (ca_expected_files action)),
                   (''risk_benefit'',
                    VDict (map (\<lambda>key. (key, dict_get scores key VNone))
                      [''expected_loss'', ''benefit'', ''expected_utility'', ''rau''])),
                   (''reason'', if truthy reason then reason else VList why),
                   (''required_controls'', VList controls)])))))))))"

definition replay_digest :: "string \<Rightarrow> candidate_replay \<Rightarrow> string" where
  "replay_digest current_id replay =
     (let digest = dict_get (cr_metadata replay) ''digest'' VNone
      in if truthy digest then vstr_of digest else current_id)"

text \<open>
  The loop over the pending rows. \<open>load_replay\<close> is \<open>None\<close> where \<open>CandidateApplyError\<close> is raised;
  \<open>explicit\<close> says that the caller named the assessment, which turns every \<open>continue\<close> into an error.
\<close>

fun select_loop ::
  "(string \<Rightarrow> candidate_replay option) \<Rightarrow> bool \<Rightarrow> string list \<Rightarrow> pending_approval dict
    \<Rightarrow> approval_error + pending_approval dict" where
  "select_loop load_replay explicit [] candidates = Inr candidates"
| "select_loop load_replay explicit (current_id # ids) candidates =
     (case load_replay current_id of
        None \<Rightarrow>
          if explicit then Inl (HumanApprovalError ''the requested assessment no longer has an applicable candidate'')
          else select_loop load_replay explicit ids candidates
      | Some replay \<Rightarrow>
          (case review_eligible (cr_assessment replay) of
             Inl e \<Rightarrow> Inl (Raised e)
           | Inr False \<Rightarrow>
               if explicit then Inl (HumanApprovalError ''the requested candidate is not eligible for human confirmation'')
               else select_loop load_replay explicit ids candidates
           | Inr True \<Rightarrow>
               (case packet_binding (cr_assessment replay) of
                  Inl e \<Rightarrow> Inl (Raised e)
                | Inr binding \<Rightarrow>
                    if \<not> candidate_binding_is_valid (dict_get binding ''candidate'' VNone)
                    then if explicit
                         then Inl (HumanApprovalError ''the requested assessment no longer has an applicable candidate'')
                         else select_loop load_replay explicit ids candidates
                    else
                      (case summary current_id replay of
                         Inl e \<Rightarrow> Inl (Raised e)
                       | Inr text \<Rightarrow>
                           let digest = replay_digest current_id replay;
                               pending = \<lparr>pa_assessment_id = current_id, pa_replay = replay, pa_summary = text\<rparr>
                           in select_loop load_replay explicit ids
                                (if dict_has candidates digest then candidates
                                 else dict_set candidates digest pending)))))"

definition row_assessment_id :: "pyval dict \<Rightarrow> string" where
  "row_assessment_id row = vstr_of (dict_get row ''assessment_id'' VNone)"

definition select_pending_approval ::
  "bool \<Rightarrow> pyval dict list \<Rightarrow> (string \<Rightarrow> candidate_replay option) \<Rightarrow> string option
    \<Rightarrow> approval_error + pending_approval" where
  "select_pending_approval chain_valid pending_rows load_replay assessment_id =
     (if \<not> chain_valid then Inl (HumanApprovalError ''assessment ledger integrity check failed'')
      else
        let rows = (case assessment_id of
                      None \<Rightarrow> pending_rows
                    | Some i \<Rightarrow> filter (\<lambda>row. dict_get row ''assessment_id'' VNone = VStr i) pending_rows)
        in if assessment_id \<noteq> None \<and> rows = []
           then Inl (HumanApprovalError ''the requested assessment is not pending human review at the current HEAD'')
           else
             (case select_loop load_replay (assessment_id \<noteq> None) (map row_assessment_id rows) [] of
                Inl e \<Rightarrow> Inl e
              | Inr candidates \<Rightarrow>
                  (case map snd candidates of
                     [] \<Rightarrow> Inl (HumanApprovalError ''no candidate is pending human approval at the current HEAD'')
                   | [pending] \<Rightarrow> Inr pending
                   | _ \<Rightarrow> Inl (HumanApprovalError ''multiple candidates are pending human approval''))))"

section \<open>Approving and applying\<close>

definition lift :: "'a res \<Rightarrow> approval_error + 'a" where
  "lift r = (case r of Inl e \<Rightarrow> Inl (Raised e) | Inr x \<Rightarrow> Inr x)"

definition abind :: "approval_error + 'a \<Rightarrow> ('a \<Rightarrow> approval_error + 'b) \<Rightarrow> approval_error + 'b" where
  "abind r f = (case r of Inl e \<Rightarrow> Inl e | Inr x \<Rightarrow> f x)"

definition sanction_spec :: "pending_approval \<Rightarrow> approval_error + pyval dict" where
  "sanction_spec pending =
     (let stored = cr_assessment (pa_replay pending)
      in abind (lift (sub_dict stored ''model_guidance_packet'')) (\<lambda>packet.
         abind (lift (sub_dict packet ''binding'')) (\<lambda>binding.
         abind (lift (first_action (cr_request (pa_replay pending)))) (\<lambda>action.
           let candidate = dict_get binding ''candidate'' VNone
           in if \<not> candidate_binding_is_valid candidate
              then Inl (HumanApprovalError ''pending assessment has no exact candidate binding'')
              else
                abind (lift (or_list (dict_get binding ''required_controls'' VNone))) (\<lambda>controls.
                abind (lift (sub_dict packet ''advisory'')) (\<lambda>advisory.
                abind (lift (or_list (dict_get advisory ''high_risk_triggers'' VNone))) (\<lambda>triggers.
                abind (lift (gates_of stored)) (\<lambda>gates.
                  Inr ([(''assessment_id'', VStr (pa_assessment_id pending)),
                        (''action_id'', VStr (ca_id action)),
                        (''risk_profile'',
                         VDict [(''assessment_id'', VStr (pa_assessment_id pending)),
                                (''action_id'', VStr (ca_id action)),
                                (''candidate_binding'', candidate)]),
                        (''pre_edit_authorization_controls_satisfied'', VBool True),
                        (''pre_commit_required_controls'', VList controls),
                        (''high_risk_triggers'', VList triggers)]
                       @ (case controlling_gate gates of
                            None \<Rightarrow> []
                          | Some gate \<Rightarrow> [(''converts_gates'', VList [VInt gate])]))))))))))"

record reassessed =
  ra_assessment_id :: string
  ra_recommended_decision :: decision
  ra_risk_mode :: risk_mode

record human_approval_outcome =
  ho_sanction_id :: string
  ho_reassessment_id :: string
  ho_changed_files :: "string list"

text \<open>\<open>except (KeyError, TypeError, ValueError)\<close> around the load.\<close>

fun revalidation_error :: "pyerr \<Rightarrow> approval_error" where
  "revalidation_error (KeyError _) = HumanApprovalError ''pending assessment could not be revalidated''"
| "revalidation_error (TypeError _) = HumanApprovalError ''pending assessment could not be revalidated''"
| "revalidation_error (ValueError _) = HumanApprovalError ''pending assessment could not be revalidated''"
| "revalidation_error e = Raised e"

text \<open>The checks before the sanction is created.\<close>

definition still_reviewable :: "pyval dict res \<Rightarrow> pending_approval \<Rightarrow> string \<Rightarrow> pyval \<Rightarrow> approval_error + unit" where
  "still_reviewable loaded pending repo_id fresh_commit =
     (case loaded of
        Inl e \<Rightarrow> Inl (revalidation_error e)
      | Inr current \<Rightarrow>
          if dict_get current ''repo_id'' VNone \<noteq> VStr repo_id
          then Inl (HumanApprovalError ''pending candidate is no longer eligible for human confirmation'')
          else
            (case review_eligible current of
               Inl e \<Rightarrow> Inl (Raised e)
             | Inr eligible \<Rightarrow>
                 if \<not> eligible
                 then Inl (HumanApprovalError ''pending candidate is no longer eligible for human confirmation'')
                 else if dict_get current ''decision'' VNone
                           \<noteq> dict_get (cr_assessment (pa_replay pending)) ''decision'' VNone
                 then Inl (HumanApprovalError ''pending candidate review disposition changed'')
                 else
                   (case nonempty_str (dict_get current ''assessed_commit'' VNone) of
                      None \<Rightarrow> Inl (HumanApprovalError ''repository HEAD changed during human review; reassess first'')
                    | Some reviewed_commit \<Rightarrow>
                        if fresh_commit \<noteq> VStr reviewed_commit
                        then Inl (HumanApprovalError ''repository HEAD changed during human review; reassess first'')
                        else Inr ())))"

text \<open>The body of the \<open>try\<close>: reassess, require a controlled-high-risk proceed, apply.\<close>

definition reassess_and_apply ::
  "(sanction_row list \<Rightarrow> (approval_error + reassessed) \<times> sanction_row list)
    \<Rightarrow> (string \<Rightarrow> sanction_row list \<Rightarrow> (approval_error + string list) \<times> sanction_row list)
    \<Rightarrow> sanction_row list \<Rightarrow> (approval_error + (string \<times> string list)) \<times> sanction_row list" where
  "reassess_and_apply assess apply_candidate rows =
     (case assess rows of
        (Inl e, rows1) \<Rightarrow> (Inl e, rows1)
      | (Inr result, rows1) \<Rightarrow>
          if \<not> (ra_recommended_decision result = PROCEED \<and> ra_risk_mode result = CONTROLLED_HIGH_RISK)
          then (Inl (HumanApprovalError
                  ''fresh candidate reassessment did not produce a controlled-high-risk proceed''), rows1)
          else
            (case apply_candidate (ra_assessment_id result) rows1 of
               (Inl e, rows2) \<Rightarrow> (Inl e, rows2)
             | (Inr changed, rows2) \<Rightarrow> (Inr (ra_assessment_id result, changed), rows2)))"

definition approve_and_apply ::
  "(pyval dict \<Rightarrow> string) \<Rightarrow> bool \<Rightarrow> (string \<Rightarrow> pyval dict res)
    \<Rightarrow> (sanction_row list \<Rightarrow> (approval_error + reassessed) \<times> sanction_row list)
    \<Rightarrow> (string \<Rightarrow> sanction_row list \<Rightarrow> (approval_error + string list) \<times> sanction_row list)
    \<Rightarrow> pending_approval \<Rightarrow> string \<Rightarrow> pyval \<Rightarrow> sanction_row list
    \<Rightarrow> (approval_error + human_approval_outcome) \<times> sanction_row list" where
  "approve_and_apply dumps chain_valid load_assessment assess apply_candidate pending repo_id fresh_commit rows =
     (if \<not> chain_valid then (Inl (HumanApprovalError ''assessment ledger integrity check failed''), rows)
      else
        (case still_reviewable (load_assessment (pa_assessment_id pending)) pending repo_id fresh_commit of
           Inl e \<Rightarrow> (Inl e, rows)
         | Inr _ \<Rightarrow>
             (case sanction_spec pending of
                Inl e \<Rightarrow> (Inl e, rows)
              | Inr spec \<Rightarrow>
                  (case accept_risk dumps repo_id spec rows of
                     Inl e \<Rightarrow> (Inl (Raised e), rows)
                   | Inr (sanction_id, rows0) \<Rightarrow>
                       (case reassess_and_apply assess apply_candidate rows0 of
                          (Inr (reassessment_id, changed), rows1) \<Rightarrow>
                            (Inr \<lparr>ho_sanction_id = sanction_id, ho_reassessment_id = reassessment_id,
                                  ho_changed_files = changed\<rparr>, rows1)
                        | (Inl e, rows1) \<Rightarrow>
                            (Inl e,
                             snd (invalidate_sanctions_for_assessment (pa_assessment_id pending)
                               ''human approval apply flow did not complete'' rows1)))))))"

section \<open>The sanction an approval creates\<close>

lemma abind_Inr_iff: "abind r f = Inr y \<longleftrightarrow> (\<exists>x. r = Inr x \<and> f x = Inr y)"
  by (cases r) (auto simp: abind_def)

lemma lift_Inr_iff: "lift r = Inr y \<longleftrightarrow> r = Inr y"
  by (cases r) (auto simp: lift_def)

lemma sanction_spec_converts:
  assumes "sanction_spec pending = Inr spec"
    and "gates_of (cr_assessment (pa_replay pending)) = Inr gates" and "controlling_gate gates = Some g"
  shows "dict_get spec ''converts_gates'' v = VList [VInt g]"
    and "dict_get spec ''pre_edit_authorization_controls_satisfied'' v = VBool True"
    and "dict_get spec ''assessment_id'' v = VStr (pa_assessment_id pending)"
    and "\<exists>triggers. dict_get spec ''high_risk_triggers'' v = VList triggers"
  using assms by (auto simp: sanction_spec_def Let_def abind_Inr_iff lift_Inr_iff split: if_splits)

lemma accepted_sanction_fields:
  assumes "accepted_sanction spec = Inr sanction" and "dict_get spec ''converts_gates''
      (VList (map VInt (sort SANCTION_CONVERTIBLE_GATES))) = VList [VInt g]"
  shows "dict_get sanction ''valid'' v = VBool True"
    and "dict_get sanction ''converts_gates'' v = VList [VInt g]"
    and "dict_get sanction ''pre_edit_authorization_controls_satisfied'' v
      = VBool (truthy (dict_get spec ''pre_edit_authorization_controls_satisfied'' (VBool False)))"
    and "\<exists>triggers. dict_get sanction ''high_risk_triggers'' v = VList triggers"
    and "sanction \<noteq> []"
  using assms
  by (auto simp: accepted_sanction_def spec_list_def Let_def rbind_Inr_iff split: if_splits prod.splits)

text \<open>What the engine asks of the sanction, for the gate the approval names.\<close>

lemma approved_sanction_grants:
  assumes "sanction_spec pending = Inr spec" and "accepted_sanction spec = Inr sanction"
    and "gates_of (cr_assessment (pa_replay pending)) = Inr gates" and "controlling_gate gates = Some g"
  shows "sanction_grants sanction n = Inr (n = g)" and "\<exists>triggers. sanction_triggers sanction = Inr triggers"
    and "sanction \<noteq> []"
proof -
  note spec = sanction_spec_converts [OF assms(1,3,4)]
  note sanction = accepted_sanction_fields [OF assms(2) spec(1)]
  show "sanction_grants sanction n = Inr (n = g)"
    by (auto simp: sanction_grants_def sanction spec in_set_def)
  show "\<exists>triggers. sanction_triggers sanction = Inr triggers"
    using sanction(4) [of "VList []"] by (auto simp: sanction_triggers_def)
  show "sanction \<noteq> []" by (rule sanction(5))
qed

text \<open>The record of a decision keeps its entries.\<close>

definition records :: "pyval dict \<Rightarrow> assessment_result \<Rightarrow> bool" where
  "records stored r = (dict_get stored ''gates_fired'' VNone = VList (map VDict (re_gates_fired r)))"

lemma gates_of_records: "records stored r \<Longrightarrow> gates_of stored = Inr (map VDict (re_gates_fired r))"
  by (simp add: records_def gates_of_def or_list_def)

lemma decide_unsanctioned:
  assumes "decide a [] = Inr r" and "ai_sanction (as_input a) = None"
  obtains issue d c g gs where "task_obligations_issue (as_input a) = Inr issue"
    "gate_sequence a issue = (d, c, g, gs)" "r = terminal_result a (d, c, g, advisory_gates (as_input a) gs)"
  using assms by (elim decide_cases) (auto simp: resolve_sanction_def)

section \<open>Properties\<close>

text \<open>C32: A human approval completes. If a candidate outside a revision loop was stopped by a convertible risk gate
  (2, 3, 4 or 9), or was allowed subject to confirmation, and the stored record keeps the gates that fired, then the
  sanction the approval creates from the record turns the same assessment, while no task obligation is open, into a
  controlled-high-risk proceed that asks for no further confirmation. An open obligation is not approved away: the
  decision becomes a request to revise.\<close>

theorem approval_completes:
  assumes "\<not> rc_is_revision (ai_revision_completeness (as_input a))"
    and "ai_sanction (as_input a) = None" and "decide a [] = Inr r"
    and "task_obligations_issue (as_input a) = Inr issue" and "gate_sequence a issue = (d, c, g, gs)"
    and "d \<in> {ASK_HUMAN, REJECT} \<and> g \<in> {2, 3, 4, 9} \<or> d = PROCEED \<and> c"
    and "records (cr_assessment (pa_replay pending)) r"
    and "sanction_spec pending = Inr spec" and "accepted_sanction spec = Inr sanction"
  shows "\<exists>r'. decide (with_sanction a sanction) [] = Inr r' \<and> \<not> re_requires_confirmation r'
    \<and> (if issue = None then re_recommended_decision r' = PROCEED \<and> re_risk_mode r' = CONTROLLED_HIGH_RISK
       else re_recommended_decision r' = REVISE_SAFER)"
proof -
  have "r = terminal_result a (d, c, g, advisory_gates (as_input a) gs)"
    using assms(2-5) by (auto elim: decide_unsanctioned)
  then have gates: "re_gates_fired r = advisory_gates (as_input a) gs" by (simp add: terminal_result_fields)
  obtain e rest where e: "gs = e # rest" "plain_entry g e" "g > 0"
    using no_revision_controlling_gate [OF assms(1,4,5)] assms(6) by auto
  have grants: "sanction_grants sanction n = Inr (n = g)" "\<exists>ts. sanction_triggers sanction = Inr ts"
    "sanction \<noteq> []" for n
    using approved_sanction_grants [OF assms(8,9) gates_of_records [OF assms(7)]]
      controlling_gate_advisory_append [OF e] by (simp_all add: gates)
  have 11: "g = 11 \<and> issue = None" if "d = PROCEED"
    using assms(5) that by (elim gate_sequence_cases) (auto dest: gate_decisions_PROCEED [OF refl] split: if_splits)
  show ?thesis
    unfolding decide_with_sanction [OF assms(4,5)]
    using assms(6) grants 11
    by (cases issue) (auto simp: resolve_sanction_def sanction_free SANCTION_CONVERTIBLE_GATES_def confirm_proceed_def
        convert_risk_gate_def decide_result_fields decide_risk_mode_def Let_def)
qed

definition valid_packet :: pyval where
  "valid_packet = VDict [(''binding'', VDict [(''candidate'',
     VDict [(''algorithm'', VStr CANDIDATE_BINDING_ALGORITHM),
            (''files'', VDict [(''src/a.py'', VStr (sha256_hex []))])])])]"

text \<open>The stored record of a decision on the sample action, as far as the approval reads it.\<close>

definition sample_record :: "assessment_result \<Rightarrow> pyval dict" where
  "sample_record r =
     [(''decision'', VStr (decision_value (re_recommended_decision r))),
      (''requires_confirmation'', VBool (re_requires_confirmation r)),
      (''gates_fired'', VList (map VDict (re_gates_fired r))),
      (''model_guidance_packet'', valid_packet)]"

definition sample_pending :: "assessment_result \<Rightarrow> pending_approval" where
  "sample_pending r =
     \<lparr>pa_assessment_id = ''asm_1'',
      pa_replay = \<lparr>cr_assessment = sample_record r, cr_request = single_action ''task'' sample_action,
                   cr_metadata = []\<rparr>,
      pa_summary = []\<rparr>"

lemma sample_records: "records (cr_assessment (pa_replay (sample_pending r))) r"
  by (simp add: records_def sample_pending_def sample_record_def)

lemma sample_sanction_spec:
  assumes "controlling_gate (map VDict (re_gates_fired r)) = Some g"
  obtains spec sanction where "sanction_spec (sample_pending r) = Inr spec"
    "accepted_sanction spec = Inr sanction"
proof -
  have v: "candidate_binding_is_valid (VDict [(''algorithm'', VStr CANDIDATE_BINDING_ALGORITHM),
      (''files'', VDict [(''src/a.py'', VStr (sha256_hex []))])])"
    by (simp add: binding_file_ok_def sha256_hex_is_digest)
  have n: "re_gates_fired r \<noteq> []" using assms by auto
  have "\<exists>spec. sanction_spec (sample_pending r) = Inr spec"
    using assms v n
    by (auto simp: sanction_spec_def sample_pending_def sample_record_def valid_packet_def abind_def lift_def
        sub_dict_def or_dict_def or_list_def gates_of_def first_action_def single_action_def Let_def
        simp del: candidate_binding_is_valid.simps)
  then obtain spec where spec: "sanction_spec (sample_pending r) = Inr spec" by blast
  then have "\<exists>sanction. accepted_sanction spec = Inr sanction"
    using assms v n
    by (auto simp: sanction_spec_def sample_pending_def sample_record_def valid_packet_def abind_def lift_def
        sub_dict_def or_dict_def or_list_def gates_of_def first_action_def single_action_def Let_def
        accepted_sanction_def validated_binding_def spec_list_def sample_action_def
        simp del: candidate_binding_is_valid.simps)
  with spec that show ?thesis by blast
qed

lemma approval_completes_witness:
  "\<exists>r sanction r'. decide (sample_assessment sample_input ''C1'' 0.6 0.2 0.1 ''BEHAVIORAL'') [] = Inr r
    \<and> re_recommended_decision r = ASK_HUMAN
    \<and> decide (with_sanction (sample_assessment sample_input ''C1'' 0.6 0.2 0.1 ''BEHAVIORAL'') sanction) [] = Inr r'
    \<and> re_recommended_decision r' = PROCEED"
proof -
  let ?a = "sample_assessment sample_input ''C1'' 0.6 0.2 0.1 ''BEHAVIORAL''"
  obtain r where r: "decide ?a [] = Inr r" "re_recommended_decision r = ASK_HUMAN"
      "controlling_gate (map VDict (re_gates_fired r)) = Some 3"
    by (simp add: sample_eval)
  obtain spec sanction where s: "sanction_spec (sample_pending r) = Inr spec"
      "accepted_sanction spec = Inr sanction"
    using sample_sanction_spec [OF r(3)] .
  have "fst (gate_sequence ?a None) = ASK_HUMAN" "fst (snd (snd (gate_sequence ?a None))) = 3"
    by (simp_all add: sample_eval)
  then obtain c gs where g: "gate_sequence ?a None = (ASK_HUMAN, c, 3, gs)"
    by (cases "gate_sequence ?a None") auto
  have "\<not> rc_is_revision (ai_revision_completeness (as_input ?a))" "ai_sanction (as_input ?a) = None"
      "task_obligations_issue (as_input ?a) = Inr None"
    by (simp_all add: sample_eval)
  from approval_completes [OF this(1,2) r(1) this(3) g _ sample_records s] r show ?thesis by auto
qed

text \<open>The first entry of an approved revision is that of its comparison, not that of the proceed.\<close>

lemma revision_approved_entry:
  assumes "revision_risk_benefit_outcome a [] issue = (True, t, gs)"
  shows "\<exists>e rest n. gs = e # rest \<and> plain_entry n e \<and> n \<in> {7, 9}"
  using assms
  by (auto simp: revision_risk_benefit_outcome_def revise_candidate_decision_def score_comparison_def Let_def
      split: if_splits option.splits)

lemma risk_gates_proceed:
  assumes "risk_gates a approved terminal gates = (PROCEED, c, g, gs)"
    and "\<And>t. terminal = Some t \<Longrightarrow> t \<in> {REVISE_SAFER, REJECT, ASK_HUMAN}"
  shows "g = 11 \<and> gs = gates"
proof -
  have ok: "outcome_ok a (first_gate (gate_conditions a approved terminal)) (PROCEED, c, g, gs)"
    using risk_gates_ok [of terminal a approved gates] assms by simp
  then have g: "first_gate (gate_conditions a approved terminal) = 11"
    by (auto simp: outcome_ok_def dest: gate_decisions_PROCEED [OF refl])
  have "chain (map snd (gate_conditions a approved terminal)) (rule_outcomes a terminal gates) d = d" for d
    using chain_first [of "\<lambda>n x. n = 11 \<longrightarrow> x = d" "gate_conditions a approved terminal"
        "rule_outcomes a terminal gates" d] g
    by (simp add: gate_conditions_def rule_outcomes_def Let_def)
  with assms(1) show ?thesis by (simp add: risk_gates_chain)
qed

text \<open>C40: The approval of a revision at a sensitive stage cannot complete: the candidate is allowed
  subject to confirmation and is offered for review, but the record of a revision starts with the
  entry of its comparison, so the sanction names gate 9 (or 7) where the engine asks for gate 11, and
  the reassessment under that sanction still asks for confirmation.\<close>

theorem revision_approval_never_completes:
  assumes "fst (revision_risk_benefit_outcome a [] (revision_completeness_issue (as_input a)))"
    and "ai_sanction (as_input a) = None" and "decide a [] = Inr r"
    and "re_recommended_decision r = PROCEED" and "re_requires_confirmation r"
    and "records (cr_assessment (pa_replay pending)) r"
    and "sanction_spec pending = Inr spec" and "accepted_sanction spec = Inr sanction"
  shows "\<exists>r'. decide (with_sanction a sanction) [] = Inr r' \<and> re_requires_confirmation r'
    \<and> re_risk_mode r' \<noteq> CONTROLLED_HIGH_RISK"
proof -
  obtain issue d c g gs where i: "task_obligations_issue (as_input a) = Inr issue"
    and s: "gate_sequence a issue = (d, c, g, gs)"
    and r: "r = terminal_result a (d, c, g, advisory_gates (as_input a) gs)"
    using assms(2,3) by (auto elim: decide_unsanctioned)
  with assms(4,5) have d: "d = PROCEED" "c" by (simp_all add: terminal_result_fields)
  from assms(1) obtain t gates where o:
    "revision_risk_benefit_outcome a [] (revision_completeness_issue (as_input a)) = (True, t, gates)"
    by (cases "revision_risk_benefit_outcome a [] (revision_completeness_issue (as_input a))") auto
  obtain e rest n where e: "gates = e # rest" "plain_entry n e" "n \<in> {7, 9}"
    using revision_approved_entry [OF o] by blast
  have t: "t = None" by (rule revision_approved(1) [OF o])
  obtain d0 c0 g0 gs0 where g: "risk_gates a True None gates = (d0, c0, g0, gs0)" by (metis prod_cases4)
  have seq: "obligations_gate issue (d0, c0, g0, gs0) = (PROCEED, True, g, gs)"
    using s o g d by (simp add: gate_sequence_def t)
  then have "d0 = PROCEED" by (auto simp: obligations_gate_def split: if_splits)
  with risk_gates_proceed [of a True None gates c0 g0 gs0] g have "g0 = 11" "gs0 = gates" by simp_all
  with seq \<open>d0 = PROCEED\<close> have gs: "gs = e # rest @ [gate_entry 11 ''proceed'' []]" "g = 11"
    by (auto simp: obligations_gate_def e(1) split: if_splits)
  have "controlling_gate (map VDict (re_gates_fired r)) = Some n"
    using controlling_gate_advisory_append [OF gs(1) e(2)] e(3) by (auto simp: r terminal_result_fields)
  from approved_sanction_grants [OF assms(7,8) gates_of_records [OF assms(6)] this]
  have "sanction_grants sanction 11 = Inr False" using e(3) by auto
  then have "decide (with_sanction a sanction) []
      = Inr (terminal_result (with_sanction a sanction) (PROCEED, True, 11, advisory_gates (as_input a) gs))"
    unfolding decide_with_sanction [OF i s] d gs(2)
    using d(2) by (simp add: resolve_sanction_def sanction_free)
  then show ?thesis
    by (simp add: terminal_result_fields) (simp add: terminal_result_def decide_result_fields
        decide_risk_mode_def Let_def)
qed

lemma revision_approval_never_completes_witness:
  "\<exists>r sanction r'. decide (sample_assessment revision_input ''C3'' 0.4 0.3 0.1 ''BEHAVIORAL'') [] = Inr r
    \<and> review_eligible (sample_record r) = Inr True
    \<and> decide (with_sanction (sample_assessment revision_input ''C3'' 0.4 0.3 0.1 ''BEHAVIORAL'') sanction) [] = Inr r'
    \<and> re_requires_confirmation r'"
proof -
  let ?a = "sample_assessment revision_input ''C3'' 0.4 0.3 0.1 ''BEHAVIORAL''"
  obtain r where r: "decide ?a [] = Inr r" "re_recommended_decision r = PROCEED" "re_requires_confirmation r"
      "controlling_gate (map VDict (re_gates_fired r)) = Some 9"
    by (simp add: sample_eval revision_input_def score_comparison_def)
  obtain spec sanction where s: "sanction_spec (sample_pending r) = Inr spec"
      "accepted_sanction spec = Inr sanction"
    using sample_sanction_spec [OF r(4)] .
  have "fst (revision_risk_benefit_outcome ?a [] (revision_completeness_issue (as_input ?a)))"
      "ai_sanction (as_input ?a) = None"
    by (simp_all add: sample_eval revision_input_def)
  from revision_approval_never_completes [OF this r(1-3) sample_records s] r show ?thesis
    by (auto simp: review_eligible_def sample_record_def)
qed

section \<open>Failed approvals\<close>

lemma invalidated_none_active:
  "active_sanction_for_assessment loads assessment_id
     (snd (invalidate_sanctions_for_assessment assessment_id reason rows)) = None"
  by (auto simp: active_sanction_for_assessment_def invalidate_sanctions_for_assessment_def bound_live_def
      live_def find_None_iff)

text \<open>C20: A failed approval leaves no authority behind: if the flow ends in an error, either the ledger
  is as it was, or no live sanction of the assessment is left in it, whatever the reassessment and the
  application did to the ledger.\<close>

theorem failed_approval_leaves_no_sanction:
  assumes "approve_and_apply dumps chain_valid load_assessment assess apply_candidate pending repo_id
      fresh_commit rows = (Inl e, rows')"
  shows "rows' = rows \<or> active_sanction_for_assessment loads (pa_assessment_id pending) rows' = None"
  using assms invalidated_none_active
  by (auto simp: approve_and_apply_def split: if_splits sum.splits prod.splits)

definition reviewed_record :: "pyval dict" where
  "reviewed_record =
     [(''repo_id'', VStr ''repo''), (''decision'', VStr ''ask_human''), (''assessed_commit'', VStr ''c1''),
      (''gates_fired'', VList [VDict [(''gate'', VInt 2)]]), (''model_guidance_packet'', valid_packet)]"

definition reviewed_pending :: pending_approval where
  "reviewed_pending =
     \<lparr>pa_assessment_id = ''asm_1'',
      pa_replay = \<lparr>cr_assessment = reviewed_record, cr_request = single_action ''task'' sample_action,
                   cr_metadata = []\<rparr>,
      pa_summary = []\<rparr>"

text \<open>The sanction is created, and the reassessment then still asks a human.\<close>

definition failed_approval :: "(approval_error + human_approval_outcome) \<times> sanction_row list" where
  "failed_approval =
     approve_and_apply (\<lambda>_. ''{}'') True (\<lambda>_. Inr reviewed_record)
       (\<lambda>rows. (Inr \<lparr>ra_assessment_id = ''asm_2'', ra_recommended_decision = ASK_HUMAN,
                      ra_risk_mode = NORMAL\<rparr>, rows))
       (\<lambda>_ rows. (Inr [], rows)) reviewed_pending ''repo'' (VStr ''c1'') []"

lemma failed_approval_leaves_no_sanction_witness:
  "active_sanction_for_assessment (\<lambda>_. demo_sanction) ''asm_1'' (snd failed_approval) = None
    \<and> map se_status (snd failed_approval) = [INVALIDATED]"
proof -
  have v: "candidate_binding_is_valid (VDict [(''algorithm'', VStr CANDIDATE_BINDING_ALGORITHM),
      (''files'', VDict [(''src/a.py'', VStr (sha256_hex []))])])"
    by (simp add: binding_file_ok_def sha256_hex_is_digest)
  have f: "(\<exists>e. fst failed_approval = Inl e) \<and> map se_status (snd failed_approval) = [INVALIDATED]"
    using v
    by (simp add: failed_approval_def approve_and_apply_def still_reviewable_def reviewed_record_def
        reviewed_pending_def review_eligible_def sanction_spec_def valid_packet_def abind_def lift_def
        sub_dict_def or_dict_def or_list_def gates_of_def first_action_def single_action_def Let_def
        accept_risk_def accepted_sanction_def validated_binding_def spec_list_def sample_action_def
        create_sanction_def reassess_and_apply_def invalidate_sanctions_for_assessment_def bound_live_def
        live_def del: candidate_binding_is_valid.simps)
  then obtain e where "failed_approval = (Inl e, snd failed_approval)" by (metis prod.collapse)
  then have "snd failed_approval = []
      \<or> active_sanction_for_assessment (\<lambda>_. demo_sanction) (pa_assessment_id reviewed_pending)
          (snd failed_approval) = None"
    unfolding failed_approval_def by (rule failed_approval_leaves_no_sanction)
  with f show ?thesis by (auto simp: reviewed_pending_def)
qed

section \<open>Selection\<close>

text \<open>The rows a human could confirm.\<close>

definition reviewable :: "candidate_replay \<Rightarrow> bool" where
  "reviewable replay \<longleftrightarrow>
     review_eligible (cr_assessment replay) = Inr True
     \<and> (\<exists>binding. packet_binding (cr_assessment replay) = Inr binding
          \<and> candidate_binding_is_valid (dict_get binding ''candidate'' VNone))"

definition pending_ok :: "(string \<Rightarrow> candidate_replay option) \<Rightarrow> string list \<Rightarrow> string \<times> pending_approval \<Rightarrow> bool" where
  "pending_ok load_replay ids entry \<longleftrightarrow>
     (case entry of (digest, pending) \<Rightarrow>
        pa_assessment_id pending \<in> set ids
        \<and> load_replay (pa_assessment_id pending) = Some (pa_replay pending)
        \<and> reviewable (pa_replay pending)
        \<and> digest = replay_digest (pa_assessment_id pending) (pa_replay pending))"

lemma set_dict_set_new: "\<not> dict_has d k \<Longrightarrow> set (dict_set d k v) = insert (k, v) (set d)"
  by (induction d k v rule: dict_set.induct) (auto simp: dict_has_def)

lemma select_loop_sound:
  assumes "select_loop load_replay explicit ids candidates = Inr result"
    and "\<forall>entry \<in> set candidates. pending_ok load_replay seen entry"
  shows "(\<forall>entry \<in> set result. pending_ok load_replay (seen @ ids) entry)
    \<and> (\<forall>k. dict_has candidates k \<longrightarrow> dict_has result k)
    \<and> (\<forall>i \<in> set ids. \<forall>replay. load_replay i = Some replay \<longrightarrow> reviewable replay \<longrightarrow>
          dict_has result (replay_digest i replay))"
  using assms
proof (induction ids arbitrary: candidates seen)
  case Nil
  then show ?case by simp
next
  case (Cons i ids)
  have grow: "pending_ok load_replay (seen @ [i]) entry" if "pending_ok load_replay seen entry" for entry
    using that by (auto simp: pending_ok_def)
  have skip: ?case if "select_loop load_replay explicit ids candidates = Inr result"
    and "\<And>replay. load_replay i = Some replay \<Longrightarrow> \<not> reviewable replay"
    using Cons.IH [of candidates "seen @ [i]"] that Cons.prems(2) grow by auto
  show ?case
  proof (cases "load_replay i")
    case None
    then show ?thesis using Cons.prems(1) by (intro skip) (auto split: if_splits)
  next
    case (Some replay)
    show ?thesis
    proof (cases "reviewable replay")
      case False
      then show ?thesis
        using Cons.prems(1) Some
        by (intro skip) (auto simp: reviewable_def split: if_splits sum.splits bool.splits)
    next
      case True
      let ?d = "replay_digest i replay"
      from True Cons.prems(1) Some obtain shown where
        loop: "select_loop load_replay explicit ids
          (if dict_has candidates ?d then candidates
           else dict_set candidates ?d \<lparr>pa_assessment_id = i, pa_replay = replay, pa_summary = shown\<rparr>) = Inr result"
        by (auto simp: reviewable_def Let_def split: if_splits sum.splits)
      let ?c = "if dict_has candidates ?d then candidates
        else dict_set candidates ?d \<lparr>pa_assessment_id = i, pa_replay = replay, pa_summary = shown\<rparr>"
      have "\<forall>entry \<in> set ?c. pending_ok load_replay (seen @ [i]) entry"
        using Cons.prems(2) grow Some True by (auto simp: set_dict_set_new pending_ok_def)
      from Cons.IH [OF loop this] show ?thesis
        using Some by (auto simp: dict_has_set)
    qed
  qed
qed

text \<open>The candidate a human is asked to approve is unambiguous: it is a pending row that is eligible
  for review and carries a valid candidate binding, and every other such row is a replay of the same
  candidate digest.\<close>

theorem selected_candidate_is_unambiguous:
  assumes "select_pending_approval chain_valid rows load_replay None = Inr pending"
  shows "chain_valid \<and> pa_assessment_id pending \<in> row_assessment_id ` set rows
    \<and> load_replay (pa_assessment_id pending) = Some (pa_replay pending) \<and> reviewable (pa_replay pending)
    \<and> (\<forall>row \<in> set rows. \<forall>replay. load_replay (row_assessment_id row) = Some replay \<longrightarrow> reviewable replay \<longrightarrow>
         replay_digest (row_assessment_id row) replay
           = replay_digest (pa_assessment_id pending) (pa_replay pending))"
proof -
  from assms obtain digest where
    loop: "select_loop load_replay False (map row_assessment_id rows) [] = Inr [(digest, pending)]"
    and valid: "chain_valid"
    by (auto simp: select_pending_approval_def split: if_splits sum.splits list.splits)
  note sound = select_loop_sound [OF loop, of "[]", simplified]
  then have "pending_ok load_replay (map row_assessment_id rows) (digest, pending)" by simp
  then have ok: "pa_assessment_id pending \<in> row_assessment_id ` set rows"
      "load_replay (pa_assessment_id pending) = Some (pa_replay pending)" "reviewable (pa_replay pending)"
      "digest = replay_digest (pa_assessment_id pending) (pa_replay pending)"
    by (auto simp: pending_ok_def)
  with sound valid show ?thesis by auto
qed

lemma selected_candidate_is_unambiguous_witness:
  "\<exists>pending. select_pending_approval True [[(''assessment_id'', VStr ''asm_1'')]]
      (\<lambda>_. Some (pa_replay reviewed_pending)) None = Inr pending
    \<and> reviewable (pa_replay pending)"
proof -
  have v: "candidate_binding_is_valid (VDict [(''algorithm'', VStr CANDIDATE_BINDING_ALGORITHM),
      (''files'', VDict [(''src/a.py'', VStr (sha256_hex []))])])"
    by (simp add: binding_file_ok_def sha256_hex_is_digest)
  have "\<exists>pending. select_pending_approval True [[(''assessment_id'', VStr ''asm_1'')]]
      (\<lambda>_. Some (pa_replay reviewed_pending)) None = Inr pending"
    using v
    by (simp add: select_pending_approval_def reviewed_pending_def reviewed_record_def review_eligible_def
        packet_binding_def valid_packet_def summary_def row_assessment_id_def sub_dict_def or_dict_def
        or_list_def gates_of_def first_action_def single_action_def Let_def
        del: candidate_binding_is_valid.simps)
  with selected_candidate_is_unambiguous show ?thesis by blast
qed

end
