(* ===== verification/Pebra_Verify.thy ===== *)
theory Pebra_Verify
  imports Pebra_Guardrails Pebra_Aggregation Pebra_Human_Approval
begin

text \<open>
  The verification of an edit at the commit boundary: \<open>pebra/app/verify_controller.py\<close> with the
  guardrail ledger of \<open>pebra/adapters/store/db.py\<close> it writes to and the sanction ledger it reads and
  invalidates.

  The stored assessment is a JSON value; a missing key is \<open>KeyError\<close>. The lists of its binding are
  lists of strings (\<open>risky_scope\<close> of dictionaries), as the packet is built; another element is
  reported as \<open>TypeError\<close>. The actual diff and the contract findings come from ports and are
  arguments, as are \<open>json.dumps\<close>, \<open>json.loads\<close>, the clock (\<open>recorded_at\<close>) and the wording of a reason.
\<close>

section \<open>The guardrail ledger\<close>

record guardrail_row =
  gw_id :: nat
  gw_assessment_id :: nat
  gw_recorded_at :: string
  gw_guardrails_json :: string
  gw_prev_hash :: string
  gw_row_hash :: string

definition guardrail_canonical :: "(pyval dict \<Rightarrow> string) \<Rightarrow> nat \<Rightarrow> string \<Rightarrow> pyval dict \<Rightarrow> string" where
  "guardrail_canonical dumps row_id recorded_at guardrails =
     dumps [(''assessment_id'', VInt (int row_id)), (''recorded_at'', VStr recorded_at),
            (''guardrails'', VDict guardrails)]"

definition guardrail_content :: "(pyval dict \<Rightarrow> string) \<Rightarrow> (string \<Rightarrow> pyval dict) \<Rightarrow> guardrail_row \<Rightarrow> string" where
  "guardrail_content dumps loads row =
     guardrail_canonical dumps (gw_assessment_id row) (gw_recorded_at row) (loads (gw_guardrails_json row))"

definition validate_guardrail_chain ::
  "(pyval dict \<Rightarrow> string) \<Rightarrow> (string \<Rightarrow> pyval dict) \<Rightarrow> guardrail_row list \<Rightarrow> bool" where
  "validate_guardrail_chain dumps loads rows =
     chain_from (guardrail_content dumps loads) gw_prev_hash gw_row_hash GENESIS rows"

interpretation guardrail_table: chained_table "guardrail_content dumps loads" gw_prev_hash gw_row_hash
    "validate_guardrail_chain dumps loads"
  for dumps loads
  unfolding validate_guardrail_chain_def
  by unfold_locales (simp_all only: chain.valid_Nil chain.valid_snoc)

definition last_guardrail_hash :: "guardrail_row list \<Rightarrow> string" where
  "last_guardrail_hash rows = chain_last gw_row_hash rows"

text \<open>\<open>assessment_id.split("_", 1)\<close>, the second part a number.\<close>

definition row_id :: "string \<Rightarrow> nat res" where
  "row_id assessment_id =
     (case dropWhile (\<lambda>c. c \<noteq> CHR ''_'') assessment_id of
        [] \<Rightarrow> Inl (KeyError ''invalid assessment id format'')
      | _ # digits \<Rightarrow>
          if digits \<noteq> [] \<and> list_all is_digit digits then Inr (number_of_digits 10 digits)
          else Inl (KeyError ''invalid assessment id format''))"

definition persist_guardrails ::
  "(pyval dict \<Rightarrow> string) \<Rightarrow> string \<Rightarrow> string \<Rightarrow> pyval dict \<Rightarrow> guardrail_row list
    \<Rightarrow> (string \<times> guardrail_row list) res" where
  "persist_guardrails dumps recorded_at assessment_id guardrails rows =
     rbind (row_id assessment_id) (\<lambda>i.
       let content_json = guardrail_canonical dumps i recorded_at guardrails;
           prev_hash = last_guardrail_hash rows;
           new_id = (if rows = [] then 1 else Suc (gw_id (last rows)))
       in Inr (''pag_'' @ show_nat new_id,
               rows @ [\<lparr>gw_id = new_id, gw_assessment_id = i, gw_recorded_at = recorded_at,
                        gw_guardrails_json = dumps guardrails, gw_prev_hash = prev_hash,
                        gw_row_hash = row_hash prev_hash content_json\<rparr>]))"

section \<open>Reading the stored assessment\<close>

definition item :: "pyval dict \<Rightarrow> string \<Rightarrow> pyval res" where
  "item d k = (case map_of d k of None \<Rightarrow> Inl (KeyError k) | Some v \<Rightarrow> Inr v)"

definition item_dict :: "pyval dict \<Rightarrow> string \<Rightarrow> pyval dict res" where
  "item_dict d k =
     rbind (item d k) (\<lambda>v. case v of VDict e \<Rightarrow> Inr e | _ \<Rightarrow> Inl (TypeError ''object is not subscriptable''))"

fun all_strs :: "pyval list \<Rightarrow> string list res" where
  "all_strs [] = Inr []"
| "all_strs (VStr s # vs) = rbind (all_strs vs) (\<lambda>ss. Inr (s # ss))"
| "all_strs (_ # vs) = Inl (TypeError ''not a string'')"

fun all_dicts :: "pyval list \<Rightarrow> pyval dict list res" where
  "all_dicts [] = Inr []"
| "all_dicts (VDict d # vs) = rbind (all_dicts vs) (\<lambda>ds. Inr (d # ds))"
| "all_dicts (_ # vs) = Inl (TypeError ''not a dictionary'')"

definition str_list :: "pyval \<Rightarrow> string list res" where
  "str_list v = rbind (py_list v) all_strs"

section \<open>The controller\<close>

definition triggered_signals :: "actual_diff_summary \<Rightarrow> string list \<Rightarrow> string list" where
  "triggered_signals actual contract_changes =
     (if ad_dependency_changed actual then [''dependency_changed''] else [])
     @ (if ad_schema_changed actual then [''schema_changed''] else [])
     @ (if ad_migration_changed actual then [''migration_changed''] else [])
     @ (if contract_changes \<noteq> [] then [''contract_change''] else [])"

text \<open>The first gate entry of the sanction that converted the decision, and the assessment it names.\<close>

fun sanction_gate :: "pyval list \<Rightarrow> pyval dict option res" where
  "sanction_gate [] = Inr None"
| "sanction_gate (VDict entry # gates) =
     (if dict_get entry ''name'' VNone = VStr ''sanction_resolution'' then Inr (Some entry)
      else sanction_gate gates)"
| "sanction_gate (_ # gates) = Inl (AttributeError ''object has no attribute get'')"

definition sanction_origin :: "pyval dict option \<Rightarrow> string option" where
  "sanction_origin gate =
     (case gate of
        None \<Rightarrow> None
      | Some entry \<Rightarrow> nonempty_str (dict_get entry ''sanction_assessment_id'' VNone))"

text \<open>The sanction that governs the assessment, and the assessment it is recorded under.\<close>

definition governing_sanction ::
  "(string \<Rightarrow> pyval dict) \<Rightarrow> string \<Rightarrow> pyval dict \<Rightarrow> sanction_row list
    \<Rightarrow> (pyval dict option \<times> string) res" where
  "governing_sanction loads assessment_id stored rows =
     (case active_sanction_for_assessment loads assessment_id rows of
        Some sanction \<Rightarrow> Inr (Some sanction, assessment_id)
      | None \<Rightarrow>
          if dict_get stored ''risk_mode'' VNone \<noteq> VStr ''controlled_high_risk''
          then Inr (None, assessment_id)
          else
            rbind (py_list (dict_get stored ''gates_fired'' (VList []))) (\<lambda>gates.
            rbind (sanction_gate gates) (\<lambda>gate.
              case sanction_origin gate of
                None \<Rightarrow> Inr (None, assessment_id)
              | Some origin \<Rightarrow>
                  (case active_sanction_for_assessment loads origin rows of
                     None \<Rightarrow> Inr (None, assessment_id)
                   | Some sanction \<Rightarrow> Inr (Some sanction, origin)))))"

fun add_checks :: "string list \<Rightarrow> string list \<Rightarrow> string list" where
  "add_checks required [] = required"
| "add_checks required (check # checks) =
     add_checks (if check \<in> set required then required else required @ [check]) checks"

definition with_sanction_controls :: "string list \<Rightarrow> pyval dict option \<Rightarrow> string list res" where
  "with_sanction_controls required sanction =
     (case sanction of
        None \<Rightarrow> Inr required
      | Some s \<Rightarrow>
          if s = [] then Inr required
          else rbind (str_list (dict_get s ''pre_commit_required_controls'' (VList []))) (\<lambda>controls.
            Inr (add_checks required controls)))"

text \<open>The parts of the stored binding, in the order they are read.\<close>

record stored_binding =
  sb_safe_scope_files :: "string list"
  sb_risky_scope :: "pyval dict list"
  sb_required_checks :: "string list"
  sb_requires_dry_run :: bool

definition read_binding :: "pyval dict \<Rightarrow> stored_binding res" where
  "read_binding stored =
     rbind (item_dict stored ''model_guidance_packet'') (\<lambda>packet.
     rbind (item_dict packet ''binding'') (\<lambda>binding.
     rbind (item_dict binding ''safe_scope'') (\<lambda>safe_scope.
     rbind (rbind (item safe_scope ''files'') str_list) (\<lambda>safe_files.
     rbind (rbind (py_list (dict_get binding ''risky_scope'' (VList []))) all_dicts) (\<lambda>risky.
     rbind (str_list (dict_get binding ''required_checks_before_commit'' (VList []))) (\<lambda>required.
       Inr \<lparr>sb_safe_scope_files = safe_files, sb_risky_scope = risky, sb_required_checks = required,
            sb_requires_dry_run = truthy (dict_get binding ''requires_dry_run'' (VBool False))\<rparr>))))))"

definition verify_input ::
  "pyval dict \<Rightarrow> stored_binding \<Rightarrow> string list \<Rightarrow> actual_diff_summary \<Rightarrow> string list \<Rightarrow> string dict \<Rightarrow> bool
    \<Rightarrow> guardrail_input res" where
  "verify_input stored binding required actual contract_changes completed preview =
     rbind (item_dict stored ''scores'') (\<lambda>scores.
     rbind (item_dict scores ''symbol_scope_evidence'') (\<lambda>sse.
     rbind (item sse ''max_change_kind'') (\<lambda>kind.
       Inr \<lparr>gi_assessed_commit = opt_str (dict_get stored ''assessed_commit'' VNone),
            gi_current_head = ad_current_head actual,
            gi_safe_scope_files = sb_safe_scope_files binding,
            gi_changed_files = ad_changed_files actual,
            gi_dependency_changed = ad_dependency_changed actual,
            gi_schema_changed = ad_schema_changed actual,
            gi_migration_changed = ad_migration_changed actual,
            gi_pre_edit_max_change_kind = vstr_of kind,
            gi_actual_max_change_kind = ad_actual_max_change_kind actual,
            gi_actual_changed_symbols = ad_actual_changed_symbols actual,
            gi_contract_surface_changes = contract_changes,
            gi_risky_scope = sb_risky_scope binding,
            gi_triggered_signals = triggered_signals actual contract_changes,
            gi_required_checks = required,
            gi_completed_checks = completed,
            gi_requires_dry_run = sb_requires_dry_run binding,
            gi_dry_run_preview_present = preview,
            gi_policy_forbidden = False,
            gi_reclassification_attempted = ad_reclassification_attempted actual,
            gi_pre_edit_consequential = truthy (dict_get sse ''consequential_symbol_changed'' (VBool False)),
            gi_actual_consequential = ad_actual_consequential_symbol_changed actual,
            gi_pre_edit_structure_tier = vstr_of (dict_get sse ''structure_tier'' (VStr ''unavailable'')),
            gi_actual_structure_tier = ad_actual_structure_tier actual\<rparr>)))"

definition result_to_dict :: "(guardrail_reason \<Rightarrow> string) \<Rightarrow> guardrail_result \<Rightarrow> pyval dict" where
  "result_to_dict wording r =
     [(''evidence_freshness'', VStr (gr_evidence_freshness r)),
      (''assessed_commit'', vopt (gr_assessed_commit r)),
      (''current_head'', vopt (gr_current_head r)),
      (''scope_drift_detected'', VBool (gr_scope_drift_detected r)),
      (''unexpected_files'', vstrs (gr_unexpected_files r)),
      (''pre_edit_symbol_diff_summary'', VStr (gr_pre_edit_symbol_diff_summary r)),
      (''actual_symbol_diff_summary'', VStr (gr_actual_symbol_diff_summary r)),
      (''symbol_change_mismatch'', VBool (gr_symbol_change_mismatch r)),
      (''contract_surface_changes'', vstrs (gr_contract_surface_changes r)),
      (''dry_run_required'', VBool (gr_dry_run_required r)),
      (''classification_failed'', VBool (gr_classification_failed r)),
      (''pre_commit_decision'', VStr (decision_value (gr_pre_commit_decision r))),
      (''reasons'', vstrs (map wording (gr_reasons r))),
      (''safe_scope_status'', VStr (gr_safe_scope_status r)),
      (''risky_scope_triggered'', VList (gr_risky_scope_triggered r)),
      (''risky_scope_actions_triggered'', VList (gr_risky_scope_actions_triggered r)),
      (''completed_checks'', vchecks (gr_completed_checks r)),
      (''missing_checks'', vstrs (gr_missing_checks r)),
      (''failed_checks'', vstrs (gr_failed_checks r)),
      (''necessity_evidence_present'', VBool (gr_necessity_evidence_present r)),
      (''newly_consequential'', VBool (gr_newly_consequential r)),
      (''verify_decision'', VStr (gr_verify_decision r))]"

definition measured_benefit :: "actual_diff_summary \<Rightarrow> benefit_breakdown" where
  "measured_benefit actual =
     resolve_benefit (vreal 0) (map (\<lambda>(k, x). (k, vreal x)) (ad_measured_benefit_deltas actual))
       ''measured'' (vreal (if ad_measured_benefit_deltas actual \<noteq> [] then 1 else 0)) None"

definition drift :: "guardrail_result \<Rightarrow> bool" where
  "drift r =
     (gr_scope_drift_detected r \<or> gr_symbol_change_mismatch r \<or> gr_evidence_freshness r \<noteq> ''fresh''
      \<or> gr_classification_failed r)"

record verify_ledger =
  vl_sanctions :: "sanction_row list"
  vl_guardrails :: "guardrail_row list"

record verify_outcome =
  vo_result :: guardrail_result
  vo_guardrails_id :: string
  vo_invalidated_sanctions :: "string list"
  vo_measured_benefit :: real

text \<open>The guardrails row is written, then drift invalidates the sanction.\<close>

definition record_verification ::
  "(pyval dict \<Rightarrow> string) \<Rightarrow> (guardrail_reason \<Rightarrow> string) \<Rightarrow> string \<Rightarrow> string \<Rightarrow> string \<Rightarrow> actual_diff_summary
    \<Rightarrow> guardrail_result \<Rightarrow> verify_ledger \<Rightarrow> (verify_outcome \<times> verify_ledger) res" where
  "record_verification dumps wording recorded_at assessment_id sanction_assessment_id actual result ledger =
     (let benefit = bb_benefit (measured_benefit actual);
          guardrails = result_to_dict wording result
            @ [(''measured_benefit'', vreal benefit),
               (''measured_benefit_deltas'',
                VDict (map (\<lambda>(k, x). (k, vreal x)) (ad_measured_benefit_deltas actual)))]
      in rbind (persist_guardrails dumps recorded_at assessment_id guardrails (vl_guardrails ledger))
           (\<lambda>(guardrails_id, rows).
             let revoked =
                   (if drift result
                    then invalidate_sanctions_for_assessment sanction_assessment_id
                           (''verify drift: '' @ decision_value (gr_pre_commit_decision result))
                           (vl_sanctions ledger)
                    else ([], vl_sanctions ledger))
             in Inr (\<lparr>vo_result = result, vo_guardrails_id = guardrails_id,
                      vo_invalidated_sanctions = fst revoked, vo_measured_benefit = benefit\<rparr>,
                     \<lparr>vl_sanctions = snd revoked, vl_guardrails = rows\<rparr>)))"

text \<open>The whole use case. An error leaves the ledgers as they are.\<close>

definition verify ::
  "(pyval dict \<Rightarrow> string) \<Rightarrow> (string \<Rightarrow> pyval dict) \<Rightarrow> (guardrail_reason \<Rightarrow> string) \<Rightarrow> string
    \<Rightarrow> (string \<Rightarrow> pyval dict res) \<Rightarrow> string \<Rightarrow> string dict \<Rightarrow> bool \<Rightarrow> actual_diff_summary \<Rightarrow> string list
    \<Rightarrow> verify_ledger \<Rightarrow> (verify_outcome \<times> verify_ledger) res" where
  "verify dumps loads wording recorded_at load_assessment assessment_id completed preview actual
       contract_changes ledger =
     rbind (load_assessment assessment_id) (\<lambda>stored.
     rbind (read_binding stored) (\<lambda>binding.
     rbind (governing_sanction loads assessment_id stored (vl_sanctions ledger)) (\<lambda>(sanction, sanction_assessment_id).
     rbind (with_sanction_controls (sb_required_checks binding) sanction) (\<lambda>required.
     rbind (verify_input stored binding required actual contract_changes completed preview) (\<lambda>inp.
     rbind (evaluate inp) (\<lambda>result.
       record_verification dumps wording recorded_at assessment_id sanction_assessment_id actual result ledger))))))"

section \<open>Lemmas\<close>

lemma set_add_checks: "set (add_checks required checks) = set required \<union> set checks"
  by (induction required checks rule: add_checks.induct) auto

lemma drift_not_cleared:
  assumes "evaluate inp = Inr r" and "drift r"
  shows "gr_pre_commit_decision r \<noteq> PROCEED"
proof -
  have "gr_scope_drift_detected r = (unexpected_files inp \<noteq> [] \<or> broad_drift inp \<or> symbol_change_mismatch inp)"
    "gr_symbol_change_mismatch r = symbol_change_mismatch inp"
    "gr_evidence_freshness r = fst (freshness_rule inp)" "gr_classification_failed r = classification_failed inp"
    using assms(1) by (auto simp: evaluate_def rbind_Inr_iff Let_def)
  with assms(2) have "unexpected_files inp \<noteq> [] \<or> broad_drift inp \<or> symbol_change_mismatch inp
      \<or> classification_failed inp \<or> snd (freshness_rule inp) \<noteq> []"
    by (auto simp: drift_def freshness_rule_def split: option.splits if_splits)
  then have "all_findings inp (risky_findings inp) \<noteq> []"
    by (auto simp: all_findings_def envelope_rules_def)
  moreover have "gr_pre_commit_decision r = PROCEED \<longleftrightarrow> map snd (all_findings inp (risky_findings inp)) = []"
    unfolding evaluate_decision [OF assms(1)]
    using findings_stop [of inp] by (intro first_max_bottom) (auto simp: image_iff)
  ultimately show ?thesis by simp
qed

lemma record_verification_sanctions:
  assumes "record_verification dumps wording recorded_at assessment_id origin actual result ledger
      = Inr (out, ledger')"
  shows "vo_result out = result"
    and "vl_sanctions ledger' = (if drift result
       then snd (invalidate_sanctions_for_assessment origin
              (''verify drift: '' @ decision_value (gr_pre_commit_decision result)) (vl_sanctions ledger))
       else vl_sanctions ledger)"
  using assms
  by (auto simp: record_verification_def rbind_Inr_iff Let_def split: prod.splits if_splits)

text \<open>The parts of a successful verification.\<close>

lemma verify_cases:
  assumes "verify dumps loads wording recorded_at load_assessment assessment_id completed preview actual
      contract_changes ledger = Inr (out, ledger')"
  obtains stored binding sanction origin required inp where
    "load_assessment assessment_id = Inr stored" "read_binding stored = Inr binding"
    "governing_sanction loads assessment_id stored (vl_sanctions ledger) = Inr (sanction, origin)"
    "with_sanction_controls (sb_required_checks binding) sanction = Inr required"
    "verify_input stored binding required actual contract_changes completed preview = Inr inp"
    "evaluate inp = Inr (vo_result out)"
    "vl_sanctions ledger' = (if drift (vo_result out)
       then snd (invalidate_sanctions_for_assessment origin
              (''verify drift: '' @ decision_value (gr_pre_commit_decision (vo_result out))) (vl_sanctions ledger))
       else vl_sanctions ledger)"
proof -
  from assms obtain stored binding sanction origin required inp result where
    parts: "load_assessment assessment_id = Inr stored" "read_binding stored = Inr binding"
    "governing_sanction loads assessment_id stored (vl_sanctions ledger) = Inr (sanction, origin)"
    "with_sanction_controls (sb_required_checks binding) sanction = Inr required"
    "verify_input stored binding required actual contract_changes completed preview = Inr inp"
    "evaluate inp = Inr result"
    and rest: "record_verification dumps wording recorded_at assessment_id origin actual result ledger
      = Inr (out, ledger')"
    by (auto simp: verify_def rbind_Inr_iff split: prod.splits)
  note r = record_verification_sanctions [OF rest]
  show thesis
    by (rule that [OF parts(1-5)]) (use parts(6) r in simp_all)
qed

section \<open>Properties\<close>

text \<open>
  A controlled-high-risk assessment \<open>asm_2\<close> whose sanction was given for \<open>asm_1\<close> and requires a
  rollback plan, and a diff that stays in its scope.
\<close>

definition controlled_record :: "pyval dict" where
  "controlled_record =
     [(''risk_mode'', VStr ''controlled_high_risk''), (''assessed_commit'', VStr ''c1''),
      (''gates_fired'', VList [VDict [(''gate'', VInt 10), (''name'', VStr ''sanction_resolution''),
         (''sanction_assessment_id'', VStr ''asm_1'')]]),
      (''model_guidance_packet'', VDict [(''binding'', VDict
         [(''safe_scope'', VDict [(''files'', vstrs [''a.py''])])])]),
      (''scores'', VDict [(''symbol_scope_evidence'', VDict [(''max_change_kind'', VStr ''BEHAVIORAL'')])])]"

definition diff_at :: "string \<Rightarrow> actual_diff_summary" where
  "diff_at head =
     \<lparr>ad_current_head = Some head, ad_changed_files = [''a.py''], ad_dependency_changed = False,
      ad_schema_changed = False, ad_migration_changed = False, ad_actual_max_change_kind = ''BEHAVIORAL'',
      ad_actual_changed_symbols = [''f''], ad_actual_consequential_symbol_changed = False,
      ad_actual_consequence_reason = [], ad_measured_benefit_deltas = [],
      ad_reclassification_attempted = True, ad_actual_structure_tier = ''unavailable''\<rparr>"

definition rollback_sanction :: "pyval dict" where
  "rollback_sanction =
     [(''assessment_id'', VStr ''asm_1''), (''pre_commit_required_controls'', vstrs [''rollback_plan''])]"

definition sanctioned_ledger :: verify_ledger where
  "sanctioned_ledger =
     \<lparr>vl_sanctions = snd (create_sanction (\<lambda>_. ''{}'') ''repo'' rollback_sanction []), vl_guardrails = []\<rparr>"

definition verify_at :: "string \<Rightarrow> verify_ledger \<Rightarrow> (verify_outcome \<times> verify_ledger) res" where
  "verify_at head ledger =
     verify (\<lambda>_. ''{}'') (\<lambda>_. rollback_sanction) (\<lambda>_. []) ''t'' (\<lambda>_. Inr controlled_record) ''asm_2'' [] False
       (diff_at head) [] ledger"

lemmas verify_eval =
  verify_at_def verify_def controlled_record_def diff_at_def read_binding_def item_dict_def item_def
  str_list_def governing_sanction_def active_sanction_for_assessment_def sanctioned_ledger_def
  create_sanction_def rollback_sanction_def live_def sanction_origin_def with_sanction_controls_def
  verify_input_def triggered_signals_def evaluate_def risky_start_def all_findings_def freshness_rule_def
  envelope_rules_def commit_rules_def unexpected_files_def is_covered_def covers_def GLOB_SCOPE_PREFIX_def
  broad_drift_def symbol_change_mismatch_def classification_failed_def newly_consequential_def
  semantic_not_reproduced_def dry_run_required_def missing_checks_def failed_checks_def fired_def
  record_verification_def persist_guardrails_def row_id_def is_digit_def drift_def
  invalidate_sanctions_for_assessment_def bound_live_def Let_def

lemma verify_stale: "\<exists>out ledger. verify_at ''c2'' sanctioned_ledger = Inr (out, ledger)
    \<and> drift (vo_result out) \<and> map se_status (vl_sanctions ledger) = [INVALIDATED]
    \<and> map se_assessment_id (vl_sanctions ledger) = [Some ''asm_1'']"
  by (simp add: verify_eval)

lemma verify_fresh: "\<exists>out ledger. verify_at ''c1'' sanctioned_ledger = Inr (out, ledger)
    \<and> \<not> drift (vo_result out) \<and> gr_pre_commit_decision (vo_result out) = TEST_FIRST"
  by (simp add: verify_eval)

lemma governing_demo:
  "governing_sanction (\<lambda>_. rollback_sanction) ''asm_2'' controlled_record (vl_sanctions sanctioned_ledger)
    = Inr (Some rollback_sanction, ''asm_1'')"
  by (simp add: verify_eval)

text \<open>C19: Drift ends an approval: if the actual diff left the approved profile (scope drift, a more severe
  change, evidence that is not fresh, an unclassifiable diff), the commit is not cleared and no live
  sanction is left for the assessment that carried the approval; without drift the sanctions are
  untouched.\<close>

theorem drift_revokes_the_sanction:
  assumes "verify dumps loads wording recorded_at load_assessment assessment_id completed preview actual
      contract_changes ledger = Inr (out, ledger')"
    and "load_assessment assessment_id = Inr stored"
    and "governing_sanction loads assessment_id stored (vl_sanctions ledger) = Inr (sanction, origin)"
  shows "(if drift (vo_result out)
     then gr_pre_commit_decision (vo_result out) \<noteq> PROCEED
       \<and> active_sanction_for_assessment loads origin (vl_sanctions ledger') = None
     else vl_sanctions ledger' = vl_sanctions ledger)"
proof -
  from assms(1) obtain stored' binding sanction' origin' required inp where
    v: "load_assessment assessment_id = Inr stored'"
    "governing_sanction loads assessment_id stored' (vl_sanctions ledger) = Inr (sanction', origin')"
    "evaluate inp = Inr (vo_result out)"
    "vl_sanctions ledger' = (if drift (vo_result out)
       then snd (invalidate_sanctions_for_assessment origin'
              (''verify drift: '' @ decision_value (gr_pre_commit_decision (vo_result out))) (vl_sanctions ledger))
       else vl_sanctions ledger)"
    by (rule verify_cases)
  with assms(2,3) have "origin' = origin" by simp
  with v drift_not_cleared [OF v(3)] show ?thesis
    by (simp add: invalidated_none_active)
qed

lemma drift_revokes_the_sanction_witness:
  "\<exists>out ledger. verify_at ''c2'' sanctioned_ledger = Inr (out, ledger)
    \<and> active_sanction_for_assessment (\<lambda>_. rollback_sanction) ''asm_1'' (vl_sanctions ledger) = None"
proof -
  obtain out ledger where v: "verify_at ''c2'' sanctioned_ledger = Inr (out, ledger)" "drift (vo_result out)"
    using verify_stale by blast
  from drift_revokes_the_sanction [OF v(1) [unfolded verify_at_def] refl governing_demo] v show ?thesis
    by auto
qed

text \<open>The controls of a sanction are enforced at the commit boundary: while the sanction that governs
  the assessment is live, the commit is not cleared before each of its controls is recorded as run.\<close>

theorem sanction_controls_enforced:
  assumes "verify dumps loads wording recorded_at load_assessment assessment_id completed preview actual
      contract_changes ledger = Inr (out, ledger')"
    and "load_assessment assessment_id = Inr stored"
    and "governing_sanction loads assessment_id stored (vl_sanctions ledger) = Inr (Some sanction, origin)"
    and "dict_get sanction ''pre_commit_required_controls'' (VList []) = vstrs controls"
    and "control \<in> set controls" and "\<not> dict_has completed control"
  shows "gr_pre_commit_decision (vo_result out) \<noteq> PROCEED"
proof -
  from assms(1) obtain stored' binding sanction' origin' required inp where
    v: "load_assessment assessment_id = Inr stored'"
    "governing_sanction loads assessment_id stored' (vl_sanctions ledger) = Inr (sanction', origin')"
    "with_sanction_controls (sb_required_checks binding) sanction' = Inr required"
    "verify_input stored' binding required actual contract_changes completed preview = Inr inp"
    "evaluate inp = Inr (vo_result out)"
    by (rule verify_cases)
  have strs: "all_strs (map VStr xs) = Inr xs" for xs by (induction xs) simp_all
  have "sanction' = Some sanction" using v(1,2) assms(2,3) by simp
  moreover have "sanction \<noteq> []" using assms(4,5) by auto
  ultimately have "required = add_checks (sb_required_checks binding) controls"
    using v(3) assms(4) by (simp add: with_sanction_controls_def str_list_def strs)
  then have "control \<in> set required" using assms(5) by (simp add: set_add_checks)
  moreover have "gi_required_checks inp = required" "gi_completed_checks inp = completed"
    using v(4) by (auto simp: verify_input_def rbind_Inr_iff)
  ultimately have "\<not> list_all (dict_has (gi_completed_checks inp)) (gi_required_checks inp)"
    using assms(6) by (auto simp: list_all_iff)
  then show ?thesis using cleared_inside_envelope [OF v(5)] by blast
qed

lemma sanction_controls_enforced_witness:
  "\<exists>out ledger. verify_at ''c1'' sanctioned_ledger = Inr (out, ledger)
    \<and> gr_pre_commit_decision (vo_result out) \<noteq> PROCEED"
proof -
  obtain out ledger where v: "verify_at ''c1'' sanctioned_ledger = Inr (out, ledger)"
    using verify_fresh by blast
  have "dict_get rollback_sanction ''pre_commit_required_controls'' (VList []) = vstrs [''rollback_plan'']"
    by (simp add: rollback_sanction_def)
  from sanction_controls_enforced [OF v [unfolded verify_at_def] refl governing_demo this, of "''rollback_plan''"] v
  show ?thesis by simp
qed

text \<open>A revoked sanction takes its controls along: the controlled-high-risk assessment is held back
  while its sanction lives and the rollback plan is missing, but after one verification at a moved head
  has revoked the sanction, the same verification clears the commit, with no live sanction and no
  rollback plan.\<close>

theorem revoked_sanction_drops_controls:
  "\<exists>held ledger stale revoked cleared ledger'.
     verify_at ''c1'' sanctioned_ledger = Inr (held, ledger)
     \<and> gr_pre_commit_decision (vo_result held) = TEST_FIRST
     \<and> verify_at ''c2'' sanctioned_ledger = Inr (stale, revoked)
     \<and> verify_at ''c1'' revoked = Inr (cleared, ledger')
     \<and> gr_pre_commit_decision (vo_result cleared) = PROCEED"
proof -
  obtain held ledger where held: "verify_at ''c1'' sanctioned_ledger = Inr (held, ledger)"
      "gr_pre_commit_decision (vo_result held) = TEST_FIRST"
    using verify_fresh by blast
  obtain stale revoked where stale: "verify_at ''c2'' sanctioned_ledger = Inr (stale, revoked)"
      "map se_status (vl_sanctions revoked) = [INVALIDATED]"
    using verify_stale by (elim exE conjE) (rule that)
  then obtain row where "vl_sanctions revoked = [row]" "se_status row = INVALIDATED" by auto
  then have "\<exists>cleared ledger'. verify_at ''c1'' revoked = Inr (cleared, ledger')
      \<and> gr_pre_commit_decision (vo_result cleared) = PROCEED"
    by (simp add: verify_eval)
  with held stale show ?thesis by blast
qed

text \<open>Recording a verification keeps the guardrail ledger valid, if JSON reads back what it wrote.\<close>

theorem guardrail_ledger_stays_valid:
  assumes "validate_guardrail_chain dumps loads rows"
    and "persist_guardrails dumps recorded_at assessment_id guardrails rows = Inr (gid, rows')"
    and "loads (dumps guardrails) = guardrails"
  shows "validate_guardrail_chain dumps loads rows'"
proof -
  obtain i where i: "row_id assessment_id = Inr i"
    using assms(2) by (cases "row_id assessment_id") (simp_all add: persist_guardrails_def)
  let ?r = "\<lparr>gw_id = if rows = [] then 1 else Suc (gw_id (last rows)), gw_assessment_id = i,
    gw_recorded_at = recorded_at, gw_guardrails_json = dumps guardrails,
    gw_prev_hash = chain_last gw_row_hash rows,
    gw_row_hash = row_hash (chain_last gw_row_hash rows) (guardrail_canonical dumps i recorded_at guardrails)\<rparr>"
  have "rows' = rows @ [?r]"
    using assms(2) by (simp add: persist_guardrails_def i Let_def last_guardrail_hash_def)
  moreover have "gw_row_hash ?r = row_hash (gw_prev_hash ?r) (guardrail_content dumps loads ?r)"
    by (simp add: guardrail_content_def assms(3))
  ultimately show ?thesis using assms(1) by (simp add: guardrail_table.valid_append_row)
qed

lemma guardrail_ledger_stays_valid_witness:
  "\<exists>gid rows. persist_guardrails (\<lambda>_. ''{}'') ''t'' ''asm_2'' [] [] = Inr (gid, rows)
    \<and> length rows = 1 \<and> validate_guardrail_chain (\<lambda>_. ''{}'') (\<lambda>_. []) rows"
proof -
  have "\<exists>gid rows. persist_guardrails (\<lambda>_. ''{}'') ''t'' ''asm_2'' [] [] = Inr (gid, rows) \<and> length rows = 1"
    by (simp add: persist_guardrails_def row_id_def is_digit_def Let_def)
  then obtain gid rows where p: "persist_guardrails (\<lambda>_. ''{}'') ''t'' ''asm_2'' [] [] = Inr (gid, rows)" "length rows = 1"
    by blast
  have "validate_guardrail_chain (\<lambda>_. ''{}'') (\<lambda>_. []) rows"
    by (rule guardrail_ledger_stays_valid [OF guardrail_table.valid_Nil p(1)]) (rule refl)
  with p show ?thesis by blast
qed

end
