(* ===== verification/Pebra_Request_Validator.thy ===== *)
theory Pebra_Request_Validator
  imports Pebra_Patch_Paths Pebra_Models
begin

text \<open>
  \<open>pebra/core/request_validator.py\<close>: the structural checks a request passes before it is assessed.
  \<open>validate\<close> returns \<open>Inr ()\<close> where the source returns, and the error where it raises;
  \<open>RequestValidationError\<close> is a \<open>ValueError\<close>.
\<close>

text \<open>\<open>value.replace("\\", "/").removeprefix("./")\<close>.\<close>

definition request_path :: "string \<Rightarrow> string" where
  "request_path value = remove_prefix (slashes value) ''./''"

definition request_error :: "string \<Rightarrow> 'a res" where
  "request_error msg = Inl (ValueError msg)"

definition validate_patch :: "candidate_action \<Rightarrow> string \<Rightarrow> unit res" where
  "validate_patch action patch =
     rbind (touched_files patch) (\<lambda>raw_touched.
       let touched = map request_path raw_touched;
           expected = map request_path (filter (\<lambda>value. value \<noteq> []) (ca_expected_files action))
       in if touched = [] then request_error ''proposed_patch must be a well-formed unified diff''
          else if list_ex (\<lambda>value. \<not> is_safe_repo_path value) touched
          then request_error ''proposed_patch paths must stay inside the repository''
          else if list_ex (\<lambda>value. \<not> is_safe_repo_path value) expected
          then request_error ''expected_files must stay inside the repository''
          else if set touched \<noteq> set expected
          then request_error ''expected_files must exactly match proposed_patch paths''
          else Inr ())"

fun validate_actions :: "string list \<Rightarrow> candidate_action list \<Rightarrow> unit res" where
  "validate_actions seen [] = Inr ()"
| "validate_actions seen (action # actions) =
     (if ca_id action = [] then request_error ''every candidate action needs an id''
      else if ca_id action \<in> set seen then request_error ''duplicate candidate action id''
      else if ca_action_type action = [] then request_error ''missing action_type''
      else
        rbind (case ca_proposed_patch action of
                 None \<Rightarrow> Inr ()
               | Some patch \<Rightarrow> if patch = [] then Inr () else validate_patch action patch)
          (\<lambda>_. validate_actions (ca_id action # seen) actions))"

definition validate :: "assessment_request \<Rightarrow> unit res" where
  "validate request =
     (if ar_task request = [] \<or> blank (ar_task request)
      then request_error ''task must be a non-empty string''
      else if ar_candidate_actions request = []
      then request_error ''at least one candidate action is required''
      else validate_actions [] (ar_candidate_actions request))"

section \<open>Lemmas\<close>

text \<open>What a validated action guarantees.\<close>

definition action_ok :: "candidate_action \<Rightarrow> bool" where
  "action_ok action \<longleftrightarrow>
     ca_id action \<noteq> [] \<and> ca_action_type action \<noteq> []
     \<and> (\<forall>patch. ca_proposed_patch action = Some patch \<longrightarrow> patch \<noteq> [] \<longrightarrow>
          (\<exists>touched. touched_files patch = Inr touched \<and> touched \<noteq> []
             \<and> list_all (\<lambda>p. is_safe_repo_path (request_path p)) touched
             \<and> set (map request_path touched)
                 = set (map request_path (filter (\<lambda>p. p \<noteq> []) (ca_expected_files action)))))"

lemma validate_patch_ok:
  "validate_patch action patch = Inr () \<longleftrightarrow>
     (\<exists>touched. touched_files patch = Inr touched \<and> touched \<noteq> []
        \<and> list_all (\<lambda>p. is_safe_repo_path (request_path p)) touched
        \<and> set (map request_path touched)
            = set (map request_path (filter (\<lambda>p. p \<noteq> []) (ca_expected_files action))))"
proof (cases "touched_files patch")
  case (Inr touched)
  have "list_all (\<lambda>p. is_safe_repo_path (request_path p)) touched \<longleftrightarrow>
      (\<forall>q \<in> set (map request_path touched). is_safe_repo_path q)"
    by (auto simp: list_all_iff)
  then show ?thesis
    unfolding validate_patch_def Inr rbind_simps Let_def request_error_def list_ex_iff
    by (auto simp del: set_map)
qed (simp add: validate_patch_def)

lemma patch_check_ok:
  "(case ca_proposed_patch action of
      None \<Rightarrow> Inr ()
    | Some patch \<Rightarrow> if patch = [] then Inr () else validate_patch action patch) = Inr ()
   \<longleftrightarrow> (\<forall>patch. ca_proposed_patch action = Some patch \<longrightarrow> patch \<noteq> [] \<longrightarrow> validate_patch action patch = Inr ())"
  by (cases "ca_proposed_patch action") auto

lemma validate_action_ok:
  "validate_actions seen (action # actions) = Inr () \<longleftrightarrow>
     action_ok action \<and> ca_id action \<notin> set seen
     \<and> validate_actions (ca_id action # seen) actions = Inr ()"
proof -
  have "action_ok action \<longleftrightarrow> ca_id action \<noteq> [] \<and> ca_action_type action \<noteq> []
      \<and> (case ca_proposed_patch action of
           None \<Rightarrow> Inr ()
         | Some patch \<Rightarrow> if patch = [] then Inr () else validate_patch action patch) = Inr ()"
    unfolding patch_check_ok validate_patch_ok action_ok_def by (rule refl)
  moreover have "rbind r (\<lambda>_. q) = Inr () \<longleftrightarrow> r = Inr () \<and> q = Inr ()" for r q :: "unit res"
    by (cases r) auto
  ultimately show ?thesis
    by (simp add: request_error_def)
qed

lemma validate_actions_ok:
  "validate_actions seen actions = Inr () \<longleftrightarrow>
     list_all action_ok actions \<and> distinct (map ca_id actions) \<and> set (map ca_id actions) \<inter> set seen = {}"
proof (induction actions arbitrary: seen)
  case (Cons action actions)
  show ?case unfolding validate_action_ok Cons.IH by auto
qed simp

section \<open>Properties\<close>

text \<open>The validator accepts exactly the well-formed requests: a task that is not blank, at least
  one action, distinct action ids, and for every action with a patch that the files the patch touches
  are inside the repository and are exactly the expected files of the action.\<close>

theorem validate_accepts_exactly:
  "validate request = Inr () \<longleftrightarrow>
     \<not> blank (ar_task request) \<and> ar_candidate_actions request \<noteq> []
     \<and> list_all action_ok (ar_candidate_actions request)
     \<and> distinct (map ca_id (ar_candidate_actions request))"
  by (auto simp: validate_def validate_actions_ok request_error_def blank_def)

end
