(* ===== verification/Pebra_Warm_Prior.thy ===== *)
theory Pebra_Warm_Prior
  imports Pebra_Sha256 Pebra_Score_Math Pebra_Samples "HOL-Library.Product_Lexorder"
begin

text \<open>
  \<open>pebra/core/warm_prior.py\<close> and \<open>calibrated_priors.py\<close>: reviewed cold-start priors. A field the request
  did not supply is taken from the most specific matching cell, field by field.
\<close>

section \<open>Cells\<close>

record prior_cell =
  wp_calibration_tag :: string
  wp_sample_size :: int
  wp_action_type :: "string option"
  wp_language :: "string option"
  wp_language_tier :: "string option"
  wp_graph_fact_kind :: "string option"
  wp_graph_event :: "string option"
  wp_graph_risk_source :: "string option"
  wp_graph_provider :: "string option"
  wp_min_graph_confidence :: "pyfloat option"
  wp_p_success :: "pyfloat option"
  wp_p_success_variance :: "pyfloat option"
  wp_p_success_aleatoric_variance :: "pyfloat option"
  wp_review_cost :: "pyfloat option"
  wp_review_cost_variance :: "pyfloat option"
  wp_review_cost_aleatoric_variance :: "pyfloat option"

definition opt_ok :: "('a \<Rightarrow> bool) \<Rightarrow> 'a option \<Rightarrow> bool" where
  "opt_ok P x = (case x of None \<Rightarrow> True | Some y \<Rightarrow> P y)"

definition unit_float :: "pyfloat \<Rightarrow> bool" where
  "unit_float x = (is_finite_float x \<and> 0 \<le> fin_value x \<and> fin_value x \<le> 1)"

definition truthy_string :: "string option \<Rightarrow> bool" where
  "truthy_string x = (x \<notin> {None, Some []})"

definition cell_valid :: "prior_cell \<Rightarrow> bool" where
  "cell_valid cell =
     (wp_sample_size cell > 0 \<and> wp_calibration_tag cell \<noteq> []
      \<and> (truthy_string (wp_action_type cell) \<or> truthy_string (wp_language cell)
         \<or> truthy_string (wp_language_tier cell) \<or> truthy_string (wp_graph_fact_kind cell))
      \<and> opt_ok is_finite_float (wp_p_success cell)
      \<and> opt_ok is_finite_float (wp_p_success_variance cell)
      \<and> opt_ok is_finite_float (wp_p_success_aleatoric_variance cell)
      \<and> opt_ok is_finite_float (wp_review_cost cell)
      \<and> opt_ok is_finite_float (wp_review_cost_variance cell)
      \<and> opt_ok is_finite_float (wp_review_cost_aleatoric_variance cell)
      \<and> opt_ok unit_float (wp_p_success cell)
      \<and> opt_ok nonneg_finite (wp_review_cost cell)
      \<and> opt_ok unit_float (wp_min_graph_confidence cell)
      \<and> opt_ok nonneg_finite (wp_p_success_variance cell)
      \<and> opt_ok nonneg_finite (wp_p_success_aleatoric_variance cell)
      \<and> opt_ok nonneg_finite (wp_review_cost_variance cell)
      \<and> opt_ok nonneg_finite (wp_review_cost_aleatoric_variance cell))"

definition fact_supports :: "prior_cell \<Rightarrow> scoped_graph_risk_fact \<Rightarrow> bool" where
  "fact_supports cell f =
     (Some (sf_fact_kind f) = wp_graph_fact_kind cell
      \<and> opt_ok (\<lambda>e. sf_event f = e) (wp_graph_event cell)
      \<and> opt_ok (\<lambda>s. sf_risk_source f = s) (wp_graph_risk_source cell)
      \<and> is_finite_float (sf_confidence f)
      \<and> (case wp_min_graph_confidence cell of None \<Rightarrow> 0 | Some m \<Rightarrow> fin_value m) \<le> fin_value (sf_confidence f)
      \<and> fin_value (sf_confidence f) \<le> 1
      \<and> sf_owner_node_ids f \<noteq> [])"

definition graph_matches :: "prior_cell \<Rightarrow> assessment_input \<Rightarrow> bool" where
  "graph_matches cell inp =
     (let evidence = ai_candidate_graph_risk_evidence inp
      in ce_status evidence = ''available''
         \<and> (case ca_proposed_patch (ai_action inp) of
              None \<Rightarrow> False
            | Some patch \<Rightarrow> patch \<noteq> [] \<and> ce_verified_patch_hash evidence = Some (sha256_hex patch))
         \<and> opt_ok (\<lambda>p. ce_provider evidence = Some p) (wp_graph_provider cell)
         \<and> list_ex (fact_supports cell) (ce_facts evidence))"

definition cell_matches :: "prior_cell \<Rightarrow> assessment_input \<Rightarrow> bool" where
  "cell_matches cell inp =
     (opt_ok (\<lambda>a. a = ca_action_type (ai_action inp)) (wp_action_type cell)
      \<and> opt_ok (\<lambda>l. lower (strip l) = lower (strip (lc_language (ai_language_capability inp)))) (wp_language cell)
      \<and> opt_ok (\<lambda>t. t = classify_tier (ai_language_capability inp)) (wp_language_tier cell)
      \<and> (wp_graph_fact_kind cell = None \<or> graph_matches cell inp))"

definition specificity :: "prior_cell \<Rightarrow> int \<times> int \<times> string" where
  "specificity cell =
     (of_bool (wp_action_type cell \<noteq> None) + of_bool (wp_language cell \<noteq> None)
        + of_bool (wp_language_tier cell \<noteq> None) + of_bool (wp_graph_fact_kind cell \<noteq> None)
        + of_bool (wp_graph_event cell \<noteq> None) + of_bool (wp_graph_risk_source cell \<noteq> None)
        + of_bool (wp_graph_provider cell \<noteq> None) + of_bool (wp_min_graph_confidence cell \<noteq> None),
      wp_sample_size cell, wp_calibration_tag cell)"

section \<open>Resolution\<close>

definition warm_cell :: "pyval dict \<Rightarrow> string \<Rightarrow> (prior_cell \<Rightarrow> pyfloat option) \<Rightarrow> prior_cell list \<Rightarrow> prior_cell option" where
  "warm_cell explicit field_name field_of cells =
     (if dict_has explicit field_name then None
      else case filter (\<lambda>cell. field_of cell \<noteq> None) cells of
             [] \<Rightarrow> None
           | c # cs \<Rightarrow> Some (first_max specificity c cs))"

definition opt_float :: "pyfloat option \<Rightarrow> pyval" where
  "opt_float x = (case x of None \<Rightarrow> VNone | Some f \<Rightarrow> VFloat f)"

definition source_entry :: "prior_cell \<Rightarrow> pyval dict \<Rightarrow> pyval dict" where
  "source_entry cell extra =
     [(''calibration_tag'', VStr (wp_calibration_tag cell)), (''sample_size'', VInt (wp_sample_size cell)),
      (''action_type'', vopt (wp_action_type cell)), (''language'', vopt (wp_language cell)),
      (''language_tier'', vopt (wp_language_tier cell)), (''graph_fact_kind'', vopt (wp_graph_fact_kind cell)),
      (''graph_event'', vopt (wp_graph_event cell)), (''graph_risk_source'', vopt (wp_graph_risk_source cell)),
      (''graph_provider'', vopt (wp_graph_provider cell)),
      (''min_graph_confidence'', opt_float (wp_min_graph_confidence cell))] @ extra"

text \<open>A selected field: its name, the cell, the new value and the entry of \<open>field_sources\<close>.\<close>

type_synonym warm_choice = "string \<times> prior_cell \<times> real \<times> pyval dict"

definition warm_value ::
  "pyval dict \<Rightarrow> string \<Rightarrow> (prior_cell \<Rightarrow> pyfloat option) \<Rightarrow> prior_cell list \<Rightarrow> warm_choice list" where
  "warm_value explicit field_name field_of cells =
     (case warm_cell explicit field_name field_of cells of
        None \<Rightarrow> []
      | Some cell \<Rightarrow> [(field_name, cell, fin_value (the (field_of cell)), source_entry cell [])])"

definition warm_variance ::
  "pyval dict \<Rightarrow> string \<Rightarrow> (prior_cell \<Rightarrow> pyfloat option) \<Rightarrow> (prior_cell \<Rightarrow> pyfloat option) \<Rightarrow> variance_component
    \<Rightarrow> prior_cell list \<Rightarrow> warm_choice list res" where
  "warm_variance explicit field_name field_of aleatoric_of component cells =
     (case warm_cell explicit field_name field_of cells of
        None \<Rightarrow> Inr []
      | Some cell \<Rightarrow>
          rbind (bound_predictive_variance component (the (field_of cell)) (aleatoric_of cell)
                   (Fin WARM_PRIOR_VARIANCE_FLOOR_RATIO)) (\<lambda>b.
            Inr [(field_name, cell, bv_applied_variance b,
                  source_entry cell
                    [(''epistemic_variance'', vreal (bv_epistemic_variance b)),
                     (''aleatoric_variance'', vnum_opt (bv_aleatoric_variance b)),
                     (''applied_variance'', vreal (bv_applied_variance b)),
                     (''variance_floor'', vreal (bv_variance_floor b)),
                     (''variance_cap'', vreal (bv_variance_cap b))])]))"

definition warm_provenance :: "warm_choice list \<Rightarrow> pyval dict" where
  "warm_provenance choices =
     (let selected = map (\<lambda>(_, cell, _). cell) choices;
          primary = first_max specificity (hd selected) (tl selected)
      in [(''calibration_tag'', VStr (wp_calibration_tag primary)), (''sample_size'', VInt (wp_sample_size primary)),
          (''action_type'', vopt (wp_action_type primary)), (''language'', vopt (wp_language primary)),
          (''language_tier'', vopt (wp_language_tier primary)),
          (''graph_fact_kind'', vopt (wp_graph_fact_kind primary)),
          (''applied_fields'', vstrs (sorted_set (map fst choices))),
          (''field_sources'', VDict (map (\<lambda>(name, _, _, entry). (name, VDict entry)) choices))])"

definition chosen :: "warm_choice list \<Rightarrow> string \<Rightarrow> real option" where
  "chosen choices field_name = map_option (\<lambda>(_, v, _). v) (map_of choices field_name)"

definition warm_update :: "assessment_input \<Rightarrow> warm_choice list \<Rightarrow> assessment_input" where
  "warm_update inp choices =
     inp\<lparr>ai_p_success := (case chosen choices ''p_success'' of
                                 None \<Rightarrow> ai_p_success inp | Some v \<Rightarrow> v),
                              ai_review_cost := (case chosen choices ''review_cost'' of
                                 None \<Rightarrow> ai_review_cost inp | Some v \<Rightarrow> v),
                              ai_p_success_variance := (case chosen choices ''p_success_variance'' of
                                 None \<Rightarrow> ai_p_success_variance inp | Some v \<Rightarrow> Some v),
                              ai_review_cost_variance := (case chosen choices ''review_cost_variance'' of
                                 None \<Rightarrow> ai_review_cost_variance inp | Some v \<Rightarrow> Some v),
                              ai_warm_prior_provenance := Some (warm_provenance choices)\<rparr>"

definition apply_warm_prior :: "assessment_input \<Rightarrow> prior_cell list \<Rightarrow> assessment_input res" where
  "apply_warm_prior inp cells =
     (let matched = filter (\<lambda>cell. cell_valid cell \<and> cell_matches cell inp) cells;
          explicit = ar_evidence (ai_request inp)
      in if matched = [] then Inr inp
         else
           rbind (warm_variance explicit ''p_success_variance'' wp_p_success_variance
                    wp_p_success_aleatoric_variance V_p_success matched) (\<lambda>success_variance.
           rbind (warm_variance explicit ''review_cost_variance'' wp_review_cost_variance
                    wp_review_cost_aleatoric_variance V_review_cost matched) (\<lambda>cost_variance.
             let choices = warm_value explicit ''p_success'' wp_p_success matched
                           @ warm_value explicit ''review_cost'' wp_review_cost matched
                           @ success_variance @ cost_variance
             in if choices = [] then Inr inp
                else Inr (warm_update inp choices))))"

section \<open>The shipped cell\<close>

definition CALIBRATED_PRIORS :: "prior_cell list" where
  "CALIBRATED_PRIORS =
     [\<lparr>wp_calibration_tag = ''zod_single_repo_provisional_v1'', wp_sample_size = 3,
       wp_action_type = Some ''edit'', wp_language = Some ''typescript'', wp_language_tier = Some ''full'',
       wp_graph_fact_kind = Some ''exported_binding_continuity'', wp_graph_event = Some ''public_api_break'',
       wp_graph_risk_source = Some ''graph_modify_risk'', wp_graph_provider = Some ''materialized_codegraph'',
       wp_min_graph_confidence = Some (Fin 0.90), wp_p_success = Some (Fin 0.8),
       wp_p_success_variance = Some (Fin 0.02666666666666667),
       wp_p_success_aleatoric_variance = Some (Fin 0.13333333333333333),
       wp_review_cost = None, wp_review_cost_variance = None, wp_review_cost_aleatoric_variance = None\<rparr>]"

section \<open>Lemmas\<close>

lemma warm_cell_mem:
  "warm_cell explicit name f cells = Some cell \<Longrightarrow> cell \<in> set cells \<and> f cell \<noteq> None \<and> \<not> dict_has explicit name"
proof -
  assume a: "warm_cell explicit name f cells = Some cell"
  then obtain c cs where c: "filter (\<lambda>cell. f cell \<noteq> None) cells = c # cs"
    and cell: "cell = first_max specificity c cs" "\<not> dict_has explicit name"
    by (auto simp: warm_cell_def split: if_splits list.splits)
  have "cell \<in> set (filter (\<lambda>cell. f cell \<noteq> None) cells)"
    unfolding c cell by (rule first_max_mem)
  then show ?thesis using cell by simp
qed

text \<open>A list of at most one choice: of the named field, which the request left open, with a value in \<open>P\<close>.\<close>

definition one_choice :: "pyval dict \<Rightarrow> string \<Rightarrow> (real \<Rightarrow> bool) \<Rightarrow> warm_choice list \<Rightarrow> bool" where
  "one_choice explicit name P choices =
     (choices = [] \<or> (\<exists>cell v e. choices = [(name, cell, v, e)] \<and> \<not> dict_has explicit name \<and> P v))"

lemma warm_value_choice:
  assumes "\<And>cell x. cell \<in> set cells \<Longrightarrow> f cell = Some x \<Longrightarrow> P (fin_value x)"
  shows "one_choice explicit name P (warm_value explicit name f cells)"
proof (cases "warm_cell explicit name f cells")
  case (Some cell)
  from warm_cell_mem [OF this] obtain x where cell: "cell \<in> set cells" "f cell = Some x" "\<not> dict_has explicit name"
    by auto
  then show ?thesis using Some assms [OF cell(1,2)] by (simp add: warm_value_def one_choice_def)
qed (simp add: warm_value_def one_choice_def)

definition warm_variance_ok :: "variance_component \<Rightarrow> real \<Rightarrow> bool" where
  "warm_variance_ok component v =
     (WARM_PRIOR_VARIANCE_FLOOR_RATIO * COLD_START_VARIANCES component \<le> v \<and> v \<le> COLD_START_VARIANCES component)"

lemma warm_variance_choice:
  assumes "\<And>cell. cell \<in> set cells \<Longrightarrow> opt_ok nonneg_finite (f cell) \<and> opt_ok nonneg_finite (g cell)"
  shows "\<exists>choices. warm_variance explicit name f g component cells = Inr choices
    \<and> one_choice explicit name (warm_variance_ok component) choices"
proof (cases "warm_cell explicit name f cells")
  case (Some cell)
  from warm_cell_mem [OF this] obtain x where cell: "cell \<in> set cells" "f cell = Some x" "\<not> dict_has explicit name"
    by auto
  have "\<exists>b. bound_predictive_variance component x (g cell) (Fin WARM_PRIOR_VARIANCE_FLOOR_RATIO) = Inr b"
    using assms [OF cell(1)] cell(2)
    by (auto simp: bound_predictive_variance_def opt_ok_def WARM_PRIOR_VARIANCE_FLOOR_RATIO_def Let_def
        split: option.splits)
  then obtain b where b: "bound_predictive_variance component x (g cell) (Fin WARM_PRIOR_VARIANCE_FLOOR_RATIO) = Inr b"
    by blast
  have "bv_variance_floor b = COLD_START_VARIANCES component * WARM_PRIOR_VARIANCE_FLOOR_RATIO"
    using b by (auto simp: bound_predictive_variance_def Let_def split: if_splits)
  with bound_predictive_variance_within [OF b] have "warm_variance_ok component (bv_applied_variance b)"
    by (simp add: warm_variance_ok_def mult.commute)
  with b cell Some show ?thesis by (simp add: warm_variance_def one_choice_def)
qed (simp add: warm_variance_def one_choice_def)

lemma cell_valid_values:
  assumes "cell_valid cell"
  shows "wp_p_success cell = Some x \<Longrightarrow> 0 \<le> fin_value x \<and> fin_value x \<le> 1"
    and "wp_review_cost cell = Some y \<Longrightarrow> 0 \<le> fin_value y"
    and "opt_ok nonneg_finite (wp_p_success_variance cell) \<and> opt_ok nonneg_finite (wp_p_success_aleatoric_variance cell)"
    and "opt_ok nonneg_finite (wp_review_cost_variance cell) \<and> opt_ok nonneg_finite (wp_review_cost_aleatoric_variance cell)"
  using assms by (cases y; auto simp: cell_valid_def opt_ok_def unit_float_def)+

definition gap_filled :: "pyval dict \<Rightarrow> string \<Rightarrow> (real \<Rightarrow> bool) \<Rightarrow> warm_choice list \<Rightarrow> bool" where
  "gap_filled explicit name P choices =
     (case chosen choices name of None \<Rightarrow> True | Some v \<Rightarrow> \<not> dict_has explicit name \<and> P v)"

text \<open>A warm prior never raises and never replaces a field the request supplied; what it fills in is a
  probability, a cost or a variance between the floor and the cold-start value. Nothing else changes.\<close>

lemma chosen_append: "chosen (xs @ ys) n = (case chosen xs n of None \<Rightarrow> chosen ys n | Some v \<Rightarrow> Some v)"
  by (auto simp: chosen_def map_add_def split: option.splits)

lemma chosen_one_choice:
  "one_choice explicit name P xs \<Longrightarrow>
   (n \<noteq> name \<longrightarrow> chosen xs n = None)
   \<and> (case chosen xs name of None \<Rightarrow> True | Some v \<Rightarrow> \<not> dict_has explicit name \<and> P v)"
  by (auto simp: one_choice_def chosen_def)

lemma gap_filled_append:
  "one_choice explicit name P xs \<Longrightarrow> gap_filled explicit name P ys \<Longrightarrow> gap_filled explicit name P (xs @ ys)"
  "one_choice explicit other Q xs \<Longrightarrow> other \<noteq> name \<Longrightarrow> gap_filled explicit name P ys \<Longrightarrow> gap_filled explicit name P (xs @ ys)"
  "gap_filled explicit name P []"
  using chosen_one_choice [of explicit name P xs] chosen_one_choice [of explicit other Q xs name]
  by (auto simp: gap_filled_def chosen_append chosen_def split: option.splits)

lemma apply_warm_prior_fills_gaps:
  "\<exists>choices. apply_warm_prior inp cells = Inr (if choices = [] then inp else warm_update inp choices)
    \<and> gap_filled (ar_evidence (ai_request inp)) ''p_success'' (\<lambda>v. 0 \<le> v \<and> v \<le> 1) choices
    \<and> gap_filled (ar_evidence (ai_request inp)) ''review_cost'' (\<lambda>v. 0 \<le> v) choices
    \<and> gap_filled (ar_evidence (ai_request inp)) ''p_success_variance'' (warm_variance_ok V_p_success) choices
    \<and> gap_filled (ar_evidence (ai_request inp)) ''review_cost_variance'' (warm_variance_ok V_review_cost) choices"
proof (cases "filter (\<lambda>cell. cell_valid cell \<and> cell_matches cell inp) cells = []")
  case True
  then show ?thesis by (intro exI [of _ "[]"]) (simp add: apply_warm_prior_def gap_filled_append(3))
next
  case False
  define m where "m = filter (\<lambda>cell. cell_valid cell \<and> cell_matches cell inp) cells"
  define e where "e = ar_evidence (ai_request inp)"
  have valid: "cell_valid cell" if "cell \<in> set m" for cell using that by (simp add: m_def)
  define ps where "ps = warm_value e ''p_success'' wp_p_success m"
  define rc where "rc = warm_value e ''review_cost'' wp_review_cost m"
  obtain sv where sv: "warm_variance e ''p_success_variance'' wp_p_success_variance wp_p_success_aleatoric_variance
      V_p_success m = Inr sv" "one_choice e ''p_success_variance'' (warm_variance_ok V_p_success) sv"
    using warm_variance_choice [of m wp_p_success_variance wp_p_success_aleatoric_variance] valid cell_valid_values(3)
    by blast
  obtain cv where cv: "warm_variance e ''review_cost_variance'' wp_review_cost_variance wp_review_cost_aleatoric_variance
      V_review_cost m = Inr cv" "one_choice e ''review_cost_variance'' (warm_variance_ok V_review_cost) cv"
    using warm_variance_choice [of m wp_review_cost_variance wp_review_cost_aleatoric_variance] valid
      cell_valid_values(4) by blast
  have ps: "one_choice e ''p_success'' (\<lambda>v. 0 \<le> v \<and> v \<le> 1) ps"
    unfolding ps_def by (rule warm_value_choice) (use valid cell_valid_values(1) in blast)
  have rc: "one_choice e ''review_cost'' (\<lambda>v. 0 \<le> v) rc"
    unfolding rc_def by (rule warm_value_choice) (use valid cell_valid_values(2) in blast)
  have "apply_warm_prior inp cells = Inr (if ps @ rc @ sv @ cv = [] then inp else warm_update inp (ps @ rc @ sv @ cv))"
    using False
    by (simp only: apply_warm_prior_def Let_def sv(1) cv(1) rbind_simps if_False m_def [symmetric] e_def [symmetric]
        ps_def [symmetric] rc_def [symmetric] if_distrib [of Inr])
  moreover have "gap_filled e ''p_success'' (\<lambda>v. 0 \<le> v \<and> v \<le> 1) (ps @ rc @ sv @ cv @ [])"
    by (intro gap_filled_append(1) [OF ps] gap_filled_append(2) [OF rc] gap_filled_append(2) [OF sv(2)]
        gap_filled_append(2) [OF cv(2)] gap_filled_append(3)) simp_all
  moreover have "gap_filled e ''review_cost'' (\<lambda>v. 0 \<le> v) (ps @ rc @ sv @ cv @ [])"
    by (intro gap_filled_append(2) [OF ps] gap_filled_append(1) [OF rc] gap_filled_append(2) [OF sv(2)]
        gap_filled_append(2) [OF cv(2)] gap_filled_append(3)) simp_all
  moreover have "gap_filled e ''p_success_variance'' (warm_variance_ok V_p_success) (ps @ rc @ sv @ cv @ [])"
    by (intro gap_filled_append(2) [OF ps] gap_filled_append(2) [OF rc] gap_filled_append(1) [OF sv(2)]
        gap_filled_append(2) [OF cv(2)] gap_filled_append(3)) simp_all
  moreover have "gap_filled e ''review_cost_variance'' (warm_variance_ok V_review_cost) (ps @ rc @ sv @ cv @ [])"
    by (intro gap_filled_append(2) [OF ps] gap_filled_append(2) [OF rc] gap_filled_append(2) [OF sv(2)]
        gap_filled_append(1) [OF cv(2)] gap_filled_append(3)) simp_all
  ultimately show ?thesis unfolding e_def append_Nil2 by blast
qed

end
