(* ===== verification/Pebra_Float_Arith.thy ===== *)
theory Pebra_Float_Arith
  imports Pebra_Base
begin

text \<open>
  Python's float arithmetic on \<open>pyfloat\<close>: exact on finite numbers, with the IEEE rules for infinities and
  NaN (one zero; division and square root only where the code cannot raise). It is used where a value
  from outside reaches a computation unchecked.
\<close>

fun float_neg :: "pyfloat \<Rightarrow> pyfloat" where
  "float_neg (Fin x) = Fin (- x)"
| "float_neg PosInf = NegInf"
| "float_neg NegInf = PosInf"
| "float_neg NaN = NaN"

fun float_add :: "pyfloat \<Rightarrow> pyfloat \<Rightarrow> pyfloat" where
  "float_add (Fin x) (Fin y) = Fin (x + y)"
| "float_add NaN _ = NaN"
| "float_add _ NaN = NaN"
| "float_add PosInf NegInf = NaN"
| "float_add NegInf PosInf = NaN"
| "float_add PosInf _ = PosInf"
| "float_add _ PosInf = PosInf"
| "float_add NegInf _ = NegInf"
| "float_add _ NegInf = NegInf"

definition float_sub :: "pyfloat \<Rightarrow> pyfloat \<Rightarrow> pyfloat" where
  "float_sub x y = float_add x (float_neg y)"

text \<open>\<open>x ** 2\<close>.\<close>

fun float_square :: "pyfloat \<Rightarrow> pyfloat" where
  "float_square (Fin x) = Fin (x\<^sup>2)"
| "float_square NaN = NaN"
| "float_square _ = PosInf"

text \<open>Multiplication with and division by a positive number.\<close>

fun float_scale :: "real \<Rightarrow> pyfloat \<Rightarrow> pyfloat" where
  "float_scale c (Fin x) = Fin (c * x)"
| "float_scale c x = x"

definition float_over :: "pyfloat \<Rightarrow> nat \<Rightarrow> pyfloat" where
  "float_over x n = float_scale (1 / real n) x"

text \<open>\<open>math.sqrt\<close> of a value that is not negative.\<close>

fun float_sqrt :: "pyfloat \<Rightarrow> pyfloat" where
  "float_sqrt (Fin x) = Fin (sqrt x)"
| "float_sqrt x = x"

definition float_sum :: "pyfloat list \<Rightarrow> pyfloat" where
  "float_sum xs = foldl float_add (Fin 0) xs"

fun float_ge :: "pyfloat \<Rightarrow> pyfloat \<Rightarrow> bool" where
  "float_ge (Fin x) (Fin y) = (x \<ge> y)"
| "float_ge PosInf y = (y \<noteq> NaN)"
| "float_ge x NegInf = (x \<noteq> NaN)"
| "float_ge _ _ = False"

abbreviation float_le :: "pyfloat \<Rightarrow> pyfloat \<Rightarrow> bool" where
  "float_le x y \<equiv> float_ge y x"

definition float_lt :: "pyfloat \<Rightarrow> pyfloat \<Rightarrow> bool" where
  "float_lt x y = (float_le x y \<and> x \<noteq> y)"

definition float_eq :: "pyfloat \<Rightarrow> pyfloat \<Rightarrow> bool" where
  "float_eq x y = (x = y \<and> x \<noteq> NaN)"

text \<open>The number that \<open>max(lo, min(hi, v))\<close> sees for bounds within [0, 1]: \<open>min(hi, nan)\<close> is \<open>hi\<close>.\<close>

fun clamp_number :: "pyval \<Rightarrow> real" where
  "clamp_number (VFloat PosInf) = 1"
| "clamp_number (VFloat NaN) = 1"
| "clamp_number (VFloat NegInf) = 0"
| "clamp_number (VBool b) = of_bool b"
| "clamp_number v = number_value v"

section \<open>Finite arguments\<close>

named_theorems float_simps \<open>float operations on finite arguments\<close>

lemma float_sub_Fin [simp, float_simps]: "float_sub (Fin x) (Fin y) = Fin (x - y)"
  by (simp add: float_sub_def)

lemma float_over_Fin [simp, float_simps]: "float_over (Fin x) n = Fin (x / real n)"
  by (simp add: float_over_def)

lemma float_lt_Fin [simp, float_simps]: "float_lt (Fin x) (Fin y) \<longleftrightarrow> x < y"
  by (auto simp: float_lt_def)

lemma float_eq_Fin [simp, float_simps]: "float_eq (Fin x) (Fin y) \<longleftrightarrow> x = y"
  by (simp add: float_eq_def)

lemma foldl_float_add_Fin: "foldl float_add (Fin a) (map Fin xs) = Fin (a + sum_list xs)"
  by (induction xs arbitrary: a) (simp_all add: add.assoc)

lemma float_sum_Fin [simp, float_simps]: "float_sum (map Fin xs) = Fin (sum_list xs)"
  by (simp add: float_sum_def foldl_float_add_Fin)

section \<open>NaN\<close>

lemma float_add_NaN [simp]: "float_add x NaN = NaN"
  by (cases x) simp_all

lemma foldl_float_add_NaN: "foldl float_add NaN xs = NaN"
  by (induction xs) simp_all

lemma float_sum_NaN: "NaN \<in> set xs \<Longrightarrow> float_sum xs = NaN"
proof -
  have "NaN \<in> set xs \<Longrightarrow> foldl float_add a xs = NaN" for a
    by (induction xs arbitrary: a) (auto simp: foldl_float_add_NaN)
  then show "NaN \<in> set xs \<Longrightarrow> float_sum xs = NaN" by (simp add: float_sum_def)
qed

lemma float_compare_NaN [simp]:
  "\<not> float_ge NaN x" "\<not> float_ge x NaN" "\<not> float_lt NaN x" "\<not> float_lt x NaN"
  "\<not> float_eq NaN x" "\<not> float_eq x NaN"
  by (cases x; simp add: float_lt_def float_eq_def)+

end
