(* ===== verification/Pebra_Scope_Matching.thy ===== *)
theory Pebra_Scope_Matching
  imports Pebra_Fnmatch Pebra_Float_Arith
begin

text \<open>
  \<open>pebra/core/scope_matching.py\<close>: whether a persisted structural-feature payload lies in the scope of a
  learned fact. The payload is a dictionary whose blocks are dictionaries or absent and whose
  \<open>matched_domains\<close> is a list, as \<open>core/structural_features.py\<close> builds it; \<open>scope_json\<close> likewise.
\<close>

section \<open>Payload values\<close>

definition feature_block :: "pyval dict \<Rightarrow> string \<Rightarrow> pyval dict" where
  "feature_block features key = (case dict_get features key VNone of VDict d \<Rightarrow> d | _ \<Rightarrow> [])"

fun to_float :: "pyval \<Rightarrow> pyfloat \<Rightarrow> pyfloat" where
  "to_float (VInt i) _ = Fin (of_int i)"
| "to_float (VFloat x) _ = x"
| "to_float (VBool b) _ = Fin (of_bool b)"
| "to_float _ fallback = fallback"

definition list_has :: "pyval \<Rightarrow> pyval \<Rightarrow> bool" where
  "list_has vs v = (case vs of VList xs \<Rightarrow> py_in v xs | _ \<Rightarrow> False)"

definition percentile_reaches :: "pyval dict \<Rightarrow> pyval dict \<Rightarrow> bool" where
  "percentile_reaches scope_json structural =
     float_ge (to_float (dict_get structural ''symbol_fan_in_percentile'' (vreal 0)) (Fin 0))
       (to_float (dict_get scope_json ''min_percentile'' (vreal 0.90)) (Fin 0.90))"

section \<open>Matching\<close>

definition scope_matches_features :: "string \<Rightarrow> string \<Rightarrow> pyval dict \<Rightarrow> pyval dict \<Rightarrow> bool" where
  "scope_matches_features scope_kind scope_value scope_json features =
     (let sym = feature_block features ''symbol'';
          structural = feature_block features ''structural'';
          domains = dict_get (feature_block features ''domain'') ''matched_domains'' VNone;
          public_api = truthy (dict_get sym ''is_public_api'' VNone);
          in_domain = list_has domains (dict_get scope_json ''domain'' VNone)
      in if scope_kind = ''global'' then True
         else if scope_kind = ''action_type'' then dict_get sym ''action_type'' VNone = VStr scope_value
         else if scope_kind = ''path_glob''
         then (case dict_get sym ''file_path'' VNone of
                 VStr p \<Rightarrow> p \<noteq> [] \<and> fnmatch p scope_value
               | _ \<Rightarrow> False)
         else if scope_kind = ''symbol'' then dict_get sym ''symbol_id'' VNone = VStr scope_value
         else if scope_kind = ''public_api'' then public_api
         else if scope_kind = ''public_api_domain'' then public_api \<and> in_domain
         else if scope_kind = ''domain'' then list_has domains (VStr scope_value)
         else if scope_kind = ''domain_change_kind''
         then in_domain \<and> py_eq (dict_get scope_json ''change_kind'' VNone) (dict_get sym ''change_kind'' VNone)
         else if scope_kind = ''high_symbol_fan_in''
         then truthy (dict_get structural ''is_high_symbol_fan_in'' VNone) \<or> percentile_reaches scope_json structural
         else if scope_kind = ''domain_high_symbol_fan_in''
         then in_domain \<and> percentile_reaches scope_json structural
         else False)"

section \<open>Lemmas\<close>

definition SCOPE_KINDS :: "string list" where
  "SCOPE_KINDS = [''global'', ''action_type'', ''path_glob'', ''symbol'', ''public_api'', ''public_api_domain'',
     ''domain'', ''domain_change_kind'', ''high_symbol_fan_in'', ''domain_high_symbol_fan_in'']"

lemma unknown_scope_never_matches:
  "k \<notin> set SCOPE_KINDS \<Longrightarrow> \<not> scope_matches_features k v j features"
  by (simp add: scope_matches_features_def SCOPE_KINDS_def Let_def)

text \<open>A payload without blocks is matched by the global scope only, unless a threshold of the scope is
  not positive.\<close>

lemma empty_features_match_global:
  assumes "float_ge (Fin 0) (to_float (dict_get j ''min_percentile'' (vreal 0.90)) (Fin 0.90)) = False"
  shows "scope_matches_features k v j [] \<longleftrightarrow> k = ''global''"
  using assms
  by (simp add: scope_matches_features_def Let_def feature_block_def dict_get_def list_has_def percentile_reaches_def)

end
