(* ===== verification/Pebra_Prediction_Capture.thy ===== *)
theory Pebra_Prediction_Capture
  imports Pebra_Scope_Matching Pebra_Models
begin

text \<open>
  \<open>pebra/core/structural_features.py\<close> and \<open>pebra/core/prediction_capture.py\<close>: the feature payload of an
  edit and the manifest of everything that was predicted for it. The keyword arguments of
  \<open>build_structural_features\<close> are a record. Copies (\<open>copy.deepcopy\<close>) are the values themselves. A predicted
  value is a JSON value: the request may give an integer where a probability is meant.
\<close>

section \<open>The feature payload\<close>

definition FEATURES_SCHEMA_VERSION :: int where "FEATURES_SCHEMA_VERSION = 2"

record feature_inputs =
  sx_symbol_id :: string
  sx_file_path :: string
  sx_action_type :: string
  sx_change_kind :: string
  sx_visibility :: string
  sx_is_public_api :: bool
  sx_body_changed :: bool
  sx_signature_changed :: bool
  sx_container_file_fan_in_percentile :: real
  sx_bridge_centrality :: real
  sx_cycle_participation :: bool
  sx_is_architecture_anchor :: bool
  sx_domain_entrypoint :: bool
  sx_fan_out :: int
  sx_dependency_boundary :: bool
  sx_matched_domains :: "string list"
  sx_domain_criticality_hint :: "string option"
  sx_criticality_stage :: string
  sx_symbol_fan_in_percentile :: real
  sx_consequential_symbol_changed :: bool
  sx_provenance :: "pyval dict"
  sx_file_symbol_fanin_rollup_percentile :: real
  sx_file_operation_kind :: string
  sx_file_operation_path_count :: int

definition build_structural_features :: "feature_inputs \<Rightarrow> pyval dict" where
  "build_structural_features f =
     [(''schema_version'', VInt FEATURES_SCHEMA_VERSION),
      (''symbol'', VDict
         [(''symbol_id'', VStr (sx_symbol_id f)), (''file_path'', VStr (sx_file_path f)),
          (''action_type'', VStr (sx_action_type f)), (''change_kind'', VStr (sx_change_kind f)),
          (''visibility'', VStr (sx_visibility f)), (''is_public_api'', VBool (sx_is_public_api f)),
          (''body_changed'', VBool (sx_body_changed f)), (''signature_changed'', VBool (sx_signature_changed f)),
          (''file_operation_kind'', VStr (sx_file_operation_kind f)),
          (''file_operation_path_count'', VInt (sx_file_operation_path_count f)),
          (''consequential_symbol_changed'', VBool (sx_consequential_symbol_changed f))]),
      (''structural'', VDict
         [(''container_file_fan_in_percentile'', vreal (sx_container_file_fan_in_percentile f)),
          (''is_high_container_fan_in'',
             VBool (sx_container_file_fan_in_percentile f \<ge> ANCHOR_FANIN_PERCENTILE)),
          (''symbol_fan_in_percentile'', vreal (sx_symbol_fan_in_percentile f)),
          (''is_high_symbol_fan_in'', VBool (sx_symbol_fan_in_percentile f \<ge> ANCHOR_FANIN_PERCENTILE)),
          (''file_symbol_fanin_rollup_percentile'', vreal (sx_file_symbol_fanin_rollup_percentile f)),
          (''is_high_file_symbol_fanin_rollup'',
             VBool (sx_file_symbol_fanin_rollup_percentile f \<ge> ANCHOR_FANIN_PERCENTILE)),
          (''bridge_centrality'', vreal (sx_bridge_centrality f)),
          (''cycle_participation'', VBool (sx_cycle_participation f)),
          (''is_architecture_anchor'', VBool (sx_is_architecture_anchor f)),
          (''domain_entrypoint'', VBool (sx_domain_entrypoint f)),
          (''fan_out'', VInt (sx_fan_out f)),
          (''dependency_boundary'', VBool (sx_dependency_boundary f))]),
      (''domain'', VDict
         [(''matched_domains'', vstrs (sx_matched_domains f)),
          (''domain_criticality_hint'', vopt (sx_domain_criticality_hint f)),
          (''criticality_stage'', VStr (sx_criticality_stage f))]),
      (''provenance'', VDict (sx_provenance f))]"

section \<open>The manifest\<close>

definition RISK_BINARY :: string where "RISK_BINARY = ''risk_binary''"
definition BENEFIT_BINARY :: string where "BENEFIT_BINARY = ''benefit_binary''"
definition BENEFIT_CONTINUOUS :: string where "BENEFIT_CONTINUOUS = ''benefit_continuous''"
definition COST_CONTINUOUS :: string where "COST_CONTINUOUS = ''cost_continuous''"

lemmas target_type_defs = RISK_BINARY_def BENEFIT_BINARY_def BENEFIT_CONTINUOUS_def COST_CONTINUOUS_def

record prediction_target =
  pt_target_type :: string
  pt_target_name :: string
  pt_predicted_value :: pyval
  pt_action_id :: string
  pt_prediction_scope :: string
  pt_provenance :: "pyval dict"
  pt_features :: "pyval dict"

definition clamp_to_unit :: "pyval \<Rightarrow> pyval" where
  "clamp_to_unit value = vreal (max 0 (min 1 (clamp_number value)))"

text \<open>The rows of \<open>applied_facts\<close> by target: a later row of the same target replaces an earlier one.\<close>

definition dict_rows :: "pyval \<Rightarrow> pyval dict list" where
  "dict_rows v = (case v of VList xs \<Rightarrow> concat (map (\<lambda>x. case x of VDict d \<Rightarrow> [d] | _ \<Rightarrow> []) xs) | _ \<Rightarrow> [])"

definition applied_for :: "pyval dict option \<Rightarrow> string \<Rightarrow> pyval dict option" where
  "applied_for applied_snapshot_provenance name =
     (case applied_snapshot_provenance of
        None \<Rightarrow> None
      | Some p \<Rightarrow>
          find (\<lambda>item. dict_get item ''target'' VNone = VStr name)
            (rev (dict_rows (dict_get p ''applied_facts'' (VList [])))))"

definition related_fields :: "string \<Rightarrow> string list" where
  "related_fields target_name =
     (if target_name = ''p_success'' then [''p_success'', ''p_success_variance'']
      else if target_name = ''review_cost'' then [''review_cost'', ''review_cost_variance'']
      else [target_name])"

definition warm_applies :: "pyval dict option \<Rightarrow> string \<Rightarrow> bool" where
  "warm_applies warm_prior_provenance target_name =
     (case warm_prior_provenance of
        None \<Rightarrow> False
      | Some w \<Rightarrow>
          list_ex (\<lambda>field. list_has (dict_get w ''applied_fields'' (VList [])) (VStr field))
            (related_fields target_name))"

record manifest_context =
  mc_action_id :: string
  mc_prediction_scope :: string
  mc_provenance :: "pyval dict option"
  mc_features :: "pyval dict option"
  mc_applied_snapshot_provenance :: "pyval dict option"
  mc_warm_prior_provenance :: "pyval dict option"

definition manifest_target ::
  "manifest_context \<Rightarrow> string \<Rightarrow> string \<Rightarrow> pyval \<Rightarrow> pyval dict \<Rightarrow> prediction_target" where
  "manifest_target ctx target_type name value provenance_update =
     (let given = (case mc_provenance ctx of None \<Rightarrow> [] | Some p \<Rightarrow> p);
          prov = (if given = [] then [(''provider'', VStr ''pebra''), (''source_type'', VStr ''derived'')] else given);
          base = dict_merge prov provenance_update;
          with_snapshot =
            (case applied_for (mc_applied_snapshot_provenance ctx) name of
               None \<Rightarrow> base
             | Some applied \<Rightarrow>
                 dict_set base ''applied_snapshot'' (VDict (dict_merge
                   [(''snapshot_id'', dict_get (the (mc_applied_snapshot_provenance ctx)) ''snapshot_id'' VNone)]
                   applied)));
          with_warm =
            (if warm_applies (mc_warm_prior_provenance ctx) name
             then dict_set with_snapshot ''warm_prior'' (VDict (the (mc_warm_prior_provenance ctx)))
             else with_snapshot)
      in \<lparr>pt_target_type = target_type, pt_target_name = name, pt_predicted_value = value,
          pt_action_id = mc_action_id ctx, pt_prediction_scope = mc_prediction_scope ctx,
          pt_provenance = with_warm,
          pt_features = (case mc_features ctx of None \<Rightarrow> [] | Some f \<Rightarrow> f)\<rparr>)"

definition build_prediction_manifest ::
  "manifest_context \<Rightarrow> pyval \<Rightarrow> risk_event list \<Rightarrow> pyval \<Rightarrow> pyval dict \<Rightarrow> pyval \<Rightarrow> pyval option
    \<Rightarrow> prediction_target list" where
  "build_prediction_manifest ctx p_success events immediate_benefit projected_deltas projected_benefit review_cost =
     [manifest_target ctx RISK_BINARY ''p_success'' p_success []]
     @ map (\<lambda>ev. manifest_target ctx RISK_BINARY (''p_event.'' @ ev_event ev) (vreal (ev_p_event ev)) []) events
     @ [manifest_target ctx BENEFIT_BINARY ''immediate_benefit_realized'' (clamp_to_unit immediate_benefit)
          [(''source_type'', VStr ''elicited_probability_proxy''),
           (''target_semantics'', VStr ''immediate_benefit_clamped_to_probability_proxy'')]]
     @ map (\<lambda>(metric, value). manifest_target ctx BENEFIT_CONTINUOUS (''maintainability_delta.'' @ metric) value [])
         projected_deltas
     @ [manifest_target ctx BENEFIT_CONTINUOUS ''measured_benefit'' projected_benefit []]
     @ (case review_cost of
          None \<Rightarrow> []
        | Some cost \<Rightarrow> [manifest_target ctx COST_CONTINUOUS ''review_cost'' cost []])"

section \<open>The sources of the priors\<close>

text \<open>
  The summary of which predictions came from learned facts or shipped priors. A provenance that is not a
  dictionary counts as empty; \<open>field_sources\<close> that is neither false nor a dictionary raises where a
  variance field is looked up.
\<close>

definition nonnull_items :: "pyval dict \<Rightarrow> string list \<Rightarrow> pyval dict" where
  "nonnull_items d keys =
     concat (map (\<lambda>k. if dict_get d k VNone = VNone then [] else [(k, dict_get d k VNone)]) keys)"

definition text_item :: "pyval dict \<Rightarrow> string \<Rightarrow> string list" where
  "text_item d key = (case dict_get d key VNone of VStr s \<Rightarrow> if s = [] then [] else [s] | _ \<Rightarrow> [])"

definition prior_block :: "pyval dict \<Rightarrow> string \<Rightarrow> pyval dict option" where
  "prior_block provenance key = (case dict_get provenance key VNone of VDict d \<Rightarrow> Some d | _ \<Rightarrow> None)"

definition local_detail :: "pyval dict option \<Rightarrow> pyval dict" where
  "local_detail local =
     (case local of
        None \<Rightarrow> []
      | Some d \<Rightarrow>
          map (\<lambda>s. (''snapshot_id'', VStr s)) (text_item d ''snapshot_id'')
          @ nonnull_items d [''winning_fact_id'', ''applied_variance'', ''variance_floor'', ''variance_cap''])"

fun is_vdict :: "pyval \<Rightarrow> bool" where
  "is_vdict (VDict _) = True"
| "is_vdict _ = False"

definition dict_or_empty :: "pyval \<Rightarrow> pyval dict" where
  "dict_or_empty v = (case v of VDict d \<Rightarrow> d | _ \<Rightarrow> [])"

definition warm_tags :: "string \<Rightarrow> pyval dict \<Rightarrow> string list" where
  "warm_tags target_name warm =
     (let field_sources = dict_or_empty (dict_get warm ''field_sources'' VNone);
          tags = concat (map (\<lambda>name. text_item (dict_or_empty (dict_get field_sources name VNone)) ''calibration_tag'')
            (related_fields target_name))
      in if tags = [] then text_item warm ''calibration_tag'' else tags)"

definition warm_detail :: "string \<Rightarrow> pyval dict \<Rightarrow> pyval dict \<Rightarrow> pyval dict res" where
  "warm_detail target_name warm detail =
     (let tags = warm_tags target_name warm;
          tagged = (if tags = [] then detail
            else dict_set (dict_set detail ''calibration_tag'' (VStr (hd tags)))
                   ''calibration_tags'' (vstrs (rev (remdups (rev tags)))));
          field_sources = dict_get warm ''field_sources'' VNone
      in if length (related_fields target_name) \<le> 1 then Inr tagged
         else if truthy field_sources \<and> \<not> is_vdict field_sources
         then Inl (AttributeError ''object has no attribute get'')
         else
           (case dict_get (dict_or_empty field_sources) (related_fields target_name ! 1) (VDict []) of
              VDict source \<Rightarrow>
                Inr (tagged @ filter (\<lambda>(k, _). \<not> dict_has tagged k)
                  (nonnull_items source [''applied_variance'', ''variance_floor'', ''variance_cap'']))
            | _ \<Rightarrow> Inr tagged))"

definition prior_sources :: "pyval dict \<Rightarrow> string list" where
  "prior_sources provenance =
     (if prior_block provenance ''applied_snapshot'' = None then [] else [''local_learned''])
     @ (if prior_block provenance ''warm_prior'' = None then [] else [''shipped''])"

definition or_cold :: "string list \<Rightarrow> string list" where
  "or_cold sources = (if sources = [] then [''cold_start''] else sources)"

definition target_prior :: "string \<Rightarrow> pyval dict \<Rightarrow> pyval dict res" where
  "target_prior target_name provenance =
     (let sources = or_cold (prior_sources provenance);
          detail = local_detail (prior_block provenance ''applied_snapshot'')
      in rbind (case prior_block provenance ''warm_prior'' of
                  None \<Rightarrow> Inr detail
                | Some warm \<Rightarrow> warm_detail target_name warm detail) (\<lambda>d.
           Inr (dict_merge [(''source'', VStr (hd sources)), (''sources'', vstrs sources)] d)))"

fun target_priors :: "(string \<times> pyval dict) list \<Rightarrow> pyval dict \<Rightarrow> pyval dict res" where
  "target_priors [] targets = Inr targets"
| "target_priors ((target_name, provenance) # rest) targets =
     rbind (target_prior target_name provenance) (\<lambda>entry.
       target_priors rest (dict_set targets target_name (VDict entry)))"

definition summarize_prior_provenance :: "(string \<times> pyval dict) list \<Rightarrow> pyval dict res" where
  "summarize_prior_provenance predictions =
     rbind (target_priors predictions []) (\<lambda>targets.
       let active = concat (map (prior_sources \<circ> snd) predictions);
           sources = or_cold (filter (\<lambda>s. s \<in> set active) [''local_learned'', ''shipped'']);
           tags = concat (map (\<lambda>(name, p). case prior_block p ''warm_prior'' of
             None \<Rightarrow> [] | Some warm \<Rightarrow> warm_tags name warm) predictions);
           snapshots = concat (map (\<lambda>(_, p). case prior_block p ''applied_snapshot'' of
             None \<Rightarrow> [] | Some d \<Rightarrow> text_item d ''snapshot_id'') predictions)
       in Inr [(''source'', VStr (hd sources)), (''sources'', vstrs sources),
               (''calibration_tags'', vstrs (sorted_set tags)), (''snapshot_ids'', vstrs (sorted_set snapshots)),
               (''targets'', VDict targets)])"

section \<open>Lemmas\<close>

lemma manifest_target_fields [simp]:
  "pt_target_type (manifest_target ctx tt n v u) = tt"
  "pt_target_name (manifest_target ctx tt n v u) = n"
  "pt_predicted_value (manifest_target ctx tt n v u) = v"
  "pt_action_id (manifest_target ctx tt n v u) = mc_action_id ctx"
  "pt_features (manifest_target ctx tt n v u) = (case mc_features ctx of None \<Rightarrow> [] | Some f \<Rightarrow> f)"
  by (simp_all add: manifest_target_def Let_def)

text \<open>The payload answers the scope questions as the inputs do.\<close>

lemma built_features_scopes:
  "scope_matches_features ''symbol'' s [] (build_structural_features f) \<longleftrightarrow> sx_symbol_id f = s"
  "scope_matches_features ''public_api'' s [] (build_structural_features f) \<longleftrightarrow> sx_is_public_api f"
  "scope_matches_features ''action_type'' s [] (build_structural_features f) \<longleftrightarrow> sx_action_type f = s"
  "scope_matches_features ''domain'' d [] (build_structural_features f) \<longleftrightarrow> d \<in> set (sx_matched_domains f)"
  "scope_matches_features ''public_api_domain'' s [(''domain'', VStr d)] (build_structural_features f)
    \<longleftrightarrow> sx_is_public_api f \<and> d \<in> set (sx_matched_domains f)"
  "scope_matches_features ''domain_change_kind'' s [(''domain'', VStr d), (''change_kind'', VStr k)]
      (build_structural_features f) \<longleftrightarrow> d \<in> set (sx_matched_domains f) \<and> sx_change_kind f = k"
  "scope_matches_features ''high_symbol_fan_in'' s [(''min_percentile'', vreal 0.90)] (build_structural_features f)
    \<longleftrightarrow> 0.90 \<le> sx_symbol_fan_in_percentile f"
  "scope_matches_features ''domain_high_symbol_fan_in'' s [(''domain'', VStr d), (''min_percentile'', vreal 0.90)]
      (build_structural_features f)
    \<longleftrightarrow> d \<in> set (sx_matched_domains f) \<and> 0.90 \<le> sx_symbol_fan_in_percentile f"
  by (auto simp: scope_matches_features_def build_structural_features_def feature_block_def list_has_def
      py_in_VStr percentile_reaches_def ANCHOR_FANIN_PERCENTILE_def Let_def)

end
