(* ===== verification/Pebra_Prediction_Error.thy ===== *)
theory Pebra_Prediction_Error
  imports Pebra_Prediction_Capture Pebra_Score_Math
begin

text \<open>
  \<open>pebra/core/outcome_labels.py\<close> and \<open>pebra/core/prediction_error.py\<close>: the labels of an outcome and their
  join with the captured predictions into error rows.

  A label is JSON of any type; a number among the labels may be infinite or NaN, so continuous actual
  values are \<open>pyfloat\<close>. A predicted value is a nullable column: using an absent one is a \<open>TypeError\<close>.
\<close>

section \<open>Outcome labels\<close>

definition BOOL_LABELS :: "string list" where "BOOL_LABELS = [''actual_success'', ''benefit_realized'']"
definition COST_LABELS :: "string list" where "COST_LABELS = [''actual_review_cost'', ''actual_rework_cost'']"

definition LABEL_KEYS :: "string list" where
  "LABEL_KEYS = BOOL_LABELS @ COST_LABELS @ [''event_outcomes'']"

definition LABEL_SOURCE_KEY :: string where "LABEL_SOURCE_KEY = ''_pebra_label_source''"

fun is_bool :: "pyval \<Rightarrow> bool" where
  "is_bool (VBool _) = True"
| "is_bool _ = False"

text \<open>A number that is not a \<open>bool\<close>; \<open>below_zero\<close> is \<open>value < 0\<close>.\<close>

fun is_number :: "pyval \<Rightarrow> bool" where
  "is_number (VInt _) = True"
| "is_number (VFloat _) = True"
| "is_number _ = False"

fun below_zero :: "pyval \<Rightarrow> bool" where
  "below_zero (VInt i) = (i < 0)"
| "below_zero (VFloat (Fin x)) = (x < 0)"
| "below_zero (VFloat NegInf) = True"
| "below_zero _ = False"

definition bool_label_ok :: "pyval dict \<Rightarrow> string \<Rightarrow> bool" where
  "bool_label_ok detail key = (case map_of detail key of None \<Rightarrow> True | Some v \<Rightarrow> is_bool v)"

definition cost_label :: "pyval dict \<Rightarrow> string \<Rightarrow> unit res" where
  "cost_label detail key =
     (case map_of detail key of
        None \<Rightarrow> Inr ()
      | Some v \<Rightarrow>
          if \<not> is_number v then Inl (ValueError ''outcome label must be a number'')
          else if below_zero v then Inl (ValueError ''outcome label must be non-negative'')
          else Inr ())"

definition validate_labels :: "pyval dict option \<Rightarrow> unit res" where
  "validate_labels detail =
     (case detail of
        None \<Rightarrow> Inr ()
      | Some d \<Rightarrow>
          if \<not> list_all (bool_label_ok d) BOOL_LABELS then Inl (ValueError ''outcome label must be a boolean'')
          else
            rbind (cost_label d ''actual_review_cost'') (\<lambda>_.
            rbind (cost_label d ''actual_rework_cost'') (\<lambda>_.
              case dict_get d ''event_outcomes'' VNone of
                VNone \<Rightarrow> Inr ()
              | VDict events \<Rightarrow>
                  if list_all (\<lambda>(_, observed). is_bool observed) events then Inr ()
                  else Inl (ValueError ''event_outcomes must be a boolean'')
              | _ \<Rightarrow> Inl (ValueError ''event_outcomes must be an object of event -> boolean''))))"

definition extract_labels :: "pyval dict option \<Rightarrow> pyval dict" where
  "extract_labels detail =
     (case detail of
        None \<Rightarrow> []
      | Some d \<Rightarrow>
          if dict_get d LABEL_SOURCE_KEY VNone \<noteq> VStr ''host'' then []
          else concat (map (\<lambda>key. case map_of d key of None \<Rightarrow> [] | Some v \<Rightarrow> [(key, v)]) LABEL_KEYS))"

section \<open>Scoring rules\<close>

definition brier_score :: "real \<Rightarrow> int \<Rightarrow> real" where
  "brier_score predicted actual_binary = (predicted - of_int actual_binary)\<^sup>2"

definition log_loss_single :: "real \<Rightarrow> int \<Rightarrow> real" where
  "log_loss_single predicted actual_binary =
     (let p = min (1 - LOG_LOSS_CLIP_EPS) (max LOG_LOSS_CLIP_EPS predicted)
      in - (of_int actual_binary * ln p + (1 - of_int actual_binary) * ln (1 - p)))"

definition residual :: "pyfloat \<Rightarrow> pyfloat \<Rightarrow> pyfloat" where
  "residual predicted actual = float_sub actual predicted"

definition squared_error :: "pyfloat \<Rightarrow> pyfloat \<Rightarrow> pyfloat" where
  "squared_error predicted actual = float_square (float_sub actual predicted)"

definition require_pairs :: "'a list \<Rightarrow> unit res" where
  "require_pairs pairs =
     (if pairs = [] then Inl (ValueError ''cannot aggregate an empty set of (predicted, actual) pairs'') else Inr ())"

definition mean_brier :: "(real \<times> int) list \<Rightarrow> real res" where
  "mean_brier pairs = rbind (require_pairs pairs) (\<lambda>_.
     Inr (sum_list (map (\<lambda>(p, y). brier_score p y) pairs) / real (length pairs)))"

definition mean_log_loss :: "(real \<times> int) list \<Rightarrow> real res" where
  "mean_log_loss pairs = rbind (require_pairs pairs) (\<lambda>_.
     Inr (sum_list (map (\<lambda>(p, y). log_loss_single p y) pairs) / real (length pairs)))"

definition mse :: "(pyfloat \<times> pyfloat) list \<Rightarrow> pyfloat res" where
  "mse pairs = rbind (require_pairs pairs) (\<lambda>_.
     Inr (float_over (float_sum (map (\<lambda>(p, a). squared_error p a) pairs)) (length pairs)))"

definition signed_bias :: "(pyfloat \<times> pyfloat) list \<Rightarrow> pyfloat res" where
  "signed_bias pairs = rbind (require_pairs pairs) (\<lambda>_.
     Inr (float_over (float_sum (map (\<lambda>(p, a). residual p a) pairs)) (length pairs)))"

section \<open>Joining predictions and labels\<close>

record loaded_prediction =
  lp_action_id :: "string option"
  lp_target_type :: string
  lp_target_name :: string
  lp_predicted_value :: "real option"

text \<open>An error row: the keys a row may have; an absent key is \<open>None\<close>.\<close>

record error_row =
  er_action_id :: "string option"
  er_target_type :: string
  er_target_name :: string
  er_calibration_scope :: string
  er_shadow_mode :: int
  er_outcome_label_status :: string
  er_predicted_probability :: "real option"
  er_predicted_value :: "real option"
  er_actual_outcome :: "int option"
  er_actual_value :: "pyfloat option"
  er_brier_error :: "real option"
  er_log_loss :: "real option"
  er_squared_error :: "pyfloat option"
  er_residual :: "pyfloat option"

fun bool_int :: "pyval \<Rightarrow> int option" where
  "bool_int (VBool b) = Some (of_bool b)"
| "bool_int _ = None"

fun number_float :: "pyval \<Rightarrow> pyfloat option" where
  "number_float (VInt i) = Some (Fin (of_int i))"
| "number_float (VFloat x) = Some x"
| "number_float _ = None"

definition risk_actual :: "string \<Rightarrow> pyval dict \<Rightarrow> int option res" where
  "risk_actual target_name labels =
     (if target_name = ''p_success'' then Inr (bool_int (dict_get labels ''actual_success'' VNone))
      else if starts_with target_name ''p_event.''
      then (case dict_get labels ''event_outcomes'' (VDict []) of
              VDict events \<Rightarrow> Inr (bool_int (dict_get events (remove_prefix target_name ''p_event.'') VNone))
            | _ \<Rightarrow> Inl (AttributeError ''object has no attribute get''))
      else Inr None)"

definition continuous_actual ::
  "string \<Rightarrow> pyval dict \<Rightarrow> pyfloat option \<Rightarrow> pyfloat dict \<Rightarrow> pyfloat option" where
  "continuous_actual target_name labels measured_benefit measured_deltas =
     (if target_name = ''measured_benefit'' then measured_benefit
      else if starts_with target_name ''maintainability_delta.''
      then map_of measured_deltas (remove_prefix target_name ''maintainability_delta.'')
      else if target_name = ''review_cost'' then number_float (dict_get labels ''actual_review_cost'' VNone)
      else None)"

definition need_number :: "real option \<Rightarrow> real res" where
  "need_number v = (case v of None \<Rightarrow> Inl (TypeError ''unsupported operand'') | Some x \<Rightarrow> Inr x)"

definition censored_row :: "loaded_prediction \<Rightarrow> string \<Rightarrow> int \<Rightarrow> error_row" where
  "censored_row pred calibration_scope shadow_mode =
     \<lparr>er_action_id = lp_action_id pred, er_target_type = lp_target_type pred, er_target_name = lp_target_name pred,
      er_calibration_scope = calibration_scope, er_shadow_mode = shadow_mode,
      er_outcome_label_status = ''censored'', er_predicted_probability = None, er_predicted_value = None,
      er_actual_outcome = None, er_actual_value = None, er_brier_error = None, er_log_loss = None,
      er_squared_error = None, er_residual = None\<rparr>"

definition binary_actual :: "loaded_prediction \<Rightarrow> pyval dict \<Rightarrow> int option res" where
  "binary_actual pred labels =
     (if lp_target_type pred = RISK_BINARY then risk_actual (lp_target_name pred) labels
      else Inr (bool_int (dict_get labels ''benefit_realized'' VNone)))"

definition error_row_of ::
  "pyval dict \<Rightarrow> pyfloat option \<Rightarrow> pyfloat dict \<Rightarrow> string \<Rightarrow> int \<Rightarrow> loaded_prediction \<Rightarrow> error_row res" where
  "error_row_of labels measured_benefit measured_deltas calibration_scope shadow_mode pred =
     (let pv = lp_predicted_value pred;
          row = censored_row pred calibration_scope shadow_mode
      in if lp_target_type pred \<in> {RISK_BINARY, BENEFIT_BINARY}
         then
           rbind (binary_actual pred labels) (\<lambda>actual.
             case actual of
               None \<Rightarrow> Inr (row\<lparr>er_predicted_probability := pv\<rparr>)
             | Some y \<Rightarrow>
                 rbind (need_number pv) (\<lambda>p.
                   Inr (row\<lparr>er_predicted_probability := pv, er_actual_outcome := Some y,
                            er_brier_error := Some (brier_score p y),
                            er_log_loss := Some (log_loss_single p y),
                            er_residual := Some (residual (Fin p) (Fin (of_int y))),
                            er_outcome_label_status := ''observed''\<rparr>)))
         else if lp_target_type pred \<in> {BENEFIT_CONTINUOUS, COST_CONTINUOUS}
         then
           (case continuous_actual (lp_target_name pred) labels measured_benefit measured_deltas of
              None \<Rightarrow> Inr (row\<lparr>er_predicted_value := pv\<rparr>)
            | Some a \<Rightarrow>
                rbind (need_number pv) (\<lambda>p.
                  Inr (row\<lparr>er_predicted_value := pv, er_actual_value := Some a,
                           er_squared_error := Some (squared_error (Fin p) a),
                           er_residual := Some (residual (Fin p) a),
                           er_outcome_label_status := ''observed''\<rparr>)))
         else Inr row)"

fun map_res :: "('a \<Rightarrow> 'b res) \<Rightarrow> 'a list \<Rightarrow> 'b list res" where
  "map_res f [] = Inr []"
| "map_res f (x # xs) = rbind (f x) (\<lambda>y. rbind (map_res f xs) (\<lambda>ys. Inr (y # ys)))"

definition build_error_rows ::
  "loaded_prediction list \<Rightarrow> pyval dict \<Rightarrow> pyfloat option \<Rightarrow> pyfloat dict \<Rightarrow> string \<Rightarrow> int \<Rightarrow> error_row list res" where
  "build_error_rows predictions labels measured_benefit measured_deltas calibration_scope shadow_mode =
     map_res (error_row_of labels measured_benefit measured_deltas calibration_scope shadow_mode) predictions"

section \<open>The scorecard\<close>

text \<open>A metric block of a calibration summary: no observed pair, or the metrics.\<close>

datatype metric_block =
    PendingMinN
  | BinaryBlock nat real real real
  | ContinuousBlock nat pyfloat pyfloat

record error_summary =
  su_risk_binary :: metric_block
  su_benefit_binary :: metric_block
  su_benefit_continuous :: metric_block
  su_cost_continuous :: metric_block
  su_observed :: nat
  su_censored :: nat
  su_total :: nat

definition binary_block :: "error_row list \<Rightarrow> string \<Rightarrow> metric_block res" where
  "binary_block observed target_type =
     (let rows = filter (\<lambda>r. er_target_type r = target_type) observed
      in if rows = [] then Inr PendingMinN
         else rbind (map_res (\<lambda>r. rbind (need_number (er_predicted_probability r)) (\<lambda>p.
                  case er_actual_outcome r of None \<Rightarrow> Inl (TypeError ''unsupported operand'') | Some y \<Rightarrow> Inr (p, y))) rows)
           (\<lambda>pairs. rbind (mean_brier pairs) (\<lambda>brier. rbind (mean_log_loss pairs) (\<lambda>log_loss.
             Inr (BinaryBlock (length pairs) brier log_loss
                    (sum_list (map (\<lambda>(p, y). of_int y - p) pairs) / real (length pairs)))))))"

definition continuous_block :: "error_row list \<Rightarrow> string \<Rightarrow> metric_block res" where
  "continuous_block observed target_type =
     (let rows = filter (\<lambda>r. er_target_type r = target_type) observed
      in if rows = [] then Inr PendingMinN
         else rbind (map_res (\<lambda>r. rbind (need_number (er_predicted_value r)) (\<lambda>p.
                  case er_actual_value r of None \<Rightarrow> Inl (TypeError ''unsupported operand'') | Some a \<Rightarrow> Inr (Fin p, a))) rows)
           (\<lambda>pairs. rbind (mse pairs) (\<lambda>m. rbind (signed_bias pairs) (\<lambda>bias.
             Inr (ContinuousBlock (length pairs) m bias)))))"

definition summarize_errors :: "error_row list \<Rightarrow> error_summary res" where
  "summarize_errors rows =
     (let observed = filter (\<lambda>r. er_outcome_label_status r = ''observed'') rows
      in rbind (continuous_block observed BENEFIT_CONTINUOUS) (\<lambda>continuous.
         rbind (continuous_block observed COST_CONTINUOUS) (\<lambda>cost.
         rbind (binary_block observed RISK_BINARY) (\<lambda>risk.
         rbind (binary_block observed BENEFIT_BINARY) (\<lambda>benefit.
           Inr \<lparr>su_risk_binary = risk, su_benefit_binary = benefit, su_benefit_continuous = continuous,
                su_cost_continuous = cost, su_observed = length observed,
                su_censored = length rows - length observed, su_total = length rows\<rparr>)))))"

section \<open>Lemmas\<close>

lemma map_res_Inr_iff: "map_res f xs = Inr ys \<longleftrightarrow> list_all2 (\<lambda>x y. f x = Inr y) xs ys"
proof (induction xs arbitrary: ys)
  case Nil
  then show ?case by auto
next
  case (Cons x xs)
  then show ?case by (cases ys) (auto simp: rbind_Inr_iff)
qed

lemma map_res_is_ok: "is_ok (map_res f xs) \<longleftrightarrow> (\<forall>x \<in> set xs. is_ok (f x))"
  by (induction xs) (auto simp: is_ok_iff rbind_Inr_iff)

lemma map_of_selected:
  "map_of (concat (map (\<lambda>k. case map_of d k of None \<Rightarrow> [] | Some v \<Rightarrow> [(k, v)]) ks)) key
    = (if key \<in> set ks then map_of d key else None)"
  by (induction ks) (auto split: option.splits)

lemma map_of_extract_labels:
  "map_of (extract_labels detail) key =
     (case detail of
        None \<Rightarrow> None
      | Some d \<Rightarrow> if dict_get d LABEL_SOURCE_KEY VNone = VStr ''host'' \<and> key \<in> set LABEL_KEYS then map_of d key else None)"
  by (simp add: extract_labels_def map_of_selected split: option.split)

lemma extract_labels_agent: "dict_get d LABEL_SOURCE_KEY VNone \<noteq> VStr ''host'' \<Longrightarrow> extract_labels (Some d) = []"
  by (simp add: extract_labels_def)

text \<open>What validation leaves of the extracted labels.\<close>

lemma validated_event_outcomes:
  "validate_labels (Some d) = Inr () \<Longrightarrow>
   dict_get d ''event_outcomes'' VNone = VNone \<or> (\<exists>events. dict_get d ''event_outcomes'' VNone = VDict events)"
  by (cases "dict_get d ''event_outcomes'' VNone") (auto simp: validate_labels_def rbind_Inr_iff split: if_splits)

lemma validated_label_types:
  assumes "validate_labels detail = Inr ()"
  shows "case map_of (extract_labels detail) ''event_outcomes'' of
           None \<Rightarrow> True | Some v \<Rightarrow> v = VNone \<or> (\<exists>events. v = VDict events)"
proof (cases detail)
  case (Some d)
  with assms validated_event_outcomes [of d] show ?thesis
    by (auto simp: map_of_extract_labels dict_get_def split: option.splits)
qed (simp add: map_of_extract_labels)

lemma brier_score_unit:
  assumes "0 \<le> p" "p \<le> 1" "y \<in> {0, 1}"
  shows "0 \<le> brier_score p y \<and> brier_score p y \<le> 1"
proof -
  have "\<bar>p - of_int y\<bar> \<le> 1" using assms by auto
  then have "(p - of_int y)\<^sup>2 \<le> 1" by (simp add: abs_square_le_1)
  then show ?thesis by (simp add: brier_score_def)
qed

lemma log_loss_bounds:
  assumes "y \<in> {0, 1}"
  shows "0 \<le> log_loss_single p y \<and> log_loss_single p y \<le> - ln LOG_LOSS_CLIP_EPS"
proof -
  let ?e = "LOG_LOSS_CLIP_EPS" and ?p = "min (1 - LOG_LOSS_CLIP_EPS) (max LOG_LOSS_CLIP_EPS p)"
  have e: "0 < ?e" "?e < 1 / 2" by (simp_all add: LOG_LOSS_CLIP_EPS_def)
  then have p: "?e \<le> ?p" "?p \<le> 1 - ?e" by auto
  then have "ln ?p \<le> 0" "ln (1 - ?p) \<le> 0" "ln ?e \<le> ln ?p" "ln ?e \<le> ln (1 - ?p)"
    using e by auto
  with assms show ?thesis by (auto simp: log_loss_single_def Let_def)
qed

definition binary_type :: "string \<Rightarrow> bool" where
  "binary_type t = (t \<in> {RISK_BINARY, BENEFIT_BINARY})"

definition continuous_type :: "string \<Rightarrow> bool" where
  "continuous_type t = (t \<in> {BENEFIT_CONTINUOUS, COST_CONTINUOUS})"

text \<open>An error row has the fields of its type, and computed fields exactly when it is observed.\<close>

definition error_row_typed :: "error_row \<Rightarrow> bool" where
  "error_row_typed r =
     (if er_outcome_label_status r = ''observed''
      then (binary_type (er_target_type r)
            \<and> (\<exists>p y. er_predicted_probability r = Some p \<and> y \<in> {0, 1} \<and> er_actual_outcome r = Some y
                 \<and> er_brier_error r = Some (brier_score p y) \<and> er_log_loss r = Some (log_loss_single p y)
                 \<and> er_residual r = Some (Fin (of_int y - p)))
            \<and> er_predicted_value r = None \<and> er_actual_value r = None \<and> er_squared_error r = None)
         \<or> (continuous_type (er_target_type r)
            \<and> (\<exists>p a. er_predicted_value r = Some p \<and> er_actual_value r = Some a
                 \<and> er_squared_error r = Some (squared_error (Fin p) a)
                 \<and> er_residual r = Some (residual (Fin p) a))
            \<and> er_predicted_probability r = None \<and> er_actual_outcome r = None
            \<and> er_brier_error r = None \<and> er_log_loss r = None)
      else er_outcome_label_status r = ''censored'' \<and> er_actual_outcome r = None \<and> er_actual_value r = None
           \<and> er_brier_error r = None \<and> er_log_loss r = None \<and> er_squared_error r = None \<and> er_residual r = None)"

lemma bool_int_range: "bool_int v = Some y \<Longrightarrow> y = 0 \<or> y = 1"
  by (cases v) auto

lemma risk_actual_range:
  assumes "risk_actual t labels = Inr (Some y)" shows "y = 0 \<or> y = 1"
proof (cases "t = ''p_success''")
  case True
  with assms show ?thesis by (simp add: risk_actual_def bool_int_range)
next
  case False
  with assms have "starts_with t ''p_event.''" by (simp add: risk_actual_def split: if_splits)
  with False assms show ?thesis
    by (cases "dict_get labels ''event_outcomes'' (VDict [])") (simp_all add: risk_actual_def bool_int_range)
qed

lemma binary_actual_range:
  assumes "binary_actual pred labels = Inr (Some y)" shows "y = 0 \<or> y = 1"
proof (cases "lp_target_type pred = RISK_BINARY")
  case True
  with assms show ?thesis by (simp add: binary_actual_def risk_actual_range)
next
  case False
  with assms show ?thesis by (simp add: binary_actual_def bool_int_range)
qed

definition row_of_prediction :: "loaded_prediction \<Rightarrow> string \<Rightarrow> int \<Rightarrow> error_row \<Rightarrow> bool" where
  "row_of_prediction pred scope sm r =
     (er_target_type r = lp_target_type pred \<and> er_target_name r = lp_target_name pred
      \<and> er_action_id r = lp_action_id pred \<and> er_calibration_scope r = scope \<and> er_shadow_mode r = sm)"

lemma error_row_of_typed:
  assumes "error_row_of labels mb md scope sm pred = Inr r"
  shows "error_row_typed r \<and> row_of_prediction pred scope sm r"
proof (cases "lp_target_type pred \<in> {RISK_BINARY, BENEFIT_BINARY}")
  case True
  obtain actual where a: "binary_actual pred labels = Inr actual"
    using assms [unfolded error_row_of_def Let_def if_P [OF True] rbind_Inr_iff] by blast
  note row = assms [unfolded error_row_of_def Let_def if_P [OF True] a rbind_simps]
  show ?thesis
  proof (cases actual)
    case None
    with row have "r = (censored_row pred scope sm)\<lparr>er_predicted_probability := lp_predicted_value pred\<rparr>" by simp
    then show ?thesis by (simp add: error_row_typed_def censored_row_def row_of_prediction_def)
  next
    case (Some y)
    then have y: "y = 0 \<or> y = 1" using a binary_actual_range by simp
    from row Some obtain p where "lp_predicted_value pred = Some p"
      by (cases "lp_predicted_value pred") (simp_all add: need_number_def)
    with row Some have "r = (censored_row pred scope sm)\<lparr>er_predicted_probability := Some p,
        er_actual_outcome := Some y, er_brier_error := Some (brier_score p y),
        er_log_loss := Some (log_loss_single p y), er_residual := Some (residual (Fin p) (Fin (of_int y))),
        er_outcome_label_status := ''observed''\<rparr>" by (simp add: need_number_def)
    with True y show ?thesis
      by (simp add: censored_row_def error_row_typed_def row_of_prediction_def binary_type_def residual_def)
  qed
next
  case False
  note row = assms [unfolded error_row_of_def Let_def if_not_P [OF False]]
  show ?thesis
  proof (cases "lp_target_type pred \<in> {BENEFIT_CONTINUOUS, COST_CONTINUOUS}")
    case True
    note row = row [unfolded if_P [OF True]]
    show ?thesis
    proof (cases "continuous_actual (lp_target_name pred) labels mb md")
      case None
      with row have "r = (censored_row pred scope sm)\<lparr>er_predicted_value := lp_predicted_value pred\<rparr>" by simp
      then show ?thesis by (simp add: error_row_typed_def censored_row_def row_of_prediction_def)
    next
      case (Some a)
      from row Some obtain p where "lp_predicted_value pred = Some p"
        by (cases "lp_predicted_value pred") (simp_all add: need_number_def)
      with row Some have "r = (censored_row pred scope sm)\<lparr>er_predicted_value := Some p,
          er_actual_value := Some a, er_squared_error := Some (squared_error (Fin p) a),
          er_residual := Some (residual (Fin p) a), er_outcome_label_status := ''observed''\<rparr>"
        by (simp add: need_number_def)
      with True show ?thesis
        by (simp add: censored_row_def error_row_typed_def row_of_prediction_def continuous_type_def)
    qed
  next
    case False
    with row have "r = censored_row pred scope sm" by simp
    then show ?thesis by (simp add: error_row_typed_def censored_row_def row_of_prediction_def)
  qed
qed

lemma error_row_of_ok:
  assumes "lp_predicted_value pred \<noteq> None"
  shows "is_ok (error_row_of labels mb md scope sm pred) \<longleftrightarrow>
    (lp_target_type pred = RISK_BINARY \<longrightarrow> is_ok (risk_actual (lp_target_name pred) labels))"
proof -
  obtain p where p: "lp_predicted_value pred = Some p" using assms by auto
  have ok: "is_ok (case actual of None \<Rightarrow> Inr row
      | Some y \<Rightarrow> rbind (need_number (Some p)) (\<lambda>p. Inr (f p y)))" for actual :: "int option" and row and f :: "real \<Rightarrow> int \<Rightarrow> error_row"
    by (cases actual) (simp_all add: need_number_def)
  show ?thesis
  proof (cases "lp_target_type pred \<in> {RISK_BINARY, BENEFIT_BINARY}")
    case True
    then have "is_ok (error_row_of labels mb md scope sm pred) \<longleftrightarrow> is_ok (binary_actual pred labels)"
      unfolding error_row_of_def Let_def p by (simp add: is_ok_rbind ok) (simp add: is_ok_iff)
    then show ?thesis by (simp add: binary_actual_def)
  next
    case False
    then show ?thesis
      by (auto simp: error_row_of_def Let_def p need_number_def split: option.splits)
  qed
qed

lemma risk_actual_ok:
  "is_ok (risk_actual t labels) \<longleftrightarrow>
   (starts_with t ''p_event.'' \<longrightarrow> (\<exists>events. dict_get labels ''event_outcomes'' (VDict []) = VDict events))"
  by (auto simp: risk_actual_def split: pyval.splits)

section \<open>Properties\<close>

text \<open>Type soundness of the labels. Labels that pass validation never make the join raise on predictions
  with values, with one exception: a label object \<open>event_outcomes: null\<close> passes validation, and the join of
  any event prediction then raises.\<close>

theorem validated_labels_are_sound:
  assumes "validate_labels detail = Inr ()"
    and "\<forall>pred \<in> set predictions. lp_predicted_value pred \<noteq> None"
  shows "is_ok (build_error_rows predictions (extract_labels detail) measured_benefit measured_deltas scope shadow)
    \<longleftrightarrow> \<not> (map_of (extract_labels detail) ''event_outcomes'' = Some VNone
           \<and> (\<exists>pred \<in> set predictions. lp_target_type pred = RISK_BINARY
                \<and> starts_with (lp_target_name pred) ''p_event.''))"
proof -
  let ?l = "extract_labels detail"
  have "(\<exists>events. dict_get ?l ''event_outcomes'' (VDict []) = VDict events) \<longleftrightarrow> map_of ?l ''event_outcomes'' \<noteq> Some VNone"
    using validated_label_types [OF assms(1)] by (auto simp: dict_get_def split: option.splits)
  then have "is_ok (error_row_of ?l measured_benefit measured_deltas scope shadow pred)
      \<longleftrightarrow> \<not> (map_of ?l ''event_outcomes'' = Some VNone \<and> lp_target_type pred = RISK_BINARY
             \<and> starts_with (lp_target_name pred) ''p_event.'')"
    if "pred \<in> set predictions" for pred
    using assms(2) that error_row_of_ok risk_actual_ok by blast
  then show ?thesis unfolding build_error_rows_def map_res_is_ok by blast
qed

definition sample_prediction :: "string \<Rightarrow> string \<Rightarrow> loaded_prediction" where
  "sample_prediction t n =
     \<lparr>lp_action_id = Some ''a1'', lp_target_type = t, lp_target_name = n, lp_predicted_value = Some 0.3\<rparr>"

lemma validated_labels_are_sound_witness:
  "validate_labels (Some [(LABEL_SOURCE_KEY, VStr ''host''), (''event_outcomes'', VNone)]) = Inr ()
   \<and> \<not> is_ok (build_error_rows [sample_prediction RISK_BINARY ''p_event.dependency_break'']
          (extract_labels (Some [(LABEL_SOURCE_KEY, VStr ''host''), (''event_outcomes'', VNone)])) None []
          ''shadow'' 1)"
proof -
  let ?d = "Some [(LABEL_SOURCE_KEY, VStr ''host''), (''event_outcomes'', VNone)]"
  let ?p = "[sample_prediction RISK_BINARY ''p_event.dependency_break'']"
  have v: "validate_labels ?d = Inr ()"
    by (simp add: validate_labels_def BOOL_LABELS_def bool_label_ok_def cost_label_def LABEL_SOURCE_KEY_def)
  have "map_of (extract_labels ?d) ''event_outcomes'' = Some VNone"
    by (simp add: map_of_extract_labels LABEL_KEYS_def BOOL_LABELS_def COST_LABELS_def LABEL_SOURCE_KEY_def)
  then show ?thesis
    using v validated_labels_are_sound [OF v, of ?p None "[]" "''shadow''" 1] by (simp add: sample_prediction_def)
qed

end
