(* ===== verification/Pebra_Promotion_Gate.thy ===== *)
theory Pebra_Promotion_Gate
  imports Pebra_Prediction_Error "HOL-Library.Multiset"
begin

text \<open>
  \<open>pebra/core/learning_eval.py\<close> and \<open>pebra/core/promotion_evaluator.py\<close>: the metrics of a replay and the
  gates that decide whether a learned fact is promoted. A candidate is replayed on the rows of its scope;
  each row is predicted by the rate of the other rows (leave one out).

  A calibration row is a row of a calibration view; its numeric columns are nullable, and reading an
  absent one as a number is a \<open>TypeError\<close>. Continuous actual values are \<open>pyfloat\<close> as in the labels.
\<close>

section \<open>Evaluation metrics\<close>

record decision_outcome =
  do_proceeded :: bool
  do_harmful :: bool
  do_criticality_stage :: string

definition ece_edges :: "nat \<Rightarrow> real list" where
  "ece_edges n_bins = map (\<lambda>i. real i * (1 / real n_bins)) [1..<n_bins]"

definition ece_bin :: "real list \<Rightarrow> (real \<times> int) list \<Rightarrow> nat \<Rightarrow> (real \<times> int) list" where
  "ece_bin edges pairs b = filter (\<lambda>(p, _). bisect_right edges p = b) pairs"

definition ece :: "(real \<times> int) list \<Rightarrow> int \<Rightarrow> real res" where
  "ece pairs n_bins =
     (if pairs = [] then Inl (ValueError ''cannot compute ECE over an empty set of (predicted, actual) pairs'')
      else if n_bins \<le> 0 then Inl (ValueError ''n_bins must be > 0'')
      else
        let edges = ece_edges (nat n_bins);
            term = (\<lambda>b. if b = [] then 0
              else real (length b) / real (length pairs)
                * \<bar>sum_list (map (\<lambda>(_, y). of_int y) b) / real (length b)
                   - sum_list (map fst b) / real (length b)\<bar>)
        in Inr (sum_list (map (\<lambda>b. term (ece_bin edges pairs b)) [0..<nat n_bins])))"

definition share :: "('a \<Rightarrow> bool) \<Rightarrow> 'a list \<Rightarrow> real option" where
  "share P xs = (if xs = [] then None else Some (real (length (filter P xs)) / real (length xs)))"

definition false_proceed_rate :: "decision_outcome list \<Rightarrow> real option" where
  "false_proceed_rate outcomes = share do_proceeded (filter do_harmful outcomes)"

definition LOW_CRITICALITY :: "string list" where "LOW_CRITICALITY = [''C0'', ''C1'', ''C2'']"

definition false_block_rate_c0_c2 :: "decision_outcome list \<Rightarrow> real option" where
  "false_block_rate_c0_c2 outcomes =
     share (\<lambda>o'. \<not> do_proceeded o')
       (filter (\<lambda>o'. \<not> do_harmful o' \<and> do_criticality_stage o' \<in> set LOW_CRITICALITY) outcomes)"

definition lift_lower_is_better :: "real \<Rightarrow> real \<Rightarrow> real" where
  "lift_lower_is_better baseline learned = baseline - learned"

definition lift_higher_is_better :: "real \<Rightarrow> real \<Rightarrow> real" where
  "lift_higher_is_better baseline learned = learned - baseline"

record promotion_metrics =
  pm_n :: int
  pm_brier :: real
  pm_log_loss :: real
  pm_ece :: real
  pm_false_proceed_rate :: "real option"
  pm_false_block_rate_c0_c2 :: "real option"

definition compute_promotion_metrics ::
  "(real \<times> int) list \<Rightarrow> decision_outcome list \<Rightarrow> int \<Rightarrow> promotion_metrics res" where
  "compute_promotion_metrics pairs outcomes n_bins =
     rbind (mean_brier pairs) (\<lambda>brier.
     rbind (mean_log_loss pairs) (\<lambda>log_loss.
     rbind (ece pairs n_bins) (\<lambda>calibration_error.
       Inr \<lparr>pm_n = int (length pairs), pm_brier = brier, pm_log_loss = log_loss, pm_ece = calibration_error,
            pm_false_proceed_rate = false_proceed_rate outcomes,
            pm_false_block_rate_c0_c2 = false_block_rate_c0_c2 outcomes\<rparr>)))"

section \<open>Calibration rows\<close>

record calibration_row =
  cr_target_type :: string
  cr_target_name :: string
  cr_predicted_probability :: "real option"
  cr_predicted_value :: "real option"
  cr_actual_outcome :: "int option"
  cr_actual_value :: "pyfloat option"
  cr_features :: "pyval dict"
  cr_event_disutility :: "pyfloat option"

definition outcome_of :: "calibration_row \<Rightarrow> int res" where
  "outcome_of row = (case cr_actual_outcome row of None \<Rightarrow> Inl (TypeError ''int() of None'') | Some y \<Rightarrow> Inr y)"

definition value_of :: "calibration_row \<Rightarrow> pyfloat res" where
  "value_of row = (case cr_actual_value row of None \<Rightarrow> Inl (TypeError ''float() of None'') | Some a \<Rightarrow> Inr a)"

definition probability_of :: "calibration_row \<Rightarrow> real res" where
  "probability_of row =
     (case cr_predicted_probability row of None \<Rightarrow> Inl (TypeError ''float() of None'') | Some p \<Rightarrow> Inr p)"

definition predicted_of :: "calibration_row \<Rightarrow> real res" where
  "predicted_of row =
     (case cr_predicted_value row of None \<Rightarrow> Inl (TypeError ''float() of None'') | Some p \<Rightarrow> Inr p)"

definition nonempty_rows :: "'a list \<Rightarrow> unit res" where
  "nonempty_rows rows = (if rows = [] then Inl (ValueError ''cannot compute over empty rows'') else Inr ())"

text \<open>The outcomes of the rows, and sums of them.\<close>

definition outcomes_of :: "calibration_row list \<Rightarrow> int list res" where
  "outcomes_of rows = rbind (nonempty_rows rows) (\<lambda>_. map_res outcome_of rows)"

definition values_of :: "calibration_row list \<Rightarrow> pyfloat list res" where
  "values_of rows = rbind (nonempty_rows rows) (\<lambda>_. map_res value_of rows)"

definition compute_empirical_value :: "calibration_row list \<Rightarrow> real res" where
  "compute_empirical_value rows =
     rbind (outcomes_of rows) (\<lambda>ys. Inr (of_int (sum_list ys) / real (length ys)))"

section \<open>Posterior variances\<close>

definition beta_alpha :: "int list \<Rightarrow> real" where "beta_alpha ys = 1 + of_int (sum_list ys)"

definition beta_beta :: "int list \<Rightarrow> real" where
  "beta_beta ys = 1 + real (length ys) - of_int (sum_list ys)"

definition beta_parameter :: "int list \<Rightarrow> real" where
  "beta_parameter ys =
     (let total = beta_alpha ys + beta_beta ys
      in beta_alpha ys * beta_beta ys / (total\<^sup>2 * (total + 1)))"

definition beta_aleatoric :: "int list \<Rightarrow> real" where
  "beta_aleatoric ys =
     (let total = beta_alpha ys + beta_beta ys
      in beta_alpha ys * beta_beta ys / (total * (total + 1)))"

definition beta_parameter_variance :: "calibration_row list \<Rightarrow> real res" where
  "beta_parameter_variance rows = rbind (outcomes_of rows) (\<lambda>ys. Inr (beta_parameter ys))"

definition binary_aleatoric_variance :: "calibration_row list \<Rightarrow> real res" where
  "binary_aleatoric_variance rows = rbind (outcomes_of rows) (\<lambda>ys. Inr (beta_aleatoric ys))"

definition float_mean :: "pyfloat list \<Rightarrow> pyfloat" where
  "float_mean xs = float_over (float_sum xs) (length xs)"

definition sample_variance :: "pyfloat list \<Rightarrow> pyfloat" where
  "sample_variance xs =
     float_over (float_sum (map (\<lambda>x. float_square (float_sub x (float_mean xs))) xs)) (length xs - 1)"

definition continuous_mean_variance :: "calibration_row list \<Rightarrow> pyfloat res" where
  "continuous_mean_variance rows =
     rbind (values_of rows) (\<lambda>xs.
       Inr (if length xs = 1 then Fin 0 else float_over (sample_variance xs) (length xs)))"

definition continuous_aleatoric_variance :: "calibration_row list \<Rightarrow> pyfloat res" where
  "continuous_aleatoric_variance rows =
     rbind (values_of rows) (\<lambda>xs. Inr (if length xs = 1 then Fin 0 else sample_variance xs))"

definition compute_empirical_continuous_value :: "calibration_row list \<Rightarrow> pyfloat res" where
  "compute_empirical_continuous_value rows = rbind (values_of rows) (\<lambda>xs. Inr (float_mean xs))"

definition wilson_lower_bound :: "int \<Rightarrow> int \<Rightarrow> real \<Rightarrow> real" where
  "wilson_lower_bound successes trials z_value =
     (if trials \<le> 0 then 0
      else
        let n = of_int trials; p = of_int successes / n; z2 = z_value\<^sup>2;
            denominator = 1 + z2 / n;
            centre = p + z2 / (2 * n);
            radius = z_value * sqrt ((p * (1 - p) + z2 / (4 * n)) / n)
        in max 0 ((centre - radius) / denominator))"

definition DEFAULT_Z :: real where "DEFAULT_Z = 1.645"

section \<open>Contiguous folds\<close>

text \<open>\<open>round(a / b)\<close>: half to even.\<close>

definition round_ratio :: "nat \<Rightarrow> nat \<Rightarrow> nat" where
  "round_ratio a b =
     (let q = a div b; r = a mod b
      in if 2 * r < b then q else if 2 * r > b then q + 1 else if even q then q else q + 1)"

definition fold_count :: "int \<Rightarrow> nat \<Rightarrow> nat" where
  "fold_count folds n = nat (max 2 (min folds (int n)))"

definition fold_boundary :: "nat \<Rightarrow> nat \<Rightarrow> nat \<Rightarrow> nat" where
  "fold_boundary n k i = round_ratio (i * n) k"

definition held_out :: "nat \<Rightarrow> 'a list \<Rightarrow> nat \<Rightarrow> 'a list" where
  "held_out k rows i =
     (let lo = fold_boundary (length rows) k i; hi = fold_boundary (length rows) k (i + 1)
      in take (hi - lo) (drop lo rows))"

definition training :: "nat \<Rightarrow> 'a list \<Rightarrow> nat \<Rightarrow> 'a list" where
  "training k rows i =
     (let lo = fold_boundary (length rows) k i; hi = fold_boundary (length rows) k (i + 1)
      in take lo rows @ drop hi rows)"

text \<open>The folds that are scored: both parts are non-empty.\<close>

definition scored_folds :: "int \<Rightarrow> 'a list \<Rightarrow> ('a list \<times> 'a list) list" where
  "scored_folds folds rows =
     (let k = fold_count folds (length rows)
      in filter (\<lambda>(h, t). h \<noteq> [] \<and> t \<noteq> []) (map (\<lambda>i. (held_out k rows i, training k rows i)) [0..<k]))"

definition beta_mean :: "int list \<Rightarrow> real" where
  "beta_mean ys = beta_alpha ys / (beta_alpha ys + beta_beta ys)"

definition fold_covered :: "real \<Rightarrow> int list \<times> int list \<Rightarrow> bool" where
  "fold_covered z_value fd =
     (let (held, train) = fd;
          mean = beta_mean train;
          sampling_variance = mean * (1 - mean) / real (length held);
          radius = z_value * sqrt (beta_parameter train + sampling_variance);
          observed_rate = of_int (sum_list held) / real (length held)
      in max 0 (mean - radius) \<le> observed_rate \<and> observed_rate \<le> min 1 (mean + radius))"

definition cross_fitted_binary_coverage :: "int list \<Rightarrow> int \<Rightarrow> real \<Rightarrow> real" where
  "cross_fitted_binary_coverage ys folds z_value =
     (if length ys < 2 then 0
      else case share (fold_covered z_value) (scored_folds folds ys) of None \<Rightarrow> 0 | Some x \<Rightarrow> x)"

definition point_covered :: "real \<Rightarrow> int list \<Rightarrow> int \<Rightarrow> bool" where
  "point_covered z_value train y =
     (let mean = beta_mean train;
          radius = z_value * sqrt (beta_parameter train + beta_aleatoric train)
      in max 0 (mean - radius) \<le> of_int y \<and> of_int y \<le> min 1 (mean + radius))"

definition cross_fitted_binary_point_coverage :: "int list \<Rightarrow> int \<Rightarrow> real \<Rightarrow> int \<times> int" where
  "cross_fitted_binary_point_coverage ys folds z_value =
     (if length ys < 2 then (0, 0)
      else
        let points = concat (map (\<lambda>(held, train). map (point_covered z_value train) held) (scored_folds folds ys))
        in (int (length (filter id points)), int (length points)))"

definition float_within :: "pyfloat \<Rightarrow> pyfloat \<Rightarrow> pyfloat \<Rightarrow> bool" where
  "float_within mean radius x = (float_le (float_sub mean radius) x \<and> float_le x (float_add mean radius))"

definition continuous_fold_covered :: "real \<Rightarrow> pyfloat list \<times> pyfloat list \<Rightarrow> bool" where
  "continuous_fold_covered z_value fd =
     (let (held, train) = fd; v = sample_variance train
      in float_within (float_mean train)
           (float_scale z_value (float_sqrt (float_add (float_over v (length train)) (float_over v (length held)))))
           (float_mean held))"

definition continuous_point_covered :: "real \<Rightarrow> pyfloat list \<Rightarrow> pyfloat \<Rightarrow> bool" where
  "continuous_point_covered z_value train x =
     (let v = sample_variance train
      in float_within (float_mean train)
           (float_scale z_value (float_sqrt (float_add (float_over v (length train)) v))) x)"

definition cross_fitted_continuous_coverage :: "pyfloat list \<Rightarrow> int \<Rightarrow> real \<Rightarrow> real \<times> int \<times> int" where
  "cross_fitted_continuous_coverage xs folds z_value =
     (if length xs < 2 then (0, 0, 0)
      else
        let scored = filter (\<lambda>(held, train). \<not> length train < 2) (scored_folds folds xs);
            points = concat (map (\<lambda>(held, train). map (continuous_point_covered z_value train) held) scored)
        in (case share (continuous_fold_covered z_value) scored of None \<Rightarrow> 0 | Some r \<Rightarrow> r,
            int (length (filter id points)), int (length points)))"

section \<open>The gates\<close>

record promotion_config =
  cf_min_delta_brier :: real
  cf_min_delta_log_loss :: real
  cf_min_delta_mse :: real
  cf_min_calibration_samples :: int
  cf_drift_freeze_threshold :: "real option"
  cf_decision_threshold :: real
  cf_event_concern_budget :: real
  cf_min_interval_coverage :: real
  cf_coverage_folds :: int
  cf_min_interval_coverage_samples :: int

definition default_promotion_config :: promotion_config where
  "default_promotion_config =
     \<lparr>cf_min_delta_brier = 0, cf_min_delta_log_loss = 0, cf_min_delta_mse = 0,
      cf_min_calibration_samples = MIN_CALIBRATION_SAMPLES, cf_drift_freeze_threshold = None,
      cf_decision_threshold = 0.5, cf_event_concern_budget = 0.10, cf_min_interval_coverage = 0.90,
      cf_coverage_folds = 10, cf_min_interval_coverage_samples = 100\<rparr>"

record candidate_fact =
  cx_target_name :: string
  cx_target_type :: string
  cx_scope_kind :: string
  cx_scope_value :: string
  cx_scope_json :: "pyval dict"
  cx_value :: real
  cx_sample_size :: int
  cx_specificity_rank :: int

record promotion_gate_result =
  pg_promoted :: bool
  pg_veto_reason :: "string option"
  pg_delta_brier :: "real option"
  pg_delta_log_loss :: "real option"
  pg_brier_without :: "real option"
  pg_brier_with :: "real option"
  pg_log_loss_without :: "real option"
  pg_log_loss_with :: "real option"
  pg_false_proceed_rate_without :: "real option"
  pg_false_proceed_rate_with :: "real option"
  pg_c4_weakening_detected :: bool
  pg_n_group :: int
  pg_n_eval :: int
  pg_delta_mse :: "pyfloat option"
  pg_interval_coverage :: "real option"
  pg_interval_coverage_lcb :: "real option"

definition insufficient :: "int \<Rightarrow> int \<Rightarrow> promotion_gate_result" where
  "insufficient n_group n_eval =
     \<lparr>pg_promoted = False, pg_veto_reason = Some ''INSUFFICIENT_N'', pg_delta_brier = None,
      pg_delta_log_loss = None, pg_brier_without = None, pg_brier_with = None, pg_log_loss_without = None,
      pg_log_loss_with = None, pg_false_proceed_rate_without = None, pg_false_proceed_rate_with = None,
      pg_c4_weakening_detected = False, pg_n_group = n_group, pg_n_eval = n_eval, pg_delta_mse = None,
      pg_interval_coverage = None, pg_interval_coverage_lcb = None\<rparr>"

definition in_scope :: "candidate_fact \<Rightarrow> calibration_row \<Rightarrow> bool" where
  "in_scope candidate row =
     scope_matches_features (cx_scope_kind candidate) (cx_scope_value candidate) (cx_scope_json candidate)
       (cr_features row)"

definition criticality_of :: "calibration_row \<Rightarrow> string" where
  "criticality_of row =
     (case dict_get (feature_block (cr_features row) ''domain'') ''criticality_stage'' (VStr []) of
        VStr s \<Rightarrow> s | _ \<Rightarrow> [])"

definition binary_pair :: "calibration_row \<Rightarrow> (real \<times> int) res" where
  "binary_pair row = rbind (probability_of row) (\<lambda>p0. rbind (outcome_of row) (\<lambda>y. Inr (p0, y)))"

text \<open>The leave-one-out prediction of each row: the rate of the other rows.\<close>

definition leave_one_out :: "(real \<times> int) list \<Rightarrow> (real \<times> int) list" where
  "leave_one_out pairs =
     (let s_total = sum_list (map snd pairs)
      in map (\<lambda>(_, y). (of_int (s_total - y) / (real (length pairs) - 1), y)) pairs)"

text \<open>Whether a prediction counts as a proceed: by concern (probability times disutility) when the row has
  a disutility, else by probability.\<close>

definition proceeds :: "promotion_config \<Rightarrow> calibration_row \<Rightarrow> real \<Rightarrow> bool" where
  "proceeds config row p =
     (case cr_event_disutility row of
        Some (Fin dis) \<Rightarrow> p * dis < cf_event_concern_budget config
      | Some PosInf \<Rightarrow> p < 0
      | Some NegInf \<Rightarrow> p > 0
      | Some NaN \<Rightarrow> False
      | None \<Rightarrow> p < cf_decision_threshold config)"

definition replay_outcomes ::
  "promotion_config \<Rightarrow> calibration_row list \<Rightarrow> (real \<times> int) list \<Rightarrow> decision_outcome list" where
  "replay_outcomes config rows pairs =
     map (\<lambda>(row, p, y). \<lparr>do_proceeded = proceeds config row p, do_harmful = (y \<noteq> 0),
                          do_criticality_stage = criticality_of row\<rparr>) (zip rows pairs)"

definition c4_only :: "decision_outcome list \<Rightarrow> decision_outcome list" where
  "c4_only outcomes = filter (\<lambda>o'. do_criticality_stage o' = ''C4'') outcomes"

text \<open>A rate that appears where there was none counts as an increase.\<close>

definition false_proceed_increased :: "real option \<Rightarrow> real option \<Rightarrow> bool" where
  "false_proceed_increased without learned =
     (case learned of
        None \<Rightarrow> False
      | Some w \<Rightarrow> (case without of None \<Rightarrow> True | Some x \<Rightarrow> w > x))"

definition coverage_low :: "promotion_config \<Rightarrow> int \<Rightarrow> real \<Rightarrow> real \<Rightarrow> bool" where
  "coverage_low config n_group coverage lcb =
     (n_group \<ge> cf_min_interval_coverage_samples config
      \<and> (coverage < cf_min_interval_coverage config \<or> lcb < cf_min_interval_coverage config))"

definition promotion_veto ::
  "promotion_config \<Rightarrow> real \<Rightarrow> real \<Rightarrow> bool \<Rightarrow> bool \<Rightarrow> bool \<Rightarrow> bool \<Rightarrow> string option" where
  "promotion_veto config delta_brier delta_log_loss is_event increased c4_weak low_coverage =
     (if delta_brier < cf_min_delta_brier config then Some ''DELTA_BRIER_NEGATIVE''
      else if delta_brier = cf_min_delta_brier config
      then Some (if cf_min_delta_brier config = 0 then ''DELTA_BRIER_NOT_POSITIVE'' else ''DELTA_BRIER_BELOW_MINIMUM'')
      else if delta_log_loss < cf_min_delta_log_loss config then Some ''DELTA_LOG_LOSS_NEGATIVE''
      else if delta_log_loss = cf_min_delta_log_loss config
      then Some (if cf_min_delta_log_loss config = 0 then ''DELTA_LOG_LOSS_NOT_POSITIVE''
                 else ''DELTA_LOG_LOSS_BELOW_MINIMUM'')
      else if is_event \<and> increased then Some ''FALSE_PROCEED_RATE_INCREASE''
      else if is_event \<and> c4_weak then Some ''C4_WEAKENING_DETECTED''
      else if low_coverage then Some ''INTERVAL_COVERAGE_LOW''
      else None)"

definition evaluate_promotion_gate ::
  "candidate_fact \<Rightarrow> calibration_row list \<Rightarrow> promotion_config \<Rightarrow> promotion_gate_result res" where
  "evaluate_promotion_gate candidate all_event_rows config =
     (let matched = filter (in_scope candidate) all_event_rows;
          n_group = int (length matched);
          n_eval = int (length all_event_rows)
      in if n_group < cf_min_calibration_samples config \<or> n_group < 2 then Inr (insufficient n_group n_eval)
         else
           rbind (map_res binary_pair matched) (\<lambda>pairs_without.
             let pairs_with = leave_one_out pairs_without
             in rbind (mean_brier pairs_without) (\<lambda>brier_without.
                rbind (mean_brier pairs_with) (\<lambda>brier_with.
                rbind (mean_log_loss pairs_without) (\<lambda>log_loss_without.
                rbind (mean_log_loss pairs_with) (\<lambda>log_loss_with.
                  let delta_brier = brier_without - brier_with;
                      delta_log_loss = log_loss_without - log_loss_with;
                      ys = map snd pairs_without;
                      coverage = cross_fitted_binary_coverage ys (cf_coverage_folds config) DEFAULT_Z;
                      points = cross_fitted_binary_point_coverage ys (cf_coverage_folds config) DEFAULT_Z;
                      lcb = wilson_lower_bound (fst points) (snd points) DEFAULT_Z;
                      is_event = starts_with (cx_target_name candidate) ''p_event.'';
                      without = replay_outcomes config matched pairs_without;
                      learned = replay_outcomes config matched pairs_with;
                      fpr_without = (if is_event then false_proceed_rate without else None);
                      fpr_with = (if is_event then false_proceed_rate learned else None);
                      c4_weak = (is_event \<and> false_proceed_increased (false_proceed_rate (c4_only without))
                                               (false_proceed_rate (c4_only learned)));
                      veto = promotion_veto config delta_brier delta_log_loss is_event
                               (false_proceed_increased fpr_without fpr_with) c4_weak
                               (coverage_low config n_group coverage lcb)
                  in Inr \<lparr>pg_promoted = (veto = None), pg_veto_reason = veto, pg_delta_brier = Some delta_brier,
                          pg_delta_log_loss = Some delta_log_loss, pg_brier_without = Some brier_without,
                          pg_brier_with = Some brier_with, pg_log_loss_without = Some log_loss_without,
                          pg_log_loss_with = Some log_loss_with, pg_false_proceed_rate_without = fpr_without,
                          pg_false_proceed_rate_with = fpr_with, pg_c4_weakening_detected = c4_weak,
                          pg_n_group = n_group, pg_n_eval = n_eval, pg_delta_mse = None,
                          pg_interval_coverage = Some coverage, pg_interval_coverage_lcb = Some lcb\<rparr>))))))"

definition continuous_pair :: "calibration_row \<Rightarrow> (real \<times> pyfloat) res" where
  "continuous_pair row = rbind (predicted_of row) (\<lambda>p0. rbind (value_of row) (\<lambda>a. Inr (p0, a)))"

definition leave_one_out_mean :: "pyfloat list \<Rightarrow> (pyfloat \<times> pyfloat) list" where
  "leave_one_out_mean xs = map (\<lambda>a. (float_over (float_sub (float_sum xs) a) (length xs - 1), a)) xs"

definition continuous_veto :: "promotion_config \<Rightarrow> pyfloat \<Rightarrow> bool \<Rightarrow> string option" where
  "continuous_veto config delta_mse low_coverage =
     (if float_lt delta_mse (Fin (cf_min_delta_mse config)) then Some ''DELTA_MSE_NEGATIVE''
      else if float_eq delta_mse (Fin (cf_min_delta_mse config))
      then Some (if cf_min_delta_mse config = 0 then ''DELTA_MSE_NOT_POSITIVE'' else ''DELTA_MSE_BELOW_MINIMUM'')
      else if low_coverage then Some ''INTERVAL_COVERAGE_LOW''
      else None)"

definition evaluate_benefit_continuous_gate ::
  "candidate_fact \<Rightarrow> calibration_row list \<Rightarrow> promotion_config \<Rightarrow> promotion_gate_result res" where
  "evaluate_benefit_continuous_gate candidate all_rows config =
     (let matched = filter (in_scope candidate) all_rows;
          n_group = int (length matched);
          n_eval = int (length all_rows)
      in if n_group < cf_min_calibration_samples config \<or> n_group < 2 then Inr (insufficient n_group n_eval)
         else
           rbind (map_res continuous_pair matched) (\<lambda>pairs.
             let actuals = map snd pairs
             in rbind (mse (map (\<lambda>(p0, a). (Fin p0, a)) pairs)) (\<lambda>mse_without.
                rbind (mse (leave_one_out_mean actuals)) (\<lambda>mse_with.
                  let delta_mse = float_sub mse_without mse_with;
                      (coverage, covered, evaluated) =
                        cross_fitted_continuous_coverage actuals (cf_coverage_folds config) DEFAULT_Z;
                      lcb = wilson_lower_bound covered evaluated DEFAULT_Z;
                      veto = continuous_veto config delta_mse (coverage_low config n_group coverage lcb)
                  in Inr ((insufficient n_group n_eval)
                            \<lparr>pg_promoted := (veto = None), pg_veto_reason := veto, pg_delta_mse := Some delta_mse,
                             pg_interval_coverage := Some coverage, pg_interval_coverage_lcb := Some lcb\<rparr>)))))"

section \<open>Folds\<close>

lemma round_ratio_bounds:
  assumes "0 < b"
  shows "2 * (b * round_ratio a b) \<le> 2 * a + b \<and> 2 * a \<le> 2 * (b * round_ratio a b) + b"
proof -
  have rounded: "2 * (b * (if 2 * r < b then q else if 2 * r > b then q + 1 else if even q then q else q + 1))
        \<le> 2 * (b * q + r) + b
      \<and> 2 * (b * q + r) \<le> 2 * (b * (if 2 * r < b then q else if 2 * r > b then q + 1 else if even q then q else q + 1)) + b"
    if "r < b" for q r using that by (auto simp: distrib_left)
  show ?thesis
    using rounded [of "a mod b" "a div b"] assms unfolding round_ratio_def Let_def by (simp only: mod_less_divisor mult_div_mod_eq)
qed

lemma round_ratio_mult [simp]: "0 < b \<Longrightarrow> round_ratio (i * b) b = i"
  by (simp add: round_ratio_def)

lemma fold_boundary_0 [simp]: "0 < k \<Longrightarrow> fold_boundary n k 0 = 0"
  by (simp add: fold_boundary_def round_ratio_def)

lemma fold_boundary_last [simp]: "0 < k \<Longrightarrow> fold_boundary n k k = n"
  using round_ratio_mult [of k n] by (simp add: fold_boundary_def mult.commute)

text \<open>Boundaries increase strictly, so no fold is empty: the rounding to even cannot merge two of them.\<close>

lemma fold_boundary_less:
  assumes "0 < k" "k \<le> n"
  shows "fold_boundary n k i < fold_boundary n k (i + 1)"
proof (cases "n = k")
  case True
  then show ?thesis
    using assms round_ratio_mult [of k i] round_ratio_mult [of k "i + 1"] by (simp add: fold_boundary_def)
next
  case False
  let ?r = "fold_boundary n k i" and ?r' = "fold_boundary n k (i + 1)"
  have "2 * (k * ?r) \<le> 2 * (i * n) + k" "2 * ((i + 1) * n) \<le> 2 * (k * ?r') + k"
    using round_ratio_bounds [OF assms(1)] unfolding fold_boundary_def by blast+
  moreover have "k < n" using assms False by simp
  moreover have "(i + 1) * n = i * n + n" by simp
  ultimately have "k * ?r < k * ?r'" by linarith
  then show ?thesis by simp
qed

lemma fold_boundary_le:
  assumes "0 < k" "k \<le> n" "i \<le> j"
  shows "fold_boundary n k i \<le> fold_boundary n k j"
  using assms(3)
proof (induction j)
  case (Suc j)
  then show ?case using fold_boundary_less [OF assms(1,2), of j] by (cases "i = Suc j") auto
qed simp

lemma fold_boundary_le_n: "0 < k \<Longrightarrow> k \<le> n \<Longrightarrow> i \<le> k \<Longrightarrow> fold_boundary n k i \<le> n"
  using fold_boundary_le [of k n i k] by simp

lemma fold_count_range: "2 \<le> n \<Longrightarrow> 2 \<le> fold_count folds n \<and> fold_count folds n \<le> n"
  by (auto simp: fold_count_def)

lemma concat_held_out:
  assumes "0 < k" "k \<le> length rows" "j \<le> k"
  shows "concat (map (held_out k rows) [0..<j]) = take (fold_boundary (length rows) k j) rows"
  using assms(3)
proof (induction j)
  case (Suc j)
  let ?b = "fold_boundary (length rows) k"
  have "?b j \<le> ?b (Suc j)" using fold_boundary_le [OF assms(1,2)] by simp
  then have "take (?b (Suc j)) rows = take (?b j) rows @ take (?b (Suc j) - ?b j) (drop (?b j) rows)"
    by (metis le_add_diff_inverse take_add)
  with Suc show ?case by (simp add: held_out_def Let_def)
qed (use assms(1) in simp)

lemma held_out_length:
  assumes "0 < k" "k \<le> length rows" "i < k"
  shows "length (held_out k rows i) = fold_boundary (length rows) k (i + 1) - fold_boundary (length rows) k i"
  using fold_boundary_le_n [OF assms(1,2), of "i + 1"] assms(3) by (simp add: held_out_def Let_def)

lemma held_out_not_all:
  assumes "2 \<le> k" "k \<le> length rows" "i < k"
  shows "length (held_out k rows i) < length rows"
proof -
  let ?b = "fold_boundary (length rows) k"
  have pos: "0 < k" using assms by simp
  show ?thesis
  proof (cases "i = 0")
    case True
    have "?b 1 < ?b (1 + 1)" using fold_boundary_less [OF pos assms(2)] by blast
    also have "?b (1 + 1) \<le> length rows" using fold_boundary_le_n [OF pos assms(2), of 2] assms(1) by (simp add: numeral_2_eq_2)
    finally show ?thesis using held_out_length [OF pos assms(2,3)] True pos by simp
  next
    case False
    then obtain j where j: "i = Suc j" by (cases i) auto
    have "0 < ?b i" using fold_boundary_less [OF pos assms(2), of j] unfolding j by simp
    moreover have "?b (i + 1) \<le> length rows" using fold_boundary_le_n [OF pos assms(2), of "i + 1"] assms(3) by simp
    ultimately show ?thesis
      using held_out_length [OF pos assms(2,3)] fold_boundary_less [OF pos assms(2), of i] by linarith
  qed
qed

lemma training_split:
  assumes "0 < k" "k \<le> length rows" "i < k"
  shows "mset (held_out k rows i) + mset (training k rows i) = mset rows"
proof -
  let ?lo = "fold_boundary (length rows) k i" and ?hi = "fold_boundary (length rows) k (i + 1)"
  have "?lo \<le> ?hi" using fold_boundary_le [OF assms(1,2)] by simp
  then have "rows = take ?lo rows @ take (?hi - ?lo) (drop ?lo rows) @ drop ?hi rows"
    by (metis append_take_drop_id drop_drop le_add_diff_inverse2)
  then have "mset rows = mset (take ?lo rows) + mset (take (?hi - ?lo) (drop ?lo rows)) + mset (drop ?hi rows)"
    by (metis (no_types, opaque_lifting) mset_append union_assoc)
  then show ?thesis by (simp add: held_out_def training_def Let_def ac_simps)
qed

lemma scored_folds_eq:
  assumes "2 \<le> length rows"
  shows "scored_folds folds rows =
    map (\<lambda>i. (held_out (fold_count folds (length rows)) rows i, training (fold_count folds (length rows)) rows i))
      [0..<fold_count folds (length rows)]"
proof -
  let ?k = "fold_count folds (length rows)"
  have k: "2 \<le> ?k" "?k \<le> length rows" "0 < ?k" using fold_count_range [OF assms, of folds] by auto
  have "held_out ?k rows i \<noteq> [] \<and> training ?k rows i \<noteq> []" if "i < ?k" for i
  proof -
    have h: "0 < length (held_out ?k rows i)" "length (held_out ?k rows i) < length rows"
      using held_out_length [OF k(3,2) that] fold_boundary_less [OF k(3,2), of i] held_out_not_all [OF k(1,2) that]
      by auto
    moreover have "length (held_out ?k rows i) + length (training ?k rows i) = length rows"
      using training_split [OF k(3,2) that] by (metis size_mset size_union)
    ultimately show ?thesis by auto
  qed
  then show ?thesis by (auto simp: scored_folds_def Let_def filter_id_conv)
qed

section \<open>Leave one out\<close>

lemma sum_list_const_real: "sum_list (map (\<lambda>_. c) xs) = real (length xs) * (c :: real)"
  by (induction xs) (simp_all add: algebra_simps)

lemma sum_sq_dev:
  assumes "\<And>y. y \<in> set ys \<Longrightarrow> y \<in> {0, 1 :: int}"
  shows "sum_list (map (\<lambda>y. (q - of_int y)\<^sup>2) ys)
    = real (length ys) * q\<^sup>2 - 2 * q * of_int (sum_list ys) + of_int (sum_list ys)"
  using assms
proof (induction ys)
  case (Cons y ys)
  then have "y = 0 \<or> y = 1" by simp
  with Cons show ?case by (auto simp: algebra_simps power2_eq_square)
qed simp

lemma leave_one_out_length [simp]: "length (leave_one_out pairs) = length pairs"
  by (simp add: leave_one_out_def Let_def)

lemma leave_one_out_snd [simp]: "map snd (leave_one_out pairs) = map snd pairs"
  by (simp add: leave_one_out_def Let_def case_prod_unfold comp_def)

text \<open>The replay is honest: its Brier score is the in-sample variance of the rate, inflated by
  \<open>(n / (n - 1))\<^sup>2\<close>.\<close>

lemma mean_brier_leave_one_out:
  assumes n: "2 \<le> length pairs" and y: "\<And>p y. (p, y) \<in> set pairs \<Longrightarrow> y \<in> {0, 1}"
  shows "mean_brier (leave_one_out pairs) =
    Inr ((real (length pairs) / (real (length pairs) - 1))\<^sup>2
         * (of_int (sum_list (map snd pairs)) / real (length pairs)
            * (1 - of_int (sum_list (map snd pairs)) / real (length pairs))))"
proof -
  let ?n = "real (length pairs)" and ?s = "of_int (sum_list (map snd pairs)) :: real"
  let ?q = "?s / ?n"
  have n0: "?n - 1 \<noteq> 0" "?n \<noteq> 0" "0 < ?n" using n by auto
  have dev: "((?s - of_int y) / (?n - 1) - of_int y)\<^sup>2 = (?n / (?n - 1))\<^sup>2 * (?q - of_int y)\<^sup>2" for y :: int
  proof -
    have "(?s - of_int y) / (?n - 1) - of_int y = ?n / (?n - 1) * (?q - of_int y)"
      using n0 by (simp add: field_simps)
    then show ?thesis by (simp only: power_mult_distrib)
  qed
  have "sum_list (map (\<lambda>(p, y). brier_score p y) (leave_one_out pairs))
      = sum_list (map (\<lambda>y. (?n / (?n - 1))\<^sup>2 * (?q - of_int y)\<^sup>2) (map snd pairs))"
    by (simp add: leave_one_out_def Let_def case_prod_unfold comp_def brier_score_def dev [symmetric])
  also have "\<dots> = (?n / (?n - 1))\<^sup>2 * sum_list (map (\<lambda>y. (?q - of_int y)\<^sup>2) (map snd pairs))"
    by (simp only: sum_list_const_mult)
  also have "sum_list (map (\<lambda>y. (?q - of_int y)\<^sup>2) (map snd pairs)) = ?n * ?q\<^sup>2 - 2 * ?q * ?s + ?s"
    using sum_sq_dev [of "map snd pairs" ?q] y by (force simp del: map_map)
  also have "\<dots> = ?n * (?q * (1 - ?q))"
    using n0 by (simp add: field_simps power2_eq_square)
  finally have sum: "sum_list (map (\<lambda>(p, y). brier_score p y) (leave_one_out pairs))
      = (?n / (?n - 1))\<^sup>2 * (?n * (?q * (1 - ?q)))" .
  have "leave_one_out pairs \<noteq> []" using n by (auto simp: leave_one_out_def Let_def)
  with sum n0 show ?thesis by (simp add: mean_brier_def require_pairs_def)
qed

section \<open>What a promotion proves\<close>

lemma share_range: "share P xs = Some r \<Longrightarrow> 0 \<le> r \<and> r \<le> 1"
  by (auto simp: share_def split: if_splits)

lemma map_res_pairs_snd:
  "map_res binary_pair rows = Inr pairs \<Longrightarrow> map Some (map snd pairs) = map cr_actual_outcome rows \<and> length pairs = length rows"
  unfolding map_res_Inr_iff
  by (induction rule: list_all2_induct)
    (auto simp: binary_pair_def probability_of_def outcome_of_def rbind_Inr_iff split: option.splits)

lemma promotion_veto_None:
  "promotion_veto config db dl is_event increased c4 low = None \<longleftrightarrow>
    cf_min_delta_brier config < db \<and> cf_min_delta_log_loss config < dl
    \<and> (is_event \<longrightarrow> \<not> increased \<and> \<not> c4) \<and> \<not> low"
  by (auto simp: promotion_veto_def)

lemma evaluate_promotion_gate_promoted:
  assumes "evaluate_promotion_gate candidate rows config = Inr r" and "pg_promoted r"
  defines "matched \<equiv> filter (in_scope candidate) rows"
  obtains pairs bw lo lw ll where "map_res binary_pair matched = Inr pairs"
    "cf_min_calibration_samples config \<le> int (length matched)" "2 \<le> length matched"
    "mean_brier pairs = Inr bw" "mean_brier (leave_one_out pairs) = Inr lo" "cf_min_delta_brier config < bw - lo"
    "mean_log_loss pairs = Inr lw" "mean_log_loss (leave_one_out pairs) = Inr ll" "cf_min_delta_log_loss config < lw - ll"
    "starts_with (cx_target_name candidate) ''p_event.'' \<longrightarrow>
       \<not> false_proceed_increased (false_proceed_rate (replay_outcomes config matched pairs))
           (false_proceed_rate (replay_outcomes config matched (leave_one_out pairs)))
       \<and> \<not> false_proceed_increased (false_proceed_rate (c4_only (replay_outcomes config matched pairs)))
           (false_proceed_rate (c4_only (replay_outcomes config matched (leave_one_out pairs))))"
proof -
  have n: "\<not> (int (length matched) < cf_min_calibration_samples config \<or> int (length matched) < 2)"
    using assms(1,2) unfolding evaluate_promotion_gate_def Let_def matched_def [symmetric]
    by (auto simp: insufficient_def)
  obtain pairs where p: "map_res binary_pair matched = Inr pairs"
    using assms(1) n unfolding evaluate_promotion_gate_def Let_def matched_def [symmetric]
    by (auto simp: rbind_Inr_iff)
  obtain bw lo llw llo where m: "mean_brier pairs = Inr bw" "mean_brier (leave_one_out pairs) = Inr lo"
    "mean_log_loss pairs = Inr llw" "mean_log_loss (leave_one_out pairs) = Inr llo"
    using assms(1) n p unfolding evaluate_promotion_gate_def Let_def matched_def [symmetric]
    by (auto simp: rbind_Inr_iff)
  show ?thesis
    using assms(1,2) n p m
    unfolding evaluate_promotion_gate_def Let_def matched_def [symmetric]
    by (intro that [of pairs bw lo llw llo]) (auto simp: promotion_veto_None)
qed

lemma share_not_increased:
  assumes "\<not> false_proceed_increased (share P xs) (share Q ys)" and "length xs = length ys"
  shows "length (filter Q ys) \<le> length (filter P xs)"
  using assms
  by (cases "ys = []") (auto simp: share_def false_proceed_increased_def divide_less_cancel not_less divide_le_cancel
      split: if_splits)

lemma replay_outcomes_flags:
  assumes "map snd ps = map snd qs" and "length rows = length ps"
  shows "map do_harmful (replay_outcomes config rows ps) = map do_harmful (replay_outcomes config rows qs)
    \<and> map do_criticality_stage (replay_outcomes config rows ps) = map do_criticality_stage (replay_outcomes config rows qs)"
proof -
  have "length ps = length qs" using assms(1) by (metis length_map)
  from this [symmetric] assms(2) [symmetric] show ?thesis
    using assms(1) by (induction qs ps rows rule: list_induct3) (auto simp: replay_outcomes_def)
qed

lemma filter_length_cong:
  "map f xs = map g ys \<Longrightarrow> length (filter f xs) = length (filter g ys)"
proof -
  have count: "length (filter h zs) = length (filter (\<lambda>b. b) (map h zs))" for h :: "'c \<Rightarrow> bool" and zs
    by (simp add: filter_map comp_def)
  assume "map f xs = map g ys"
  then show ?thesis by (simp only: count [of f] count [of g])
qed

text \<open>Of the harmful replayed edits, those that proceed.\<close>

definition harmful_proceeds :: "decision_outcome list \<Rightarrow> nat" where
  "harmful_proceeds outcomes = length (filter (\<lambda>o'. do_harmful o' \<and> do_proceeded o') outcomes)"

lemma false_proceed_count:
  assumes "\<not> false_proceed_increased (false_proceed_rate xs) (false_proceed_rate ys)"
    and "map do_harmful xs = map do_harmful ys"
  shows "harmful_proceeds ys \<le> harmful_proceeds xs"
  using share_not_increased [OF assms(1) [unfolded false_proceed_rate_def]] filter_length_cong [OF assms(2)]
  by (simp add: harmful_proceeds_def conj_commute)

lemma c4_only_flags:
  assumes "map do_harmful xs = map do_harmful ys" and "map do_criticality_stage xs = map do_criticality_stage ys"
  shows "map do_harmful (c4_only xs) = map do_harmful (c4_only ys)"
proof -
  have "length xs = length ys" using assms(1) by (metis length_map)
  then show ?thesis using assms by (induction xs ys rule: list_induct2) (auto simp: c4_only_def)
qed

lemma sum_binary: "set ys \<subseteq> {0, 1 :: int} \<Longrightarrow> sum_list ys = int (length (filter (\<lambda>y. y = 1) ys))"
  by (induction ys) auto

lemma count_flags: "map Some ys = map f xs \<Longrightarrow> length (filter (\<lambda>y. y = c) ys) = length (filter (\<lambda>x. f x = Some c) xs)"
proof (induction ys arbitrary: xs)
  case (Cons y ys)
  then show ?case by (cases xs) auto
qed simp

section \<open>Properties\<close>

text \<open>C31: A promotion is earned. A promoted binary fact, from rows whose outcomes are 0 or 1, has at least the configured
  number of rows in its scope and never fewer than two; the recorded probabilities have a Brier score above the honest one, the leave-one-out variance
  \<open>(n / (n - 1))\<^sup>2 q (1 - q)\<close> of the observed rate \<open>q\<close>, by more than the configured minimum, and a log loss above
  that of the leave-one-out rates by more than theirs. For an event target (\<open>p_event.\<close>), and for no other, the replay of
  the source, which stands in for the decision by comparing the probability times the disutility with a budget or the
  probability with a threshold, lets no more of the harmful rows proceed at the leave-one-out rates than at the recorded
  probabilities, over all rows and over those of stage C4.\<close>

theorem promotion_is_earned:
  assumes "evaluate_promotion_gate candidate rows config = Inr r" and "pg_promoted r"
    and "\<And>row. row \<in> set rows \<Longrightarrow> cr_actual_outcome row \<in> {Some 0, Some 1}"
  defines "matched \<equiv> filter (in_scope candidate) rows"
  defines "n \<equiv> real (length matched)"
  defines "q \<equiv> real (length (filter (\<lambda>row. cr_actual_outcome row = Some 1) matched)) / n"
  shows "\<exists>pairs baseline.
    map_res binary_pair matched = Inr pairs \<and> mean_brier pairs = Inr baseline
    \<and> cf_min_calibration_samples config \<le> int (length matched) \<and> 2 \<le> length matched
    \<and> cf_min_delta_brier config < baseline - (n / (n - 1))\<^sup>2 * (q * (1 - q))
    \<and> (\<exists>l l'. mean_log_loss pairs = Inr l \<and> mean_log_loss (leave_one_out pairs) = Inr l'
         \<and> cf_min_delta_log_loss config < l - l')
    \<and> (starts_with (cx_target_name candidate) ''p_event.'' \<longrightarrow>
         (let before = replay_outcomes config matched pairs;
              after = replay_outcomes config matched (leave_one_out pairs)
          in harmful_proceeds after \<le> harmful_proceeds before
             \<and> harmful_proceeds (c4_only after) \<le> harmful_proceeds (c4_only before)))"
proof -
  obtain pairs bw lo lw ll where g: "map_res binary_pair matched = Inr pairs"
    "cf_min_calibration_samples config \<le> int (length matched)" "2 \<le> length matched"
    "mean_brier pairs = Inr bw" "mean_brier (leave_one_out pairs) = Inr lo" "cf_min_delta_brier config < bw - lo"
    and losses: "mean_log_loss pairs = Inr lw" "mean_log_loss (leave_one_out pairs) = Inr ll"
      "cf_min_delta_log_loss config < lw - ll"
    and safe: "starts_with (cx_target_name candidate) ''p_event.'' \<longrightarrow>
       \<not> false_proceed_increased (false_proceed_rate (replay_outcomes config matched pairs))
           (false_proceed_rate (replay_outcomes config matched (leave_one_out pairs)))
       \<and> \<not> false_proceed_increased (false_proceed_rate (c4_only (replay_outcomes config matched pairs)))
           (false_proceed_rate (c4_only (replay_outcomes config matched (leave_one_out pairs))))"
    by (rule evaluate_promotion_gate_promoted [OF assms(1,2), folded matched_def], rule that)
  have len: "length pairs = length matched" and snds: "map Some (map snd pairs) = map cr_actual_outcome matched"
    using map_res_pairs_snd [OF g(1)] by auto
  have "set (map cr_actual_outcome matched) \<subseteq> {Some 0, Some 1}" using assms(3) by (auto simp: matched_def)
  then have ys: "set (map snd pairs) \<subseteq> {0, 1}" unfolding snds [symmetric] by auto
  have "sum_list (map snd pairs) = int (length (filter (\<lambda>row. cr_actual_outcome row = Some 1) matched))"
    using sum_binary [OF ys] count_flags [OF snds, of 1] by simp
  then have q: "of_int (sum_list (map snd pairs)) / real (length pairs) = q" by (simp add: q_def n_def len)
  have two: "2 \<le> length pairs" and flag: "\<And>p y. (p, y) \<in> set pairs \<Longrightarrow> y \<in> {0, 1}"
    using ys g(3) len by (force, force)
  have "lo = (n / (n - 1))\<^sup>2 * (q * (1 - q))"
    using mean_brier_leave_one_out [OF two flag] g(5) by (simp only: q sum.inject) (simp add: len n_def)
  moreover note flags = replay_outcomes_flags [of pairs "leave_one_out pairs" matched config]
  have "map do_harmful (replay_outcomes config matched pairs) = map do_harmful (replay_outcomes config matched (leave_one_out pairs))"
    "map do_criticality_stage (replay_outcomes config matched pairs)
      = map do_criticality_stage (replay_outcomes config matched (leave_one_out pairs))"
    using flags len by auto
  then have "starts_with (cx_target_name candidate) ''p_event.'' \<Longrightarrow>
      harmful_proceeds (replay_outcomes config matched (leave_one_out pairs))
        \<le> harmful_proceeds (replay_outcomes config matched pairs)
      \<and> harmful_proceeds (c4_only (replay_outcomes config matched (leave_one_out pairs)))
        \<le> harmful_proceeds (c4_only (replay_outcomes config matched pairs))"
    using safe false_proceed_count c4_only_flags by blast
  ultimately show ?thesis
    using g losses by (intro exI [of _ pairs] exI [of _ bw] exI [of _ lw] exI [of _ ll] conjI impI) (simp_all only: Let_def simp_thms)
qed

text \<open>Two rows of a harmless event that was predicted at one half.\<close>

definition harmless_row :: calibration_row where
  "harmless_row =
     \<lparr>cr_target_type = ''risk_binary'', cr_target_name = ''p_event.dependency_break'',
      cr_predicted_probability = Some 0.5, cr_predicted_value = None, cr_actual_outcome = Some 0,
      cr_actual_value = None, cr_features = [], cr_event_disutility = None\<rparr>"

definition event_candidate :: candidate_fact where
  "event_candidate =
     \<lparr>cx_target_name = ''p_event.dependency_break'', cx_target_type = ''risk_binary'', cx_scope_kind = ''global'',
      cx_scope_value = [], cx_scope_json = [], cx_value = 0, cx_sample_size = 0, cx_specificity_rank = 0\<rparr>"

definition small_config :: promotion_config where
  "small_config = default_promotion_config\<lparr>cf_min_calibration_samples := 2\<rparr>"

lemma in_scope_global [simp]: "in_scope event_candidate row"
  by (simp add: in_scope_def event_candidate_def scope_matches_features_def)

lemma harmless_promoted:
  "\<exists>r. evaluate_promotion_gate event_candidate [harmless_row, harmless_row] small_config = Inr r \<and> pg_promoted r"
proof -
  have "ln (1 - LOG_LOSS_CLIP_EPS) < 0" "ln (1 / 2) < ln (1 - LOG_LOSS_CLIP_EPS)"
    by (simp_all add: LOG_LOSS_CLIP_EPS_def)
  then have "log_loss_single (1 / 2) 0 > log_loss_single 0 0"
    by (simp add: log_loss_single_def LOG_LOSS_CLIP_EPS_def)
  then show ?thesis
    by (simp add: evaluate_promotion_gate_def harmless_row_def binary_pair_def probability_of_def outcome_of_def
        leave_one_out_def mean_brier_def mean_log_loss_def require_pairs_def brier_score_def promotion_veto_def
        replay_outcomes_def false_proceed_rate_def c4_only_def share_def false_proceed_increased_def
        coverage_low_def small_config_def default_promotion_config_def Let_def)
qed

lemma promotion_is_earned_witness:
  "\<exists>pairs. map_res binary_pair [harmless_row, harmless_row] = Inr pairs
     \<and> (let before = replay_outcomes small_config [harmless_row, harmless_row] pairs;
            after = replay_outcomes small_config [harmless_row, harmless_row] (leave_one_out pairs)
        in harmful_proceeds after \<le> harmful_proceeds before)"
proof -
  obtain r where "evaluate_promotion_gate event_candidate [harmless_row, harmless_row] small_config = Inr r"
      "pg_promoted r"
    using harmless_promoted by blast
  from promotion_is_earned [OF this] show ?thesis
    by (auto simp: harmless_row_def event_candidate_def [THEN arg_cong, of cx_target_name] starts_with_def Let_def)
qed

text \<open>Cross fitting is a partition. For every number of folds, whatever its sign or size, the held-out parts
  of the scored folds are consecutive and together exactly the rows in order; both parts of a fold are
  non-empty, a fold trains on exactly the rows it does not hold out, and the point coverage judges each row
  once.\<close>

theorem held_out_folds_partition:
  assumes "2 \<le> length ys"
  shows "concat (map fst (scored_folds folds ys)) = ys
    \<and> (\<forall>fd \<in> set (scored_folds folds ys).
         fst fd \<noteq> [] \<and> snd fd \<noteq> [] \<and> mset (fst fd) + mset (snd fd) = mset ys)
    \<and> snd (cross_fitted_binary_point_coverage ys folds z) = int (length ys)"
proof -
  let ?k = "fold_count folds (length ys)"
  have k: "2 \<le> ?k" "?k \<le> length ys" "0 < ?k" using fold_count_range [OF assms, of folds] by auto
  have whole: "concat (map fst (scored_folds folds ys)) = ys"
    using concat_held_out [OF k(3,2), of ?k] k(3) by (simp add: scored_folds_eq [OF assms] comp_def)
  have "mset (fst fd) + mset (snd fd) = mset ys" if "fd \<in> set (scored_folds folds ys)" for fd
    using that training_split [OF k(3,2)] by (auto simp: scored_folds_eq [OF assms])
  moreover have "fst fd \<noteq> [] \<and> snd fd \<noteq> []" if "fd \<in> set (scored_folds folds ys)" for fd
    using that by (auto simp: scored_folds_def Let_def)
  moreover have "snd (cross_fitted_binary_point_coverage ys folds z)
      = int (length (concat (map fst (scored_folds folds ys))))"
    using assms by (simp add: cross_fitted_binary_point_coverage_def Let_def length_concat case_prod_unfold comp_def)
  ultimately show ?thesis using whole by simp
qed

lemma held_out_folds_partition_witness:
  "concat (map fst (scored_folds 10 [0, 1, 1 :: int])) = [0, 1, 1]"
  using held_out_folds_partition [of "[0, 1, 1]" 10] by simp

end
