(* ===== verification/Pebra_Promotion.thy ===== *)
theory Pebra_Promotion
  imports Pebra_Promotion_Gate Pebra_Sha256 "HOL-Library.Product_Lexorder"
begin

text \<open>
  \<open>pebra/app/promotion_controller.py\<close> without its ports, and \<open>pebra/core/snapshot_reconciler.py\<close>: the
  scopes a set of calibration rows supports, the facts that pass their gate, and the drift between the
  active facts and the ledger. \<open>json.dumps\<close> of the facts is an argument; the rows and the active snapshot are
  what the store reads. Where the source groups by dictionaries or sets, order is that of first
  occurrence or of \<open>sorted\<close>.
\<close>

section \<open>Candidates\<close>

definition SCOPE_SPECIFICITY :: "(string \<times> int) list" where
  "SCOPE_SPECIFICITY =
     [(''global'', 0), (''action_type'', 2), (''public_api'', 3), (''domain'', 4), (''domain_change_kind'', 5),
      (''high_symbol_fan_in'', 6), (''domain_high_symbol_fan_in'', 7), (''public_api_domain'', 8), (''symbol'', 9)]"

definition row_symbol :: "calibration_row \<Rightarrow> pyval dict" where
  "row_symbol row = feature_block (cr_features row) ''symbol''"

definition row_structural :: "calibration_row \<Rightarrow> pyval dict" where
  "row_structural row = feature_block (cr_features row) ''structural''"

text \<open>The strings of a list value; a block is a dictionary whose fields are strings.\<close>

definition strings_of :: "pyval \<Rightarrow> string list" where
  "strings_of v = (case v of VList xs \<Rightarrow> concat (map (\<lambda>x. case x of VStr s \<Rightarrow> [s] | _ \<Rightarrow> []) xs) | _ \<Rightarrow> [])"

definition row_domains :: "calibration_row \<Rightarrow> string list" where
  "row_domains row = strings_of (dict_get (feature_block (cr_features row) ''domain'') ''matched_domains'' VNone)"

definition string_field :: "pyval dict \<Rightarrow> string \<Rightarrow> string list" where
  "string_field d key = (case dict_get d key VNone of VStr s \<Rightarrow> if s = [] then [] else [s] | _ \<Rightarrow> [])"

definition cand :: "string \<Rightarrow> string \<Rightarrow> string \<Rightarrow> string \<Rightarrow> pyval dict \<Rightarrow> candidate_fact" where
  "cand target_name target_type scope_kind scope_value scope_json =
     \<lparr>cx_target_name = target_name, cx_target_type = target_type, cx_scope_kind = scope_kind,
      cx_scope_value = scope_value, cx_scope_json = scope_json, cx_value = 0, cx_sample_size = 0,
      cx_specificity_rank = dict_get SCOPE_SPECIFICITY scope_kind 0\<rparr>"

definition change_kind_pairs :: "calibration_row \<Rightarrow> (string \<times> string) list" where
  "change_kind_pairs row =
     concat (map (\<lambda>ck. map (\<lambda>d. (d, ck)) (row_domains row)) (string_field (row_symbol row) ''change_kind''))"

definition derive_scope_candidates :: "calibration_row list \<Rightarrow> string \<Rightarrow> string \<Rightarrow> candidate_fact list" where
  "derive_scope_candidates rows target_name target_type =
     (let c = cand target_name target_type;
          public = (\<lambda>r. truthy (dict_get (row_symbol r) ''is_public_api'' VNone));
          action_types = sorted_set (concat (map (\<lambda>r. string_field (row_symbol r) ''action_type'') rows));
          symbol_ids = sorted_set (concat (map (\<lambda>r. string_field (row_symbol r) ''symbol_id'') rows));
          all_domains = sorted_set (concat (map row_domains rows));
          domain_change_kinds = remdups (sort (concat (map change_kind_pairs rows)))
      in [c ''global'' [] []]
         @ map (\<lambda>a. c ''action_type'' a []) action_types
         @ (if list_ex public rows then [c ''public_api'' [] []] else [])
         @ (if list_ex (\<lambda>r. truthy (dict_get (row_structural r) ''is_high_symbol_fan_in'' VNone)) rows
            then [c ''high_symbol_fan_in'' [] [(''min_percentile'', vreal 0.90)]] else [])
         @ map (\<lambda>s. c ''symbol'' s []) symbol_ids
         @ map (\<lambda>d. c ''domain'' d []) all_domains
         @ map (\<lambda>d. c ''public_api_domain'' [] [(''domain'', VStr d)])
             (filter (\<lambda>d. list_ex (\<lambda>r. public r \<and> d \<in> set (row_domains r)) rows) all_domains)
         @ map (\<lambda>(d, ck). c ''domain_change_kind'' [] [(''domain'', VStr d), (''change_kind'', VStr ck)])
             domain_change_kinds
         @ map (\<lambda>d. c ''domain_high_symbol_fan_in'' [] [(''domain'', VStr d), (''min_percentile'', vreal 0.90)])
             all_domains)"

section \<open>Provenance of a group of rows\<close>

definition row_provenance :: "calibration_row \<Rightarrow> pyval dict" where
  "row_provenance row = feature_block (cr_features row) ''provenance''"

text \<open>\<open>Counter.most_common(1)\<close>: the first of the most frequent values, in order of first occurrence.\<close>

definition first_occurrences :: "'a list \<Rightarrow> 'a list" where
  "first_occurrences xs = rev (remdups (rev xs))"

definition most_common :: "string list \<Rightarrow> string option" where
  "most_common xs =
     (case first_occurrences xs of
        [] \<Rightarrow> None
      | y # ys \<Rightarrow> Some (first_max (\<lambda>v. length (filter (\<lambda>x. x = v) xs)) y ys))"

definition single_scope :: "calibration_row list \<Rightarrow> string option" where
  "single_scope rows =
     (if list_ex (\<lambda>r. string_field (row_provenance r) ''graph_scope_digest'' = []) rows then None
      else case first_occurrences (concat (map (\<lambda>r. string_field (row_provenance r) ''graph_scope_digest'') rows)) of
             [scope] \<Rightarrow> Some scope
           | _ \<Rightarrow> None)"

definition extract_provider_provenance ::
  "calibration_row list \<Rightarrow> string option \<times> string option \<times> string option" where
  "extract_provider_provenance rows =
     (most_common (concat (map (\<lambda>r. string_field (row_provenance r) ''provider_version'') rows)),
      most_common (concat (map (\<lambda>r. string_field (row_provenance r) ''index_version'') rows)),
      single_scope rows)"

definition is_graph_derived_scope :: "string \<Rightarrow> bool" where
  "is_graph_derived_scope scope_kind = (scope_kind \<in> {''high_symbol_fan_in'', ''domain_high_symbol_fan_in''})"

definition one_graph_scope :: "calibration_row list \<Rightarrow> string option" where
  "one_graph_scope rows = single_scope rows"

section \<open>Collecting facts\<close>

text \<open>How a family of targets is promoted: its gate, the value of a fact and its variances.\<close>

record promotion_method =
  mt_gate :: "candidate_fact \<Rightarrow> calibration_row list \<Rightarrow> promotion_config \<Rightarrow> promotion_gate_result res"
  mt_value :: "calibration_row list \<Rightarrow> pyfloat res"
  mt_calibration_method :: string
  mt_variance :: "calibration_row list \<Rightarrow> pyfloat res"
  mt_variance_method :: string
  mt_aleatoric_variance :: "calibration_row list \<Rightarrow> pyfloat res"

definition fin_res :: "real res \<Rightarrow> pyfloat res" where
  "fin_res r = rbind r (\<lambda>x. Inr (Fin x))"

definition binary_method :: promotion_method where
  "binary_method =
     \<lparr>mt_gate = evaluate_promotion_gate, mt_value = (\<lambda>rows. fin_res (compute_empirical_value rows)),
      mt_calibration_method = ''observed_rate_v1'',
      mt_variance = (\<lambda>rows. fin_res (beta_parameter_variance rows)),
      mt_variance_method = ''beta_1_1_parameter_variance'',
      mt_aleatoric_variance = (\<lambda>rows. fin_res (binary_aleatoric_variance rows))\<rparr>"

definition continuous_method :: promotion_method where
  "continuous_method =
     \<lparr>mt_gate = evaluate_benefit_continuous_gate, mt_value = compute_empirical_continuous_value,
      mt_calibration_method = ''observed_mean_v1'', mt_variance = continuous_mean_variance,
      mt_variance_method = ''sample_mean_variance'', mt_aleatoric_variance = continuous_aleatoric_variance\<rparr>"

record learned_fact =
  lf_target_type :: string
  lf_target_name :: string
  lf_scope_kind :: string
  lf_scope_value :: string
  lf_specificity_rank :: int
  lf_scope_json :: "pyval dict"
  lf_fact_json :: "pyval dict"
  lf_fact_type :: string
  lf_status :: string
  lf_requires_human_ratification :: bool

datatype gate_verdict = Promote learned_fact | Veto string

definition fact_of ::
  "promotion_method \<Rightarrow> candidate_fact \<Rightarrow> string \<Rightarrow> calibration_row list \<Rightarrow> learned_fact res" where
  "fact_of mt candidate target_type group_rows =
     (let (provider_v, index_v, graph_scope) = extract_provider_provenance group_rows;
          candidate_graph_scope = one_graph_scope group_rows
      in rbind (mt_value mt group_rows) (\<lambda>val.
         rbind (mt_variance mt group_rows) (\<lambda>variance.
         rbind (mt_aleatoric_variance mt group_rows) (\<lambda>aleatoric.
           Inr \<lparr>lf_target_type = target_type, lf_target_name = cx_target_name candidate,
                lf_scope_kind = cx_scope_kind candidate, lf_scope_value = cx_scope_value candidate,
                lf_specificity_rank = cx_specificity_rank candidate, lf_scope_json = cx_scope_json candidate,
                lf_fact_json =
                  [(''value'', VFloat val), (''weight'', vreal 1), (''sample_size'', VInt (int (length group_rows))),
                   (''calibration_method'', VStr (mt_calibration_method mt)), (''calibration_quality'', vreal 1),
                   (''scope_change_count'', VInt 0), (''provider_version'', vopt provider_v),
                   (''index_version'', vopt index_v),
                   (''graph_scope_digest'',
                      vopt (case candidate_graph_scope of None \<Rightarrow> graph_scope | Some s \<Rightarrow> Some s)),
                   (''variance'', VFloat variance), (''variance_method'', VStr (mt_variance_method mt)),
                   (''aleatoric_variance'', VFloat aleatoric)],
                lf_fact_type = ''learned_override'', lf_status = ''active'',
                lf_requires_human_ratification = False\<rparr>))))"

definition judge_candidate ::
  "promotion_method \<Rightarrow> promotion_config \<Rightarrow> calibration_row list \<Rightarrow> candidate_fact \<Rightarrow> gate_verdict list res" where
  "judge_candidate mt config target_rows candidate =
     rbind (mt_gate mt candidate target_rows config) (\<lambda>gate.
       if \<not> pg_promoted gate
       then Inr (case pg_veto_reason gate of None \<Rightarrow> [] | Some r \<Rightarrow> if r = [] then [] else [Veto r])
       else
         let group_rows = filter (in_scope candidate) target_rows
         in if is_graph_derived_scope (cx_scope_kind candidate) \<and> one_graph_scope group_rows = None
            then Inr [Veto ''GRAPH_SCOPE_COHORT_MISMATCH'']
            else rbind (fact_of mt candidate (cr_target_type (hd target_rows)) group_rows) (\<lambda>f. Inr [Promote f]))"

text \<open>Rows refined by a candidate-specific graph fact are left out; the others are grouped by target.\<close>

definition refined_row :: "calibration_row \<Rightarrow> bool" where
  "refined_row row =
     (dict_get (feature_block (cr_features row) ''graph_refinement'') ''status'' VNone = VStr ''available'')"

definition targets_of :: "calibration_row list \<Rightarrow> string list" where
  "targets_of rows = first_occurrences (map cr_target_name rows)"

definition target_candidates :: "calibration_row list \<Rightarrow> (calibration_row list \<times> candidate_fact) list" where
  "target_candidates all_rows =
     (let rows = filter (\<lambda>r. \<not> refined_row r) all_rows
      in concat (map (\<lambda>target_name.
           let target_rows = filter (\<lambda>r. cr_target_name r = target_name) rows
           in map (\<lambda>c. (target_rows, c))
                (derive_scope_candidates target_rows target_name (cr_target_type (hd target_rows))))
           (targets_of rows)))"

definition collect_facts ::
  "promotion_method \<Rightarrow> promotion_config \<Rightarrow> calibration_row list \<Rightarrow> (learned_fact list \<times> string list \<times> int) res" where
  "collect_facts mt config all_rows =
     rbind (map_res (\<lambda>(rows, c). judge_candidate mt config rows c) (target_candidates all_rows)) (\<lambda>verdicts.
       Inr (concat (map (\<lambda>v. case v of Promote f \<Rightarrow> [f] | Veto _ \<Rightarrow> []) (concat verdicts)),
            concat (map (\<lambda>v. case v of Promote _ \<Rightarrow> [] | Veto r \<Rightarrow> [r]) (concat verdicts)),
            int (length (target_candidates all_rows))))"

section \<open>Drift\<close>

text \<open>An active fact as decoded from its stored row.\<close>

record decoded_fact =
  df_value :: pyfloat
  df_target_name :: string
  df_scope_kind :: string
  df_scope_value :: string
  df_scope_json :: "pyval dict"

definition drift_of :: "calibration_row list \<Rightarrow> decoded_fact \<Rightarrow> pyfloat list res" where
  "drift_of calibration_rows f =
     (let matched = filter (\<lambda>r. cr_target_name r = df_target_name f
            \<and> scope_matches_features (df_scope_kind f) (df_scope_value f) (df_scope_json f) (cr_features r))
            calibration_rows
      in if matched = [] then Inr []
         else rbind (compute_empirical_value matched) (\<lambda>rate.
           Inr [case float_sub (df_value f) (Fin rate) of Fin x \<Rightarrow> Fin \<bar>x\<bar> | NegInf \<Rightarrow> PosInf | y \<Rightarrow> y]))"

definition compute_drift :: "decoded_fact list \<Rightarrow> calibration_row list \<Rightarrow> pyfloat res" where
  "compute_drift active_facts calibration_rows =
     rbind (map_res (drift_of calibration_rows) active_facts) (\<lambda>diffs.
       let ds = concat diffs
       in Inr (if ds = [] then Fin 0 else float_mean ds))"

definition should_freeze :: "pyfloat \<Rightarrow> real \<Rightarrow> bool" where
  "should_freeze drift threshold = float_ge drift (Fin threshold)"

end
