(* ===== verification/Pebra_Ledger.thy ===== *)
theory Pebra_Ledger
  imports Pebra_Verify Pebra_Promotion
begin

text \<open>
  The tables of \<open>pebra/adapters/store/db.py\<close> that hold assessments, predictions, outcomes, calibration
  errors, risk snapshots and learned facts: their rows, the content each row hashes, and the validation of
  their chains. The guardrail and sanction tables are those of \<open>Pebra_Verify\<close> and \<open>Pebra_Sanction_Store\<close>.

  A table is the list of its rows in the order of their ids; no row is ever deleted, so the next id of an
  \<open>AUTOINCREMENT\<close> column follows the last. \<open>json.dumps\<close> with sorted keys, in its compact and its default
  spelling, \<open>json.loads\<close> and the text of a value that is not a string are fields of a \<open>json_codec\<close>. A REAL
  column stores NaN as NULL and an integer as a float; everything else reads back as it was written.
\<close>

section \<open>JSON\<close>

record json_codec =
  js_compact :: "pyval dict \<Rightarrow> string"
  js_plain :: "pyval dict \<Rightarrow> string"
  js_loads :: "string \<Rightarrow> pyval res"
  js_text :: "pyval \<Rightarrow> string"

definition loads_dict :: "json_codec \<Rightarrow> string \<Rightarrow> pyval dict res" where
  "loads_dict codec s =
     rbind (js_loads codec s) (\<lambda>v. case v of VDict d \<Rightarrow> Inr d | _ \<Rightarrow> Inl (AttributeError ''object has no attribute get''))"

text \<open>
  Two values are interchangeable if they serialise to the same text wherever they are embedded. What is
  written is read back as a dictionary interchangeable with it: sorting the keys forgets their order only.
\<close>

definition interchangeable :: "json_codec \<Rightarrow> pyval \<Rightarrow> pyval \<Rightarrow> bool" where
  "interchangeable codec v w =
     (\<forall>before key after. js_compact codec (before @ (key, v) # after) = js_compact codec (before @ (key, w) # after))"

definition stable :: "json_codec \<Rightarrow> pyval dict \<Rightarrow> bool" where
  "stable codec d =
     (\<forall>spelling \<in> {js_compact codec d, js_plain codec d}. \<exists>d'.
        js_loads codec spelling = Inr (VDict d') \<and> interchangeable codec (VDict d') (VDict d))"

lemma stable_compact:
  "stable codec d \<Longrightarrow> \<exists>d'. js_loads codec (js_compact codec d) = Inr (VDict d') \<and> interchangeable codec (VDict d') (VDict d)"
  by (simp add: stable_def)

lemma stable_plain:
  "stable codec d \<Longrightarrow> \<exists>d'. js_loads codec (js_plain codec d) = Inr (VDict d') \<and> interchangeable codec (VDict d') (VDict d)"
  by (simp add: stable_def)

lemma same_text:
  assumes "list_all2 (\<lambda>x y. fst x = fst y \<and> (snd x = snd y \<or> interchangeable codec (snd x) (snd y))) xs ys"
  shows "js_compact codec xs = js_compact codec ys"
proof -
  have "js_compact codec (before @ xs) = js_compact codec (before @ ys)" for before
    using assms
  proof (induction xs ys arbitrary: before rule: list_all2_induct)
    case (Cons x xs y ys)
    have "js_compact codec (before @ x # xs) = js_compact codec (before @ y # xs)"
      using Cons.hyps(1) by (cases x; cases y) (auto simp: interchangeable_def)
    also have "\<dots> = js_compact codec (before @ y # ys)" using Cons.IH [of "before @ [y]"] by simp
    finally show ?case .
  qed simp
  from this [of "[]"] show ?thesis by simp
qed

definition vint_opt :: "int option \<Rightarrow> pyval" where
  "vint_opt x = (case x of None \<Rightarrow> VNone | Some i \<Rightarrow> VInt i)"

section \<open>Columns\<close>

text \<open>
  The value a REAL column gives back for a predicted value. Predicted values are finite numbers or absent:
  the scoring has computed with them; another value is reported as a \<open>TypeError\<close>.
\<close>

fun sql_real :: "pyval \<Rightarrow> real option res" where
  "sql_real VNone = Inr None"
| "sql_real (VInt i) = Inr (Some (of_int i))"
| "sql_real (VBool b) = Inr (Some (of_bool b))"
| "sql_real (VFloat (Fin x)) = Inr (Some x)"
| "sql_real (VFloat NaN) = Inr None"
| "sql_real _ = Inl (TypeError ''not a finite number'')"

definition sql_float :: "pyfloat option \<Rightarrow> pyfloat option" where
  "sql_float x = (if x = Some NaN then None else x)"

section \<open>Rows\<close>

record assessment_row =
  aw_id :: nat
  aw_repo_id :: string
  aw_decision :: string
  aw_content_json :: string
  aw_prev_hash :: string
  aw_row_hash :: string

record packet_row =
  pk_id :: nat
  pk_assessment_id :: nat
  pk_guidance_packet_id :: "string option"
  pk_packet_json :: string

record outcome_row =
  oc_id :: nat
  oc_assessment_id :: nat
  oc_guidance_packet_id :: "string option"
  oc_hash_version :: int
  oc_terminal_status :: string
  oc_detail_json :: string
  oc_recorded_at :: string
  oc_prev_hash :: string
  oc_row_hash :: string

record prediction_row =
  ap_id :: nat
  ap_assessment_id :: nat
  ap_repo_id :: string
  ap_action_id :: "string option"
  ap_target_type :: string
  ap_target_name :: string
  ap_predicted_value :: "real option"
  ap_prediction_scope :: string
  ap_label_status :: string
  ap_shadow_mode :: int
  ap_features_json :: string
  ap_provenance_json :: string
  ap_hash_version :: int
  ap_recorded_at :: string
  ap_prev_hash :: string
  ap_row_hash :: string

text \<open>The computed columns of a prediction error are those of an error row.\<close>

record stored_error =
  pe_id :: nat
  pe_assessment_id :: nat
  pe_row :: error_row
  pe_guidance_packet_id :: "string option"
  pe_benefit_guidance_influenced :: int
  pe_hash_version :: int
  pe_recorded_at :: string
  pe_prev_hash :: string
  pe_row_hash :: string

text \<open>
  The lifecycle columns of a snapshot. The columns of type TEXT take strings; no caller passes a value of
  another type, and one is read as absent.
\<close>

record snapshot_lifecycle =
  ls_parent_snapshot_id :: "string option"
  ls_created_from_outcome_hash :: "string option"
  ls_promotion_reason :: "string option"
  ls_rollback_reason :: "string option"
  ls_drift_score :: "pyfloat option"
  ls_activated_at :: "string option"
  ls_hash_version :: int

record snapshot_row =
  rs_id :: nat
  rs_repo_id :: string
  rs_status :: string
  rs_metrics_json :: string
  rs_lifecycle :: snapshot_lifecycle
  rs_created_at :: string
  rs_prev_hash :: string
  rs_row_hash :: string

record fact_row =
  lr_id :: nat
  lr_repo_id :: string
  lr_snapshot_id :: string
  lr_fact_type :: string
  lr_target_type :: string
  lr_target_name :: string
  lr_scope_kind :: string
  lr_scope_value :: string
  lr_specificity_rank :: int
  lr_scope_json :: string
  lr_fact_json :: string
  lr_status :: string
  lr_requires_human_ratification :: int
  lr_created_at :: string
  lr_prev_hash :: string
  lr_row_hash :: string

record ledger =
  lg_assessments :: "assessment_row list"
  lg_packets :: "packet_row list"
  lg_sanctions :: "sanction_row list"
  lg_guardrails :: "guardrail_row list"
  lg_outcomes :: "outcome_row list"
  lg_predictions :: "prediction_row list"
  lg_errors :: "stored_error list"
  lg_snapshots :: "snapshot_row list"
  lg_facts :: "fact_row list"

definition empty_ledger :: ledger where
  "empty_ledger =
     \<lparr>lg_assessments = [], lg_packets = [], lg_sanctions = [], lg_guardrails = [], lg_outcomes = [],
      lg_predictions = [], lg_errors = [], lg_snapshots = [], lg_facts = []\<rparr>"

definition next_id :: "('r \<Rightarrow> nat) \<Rightarrow> 'r list \<Rightarrow> nat" where
  "next_id key rows = (if rows = [] then 1 else Suc (key (last rows)))"

text \<open>\<open>ORDER BY id DESC LIMIT 1\<close> of the rows that satisfy a condition.\<close>

definition latest :: "('r \<Rightarrow> bool) \<Rightarrow> 'r list \<Rightarrow> 'r option" where
  "latest P rows = find P (rev rows)"

definition assessment_exists :: "nat \<Rightarrow> ledger \<Rightarrow> bool" where
  "assessment_exists i ledger = list_ex (\<lambda>a. aw_id a = i) (lg_assessments ledger)"

section \<open>Hashed contents\<close>

definition outcome_canonical ::
  "json_codec \<Rightarrow> nat \<Rightarrow> string \<Rightarrow> pyval \<Rightarrow> string \<Rightarrow> string option \<Rightarrow> int \<Rightarrow> string" where
  "outcome_canonical codec i terminal_status detail recorded_at guidance_packet_id hash_version =
     js_compact codec
       [(''assessment_id'', VInt (int i)), (''terminal_status'', VStr terminal_status),
        (''detail'', detail), (''recorded_at'', VStr recorded_at), (''guidance_packet_id'', vopt guidance_packet_id),
        (''hash_version'', VInt hash_version)]"

definition outcome_legacy_canonical :: "json_codec \<Rightarrow> nat \<Rightarrow> string \<Rightarrow> pyval \<Rightarrow> string \<Rightarrow> string" where
  "outcome_legacy_canonical codec i terminal_status detail recorded_at =
     js_compact codec
       [(''assessment_id'', VInt (int i)), (''terminal_status'', VStr terminal_status),
        (''detail'', detail), (''recorded_at'', VStr recorded_at)]"

definition prediction_canonical ::
  "json_codec \<Rightarrow> nat \<Rightarrow> string \<Rightarrow> string option \<Rightarrow> string \<Rightarrow> string \<Rightarrow> pyval \<Rightarrow> string \<Rightarrow> pyval \<Rightarrow> pyval
    \<Rightarrow> string \<Rightarrow> string" where
  "prediction_canonical codec i repo_id action_id target_type target_name predicted_value prediction_scope
       provenance features recorded_at =
     js_compact codec
       [(''assessment_id'', VInt (int i)), (''repo_id'', VStr repo_id), (''action_id'', vopt action_id),
        (''target_type'', VStr target_type), (''target_name'', VStr target_name),
        (''predicted_value'', predicted_value), (''prediction_scope'', VStr prediction_scope),
        (''provenance'', provenance), (''features'', features), (''hash_version'', VInt 2),
        (''recorded_at'', VStr recorded_at)]"

definition prediction_canonical_v1 ::
  "json_codec \<Rightarrow> nat \<Rightarrow> string \<Rightarrow> string \<Rightarrow> pyval \<Rightarrow> string \<Rightarrow> pyval \<Rightarrow> string \<Rightarrow> string" where
  "prediction_canonical_v1 codec i target_type target_name predicted_value prediction_scope provenance recorded_at =
     js_compact codec
       [(''assessment_id'', VInt (int i)), (''target_type'', VStr target_type),
        (''target_name'', VStr target_name), (''predicted_value'', predicted_value),
        (''prediction_scope'', VStr prediction_scope), (''provenance'', provenance),
        (''recorded_at'', VStr recorded_at)]"

text \<open>The fields of \<open>_PREDICTION_ERROR_LEGACY_FIELDS\<close>, and those version 2 adds.\<close>

definition error_legacy_fields :: "error_row \<Rightarrow> pyval dict" where
  "error_legacy_fields row =
     [(''action_id'', vopt (er_action_id row)), (''target_type'', VStr (er_target_type row)),
      (''target_name'', VStr (er_target_name row)),
      (''predicted_probability'', vnum_opt (er_predicted_probability row)),
      (''predicted_value'', vnum_opt (er_predicted_value row)),
      (''actual_outcome'', vint_opt (er_actual_outcome row)), (''actual_value'', vfloat_opt (er_actual_value row)),
      (''residual'', vfloat_opt (er_residual row)), (''brier_error'', vnum_opt (er_brier_error row)),
      (''log_loss'', vnum_opt (er_log_loss row)), (''squared_error'', vfloat_opt (er_squared_error row)),
      (''outcome_label_status'', VStr (er_outcome_label_status row)),
      (''calibration_scope'', VStr (er_calibration_scope row))]"

definition prediction_error_canonical ::
  "json_codec \<Rightarrow> nat \<Rightarrow> error_row \<Rightarrow> string option \<Rightarrow> int \<Rightarrow> int \<Rightarrow> string \<Rightarrow> string" where
  "prediction_error_canonical codec i row guidance_packet_id benefit_guidance_influenced hash_version recorded_at =
     js_compact codec
       ([(''assessment_id'', VInt (int i)), (''recorded_at'', VStr recorded_at)] @ error_legacy_fields row
        @ [(''guidance_packet_id'', vopt guidance_packet_id),
        (''benefit_guidance_influenced'', VInt benefit_guidance_influenced),
        (''shadow_mode'', VInt (er_shadow_mode row)), (''hash_version'', VInt hash_version)])"

definition prediction_error_legacy_canonical :: "json_codec \<Rightarrow> nat \<Rightarrow> error_row \<Rightarrow> string \<Rightarrow> string" where
  "prediction_error_legacy_canonical codec i row recorded_at =
     js_compact codec
       ([(''assessment_id'', VInt (int i)), (''recorded_at'', VStr recorded_at)] @ error_legacy_fields row)"

definition risk_snapshot_canonical ::
  "json_codec \<Rightarrow> string \<Rightarrow> string \<Rightarrow> pyval \<Rightarrow> string \<Rightarrow> snapshot_lifecycle \<Rightarrow> string" where
  "risk_snapshot_canonical codec repo_id status metrics created_at lifecycle =
     js_compact codec
       [(''repo_id'', VStr repo_id), (''status'', VStr status), (''metrics'', metrics),
        (''created_at'', VStr created_at),
        (''parent_snapshot_id'', vopt (ls_parent_snapshot_id lifecycle)),
        (''created_from_outcome_hash'', vopt (ls_created_from_outcome_hash lifecycle)),
        (''promotion_reason'', vopt (ls_promotion_reason lifecycle)),
        (''rollback_reason'', vopt (ls_rollback_reason lifecycle)),
        (''drift_score'', vfloat_opt (ls_drift_score lifecycle)),
        (''activated_at'', vopt (ls_activated_at lifecycle)),
        (''hash_version'', VInt (ls_hash_version lifecycle))]"

definition risk_snapshot_legacy_canonical ::
  "json_codec \<Rightarrow> string \<Rightarrow> string \<Rightarrow> pyval \<Rightarrow> string \<Rightarrow> string" where
  "risk_snapshot_legacy_canonical codec repo_id status metrics created_at =
     js_compact codec
       [(''repo_id'', VStr repo_id), (''status'', VStr status), (''metrics'', metrics),
        (''created_at'', VStr created_at)]"

definition learned_fact_canonical ::
  "json_codec \<Rightarrow> string \<Rightarrow> string \<Rightarrow> string \<Rightarrow> string \<Rightarrow> string \<Rightarrow> string \<Rightarrow> string \<Rightarrow> int \<Rightarrow> pyval \<Rightarrow> pyval
    \<Rightarrow> string \<Rightarrow> int \<Rightarrow> string \<Rightarrow> string" where
  "learned_fact_canonical codec repo_id snapshot_id fact_type target_type target_name scope_kind scope_value
       specificity_rank scope learned status requires_human_ratification created_at =
     js_compact codec
       [(''repo_id'', VStr repo_id), (''snapshot_id'', VStr snapshot_id), (''fact_type'', VStr fact_type),
        (''target_type'', VStr target_type), (''target_name'', VStr target_name),
        (''scope_kind'', VStr scope_kind), (''scope_value'', VStr scope_value),
        (''specificity_rank'', VInt specificity_rank), (''scope'', scope), (''fact'', learned),
        (''status'', VStr status), (''requires_human_ratification'', VInt requires_human_ratification),
        (''created_at'', VStr created_at)]"

section \<open>Validation\<close>

definition outcome_content :: "json_codec \<Rightarrow> outcome_row \<Rightarrow> string res" where
  "outcome_content codec r =
     rbind (js_loads codec (oc_detail_json r)) (\<lambda>detail.
       Inr (if oc_hash_version r = 2
            then outcome_canonical codec (oc_assessment_id r) (oc_terminal_status r) detail (oc_recorded_at r)
                   (oc_guidance_packet_id r) (oc_hash_version r)
            else outcome_legacy_canonical codec (oc_assessment_id r) (oc_terminal_status r) detail
                   (oc_recorded_at r)))"

definition validate_outcome_chain :: "json_codec \<Rightarrow> outcome_row list \<Rightarrow> bool res" where
  "validate_outcome_chain codec rows =
     chain_res (outcome_content codec) oc_prev_hash oc_row_hash GENESIS rows"

definition prediction_content :: "json_codec \<Rightarrow> prediction_row \<Rightarrow> string res" where
  "prediction_content codec r =
     rbind (js_loads codec (ap_provenance_json r)) (\<lambda>provenance.
       if ap_hash_version r = 2
       then rbind (js_loads codec (ap_features_json r)) (\<lambda>features.
              Inr (prediction_canonical codec (ap_assessment_id r) (ap_repo_id r) (ap_action_id r)
                     (ap_target_type r) (ap_target_name r) (vnum_opt (ap_predicted_value r))
                     (ap_prediction_scope r) provenance features (ap_recorded_at r)))
       else Inr (prediction_canonical_v1 codec (ap_assessment_id r) (ap_target_type r) (ap_target_name r)
                   (vnum_opt (ap_predicted_value r)) (ap_prediction_scope r) provenance (ap_recorded_at r)))"

definition validate_prediction_chain :: "json_codec \<Rightarrow> prediction_row list \<Rightarrow> bool res" where
  "validate_prediction_chain codec rows =
     chain_res (prediction_content codec) ap_prev_hash ap_row_hash GENESIS rows"

definition error_content :: "json_codec \<Rightarrow> stored_error \<Rightarrow> string res" where
  "error_content codec r =
     Inr (if pe_hash_version r = 2
          then prediction_error_canonical codec (pe_assessment_id r) (pe_row r) (pe_guidance_packet_id r)
                 (pe_benefit_guidance_influenced r) (pe_hash_version r) (pe_recorded_at r)
          else prediction_error_legacy_canonical codec (pe_assessment_id r) (pe_row r) (pe_recorded_at r))"

definition validate_prediction_error_chain :: "json_codec \<Rightarrow> stored_error list \<Rightarrow> bool res" where
  "validate_prediction_error_chain codec rows =
     chain_res (error_content codec) pe_prev_hash pe_row_hash GENESIS rows"

definition snapshot_content :: "json_codec \<Rightarrow> snapshot_row \<Rightarrow> string res" where
  "snapshot_content codec r =
     rbind (js_loads codec (rs_metrics_json r)) (\<lambda>metrics.
       Inr (if ls_hash_version (rs_lifecycle r) = 2
            then risk_snapshot_canonical codec (rs_repo_id r) (rs_status r) metrics (rs_created_at r)
                   (rs_lifecycle r)
            else risk_snapshot_legacy_canonical codec (rs_repo_id r) (rs_status r) metrics (rs_created_at r)))"

definition validate_risk_snapshot_chain :: "json_codec \<Rightarrow> snapshot_row list \<Rightarrow> bool res" where
  "validate_risk_snapshot_chain codec rows =
     chain_res (snapshot_content codec) rs_prev_hash rs_row_hash GENESIS rows"

definition fact_content :: "json_codec \<Rightarrow> fact_row \<Rightarrow> string res" where
  "fact_content codec r =
     rbind (js_loads codec (lr_scope_json r)) (\<lambda>scope.
     rbind (js_loads codec (lr_fact_json r)) (\<lambda>learned.
       Inr (learned_fact_canonical codec (lr_repo_id r) (lr_snapshot_id r) (lr_fact_type r) (lr_target_type r)
              (lr_target_name r) (lr_scope_kind r) (lr_scope_value r) (lr_specificity_rank r) scope learned
              (lr_status r) (lr_requires_human_ratification r) (lr_created_at r))))"

text \<open>Unlike its siblings, this validation answers False when a column does not parse.\<close>

fun is_value_or_type_error :: "pyerr \<Rightarrow> bool" where
  "is_value_or_type_error (ValueError _) = True"
| "is_value_or_type_error (TypeError _) = True"
| "is_value_or_type_error _ = False"

definition validate_learned_risk_fact_chain :: "json_codec \<Rightarrow> fact_row list \<Rightarrow> bool res" where
  "validate_learned_risk_fact_chain codec rows =
     (case chain_res (fact_content codec) lr_prev_hash lr_row_hash GENESIS rows of
        Inl e \<Rightarrow> if is_value_or_type_error e then Inr False else Inl e
      | Inr b \<Rightarrow> Inr b)"

definition validate_learning_chains :: "json_codec \<Rightarrow> ledger \<Rightarrow> bool res" where
  "validate_learning_chains codec ledger =
     rbind (validate_risk_snapshot_chain codec (lg_snapshots ledger)) (\<lambda>ok.
       if ok then validate_learned_risk_fact_chain codec (lg_facts ledger) else Inr False)"

text \<open>The assessment chain hashes the stored text; its columns and the guidance packet must agree with it.\<close>

definition guidance_matches_content :: "json_codec \<Rightarrow> pyval dict \<Rightarrow> string option \<Rightarrow> bool" where
  "guidance_matches_content codec content packet_json =
     (case dict_get content ''model_guidance_packet'' VNone of
        VNone \<Rightarrow> packet_json = None
      | embedded \<Rightarrow>
          (case packet_json of
             None \<Rightarrow> False
           | Some text' \<Rightarrow> (case embedded of VDict d \<Rightarrow> js_plain codec d = text' | _ \<Rightarrow> js_text codec embedded = text')))"

definition packet_of :: "nat \<Rightarrow> packet_row list \<Rightarrow> packet_row option" where
  "packet_of i packets = find (\<lambda>p. pk_assessment_id p = i) packets"

definition assessment_row_ok :: "json_codec \<Rightarrow> packet_row list \<Rightarrow> assessment_row \<Rightarrow> bool res" where
  "assessment_row_ok codec packets r =
     rbind (loads_dict codec (aw_content_json r)) (\<lambda>content.
       Inr (dict_get content ''repo_id'' VNone = VStr (aw_repo_id r)
            \<and> dict_get content ''decision'' VNone = VStr (aw_decision r)
            \<and> guidance_matches_content codec content (map_option pk_packet_json (packet_of (aw_id r) packets))))"

fun validate_assessments :: "json_codec \<Rightarrow> packet_row list \<Rightarrow> string \<Rightarrow> assessment_row list \<Rightarrow> bool res" where
  "validate_assessments codec packets prev_hash [] = Inr True"
| "validate_assessments codec packets prev_hash (r # rows) =
     (if aw_prev_hash r \<noteq> prev_hash then Inr False
      else if row_hash prev_hash (aw_content_json r) \<noteq> aw_row_hash r then Inr False
      else rbind (assessment_row_ok codec packets r) (\<lambda>ok.
        if \<not> ok then Inr False else validate_assessments codec packets (aw_row_hash r) rows))"

definition validate_assessment_chain :: "json_codec \<Rightarrow> ledger \<Rightarrow> bool res" where
  "validate_assessment_chain codec ledger =
     validate_assessments codec (lg_packets ledger) GENESIS (lg_assessments ledger)"

section \<open>The chains as audited tables\<close>

interpretation outcome_table: audited_table "outcome_content codec" oc_prev_hash oc_row_hash
    "\<lambda>rows. validate_outcome_chain codec rows = Inr True" for codec
  unfolding validate_outcome_chain_def by (rule audited.audited_table_axioms)

interpretation prediction_table: audited_table "prediction_content codec" ap_prev_hash ap_row_hash
    "\<lambda>rows. validate_prediction_chain codec rows = Inr True" for codec
  unfolding validate_prediction_chain_def by (rule audited.audited_table_axioms)

interpretation error_table: audited_table "error_content codec" pe_prev_hash pe_row_hash
    "\<lambda>rows. validate_prediction_error_chain codec rows = Inr True" for codec
  unfolding validate_prediction_error_chain_def by (rule audited.audited_table_axioms)

interpretation snapshot_table: audited_table "snapshot_content codec" rs_prev_hash rs_row_hash
    "\<lambda>rows. validate_risk_snapshot_chain codec rows = Inr True" for codec
  unfolding validate_risk_snapshot_chain_def by (rule audited.audited_table_axioms)

lemma learned_fact_chain_iff:
  "validate_learned_risk_fact_chain codec rows = Inr True \<longleftrightarrow>
     chain_res (fact_content codec) lr_prev_hash lr_row_hash GENESIS rows = Inr True"
  by (auto simp: validate_learned_risk_fact_chain_def split: sum.splits)

interpretation fact_table: audited_table "fact_content codec" lr_prev_hash lr_row_hash
    "\<lambda>rows. validate_learned_risk_fact_chain codec rows = Inr True" for codec
  unfolding learned_fact_chain_iff by (rule audited.audited_table_axioms)

lemma validate_assessments_snoc:
  "validate_assessments codec packets p (rows @ [r]) = Inr True \<longleftrightarrow>
     validate_assessments codec packets p rows = Inr True
     \<and> aw_prev_hash r = (if rows = [] then p else aw_row_hash (last rows))
     \<and> aw_row_hash r = row_hash (aw_prev_hash r) (aw_content_json r)
     \<and> assessment_row_ok codec packets r = Inr True"
proof (induction rows arbitrary: p)
  case Nil
  then show ?case by (auto simp: rbind_Inr_iff)
next
  case (Cons a rows)
  then show ?case by (cases "assessment_row_ok codec packets a") auto
qed

section \<open>Ids and references\<close>

text \<open>Ids grow, and what belongs to an assessment belongs to one that exists.\<close>

definition referenced :: "ledger \<Rightarrow> nat \<Rightarrow> bool" where
  "referenced ledger i = (i \<in> aw_id ` set (lg_assessments ledger))"

definition ids_ok :: "ledger \<Rightarrow> bool" where
  "ids_ok ledger =
     (sorted_wrt (<) (map aw_id (lg_assessments ledger))
      \<and> list_all (referenced ledger) (map pk_assessment_id (lg_packets ledger))
      \<and> list_all (referenced ledger) (map ap_assessment_id (lg_predictions ledger))
      \<and> list_all (referenced ledger) (map oc_assessment_id (lg_outcomes ledger))
      \<and> list_all (referenced ledger) (map pe_assessment_id (lg_errors ledger)))"

lemma assessment_exists_iff: "assessment_exists i ledger \<longleftrightarrow> referenced ledger i"
  by (auto simp: assessment_exists_def referenced_def list_ex_iff)

lemma sorted_lt_next_id:
  "sorted_wrt (<) (map key rows) \<Longrightarrow> x \<in> set rows \<Longrightarrow> key x < next_id key rows"
proof (cases rows rule: rev_cases)
  case (snoc ys y)
  moreover assume "sorted_wrt (<) (map key rows)" "x \<in> set rows"
  ultimately show ?thesis by (auto simp: next_id_def sorted_wrt_append less_SucI)
qed simp

lemma sorted_append_next_id:
  "sorted_wrt (<) (map key rows) \<Longrightarrow> sorted_wrt (<) (map key rows @ [next_id key rows])"
  using sorted_lt_next_id by (fastforce simp: sorted_wrt_append)

lemma next_assessment_fresh:
  "ids_ok ledger \<Longrightarrow> \<not> referenced ledger (next_id aw_id (lg_assessments ledger))"
  using sorted_lt_next_id [of aw_id "lg_assessments ledger"]
  by (auto simp: ids_ok_def referenced_def dest!: less_not_refl2)

lemma find_append: "find P (xs @ ys) = (case find P xs of None \<Rightarrow> find P ys | Some x \<Rightarrow> Some x)"
  by (induction xs) auto

end
