(* ===== verification/Pebra_Assessment_Ledger.thy ===== *)
theory Pebra_Assessment_Ledger
  imports Pebra_Ledger
begin

text \<open>
  The assessment side of \<open>pebra/adapters/store/db.py\<close>: persisting an assessment with its guidance packet and
  prediction manifest in one transaction, reading them back, the assessments that wait for a review, and
  the lineage of revisions. An error leaves the ledger as it was: it is returned instead of a new ledger.
\<close>

section \<open>Persisting an assessment\<close>

text \<open>The fields of \<open>AssessmentResult\<close> the store reads, with reason and scores as JSON.\<close>

record persisted_result =
  at_recommended_decision :: decision
  at_requires_confirmation :: bool
  at_action_status :: action_status
  at_risk_mode :: risk_mode
  at_scores :: "pyval dict"
  at_repo_id :: string
  at_repo_root :: string
  at_gates_fired :: "pyval list"
  at_high_risk_triggers :: "pyval list"
  at_model_guidance_packet :: "pyval dict option"
  at_decision_reason :: string
  at_assessed_commit :: "string option"

definition vdict_opt :: "pyval dict option \<Rightarrow> pyval" where
  "vdict_opt x = (case x of None \<Rightarrow> VNone | Some d \<Rightarrow> VDict d)"

definition assessment_content :: "persisted_result \<Rightarrow> pyval dict \<Rightarrow> string option \<Rightarrow> pyval dict" where
  "assessment_content result request_payload assessed_at =
     [(''decision'', VStr (decision_value (at_recommended_decision result))),
      (''requires_confirmation'', VBool (at_requires_confirmation result)),
      (''risk_mode'', VStr (risk_mode_value (at_risk_mode result))),
      (''action_status'', VStr (action_status_value (at_action_status result))),
      (''scores'', VDict (at_scores result)), (''repo_id'', VStr (at_repo_id result)),
      (''repo_root'', VStr (at_repo_root result)), (''assessed_commit'', vopt (at_assessed_commit result)),
      (''gates_fired'', VList (at_gates_fired result)),
      (''high_risk_triggers'', VList (at_high_risk_triggers result)),
      (''decision_reason'', VStr (at_decision_reason result)),
      (''model_guidance_packet'', vdict_opt (at_model_guidance_packet result)),
      (''request'', VDict request_payload)]
     @ (case assessed_at of None \<Rightarrow> [] | Some t \<Rightarrow> [(''assessed_at'', VStr t)])"

definition canonical :: "json_codec \<Rightarrow> persisted_result \<Rightarrow> pyval dict \<Rightarrow> string option \<Rightarrow> string" where
  "canonical codec result request_payload assessed_at =
     js_plain codec (assessment_content result request_payload assessed_at)"

definition py_str :: "json_codec \<Rightarrow> pyval \<Rightarrow> string" where
  "py_str codec v = (case v of VStr s \<Rightarrow> s | _ \<Rightarrow> js_text codec v)"

definition guidance_packet_uid :: "json_codec \<Rightarrow> nat \<Rightarrow> pyval dict \<Rightarrow> string" where
  "guidance_packet_uid codec i packet =
     (let logical = dict_get packet ''guidance_packet_id'' VNone
      in ''gp_'' @ show_nat i @ ''_'' @ (if truthy logical then py_str codec logical else ''packet''))"

definition last_prediction_hash :: "prediction_row list \<Rightarrow> string" where
  "last_prediction_hash rows = chain_last ap_row_hash rows"

definition insert_prediction ::
  "json_codec \<Rightarrow> nat \<Rightarrow> string \<Rightarrow> string \<Rightarrow> prediction_target \<Rightarrow> prediction_row list \<Rightarrow> prediction_row list res" where
  "insert_prediction codec i repo_id recorded_at pred rows =
     (let content_json = prediction_canonical codec i repo_id (Some (pt_action_id pred)) (pt_target_type pred)
            (pt_target_name pred) (pt_predicted_value pred) (pt_prediction_scope pred)
            (VDict (pt_provenance pred)) (VDict (pt_features pred)) recorded_at;
          prev_hash = last_prediction_hash rows
      in rbind (sql_real (pt_predicted_value pred)) (\<lambda>column.
           Inr (rows @ [\<lparr>ap_id = next_id ap_id rows, ap_assessment_id = i, ap_repo_id = repo_id,
                 ap_action_id = Some (pt_action_id pred), ap_target_type = pt_target_type pred,
                 ap_target_name = pt_target_name pred, ap_predicted_value = column,
                 ap_prediction_scope = pt_prediction_scope pred, ap_label_status = ''pending'',
                 ap_shadow_mode = 1, ap_features_json = js_plain codec (pt_features pred),
                 ap_provenance_json = js_plain codec (pt_provenance pred), ap_hash_version = 2,
                 ap_recorded_at = recorded_at, ap_prev_hash = prev_hash,
                 ap_row_hash = row_hash prev_hash content_json\<rparr>])))"

fun insert_predictions ::
  "json_codec \<Rightarrow> nat \<Rightarrow> string \<Rightarrow> string \<Rightarrow> prediction_target list \<Rightarrow> prediction_row list \<Rightarrow> prediction_row list res" where
  "insert_predictions codec i repo_id recorded_at [] rows = Inr rows"
| "insert_predictions codec i repo_id recorded_at (pred # preds) rows =
     rbind (insert_prediction codec i repo_id recorded_at pred rows) (\<lambda>rows'.
       insert_predictions codec i repo_id recorded_at preds rows')"

definition next_assessment_row_id :: "ledger \<Rightarrow> nat" where
  "next_assessment_row_id ledger = next_id aw_id (lg_assessments ledger)"

definition last_assessment_hash :: "ledger \<Rightarrow> string" where
  "last_assessment_hash ledger = chain_last aw_row_hash (lg_assessments ledger)"

definition asm_id :: "nat \<Rightarrow> string" where "asm_id i = ''asm_'' @ show_nat i"

definition identified_packet :: "json_codec \<Rightarrow> nat \<Rightarrow> pyval dict option \<Rightarrow> pyval dict option" where
  "identified_packet codec i packet =
     map_option (\<lambda>p. dict_set p ''guidance_packet_id'' (VStr (guidance_packet_uid codec i p))) packet"

definition packet_rows :: "json_codec \<Rightarrow> nat \<Rightarrow> pyval dict option \<Rightarrow> packet_row list \<Rightarrow> packet_row list" where
  "packet_rows codec i given rows =
     (case given of
        None \<Rightarrow> rows
      | Some p \<Rightarrow>
          rows @ [\<lparr>pk_id = next_id pk_id rows, pk_assessment_id = i,
                   pk_guidance_packet_id = Some (guidance_packet_uid codec i p),
                   pk_packet_json = js_plain codec (the (identified_packet codec i (Some p)))\<rparr>])"

definition persist_assessment ::
  "json_codec \<Rightarrow> string \<Rightarrow> persisted_result \<Rightarrow> pyval dict \<Rightarrow> prediction_target list \<Rightarrow> ledger
    \<Rightarrow> (string \<times> ledger) res" where
  "persist_assessment codec recorded_at result request_payload predictions ledger =
     (let i = next_assessment_row_id ledger;
          given = at_model_guidance_packet result;
          result' = result\<lparr>at_model_guidance_packet := identified_packet codec i given\<rparr>;
          content_json = canonical codec result' request_payload (Some recorded_at);
          prev_hash = last_assessment_hash ledger;
          row = \<lparr>aw_id = i, aw_repo_id = at_repo_id result,
                 aw_decision = decision_value (at_recommended_decision result), aw_content_json = content_json,
                 aw_prev_hash = prev_hash, aw_row_hash = row_hash prev_hash content_json\<rparr>
      in rbind (insert_predictions codec i (at_repo_id result) recorded_at predictions (lg_predictions ledger))
           (\<lambda>prediction_rows.
             Inr (asm_id i,
                  ledger\<lparr>lg_assessments := lg_assessments ledger @ [row],
                         lg_packets := packet_rows codec i given (lg_packets ledger),
                         lg_predictions := prediction_rows\<rparr>)))"

section \<open>Reading\<close>

definition load_assessment :: "json_codec \<Rightarrow> string \<Rightarrow> ledger \<Rightarrow> pyval res" where
  "load_assessment codec assessment_id ledger =
     rbind (row_id assessment_id) (\<lambda>i.
       case find (\<lambda>a. aw_id a = i) (lg_assessments ledger) of
         None \<Rightarrow> Inl (KeyError ''no assessment'')
       | Some a \<Rightarrow> js_loads codec (aw_content_json a))"

definition guidance_packet_id_for_assessment :: "string \<Rightarrow> ledger \<Rightarrow> string option res" where
  "guidance_packet_id_for_assessment assessment_id ledger =
     rbind (row_id assessment_id) (\<lambda>i.
       Inr (case packet_of i (lg_packets ledger) of None \<Rightarrow> None | Some p \<Rightarrow> pk_guidance_packet_id p))"

record stored_prediction = loaded_prediction +
  lp_prediction_id :: string
  lp_prediction_scope :: string
  lp_label_status :: string
  lp_shadow_mode :: int
  lp_provenance :: pyval
  lp_features :: pyval

definition read_prediction :: "json_codec \<Rightarrow> prediction_row \<Rightarrow> stored_prediction res" where
  "read_prediction codec r =
     rbind (js_loads codec (ap_provenance_json r)) (\<lambda>provenance.
     rbind (js_loads codec (ap_features_json r)) (\<lambda>features.
       Inr \<lparr>lp_action_id = ap_action_id r, lp_target_type = ap_target_type r, lp_target_name = ap_target_name r,
            lp_predicted_value = ap_predicted_value r, lp_prediction_id = ''ap_'' @ show_nat (ap_id r),
            lp_prediction_scope = ap_prediction_scope r, lp_label_status = ap_label_status r,
            lp_shadow_mode = ap_shadow_mode r, lp_provenance = provenance, lp_features = features\<rparr>))"

definition predictions_of :: "nat \<Rightarrow> ledger \<Rightarrow> prediction_row list" where
  "predictions_of i ledger = filter (\<lambda>r. ap_assessment_id r = i) (lg_predictions ledger)"

definition load_predictions :: "json_codec \<Rightarrow> string \<Rightarrow> ledger \<Rightarrow> stored_prediction list res" where
  "load_predictions codec assessment_id ledger =
     rbind (row_id assessment_id) (\<lambda>i. map_res (read_prediction codec) (predictions_of i ledger))"

definition latest_guardrails :: "json_codec \<Rightarrow> string \<Rightarrow> ledger \<Rightarrow> pyval option res" where
  "latest_guardrails codec assessment_id ledger =
     rbind (row_id assessment_id) (\<lambda>i.
       if \<not> assessment_exists i ledger then Inl (KeyError ''no assessment'')
       else case latest (\<lambda>g. gw_assessment_id g = i) (lg_guardrails ledger) of
              None \<Rightarrow> Inr None
            | Some g \<Rightarrow> rbind (js_loads codec (gw_guardrails_json g)) (\<lambda>v. Inr (Some v)))"

text \<open>The assessments at a commit that wait for a review, newest first, at most 200.\<close>

definition review_wanted :: "pyval dict \<Rightarrow> string \<Rightarrow> bool" where
  "review_wanted content assessed_commit =
     (let d = dict_get content ''decision'' VNone;
          gates = dict_get content ''gates_fired'' VNone;
          eligible = (case d of
              VStr s \<Rightarrow> reject_override_eligible s (case gates of VList gs \<Rightarrow> gs | _ \<Rightarrow> [])
            | _ \<Rightarrow> False)
      in py_eq (dict_get content ''assessed_commit'' VNone) (VStr assessed_commit)
         \<and> (d = VStr ''proceed'' \<longrightarrow> dict_get content ''requires_confirmation'' VNone = VBool True)
         \<and> (d = VStr ''reject'' \<longrightarrow> eligible))"

fun collect_reviews ::
  "json_codec \<Rightarrow> string \<Rightarrow> nat \<Rightarrow> assessment_row list \<Rightarrow> pyval dict list res" where
  "collect_reviews codec assessed_commit room [] = Inr []"
| "collect_reviews codec assessed_commit room (a # rows) =
     rbind (loads_dict codec (aw_content_json a)) (\<lambda>content.
       if \<not> review_wanted content assessed_commit then collect_reviews codec assessed_commit room rows
       else
         let found = dict_set content ''assessment_id'' (VStr (asm_id (aw_id a)))
         in if room \<le> 1 then Inr [found]
            else rbind (collect_reviews codec assessed_commit (room - 1) rows) (\<lambda>more_found.
              Inr (found # more_found)))"

definition pending_review_assessments ::
  "json_codec \<Rightarrow> string \<Rightarrow> string \<Rightarrow> ledger \<Rightarrow> pyval dict list res" where
  "pending_review_assessments codec repo_id assessed_commit ledger =
     collect_reviews codec assessed_commit 200
       (rev (filter (\<lambda>a. aw_repo_id a = repo_id \<and> aw_decision a \<in> {''ask_human'', ''reject'', ''proceed''})
          (lg_assessments ledger)))"

section \<open>Revision lineage\<close>

definition norm_scope_path :: "string \<Rightarrow> string" where
  "norm_scope_path path = (let p = slashes path in if starts_with p ''./'' then drop 2 p else p)"

fun contains_scope_mark :: "string \<Rightarrow> bool" where
  "contains_scope_mark [] = False"
| "contains_scope_mark (c # s) = (starts_with (c # s) ''::'' \<or> contains_scope_mark s)"

definition path_scope_entries :: "pyval \<Rightarrow> string list" where
  "path_scope_entries files =
     (case files of
        VList vs \<Rightarrow> sorted_set (map norm_scope_path (filter (\<lambda>f. \<not> contains_scope_mark f) (strings_of (VList vs))))
      | _ \<Rightarrow> [])"

record revision_record =
  rv_row_id :: nat
  rv_assessed_commit :: pyval
  rv_files :: "string list"
  rv_symbols :: "string list"
  rv_expected_loss :: pyval
  rv_benefit :: pyval
  rv_expected_utility :: pyval
  rv_utility_sd :: pyval
  rv_rau :: pyval
  rv_baseline_binding :: pyval
  rv_lineage_key :: pyval
  rv_verification_status :: pyval
  rv_verification_retryable :: bool
  rv_graph_refinement :: pyval

text \<open>\<open>v or {}\<close>, then \<open>.get\<close>: a value that is true and no dictionary has no \<open>get\<close>.\<close>

definition or_empty :: "pyval \<Rightarrow> pyval" where
  "or_empty v = (if truthy v then v else VDict [])"

definition as_dict :: "pyval \<Rightarrow> pyval dict res" where
  "as_dict v = (case v of VDict d \<Rightarrow> Inr d | _ \<Rightarrow> Inl (AttributeError ''object has no attribute get''))"

text \<open>Every error of the source is caught here, so a missing record is \<open>None\<close>.\<close>

definition read_revision :: "json_codec \<Rightarrow> nat \<Rightarrow> string \<Rightarrow> revision_record option res" where
  "read_revision codec i content_json =
     rbind (loads_dict codec content_json) (\<lambda>content.
     rbind (as_dict (or_empty (dict_get content ''request'' VNone))) (\<lambda>request.
       Inr (case dict_get request ''revision_envelope'' VNone of
              VDict envelope \<Rightarrow>
                (case (dict_get envelope ''expected_files'' VNone, dict_get envelope ''public_symbols'' VNone) of
                   (VList files, VList symbols) \<Rightarrow>
                     Some \<lparr>rv_row_id = i, rv_assessed_commit = dict_get content ''assessed_commit'' VNone,
                       rv_files = sorted_set (map (\<lambda>v. norm_scope_path (py_str codec v)) (filter truthy files)),
                       rv_symbols = map (py_str codec) symbols,
                       rv_expected_loss = dict_get envelope ''expected_loss'' VNone,
                       rv_benefit = dict_get envelope ''benefit'' VNone,
                       rv_expected_utility = dict_get envelope ''expected_utility'' VNone,
                       rv_utility_sd = dict_get envelope ''utility_sd'' VNone,
                       rv_rau = dict_get envelope ''rau'' VNone,
                       rv_baseline_binding = dict_get envelope ''baseline_binding'' VNone,
                       rv_lineage_key = dict_get envelope ''lineage_key'' VNone,
                       rv_verification_status = dict_get request ''candidate_verification_status'' VNone,
                       rv_verification_retryable =
                         truthy (dict_get request ''candidate_verification_retryable_infrastructure'' VNone),
                       rv_graph_refinement = or_empty (dict_get request ''graph_refinement'' VNone)\<rparr>
                 | _ \<Rightarrow> None)
            | _ \<Rightarrow> None)))"

definition revision_record_of :: "json_codec \<Rightarrow> nat \<Rightarrow> string \<Rightarrow> revision_record option" where
  "revision_record_of codec i content_json =
     (case read_revision codec i content_json of Inl _ \<Rightarrow> None | Inr r \<Rightarrow> r)"

definition retryable_revision :: "revision_record \<Rightarrow> bool res" where
  "retryable_revision r =
     (let status = rv_verification_status r
      in if status = VStr ''unavailable'' \<and> rv_verification_retryable r then Inr True
         else if \<not> hashable status then Inl (TypeError ''unhashable type'')
         else if status \<noteq> VNone \<and> status \<noteq> VStr ''not_applicable'' then Inr False
         else rbind (as_dict (or_empty (rv_graph_refinement r))) (\<lambda>graph.
           Inr (dict_get graph ''status'' VNone = VStr ''unavailable''
                \<and> dict_get graph ''retryable_infrastructure'' VNone = VBool True)))"

definition read_legacy_files :: "json_codec \<Rightarrow> string \<Rightarrow> string \<Rightarrow> string list res" where
  "read_legacy_files codec assessed_commit content_json =
     rbind (loads_dict codec content_json) (\<lambda>content.
       if dict_get content ''assessed_commit'' VNone \<noteq> VStr assessed_commit then Inr []
       else
         rbind (as_dict (or_empty (dict_get content ''model_guidance_packet'' VNone))) (\<lambda>packet.
         rbind (as_dict (or_empty (dict_get packet ''binding'' VNone))) (\<lambda>binding.
         rbind (as_dict (or_empty (dict_get binding ''safe_scope'' VNone))) (\<lambda>safe_scope.
           Inr (path_scope_entries (dict_get safe_scope ''files'' VNone))))))"

definition legacy_revision_files :: "json_codec \<Rightarrow> string \<Rightarrow> string \<Rightarrow> string list" where
  "legacy_revision_files codec assessed_commit content_json =
     (case read_legacy_files codec assessed_commit content_json of Inl _ \<Rightarrow> [] | Inr files \<Rightarrow> files)"

definition required_paths :: "string list \<Rightarrow> string list" where
  "required_paths target_files = sorted_set (map norm_scope_path (filter (\<lambda>f. f \<noteq> []) target_files))"

definition paths_within :: "string list \<Rightarrow> string list \<Rightarrow> bool" where
  "paths_within files required = list_all (\<lambda>f. f \<in> set required) files"

definition in_revision_scope :: "string list \<Rightarrow> pyval dict option \<Rightarrow> revision_record \<Rightarrow> bool" where
  "in_revision_scope required baseline_binding r =
     (paths_within (rv_files r) required
      \<or> (baseline_binding \<noteq> None \<and> list_ex (\<lambda>f. f \<in> set required) (rv_files r)))"

definition has_baseline :: "pyval dict option \<Rightarrow> revision_record \<Rightarrow> bool" where
  "has_baseline baseline_binding r =
     (case baseline_binding of None \<Rightarrow> False | Some b \<Rightarrow> py_eq (rv_baseline_binding r) (VDict b))"

definition revise_rows :: "string \<Rightarrow> ledger \<Rightarrow> assessment_row list" where
  "revise_rows repo_id ledger =
     filter (\<lambda>a. aw_repo_id a = repo_id \<and> aw_decision a = ''revise_safer'') (lg_assessments ledger)"

definition revision_records :: "json_codec \<Rightarrow> assessment_row list \<Rightarrow> revision_record list" where
  "revision_records codec rows =
     concat (map (\<lambda>a. case revision_record_of codec (aw_id a) (aw_content_json a) of None \<Rightarrow> [] | Some r \<Rightarrow> [r]) rows)"

definition legacy_match :: "json_codec \<Rightarrow> string \<Rightarrow> string list \<Rightarrow> assessment_row \<Rightarrow> bool" where
  "legacy_match codec assessed_commit required a =
     (let files = legacy_revision_files codec assessed_commit (aw_content_json a)
      in paths_within files required \<and> files \<noteq> [])"

definition lineage_count :: "revision_record list \<Rightarrow> int res" where
  "lineage_count lineage =
     rbind (map_res retryable_revision lineage) (\<lambda>flags.
       let exact_matches = int (length (filter Not flags));
           retryable_matches = int (length (filter id flags))
       in Inr (exact_matches + max 0 (retryable_matches - 1)))"

definition lineage_of :: "string \<Rightarrow> revision_record list \<Rightarrow> string \<Rightarrow> revision_record list" where
  "lineage_of assessed_commit revisions lineage_key =
     filter (\<lambda>r. rv_assessed_commit r = VStr assessed_commit \<and> rv_lineage_key r = VStr lineage_key) revisions"

definition lineage_keys :: "revision_record list \<Rightarrow> string list" where
  "lineage_keys revisions =
     remdups (concat (map (\<lambda>r. case rv_lineage_key r of VStr k \<Rightarrow> if k = [] then [] else [k] | _ \<Rightarrow> []) revisions))"

definition max_list :: "int list \<Rightarrow> int" where
  "max_list xs = foldl max 0 xs"

definition revise_safer_attempt_count ::
  "json_codec \<Rightarrow> string \<Rightarrow> string option \<Rightarrow> string list \<Rightarrow> pyval dict option \<Rightarrow> ledger \<Rightarrow> int res" where
  "revise_safer_attempt_count codec repo_id assessed_commit target_files baseline_binding ledger =
     (case assessed_commit of
        None \<Rightarrow> Inr 0
      | Some commit \<Rightarrow>
          let required = required_paths target_files;
              rows = revise_rows repo_id ledger;
              revisions = revision_records codec rows;
              candidates = filter (\<lambda>r. rv_assessed_commit r = VStr commit
                \<and> in_revision_scope required baseline_binding r) revisions;
              matching = filter (\<lambda>r.
                (if baseline_binding = None then paths_within (rv_files r) required else has_baseline baseline_binding r))
                candidates;
              keys = lineage_keys matching
          in if required = [] then Inr 0
             else if candidates = []
             then Inr (if list_ex (legacy_match codec commit required) rows then 1 else 0)
             else if keys = [] then Inr 1
             else rbind (map_res (\<lambda>k. lineage_count (lineage_of commit revisions k)) keys) (\<lambda>counts.
               Inr (max_list counts)))"

text \<open>The first persisted envelope of a lineage.\<close>

datatype revision_origin =
    NoOrigin
  | Unavailable string
  | Origin revision_record

definition first_record :: "revision_record list \<Rightarrow> revision_record" where
  "first_record rs = foldl (\<lambda>best r. if rv_row_id r < rv_row_id best then r else best) (hd rs) (tl rs)"

definition revision_origin_envelope ::
  "json_codec \<Rightarrow> string \<Rightarrow> string option \<Rightarrow> string list \<Rightarrow> pyval dict option \<Rightarrow> ledger \<Rightarrow> revision_origin" where
  "revision_origin_envelope codec repo_id assessed_commit target_files baseline_binding ledger =
     (case assessed_commit of
        None \<Rightarrow> NoOrigin
      | Some commit \<Rightarrow>
          let rows = revise_rows repo_id ledger;
              required = required_paths target_files;
              matching = filter (\<lambda>r. rv_assessed_commit r = VStr commit
                \<and> in_revision_scope required baseline_binding r) (revision_records codec rows);
              legacy = list_ex (\<lambda>a. revision_record_of codec (aw_id a) (aw_content_json a) = None
                \<and> legacy_match codec commit required a) rows;
              baseline_matches = filter (has_baseline baseline_binding) matching;
              keyed = (\<lambda>r. case rv_lineage_key r of VStr k \<Rightarrow> k \<noteq> [] | _ \<Rightarrow> False)
          in if matching = []
             then (if legacy then Unavailable ''origin assessment predates structural lineage binding'' else NoOrigin)
             else if baseline_binding = None
             then Unavailable ''current working-tree baseline could not be bound''
             else if baseline_matches = [] then NoOrigin
             else if \<not> list_all keyed baseline_matches
             then Unavailable ''origin assessment predates structural lineage binding''
             else if length (lineage_keys baseline_matches) \<noteq> 1
             then Unavailable ''multiple overlapping revision origins match this candidate''
             else Origin (first_record baseline_matches))"

definition origin_dict :: "revision_origin \<Rightarrow> pyval dict option" where
  "origin_dict origin =
     (case origin of
        NoOrigin \<Rightarrow> None
      | Unavailable reason \<Rightarrow> Some [(''available'', VBool False), (''fallback_reason'', VStr reason)]
      | Origin r \<Rightarrow>
          Some [(''available'', VBool True), (''assessment_id'', VStr (asm_id (rv_row_id r))),
                (''expected_files'', vstrs (rv_files r)), (''public_symbols'', vstrs (rv_symbols r)),
                (''expected_loss'', rv_expected_loss r), (''benefit'', rv_benefit r),
                (''expected_utility'', rv_expected_utility r), (''utility_sd'', rv_utility_sd r),
                (''rau'', rv_rau r), (''baseline_binding'', rv_baseline_binding r),
                (''lineage_key'', rv_lineage_key r)])"

section \<open>What persisting preserves\<close>

lemma prediction_canonical_cong:
  "interchangeable codec p p' \<or> p = p' \<Longrightarrow> interchangeable codec f f' \<or> f = f' \<Longrightarrow>
   prediction_canonical codec i repo_id a tt tn v scope p f t = prediction_canonical codec i repo_id a tt tn v scope p' f' t"
  unfolding prediction_canonical_def by (rule same_text) auto

text \<open>The content of an inserted row, rebuilt: its predicted value is that of the column.\<close>

definition target_canonical :: "json_codec \<Rightarrow> nat \<Rightarrow> string \<Rightarrow> string \<Rightarrow> prediction_target \<Rightarrow> pyval \<Rightarrow> string" where
  "target_canonical codec i repo_id recorded_at pred value =
     prediction_canonical codec i repo_id (Some (pt_action_id pred)) (pt_target_type pred) (pt_target_name pred) value
       (pt_prediction_scope pred) (VDict (pt_provenance pred)) (VDict (pt_features pred)) recorded_at"

lemma insert_prediction_row:
  assumes "insert_prediction codec i repo_id recorded_at pred rows = Inr rows'"
    and "stable codec (pt_provenance pred)" and "stable codec (pt_features pred)"
  obtains r column where "rows' = rows @ [r]" "sql_real (pt_predicted_value pred) = Inr column"
    "ap_id r = next_id ap_id rows" "ap_assessment_id r = i" "ap_target_type r = pt_target_type pred"
    "ap_target_name r = pt_target_name pred" "ap_prev_hash r = chain_last ap_row_hash rows"
    "ap_row_hash r = row_hash (ap_prev_hash r) (target_canonical codec i repo_id recorded_at pred (pt_predicted_value pred))"
    "prediction_content codec r = Inr (target_canonical codec i repo_id recorded_at pred (vnum_opt column))"
proof -
  obtain column where c: "sql_real (pt_predicted_value pred) = Inr column"
    using assms(1) by (auto simp: insert_prediction_def Let_def rbind_Inr_iff)
  let ?r = "\<lparr>ap_id = next_id ap_id rows, ap_assessment_id = i, ap_repo_id = repo_id,
    ap_action_id = Some (pt_action_id pred), ap_target_type = pt_target_type pred,
    ap_target_name = pt_target_name pred, ap_predicted_value = column,
    ap_prediction_scope = pt_prediction_scope pred, ap_label_status = ''pending'', ap_shadow_mode = 1,
    ap_features_json = js_plain codec (pt_features pred), ap_provenance_json = js_plain codec (pt_provenance pred),
    ap_hash_version = 2, ap_recorded_at = recorded_at, ap_prev_hash = chain_last ap_row_hash rows,
    ap_row_hash = row_hash (chain_last ap_row_hash rows)
      (target_canonical codec i repo_id recorded_at pred (pt_predicted_value pred))\<rparr>"
  obtain p f where pf: "js_loads codec (js_plain codec (pt_provenance pred)) = Inr (VDict p)"
      "interchangeable codec (VDict p) (VDict (pt_provenance pred))"
      "js_loads codec (js_plain codec (pt_features pred)) = Inr (VDict f)"
      "interchangeable codec (VDict f) (VDict (pt_features pred))"
    using stable_plain assms(2,3) by blast
  have "prediction_content codec ?r = Inr (target_canonical codec i repo_id recorded_at pred (vnum_opt column))"
    unfolding prediction_content_def target_canonical_def
    using prediction_canonical_cong [OF disjI1 disjI1, OF pf(2,4)] by (simp add: pf(1,3))
  moreover have "rows' = rows @ [?r]"
    using assms(1) c by (simp add: insert_prediction_def Let_def last_prediction_hash_def target_canonical_def)
  ultimately show ?thesis using c by (intro that [of ?r column]) simp_all
qed

text \<open>A predicted value that a REAL column gives back as it is.\<close>

fun float_valued :: "pyval \<Rightarrow> bool" where
  "float_valued VNone = True"
| "float_valued (VFloat (Fin _)) = True"
| "float_valued _ = False"

lemma float_valued_column: "float_valued v \<Longrightarrow> \<exists>c. sql_real v = Inr c \<and> vnum_opt c = v"
  by (cases v rule: float_valued.cases) (auto simp: vnum_opt_def)

lemma insert_prediction_valid:
  assumes "validate_prediction_chain codec rows = Inr True"
    and "insert_prediction codec i repo_id recorded_at pred rows = Inr rows'"
    and "stable codec (pt_provenance pred)" and "stable codec (pt_features pred)"
    and "float_valued (pt_predicted_value pred)"
  shows "validate_prediction_chain codec rows' = Inr True"
proof -
  obtain r column where r: "rows' = rows @ [r]" "sql_real (pt_predicted_value pred) = Inr column"
    "ap_prev_hash r = chain_last ap_row_hash rows"
    "ap_row_hash r = row_hash (ap_prev_hash r) (target_canonical codec i repo_id recorded_at pred (pt_predicted_value pred))"
    "prediction_content codec r = Inr (target_canonical codec i repo_id recorded_at pred (vnum_opt column))"
    by (rule insert_prediction_row [OF assms(2-4)])
  have "vnum_opt column = pt_predicted_value pred" using float_valued_column [OF assms(5)] r(2) by auto
  with r assms(1) show ?thesis by (simp add: prediction_table.audited_append)
qed

lemma insert_predictions_valid:
  assumes "validate_prediction_chain codec rows = Inr True"
    and "insert_predictions codec i repo_id recorded_at preds rows = Inr rows'"
    and "\<And>pred. pred \<in> set preds \<Longrightarrow> stable codec (pt_provenance pred) \<and> stable codec (pt_features pred)
           \<and> float_valued (pt_predicted_value pred)"
  shows "validate_prediction_chain codec rows' = Inr True"
  using assms
proof (induction preds arbitrary: rows)
  case (Cons pred preds)
  obtain mid where mid: "insert_prediction codec i repo_id recorded_at pred rows = Inr mid"
    and rest: "insert_predictions codec i repo_id recorded_at preds mid = Inr rows'"
    using Cons.prems(2) by (auto simp: rbind_Inr_iff)
  have "validate_prediction_chain codec mid = Inr True"
    using insert_prediction_valid [OF Cons.prems(1) mid] Cons.prems(3) [of pred] by simp
  from Cons.IH [OF this rest] Cons.prems(3) show ?case by simp
qed simp

text \<open>The rows that are inserted are those of the manifest.\<close>

lemma insert_prediction_appends:
  "insert_prediction codec i repo_id recorded_at pred rows = Inr rows' \<Longrightarrow>
   \<exists>r. rows' = rows @ [r] \<and> ap_assessment_id r = i \<and> ap_target_type r = pt_target_type pred
     \<and> ap_target_name r = pt_target_name pred \<and> sql_real (pt_predicted_value pred) = Inr (ap_predicted_value r)"
  by (auto simp: insert_prediction_def Let_def rbind_Inr_iff)

lemma insert_predictions_append:
  assumes "insert_predictions codec i repo_id recorded_at preds rows = Inr rows'"
  shows "\<exists>added. rows' = rows @ added \<and> (\<forall>r \<in> set added. ap_assessment_id r = i)
    \<and> map ap_target_name added = map pt_target_name preds"
  using assms
proof (induction preds arbitrary: rows)
  case (Cons pred preds)
  obtain mid where mid: "insert_prediction codec i repo_id recorded_at pred rows = Inr mid"
    and rest: "insert_predictions codec i repo_id recorded_at preds mid = Inr rows'"
    using Cons.prems by (auto simp: rbind_Inr_iff)
  obtain r where "mid = rows @ [r]" "ap_assessment_id r = i" "ap_target_name r = pt_target_name pred"
    using insert_prediction_appends [OF mid] by blast
  moreover obtain added where "rows' = mid @ added" "\<forall>r \<in> set added. ap_assessment_id r = i"
      "map ap_target_name added = map pt_target_name preds"
    using Cons.IH [OF rest] by blast
  ultimately show ?case by (intro exI [of _ "r # added"]) simp
qed simp

text \<open>What is read back of an assessment: the columns agree, the packet has the same text.\<close>

definition same_packet :: "json_codec \<Rightarrow> pyval \<Rightarrow> pyval \<Rightarrow> bool" where
  "same_packet codec v w =
     (case v of
        VNone \<Rightarrow> w = VNone
      | VDict d \<Rightarrow> (case w of VDict e \<Rightarrow> js_plain codec e = js_plain codec d | _ \<Rightarrow> False)
      | _ \<Rightarrow> False)"

definition reads_back :: "json_codec \<Rightarrow> pyval dict \<Rightarrow> bool" where
  "reads_back codec content =
     (\<exists>c. js_loads codec (js_plain codec content) = Inr (VDict c)
        \<and> dict_get c ''repo_id'' VNone = dict_get content ''repo_id'' VNone
        \<and> dict_get c ''decision'' VNone = dict_get content ''decision'' VNone
        \<and> same_packet codec (dict_get content ''model_guidance_packet'' VNone)
            (dict_get c ''model_guidance_packet'' VNone))"

text \<open>The content an assessment is stored with.\<close>

definition stored_content :: "json_codec \<Rightarrow> string \<Rightarrow> persisted_result \<Rightarrow> pyval dict \<Rightarrow> ledger \<Rightarrow> pyval dict" where
  "stored_content codec recorded_at result request_payload ledger =
     assessment_content
       (result\<lparr>at_model_guidance_packet :=
          identified_packet codec (next_assessment_row_id ledger) (at_model_guidance_packet result)\<rparr>)
       request_payload (Some recorded_at)"

lemma persist_assessment_cases:
  assumes "persist_assessment codec recorded_at result request_payload predictions ledger = Inr (aid, ledger')"
  obtains prediction_rows where
    "insert_predictions codec (next_assessment_row_id ledger) (at_repo_id result) recorded_at predictions
       (lg_predictions ledger) = Inr prediction_rows"
    "aid = asm_id (next_assessment_row_id ledger)"
    "ledger' = ledger\<lparr>lg_assessments := lg_assessments ledger @
        [\<lparr>aw_id = next_assessment_row_id ledger, aw_repo_id = at_repo_id result,
          aw_decision = decision_value (at_recommended_decision result),
          aw_content_json = js_plain codec (stored_content codec recorded_at result request_payload ledger),
          aw_prev_hash = last_assessment_hash ledger,
          aw_row_hash = row_hash (last_assessment_hash ledger)
            (js_plain codec (stored_content codec recorded_at result request_payload ledger))\<rparr>],
      lg_packets := packet_rows codec (next_assessment_row_id ledger) (at_model_guidance_packet result) (lg_packets ledger),
      lg_predictions := prediction_rows\<rparr>"
  using assms
  by (auto simp: persist_assessment_def Let_def rbind_Inr_iff canonical_def stored_content_def)

lemma packet_rows_other:
  "j \<noteq> i \<Longrightarrow> packet_of j (packet_rows codec i given rows) = packet_of j rows"
  by (auto simp: packet_rows_def packet_of_def find_append split: option.splits)

lemma packet_rows_own:
  assumes "\<forall>p \<in> set rows. pk_assessment_id p \<noteq> i"
  shows "map_option pk_packet_json (packet_of i (packet_rows codec i given rows))
     = map_option (js_plain codec) (identified_packet codec i given)"
proof -
  have "find (\<lambda>p. pk_assessment_id p = i) rows = None" using assms by (auto simp: find_None_iff)
  then show ?thesis
    by (cases given) (simp_all add: packet_rows_def packet_of_def find_append identified_packet_def)
qed

lemma validate_assessments_packets:
  assumes "\<And>a. a \<in> set rows \<Longrightarrow> packet_of (aw_id a) packets = packet_of (aw_id a) packets'"
  shows "validate_assessments codec packets p rows = validate_assessments codec packets' p rows"
  using assms
proof (induction rows arbitrary: p)
  case (Cons a rows)
  then have "assessment_row_ok codec packets a = assessment_row_ok codec packets' a"
    by (simp add: assessment_row_ok_def)
  with Cons show ?case by (simp cong: if_cong)
qed simp

lemma stored_assessment_ok:
  assumes "reads_back codec (stored_content codec recorded_at result request_payload ledger)"
    and "\<forall>p \<in> set (lg_packets ledger). pk_assessment_id p \<noteq> i" and "i = next_assessment_row_id ledger"
    and "aw_id a = i" "aw_repo_id a = at_repo_id result"
      "aw_decision a = decision_value (at_recommended_decision result)"
      "aw_content_json a = js_plain codec (stored_content codec recorded_at result request_payload ledger)"
  shows "assessment_row_ok codec (packet_rows codec i (at_model_guidance_packet result) (lg_packets ledger)) a = Inr True"
proof -
  let ?given = "at_model_guidance_packet result"
  obtain c where c: "js_loads codec (aw_content_json a) = Inr (VDict c)"
    "dict_get c ''repo_id'' VNone = VStr (at_repo_id result)"
    "dict_get c ''decision'' VNone = VStr (decision_value (at_recommended_decision result))"
    "same_packet codec (vdict_opt (identified_packet codec i ?given)) (dict_get c ''model_guidance_packet'' VNone)"
    using assms(1,7) by (auto simp: reads_back_def stored_content_def assessment_content_def assms(3) Let_def)
  have "guidance_matches_content codec c (map_option (js_plain codec) (identified_packet codec i ?given))"
    using c(4) by (cases "identified_packet codec i ?given"; cases "dict_get c ''model_guidance_packet'' VNone")
      (simp_all add: same_packet_def vdict_opt_def guidance_matches_content_def)
  with c assms(2,4-6) show ?thesis
    by (simp add: assessment_row_ok_def loads_dict_def packet_rows_own)
qed

section \<open>Properties\<close>

text \<open>Persisting an assessment keeps the audit ledger valid: if the assessment and prediction chains validate,
  they validate after the transaction, with the guidance packet it adds, and ids and references stay
  consistent. The predicted values must be floats or absent; JSON reads back what it wrote up to the order
  of keys.\<close>

theorem persisting_keeps_the_ledger_valid:
  assumes "persist_assessment codec recorded_at result request_payload predictions ledger = Inr (aid, ledger')"
    and "ids_ok ledger" and "validate_assessment_chain codec ledger = Inr True"
    and "validate_prediction_chain codec (lg_predictions ledger) = Inr True"
    and "reads_back codec (stored_content codec recorded_at result request_payload ledger)"
    and "\<And>pred. pred \<in> set predictions \<Longrightarrow> stable codec (pt_provenance pred) \<and> stable codec (pt_features pred)
           \<and> float_valued (pt_predicted_value pred)"
  shows "ids_ok ledger' \<and> validate_assessment_chain codec ledger' = Inr True
    \<and> validate_prediction_chain codec (lg_predictions ledger') = Inr True"
proof -
  let ?i = "next_assessment_row_id ledger" and ?given = "at_model_guidance_packet result"
  obtain prediction_rows where ins: "insert_predictions codec ?i (at_repo_id result) recorded_at predictions
       (lg_predictions ledger) = Inr prediction_rows"
    and l: "ledger' = ledger\<lparr>lg_assessments := lg_assessments ledger @
        [\<lparr>aw_id = ?i, aw_repo_id = at_repo_id result, aw_decision = decision_value (at_recommended_decision result),
          aw_content_json = js_plain codec (stored_content codec recorded_at result request_payload ledger),
          aw_prev_hash = last_assessment_hash ledger,
          aw_row_hash = row_hash (last_assessment_hash ledger)
            (js_plain codec (stored_content codec recorded_at result request_payload ledger))\<rparr>],
      lg_packets := packet_rows codec ?i ?given (lg_packets ledger), lg_predictions := prediction_rows\<rparr>"
    by (rule persist_assessment_cases [OF assms(1)])
  have fresh: "\<not> referenced ledger ?i"
    using next_assessment_fresh [OF assms(2)] by (simp add: next_assessment_row_id_def)
  have no_packet: "\<forall>p \<in> set (lg_packets ledger). pk_assessment_id p \<noteq> ?i"
    using assms(2) fresh by (auto simp: ids_ok_def list_all_iff)
  have same: "packet_of (aw_id a) (packet_rows codec ?i ?given (lg_packets ledger)) = packet_of (aw_id a) (lg_packets ledger)"
    if "a \<in> set (lg_assessments ledger)" for a
    using fresh that by (intro packet_rows_other) (force simp: referenced_def)
  have old: "validate_assessments codec (packet_rows codec ?i ?given (lg_packets ledger)) GENESIS (lg_assessments ledger)
      = Inr True"
    using validate_assessments_packets [OF same] assms(3) by (simp add: validate_assessment_chain_def)
  have "validate_assessment_chain codec ledger' = Inr True"
    using old stored_assessment_ok [OF assms(5) no_packet refl]
    by (simp add: l validate_assessment_chain_def validate_assessments_snoc last_assessment_hash_def chain_last_def)
  moreover have "validate_prediction_chain codec (lg_predictions ledger') = Inr True"
    using insert_predictions_valid [OF assms(4) ins assms(6)] by (simp add: l)
  moreover obtain added where "prediction_rows = lg_predictions ledger @ added"
      "\<forall>r \<in> set added. ap_assessment_id r = ?i"
    using insert_predictions_append [OF ins] by blast
  then have "ids_ok ledger'"
    using assms(2) sorted_append_next_id [where key = aw_id and rows = "lg_assessments ledger"]
    by (auto simp: l ids_ok_def referenced_def list_all_iff packet_rows_def next_assessment_row_id_def split: option.splits)
  ultimately show ?thesis by blast
qed

text \<open>A codec for the witnesses: it tells an integer predicted value from the others and reads everything
  back as one content.\<close>

definition sample_content :: "pyval dict" where
  "sample_content = [(''repo_id'', VStr ''repo''), (''decision'', VStr ''proceed'')]"

definition sample_codec :: json_codec where
  "sample_codec =
     \<lparr>js_compact = (\<lambda>d. case map_of d ''predicted_value'' of Some (VInt _) \<Rightarrow> ''i'' | _ \<Rightarrow> ''f''),
      js_plain = (\<lambda>_. ''p''), js_loads = (\<lambda>_. Inr (VDict sample_content)), js_text = (\<lambda>_. ''?'')\<rparr>"

definition sample_result :: persisted_result where
  "sample_result =
     \<lparr>at_recommended_decision = PROCEED, at_requires_confirmation = False, at_action_status = PENDING,
      at_risk_mode = NORMAL, at_scores = [], at_repo_id = ''repo'', at_repo_root = ''/r'', at_gates_fired = [],
      at_high_risk_triggers = [], at_model_guidance_packet = None, at_decision_reason = [],
      at_assessed_commit = Some ''c1''\<rparr>"

definition sample_target :: "pyval \<Rightarrow> prediction_target" where
  "sample_target value =
     \<lparr>pt_target_type = ''risk_binary'', pt_target_name = ''p_success'', pt_predicted_value = value,
      pt_action_id = ''a1'', pt_prediction_scope = ''shadow'', pt_provenance = [], pt_features = []\<rparr>"

lemma map_of_append_key: "map_of (before @ (k, v) # after) key
    = (case map_of before key of None \<Rightarrow> if k = key then Some v else map_of after key | Some x \<Rightarrow> Some x)"
  by (auto simp: map_add_def split: option.splits)

lemma sample_stable: "stable sample_codec d"
  by (auto simp: stable_def sample_codec_def interchangeable_def map_of_append_key split: option.splits)

lemma sample_reads_back: "reads_back sample_codec (stored_content sample_codec t sample_result [] empty_ledger)"
  by (simp add: reads_back_def sample_codec_def sample_content_def stored_content_def assessment_content_def
      sample_result_def identified_packet_def vdict_opt_def same_packet_def)

lemma empty_ledger_valid:
  "ids_ok empty_ledger" "validate_assessment_chain codec empty_ledger = Inr True"
  "validate_prediction_chain codec (lg_predictions empty_ledger) = Inr True"
  by (simp_all add: ids_ok_def empty_ledger_def validate_assessment_chain_def validate_prediction_chain_def)

lemma sample_persisted:
  "\<exists>ledger. persist_assessment sample_codec ''t'' sample_result [] [sample_target (vreal 0.5)] empty_ledger
    = Inr (asm_id 1, ledger) \<and> length (lg_predictions ledger) = 1"
  by (simp add: persist_assessment_def insert_prediction_def sample_target_def empty_ledger_def next_assessment_row_id_def
      next_id_def Let_def)

lemma persisting_keeps_the_ledger_valid_witness:
  "\<exists>ledger. persist_assessment sample_codec ''t'' sample_result [] [sample_target (vreal 0.5)] empty_ledger
      = Inr (asm_id 1, ledger)
    \<and> validate_assessment_chain sample_codec ledger = Inr True"
proof -
  obtain ledger where p: "persist_assessment sample_codec ''t'' sample_result [] [sample_target (vreal 0.5)] empty_ledger
      = Inr (asm_id 1, ledger)"
    using sample_persisted by blast
  have "ids_ok ledger \<and> validate_assessment_chain sample_codec ledger = Inr True
      \<and> validate_prediction_chain sample_codec (lg_predictions ledger) = Inr True"
    by (rule persisting_keeps_the_ledger_valid [OF p empty_ledger_valid sample_reads_back])
      (simp add: sample_stable sample_target_def)
  with p show ?thesis by blast
qed

text \<open>An integer predicted value breaks the prediction chain: the REAL column gives it back as a float, so the
  rebuilt content differs from the hashed one, and validation fails for good unless the two texts
  collide. A request with \<open>"p_success": 1\<close> is enough.\<close>

theorem integer_prediction_breaks_the_chain:
  assumes "validate_prediction_chain codec rows = Inr True"
    and "insert_prediction codec i repo_id recorded_at pred rows = Inr rows'"
    and "stable codec (pt_provenance pred)" and "stable codec (pt_features pred)"
    and "pt_predicted_value pred = VInt n"
    and "target_canonical codec i repo_id recorded_at pred (VInt n)
      \<noteq> target_canonical codec i repo_id recorded_at pred (vreal (of_int n))"
  shows "validate_prediction_chain codec (rows' @ newer) \<noteq> Inr True
    \<or> (\<exists>h. collision_between {h @ target_canonical codec i repo_id recorded_at pred (VInt n)}
           {h @ target_canonical codec i repo_id recorded_at pred (vreal (of_int n))})"
proof (rule disjCI)
  assume "\<nexists>h. collision_between {h @ target_canonical codec i repo_id recorded_at pred (VInt n)}
           {h @ target_canonical codec i repo_id recorded_at pred (vreal (of_int n))}"
  then have none: "sha256_hex (h @ target_canonical codec i repo_id recorded_at pred (VInt n))
      \<noteq> sha256_hex (h @ target_canonical codec i repo_id recorded_at pred (vreal (of_int n)))" for h
    using assms(6) by (auto simp: collision_between_def)
  obtain r column where r: "rows' = rows @ [r]" "sql_real (pt_predicted_value pred) = Inr column"
    "ap_row_hash r = row_hash (ap_prev_hash r) (target_canonical codec i repo_id recorded_at pred (pt_predicted_value pred))"
    "prediction_content codec r = Inr (target_canonical codec i repo_id recorded_at pred (vnum_opt column))"
    by (rule insert_prediction_row [OF assms(2-4)])
  then have "validate_prediction_chain codec rows' \<noteq> Inr True"
    using none by (auto simp: assms(5) prediction_table.audited_snoc row_hash_def vnum_opt_def)
  then show "validate_prediction_chain codec (rows' @ newer) \<noteq> Inr True"
    using prediction_table.audited_prefix by blast
qed

lemma integer_prediction_breaks_the_chain_witness:
  "\<exists>rows. insert_prediction sample_codec 2 ''repo'' ''t'' (sample_target (VInt 1)) [] = Inr rows
    \<and> (validate_prediction_chain sample_codec rows \<noteq> Inr True
       \<or> (\<exists>h. collision_between {h @ ''i''} {h @ ''f''}))"
proof -
  obtain rows where p: "insert_prediction sample_codec 2 ''repo'' ''t'' (sample_target (VInt 1)) [] = Inr rows"
    by (simp add: insert_prediction_def sample_target_def Let_def)
  have texts: "target_canonical sample_codec 2 ''repo'' ''t'' (sample_target (VInt 1)) (VInt 1) = ''i''"
    "target_canonical sample_codec 2 ''repo'' ''t'' (sample_target (VInt 1)) (vreal (of_int 1)) = ''f''"
    by (simp_all add: target_canonical_def prediction_canonical_def sample_codec_def)
  have "validate_prediction_chain sample_codec (rows @ []) \<noteq> Inr True
      \<or> (\<exists>h. collision_between {h @ target_canonical sample_codec 2 ''repo'' ''t'' (sample_target (VInt 1)) (VInt 1)}
           {h @ target_canonical sample_codec 2 ''repo'' ''t'' (sample_target (VInt 1)) (vreal (of_int 1))})"
    by (rule integer_prediction_breaks_the_chain [OF _ p sample_stable sample_stable])
      (simp_all add: validate_prediction_chain_def texts del: of_int_1, simp add: sample_target_def)
  with p texts show ?thesis by (simp del: of_int_1) 
qed

end
