(* ===== verification/Pebra_Learned_Overrides.thy ===== *)
theory Pebra_Learned_Overrides
  imports Pebra_Score_Math Pebra_Samples Pebra_Scope_Matching "HOL-Library.Product_Lexorder"
begin

text \<open>
  \<open>pebra/core/apply_snapshot.py\<close> with \<open>risk_fact_decay.py\<close>: the reapplication of learned facts to an
  assessment input before it is scored. A fact names a target (a probability, a benefit, a cost) and a
  scope; the most specific matching fact replaces the predicted value, or the best few are pooled in
  logit space.

  The shape of the feature payload is that of \<open>Pebra_Scope_Matching\<close>. Each step updates a copy of the input, as \<open>dataclasses.replace\<close> does at the end of the source.
\<close>

section \<open>Decay\<close>

definition DEFAULT_DECAY_STRENGTH :: real where "DEFAULT_DECAY_STRENGTH = 20"

definition MIN_EFFECTIVE_WEIGHT :: real where "MIN_EFFECTIVE_WEIGHT = 0.10"

definition effective_weight :: "real \<Rightarrow> int \<Rightarrow> real \<Rightarrow> real res" where
  "effective_weight base_weight scope_change_count decay_strength =
     (if base_weight < 0 then Inl (ValueError ''base_weight must be >= 0'')
      else if scope_change_count < 0 then Inl (ValueError ''scope_change_count must be >= 0'')
      else if decay_strength \<le> 0 then Inl (ValueError ''decay_strength must be > 0'')
      else Inr (base_weight * exp (- of_int scope_change_count / decay_strength)))"

definition should_auto_apply :: "real \<Rightarrow> real \<Rightarrow> bool res" where
  "should_auto_apply weight min_effective_weight =
     (if weight < 0 then Inl (ValueError ''weight must be >= 0'')
      else if min_effective_weight < 0 then Inl (ValueError ''min_effective_weight must be >= 0'')
      else Inr (weight \<ge> min_effective_weight))"

section \<open>Facts\<close>

record snapshot_fact =
  ft_fact_id :: string
  ft_target_type :: string
  ft_target_name :: string
  ft_scope_kind :: string
  ft_scope_value :: string
  ft_specificity_rank :: int
  ft_value :: pyfloat
  ft_sample_size :: int
  ft_calibration_method :: string
  ft_created_at :: string
  ft_weight :: pyfloat
  ft_requires_human_ratification :: bool
  ft_scope_json :: "pyval dict"
  ft_calibration_quality :: pyfloat
  ft_scope_change_count :: int
  ft_variance :: "pyfloat option"
  ft_aleatoric_variance :: "pyfloat option"

record snapshot_bundle =
  sb_snapshot_id :: string
  sb_facts :: "snapshot_fact list"

record pool_config =
  pc_mode :: string
  pc_top_k :: int
  pc_max_logit_shift :: pyfloat

definition validate_pool_config :: "pool_config option \<Rightarrow> pool_config option res" where
  "validate_pool_config cfg =
     (case cfg of
        None \<Rightarrow> Inr None
      | Some c \<Rightarrow>
          if pc_mode c \<notin> {''hard_replace'', ''log_pool''} then Inl (ValueError ''unsupported pool mode'')
          else if pc_top_k c < 1 then Inl (ValueError ''top_k must be >= 1'')
          else if \<not> nonneg_finite (pc_max_logit_shift c)
          then Inl (ValueError ''max_logit_shift must be finite and >= 0'')
          else Inr (Some c))"

definition CLAMP_LO :: real where "CLAMP_LO = 0.01"
definition CLAMP_HI :: real where "CLAMP_HI = 0.99"

definition clamp_p :: "real \<Rightarrow> real" where
  "clamp_p value = max CLAMP_LO (min CLAMP_HI value)"

definition TARGET_TYPES :: "string list" where
  "TARGET_TYPES = [''risk_binary'', ''benefit_binary'', ''benefit_continuous'', ''cost_continuous'']"

definition applicable :: "snapshot_fact \<Rightarrow> bool" where
  "applicable learned =
     (ft_target_type learned \<in> set TARGET_TYPES
      \<and> \<not> ft_requires_human_ratification learned
      \<and> ft_sample_size learned > 0
      \<and> ft_calibration_method learned \<noteq> []
      \<and> is_finite_float (ft_value learned)
      \<and> (case ft_variance learned of None \<Rightarrow> True | Some v \<Rightarrow> nonneg_finite v)
      \<and> (case ft_aleatoric_variance learned of None \<Rightarrow> True | Some v \<Rightarrow> nonneg_finite v))"

section \<open>Scopes\<close>

definition scope_paths :: "assessment_input \<Rightarrow> pyval dict option \<Rightarrow> string list" where
  "scope_paths inp features =
     ca_expected_files (ai_action inp)
     @ (case features of
          None \<Rightarrow> []
        | Some f \<Rightarrow>
            (case dict_get (feature_block f ''symbol'') ''file_path'' VNone of
               VStr p \<Rightarrow> if p = [] then [] else [p]
             | _ \<Rightarrow> []))"

definition matches :: "snapshot_fact \<Rightarrow> assessment_input \<Rightarrow> pyval dict option \<Rightarrow> bool" where
  "matches learned inp features =
     (let sk = ft_scope_kind learned
      in if sk = ''global'' then True
         else if sk = ''action_type'' then ca_action_type (ai_action inp) = ft_scope_value learned
         else if sk = ''path_glob''
         then list_ex (\<lambda>p. fnmatch p (ft_scope_value learned)) (scope_paths inp features)
         else
           (case features of
              None \<Rightarrow> False
            | Some f \<Rightarrow>
                let sym = feature_block f ''symbol''; st = feature_block f ''structural'';
                    domains = dict_get (feature_block f ''domain'') ''matched_domains'' VNone;
                    public_api = truthy (dict_get sym ''is_public_api'' VNone);
                    in_domain = list_has domains (dict_get (ft_scope_json learned) ''domain'' VNone)
                in if sk = ''symbol'' then dict_get sym ''symbol_id'' VNone = VStr (ft_scope_value learned)
                   else if sk = ''public_api'' then public_api
                   else if sk = ''public_api_domain'' then public_api \<and> in_domain
                   else if sk = ''domain'' then list_has domains (VStr (ft_scope_value learned))
                   else if sk = ''domain_change_kind''
                   then in_domain
                        \<and> py_eq (dict_get (ft_scope_json learned) ''change_kind'' VNone) (dict_get sym ''change_kind'' VNone)
                   else if sk = ''high_symbol_fan_in''
                   then truthy (dict_get st ''is_high_symbol_fan_in'' VNone) \<or> percentile_reaches (ft_scope_json learned) st
                   else if sk = ''domain_high_symbol_fan_in'' then in_domain \<and> percentile_reaches (ft_scope_json learned) st
                   else False))"

section \<open>Candidates\<close>

definition effective_fact_weight :: "snapshot_fact \<Rightarrow> real option" where
  "effective_fact_weight learned =
     (if \<not> nonneg_finite (ft_weight learned) \<or> \<not> nonneg_finite (ft_calibration_quality learned)
         \<or> ft_scope_change_count learned < 0
      then None
      else
        (case effective_weight (fin_value (ft_weight learned) * fin_value (ft_calibration_quality learned))
                (ft_scope_change_count learned) DEFAULT_DECAY_STRENGTH of
           Inl _ \<Rightarrow> None
         | Inr decayed \<Rightarrow> Some decayed))"

definition weight_applies :: "real \<Rightarrow> bool" where
  "weight_applies weight = (should_auto_apply weight MIN_EFFECTIVE_WEIGHT = Inr True)"

definition auto_applies :: "snapshot_fact \<Rightarrow> bool" where
  "auto_applies learned =
     (case effective_fact_weight learned of None \<Rightarrow> False | Some weight \<Rightarrow> weight_applies weight)"

definition candidate_key :: "snapshot_fact \<Rightarrow> int \<times> int \<times> string \<times> string" where
  "candidate_key learned =
     (ft_specificity_rank learned, ft_sample_size learned, ft_created_at learned, ft_fact_id learned)"

text \<open>A stable sort in descending order: \<open>reverse=True\<close> keeps equal keys in their order.\<close>

definition candidates ::
  "snapshot_fact list \<Rightarrow> string \<Rightarrow> assessment_input \<Rightarrow> pyval dict option \<Rightarrow> snapshot_fact list" where
  "candidates facts target_name inp features =
     rev (sort_key candidate_key (rev (filter
       (\<lambda>f. ft_target_name f = target_name \<and> applicable f \<and> auto_applies f \<and> matches f inp features) facts)))"

definition winner ::
  "snapshot_fact list \<Rightarrow> string \<Rightarrow> assessment_input \<Rightarrow> pyval dict option \<Rightarrow> snapshot_fact option" where
  "winner facts target_name inp features =
     (case candidates facts target_name inp features of [] \<Rightarrow> None | f # _ \<Rightarrow> Some f)"

section \<open>Resolving a target\<close>

definition logit :: "real \<Rightarrow> real" where
  "logit p = ln (clamp_p p / (1 - clamp_p p))"

definition sigmoid :: "real \<Rightarrow> real" where
  "sigmoid x = (if x \<ge> 0 then 1 / (1 + exp (- x)) else exp x / (1 + exp x))"

definition pool_weights :: "snapshot_fact list \<Rightarrow> int \<Rightarrow> (snapshot_fact \<times> real) list" where
  "pool_weights cands top_k =
     concat (map (\<lambda>f. case effective_fact_weight f of
         None \<Rightarrow> [] | Some w \<Rightarrow> if weight_applies w then [(f, w)] else []) (take (nat top_k) cands))"

definition pool_value ::
  "pyval \<Rightarrow> snapshot_fact list \<Rightarrow> pool_config \<Rightarrow> (real \<times> (snapshot_fact \<times> real) list) option" where
  "pool_value prior cands cfg =
     (let weighted = pool_weights cands (pc_top_k cfg)
      in if weighted = [] then None
         else
           let total = sum_list (map snd weighted);
               pooled = sum_list (map (\<lambda>(f, w). w * logit (fin_value (ft_value f))) weighted) / total;
               anchor = logit (clamp_number prior);
               shift = fin_value (pc_max_logit_shift cfg);
               bounded = max (anchor - shift) (min (anchor + shift) pooled)
           in Some (clamp_p (sigmoid bounded), weighted))"

record override_provenance =
  op_entry :: "pyval dict"
  op_variance :: "pyfloat option"
  op_aleatoric_variance :: "pyfloat option"

definition fact_provenance :: "string \<Rightarrow> pyval \<Rightarrow> real \<Rightarrow> snapshot_fact \<Rightarrow> override_provenance" where
  "fact_provenance target prior new learned =
     \<lparr>op_entry =
        [(''target'', VStr target), (''winning_fact_id'', VStr (ft_fact_id learned)),
         (''scope_kind'', VStr (ft_scope_kind learned)), (''scope_rank'', VInt (ft_specificity_rank learned)),
         (''prior_predicted_p'', prior), (''new_value'', vreal new),
         (''sample_size'', VInt (ft_sample_size learned)),
         (''calibration_method'', VStr (ft_calibration_method learned)),
         (''variance'', vfloat_opt (ft_variance learned)),
         (''aleatoric_variance'', vfloat_opt (ft_aleatoric_variance learned))],
      op_variance = ft_variance learned,
      op_aleatoric_variance = ft_aleatoric_variance learned\<rparr>"

text \<open>The greatest of the variances present.\<close>

definition max_variance :: "pyfloat option list \<Rightarrow> pyfloat option" where
  "max_variance vs =
     (case concat (map (\<lambda>v. case v of None \<Rightarrow> [] | Some x \<Rightarrow> [fin_value x]) vs) of
        [] \<Rightarrow> None
      | x # xs \<Rightarrow> Some (Fin (fold max xs x)))"

definition pool_provenance ::
  "string \<Rightarrow> pyval \<Rightarrow> real \<Rightarrow> (snapshot_fact \<times> real) list \<Rightarrow> override_provenance" where
  "pool_provenance target prior new contributors =
     (let variance = max_variance (map (\<lambda>(f, _). ft_variance f) contributors);
          aleatoric = max_variance (map (\<lambda>(f, _). ft_aleatoric_variance f) contributors)
      in \<lparr>op_entry =
            [(''target'', VStr target), (''mode'', VStr ''log_pool''), (''prior_predicted_p'', prior),
             (''new_value'', vreal new), (''variance'', vfloat_opt variance),
             (''aleatoric_variance'', vfloat_opt aleatoric),
             (''pooled_facts'', VList (map (\<lambda>(f, w). VDict
                [(''fact_id'', VStr (ft_fact_id f)), (''scope_kind'', VStr (ft_scope_kind f)),
                 (''scope_rank'', VInt (ft_specificity_rank f)), (''value'', VFloat (ft_value f)),
                 (''pool_weight'', vreal w), (''sample_size'', VInt (ft_sample_size f)),
                 (''calibration_method'', VStr (ft_calibration_method f))]) contributors))],
          op_variance = variance,
          op_aleatoric_variance = aleatoric\<rparr>)"

definition resolve_target ::
  "snapshot_fact list \<Rightarrow> string \<Rightarrow> pyval \<Rightarrow> assessment_input \<Rightarrow> pyval dict option \<Rightarrow> pool_config option \<Rightarrow> bool
    \<Rightarrow> (real \<times> override_provenance) option" where
  "resolve_target facts target_name prior inp features cfg probability =
     (let cands = candidates facts target_name inp features;
          pooled = (probability \<and> (case cfg of None \<Rightarrow> False | Some c \<Rightarrow> pc_mode c \<noteq> ''hard_replace''))
      in if \<not> pooled
         then
           (case winner facts target_name inp features of
              None \<Rightarrow> None
            | Some w \<Rightarrow>
                let learned = (if probability \<and> starts_with target_name ''p_event.''
                            then first_max (\<lambda>f. fin_value (ft_value f)) (hd cands) (tl cands) else w);
                    raw_value = fin_value (ft_value learned);
                    new = (if probability then clamp_p raw_value else raw_value)
                in Some (new, fact_provenance target_name prior new learned))
         else
           (case pool_value prior cands (the cfg) of
              None \<Rightarrow> None
            | Some (new, contributors) \<Rightarrow>
                Some (new, pool_provenance target_name prior new contributors)))"

section \<open>Learned variances\<close>

definition bounded_learned_variance ::
  "override_provenance \<Rightarrow> variance_component \<Rightarrow> (real option \<times> override_provenance) res" where
  "bounded_learned_variance prov component =
     (case op_variance prov of
        None \<Rightarrow> Inr (None, prov)
      | Some v \<Rightarrow>
          rbind (bound_predictive_variance component v (op_aleatoric_variance prov)
                   (Fin LEARNED_VARIANCE_FLOOR_RATIO)) (\<lambda>bounded.
            Inr (Some (bv_applied_variance bounded),
                 prov\<lparr>op_entry := op_entry prov @
                   [(''applied_variance'', vreal (bv_applied_variance bounded)),
                    (''variance_floor'', vreal (bv_variance_floor bounded)),
                    (''variance_cap'', vreal (bv_variance_cap bounded))]\<rparr>)))"

definition combine_benefit_variance :: "pyval option \<Rightarrow> real \<Rightarrow> pyval option" where
  "combine_benefit_variance current learned =
     (case current of
        None \<Rightarrow> Some (vreal learned)
      | Some c \<Rightarrow> Some (vreal (min (COLD_START_VARIANCES V_benefit) (number_value c + learned))))"

definition learned_benefit_variance :: "override_provenance \<Rightarrow> (real \<times> override_provenance) res" where
  "learned_benefit_variance prov =
     rbind (bounded_learned_variance prov V_benefit) (\<lambda>(bounded, prov).
       Inr (case bounded of None \<Rightarrow> COLD_START_VARIANCES V_benefit | Some v \<Rightarrow> v, prov))"

section \<open>The steps\<close>

text \<open>The adjusted copy and the provenance of the facts applied so far.\<close>

type_synonym override_state = "assessment_input \<times> pyval dict list"

definition override_p_success ::
  "assessment_input \<Rightarrow> snapshot_fact list \<Rightarrow> pool_config option \<Rightarrow> override_state \<Rightarrow> override_state res" where
  "override_p_success inp facts cfg st =
     (case resolve_target facts ''p_success'' (vreal (ai_p_success inp)) inp (ai_structural_features inp) cfg True of
        None \<Rightarrow> Inr st
      | Some (val, prov) \<Rightarrow>
          rbind (bounded_learned_variance prov V_p_success) (\<lambda>(variance, prov).
            Inr ((fst st)\<lparr>ai_p_success := val,
                          ai_p_success_variance :=
                            (case variance of None \<Rightarrow> ai_p_success_variance (fst st) | Some v \<Rightarrow> Some v)\<rparr>,
                 snd st @ [op_entry prov])))"

text \<open>A consequence-bearing event keeps its prior if the learned value is below it.\<close>

definition override_event ::
  "assessment_input \<Rightarrow> snapshot_fact list \<Rightarrow> pool_config option \<Rightarrow> risk_event
    \<Rightarrow> (risk_event \<times> (string \<times> real) list \<times> pyval dict list) res" where
  "override_event inp facts cfg event =
     (let prior = ev_p_event event
      in case resolve_target facts (''p_event.'' @ ev_event event) (vreal prior) inp
                (ai_structural_features inp) cfg True of
           None \<Rightarrow> Inr (event, [], [])
         | Some (val, prov) \<Rightarrow>
             if ev_event event \<in> set CONSEQUENCE_BEARING_EVENTS \<and> val < prior
             then Inr (event\<lparr>ev_p_event := prior\<rparr>, [],
                       [dict_set (dict_set (dict_set (op_entry prov) ''learned_value'' (vreal val))
                          ''new_value'' (vreal prior)) ''safety_constraint''
                          (VStr ''consequence_event_non_decreasing'')])
             else
               rbind (bounded_learned_variance prov V_p_event) (\<lambda>(variance, prov).
                 Inr (event\<lparr>ev_p_event := val\<rparr>,
                      (case variance of None \<Rightarrow> [] | Some v \<Rightarrow> [(ev_event event, v)]),
                      [op_entry prov])))"

fun override_events ::
  "assessment_input \<Rightarrow> snapshot_fact list \<Rightarrow> pool_config option \<Rightarrow> risk_event list
    \<Rightarrow> (risk_event list \<times> (string \<times> real) list \<times> pyval dict list) res" where
  "override_events inp facts cfg [] = Inr ([], [], [])"
| "override_events inp facts cfg (event # events) =
     rbind (override_event inp facts cfg event) (\<lambda>(event', variances, applied).
     rbind (override_events inp facts cfg events) (\<lambda>(events', variances', applied').
       Inr (event' # events', variances @ variances', applied @ applied')))"

definition override_all_events ::
  "assessment_input \<Rightarrow> snapshot_fact list \<Rightarrow> pool_config option \<Rightarrow> override_state \<Rightarrow> override_state res" where
  "override_all_events inp facts cfg st =
     rbind (override_events inp facts cfg (ai_events inp)) (\<lambda>(events, variances, applied).
       Inr ((fst st)\<lparr>ai_events := events,
                     ai_event_probability_variances :=
                       dict_merge (ai_event_probability_variances inp) variances\<rparr>,
            snd st @ applied))"

definition override_immediate_benefit ::
  "assessment_input \<Rightarrow> snapshot_fact list \<Rightarrow> pool_config option \<Rightarrow> override_state \<Rightarrow> override_state res" where
  "override_immediate_benefit inp facts cfg st =
     (case resolve_target facts ''immediate_benefit_realized'' (ai_immediate_benefit inp) inp
             (ai_structural_features inp) cfg True of
        None \<Rightarrow> Inr st
      | Some (val, prov) \<Rightarrow>
          rbind (learned_benefit_variance prov) (\<lambda>(variance, prov).
            Inr ((fst st)\<lparr>ai_immediate_benefit := vreal val,
                          ai_benefit_variance_override :=
                            combine_benefit_variance (ai_benefit_variance_override (fst st)) variance\<rparr>,
                 snd st @ [op_entry prov])))"

definition DELTA_PREFIX :: string where "DELTA_PREFIX = ''maintainability_delta.''"

definition delta_targets :: "snapshot_fact list \<Rightarrow> string list" where
  "delta_targets facts =
     sorted_set (filter (\<lambda>t. starts_with t DELTA_PREFIX) (map ft_target_name facts))"

definition override_delta ::
  "assessment_input \<Rightarrow> snapshot_fact list \<Rightarrow> string \<Rightarrow> override_state \<Rightarrow> override_state res" where
  "override_delta inp facts target_name st =
     (let metric = remove_prefix target_name DELTA_PREFIX;
          prior = dict_get (bd_deltas (ai_benefit_delta_evidence inp)) metric (vreal 0)
      in case resolve_target facts target_name prior inp (ai_structural_features inp) None False of
           None \<Rightarrow> Inr st
         | Some (val, prov) \<Rightarrow>
             rbind (learned_benefit_variance prov) (\<lambda>(variance, prov).
               let evidence = ai_benefit_delta_evidence (fst st)
               in Inr ((fst st)\<lparr>ai_benefit_delta_evidence :=
                                  evidence\<lparr>bd_deltas := dict_set (bd_deltas evidence) metric (vreal val),
                                           bd_source_type := ''learned_override'', bd_file_deltas := []\<rparr>,
                                ai_benefit_variance_override :=
                                  combine_benefit_variance (ai_benefit_variance_override (fst st)) variance\<rparr>,
                       snd st @ [op_entry prov])))"

fun override_deltas ::
  "assessment_input \<Rightarrow> snapshot_fact list \<Rightarrow> string list \<Rightarrow> override_state \<Rightarrow> override_state res" where
  "override_deltas inp facts [] st = Inr st"
| "override_deltas inp facts (target_name # targets) st =
     rbind (override_delta inp facts target_name st) (override_deltas inp facts targets)"

text \<open>\<open>inp.benefit_override or inp.immediate_benefit\<close>.\<close>

definition benefit_prior :: "assessment_input \<Rightarrow> pyval" where
  "benefit_prior inp =
     (case ai_benefit_override inp of
        None \<Rightarrow> ai_immediate_benefit inp
      | Some b \<Rightarrow> if b = 0 then ai_immediate_benefit inp else vreal b)"

definition override_measured_benefit ::
  "assessment_input \<Rightarrow> snapshot_fact list \<Rightarrow> override_state \<Rightarrow> override_state res" where
  "override_measured_benefit inp facts st =
     (case resolve_target facts ''measured_benefit'' (benefit_prior inp) inp (ai_structural_features inp) None False of
        None \<Rightarrow> Inr st
      | Some (val, prov) \<Rightarrow>
          rbind (learned_benefit_variance prov) (\<lambda>(variance, prov).
            Inr ((fst st)\<lparr>ai_benefit_override := Some val,
                          ai_benefit_variance_override :=
                            combine_benefit_variance (ai_benefit_variance_override (fst st)) variance\<rparr>,
                 snd st @ [op_entry prov])))"

definition override_review_cost ::
  "assessment_input \<Rightarrow> snapshot_fact list \<Rightarrow> override_state \<Rightarrow> override_state res" where
  "override_review_cost inp facts st =
     (case resolve_target facts ''review_cost'' (vreal (ai_review_cost inp)) inp (ai_structural_features inp) None False of
        None \<Rightarrow> Inr st
      | Some (val, prov) \<Rightarrow>
          rbind (bounded_learned_variance prov V_review_cost) (\<lambda>(variance, prov).
            Inr ((fst st)\<lparr>ai_review_cost := max 0 val,
                          ai_review_cost_variance :=
                            (case variance of None \<Rightarrow> ai_review_cost_variance (fst st) | Some v \<Rightarrow> Some v)\<rparr>,
                 snd st @ [op_entry prov])))"

definition apply_snapshot ::
  "assessment_input \<Rightarrow> snapshot_bundle option \<Rightarrow> pool_config option \<Rightarrow> assessment_input res" where
  "apply_snapshot inp snapshot pool_config =
     rbind (validate_pool_config pool_config) (\<lambda>cfg.
       case snapshot of
         None \<Rightarrow> Inr inp
       | Some bundle \<Rightarrow>
           let facts = sb_facts bundle
           in if facts = [] then Inr inp
              else
                rbind (override_p_success inp facts cfg (inp, [])) (\<lambda>st.
                rbind (override_all_events inp facts cfg st) (\<lambda>st.
                rbind (override_immediate_benefit inp facts cfg st) (\<lambda>st.
                rbind (override_deltas inp facts (delta_targets facts) st) (\<lambda>st.
                rbind (override_measured_benefit inp facts st) (\<lambda>st.
                rbind (override_review_cost inp facts st) (\<lambda>st.
                  if snd st = [] then Inr inp
                  else Inr ((fst st)\<lparr>ai_applied_snapshot_provenance :=
                         Some [(''snapshot_id'', VStr (sb_snapshot_id bundle)),
                               (''applied_facts'', VList (map VDict (snd st)))]\<rparr>))))))))"

section \<open>Lemmas\<close>

lemma clamp_p_range: "CLAMP_LO \<le> clamp_p x \<and> clamp_p x \<le> CLAMP_HI"
  by (simp add: clamp_p_def CLAMP_LO_def CLAMP_HI_def min_def max_def)

lemma clamp_p_open: "0 < clamp_p x \<and> clamp_p x < 1"
  using clamp_p_range [of x] by (simp add: CLAMP_LO_def CLAMP_HI_def)

lemma clamp_p_idem [simp]: "clamp_p (clamp_p x) = clamp_p x"
  by (simp add: clamp_p_def CLAMP_LO_def CLAMP_HI_def min_def max_def)

lemma sigmoid_eq: "sigmoid x = 1 / (1 + exp (- x))"
proof -
  have "exp x / (1 + exp x) = 1 / (1 + exp (- x))"
    by (simp add: exp_minus field_simps)
  then show ?thesis by (simp add: sigmoid_def)
qed

lemma sigmoid_open: "0 < sigmoid x \<and> sigmoid x < 1"
proof -
  have "0 < exp (- x)" by simp
  then show ?thesis by (simp add: sigmoid_eq divide_less_eq add_pos_pos)
qed

lemma sigmoid_mono: "x \<le> y \<Longrightarrow> sigmoid x \<le> sigmoid y"
  by (simp add: sigmoid_eq frac_le add_pos_pos)

lemma sigmoid_logit: "sigmoid (logit p) = clamp_p p"
proof -
  let ?q = "clamp_p p"
  have q: "0 < ?q" "?q < 1" using clamp_p_open [of p] by simp_all
  then have "0 < ?q / (1 - ?q)" by simp
  then have "exp (- logit p) = (1 - ?q) / ?q" by (simp add: logit_def exp_minus inverse_eq_divide)
  then have "1 + exp (- logit p) = 1 / ?q" using q by (simp add: field_simps)
  then show ?thesis by (simp add: sigmoid_eq)
qed

lemma logit_mono: "p \<le> q \<Longrightarrow> logit p \<le> logit q"
proof -
  assume "p \<le> q"
  then have "clamp_p p \<le> clamp_p q" by (simp add: clamp_p_def min_def max_def)
  then show ?thesis
    using clamp_p_open [of p] clamp_p_open [of q] by (simp add: logit_def frac_le)
qed

lemma logit_sigmoid: "CLAMP_LO \<le> sigmoid x \<Longrightarrow> sigmoid x \<le> CLAMP_HI \<Longrightarrow> logit (sigmoid x) = x"
proof -
  assume "CLAMP_LO \<le> sigmoid x" "sigmoid x \<le> CLAMP_HI"
  then have "clamp_p (sigmoid x) = sigmoid x" by (simp add: clamp_p_def)
  moreover have "sigmoid x / (1 - sigmoid x) = exp x"
  proof -
    have "1 + exp (- x) \<noteq> 0" using exp_gt_zero [of "- x"] by linarith
    then have "1 - sigmoid x = sigmoid x * exp (- x)"
      by (simp add: sigmoid_eq divide_simps)
    then show ?thesis using sigmoid_open [of x] by (simp add: exp_minus field_simps)
  qed
  ultimately show ?thesis by (simp add: logit_def)
qed

text \<open>Clamping a pooled value cannot move it away from the anchor.\<close>

lemma logit_clamped_sigmoid:
  assumes "\<bar>x - logit p\<bar> \<le> d"
  shows "\<bar>logit (clamp_p (sigmoid x)) - logit p\<bar> \<le> d"
proof -
  consider "sigmoid x < CLAMP_LO" | "CLAMP_HI < sigmoid x" | "CLAMP_LO \<le> sigmoid x" "sigmoid x \<le> CLAMP_HI"
    by linarith
  then show ?thesis
  proof cases
    case 1
    let ?l = "logit (clamp_p (sigmoid x))"
    have c: "clamp_p (sigmoid x) = CLAMP_LO" using 1 by (simp add: clamp_p_def CLAMP_LO_def CLAMP_HI_def)
    have "sigmoid ?l = CLAMP_LO" unfolding sigmoid_logit c
      by (simp add: clamp_p_def CLAMP_LO_def CLAMP_HI_def)
    then have "x \<le> ?l" using 1 sigmoid_mono [of ?l x] by force
    moreover have "logit CLAMP_LO \<le> logit (clamp_p p)"
      using clamp_p_range [of p] by (intro logit_mono) simp
    then have "?l \<le> logit p" unfolding c by (simp add: logit_def)
    ultimately show ?thesis using assms by linarith
  next
    case 2
    let ?l = "logit (clamp_p (sigmoid x))"
    have c: "clamp_p (sigmoid x) = CLAMP_HI" using 2 by (simp add: clamp_p_def CLAMP_LO_def CLAMP_HI_def)
    have "sigmoid ?l = CLAMP_HI" unfolding sigmoid_logit c
      by (simp add: clamp_p_def CLAMP_LO_def CLAMP_HI_def)
    then have "?l \<le> x" using 2 sigmoid_mono [of x ?l] by force
    moreover have "logit (clamp_p p) \<le> logit CLAMP_HI"
      using clamp_p_range [of p] by (intro logit_mono) simp
    then have "logit p \<le> ?l" unfolding c by (simp add: logit_def)
    ultimately show ?thesis using assms by linarith
  next
    case 3
    then have "clamp_p (sigmoid x) = sigmoid x" by (simp add: clamp_p_def)
    with 3 assms show ?thesis by (simp add: logit_sigmoid)
  qed
qed

lemma pool_value_range: "pool_value prior cands cfg = Some (new, ws) \<Longrightarrow> CLAMP_LO \<le> new \<and> new \<le> CLAMP_HI"
  using clamp_p_range by (auto simp: pool_value_def Let_def split: if_splits)

lemma resolve_probability_range:
  assumes "resolve_target facts t prior inp features cfg True = Some (new, prov)"
  shows "CLAMP_LO \<le> new \<and> new \<le> CLAMP_HI"
proof -
  have "(\<exists>x. new = clamp_p x) \<or> (\<exists>cands cfg' ws. pool_value prior cands cfg' = Some (new, ws))"
    using assms by (auto simp: resolve_target_def Let_def split: if_splits option.splits)
  then show ?thesis using clamp_p_range pool_value_range by auto
qed

section \<open>Eligible facts\<close>

definition eligible :: "assessment_input \<Rightarrow> snapshot_fact \<Rightarrow> bool" where
  "eligible inp f = (applicable f \<and> auto_applies f \<and> matches f inp (ai_structural_features inp))"

lemma candidates_eligible:
  "candidates (filter (eligible inp) facts) t inp (ai_structural_features inp)
    = candidates facts t inp (ai_structural_features inp)"
proof -
  have "filter (\<lambda>f. ft_target_name f = t \<and> applicable f \<and> auto_applies f
        \<and> matches f inp (ai_structural_features inp)) (filter (eligible inp) facts)
      = filter (\<lambda>f. ft_target_name f = t \<and> applicable f \<and> auto_applies f
        \<and> matches f inp (ai_structural_features inp)) facts"
    by (auto simp: eligible_def intro: filter_cong)
  then show ?thesis by (simp only: candidates_def)
qed

lemma resolve_eligible:
  "resolve_target (filter (eligible inp) facts) t prior inp (ai_structural_features inp) cfg pr
    = resolve_target facts t prior inp (ai_structural_features inp) cfg pr"
  by (simp only: resolve_target_def winner_def candidates_eligible)

lemma resolve_none:
  "candidates facts t inp features = [] \<Longrightarrow> resolve_target facts t prior inp features cfg pr = None"
  by (simp add: resolve_target_def winner_def pool_value_def pool_weights_def split: option.splits)

lemma override_deltas_filter:
  assumes "\<And>t. t \<in> set targets \<Longrightarrow> \<not> P t \<Longrightarrow> candidates facts t inp (ai_structural_features inp) = []"
  shows "override_deltas inp facts (filter P targets) st = override_deltas inp facts targets st"
  using assms
proof (induction targets arbitrary: st)
  case (Cons t targets)
  show ?case
  proof (cases "P t")
    case True
    have "override_deltas inp facts (filter P targets) = override_deltas inp facts targets"
      using Cons by (intro ext) simp
    with True show ?thesis by simp
  next
    case False
    then have "override_delta inp facts t st = Inr st"
      using Cons.prems by (simp add: override_delta_def resolve_none Let_def)
    with False Cons show ?thesis by simp
  qed
qed simp

lemma sorted_set_filter: "filter P (sorted_set xs) = sorted_set (filter P xs)"
proof (rule sorted_distinct_set_unique)
  show "sorted (filter P (sorted_set xs))"
    by (intro sorted_wrt_filter) simp
qed auto

lemma no_eligible_target:
  "t \<notin> set (map ft_target_name (filter (eligible inp) facts)) \<Longrightarrow>
   candidates facts t inp (ai_structural_features inp) = []"
proof -
  assume "t \<notin> set (map ft_target_name (filter (eligible inp) facts))"
  then have "filter (\<lambda>f. ft_target_name f = t \<and> applicable f \<and> auto_applies f
      \<and> matches f inp (ai_structural_features inp)) facts = []"
    by (auto simp: eligible_def filter_empty_conv)
  then show ?thesis by (simp add: candidates_def)
qed

lemma override_deltas_eligible:
  "override_deltas inp facts (delta_targets (filter (eligible inp) facts)) st
    = override_deltas inp facts (delta_targets facts) st"
proof -
  let ?P = "\<lambda>t. t \<in> set (map ft_target_name (filter (eligible inp) facts))"
  have "delta_targets (filter (eligible inp) facts) = filter ?P (delta_targets facts)"
    unfolding delta_targets_def sorted_set_filter
    by (rule sorted_distinct_set_unique) auto
  then show ?thesis by (simp only:) (rule override_deltas_filter, rule no_eligible_target)
qed

lemma apply_snapshot_none_eligible:
  assumes "filter (eligible inp) (sb_facts snap) = []"
  shows "apply_snapshot inp (Some snap) cfg = rbind (validate_pool_config cfg) (\<lambda>_. Inr inp)"
proof -
  have none: "resolve_target (sb_facts snap) t prior inp (ai_structural_features inp) c pr = None" for t prior c pr
    using resolve_none [of "[]"] resolve_eligible [of inp "sb_facts snap"] assms
    by (simp add: candidates_def)
  have events: "override_events inp (sb_facts snap) c es = Inr (es, [], [])" for c es
    by (induction es) (simp_all add: override_event_def none)
  have deltas: "override_deltas inp (sb_facts snap) ts st = Inr st" for ts st
    by (induction ts) (simp_all add: override_delta_def none)
  show ?thesis
    by (simp add: apply_snapshot_def override_p_success_def override_all_events_def events deltas none
        override_immediate_benefit_def override_measured_benefit_def override_review_cost_def Let_def cong: if_cong)
qed

section \<open>What a step may change\<close>

lemma resolve_target_pooled:
  assumes "resolve_target facts t prior inp features (Some c) True = Some (new, prov)"
    and "pc_mode c \<noteq> ''hard_replace''" and "0 \<le> fin_value (pc_max_logit_shift c)"
  shows "\<bar>logit new - logit (clamp_number prior)\<bar> \<le> fin_value (pc_max_logit_shift c)"
proof -
  let ?d = "fin_value (pc_max_logit_shift c)" and ?a = "logit (clamp_number prior)"
  obtain x where x: "new = clamp_p (sigmoid (max (?a - ?d) (min (?a + ?d) x)))"
    using assms(1,2) by (auto simp: resolve_target_def pool_value_def Let_def split: if_splits option.splits)
  have "\<bar>max (?a - ?d) (min (?a + ?d) x) - ?a\<bar> \<le> ?d" using assms(3) by (auto simp: max_def min_def)
  then show ?thesis unfolding x by (rule logit_clamped_sigmoid)
qed

definition event_override_ok :: "(real \<Rightarrow> real \<Rightarrow> bool) \<Rightarrow> risk_event \<Rightarrow> risk_event \<Rightarrow> bool" where
  "event_override_ok near e e' \<longleftrightarrow>
     e' = e\<lparr>ev_p_event := ev_p_event e'\<rparr>
     \<and> (e' = e \<or> CLAMP_LO \<le> ev_p_event e' \<and> ev_p_event e' \<le> CLAMP_HI \<and> near (ev_p_event e) (ev_p_event e'))
     \<and> (ev_event e \<in> set CONSEQUENCE_BEARING_EVENTS \<longrightarrow> ev_p_event e \<le> ev_p_event e')"

text \<open>The relation \<open>near\<close> is any that the resolver guarantees between a prior and its learned value.\<close>

lemma override_event_ok:
  assumes "override_event inp facts cfg e = Inr (e', vs, applied)"
    and near: "\<And>t p v prov. resolve_target facts t (vreal p) inp (ai_structural_features inp) cfg True
      = Some (v, prov) \<Longrightarrow> near p v"
  shows "event_override_ok near e e'"
  using assms(1) resolve_probability_range near
  by (fastforce simp: override_event_def event_override_ok_def Let_def rbind_Inr_iff
      split: option.splits if_splits prod.splits)

lemma override_events_ok:
  assumes near: "\<And>t p v prov. resolve_target facts t (vreal p) inp (ai_structural_features inp) cfg True
      = Some (v, prov) \<Longrightarrow> near p v"
  shows "override_events inp facts cfg es = Inr (es', vs, applied) \<Longrightarrow> list_all2 (event_override_ok near) es es'"
proof (induction es arbitrary: es' vs applied)
  case (Cons e es)
  then show ?case
    using override_event_ok [OF _ near] by (auto simp: rbind_Inr_iff)
qed simp

lemma override_delta_keeps:
  "override_delta inp facts t st = Inr st' \<Longrightarrow>
   ai_events (fst st') = ai_events (fst st) \<and> ai_p_success (fst st') = ai_p_success (fst st)"
  by (auto simp: override_delta_def Let_def rbind_Inr_iff split: option.splits prod.splits)

lemma override_deltas_keeps:
  "override_deltas inp facts ts st = Inr st' \<Longrightarrow>
   ai_events (fst st') = ai_events (fst st) \<and> ai_p_success (fst st') = ai_p_success (fst st)"
  by (induction ts arbitrary: st) (auto simp: rbind_Inr_iff dest!: override_delta_keeps)

lemma override_others_keep:
  "override_immediate_benefit inp facts cfg st = Inr st' \<Longrightarrow>
   ai_events (fst st') = ai_events (fst st) \<and> ai_p_success (fst st') = ai_p_success (fst st)"
  "override_measured_benefit inp facts st = Inr st' \<Longrightarrow>
   ai_events (fst st') = ai_events (fst st) \<and> ai_p_success (fst st') = ai_p_success (fst st)"
  "override_review_cost inp facts st = Inr st' \<Longrightarrow>
   ai_events (fst st') = ai_events (fst st) \<and> ai_p_success (fst st') = ai_p_success (fst st)"
  by (auto simp: override_immediate_benefit_def override_measured_benefit_def override_review_cost_def
      rbind_Inr_iff split: option.splits prod.splits)

lemma validate_pool_config_SomeD:
  "validate_pool_config cfg = Inr cfg' \<Longrightarrow>
   cfg' = cfg \<and> (\<forall>c. cfg = Some c \<longrightarrow> pc_mode c \<in> {''hard_replace'', ''log_pool''}
     \<and> 1 \<le> pc_top_k c \<and> nonneg_finite (pc_max_logit_shift c))"
  by (auto simp: validate_pool_config_def split: option.splits if_splits)

text \<open>What a returned input is: the one given, or the copy the steps built.\<close>

lemma apply_snapshot_cases [consumes 1, case_names unchanged adjusted]:
  assumes "apply_snapshot inp snapshot cfg = Inr out"
  obtains "out = inp"
  | snap st1 st2 where "snapshot = Some snap"
      "override_p_success inp (sb_facts snap) cfg (inp, []) = Inr st1"
      "override_all_events inp (sb_facts snap) cfg st1 = Inr st2"
      "ai_events out = ai_events (fst st2)" "ai_p_success out = ai_p_success (fst st1)"
proof (cases snapshot)
  case None
  with assms that(1) show ?thesis by (auto simp: apply_snapshot_def rbind_Inr_iff)
next
  case (Some snap)
  show ?thesis
  proof (cases "out = inp")
    case False
    let ?facts = "sb_facts snap"
    obtain st1 st2 st3 st4 st5 st6 where st:
      "override_p_success inp ?facts cfg (inp, []) = Inr st1"
      "override_all_events inp ?facts cfg st1 = Inr st2"
      "override_immediate_benefit inp ?facts cfg st2 = Inr st3"
      "override_deltas inp ?facts (delta_targets ?facts) st3 = Inr st4"
      "override_measured_benefit inp ?facts st4 = Inr st5"
      "override_review_cost inp ?facts st5 = Inr st6"
      and out: "ai_events out = ai_events (fst st6)" "ai_p_success out = ai_p_success (fst st6)"
      using assms False Some validate_pool_config_SomeD [of cfg]
      by (fastforce simp: apply_snapshot_def rbind_Inr_iff Let_def split: if_splits)
    have "ai_p_success (fst st2) = ai_p_success (fst st1)"
      using st(2) by (auto simp: override_all_events_def rbind_Inr_iff)
    then show ?thesis
      using that(2) [OF Some st(1,2)] out override_others_keep(1) [OF st(3)] override_deltas_keeps [OF st(4)]
        override_others_keep(2) [OF st(5)] override_others_keep(3) [OF st(6)] by simp
  qed (rule that(1))
qed

lemma apply_snapshot_events:
  assumes "apply_snapshot inp (Some snap) cfg = Inr out"
    and near: "\<And>t p v prov. resolve_target (sb_facts snap) t (vreal p) inp (ai_structural_features inp) cfg True
      = Some (v, prov) \<Longrightarrow> near p v"
  shows "list_all2 (event_override_ok near) (ai_events inp) (ai_events out)"
  using assms(1)
proof (cases rule: apply_snapshot_cases)
  case unchanged
  then show ?thesis by (simp add: list_all2_same event_override_ok_def)
next
  case (adjusted b st1 st2)
  then obtain events vs applied where "override_events inp (sb_facts b) cfg (ai_events inp) = Inr (events, vs, applied)"
    and "ai_events out = events"
    by (auto simp: override_all_events_def rbind_Inr_iff)
  with adjusted(1) show ?thesis using override_events_ok [OF near] by auto
qed

section \<open>No step raises\<close>

lemma candidates_applicable: "f \<in> set (candidates facts t inp features) \<Longrightarrow> applicable f"
  by (simp add: candidates_def)

definition variance_ok :: "pyfloat option \<Rightarrow> bool" where
  "variance_ok v = (case v of None \<Rightarrow> True | Some x \<Rightarrow> nonneg_finite x)"

lemma applicable_variances: "applicable f \<Longrightarrow> variance_ok (ft_variance f) \<and> variance_ok (ft_aleatoric_variance f)"
  by (simp add: applicable_def variance_ok_def)

lemma fold_max_start: "(x :: real) \<le> fold max xs x"
  by (induction xs arbitrary: x) (auto, metis max.boundedE)

lemma max_variance_ok:
  assumes "\<And>v. v \<in> set vs \<Longrightarrow> variance_ok v"
  shows "variance_ok (max_variance vs)"
proof -
  let ?xs = "concat (map (\<lambda>v. case v of None \<Rightarrow> [] | Some x \<Rightarrow> [fin_value x]) vs)"
  have nonneg: "0 \<le> x" if "x \<in> set ?xs" for x
  proof -
    from that obtain v where v: "v \<in> set vs" "x \<in> set (case v of None \<Rightarrow> [] | Some y \<Rightarrow> [fin_value y])" by auto
    then obtain y where y: "Some y \<in> set vs" "x = fin_value y" by (cases v) auto
    have "nonneg_finite y" using assms [OF y(1)] by (simp add: variance_ok_def)
    then show ?thesis unfolding y(2) by (cases y) auto
  qed
  show ?thesis
  proof (cases ?xs)
    case (Cons x xs)
    then have "0 \<le> x" using nonneg by simp
    with fold_max_start [of x xs] have "0 \<le> fold max xs x" by linarith
    moreover have "max_variance vs = Some (Fin (fold max xs x))" using Cons by (simp only: max_variance_def list.case)
    ultimately show ?thesis by (simp add: variance_ok_def)
  next
    case Nil
    then have "max_variance vs = None" by (simp only: max_variance_def list.case)
    then show ?thesis by (simp add: variance_ok_def)
  qed
qed

definition provenance_ok :: "override_provenance \<Rightarrow> bool" where
  "provenance_ok prov = (variance_ok (op_variance prov) \<and> variance_ok (op_aleatoric_variance prov))"

lemma pool_weights_mem: "(f, w) \<in> set (pool_weights cands k) \<Longrightarrow> f \<in> set cands"
  by (auto simp: pool_weights_def dest: in_set_takeD split: option.splits if_splits)

lemma pool_provenance_ok:
  assumes "\<And>f w. (f, w) \<in> set ws \<Longrightarrow> applicable f"
  shows "provenance_ok (pool_provenance t prior new ws)"
proof -
  have "variance_ok (max_variance (map (\<lambda>(f, _). ft_variance f) ws))"
    using assms applicable_variances by (intro max_variance_ok) auto
  moreover have "variance_ok (max_variance (map (\<lambda>(f, _). ft_aleatoric_variance f) ws))"
    using assms applicable_variances by (intro max_variance_ok) auto
  ultimately show ?thesis by (simp add: provenance_ok_def pool_provenance_def Let_def)
qed

lemma resolve_target_provenance:
  assumes "resolve_target facts t prior inp features cfg pr = Some (new, prov)"
  shows "provenance_ok prov"
proof -
  let ?cands = "candidates facts t inp features"
  have best: "first_max rank f fs \<in> set (f # fs)" for rank :: "snapshot_fact \<Rightarrow> real" and f fs
    by (rule first_max_mem)
  have "(\<exists>f \<in> set ?cands. prov = fact_provenance t prior new f)
      \<or> (\<exists>ws k. prov = pool_provenance t prior new ws \<and> ws = pool_weights ?cands k)"
  proof (cases "pr \<and> (case cfg of None \<Rightarrow> False | Some c \<Rightarrow> pc_mode c \<noteq> ''hard_replace'')")
    case True
    then show ?thesis
      using assms by (auto simp: resolve_target_def pool_value_def Let_def split: if_splits option.splits)
  next
    case False
    have pooled: "(pr \<and> (case cfg of None \<Rightarrow> False | Some c \<Rightarrow> pc_mode c \<noteq> ''hard_replace'')) = False"
      using False by simp
    obtain f fs where cands: "?cands = f # fs"
      using assms resolve_none by (cases ?cands) auto
    define l where "l = (if pr \<and> starts_with t ''p_event.''
      then first_max (\<lambda>f. fin_value (ft_value f)) f fs else f)"
    have "l \<in> set ?cands" using best [of _ f fs] unfolding l_def cands by auto
    moreover have "prov = fact_provenance t prior new l"
      using assms unfolding resolve_target_def winner_def Let_def pooled cands
      by (cases pr; cases "starts_with t ''p_event.''") (auto simp: l_def)
    ultimately show ?thesis by blast
  qed
  then show ?thesis
  proof (elim disjE bexE exE conjE)
    fix f assume "f \<in> set ?cands" "prov = fact_provenance t prior new f"
    then show ?thesis
      using applicable_variances [OF candidates_applicable] by (simp add: provenance_ok_def fact_provenance_def)
  next
    fix ws k assume "prov = pool_provenance t prior new ws" "ws = pool_weights ?cands k"
    then show ?thesis
      using pool_provenance_ok [of ws] pool_weights_mem candidates_applicable by blast
  qed
qed

lemma bounded_learned_variance_ok: "provenance_ok prov \<Longrightarrow> is_ok (bounded_learned_variance prov c)"
  by (auto simp: provenance_ok_def variance_ok_def bounded_learned_variance_def bound_predictive_variance_def
      LEARNED_VARIANCE_FLOOR_RATIO_def Let_def split: option.splits)

lemma is_ok_bind: "is_ok r \<Longrightarrow> (\<And>x. is_ok (f x)) \<Longrightarrow> is_ok (rbind r f)"
  by (cases r) auto

lemma learned_benefit_variance_ok: "provenance_ok prov \<Longrightarrow> is_ok (learned_benefit_variance prov)"
  unfolding learned_benefit_variance_def
  by (rule is_ok_bind) (auto simp: bounded_learned_variance_ok split: prod.splits option.splits)

lemmas override_oks = bounded_learned_variance_ok learned_benefit_variance_ok resolve_target_provenance

text \<open>Every step that binds a bounded variance returns: the provenance it binds is that of eligible facts.\<close>

lemma override_steps_ok:
  "is_ok (override_p_success inp facts cfg st)"
  "is_ok (override_event inp facts cfg e)"
  "is_ok (override_immediate_benefit inp facts cfg st)"
  "is_ok (override_delta inp facts t st)"
  "is_ok (override_measured_benefit inp facts st)"
  "is_ok (override_review_cost inp facts st)"
  by (auto simp: override_p_success_def override_event_def override_immediate_benefit_def override_delta_def
      override_measured_benefit_def override_review_cost_def Let_def split: option.splits
      intro!: is_ok_bind override_oks dest: override_oks(3))

lemma override_events_ok': "is_ok (override_events inp facts cfg es)"
  by (induction es) (auto intro!: is_ok_bind override_steps_ok split: prod.splits)

lemma override_deltas_ok: "is_ok (override_deltas inp facts ts st)"
  by (induction ts arbitrary: st) (auto intro!: is_ok_bind override_steps_ok)

lemma override_all_events_ok: "is_ok (override_all_events inp facts cfg st)"
  unfolding override_all_events_def by (intro is_ok_bind override_events_ok') (auto split: prod.splits)

lemma apply_snapshot_ok: "validate_pool_config cfg = Inr c \<Longrightarrow> is_ok (apply_snapshot inp snapshot cfg)"
  by (cases snapshot)
    (auto simp: apply_snapshot_def Let_def intro!: is_ok_bind override_steps_ok override_all_events_ok
      override_deltas_ok)

section \<open>A sample snapshot\<close>

definition sample_fact :: "string \<Rightarrow> real \<Rightarrow> snapshot_fact" where
  "sample_fact target value =
     \<lparr>ft_fact_id = ''lrf_1'', ft_target_type = ''risk_binary'', ft_target_name = target, ft_scope_kind = ''global'',
      ft_scope_value = [], ft_specificity_rank = 0, ft_value = Fin value, ft_sample_size = 120,
      ft_calibration_method = ''observed_rate_v1'', ft_created_at = [], ft_weight = Fin 1,
      ft_requires_human_ratification = False, ft_scope_json = [], ft_calibration_quality = Fin 1,
      ft_scope_change_count = 0, ft_variance = None, ft_aleatoric_variance = None\<rparr>"

definition sample_snapshot :: snapshot_bundle where
  "sample_snapshot =
     \<lparr>sb_snapshot_id = ''rs_1'', sb_facts = [sample_fact ''p_event.dependency_break'' 0.02]\<rparr>"

lemma sample_fact_eligible: "eligible inp (sample_fact t v)"
  by (simp add: eligible_def applicable_def TARGET_TYPES_def sample_fact_def auto_applies_def
      effective_fact_weight_def effective_weight_def weight_applies_def should_auto_apply_def
      MIN_EFFECTIVE_WEIGHT_def DEFAULT_DECAY_STRENGTH_def matches_def)

section \<open>Properties\<close>

text \<open>What learned facts may do to the risk of an assessment. The events stay the same ones, with the
  same disutilities, in the same order; an event whose probability was changed has one in [0.01, 0.99],
  and no fact lowers the probability of a consequence-bearing event.\<close>

theorem learned_facts_keep_consequences:
  assumes "apply_snapshot inp snapshot cfg = Inr out"
  shows "list_all2 (\<lambda>e e'. e' = e\<lparr>ev_p_event := ev_p_event e'\<rparr>
      \<and> (e' = e \<or> 0.01 \<le> ev_p_event e' \<and> ev_p_event e' \<le> 0.99)
      \<and> (ev_event e \<in> set CONSEQUENCE_BEARING_EVENTS \<longrightarrow> ev_p_event e \<le> ev_p_event e'))
    (ai_events inp) (ai_events out)"
proof (cases snapshot)
  case None
  then have "out = inp" using assms by (auto simp: apply_snapshot_def rbind_Inr_iff)
  then show ?thesis by (simp add: list_all2_same)
next
  case (Some snap)
  have "list_all2 (event_override_ok (\<lambda>_ _. True)) (ai_events inp) (ai_events out)"
    using assms unfolding Some by (rule apply_snapshot_events) simp
  then show ?thesis
    by (rule list_all2_mono) (auto simp: event_override_ok_def CLAMP_LO_def CLAMP_HI_def)
qed

lemma learned_facts_keep_consequences_witness:
  "\<exists>out. apply_snapshot sample_input (Some sample_snapshot) None = Inr out
     \<and> list_all (eligible sample_input) (sb_facts sample_snapshot)
     \<and> list_all2 (\<lambda>e e'. e' = e\<lparr>ev_p_event := ev_p_event e'\<rparr>
      \<and> (e' = e \<or> 0.01 \<le> ev_p_event e' \<and> ev_p_event e' \<le> 0.99)
      \<and> (ev_event e \<in> set CONSEQUENCE_BEARING_EVENTS \<longrightarrow> ev_p_event e \<le> ev_p_event e'))
    (ai_events sample_input) (ai_events out)"
proof -
  obtain out where out: "apply_snapshot sample_input (Some sample_snapshot) None = Inr out"
    using apply_snapshot_ok [of None None] by (force simp: is_ok_iff validate_pool_config_def)
  moreover have "list_all (eligible sample_input) (sb_facts sample_snapshot)"
    by (simp add: sample_snapshot_def sample_fact_eligible)
  ultimately show ?thesis using learned_facts_keep_consequences [OF out] by blast
qed

text \<open>Pooling is bounded. With the mode \<open>log_pool\<close> no probability moves further than
  \<open>max_logit_shift\<close> from its prior in logit space, neither that of success nor that of an event.\<close>

theorem pooled_facts_shift_bounded:
  assumes "apply_snapshot inp snapshot (Some cfg) = Inr out" and "pc_mode cfg = ''log_pool''"
  shows "\<bar>logit (ai_p_success out) - logit (ai_p_success inp)\<bar> \<le> fin_value (pc_max_logit_shift cfg)
    \<and> list_all2 (\<lambda>e e'. \<bar>logit (ev_p_event e') - logit (ev_p_event e)\<bar> \<le> fin_value (pc_max_logit_shift cfg))
        (ai_events inp) (ai_events out)"
proof -
  let ?d = "fin_value (pc_max_logit_shift cfg)"
  let ?near = "\<lambda>p v. \<bar>logit v - logit p\<bar> \<le> ?d"
  have d: "0 \<le> ?d"
    using assms(1) validate_pool_config_SomeD [of "Some cfg"]
    by (cases "pc_max_logit_shift cfg") (auto simp: apply_snapshot_def rbind_Inr_iff)
  have near: "?near p v"
    if "resolve_target facts t (vreal p) inp (ai_structural_features inp) (Some cfg) True = Some (v, prov)"
    for facts t p v prov
    using resolve_target_pooled [OF that _ d] assms(2) by simp
  have unchanged: ?thesis if "out = inp" using that d by (simp add: list_all2_same)
  show ?thesis
    using assms(1)
  proof (cases rule: apply_snapshot_cases)
    case (adjusted snap st1 st2)
    have "list_all2 (event_override_ok ?near) (ai_events inp) (ai_events out)"
      using assms(1) near unfolding adjusted(1) by (rule apply_snapshot_events)
    then have "list_all2 (\<lambda>e e'. ?near (ev_p_event e) (ev_p_event e')) (ai_events inp) (ai_events out)"
      by (rule list_all2_mono) (use d in \<open>auto simp: event_override_ok_def\<close>)
    moreover have "?near (ai_p_success inp) (ai_p_success out)"
      using adjusted(2) d near unfolding adjusted(5)
      by (auto simp: override_p_success_def rbind_Inr_iff split: option.splits prod.splits)
    ultimately show ?thesis by blast
  qed (rule unchanged)
qed

definition sample_pool :: pool_config where
  "sample_pool = \<lparr>pc_mode = ''log_pool'', pc_top_k = 3, pc_max_logit_shift = Fin 1\<rparr>"

lemma pooled_facts_shift_bounded_witness:
  "\<exists>out. apply_snapshot sample_input (Some sample_snapshot) (Some sample_pool) = Inr out
     \<and> list_all (eligible sample_input) (sb_facts sample_snapshot)
     \<and> \<bar>logit (ai_p_success out) - logit (ai_p_success sample_input)\<bar> \<le> 1
     \<and> list_all2 (\<lambda>e e'. \<bar>logit (ev_p_event e') - logit (ev_p_event e)\<bar> \<le> 1)
         (ai_events sample_input) (ai_events out)"
proof -
  obtain out where out: "apply_snapshot sample_input (Some sample_snapshot) (Some sample_pool) = Inr out"
    using apply_snapshot_ok [of "Some sample_pool" "Some sample_pool" sample_input]
    by (force simp: is_ok_iff validate_pool_config_def sample_pool_def)
  moreover have "list_all (eligible sample_input) (sb_facts sample_snapshot)"
    by (simp add: sample_snapshot_def sample_fact_eligible)
  ultimately show ?thesis using pooled_facts_shift_bounded [OF out] by (simp add: sample_pool_def)
qed

text \<open>Only eligible facts count. A fact that awaits ratification, is uncalibrated, carries too little
  decayed weight, has a value that is not finite, or whose scope does not match changes nothing: leaving
  all of them out gives the same result.\<close>

theorem ineligible_facts_have_no_effect:
  "apply_snapshot inp (Some (snap\<lparr>sb_facts := filter (eligible inp) (sb_facts snap)\<rparr>)) cfg
    = apply_snapshot inp (Some snap) cfg"
proof -
  let ?facts = "sb_facts snap" and ?el = "filter (eligible inp) (sb_facts snap)"
  have steps: "override_p_success inp ?el = override_p_success inp ?facts"
    "override_event inp ?el = override_event inp ?facts"
    "override_immediate_benefit inp ?el = override_immediate_benefit inp ?facts"
    "override_delta inp ?el = override_delta inp ?facts"
    "override_measured_benefit inp ?el = override_measured_benefit inp ?facts"
    "override_review_cost inp ?el = override_review_cost inp ?facts"
    by (intro ext; simp only: override_p_success_def override_event_def override_immediate_benefit_def
        override_delta_def override_measured_benefit_def override_review_cost_def resolve_eligible)+
  have events: "override_events inp ?el cfg' es = override_events inp ?facts cfg' es" for cfg' es
    by (induction es) (simp_all add: steps)
  have deltas: "override_deltas inp ?el ts st = override_deltas inp ?facts ts st" for ts st
    by (induction ts arbitrary: st) (simp_all add: steps rbind_def split: sum.splits)
  show ?thesis
  proof (cases "?el = []")
    case True
    then show ?thesis
      using apply_snapshot_none_eligible [of inp snap cfg] by (simp add: apply_snapshot_def)
  next
    case False
    then have "?facts \<noteq> []" by auto
    moreover have "sb_facts (snap\<lparr>sb_facts := ?el\<rparr>) = ?el"
      "sb_snapshot_id (snap\<lparr>sb_facts := ?el\<rparr>) = sb_snapshot_id snap" by simp_all
    ultimately show ?thesis using False
      by (simp only: apply_snapshot_def option.case Let_def if_False steps
          override_all_events_def events deltas override_deltas_eligible)
  qed
qed

text \<open>Applying a snapshot raises exactly on an invalid pool configuration, whether a snapshot is
  present or not; no content of the facts makes it raise.\<close>

theorem apply_snapshot_returns:
  "(\<exists>out. apply_snapshot inp snapshot cfg = Inr out) \<longleftrightarrow>
   (case cfg of
      None \<Rightarrow> True
    | Some c \<Rightarrow> pc_mode c \<in> {''hard_replace'', ''log_pool''} \<and> 1 \<le> pc_top_k c
        \<and> nonneg_finite (pc_max_logit_shift c))"
proof -
  have valid: "(\<exists>c. validate_pool_config cfg = Inr c) \<longleftrightarrow> (case cfg of
      None \<Rightarrow> True
    | Some c \<Rightarrow> pc_mode c \<in> {''hard_replace'', ''log_pool''} \<and> 1 \<le> pc_top_k c
        \<and> nonneg_finite (pc_max_logit_shift c))"
    by (auto simp: validate_pool_config_def split: option.splits)
  have "\<exists>out. apply_snapshot inp snapshot cfg = Inr out" if "validate_pool_config cfg = Inr c" for c
    using apply_snapshot_ok [OF that] by (simp add: is_ok_iff)
  then show ?thesis unfolding valid [symmetric] by (auto simp: apply_snapshot_def rbind_Inr_iff)
qed

end
