(* ===== verification/Pebra_Learning_Ledger.thy ===== *)
theory Pebra_Learning_Ledger
  imports Pebra_Assessment_Ledger Pebra_Learned_Overrides
begin

text \<open>
  The learning side of \<open>pebra/adapters/store/db.py\<close>: terminal outcomes, measurements with their shadow
  snapshot, promotions with their facts, the calibration views, and the active facts a later assessment
  reads; with \<open>pebra/adapters/snapshot_read_store.py\<close>, which decodes those facts. Every write is one
  transaction: it returns the new ledger or an error. A number in stored JSON that is written as a string
  does not parse here; no writer stores one.
\<close>

section \<open>Outcomes\<close>

definition last_outcome_hash :: "outcome_row list \<Rightarrow> string" where
  "last_outcome_hash rows = chain_last oc_row_hash rows"

definition has_outcome :: "nat \<Rightarrow> ledger \<Rightarrow> bool" where
  "has_outcome i ledger = list_ex (\<lambda>o'. oc_assessment_id o' = i) (lg_outcomes ledger)"

definition record_outcome_row ::
  "json_codec \<Rightarrow> string \<Rightarrow> string \<Rightarrow> string \<Rightarrow> pyval dict \<Rightarrow> ledger \<Rightarrow> ledger res" where
  "record_outcome_row codec recorded_at assessment_id status detail ledger =
     rbind (row_id assessment_id) (\<lambda>i.
     rbind (guidance_packet_id_for_assessment assessment_id ledger) (\<lambda>guidance_packet_id.
       let content_json = outcome_canonical codec i status (VDict detail) recorded_at guidance_packet_id 2;
           prev_hash = last_outcome_hash (lg_outcomes ledger)
       in if \<not> assessment_exists i ledger then Inl (KeyError ''no assessment'')
          else if has_outcome i ledger then Inl (ValueError ''already has a terminal outcome'')
          else Inr (ledger\<lparr>lg_outcomes := lg_outcomes ledger @
            [\<lparr>oc_id = next_id oc_id (lg_outcomes ledger), oc_assessment_id = i,
              oc_guidance_packet_id = guidance_packet_id, oc_hash_version = 2, oc_terminal_status = status,
              oc_detail_json = js_compact codec detail, oc_recorded_at = recorded_at, oc_prev_hash = prev_hash,
              oc_row_hash = row_hash prev_hash content_json\<rparr>]\<rparr>)))"

record loaded_outcome =
  lo_terminal_status :: string
  lo_detail :: pyval
  lo_recorded_at :: string

definition outcomes_of_assessment :: "nat \<Rightarrow> ledger \<Rightarrow> outcome_row list" where
  "outcomes_of_assessment i ledger = filter (\<lambda>o'. oc_assessment_id o' = i) (lg_outcomes ledger)"

definition load_outcomes :: "json_codec \<Rightarrow> string \<Rightarrow> ledger \<Rightarrow> loaded_outcome list res" where
  "load_outcomes codec assessment_id ledger =
     rbind (row_id assessment_id) (\<lambda>i.
       map_res (\<lambda>o'. rbind (js_loads codec (oc_detail_json o')) (\<lambda>detail.
           Inr \<lparr>lo_terminal_status = oc_terminal_status o', lo_detail = detail, lo_recorded_at = oc_recorded_at o'\<rparr>))
         (outcomes_of_assessment i ledger))"

section \<open>Measurements\<close>

definition last_prediction_error_hash :: "stored_error list \<Rightarrow> string" where
  "last_prediction_error_hash rows = chain_last pe_row_hash rows"

text \<open>What the columns keep of a computed row: NaN becomes NULL.\<close>

definition stored_columns :: "error_row \<Rightarrow> error_row" where
  "stored_columns row =
     row\<lparr>er_actual_value := sql_float (er_actual_value row), er_squared_error := sql_float (er_squared_error row),
         er_residual := sql_float (er_residual row)\<rparr>"

text \<open>The rows \<open>build_error_rows\<close> makes have no guidance columns, so these take their defaults.\<close>

definition insert_prediction_error_for_row_id ::
  "json_codec \<Rightarrow> nat \<Rightarrow> string \<Rightarrow> error_row \<Rightarrow> stored_error list \<Rightarrow> stored_error list" where
  "insert_prediction_error_for_row_id codec i recorded_at row rows =
     (let content_json = prediction_error_canonical codec i row None 0 2 recorded_at;
          prev_hash = last_prediction_error_hash rows
      in rows @ [\<lparr>pe_id = next_id pe_id rows, pe_assessment_id = i, pe_row = stored_columns row,
                  pe_guidance_packet_id = None, pe_benefit_guidance_influenced = 0, pe_hash_version = 2,
                  pe_recorded_at = recorded_at, pe_prev_hash = prev_hash,
                  pe_row_hash = row_hash prev_hash content_json\<rparr>])"

fun insert_prediction_errors ::
  "json_codec \<Rightarrow> nat \<Rightarrow> string \<Rightarrow> error_row list \<Rightarrow> stored_error list \<Rightarrow> string list \<times> stored_error list" where
  "insert_prediction_errors codec i recorded_at [] table = ([], table)"
| "insert_prediction_errors codec i recorded_at (row # rows) table =
     (let (ids, table') = insert_prediction_errors codec i recorded_at rows
            (insert_prediction_error_for_row_id codec i recorded_at row table)
      in ((''pe_'' @ show_nat (next_id pe_id table)) # ids, table'))"

definition lifecycle_of :: "pyval dict \<Rightarrow> snapshot_lifecycle" where
  "lifecycle_of metrics =
     \<lparr>ls_parent_snapshot_id = opt_str (dict_get metrics ''parent_snapshot_id'' VNone),
      ls_created_from_outcome_hash = opt_str (dict_get metrics ''created_from_outcome_hash'' VNone),
      ls_promotion_reason = opt_str (dict_get metrics ''promotion_reason'' VNone),
      ls_rollback_reason = opt_str (dict_get metrics ''rollback_reason'' VNone),
      ls_drift_score = number_float (dict_get metrics ''drift_score'' VNone),
      ls_activated_at = opt_str (dict_get metrics ''activated_at'' VNone),
      ls_hash_version = (case dict_get metrics ''hash_version'' VNone of VInt v \<Rightarrow> if v = 0 then 2 else v | _ \<Rightarrow> 2)\<rparr>"

definition last_risk_snapshot_hash :: "snapshot_row list \<Rightarrow> string" where
  "last_risk_snapshot_hash rows = chain_last rs_row_hash rows"

definition insert_risk_snapshot ::
  "json_codec \<Rightarrow> string \<Rightarrow> string \<Rightarrow> pyval dict \<Rightarrow> string \<Rightarrow> snapshot_row list \<Rightarrow> nat \<times> snapshot_row list" where
  "insert_risk_snapshot codec created_at repo_id metrics status rows =
     (let lifecycle = lifecycle_of metrics;
          content_json = risk_snapshot_canonical codec repo_id status (VDict metrics) created_at lifecycle;
          prev_hash = last_risk_snapshot_hash rows;
          new_id = next_id rs_id rows
      in (new_id,
          rows @ [\<lparr>rs_id = new_id, rs_repo_id = repo_id, rs_status = status,
                   rs_metrics_json = js_compact codec metrics,
                   rs_lifecycle = lifecycle\<lparr>ls_drift_score := sql_float (ls_drift_score lifecycle)\<rparr>,
                   rs_created_at = created_at, rs_prev_hash = prev_hash,
                   rs_row_hash = row_hash prev_hash content_json\<rparr>]))"

definition rs_name :: "nat \<Rightarrow> string" where "rs_name i = ''rs_'' @ show_nat i"

definition errors_of :: "nat \<Rightarrow> ledger \<Rightarrow> stored_error list" where
  "errors_of i ledger = filter (\<lambda>e. pe_assessment_id e = i) (lg_errors ledger)"

definition prediction_errors_exist :: "string \<Rightarrow> ledger \<Rightarrow> bool res" where
  "prediction_errors_exist assessment_id ledger =
     rbind (row_id assessment_id) (\<lambda>i. Inr (errors_of i ledger \<noteq> []))"

definition insert_learning_measurement ::
  "json_codec \<Rightarrow> string \<Rightarrow> string \<Rightarrow> string \<Rightarrow> error_row list \<Rightarrow> string \<Rightarrow> pyval dict \<Rightarrow> string \<Rightarrow> ledger
    \<Rightarrow> ((string list \<times> string) \<times> ledger) res" where
  "insert_learning_measurement codec recorded_at created_at assessment_id rows repo_id metrics status ledger =
     rbind (row_id assessment_id) (\<lambda>i.
       if \<not> assessment_exists i ledger then Inl (KeyError ''no assessment'')
       else if errors_of i ledger \<noteq> []
       then Inl (MeasurementAlreadyRecordedError ''has already been measured'')
       else
         let (error_ids, errors) = insert_prediction_errors codec i recorded_at rows (lg_errors ledger);
             (snapshot_id, snapshots) = insert_risk_snapshot codec created_at repo_id metrics status (lg_snapshots ledger)
         in Inr ((error_ids, rs_name snapshot_id), ledger\<lparr>lg_errors := errors, lg_snapshots := snapshots\<rparr>))"

section \<open>Promotions\<close>

definition last_learned_risk_fact_hash :: "fact_row list \<Rightarrow> string" where
  "last_learned_risk_fact_hash rows = chain_last lr_row_hash rows"

definition insert_one_learned_fact ::
  "json_codec \<Rightarrow> string \<Rightarrow> string \<Rightarrow> string \<Rightarrow> learned_fact \<Rightarrow> fact_row list \<Rightarrow> fact_row list" where
  "insert_one_learned_fact codec created_at repo_id snapshot_id f rows =
     (let ratification = (if lf_requires_human_ratification f then 1 else 0);
          content_json = learned_fact_canonical codec repo_id snapshot_id (lf_fact_type f) (lf_target_type f)
            (lf_target_name f) (lf_scope_kind f) (lf_scope_value f) (lf_specificity_rank f)
            (VDict (lf_scope_json f)) (VDict (lf_fact_json f)) (lf_status f) ratification created_at;
          prev_hash = last_learned_risk_fact_hash rows
      in rows @ [\<lparr>lr_id = next_id lr_id rows, lr_repo_id = repo_id, lr_snapshot_id = snapshot_id,
                  lr_fact_type = lf_fact_type f, lr_target_type = lf_target_type f,
                  lr_target_name = lf_target_name f, lr_scope_kind = lf_scope_kind f,
                  lr_scope_value = lf_scope_value f, lr_specificity_rank = lf_specificity_rank f,
                  lr_scope_json = js_compact codec (lf_scope_json f),
                  lr_fact_json = js_compact codec (lf_fact_json f), lr_status = lf_status f,
                  lr_requires_human_ratification = ratification, lr_created_at = created_at,
                  lr_prev_hash = prev_hash, lr_row_hash = row_hash prev_hash content_json\<rparr>])"

fun insert_learned_facts ::
  "json_codec \<Rightarrow> string \<Rightarrow> string \<Rightarrow> string \<Rightarrow> learned_fact list \<Rightarrow> fact_row list \<Rightarrow> string list \<times> fact_row list" where
  "insert_learned_facts codec created_at repo_id snapshot_id [] table = ([], table)"
| "insert_learned_facts codec created_at repo_id snapshot_id (f # fs) table =
     (let (ids, table') = insert_learned_facts codec created_at repo_id snapshot_id fs
            (insert_one_learned_fact codec created_at repo_id snapshot_id f table)
      in ((''lrf_'' @ show_nat (next_id lr_id table)) # ids, table'))"

text \<open>The first snapshot of the repository that was written for a trigger.\<close>

fun triggered_snapshot :: "json_codec \<Rightarrow> string \<Rightarrow> pyval \<Rightarrow> snapshot_row list \<Rightarrow> snapshot_row option res" where
  "triggered_snapshot codec repo_id trigger_key [] = Inr None"
| "triggered_snapshot codec repo_id trigger_key (s # rows) =
     (if rs_repo_id s \<noteq> repo_id then triggered_snapshot codec repo_id trigger_key rows
      else rbind (loads_dict codec (rs_metrics_json s)) (\<lambda>metrics.
        if py_eq (dict_get metrics ''trigger_key'' VNone) trigger_key then Inr (Some s)
        else triggered_snapshot codec repo_id trigger_key rows))"

definition insert_learned_fact_batch_with_snapshot ::
  "json_codec \<Rightarrow> string \<Rightarrow> string \<Rightarrow> pyval dict \<Rightarrow> learned_fact list \<Rightarrow> string \<Rightarrow> ledger
    \<Rightarrow> ((string \<times> string list) \<times> ledger) res" where
  "insert_learned_fact_batch_with_snapshot codec created_at repo_id snapshot_metrics learned_facts
       snapshot_status ledger =
     (if learned_facts = [] then Inl (ValueError ''cannot write a promotion snapshot with zero learned facts'')
      else
        let trigger_key = dict_get snapshot_metrics ''trigger_key'' VNone
        in rbind (if trigger_key = VNone then Inr None
                  else triggered_snapshot codec repo_id trigger_key (lg_snapshots ledger)) (\<lambda>existing.
          case existing of
            Some s \<Rightarrow>
              Inr ((rs_name (rs_id s),
                    map (\<lambda>f. ''lrf_'' @ show_nat (lr_id f))
                      (filter (\<lambda>f. lr_repo_id f = repo_id \<and> lr_snapshot_id f = show_nat (rs_id s)) (lg_facts ledger))),
                   ledger)
          | None \<Rightarrow>
              let (snapshot_id, snapshots) = insert_risk_snapshot codec created_at repo_id snapshot_metrics
                    snapshot_status (lg_snapshots ledger);
                  (fact_ids, table) = insert_learned_facts codec created_at repo_id (show_nat snapshot_id)
                    learned_facts (lg_facts ledger)
              in Inr ((rs_name snapshot_id, fact_ids), ledger\<lparr>lg_snapshots := snapshots, lg_facts := table\<rparr>)))"

section \<open>The calibration views\<close>

definition unguided_columns :: "string \<Rightarrow> stored_error \<Rightarrow> bool" where
  "unguided_columns target_type e =
     (pe_guidance_packet_id e = None
      \<and> (target_type \<in> {BENEFIT_BINARY, BENEFIT_CONTINUOUS} \<longrightarrow> pe_benefit_guidance_influenced e = 0))"

definition calibration_view :: "string \<Rightarrow> stored_error list \<Rightarrow> stored_error list" where
  "calibration_view target_type errors =
     filter (\<lambda>e. er_target_type (pe_row e) = target_type \<and> er_shadow_mode (pe_row e) = 0 \<and> pe_hash_version e = 2
        \<and> er_outcome_label_status (pe_row e) = ''observed''
        \<and> er_calibration_scope (pe_row e) = ''proceeded_edits_only'' \<and> unguided_columns target_type e) errors"

text \<open>\<open>float(v)\<close> and \<open>int(v)\<close> of a stored value.\<close>

fun py_float :: "pyval \<Rightarrow> pyfloat res" where
  "py_float (VInt i) = Inr (Fin (of_int i))"
| "py_float (VBool b) = Inr (Fin (of_bool b))"
| "py_float (VFloat x) = Inr x"
| "py_float (VStr _) = Inl (ValueError ''could not convert string to float'')"
| "py_float _ = Inl (TypeError ''float() argument must be a string or a real number'')"

fun py_int_res :: "pyval \<Rightarrow> int res" where
  "py_int_res (VInt i) = Inr i"
| "py_int_res (VBool b) = Inr (of_bool b)"
| "py_int_res (VFloat (Fin x)) = Inr (py_int x)"
| "py_int_res (VFloat NaN) = Inl (ValueError ''cannot convert float NaN to integer'')"
| "py_int_res (VFloat _) = Inl (OverflowError ''cannot convert float infinity to integer'')"
| "py_int_res (VStr _) = Inl (ValueError ''invalid literal for int()'')"
| "py_int_res _ = Inl (TypeError ''int() argument must be a string or a real number'')"

fun find_event :: "string \<Rightarrow> pyval list \<Rightarrow> pyfloat option res" where
  "find_event event [] = Inr None"
| "find_event event (component # components) =
     rbind (as_dict component) (\<lambda>d.
       if dict_get d ''event'' VNone = VStr event
       then rbind (item d ''disutility'') (\<lambda>v. rbind (py_float v) (\<lambda>x. Inr (Some x)))
       else find_event event components)"

fun is_lookup_error :: "pyerr \<Rightarrow> bool" where
  "is_lookup_error (KeyError _) = True"
| "is_lookup_error e = is_value_or_type_error e"

definition event_disutility :: "json_codec \<Rightarrow> string \<Rightarrow> string \<Rightarrow> pyfloat option res" where
  "event_disutility codec content_json target_name =
     (if content_json = [] \<or> \<not> starts_with target_name ''p_event.'' then Inr None
      else
        case rbind (js_loads codec content_json) (\<lambda>content.
             rbind (as_dict (or_empty content)) (\<lambda>c.
             rbind (as_dict (or_empty (dict_get c ''scores'' VNone))) (\<lambda>scores.
             rbind (let cs = dict_get scores ''loss_components'' VNone in if truthy cs then py_list cs else Inr []) (\<lambda>comps.
               find_event (remove_prefix target_name ''p_event.'') comps)))) of
          Inl e \<Rightarrow> if is_lookup_error e then Inr None else Inl e
        | Inr x \<Rightarrow> Inr x)"

text \<open>The features of the latest capture of the same target; unparseable ones count as empty.\<close>

definition captured_features :: "json_codec \<Rightarrow> ledger \<Rightarrow> stored_error \<Rightarrow> pyval dict res" where
  "captured_features codec ledger e =
     (case latest (\<lambda>r. ap_assessment_id r = pe_assessment_id e \<and> ap_target_type r = er_target_type (pe_row e)
             \<and> ap_target_name r = er_target_name (pe_row e) \<and> ap_action_id r = er_action_id (pe_row e))
           (lg_predictions ledger) of
        None \<Rightarrow> Inr []
      | Some r \<Rightarrow>
          if ap_features_json r = [] then Inr []
          else case js_loads codec (ap_features_json r) of
                 Inl err \<Rightarrow> if is_value_or_type_error err then Inr [] else Inl err
               | Inr (VDict d) \<Rightarrow> Inr d
               | Inr _ \<Rightarrow> Inr [])"

definition calibration_row_of :: "json_codec \<Rightarrow> ledger \<Rightarrow> assessment_row \<Rightarrow> stored_error \<Rightarrow> calibration_row res" where
  "calibration_row_of codec ledger a e =
     (let row = pe_row e
      in rbind (captured_features codec ledger e) (\<lambda>features.
         rbind (event_disutility codec (aw_content_json a) (er_target_name row)) (\<lambda>disutility.
           Inr \<lparr>cr_target_type = er_target_type row, cr_target_name = er_target_name row,
                cr_predicted_probability = er_predicted_probability row,
                cr_predicted_value = er_predicted_value row, cr_actual_outcome = er_actual_outcome row,
                cr_actual_value = er_actual_value row, cr_features = features,
                cr_event_disutility = disutility\<rparr>)))"

text \<open>The join of a view with the assessments, in the order of the errors.\<close>

definition production_errors :: "string option \<Rightarrow> string \<Rightarrow> ledger \<Rightarrow> (assessment_row \<times> stored_error) list" where
  "production_errors repo_id target_type ledger =
     concat (map (\<lambda>e. map (\<lambda>a. (a, e))
         (filter (\<lambda>a. aw_id a = pe_assessment_id e \<and> (case repo_id of None \<Rightarrow> True | Some r \<Rightarrow> aw_repo_id a = r))
            (lg_assessments ledger)))
       (calibration_view target_type (lg_errors ledger)))"

definition load_production_calibration_rows ::
  "json_codec \<Rightarrow> string option \<Rightarrow> string \<Rightarrow> ledger \<Rightarrow> calibration_row list res" where
  "load_production_calibration_rows codec repo_id target_type ledger =
     (if target_type \<notin> set TARGET_TYPES then Inl (KeyError target_type)
      else map_res (\<lambda>(a, e). calibration_row_of codec ledger a e) (production_errors repo_id target_type ledger))"

section \<open>Active facts\<close>

record active_fact =
  av_fact_id :: string
  av_target_type :: string
  av_target_name :: string
  av_scope_kind :: string
  av_scope_value :: string
  av_specificity_rank :: int
  av_scope_json :: string
  av_fact_json :: string
  av_created_at :: string
  av_scope_change_count :: nat

record active_snapshot =
  as_snapshot_id :: string
  as_facts :: "active_fact list"

text \<open>
  The number of distinct assessments completed after the fact was learned whose latest verification said
  proceed and whose captured features lie in the scope of the fact.
\<close>

definition verified_proceed :: "json_codec \<Rightarrow> ledger \<Rightarrow> nat \<Rightarrow> bool res" where
  "verified_proceed codec ledger i =
     (case latest (\<lambda>g. gw_assessment_id g = i) (lg_guardrails ledger) of
        None \<Rightarrow> Inr False
      | Some g \<Rightarrow>
          if gw_guardrails_json g = [] then Inr False
          else case js_loads codec (gw_guardrails_json g) of
                 Inl err \<Rightarrow> if is_value_or_type_error err then Inr False else Inl err
               | Inr (VDict d) \<Rightarrow> Inr (dict_get d ''pre_commit_decision'' VNone = VStr ''proceed'')
               | Inr _ \<Rightarrow> Inr False)"

definition features_of_row :: "json_codec \<Rightarrow> prediction_row \<Rightarrow> pyval dict option res" where
  "features_of_row codec r =
     (if ap_features_json r = [] then Inr (Some [])
      else case js_loads codec (ap_features_json r) of
             Inl err \<Rightarrow> if is_value_or_type_error err then Inr None else Inl err
           | Inr (VDict d) \<Rightarrow> Inr (Some d)
           | Inr _ \<Rightarrow> Inr None)"

definition churned ::
  "json_codec \<Rightarrow> ledger \<Rightarrow> string \<Rightarrow> string \<Rightarrow> string \<Rightarrow> string \<Rightarrow> pyval dict \<Rightarrow> nat \<Rightarrow> bool res" where
  "churned codec ledger repo_id learned_at scope_kind scope_value scope i =
     (if \<not> list_ex (\<lambda>a. aw_id a = i \<and> aw_repo_id a = repo_id) (lg_assessments ledger)
         \<or> \<not> list_ex (\<lambda>o'. oc_assessment_id o' = i \<and> oc_terminal_status o' = ''completed''
               \<and> oc_recorded_at o' > learned_at) (lg_outcomes ledger)
         \<or> predictions_of i ledger = []
      then Inr False
      else rbind (verified_proceed codec ledger i) (\<lambda>proceeded.
        if \<not> proceeded then Inr False
        else rbind (map_res (features_of_row codec) (predictions_of i ledger)) (\<lambda>fs.
          Inr (list_ex (\<lambda>f. case f of None \<Rightarrow> False
                 | Some d \<Rightarrow> scope_matches_features scope_kind scope_value scope d) fs))))"

definition verified_scope_change_count ::
  "json_codec \<Rightarrow> ledger \<Rightarrow> string \<Rightarrow> string \<Rightarrow> string \<Rightarrow> string \<Rightarrow> string \<Rightarrow> nat res" where
  "verified_scope_change_count codec ledger repo_id learned_at scope_kind scope_value scope_json =
     (case (if scope_json = [] then Inr (VDict []) else js_loads codec scope_json) of
        Inl err \<Rightarrow> if is_value_or_type_error err then Inr 0 else Inl err
      | Inr (VDict scope) \<Rightarrow>
          rbind (map_res (churned codec ledger repo_id learned_at scope_kind scope_value scope)
            (map aw_id (lg_assessments ledger))) (\<lambda>flags. Inr (length (filter id flags)))
      | Inr _ \<Rightarrow> Inr 0)"

text \<open>The numbers of a stored fact, in the order they are converted.\<close>

record fact_numbers =
  fn_value :: pyfloat
  fn_sample_size :: int
  fn_method :: string
  fn_weight :: pyfloat
  fn_calibration_quality :: pyfloat
  fn_scope_change_count :: int

definition fact_numbers_of :: "json_codec \<Rightarrow> pyval dict \<Rightarrow> fact_numbers res" where
  "fact_numbers_of codec d =
     rbind (item d ''value'') (\<lambda>v. rbind (py_float v) (\<lambda>value.
     rbind (py_int_res (dict_get d ''sample_size'' (VInt 0))) (\<lambda>sample_size.
     rbind (py_float (dict_get d ''weight'' (vreal 1))) (\<lambda>weight.
     rbind (py_float (dict_get d ''calibration_quality'' (vreal 1))) (\<lambda>quality.
     rbind (py_int_res (dict_get d ''scope_change_count'' (VInt 0))) (\<lambda>changes.
       Inr \<lparr>fn_value = value, fn_sample_size = sample_size,
            fn_method = strip (py_str codec (dict_get d ''calibration_method'' (VStr []))),
            fn_weight = weight, fn_calibration_quality = quality, fn_scope_change_count = changes\<rparr>))))))"

definition usable_numbers :: "fact_numbers \<Rightarrow> bool" where
  "usable_numbers n =
     (fn_sample_size n \<ge> MIN_CALIBRATION_SAMPLES \<and> fn_method n \<noteq> [] \<and> is_finite_float (fn_value n)
      \<and> nonneg_finite (fn_weight n) \<and> nonneg_finite (fn_calibration_quality n) \<and> fn_scope_change_count n \<ge> 0)"

definition fact_dict_of :: "json_codec \<Rightarrow> string \<Rightarrow> pyval res" where
  "fact_dict_of codec fact_json = (if fact_json = [] then Inr (VDict []) else js_loads codec fact_json)"

definition learned_fact_read_usable :: "json_codec \<Rightarrow> string \<Rightarrow> bool res" where
  "learned_fact_read_usable codec fact_json =
     (case rbind (fact_dict_of codec fact_json) (\<lambda>v. case v of
             VDict d \<Rightarrow> rbind (fact_numbers_of codec d) (\<lambda>n. Inr (usable_numbers n))
           | _ \<Rightarrow> Inr False) of
        Inl e \<Rightarrow> if is_lookup_error e then Inr False else Inl e
      | Inr b \<Rightarrow> Inr b)"

fun filter_res :: "('a \<Rightarrow> bool res) \<Rightarrow> 'a list \<Rightarrow> 'a list res" where
  "filter_res P [] = Inr []"
| "filter_res P (x # xs) = rbind (P x) (\<lambda>b. rbind (filter_res P xs) (\<lambda>ys. Inr (if b then x # ys else ys)))"

definition usable_family :: "json_codec \<Rightarrow> string list \<Rightarrow> fact_row list \<Rightarrow> fact_row list res" where
  "usable_family codec target_types rows =
     filter_res (\<lambda>r. learned_fact_read_usable codec (lr_fact_json r))
       (filter (\<lambda>r. lr_target_type r \<in> set target_types) rows)"

definition candidate_rows :: "string \<Rightarrow> nat \<Rightarrow> fact_row list \<Rightarrow> fact_row list" where
  "candidate_rows repo_id candidate_id rows =
     filter (\<lambda>r. lr_repo_id r = repo_id \<and> lr_snapshot_id r \<in> {show_nat candidate_id, rs_name candidate_id}
        \<and> lr_status r = ''active'' \<and> lr_requires_human_ratification r = 0
        \<and> lr_fact_type r = ''learned_override'') rows"

text \<open>The scan, newest snapshot first: each family takes the facts of the first snapshot that has usable ones.\<close>

record scan_state =
  sn_ids :: "nat list"
  sn_rows :: "fact_row list"
  sn_have :: "string list list"

definition take_family :: "nat \<Rightarrow> string list \<Rightarrow> fact_row list \<Rightarrow> scan_state \<Rightarrow> scan_state" where
  "take_family candidate_id family usable st =
     (if usable \<noteq> [] \<and> family \<notin> set (sn_have st)
      then \<lparr>sn_ids = sn_ids st @ [candidate_id], sn_rows = sn_rows st @ usable, sn_have = sn_have st @ [family]\<rparr>
      else st)"

definition RISK_FAMILY :: "string list" where "RISK_FAMILY = [RISK_BINARY]"
definition BENEFIT_FAMILY :: "string list" where "BENEFIT_FAMILY = [BENEFIT_BINARY, BENEFIT_CONTINUOUS]"
definition COST_FAMILY :: "string list" where "COST_FAMILY = [COST_CONTINUOUS]"

fun scan_snapshots ::
  "json_codec \<Rightarrow> string \<Rightarrow> fact_row list \<Rightarrow> nat list \<Rightarrow> scan_state \<Rightarrow> scan_state res" where
  "scan_snapshots codec repo_id table [] st = Inr st"
| "scan_snapshots codec repo_id table (candidate_id # ids) st =
     (if {RISK_FAMILY, BENEFIT_FAMILY, COST_FAMILY} \<subseteq> set (sn_have st) then Inr st
      else
        let rows = candidate_rows repo_id candidate_id table
        in rbind (usable_family codec RISK_FAMILY rows) (\<lambda>risk.
           rbind (usable_family codec BENEFIT_FAMILY rows) (\<lambda>benefit.
           rbind (usable_family codec COST_FAMILY rows) (\<lambda>cost.
             scan_snapshots codec repo_id table ids
               (take_family candidate_id COST_FAMILY cost
                 (take_family candidate_id BENEFIT_FAMILY benefit
                   (take_family candidate_id RISK_FAMILY risk st)))))))"

fun join_plus :: "string list \<Rightarrow> string" where
  "join_plus [] = []"
| "join_plus [s] = s"
| "join_plus (s # ss) = s @ ''+'' @ join_plus ss"

definition active_fact_of :: "json_codec \<Rightarrow> ledger \<Rightarrow> string \<Rightarrow> fact_row \<Rightarrow> active_fact res" where
  "active_fact_of codec ledger repo_id r =
     rbind (verified_scope_change_count codec ledger repo_id (lr_created_at r) (lr_scope_kind r)
              (lr_scope_value r) (lr_scope_json r)) (\<lambda>changes.
       Inr \<lparr>av_fact_id = ''lrf_'' @ show_nat (lr_id r), av_target_type = lr_target_type r,
            av_target_name = lr_target_name r, av_scope_kind = lr_scope_kind r,
            av_scope_value = lr_scope_value r, av_specificity_rank = lr_specificity_rank r,
            av_scope_json = lr_scope_json r, av_fact_json = lr_fact_json r, av_created_at = lr_created_at r,
            av_scope_change_count = changes\<rparr>)"

definition read_active_snapshot_rows :: "json_codec \<Rightarrow> string \<Rightarrow> ledger \<Rightarrow> active_snapshot option res" where
  "read_active_snapshot_rows codec repo_id ledger =
     (let ids = rev (map rs_id (filter (\<lambda>s. rs_repo_id s = repo_id \<and> rs_status s = ''active'') (lg_snapshots ledger)))
      in if ids = [] then Inr None
         else rbind (scan_snapshots codec repo_id (lg_facts ledger) ids \<lparr>sn_ids = [], sn_rows = [], sn_have = []\<rparr>)
           (\<lambda>st. rbind (map_res (active_fact_of codec ledger repo_id) (sort_key lr_id (sn_rows st))) (\<lambda>active.
             let name = join_plus (map rs_name (first_occurrences (sn_ids st)))
             in Inr (Some \<lparr>as_snapshot_id = (if name = [] then rs_name (hd ids) else name), as_facts = active\<rparr>))))"

section \<open>Decoding active facts\<close>

definition opt_float_of :: "pyval \<Rightarrow> pyfloat option res" where
  "opt_float_of v = (if v = VNone then Inr None else rbind (py_float v) (\<lambda>x. Inr (Some x)))"

definition opt_nonneg :: "pyfloat option \<Rightarrow> bool" where
  "opt_nonneg x = (case x of None \<Rightarrow> True | Some v \<Rightarrow> nonneg_finite v)"

definition decode_fact :: "json_codec \<Rightarrow> active_fact \<Rightarrow> snapshot_fact option res" where
  "decode_fact codec row =
     rbind (fact_dict_of codec (av_fact_json row)) (\<lambda>v.
       case v of
         VDict d \<Rightarrow>
           if \<not> dict_has d ''value'' then Inr None
           else
             rbind (fact_numbers_of codec d) (\<lambda>n.
             rbind (opt_float_of (dict_get d ''variance'' VNone)) (\<lambda>variance.
             rbind (opt_float_of (dict_get d ''aleatoric_variance'' VNone)) (\<lambda>aleatoric.
               let changes = max (fn_scope_change_count n) (int (av_scope_change_count row))
               in if \<not> usable_numbers (n\<lparr>fn_scope_change_count := changes\<rparr>) \<or> \<not> opt_nonneg variance
                     \<or> \<not> opt_nonneg aleatoric
                  then Inr None
                  else rbind (if av_scope_json row = [] then Inr (VDict []) else js_loads codec (av_scope_json row))
                    (\<lambda>scope. Inr (Some
                      \<lparr>ft_fact_id = av_fact_id row, ft_target_type = av_target_type row,
                       ft_target_name = av_target_name row, ft_scope_kind = av_scope_kind row,
                       ft_scope_value = av_scope_value row, ft_specificity_rank = av_specificity_rank row,
                       ft_value = fn_value n, ft_sample_size = fn_sample_size n,
                       ft_calibration_method = fn_method n, ft_created_at = av_created_at row,
                       ft_weight = fn_weight n, ft_requires_human_ratification = False,
                       ft_scope_json = (case scope of VDict e \<Rightarrow> e | _ \<Rightarrow> []),
                       ft_calibration_quality = fn_calibration_quality n,
                       ft_scope_change_count = changes, ft_variance = variance,
                       ft_aleatoric_variance = aleatoric\<rparr>)))))
       | _ \<Rightarrow> Inr None)"

definition build_fact :: "json_codec \<Rightarrow> active_fact \<Rightarrow> snapshot_fact option res" where
  "build_fact codec row =
     (case decode_fact codec row of
        Inl e \<Rightarrow> if is_value_or_type_error e then Inr None else Inl e
      | Inr f \<Rightarrow> Inr f)"

definition load_active_snapshot :: "json_codec \<Rightarrow> string \<Rightarrow> ledger \<Rightarrow> snapshot_bundle option res" where
  "load_active_snapshot codec repo_id ledger =
     rbind (validate_learning_chains codec ledger) (\<lambda>ok.
       if \<not> ok then Inr None
       else rbind (read_active_snapshot_rows codec repo_id ledger) (\<lambda>raw.
         case raw of
           None \<Rightarrow> Inr None
         | Some snap \<Rightarrow> rbind (map_res (build_fact codec) (as_facts snap)) (\<lambda>fs.
             Inr (Some \<lparr>sb_snapshot_id = as_snapshot_id snap,
                        sb_facts = concat (map (\<lambda>f. case f of None \<Rightarrow> [] | Some x \<Rightarrow> [x]) fs)\<rparr>))))"

end
