(* ===== verification/Pebra_Learning_Runs.thy ===== *)
theory Pebra_Learning_Runs
  imports Pebra_Learning_Ledger
begin

text \<open>
  The use cases that close the learning loop: \<open>app/record_outcome_controller.py\<close>,
  \<open>app/learning_controller.py\<close>, the storing half of \<open>app/promotion_controller.py\<close>,
  \<open>app/finalize_outcome_controller.py\<close> and \<open>adapters/calibration_store.py\<close>, over the ledger.

  An action takes the ledger and returns a value or an error together with the ledger it leaves: what was
  committed before an error stays committed. The clock is a function from the number of the reading in
  a use case to a timestamp. The learning context, which is only written after an outcome is committed,
  is a parameter. A use case is run without another writer in between.
\<close>

section \<open>Actions\<close>

type_synonym 'a action = "ledger \<Rightarrow> 'a res \<times> ledger"

definition abind :: "'a action \<Rightarrow> ('a \<Rightarrow> 'b action) \<Rightarrow> 'b action" where
  "abind m f l = (case m l of (Inl e, l') \<Rightarrow> (Inl e, l') | (Inr x, l') \<Rightarrow> f x l')"

definition areturn :: "'a \<Rightarrow> 'a action" where "areturn x l = (Inr x, l)"

definition afail :: "pyerr \<Rightarrow> 'a action" where "afail e l = (Inl e, l)"

text \<open>A query, and a transaction, which is rolled back when it raises.\<close>

definition query :: "(ledger \<Rightarrow> 'a res) \<Rightarrow> 'a action" where "query f l = (f l, l)"

definition transact :: "(ledger \<Rightarrow> ('a \<times> ledger) res) \<Rightarrow> 'a action" where
  "transact f l = (case f l of Inl e \<Rightarrow> (Inl e, l) | Inr (x, l') \<Rightarrow> (Inr x, l'))"

definition pure_res :: "'a res \<Rightarrow> 'a action" where "pure_res r l = (r, l)"

text \<open>\<open>try\<close> with a handler for some errors; another error propagates.\<close>

definition acatch :: "'a action \<Rightarrow> (pyerr \<Rightarrow> bool) \<Rightarrow> (pyerr \<Rightarrow> 'a action) \<Rightarrow> 'a action" where
  "acatch m handles h l = (case m l of (Inl e, l') \<Rightarrow> if handles e then h e l' else (Inl e, l') | r \<Rightarrow> r)"

fun is_value_error :: "pyerr \<Rightarrow> bool" where
  "is_value_error (ValueError _) = True"
| "is_value_error (MeasurementAlreadyRecordedError _) = True"
| "is_value_error (OutcomeNotRecordedError _) = True"
| "is_value_error _ = False"

fun is_already_measured :: "pyerr \<Rightarrow> bool" where
  "is_already_measured (MeasurementAlreadyRecordedError _) = True"
| "is_already_measured _ = False"

fun error_name :: "pyerr \<Rightarrow> string" where
  "error_name (ValueError _) = ''ValueError''"
| "error_name (KeyError _) = ''KeyError''"
| "error_name (TypeError _) = ''TypeError''"
| "error_name (AssertionError _) = ''AssertionError''"
| "error_name (AttributeError _) = ''AttributeError''"
| "error_name (IndexError _) = ''IndexError''"
| "error_name ZeroDivisionError = ''ZeroDivisionError''"
| "error_name (OverflowError _) = ''OverflowError''"
| "error_name (MeasurementAlreadyRecordedError _) = ''MeasurementAlreadyRecordedError''"
| "error_name (OutcomeNotRecordedError _) = ''OutcomeNotRecordedError''"

section \<open>Recording an outcome\<close>

definition TERMINAL_STATUSES :: "string list" where
  "TERMINAL_STATUSES = map action_status_value [COMPLETED, SKIPPED, REJECTED]"

record outcome_recording =
  or_outcome_recorded :: bool
  or_context_materialized :: bool
  or_context_error :: "string option"

definition stamped :: "pyval dict option \<Rightarrow> string \<Rightarrow> pyval dict" where
  "stamped detail label_source =
     dict_set (case detail of None \<Rightarrow> [] | Some d \<Rightarrow> d) LABEL_SOURCE_KEY (VStr label_source)"

definition completion_allowed :: "pyval option \<Rightarrow> unit res" where
  "completion_allowed guardrails =
     (case guardrails of
        Some (VDict d) \<Rightarrow>
          if dict_get d ''pre_commit_decision'' VNone = VStr ''proceed'' then Inr ()
          else Inl (ValueError ''completed outcome requires latest pebra verify pre_commit_decision'')
      | _ \<Rightarrow> Inl (ValueError ''completed outcome requires a latest passing pebra verify result''))"

definition outcome_transaction ::
  "json_codec \<Rightarrow> string \<Rightarrow> string \<Rightarrow> string \<Rightarrow> pyval dict option \<Rightarrow> string \<Rightarrow> ledger \<Rightarrow> (unit \<times> ledger) res" where
  "outcome_transaction codec recorded_at assessment_id status detail label_source ledger =
     (if status \<notin> set TERMINAL_STATUSES then Inl (ValueError ''outcome status must be terminal'')
      else if label_source \<notin> {''host'', ''agent''} then Inl (ValueError ''label_source must be host or agent'')
      else
        rbind (validate_labels (Some (stamped detail label_source))) (\<lambda>_.
        rbind (if status = action_status_value COMPLETED
               then rbind (latest_guardrails codec assessment_id ledger) completion_allowed else Inr ()) (\<lambda>_.
        rbind (record_outcome_row codec recorded_at assessment_id status (stamped detail label_source) ledger)
          (\<lambda>ledger'. Inr ((), ledger')))))"

definition record_outcome ::
  "json_codec \<Rightarrow> string \<Rightarrow> (string \<Rightarrow> ledger \<Rightarrow> bool res) option \<Rightarrow> string \<Rightarrow> string \<Rightarrow> pyval dict option \<Rightarrow> string
    \<Rightarrow> outcome_recording action" where
  "record_outcome codec recorded_at materialize assessment_id status detail label_source =
     abind (transact (outcome_transaction codec recorded_at assessment_id status detail label_source)) (\<lambda>_ ledger.
       (Inr (case materialize of
          None \<Rightarrow> \<lparr>or_outcome_recorded = True, or_context_materialized = False, or_context_error = None\<rparr>
        | Some port \<Rightarrow>
            if status \<noteq> action_status_value COMPLETED
            then \<lparr>or_outcome_recorded = True, or_context_materialized = False, or_context_error = None\<rparr>
            else case port assessment_id ledger of
                   Inl e \<Rightarrow> \<lparr>or_outcome_recorded = True, or_context_materialized = False,
                             or_context_error = Some (error_name e)\<rparr>
                 | Inr entry \<Rightarrow> \<lparr>or_outcome_recorded = True, or_context_materialized = entry,
                                 or_context_error = None\<rparr>), ledger))"

section \<open>Measuring\<close>

text \<open>The detail of an assessment as the controllers read it: its content and its parsed guardrails.\<close>

record assessment_detail_view =
  dv_content :: "pyval dict"
  dv_guardrails :: "pyval dict list"

definition provenance_of :: "stored_prediction \<Rightarrow> string \<times> pyval dict" where
  "provenance_of p = (lp_target_name p, dict_or_empty (lp_provenance p))"

definition assessment_detail :: "json_codec \<Rightarrow> string \<Rightarrow> ledger \<Rightarrow> assessment_detail_view res" where
  "assessment_detail codec assessment_id ledger =
     rbind (row_id assessment_id) (\<lambda>i.
     rbind (load_assessment codec assessment_id ledger) (\<lambda>v.
     rbind (map_res (\<lambda>g. loads_dict codec (gw_guardrails_json g))
       (filter (\<lambda>g. gw_assessment_id g = i) (lg_guardrails ledger))) (\<lambda>guardrails.
     rbind (load_predictions codec assessment_id ledger) (\<lambda>predictions.
     rbind (summarize_prior_provenance (map provenance_of predictions)) (\<lambda>_.
     rbind (as_dict v) (\<lambda>content.
     rbind (case packet_of i (lg_packets ledger) of
              None \<Rightarrow> Inr VNone | Some p \<Rightarrow> js_loads codec (pk_packet_json p)) (\<lambda>_.
     rbind (load_outcomes codec assessment_id ledger) (\<lambda>_.
       Inr \<lparr>dv_content = content, dv_guardrails = guardrails\<rparr>))))))))"

text \<open>A measured number; the guardrails hold floats or null.\<close>

definition measured_number :: "pyval \<Rightarrow> pyfloat option res" where
  "measured_number v =
     (if v = VNone then Inr None
      else case number_float v of None \<Rightarrow> Inl (TypeError ''unsupported operand'') | Some x \<Rightarrow> Inr (Some x))"

fun measured_items :: "pyval dict \<Rightarrow> pyfloat dict res" where
  "measured_items [] = Inr []"
| "measured_items ((k, v) # rest) =
     rbind (measured_number v) (\<lambda>x. rbind (measured_items rest) (\<lambda>ys.
       Inr (case x of None \<Rightarrow> ys | Some y \<Rightarrow> (k, y) # ys)))"

definition benefit_measurements :: "pyval dict list \<Rightarrow> (pyfloat option \<times> pyfloat dict) res" where
  "benefit_measurements guardrails =
     (if guardrails = [] then Inr (None, [])
      else
        rbind (measured_number (dict_get (last guardrails) ''measured_benefit'' VNone)) (\<lambda>benefit.
        rbind (measured_items (dict_or_empty (dict_get (last guardrails) ''measured_benefit_deltas'' VNone))) (\<lambda>deltas.
          Inr (benefit, deltas))))"

record learning_measurement =
  lm_prediction_error_ids :: "string list"
  lm_snapshot_id :: string
  lm_observed :: int
  lm_censored :: int
  lm_proceeded :: bool

text \<open>The labels of a stored outcome; a detail that is true and no dictionary has no \<open>get\<close>.\<close>

definition labels_of :: "pyval \<Rightarrow> pyval dict res" where
  "labels_of detail =
     (if \<not> truthy detail then Inr []
      else rbind (as_dict detail) (\<lambda>d. Inr (extract_labels (Some d))))"

text \<open>The rows of a measurement and its repository.\<close>

definition measurement_rows :: "json_codec \<Rightarrow> string \<Rightarrow> ledger \<Rightarrow> (error_row list \<times> string \<times> bool) res" where
  "measurement_rows codec assessment_id ledger =
     rbind (load_predictions codec assessment_id ledger) (\<lambda>predictions.
       if predictions = [] then Inl (ValueError ''no prediction manifest captured'')
       else rbind (load_outcomes codec assessment_id ledger) (\<lambda>outcomes.
         if outcomes = [] then Inl (OutcomeNotRecordedError ''no terminal outcome recorded'')
         else rbind (prediction_errors_exist assessment_id ledger) (\<lambda>measured.
           if measured then Inl (ValueError ''has already been measured'')
           else
             rbind (labels_of (lo_detail (last outcomes))) (\<lambda>labels.
             rbind (assessment_detail codec assessment_id ledger) (\<lambda>detail.
             rbind (benefit_measurements (dv_guardrails detail)) (\<lambda>(benefit, deltas).
               let proceeded = (lo_terminal_status (last outcomes) = ''completed'')
               in rbind (build_error_rows (map loaded_prediction.truncate predictions) labels benefit deltas
                           (if proceeded then ''proceeded_edits_only'' else ''shadow'')
                           (if proceeded then 0 else 1)) (\<lambda>rows.
                    rbind (case dict_get (dv_content detail) ''repo_id'' (VStr []) of
                             VStr s \<Rightarrow> Inr s | _ \<Rightarrow> Inl (TypeError ''repo_id is not a string'')) (\<lambda>repo_id.
                      Inr (rows, repo_id, proceeded)))))))))"

definition measure_learning :: "json_codec \<Rightarrow> string \<Rightarrow> string \<Rightarrow> string \<Rightarrow> ledger \<Rightarrow> (learning_measurement \<times> ledger) res" where
  "measure_learning codec recorded_at created_at assessment_id ledger =
     rbind (measurement_rows codec assessment_id ledger) (\<lambda>(rows, repo_id, proceeded).
       let observed = int (length (filter (\<lambda>r. er_outcome_label_status r = ''observed'') rows));
           censored = int (length rows) - observed;
           metrics = [(''assessment_id'', VStr assessment_id), (''targets'', VInt (int (length rows))),
                      (''observed'', VInt observed), (''censored'', VInt censored)]
       in rbind (insert_learning_measurement codec recorded_at created_at assessment_id rows repo_id metrics
                   ''shadow'' ledger) (\<lambda>((error_ids, snapshot_id), ledger').
            Inr (\<lparr>lm_prediction_error_ids = error_ids, lm_snapshot_id = snapshot_id, lm_observed = observed,
                  lm_censored = censored, lm_proceeded = proceeded\<rparr>, ledger')))"

section \<open>Promoting\<close>

definition decode_active_fact :: "json_codec \<Rightarrow> active_fact \<Rightarrow> decoded_fact option res" where
  "decode_active_fact codec f =
     (case rbind (js_loads codec (av_fact_json f)) (\<lambda>v.
           rbind (case v of VDict d \<Rightarrow> item d ''value'' | _ \<Rightarrow> Inl (TypeError ''not subscriptable'')) (\<lambda>w.
           rbind (py_float w) (\<lambda>value.
           rbind (js_loads codec (av_scope_json f)) (\<lambda>scope. Inr (value, scope))))) of
        Inl e \<Rightarrow> if is_lookup_error e then Inr None else Inl e
      | Inr (value, scope) \<Rightarrow>
          Inr (Some \<lparr>df_value = value, df_target_name = av_target_name f, df_scope_kind = av_scope_kind f,
                     df_scope_value = av_scope_value f, df_scope_json = dict_or_empty scope\<rparr>))"

definition decode_active_facts :: "json_codec \<Rightarrow> active_snapshot option \<Rightarrow> decoded_fact list res" where
  "decode_active_facts codec snap =
     (case snap of
        None \<Rightarrow> Inr []
      | Some s \<Rightarrow> rbind (map_res (decode_active_fact codec) (as_facts s)) (\<lambda>fs.
          Inr (concat (map (\<lambda>f. case f of None \<Rightarrow> [] | Some x \<Rightarrow> [x]) fs))))"

record promotion_result =
  pr_repo_id :: string
  pr_promoted :: bool
  pr_snapshot_id :: "string option"
  pr_fact_ids :: "string list"
  pr_facts_considered :: int
  pr_facts_promoted :: int
  pr_facts_vetoed :: int
  pr_veto_reasons :: "string list"
  pr_drift_score :: "pyfloat option"
  pr_frozen_due_to_drift :: bool

definition fact_dict :: "learned_fact \<Rightarrow> pyval dict" where
  "fact_dict f =
     [(''target_type'', VStr (lf_target_type f)), (''target_name'', VStr (lf_target_name f)),
      (''scope_kind'', VStr (lf_scope_kind f)), (''scope_value'', VStr (lf_scope_value f)),
      (''specificity_rank'', VInt (lf_specificity_rank f)), (''scope_json'', VDict (lf_scope_json f)),
      (''fact_json'', VDict (lf_fact_json f)), (''fact_type'', VStr (lf_fact_type f)),
      (''status'', VStr (lf_status f)),
      (''requires_human_ratification'', VBool (lf_requires_human_ratification f))]"

text \<open>The compact spelling of a list of dictionaries.\<close>

fun comma_texts :: "string list \<Rightarrow> string" where
  "comma_texts [] = []"
| "comma_texts [t] = t"
| "comma_texts (t # ts) = t @ '','' @ comma_texts ts"

definition facts_fingerprint :: "json_codec \<Rightarrow> learned_fact list \<Rightarrow> string" where
  "facts_fingerprint codec fs = sha256_hex (''['' @ comma_texts (map (js_compact codec \<circ> fact_dict) fs) @ '']'')"

definition no_promotion :: "string \<Rightarrow> int \<Rightarrow> int \<Rightarrow> string list \<Rightarrow> pyfloat option \<Rightarrow> bool \<Rightarrow> promotion_result" where
  "no_promotion repo_id considered vetoed reasons drift_score is_frozen =
     \<lparr>pr_repo_id = repo_id, pr_promoted = False, pr_snapshot_id = None, pr_fact_ids = [],
      pr_facts_considered = considered, pr_facts_promoted = 0, pr_facts_vetoed = vetoed,
      pr_veto_reasons = reasons, pr_drift_score = drift_score, pr_frozen_due_to_drift = is_frozen\<rparr>"

definition snapshot_metrics_of ::
  "json_codec \<Rightarrow> string \<Rightarrow> learned_fact list \<Rightarrow> string \<Rightarrow> pyfloat option \<Rightarrow> pyval dict \<Rightarrow> string option \<Rightarrow> pyval dict" where
  "snapshot_metrics_of codec repo_id fs promotion_reason drift_score metrics_extra trigger_key =
     dict_merge
       ([(''promotion_reason'', VStr promotion_reason), (''repo_id'', VStr repo_id),
         (''facts_promoted'', VInt (int (length fs))),
         (''target_names'', vstrs (sorted_set (map lf_target_name fs))), (''hash_version'', VInt 2),
         (''facts_fingerprint'', VStr (facts_fingerprint codec fs))]
        @ (case trigger_key of None \<Rightarrow> [] | Some k \<Rightarrow> [(''trigger_key'', VStr k)])
        @ (case drift_score of None \<Rightarrow> [] | Some d \<Rightarrow> [(''drift_score'', VFloat d)]))
       metrics_extra"

definition finish_promotion ::
  "json_codec \<Rightarrow> string \<Rightarrow> string \<Rightarrow> learned_fact list \<times> string list \<times> int \<Rightarrow> string \<Rightarrow> pyfloat option
    \<Rightarrow> pyval dict \<Rightarrow> string option \<Rightarrow> ledger \<Rightarrow> (promotion_result \<times> ledger) res" where
  "finish_promotion codec created_at repo_id collected promotion_reason drift_score metrics_extra trigger_key ledger =
     (let (fs, vetoes, considered) = collected
      in if fs = []
         then Inr (no_promotion repo_id considered (int (length vetoes))
                     (if vetoes = [] then [''NO_CALIBRATION_ROWS''] else vetoes) drift_score False, ledger)
         else rbind (insert_learned_fact_batch_with_snapshot codec created_at repo_id
                       (snapshot_metrics_of codec repo_id fs promotion_reason drift_score metrics_extra trigger_key)
                       fs ''active'' ledger) (\<lambda>((snapshot_id, fact_ids), ledger').
                Inr (\<lparr>pr_repo_id = repo_id, pr_promoted = True, pr_snapshot_id = Some snapshot_id,
                      pr_fact_ids = fact_ids, pr_facts_considered = considered,
                      pr_facts_promoted = int (length fs), pr_facts_vetoed = int (length vetoes),
                      pr_veto_reasons = vetoes, pr_drift_score = drift_score, pr_frozen_due_to_drift = False\<rparr>, ledger')))"

definition collect_from ::
  "json_codec \<Rightarrow> promotion_method \<Rightarrow> promotion_config \<Rightarrow> string \<Rightarrow> string \<Rightarrow> ledger
    \<Rightarrow> (learned_fact list \<times> string list \<times> int) res" where
  "collect_from codec mt config repo_id target_type ledger =
     rbind (load_production_calibration_rows codec (Some repo_id) target_type ledger) (collect_facts mt config)"

text \<open>Risk promotion; a drift threshold is only consulted when there is something to promote.\<close>

definition run_promotion ::
  "json_codec \<Rightarrow> string \<Rightarrow> string \<Rightarrow> promotion_config \<Rightarrow> string option \<Rightarrow> ledger \<Rightarrow> (promotion_result \<times> ledger) res" where
  "run_promotion codec created_at repo_id config trigger_key ledger =
     rbind (load_production_calibration_rows codec (Some repo_id) RISK_BINARY ledger) (\<lambda>all_rows.
     rbind (collect_facts binary_method config all_rows) (\<lambda>collected.
     rbind (case cf_drift_freeze_threshold config of
              None \<Rightarrow> Inr None
            | Some threshold \<Rightarrow>
                if fst collected = [] then Inr None
                else rbind (read_active_snapshot_rows codec repo_id ledger) (\<lambda>snap.
                     rbind (decode_active_facts codec snap) (\<lambda>active.
                     rbind (compute_drift active all_rows) (\<lambda>drift_score.
                       Inr (Some (drift_score, should_freeze drift_score threshold)))))) (\<lambda>drift_score.
       let finish = (\<lambda>score. finish_promotion codec created_at repo_id collected ''M5d_auto_promotion'' score
             [(''event_concern_budget'', vreal (cf_event_concern_budget config))] trigger_key ledger)
       in case drift_score of
            None \<Rightarrow> finish None
          | Some (score, is_frozen) \<Rightarrow>
              if is_frozen
              then Inr (no_promotion repo_id (snd (snd collected)) 0 [''DRIFT_FREEZE''] (Some score) True, ledger)
              else finish (Some score))))"

definition run_benefit_promotion ::
  "json_codec \<Rightarrow> string \<Rightarrow> string \<Rightarrow> promotion_config \<Rightarrow> string option \<Rightarrow> ledger \<Rightarrow> (promotion_result \<times> ledger) res" where
  "run_benefit_promotion codec created_at repo_id config trigger_key ledger =
     rbind (collect_from codec binary_method config repo_id BENEFIT_BINARY ledger) (\<lambda>(fb, vb, cb).
     rbind (collect_from codec continuous_method config repo_id BENEFIT_CONTINUOUS ledger) (\<lambda>(fc, vc, cc).
       finish_promotion codec created_at repo_id (fb @ fc, vb @ vc, cb + cc) ''M5d_benefit_promotion'' None []
         trigger_key ledger))"

definition run_review_cost_promotion ::
  "json_codec \<Rightarrow> string \<Rightarrow> string \<Rightarrow> promotion_config \<Rightarrow> string option \<Rightarrow> ledger \<Rightarrow> (promotion_result \<times> ledger) res" where
  "run_review_cost_promotion codec created_at repo_id config trigger_key ledger =
     rbind (collect_from codec continuous_method config repo_id COST_CONTINUOUS ledger) (\<lambda>collected.
       finish_promotion codec created_at repo_id collected ''M5d_review_cost_promotion'' None [] trigger_key ledger)"

section \<open>Finalizing\<close>

record finalization_outcome =
  fz_assessment_id :: string
  fz_outcome_recorded :: bool
  fz_context_materialized :: bool
  fz_context_error :: "string option"
  fz_measurement_recorded :: bool
  fz_observed :: "int option"
  fz_censored :: "int option"
  fz_promotions :: "promotion_result dict"

text \<open>A stored detail is a dictionary; an outcome without a stamp counts as the host's.\<close>

definition matching_recorded_outcome ::
  "json_codec \<Rightarrow> string \<Rightarrow> string \<Rightarrow> pyval dict \<Rightarrow> ledger \<Rightarrow> bool res" where
  "matching_recorded_outcome codec assessment_id status expected_detail ledger =
     rbind (load_outcomes codec assessment_id ledger) (\<lambda>outcomes.
       if outcomes = [] then Inr False
       else
         let newest = last outcomes;
             recorded = dict_or_empty (lo_detail newest);
             stamped_detail = (if dict_has recorded LABEL_SOURCE_KEY then recorded
               else recorded @ [(LABEL_SOURCE_KEY, VStr ''host'')])
         in if lo_terminal_status newest \<noteq> status \<or> \<not> py_eq (VDict stamped_detail) (VDict expected_detail)
            then Inl (ValueError ''finalization retry conflicts with recorded outcome'')
            else Inr True)"

definition no_recording :: outcome_recording where
  "no_recording = \<lparr>or_outcome_recorded = False, or_context_materialized = False, or_context_error = None\<rparr>"

definition ensure_outcome ::
  "json_codec \<Rightarrow> (nat \<Rightarrow> string) \<Rightarrow> (string \<Rightarrow> ledger \<Rightarrow> bool res) \<Rightarrow> string \<Rightarrow> string \<Rightarrow> pyval dict option
    \<Rightarrow> outcome_recording action" where
  "ensure_outcome codec clock materialize assessment_id status detail =
     abind (query (load_outcomes codec assessment_id)) (\<lambda>outcomes.
       if outcomes \<noteq> []
       then abind (query (matching_recorded_outcome codec assessment_id status (stamped detail ''host''))) (\<lambda>_.
              areturn no_recording)
       else acatch (record_outcome codec (clock 0) (Some materialize) assessment_id status detail ''host'')
              is_value_error
              (\<lambda>e. abind (query (matching_recorded_outcome codec assessment_id status (stamped detail ''host''))) (\<lambda>same.
                 if same then areturn no_recording else afail e)))"

definition ensure_measurement ::
  "json_codec \<Rightarrow> (nat \<Rightarrow> string) \<Rightarrow> string \<Rightarrow> learning_measurement option action" where
  "ensure_measurement codec clock assessment_id =
     abind (query (prediction_errors_exist assessment_id)) (\<lambda>measured.
       if measured then areturn None
       else acatch (abind (transact (measure_learning codec (clock 1) (clock 2) assessment_id)) (\<lambda>m. areturn (Some m)))
              is_already_measured (\<lambda>_. areturn None))"

definition repo_of :: "json_codec \<Rightarrow> string \<Rightarrow> ledger \<Rightarrow> string res" where
  "repo_of codec assessment_id ledger =
     rbind (assessment_detail codec assessment_id ledger) (\<lambda>detail.
       case dict_get (dv_content detail) ''repo_id'' (VStr []) of
         VStr s \<Rightarrow> Inr s | _ \<Rightarrow> Inl (TypeError ''repo_id is not a string''))"

definition trigger :: "string \<Rightarrow> string \<Rightarrow> string option" where
  "trigger assessment_id family = Some (''finalize:'' @ assessment_id @ '':'' @ family)"

definition finalize_outcome ::
  "json_codec \<Rightarrow> (nat \<Rightarrow> string) \<Rightarrow> (string \<Rightarrow> ledger \<Rightarrow> bool res) \<Rightarrow> promotion_config option \<Rightarrow> string \<Rightarrow> string
    \<Rightarrow> pyval dict option \<Rightarrow> finalization_outcome action" where
  "finalize_outcome codec clock materialize promotion_config assessment_id status detail =
     (let config = (case promotion_config of None \<Rightarrow> default_promotion_config | Some c \<Rightarrow> c)
      in abind (ensure_outcome codec clock materialize assessment_id status detail) (\<lambda>recording.
         abind (ensure_measurement codec clock assessment_id) (\<lambda>measurement.
         abind (query (repo_of codec assessment_id)) (\<lambda>repo_id.
         abind (transact (run_promotion codec (clock 3) repo_id config (trigger assessment_id ''risk''))) (\<lambda>risk.
         abind (transact (run_benefit_promotion codec (clock 4) repo_id config (trigger assessment_id ''benefit''))) (\<lambda>benefit.
         abind (transact (run_review_cost_promotion codec (clock 5) repo_id config (trigger assessment_id ''review_cost'')))
           (\<lambda>review_cost.
             areturn \<lparr>fz_assessment_id = assessment_id, fz_outcome_recorded = or_outcome_recorded recording,
               fz_context_materialized = or_context_materialized recording,
               fz_context_error = or_context_error recording,
               fz_measurement_recorded = (measurement \<noteq> None),
               fz_observed = map_option lm_observed measurement,
               fz_censored = map_option lm_censored measurement,
               fz_promotions = [(''risk'', risk), (''benefit'', benefit), (''review_cost'', review_cost)]\<rparr>)))))))"

section \<open>The scorecards\<close>

definition load_prediction_errors :: "string option \<Rightarrow> ledger \<Rightarrow> error_row list" where
  "load_prediction_errors repo_id ledger =
     concat (map (\<lambda>e. map (\<lambda>_. pe_row e)
       (filter (\<lambda>a. aw_id a = pe_assessment_id e \<and> (case repo_id of None \<Rightarrow> True | Some r \<Rightarrow> aw_repo_id a = r))
         (lg_assessments ledger))) (lg_errors ledger))"

definition calibration_data :: "string \<Rightarrow> ledger \<Rightarrow> error_summary res" where
  "calibration_data repo_id ledger = summarize_errors (load_prediction_errors (Some repo_id) ledger)"

text \<open>The trusted subset: the rows of the four views.\<close>

definition production_calibration_data :: "json_codec \<Rightarrow> string \<Rightarrow> ledger \<Rightarrow> error_summary res" where
  "production_calibration_data codec repo_id ledger =
     rbind (map_res (\<lambda>t. rbind (load_production_calibration_rows codec (Some repo_id) t ledger) (\<lambda>_.
                Inr (map (pe_row \<circ> snd) (production_errors (Some repo_id) t ledger))))
              [RISK_BINARY, BENEFIT_BINARY, BENEFIT_CONTINUOUS, COST_CONTINUOUS]) (\<lambda>rows.
       summarize_errors (concat rows))"

end
