(* ===== verification/Pebra_Learning_Integrity.thy ===== *)
theory Pebra_Learning_Integrity
  imports Pebra_Learning_Runs
begin

text \<open>
  What the learning loop guarantees in every run. \<open>ledger_step\<close> is one transaction of the program on the
  ledger: persisting an assessment, verifying an edit, creating, claiming or revoking a sanction,
  recording an outcome, measuring, promoting. The
  invariants are proved by rule induction over the ledgers that are reachable from the empty one.
\<close>

section \<open>Runs\<close>

definition stored_dict :: "json_codec \<Rightarrow> string \<Rightarrow> pyval dict" where
  "stored_dict codec s = (case js_loads codec s of Inr (VDict d) \<Rightarrow> d | _ \<Rightarrow> [])"

definition verify_part :: "ledger \<Rightarrow> verify_ledger" where
  "verify_part l = \<lparr>vl_sanctions = lg_sanctions l, vl_guardrails = lg_guardrails l\<rparr>"

inductive ledger_step :: "json_codec \<Rightarrow> ledger \<Rightarrow> ledger \<Rightarrow> bool" for codec where
  persists: "persist_assessment codec t result request predictions l = Inr (aid, l') \<Longrightarrow> ledger_step codec l l'"
| verifies: "verify (js_compact codec) (stored_dict codec) wording t
      (\<lambda>a. rbind (load_assessment codec a l) as_dict) aid completed preview actual contract_changes (verify_part l)
      = Inr (out, v) \<Longrightarrow>
    ledger_step codec l (l\<lparr>lg_sanctions := vl_sanctions v, lg_guardrails := vl_guardrails v\<rparr>)"
| sanctions: "sanction_step (js_plain codec) (stored_dict codec) (lg_sanctions l) event rows \<Longrightarrow>
    ledger_step codec l (l\<lparr>lg_sanctions := rows\<rparr>)"
| records: "outcome_transaction codec t aid status detail label_source l = Inr ((), l') \<Longrightarrow> ledger_step codec l l'"
| measures: "measure_learning codec t t' aid l = Inr (m, l') \<Longrightarrow> ledger_step codec l l'"
| promotes_risk: "run_promotion codec t repo_id config trigger_key l = Inr (p, l') \<Longrightarrow> ledger_step codec l l'"
| promotes_benefit: "run_benefit_promotion codec t repo_id config trigger_key l = Inr (p, l') \<Longrightarrow> ledger_step codec l l'"
| promotes_cost: "run_review_cost_promotion codec t repo_id config trigger_key l = Inr (p, l') \<Longrightarrow> ledger_step codec l l'"

inductive reachable :: "json_codec \<Rightarrow> ledger \<Rightarrow> bool" for codec where
  initial: "reachable codec empty_ledger"
| further: "reachable codec l \<Longrightarrow> ledger_step codec l l' \<Longrightarrow> reachable codec l'"

inductive_cases ledger_stepE: "ledger_step codec l l'"

section \<open>What each transaction adds\<close>

lemma verify_adds:
  assumes "verify dumps loads wording t load aid completed preview actual contract_changes vl = Inr (out, v)"
  shows "\<exists>i g. row_id aid = Inr i \<and> vl_guardrails v = vl_guardrails vl @ [g] \<and> gw_assessment_id g = i
    \<and> is_ok (load aid)"
proof -
  obtain stored where "load aid = Inr stored"
    using assms by (auto simp: verify_def rbind_Inr_iff)
  moreover have "\<exists>origin result. record_verification dumps wording t aid origin actual result vl = Inr (out, v)"
    using assms by (auto simp: verify_def rbind_Inr_iff split: prod.splits)
  then obtain origin result where "record_verification dumps wording t aid origin actual result vl = Inr (out, v)"
    by blast
  then have "\<exists>i g. row_id aid = Inr i \<and> vl_guardrails v = vl_guardrails vl @ [g] \<and> gw_assessment_id g = i"
    by (auto simp: record_verification_def persist_guardrails_def rbind_Inr_iff Let_def split: prod.splits if_splits)
  ultimately show ?thesis by auto
qed

lemma load_assessment_exists:
  "is_ok (rbind (load_assessment codec aid l) f) \<Longrightarrow> row_id aid = Inr i \<Longrightarrow> referenced l i"
  by (auto simp: load_assessment_def referenced_def is_ok_rbind find_Some_iff split: option.splits)

lemma record_outcome_row_adds:
  assumes "record_outcome_row codec t aid status detail l = Inr l'"
  obtains i o' where "row_id aid = Inr i" "referenced l i" "i \<notin> oc_assessment_id ` set (lg_outcomes l)"
    "l' = l\<lparr>lg_outcomes := lg_outcomes l @ [o']\<rparr>" "oc_assessment_id o' = i" "oc_terminal_status o' = status"
    "oc_detail_json o' = js_compact codec detail" "oc_hash_version o' = 2"
    "oc_prev_hash o' = chain_last oc_row_hash (lg_outcomes l)"
    "oc_row_hash o' = row_hash (oc_prev_hash o')
       (outcome_canonical codec i status (VDict detail) (oc_recorded_at o') (oc_guidance_packet_id o') 2)"
proof -
  obtain i g where i: "row_id aid = Inr i" "guidance_packet_id_for_assessment aid l = Inr g"
    using assms by (auto simp: record_outcome_row_def rbind_Inr_iff)
  with assms have "referenced l i" "\<not> has_outcome i l"
    by (auto simp: record_outcome_row_def Let_def assessment_exists_iff split: if_splits)
  moreover from this(2) have "i \<notin> oc_assessment_id ` set (lg_outcomes l)"
    by (auto simp: has_outcome_def list_ex_iff)
  ultimately show ?thesis
    using assms i
    by (intro that [of i "\<lparr>oc_id = next_id oc_id (lg_outcomes l), oc_assessment_id = i,
              oc_guidance_packet_id = g, oc_hash_version = 2, oc_terminal_status = status,
              oc_detail_json = js_compact codec detail, oc_recorded_at = t,
              oc_prev_hash = chain_last oc_row_hash (lg_outcomes l),
              oc_row_hash = row_hash (chain_last oc_row_hash (lg_outcomes l))
                (outcome_canonical codec i status (VDict detail) t g 2)\<rparr>"])
      (auto simp: record_outcome_row_def Let_def assessment_exists_iff last_outcome_hash_def)
qed

lemma outcome_transaction_cases:
  assumes "outcome_transaction codec t aid status detail label_source l = Inr ((), l')"
  obtains "status \<in> set TERMINAL_STATUSES" "label_source \<in> {''host'', ''agent''}"
    "validate_labels (Some (stamped detail label_source)) = Inr ()"
    "status = ''completed'' \<Longrightarrow> \<exists>d. latest_guardrails codec aid l = Inr (Some (VDict d))
       \<and> dict_get d ''pre_commit_decision'' VNone = VStr ''proceed''"
    "record_outcome_row codec t aid status (stamped detail label_source) l = Inr l'"
proof -
  have "\<exists>d. latest_guardrails codec aid l = Inr (Some (VDict d))
      \<and> dict_get d ''pre_commit_decision'' VNone = VStr ''proceed''" if closing: "status = ''completed''"
  proof -
    obtain g where g: "latest_guardrails codec aid l = Inr g" "completion_allowed g = Inr ()"
      using assms closing by (auto simp: outcome_transaction_def rbind_Inr_iff split: if_splits)
    obtain d where "g = Some (VDict d)"
      using g(2) by (cases g; cases "the g") (auto simp: completion_allowed_def)
    with g show ?thesis by (auto simp: completion_allowed_def split: if_splits)
  qed
  with assms show ?thesis
    by (intro that) (auto simp: outcome_transaction_def rbind_Inr_iff split: if_splits)
qed

lemma latest_guardrails_in:
  assumes "latest_guardrails codec aid l = Inr (Some v)" and "row_id aid = Inr i"
  shows "\<exists>g \<in> set (lg_guardrails l). gw_assessment_id g = i \<and> js_loads codec (gw_guardrails_json g) = Inr v"
  using assms
  by (auto simp: latest_guardrails_def latest_def rbind_Inr_iff find_Some_iff split: if_splits option.splits)
    (metis length_rev nth_mem set_rev)

text \<open>A measurement appends one row per prediction and one shadow snapshot.\<close>

lemma insert_prediction_errors_append:
  "\<exists>added. snd (insert_prediction_errors codec i t rows table) = table @ added
     \<and> map pe_row added = map stored_columns rows \<and> (\<forall>e \<in> set added. pe_assessment_id e = i)"
proof (induction rows arbitrary: table)
  case (Cons row rows)
  obtain e where e: "insert_prediction_error_for_row_id codec i t row table = table @ [e]"
      "pe_row e = stored_columns row" "pe_assessment_id e = i"
    by (auto simp: insert_prediction_error_for_row_id_def Let_def)
  obtain added where "snd (insert_prediction_errors codec i t rows (table @ [e])) = (table @ [e]) @ added"
      "map pe_row added = map stored_columns rows" "\<forall>e \<in> set added. pe_assessment_id e = i"
    using Cons.IH by blast
  with e show ?case by (intro exI [of _ "e # added"]) (simp add: case_prod_unfold Let_def)
qed simp

lemma stored_columns_fields [simp]:
  "er_target_type (stored_columns r) = er_target_type r" "er_target_name (stored_columns r) = er_target_name r"
  "er_shadow_mode (stored_columns r) = er_shadow_mode r"
  "er_outcome_label_status (stored_columns r) = er_outcome_label_status r"
  "er_calibration_scope (stored_columns r) = er_calibration_scope r"
  by (simp_all add: stored_columns_def)

definition target_of :: "error_row \<Rightarrow> string \<times> string" where
  "target_of r = (er_target_type r, er_target_name r)"

lemma target_of_stored [simp]: "target_of (stored_columns r) = target_of r"
  by (simp add: target_of_def)

definition prediction_target_of :: "prediction_row \<Rightarrow> string \<times> string" where
  "prediction_target_of r = (ap_target_type r, ap_target_name r)"

lemma build_error_rows_targets:
  assumes "build_error_rows preds labels mb md scope sm = Inr rows"
  shows "map target_of rows = map (\<lambda>p. (lp_target_type p, lp_target_name p)) preds
    \<and> (\<forall>r \<in> set rows. er_shadow_mode r = sm \<and> er_calibration_scope r = scope)"
  using assms unfolding build_error_rows_def map_res_Inr_iff
proof (induction preds rows rule: list_all2_induct)
  case (Cons p ps r rs)
  with error_row_of_typed [OF Cons.hyps(1)] show ?case by (auto simp: row_of_prediction_def target_of_def)
qed simp

lemma read_prediction_fields:
  "read_prediction codec r = Inr p \<Longrightarrow>
   (lp_target_type (loaded_prediction.truncate p), lp_target_name (loaded_prediction.truncate p))
     = prediction_target_of r"
  by (auto simp: read_prediction_def rbind_Inr_iff prediction_target_of_def loaded_prediction.truncate_def)

lemma load_predictions_targets:
  assumes "load_predictions codec aid l = Inr ps" and "row_id aid = Inr i"
  shows "map (\<lambda>p. (lp_target_type p, lp_target_name p)) (map loaded_prediction.truncate ps)
    = map prediction_target_of (predictions_of i l)"
proof -
  have "list_all2 (\<lambda>r p. read_prediction codec r = Inr p) (predictions_of i l) ps"
    using assms by (simp add: load_predictions_def map_res_Inr_iff)
  then show ?thesis
    by (induction rule: list_all2_induct) (simp_all add: read_prediction_fields)
qed

text \<open>A row that only a label can settle is censored without labels.\<close>

definition label_target :: "error_row \<Rightarrow> bool" where
  "label_target r = (binary_type (er_target_type r) \<or> er_target_name r = ''review_cost'')"

lemma unlabelled_censored:
  assumes "error_row_of [] mb md scope sm pred = Inr r" and "label_target r"
  shows "er_outcome_label_status r = ''censored''"
proof (cases "lp_target_type pred \<in> {RISK_BINARY, BENEFIT_BINARY}")
  case True
  have "binary_actual pred [] = Inr None" by (simp add: binary_actual_def risk_actual_def)
  with True assms(1) have "r = (censored_row pred scope sm)\<lparr>er_predicted_probability := lp_predicted_value pred\<rparr>"
    by (simp add: error_row_of_def Let_def)
  then show ?thesis by (simp add: censored_row_def)
next
  case False
  have "row_of_prediction pred scope sm r" using error_row_of_typed [OF assms(1)] by simp
  with False assms(2) have "lp_target_name pred = ''review_cost''"
    by (auto simp: label_target_def binary_type_def row_of_prediction_def)
  then have "continuous_actual (lp_target_name pred) [] mb md = None" by (simp add: continuous_actual_def)
  with False assms(1) show ?thesis
    by (auto simp: error_row_of_def Let_def censored_row_def split: if_splits)
qed

lemma map_res_mem: "map_res f xs = Inr ys \<Longrightarrow> y \<in> set ys \<Longrightarrow> \<exists>x \<in> set xs. f x = Inr y"
  unfolding map_res_Inr_iff by (induction rule: list_all2_induct) auto

lemma list_all2_last: "list_all2 P xs ys \<Longrightarrow> xs \<noteq> [] \<Longrightarrow> P (last xs) (last ys)"
  by (induction rule: list_all2_induct) auto

lemma labels_host_or_none:
  assumes "labels_of detail = Inr labels"
  shows "labels = [] \<or> (\<exists>d. detail = VDict d \<and> dict_get d LABEL_SOURCE_KEY VNone = VStr ''host'')"
proof (cases "truthy detail")
  case True
  then obtain d where "detail = VDict d" "labels = extract_labels (Some d)"
    using assms by (cases detail) (auto simp: labels_of_def as_dict_def)
  then show ?thesis using extract_labels_agent by blast
qed (use assms in \<open>simp add: labels_of_def\<close>)

lemma measurement_rows_cases:
  assumes "measurement_rows codec aid l = Inr (rows, repo_id, proceeded)"
  obtains i ps o' labels mb md where "row_id aid = Inr i" "load_predictions codec aid l = Inr ps"
    "o' \<in> set (lg_outcomes l)" "oc_assessment_id o' = i" "errors_of i l = []"
    "rbind (js_loads codec (oc_detail_json o')) labels_of = Inr labels"
    "build_error_rows (map loaded_prediction.truncate ps) labels mb md
       (if oc_terminal_status o' = ''completed'' then ''proceeded_edits_only'' else ''shadow'')
       (if oc_terminal_status o' = ''completed'' then 0 else 1) = Inr rows"
proof -
  obtain ps os labels detail mb md where m: "load_predictions codec aid l = Inr ps"
    "load_outcomes codec aid l = Inr os" "os \<noteq> []" "prediction_errors_exist aid l = Inr False"
    "labels_of (lo_detail (last os)) = Inr labels"
    "build_error_rows (map loaded_prediction.truncate ps) labels mb md
       (if lo_terminal_status (last os) = ''completed'' then ''proceeded_edits_only'' else ''shadow'')
       (if lo_terminal_status (last os) = ''completed'' then 0 else 1) = Inr rows"
    using assms
    by (auto simp: measurement_rows_def rbind_Inr_iff Let_def split: prod.splits if_splits)
  obtain i where i: "row_id aid = Inr i" using m(1) by (auto simp: load_predictions_def rbind_Inr_iff)
  have all: "list_all2 (\<lambda>o' x. rbind (js_loads codec (oc_detail_json o')) (\<lambda>detail.
      Inr \<lparr>lo_terminal_status = oc_terminal_status o', lo_detail = detail, lo_recorded_at = oc_recorded_at o'\<rparr>) = Inr x)
      (outcomes_of_assessment i l) os"
    using m(2) i by (simp add: load_outcomes_def map_res_Inr_iff)
  define o' where "o' = last (outcomes_of_assessment i l)"
  have ne: "outcomes_of_assessment i l \<noteq> []" using all m(3) by auto
  then have "o' \<in> set (outcomes_of_assessment i l)" by (simp add: o'_def)
  then have "o' \<in> set (lg_outcomes l)" "oc_assessment_id o' = i" by (simp_all add: outcomes_of_assessment_def)
  moreover have "errors_of i l = []" using m(4) i by (simp add: prediction_errors_exist_def)
  moreover obtain x where x: "js_loads codec (oc_detail_json o') = Inr x"
      "\<lparr>lo_terminal_status = oc_terminal_status o', lo_detail = x, lo_recorded_at = oc_recorded_at o'\<rparr> = last os"
    using list_all2_last [OF all ne] by (auto simp: o'_def rbind_Inr_iff)
  then have "js_loads codec (oc_detail_json o') = Inr (lo_detail (last os))"
    "lo_terminal_status (last os) = oc_terminal_status o'"
    by (simp_all add: x(2) [symmetric])
  ultimately show ?thesis using that i m(1,5,6) by simp
qed

lemma measure_learning_cases:
  assumes "measure_learning codec t t' aid l = Inr (m, l')"
  obtains i o' detail rows added s where "row_id aid = Inr i" "referenced l i" "errors_of i l = []"
    "o' \<in> set (lg_outcomes l)" "oc_assessment_id o' = i" "js_loads codec (oc_detail_json o') = Inr detail"
    "map target_of rows = map prediction_target_of (predictions_of i l)"
    "\<forall>r \<in> set rows. er_shadow_mode r = (if oc_terminal_status o' = ''completed'' then 0 else 1)
       \<and> er_calibration_scope r = (if oc_terminal_status o' = ''completed'' then ''proceeded_edits_only'' else ''shadow'')"
    "\<forall>r \<in> set rows. label_target r \<longrightarrow> er_outcome_label_status r = ''observed'' \<longrightarrow>
       (\<exists>d. detail = VDict d \<and> dict_get d LABEL_SOURCE_KEY VNone = VStr ''host'')"
    "map pe_row added = map stored_columns rows" "\<forall>e \<in> set added. pe_assessment_id e = i"
    "l' = l\<lparr>lg_errors := lg_errors l @ added, lg_snapshots := lg_snapshots l @ [s]\<rparr>"
proof -
  obtain rows repo_id proceeded metrics ids where
    rows: "measurement_rows codec aid l = Inr (rows, repo_id, proceeded)"
    and ins: "insert_learning_measurement codec t t' aid rows repo_id metrics ''shadow'' l = Inr (ids, l')"
    using assms by (auto simp: measure_learning_def rbind_Inr_iff Let_def split: prod.splits)
  obtain i ps o' labels mb md where r: "row_id aid = Inr i" "load_predictions codec aid l = Inr ps"
    "o' \<in> set (lg_outcomes l)" "oc_assessment_id o' = i" "errors_of i l = []"
    "rbind (js_loads codec (oc_detail_json o')) labels_of = Inr labels"
    "build_error_rows (map loaded_prediction.truncate ps) labels mb md
       (if oc_terminal_status o' = ''completed'' then ''proceeded_edits_only'' else ''shadow'')
       (if oc_terminal_status o' = ''completed'' then 0 else 1) = Inr rows"
    by (rule measurement_rows_cases [OF rows])
  obtain detail where detail: "js_loads codec (oc_detail_json o') = Inr detail" "labels_of detail = Inr labels"
    using r(6) by (auto simp: rbind_Inr_iff)
  have targets: "map target_of rows = map prediction_target_of (predictions_of i l)"
    using build_error_rows_targets [OF r(7)] load_predictions_targets [OF r(2,1)] by simp
  have hosted: "\<exists>d. detail = VDict d \<and> dict_get d LABEL_SOURCE_KEY VNone = VStr ''host''"
    if mem: "row \<in> set rows" and target: "label_target row" and seen: "er_outcome_label_status row = ''observed''" for row
  proof (rule ccontr)
    assume "\<not> ?thesis"
    then have "labels = []" using labels_host_or_none [OF detail(2)] by blast
    then obtain pred scope sm where "error_row_of [] mb md scope sm pred = Inr row"
      using map_res_mem [OF r(7) [unfolded build_error_rows_def] mem] by blast
    from unlabelled_censored [OF this target] seen show False by simp
  qed
  obtain added where added: "snd (insert_prediction_errors codec i t rows (lg_errors l)) = lg_errors l @ added"
      "map pe_row added = map stored_columns rows" "\<forall>e \<in> set added. pe_assessment_id e = i"
    using insert_prediction_errors_append by blast
  have "referenced l i" "\<exists>s. l' = l\<lparr>lg_errors := lg_errors l @ added, lg_snapshots := lg_snapshots l @ [s]\<rparr>"
    using ins r(1) added(1)
    by (auto simp: insert_learning_measurement_def insert_risk_snapshot_def Let_def assessment_exists_iff
        split: if_splits prod.splits)
  then obtain s where s: "referenced l i" "l' = l\<lparr>lg_errors := lg_errors l @ added, lg_snapshots := lg_snapshots l @ [s]\<rparr>"
    by blast
  show ?thesis
    by (rule that [OF r(1) s(1) r(5,3,4) detail(1) targets _ _ added(2,3) s(2)])
      (use build_error_rows_targets [OF r(7)] hosted in auto)
qed

text \<open>A promotion appends snapshots and facts and touches nothing else.\<close>

definition extends_learning :: "ledger \<Rightarrow> ledger \<Rightarrow> bool" where
  "extends_learning l l' =
     (\<exists>s f. l' = l\<lparr>lg_snapshots := lg_snapshots l @ s, lg_facts := lg_facts l @ f\<rparr>)"

lemma extends_learningE:
  assumes "extends_learning l l'"
  obtains s f where "l' = l\<lparr>lg_snapshots := lg_snapshots l @ s, lg_facts := lg_facts l @ f\<rparr>"
  using assms unfolding extends_learning_def by blast

lemma extends_learning_refl [simp]: "extends_learning l l"
  unfolding extends_learning_def by (intro exI [of _ "[]"]) simp

lemma insert_learned_facts_append:
  "\<exists>added. snd (insert_learned_facts codec t repo_id sid fs table) = table @ added"
proof (induction fs arbitrary: table)
  case (Cons f fs)
  obtain r where "insert_one_learned_fact codec t repo_id sid f table = table @ [r]"
    by (auto simp: insert_one_learned_fact_def Let_def)
  moreover obtain added where "snd (insert_learned_facts codec t repo_id sid fs (table @ [r])) = (table @ [r]) @ added"
    using Cons.IH by blast
  ultimately show ?case by (intro exI [of _ "r # added"]) (simp add: case_prod_unfold Let_def)
qed simp

lemma insert_batch_extends:
  assumes "insert_learned_fact_batch_with_snapshot codec t repo_id metrics fs status l = Inr (x, l')"
  shows "extends_learning l l'"
proof -
  obtain found where found: "(if dict_get metrics ''trigger_key'' VNone = VNone then Inr None
      else triggered_snapshot codec repo_id (dict_get metrics ''trigger_key'' VNone) (lg_snapshots l)) = Inr found"
    and fs: "fs \<noteq> []"
    using assms by (auto simp: insert_learned_fact_batch_with_snapshot_def Let_def rbind_Inr_iff split: if_splits)
  show ?thesis
  proof (cases found)
    case (Some s)
    with assms found fs have "l' = l"
      by (simp add: insert_learned_fact_batch_with_snapshot_def Let_def)
    then show ?thesis by simp
  next
    case None
    obtain added where a: "snd (insert_learned_facts codec t repo_id (show_nat (next_id rs_id (lg_snapshots l))) fs
        (lg_facts l)) = lg_facts l @ added"
      using insert_learned_facts_append by blast
    obtain s where "snd (insert_risk_snapshot codec t repo_id metrics status (lg_snapshots l)) = lg_snapshots l @ [s]"
      by (auto simp: insert_risk_snapshot_def Let_def)
    with assms found fs None a have "l' = l\<lparr>lg_snapshots := lg_snapshots l @ [s], lg_facts := lg_facts l @ added\<rparr>"
      by (auto simp: insert_learned_fact_batch_with_snapshot_def insert_risk_snapshot_def Let_def
          split: prod.splits)
    then show ?thesis unfolding extends_learning_def by blast
  qed
qed

lemma finish_promotion_extends:
  assumes "finish_promotion codec t repo_id collected reason score extra trigger_key l = Inr (p, l')"
  shows "extends_learning l l'"
  using assms insert_batch_extends
  by (cases "fst collected = []") (auto simp: finish_promotion_def rbind_Inr_iff case_prod_unfold Let_def)

lemma run_promotion_cases:
  assumes "run_promotion codec t repo_id config trigger_key l = Inr (p, l')"
  obtains (finished) collected score extra where
      "finish_promotion codec t repo_id collected ''M5d_auto_promotion'' score extra trigger_key l = Inr (p, l')"
  | (kept) "l' = l"
proof -
  obtain collected d where
    "(case d of
        None \<Rightarrow> finish_promotion codec t repo_id collected ''M5d_auto_promotion'' None
          [(''event_concern_budget'', vreal (cf_event_concern_budget config))] trigger_key l
      | Some (score, is_frozen) \<Rightarrow>
          if is_frozen
          then Inr (no_promotion repo_id (snd (snd collected)) 0 [''DRIFT_FREEZE''] (Some score) True, l)
          else finish_promotion codec t repo_id collected ''M5d_auto_promotion'' (Some score)
            [(''event_concern_budget'', vreal (cf_event_concern_budget config))] trigger_key l) = Inr (p, l')"
    using assms unfolding run_promotion_def rbind_Inr_iff Let_def by blast
  then show ?thesis
    by (cases d) (auto split: if_splits intro: finished kept)
qed

lemma promotions_extend:
  "run_promotion codec t repo_id config trigger_key l = Inr (p, l') \<Longrightarrow> extends_learning l l'"
  "run_benefit_promotion codec t repo_id config trigger_key l = Inr (p, l') \<Longrightarrow> extends_learning l l'"
  "run_review_cost_promotion codec t repo_id config trigger_key l = Inr (p, l') \<Longrightarrow> extends_learning l l'"
  by (auto elim!: run_promotion_cases dest: finish_promotion_extends
      simp: run_benefit_promotion_def run_review_cost_promotion_def rbind_Inr_iff split: prod.splits)

text \<open>One step, as the change it makes.\<close>

lemma step_cases:
  assumes "ledger_step codec l l'"
  obtains
    (persists) t result request predictions aid where
      "persist_assessment codec t result request predictions l = Inr (aid, l')"
  | (verifies) g ss where "referenced l (gw_assessment_id g)"
      "l' = l\<lparr>lg_sanctions := ss, lg_guardrails := lg_guardrails l @ [g]\<rparr>"
  | (sanctions) rows where "l' = l\<lparr>lg_sanctions := rows\<rparr>"
  | (records) t aid status detail label_source where
      "outcome_transaction codec t aid status detail label_source l = Inr ((), l')"
  | (measures) t t' aid m where "measure_learning codec t t' aid l = Inr (m, l')"
  | (promotes) "extends_learning l l'"
  using assms
proof (cases rule: ledger_step.cases)
  case (persists t result request predictions aid)
  then show ?thesis by (rule that(1))
next
  case (verifies wording t aid completed preview actual contract_changes out v)
  obtain i g where "row_id aid = Inr i" "vl_guardrails v = vl_guardrails (verify_part l) @ [g]" "gw_assessment_id g = i"
    "is_ok (rbind (load_assessment codec aid l) as_dict)"
    using verify_adds [OF verifies(2)] by blast
  with load_assessment_exists show ?thesis
    by (intro that(2) [of g "vl_sanctions v"]) (auto simp: verify_part_def verifies(1))
next
  case (sanctions event rows)
  then show ?thesis by (intro that(3))
next
  case (records t aid status detail label_source)
  then show ?thesis by (rule that(4))
next
  case (measures t t' aid m)
  then show ?thesis by (rule that(5))
qed (auto intro: that(6) dest: promotions_extend)

section \<open>The invariant\<close>

definition host_stamped :: "json_codec \<Rightarrow> outcome_row \<Rightarrow> bool" where
  "host_stamped codec o' =
     (\<exists>d. js_loads codec (oc_detail_json o') = Inr (VDict d) \<and> dict_get d LABEL_SOURCE_KEY VNone = VStr ''host'')"

definition verified_by :: "json_codec \<Rightarrow> guardrail_row list \<Rightarrow> nat \<Rightarrow> bool" where
  "verified_by codec guardrails i =
     (\<exists>g \<in> set guardrails. gw_assessment_id g = i \<and>
        (\<exists>d. js_loads codec (gw_guardrails_json g) = Inr (VDict d)
           \<and> dict_get d ''pre_commit_decision'' VNone = VStr ''proceed''))"

definition completed_verified :: "json_codec \<Rightarrow> ledger \<Rightarrow> bool" where
  "completed_verified codec l =
     (\<forall>o' \<in> set (lg_outcomes l). oc_terminal_status o' = ''completed'' \<longrightarrow>
        verified_by codec (lg_guardrails l) (oc_assessment_id o'))"

text \<open>What an error row owes to its outcome.\<close>

definition owes :: "json_codec \<Rightarrow> outcome_row \<Rightarrow> stored_error \<Rightarrow> bool" where
  "owes codec o' e =
     (oc_assessment_id o' = pe_assessment_id e
      \<and> (er_shadow_mode (pe_row e) = 0 \<longrightarrow> oc_terminal_status o' = ''completed'')
      \<and> (label_target (pe_row e) \<longrightarrow> er_outcome_label_status (pe_row e) = ''observed'' \<longrightarrow> host_stamped codec o'))"

definition errors_owed :: "json_codec \<Rightarrow> ledger \<Rightarrow> bool" where
  "errors_owed codec l = (\<forall>e \<in> set (lg_errors l). \<exists>o' \<in> set (lg_outcomes l). owes codec o' e)"

definition closed_once :: "ledger \<Rightarrow> bool" where
  "closed_once l = distinct (map oc_assessment_id (lg_outcomes l))"

definition scored_once :: "ledger \<Rightarrow> bool" where
  "scored_once l =
     (\<forall>i. errors_of i l = [] \<or> map (target_of \<circ> pe_row) (errors_of i l) = map prediction_target_of (predictions_of i l))"

definition sound_ledger :: "json_codec \<Rightarrow> ledger \<Rightarrow> bool" where
  "sound_ledger codec l =
     (ids_ok l \<and> closed_once l \<and> completed_verified codec l \<and> errors_owed codec l \<and> scored_once l)"

lemma referenced_updates [simp]:
  "referenced (l\<lparr>lg_packets := a\<rparr>) = referenced l" "referenced (l\<lparr>lg_sanctions := b\<rparr>) = referenced l"
  "referenced (l\<lparr>lg_guardrails := c\<rparr>) = referenced l" "referenced (l\<lparr>lg_outcomes := d\<rparr>) = referenced l"
  "referenced (l\<lparr>lg_predictions := e\<rparr>) = referenced l" "referenced (l\<lparr>lg_errors := f\<rparr>) = referenced l"
  "referenced (l\<lparr>lg_snapshots := g\<rparr>) = referenced l" "referenced (l\<lparr>lg_facts := h\<rparr>) = referenced l"
  by (simp_all add: referenced_def fun_eq_iff)

lemma verified_by_mono: "verified_by codec gs i \<Longrightarrow> set gs \<subseteq> set gs' \<Longrightarrow> verified_by codec gs' i"
  unfolding verified_by_def by blast

lemma errors_of_absent: "ids_ok l \<Longrightarrow> \<not> referenced l i \<Longrightarrow> errors_of i l = []"
  by (auto simp: ids_ok_def list_all_iff errors_of_def filter_empty_conv)

lemma sound_empty: "sound_ledger codec empty_ledger"
  by (simp add: sound_ledger_def ids_ok_def empty_ledger_def closed_once_def completed_verified_def errors_owed_def
      scored_once_def errors_of_def)

lemma persist_frame:
  assumes "persist_assessment codec t result request predictions l = Inr (aid, l')" and "ids_ok l"
  shows "ids_ok l'" "lg_outcomes l' = lg_outcomes l" "lg_errors l' = lg_errors l" "lg_guardrails l' = lg_guardrails l"
    "lg_sanctions l' = lg_sanctions l" "lg_snapshots l' = lg_snapshots l" "lg_facts l' = lg_facts l"
    "\<And>i. referenced l i \<Longrightarrow> predictions_of i l' = predictions_of i l"
    "\<exists>a. lg_assessments l' = lg_assessments l @ a" "\<exists>a. lg_predictions l' = lg_predictions l @ a"
    "\<exists>a. lg_packets l' = lg_packets l @ a"
proof -
  let ?i = "next_assessment_row_id l" and ?given = "at_model_guidance_packet result"
  let ?row = "\<lparr>aw_id = ?i, aw_repo_id = at_repo_id result, aw_decision = decision_value (at_recommended_decision result),
          aw_content_json = js_plain codec (stored_content codec t result request l),
          aw_prev_hash = last_assessment_hash l,
          aw_row_hash = row_hash (last_assessment_hash l) (js_plain codec (stored_content codec t result request l))\<rparr>"
  obtain rows where ins: "insert_predictions codec ?i (at_repo_id result) t predictions (lg_predictions l) = Inr rows"
    and l': "l' = l\<lparr>lg_assessments := lg_assessments l @ [?row],
      lg_packets := packet_rows codec ?i ?given (lg_packets l), lg_predictions := rows\<rparr>"
    by (rule persist_assessment_cases [OF assms(1)])
  obtain added where added: "rows = lg_predictions l @ added" "\<forall>r \<in> set added. ap_assessment_id r = ?i"
    using insert_predictions_append [OF ins] by blast
  have fresh: "\<not> referenced l ?i"
    using next_assessment_fresh [OF assms(2)] by (simp add: next_assessment_row_id_def)
  show "ids_ok l'"
    using assms(2) added sorted_append_next_id [where key = aw_id and rows = "lg_assessments l"]
    by (auto simp: l' ids_ok_def referenced_def list_all_iff packet_rows_def next_assessment_row_id_def split: option.splits)
  show "predictions_of i l' = predictions_of i l" if "referenced l i" for i
    using added fresh that by (auto simp: l' predictions_of_def filter_empty_conv)
qed (use assms(1) in \<open>auto elim!: persist_assessment_cases dest!: insert_predictions_append
       simp: packet_rows_def split: option.splits\<close>)

lemma sound_persists:
  assumes "sound_ledger codec l" and "persist_assessment codec t result request predictions l = Inr (aid, l')"
  shows "sound_ledger codec l'"
proof -
  note ids = assms(1) [unfolded sound_ledger_def, THEN conjunct1]
  note f = persist_frame [OF assms(2) ids]
  have "errors_of i l' = [] \<or> map (target_of \<circ> pe_row) (errors_of i l') = map prediction_target_of (predictions_of i l')" for i
  proof (cases "referenced l i")
    case True
    with assms(1) f show ?thesis by (simp add: sound_ledger_def scored_once_def errors_of_def)
  next
    case False
    with errors_of_absent [OF ids] f show ?thesis by (simp add: errors_of_def)
  qed
  with assms(1) f show ?thesis
    by (simp add: sound_ledger_def closed_once_def completed_verified_def errors_owed_def scored_once_def)
qed

lemma sound_verifies:
  assumes "sound_ledger codec l" and "l' = l\<lparr>lg_sanctions := ss, lg_guardrails := lg_guardrails l @ [g]\<rparr>"
  shows "sound_ledger codec l'"
proof -
  have "verified_by codec (lg_guardrails l') i" if "verified_by codec (lg_guardrails l) i" for i
    using that by (rule verified_by_mono) (auto simp: assms(2))
  with assms(1) show ?thesis
    by (simp add: assms(2) sound_ledger_def ids_ok_def closed_once_def completed_verified_def
        errors_owed_def scored_once_def errors_of_def predictions_of_def)
qed

lemma sound_sanctions: "sound_ledger codec l \<Longrightarrow> sound_ledger codec (l\<lparr>lg_sanctions := rows\<rparr>)"
  by (simp add: sound_ledger_def ids_ok_def closed_once_def completed_verified_def errors_owed_def scored_once_def
      errors_of_def predictions_of_def)

lemma sound_extends: "sound_ledger codec l \<Longrightarrow> extends_learning l l' \<Longrightarrow> sound_ledger codec l'"
  by (elim extends_learningE)
    (simp add: sound_ledger_def ids_ok_def closed_once_def completed_verified_def errors_owed_def scored_once_def
      errors_of_def predictions_of_def)

lemma sound_records:
  assumes "sound_ledger codec l" and "outcome_transaction codec t aid status detail label_source l = Inr ((), l')"
  shows "sound_ledger codec l'"
proof -
  note parts = assms(1) [unfolded sound_ledger_def]
  have vby: "status = ''completed'' \<Longrightarrow> \<exists>d. latest_guardrails codec aid l = Inr (Some (VDict d))
       \<and> dict_get d ''pre_commit_decision'' VNone = VStr ''proceed''"
    and row: "record_outcome_row codec t aid status (stamped detail label_source) l = Inr l'"
    by (rule outcome_transaction_cases [OF assms(2)], blast)+
  obtain i o' where o': "row_id aid = Inr i" "referenced l i" "i \<notin> oc_assessment_id ` set (lg_outcomes l)"
    "l' = l\<lparr>lg_outcomes := lg_outcomes l @ [o']\<rparr>" "oc_assessment_id o' = i" "oc_terminal_status o' = status"
    by (rule record_outcome_row_adds [OF row])
  have "verified_by codec (lg_guardrails l) i" if "status = ''completed''"
    using vby [OF that] latest_guardrails_in [OF _ o'(1)] unfolding verified_by_def by blast
  with parts o' show ?thesis
    by (simp add: sound_ledger_def ids_ok_def closed_once_def completed_verified_def errors_owed_def
        scored_once_def errors_of_def predictions_of_def)
qed

lemma sound_measures:
  assumes "sound_ledger codec l" and "measure_learning codec t t' aid l = Inr (m, l')"
  shows "sound_ledger codec l'"
proof -
  obtain i o' detail rows added s where m: "row_id aid = Inr i" "referenced l i" "errors_of i l = []"
    "o' \<in> set (lg_outcomes l)" "oc_assessment_id o' = i" "js_loads codec (oc_detail_json o') = Inr detail"
    "map target_of rows = map prediction_target_of (predictions_of i l)"
    "\<forall>r \<in> set rows. er_shadow_mode r = (if oc_terminal_status o' = ''completed'' then 0 else 1)
       \<and> er_calibration_scope r = (if oc_terminal_status o' = ''completed'' then ''proceeded_edits_only'' else ''shadow'')"
    "\<forall>r \<in> set rows. label_target r \<longrightarrow> er_outcome_label_status r = ''observed'' \<longrightarrow>
       (\<exists>d. detail = VDict d \<and> dict_get d LABEL_SOURCE_KEY VNone = VStr ''host'')"
    "map pe_row added = map stored_columns rows" "\<forall>e \<in> set added. pe_assessment_id e = i"
    "l' = l\<lparr>lg_errors := lg_errors l @ added, lg_snapshots := lg_snapshots l @ [s]\<rparr>"
    by (rule measure_learning_cases [OF assms(2)])
  have owed: "owes codec o' e" if e: "e \<in> set added" for e
  proof -
    have "pe_row e \<in> set (map stored_columns rows)" using e unfolding m(10) [symmetric] by simp
    then obtain r where "r \<in> set rows" "pe_row e = stored_columns r" by auto
    then show ?thesis
      using m(5,6,8,9,11) e by (auto simp: owes_def host_stamped_def label_target_def)
  qed
  have "errors_of i l' = added"
    using m(3,11) by (simp add: m(12) errors_of_def filter_id_conv)
  moreover have "map (target_of \<circ> pe_row) added = map target_of rows"
    using arg_cong [OF m(10), of "map target_of"] by (simp add: comp_def)
  moreover have "errors_of j l' = errors_of j l" if "j \<noteq> i" for j
    using m(11) that by (auto simp: m(12) errors_of_def filter_empty_conv)
  moreover have "predictions_of j l' = predictions_of j l" for j by (simp add: m(12) predictions_of_def)
  ultimately have "errors_of j l' = []
      \<or> map (target_of \<circ> pe_row) (errors_of j l') = map prediction_target_of (predictions_of j l')" for j
    using assms(1) m(7) by (cases "j = i") (auto simp: scored_once_def sound_ledger_def)
  then have "scored_once l'" by (simp add: scored_once_def)
  moreover have "errors_owed codec l'"
    using assms(1) owed m(4) by (auto simp: m(12) sound_ledger_def errors_owed_def)
  moreover have "ids_ok l'"
    using assms(1) m(2,11) by (auto simp: m(12) sound_ledger_def ids_ok_def referenced_def list_all_iff)
  ultimately show ?thesis
    using assms(1) by (simp add: m(12) sound_ledger_def closed_once_def completed_verified_def)
qed

lemma sound_step:
  assumes "sound_ledger codec l" and "ledger_step codec l l'"
  shows "sound_ledger codec l'"
  using assms(2)
proof (cases rule: step_cases)
  case (persists t result request predictions aid)
  with assms(1) show ?thesis by (rule sound_persists)
next
  case (verifies g ss)
  with assms(1) show ?thesis using sound_verifies by blast
next
  case (sanctions rows)
  with assms(1) show ?thesis by (simp add: sound_sanctions)
next
  case (records t aid status detail label_source)
  with assms(1) show ?thesis by (rule sound_records)
next
  case (measures t t' aid m)
  with assms(1) show ?thesis by (rule sound_measures)
next
  case promotes
  with assms(1) show ?thesis by (rule sound_extends)
qed

lemma sound_reachable: "reachable codec l \<Longrightarrow> sound_ledger codec l"
  by (induction rule: reachable.induct) (auto intro: sound_empty sound_step)

section \<open>History\<close>

text \<open>Every table but that of the sanctions, whose rows change their status, only grows.\<close>

definition grows :: "ledger \<Rightarrow> ledger \<Rightarrow> bool" where
  "grows l l' =
     ((\<exists>a. lg_assessments l' = lg_assessments l @ a) \<and> (\<exists>a. lg_packets l' = lg_packets l @ a)
      \<and> (\<exists>a. lg_guardrails l' = lg_guardrails l @ a) \<and> (\<exists>a. lg_outcomes l' = lg_outcomes l @ a)
      \<and> (\<exists>a. lg_predictions l' = lg_predictions l @ a) \<and> (\<exists>a. lg_errors l' = lg_errors l @ a)
      \<and> (\<exists>a. lg_snapshots l' = lg_snapshots l @ a) \<and> (\<exists>a. lg_facts l' = lg_facts l @ a))"

lemma grows_refl [simp]: "grows l l" by (simp add: grows_def)

lemma grows_trans: "grows l l' \<Longrightarrow> grows l' l'' \<Longrightarrow> grows l l''"
  by (auto simp: grows_def)

lemma step_grows:
  assumes "ids_ok l" and "ledger_step codec l l'"
  shows "grows l l'"
  using assms(2)
proof (cases rule: step_cases)
  case (persists t result request predictions aid)
  from persist_frame [OF persists assms(1)] show ?thesis by (simp add: grows_def)
next
  case (verifies g ss)
  then show ?thesis by (simp add: grows_def)
next
  case (sanctions rows)
  then show ?thesis by (simp add: grows_def)
next
  case (records t aid status detail label_source)
  have "record_outcome_row codec t aid status (stamped detail label_source) l = Inr l'"
    by (rule outcome_transaction_cases [OF records])
  then obtain o' where "l' = l\<lparr>lg_outcomes := lg_outcomes l @ [o']\<rparr>" by (rule record_outcome_row_adds)
  then show ?thesis by (simp add: grows_def)
next
  case (measures t t' aid m)
  then obtain added s where "l' = l\<lparr>lg_errors := lg_errors l @ added, lg_snapshots := lg_snapshots l @ [s]\<rparr>"
    by (rule measure_learning_cases)
  then show ?thesis by (simp add: grows_def)
next
  case promotes
  then show ?thesis by (elim extends_learningE) (simp add: grows_def)
qed

lemma run_grows:
  assumes "(ledger_step codec)\<^sup>*\<^sup>* l l'" and "sound_ledger codec l"
  shows "grows l l' \<and> sound_ledger codec l'"
  using assms
proof (induction rule: rtranclp_induct)
  case (step m n)
  then have "grows l m" "sound_ledger codec m" "ids_ok m" by (auto simp: sound_ledger_def)
  with step.hyps(2) step_grows sound_step grows_trans show ?case by blast
qed simp

section \<open>A run\<close>

text \<open>A codec that reads everything back as one content, which serves every reader.\<close>

definition rich_content :: "pyval dict" where
  "rich_content =
     [(''repo_id'', VStr ''repo''), (''decision'', VStr ''proceed''), (''assessed_commit'', VStr ''c1''),
      (''model_guidance_packet'', VDict [(''binding'', VDict
         [(''safe_scope'', VDict [(''files'', vstrs [''a.py''])])])]),
      (''scores'', VDict [(''symbol_scope_evidence'', VDict [(''max_change_kind'', VStr ''BEHAVIORAL'')])]),
      (''pre_commit_decision'', VStr ''proceed''), (LABEL_SOURCE_KEY, VStr ''host''), (''actual_success'', VBool True)]"

definition rich_codec :: json_codec where
  "rich_codec = sample_codec\<lparr>js_loads := (\<lambda>_. Inr (VDict rich_content))\<rparr>"

lemma loads_rich [simp]: "js_loads rich_codec s = Inr (VDict rich_content)"
  by (simp add: rich_codec_def)

lemma row_id_demo [simp]: "row_id ''asm_1'' = Inr 1"
  by (simp add: row_id_def is_digit_def number_of_digits_def)

lemma demo_persist:
  "\<exists>aid l. persist_assessment rich_codec ''t1'' sample_result [] [sample_target (vreal 0.5)] empty_ledger = Inr (aid, l)
    \<and> map aw_id (lg_assessments l) = [1] \<and> map aw_repo_id (lg_assessments l) = [''repo'']
    \<and> map (\<lambda>r. (ap_id r, ap_assessment_id r, prediction_target_of r, ap_predicted_value r)) (lg_predictions l)
       = [(1, 1, (''risk_binary'', ''p_success''), Some 0.5)]
    \<and> lg_outcomes l = [] \<and> lg_errors l = [] \<and> lg_guardrails l = [] \<and> lg_sanctions l = [] \<and> lg_packets l = []"
  by (simp add: persist_assessment_def insert_prediction_def sample_target_def empty_ledger_def next_assessment_row_id_def
      next_id_def Let_def sample_result_def packet_rows_def prediction_target_of_def)


lemma demo_verify:
  assumes "map aw_id (lg_assessments l) = [1]" "lg_sanctions l = []" "lg_guardrails l = []"
  shows "\<exists>out v. verify (js_compact rich_codec) (stored_dict rich_codec) (\<lambda>_. []) ''t2''
      (\<lambda>a. rbind (load_assessment rich_codec a l) as_dict) ''asm_1'' [] False (diff_at ''c1'') [] (verify_part l)
      = Inr (out, v) \<and> map gw_assessment_id (vl_guardrails v) = [1] \<and> vl_sanctions v = []"
proof -
  obtain a where a: "lg_assessments l = [a]" "aw_id a = 1" using assms(1) by auto
  show ?thesis
    using assms(2,3)
    by (simp add: verify_part_def load_assessment_def a as_dict_def verify_eval rich_content_def number_of_digits_def)
qed

lemma demo_record:
  assumes "map aw_id (lg_assessments l) = [1]" "map gw_assessment_id (lg_guardrails l) = [1]" "lg_outcomes l = []" "lg_packets l = []"
  shows "\<exists>o'. outcome_transaction rich_codec ''t3'' ''asm_1'' ''completed'' None ''host'' l
      = Inr ((), l\<lparr>lg_outcomes := [o']\<rparr>) \<and> oc_assessment_id o' = 1 \<and> oc_terminal_status o' = ''completed''"
proof -
  obtain a where a: "lg_assessments l = [a]" "aw_id a = 1" using assms(1) by auto
  obtain g where g: "lg_guardrails l = [g]" "gw_assessment_id g = 1" using assms(2) by auto
  show ?thesis
    using assms(3,4)
    by (simp add: outcome_transaction_def TERMINAL_STATUSES_def validate_labels_def stamped_def BOOL_LABELS_def
        bool_label_ok_def cost_label_def LABEL_SOURCE_KEY_def latest_guardrails_def assessment_exists_def a latest_def g
        completion_allowed_def rich_content_def record_outcome_row_def guidance_packet_id_for_assessment_def
        packet_of_def has_outcome_def Let_def) (intro exI conjI, rule refl, simp_all)
qed

definition production_row :: "error_row \<Rightarrow> bool" where
  "production_row row =
     (er_target_type row = RISK_BINARY \<and> er_shadow_mode row = 0 \<and> er_outcome_label_status row = ''observed''
      \<and> er_calibration_scope row = ''proceeded_edits_only'')"

lemma demo_measure:
  assumes "map aw_id (lg_assessments l) = [1]" "map gw_assessment_id (lg_guardrails l) = [1]"
    "lg_outcomes l = [o']" "oc_assessment_id o' = 1" "oc_terminal_status o' = ''completed''"
    "lg_packets l = []" "lg_errors l = []"
    "map (\<lambda>r. (ap_id r, ap_assessment_id r, prediction_target_of r, ap_predicted_value r)) (lg_predictions l)
       = [(1, 1, (''risk_binary'', ''p_success''), Some 0.5)]"
  shows "\<exists>m e s. measure_learning rich_codec ''t4'' ''t5'' ''asm_1'' l
      = Inr (m, l\<lparr>lg_errors := [e], lg_snapshots := lg_snapshots l @ [s]\<rparr>)
    \<and> pe_assessment_id e = 1 \<and> production_row (pe_row e) \<and> unguided_columns RISK_BINARY e \<and> pe_hash_version e = 2"
proof -
  obtain a where a: "lg_assessments l = [a]" "aw_id a = 1" using assms(1) by auto
  obtain g where g: "lg_guardrails l = [g]" "gw_assessment_id g = 1" using assms(2) by auto
  obtain p where p: "lg_predictions l = [p]" "ap_assessment_id p = 1" "ap_target_type p = ''risk_binary''"
      "ap_target_name p = ''p_success''" "ap_predicted_value p = Some 0.5"
    using assms(8) by (auto simp: prediction_target_of_def)
  note [simp] = a g p assms(3-7)
  have preds: "\<exists>x. load_predictions rich_codec ''asm_1'' l = Inr [x] \<and> lp_target_type x = ''risk_binary''
      \<and> lp_target_name x = ''p_success'' \<and> lp_predicted_value x = Some 0.5 \<and> lp_provenance x = VDict rich_content"
    by (simp add: load_predictions_def predictions_of_def read_prediction_def)
  then obtain x where x: "load_predictions rich_codec ''asm_1'' l = Inr [x]" "lp_target_type x = ''risk_binary''"
      "lp_target_name x = ''p_success''" "lp_predicted_value x = Some 0.5" "lp_provenance x = VDict rich_content"
    by blast
  have outs: "load_outcomes rich_codec ''asm_1'' l = Inr [\<lparr>lo_terminal_status = ''completed'',
      lo_detail = VDict rich_content, lo_recorded_at = oc_recorded_at o'\<rparr>]"
    by (simp add: load_outcomes_def outcomes_of_assessment_def)
  have summary: "is_ok (summarize_prior_provenance (map provenance_of [x]))"
    by (simp add: summarize_prior_provenance_def target_prior_def provenance_of_def x dict_or_empty_def
        prior_block_def rich_content_def LABEL_SOURCE_KEY_def Let_def)
  then obtain y where y: "summarize_prior_provenance (map provenance_of [x]) = Inr y" by (auto simp: is_ok_iff)
  have detail: "assessment_detail rich_codec ''asm_1'' l = Inr \<lparr>dv_content = rich_content, dv_guardrails = [rich_content]\<rparr>"
    using y by (simp add: assessment_detail_def load_assessment_def loads_dict_def x outs as_dict_def packet_of_def)
  have truthy: "labels_of (VDict rich_content) = Inr [(''actual_success'', VBool True)]"
    by (simp add: labels_of_def as_dict_def extract_labels_def rich_content_def LABEL_SOURCE_KEY_def LABEL_KEYS_def
        BOOL_LABELS_def COST_LABELS_def)
  have gets: "dict_get rich_content ''measured_benefit'' VNone = VNone"
    "dict_get rich_content ''measured_benefit_deltas'' VNone = VNone"
    "dict_get rich_content ''repo_id'' (VStr []) = VStr ''repo''"
    by (simp_all add: rich_content_def LABEL_SOURCE_KEY_def)
  have "\<exists>row. measurement_rows rich_codec ''asm_1'' l = Inr ([row], ''repo'', True) \<and> production_row row"
    by (simp add: measurement_rows_def x outs prediction_errors_exist_def errors_of_def truthy detail
        benefit_measurements_def gets measured_number_def dict_or_empty_def
        build_error_rows_def error_row_of_def loaded_prediction.truncate_def target_type_defs binary_actual_def
        risk_actual_def need_number_def Let_def production_row_def censored_row_def)
  then obtain row where row: "measurement_rows rich_codec ''asm_1'' l = Inr ([row], ''repo'', True)" "production_row row"
    by blast
  then show ?thesis
    by (simp add: measure_learning_def insert_learning_measurement_def assessment_exists_def errors_of_def Let_def
        insert_prediction_error_for_row_id_def insert_risk_snapshot_def production_row_def)
      (intro exI conjI, rule refl, simp_all add: production_row_def unguided_columns_def)
qed

text \<open>A full run: assessed, verified, completed and measured.\<close>

lemma learning_demo_run:
  "\<exists>l a e o' g. reachable rich_codec l \<and> lg_outcomes l = [o'] \<and> (a, e) \<in> set (production_errors (Some ''repo'') RISK_BINARY l)
    \<and> lg_guardrails l = [g] \<and> length (lg_errors l) = 1"
proof -
  obtain aid l1 where p: "persist_assessment rich_codec ''t1'' sample_result [] [sample_target (vreal 0.5)] empty_ledger
      = Inr (aid, l1)"
    and l1: "map aw_id (lg_assessments l1) = [1]" "map aw_repo_id (lg_assessments l1) = [''repo'']"
    "map (\<lambda>r. (ap_id r, ap_assessment_id r, prediction_target_of r, ap_predicted_value r)) (lg_predictions l1)
       = [(1, 1, (''risk_binary'', ''p_success''), Some 0.5)]"
    "lg_outcomes l1 = []" "lg_errors l1 = []" "lg_guardrails l1 = []" "lg_sanctions l1 = []" "lg_packets l1 = []"
    using demo_persist by (elim exE conjE) (rule that)
  obtain out v where v: "verify (js_compact rich_codec) (stored_dict rich_codec) (\<lambda>_. []) ''t2''
      (\<lambda>a. rbind (load_assessment rich_codec a l1) as_dict) ''asm_1'' [] False (diff_at ''c1'') [] (verify_part l1)
      = Inr (out, v)" "map gw_assessment_id (vl_guardrails v) = [1]" "vl_sanctions v = []"
    using demo_verify [OF l1(1,7,6)] by (elim exE conjE) (rule that)
  define l2 where "l2 = l1\<lparr>lg_sanctions := vl_sanctions v, lg_guardrails := vl_guardrails v\<rparr>"
  have r2: "reachable rich_codec l2"
    unfolding l2_def by (rule further [OF further [OF initial persists [OF p]] verifies [OF v(1)]])
  obtain o' where o': "outcome_transaction rich_codec ''t3'' ''asm_1'' ''completed'' None ''host'' l2
      = Inr ((), l2\<lparr>lg_outcomes := [o']\<rparr>)" "oc_assessment_id o' = 1" "oc_terminal_status o' = ''completed''"
    using demo_record [of l2] l1 v by (auto simp: l2_def)
  define l3 where "l3 = l2\<lparr>lg_outcomes := [o']\<rparr>"
  have r3: "reachable rich_codec l3" unfolding l3_def by (rule further [OF r2 records [OF o'(1)]])
  obtain m e s where m: "measure_learning rich_codec ''t4'' ''t5'' ''asm_1'' l3
      = Inr (m, l3\<lparr>lg_errors := [e], lg_snapshots := lg_snapshots l3 @ [s]\<rparr>)"
    and e: "pe_assessment_id e = 1" "production_row (pe_row e)" "unguided_columns RISK_BINARY e" "pe_hash_version e = 2"
    using demo_measure [of l3 o'] l1 v o' by (auto simp: l2_def l3_def)
  define l4 where "l4 = l3\<lparr>lg_errors := [e], lg_snapshots := lg_snapshots l3 @ [s]\<rparr>"
  have "reachable rich_codec l4" unfolding l4_def by (rule further [OF r3 measures [OF m]])
  moreover obtain a where "lg_assessments l1 = [a]" "aw_id a = 1" "aw_repo_id a = ''repo''" using l1(1,2) by auto
  then have "(a, e) \<in> set (production_errors (Some ''repo'') RISK_BINARY l4)"
    using e by (simp add: l4_def l3_def l2_def production_errors_def calibration_view_def production_row_def)
  moreover obtain g where "vl_guardrails v = [g]" using v(2) by auto
  ultimately show ?thesis by (intro exI conjI) (assumption | simp add: l4_def l3_def l2_def)+
qed

section \<open>Properties\<close>

text \<open>C27: Only trusted experience trains the model. In every reachable ledger, a row of a calibration view stems
  from an assessment of the repository that was completed and whose edit a verification let proceed; and
  if only a label can settle its target, the outcome was stamped by the host.\<close>

theorem production_rows_are_trusted:
  assumes "reachable codec l" and "(a, e) \<in> set (production_errors (Some repo_id) target_type l)"
  shows "aw_repo_id a = repo_id \<and> pe_assessment_id e = aw_id a
    \<and> (\<exists>o' \<in> set (lg_outcomes l). oc_assessment_id o' = aw_id a \<and> oc_terminal_status o' = ''completed''
         \<and> verified_by codec (lg_guardrails l) (aw_id a)
         \<and> (binary_type target_type \<or> er_target_name (pe_row e) = ''review_cost'' \<longrightarrow> host_stamped codec o'))"
proof -
  note sound = sound_reachable [OF assms(1), unfolded sound_ledger_def]
  have e: "e \<in> set (lg_errors l)" "er_shadow_mode (pe_row e) = 0" "er_outcome_label_status (pe_row e) = ''observed''"
    "er_target_type (pe_row e) = target_type" and a: "aw_id a = pe_assessment_id e" "aw_repo_id a = repo_id"
    using assms(2) by (auto simp: production_errors_def calibration_view_def)
  obtain o' where o': "o' \<in> set (lg_outcomes l)" "owes codec o' e"
    using sound e(1) unfolding errors_owed_def by blast
  have "oc_terminal_status o' = ''completed''" "oc_assessment_id o' = aw_id a"
    using o'(2) e(2) a by (auto simp: owes_def)
  moreover from this have "verified_by codec (lg_guardrails l) (aw_id a)"
    using sound o'(1) by (auto simp: completed_verified_def)
  moreover have "binary_type target_type \<or> er_target_name (pe_row e) = ''review_cost'' \<longrightarrow> host_stamped codec o'"
    using o'(2) e(3,4) by (auto simp: owes_def label_target_def)
  ultimately show ?thesis using o'(1) a by auto
qed

lemma production_rows_are_trusted_witness:
  "\<exists>l a e. reachable rich_codec l \<and> (a, e) \<in> set (production_errors (Some ''repo'') RISK_BINARY l)
    \<and> (\<exists>o' \<in> set (lg_outcomes l). oc_terminal_status o' = ''completed'' \<and> host_stamped rich_codec o')"
proof -
  obtain l a e where r: "reachable rich_codec l" "(a, e) \<in> set (production_errors (Some ''repo'') RISK_BINARY l)"
    using learning_demo_run by blast
  have "binary_type RISK_BINARY" by (simp add: binary_type_def)
  with production_rows_are_trusted [OF r] r show ?thesis by blast
qed

text \<open>C28: The lifecycle closes once and is scored once. In every reachable ledger an assessment has at most one
  outcome; its predictions are scored not at all or each exactly once, in order, and only after an outcome
  was recorded.\<close>

theorem measured_exactly_once:
  assumes "reachable codec l"
  shows "distinct (map oc_assessment_id (lg_outcomes l))
    \<and> (errors_of i l = []
       \<or> (map (target_of \<circ> pe_row) (errors_of i l) = map prediction_target_of (predictions_of i l)
          \<and> i \<in> oc_assessment_id ` set (lg_outcomes l)))"
proof -
  note sound = sound_reachable [OF assms, unfolded sound_ledger_def]
  have "i \<in> oc_assessment_id ` set (lg_outcomes l)" if measured: "errors_of i l \<noteq> []"
  proof -
    obtain e where "e \<in> set (lg_errors l)" "pe_assessment_id e = i"
      using measured by (auto simp: errors_of_def filter_empty_conv)
    then show ?thesis using sound by (force simp: errors_owed_def owes_def)
  qed
  then show ?thesis using sound by (auto simp: closed_once_def scored_once_def)
qed

lemma measured_exactly_once_witness:
  "\<exists>l. reachable rich_codec l \<and> lg_errors l \<noteq> [] \<and> distinct (map oc_assessment_id (lg_outcomes l))"
proof -
  obtain l where l: "reachable rich_codec l" "length (lg_errors l) = 1" using learning_demo_run by blast
  with measured_exactly_once [OF l(1)] show ?thesis by auto
qed

text \<open>An agent's report never trains the model. Once an outcome is recorded from an agent-facing surface,
  no later step of the program, a measurement included, produces an observed row for a target that a label
  settles, and none enters the risk or the benefit view.\<close>

theorem agent_reports_never_train:
  assumes "reachable codec l" and "outcome_transaction codec t aid status detail ''agent'' l = Inr ((), l1)"
    and "(ledger_step codec)\<^sup>*\<^sup>* l1 l2" and "row_id aid = Inr i"
    and "js_loads codec (js_compact codec (stamped detail ''agent'')) = Inr (VDict d)"
    and "dict_get d LABEL_SOURCE_KEY VNone = VStr ''agent''"
  shows "(\<forall>e \<in> set (lg_errors l2). pe_assessment_id e = i \<longrightarrow> label_target (pe_row e) \<longrightarrow>
           er_outcome_label_status (pe_row e) \<noteq> ''observed'')
    \<and> (\<forall>t \<in> {RISK_BINARY, BENEFIT_BINARY}. \<forall>(a, e) \<in> set (production_errors repo t l2). aw_id a \<noteq> i)"
proof -
  have row: "record_outcome_row codec t aid status (stamped detail ''agent'') l = Inr l1"
    by (rule outcome_transaction_cases [OF assms(2)])
  obtain j o' where o': "row_id aid = Inr j" "l1 = l\<lparr>lg_outcomes := lg_outcomes l @ [o']\<rparr>"
    "oc_assessment_id o' = j" "oc_detail_json o' = js_compact codec (stamped detail ''agent'')"
    by (rule record_outcome_row_adds [OF row])
  have "sound_ledger codec l1" using sound_records [OF sound_reachable [OF assms(1)] assms(2)] .
  then have g: "grows l1 l2" "sound_ledger codec l2" using run_grows [OF assms(3)] by auto
  have mem: "o' \<in> set (lg_outcomes l2)" using g(1) o'(2) by (auto simp: grows_def)
  have not_host: "\<not> host_stamped codec o'" using assms(5,6) by (simp add: host_stamped_def o'(4))
  have unseen: "er_outcome_label_status (pe_row e) \<noteq> ''observed''"
    if e: "e \<in> set (lg_errors l2)" "pe_assessment_id e = i" "label_target (pe_row e)" for e
  proof -
    obtain o'' where o'': "o'' \<in> set (lg_outcomes l2)" "owes codec o'' e"
      using g(2) e(1) unfolding sound_ledger_def errors_owed_def by blast
    then have "oc_assessment_id o'' = oc_assessment_id o'" using e(2) o'(1,3) assms(4) by (simp add: owes_def)
    then have "o'' = o'" using g(2) mem o''(1) by (auto simp: sound_ledger_def closed_once_def distinct_map inj_on_def)
    with o''(2) e(3) not_host show ?thesis by (simp add: owes_def)
  qed
  then show ?thesis
    by (auto simp: production_errors_def calibration_view_def label_target_def binary_type_def)
qed

definition agent_codec :: json_codec where
  "agent_codec = sample_codec\<lparr>js_loads := (\<lambda>_. Inr (VDict [(LABEL_SOURCE_KEY, VStr ''agent'')]))\<rparr>"

lemma agent_reports_never_train_witness:
  "\<exists>l l1. reachable agent_codec l \<and> outcome_transaction agent_codec ''t2'' ''asm_1'' ''skipped'' None ''agent'' l = Inr ((), l1)
    \<and> (\<forall>(a, e) \<in> set (production_errors (Some ''repo'') RISK_BINARY l1). aw_id a \<noteq> 1)"
proof -
  obtain aid l where p: "persist_assessment agent_codec ''t1'' sample_result [] [] empty_ledger = Inr (aid, l)"
    "map aw_id (lg_assessments l) = [1]" "lg_outcomes l = []" "lg_packets l = []"
    by (simp add: persist_assessment_def empty_ledger_def next_assessment_row_id_def next_id_def Let_def
        sample_result_def packet_rows_def)
  have r: "reachable agent_codec l" by (rule further [OF initial persists [OF p(1)]])
  obtain a where a: "lg_assessments l = [a]" "aw_id a = 1" using p(2) by auto
  obtain l1 where l1: "outcome_transaction agent_codec ''t2'' ''asm_1'' ''skipped'' None ''agent'' l = Inr ((), l1)"
    using a p(3,4)
    by (simp add: outcome_transaction_def TERMINAL_STATUSES_def validate_labels_def stamped_def BOOL_LABELS_def
        bool_label_ok_def cost_label_def LABEL_SOURCE_KEY_def assessment_exists_def record_outcome_row_def
        guidance_packet_id_for_assessment_def packet_of_def has_outcome_def Let_def)
  have "\<forall>t \<in> {RISK_BINARY, BENEFIT_BINARY}. \<forall>(a, e) \<in> set (production_errors (Some ''repo'') t l1). aw_id a \<noteq> 1"
    using agent_reports_never_train [OF r l1 rtranclp.rtrancl_refl row_id_demo,
        of "[(LABEL_SOURCE_KEY, VStr ''agent'')]" "Some ''repo''"]
    by (simp add: agent_codec_def)
  with r l1 show ?thesis by auto
qed

end
