(* ===== verification/Pebra_Fact_Roundtrip.thy ===== *)
theory Pebra_Fact_Roundtrip
  imports Pebra_Learning_Integrity
begin

text \<open>
  From the promotion gate to the override engine: what is promoted is stored as a row of learned facts, read
  back through the checks of the live read path, and applied. The two ends live in different files of the
  program and share no code; here they are composed.
\<close>

section \<open>The promoted fact\<close>

lemma judge_candidate_promotes:
  assumes "judge_candidate mt config rows candidate = Inr [Promote f]"
  obtains g where "mt_gate mt candidate rows config = Inr g" "pg_promoted g"
    "fact_of mt candidate (cr_target_type (hd rows)) (filter (in_scope candidate) rows) = Inr f"
  using assms by (auto simp: judge_candidate_def rbind_Inr_iff Let_def split: if_splits option.splits)

lemma fact_of_entries:
  assumes "fact_of mt candidate target_type cohort = Inr f"
  obtains v var al where "mt_value mt cohort = Inr v" "mt_variance mt cohort = Inr var"
    "mt_aleatoric_variance mt cohort = Inr al"
    "map_of (lf_fact_json f) ''value'' = Some (VFloat v)" "map_of (lf_fact_json f) ''weight'' = Some (vreal 1)"
    "map_of (lf_fact_json f) ''sample_size'' = Some (VInt (int (length cohort)))"
    "map_of (lf_fact_json f) ''calibration_method'' = Some (VStr (mt_calibration_method mt))"
    "map_of (lf_fact_json f) ''calibration_quality'' = Some (vreal 1)"
    "map_of (lf_fact_json f) ''scope_change_count'' = Some (VInt 0)"
    "map_of (lf_fact_json f) ''variance'' = Some (VFloat var)"
    "map_of (lf_fact_json f) ''aleatoric_variance'' = Some (VFloat al)"
    "lf_target_type f = target_type" "lf_target_name f = cx_target_name candidate"
    "lf_scope_kind f = cx_scope_kind candidate" "lf_scope_value f = cx_scope_value candidate"
    "lf_specificity_rank f = cx_specificity_rank candidate" "lf_scope_json f = cx_scope_json candidate"
  using assms by (auto simp: fact_of_def rbind_Inr_iff Let_def split: prod.splits)

text \<open>The observed rate of binary outcomes is a probability, and its variances are not negative.\<close>

lemma binary_outcomes:
  assumes "map_res outcome_of rows = Inr ys" and "\<And>row. row \<in> set rows \<Longrightarrow> cr_actual_outcome row \<in> {Some 0, Some 1}"
  shows "length ys = length rows" and "set ys \<subseteq> {0, 1}"
    and "sum_list ys = int (length (filter (\<lambda>row. cr_actual_outcome row = Some 1) rows))"
proof -
  have ys: "map Some ys = map cr_actual_outcome rows"
    using assms(1)
    by (induction rows arbitrary: ys) (auto simp: rbind_Inr_iff outcome_of_def split: option.splits)
  show "length ys = length rows" using ys by (metis length_map)
  have "Some ` set ys \<subseteq> {Some 0, Some 1}" using assms(2) arg_cong [OF ys, of set] by auto
  then show b: "set ys \<subseteq> {0, 1}" by auto
  show "sum_list ys = int (length (filter (\<lambda>row. cr_actual_outcome row = Some 1) rows))"
    by (simp add: sum_binary [OF b] count_flags [OF ys])
qed

lemma beta_nonneg:
  assumes "0 \<le> sum_list ys" and "sum_list ys \<le> int (length ys)"
  shows "0 \<le> beta_parameter ys" and "0 \<le> beta_aleatoric ys"
proof -
  have "0 \<le> beta_alpha ys" "0 \<le> beta_beta ys"
    using assms by (simp_all add: beta_alpha_def beta_beta_def)
  then show "0 \<le> beta_parameter ys" "0 \<le> beta_aleatoric ys"
    by (simp_all add: beta_parameter_def beta_aleatoric_def Let_def)
qed

section \<open>The stored row\<close>

text \<open>Reading a stored dictionary gives the same entries, as \<open>json.loads\<close> does for what \<open>json.dumps\<close> wrote from
  finite numbers and strings.\<close>

definition same_entries :: "json_codec \<Rightarrow> pyval dict \<Rightarrow> bool" where
  "same_entries codec d =
     (js_compact codec d \<noteq> [] \<and> (\<exists>d'. js_loads codec (js_compact codec d) = Inr (VDict d') \<and> map_of d' = map_of d))"

lemma dict_get_cong: "map_of d' = map_of d \<Longrightarrow> dict_get d' k v = dict_get d k v"
  by (simp add: dict_get_def)

lemma strip_plain:
  assumes "\<And>c. c \<in> set s \<Longrightarrow> 33 \<le> (of_char c :: nat) \<and> (of_char c :: nat) < 128"
  shows "strip s = s"
proof -
  have sp: "space_len (c # r) = 0" if "33 \<le> (of_char c :: nat) \<and> (of_char c :: nat) < 128" for c r
    using that by (auto simp: space_len_def is_ascii_space_def Let_def split: list.splits)
  have "rstrip s = s" using assms by (induction s) (auto simp: blank_def sp)
  moreover have "lstrip_rest 0 s = s" using assms by (cases s) (auto simp: sp)
  ultimately show ?thesis by (simp add: strip_def)
qed

lemma strip_method: "strip ''observed_rate_v1'' = ''observed_rate_v1''"
  by (rule strip_plain) auto

section \<open>Reading the row\<close>

text \<open>The numbers of a promoted binary fact pass every gate of the read path.\<close>

lemma binary_fact_numbers:
  assumes "fact_of binary_method candidate target_type cohort = Inr f" and "map_of d = map_of (lf_fact_json f)"
    and "mt_value binary_method cohort = Inr (Fin q)"
  shows "fact_numbers_of codec d = Inr
    \<lparr>fn_value = Fin q, fn_sample_size = int (length cohort), fn_method = ''observed_rate_v1'', fn_weight = Fin 1,
     fn_calibration_quality = Fin 1, fn_scope_change_count = 0\<rparr>"
proof -
  obtain v var al where e: "mt_value binary_method cohort = Inr v"
    "map_of (lf_fact_json f) ''value'' = Some (VFloat v)" "map_of (lf_fact_json f) ''weight'' = Some (vreal 1)"
    "map_of (lf_fact_json f) ''sample_size'' = Some (VInt (int (length cohort)))"
    "map_of (lf_fact_json f) ''calibration_method'' = Some (VStr (mt_calibration_method binary_method))"
    "map_of (lf_fact_json f) ''calibration_quality'' = Some (vreal 1)"
    "map_of (lf_fact_json f) ''scope_change_count'' = Some (VInt 0)"
    "map_of (lf_fact_json f) ''variance'' = Some (VFloat var)"
    "map_of (lf_fact_json f) ''aleatoric_variance'' = Some (VFloat al)"
    by (rule fact_of_entries [OF assms(1)])
  have "v = Fin q" using e(1) assms(3) by simp
  with e show ?thesis
    by (simp add: fact_numbers_of_def item_def dict_get_def assms(2) py_str_def binary_method_def strip_method)
qed

lemma usable_binary_numbers:
  assumes "MIN_CALIBRATION_SAMPLES \<le> n" and "0 \<le> c"
  shows "usable_numbers \<lparr>fn_value = Fin q, fn_sample_size = n, fn_method = ''observed_rate_v1'', fn_weight = Fin 1,
     fn_calibration_quality = Fin 1, fn_scope_change_count = c\<rparr>"
  using assms by (simp add: usable_numbers_def)

text \<open>A fact at weight 1 and quality 1 whose scope has not changed is applied.\<close>

lemma fresh_fact_auto_applies:
  assumes "ft_weight f = Fin 1" and "ft_calibration_quality f = Fin 1" and "ft_scope_change_count f = 0"
  shows "auto_applies f"
  using assms
  by (simp add: auto_applies_def effective_fact_weight_def effective_weight_def weight_applies_def
      should_auto_apply_def MIN_EFFECTIVE_WEIGHT_def DEFAULT_DECAY_STRENGTH_def)

text \<open>The payload names the action type of the input it is matched for, as far as the scope asks for it.\<close>

definition same_action_type :: "string \<Rightarrow> assessment_input \<Rightarrow> pyval dict \<Rightarrow> bool" where
  "same_action_type scope_kind inp features =
     (scope_kind = ''action_type'' \<longrightarrow>
        dict_get (feature_block features ''symbol'') ''action_type'' VNone = VStr (ca_action_type (ai_action inp)))"

text \<open>Assess time and promotion agree on the scope, except where the scope is a path.\<close>

lemma matches_is_scope:
  assumes "ft_scope_kind f \<noteq> ''path_glob''" and "same_action_type (ft_scope_kind f) inp features"
    and "ft_scope_kind f = k" "ft_scope_value f = v" "map_of (ft_scope_json f) = map_of j"
  shows "matches f inp (Some features) = scope_matches_features k v j features"
proof -
  have g: "dict_get (ft_scope_json f) key x = dict_get j key x" for key x by (rule dict_get_cong [OF assms(5)])
  have p: "percentile_reaches (ft_scope_json f) st = percentile_reaches j st" for st
    by (simp add: percentile_reaches_def g)
  show ?thesis
    using assms(1,2) by (simp add: matches_def scope_matches_features_def same_action_type_def Let_def g p assms(3,4))
qed

lemma active_fact_of_columns:
  assumes "active_fact_of codec l repo_id r = Inr a"
  shows "av_fact_json a = lr_fact_json r" "av_scope_json a = lr_scope_json r" "av_target_type a = lr_target_type r"
    "av_target_name a = lr_target_name r" "av_scope_kind a = lr_scope_kind r" "av_scope_value a = lr_scope_value r"
  using assms by (auto simp: active_fact_of_def rbind_Inr_iff)

lemma inserted_fact_columns:
  "lr_fact_json (last (insert_one_learned_fact codec t repo_id sid f table)) = js_compact codec (lf_fact_json f)"
  "lr_scope_json (last (insert_one_learned_fact codec t repo_id sid f table)) = js_compact codec (lf_scope_json f)"
  "lr_target_type (last (insert_one_learned_fact codec t repo_id sid f table)) = lf_target_type f"
  "lr_target_name (last (insert_one_learned_fact codec t repo_id sid f table)) = lf_target_name f"
  "lr_scope_kind (last (insert_one_learned_fact codec t repo_id sid f table)) = lf_scope_kind f"
  "lr_scope_value (last (insert_one_learned_fact codec t repo_id sid f table)) = lf_scope_value f"
  by (simp_all add: insert_one_learned_fact_def Let_def)

text \<open>Value and variances of a promoted binary cohort.\<close>

lemma binary_cohort:
  assumes "fact_of binary_method candidate target_type cohort = Inr f"
    and "\<And>row. row \<in> set cohort \<Longrightarrow> cr_actual_outcome row \<in> {Some 0, Some 1}"
  obtains ys where
    "mt_value binary_method cohort = Inr (Fin (real (length (filter (\<lambda>row. cr_actual_outcome row = Some 1) cohort))
       / real (length cohort)))"
    "mt_variance binary_method cohort = Inr (Fin (beta_parameter ys))" "0 \<le> beta_parameter ys"
    "mt_aleatoric_variance binary_method cohort = Inr (Fin (beta_aleatoric ys))" "0 \<le> beta_aleatoric ys"
proof -
  obtain v where "compute_empirical_value cohort = Inr v"
    using assms(1) by (auto simp: fact_of_def binary_method_def fin_res_def rbind_Inr_iff Let_def split: prod.splits)
  then obtain ys where ys: "outcomes_of cohort = Inr ys" by (auto simp: compute_empirical_value_def rbind_Inr_iff)
  then have "map_res outcome_of cohort = Inr ys" by (auto simp: outcomes_of_def rbind_Inr_iff)
  note b = binary_outcomes [OF this assms(2)]
  have "0 \<le> sum_list ys" "sum_list ys \<le> int (length ys)" by (simp_all add: b(1,3))
  note nonneg = beta_nonneg [OF this]
  show ?thesis
    by (rule that [of ys])
      (use ys b(1,3) nonneg in \<open>simp_all add: binary_method_def fin_res_def compute_empirical_value_def
        beta_parameter_variance_def binary_aleatoric_variance_def\<close>)
qed

section \<open>Property\<close>

text \<open>C30: What is promoted is read back and applied. When the risk or benefit gate promotes a binary fact over at
  least \<open>MIN_CALIBRATION_SAMPLES\<close> rows with outcomes 0 and 1, and the store reads back the two dictionaries that were
  written, the row stored for the fact passes the gate of the live read path and decodes to a fact for the same target
  whose value is the observed rate, a probability, over the number of rows it was learned from; the override engine
  finds it applicable and applies it while its scope has not changed. For every kind of scope that promotion derives
  (all but the path globs) it matches a feature payload exactly when the promotion gate counts such a payload as in
  scope; where the scope is an action type, for payloads that record the action type of the input they describe.\<close>

theorem promoted_facts_are_read_back:
  assumes "judge_candidate binary_method config rows candidate = Inr [Promote f]"
    and "MIN_CALIBRATION_SAMPLES \<le> cf_min_calibration_samples config"
    and "cr_target_type (hd rows) \<in> {RISK_BINARY, BENEFIT_BINARY}"
    and "\<And>row. row \<in> set rows \<Longrightarrow> cr_actual_outcome row \<in> {Some 0, Some 1}"
    and "same_entries codec (lf_fact_json f)" and "same_entries codec (lf_scope_json f)"
    and "active_fact_of codec l repo_id (last (insert_one_learned_fact codec t repo_id sid f table)) = Inr a"
  defines "cohort \<equiv> filter (in_scope candidate) rows"
  defines "q \<equiv> real (length (filter (\<lambda>row. cr_actual_outcome row = Some 1) cohort)) / real (length cohort)"
  shows "learned_fact_read_usable codec (av_fact_json a) = Inr True
    \<and> (\<exists>sf. build_fact codec a = Inr (Some sf) \<and> ft_target_name sf = cx_target_name candidate
         \<and> ft_value sf = Fin q \<and> 0 \<le> q \<and> q \<le> 1 \<and> ft_sample_size sf = int (length cohort)
         \<and> applicable sf \<and> (av_scope_change_count a = 0 \<longrightarrow> auto_applies sf)
         \<and> (cx_scope_kind candidate \<noteq> ''path_glob'' \<longrightarrow>
              (\<forall>inp row. same_action_type (cx_scope_kind candidate) inp (cr_features row) \<longrightarrow>
                 matches sf inp (Some (cr_features row)) = in_scope candidate row)))"
proof -
  obtain g where gate: "evaluate_promotion_gate candidate rows config = Inr g" "pg_promoted g"
    and f: "fact_of binary_method candidate (cr_target_type (hd rows)) cohort = Inr f"
    using judge_candidate_promotes [OF assms(1)] by (auto simp: binary_method_def cohort_def)
  have n: "MIN_CALIBRATION_SAMPLES \<le> int (length cohort)"
    using evaluate_promotion_gate_promoted [OF gate] assms(2) unfolding cohort_def by (meson order_trans)
  have flags: "\<And>row. row \<in> set cohort \<Longrightarrow> cr_actual_outcome row \<in> {Some 0, Some 1}"
    using assms(4) by (simp add: cohort_def)
  obtain ys where m: "mt_value binary_method cohort = Inr (Fin q)"
    "mt_variance binary_method cohort = Inr (Fin (beta_parameter ys))" "0 \<le> beta_parameter ys"
    "mt_aleatoric_variance binary_method cohort = Inr (Fin (beta_aleatoric ys))" "0 \<le> beta_aleatoric ys"
    unfolding q_def by (rule binary_cohort [OF f flags])
  have e: "map_of (lf_fact_json f) ''value'' = Some (VFloat (Fin q))"
    "map_of (lf_fact_json f) ''variance'' = Some (VFloat (Fin (beta_parameter ys)))"
    "map_of (lf_fact_json f) ''aleatoric_variance'' = Some (VFloat (Fin (beta_aleatoric ys)))"
    "lf_target_type f = cr_target_type (hd rows)" "lf_target_name f = cx_target_name candidate"
    "lf_scope_kind f = cx_scope_kind candidate" "lf_scope_value f = cx_scope_value candidate"
    "lf_scope_json f = cx_scope_json candidate"
    by (rule fact_of_entries [OF f]; use m in simp)+
  note cols = active_fact_of_columns [OF assms(7), unfolded inserted_fact_columns]
  obtain d where d: "js_compact codec (lf_fact_json f) \<noteq> []"
      "js_loads codec (js_compact codec (lf_fact_json f)) = Inr (VDict d)" "map_of d = map_of (lf_fact_json f)"
    using assms(5) by (auto simp: same_entries_def)
  obtain j where j: "js_compact codec (lf_scope_json f) \<noteq> []"
      "js_loads codec (js_compact codec (lf_scope_json f)) = Inr (VDict j)" "map_of j = map_of (lf_scope_json f)"
    using assms(6) by (auto simp: same_entries_def)
  note numbers = binary_fact_numbers [OF f d(3) m(1), of codec]
  have usable: "learned_fact_read_usable codec (av_fact_json a) = Inr True"
    using d numbers usable_binary_numbers [OF n, of 0]
    by (simp add: learned_fact_read_usable_def fact_dict_of_def cols)
  let ?sf = "\<lparr>ft_fact_id = av_fact_id a, ft_target_type = av_target_type a, ft_target_name = av_target_name a,
      ft_scope_kind = av_scope_kind a, ft_scope_value = av_scope_value a,
      ft_specificity_rank = av_specificity_rank a, ft_value = Fin q, ft_sample_size = int (length cohort),
      ft_calibration_method = ''observed_rate_v1'', ft_created_at = av_created_at a, ft_weight = Fin 1,
      ft_requires_human_ratification = False, ft_scope_json = j, ft_calibration_quality = Fin 1,
      ft_scope_change_count = max 0 (int (av_scope_change_count a)),
      ft_variance = Some (Fin (beta_parameter ys)), ft_aleatoric_variance = Some (Fin (beta_aleatoric ys))\<rparr>"
  have built: "build_fact codec a = Inr (Some ?sf)"
    using d j numbers usable_binary_numbers [OF n, of "max 0 (int (av_scope_change_count a))"] m(3,5)
    by (simp add: build_fact_def decode_fact_def fact_dict_of_def cols dict_has_def e opt_float_of_def dict_get_def
        opt_nonneg_def Let_def)
  have "q \<le> 1" by (simp add: q_def divide_le_eq_1 length_filter_le)
  moreover have "0 \<le> q" by (simp add: q_def)
  moreover have "applicable ?sf"
    using n m(3,5) assms(3)
    by (auto simp: applicable_def TARGET_TYPES_def cols e RISK_BINARY_def BENEFIT_BINARY_def MIN_CALIBRATION_SAMPLES_def)
  moreover have "matches ?sf inp (Some (cr_features row)) = in_scope candidate row"
    if "cx_scope_kind candidate \<noteq> ''path_glob''" "same_action_type (cx_scope_kind candidate) inp (cr_features row)" for inp row
    unfolding in_scope_def
    by (rule matches_is_scope) (use that j(3) in \<open>simp_all add: cols e\<close>)
  ultimately show ?thesis
    using usable built by (intro conjI exI [of _ ?sf]) (simp_all add: cols e fresh_fact_auto_applies)
qed

text \<open>A hundred rows of an event that never happened and was predicted at one half.\<close>

definition harmless_rows :: "calibration_row list" where
  "harmless_rows = replicate 100 harmless_row"

definition no_coverage_config :: promotion_config where
  "no_coverage_config = default_promotion_config\<lparr>cf_min_interval_coverage_samples := 101\<rparr>"

lemma map_res_replicate: "f x = Inr y \<Longrightarrow> map_res f (replicate n x) = Inr (replicate n y)"
  by (induction n) auto

lemma mean_replicate:
  "0 < n \<Longrightarrow> mean_brier (replicate n (p, y)) = Inr (brier_score p y)"
  "0 < n \<Longrightarrow> mean_log_loss (replicate n (p, y)) = Inr (log_loss_single p y)"
  by (simp_all add: mean_brier_def mean_log_loss_def require_pairs_def sum_list_replicate)

lemma harmless_safe: "filter do_harmful (replay_outcomes config rows (replicate n (p, 0))) = []"
  by (auto simp: replay_outcomes_def filter_empty_conv set_zip in_set_replicate)

lemma harmless_rows_promoted:
  "\<exists>r. evaluate_promotion_gate event_candidate harmless_rows no_coverage_config = Inr r \<and> pg_promoted r"
proof -
  have pair: "binary_pair harmless_row = Inr (0.5, 0)"
    by (simp add: binary_pair_def probability_of_def outcome_of_def harmless_row_def)
  have loo: "leave_one_out (replicate n (p, 0)) = replicate n (0, 0)" for n and p :: real
    by (simp add: leave_one_out_def sum_list_replicate map_replicate_const)
  have c4: "false_proceed_rate (c4_only (replay_outcomes config rows (replicate n (p, 0)))) = None"
    "false_proceed_rate (replay_outcomes config rows (replicate n (p, 0))) = None" for config rows n p
    using harmless_safe [of config rows n p]
    by (auto simp: false_proceed_rate_def c4_only_def share_def filter_empty_conv)
  have "ln (1 - LOG_LOSS_CLIP_EPS) < 0" "ln (1 / 2) < ln (1 - LOG_LOSS_CLIP_EPS)"
    by (simp_all add: LOG_LOSS_CLIP_EPS_def)
  then have ll: "log_loss_single (1 / 2) 0 > log_loss_single 0 0"
    by (simp add: log_loss_single_def LOG_LOSS_CLIP_EPS_def)
  have all: "filter (in_scope event_candidate) harmless_rows = replicate 100 harmless_row"
    by (simp add: harmless_rows_def)
  show ?thesis
    unfolding evaluate_promotion_gate_def all
    using ll
    by (simp add: map_res_replicate [where f = binary_pair and x = harmless_row, OF pair] loo mean_replicate c4 brier_score_def promotion_veto_def
        false_proceed_increased_def coverage_low_def no_coverage_config_def default_promotion_config_def Let_def
        MIN_CALIBRATION_SAMPLES_def)
qed

definition fact_codec :: "learned_fact \<Rightarrow> json_codec" where
  "fact_codec f = sample_codec\<lparr>js_compact := (\<lambda>d. if d = [] then ''{}'' else ''f''),
     js_loads := (\<lambda>s. Inr (VDict (if s = ''{}'' then [] else lf_fact_json f)))\<rparr>"

lemma promoted_facts_are_read_back_witness:
  "\<exists>f a sf. judge_candidate binary_method no_coverage_config harmless_rows event_candidate = Inr [Promote f]
     \<and> active_fact_of (fact_codec f) empty_ledger ''repo'' (last (insert_one_learned_fact (fact_codec f) ''t'' ''repo'' ''1'' f []))
         = Inr a
     \<and> build_fact (fact_codec f) a = Inr (Some sf) \<and> applicable sf \<and> auto_applies sf \<and> ft_value sf = Fin 0"
proof -
  obtain r where r: "evaluate_promotion_gate event_candidate harmless_rows no_coverage_config = Inr r" "pg_promoted r"
    using harmless_rows_promoted by blast
  have all: "filter (in_scope event_candidate) harmless_rows = harmless_rows" by (simp add: harmless_rows_def)
  have ys: "outcomes_of harmless_rows = Inr (replicate 100 0)"
    by (simp add: outcomes_of_def nonempty_rows_def harmless_rows_def outcome_of_def harmless_row_def
        map_res_replicate)
  obtain f where f: "fact_of binary_method event_candidate (cr_target_type (hd harmless_rows)) harmless_rows = Inr f"
    by (cases "extract_provider_provenance harmless_rows")
      (simp add: fact_of_def binary_method_def fin_res_def compute_empirical_value_def beta_parameter_variance_def
        binary_aleatoric_variance_def ys Let_def)
  have "mt_gate binary_method = evaluate_promotion_gate" "cx_scope_kind event_candidate = ''global''"
    by (simp_all add: binary_method_def event_candidate_def)
  then have j: "judge_candidate binary_method no_coverage_config harmless_rows event_candidate = Inr [Promote f]"
    using r f by (simp add: judge_candidate_def all Let_def is_graph_derived_scope_def)
  have e: "lf_scope_json f = []" "lf_fact_json f \<noteq> []"
    by (rule fact_of_entries [OF f]; auto simp: event_candidate_def)+
  obtain a where a: "active_fact_of (fact_codec f) empty_ledger ''repo''
      (last (insert_one_learned_fact (fact_codec f) ''t'' ''repo'' ''1'' f [])) = Inr a" "av_scope_change_count a = 0"
    by (simp add: active_fact_of_def verified_scope_change_count_def empty_ledger_def inserted_fact_columns e fact_codec_def)
  have "same_entries (fact_codec f) (lf_fact_json f)" "same_entries (fact_codec f) (lf_scope_json f)"
    by (simp_all add: same_entries_def fact_codec_def e)
  from promoted_facts_are_read_back [OF j _ _ _ this a(1)] j a show ?thesis
    by (fastforce simp: no_coverage_config_def default_promotion_config_def harmless_rows_def harmless_row_def
        RISK_BINARY_def)
qed

end
