(* ===== verification/Pebra_Learning_Chains.thy ===== *)
theory Pebra_Learning_Chains
  imports Pebra_Learning_Integrity
begin

text \<open>
  The audit chains of the learning ledger in every run, and the one value that breaks them: a number the
  database does not keep.
\<close>

section \<open>Inserting keeps a chain valid\<close>

definition codec_ok :: "json_codec \<Rightarrow> bool" where
  "codec_ok codec = (\<forall>d. stable codec d)"

lemma codec_ok_compact:
  "codec_ok codec \<Longrightarrow> \<exists>d'. js_loads codec (js_compact codec d) = Inr (VDict d') \<and> interchangeable codec (VDict d') (VDict d)"
  by (simp add: codec_ok_def stable_compact)

lemma outcome_row_valid:
  assumes "record_outcome_row codec t aid status detail l = Inr l'" and "codec_ok codec"
    and "validate_outcome_chain codec (lg_outcomes l) = Inr True"
  shows "validate_outcome_chain codec (lg_outcomes l') = Inr True"
proof -
  obtain i o' where o': "l' = l\<lparr>lg_outcomes := lg_outcomes l @ [o']\<rparr>" "oc_assessment_id o' = i"
    "oc_terminal_status o' = status" "oc_detail_json o' = js_compact codec detail" "oc_hash_version o' = 2"
    "oc_prev_hash o' = chain_last oc_row_hash (lg_outcomes l)"
    "oc_row_hash o' = row_hash (oc_prev_hash o')
       (outcome_canonical codec i status (VDict detail) (oc_recorded_at o') (oc_guidance_packet_id o') 2)"
    by (rule record_outcome_row_adds [OF assms(1)])
  obtain d where d: "js_loads codec (js_compact codec detail) = Inr (VDict d)"
      "interchangeable codec (VDict d) (VDict detail)"
    using codec_ok_compact [OF assms(2)] by blast
  have "outcome_canonical codec i status (VDict d) t' g 2 = outcome_canonical codec i status (VDict detail) t' g 2" for t' g
    unfolding outcome_canonical_def by (rule same_text) (simp add: d(2))
  then have "outcome_content codec o' = Inr (outcome_canonical codec i status (VDict detail) (oc_recorded_at o')
      (oc_guidance_packet_id o') 2)"
    by (simp add: outcome_content_def o' d(1))
  with o' assms(3) show ?thesis by (simp add: outcome_table.audited_append)
qed

lemma snapshot_row_valid:
  assumes "validate_risk_snapshot_chain codec rows = Inr True" and "codec_ok codec"
    and "ls_hash_version (lifecycle_of metrics) = 2" and "ls_drift_score (lifecycle_of metrics) \<noteq> Some NaN"
  shows "validate_risk_snapshot_chain codec (snd (insert_risk_snapshot codec t repo_id metrics status rows)) = Inr True"
proof -
  obtain d where d: "js_loads codec (js_compact codec metrics) = Inr (VDict d)"
      "interchangeable codec (VDict d) (VDict metrics)"
    using codec_ok_compact [OF assms(2)] by blast
  let ?lc = "lifecycle_of metrics"
  have keep: "?lc\<lparr>ls_drift_score := sql_float (ls_drift_score ?lc)\<rparr> = ?lc"
    using assms(4) by (cases ?lc) (simp add: sql_float_def)
  have spelled: "risk_snapshot_canonical codec repo_id status (VDict d) t ?lc
      = risk_snapshot_canonical codec repo_id status (VDict metrics) t ?lc"
    unfolding risk_snapshot_canonical_def by (rule same_text) (simp add: d(2))
  show ?thesis
    using assms(1,3) d(1) spelled
    by (simp add: insert_risk_snapshot_def Let_def keep last_risk_snapshot_hash_def snapshot_table.audited_snoc
        snapshot_content_def)
qed

lemma learned_fact_row_valid:
  assumes "validate_learned_risk_fact_chain codec rows = Inr True" and "codec_ok codec"
  shows "validate_learned_risk_fact_chain codec (insert_one_learned_fact codec t repo_id sid f rows) = Inr True"
proof -
  obtain s where s: "js_loads codec (js_compact codec (lf_scope_json f)) = Inr (VDict s)"
      "interchangeable codec (VDict s) (VDict (lf_scope_json f))"
    using codec_ok_compact [OF assms(2)] by blast
  obtain d where d: "js_loads codec (js_compact codec (lf_fact_json f)) = Inr (VDict d)"
      "interchangeable codec (VDict d) (VDict (lf_fact_json f))"
    using codec_ok_compact [OF assms(2)] by blast
  have "learned_fact_canonical codec r sid ft tt tn sk sv rank (VDict s) (VDict d) st q t
      = learned_fact_canonical codec r sid ft tt tn sk sv rank (VDict (lf_scope_json f)) (VDict (lf_fact_json f)) st q t"
    for r ft tt tn sk sv rank st q
    unfolding learned_fact_canonical_def by (rule same_text) (simp add: s(2) d(2))
  then show ?thesis
    using assms(1) s(1) d(1)
    by (simp add: insert_one_learned_fact_def Let_def last_learned_risk_fact_hash_def fact_table.audited_snoc fact_content_def)
qed

lemma learned_facts_valid:
  assumes "validate_learned_risk_fact_chain codec rows = Inr True" and "codec_ok codec"
  shows "validate_learned_risk_fact_chain codec (snd (insert_learned_facts codec t repo_id sid fs rows)) = Inr True"
  using assms(1)
proof (induction fs arbitrary: rows)
  case (Cons f fs)
  then show ?case using learned_fact_row_valid [OF Cons.prems assms(2)] by (simp add: case_prod_unfold Let_def)
qed simp

section \<open>The drift score is a number\<close>

text \<open>The facts that are read are usable, so their values are finite.\<close>

lemma filter_res_holds: "filter_res P xs = Inr ys \<Longrightarrow> y \<in> set ys \<Longrightarrow> y \<in> set xs \<and> P y = Inr True"
  by (induction xs arbitrary: ys) (auto simp: rbind_Inr_iff split: if_splits)

definition row_usable :: "json_codec \<Rightarrow> fact_row \<Rightarrow> bool" where
  "row_usable codec r = (learned_fact_read_usable codec (lr_fact_json r) = Inr True)"

lemma usable_family_usable: "usable_family codec ts rows = Inr ys \<Longrightarrow> \<forall>r \<in> set ys. row_usable codec r"
  by (auto simp: usable_family_def row_usable_def dest: filter_res_holds)

lemma take_family_usable:
  "\<forall>r \<in> set ys. row_usable codec r \<Longrightarrow> \<forall>r \<in> set (sn_rows s). row_usable codec r
    \<Longrightarrow> \<forall>r \<in> set (sn_rows (take_family i fam ys s)). row_usable codec r"
  by (auto simp: take_family_def)

lemma scan_snapshots_usable:
  assumes "scan_snapshots codec repo_id table ids st = Inr st'"
    and "\<forall>r \<in> set (sn_rows st). row_usable codec r"
  shows "\<forall>r \<in> set (sn_rows st'). row_usable codec r"
  using assms
proof (induction ids arbitrary: st)
  case (Cons i ids)
  show ?case
  proof (cases "{RISK_FAMILY, BENEFIT_FAMILY, COST_FAMILY} \<subseteq> set (sn_have st)")
    case True
    with Cons.prems show ?thesis by simp
  next
    case False
    obtain risk benefit cost where f: "usable_family codec RISK_FAMILY (candidate_rows repo_id i table) = Inr risk"
      "usable_family codec BENEFIT_FAMILY (candidate_rows repo_id i table) = Inr benefit"
      "usable_family codec COST_FAMILY (candidate_rows repo_id i table) = Inr cost"
      and rest: "scan_snapshots codec repo_id table ids (take_family i COST_FAMILY cost
                 (take_family i BENEFIT_FAMILY benefit (take_family i RISK_FAMILY risk st))) = Inr st'"
      using Cons.prems(1) False by (auto simp: rbind_Inr_iff Let_def)
    show ?thesis
      by (rule Cons.IH [OF rest]) (intro take_family_usable Cons.prems(2) usable_family_usable [OF f(1)]
        usable_family_usable [OF f(2)] usable_family_usable [OF f(3)])
  qed
qed simp

lemma active_facts_usable:
  assumes "read_active_snapshot_rows codec repo_id l = Inr (Some snap)" and "f \<in> set (as_facts snap)"
  shows "learned_fact_read_usable codec (av_fact_json f) = Inr True"
proof -
  obtain ids st where st: "scan_snapshots codec repo_id (lg_facts l) ids \<lparr>sn_ids = [], sn_rows = [], sn_have = []\<rparr> = Inr st"
    and fs: "map_res (active_fact_of codec l repo_id) (sort_key lr_id (sn_rows st)) = Inr (as_facts snap)"
    using assms(1) by (auto simp: read_active_snapshot_rows_def Let_def rbind_Inr_iff split: if_splits)
  obtain r where r: "r \<in> set (sn_rows st)" "active_fact_of codec l repo_id r = Inr f"
    using map_res_mem [OF fs assms(2)] by auto
  then have "av_fact_json f = lr_fact_json r" by (auto simp: active_fact_of_def rbind_Inr_iff)
  with scan_snapshots_usable [OF st] r(1) show ?thesis by (simp add: row_usable_def)
qed

lemma usable_numbers_of:
  assumes "learned_fact_read_usable codec s = Inr True"
  obtains d n where "fact_dict_of codec s = Inr (VDict d)" "fact_numbers_of codec d = Inr n" "usable_numbers n"
proof -
  obtain v where v: "fact_dict_of codec s = Inr v"
    using assms by (cases "fact_dict_of codec s") (auto simp: learned_fact_read_usable_def split: if_splits)
  obtain d where d: "v = VDict d"
    using assms v by (cases v) (auto simp: learned_fact_read_usable_def)
  show ?thesis
    using assms v d that by (cases "fact_numbers_of codec d") (auto simp: learned_fact_read_usable_def split: if_splits)
qed

lemma decoded_value_finite:
  assumes "decode_active_fact codec f = Inr (Some df)" and "learned_fact_read_usable codec (av_fact_json f) = Inr True"
  shows "is_finite_float (df_value df)"
proof -
  obtain d n where n: "fact_dict_of codec (av_fact_json f) = Inr (VDict d)" "fact_numbers_of codec d = Inr n" "usable_numbers n"
    by (rule usable_numbers_of [OF assms(2)])
  then obtain v where v: "item d ''value'' = Inr v" "py_float v = Inr (fn_value n)"
    by (auto simp: fact_numbers_of_def rbind_Inr_iff)
  then have "av_fact_json f \<noteq> []" using n(1) by (auto simp: fact_dict_of_def item_def)
  then have "js_loads codec (av_fact_json f) = Inr (VDict d)" using n(1) by (simp add: fact_dict_of_def)
  then have "df_value df = fn_value n"
    using assms(1) v
    by (cases "js_loads codec (av_scope_json f)") (auto simp: decode_active_fact_def split: if_splits)
  with n(3) show ?thesis by (simp add: usable_numbers_def)
qed

lemma drift_of_finite:
  assumes "drift_of rows df = Inr ds" and "is_finite_float (df_value df)" and "x \<in> set ds"
  shows "\<exists>r. x = Fin r"
  using assms
  by (cases "df_value df") (auto simp: drift_of_def Let_def rbind_Inr_iff split: if_splits)

lemma all_finite: "\<forall>x \<in> set xs. \<exists>r. x = Fin r \<Longrightarrow> \<exists>rs. xs = map Fin rs"
proof (induction xs)
  case (Cons x xs)
  then obtain r rs where "x = Fin r" "xs = map Fin rs" by auto
  then show ?case by (intro exI [of _ "r # rs"]) simp
qed simp

lemma compute_drift_finite:
  assumes "compute_drift active rows = Inr score" and "\<forall>df \<in> set active. is_finite_float (df_value df)"
  shows "\<exists>r. score = Fin r"
proof -
  obtain diffs where d: "map_res (drift_of rows) active = Inr diffs"
      "score = (if concat diffs = [] then Fin 0 else float_mean (concat diffs))"
    using assms(1) by (auto simp: compute_drift_def rbind_Inr_iff Let_def)
  have "\<exists>r. x = Fin r" if x: "x \<in> set (concat diffs)" for x
  proof -
    obtain ds where "ds \<in> set diffs" "x \<in> set ds" using x by auto
    then obtain df where "df \<in> set active" "drift_of rows df = Inr ds" using map_res_mem [OF d(1)] by blast
    with drift_of_finite \<open>x \<in> set ds\<close> assms(2) show ?thesis by blast
  qed
  then obtain rs where "concat diffs = map Fin rs" using all_finite by blast
  with d(2) show ?thesis by (auto simp: float_mean_def)
qed

lemma decode_active_facts_finite:
  assumes "read_active_snapshot_rows codec repo_id l = Inr snap" and "decode_active_facts codec snap = Inr active"
  shows "\<forall>df \<in> set active. is_finite_float (df_value df)"
proof (cases snap)
  case None
  with assms(2) show ?thesis by (simp add: decode_active_facts_def)
next
  case (Some s)
  obtain fs where fs: "map_res (decode_active_fact codec) (as_facts s) = Inr fs"
      "active = concat (map (\<lambda>f. case f of None \<Rightarrow> [] | Some x \<Rightarrow> [x]) fs)"
    using assms(2) Some by (auto simp: decode_active_facts_def rbind_Inr_iff)
  show ?thesis
  proof
    fix df assume "df \<in> set active"
    then have "Some df \<in> set fs" using fs(2) by (auto split: option.splits)
    then obtain f where "f \<in> set (as_facts s)" "decode_active_fact codec f = Inr (Some df)"
      using map_res_mem [OF fs(1)] by blast
    with decoded_value_finite active_facts_usable assms(1) Some show "is_finite_float (df_value df)" by blast
  qed
qed

definition finite_score :: "pyfloat option \<Rightarrow> bool" where
  "finite_score score = (score = None \<or> (\<exists>r. score = Some (Fin r)))"

lemma run_promotion_finished:
  assumes "run_promotion codec t repo_id config trigger_key l = Inr (p, l')"
  obtains (finished) collected score where "finite_score score"
      "finish_promotion codec t repo_id collected ''M5d_auto_promotion'' score
         [(''event_concern_budget'', vreal (cf_event_concern_budget config))] trigger_key l = Inr (p, l')"
  | (kept) "l' = l"
proof -
  let ?extra = "[(''event_concern_budget'', vreal (cf_event_concern_budget config))]"
  let ?fin = "\<lambda>collected score. finish_promotion codec t repo_id collected ''M5d_auto_promotion'' score ?extra trigger_key l"
  obtain all_rows collected d where
    d: "(case cf_drift_freeze_threshold config of
              None \<Rightarrow> Inr None
            | Some threshold \<Rightarrow>
                if fst collected = [] then Inr None
                else rbind (read_active_snapshot_rows codec repo_id l) (\<lambda>snap.
                     rbind (decode_active_facts codec snap) (\<lambda>active.
                     rbind (compute_drift active all_rows) (\<lambda>drift.
                       Inr (Some (drift, should_freeze drift threshold)))))) = Inr d"
    and res: "(case d of
        None \<Rightarrow> ?fin collected None
      | Some (score, is_frozen) \<Rightarrow>
          if is_frozen
          then Inr (no_promotion repo_id (snd (snd collected)) 0 [''DRIFT_FREEZE''] (Some score) True, l)
          else ?fin collected (Some score)) = Inr (p, l')"
    using assms unfolding run_promotion_def rbind_Inr_iff Let_def by blast
  show ?thesis
  proof (cases d)
    case None
    with res show ?thesis by (intro finished [of None collected]) (simp_all add: finite_score_def)
  next
    case (Some sf)
    obtain score fr where sf: "sf = (score, fr)" by fastforce
    obtain snap active where "read_active_snapshot_rows codec repo_id l = Inr snap"
        "decode_active_facts codec snap = Inr active" "compute_drift active all_rows = Inr score"
      using d Some sf by (auto simp: rbind_Inr_iff split: option.splits if_splits)
    then have "finite_score (Some score)"
      using compute_drift_finite decode_active_facts_finite by (auto simp: finite_score_def)
    with res Some sf show ?thesis by (cases fr) (auto intro: finished kept)
  qed
qed

section \<open>The chains of a run\<close>

definition chains_ok :: "json_codec \<Rightarrow> ledger \<Rightarrow> bool" where
  "chains_ok codec l =
     (validate_outcome_chain codec (lg_outcomes l) = Inr True
      \<and> validate_risk_snapshot_chain codec (lg_snapshots l) = Inr True
      \<and> validate_learned_risk_fact_chain codec (lg_facts l) = Inr True)"

lemma lifecycle_of_metrics:
  assumes "extra = [] \<or> (\<exists>v. extra = [(''event_concern_budget'', v)])"
  shows "lifecycle_of (snapshot_metrics_of codec repo_id fs reason score extra trigger_key)
    = \<lparr>ls_parent_snapshot_id = None, ls_created_from_outcome_hash = None, ls_promotion_reason = Some reason,
       ls_rollback_reason = None, ls_drift_score = score, ls_activated_at = None, ls_hash_version = 2\<rparr>"
  using assms
  by (cases trigger_key; cases score) (auto simp: lifecycle_of_def snapshot_metrics_of_def)

lemma chains_finish:
  assumes "finish_promotion codec t repo_id collected reason score extra trigger_key l = Inr (p, l')"
    and "extra = [] \<or> (\<exists>v. extra = [(''event_concern_budget'', v)])" and "finite_score score"
    and "codec_ok codec" and "chains_ok codec l"
  shows "chains_ok codec l'"
proof -
  obtain fs vetoes considered where c: "collected = (fs, vetoes, considered)" by (cases collected) auto
  let ?m = "snapshot_metrics_of codec repo_id fs reason score extra trigger_key"
  show ?thesis
  proof (cases "fs = []")
    case True
    with assms(1,5) c show ?thesis by (simp add: finish_promotion_def)
  next
    case False
    then obtain x where ins: "insert_learned_fact_batch_with_snapshot codec t repo_id ?m fs ''active'' l = Inr (x, l')"
      using assms(1) c by (auto simp: finish_promotion_def rbind_Inr_iff)
    obtain found where found: "(if dict_get ?m ''trigger_key'' VNone = VNone then Inr None
        else triggered_snapshot codec repo_id (dict_get ?m ''trigger_key'' VNone) (lg_snapshots l)) = Inr found"
      using ins False by (auto simp: insert_learned_fact_batch_with_snapshot_def Let_def rbind_Inr_iff split: if_splits)
    show ?thesis
    proof (cases found)
      case (Some s)
      with ins found False have "l' = l" by (simp add: insert_learned_fact_batch_with_snapshot_def Let_def)
      with assms(5) show ?thesis by simp
    next
      case None
      have "l' = l\<lparr>lg_snapshots := snd (insert_risk_snapshot codec t repo_id ?m ''active'' (lg_snapshots l)),
          lg_facts := snd (insert_learned_facts codec t repo_id
            (show_nat (fst (insert_risk_snapshot codec t repo_id ?m ''active'' (lg_snapshots l)))) fs (lg_facts l))\<rparr>"
        using ins found False None
        by (auto simp: insert_learned_fact_batch_with_snapshot_def Let_def split: prod.splits)
      then show ?thesis
        using assms(3,5) snapshot_row_valid [OF _ assms(4), of "lg_snapshots l" ?m] learned_facts_valid [OF _ assms(4)]
        by (auto simp: chains_ok_def lifecycle_of_metrics [OF assms(2)] finite_score_def)
    qed
  qed
qed

lemma chains_promotions:
  assumes "codec_ok codec" and "chains_ok codec l"
  shows "run_promotion codec t repo_id config trigger_key l = Inr (p, l') \<Longrightarrow> chains_ok codec l'"
    and "run_benefit_promotion codec t repo_id config trigger_key l = Inr (p, l') \<Longrightarrow> chains_ok codec l'"
    and "run_review_cost_promotion codec t repo_id config trigger_key l = Inr (p, l') \<Longrightarrow> chains_ok codec l'"
proof -
  have fin: "chains_ok codec l'"
    if "finish_promotion codec t repo_id collected reason score extra trigger_key l = Inr (p, l')"
      "extra = [] \<or> (\<exists>v. extra = [(''event_concern_budget'', v)])" "finite_score score"
    for collected reason score extra
    using chains_finish that assms by blast
  show "chains_ok codec l'" if "run_promotion codec t repo_id config trigger_key l = Inr (p, l')"
    using that by (cases rule: run_promotion_finished) (use fin assms(2) in auto)
  have none: "finite_score None" by (simp add: finite_score_def)
  show "chains_ok codec l'" if "run_benefit_promotion codec t repo_id config trigger_key l = Inr (p, l')"
    using that none by (auto simp: run_benefit_promotion_def rbind_Inr_iff split: prod.splits intro: fin)
  show "chains_ok codec l'" if "run_review_cost_promotion codec t repo_id config trigger_key l = Inr (p, l')"
    using that none by (auto simp: run_review_cost_promotion_def rbind_Inr_iff intro: fin)
qed

lemma measure_learning_snapshot:
  assumes "measure_learning codec t t' aid l = Inr (m, l')"
  obtains repo_id metrics where
    "lg_snapshots l' = snd (insert_risk_snapshot codec t' repo_id metrics ''shadow'' (lg_snapshots l))"
    "ls_hash_version (lifecycle_of metrics) = 2" "ls_drift_score (lifecycle_of metrics) = None"
    "lg_outcomes l' = lg_outcomes l" "lg_facts l' = lg_facts l"
proof -
  obtain rows repo_id proceeded ids n k where
    "insert_learning_measurement codec t t' aid rows repo_id
       [(''assessment_id'', VStr aid), (''targets'', VInt (int (length rows))), (''observed'', n), (''censored'', k)]
       ''shadow'' l = Inr (ids, l')"
    using assms by (auto simp: measure_learning_def rbind_Inr_iff Let_def split: prod.splits)
  then show ?thesis
    by (intro that [of repo_id "[(''assessment_id'', VStr aid), (''targets'', VInt (int (length rows))),
        (''observed'', n), (''censored'', k)]"])
      (auto simp: insert_learning_measurement_def Let_def rbind_Inr_iff lifecycle_of_def split: prod.splits if_splits)
qed

lemma chains_step:
  assumes "ledger_step codec l l'" and "ids_ok l" and "codec_ok codec" and "chains_ok codec l"
  shows "chains_ok codec l'"
  using assms(1)
proof (cases rule: ledger_step.cases)
  case (persists t result request predictions aid)
  from persist_frame [OF persists assms(2)] assms(4) show ?thesis by (simp add: chains_ok_def)
next
  case (verifies wording t aid completed preview actual contract_changes out v)
  with assms(4) show ?thesis by (simp add: chains_ok_def)
next
  case (sanctions event rows)
  with assms(4) show ?thesis by (simp add: chains_ok_def)
next
  case (records t aid status detail label_source)
  have row: "record_outcome_row codec t aid status (stamped detail label_source) l = Inr l'"
    by (rule outcome_transaction_cases [OF records])
  obtain o' where "l' = l\<lparr>lg_outcomes := lg_outcomes l @ [o']\<rparr>"
    by (rule record_outcome_row_adds [OF row])
  with outcome_row_valid [OF row assms(3)] assms(4) show ?thesis by (simp add: chains_ok_def)
next
  case (measures t t' aid m)
  then obtain repo_id metrics where
    "lg_snapshots l' = snd (insert_risk_snapshot codec t' repo_id metrics ''shadow'' (lg_snapshots l))"
    "ls_hash_version (lifecycle_of metrics) = 2" "ls_drift_score (lifecycle_of metrics) = None"
    "lg_outcomes l' = lg_outcomes l" "lg_facts l' = lg_facts l"
    by (rule measure_learning_snapshot)
  with snapshot_row_valid [OF _ assms(3)] assms(4) show ?thesis by (simp add: chains_ok_def)
qed (use chains_promotions [OF assms(3,4)] in blast)+

lemma chains_reachable: "reachable codec l \<Longrightarrow> codec_ok codec \<Longrightarrow> chains_ok codec l"
proof (induction rule: reachable.induct)
  case initial
  then show ?case by (simp add: chains_ok_def empty_ledger_def validate_outcome_chain_def validate_risk_snapshot_chain_def
        validate_learned_risk_fact_chain_def)
next
  case (further l l')
  then show ?case using chains_step sound_reachable by (auto simp: sound_ledger_def)
qed

section \<open>Properties\<close>

text \<open>C29: The learning chains validate in every run: whatever is persisted, verified, recorded, measured and
  promoted, in whatever order, the outcome chain validates and the live read path trusts its snapshots and
  facts; a drift score is always a number, so storing it loses nothing.\<close>

theorem learning_chains_stay_valid:
  assumes "reachable codec l" and "codec_ok codec"
  shows "validate_outcome_chain codec (lg_outcomes l) = Inr True \<and> validate_learning_chains codec l = Inr True"
  using chains_reachable [OF assms] by (simp add: chains_ok_def validate_learning_chains_def)

lemma rich_codec_ok: "codec_ok rich_codec"
proof -
  have "stable rich_codec d" for d
    by (auto simp: stable_def rich_codec_def sample_codec_def interchangeable_def map_of_append_key split: option.splits)
  then show ?thesis by (simp add: codec_ok_def)
qed

lemma learning_chains_stay_valid_witness:
  "\<exists>l. reachable rich_codec l \<and> length (lg_errors l) = 1 \<and> validate_learning_chains rich_codec l = Inr True"
proof -
  obtain l where l: "reachable rich_codec l" "length (lg_errors l) = 1" using learning_demo_run by blast
  with learning_chains_stay_valid [OF l(1) rich_codec_ok] show ?thesis by blast
qed

text \<open>C39: A NaN label poisons the calibration ledger. A host label \<open>actual_review_cost: NaN\<close> passes validation and
  makes the row observed; the database keeps NULL instead, so from then on the chain of prediction errors
  does not validate (unless the two texts collide), and every gate that reads the row raises.\<close>

theorem nan_label_poisons_the_ledger:
  assumes "lp_target_type pred = COST_CONTINUOUS" and "lp_target_name pred = ''review_cost''"
    and "lp_predicted_value pred = Some p"
    and "detail = stamped (Some [(''actual_review_cost'', VFloat NaN)]) ''host''"
    and "\<And>row. er_actual_value row = Some NaN \<Longrightarrow>
      prediction_error_canonical codec i row None 0 2 t \<noteq> prediction_error_canonical codec i (stored_columns row) None 0 2 t"
  shows "validate_labels (Some detail) = Inr ()
    \<and> (\<exists>row. error_row_of (extract_labels (Some detail)) mb md scope sm pred = Inr row
         \<and> er_outcome_label_status row = ''observed''
         \<and> (\<forall>cr. cr_actual_value cr = er_actual_value (stored_columns row) \<longrightarrow> \<not> is_ok (value_of cr))
         \<and> (validate_prediction_error_chain codec (insert_prediction_error_for_row_id codec i t row rows @ newer) \<noteq> Inr True
            \<or> (\<exists>h. collision_between {h @ prediction_error_canonical codec i row None 0 2 t}
                 {h @ prediction_error_canonical codec i (stored_columns row) None 0 2 t})))"
proof -
  have labels: "extract_labels (Some detail) = [(''actual_review_cost'', VFloat NaN)]"
    by (simp add: assms(4) extract_labels_def stamped_def LABEL_SOURCE_KEY_def LABEL_KEYS_def BOOL_LABELS_def COST_LABELS_def)
  have ok: "validate_labels (Some detail) = Inr ()"
    by (simp add: assms(4) validate_labels_def stamped_def LABEL_SOURCE_KEY_def BOOL_LABELS_def bool_label_ok_def
        cost_label_def)
  obtain row where row: "error_row_of (extract_labels (Some detail)) mb md scope sm pred = Inr row"
    "er_outcome_label_status row = ''observed''" "er_actual_value row = Some NaN"
    using assms(1-3)
    by (simp add: labels error_row_of_def target_type_defs continuous_actual_def need_number_def Let_def)
  let ?c = "prediction_error_canonical codec i row None 0 2 t"
    and ?c' = "prediction_error_canonical codec i (stored_columns row) None 0 2 t"
  have null: "er_actual_value (stored_columns row) = None" by (simp add: stored_columns_def row(3) sql_float_def)
  have "validate_prediction_error_chain codec (insert_prediction_error_for_row_id codec i t row rows @ newer) \<noteq> Inr True"
    if "\<not> (\<exists>h. collision_between {h @ ?c} {h @ ?c'})"
  proof -
    have "sha256_hex (h @ ?c) \<noteq> sha256_hex (h @ ?c')" for h
      using that assms(5) [OF row(3)] by (auto simp: collision_between_def)
    then have "validate_prediction_error_chain codec (insert_prediction_error_for_row_id codec i t row rows) \<noteq> Inr True"
      by (simp add: insert_prediction_error_for_row_id_def Let_def error_table.audited_snoc error_content_def row_hash_def)
    then show ?thesis using error_table.audited_prefix by blast
  qed
  moreover have "\<forall>cr. cr_actual_value cr = er_actual_value (stored_columns row) \<longrightarrow> \<not> is_ok (value_of cr)"
    by (simp add: null value_of_def)
  ultimately show ?thesis using ok row(1,2) by blast
qed

definition nan_codec :: json_codec where
  "nan_codec = sample_codec\<lparr>js_compact := (\<lambda>d. if map_of d ''actual_value'' = Some (VFloat NaN) then ''n'' else ''f'')\<rparr>"

lemma nan_codec_separates:
  "er_actual_value row = Some NaN \<Longrightarrow>
   prediction_error_canonical nan_codec i row None 0 2 t \<noteq> prediction_error_canonical nan_codec i (stored_columns row) None 0 2 t"
  by (simp add: nan_codec_def prediction_error_canonical_def error_legacy_fields_def stored_columns_def sql_float_def
      vfloat_opt_def)

lemma nan_label_poisons_the_ledger_witness:
  "validate_labels (Some (stamped (Some [(''actual_review_cost'', VFloat NaN)]) ''host'')) = Inr ()
   \<and> (\<exists>row. validate_prediction_error_chain nan_codec (insert_prediction_error_for_row_id nan_codec 1 ''t'' row []) \<noteq> Inr True
        \<or> (\<exists>h. collision_between {h @ prediction_error_canonical nan_codec 1 row None 0 2 ''t''}
             {h @ prediction_error_canonical nan_codec 1 (stored_columns row) None 0 2 ''t''}))"
proof -
  let ?pred = "sample_prediction COST_CONTINUOUS ''review_cost''"
  have "lp_target_type ?pred = COST_CONTINUOUS" "lp_target_name ?pred = ''review_cost''"
      "lp_predicted_value ?pred = Some 0.3"
    by (simp_all add: sample_prediction_def)
  from nan_label_poisons_the_ledger [OF this refl nan_codec_separates, where rows = "[]" and newer = "[]" and i = 1
      and t = "''t''" and mb = None and md = "[]" and scope = "''shadow''" and sm = 1]
  show ?thesis by (simp only: append_Nil2) blast
qed

end
