(* ===== verification/Pebra_Finalization.thy ===== *)
theory Pebra_Finalization
  imports Pebra_Learning_Chains
begin

text \<open>
  \<open>finalize_outcome\<close>, the one entry point that records, measures and promotes: every call is a run of the
  transactions of \<open>Pebra_Learning_Integrity\<close>, and a retry of a call that succeeded writes nothing.
\<close>

section \<open>A finalization is a run\<close>

definition runs :: "json_codec \<Rightarrow> 'a action \<Rightarrow> bool" where
  "runs codec m = (\<forall>l. (ledger_step codec)\<^sup>*\<^sup>* l (snd (m l)))"

lemma runs_abind: "runs codec m \<Longrightarrow> (\<And>x. runs codec (f x)) \<Longrightarrow> runs codec (abind m f)"
  unfolding runs_def abind_def
  by (auto split: prod.splits sum.splits) (metis rtranclp_trans snd_conv)+

lemma runs_pure [simp, intro]:
  "runs codec (areturn x)" "runs codec (afail e)" "runs codec (query f)" "runs codec (pure_res r)"
  by (simp_all add: runs_def areturn_def afail_def query_def pure_res_def)

lemma runs_transact: "(\<And>l x l'. f l = Inr (x, l') \<Longrightarrow> ledger_step codec l l') \<Longrightarrow> runs codec (transact f)"
  unfolding runs_def transact_def by (auto split: prod.splits sum.splits)

lemma runs_acatch: "runs codec m \<Longrightarrow> (\<And>e. runs codec (h e)) \<Longrightarrow> runs codec (acatch m handles h)"
  unfolding runs_def acatch_def
  by (auto split: prod.splits sum.splits) (metis rtranclp_trans snd_conv)+

lemma runs_record_outcome: "runs codec (record_outcome codec t materialize aid status detail label_source)"
  unfolding record_outcome_def
  by (rule runs_abind, rule runs_transact) (auto intro: ledger_step.records simp: runs_def)

lemma runs_ensure_outcome: "runs codec (ensure_outcome codec clock materialize aid status detail)"
  unfolding ensure_outcome_def
  by (intro runs_abind runs_pure) (auto intro!: runs_abind runs_acatch runs_record_outcome)

lemma runs_ensure_measurement: "runs codec (ensure_measurement codec clock aid)"
  unfolding ensure_measurement_def
  by (intro runs_abind runs_pure) (auto intro!: runs_abind runs_acatch runs_transact intro: ledger_step.measures)

text \<open>Finalizing is a run of the ledger. Whatever its arguments and whatever it answers, an exception included,
  \<open>finalize_outcome\<close> takes the ledger from one state to another through transactions of the program only, so
  every invariant of the reachable ledgers holds after it.\<close>

theorem finalization_is_a_run:
  "(ledger_step codec)\<^sup>*\<^sup>* l (snd (finalize_outcome codec clock materialize config assessment_id status detail l))"
proof -
  have "runs codec (finalize_outcome codec clock materialize config assessment_id status detail)"
    unfolding finalize_outcome_def Let_def
    by (intro runs_abind runs_ensure_outcome runs_ensure_measurement runs_pure runs_transact)
      (auto intro: ledger_step.intros)
  then show ?thesis by (simp add: runs_def)
qed

section \<open>What a promotion does not change\<close>

text \<open>Evidence is every table but those of the snapshots and the facts; the calibration rows, the outcomes and the
  measurements depend on it only.\<close>

definition same_evidence :: "ledger \<Rightarrow> ledger \<Rightarrow> bool" where
  "same_evidence l m = (\<exists>s f. m = l\<lparr>lg_snapshots := s, lg_facts := f\<rparr>)"

lemma same_evidence_refl [simp]: "same_evidence l l"
  unfolding same_evidence_def by (intro exI [of _ "lg_snapshots l"] exI [of _ "lg_facts l"]) simp

lemma same_evidence_trans: "same_evidence l m \<Longrightarrow> same_evidence m n \<Longrightarrow> same_evidence l n"
  unfolding same_evidence_def by (elim exE, simp, blast)

lemma same_evidence_extends: "extends_learning l m \<Longrightarrow> same_evidence l m"
  unfolding same_evidence_def by (erule extends_learningE) blast

lemma same_evidence_fields:
  assumes "same_evidence l m"
  shows "lg_assessments m = lg_assessments l" "lg_predictions m = lg_predictions l" "lg_errors m = lg_errors l"
    "lg_outcomes m = lg_outcomes l" "lg_guardrails m = lg_guardrails l" "lg_packets m = lg_packets l"
  using assms by (auto simp: same_evidence_def)

lemma same_evidence_queries:
  assumes "same_evidence l m"
  shows "load_outcomes codec aid m = load_outcomes codec aid l"
    and "prediction_errors_exist aid m = prediction_errors_exist aid l"
    and "repo_of codec aid m = repo_of codec aid l"
    and "measurement_rows codec aid m = measurement_rows codec aid l"
    and "load_production_calibration_rows codec repo tt m = load_production_calibration_rows codec repo tt l"
proof -
  note f = same_evidence_fields [OF assms]
  have o': "load_outcomes codec aid m = load_outcomes codec aid l" for aid
    by (simp add: load_outcomes_def outcomes_of_assessment_def f)
  have e: "prediction_errors_exist aid m = prediction_errors_exist aid l" for aid
    by (simp add: prediction_errors_exist_def errors_of_def f)
  have p: "load_predictions codec aid m = load_predictions codec aid l" for aid
    by (simp add: load_predictions_def predictions_of_def f)
  have d: "assessment_detail codec aid m = assessment_detail codec aid l" for aid
    by (simp add: assessment_detail_def load_assessment_def p o' f)
  show "load_outcomes codec aid m = load_outcomes codec aid l" by (rule o')
  show "prediction_errors_exist aid m = prediction_errors_exist aid l" by (rule e)
  show "repo_of codec aid m = repo_of codec aid l" by (simp add: repo_of_def d)
  show "measurement_rows codec aid m = measurement_rows codec aid l"
    by (simp only: measurement_rows_def p o' e d)
  have "captured_features codec m x = captured_features codec l x" for x by (simp add: captured_features_def f)
  then have "calibration_row_of codec m = calibration_row_of codec l"
    by (intro ext) (simp add: calibration_row_of_def)
  then show "load_production_calibration_rows codec repo tt m = load_production_calibration_rows codec repo tt l"
    by (simp add: load_production_calibration_rows_def production_errors_def f)
qed

section \<open>A trigger is written once\<close>

text \<open>A trigger key that was stored is read back, as \<open>json.loads\<close> does for a string.\<close>

definition reads_trigger :: "json_codec \<Rightarrow> string \<Rightarrow> bool" where
  "reads_trigger codec key =
     (\<forall>d. map_of d ''trigger_key'' = Some (VStr key) \<longrightarrow>
        (\<exists>d'. js_loads codec (js_compact codec d) = Inr (VDict d') \<and> map_of d' ''trigger_key'' = Some (VStr key)))"

lemma triggered_prefix:
  "triggered_snapshot codec repo_id key rows = Inr (Some s) \<Longrightarrow>
   triggered_snapshot codec repo_id key (rows @ more_rows) = Inr (Some s)"
  by (induction rows) (auto simp: rbind_Inr_iff split: if_splits)

lemma triggered_new:
  "triggered_snapshot codec repo_id key rows = Inr None \<Longrightarrow> triggered_snapshot codec repo_id key [s] = Inr (Some s) \<Longrightarrow>
   triggered_snapshot codec repo_id key (rows @ [s]) = Inr (Some s)"
  by (induction rows) (auto simp: rbind_Inr_iff split: if_splits)

lemma trigger_of_metrics:
  assumes "extra = [] \<or> (\<exists>v. extra = [(''event_concern_budget'', v)])"
  shows "map_of (snapshot_metrics_of codec repo_id fs reason score extra (Some key)) ''trigger_key'' = Some (VStr key)"
  using assms by (cases score) (auto simp: snapshot_metrics_of_def)

lemma triggered_after_finish:
  assumes "finish_promotion codec t repo_id (fs, vetoes, considered) reason None extra (Some key) l = Inr (p, l')"
    and "extra = [] \<or> (\<exists>v. extra = [(''event_concern_budget'', v)])" and "reads_trigger codec key" and "fs \<noteq> []"
  shows "\<exists>s. triggered_snapshot codec repo_id (VStr key) (lg_snapshots l') = Inr (Some s)"
proof -
  let ?m = "snapshot_metrics_of codec repo_id fs reason None extra (Some key)"
  note key = trigger_of_metrics [OF assms(2), of codec repo_id fs reason None key]
  then have get: "dict_get ?m ''trigger_key'' VNone = VStr key" by (simp add: dict_get_def)
  obtain x where ins: "insert_learned_fact_batch_with_snapshot codec t repo_id ?m fs ''active'' l = Inr (x, l')"
    using assms(1,4) by (auto simp: finish_promotion_def rbind_Inr_iff)
  obtain found where found: "triggered_snapshot codec repo_id (VStr key) (lg_snapshots l) = Inr found"
    using ins assms(4) by (auto simp: insert_learned_fact_batch_with_snapshot_def get rbind_Inr_iff)
  show ?thesis
  proof (cases found)
    case (Some s)
    with ins found assms(4) have "l' = l" by (simp add: insert_learned_fact_batch_with_snapshot_def get)
    with found Some show ?thesis by auto
  next
    case None
    let ?new = "insert_risk_snapshot codec t repo_id ?m ''active'' (lg_snapshots l)"
    obtain s where s: "snd ?new = lg_snapshots l @ [s]" "rs_repo_id s = repo_id" "rs_metrics_json s = js_compact codec ?m"
      by (auto simp: insert_risk_snapshot_def Let_def)
    obtain d where d: "js_loads codec (js_compact codec ?m) = Inr (VDict d)" "map_of d ''trigger_key'' = Some (VStr key)"
      using assms(3) key unfolding reads_trigger_def by blast
    have "triggered_snapshot codec repo_id (VStr key) [s] = Inr (Some s)"
      by (simp add: s loads_dict_def d dict_get_def)
    moreover have "lg_snapshots l' = lg_snapshots l @ [s]"
      using ins found None assms(4) s(1)
      by (auto simp: insert_learned_fact_batch_with_snapshot_def get Let_def split: prod.splits)
    ultimately show ?thesis using triggered_new found None by metis
  qed
qed

lemma finish_again:
  assumes "finish_promotion codec t repo_id collected reason None extra (Some key) l = Inr (p, l')"
    and "extra = [] \<or> (\<exists>v. extra = [(''event_concern_budget'', v)])" and "reads_trigger codec key"
    and "lg_snapshots m = lg_snapshots l' @ newer"
  shows "\<exists>q. finish_promotion codec t' repo_id collected reason None extra (Some key) m = Inr (q, m)"
proof -
  obtain fs vetoes considered where c: "collected = (fs, vetoes, considered)" by (cases collected) auto
  show ?thesis
  proof (cases "fs = []")
    case True
    then show ?thesis by (simp add: c finish_promotion_def)
  next
    case False
    obtain s where "triggered_snapshot codec repo_id (VStr key) (lg_snapshots l') = Inr (Some s)"
      using triggered_after_finish [OF assms(1) [unfolded c] assms(2,3) False] by blast
    then have "triggered_snapshot codec repo_id (VStr key) (lg_snapshots m) = Inr (Some s)"
      unfolding assms(4) by (rule triggered_prefix)
    moreover have "dict_get (snapshot_metrics_of codec repo_id fs reason None extra (Some key)) ''trigger_key'' VNone = VStr key"
      by (simp add: dict_get_def trigger_of_metrics [OF assms(2)])
    ultimately show ?thesis
      using False by (simp add: c finish_promotion_def insert_learned_fact_batch_with_snapshot_def)
  qed
qed

text \<open>A promotion that succeeded, run again later for the same trigger and without a drift threshold, writes
  nothing.\<close>

lemma promotion_again:
  assumes "same_evidence l m" and "lg_snapshots m = lg_snapshots l' @ newer" and "reads_trigger codec key"
  shows "run_promotion codec t repo_id config (Some key) l = Inr (p, l') \<Longrightarrow> cf_drift_freeze_threshold config = None \<Longrightarrow>
      \<exists>q. run_promotion codec t' repo_id config (Some key) m = Inr (q, m)"
    and "run_benefit_promotion codec t repo_id config (Some key) l = Inr (p, l') \<Longrightarrow>
      \<exists>q. run_benefit_promotion codec t' repo_id config (Some key) m = Inr (q, m)"
    and "run_review_cost_promotion codec t repo_id config (Some key) l = Inr (p, l') \<Longrightarrow>
      \<exists>q. run_review_cost_promotion codec t' repo_id config (Some key) m = Inr (q, m)"
proof -
  note rows = same_evidence_queries(5) [OF assms(1)]
  note again = finish_again [OF _ _ assms(3,2)]
  show "\<exists>q. run_promotion codec t' repo_id config (Some key) m = Inr (q, m)"
    if "run_promotion codec t repo_id config (Some key) l = Inr (p, l')" "cf_drift_freeze_threshold config = None"
    using that by (auto simp: run_promotion_def rows rbind_Inr_iff) (rule again, assumption, simp)
  show "\<exists>q. run_benefit_promotion codec t' repo_id config (Some key) m = Inr (q, m)"
    if "run_benefit_promotion codec t repo_id config (Some key) l = Inr (p, l')"
    using that by (auto simp: run_benefit_promotion_def collect_from_def rows rbind_Inr_iff) (rule again, assumption, simp)
  show "\<exists>q. run_review_cost_promotion codec t' repo_id config (Some key) m = Inr (q, m)"
    if "run_review_cost_promotion codec t repo_id config (Some key) l = Inr (p, l')"
    using that by (auto simp: run_review_cost_promotion_def collect_from_def rows rbind_Inr_iff) (rule again, assumption, simp)
qed

section \<open>Actions that write nothing\<close>

lemma abind_writes_nothing:
  "snd (m l) = l \<Longrightarrow> (\<And>x. m l = (Inr x, l) \<Longrightarrow> snd (f x l) = l) \<Longrightarrow> snd (abind m f l) = l"
  by (cases "m l"; cases "fst (m l)") (auto simp: abind_def)

lemma query_writes_nothing [simp]: "snd (query f l) = l" by (simp add: query_def)

lemma areturn_writes_nothing [simp]: "snd (areturn x l) = l" by (simp add: areturn_def)

lemma transact_writes_nothing: "f l = Inr (x, l) \<Longrightarrow> snd (transact f l) = l" by (simp add: transact_def)

lemma abind_InrE:
  assumes "abind m f l = (Inr x, l')"
  obtains y l1 where "m l = (Inr y, l1)" "f y l1 = (Inr x, l')"
  using assms by (auto simp: abind_def split: prod.splits sum.splits)

lemma query_Inr: "query f l = (Inr x, l') \<longleftrightarrow> f l = Inr x \<and> l' = l" by (auto simp: query_def)

lemma transact_Inr: "transact f l = (Inr x, l') \<longleftrightarrow> f l = Inr (x, l')"
  by (auto simp: transact_def split: prod.splits sum.splits)

lemma map_res_nonempty: "map_res f xs = Inr ys \<Longrightarrow> xs \<noteq> [] \<Longrightarrow> ys \<noteq> []"
  by (cases xs) (auto simp: rbind_Inr_iff)

text \<open>After an outcome has been ensured, a later call only compares.\<close>

lemma ensured_outcome:
  assumes "ensure_outcome codec clock materialize aid status detail l = (Inr r, l')"
  shows "load_outcomes codec aid l' \<noteq> Inr []"
proof -
  obtain outcomes where out: "load_outcomes codec aid l = Inr outcomes"
    using assms by (auto simp: ensure_outcome_def query_Inr elim!: abind_InrE)
  show ?thesis
  proof (cases "outcomes = []")
    case False
    with assms out show ?thesis
      by (auto simp: ensure_outcome_def query_Inr areturn_def elim!: abind_InrE)
  next
    case True
    let ?rec = "record_outcome codec (clock 0) (Some materialize) aid status detail ''host''"
    obtain a l1 where rec: "?rec l = (a, l1)" by fastforce
    show ?thesis
    proof (cases a)
      case (Inr x)
      then have "outcome_transaction codec (clock 0) aid status detail ''host'' l = Inr ((), l1)"
        using rec by (auto simp: record_outcome_def transact_Inr elim!: abind_InrE)
      then have "record_outcome_row codec (clock 0) aid status (stamped detail ''host'') l = Inr l1"
        by (rule outcome_transaction_cases)
      then obtain i o' where "row_id aid = Inr i" "l1 = l\<lparr>lg_outcomes := lg_outcomes l @ [o']\<rparr>" "oc_assessment_id o' = i"
        by (rule record_outcome_row_adds)
      then have "load_outcomes codec aid l1 \<noteq> Inr []"
        by (auto simp: load_outcomes_def outcomes_of_assessment_def dest!: map_res_nonempty)
      moreover have "l' = l1"
        using assms out True rec Inr
        by (auto simp: ensure_outcome_def query_Inr acatch_def elim!: abind_InrE split: sum.splits prod.splits)
      ultimately show ?thesis by simp
    next
      case (Inl e)
      then have "l1 = l"
        using rec by (auto simp: record_outcome_def abind_def transact_def split: prod.splits sum.splits)
      then have "matching_recorded_outcome codec aid status (stamped detail ''host'') l = Inr True \<and> l' = l"
        using assms out True rec Inl
        by (auto simp: ensure_outcome_def query_Inr acatch_def afail_def areturn_def elim!: abind_InrE split: if_splits)
      with out True show ?thesis by (auto simp: matching_recorded_outcome_def)
    qed
  qed
qed

text \<open>A measurement is refused as already made only when it was found made before; so once it has been ensured,
  a later call finds it made, or finds nothing to do.\<close>

lemma measurement_rows_unmeasured:
  "measurement_rows codec aid l = Inr x \<Longrightarrow> prediction_errors_exist aid l = Inr False"
  by (auto simp: measurement_rows_def rbind_Inr_iff split: if_splits)

lemma measured_afterwards:
  assumes "measure_learning codec t t' aid l = Inr (m, l')"
  shows "prediction_errors_exist aid l' = Inr True"
proof -
  obtain rows repo_id proceeded where rows: "measurement_rows codec aid l = Inr (rows, repo_id, proceeded)"
    using assms by (auto simp: measure_learning_def rbind_Inr_iff)
  obtain i rows' added s where m: "row_id aid = Inr i" "map pe_row added = map stored_columns rows'"
      "\<forall>e \<in> set added. pe_assessment_id e = i" "map target_of rows' = map prediction_target_of (predictions_of i l)"
      "l' = l\<lparr>lg_errors := lg_errors l @ added, lg_snapshots := lg_snapshots l @ [s]\<rparr>"
    using assms by (rule measure_learning_cases)
  have "load_predictions codec aid l \<noteq> Inr []" using rows by (auto simp: measurement_rows_def)
  then have "predictions_of i l \<noteq> []" by (auto simp: load_predictions_def m(1))
  then have "added \<noteq> []" using m(2,4) by auto
  then show ?thesis using m(1,3,5) by (cases added) (auto simp: prediction_errors_exist_def errors_of_def)
qed

text \<open>A measurement fails as already made only before it looks at the assessment, so with the same evidence it fails
  again.\<close>

lemma already_measured_again:
  assumes "measure_learning codec t t' aid l = Inl e" and "is_already_measured e" and "same_evidence l k"
  shows "measure_learning codec s s' aid k = Inl e"
proof (cases "measurement_rows codec aid l")
  case (Inl e')
  with assms(1) show ?thesis
    by (simp add: measure_learning_def same_evidence_queries(4) [OF assms(3)])
next
  case (Inr x)
  then have "prediction_errors_exist aid l = Inr False" by (rule measurement_rows_unmeasured)
  then obtain i where i: "row_id aid = Inr i" "errors_of i l = []"
    by (auto simp: prediction_errors_exist_def rbind_Inr_iff)
  obtain rows repo_id proceeded where x: "x = (rows, repo_id, proceeded)" by (cases x) auto
  have "insert_learning_measurement codec t t' aid rows r ms st l \<noteq> Inl e" for r ms st
    using assms(2) by (auto simp: insert_learning_measurement_def i Let_def split: prod.splits)
  with assms(1) Inr x show ?thesis
    by (auto simp: measure_learning_def Let_def rbind_def split: sum.splits prod.splits)
qed

lemma measured_again:
  assumes "ensure_measurement codec clock aid l = (Inr m, l')" and "same_evidence l' k"
  shows "ensure_measurement codec clock' aid k = (Inr None, k)"
proof -
  have found: ?thesis if "prediction_errors_exist aid l' = Inr True"
    using that by (simp add: ensure_measurement_def abind_def query_def areturn_def same_evidence_queries(2) [OF assms(2)])
  consider "prediction_errors_exist aid l = Inr True" | "prediction_errors_exist aid l = Inr False"
    using assms(1) by (cases "prediction_errors_exist aid l") (auto simp: ensure_measurement_def abind_def query_def)
  then show ?thesis
  proof cases
    case 1
    with assms(1) have "l' = l" by (auto simp: ensure_measurement_def abind_def query_def areturn_def)
    with 1 found show ?thesis by simp
  next
    case unmeasured: 2
    show ?thesis
    proof (cases "measure_learning codec (clock 1) (clock 2) aid l")
      case (Inr x)
      obtain y l1 where x: "x = (y, l1)" by fastforce
      with assms(1) Inr unmeasured have "l' = l1"
        by (auto simp: ensure_measurement_def abind_def query_def areturn_def acatch_def transact_def)
      with measured_afterwards Inr x found show ?thesis by blast
    next
      case (Inl e)
      with assms(1) unmeasured have e: "is_already_measured e" and [simp]: "l' = l"
        by (auto simp: ensure_measurement_def abind_def query_def areturn_def acatch_def transact_def split: if_splits)
      have "measure_learning codec (clock' 1) (clock' 2) aid k = Inl e"
        using already_measured_again [OF Inl e] assms(2) by simp
      moreover have "prediction_errors_exist aid k = Inr False"
        using unmeasured same_evidence_queries(2) [OF assms(2)] by simp
      ultimately show ?thesis
        using e by (simp add: ensure_measurement_def abind_def query_def areturn_def acatch_def transact_def)
    qed
  qed
qed

lemma outcome_again:
  assumes "load_outcomes codec aid k \<noteq> Inr []"
  shows "snd (ensure_outcome codec clock materialize aid status detail k) = k"
  using assms unfolding ensure_outcome_def
  by (intro abind_writes_nothing) (auto simp: query_def intro!: abind_writes_nothing)

lemma measured_outcomes:
  assumes "ensure_measurement codec clock aid l = (Inr m, l')"
  shows "load_outcomes codec aid' l' = load_outcomes codec aid' l"
proof (cases "measure_learning codec (clock 1) (clock 2) aid l")
  case (Inr x)
  obtain y l1 where x: "x = (y, l1)" by fastforce
  then have "lg_outcomes l1 = lg_outcomes l"
    using Inr by (auto elim!: measure_learning_cases)
  moreover have "l' = l \<or> l' = l1"
    using assms Inr x by (auto simp: ensure_measurement_def abind_def query_def areturn_def acatch_def transact_def
        split: sum.splits if_splits)
  ultimately show ?thesis by (auto simp: load_outcomes_def outcomes_of_assessment_def)
next
  case (Inl e)
  with assms show ?thesis
    by (auto simp: ensure_measurement_def abind_def query_def areturn_def acatch_def transact_def
        split: sum.splits if_splits)
qed

section \<open>A retry writes nothing\<close>

text \<open>A finalization that was answered is idempotent. When \<open>finalize_outcome\<close> returned, calling it again for
  the assessment, with any status, detail, clock and learning context, changes no table: the outcome is only compared
  with the recorded one, the measurement is found made, and each of the three promotions either has nothing to promote
  or finds the snapshot of its trigger. The codec reads a trigger key back as it was stored, and the promotion has no
  drift threshold, as in the default configuration.\<close>

theorem finalization_retry_writes_nothing:
  assumes "finalize_outcome codec clock materialize config aid status detail l = (Inr out, l')"
    and "cf_drift_freeze_threshold (case config of None \<Rightarrow> default_promotion_config | Some c \<Rightarrow> c) = None"
    and "\<And>family. family \<in> {''risk'', ''benefit'', ''review_cost''} \<Longrightarrow> reads_trigger codec (''finalize:'' @ aid @ '':'' @ family)"
  shows "snd (finalize_outcome codec clock' materialize' config aid status' detail' l') = l'"
proof -
  let ?config = "case config of None \<Rightarrow> default_promotion_config | Some c \<Rightarrow> c"
  obtain rec l1 m l2 repo risk l3 benefit l4 cost where
    outcome: "ensure_outcome codec clock materialize aid status detail l = (Inr rec, l1)"
    and measurement: "ensure_measurement codec clock aid l1 = (Inr m, l2)"
    and repo: "repo_of codec aid l2 = Inr repo"
    and risk: "run_promotion codec (clock 3) repo ?config (trigger aid ''risk'') l2 = Inr (risk, l3)"
    and benefit: "run_benefit_promotion codec (clock 4) repo ?config (trigger aid ''benefit'') l3 = Inr (benefit, l4)"
    and cost: "run_review_cost_promotion codec (clock 5) repo ?config (trigger aid ''review_cost'') l4 = Inr (cost, l')"
    using assms(1) unfolding finalize_outcome_def Let_def
    by (elim abind_InrE) (auto simp: query_Inr transact_Inr areturn_def)
  have same: "same_evidence l2 l3" "same_evidence l3 l4" "same_evidence l4 l'"
    using promotions_extend(1) [OF risk] promotions_extend(2) [OF benefit] promotions_extend(3) [OF cost]
    by (auto intro: same_evidence_extends)
  obtain s1 where s1: "lg_snapshots l4 = lg_snapshots l3 @ s1"
    using promotions_extend(2) [OF benefit] by (elim extends_learningE) simp
  obtain s2 where s2: "lg_snapshots l' = lg_snapshots l4 @ s2"
    using promotions_extend(3) [OF cost] by (elim extends_learningE) simp
  have from2: "same_evidence l2 l'" and from3: "same_evidence l3 l'"
    using same by (blast intro: same_evidence_trans)+
  have "load_outcomes codec aid l' = load_outcomes codec aid l1"
    using same_evidence_queries(1) [OF from2] measured_outcomes [OF measurement] by simp
  then have "load_outcomes codec aid l' \<noteq> Inr []" using ensured_outcome [OF outcome] by simp
  note outcome' = outcome_again [OF this]
  note measurement' = measured_again [OF measurement from2]
  have repo': "repo_of codec aid l' = Inr repo" using same_evidence_queries(3) [OF from2] repo by simp
  have key: "reads_trigger codec (''finalize:'' @ aid @ '':'' @ family)" if "family \<in> {''risk'', ''benefit'', ''review_cost''}" for family
    using assms(3) that .
  obtain p1 where p1: "run_promotion codec (clock' 3) repo ?config (trigger aid ''risk'') l' = Inr (p1, l')"
    using promotion_again(1) [OF from2 _ key [of "''risk''"] risk [unfolded trigger_def] assms(2)] s1 s2
    by (auto simp: trigger_def)
  obtain p2 where p2: "run_benefit_promotion codec (clock' 4) repo ?config (trigger aid ''benefit'') l' = Inr (p2, l')"
    using promotion_again(2) [OF from3 s2 key [of "''benefit''"] benefit [unfolded trigger_def]] by (auto simp: trigger_def)
  obtain p3 where p3: "run_review_cost_promotion codec (clock' 5) repo ?config (trigger aid ''review_cost'') l' = Inr (p3, l')"
    using promotion_again(3) [OF same(3) _ key [of "''review_cost''"] cost [unfolded trigger_def], of "[]"] by (auto simp: trigger_def)
  show ?thesis
    unfolding finalize_outcome_def Let_def
    by (rule abind_writes_nothing, rule outcome', rule abind_writes_nothing, simp add: measurement',
        rule abind_writes_nothing, simp, rule abind_writes_nothing, rule transact_writes_nothing)
      (auto simp: query_Inr repo' p1 p2 p3 intro!: abind_writes_nothing transact_writes_nothing)
qed

text \<open>A codec that keeps the trigger key, and a ledger with an assessment and one prediction.\<close>

definition keyed_content :: "string \<Rightarrow> pyval dict" where
  "keyed_content s = rich_content @ [(''trigger_key'', VStr s)]"

definition keyed_codec :: json_codec where
  "keyed_codec = rich_codec
     \<lparr>js_compact := (\<lambda>d. case map_of d ''trigger_key'' of Some (VStr s) \<Rightarrow> s | _ \<Rightarrow> []),
      js_loads := (\<lambda>s. Inr (VDict (keyed_content s)))\<rparr>"

lemma loads_keyed [simp]: "js_loads keyed_codec s = Inr (VDict (keyed_content s))"
  by (simp add: keyed_codec_def)

lemma keyed_reads: "reads_trigger keyed_codec key"
  by (simp add: reads_trigger_def keyed_codec_def keyed_content_def rich_content_def LABEL_SOURCE_KEY_def)

definition keyed_ledger :: ledger where
  "keyed_ledger = empty_ledger
     \<lparr>lg_assessments := [\<lparr>aw_id = 1, aw_repo_id = ''repo'', aw_decision = ''proceed'', aw_content_json = [],
        aw_prev_hash = [], aw_row_hash = []\<rparr>],
      lg_predictions := [\<lparr>ap_id = 1, ap_assessment_id = 1, ap_repo_id = ''repo'', ap_action_id = None,
        ap_target_type = ''risk_binary'', ap_target_name = ''p_success'', ap_predicted_value = Some 0.5,
        ap_prediction_scope = [], ap_label_status = [], ap_shadow_mode = 0, ap_features_json = [],
        ap_provenance_json = [], ap_hash_version = 2, ap_recorded_at = [], ap_prev_hash = [], ap_row_hash = []\<rparr>]\<rparr>"

lemma keyed_record:
  "\<exists>o'. outcome_transaction keyed_codec t ''asm_1'' ''skipped'' None ''host'' keyed_ledger
      = Inr ((), keyed_ledger\<lparr>lg_outcomes := [o']\<rparr>) \<and> oc_assessment_id o' = 1 \<and> oc_terminal_status o' = ''skipped''"
  by (simp add: outcome_transaction_def TERMINAL_STATUSES_def validate_labels_def stamped_def BOOL_LABELS_def
      bool_label_ok_def cost_label_def LABEL_SOURCE_KEY_def keyed_ledger_def empty_ledger_def assessment_exists_def
      record_outcome_row_def guidance_packet_id_for_assessment_def packet_of_def has_outcome_def latest_def Let_def)

lemma keyed_measure:
  assumes "oc_assessment_id o' = 1" "oc_terminal_status o' = ''skipped''"
  defines "l \<equiv> keyed_ledger\<lparr>lg_outcomes := [o']\<rparr>"
  shows "\<exists>m e s. measure_learning keyed_codec t t' ''asm_1'' l = Inr (m, l\<lparr>lg_errors := [e], lg_snapshots := [s]\<rparr>)
    \<and> er_shadow_mode (pe_row e) = 1"
proof -
  note [simp] = assms(1,2)
  obtain a p where f: "lg_assessments l = [a]" "aw_id a = 1" "aw_content_json a = []" "lg_predictions l = [p]" "ap_assessment_id p = 1"
      "ap_provenance_json p = []" "ap_target_type p = ''risk_binary''" "ap_target_name p = ''p_success''" "ap_predicted_value p = Some 0.5"
      "lg_outcomes l = [o']" "lg_errors l = []" "lg_guardrails l = []" "lg_packets l = []" "lg_snapshots l = []"
    by (simp add: l_def keyed_ledger_def empty_ledger_def)
  obtain x where x: "load_predictions keyed_codec ''asm_1'' l = Inr [x]" "lp_target_type x = ''risk_binary''"
      "lp_target_name x = ''p_success''" "lp_predicted_value x = Some 0.5" "lp_provenance x = VDict (keyed_content [])"
    by (simp add: f load_predictions_def predictions_of_def read_prediction_def)
  have outs: "load_outcomes keyed_codec ''asm_1'' l = Inr [\<lparr>lo_terminal_status = ''skipped'',
      lo_detail = VDict (keyed_content (oc_detail_json o')), lo_recorded_at = oc_recorded_at o'\<rparr>]"
    by (simp add: f load_outcomes_def outcomes_of_assessment_def)
  obtain y where y: "summarize_prior_provenance (map provenance_of [x]) = Inr y"
    by (simp add: summarize_prior_provenance_def target_prior_def provenance_of_def x dict_or_empty_def
        prior_block_def keyed_content_def rich_content_def LABEL_SOURCE_KEY_def Let_def)
  have detail: "assessment_detail keyed_codec ''asm_1'' l = Inr \<lparr>dv_content = keyed_content [], dv_guardrails = []\<rparr>"
    using y by (simp add: assessment_detail_def load_assessment_def f x outs as_dict_def packet_of_def)
  have labels: "labels_of (VDict (keyed_content (oc_detail_json o'))) = Inr [(''actual_success'', VBool True)]"
    by (simp add: labels_of_def as_dict_def extract_labels_def keyed_content_def rich_content_def LABEL_SOURCE_KEY_def
        LABEL_KEYS_def BOOL_LABELS_def COST_LABELS_def)
  have repo: "dict_get (keyed_content []) ''repo_id'' (VStr []) = VStr ''repo''"
    by (simp add: keyed_content_def rich_content_def LABEL_SOURCE_KEY_def)
  have "\<exists>row. measurement_rows keyed_codec ''asm_1'' l = Inr ([row], ''repo'', False) \<and> er_shadow_mode row = 1
      \<and> er_outcome_label_status row = ''observed''"
    by (simp add: measurement_rows_def x outs prediction_errors_exist_def errors_of_def labels detail f
        benefit_measurements_def repo measured_number_def build_error_rows_def error_row_of_def
        loaded_prediction.truncate_def target_type_defs binary_actual_def risk_actual_def need_number_def Let_def censored_row_def)
  then obtain row where "measurement_rows keyed_codec ''asm_1'' l = Inr ([row], ''repo'', False)" "er_shadow_mode row = 1"
      "er_outcome_label_status row = ''observed''" by blast
  then show ?thesis
    by (simp add: measure_learning_def insert_learning_measurement_def assessment_exists_def errors_of_def Let_def
        insert_prediction_error_for_row_id_def insert_risk_snapshot_def f)
      (intro exI conjI, rule refl, simp_all)
qed

lemma keyed_repo:
  assumes "oc_assessment_id o' = 1"
  shows "\<exists>r. repo_of keyed_codec ''asm_1'' (keyed_ledger\<lparr>lg_outcomes := [o'], lg_errors := es, lg_snapshots := ss\<rparr>) = Inr r"
proof -
  let ?l = "keyed_ledger\<lparr>lg_outcomes := [o'], lg_errors := es, lg_snapshots := ss\<rparr>"
  obtain a p where f: "lg_assessments ?l = [a]" "aw_id a = 1" "aw_content_json a = []" "lg_predictions ?l = [p]"
      "ap_assessment_id p = 1" "lg_outcomes ?l = [o']" "lg_guardrails ?l = []" "lg_packets ?l = []"
    by (simp add: keyed_ledger_def empty_ledger_def)
  obtain x where x: "load_predictions keyed_codec ''asm_1'' ?l = Inr [x]" "lp_provenance x = VDict (keyed_content (ap_provenance_json p))"
    unfolding load_predictions_def predictions_of_def f by (simp add: f(5) read_prediction_def)
  have outs: "is_ok (load_outcomes keyed_codec ''asm_1'' ?l)"
    unfolding load_outcomes_def outcomes_of_assessment_def f by (simp add: assms)
  then obtain os where os: "load_outcomes keyed_codec ''asm_1'' ?l = Inr os" by (auto simp: is_ok_iff)
  obtain y where y: "summarize_prior_provenance (map provenance_of [x]) = Inr y"
    by (simp add: summarize_prior_provenance_def target_prior_def provenance_of_def x dict_or_empty_def
        prior_block_def keyed_content_def rich_content_def LABEL_SOURCE_KEY_def Let_def)
  show ?thesis
    unfolding repo_of_def assessment_detail_def load_assessment_def f
    by (simp add: x(1) os y [simplified] f(2) as_dict_def packet_of_def keyed_content_def rich_content_def LABEL_SOURCE_KEY_def)
qed

lemma collect_none: "collect_facts mt config [] = Inr ([], [], 0)"
  by (simp add: collect_facts_def target_candidates_def targets_of_def first_occurrences_def)

text \<open>Nothing to promote while no error is of a production row.\<close>

lemma shadow_only:
  assumes "\<forall>e \<in> set (lg_errors l). er_shadow_mode (pe_row e) = 1" and "target_type \<in> set TARGET_TYPES"
  shows "load_production_calibration_rows codec repo target_type l = Inr []"
  using assms by (auto simp: load_production_calibration_rows_def production_errors_def calibration_view_def filter_empty_conv)

lemma finalization_retry_writes_nothing_witness:
  "\<exists>out l'. finalize_outcome keyed_codec (\<lambda>_. ''t'') (\<lambda>_ _. Inr False) None ''asm_1'' ''skipped'' None keyed_ledger = (Inr out, l')
    \<and> lg_outcomes l' \<noteq> [] \<and> lg_errors l' \<noteq> []
    \<and> snd (finalize_outcome keyed_codec (\<lambda>_. ''later'') (\<lambda>_ _. Inr True) None ''asm_1'' ''completed'' None l') = l'"
proof -
  obtain o' where o': "outcome_transaction keyed_codec ''t'' ''asm_1'' ''skipped'' None ''host'' keyed_ledger
      = Inr ((), keyed_ledger\<lparr>lg_outcomes := [o']\<rparr>)" "oc_assessment_id o' = 1" "oc_terminal_status o' = ''skipped''"
    using keyed_record by blast
  let ?l1 = "keyed_ledger\<lparr>lg_outcomes := [o']\<rparr>"
  obtain m e s where m: "measure_learning keyed_codec ''t'' ''t'' ''asm_1'' ?l1
      = Inr (m, ?l1\<lparr>lg_errors := [e], lg_snapshots := [s]\<rparr>)" "er_shadow_mode (pe_row e) = 1"
    using keyed_measure [OF o'(2,3)] by blast
  let ?l2 = "?l1\<lparr>lg_errors := [e], lg_snapshots := [s]\<rparr>"
  have none: "load_outcomes keyed_codec ''asm_1'' keyed_ledger = Inr []"
    by (simp add: load_outcomes_def outcomes_of_assessment_def keyed_ledger_def empty_ledger_def)
  have outcome: "\<exists>r. ensure_outcome keyed_codec (\<lambda>_. ''t'') (\<lambda>_ _. Inr False) ''asm_1'' ''skipped'' None keyed_ledger = (Inr r, ?l1)"
    by (simp add: ensure_outcome_def abind_def query_def acatch_def record_outcome_def transact_def o'(1) none)
  have unmeasured: "prediction_errors_exist ''asm_1'' ?l1 = Inr False"
    by (simp add: prediction_errors_exist_def errors_of_def keyed_ledger_def empty_ledger_def)
  have measured: "ensure_measurement keyed_codec (\<lambda>_. ''t'') ''asm_1'' ?l1 = (Inr (Some m), ?l2)"
    by (simp add: ensure_measurement_def abind_def query_def acatch_def transact_def m(1) areturn_def unmeasured)
  obtain r where repo: "repo_of keyed_codec ''asm_1'' ?l2 = Inr r"
    using keyed_repo [OF o'(2), of "[s]" "[e]"] by auto
  have none: "load_production_calibration_rows keyed_codec (Some r) RISK_BINARY ?l2 = Inr []"
      "load_production_calibration_rows keyed_codec (Some r) BENEFIT_BINARY ?l2 = Inr []"
      "load_production_calibration_rows keyed_codec (Some r) BENEFIT_CONTINUOUS ?l2 = Inr []"
      "load_production_calibration_rows keyed_codec (Some r) COST_CONTINUOUS ?l2 = Inr []"
    using m(2) by (auto intro!: shadow_only simp: TARGET_TYPES_def target_type_defs)
  have promotions: "\<exists>q. run_promotion keyed_codec ''t'' r default_promotion_config k ?l2 = Inr (q, ?l2)"
      "\<exists>q. run_benefit_promotion keyed_codec ''t'' r default_promotion_config k ?l2 = Inr (q, ?l2)"
      "\<exists>q. run_review_cost_promotion keyed_codec ''t'' r default_promotion_config k ?l2 = Inr (q, ?l2)" for k
    by (simp_all add: run_promotion_def run_benefit_promotion_def run_review_cost_promotion_def collect_from_def
        none collect_none finish_promotion_def default_promotion_config_def)
  obtain r0 where r0: "ensure_outcome keyed_codec (\<lambda>_. ''t'') (\<lambda>_ _. Inr False) ''asm_1'' ''skipped'' None keyed_ledger = (Inr r0, ?l1)"
    using outcome by blast
  obtain q1 where q1: "run_promotion keyed_codec ''t'' r default_promotion_config (trigger ''asm_1'' ''risk'') ?l2 = Inr (q1, ?l2)"
    using promotions(1) by blast
  obtain q2 where q2: "run_benefit_promotion keyed_codec ''t'' r default_promotion_config (trigger ''asm_1'' ''benefit'') ?l2 = Inr (q2, ?l2)"
    using promotions(2) by blast
  obtain q3 where q3: "run_review_cost_promotion keyed_codec ''t'' r default_promotion_config (trigger ''asm_1'' ''review_cost'') ?l2 = Inr (q3, ?l2)"
    using promotions(3) by blast
  have "\<exists>out. finalize_outcome keyed_codec (\<lambda>_. ''t'') (\<lambda>_ _. Inr False) None ''asm_1'' ''skipped'' None keyed_ledger = (Inr out, ?l2)"
    by (simp add: finalize_outcome_def abind_def query_def transact_def areturn_def r0 measured repo q1 q2 q3)
  then obtain out where run: "finalize_outcome keyed_codec (\<lambda>_. ''t'') (\<lambda>_ _. Inr False) None ''asm_1'' ''skipped'' None keyed_ledger = (Inr out, ?l2)"
    by blast
  have "snd (finalize_outcome keyed_codec (\<lambda>_. ''later'') (\<lambda>_ _. Inr True) None ''asm_1'' ''completed'' None ?l2) = ?l2"
    by (rule finalization_retry_writes_nothing [OF run])
      (simp_all add: keyed_reads default_promotion_config_def)
  with run show ?thesis by (intro exI [of _ out] exI [of _ ?l2]) simp
qed

end
