(* ===== verification/Pebra_Gate_Contract.thy ===== *)
theory Pebra_Gate_Contract
  imports Pebra_Assessment_Ledger
begin

text \<open>
  \<open>pebra/core/gate_contract.py\<close> and the class \<open>GateDecision\<close> of \<open>adapters/gate_check_adapter.py\<close>: the answers
  of the pre-edit gate. The constructors check the tables of allowed combinations and raise, so a decision
  that exists satisfies the contract; that the gate never trips over its own checks is a property of
  \<open>Pebra_Gate_Check\<close>.
\<close>

datatype gate_permission = CONTINUE | RETURN_CANDIDATE | REQUEST_HUMAN

fun gate_permission_value :: "gate_permission \<Rightarrow> string" where
  "gate_permission_value CONTINUE = ''allow''"
| "gate_permission_value RETURN_CANDIDATE = ''deny''"
| "gate_permission_value REQUEST_HUMAN = ''ask''"

datatype gate_tier =
  GT_PASS | GT_FAIL_OPEN | GT_MUST_CONSULT | GT_CANDIDATE_UNVERIFIABLE | GT_CANDIDATE_UNBOUND
  | GT_CANDIDATE_MISMATCH | GT_CANDIDATE_INCOMPLETE | GT_CONSULTED | GT_CONSULTED_REVISE
  | GT_CONSULTED_PREREQUISITE | GT_CONSULTED_REVIEW | GT_CONSULTED_REJECT_REVIEW
  | GT_CONSULTED_REVIEW_UNAVAILABLE

fun gate_tier_value :: "gate_tier \<Rightarrow> string" where
  "gate_tier_value GT_PASS = ''pass''"
| "gate_tier_value GT_FAIL_OPEN = ''fail_open''"
| "gate_tier_value GT_MUST_CONSULT = ''must_consult''"
| "gate_tier_value GT_CANDIDATE_UNVERIFIABLE = ''candidate_unverifiable''"
| "gate_tier_value GT_CANDIDATE_UNBOUND = ''candidate_unbound''"
| "gate_tier_value GT_CANDIDATE_MISMATCH = ''candidate_mismatch''"
| "gate_tier_value GT_CANDIDATE_INCOMPLETE = ''candidate_incomplete''"
| "gate_tier_value GT_CONSULTED = ''consulted''"
| "gate_tier_value GT_CONSULTED_REVISE = ''consulted_revise''"
| "gate_tier_value GT_CONSULTED_PREREQUISITE = ''consulted_prerequisite''"
| "gate_tier_value GT_CONSULTED_REVIEW = ''consulted_review''"
| "gate_tier_value GT_CONSULTED_REJECT_REVIEW = ''consulted_reject_review''"
| "gate_tier_value GT_CONSULTED_REVIEW_UNAVAILABLE = ''consulted_review_unavailable''"

definition allowed_tier :: "gate_permission \<Rightarrow> gate_tier \<Rightarrow> bool" where
  "allowed_tier permission tier =
     (case permission of
        CONTINUE \<Rightarrow> tier \<in> {GT_PASS, GT_FAIL_OPEN, GT_CONSULTED}
      | REQUEST_HUMAN \<Rightarrow> tier \<in> {GT_CONSULTED_REVIEW, GT_CONSULTED_REJECT_REVIEW}
      | RETURN_CANDIDATE \<Rightarrow> tier \<notin> {GT_PASS, GT_FAIL_OPEN, GT_CONSULTED, GT_CONSULTED_REJECT_REVIEW})"

definition allowed_risk_decisions :: "gate_permission \<Rightarrow> gate_tier \<Rightarrow> decision list" where
  "allowed_risk_decisions permission tier =
     (case (permission, tier) of
        (CONTINUE, GT_CONSULTED) \<Rightarrow> [PROCEED]
      | (RETURN_CANDIDATE, GT_CONSULTED_REVISE) \<Rightarrow> [REVISE_SAFER]
      | (RETURN_CANDIDATE, GT_CONSULTED_PREREQUISITE) \<Rightarrow> [INSPECT_FIRST, TEST_FIRST]
      | (REQUEST_HUMAN, GT_CONSULTED_REVIEW) \<Rightarrow> [ASK_HUMAN, PROCEED]
      | (REQUEST_HUMAN, GT_CONSULTED_REJECT_REVIEW) \<Rightarrow> [REJECT]
      | (RETURN_CANDIDATE, GT_CONSULTED_REVIEW) \<Rightarrow> [REJECT]
      | (RETURN_CANDIDATE, GT_CONSULTED_REVIEW_UNAVAILABLE) \<Rightarrow> [ASK_HUMAN, PROCEED]
      | _ \<Rightarrow> [])"

section \<open>The risk summary\<close>

record gate_risk_summary =
  gr_decision :: decision
  gr_expected_loss :: real
  gr_benefit :: real
  gr_rau :: real

definition make_risk_summary :: "pyval \<Rightarrow> pyval \<Rightarrow> pyval \<Rightarrow> pyval \<Rightarrow> gate_risk_summary res" where
  "make_risk_summary d l b r =
     (case (case d of VStr s \<Rightarrow> decision_of_value s | _ \<Rightarrow> None) of
        None \<Rightarrow> Inl (ValueError ''not a valid Decision'')
      | Some dec \<Rightarrow>
          if \<not> list_all finite_number [l, b, r]
          then Inl (ValueError ''gate risk summary values must be finite numbers'')
          else Inr \<lparr>gr_decision = dec, gr_expected_loss = number_value l,
                    gr_benefit = number_value b, gr_rau = number_value r\<rparr>)"

definition risk_summary_dict :: "gate_risk_summary \<Rightarrow> pyval dict" where
  "risk_summary_dict s =
     [(''decision'', VStr (decision_value (gr_decision s))), (''expected_loss'', vreal (gr_expected_loss s)),
      (''benefit'', vreal (gr_benefit s)), (''rau'', vreal (gr_rau s))]"

section \<open>The decision\<close>

record gate_decision =
  gd_permission :: gate_permission
  gd_tier :: gate_tier
  gd_reason :: "string option"
  gd_warn :: "string option"
  gd_risk_summary :: "gate_risk_summary option"
  gd_matched_assessment_id :: "string option"

text \<open>\<open>asm_[1-9][0-9]*\<close>.\<close>

definition exact_assessment_id :: "string \<Rightarrow> bool" where
  "exact_assessment_id s =
     (starts_with s ''asm_''
      \<and> (case drop 4 s of [] \<Rightarrow> False | c # r \<Rightarrow> is_digit c \<and> c \<noteq> CHR ''0'' \<and> list_all is_digit r))"

text \<open>The checks of \<open>__post_init__\<close>, in order.\<close>

definition gate_contract :: "gate_decision \<Rightarrow> bool" where
  "gate_contract d =
     (allowed_tier (gd_permission d) (gd_tier d)
      \<and> (gd_permission d \<noteq> CONTINUE \<longrightarrow> (\<exists>r. gd_reason d = Some r \<and> \<not> blank r))
      \<and> (\<forall>s. gd_risk_summary d = Some s \<longrightarrow>
           gr_decision s \<in> set (allowed_risk_decisions (gd_permission d) (gd_tier d))
           \<and> (\<exists>i. gd_matched_assessment_id d = Some i \<and> exact_assessment_id i))
      \<and> (gd_tier d = GT_CONSULTED_REJECT_REVIEW \<longrightarrow> gd_risk_summary d \<noteq> None))"

definition make_gate_decision :: "gate_decision \<Rightarrow> gate_decision res" where
  "make_gate_decision d =
     (if \<not> allowed_tier (gd_permission d) (gd_tier d)
      then Inl (ValueError ''undeclared gate permission/tier pair'')
      else if gd_permission d \<noteq> CONTINUE \<and> (case gd_reason d of None \<Rightarrow> True | Some r \<Rightarrow> blank r)
      then Inl (ValueError ''restrictive gate decisions require an actionable reason'')
      else if (case gd_risk_summary d of None \<Rightarrow> False
               | Some s \<Rightarrow> gr_decision s \<notin> set (allowed_risk_decisions (gd_permission d) (gd_tier d)))
      then Inl (ValueError ''gate risk summary decision does not match its permission/tier'')
      else if gd_tier d = GT_CONSULTED_REJECT_REVIEW \<and> gd_risk_summary d = None
      then Inl (ValueError ''consulted reject review requires finite exact risk evidence'')
      else if gd_risk_summary d \<noteq> None
              \<and> (case gd_matched_assessment_id d of None \<Rightarrow> True | Some i \<Rightarrow> \<not> exact_assessment_id i)
      then Inl (ValueError ''gate risk summary requires an exact matched assessment id'')
      else Inr d)"

definition GATE_SCHEMA_VERSION :: int where "GATE_SCHEMA_VERSION = 2"

definition gate_decision_dict :: "bool \<Rightarrow> gate_decision \<Rightarrow> pyval dict" where
  "gate_decision_dict include_host_metadata d =
     [(''schema_version'', VInt GATE_SCHEMA_VERSION),
      (''permission'', VStr (gate_permission_value (gd_permission d))),
      (''tier'', VStr (gate_tier_value (gd_tier d))),
      (''reason'', vopt (gd_reason d)), (''warn'', vopt (gd_warn d)),
      (''risk_summary'', case gd_risk_summary d of None \<Rightarrow> VNone | Some s \<Rightarrow> VDict (risk_summary_dict s))]
     @ (if include_host_metadata then [(''matched_assessment_id'', vopt (gd_matched_assessment_id d))] else [])"

text \<open>A decision without a summary, and one about a matched assessment.\<close>

definition plain_decision :: "gate_permission \<Rightarrow> gate_tier \<Rightarrow> string option \<Rightarrow> string option \<Rightarrow> gate_decision res" where
  "plain_decision permission tier reason warn =
     make_gate_decision \<lparr>gd_permission = permission, gd_tier = tier, gd_reason = reason, gd_warn = warn,
       gd_risk_summary = None, gd_matched_assessment_id = None\<rparr>"

lemma make_gate_decision_contract: "make_gate_decision d = Inr e \<longleftrightarrow> e = d \<and> gate_contract d"
  by (auto simp: make_gate_decision_def gate_contract_def split: if_splits option.splits)

lemma make_gate_decision_ok: "is_ok (make_gate_decision d) \<longleftrightarrow> gate_contract d"
  using make_gate_decision_contract [of d] by (auto simp: is_ok_iff)

lemma make_risk_summary_Inr:
  assumes "make_risk_summary d l b r = Inr s"
  shows "d = VStr (decision_value (gr_decision s))"
  using assms
  by (auto simp: make_risk_summary_def decision_of_value_Some split: pyval.splits option.splits if_splits)

end
