(* ===== verification/Pebra_Candidate_Binding.thy ===== *)
theory Pebra_Candidate_Binding
  imports Pebra_Human_Approval Pebra_Patch_Paths
begin

text \<open>
  \<open>pebra/adapters/candidate_binding.py\<close>: the identity of a candidate is the digests of the normalized
  contents its files would have. Assessment binds a patch, the pre-edit hook binds the event of a host
  tool; both materialize the files first.

  The file system and git are a record of functions, the argument of every operation: \<open>Path.resolve\<close>
  (\<open>None\<close> when it raises), the bytes of a file under the repository as text, \<open>str.casefold\<close>,
  \<open>PureWindowsPath\<close> as far as it is asked, and \<open>materialize_patch\<close>, which applies a Git patch in a
  throwaway repository. Paths are POSIX paths, so \<open>os.path.normcase\<close> is the identity.
\<close>

record worktree =
  wk_resolve :: "string \<Rightarrow> string option"
  wk_read :: "string \<Rightarrow> string option"
  wk_casefold :: "string \<Rightarrow> string"
  wk_windows_absolute :: "string \<Rightarrow> bool"
  wk_windows_drive :: "string \<Rightarrow> bool"
  wk_apply :: "string option dict \<Rightarrow> string \<Rightarrow> string \<Rightarrow> string option dict option"

section \<open>Patches that cannot be bound\<close>

text \<open>The suffixes of a text where \<open>^\<close> matches in multi-line mode.\<close>

fun after_newlines :: "string \<Rightarrow> string list" where
  "after_newlines [] = []"
| "after_newlines (c # s) = (if c = LF then s # after_newlines s else after_newlines s)"

definition line_starts :: "string \<Rightarrow> string list" where
  "line_starts s = s # after_newlines s"

text \<open>\<open>\s*$\<close> in multi-line mode.\<close>

fun blank_to_line_end :: "nat \<Rightarrow> string \<Rightarrow> bool" where
  "blank_to_line_end n [] = True"
| "blank_to_line_end (Suc n) (c # s) = blank_to_line_end n s"
| "blank_to_line_end 0 (c # s) =
     (c = LF \<or> space_len (c # s) > 0 \<and> blank_to_line_end (space_len (c # s) - 1) s)"

text \<open>\<open>new file mode\s+(?!100644\s*$)\<close>: of two whitespace characters the expression gives one back, and what
  follows is then not the mode.\<close>

definition special_mode_line :: "string \<Rightarrow> bool" where
  "special_mode_line s =
     ((starts_with s ''old mode'' \<or> starts_with s ''new mode'') \<and> space_len (drop 8 s) > 0
      \<or> starts_with s ''new file mode''
        \<and> (let r = drop 13 s; n = space_len r
           in n > 0 \<and> (space_len (drop n r) > 0
                \<or> \<not> (starts_with (drop n r) ''100644'' \<and> blank_to_line_end 0 (drop (n + 6) r)))))"

text \<open>The groups of \<open>^key (.+)$\<close>.\<close>

definition header_values :: "string \<Rightarrow> string \<Rightarrow> string list" where
  "header_values key patch =
     filter (\<lambda>v. v \<noteq> []) (map (\<lambda>t. before_char LF (drop (length key) t)) (filter (\<lambda>t. starts_with t key) (line_starts patch)))"

definition has_unsupported_metadata :: "worktree \<Rightarrow> string \<Rightarrow> bool" where
  "has_unsupported_metadata w patch =
     (list_ex special_mode_line (line_starts patch)
      \<or> list_ex (\<lambda>(old, new). old \<noteq> new \<and> wk_casefold w (slashes old) = wk_casefold w (slashes new))
          (zip (header_values ''rename from '' patch) (header_values ''rename to '' patch)))"

section \<open>Contents and digests\<close>

definition CR :: char where "CR = CHR 0x0D"

fun normal_text :: "string \<Rightarrow> string" where
  "normal_text [] = []"
| "normal_text [c] = [if c = CR then LF else c]"
| "normal_text (c # d # s) =
     (if c = CR then (if d = LF then LF # normal_text s else LF # normal_text (d # s)) else c # normal_text (d # s))"

definition digest_payload :: "string option \<Rightarrow> string" where
  "digest_payload t =
     (case t of None \<Rightarrow> CHR 0x00 # ''deleted'' | Some s \<Rightarrow> CHR 0x01 # ''text'' @ [CHR 0x00] @ normal_text s)"

definition content_digest :: "string option \<Rightarrow> string" where
  "content_digest t = sha256_hex (digest_payload t)"

text \<open>\<open>absolute.relative_to(rt).as_posix()\<close> of two resolved paths.\<close>

definition relative_to :: "string \<Rightarrow> string \<Rightarrow> string option" where
  "relative_to path rt =
     (let prefix = (if rt = ''/'' then rt else rt @ ''/'')
      in if path = rt then Some ''.''
         else if starts_with path prefix then Some (drop (length prefix) path) else None)"

definition safe_rel :: "worktree \<Rightarrow> string \<Rightarrow> string option \<Rightarrow> pyval \<Rightarrow> string option" where
  "safe_rel w rt base value =
     (case value of
        VStr v \<Rightarrow>
          if v = [] then None
          else if \<not> starts_with v ''/'' \<and> \<not> wk_windows_absolute w v \<and> (wk_windows_drive w v \<or> CHR '':'' \<in> set v)
          then None
          else (case wk_resolve w
                       (if starts_with v ''/'' then v
                        else (case base of None \<Rightarrow> rt | Some b \<Rightarrow> b) @ ''/'' @ v) of
                  None \<Rightarrow> None
                | Some absolute \<Rightarrow>
                    (case wk_resolve w rt of
                       None \<Rightarrow> None
                     | Some r \<Rightarrow>
                         (case relative_to absolute r of
                            None \<Rightarrow> None
                          | Some rel \<Rightarrow> if rel = [] \<or> ''..'' \<in> set (path_parts rel) then None else Some (slashes rel))))
      | _ \<Rightarrow> None)"

fun digest_files :: "(string \<times> string option) list \<Rightarrow> string dict \<Rightarrow> string dict option" where
  "digest_files [] files = Some files"
| "digest_files ((rel, after) # rest) files =
     (if dict_has files (slashes rel) then None
      else digest_files rest (dict_set files (slashes rel) (content_digest after)))"

definition binding_of_files :: "string dict \<Rightarrow> pyval dict" where
  "binding_of_files files =
     [(''algorithm'', VStr CANDIDATE_BINDING_ALGORITHM), (''files'', VDict (map (\<lambda>(p, d). (p, VStr d)) files))]"

definition candidate_binding :: "string option dict \<Rightarrow> pyval dict option" where
  "candidate_binding after = map_option binding_of_files (digest_files (sort_key fst after) [])"

section \<open>Codex patches\<close>

datatype codex_kind = Codex_Add | Codex_Update | Codex_Delete

type_synonym codex_block = "codex_kind \<times> string \<times> string list"

text \<open>The last character of a blank string: \<open>(.+?)\<close> needs one character, and \<open>\s*\<close> gives back the last.\<close>

fun last_space :: "string \<Rightarrow> string" where
  "last_space [] = []"
| "last_space (c # s) = (if space_len (c # s) = length (c # s) then c # s else last_space s)"

definition codex_path :: "string \<Rightarrow> string option" where
  "codex_path rest = (if rest = [] then None else if strip rest \<noteq> [] then Some (strip rest) else Some (last_space rest))"

definition codex_file :: "string \<Rightarrow> (codex_kind \<times> string) option" where
  "codex_file line =
     (if starts_with line ''*** Add File:'' then map_option (Pair Codex_Add) (codex_path (drop 13 line))
      else if starts_with line ''*** Update File:'' then map_option (Pair Codex_Update) (codex_path (drop 16 line))
      else if starts_with line ''*** Delete File:'' then map_option (Pair Codex_Delete) (codex_path (drop 16 line))
      else None)"

fun codex_loop :: "string list \<Rightarrow> codex_block option \<Rightarrow> codex_block list \<Rightarrow> codex_block list option" where
  "codex_loop [] current bs = Some (bs @ (case current of None \<Rightarrow> [] | Some b \<Rightarrow> [b]))"
| "codex_loop (line # rest) current bs =
     (case codex_file line of
        Some (kind, path) \<Rightarrow>
          codex_loop rest (Some (kind, path, [])) (bs @ (case current of None \<Rightarrow> [] | Some b \<Rightarrow> [b]))
      | None \<Rightarrow>
          (case current of
             None \<Rightarrow> None
           | Some (kind, path, body) \<Rightarrow>
               if starts_with line ''*** '' then None
               else codex_loop rest (Some (kind, path, body @ [line])) bs))"

definition BEGIN_PATCH :: string where "BEGIN_PATCH = ''*** Begin Patch''"

definition END_PATCH :: string where "END_PATCH = ''*** End Patch''"

definition codex_blocks :: "string \<Rightarrow> codex_block list option" where
  "codex_blocks patch =
     (let ls = splitlines patch
      in if ls = [] \<or> hd ls \<noteq> BEGIN_PATCH \<or> last ls \<noteq> END_PATCH
            \<or> count_list ls BEGIN_PATCH \<noteq> 1 \<or> count_list ls END_PATCH \<noteq> 1
         then None
         else (case codex_loop (butlast (tl ls)) None [] of
                 None \<Rightarrow> None
               | Some bs \<Rightarrow> if bs = [] then None else Some bs))"

text \<open>\<open>text.split(old)\<close>; the number counts bytes of an occurrence still to skip. Its pieces are one more than
  \<open>text.count(old)\<close>.\<close>

fun split_str :: "nat \<Rightarrow> string \<Rightarrow> string \<Rightarrow> string list" where
  "split_str n old [] = [[]]"
| "split_str (Suc n) old (c # s) = split_str n old s"
| "split_str 0 old (c # s) =
     (if starts_with (c # s) old then [] # split_str (length old - 1) old s
      else case split_str 0 old s of [] \<Rightarrow> [[c]] | t # ts \<Rightarrow> (c # t) # ts)"

fun join_with :: "string \<Rightarrow> string list \<Rightarrow> string" where
  "join_with sep [] = []"
| "join_with sep [t] = t"
| "join_with sep (t # ts) = t @ sep @ join_with sep ts"

text \<open>The empty string occurs before every character and at the end; \<open>replace\<close> then inserts there.\<close>

definition replace_once :: "string \<Rightarrow> string \<Rightarrow> string \<Rightarrow> bool \<Rightarrow> string option" where
  "replace_once txt old new replace_all =
     (let pieces = (if old = [] then [] # code_points txt @ [[]] else split_str 0 old txt);
          occurrences = length pieces - 1
      in if occurrences = 0 \<or> \<not> replace_all \<and> occurrences \<noteq> 1 then None
         else Some (join_with new pieces))"

fun codex_chunks :: "string list \<Rightarrow> string list \<Rightarrow> string list list" where
  "codex_chunks [] current = (if current = [] then [] else [current])"
| "codex_chunks (line # rest) current =
     (if starts_with line ''@@''
      then (if current = [] then codex_chunks rest [] else current # codex_chunks rest [])
      else codex_chunks rest (current @ [line]))"

text \<open>The old and the new side of a chunk.\<close>

fun chunk_sides :: "string list \<Rightarrow> string list \<times> string list" where
  "chunk_sides [] = ([], [])"
| "chunk_sides (line # rest) =
     (let (old_lines, new_lines) = chunk_sides rest
      in if starts_with line ''+'' then (old_lines, drop 1 line # new_lines)
         else if starts_with line ''-'' then (drop 1 line # old_lines, new_lines)
         else let value = (if starts_with line '' '' then drop 1 line else line)
              in (value # old_lines, value # new_lines))"

fun apply_chunks :: "string \<Rightarrow> string list list \<Rightarrow> string option" where
  "apply_chunks txt [] = Some txt"
| "apply_chunks txt (chunk # rest) =
     (let (old_lines, new_lines) = chunk_sides chunk
      in case replace_once txt (join_with [LF] old_lines) (join_with [LF] new_lines) False of
           None \<Rightarrow> None
         | Some txt' \<Rightarrow> apply_chunks txt' rest)"

definition apply_codex_update :: "string \<Rightarrow> string list \<Rightarrow> string option" where
  "apply_codex_update before body =
     (let chunks = codex_chunks body []
      in if chunks = [] then None else apply_chunks (normal_text before) chunks)"

text \<open>What one block makes of its file; the outer \<open>None\<close> is a failure, the inner one a deletion.\<close>

definition codex_after :: "codex_kind \<Rightarrow> string option \<Rightarrow> string list \<Rightarrow> string option option" where
  "codex_after kind before body =
     (case kind of
        Codex_Add \<Rightarrow>
          if before \<noteq> None \<or> list_ex (\<lambda>line. \<not> starts_with line ''+'') body then None
          else Some (Some (join_with [LF] (map (drop 1) body) @ (if body = [] then [] else [LF])))
      | Codex_Delete \<Rightarrow> if before = None then None else Some None
      | Codex_Update \<Rightarrow>
          (case before of None \<Rightarrow> None | Some b \<Rightarrow> map_option Some (apply_codex_update b body)))"

fun codex_files :: "worktree \<Rightarrow> string \<Rightarrow> string option \<Rightarrow> codex_block list \<Rightarrow> string option dict \<Rightarrow> string option dict option" where
  "codex_files w rt base [] after = Some after"
| "codex_files w rt base ((kind, raw_path, body) # rest) after =
     (case safe_rel w rt base (VStr raw_path) of
        None \<Rightarrow> None
      | Some rel \<Rightarrow>
          if dict_has after rel then None
          else (case codex_after kind (wk_read w rel) body of
                  None \<Rightarrow> None
                | Some content \<Rightarrow> codex_files w rt base rest (dict_set after rel content)))"

definition materialize_codex :: "worktree \<Rightarrow> string \<Rightarrow> string option \<Rightarrow> string \<Rightarrow> string option dict option" where
  "materialize_codex w rt base patch =
     (case codex_blocks patch of None \<Rightarrow> None | Some bs \<Rightarrow> codex_files w rt base bs [])"

section \<open>Materializing a patch\<close>

fun seed_files :: "worktree \<Rightarrow> string list \<Rightarrow> string option dict \<Rightarrow> string option dict" where
  "seed_files w [] before = before"
| "seed_files w (rel # rels) before = seed_files w rels (dict_set before rel (map_option normal_text (wk_read w rel)))"

text \<open>The directory a Git patch is applied in.\<close>

definition apply_dir_of :: "worktree \<Rightarrow> string \<Rightarrow> string option \<Rightarrow> string option" where
  "apply_dir_of w rt base =
     (case base of
        None \<Rightarrow> Some ''.''
      | Some b \<Rightarrow> (case wk_resolve w b of None \<Rightarrow> None | Some r \<Rightarrow> relative_to r rt))"

definition materialize_git ::
  "worktree \<Rightarrow> string \<Rightarrow> string option \<Rightarrow> string \<Rightarrow> string list \<Rightarrow> string option dict option" where
  "materialize_git w rt base patch raw_paths =
     (if raw_paths = [] then None
      else
        let rels = map (\<lambda>p. safe_rel w rt base (VStr p)) raw_paths
        in if None \<in> set rels then None
           else (case apply_dir_of w rt base of
                   None \<Rightarrow> None
                 | Some dir \<Rightarrow> wk_apply w (seed_files w (map the rels) []) (normal_text patch) dir))"

text \<open>\<open>rt\<close> is the resolved root; \<open>touched_files\<close> may raise.\<close>

definition materialize_in :: "worktree \<Rightarrow> string \<Rightarrow> string option \<Rightarrow> pyval \<Rightarrow> string option dict option res" where
  "materialize_in w rt base patch =
     (case patch of
        VStr p \<Rightarrow>
          if blank p \<or> has_unsupported_metadata w p then Inr None
          else if list_ex (\<lambda>line. starts_with line ''*** '') (splitlines p) then Inr (materialize_codex w rt base p)
          else rbind (touched_files p) (\<lambda>raw_paths. Inr (materialize_git w rt base p raw_paths))
      | _ \<Rightarrow> Inr None)"

text \<open>\<open>except (OSError, RuntimeError, TypeError, UnicodeError, ValueError): return None\<close>.\<close>

definition unverifiable :: "'a option res \<Rightarrow> 'a option res" where
  "unverifiable r = (case r of Inl (ValueError _) \<Rightarrow> Inr None | Inl (TypeError _) \<Rightarrow> Inr None | _ \<Rightarrow> r)"

definition materialize_candidate_patch :: "worktree \<Rightarrow> string \<Rightarrow> pyval \<Rightarrow> string option dict option res" where
  "materialize_candidate_patch w repo_root patch =
     unverifiable
       (case wk_resolve w repo_root of None \<Rightarrow> Inr None | Some rt \<Rightarrow> materialize_in w rt None patch)"

definition binding_in :: "worktree \<Rightarrow> string \<Rightarrow> string option \<Rightarrow> pyval \<Rightarrow> pyval dict option res" where
  "binding_in w repo_root base patch =
     (case wk_resolve w repo_root of
        None \<Rightarrow> Inr None
      | Some rt \<Rightarrow>
          rbind (materialize_in w rt base patch) (\<lambda>after.
            Inr (case after of None \<Rightarrow> None | Some files \<Rightarrow> candidate_binding files)))"

definition binding_for_patch :: "worktree \<Rightarrow> string \<Rightarrow> pyval \<Rightarrow> pyval dict option res" where
  "binding_for_patch w repo_root patch = unverifiable (binding_in w repo_root None patch)"

section \<open>The event of a host tool\<close>

definition replace_flag :: "pyval dict \<Rightarrow> bool" where
  "replace_flag d = (dict_get d ''replace_all'' VNone = VBool True)"

text \<open>One replacement, from a dictionary that names the old and the new string.\<close>

definition edit_once :: "string \<Rightarrow> pyval dict \<Rightarrow> string option" where
  "edit_once txt d =
     (case (dict_get d ''old_string'' VNone, dict_get d ''new_string'' VNone) of
        (VStr old, VStr new) \<Rightarrow> replace_once txt old new (replace_flag d)
      | _ \<Rightarrow> None)"

fun edit_many :: "string \<Rightarrow> pyval list \<Rightarrow> string option" where
  "edit_many txt [] = Some txt"
| "edit_many txt (VDict d # rest) = (case edit_once txt d of None \<Rightarrow> None | Some txt' \<Rightarrow> edit_many txt' rest)"
| "edit_many txt (_ # rest) = None"

text \<open>The content after a Write, Edit or MultiEdit of a file that has the content \<open>before\<close>.\<close>

definition edited_content :: "pyval \<Rightarrow> pyval dict \<Rightarrow> string option \<Rightarrow> string option" where
  "edited_content tool tool_input before =
     (if tool = VStr ''Write''
      then (case dict_get tool_input ''content'' VNone of VStr content \<Rightarrow> Some content | _ \<Rightarrow> None)
      else (case before of
              None \<Rightarrow> None
            | Some txt \<Rightarrow>
                if tool = VStr ''Edit'' then edit_once txt tool_input
                else if tool = VStr ''MultiEdit''
                then (case dict_get tool_input ''edits'' VNone of
                        VList edits \<Rightarrow> if edits = [] then None else edit_many txt edits
                      | _ \<Rightarrow> None)
                else None))"

definition event_binding :: "worktree \<Rightarrow> string \<Rightarrow> pyval dict \<Rightarrow> pyval dict option res" where
  "event_binding w repo_root event =
     (case wk_resolve w repo_root of
        None \<Rightarrow> Inr None
      | Some rt \<Rightarrow>
          (case (case dict_get event ''cwd'' VNone of VStr c \<Rightarrow> if c = [] then Some rt else wk_resolve w c
                 | _ \<Rightarrow> Some rt) of
             None \<Rightarrow> Inr None
           | Some event_cwd \<Rightarrow>
               (case dict_get event ''tool_input'' VNone of
                  VDict tool_input \<Rightarrow>
                    if dict_get event ''tool_name'' VNone = VStr ''apply_patch''
                    then (case dict_get tool_input ''command'' VNone of
                            VStr command \<Rightarrow>
                              if has_unsupported_metadata w command then Inr None
                              else binding_in w rt (Some event_cwd) (VStr command)
                          | _ \<Rightarrow> Inr None)
                    else (case safe_rel w rt (Some event_cwd) (dict_get tool_input ''file_path'' (VStr [])) of
                            None \<Rightarrow> Inr None
                          | Some rel \<Rightarrow>
                              Inr (case edited_content (dict_get event ''tool_name'' VNone) tool_input (wk_read w rel) of
                                     None \<Rightarrow> None
                                   | Some content \<Rightarrow> candidate_binding [(rel, Some content)]))
                | _ \<Rightarrow> Inr None)))"

definition binding_for_event :: "worktree \<Rightarrow> string \<Rightarrow> pyval \<Rightarrow> pyval dict option res" where
  "binding_for_event w repo_root event =
     unverifiable (case event of VDict d \<Rightarrow> event_binding w repo_root d | _ \<Rightarrow> Inr None)"

section \<open>The digests of a binding\<close>

definition bound_files :: "pyval dict \<Rightarrow> string \<Rightarrow> pyval option" where
  "bound_files b = (case dict_get b ''files'' VNone of VDict d \<Rightarrow> map_of d | _ \<Rightarrow> Map.empty)"

lemma dict_set_absent: "\<not> dict_has d k \<Longrightarrow> dict_set d k v = d @ [(k, v)]"
  by (induction d k v rule: dict_set.induct) auto

lemma digest_files_out:
  "digest_files xs files = Some out \<Longrightarrow> out = files @ map (\<lambda>(rel, t). (slashes rel, content_digest t)) xs"
  by (induction xs files rule: digest_files.induct) (auto simp: dict_set_absent split: if_splits)

lemma digest_files_distinct:
  "digest_files xs files = Some out \<Longrightarrow> distinct (map fst files) \<Longrightarrow> distinct (map fst out)"
  by (induction xs files rule: digest_files.induct) (auto simp: distinct_dict_set split: if_splits)

text \<open>Every file of the candidate is bound once, under its identity.\<close>

lemma candidate_binding_files:
  assumes "candidate_binding after = Some b"
  shows "\<exists>files. b = binding_of_files files \<and> distinct (map fst files)
    \<and> set files = (\<lambda>(rel, t). (slashes rel, content_digest t)) ` set after"
proof -
  obtain files where f: "digest_files (sort_key fst after) [] = Some files" "b = binding_of_files files"
    using assms by (auto simp: candidate_binding_def)
  have "set files = (\<lambda>(rel, t). (slashes rel, content_digest t)) ` set after"
    using digest_files_out [OF f(1)] by simp
  with digest_files_distinct [OF f(1)] f(2) show ?thesis by auto
qed

lemma bound_files_binding: "bound_files (binding_of_files files) p = map_option VStr (map_of files p)"
  by (simp add: bound_files_def binding_of_files_def map_of_map)

lemma candidate_binding_bound:
  assumes "candidate_binding after = Some b" and "(rel, t) \<in> set after"
  shows "bound_files b (slashes rel) = Some (VStr (content_digest t))"
proof -
  obtain files where f: "b = binding_of_files files" "distinct (map fst files)"
      "set files = (\<lambda>(rel, t). (slashes rel, content_digest t)) ` set after"
    using candidate_binding_files [OF assms(1)] by blast
  have "(slashes rel, content_digest t) \<in> set files" using f(3) assms(2) by force
  with f(2) show ?thesis by (simp add: f(1) bound_files_binding)
qed

lemma candidate_binding_dom:
  assumes "candidate_binding after = Some b" and "bound_files b p = Some d"
  shows "\<exists>rel t. (rel, t) \<in> set after \<and> p = slashes rel \<and> d = VStr (content_digest t)"
proof -
  obtain files where f: "b = binding_of_files files" "distinct (map fst files)"
      "set files = (\<lambda>(rel, t). (slashes rel, content_digest t)) ` set after"
    using candidate_binding_files [OF assms(1)] by blast
  obtain h where "map_of files p = Some h" "d = VStr h" using assms(2) by (auto simp: f(1) bound_files_binding)
  then have "(p, h) \<in> (\<lambda>(rel, t). (slashes rel, content_digest t)) ` set after" "d = VStr h"
    using f(3) by (auto dest: map_of_SomeD)
  then show ?thesis by (elim imageE) force
qed

text \<open>The payload of a digest determines the content up to line ends, and whether the file is deleted.\<close>

lemma digest_payload_eq: "digest_payload t = digest_payload u \<longleftrightarrow> map_option normal_text t = map_option normal_text u"
  by (auto simp: digest_payload_def split: option.splits)

lemma equal_digests:
  assumes "content_digest t = content_digest u"
  shows "map_option normal_text t = map_option normal_text u \<or> collision_between {digest_payload t} {digest_payload u}"
  using assms unfolding content_digest_def collision_between_def digest_payload_eq [symmetric] by blast

definition candidate_contents :: "string option dict \<Rightarrow> (string \<times> string option) set" where
  "candidate_contents after = (\<lambda>(rel, t). (slashes rel, map_option normal_text t)) ` set after"

lemma contents_covered:
  assumes a: "candidate_binding a = Some b" and a': "candidate_binding a' = Some b'" and same: "bound_files b = bound_files b'"
  shows "candidate_contents a \<subseteq> candidate_contents a'
    \<or> collision_between (digest_payload ` snd ` set a) (digest_payload ` snd ` set a')"
proof (rule disjCI)
  assume no: "\<not> collision_between (digest_payload ` snd ` set a) (digest_payload ` snd ` set a')"
  show "candidate_contents a \<subseteq> candidate_contents a'"
  proof
    fix x assume "x \<in> candidate_contents a"
    then obtain rel t where x: "(rel, t) \<in> set a" "x = (slashes rel, map_option normal_text t)"
      by (auto simp: candidate_contents_def)
    have "bound_files b' (slashes rel) = Some (VStr (content_digest t))"
      using candidate_binding_bound [OF a x(1)] same by simp
    then obtain rel' u where u: "(rel', u) \<in> set a'" "slashes rel = slashes rel'" "content_digest t = content_digest u"
      using candidate_binding_dom [OF a'] by blast
    have "digest_payload t \<in> digest_payload ` snd ` set a" "digest_payload u \<in> digest_payload ` snd ` set a'"
      using x(1) u(1) by force+
    then have in_both: "collision_between {digest_payload t} {digest_payload u} \<Longrightarrow>
        collision_between (digest_payload ` snd ` set a) (digest_payload ` snd ` set a')"
      by (elim collision_mono) simp_all
    then have "map_option normal_text t = map_option normal_text u"
      using equal_digests [OF u(3)] no in_both by blast
    with u show "x \<in> candidate_contents a'" by (force simp: candidate_contents_def x(2))
  qed
qed

section \<open>Malformed input\<close>

lemma decode_error: "decode_git_path raw = Inl e \<Longrightarrow> \<exists>m. e = ValueError m"
  by (auto simp: decode_git_path_def Let_def split: if_splits unescaped.splits)

lemma header_error: "parse_diff_header line = Inl e \<Longrightarrow> \<exists>m. e = ValueError m"
  by (auto simp: parse_diff_header_def rbind_Inl_iff split: option.splits prod.splits if_splits dest: decode_error)

lemma plain_line_error: "plain_line st line = Inl e \<Longrightarrow> \<exists>m. e = ValueError m"
  by (auto simp: plain_line_def side_line_def rbind_Inl_iff split: option.splits if_splits dest: decode_error)

lemma step_error: "tf_step st line = Inl e \<Longrightarrow> \<exists>m. e = ValueError m"
  by (auto simp: tf_step_def rbind_Inl_iff split: option.splits if_splits prod.splits dest: header_error plain_line_error)

lemma loop_error: "tf_loop st ls = Inl e \<Longrightarrow> \<exists>m. e = ValueError m"
  by (induction st ls rule: tf_loop.induct) (auto simp: rbind_Inl_iff split: option.splits dest: step_error)

lemma touched_files_error: "touched_files patch = Inl e \<Longrightarrow> \<exists>m. e = ValueError m"
  by (cases "tf_loop tf_init (splitlines patch)")
    (auto simp: touched_files_def Let_def split: option.split_asm if_split_asm dest: loop_error)

lemma materialize_error: "materialize_in w rt base patch = Inl e \<Longrightarrow> \<exists>m. e = ValueError m"
  by (auto simp: materialize_in_def rbind_Inl_iff split: pyval.splits if_splits dest: touched_files_error)

lemma binding_error: "binding_in w rt base patch = Inl e \<Longrightarrow> \<exists>m. e = ValueError m"
  by (auto simp: binding_in_def rbind_Inl_iff split: option.splits dest: materialize_error)

lemma event_error: "event_binding w rt d = Inl e \<Longrightarrow> \<exists>m. e = ValueError m"
  unfolding event_binding_def
  by (auto split: option.splits pyval.splits if_splits dest: binding_error)

text \<open>Malformed input is unverifiable, never exceptional.\<close>

lemma binding_for_event_returns: "\<exists>b. binding_for_event w rt event = Inr b"
proof (cases "case event of VDict d \<Rightarrow> event_binding w rt d | _ \<Rightarrow> Inr None")
  case (Inl e)
  then have "\<exists>m. e = ValueError m" using event_error by (cases event) auto
  then show ?thesis using Inl by (auto simp: binding_for_event_def unverifiable_def)
qed (simp add: binding_for_event_def unverifiable_def)

lemma unverifiable_Some: "unverifiable r = Inr (Some x) \<longleftrightarrow> r = Inr (Some x)"
  by (auto simp: unverifiable_def split: sum.splits pyerr.splits)

lemma binding_in_Some: "binding_in w rt base patch = Inr (Some b) \<Longrightarrow> \<exists>after. candidate_binding after = Some b"
  by (auto simp: binding_in_def rbind_Inr_iff split: option.splits)

text \<open>What is bound is a set of contents.\<close>

lemma event_binding_Some: "event_binding w rt d = Inr (Some b) \<Longrightarrow> \<exists>after. candidate_binding after = Some b"
  unfolding event_binding_def
  by (auto split: option.splits pyval.splits if_splits dest: binding_in_Some)

lemma binding_for_event_Some: "binding_for_event w rt event = Inr (Some b) \<Longrightarrow> \<exists>after. candidate_binding after = Some b"
  by (auto simp: binding_for_event_def unverifiable_Some split: pyval.splits dest: event_binding_Some)

section \<open>Replacing a string\<close>

text \<open>\<open>split\<close> cuts at the first occurrence, as long as there is one.\<close>

lemma split_str_skip: "split_str n old s = split_str 0 old (drop n s)"
  by (induction n old s rule: split_str.induct) auto

definition occurs_nowhere :: "string \<Rightarrow> string \<Rightarrow> bool" where
  "occurs_nowhere old s = (\<forall>n \<le> length s. \<not> starts_with (drop n s) old)"

lemma split_str_ne: "split_str n old s \<noteq> []"
  by (induction n old s rule: split_str.induct) (auto split: list.splits)

lemma split_str_first:
  assumes "old \<noteq> []"
  shows "split_str 0 old s = [s] \<and> occurs_nowhere old s
    \<or> (\<exists>pre post. s = pre @ old @ post \<and> (\<forall>n < length pre. \<not> starts_with (drop n s) old)
        \<and> split_str 0 old s = pre # split_str 0 old post)"
proof (induction s)
  case Nil
  then show ?case using assms by (cases old) (auto simp: occurs_nowhere_def)
next
  case (Cons c s)
  show ?case
  proof (cases "starts_with (c # s) old")
    case True
    then obtain post where post: "c # s = old @ post" by (auto simp: starts_with_iff)
    obtain k where k: "length old = Suc k" using assms by (cases old) auto
    have "drop (length old - 1) s = post" using arg_cong [OF post, of "drop (length old)"] k by simp
    then have "split_str (length old - 1) old s = split_str 0 old post"
      using split_str_skip [of "length old - 1" old s] by (simp only:)
    then have "split_str 0 old (c # s) = [] # split_str 0 old post"
      using True by simp
    then show ?thesis using post by (intro disjI2 exI [of _ "[]"] exI [of _ post]) simp
  next
    case False
    have step: "split_str 0 old (c # s) = (case split_str 0 old s of [] \<Rightarrow> [[c]] | t # ts \<Rightarrow> (c # t) # ts)"
      using False by simp
    from Cons.IH show ?thesis
    proof (elim disjE conjE exE)
      assume "split_str 0 old s = [s]" and none: "occurs_nowhere old s"
      moreover have "occurs_nowhere old (c # s)"
        unfolding occurs_nowhere_def
      proof (intro allI impI)
        fix n assume "n \<le> length (c # s)"
        then show "\<not> starts_with (drop n (c # s)) old"
          using False none by (cases n) (auto simp: occurs_nowhere_def)
      qed
      ultimately show ?thesis by (intro disjI1) (simp add: step False)
    next
      fix pre post
      assume *: "s = pre @ old @ post" "\<forall>n < length pre. \<not> starts_with (drop n s) old"
        "split_str 0 old s = pre # split_str 0 old post"
      have "\<forall>n < length (c # pre). \<not> starts_with (drop n (c # s)) old"
        using False *(2) by (auto simp: less_Suc_eq_0_disj)
      moreover have "split_str 0 old (c # s) = (c # pre) # split_str 0 old post" using step *(3) by simp
      moreover have "c # s = (c # pre) @ old @ post" using *(1) by simp
      ultimately show ?thesis by blast
    qed
  qed
qed

text \<open>A replacement that is not of all occurrences needs exactly one.\<close>

lemma replace_once_exact:
  assumes "replace_once txt old new False = Some out" and "old \<noteq> []"
  shows "\<exists>pre post. txt = pre @ old @ post \<and> out = pre @ new @ post
    \<and> (\<forall>n < length pre. \<not> starts_with (drop n txt) old) \<and> occurs_nowhere old post"
proof -
  have pieces: "length (split_str 0 old txt) = 2" and out: "out = join_with new (split_str 0 old txt)"
    using assms by (auto simp: replace_once_def Let_def split: if_splits)
  from split_str_first [OF assms(2), of "txt"] pieces obtain pre post where
    pre: "txt = pre @ old @ post" "\<forall>n < length pre. \<not> starts_with (drop n txt) old"
      "split_str 0 old txt = pre # split_str 0 old post" by auto
  have rest: "length (split_str 0 old post) = 1" using pieces by (simp add: pre(3))
  with split_str_first [OF assms(2), of post]
  have "split_str 0 old post = [post] \<and> occurs_nowhere old post"
    by (auto simp: length_Suc_conv split_str_ne)
  with pre out show ?thesis by (intro exI [of _ pre] exI [of _ post]) simp
qed

section \<open>Properties\<close>

text \<open>C24: Equal bindings are equal edits. If two candidates, however they were materialized, have bindings with
  the same digests file by file, then they leave the same files with the same contents up to line ends and
  delete the same ones, or two of their contents collide under SHA-256.\<close>

theorem equal_bindings_are_equal_edits:
  assumes "candidate_binding assessed = Some b" and "candidate_binding attempted = Some b'"
    and "bound_files b = bound_files b'"
  shows "candidate_contents assessed = candidate_contents attempted
    \<or> collision_between (digest_payload ` snd ` set assessed) (digest_payload ` snd ` set attempted)"
proof -
  have "collision_between A B \<Longrightarrow> collision_between B A" for A B
    unfolding collision_between_def by metis
  with contents_covered [OF assms] contents_covered [OF assms(2,1) assms(3) [symmetric]] show ?thesis by blast
qed

lemma equal_bindings_are_equal_edits_witness:
  "\<exists>b. candidate_binding [(''a'', Some [CR, LF])] = Some b \<and> candidate_binding [(''a'', Some [LF])] = Some b
    \<and> (candidate_contents [(''a'', Some [CR, LF])] = candidate_contents [(''a'', Some [LF])]
       \<or> collision_between {digest_payload (Some [CR, LF])} {digest_payload (Some [LF])})"
proof -
  have same: "content_digest (Some [CR, LF]) = content_digest (Some [LF])"
    by (simp add: content_digest_def digest_payload_def CR_def LF_def)
  let ?b = "binding_of_files [(''a'', content_digest (Some [LF]))]"
  have b: "candidate_binding [(''a'', Some [CR, LF])] = Some ?b" "candidate_binding [(''a'', Some [LF])] = Some ?b"
    by (simp_all add: candidate_binding_def same)
  from equal_bindings_are_equal_edits [OF b refl] show ?thesis by (intro exI [of _ ?b]) (simp add: b)
qed

text \<open>The hook and the assessment bind a patch alike. An \<open>apply_patch\<close> event whose directory is the root of the
  repository has exactly the binding that the assessment computed for the patch, be it a Codex or a Git
  patch, malformed, unsupported or unreadable.\<close>

theorem hook_and_assessment_bind_alike:
  assumes "wk_resolve w repo_root = Some rt" and "wk_resolve w rt = Some rt"
    and "wk_resolve w cwd = Some rt" and "cwd \<noteq> []"
    and "event = VDict [(''tool_name'', VStr ''apply_patch''), (''cwd'', VStr cwd),
           (''tool_input'', VDict [(''command'', VStr patch)])]"
  shows "binding_for_event w rt event = binding_for_patch w repo_root (VStr patch)"
proof -
  have rel: "safe_rel w rt (Some rt) = safe_rel w rt None"
    by (intro ext) (simp add: safe_rel_def split: pyval.split)
  have dir: "apply_dir_of w rt (Some rt) = apply_dir_of w rt None"
    by (simp add: apply_dir_of_def assms(2) relative_to_def Let_def)
  have "codex_files w rt (Some rt) bs after = codex_files w rt None bs after" for bs after
    by (induction bs arbitrary: after) (auto simp: rel split: option.splits)
  then have "materialize_codex w rt (Some rt) = materialize_codex w rt None"
    by (intro ext) (simp add: materialize_codex_def split: option.split)
  moreover have "materialize_git w rt (Some rt) = materialize_git w rt None"
    by (intro ext) (simp only: materialize_git_def rel dir)
  ultimately have "materialize_in w rt (Some rt) v = materialize_in w rt None v" for v
    by (simp only: materialize_in_def)
  then have "binding_in w rt (Some rt) v = binding_in w repo_root None v" for v
    by (simp add: binding_in_def assms(1,2))
  moreover have "has_unsupported_metadata w patch \<Longrightarrow> binding_in w repo_root None (VStr patch) = Inr None"
    by (simp add: binding_in_def materialize_in_def assms(1))
  ultimately show ?thesis
    by (simp add: binding_for_event_def binding_for_patch_def event_binding_def assms(2,3,4,5))
qed

text \<open>A working tree with one file, and a patch that adds another.\<close>

definition tiny_tree :: worktree where
  "tiny_tree =
     \<lparr>wk_resolve = (\<lambda>p. Some (if p = ''/r/.'' then ''/r'' else p)), wk_read = (\<lambda>p. if p = ''a'' then Some ''x'' else None),
      wk_casefold = lower, wk_windows_absolute = (\<lambda>_. False), wk_windows_drive = (\<lambda>_. False),
      wk_apply = (\<lambda>_ _ _. None)\<rparr>"

definition tiny_patch :: string where
  "tiny_patch = join_with [LF] [''*** Begin Patch'', ''*** Add File: b'', ''+y'', ''*** End Patch'']"

lemma tiny_split: "splitlines tiny_patch = [''*** Begin Patch'', ''*** Add File: b'', ''+y'', ''*** End Patch'']"
  by (simp add: tiny_patch_def LF_def splitlines_def break_len_def)

lemma hook_and_assessment_bind_alike_witness:
  "binding_for_event tiny_tree ''/r'' (VDict [(''tool_name'', VStr ''apply_patch''), (''cwd'', VStr ''/r/.''),
      (''tool_input'', VDict [(''command'', VStr tiny_patch)])])
   = binding_for_patch tiny_tree ''/r/.'' (VStr tiny_patch)
   \<and> binding_for_patch tiny_tree ''/r/.'' (VStr tiny_patch) = Inr (candidate_binding [(''b'', Some [CHR ''y'', LF])])"
proof -
  have base: "wk_resolve tiny_tree ''/r/.'' = Some ''/r''" "wk_resolve tiny_tree ''/r'' = Some ''/r''"
    by (simp_all add: tiny_tree_def)
  have "has_unsupported_metadata tiny_tree tiny_patch = False" "blank tiny_patch = False"
    by code_simp+
  moreover have "materialize_codex tiny_tree ''/r'' None tiny_patch = Some [(''b'', Some [CHR ''y'', LF])]"
    by code_simp
  ultimately have "binding_for_patch tiny_tree ''/r/.'' (VStr tiny_patch) = Inr (candidate_binding [(''b'', Some [CHR ''y'', LF])])"
    by (simp add: binding_for_patch_def binding_in_def base materialize_in_def tiny_split unverifiable_def candidate_binding_def)
  with hook_and_assessment_bind_alike [OF base(1,2,1) _ refl, of tiny_patch] show ?thesis by simp
qed

end
