(* ===== verification/Pebra_Replay_Cache.thy ===== *)
theory Pebra_Replay_Cache
  imports Pebra_Human_Approval
begin

text \<open>
  \<open>pebra/adapters/candidate_replay_cache.py\<close>: the exact inputs of an assessment, kept in one file per digest until a
  human applies them. The directory is a dictionary from file names to contents with their modification
  times; writing a file is atomic. \<open>json.dumps\<close> and \<open>json.loads\<close> are parameters, \<open>None\<close> when they raise.
\<close>

datatype replay_error =
  Invalid_Metadata | Not_Serializable | Too_Large | Entry_Missing | Entry_Expired | Digest_Mismatch | Invalid_Content
  | Already_Consumed

definition CANDIDATE_REPLAY_ALGORITHM :: string where
  "CANDIDATE_REPLAY_ALGORITHM = ''sha256-candidate-replay-v1''"

text \<open>\<open>validate_candidate_replay_metadata\<close>, with \<open>None\<close> for \<open>CandidateReplayError\<close>.\<close>

definition validate_candidate_replay_metadata :: "pyval \<Rightarrow> string option" where
  "validate_candidate_replay_metadata metadata =
     (case metadata of
        VDict d \<Rightarrow>
          (if dict_get d ''status'' VNone \<noteq> VStr ''available''
              \<or> dict_get d ''algorithm'' VNone \<noteq> VStr CANDIDATE_REPLAY_ALGORITHM
           then None
           else case dict_get d ''digest'' VNone of
                  VStr h \<Rightarrow> if is_sha256_digest h then Some h else None
                | _ \<Rightarrow> None)
      | _ \<Rightarrow> None)"


record cache_entry =
  ce_payload :: string
  ce_mtime :: real

type_synonym replay_cache = "cache_entry dict"

record cache_limits =
  cl_max_bytes :: nat
  cl_max_age :: real

definition make_limits :: "int \<Rightarrow> int \<Rightarrow> cache_limits" where
  "make_limits max_bytes max_age_seconds =
     \<lparr>cl_max_bytes = nat (max 1 max_bytes), cl_max_age = of_int (max 1 max_age_seconds)\<rparr>"

definition json_file :: "string \<Rightarrow> string" where "json_file digest = digest @ ''.json''"

definition consumed_file :: "string \<Rightarrow> string" where "consumed_file digest = digest @ ''.consumed''"

definition without_file :: "string \<Rightarrow> replay_cache \<Rightarrow> replay_cache" where
  "without_file name cache = filter (\<lambda>(n, _). n \<noteq> name) cache"

definition reap :: "cache_limits \<Rightarrow> real \<Rightarrow> replay_cache \<Rightarrow> replay_cache" where
  "reap limits now cache =
     filter (\<lambda>(name, e). \<not> ((ends_with name ''.json'' \<or> ends_with name ''.consumed'') \<and> ce_mtime e < now - cl_max_age limits)) cache"

definition replay_metadata :: "string \<Rightarrow> pyval dict" where
  "replay_metadata digest =
     [(''status'', VStr ''available''), (''algorithm'', VStr CANDIDATE_REPLAY_ALGORITHM), (''digest'', VStr digest)]"

definition store_replay ::
  "(pyval dict \<Rightarrow> string option) \<Rightarrow> cache_limits \<Rightarrow> real \<Rightarrow> pyval dict \<Rightarrow> replay_cache
    \<Rightarrow> replay_error + (pyval dict \<times> replay_cache)" where
  "store_replay dumps limits now bundle_dict cache =
     (case dumps bundle_dict of
        None \<Rightarrow> Inl Not_Serializable
      | Some payload \<Rightarrow>
          if length payload > cl_max_bytes limits then Inl Too_Large
          else
            let digest = sha256_hex payload;
                kept = reap limits now cache
            in Inr (replay_metadata digest,
                    if dict_has kept (json_file digest) then kept
                    else dict_set kept (json_file digest) \<lparr>ce_payload = payload, ce_mtime = now\<rparr>))"

definition load_replay ::
  "(string \<Rightarrow> pyval option) \<Rightarrow> cache_limits \<Rightarrow> real \<Rightarrow> pyval \<Rightarrow> replay_cache \<Rightarrow> replay_error + pyval dict" where
  "load_replay loads limits now metadata cache =
     (case validate_candidate_replay_metadata metadata of
        None \<Rightarrow> Inl Invalid_Metadata
      | Some digest \<Rightarrow>
          (case map_of cache (json_file digest) of
             None \<Rightarrow> Inl Entry_Missing
           | Some e \<Rightarrow>
               if now - ce_mtime e > cl_max_age limits then Inl Entry_Expired
               else if length (ce_payload e) > cl_max_bytes limits \<or> sha256_hex (ce_payload e) \<noteq> digest
               then Inl Digest_Mismatch
               else (case loads (ce_payload e) of Some (VDict d) \<Rightarrow> Inr d | _ \<Rightarrow> Inl Invalid_Content)))"

definition delete_replay :: "pyval \<Rightarrow> replay_cache \<Rightarrow> replay_error + replay_cache" where
  "delete_replay metadata cache =
     (case validate_candidate_replay_metadata metadata of
        None \<Rightarrow> Inl Invalid_Metadata
      | Some digest \<Rightarrow> Inr (without_file (consumed_file digest) (without_file (json_file digest) cache)))"

text \<open>\<open>os.replace\<close> keeps the modification time and replaces an older tombstone.\<close>

definition consume_replay :: "pyval \<Rightarrow> replay_cache \<Rightarrow> replay_error + replay_cache" where
  "consume_replay metadata cache =
     (case validate_candidate_replay_metadata metadata of
        None \<Rightarrow> Inl Invalid_Metadata
      | Some digest \<Rightarrow>
          (case map_of cache (json_file digest) of
             Some e \<Rightarrow> Inr (dict_set (without_file (json_file digest) cache) (consumed_file digest) e)
           | None \<Rightarrow> Inl (if dict_has cache (consumed_file digest) then Already_Consumed else Entry_Missing)))"

section \<open>Properties\<close>

lemma validated_metadata: "is_sha256_digest h \<Longrightarrow> validate_candidate_replay_metadata (VDict (replay_metadata h)) = Some h"
  by (simp add: validate_candidate_replay_metadata_def replay_metadata_def CANDIDATE_REPLAY_ALGORITHM_def)

lemma map_of_filter: "(\<And>v. (k, v) \<in> set d \<Longrightarrow> P (k, v)) \<Longrightarrow> map_of (filter P d) k = map_of d k"
  by (induction d) auto

lemma store_replay_Inr:
  "store_replay dumps limits now b cache = Inr (meta, cache') \<Longrightarrow>
   \<exists>payload. dumps b = Some payload \<and> meta = replay_metadata (sha256_hex payload)"
  by (auto simp: store_replay_def Let_def split: option.splits if_splits)

text \<open>C25: A replay is what was assessed. Whatever happened to the directory in between, other stores, deletions,
  expiry, tampering, a candidate loaded with the metadata of a stored one is what \<open>json.loads\<close> makes of the
  canonical text of the stored one, or the two texts collide under SHA-256.\<close>

theorem replay_is_what_was_assessed:
  assumes "store_replay dumps limits now b cache = Inr (meta, cache')"
    and "load_replay loads limits' t' (VDict meta) cache'' = Inr b'"
  shows "\<exists>payload payload'. dumps b = Some payload \<and> loads payload' = Some (VDict b')
    \<and> (payload' = payload \<or> collision_between {payload'} {payload})"
proof -
  obtain payload where p: "dumps b = Some payload" "meta = replay_metadata (sha256_hex payload)"
    using store_replay_Inr [OF assms(1)] by blast
  have "\<exists>e :: cache_entry. sha256_hex (ce_payload e) = sha256_hex payload \<and> loads (ce_payload e) = Some (VDict b')"
    using assms(2) by (auto simp: load_replay_def p(2) validated_metadata sha256_hex_is_digest
        split: option.splits if_splits pyval.splits)
  then obtain e :: cache_entry where "sha256_hex (ce_payload e) = sha256_hex payload" "loads (ce_payload e) = Some (VDict b')" by blast
  with p(1) show ?thesis by (auto simp: collision_between_def)
qed

definition one_limits :: cache_limits where "one_limits = make_limits 100 60"

lemma replay_is_what_was_assessed_witness:
  "\<exists>meta cache'. store_replay (\<lambda>_. Some ''{}'') one_limits 0 [] [] = Inr (meta, cache')
    \<and> load_replay (\<lambda>_. Some (VDict [])) one_limits 30 (VDict meta) cache' = Inr []
    \<and> (\<exists>payload payload'. Some ''{}'' = Some payload \<and> Some (VDict []) = Some (VDict [])
        \<and> (payload' = payload \<or> collision_between {payload'} {payload}))"
proof -
  have s: "store_replay (\<lambda>_. Some ''{}'') one_limits 0 [] []
      = Inr (replay_metadata (sha256_hex ''{}''), [(json_file (sha256_hex ''{}''), \<lparr>ce_payload = ''{}'', ce_mtime = 0\<rparr>)])"
    by (simp add: store_replay_def one_limits_def make_limits_def reap_def Let_def)
  have l: "load_replay (\<lambda>_. Some (VDict [])) one_limits 30 (VDict (replay_metadata (sha256_hex ''{}'')))
      [(json_file (sha256_hex ''{}''), \<lparr>ce_payload = ''{}'', ce_mtime = 0\<rparr>)] = Inr []"
    by (simp add: load_replay_def validated_metadata sha256_hex_is_digest one_limits_def make_limits_def)
  from replay_is_what_was_assessed [OF s l] s l show ?thesis by blast
qed

text \<open>A replay is spent once. After a successful \<open>consume\<close>, a further one is refused as already consumed and a load finds
  nothing, until the same candidate is stored again; and consuming touches no other candidate.\<close>

theorem replay_is_spent_once:
  assumes "consume_replay meta cache = Inr cache'"
  shows "consume_replay meta cache' = Inl Already_Consumed \<and> load_replay loads limits now meta cache' = Inl Entry_Missing
    \<and> (\<forall>meta2 digest2. validate_candidate_replay_metadata meta2 = Some digest2 \<longrightarrow>
          validate_candidate_replay_metadata meta \<noteq> Some digest2 \<longrightarrow>
          load_replay loads limits now meta2 cache' = load_replay loads limits now meta2 cache)"
proof -
  obtain digest e where d: "validate_candidate_replay_metadata meta = Some digest" "map_of cache (json_file digest) = Some e"
      "cache' = dict_set (without_file (json_file digest) cache) (consumed_file digest) e"
    using assms by (auto simp: consume_replay_def split: option.splits)
  have names: "json_file a \<noteq> consumed_file b" for a b
  proof
    assume "json_file a = consumed_file b"
    then have "last (json_file a) = last (consumed_file b)" by simp
    then show False by (simp add: json_file_def consumed_file_def)
  qed
  have gone: "map_of (without_file k cache) k = None" for k
    by (simp add: without_file_def map_of_eq_None_iff) force
  have other: "map_of (without_file (json_file digest) cache) (json_file d2) = map_of cache (json_file d2)" if "d2 \<noteq> digest" for d2
    unfolding without_file_def by (rule map_of_filter) (use that in \<open>simp add: json_file_def\<close>)
  have "map_of cache' (json_file digest) = None" "dict_has cache' (consumed_file digest)"
    by (simp_all add: d(3) map_of_dict_set names gone dict_has_def)
  moreover have "map_of cache' (json_file d2) = map_of cache (json_file d2)" if "d2 \<noteq> digest" for d2
    using other [OF that] by (simp add: d(3) map_of_dict_set names)
  ultimately show ?thesis
    using d(1) by (auto simp: consume_replay_def load_replay_def)
qed

lemma replay_is_spent_once_witness:
  "\<exists>cache'. consume_replay (VDict (replay_metadata (sha256_hex ''{}'')))
      [(json_file (sha256_hex ''{}''), \<lparr>ce_payload = ''{}'', ce_mtime = 0\<rparr>)] = Inr cache'
    \<and> consume_replay (VDict (replay_metadata (sha256_hex ''{}''))) cache' = Inl Already_Consumed"
proof -
  have c: "consume_replay (VDict (replay_metadata (sha256_hex ''{}'')))
      [(json_file (sha256_hex ''{}''), \<lparr>ce_payload = ''{}'', ce_mtime = 0\<rparr>)]
      = Inr [(consumed_file (sha256_hex ''{}''), \<lparr>ce_payload = ''{}'', ce_mtime = 0\<rparr>)]"
    by (simp add: consume_replay_def validated_metadata sha256_hex_is_digest without_file_def)
  from replay_is_spent_once [OF this] c show ?thesis by blast
qed

text \<open>Storing a candidate again does not renew it. If the file of the candidate is already there, \<open>store\<close> answers that
  the replay is available but leaves the file, its age and even a damaged content, as it was: a load then fails
  although the candidate has just been stored.\<close>

theorem stored_replay_may_be_unusable:
  assumes "dumps b = Some payload" and "length payload \<le> cl_max_bytes limits"
    and "e = \<lparr>ce_payload = damaged, ce_mtime = now - cl_max_age limits\<rparr>" and "0 < wait"
    and "map_of cache (json_file (sha256_hex payload)) = Some e" and "distinct (map fst cache)"
  shows "\<exists>cache'. store_replay dumps limits now b cache = Inr (replay_metadata (sha256_hex payload), cache')
    \<and> load_replay loads limits (now + wait) (VDict (replay_metadata (sha256_hex payload))) cache' = Inl Entry_Expired
    \<and> (sha256_hex damaged \<noteq> sha256_hex payload \<longrightarrow>
        load_replay loads limits now (VDict (replay_metadata (sha256_hex payload))) cache' = Inl Digest_Mismatch)"
proof -
  let ?name = "json_file (sha256_hex payload)"
  have "map_of (reap limits now cache) ?name = map_of cache ?name"
    unfolding reap_def
  proof (rule map_of_filter)
    fix v assume "(?name, v) \<in> set cache"
    with assms(5,6) have "v = e" by (metis Some_eq_map_of_iff option.inject)
    then show "case (?name, v) of (name, e) \<Rightarrow>
        \<not> ((ends_with name ''.json'' \<or> ends_with name ''.consumed'') \<and> ce_mtime e < now - cl_max_age limits)"
      by (simp add: assms(3))
  qed
  then have kept: "map_of (reap limits now cache) ?name = Some e" by (simp add: assms(5))
  have "store_replay dumps limits now b cache = Inr (replay_metadata (sha256_hex payload), reap limits now cache)"
    using assms(1,2) kept by (simp add: store_replay_def Let_def dict_has_def)
  then show ?thesis
    using kept assms(3,4) by (simp add: load_replay_def validated_metadata sha256_hex_is_digest)
qed

lemma stored_replay_may_be_unusable_witness:
  "\<exists>cache'. store_replay (\<lambda>_. Some ''{}'') one_limits 0 []
      [(json_file (sha256_hex ''{}''), \<lparr>ce_payload = ''{}'', ce_mtime = 0 - cl_max_age one_limits\<rparr>)]
      = Inr (replay_metadata (sha256_hex ''{}''), cache')
    \<and> load_replay (\<lambda>_. None) one_limits (0 + 1) (VDict (replay_metadata (sha256_hex ''{}''))) cache' = Inl Entry_Expired"
  using stored_replay_may_be_unusable [where dumps = "\<lambda>_. Some ''{}''" and b = "[]" and payload = "''{}''"
      and limits = one_limits and now = 0 and damaged = "''{}''" and wait = 1 and loads = "\<lambda>_. None"
      and e = "\<lparr>ce_payload = ''{}'', ce_mtime = 0 - cl_max_age one_limits\<rparr>"
      and cache = "[(json_file (sha256_hex ''{}''), \<lparr>ce_payload = ''{}'', ce_mtime = 0 - cl_max_age one_limits\<rparr>)]"]
  by (auto simp: one_limits_def make_limits_def)

end
