(* ===== verification/Pebra_Gate_Check.thy ===== *)
theory Pebra_Gate_Check
  imports Pebra_Gate_Contract Pebra_Candidate_Binding Pebra_Replay_Cache
begin

text \<open>
  \<open>pebra/adapters/gate_check_adapter.py\<close>: the pre-edit hook. From the event of a host tool it finds the target
  files, asks whether one of them matters to the graph or whether a restriction is pending at the current
  commit, and if so looks for an assessment of exactly this candidate among the stored ones.

  The environment is an argument: the operating system's paths, the root finder, the graph adapter, the
  JSON of the import graph, \<open>git rev-parse HEAD\<close>, the SHA-1 of the repository id, the database file at a
  path, and the formatting of floats in messages. A function that may raise answers \<open>None\<close> where every
  error is caught. The database is not written between the two queries of a call.
\<close>

text \<open>The database at a path, with its assessments in the order of their ids.\<close>

datatype store_view = No_Store | Unreadable_Store | Stored "assessment_row list"

record gate_env =
  ge_tree :: worktree
  ge_codec :: json_codec
  ge_abspath :: "string \<Rightarrow> string"
  ge_realpath :: "string \<Rightarrow> string"
  ge_find_repo_root :: "pyval \<Rightarrow> string option"
  ge_fanin_percentile :: "string \<Rightarrow> string \<Rightarrow> real option"
  ge_fanin_fallback :: "string \<Rightarrow> string \<Rightarrow> string option option"
  ge_import_graph :: "string \<Rightarrow> pyval option"
  ge_relative :: "string \<Rightarrow> string \<Rightarrow> string option"
  ge_head :: "string \<Rightarrow> string option"
  ge_repo_id :: "string \<Rightarrow> string"
  ge_store :: "string \<Rightarrow> store_view"
  ge_format :: "string \<Rightarrow> real \<Rightarrow> string"

definition path_join :: "string \<Rightarrow> string \<Rightarrow> string" where
  "path_join a b =
     (if starts_with b ''/'' then b else if a = [] \<or> ends_with a ''/'' then a @ b else a @ ''/'' @ b)"

text \<open>\<open>x or default\<close>, and the elements an object is iterated over.\<close>

definition or_else :: "pyval \<Rightarrow> pyval \<Rightarrow> pyval" where
  "or_else v w = (if truthy v then v else w)"

fun py_iter :: "pyval \<Rightarrow> pyval list res" where
  "py_iter (VList xs) = Inr xs"
| "py_iter (VStr s) = Inr (map VStr (code_points s))"
| "py_iter (VDict d) = Inr (map (VStr \<circ> fst) d)"
| "py_iter _ = Inl (TypeError ''object is not iterable'')"

section \<open>The targets of an event\<close>

text \<open>\<open>^\*\*\* (?:Add|Update|Delete) File:\s*(.+?)\s*$\<close> in multi-line mode over the whole command: \<open>\s*\<close> runs
  over line ends, and a file name that is all whitespace is its last character other than a newline.\<close>

definition codex_header_rest :: "string \<Rightarrow> string option" where
  "codex_header_rest s =
     (if starts_with s ''*** Add File:'' then Some (drop 13 s)
      else if starts_with s ''*** Update File:'' then Some (drop 16 s)
      else if starts_with s ''*** Delete File:'' then Some (drop 16 s) else None)"

definition blank_target :: "string \<Rightarrow> string list" where
  "blank_target s = (case filter (\<lambda>p. p \<noteq> [LF]) (code_points s) of [] \<Rightarrow> [] | ps \<Rightarrow> [last ps])"

lemma lstrip_shorter: "length (lstrip_rest n s) \<le> length s"
  by (induction n s rule: lstrip_rest.induct) auto

function codex_targets :: "bool \<Rightarrow> string \<Rightarrow> string list" where
  "codex_targets line_start [] = []"
| "codex_targets line_start (c # s) =
     (case (if line_start then codex_header_rest (c # s) else None) of
        None \<Rightarrow> codex_targets (c = LF) s
      | Some r \<Rightarrow>
          (let r' = lstrip_rest 0 r
           in if r' = [] then blank_target r
              else let g = rstrip (before_char LF r') in g # codex_targets False (drop (length g) r')))"
  by pat_completeness auto
termination
proof (relation "measure (length \<circ> snd)", simp, simp)
  fix line_start c s r r' g
  assume "(if line_start then codex_header_rest (c # s) else None) = Some r" and r': "r' = lstrip_rest 0 r"
  then have "length r < length (c # s)" by (auto simp: codex_header_rest_def split: if_splits)
  with lstrip_shorter [of 0 r] r' show "((False, drop (length g) r'), line_start, c # s) \<in> measure (length \<circ> snd)"
    by auto
qed

fun file_paths :: "pyval list \<Rightarrow> string list" where
  "file_paths [] = []"
| "file_paths (VDict d # rest) =
     (case dict_get d ''file_path'' VNone of VStr p \<Rightarrow> if p = [] then file_paths rest else p # file_paths rest
      | _ \<Rightarrow> file_paths rest)"
| "file_paths (_ # rest) = file_paths rest"

text \<open>The paths before they are made absolute.\<close>

definition named_paths :: "pyval \<Rightarrow> pyval dict \<Rightarrow> string list res" where
  "named_paths name tool_input =
     (let file_path = (case dict_get tool_input ''file_path'' VNone of VStr p \<Rightarrow> p | _ \<Rightarrow> [])
      in if name = VStr ''Edit'' \<or> name = VStr ''Write''
         then Inr (if file_path = [] then [] else [file_path])
         else if name = VStr ''MultiEdit''
         then if file_path \<noteq> [] then Inr [file_path]
              else rbind (py_iter (or_else (dict_get tool_input ''edits'' VNone) (VList []))) (\<lambda>edits. Inr (file_paths edits))
         else if name = VStr ''apply_patch''
         then (case or_else (dict_get tool_input ''command'' VNone) (VStr []) of
                 VStr command \<Rightarrow>
                   if codex_targets True command \<noteq> [] then Inr (codex_targets True command)
                   else touched_files command
               | _ \<Rightarrow> Inr [])
         else Inr [])"

definition extract_target_paths :: "gate_env \<Rightarrow> pyval \<Rightarrow> string list res" where
  "extract_target_paths env event =
     (case event of
        VDict d \<Rightarrow>
          (case or_else (dict_get d ''tool_input'' VNone) (VDict []) of
             VDict tool_input \<Rightarrow>
               let cwd = (case or_else (dict_get d ''cwd'' VNone) (VStr ''.'') of VStr c \<Rightarrow> c | _ \<Rightarrow> ''.'')
               in rbind (named_paths (dict_get d ''tool_name'' (VStr [])) tool_input) (\<lambda>ps.
                    Inr (map (\<lambda>p. ge_abspath env (path_join cwd p)) ps))
           | _ \<Rightarrow> Inr [])
      | _ \<Rightarrow> Inr [])"

section \<open>Graph impact\<close>

definition IMPACT_THRESHOLD :: real where "IMPACT_THRESHOLD = 0.90"

definition ANCHOR_THRESHOLD :: real where "ANCHOR_THRESHOLD = 0.75"

definition fallback_messages :: "(string \<times> string) list" where
  "fallback_messages =
     [(''cli not found'', ''CodeGraph CLI not found''), (''out of range'', ''CodeGraph version unsupported''),
      (''not initialized'', ''CodeGraph index not initialized''), (''index stale'', ''CodeGraph index stale''),
      (''db not found'', ''CodeGraph database not found''), (''could not be opened'', ''CodeGraph database unreadable''),
      (''schema below'', ''CodeGraph schema unsupported''), (''query failed'', ''CodeGraph query failed'')]"

definition safe_graph_fallback_reason :: "string \<Rightarrow> string" where
  "safe_graph_fallback_reason reason =
     (case find (\<lambda>(marker, _). contains (lower reason) marker) fallback_messages of
        Some (_, safe_message) \<Rightarrow> safe_message | None \<Rightarrow> ''CodeGraph evidence unavailable'')"

definition fanin_probe :: "gate_env \<Rightarrow> string \<Rightarrow> string \<Rightarrow> real option \<times> string option" where
  "fanin_probe env target repo_root =
     (case ge_fanin_percentile env target repo_root of
        Some pctl \<Rightarrow> (Some pctl, None)
      | None \<Rightarrow>
          (case ge_fanin_fallback env target repo_root of
             None \<Rightarrow> (None, Some ''CodeGraph probe failed'')
           | Some None \<Rightarrow> (Some 0, None)
           | Some (Some reason) \<Rightarrow>
               if reason = [] then (Some 0, None) else (None, Some (safe_graph_fallback_reason reason))))"

definition god_node_score :: "gate_env \<Rightarrow> string \<Rightarrow> string \<Rightarrow> pyfloat option" where
  "god_node_score env target repo_root =
     (case ge_import_graph env repo_root of
        Some (VDict data) \<Rightarrow>
          (case dict_get data ''god_node_scores'' VNone of
             VDict scores \<Rightarrow>
               (case ge_relative env target repo_root of
                  None \<Rightarrow> Some (Fin 0)
                | Some rel \<Rightarrow>
                    Some (case py_number (dict_get scores rel (vreal 0)) of None \<Rightarrow> Fin 0 | Some x \<Rightarrow> x))
           | _ \<Rightarrow> None)
      | _ \<Rightarrow> None)"

text \<open>\<open>ImpactEvidence\<close>: whether a target matters, \<open>None\<close> with a reason when there is no evidence.\<close>

type_synonym impact_evidence = "bool option \<times> string option"

fun impact_loop ::
  "gate_env \<Rightarrow> string \<Rightarrow> string list \<Rightarrow> bool \<Rightarrow> string list \<Rightarrow> impact_evidence" where
  "impact_loop env repo_root [] evidence_seen fallback_reasons =
     (if evidence_seen then (Some False, None)
      else (None, Some (if fallback_reasons = [] then ''no graph evidence available''
                        else join_with ''; '' (first_occurrences fallback_reasons))))"
| "impact_loop env repo_root (target # rest) evidence_seen fallback_reasons =
     (case fanin_probe env target repo_root of (pctl, reason) \<Rightarrow>
        if (case pctl of None \<Rightarrow> False | Some p \<Rightarrow> p \<ge> IMPACT_THRESHOLD) then (Some True, None)
        else case god_node_score env target repo_root of
               Some anchor \<Rightarrow>
                 if float_ge anchor (Fin ANCHOR_THRESHOLD) then (Some True, None)
                 else impact_loop env repo_root rest True
                        (fallback_reasons @ (if pctl = None then (case reason of None \<Rightarrow> [] | Some r \<Rightarrow> [r]) else []))
             | None \<Rightarrow>
                 impact_loop env repo_root rest (evidence_seen \<or> pctl \<noteq> None)
                   (fallback_reasons @ (if pctl = None then (case reason of None \<Rightarrow> [] | Some r \<Rightarrow> [r]) else [])))"

definition any_impactful :: "gate_env \<Rightarrow> string list \<Rightarrow> string \<Rightarrow> impact_evidence" where
  "any_impactful env targets repo_root = impact_loop env repo_root targets False []"

section \<open>Stored assessments\<close>

definition QUERY_LIMIT :: nat where "QUERY_LIMIT = 200"

definition restrictive_decisions :: "decision list" where
  "restrictive_decisions = [ASK_HUMAN, INSPECT_FIRST, REJECT, REVISE_SAFER, TEST_FIRST]"

text \<open>\<open>None\<close> is an unreadable database; a missing one has no rows.\<close>

definition query_assessments :: "store_view \<Rightarrow> string \<Rightarrow> assessment_row list option" where
  "query_assessments store repo_id =
     (case store of
        No_Store \<Rightarrow> Some []
      | Unreadable_Store \<Rightarrow> None
      | Stored rows \<Rightarrow> Some (take QUERY_LIMIT (rev (filter (\<lambda>r. aw_repo_id r = repo_id) rows))))"

definition content_text :: "assessment_row \<Rightarrow> string" where
  "content_text row = (if aw_content_json row = [] then ''{}'' else aw_content_json row)"

fun is_json_error :: "pyerr \<Rightarrow> bool" where
  "is_json_error (ValueError _) = True"
| "is_json_error (TypeError _) = True"
| "is_json_error _ = False"

definition restricts :: "string \<Rightarrow> assessment_row \<Rightarrow> pyval dict \<Rightarrow> bool" where
  "restricts head_sha row content =
     (dict_get content ''assessed_commit'' VNone = VStr head_sha
      \<and> (aw_decision row \<in> decision_value ` set restrictive_decisions
         \<or> dict_get content ''requires_confirmation'' VNone = VBool True))"

fun pending_loop :: "json_codec \<Rightarrow> string \<Rightarrow> assessment_row list \<Rightarrow> nat res" where
  "pending_loop codec head_sha [] = Inr 0"
| "pending_loop codec head_sha (row # rows) =
     (case js_loads codec (content_text row) of
        Inl e \<Rightarrow> if is_json_error e then pending_loop codec head_sha rows else Inl e
      | Inr v \<Rightarrow>
          rbind (as_dict v) (\<lambda>content.
            if restricts head_sha row content then Inr (aw_id row) else pending_loop codec head_sha rows))"

definition query_pending_restriction :: "json_codec \<Rightarrow> store_view \<Rightarrow> string \<Rightarrow> string \<Rightarrow> nat option res" where
  "query_pending_restriction codec store repo_id head_sha =
     (case store of
        No_Store \<Rightarrow> Inr (Some 0)
      | Unreadable_Store \<Rightarrow> Inr None
      | Stored rows \<Rightarrow>
          rbind (pending_loop codec head_sha
                   (rev (filter (\<lambda>r. aw_repo_id r = repo_id
                       \<and> aw_decision r \<in> decision_value ` set (PROCEED # restrictive_decisions)) rows)))
            (\<lambda>i. Inr (Some i)))"

text \<open>\<open>(v.get(k) or {})\<close>, chained.\<close>

definition get_or_empty :: "pyval \<Rightarrow> string \<Rightarrow> pyval res" where
  "get_or_empty v k = rbind (as_dict v) (\<lambda>d. Inr (or_else (dict_get d k VNone) (VDict [])))"

definition guidance_binding :: "pyval \<Rightarrow> pyval res" where
  "guidance_binding content = rbind (get_or_empty content ''model_guidance_packet'') (\<lambda>packet. get_or_empty packet ''binding'')"

definition filter_path_entries :: "pyval list \<Rightarrow> string list" where
  "filter_path_entries files =
     concat (map (\<lambda>f. case f of VStr s \<Rightarrow> if contains s ''::'' then [] else [s] | _ \<Rightarrow> []) files)"

definition paths_match :: "gate_env \<Rightarrow> string \<Rightarrow> string list \<Rightarrow> string \<Rightarrow> bool" where
  "paths_match env target candidates repo_root =
     (let t = ge_realpath env (ge_abspath env target)
      in list_ex (\<lambda>cand. ge_realpath env (path_join repo_root cand) = t) candidates)"

text \<open>Whether a row covers all targets at the commit; a corrupt row does not.\<close>

definition safe_scope_files :: "pyval \<Rightarrow> string list res" where
  "safe_scope_files content =
     rbind (guidance_binding content) (\<lambda>binding.
     rbind (get_or_empty binding ''safe_scope'') (\<lambda>scope.
     rbind (as_dict scope) (\<lambda>d.
     rbind (py_iter (or_else (dict_get d ''files'' VNone) (VList []))) (\<lambda>files. Inr (filter_path_entries files)))))"

definition row_covers :: "gate_env \<Rightarrow> string list \<Rightarrow> string \<Rightarrow> string \<Rightarrow> assessment_row \<Rightarrow> bool" where
  "row_covers env targets head_sha repo_root row =
     (case js_loads (ge_codec env) (content_text row) of
        Inr (VDict content) \<Rightarrow>
          dict_get content ''assessed_commit'' VNone = VStr head_sha
          \<and> (case safe_scope_files (VDict content) of
                Inl _ \<Rightarrow> False
              | Inr candidates \<Rightarrow> list_all (\<lambda>t. paths_match env t candidates repo_root) targets)
      | _ \<Rightarrow> False)"

definition row_candidate_binding :: "json_codec \<Rightarrow> assessment_row \<Rightarrow> pyval dict option" where
  "row_candidate_binding codec row =
     (case rbind (js_loads codec (content_text row)) (\<lambda>content.
           rbind (guidance_binding content) (\<lambda>binding.
           rbind (as_dict binding) (\<lambda>d. Inr (dict_get d ''candidate'' VNone)))) of
        Inr (VDict candidate) \<Rightarrow>
          (if dict_get candidate ''algorithm'' VNone \<noteq> VStr CANDIDATE_BINDING_ALGORITHM then None
           else case dict_get candidate ''files'' VNone of
                  VDict files \<Rightarrow>
                    if files = []
                       \<or> \<not> list_all (\<lambda>(path, digest). case digest of VStr h \<Rightarrow> is_sha256_digest h | _ \<Rightarrow> False) files
                    then None
                    else Some [(''algorithm'', VStr CANDIDATE_BINDING_ALGORITHM), (''files'', VDict files)]
                | _ \<Rightarrow> None)
      | _ \<Rightarrow> None)"

definition matched_row ::
  "gate_env \<Rightarrow> assessment_row list \<Rightarrow> string list \<Rightarrow> string \<Rightarrow> string \<Rightarrow> nat \<Rightarrow> pyval dict option \<Rightarrow> assessment_row option" where
  "matched_row env rows targets head_sha repo_root newer_than_id attempted =
     (let path_matches = filter (\<lambda>r. newer_than_id \<le> aw_id r \<and> row_covers env targets head_sha repo_root r) rows;
          exact = (case attempted of
                     None \<Rightarrow> None
                   | Some a \<Rightarrow> find (\<lambda>r. case row_candidate_binding (ge_codec env) r of
                                     None \<Rightarrow> False | Some b \<Rightarrow> py_eq (VDict b) (VDict a)) path_matches)
      in case exact of
           Some r \<Rightarrow> Some r
         | None \<Rightarrow> (case path_matches of [] \<Rightarrow> None | r # _ \<Rightarrow> Some r))"

text \<open>What a matched row says. A missing or malformed part is caught.\<close>

definition loaded_content :: "json_codec \<Rightarrow> assessment_row \<Rightarrow> pyval dict option" where
  "loaded_content codec row = (case js_loads codec (aw_content_json row) of Inr (VDict d) \<Rightarrow> Some d | _ \<Rightarrow> None)"

definition row_risk_summary :: "json_codec \<Rightarrow> assessment_row \<Rightarrow> gate_risk_summary option" where
  "row_risk_summary codec row =
     (case loaded_content codec row of
        None \<Rightarrow> None
      | Some content \<Rightarrow>
          (case dict_get content ''scores'' VNone of
             VDict scores \<Rightarrow>
               (case rbind (item scores ''expected_loss'') (\<lambda>l. rbind (item scores ''benefit'') (\<lambda>b.
                     rbind (item scores ''rau'') (\<lambda>r. make_risk_summary (VStr (aw_decision row)) l b r))) of
                  Inl _ \<Rightarrow> None | Inr s \<Rightarrow> Some s)
           | _ \<Rightarrow> None))"

definition candidate_replay_available :: "json_codec \<Rightarrow> assessment_row \<Rightarrow> bool" where
  "candidate_replay_available codec row =
     (case loaded_content codec row of
        None \<Rightarrow> False
      | Some content \<Rightarrow>
          (case dict_get content ''request'' VNone of
             VDict request \<Rightarrow>
               (case map_of request ''candidate_replay'' of
                  None \<Rightarrow> False | Some replay \<Rightarrow> validate_candidate_replay_metadata replay \<noteq> None)
           | _ \<Rightarrow> False))"

definition requires_confirmation_row :: "json_codec \<Rightarrow> assessment_row \<Rightarrow> bool" where
  "requires_confirmation_row codec row =
     (case js_loads codec (content_text row) of
        Inr (VDict content) \<Rightarrow> dict_get content ''requires_confirmation'' VNone = VBool True
      | _ \<Rightarrow> False)"

section \<open>Reasons\<close>

definition basename :: "string \<Rightarrow> string" where
  "basename p = last (split_on (CHR ''/'') p)"

definition target_names :: "string list \<Rightarrow> string" where
  "target_names targets = join_with '', '' (map basename (take 3 targets))"

definition deny_reason :: "string list \<Rightarrow> string \<Rightarrow> string" where
  "deny_reason targets head =
     ''Consultation required before editing '' @ target_names targets @ '' (high-impact at commit '' @ take 8 head
     @ ''). Run the pre-edit assessment for the target file(s), then re-issue the edit.''"

definition candidate_reason :: "string list \<Rightarrow> string \<Rightarrow> string" where
  "candidate_reason targets head =
     ''The attempted edit to '' @ target_names targets @ '' does not match the exact candidate assessed at commit ''
     @ take 8 head @ ''. Assess this candidate, then re-issue the same edit.''"

definition candidate_incomplete_reason :: "string list \<Rightarrow> string \<Rightarrow> string" where
  "candidate_incomplete_reason targets head =
     ''The assessed candidate for '' @ target_names targets @ '' at commit '' @ take 8 head
     @ '' changes multiple files and must be applied atomically. Assess a single-file candidate or use an atomic patch event containing the complete assessed candidate.''"

record restrictive_context =
  rx_consult_only :: bool
  rx_replay_available :: bool
  rx_override_eligible :: bool
  rx_assessment_id :: "string option"
  rx_controlling_gate :: "int option"
  rx_gate_name :: "string option"
  rx_recorded_reason :: "string option"

definition plain_context :: "bool \<Rightarrow> bool \<Rightarrow> string option \<Rightarrow> restrictive_context" where
  "plain_context consult_only replay_available assessment_id =
     \<lparr>rx_consult_only = consult_only, rx_replay_available = replay_available, rx_override_eligible = False,
      rx_assessment_id = assessment_id, rx_controlling_gate = None, rx_gate_name = None, rx_recorded_reason = None\<rparr>"

definition evidence_text :: "gate_env \<Rightarrow> decision \<Rightarrow> gate_risk_summary option \<Rightarrow> restrictive_context \<Rightarrow> string" where
  "evidence_text env d risk ctx =
     (case risk of
        None \<Rightarrow> ''Assessment decision: '' @ decision_value d @ ''; risk summary unavailable. ''
      | Some s \<Rightarrow>
          ''Assessment decision: '' @ decision_value (gr_decision s) @ ''. Expected loss: ''
          @ ge_format env ''.6g'' (gr_expected_loss s) @ ''; benefit: '' @ ge_format env ''.6g'' (gr_benefit s)
          @ ''; RAU: '' @ ge_format env ''+.6g'' (gr_rau s) @ ''. '')
     @ (if d = REJECT
        then ''Controlling gate: ''
          @ (case (rx_controlling_gate ctx, rx_gate_name ctx) of
               (Some g, Some name) \<Rightarrow> if name = [] then ''unavailable'' else show_nat (nat g) @ '' ('' @ name @ '')''
             | _ \<Rightarrow> ''unavailable'')
          @ ''. Recorded reason: ''
          @ (case rx_recorded_reason ctx of None \<Rightarrow> ''unavailable'' | Some r \<Rightarrow> if r = [] then ''unavailable'' else r)
          @ ''. ''
        else [])"

definition action_text :: "decision \<Rightarrow> gate_risk_summary option \<Rightarrow> restrictive_context \<Rightarrow> string" where
  "action_text d risk ctx =
     (let named = (rx_assessment_id ctx \<noteq> None \<and> rx_assessment_id ctx \<noteq> Some []);
          aid = (case rx_assessment_id ctx of None \<Rightarrow> [] | Some i \<Rightarrow> i)
      in if d = REVISE_SAFER then ''Next action: revise this candidate to be safer, then reassess it.''
         else if d = INSPECT_FIRST then ''Next action: inspect the affected behavior, then reassess this candidate.''
         else if d = TEST_FIRST then ''Next action: test the affected behavior, then reassess this candidate.''
         else if d = PROCEED
         then if rx_consult_only ctx
              then ''No trusted human approver is available; this candidate still requires confirmation.''
              else if rx_replay_available ctx
              then ''Next action: a trusted human may run the bound interactive workflow: pebra accept-risk --apply''
                @ (if named then '' --assessment-id '' @ aid else []) @ ''.''
              else ''Bound application is unavailable; reassess this candidate before confirmation.''
         else if d = REJECT
         then if risk = None
              then ''Risk evidence is unavailable; reassess this candidate or choose a different candidate or route.''
              else if rx_consult_only ctx
              then ''No trusted human approver is available; revise this candidate or follow the stated policy-resolution route.''
              else if rx_override_eligible ctx \<and> rx_replay_available ctx \<and> named
              then ''Next action: a trusted human may run the bound interactive workflow: pebra accept-risk --apply --assessment-id ''
                @ aid @ ''.''
              else if rx_override_eligible ctx
              then ''Bound application is unavailable; reassess this candidate before human review.''
              else ''Next action: revise this candidate, choose a different candidate or route, or follow the stated policy-resolution route.''
         else if rx_consult_only ctx
         then ''No trusted human approver is available; reassess this candidate or choose another route.''
         else if rx_replay_available ctx
         then ''Next action: run the bound human-review workflow: pebra accept-risk --apply.''
         else ''Bound application is unavailable; reassess this candidate or choose another route.'')"

text \<open>The prefix holds a dash outside ASCII, here as its UTF-8 bytes.\<close>

definition exact_restrictive_reason ::
  "gate_env \<Rightarrow> decision \<Rightarrow> gate_risk_summary option \<Rightarrow> restrictive_context \<Rightarrow> string" where
  "exact_restrictive_reason env d risk ctx =
     ''This exact candidate is held'' @ [CHR 0xE2, CHR 0x80, CHR 0x94] @ ''not your requested goal. ''
     @ evidence_text env d risk ctx @ action_text d risk ctx"

section \<open>Reject context\<close>

fun gate_name_of :: "pyval \<Rightarrow> pyval list \<Rightarrow> string option" where
  "gate_name_of gate [] = None"
| "gate_name_of gate (VDict record # rest) =
     (if dict_get record ''advisory'' VNone \<noteq> VBool True \<and> py_eq (dict_get record ''gate'' VNone) gate
      then (case dict_get record ''name'' VNone of VStr name \<Rightarrow> if name = [] then None else Some name | _ \<Rightarrow> None)
      else gate_name_of gate rest)"
| "gate_name_of gate (_ # rest) = gate_name_of gate rest"

record reject_context =
  rj_gate :: "int option"
  rj_gate_name :: "string option"
  rj_recorded_reason :: "string option"
  rj_eligible :: bool

definition no_reject_context :: reject_context where
  "no_reject_context = \<lparr>rj_gate = None, rj_gate_name = None, rj_recorded_reason = None, rj_eligible = False\<rparr>"

definition reject_context_of :: "json_codec \<Rightarrow> assessment_row \<Rightarrow> reject_context" where
  "reject_context_of codec row =
     (case loaded_content codec row of
        None \<Rightarrow> no_reject_context
      | Some content \<Rightarrow>
          (case dict_get content ''gates_fired'' VNone of
             VList gates_fired \<Rightarrow>
               let gate = controlling_gate gates_fired;
                   recorded_reason = (case dict_get content ''decision_reason'' VNone of
                     VStr r \<Rightarrow> if blank r then None else Some (strip r) | _ \<Rightarrow> None)
               in \<lparr>rj_gate = gate,
                   rj_gate_name = gate_name_of (case gate of None \<Rightarrow> VNone | Some g \<Rightarrow> VInt g) gates_fired,
                   rj_recorded_reason = recorded_reason,
                   rj_eligible = (aw_decision row = decision_value REJECT
                     \<and> reject_override_gate gates_fired \<noteq> None \<and> recorded_reason \<noteq> None)\<rparr>
           | _ \<Rightarrow> no_reject_context))"

section \<open>The decision\<close>

definition matched_decision ::
  "assessment_row \<Rightarrow> gate_permission \<Rightarrow> gate_tier \<Rightarrow> string option \<Rightarrow> gate_risk_summary option \<Rightarrow> gate_decision res" where
  "matched_decision row permission tier reason risk =
     make_gate_decision \<lparr>gd_permission = permission, gd_tier = tier, gd_reason = reason, gd_warn = None,
       gd_risk_summary = risk, gd_matched_assessment_id = Some (asm_id (aw_id row))\<rparr>"

text \<open>The verdict of the exactly matched assessment.\<close>

definition judge_reject :: "gate_env \<Rightarrow> bool \<Rightarrow> assessment_row \<Rightarrow> gate_risk_summary option \<Rightarrow> gate_decision res" where
  "judge_reject env consult_only row risk =
     (let replay = candidate_replay_available (ge_codec env) row;
          ctx = reject_context_of (ge_codec env) row;
          can_offer_override = (rj_eligible ctx \<and> risk \<noteq> None);
          reason = (\<lambda>consult. Some (exact_restrictive_reason env REJECT risk
            \<lparr>rx_consult_only = consult, rx_replay_available = replay, rx_override_eligible = can_offer_override,
             rx_assessment_id = Some (asm_id (aw_id row)), rx_controlling_gate = rj_gate ctx, rx_gate_name = rj_gate_name ctx,
             rx_recorded_reason = rj_recorded_reason ctx\<rparr>))
      in if \<not> consult_only \<and> replay \<and> can_offer_override
         then matched_decision row REQUEST_HUMAN GT_CONSULTED_REJECT_REVIEW (reason False) risk
         else matched_decision row RETURN_CANDIDATE GT_CONSULTED_REVIEW (reason consult_only) risk)"

text \<open>A candidate a human may confirm: an \<open>ask_human\<close>, or a proceed that requires confirmation.\<close>

definition judge_review ::
  "gate_env \<Rightarrow> bool \<Rightarrow> assessment_row \<Rightarrow> decision \<Rightarrow> string option \<Rightarrow> gate_risk_summary option \<Rightarrow> gate_decision res" where
  "judge_review env consult_only row d assessment_id risk =
     (let replay = candidate_replay_available (ge_codec env) row
      in if consult_only \<or> \<not> replay
         then matched_decision row RETURN_CANDIDATE GT_CONSULTED_REVIEW_UNAVAILABLE
                (Some (exact_restrictive_reason env d risk (plain_context consult_only replay None))) risk
         else matched_decision row REQUEST_HUMAN GT_CONSULTED_REVIEW
                (Some (exact_restrictive_reason env d risk (plain_context False True assessment_id))) risk)"

definition judge_matched :: "gate_env \<Rightarrow> bool \<Rightarrow> assessment_row \<Rightarrow> gate_decision res" where
  "judge_matched env consult_only row =
     (let risk = row_risk_summary (ge_codec env) row
      in case decision_of_value (aw_decision row) of
           None \<Rightarrow>
             matched_decision row RETURN_CANDIDATE GT_MUST_CONSULT
               (Some ''The exact candidate matched an assessment whose persisted decision failed data-integrity validation. Reassess the candidate before editing.'')
               None
         | Some d \<Rightarrow>
             (if d = REVISE_SAFER
              then matched_decision row RETURN_CANDIDATE GT_CONSULTED_REVISE
                     (Some (exact_restrictive_reason env d risk (plain_context False False None))) risk
              else if d = INSPECT_FIRST \<or> d = TEST_FIRST
              then matched_decision row RETURN_CANDIDATE GT_CONSULTED_PREREQUISITE
                     (Some (exact_restrictive_reason env d risk (plain_context False False None))) risk
              else if d = REJECT then judge_reject env consult_only row risk
              else if d = ASK_HUMAN then judge_review env consult_only row d None risk
              else if requires_confirmation_row (ge_codec env) row
              then judge_review env consult_only row d (Some (asm_id (aw_id row))) risk
              else matched_decision row CONTINUE GT_CONSULTED None risk))"

text \<open>Whether the attempted edit is the assessed one, file by file; \<open>None\<close> when it is.\<close>

definition binding_verdict :: "pyval dict option \<Rightarrow> pyval dict option \<Rightarrow> gate_tier option" where
  "binding_verdict expected attempted =
     (case expected of
        None \<Rightarrow> Some GT_CANDIDATE_UNBOUND
      | Some e \<Rightarrow>
          (case attempted of
             None \<Rightarrow> Some GT_CANDIDATE_UNVERIFIABLE
           | Some a \<Rightarrow>
               let attempted_files = dict_or_empty (dict_get a ''files'' VNone);
                   expected_files = dict_or_empty (dict_get e ''files'' VNone)
               in if \<not> py_eq (dict_get a ''algorithm'' VNone) (dict_get e ''algorithm'' VNone) \<or> attempted_files = []
                  then Some GT_CANDIDATE_MISMATCH
                  else if fst ` set attempted_files \<noteq> fst ` set expected_files then Some GT_CANDIDATE_INCOMPLETE
                  else if \<not> list_all (\<lambda>(path, digest). py_eq (dict_get expected_files path VNone) digest) attempted_files
                  then Some GT_CANDIDATE_MISMATCH
                  else None))"

definition consult ::
  "gate_env \<Rightarrow> bool \<Rightarrow> pyval \<Rightarrow> string \<Rightarrow> string list \<Rightarrow> string \<Rightarrow> assessment_row list \<Rightarrow> nat \<Rightarrow> gate_decision res" where
  "consult env consult_only event repo_root targets head rows newer_than_id =
     rbind (binding_for_event (ge_tree env) repo_root event) (\<lambda>attempted.
       case matched_row env rows targets head repo_root newer_than_id attempted of
         None \<Rightarrow> plain_decision RETURN_CANDIDATE GT_MUST_CONSULT (Some (deny_reason targets head)) None
       | Some row \<Rightarrow>
           (case binding_verdict (row_candidate_binding (ge_codec env) row) attempted of
              Some tier \<Rightarrow>
                plain_decision RETURN_CANDIDATE tier
                  (Some (if tier = GT_CANDIDATE_INCOMPLETE then candidate_incomplete_reason targets head
                         else candidate_reason targets head)) None
            | None \<Rightarrow> judge_matched env consult_only row))"

definition fail_open :: "string \<Rightarrow> gate_decision res" where
  "fail_open warn = plain_decision CONTINUE GT_FAIL_OPEN None (Some warn)"

definition store_unavailable :: "gate_decision res" where
  "store_unavailable = fail_open ''gate: assessment store unavailable''"

text \<open>Nothing restricts the edit: it passes, with a warning when the graph could not be asked.\<close>

definition unrestricted :: "impact_evidence \<Rightarrow> gate_decision res" where
  "unrestricted impact =
     (if fst impact = None
      then fail_open (''gate: graph unavailable''
             @ (case snd impact of None \<Rightarrow> [] | Some r \<Rightarrow> if r = [] then [] else '': '' @ r) @ ''; skipping consult check'')
      else plain_decision CONTINUE GT_PASS None None)"

definition database_path :: "string option \<Rightarrow> string \<Rightarrow> string" where
  "database_path db_path repo_root =
     (case db_path of
        Some p \<Rightarrow> if p = [] then path_join (path_join repo_root ''.pebra'') ''pebra.db'' else p
      | None \<Rightarrow> path_join (path_join repo_root ''.pebra'') ''pebra.db'')"

definition gate_in_repository ::
  "gate_env \<Rightarrow> string option \<Rightarrow> bool \<Rightarrow> bool \<Rightarrow> pyval \<Rightarrow> string list \<Rightarrow> string \<Rightarrow> gate_decision res" where
  "gate_in_repository env db_path consult_only require_exact_match event targets repo_root =
     (let impact = any_impactful env targets repo_root;
          store = ge_store env (database_path db_path repo_root);
          repo_id = ge_repo_id env repo_root
      in if fst impact \<noteq> Some True \<and> \<not> require_exact_match
         then (case ge_head env repo_root of
                 None \<Rightarrow> unrestricted impact
               | Some head \<Rightarrow>
                   rbind (query_pending_restriction (ge_codec env) store repo_id head) (\<lambda>pending.
                     case pending of
                       None \<Rightarrow> store_unavailable
                     | Some i \<Rightarrow>
                         if i = 0 then unrestricted impact
                         else (case query_assessments store repo_id of
                                 None \<Rightarrow> store_unavailable
                               | Some rows \<Rightarrow> consult env consult_only event repo_root targets head rows i)))
         else (case ge_head env repo_root of
                 None \<Rightarrow> fail_open ''gate: git HEAD unavailable; skipping consult check''
               | Some head \<Rightarrow>
                   (case query_assessments store repo_id of
                      None \<Rightarrow> store_unavailable
                    | Some rows \<Rightarrow> consult env consult_only event repo_root targets head rows 0)))"

definition unparsed_patch :: "pyval \<Rightarrow> bool" where
  "unparsed_patch event =
     (case event of
        VDict d \<Rightarrow>
          dict_get d ''tool_name'' VNone = VStr ''apply_patch''
          \<and> (case dict_get d ''tool_input'' VNone of
                VDict tool_input \<Rightarrow>
                  (case dict_get tool_input ''command'' VNone of VStr command \<Rightarrow> \<not> blank command | _ \<Rightarrow> False)
              | _ \<Rightarrow> False)
      | _ \<Rightarrow> False)"

definition gate_decide ::
  "gate_env \<Rightarrow> string option \<Rightarrow> bool \<Rightarrow> bool \<Rightarrow> pyval \<Rightarrow> gate_decision res" where
  "gate_decide env db_path consult_only require_exact_match event =
     rbind (extract_target_paths env event) (\<lambda>targets.
       if targets = []
       then if unparsed_patch event
            then plain_decision RETURN_CANDIDATE GT_CANDIDATE_UNVERIFIABLE
                   (Some ''The attempted patch could not be parsed into a complete, safe file scope. Assess and apply a well-formed atomic patch.'') None
            else plain_decision CONTINUE GT_PASS None None
       else (case ge_find_repo_root env
                    (or_else (dict_get (dict_or_empty event) ''cwd'' VNone) (VStr ''.'')) of
               None \<Rightarrow> fail_open ''gate: repo root unresolved''
             | Some repo_root \<Rightarrow>
                 gate_in_repository env db_path consult_only require_exact_match event targets repo_root))"

section \<open>The gate keeps its contract\<close>

lemma not_blank_ascii: "33 \<le> (of_char c :: nat) \<Longrightarrow> of_char c < (128 :: nat) \<Longrightarrow> \<not> blank (c # s)"
  by (auto simp: blank_def space_len_def is_ascii_space_def split: list.splits)

lemma reasons_not_blank [simp]:
  "\<not> blank (deny_reason targets head)" "\<not> blank (candidate_reason targets head)"
  "\<not> blank (candidate_incomplete_reason targets head)" "\<not> blank (exact_restrictive_reason env d risk ctx)"
  by (simp_all add: deny_reason_def candidate_reason_def candidate_incomplete_reason_def exact_restrictive_reason_def
      not_blank_ascii)

lemma plain_decision_Inr:
  "plain_decision permission tier reason warn = Inr d \<Longrightarrow>
     gd_permission d = permission \<and> gd_tier d = tier \<and> gd_risk_summary d = None \<and> gate_contract d"
  by (auto simp: plain_decision_def make_gate_decision_contract)

lemma matched_decision_Inr:
  "matched_decision row permission tier reason risk = Inr d \<Longrightarrow>
     gd_permission d = permission \<and> gd_tier d = tier \<and> gd_risk_summary d = risk
     \<and> gd_matched_assessment_id d = Some (asm_id (aw_id row)) \<and> gate_contract d"
  by (auto simp: matched_decision_def make_gate_decision_contract)

lemma plain_decision_ok:
  "is_ok (plain_decision permission tier reason warn)
     \<longleftrightarrow> allowed_tier permission tier \<and> tier \<noteq> GT_CONSULTED_REJECT_REVIEW
       \<and> (permission \<noteq> CONTINUE \<longrightarrow> (\<exists>r. reason = Some r \<and> \<not> blank r))"
  by (auto simp: plain_decision_def make_gate_decision_ok gate_contract_def)

lemma fail_open_ok [simp]: "is_ok (fail_open warn)" "is_ok store_unavailable" "is_ok (unrestricted impact)"
  by (simp_all add: fail_open_def store_unavailable_def unrestricted_def plain_decision_ok allowed_tier_def)

lemma summary_decision:
  assumes "row_risk_summary codec row = Some s"
  shows "aw_decision row = decision_value (gr_decision s)"
  using assms
  by (auto simp: row_risk_summary_def rbind_Inr_iff split: option.splits pyval.splits sum.splits
      dest!: make_risk_summary_Inr)

lemma show_nat_digits: "0 < n \<Longrightarrow> \<exists>c r. show_nat n = c # r \<and> is_digit c \<and> c \<noteq> CHR ''0'' \<and> list_all is_digit r"
proof (induction n rule: show_nat.induct)
  case (1 n)
  have digit: "is_digit (digit_char k)" for k
    by (simp add: is_digit_def digit_char.simps Let_def)
  show ?case
  proof (cases "n < 10")
    case True
    have "digit_char n \<noteq> CHR ''0''"
    proof
      assume "digit_char n = CHR ''0''"
      then have "(of_char (digit_char n) :: nat) = of_char (CHR ''0'')" by simp
      with True 1(2) show False by simp
    qed
    with True digit [of n] show ?thesis by (subst show_nat.simps) (simp del: digit_char.simps)
  next
    case False
    have "0 < n div 10" using False by simp
    then obtain c r where "show_nat (n div 10) = c # r" "is_digit c" "c \<noteq> CHR ''0''" "list_all is_digit r"
      using "1.IH" [OF False] by blast
    with False digit show ?thesis by (subst show_nat.simps) simp
  qed
qed

lemma asm_id_exact: "0 < aw_id row \<Longrightarrow> exact_assessment_id (asm_id (aw_id row))"
  using show_nat_digits [of "aw_id row"] by (auto simp: asm_id_def exact_assessment_id_def)

lemma matched_decision_ok:
  assumes "0 < aw_id row"
  shows "is_ok (matched_decision row permission tier reason risk)
     \<longleftrightarrow> allowed_tier permission tier \<and> (permission \<noteq> CONTINUE \<longrightarrow> (\<exists>r. reason = Some r \<and> \<not> blank r))
       \<and> (\<forall>s. risk = Some s \<longrightarrow> gr_decision s \<in> set (allowed_risk_decisions permission tier))
       \<and> (tier = GT_CONSULTED_REJECT_REVIEW \<longrightarrow> risk \<noteq> None)"
  using asm_id_exact [OF assms] by (auto simp: matched_decision_def make_gate_decision_ok gate_contract_def)

lemma judge_matched_ok:
  assumes "0 < aw_id row"
  shows "is_ok (judge_matched env consult_only row)"
proof (cases "decision_of_value (aw_decision row)")
  case None
  then show ?thesis
    by (simp add: judge_matched_def Let_def matched_decision_ok [OF assms] allowed_tier_def not_blank_ascii)
next
  case (Some d)
  then have d: "aw_decision row = decision_value d" by (simp add: decision_of_value_Some)
  have s: "gr_decision s = d" if "row_risk_summary (ge_codec env) row = Some s" for s
    using summary_decision [OF that] d decision_of_value_value by (metis option.inject)
  show ?thesis
    using Some
    by (cases d) (auto simp: judge_matched_def Let_def judge_reject_def judge_review_def
        matched_decision_ok [OF assms] allowed_tier_def allowed_risk_decisions_def dest!: s)
qed

text \<open>What the parts of a call answer.\<close>

lemma binding_verdict_tier:
  "binding_verdict expected attempted = Some tier \<Longrightarrow>
     tier \<in> {GT_CANDIDATE_UNBOUND, GT_CANDIDATE_UNVERIFIABLE, GT_CANDIDATE_MISMATCH, GT_CANDIDATE_INCOMPLETE}"
  by (auto simp: binding_verdict_def Let_def split: option.splits if_splits)

lemma matched_row_mem: "matched_row env rows targets head rr newer_than_id attempted = Some row \<Longrightarrow>
    row \<in> set rows \<and> newer_than_id \<le> aw_id row \<and> row_covers env targets head rr row"
  by (auto simp: matched_row_def Let_def find_Some_iff filter_eq_Cons_iff split: option.splits list.splits
      dest!: nth_mem)

lemma consult_ok:
  assumes "\<And>row. row \<in> set rows \<Longrightarrow> 0 < aw_id row"
  shows "is_ok (consult env consult_only event rr targets head rows newer_than_id)"
proof -
  obtain attempted where a: "binding_for_event (ge_tree env) rr event = Inr attempted"
    using binding_for_event_returns by blast
  show ?thesis
  proof (cases "matched_row env rows targets head rr newer_than_id attempted")
    case None
    then show ?thesis by (simp add: consult_def a plain_decision_ok allowed_tier_def)
  next
    case (Some row)
    then have "0 < aw_id row" using matched_row_mem assms by blast
    then show ?thesis
      using binding_verdict_tier [of "row_candidate_binding (ge_codec env) row" attempted]
      by (auto simp: consult_def a Some plain_decision_ok allowed_tier_def judge_matched_ok split: option.split)
  qed
qed

lemma make_ok_contract: "plain_decision p t r w = Inr d \<Longrightarrow> gate_contract d" "matched_decision row p t r s = Inr d \<Longrightarrow> gate_contract d"
  by (simp_all add: plain_decision_Inr matched_decision_Inr)

lemma judge_matched_contract: "judge_matched env consult_only row = Inr d \<Longrightarrow> gate_contract d"
  by (auto simp: judge_matched_def judge_reject_def judge_review_def Let_def dest: make_ok_contract
      split: option.splits if_splits)

lemma consult_contract: "consult env consult_only event rr targets head rows newer_than_id = Inr d \<Longrightarrow> gate_contract d"
  by (auto simp: consult_def rbind_Inr_iff dest: make_ok_contract judge_matched_contract split: option.splits)

lemma open_contract:
  "fail_open warn = Inr d \<Longrightarrow> gate_contract d" "store_unavailable = Inr d \<Longrightarrow> gate_contract d"
  "unrestricted impact = Inr d \<Longrightarrow> gate_contract d"
  by (auto simp: fail_open_def store_unavailable_def unrestricted_def dest: make_ok_contract split: if_splits)

text \<open>The rows a call may read: with positive ids and objects as contents.\<close>

definition readable_rows :: "json_codec \<Rightarrow> assessment_row list \<Rightarrow> bool" where
  "readable_rows codec rows =
     (\<forall>row \<in> set rows. 0 < aw_id row
        \<and> (case js_loads codec (content_text row) of Inl e \<Rightarrow> is_json_error e | Inr v \<Rightarrow> (\<exists>d. v = VDict d)))"

lemma pending_loop_ok: "readable_rows codec rows \<Longrightarrow> is_ok (pending_loop codec head rows)"
proof (induction rows)
  case (Cons row rows)
  then show ?case by (auto simp: readable_rows_def as_dict_def split: sum.splits)
qed simp

lemma query_assessments_set: "query_assessments (Stored table) repo_id = Some rows \<Longrightarrow> set rows \<subseteq> set table"
  by (auto simp: query_assessments_def dest: in_set_takeD)

lemma readable_subset: "readable_rows codec rows \<Longrightarrow> set rows' \<subseteq> set rows \<Longrightarrow> readable_rows codec rows'"
  by (auto simp: readable_rows_def)

definition store_ok :: "json_codec \<Rightarrow> store_view \<Rightarrow> bool" where
  "store_ok codec store = (case store of Stored rows \<Rightarrow> readable_rows codec rows | _ \<Rightarrow> True)"

lemma query_rows_positive:
  "store_ok codec store \<Longrightarrow> query_assessments store repo_id = Some rows \<Longrightarrow> row \<in> set rows \<Longrightarrow> 0 < aw_id row"
  by (cases store) (auto simp: store_ok_def query_assessments_def readable_rows_def dest!: in_set_takeD)

lemma query_pending_ok: "store_ok codec store \<Longrightarrow> is_ok (query_pending_restriction codec store repo_id head)"
  by (cases store)
    (auto simp: store_ok_def query_pending_restriction_def is_ok_rbind is_ok_iff [symmetric]
      intro!: pending_loop_ok elim!: readable_subset)

text \<open>C23: The gate never trips over itself. For every event whose targets can be extracted, whatever the state of the
  graph, of Git and of the file system, a store that is missing, unreadable or holds assessments with
  positive ids whose contents are JSON objects or no JSON at all, the gate answers, and its answer satisfies
  the published contract: an allowed pair of permission and tier, a reason with every restriction, a risk
  summary only with the decisions its tier admits and an exact assessment id.\<close>

theorem gate_answers_within_its_contract:
  assumes "extract_target_paths env event = Inr targets"
    and "\<And>path. store_ok (ge_codec env) (ge_store env path)"
  shows "\<exists>d. gate_decide env db_path consult_only require_exact_match event = Inr d \<and> gate_contract d"
proof -
  have consulted: "is_ok (consult env consult_only event rr ts head rows n)"
    if "query_assessments (ge_store env path) repo_id = Some rows" for rr ts head rows n path repo_id
    by (rule consult_ok) (use query_rows_positive [OF assms(2) that] in blast)
  have inside: "is_ok (gate_in_repository env db_path consult_only require_exact_match event targets rr)" for rr
  proof -
    have pending: "\<exists>p. query_pending_restriction (ge_codec env) (ge_store env path) repo_id head = Inr p" for path repo_id head
      using query_pending_ok [OF assms(2)] by (simp add: is_ok_iff)
    show ?thesis
    proof (cases "ge_head env rr")
      case None
      then show ?thesis by (simp add: gate_in_repository_def Let_def)
    next
      case (Some head)
      obtain p where "query_pending_restriction (ge_codec env) (ge_store env (database_path db_path rr)) (ge_repo_id env rr) head = Inr p"
        using pending by blast
      with Some show ?thesis
        by (auto simp: gate_in_repository_def Let_def intro: consulted split: option.split)
    qed
  qed
  have "is_ok (gate_decide env db_path consult_only require_exact_match event)"
    by (auto simp: gate_decide_def assms(1) inside plain_decision_ok allowed_tier_def not_blank_ascii split: option.split)
  moreover have "gate_contract d" if "gate_decide env db_path consult_only require_exact_match event = Inr d" for d
    using that
    by (auto simp: gate_decide_def gate_in_repository_def assms(1) Let_def rbind_Inr_iff
        dest: make_ok_contract open_contract consult_contract split: option.splits if_splits)
  ultimately show ?thesis by (auto simp: is_ok_iff)
qed

section \<open>What passes\<close>

text \<open>A decision to continue comes from a row whose verdict is an unconditional proceed.\<close>

lemma judge_matched_continue:
  assumes "judge_matched env consult_only row = Inr d" and "gd_permission d = CONTINUE"
  shows "aw_decision row = ''proceed'' \<and> \<not> requires_confirmation_row (ge_codec env) row
    \<and> gd_tier d = GT_CONSULTED \<and> gd_matched_assessment_id d = Some (asm_id (aw_id row))"
proof (cases "decision_of_value (aw_decision row)")
  case None
  with assms show ?thesis by (auto simp: judge_matched_def Let_def dest: matched_decision_Inr)
next
  case (Some c)
  then have "aw_decision row = decision_value c" by (simp add: decision_of_value_Some)
  with assms Some show ?thesis
    by (cases c) (auto simp: judge_matched_def judge_reject_def judge_review_def Let_def
        dest: matched_decision_Inr split: if_splits)
qed

lemma binding_verdict_same:
  assumes "binding_verdict expected attempted = None"
  shows "\<exists>e a. expected = Some e \<and> attempted = Some a \<and> dict_or_empty (dict_get a ''files'' VNone) \<noteq> []
    \<and> fst ` set (dict_or_empty (dict_get a ''files'' VNone)) = fst ` set (dict_or_empty (dict_get e ''files'' VNone))
    \<and> list_all (\<lambda>(path, digest). py_eq (dict_get (dict_or_empty (dict_get e ''files'' VNone)) path VNone) digest)
        (dict_or_empty (dict_get a ''files'' VNone))"
  using assms by (auto simp: binding_verdict_def Let_def split: option.splits if_splits)

lemma bound_files_or_empty: "bound_files b = map_of (dict_or_empty (dict_get b ''files'' VNone))"
  by (cases "dict_get b ''files'' VNone") (simp_all add: bound_files_def dict_or_empty_def)

lemma candidate_binding_values: "candidate_binding after = Some a \<Longrightarrow> bound_files a p = Some v \<Longrightarrow> \<exists>h. v = VStr h"
  using candidate_binding_dom by blast

lemma binding_verdict_bound:
  assumes verdict: "binding_verdict (Some e) (Some a) = None"
    and a: "candidate_binding after = Some a"
  shows "bound_files a = bound_files e"
proof
  fix p
  let ?ea = "dict_or_empty (dict_get a ''files'' VNone)" and ?ee = "dict_or_empty (dict_get e ''files'' VNone)"
  have keys: "fst ` set ?ea = fst ` set ?ee"
    and digests: "\<And>q h. (q, h) \<in> set ?ea \<Longrightarrow> py_eq (dict_get ?ee q VNone) h"
    using binding_verdict_same [OF verdict] by (auto simp: list_all_iff)
  show "bound_files a p = bound_files e p"
  proof (cases "bound_files a p")
    case None
    then have "p \<notin> fst ` set ?ee" using keys by (simp add: bound_files_or_empty map_of_eq_None_iff)
    then have "map_of ?ee p = None" by (simp only: map_of_eq_None_iff) blast
    with None show ?thesis by (simp add: bound_files_or_empty)
  next
    case (Some v)
    then obtain h where h: "v = VStr h" using candidate_binding_values [OF a] by blast
    have "(p, v) \<in> set ?ea" using Some by (auto simp: bound_files_or_empty dest: map_of_SomeD)
    then have eq: "dict_get ?ee p VNone = v" using digests [of p v] by (simp add: h py_eq_VStr)
    have "p \<in> fst ` set ?ea" using \<open>(p, v) \<in> set ?ea\<close> by force
    then have "p \<in> fst ` set ?ee" using keys by simp
    then obtain u where "map_of ?ee p = Some u" by (metis map_of_eq_None_iff option.exhaust)
    with eq Some show ?thesis by (simp add: bound_files_or_empty dict_get_def)
  qed
qed

text \<open>The row that is judged: the newest exact match, or the newest covering row when none is exact.\<close>

lemma find_first: "find P (filter Q xs) = Some x \<Longrightarrow> \<exists>before after. xs = before @ x # after \<and> Q x \<and> P x \<and> (\<forall>r \<in> set before. Q r \<longrightarrow> \<not> P r)"
proof (induction xs)
  case (Cons y ys)
  show ?case
  proof (cases "Q y \<and> P y")
    case True
    with Cons.prems have "x = y" by simp
    with True show ?thesis by (intro exI [of _ "[]"] exI [of _ ys]) simp
  next
    case False
    with Cons.prems have "find P (filter Q ys) = Some x" by (auto split: if_splits)
    then obtain before after where "ys = before @ x # after" "Q x" "P x" "\<forall>r \<in> set before. Q r \<longrightarrow> \<not> P r"
      using Cons.IH by blast
    with False show ?thesis by (intro exI [of _ "y # before"] exI [of _ after]) auto
  qed
qed simp

lemma filter_head: "filter Q xs = x # ys \<Longrightarrow> find (\<lambda>_. True) (filter Q xs) = Some x"
  by simp

definition same_binding :: "json_codec \<Rightarrow> pyval dict option \<Rightarrow> assessment_row \<Rightarrow> bool" where
  "same_binding codec attempted row =
     (case (row_candidate_binding codec row, attempted) of
        (Some b, Some a) \<Rightarrow> py_eq (VDict b) (VDict a) | _ \<Rightarrow> False)"

definition eligible :: "gate_env \<Rightarrow> string list \<Rightarrow> string \<Rightarrow> string \<Rightarrow> nat \<Rightarrow> assessment_row \<Rightarrow> bool" where
  "eligible env targets head rr n row = (n \<le> aw_id row \<and> row_covers env targets head rr row)"

lemma matched_row_find:
  "matched_row env rows targets head rr n attempted =
     (case find (same_binding (ge_codec env) attempted) (filter (eligible env targets head rr n) rows) of
        Some r \<Rightarrow> Some r | None \<Rightarrow> find (\<lambda>_. True) (filter (eligible env targets head rr n) rows))"
proof -
  have e: "eligible env targets head rr n = (\<lambda>r. n \<le> aw_id r \<and> row_covers env targets head rr r)"
    by (simp add: eligible_def fun_eq_iff)
  have f: "(case attempted of None \<Rightarrow> None
            | Some a \<Rightarrow> find (\<lambda>r. case row_candidate_binding (ge_codec env) r of
                 None \<Rightarrow> False | Some b \<Rightarrow> py_eq (VDict b) (VDict a)) xs)
      = find (same_binding (ge_codec env) attempted) xs" for xs
  proof (cases attempted)
    case None
    then show ?thesis by (induction xs) (auto simp: same_binding_def split: option.split)
  next
    case (Some a)
    have "(\<lambda>r. case row_candidate_binding (ge_codec env) r of None \<Rightarrow> False | Some b \<Rightarrow> py_eq (VDict b) (VDict a))
        = same_binding (ge_codec env) (Some a)"
      by (intro ext) (simp add: same_binding_def split: option.split)
    then show ?thesis by (simp only: Some option.case)
  qed
  show ?thesis
    unfolding matched_row_def Let_def e f by (auto split: option.split list.split)
qed

lemma matched_row_newest:
  assumes "matched_row env rows targets head rr n attempted = Some row"
  shows "\<exists>newer older. rows = newer @ row # older \<and> eligible env targets head rr n row
    \<and> (\<forall>r \<in> set newer. eligible env targets head rr n r \<longrightarrow> \<not> same_binding (ge_codec env) attempted r)"
proof (cases "find (same_binding (ge_codec env) attempted) (filter (eligible env targets head rr n) rows)")
  case (Some r)
  with assms show ?thesis using find_first [OF Some] by (auto simp: matched_row_find)
next
  case None
  with assms have f: "find (\<lambda>_. True) (filter (eligible env targets head rr n) rows) = Some row"
    by (simp add: matched_row_find)
  show ?thesis using find_first [OF f] by auto
qed

text \<open>A row that lets an edit pass: an unconditional proceed for the targets at the commit, bound to the contents the
  edit would leave behind, and the newest one bound to them.\<close>

definition assessed_and_passed ::
  "gate_env \<Rightarrow> pyval \<Rightarrow> string \<Rightarrow> string list \<Rightarrow> string \<Rightarrow> nat \<Rightarrow> assessment_row list \<Rightarrow> assessment_row \<Rightarrow> bool" where
  "assessed_and_passed env event rr targets head n rows row =
     (aw_decision row = ''proceed'' \<and> \<not> requires_confirmation_row (ge_codec env) row
      \<and> n \<le> aw_id row \<and> row_covers env targets head rr row
      \<and> (\<exists>attempted assessed newer older.
            binding_for_event (ge_tree env) rr event = Inr (Some attempted)
            \<and> row_candidate_binding (ge_codec env) row = Some assessed \<and> bound_files attempted = bound_files assessed
            \<and> rows = newer @ row # older
            \<and> (\<forall>r \<in> set newer. eligible env targets head rr n r \<longrightarrow> \<not> same_binding (ge_codec env) (Some attempted) r)))"

lemma consult_continue:
  assumes "consult env consult_only event rr targets head rows n = Inr d" and continue: "gd_permission d = CONTINUE"
  shows "\<exists>row. assessed_and_passed env event rr targets head n rows row
    \<and> gd_tier d = GT_CONSULTED \<and> gd_matched_assessment_id d = Some (asm_id (aw_id row))"
proof -
  obtain attempted where a: "binding_for_event (ge_tree env) rr event = Inr attempted"
    using binding_for_event_returns by blast
  obtain row where row: "matched_row env rows targets head rr n attempted = Some row"
    and verdict: "binding_verdict (row_candidate_binding (ge_codec env) row) attempted = None"
    and judged: "judge_matched env consult_only row = Inr d"
    using assms by (auto simp: consult_def a dest: plain_decision_Inr split: option.splits)
  obtain e b where e: "row_candidate_binding (ge_codec env) row = Some e" and b: "attempted = Some b"
    using binding_verdict_same [OF verdict] by blast
  obtain after where "candidate_binding after = Some b" using binding_for_event_Some a b by blast
  then have "bound_files b = bound_files e" using binding_verdict_bound verdict e b by simp
  with a b e matched_row_newest [OF row] judge_matched_continue [OF judged continue] show ?thesis
    unfolding assessed_and_passed_def eligible_def by blast
qed

text \<open>A small repository: one file of the given fan-in, rejected at first and allowed afterwards.\<close>

definition tiny_document :: "pyval dict" where
  "tiny_document =
     [(''assessed_commit'', VStr ''c1''),
      (''model_guidance_packet'', VDict [(''binding'', VDict
         [(''safe_scope'', VDict [(''files'', vstrs [''a''])]),
          (''candidate'', VDict (binding_of_files [(''a'', content_digest (Some ''y''))]))])])]"

definition tiny_row :: "nat \<Rightarrow> string \<Rightarrow> assessment_row" where
  "tiny_row i d =
     \<lparr>aw_id = i, aw_repo_id = ''id'', aw_decision = d, aw_content_json = ''doc'', aw_prev_hash = [], aw_row_hash = []\<rparr>"

definition tiny_table :: "assessment_row list" where
  "tiny_table = [tiny_row 2 ''reject'', tiny_row 3 ''proceed'']"

definition tiny_codec :: json_codec where
  "tiny_codec =
     \<lparr>js_compact = (\<lambda>_. []), js_plain = (\<lambda>_. []), js_loads = (\<lambda>s. if s = ''doc'' then Inr (VDict tiny_document) else Inr (VList [])),
      js_text = (\<lambda>_. [])\<rparr>"

definition tiny_env :: "real \<Rightarrow> gate_env" where
  "tiny_env fanin =
     \<lparr>ge_tree = tiny_tree, ge_codec = tiny_codec, ge_abspath = (\<lambda>p. if p = ''./a'' then ''/r/a'' else p), ge_realpath = id,
      ge_find_repo_root = (\<lambda>_. Some ''/r''), ge_fanin_percentile = (\<lambda>_ _. Some fanin), ge_fanin_fallback = (\<lambda>_ _. None),
      ge_import_graph = (\<lambda>_. None), ge_relative = (\<lambda>_ _. None), ge_head = (\<lambda>_. Some ''c1''), ge_repo_id = (\<lambda>_. ''id''),
      ge_store = (\<lambda>_. Stored tiny_table), ge_format = (\<lambda>_ _. [])\<rparr>"

definition tiny_write :: pyval where
  "tiny_write =
     VDict [(''tool_name'', VStr ''Write''),
            (''tool_input'', VDict [(''file_path'', VStr ''a''), (''content'', VStr ''y'')])]"

lemma tiny_env_fields [simp]:
  "ge_tree (tiny_env f) = tiny_tree" "ge_codec (tiny_env f) = tiny_codec" "ge_realpath (tiny_env f) = id"
  "ge_abspath (tiny_env f) p = (if p = ''./a'' then ''/r/a'' else p)"
  "ge_find_repo_root (tiny_env f) v = Some ''/r''" "ge_fanin_percentile (tiny_env f) p r = Some f"
  "ge_import_graph (tiny_env f) r = None" "ge_head (tiny_env f) r = Some ''c1''" "ge_repo_id (tiny_env f) r = ''id''"
  "ge_store (tiny_env f) q = Stored tiny_table"
  by (simp_all add: tiny_env_def)

lemma tiny_row_fields [simp]:
  "aw_id (tiny_row i d) = i" "aw_repo_id (tiny_row i d) = ''id''" "aw_decision (tiny_row i d) = d"
  "content_text (tiny_row i d) = ''doc''" "aw_content_json (tiny_row i d) = ''doc''"
  by (simp_all add: tiny_row_def content_text_def)

lemma tiny_loads [simp]: "js_loads tiny_codec ''doc'' = Inr (VDict tiny_document)"
  by (simp add: tiny_codec_def)

lemma tiny_targets: "extract_target_paths (tiny_env f) tiny_write = Inr [''/r/a'']"
  by (simp add: extract_target_paths_def tiny_write_def named_paths_def dict_get_def or_else_def path_join_def
      starts_with_def ends_with_def)

lemma tiny_binding:
  "binding_for_event tiny_tree ''/r'' tiny_write = Inr (Some (binding_of_files [(''a'', content_digest (Some ''y''))]))"
proof -
  have "safe_rel tiny_tree ''/r'' (Some ''/r'') (VStr ''a'') = Some ''a''" and a: "slashes ''a'' = ''a''" by code_simp+
  moreover have "wk_resolve tiny_tree ''/r'' = Some ''/r''" by (simp add: tiny_tree_def)
  ultimately show ?thesis
    by (simp add: binding_for_event_def event_binding_def tiny_write_def dict_get_def edited_content_def
        candidate_binding_def dict_has_def unverifiable_def)
qed

lemma tiny_covers: "row_covers (tiny_env f) [''/r/a''] ''c1'' ''/r'' (tiny_row i d)"
  by (simp add: row_covers_def tiny_document_def dict_get_def safe_scope_files_def guidance_binding_def get_or_empty_def
      as_dict_def or_else_def filter_path_entries_def paths_match_def path_join_def starts_with_def ends_with_def)

lemma tiny_row_binding:
  "row_candidate_binding tiny_codec (tiny_row i d) = Some (binding_of_files [(''a'', content_digest (Some ''y''))])"
  by (simp add: row_candidate_binding_def tiny_document_def guidance_binding_def get_or_empty_def as_dict_def or_else_def
      dict_get_def binding_of_files_def content_digest_def sha256_hex_is_digest)

lemma tiny_rows: "query_assessments (Stored tiny_table) ''id'' = Some [tiny_row 3 ''proceed'', tiny_row 2 ''reject'']"
  by (simp add: query_assessments_def tiny_table_def QUERY_LIMIT_def)

lemma tiny_matched:
  "n \<le> 3 \<Longrightarrow> matched_row (tiny_env f) [tiny_row 3 ''proceed'', tiny_row 2 ''reject''] [''/r/a''] ''c1'' ''/r'' n
      (Some (binding_of_files [(''a'', content_digest (Some ''y''))])) = Some (tiny_row 3 ''proceed'')"
  by (simp add: matched_row_def tiny_covers tiny_row_binding binding_of_files_def)

lemma tiny_consult:
  "n \<le> 3 \<Longrightarrow> consult (tiny_env f) False tiny_write ''/r'' [''/r/a''] ''c1'' [tiny_row 3 ''proceed'', tiny_row 2 ''reject''] n
     = Inr \<lparr>gd_permission = CONTINUE, gd_tier = GT_CONSULTED, gd_reason = None, gd_warn = None,
            gd_risk_summary = None, gd_matched_assessment_id = Some (asm_id 3)\<rparr>"
proof -
  let ?b = "binding_of_files [(''a'', content_digest (Some ''y''))]"
  have "binding_verdict (Some ?b) (Some ?b) = None"
    by (simp add: binding_verdict_def binding_of_files_def dict_get_def dict_or_empty_def)
  moreover have "row_risk_summary tiny_codec (tiny_row 3 ''proceed'') = None"
    by (simp add: row_risk_summary_def loaded_content_def tiny_document_def dict_get_def)
  moreover have "\<not> requires_confirmation_row tiny_codec (tiny_row 3 ''proceed'')"
    by (simp add: requires_confirmation_row_def tiny_document_def dict_get_def)
  moreover have "decision_of_value ''proceed'' = Some PROCEED" using decision_of_value_value [of PROCEED] by simp
  ultimately have "consult (tiny_env f) False tiny_write ''/r'' [''/r/a''] ''c1'' [tiny_row 3 ''proceed'', tiny_row 2 ''reject''] n
      = matched_decision (tiny_row 3 ''proceed'') CONTINUE GT_CONSULTED None None" if "n \<le> 3"
    using that by (simp add: consult_def tiny_binding tiny_matched tiny_row_binding judge_matched_def Let_def)
  then show "n \<le> 3 \<Longrightarrow> ?thesis"
    by (simp add: matched_decision_def make_gate_decision_def allowed_tier_def)
qed

lemma tiny_important: "fst (any_impactful (tiny_env 1) [''/r/a''] ''/r'') = Some True"
  by (simp add: any_impactful_def fanin_probe_def IMPACT_THRESHOLD_def)

lemma tiny_unimportant: "fst (any_impactful (tiny_env 0) [''/r/a''] ''/r'') = Some False"
  by (simp add: any_impactful_def fanin_probe_def IMPACT_THRESHOLD_def god_node_score_def)

lemma tiny_pending: "query_pending_restriction tiny_codec (Stored tiny_table) ''id'' ''c1'' = Inr (Some 2)"
  by (simp add: query_pending_restriction_def tiny_table_def restricts_def tiny_document_def dict_get_def as_dict_def
      restrictive_decisions_def)

abbreviation tiny_pass :: gate_decision where
  "tiny_pass \<equiv> \<lparr>gd_permission = CONTINUE, gd_tier = GT_CONSULTED, gd_reason = None, gd_warn = None,
     gd_risk_summary = None, gd_matched_assessment_id = Some (asm_id 3)\<rparr>"

lemma tiny_decide:
  "gate_decide (tiny_env 1) None False False tiny_write = Inr tiny_pass"
  "gate_decide (tiny_env 0) None False False tiny_write = Inr tiny_pass"
  by (simp_all add: gate_decide_def tiny_targets gate_in_repository_def Let_def tiny_important tiny_unimportant
      tiny_rows tiny_pending tiny_consult)


text \<open>C5: What the gate lets pass after a consultation is exactly what was assessed. When one target matters to the graph,
  or an exact match is demanded, an edit at a known commit continues only on a stored assessment of the
  repository that proceeds without confirmation, covers all targets at this commit and binds the very files
  and digests the edit would produce; no newer covering assessment is bound to them. A later reject of the
  same candidate thus overrules an earlier proceed.\<close>

theorem gate_lets_only_the_assessed_edit_pass:
  assumes "gate_decide env db_path consult_only exact event = Inr d" and "gd_permission d = CONTINUE"
    and "extract_target_paths env event = Inr targets" and "targets \<noteq> []"
    and "ge_find_repo_root env (or_else (dict_get (dict_or_empty event) ''cwd'' VNone) (VStr ''.'')) = Some rr"
    and "exact \<or> fst (any_impactful env targets rr) = Some True"
    and "ge_head env rr = Some head" and "ge_store env (database_path db_path rr) = Stored table"
  shows "\<exists>rows row. query_assessments (Stored table) (ge_repo_id env rr) = Some rows
    \<and> assessed_and_passed env event rr targets head 0 rows row
    \<and> gd_tier d = GT_CONSULTED \<and> gd_matched_assessment_id d = Some (asm_id (aw_id row))"
proof -
  obtain rows where rows: "query_assessments (Stored table) (ge_repo_id env rr) = Some rows"
    by (simp add: query_assessments_def)
  have "consult env consult_only event rr targets head rows 0 = Inr d"
    using assms(1,3-8) rows by (auto simp: gate_decide_def gate_in_repository_def Let_def)
  with assms(2) rows consult_continue show ?thesis by blast
qed

lemma gate_lets_only_the_assessed_edit_pass_witness:
  "\<exists>rows row. query_assessments (Stored tiny_table) ''id'' = Some rows
    \<and> assessed_and_passed (tiny_env 1) tiny_write ''/r'' [''/r/a''] ''c1'' 0 rows row
    \<and> gd_tier tiny_pass = GT_CONSULTED \<and> gd_matched_assessment_id tiny_pass = Some (asm_id (aw_id row))"
  using gate_lets_only_the_assessed_edit_pass [OF tiny_decide(1) _ tiny_targets, of "''/r''" "''c1''" tiny_table]
  by (simp add: tiny_important)

text \<open>C22: A pending restriction is not evaded. While the newest restrictive assessment of the repository at the current
  commit has id \<open>i\<close>, an edit of any files continues only on an assessment of that commit that proceeds and matches it
  exactly, whether or not the graph finds the files important and whether or not an exact match is demanded. When it is
  neither, so that without the restriction the edit would pass unread, the assessment must also be newer than the
  restriction; on the other paths the newest assessment that covers the edit decides, and its age does not matter. The
  targets, the repository, the commit and the store have to be readable; the gate lets an edit pass where they are not.\<close>

theorem pending_restriction_is_not_evaded:
  assumes "gate_decide env db_path consult_only require_exact event = Inr d" and "gd_permission d = CONTINUE"
    and "extract_target_paths env event = Inr targets" and "targets \<noteq> []"
    and "ge_find_repo_root env (or_else (dict_get (dict_or_empty event) ''cwd'' VNone) (VStr ''.'')) = Some rr"
    and "ge_head env rr = Some head" and "ge_store env (database_path db_path rr) = Stored table"
    and "query_pending_restriction (ge_codec env) (Stored table) (ge_repo_id env rr) head = Inr (Some i)" and "0 < i"
  shows "\<exists>rows row. query_assessments (Stored table) (ge_repo_id env rr) = Some rows
    \<and> assessed_and_passed env event rr targets head
        (if require_exact \<or> fst (any_impactful env targets rr) = Some True then 0 else i) rows row
    \<and> gd_tier d = GT_CONSULTED"
proof -
  obtain rows where rows: "query_assessments (Stored table) (ge_repo_id env rr) = Some rows"
    by (simp add: query_assessments_def)
  have "consult env consult_only event rr targets head rows
      (if require_exact \<or> fst (any_impactful env targets rr) = Some True then 0 else i) = Inr d"
    using assms(1,3-9) rows by (auto simp: gate_decide_def gate_in_repository_def Let_def split: if_splits)
  with assms(2) rows consult_continue show ?thesis by blast
qed

lemma pending_restriction_is_not_evaded_witness:
  "\<exists>rows row. query_assessments (Stored tiny_table) ''id'' = Some rows
    \<and> assessed_and_passed (tiny_env 0) tiny_write ''/r'' [''/r/a''] ''c1'' 2 rows row \<and> gd_tier tiny_pass = GT_CONSULTED"
  using pending_restriction_is_not_evaded [OF tiny_decide(2) _ tiny_targets, of "''/r''" "''c1''" tiny_table 2]
  by (simp add: tiny_unimportant tiny_pending)

lemma gate_answers_within_its_contract_witness:
  "\<exists>d. gate_decide (tiny_env 1) None False False tiny_write = Inr d \<and> gate_contract d"
  by (rule gate_answers_within_its_contract [OF tiny_targets])
    (simp add: store_ok_def readable_rows_def tiny_table_def)

text \<open>The gate is not fail-open. A patch whose header has an octal escape above \<open>\377\<close> makes the extraction of the
  targets, and with it the gate, raise, as does a MultiEdit whose \<open>edits\<close> is a number; and a stored
  assessment whose content is not an object makes every edit raise that asks for pending restrictions.\<close>

theorem gate_raises_on_hostile_input:
  "gate_decide env db_path consult_only exact (VDict [(''tool_name'', VStr ''apply_patch''), (''tool_input'', VDict
      [(''command'', VStr (''--- '' @ [QUOTE] @ ''a/'' @ [BACKSLASH] @ ''777'' @ [QUOTE] @ [LF]))])])
    = Inl (ValueError ''byte must be in range(0, 256)'')
   \<and> gate_decide env db_path consult_only exact
       (VDict [(''tool_name'', VStr ''MultiEdit''), (''tool_input'', VDict [(''edits'', VInt 5)])])
     = Inl (TypeError ''object is not iterable'')
   \<and> query_pending_restriction tiny_codec (Stored [tiny_row 1 ''proceed''\<lparr>aw_content_json := ''[]''\<rparr>]) ''id'' ''c1''
     = Inl (AttributeError ''object has no attribute get'')"
proof (intro conjI)
  let ?patch = "''--- '' @ [QUOTE] @ ''a/'' @ [BACKSLASH] @ ''777'' @ [QUOTE] @ [LF]"
  have "touched_files ?patch = Inl (ValueError ''byte must be in range(0, 256)'')" "codex_targets True ?patch = []"
    by code_simp+
  then show "gate_decide env db_path consult_only exact (VDict [(''tool_name'', VStr ''apply_patch''), (''tool_input'', VDict
      [(''command'', VStr ?patch)])]) = Inl (ValueError ''byte must be in range(0, 256)'')"
    by (simp add: gate_decide_def extract_target_paths_def named_paths_def dict_get_def or_else_def)
  show "gate_decide env db_path consult_only exact
       (VDict [(''tool_name'', VStr ''MultiEdit''), (''tool_input'', VDict [(''edits'', VInt 5)])])
     = Inl (TypeError ''object is not iterable'')"
    by (simp add: gate_decide_def extract_target_paths_def named_paths_def dict_get_def or_else_def)
  show "query_pending_restriction tiny_codec (Stored [tiny_row 1 ''proceed''\<lparr>aw_content_json := ''[]''\<rparr>]) ''id'' ''c1''
     = Inl (AttributeError ''object has no attribute get'')"
    by (simp add: query_pending_restriction_def tiny_row_def tiny_codec_def content_text_def as_dict_def)
qed

end
