(* ===== verification/Pebra_Assess_Input.thy ===== *)
theory Pebra_Assess_Input
  imports Pebra_Assessment_Builder Pebra_Risk_Models Pebra_Assessment_Ledger
begin

text \<open>
  \<open>_build_input\<close> of \<open>pebra/app/assess_controller.py\<close> and its helpers: how the evidence of the ports becomes the input
  of the engine. The ports are a record of functions, an optional port is \<open>None\<close> when it is not wired; a port
  returns, or for the evidence provider raises. The texts of consequence reasons and \<open>str\<close> of a stored value
  are arguments.
\<close>

record assess_ports =
  po_gather_evidence :: "assessment_request \<Rightarrow> candidate_action \<Rightarrow> string \<Rightarrow> evidence_bundle res"
  po_symbol_diff :: "candidate_action \<Rightarrow> string \<Rightarrow> symbol_diff_evidence"
  po_blast :: "candidate_action \<Rightarrow> string \<Rightarrow> blast_evidence"
  po_active_sanction :: "string \<Rightarrow> candidate_action \<Rightarrow> pyval dict option"
  po_fanin :: "(candidate_action \<Rightarrow> string \<Rightarrow> fanin_evidence) option"
  po_file_fanin :: "(string \<Rightarrow> string \<Rightarrow> file_fanin_rollup) option"
  po_language_capability :: "(string \<Rightarrow> string \<Rightarrow> language_capability) option"
  po_materialized_diff :: "(string \<Rightarrow> string \<Rightarrow> materialized_diff_result option) option"
  po_semantic_diff_enabled :: bool
  po_reason_text :: "consequence_reason \<Rightarrow> string"
  po_str :: "pyval \<Rightarrow> string"

section \<open>Language capability\<close>

definition resolved_languages_of :: "fanin_evidence \<Rightarrow> string list" where
  "resolved_languages_of fanin =
     (if fi_resolved_languages fanin \<noteq> [] then fi_resolved_languages fanin
      else case fi_resolved_language fanin of None \<Rightarrow> [] | Some l \<Rightarrow> if l = [] then [] else [l])"

definition capability_for_fanin ::
  "fanin_evidence option \<Rightarrow> (string \<Rightarrow> string \<Rightarrow> language_capability) option \<Rightarrow> string \<Rightarrow> language_capability" where
  "capability_for_fanin fanin provider repo_root =
     (case (provider, fanin) of
        (Some capability_for, Some fi) \<Rightarrow>
          (case resolved_languages_of fi of
             [l] \<Rightarrow> capability_for l repo_root
           | ls \<Rightarrow> default_language_capability
               \<lparr>lc_language := (if ls = [] then ''unknown'' else ''mixed''), lc_probe_status := ''unmeasured'',
                lc_fallback_reason := Some (if ls = [] then ''no resolved language'' else ''multiple resolved languages'')\<rparr>)
      | _ \<Rightarrow> default_language_capability)"

definition codegraph_structural_tier_allowed ::
  "fanin_evidence \<Rightarrow> (string \<Rightarrow> string \<Rightarrow> language_capability) option \<Rightarrow> language_capability \<Rightarrow> bool" where
  "codegraph_structural_tier_allowed fanin provider cap =
     (provider = None \<or> \<not> 1 < length (fi_resolved_languages fanin) \<and> classify_tier cap \<in> {''full'', ''partial''})"

section \<open>Merging events\<close>

definition merge_event_max :: "risk_event \<Rightarrow> risk_event \<Rightarrow> risk_event" where
  "merge_event_max existing injected =
     (let existing_p = ev_p_event existing; existing_d = ev_elicited_disutility existing;
          injected_p = ev_p_event injected; injected_d = ev_elicited_disutility injected;
          graph_owns_merge = (injected_p \<ge> existing_p \<and> injected_d \<ge> existing_d
            \<and> (injected_p > existing_p \<or> injected_d > existing_d));
          merged = (if graph_owns_merge then injected else existing)
            \<lparr>ev_p_event := max existing_p injected_p, ev_elicited_disutility := max existing_d injected_d\<rparr>
      in if graph_owns_merge then merged\<lparr>ev_independent_probability_floor := Some (Fin existing_p)\<rparr>
         else merged\<lparr>ev_risk_source := None, ev_owner_node_ids := []\<rparr>)"

text \<open>The first event of the same name is merged, a new one is appended.\<close>

fun merge_into :: "risk_event \<Rightarrow> risk_event list \<Rightarrow> risk_event list" where
  "merge_into ev [] = [ev]"
| "merge_into ev (e # events) =
     (if ev_event e = ev_event ev then merge_event_max e ev # events else e # merge_into ev events)"

definition merge_injected :: "risk_event list \<Rightarrow> risk_event list \<Rightarrow> risk_event list" where
  "merge_injected events injected = fold merge_into injected events"

section \<open>Revisions\<close>

fun drop_dot_slash :: "string \<Rightarrow> string" where
  "drop_dot_slash (a # b # s) = (if a = CHR ''.'' \<and> b = CHR ''/'' then drop_dot_slash s else a # b # s)"
| "drop_dot_slash s = s"

definition norm_envelope_value :: "string \<Rightarrow> string" where
  "norm_envelope_value value = drop_dot_slash (slashes value)"

definition public_visibility :: "string \<Rightarrow> bool" where
  "public_visibility v = (v \<in> {''exported'', ''public_api''})"

definition public_symbols :: "symbol_diff_evidence \<Rightarrow> string list" where
  "public_symbols sd =
     (if public_visibility (sd_visibility sd) then filter (\<lambda>s. s \<noteq> []) (sd_changed_symbols sd) else [])"

definition texts_of :: "(pyval \<Rightarrow> string) \<Rightarrow> pyval \<Rightarrow> string list" where
  "texts_of str v = (case v of VList xs \<Rightarrow> map (\<lambda>x. case x of VStr s \<Rightarrow> s | _ \<Rightarrow> str x) (filter truthy xs) | _ \<Rightarrow> [])"

text \<open>A stored score: the engine reads a number or nothing.\<close>

definition stored_number :: "pyval dict \<Rightarrow> string \<Rightarrow> real option" where
  "stored_number d k = (if finite_number (dict_get d k VNone) then Some (number_value (dict_get d k VNone)) else None)"

definition build_revision_completeness ::
  "(pyval \<Rightarrow> string) \<Rightarrow> candidate_action \<Rightarrow> symbol_diff_evidence \<Rightarrow> bool \<Rightarrow> pyval dict option \<Rightarrow> revision_completeness" where
  "build_revision_completeness str action symbol_diff is_revision origin =
     (if \<not> is_revision then default_revision_completeness
      else
        let o' = (case origin of None \<Rightarrow> [] | Some d \<Rightarrow> d)
        in if o' = [] \<or> \<not> truthy (dict_get o' ''available'' VNone)
           then default_revision_completeness
             \<lparr>rc_is_revision := True, rc_origin_available := False,
              rc_fallback_reason := Some (case dict_get o' ''fallback_reason'' VNone of
                VStr r \<Rightarrow> if r = [] then ''origin envelope unavailable'' else r | _ \<Rightarrow> ''origin envelope unavailable'')\<rparr>
           else
             let origin_files = map norm_envelope_value (texts_of str (dict_get o' ''expected_files'' (VList [])));
                 origin_symbols = texts_of str (dict_get o' ''public_symbols'' (VList []));
                 current_files = map norm_envelope_value (filter (\<lambda>v. v \<noteq> []) (ca_expected_files action));
                 current_symbols = public_symbols symbol_diff
             in default_revision_completeness
               \<lparr>rc_is_revision := True, rc_origin_available := True,
                rc_origin_files := sorted_set origin_files, rc_origin_public_symbols := sorted_set origin_symbols,
                rc_missing_files := sorted_set (filter (\<lambda>f. f \<notin> set current_files) origin_files),
                rc_missing_public_symbols := sorted_set (filter (\<lambda>s. s \<notin> set current_symbols) origin_symbols),
                rc_origin_expected_loss := stored_number o' ''expected_loss'',
                rc_origin_benefit := stored_number o' ''benefit'',
                rc_origin_expected_utility := stored_number o' ''expected_utility'',
                rc_origin_utility_sd := stored_number o' ''utility_sd'',
                rc_origin_rau := stored_number o' ''rau''\<rparr>)"

definition origin_for_current_baseline :: "pyval dict option \<Rightarrow> pyval dict option \<Rightarrow> pyval dict option" where
  "origin_for_current_baseline origin current_baseline =
     (let unavailable = (\<lambda>reason. Some [(''available'', VBool False), (''fallback_reason'', VStr reason)])
      in case origin of
           None \<Rightarrow> None
         | Some d \<Rightarrow>
             if d = [] \<or> \<not> truthy (dict_get d ''available'' VNone) then origin
             else (case current_baseline of
                     None \<Rightarrow> unavailable ''current working-tree baseline could not be bound''
                   | Some current \<Rightarrow>
                       (case dict_get d ''baseline_binding'' VNone of
                          VDict stored \<Rightarrow>
                            if py_eq (VDict stored) (VDict current) then origin
                            else unavailable ''working-tree baseline changed since the origin assessment''
                        | _ \<Rightarrow> unavailable ''origin revision envelope lacks a working-tree baseline binding'')))"

section \<open>The symbol diff of a graph tier\<close>

definition graph_tier_applies ::
  "assess_ports \<Rightarrow> candidate_action \<Rightarrow> symbol_diff_evidence \<Rightarrow> fanin_evidence \<Rightarrow> language_capability \<Rightarrow> bool" where
  "graph_tier_applies ports action symbol_diff fanin cap =
     (ca_proposed_patch action \<noteq> None \<and> ca_proposed_patch action \<noteq> Some []
      \<and> \<not> sd_parsed_patch_available symbol_diff \<and> fi_resolution_method fanin = ''location''
      \<and> fi_node_ids_resolved fanin \<noteq> []
      \<and> codegraph_structural_tier_allowed fanin (po_language_capability ports) cap)"

definition materialized_for ::
  "assess_ports \<Rightarrow> real dict \<Rightarrow> candidate_action \<Rightarrow> language_capability \<Rightarrow> string \<Rightarrow> materialized_diff_result option" where
  "materialized_for ports thresholds action cap repo_root =
     (case (po_materialized_diff ports, ca_proposed_patch action) of
        (Some diff_for_patch, Some patch) \<Rightarrow>
          if po_semantic_diff_enabled ports \<and> dict_get thresholds ''codegraph_semantic_diff_enabled'' 0 \<noteq> 0
             \<and> classify_tier cap = ''full''
          then diff_for_patch repo_root patch else None
      | _ \<Rightarrow> None)"

definition graph_rows :: "materialized_diff_result option \<Rightarrow> fanin_evidence \<Rightarrow> diff_row list" where
  "graph_rows materialized fanin =
     (case materialized of
        Some m \<Rightarrow> if mr_available m then rows_from_materialized_graph_diff m fanin else rows_from_fanin fanin
      | None \<Rightarrow> rows_from_fanin fanin)"

definition graph_tier_label :: "diff_row list \<Rightarrow> fanin_evidence \<Rightarrow> string \<times> string" where
  "graph_tier_label rows fanin =
     (if rows \<noteq> rows_from_fanin fanin
      then (''codegraph_semantic'',
            ''graph-semantic before/after classification (materialized signature/return/visibility diff)'')
      else (''codegraph_structural'',
            ''graph-structural coarse classification (no AST-level symbol diff for this language)''))"

definition classified_by_graph ::
  "assess_ports \<Rightarrow> real dict \<Rightarrow> candidate_action \<Rightarrow> symbol_diff_evidence \<Rightarrow> fanin_evidence \<Rightarrow> language_capability
    \<Rightarrow> string \<Rightarrow> symbol_diff_evidence" where
  "classified_by_graph ports thresholds action symbol_diff fanin cap repo_root =
     (let rows = graph_rows (materialized_for ports thresholds action cap repo_root) fanin;
          (tier, tier_reason) = graph_tier_label rows fanin;
          summary = classify_diff rows thresholds
      in if rows = [] then symbol_diff
         else symbol_diff
           \<lparr>sd_changed_symbols := (if sm_changed_symbols summary \<noteq> [] then sm_changed_symbols summary
              else sd_changed_symbols symbol_diff),
            sd_max_change_kind := sm_max_change_kind summary, sd_visibility := sm_visibility summary,
            sd_consequential_symbol_changed := (sd_consequential_symbol_changed symbol_diff
              \<or> sm_consequential_symbol_changed summary),
            sd_consequence_reason := dedupe (sd_consequence_reason symbol_diff
              @ map (po_reason_text ports) (sm_consequence_reason summary)),
            sd_fallback_reason := Some tier_reason, sd_structure_tier := tier\<rparr>)"

definition with_fanin ::
  "assess_ports \<Rightarrow> real dict \<Rightarrow> candidate_action \<Rightarrow> symbol_diff_evidence \<Rightarrow> fanin_evidence \<Rightarrow> language_capability
    \<Rightarrow> string \<Rightarrow> symbol_diff_evidence" where
  "with_fanin ports thresholds action symbol_diff fanin cap repo_root =
     (if \<not> is_trusted_fanin (Some fanin) then symbol_diff
      else
        let fan_in_threshold = dict_get thresholds ''consequential_symbol_fan_in_percentile'' 0.90;
            sd = (if graph_tier_applies ports action symbol_diff fanin cap
                  then classified_by_graph ports thresholds action symbol_diff fanin cap repo_root else symbol_diff);
            patched = sd\<lparr>sd_symbol_fan_in_percentile := fi_symbol_fan_in_percentile fanin\<rparr>
        in patched\<lparr>sd_consequential_symbol_changed := (sd_consequential_symbol_changed sd
             \<or> is_high_fanin_consequential patched fan_in_threshold)\<rparr>)"

section \<open>The input\<close>

text \<open>What the caller of \<open>_build_input\<close> passes besides the ports: host evidence and the revision.\<close>

record build_context =
  bc_trusted_verification :: "candidate_verification option"
  bc_graph_risk_evidence :: "candidate_graph_risk_evidence option"
  bc_trusted_obligations :: "task_obligations option"
  bc_revision_origin :: "pyval dict option"
  bc_is_revision :: bool

definition blast_penalized :: "real dict \<Rightarrow> blast_evidence \<Rightarrow> real dict" where
  "blast_penalized factors blast =
     (if bl_graph_uncertainty_score blast > 0
      then penalize factors ''evidence_quality'' (bl_graph_uncertainty_score blast) else factors)"

definition coverage_penalized ::
  "real dict \<Rightarrow> fanin_evidence option \<Rightarrow> candidate_aggregate_evidence \<Rightarrow> real dict" where
  "coverage_penalized factors fanin aggregate =
     (let coverage = cg_resolution_coverage aggregate
      in if is_trusted_fanin fanin \<and> cg_owner_count aggregate > 0 \<and> 0 < coverage \<and> coverage < 1
         then penalize factors ''evidence_quality'' (min 0.20 (0.20 * (1 - coverage))) else factors)"

definition with_derived_exposure ::
  "benefit_delta_evidence \<Rightarrow> fanin_evidence option \<Rightarrow> real dict \<Rightarrow> benefit_delta_evidence" where
  "with_derived_exposure bd fanin thresholds =
     (if bd_auto_exposure_allowed bd \<and> \<not> bd_future_change_exposure_explicit bd
         \<and> py_eq (bd_future_change_exposure bd) (vreal 0) \<and> bd_source_type bd \<noteq> ''projected'' \<and> bd_deltas bd \<noteq> []
      then
        let derived = derive_exposure fanin (dict_get thresholds ''future_change_exposure_cap'' 1)
        in if derived > 0 then bd\<lparr>bd_future_change_exposure := vreal derived\<rparr> else bd
      else bd)"

definition operation_rollup :: "assess_ports \<Rightarrow> symbol_diff_evidence \<Rightarrow> string \<Rightarrow> file_fanin_rollup option" where
  "operation_rollup ports symbol_diff repo_root =
     (if sd_file_operation_kind symbol_diff \<in> {''DELETE'', ''RENAME'', ''MOVE''}
      then Some (aggregate_file_rollups
             (case po_file_fanin ports of
                None \<Rightarrow> []
              | Some rollup \<Rightarrow> map (\<lambda>fp. rollup fp repo_root) (sd_file_operation_paths symbol_diff)))
      else None)"

definition operation_events ::
  "candidate_action \<Rightarrow> symbol_diff_evidence \<Rightarrow> architecture_evidence \<Rightarrow> file_fanin_rollup option \<Rightarrow> risk_event list" where
  "operation_events action symbol_diff arch rollup =
     (case rollup of
        None \<Rightarrow> []
      | Some r \<Rightarrow>
          events_for_destructive_op (sd_file_operation_kind symbol_diff) r arch
            (public_visibility (sd_visibility symbol_diff)) (ca_is_migration action) (ca_is_schema_change action))"

definition build_input ::
  "assessment_request \<Rightarrow> candidate_action \<Rightarrow> string \<Rightarrow> string \<Rightarrow> real dict \<Rightarrow> assess_ports \<Rightarrow> build_context
    \<Rightarrow> assessment_input res" where
  "build_input request action repo_id repo_root thresholds ports ctx =
     rbind (po_gather_evidence ports request action repo_root) (\<lambda>evidence.
       let blast = po_blast ports action repo_root;
           effective_thresholds = dict_merge (eb_thresholds evidence) thresholds;
           fanin = map_option (\<lambda>f. f action repo_root) (po_fanin ports);
           cap = (if fanin = None then default_language_capability
                  else capability_for_fanin fanin (po_language_capability ports) repo_root);
           symbol_diff = (case fanin of
             None \<Rightarrow> po_symbol_diff ports action repo_root
           | Some fi \<Rightarrow> with_fanin ports effective_thresholds action (po_symbol_diff ports action repo_root) fi cap repo_root)
       in rbind (aggregate_candidate action fanin) (\<lambda>aggregate.
            let arch = eb_architecture_evidence evidence;
                rollup = operation_rollup ports symbol_diff repo_root;
                events = merge_injected (eb_events evidence) (operation_events action symbol_diff arch rollup);
                events = merge_injected events
                  (events_for_modify_risk symbol_diff fanin arch (eb_criticality_stage evidence)
                     (ca_is_schema_change action) (ca_is_migration action) aggregate)
            in Inr
              \<lparr>ai_request = request, ai_action = action, ai_events = events,
               ai_p_success = eb_p_success evidence, ai_immediate_benefit = eb_immediate_benefit evidence,
               ai_review_cost = eb_review_cost evidence, ai_criticality_stage = eb_criticality_stage evidence,
               ai_criticality_value = eb_criticality_value evidence,
               ai_edit_confidence_factors =
                 coverage_penalized (blast_penalized (eb_edit_confidence_factors evidence) blast) fanin aggregate,
               ai_thresholds = effective_thresholds, ai_repo_id = repo_id, ai_repo_root = repo_root,
               ai_policy_violations = eb_policy_violations evidence,
               ai_p_success_variance = eb_p_success_variance evidence,
               ai_review_cost_variance = eb_review_cost_variance evidence,
               ai_event_probability_variances = [], ai_variance_breakdown = eb_variance_breakdown evidence,
               ai_benefit_delta_evidence =
                 with_derived_exposure (eb_benefit_delta_evidence evidence) fanin effective_thresholds,
               ai_symbol_diff_evidence = symbol_diff, ai_fanin_evidence = fanin,
               ai_candidate_aggregate_evidence = aggregate, ai_file_fanin_rollup = rollup,
               ai_blast_evidence = blast, ai_architecture_evidence = arch,
               ai_candidate_verification = (case bc_trusted_verification ctx of
                 None \<Rightarrow> eb_candidate_verification evidence | Some v \<Rightarrow> v),
               ai_candidate_graph_risk_evidence = (case bc_graph_risk_evidence ctx of
                 None \<Rightarrow> default_graph_risk_evidence | Some e \<Rightarrow> e),
               ai_task_obligations = (case bc_trusted_obligations ctx of None \<Rightarrow> default_task_obligations | Some t \<Rightarrow> t),
               ai_revision_completeness =
                 build_revision_completeness (po_str ports) action symbol_diff (bc_is_revision ctx) (bc_revision_origin ctx),
               ai_language_capability = cap, ai_sanction = po_active_sanction ports repo_id action,
               ai_structural_features = None, ai_applied_snapshot_provenance = None,
               ai_warm_prior_provenance = None, ai_benefit_override = None, ai_benefit_variance_override = None\<rparr>))"

section \<open>Merging never lowers a risk\<close>

definition at_least :: "risk_event \<Rightarrow> risk_event \<Rightarrow> bool" where
  "at_least e e' =
     (ev_event e' = ev_event e \<and> ev_p_event e \<le> ev_p_event e'
      \<and> ev_elicited_disutility e \<le> ev_elicited_disutility e')"

lemma at_least_refl [simp]: "at_least e e"
  by (simp add: at_least_def)

lemma at_least_trans: "at_least a b \<Longrightarrow> at_least b c \<Longrightarrow> at_least a c"
  by (auto simp: at_least_def)

lemma merge_event_max_at_least:
  assumes "ev_event e = ev_event i"
  shows "at_least e (merge_event_max e i)" "at_least i (merge_event_max e i)"
  using assms by (auto simp: at_least_def merge_event_max_def Let_def)

lemma at_least_all_refl: "list_all2 at_least xs xs"
  by (simp add: list_all2_same)

lemma at_least_all_trans: "list_all2 at_least xs ys \<Longrightarrow> list_all2 at_least ys zs \<Longrightarrow> list_all2 at_least xs zs"
  by (rule list_all2_trans [of at_least at_least at_least]) (auto intro: at_least_trans)

text \<open>The rows that were there, in their places.\<close>

lemma merge_into_keeps:
  "length events \<le> length (merge_into ev events) \<and> list_all2 at_least events (take (length events) (merge_into ev events))"
  by (induction ev events rule: merge_into.induct) (auto simp: merge_event_max_at_least at_least_all_refl)

lemma merge_into_has: "\<exists>e \<in> set (merge_into ev events). at_least ev e"
  by (induction ev events rule: merge_into.induct) (auto simp: merge_event_max_at_least)

lemma at_least_member: "list_all2 at_least xs ys \<Longrightarrow> x \<in> set xs \<Longrightarrow> \<exists>y \<in> set ys. at_least x y"
  by (induction rule: list_all2_induct) auto

lemma merge_injected_keeps:
  "length events \<le> length (merge_injected events injected)
   \<and> list_all2 at_least events (take (length events) (merge_injected events injected))"
proof (induction injected arbitrary: events)
  case Nil
  then show ?case by (simp add: merge_injected_def at_least_all_refl)
next
  case (Cons ev injected)
  let ?m = "merge_into ev events" and ?r = "merge_injected (merge_into ev events) injected"
  have one: "length events \<le> length ?m" "list_all2 at_least events (take (length events) ?m)"
    using merge_into_keeps by blast+
  have rest: "length ?m \<le> length ?r" "list_all2 at_least ?m (take (length ?m) ?r)" using Cons by blast+
  have "list_all2 at_least (take (length events) ?m) (take (length events) (take (length ?m) ?r))"
    using rest(2) by (rule list_all2_takeI)
  then have "list_all2 at_least (take (length events) ?m) (take (length events) ?r)"
    using one(1) by (simp add: min_def)
  with one rest(1) show ?case using at_least_all_trans by (auto simp: merge_injected_def)
qed

lemma merge_injected_has: "ev \<in> set injected \<Longrightarrow> \<exists>e \<in> set (merge_injected events injected). at_least ev e"
proof (induction injected arbitrary: events)
  case (Cons i injected)
  show ?case
  proof (cases "ev = i")
    case True
    obtain e where e: "e \<in> set (merge_into i events)" "at_least i e" using merge_into_has by blast
    obtain e' where "e' \<in> set (take (length (merge_into i events)) (merge_injected (merge_into i events) injected))" "at_least e e'"
      using at_least_member [OF merge_injected_keeps [THEN conjunct2] e(1)] by blast
    then show ?thesis using e True at_least_trans by (auto simp: merge_injected_def dest: in_set_takeD)
  next
    case False
    with Cons show ?thesis by (simp add: merge_injected_def)
  qed
qed simp

text \<open>The parts of an input that is built.\<close>

lemma build_input_Inr:
  assumes "build_input request action repo_id repo_root thresholds ports ctx = Inr inp"
  shows "\<exists>evidence. po_gather_evidence ports request action repo_root = Inr evidence
    \<and> (\<exists>ops mods. ai_events inp = merge_injected (merge_injected (eb_events evidence) ops) mods)
    \<and> ai_policy_violations inp = eb_policy_violations evidence
    \<and> ai_edit_confidence_factors inp = coverage_penalized
         (blast_penalized (eb_edit_confidence_factors evidence) (po_blast ports action repo_root))
         (ai_fanin_evidence inp) (ai_candidate_aggregate_evidence inp)
    \<and> ai_task_obligations inp = (case bc_trusted_obligations ctx of None \<Rightarrow> default_task_obligations | Some t \<Rightarrow> t)"
proof -
  obtain evidence where e: "po_gather_evidence ports request action repo_root = Inr evidence"
    using assms by (auto simp: build_input_def rbind_Inr_iff)
  have "\<exists>ops mods. ai_events inp = merge_injected (merge_injected (eb_events evidence) ops) mods"
    using assms unfolding build_input_def e rbind_simps Let_def rbind_Inr_iff 
    by (elim exE conjE) (drule sum.inject(2) [THEN iffD1], hypsubst, simp only: assessment_input.simps, intro exI, rule refl)
  moreover have "ai_policy_violations inp = eb_policy_violations evidence
    \<and> ai_edit_confidence_factors inp = coverage_penalized
         (blast_penalized (eb_edit_confidence_factors evidence) (po_blast ports action repo_root))
         (ai_fanin_evidence inp) (ai_candidate_aggregate_evidence inp)
    \<and> ai_task_obligations inp = (case bc_trusted_obligations ctx of None \<Rightarrow> default_task_obligations | Some t \<Rightarrow> t)"
    using assms unfolding build_input_def e rbind_simps Let_def rbind_Inr_iff
    by (elim exE conjE) (drule sum.inject(2) [THEN iffD1], hypsubst, simp only: assessment_input.simps simp_thms)
  ultimately show ?thesis using e by blast
qed

text \<open>The penalties touch the evidence quality only, and leave it at most where it was or at the smallest factor.\<close>

lemma quality_le:
  "0 \<le> p \<Longrightarrow> dict_get (penalize factors ''evidence_quality'' p) ''evidence_quality'' 1
    \<le> max MIN_CONFIDENCE_FACTOR (dict_get factors ''evidence_quality'' 1)"
  by (simp add: penalize_def penalized_confidence_factor_def)

lemma other_factor: "f \<noteq> name \<Longrightarrow> map_of (penalize factors name p) f = map_of factors f"
  by (simp add: penalize_def map_of_dict_set)

lemma penalties_bounded:
  "dict_get (coverage_penalized (blast_penalized factors blast) fanin aggregate) ''evidence_quality'' 1
      \<le> max MIN_CONFIDENCE_FACTOR (dict_get factors ''evidence_quality'' 1)"
  "f \<noteq> ''evidence_quality'' \<Longrightarrow>
     map_of (coverage_penalized (blast_penalized factors blast) fanin aggregate) f = map_of factors f"
proof -
  have one: "dict_get (blast_penalized factors blast) ''evidence_quality'' 1
      \<le> max MIN_CONFIDENCE_FACTOR (dict_get factors ''evidence_quality'' 1)"
    by (auto simp: blast_penalized_def intro: quality_le)
  have "dict_get (coverage_penalized (blast_penalized factors blast) fanin aggregate) ''evidence_quality'' 1
      \<le> max MIN_CONFIDENCE_FACTOR (dict_get (blast_penalized factors blast) ''evidence_quality'' 1)"
    by (auto simp: coverage_penalized_def Let_def intro: quality_le)
  with one show "dict_get (coverage_penalized (blast_penalized factors blast) fanin aggregate) ''evidence_quality'' 1
      \<le> max MIN_CONFIDENCE_FACTOR (dict_get factors ''evidence_quality'' 1)" by linarith
  show "f \<noteq> ''evidence_quality'' \<Longrightarrow>
     map_of (coverage_penalized (blast_penalized factors blast) fanin aggregate) f = map_of factors f"
    by (simp add: coverage_penalized_def blast_penalized_def Let_def other_factor)
qed

text \<open>A penalty makes a missing or an invalid factor valid: the evidence that would be refused is then scored.\<close>

lemma penalty_repairs_invalid_quality:
  assumes "0 < bl_graph_uncertainty_score blast"
    and "\<not> dict_has factors ''evidence_quality'' \<or> dict_get factors ''evidence_quality'' 1 \<le> 0"
  shows "dict_has (blast_penalized factors blast) ''evidence_quality''
    \<and> 0 < dict_get (blast_penalized factors blast) ''evidence_quality'' 0"
  using assms by (simp add: blast_penalized_def penalize_def dict_has_set)

section \<open>A small repository\<close>

definition sample_evidence :: evidence_bundle where
  "sample_evidence =
     \<lparr>eb_events = [plain_event ''public_api_break'' 0.2 0.3], eb_p_success = 0.9, eb_immediate_benefit = vreal 0.5,
      eb_review_cost = 0.1, eb_criticality_stage = ''C1'', eb_criticality_value = 1,
      eb_edit_confidence_factors = map (\<lambda>f. (f, 0.9)) EDIT_CONFIDENCE_FACTORS, eb_thresholds = [], eb_policy_violations = [],
      eb_variance_breakdown = None, eb_p_success_variance = None, eb_review_cost_variance = None,
      eb_benefit_delta_evidence = default_benefit_delta, eb_architecture_evidence = default_architecture,
      eb_candidate_verification = default_candidate_verification\<rparr>"

definition sample_ports :: "fanin_evidence \<Rightarrow> assess_ports" where
  "sample_ports fanin =
     \<lparr>po_gather_evidence = (\<lambda>_ _ _. Inr sample_evidence), po_symbol_diff = (\<lambda>_ _. default_symbol_diff),
      po_blast = (\<lambda>_ _. default_blast\<lparr>bl_graph_uncertainty_score := 0.1\<rparr>), po_active_sanction = (\<lambda>_ _. None),
      po_fanin = Some (\<lambda>_ _. fanin), po_file_fanin = None, po_language_capability = None, po_materialized_diff = None,
      po_semantic_diff_enabled = False, po_reason_text = (\<lambda>_. []), po_str = (\<lambda>_. [])\<rparr>"

definition sample_context :: build_context where
  "sample_context =
     \<lparr>bc_trusted_verification = None, bc_graph_risk_evidence = None, bc_trusted_obligations = Some default_task_obligations,
      bc_revision_origin = None, bc_is_revision = False\<rparr>"

lemma sample_ports_fields [simp]:
  "po_gather_evidence (sample_ports f) r a rr = Inr sample_evidence" "po_fanin (sample_ports f) = Some (\<lambda>_ _. f)"
  by (simp_all add: sample_ports_def)

lemma sample_aggregate: "\<exists>aggregate. aggregate_candidate sample_patchless_action fanin = Inr aggregate"
  by (simp add: aggregate_candidate_def sample_patchless_action_def touched_files_Nil)

lemma sample_built:
  "\<exists>inp. build_input request sample_patchless_action ''id'' ''/r'' thresholds (sample_ports fanin) sample_context = Inr inp"
proof -
  obtain aggregate where "aggregate_candidate sample_patchless_action (Some fanin) = Inr aggregate" using sample_aggregate by blast
  then show ?thesis by (simp add: build_input_def Let_def)
qed

text \<open>C26: Assembling an input is conservative. Every event row of the evidence keeps its place and name with a
  probability and a disutility no lower than before, whatever the graph models inject; the factors of the edit
  confidence stay as they are, except the evidence quality, which, counted as 1 where it is missing, ends no higher than
  it was or at the smallest factor; the policy violations are those of the evidence; and the task obligations are the
  host's, never the request's.\<close>

theorem assembly_is_conservative:
  assumes "build_input request action repo_id repo_root thresholds ports ctx = Inr inp"
    and "po_gather_evidence ports request action repo_root = Inr evidence"
  shows "list_all2 at_least (eb_events evidence) (take (length (eb_events evidence)) (ai_events inp))
    \<and> (\<forall>f. f \<noteq> ''evidence_quality'' \<longrightarrow>
         map_of (ai_edit_confidence_factors inp) f = map_of (eb_edit_confidence_factors evidence) f)
    \<and> dict_get (ai_edit_confidence_factors inp) ''evidence_quality'' 1
        \<le> max MIN_CONFIDENCE_FACTOR (dict_get (eb_edit_confidence_factors evidence) ''evidence_quality'' 1)
    \<and> ai_policy_violations inp = eb_policy_violations evidence
    \<and> ai_task_obligations inp = (case bc_trusted_obligations ctx of None \<Rightarrow> default_task_obligations | Some t \<Rightarrow> t)"
proof -
  obtain ops mods where parts: "ai_events inp = merge_injected (merge_injected (eb_events evidence) ops) mods"
    "ai_policy_violations inp = eb_policy_violations evidence"
    "ai_edit_confidence_factors inp = coverage_penalized
         (blast_penalized (eb_edit_confidence_factors evidence) (po_blast ports action repo_root))
         (ai_fanin_evidence inp) (ai_candidate_aggregate_evidence inp)"
    "ai_task_obligations inp = (case bc_trusted_obligations ctx of None \<Rightarrow> default_task_obligations | Some t \<Rightarrow> t)"
    using build_input_Inr [OF assms(1)] assms(2) by auto
  let ?e = "eb_events evidence" and ?m = "merge_injected (eb_events evidence) ops"
  have first: "length ?e \<le> length ?m" "list_all2 at_least ?e (take (length ?e) ?m)" using merge_injected_keeps by blast+
  have "list_all2 at_least ?m (take (length ?m) (merge_injected ?m mods))" using merge_injected_keeps by blast
  then have "list_all2 at_least (take (length ?e) ?m) (take (length ?e) (take (length ?m) (merge_injected ?m mods)))"
    by (rule list_all2_takeI)
  then have "list_all2 at_least (take (length ?e) ?m) (take (length ?e) (merge_injected ?m mods))"
    using first(1) by (simp add: min_def)
  then have "list_all2 at_least ?e (take (length ?e) (merge_injected ?m mods))" using first(2) at_least_all_trans by blast
  with parts penalties_bounded show ?thesis by simp
qed

lemma assembly_is_conservative_witness:
  "\<exists>inp. build_input (single_action ''t'' sample_patchless_action) sample_patchless_action ''id'' ''/r'' [] (sample_ports sample_fanin) sample_context = Inr inp
    \<and> list_all2 at_least [plain_event ''public_api_break'' 0.2 0.3] (take 1 (ai_events inp))
    \<and> dict_get (ai_edit_confidence_factors inp) ''evidence_quality'' 1 \<le> 0.9"
proof -
  obtain inp where built: "build_input (single_action ''t'' sample_patchless_action) sample_patchless_action ''id'' ''/r'' [] (sample_ports sample_fanin) sample_context = Inr inp"
    using sample_built by blast
  from assembly_is_conservative [OF built sample_ports_fields(1)]
  have "list_all2 at_least (eb_events sample_evidence) (take (length (eb_events sample_evidence)) (ai_events inp))"
    "dict_get (ai_edit_confidence_factors inp) ''evidence_quality'' 1
      \<le> max MIN_CONFIDENCE_FACTOR (dict_get (eb_edit_confidence_factors sample_evidence) ''evidence_quality'' 1)"
    by blast+
  then have "list_all2 at_least [plain_event ''public_api_break'' 0.2 0.3] (take 1 (ai_events inp))"
    "dict_get (ai_edit_confidence_factors inp) ''evidence_quality'' 1 \<le> 0.9"
    by (simp_all add: sample_evidence_def dict_get_def EDIT_CONFIDENCE_FACTORS_def MIN_CONFIDENCE_FACTOR_def)
  with built show ?thesis by blast
qed

text \<open>What an untrusted graph does not change.\<close>

lemma untrusted_parts:
  assumes "\<not> is_trusted_fanin fanin"
  shows "coverage_penalized factors fanin aggregate = factors" "with_derived_exposure bd fanin thresholds = bd"
    "events_for_modify_risk sd fanin arch stage sch mig aggregate = []"
  using assms derive_exposure_untrusted [OF assms]
  by (auto simp: coverage_penalized_def with_derived_exposure_def events_for_modify_risk_def Let_def split: option.split)

lemma untrusted_symbol_diff:
  "\<not> is_trusted_fanin (Some fi) \<Longrightarrow> with_fanin ports thresholds action sd fi cap repo_root = sd"
  by (simp add: with_fanin_def)

lemma no_graph_untrusted: "\<not> is_trusted_fanin None"
  by (simp add: is_trusted_fanin_def)

lemma aggregate_without_graph:
  "aggregate_candidate action fanin = Inr aggregate \<Longrightarrow> \<exists>aggregate'. aggregate_candidate action None = Inr aggregate'"
  by (auto simp: aggregate_candidate_def rbind_Inr_iff)

text \<open>An untrusted graph is no evidence. When the fan-in is unresolved, stale or ambiguous, the input is the one
  that would be built with no fan-in provider at all, up to the attached raw evidence, its aggregate and the
  language capability that was measured for it.\<close>

theorem untrusted_graph_is_no_evidence:
  assumes "po_fanin ports = Some fanin_of" and "\<not> is_trusted_fanin (Some (fanin_of action repo_root))"
    and "build_input request action repo_id repo_root thresholds ports ctx = Inr inp"
  shows "\<exists>aggregate. build_input request action repo_id repo_root thresholds (ports\<lparr>po_fanin := None\<rparr>) ctx
    = Inr (inp\<lparr>ai_fanin_evidence := None, ai_candidate_aggregate_evidence := aggregate,
               ai_language_capability := default_language_capability\<rparr>)"
proof -
  note parts = untrusted_parts [OF assms(2)] untrusted_parts [OF no_graph_untrusted] untrusted_symbol_diff [OF assms(2)]
  obtain evidence aggregate where e: "po_gather_evidence ports request action repo_root = Inr evidence"
    and a: "aggregate_candidate action (Some (fanin_of action repo_root)) = Inr aggregate"
    using assms(1,3) by (auto simp: build_input_def rbind_Inr_iff Let_def)
  obtain aggregate' where a': "aggregate_candidate action None = Inr aggregate'" using aggregate_without_graph [OF a] by blast
  have r: "operation_rollup (ports\<lparr>po_fanin := None\<rparr>) sd repo_root = operation_rollup ports sd repo_root" for sd
    by (simp add: operation_rollup_def)
  show ?thesis
    using assms(3) by (simp add: build_input_def e a a' r assms(1) parts Let_def) auto
qed

lemma untrusted_graph_is_no_evidence_witness:
  "\<exists>inp aggregate. build_input (single_action ''t'' sample_patchless_action) sample_patchless_action ''id'' ''/r'' [] (sample_ports default_fanin) sample_context = Inr inp
    \<and> build_input (single_action ''t'' sample_patchless_action) sample_patchless_action ''id'' ''/r'' [] ((sample_ports default_fanin)\<lparr>po_fanin := None\<rparr>) sample_context
      = Inr (inp\<lparr>ai_fanin_evidence := None, ai_candidate_aggregate_evidence := aggregate,
                 ai_language_capability := default_language_capability\<rparr>)"
proof -
  obtain inp where built: "build_input (single_action ''t'' sample_patchless_action) sample_patchless_action ''id'' ''/r'' [] (sample_ports default_fanin) sample_context = Inr inp"
    using sample_built by blast
  have "\<not> is_trusted_fanin (Some default_fanin)" by (simp add: is_trusted_fanin_def default_fanin_def TRUSTED_FANIN_RESOLUTION_METHODS_def)
  from untrusted_graph_is_no_evidence [OF sample_ports_fields(2) this built] built show ?thesis by blast
qed

end
