(* ===== verification/Pebra_Graph_Version.thy ===== *)
theory Pebra_Graph_Version
  imports Pebra_Patch_Paths
begin

text \<open>
  \<open>pebra/core/graph_version.py\<close> and \<open>pebra/core/graph_snapshot.py\<close>: which versions of the graph engine are
  trusted, and the record that ties graph evidence to one state of the repository.
\<close>

section \<open>Versions\<close>

definition CODEGRAPH_DEFAULT_VERSION :: string where "CODEGRAPH_DEFAULT_VERSION = ''1.1.1''"
definition CODEGRAPH_ACCEPTED_RANGE :: string where "CODEGRAPH_ACCEPTED_RANGE = ''>=1.1,<1.2''"
definition MAX_VERSION_LENGTH :: nat where "MAX_VERSION_LENGTH = 64"

text \<open>A number, and what follows it.\<close>

definition number_span :: "string \<Rightarrow> (nat \<times> string) option" where
  "number_span s =
     (case digit_span s of (ds, r) \<Rightarrow> if ds = [] then None else Some (number_of_digits 10 ds, r))"

text \<open>\<open>(\d+)\.(\d+)\<close>.\<close>

definition dotted_pair :: "string \<Rightarrow> (nat \<times> nat \<times> string) option" where
  "dotted_pair s =
     (case number_span s of
        Some (a, CHR ''.'' # r) \<Rightarrow> map_option (\<lambda>(b, r'). (a, b, r')) (number_span r)
      | _ \<Rightarrow> None)"

text \<open>The groups of \<open>^v?(\d+)\.(\d+)(?:\.(\d+))?$\<close>, the third zero when it is absent.\<close>

definition version_groups :: "string \<Rightarrow> (nat \<times> nat \<times> nat) option" where
  "version_groups version =
     (case dotted_pair (remove_prefix version ''v'') of
        Some (a, b, []) \<Rightarrow> Some (a, b, 0)
      | Some (a, b, CHR ''.'' # r) \<Rightarrow> (case number_span r of Some (c, []) \<Rightarrow> Some (a, b, c) | _ \<Rightarrow> None)
      | _ \<Rightarrow> None)"

definition is_release_version :: "pyval \<Rightarrow> bool" where
  "is_release_version version =
     (case version of
        VStr s \<Rightarrow> 0 < length s \<and> length s \<le> MAX_VERSION_LENGTH \<and> version_groups s \<noteq> None
      | _ \<Rightarrow> False)"

definition parse_version :: "string \<Rightarrow> (nat \<times> nat \<times> nat) option" where
  "parse_version version = (if is_release_version (VStr version) then version_groups version else None)"

text \<open>\<open>^\s*>=A.B\s*,\s*<C.D\s*$\<close>.\<close>

definition range_groups :: "string \<Rightarrow> ((nat \<times> nat) \<times> (nat \<times> nat)) option" where
  "range_groups range_str =
     (let s = lstrip_rest 0 range_str
      in if \<not> starts_with s ''>='' then None
         else case dotted_pair (drop 2 s) of
           None \<Rightarrow> None
         | Some (a, b, r) \<Rightarrow>
             let r = lstrip_rest 0 r
             in if \<not> starts_with r '','' then None
                else let r' = lstrip_rest 0 (drop 1 r)
                     in if \<not> starts_with r' ''<'' then None
                        else case dotted_pair (drop 1 r') of
                          Some (c, d, rest) \<Rightarrow> if blank rest then Some ((a, b), (c, d)) else None
                        | None \<Rightarrow> None)"

fun triple_less :: "nat \<times> nat \<times> nat \<Rightarrow> nat \<times> nat \<times> nat \<Rightarrow> bool" where
  "triple_less (a, b, c) (d, e, f) = (a < d \<or> a = d \<and> (b < e \<or> b = e \<and> c < f))"

definition in_version_range :: "pyval \<Rightarrow> string \<Rightarrow> bool res" where
  "in_version_range version range_str =
     (case range_groups range_str of
        None \<Rightarrow> Inl (ValueError ''unsupported range format'')
      | Some ((a, b), (c, d)) \<Rightarrow> Inr
          (case version of
             VStr s \<Rightarrow>
               (case parse_version s of
                  None \<Rightarrow> False
                | Some v \<Rightarrow> \<not> triple_less v (a, b, 0) \<and> triple_less v (c, d, 0))
           | _ \<Rightarrow> False))"

text \<open>With the default range, which never raises.\<close>

definition in_accepted_range :: "pyval \<Rightarrow> bool" where
  "in_accepted_range version = (in_version_range version CODEGRAPH_ACCEPTED_RANGE = Inr True)"

section \<open>Snapshots\<close>

record graph_snapshot =
  gn_status :: string
  gn_provider :: "string option"
  gn_provider_version :: "string option"
  gn_index_version :: "string option"
  gn_repo_head :: "string option"
  gn_config_digest :: "string option"
  gn_graph_scope_digest :: "string option"
  gn_sync_performed :: bool
  gn_fallback_reason :: "string option"

definition graph_snapshot_matches :: "graph_snapshot \<Rightarrow> graph_snapshot \<Rightarrow> bool \<Rightarrow> bool" where
  "graph_snapshot_matches prepared returned result_available =
     (if result_available then gn_status prepared = ''available'' \<and> returned = prepared
      else (gn_provider returned, gn_provider_version returned, gn_index_version returned, gn_repo_head returned,
            gn_config_digest returned, gn_graph_scope_digest returned, gn_sync_performed returned)
           = (gn_provider prepared, gn_provider_version prepared, gn_index_version prepared, gn_repo_head prepared,
              gn_config_digest prepared, gn_graph_scope_digest prepared, gn_sync_performed prepared))"

section \<open>Lemmas\<close>

lemma accepted_range_groups: "range_groups CODEGRAPH_ACCEPTED_RANGE = Some ((1, 1), (1, 2))"
  by code_simp

lemma default_version_accepted: "in_accepted_range (VStr CODEGRAPH_DEFAULT_VERSION)"
  by code_simp

text \<open>The accepted versions are the releases 1.1.x, whatever their spelling.\<close>

lemma in_accepted_range_iff: "in_accepted_range v \<longleftrightarrow> (\<exists>s c. v = VStr s \<and> parse_version s = Some (1, 1, c))"
  by (cases v) (auto simp: in_accepted_range_def in_version_range_def accepted_range_groups split: option.splits)

lemma in_accepted_range_release: "in_accepted_range v \<Longrightarrow> is_release_version v"
  by (auto simp: in_accepted_range_iff parse_version_def split: if_splits)

text \<open>A fenced result, available or not, carries the binding of the snapshot it was asked under.\<close>

lemma matching_snapshot_binding:
  "graph_snapshot_matches prepared returned available \<Longrightarrow>
     gn_repo_head returned = gn_repo_head prepared \<and> gn_graph_scope_digest returned = gn_graph_scope_digest prepared
     \<and> gn_config_digest returned = gn_config_digest prepared"
  by (auto simp: graph_snapshot_matches_def split: if_splits)

end
