(* ===== verification/Pebra_Assess_Controller.thy ===== *)
theory Pebra_Assess_Controller
  imports Pebra_Assess_Input Pebra_Warm_Prior Pebra_Learned_Overrides Pebra_Decision_Engine Pebra_Request_Validator Pebra_Graph_Version
begin

text \<open>
  \<open>pebra/app/assess_controller.py\<close>: the assess use case around the pure engine. Every candidate is prepared
  (input, shipped priors, learned facts) and scored, eligible candidates are refined within a budget, and the
  best one is recommended with the payload that is persisted with it. The store is the ledger of
  \<open>Pebra_Assessment_Ledger\<close>; the other ports are arguments. The explanation and the guidance packet, wording
  around a result, are left out, and with them the final call of \<open>persist_assessment\<close>.
\<close>

section \<open>Priors\<close>

text \<open>The targets of applied facts that carry no variance.\<close>

definition legacy_targets :: "assessment_input \<Rightarrow> pyval list" where
  "legacy_targets inp =
     (case ai_applied_snapshot_provenance inp of
        None \<Rightarrow> []
      | Some p \<Rightarrow>
          map (\<lambda>item. dict_get item ''target'' VNone)
            (filter (\<lambda>item. dict_get item ''variance'' VNone = VNone)
              (dict_rows (dict_get p ''applied_facts'' (VList [])))))"

definition apply_prior_layers ::
  "prior_cell list \<Rightarrow> snapshot_bundle option \<Rightarrow> assessment_input \<Rightarrow> assessment_input res" where
  "apply_prior_layers cells snapshot inp =
     rbind (apply_warm_prior inp cells) (\<lambda>warm.
     rbind (apply_snapshot warm snapshot None) (\<lambda>applied.
       let targets = legacy_targets applied
       in Inr (applied
            \<lparr>ai_p_success_variance := (if VStr ''p_success'' \<in> set targets then ai_p_success_variance inp
               else ai_p_success_variance applied),
             ai_review_cost_variance := (if VStr ''review_cost'' \<in> set targets then ai_review_cost_variance inp
               else ai_review_cost_variance applied)\<rparr>)))"

section \<open>Scoring\<close>

text \<open>What is fixed for a call of \<open>assess\<close>.\<close>

record assess_run =
  ax_assessed_commit :: "string option"
  ax_worktree_dirty :: "bool option"
  ax_repo_root :: string
  ax_repo_id :: string
  ax_cells :: "prior_cell list"
  ax_snapshot :: "snapshot_bundle option"
  ax_graph_snapshot :: "graph_snapshot option"
  ax_features :: "(assessment_input \<Rightarrow> pyval dict) option"

definition unavailable_graph :: "string \<Rightarrow> string \<Rightarrow> pyval dict" where
  "unavailable_graph status reason =
     [(''engine'', VStr ''CodeGraph''), (''status'', VStr status), (''fallback_reason'', VStr reason)]"

text \<open>\<open>round(x, 3)\<close>: half to even, on the exact value.\<close>

definition round3 :: "real \<Rightarrow> real" where
  "round3 x =
     (let y = 1000 * x; n = \<lfloor>y\<rfloor>; d = y - of_int n
      in of_int (if d < 1 / 2 then n else if d > 1 / 2 then n + 1 else if even n then n else n + 1) / 1000)"

definition capability_payload :: "language_capability \<Rightarrow> pyval dict" where
  "capability_payload cap =
     [(''language'', VStr (lc_language cap)), (''probe_status'', VStr (lc_probe_status cap)),
      (''tier'', VStr (classify_tier cap)), (''node_count'', VInt (lc_node_count cap)),
      (''signature_coverage_ratio'', vreal (round3 (lc_signature_coverage_ratio cap))),
      (''visibility_coverage_ratio'', vreal (round3 (lc_visibility_coverage_ratio cap))),
      (''edge_kinds'', vstrs (sort (lc_edge_kinds cap)))]"

definition graph_provenance :: "assess_run \<Rightarrow> assessment_input \<Rightarrow> pyval dict" where
  "graph_provenance run inp =
     (let graph = ax_graph_snapshot run; cap = ai_language_capability inp;
          known = (\<lambda>fi. [(''engine'', VStr ''CodeGraph''),
             (''provider_version'', vopt (case graph of Some g \<Rightarrow> gn_provider_version g | None \<Rightarrow> fi_provider_version fi)),
             (''index_version'', vopt (case graph of Some g \<Rightarrow> gn_index_version g | None \<Rightarrow> fi_index_version fi))]
           @ (case graph of
                Some g \<Rightarrow> [(''repo_head'', vopt (gn_repo_head g)), (''config_digest'', vopt (gn_config_digest g)),
                           (''graph_scope_digest'', vopt (gn_graph_scope_digest g))]
              | None \<Rightarrow> [])
           @ (if lc_probe_status cap \<noteq> ''unmeasured''
              then [(''language_capability'', VDict (capability_payload cap))] else [])
           @ [(''structure_tier'', VStr (sd_structure_tier (ai_symbol_diff_evidence inp)))]);
          from_fanin = (case ai_fanin_evidence inp of None \<Rightarrow> [] | Some fi \<Rightarrow> known fi)
      in case graph of
           None \<Rightarrow> from_fanin
         | Some g \<Rightarrow>
             if gn_status g \<noteq> ''available''
             then unavailable_graph (gn_status g)
                    (case gn_fallback_reason g of
                       None \<Rightarrow> ''graph snapshot unavailable''
                     | Some r \<Rightarrow> if r = [] then ''graph snapshot unavailable'' else r)
             else if ax_assessed_commit run = None \<or> ax_assessed_commit run \<noteq> gn_repo_head g
             then unavailable_graph ''unavailable'' ''graph snapshot does not match the assessed commit''
             else from_fanin)"

definition with_provenance :: "assess_run \<Rightarrow> assessment_input \<Rightarrow> assessment_result \<Rightarrow> assessment_result" where
  "with_provenance run inp result =
     (let graph = graph_provenance run inp;
          provenance = (case ai_applied_snapshot_provenance inp of
            None \<Rightarrow> re_provenance result
          | Some p \<Rightarrow> dict_set (re_provenance result) ''applied_snapshot_provenance'' (VDict p));
          provenance = dict_set provenance ''repo_state'' (VDict
            [(''repo_head_sha'', vopt (ax_assessed_commit run)),
             (''worktree_dirty'', (case ax_worktree_dirty run of None \<Rightarrow> VNone | Some b \<Rightarrow> VBool b)),
             (''assessed_repo_root'', VStr (ax_repo_root run))]);
          provenance = (if graph = [] then provenance else dict_set provenance ''graph_provenance'' (VDict graph))
      in result\<lparr>re_provenance := provenance,
           re_calibration_lanes := (case dict_get graph ''language_capability'' VNone of
             VDict capability \<Rightarrow>
               dict_set (re_calibration_lanes result) ''context'' (VDict
                 [(''language'', dict_get capability ''language'' VNone),
                  (''language_tier'', dict_get capability ''tier'' VNone)])
           | _ \<Rightarrow> re_calibration_lanes result)\<rparr>)"

definition prediction_features :: "assess_run \<Rightarrow> assessment_input \<Rightarrow> pyval dict" where
  "prediction_features run inp =
     (let graph = graph_provenance run inp; evidence = ai_candidate_graph_risk_evidence inp;
          features = (case ai_structural_features inp of None \<Rightarrow> [] | Some f \<Rightarrow> f);
          features = (if graph = [] then features
            else dict_set features ''provenance'' (VDict (map (\<lambda>k. (k, dict_get graph k VNone))
              [''provider_version'', ''index_version'', ''repo_head'', ''config_digest'', ''graph_scope_digest''])))
      in if ce_status evidence = ''not_applicable'' then features
         else dict_set features ''graph_refinement'' (VDict
           [(''status'', VStr (ce_status evidence)), (''provider'', vopt (ce_provider evidence)),
            (''fact_kinds'', vstrs (sorted_set (map sf_fact_kind (ce_facts evidence))))]))"

definition manifest_of :: "assess_run \<Rightarrow> assessment_input \<Rightarrow> assessment_result \<Rightarrow> prediction_target list" where
  "manifest_of run inp result =
     build_prediction_manifest
       \<lparr>mc_action_id = ca_id (ai_action inp), mc_prediction_scope = ''shadow'', mc_provenance = None,
        mc_features = Some (prediction_features run inp),
        mc_applied_snapshot_provenance = ai_applied_snapshot_provenance inp,
        mc_warm_prior_provenance = ai_warm_prior_provenance inp\<rparr>
       (vreal (ai_p_success inp)) (fst (scoped_graph_risk_update inp)) (ai_immediate_benefit inp)
       (bd_deltas (ai_benefit_delta_evidence inp)) (vreal (fl_benefit (re_scores result)))
       (Some (vreal (ai_review_cost inp)))"

text \<open>\<open>ScoredAction\<close>, with the binding of the candidate that goes into its packet.\<close>

record scored_action =
  sa_action :: candidate_action
  sa_result :: assessment_result
  sa_predictions :: "prediction_target list"
  sa_thresholds :: "real dict"
  sa_candidate_verification :: candidate_verification
  sa_graph_risk_evidence :: candidate_graph_risk_evidence
  sa_candidate_binding :: "pyval dict option"
  sa_refinement_eligible :: bool
  sa_refinement_rank :: "nat option"
  sa_refinement_selected :: bool
  sa_refinement_status :: string
  sa_refinement_rank_basis :: "candidate_rank_input option"
  sa_refinement_enabled :: bool

definition score_prepared_input ::
  "assess_run \<Rightarrow> pyval dict option \<Rightarrow> assessment_input \<Rightarrow> candidate_action \<Rightarrow> scored_action res" where
  "score_prepared_input run binding inp action =
     rbind (build_assessment inp) (\<lambda>assessment.
     rbind (decide assessment (ai_policy_violations inp)) (\<lambda>decided.
       let result = with_provenance run inp decided;
           manifest = manifest_of run inp result
       in rbind (summarize_prior_provenance (map (\<lambda>t. (pt_target_name t, pt_provenance t)) manifest)) (\<lambda>prior.
            Inr \<lparr>sa_action = action,
                 sa_result = result\<lparr>re_provenance := dict_set (re_provenance result) ''prior_provenance'' (VDict prior)\<rparr>,
                 sa_predictions = manifest, sa_thresholds = ai_thresholds inp,
                 sa_candidate_verification = ai_candidate_verification inp,
                 sa_graph_risk_evidence = ai_candidate_graph_risk_evidence inp, sa_candidate_binding = binding,
                 sa_refinement_eligible = False, sa_refinement_rank = None, sa_refinement_selected = False,
                 sa_refinement_status = ce_status (ai_candidate_graph_risk_evidence inp),
                 sa_refinement_rank_basis = None, sa_refinement_enabled = False\<rparr>)))"

definition prepare_action_input ::
  "assess_run \<Rightarrow> assess_ports \<Rightarrow> build_context \<Rightarrow> assessment_request \<Rightarrow> candidate_action \<Rightarrow> real dict
    \<Rightarrow> assessment_input res" where
  "prepare_action_input run ports ctx request action thresholds =
     rbind (build_input request action (ax_repo_id run) (ax_repo_root run) thresholds ports ctx) (\<lambda>inp.
       apply_prior_layers (ax_cells run) (ax_snapshot run)
         (case ax_features run of
            None \<Rightarrow> inp | Some build_features \<Rightarrow> inp\<lparr>ai_structural_features := Some (build_features inp)\<rparr>))"

section \<open>Revisions\<close>

text \<open>The attempts a caller gives and those the store has seen; a store that fails has seen none.\<close>

definition thresholds_with_revise_attempt ::
  "json_codec \<Rightarrow> ledger \<Rightarrow> assess_run \<Rightarrow> candidate_action \<Rightarrow> pyval dict option \<Rightarrow> real dict \<Rightarrow> real dict" where
  "thresholds_with_revise_attempt codec ledger run action baseline thresholds =
     (let key = ''revise_safer_attempt'';
          caller_supplied = dict_has thresholds key;
          caller_attempt = (if caller_supplied then py_int (dict_get thresholds key 0) else 0);
          store_attempt = (case revise_safer_attempt_count codec (ax_repo_id run) (ax_assessed_commit run)
                (ca_expected_files action) baseline ledger of Inl _ \<Rightarrow> 0 | Inr n \<Rightarrow> n);
          attempt = max caller_attempt store_attempt
      in if caller_supplied \<and> attempt = caller_attempt then thresholds
         else if attempt \<le> 0 then thresholds
         else dict_set thresholds key (of_int attempt))"

definition revise_attempt :: "real dict \<Rightarrow> int" where
  "revise_attempt thresholds = py_int (dict_get thresholds ''revise_safer_attempt'' 0)"

definition revision_origin_for ::
  "json_codec \<Rightarrow> ledger \<Rightarrow> assess_run \<Rightarrow> candidate_action \<Rightarrow> bool \<Rightarrow> pyval dict option \<Rightarrow> int \<Rightarrow> pyval dict option" where
  "revision_origin_for codec ledger run action has_binder baseline attempt =
     (let origin =
            (if attempt > 0
             then (case origin_dict (revision_origin_envelope codec (ax_repo_id run) (ax_assessed_commit run)
                          (ca_expected_files action) baseline ledger) of
                     None \<Rightarrow> Some [(''available'', VBool False),
                                  (''fallback_reason'', VStr ''revision origin assessment not found'')]
                   | Some d \<Rightarrow> Some d)
             else None)
      in if has_binder then origin_for_current_baseline origin baseline else origin)"

definition revision_envelope_payload ::
  "json_codec \<Rightarrow> assess_run \<Rightarrow> (pyval \<Rightarrow> string) \<Rightarrow> candidate_action \<Rightarrow> assessment_result \<Rightarrow> pyval dict option
    \<Rightarrow> pyval dict option \<Rightarrow> pyval dict" where
  "revision_envelope_payload codec run str action result baseline origin =
     (let files = sorted_set (map norm_envelope_value (filter (\<lambda>v. v \<noteq> []) (ca_expected_files action)));
          scope = re_symbol_scope_evidence result;
          symbols = (if dict_get scope ''visibility'' VNone \<in> {VStr ''exported'', VStr ''public_api''}
                     then sorted_set (texts_of str (dict_get scope ''changed_symbols'' VNone)) else []);
          scores = re_scores result;
          payload = [(''expected_files'', vstrs files), (''public_symbols'', vstrs symbols),
                     (''expected_loss'', vreal (fl_expected_loss scores)), (''benefit'', vreal (fl_benefit scores)),
                     (''expected_utility'', vreal (fl_expected_utility scores)),
                     (''utility_sd'', vreal (fl_utility_sd scores)), (''rau'', vreal (fl_rau scores))]
            @ (case baseline of None \<Rightarrow> [] | Some b \<Rightarrow> [(''baseline_binding'', VDict b)]);
          inherited = (case origin of
              None \<Rightarrow> VNone
            | Some d \<Rightarrow> if truthy (dict_get d ''available'' VNone) then dict_get d ''lineage_key'' VNone else VNone);
          lineage_key =
            (if truthy inherited then inherited
             else (case (ax_assessed_commit run, baseline) of
                     (Some commit, Some b) \<Rightarrow>
                       if commit = [] then inherited
                       else VStr (sha256_hex (js_compact codec
                              [(''repo_id'', VStr (ax_repo_id run)), (''assessed_commit'', VStr commit),
                               (''baseline_binding'', VDict b), (''expected_files'', vstrs files),
                               (''public_symbols'', vstrs symbols)]))
                   | _ \<Rightarrow> inherited))
      in if truthy lineage_key then payload @ [(''lineage_key'', lineage_key)] else payload)"

section \<open>Host obligations\<close>

definition OBLIGATION_FIELDS :: "string list" where
  "OBLIGATION_FIELDS = [''required_files'', ''required_symbols'', ''required_checks'']"

definition obligation_error :: "string \<Rightarrow> 'a res" where
  "obligation_error m = Inl (ValueError m)"

definition obligation_strings :: "pyval dict \<Rightarrow> string \<Rightarrow> string list res" where
  "obligation_strings selected key =
     (case map_of selected key of
        None \<Rightarrow> Inr []
      | Some (VList vs) \<Rightarrow>
          if list_all (\<lambda>v. case v of VStr s \<Rightarrow> s \<noteq> [] | _ \<Rightarrow> False) vs
          then Inr (dedupe (map (\<lambda>v. case v of VStr s \<Rightarrow> s | _ \<Rightarrow> []) vs))
          else obligation_error ''trusted task obligations must be a list of non-empty strings''
      | Some _ \<Rightarrow> obligation_error ''trusted task obligations must be a list of non-empty strings'')"

definition parse_obligations :: "pyval \<Rightarrow> task_obligations res" where
  "parse_obligations selected =
     (case selected of
        VDict d \<Rightarrow>
          if d = [] then obligation_error ''trusted task obligations for action must not be empty''
          else if \<not> fst ` set d \<subseteq> set OBLIGATION_FIELDS
          then obligation_error ''unknown trusted task obligations fields''
          else rbind (obligation_strings d ''required_files'') (\<lambda>files.
               rbind (obligation_strings d ''required_symbols'') (\<lambda>symbols.
               rbind (obligation_strings d ''required_checks'') (\<lambda>checks.
                 if files = [] \<and> symbols = [] \<and> checks = []
                 then obligation_error ''trusted task obligations must contain at least one requirement''
                 else Inr \<lparr>to_required_files = files, to_required_symbols = symbols, to_required_checks = checks\<rparr>)))
      | _ \<Rightarrow> obligation_error ''trusted task obligations for action must be an object'')"

definition trusted_task_obligations_for_action :: "pyval option \<Rightarrow> string \<Rightarrow> task_obligations res" where
  "trusted_task_obligations_for_action raw action_id =
     (case raw of
        Some (VDict d) \<Rightarrow>
          if d = [] then obligation_error ''trusted task obligations must not be empty''
          else (case map_of d action_id of
                  Some selected \<Rightarrow> parse_obligations selected
                | None \<Rightarrow>
                    if fst ` set d \<subseteq> set OBLIGATION_FIELDS then parse_obligations (VDict d)
                    else if list_all (\<lambda>(_, v). case v of VDict _ \<Rightarrow> True | _ \<Rightarrow> False) d
                    then Inr default_task_obligations
                    else obligation_error ''unknown trusted task obligations fields'')
      | _ \<Rightarrow> Inr default_task_obligations)"

definition validate_trusted_task_obligations :: "pyval option \<Rightarrow> candidate_action list \<Rightarrow> unit res" where
  "validate_trusted_task_obligations raw actions =
     (case raw of
        None \<Rightarrow> Inr ()
      | Some (VDict d) \<Rightarrow>
          (let ids = map ca_id actions
           in if d = [] then obligation_error ''trusted task obligations must be a non-empty object''
              else if fst ` set d \<subseteq> set OBLIGATION_FIELDS
              then rbind (trusted_task_obligations_for_action raw (ca_id (hd actions))) (\<lambda>_. Inr ())
              else if \<not> fst ` set d \<subseteq> set ids
              then obligation_error ''trusted task obligations reference unknown action ids''
              else if \<not> set ids \<subseteq> fst ` set d
              then obligation_error ''trusted task obligations missing action ids''
              else rbind (map_res (\<lambda>(action_id, selected).
                       trusted_task_obligations_for_action (Some (VDict [(action_id, selected)])) action_id) d)
                     (\<lambda>_. Inr ()))
      | Some _ \<Rightarrow> obligation_error ''trusted task obligations must be a non-empty object'')"

section \<open>The recommendation\<close>

definition recommendation_key :: "scored_action \<Rightarrow> real \<times> real \<times> real \<times> string \<times> string" where
  "recommendation_key s =
     (- fl_rau (re_scores (sa_result s)), fl_expected_loss (re_scores (sa_result s)),
      - fl_benefit (re_scores (sa_result s)),
      candidate_patch_hash (case ca_proposed_patch (sa_action s) of None \<Rightarrow> [] | Some p \<Rightarrow> p), ca_id (sa_action s))"

definition decision_of :: "scored_action \<Rightarrow> decision" where
  "decision_of s = re_recommended_decision (sa_result s)"

definition recommendation_pool :: "scored_action list \<Rightarrow> scored_action list" where
  "recommendation_pool scored =
     (let autonomous = filter (\<lambda>s. decision_of s = PROCEED) scored;
          proceedable = filter (\<lambda>s. decision_of s \<noteq> REJECT) scored
      in if autonomous \<noteq> [] then autonomous else if proceedable \<noteq> [] then proceedable else scored)"

definition recommended :: "scored_action list \<Rightarrow> scored_action" where
  "recommended scored = arg_min_list recommendation_key (recommendation_pool scored)"

section \<open>Refinement\<close>

definition graph_risk_scope_of :: "assessment_input \<Rightarrow> graph_risk_scope option" where
  "graph_risk_scope_of inp =
     (case (find (\<lambda>e. ev_event e = ''public_api_break'' \<and> ev_risk_source e = Some ''graph_modify_risk''
                \<and> ev_owner_node_ids e \<noteq> []) (ai_events inp), ai_fanin_evidence inp) of
        (Some event, Some fanin) \<Rightarrow>
          (let owner_by_id = map_of (rev (map (\<lambda>o'. (ow_node_id o', o')) (fi_owner_risk fanin)));
               owner_ids = sorted_set (filter (\<lambda>v. v \<noteq> []) (ev_owner_node_ids event));
               owners = map (\<lambda>i. the (owner_by_id i)) owner_ids
           in if \<not> is_trusted_fanin (Some fanin) \<or> classify_tier (ai_language_capability inp) \<noteq> ''full''
                 \<or> owner_ids = [] \<or> list_ex (\<lambda>i. owner_by_id i = None) owner_ids
              then None
              else Some \<lparr>gs_event = ev_event event, gs_risk_source = ''graph_modify_risk'', gs_owner_node_ids = owner_ids,
                     gs_owner_file_paths = map ow_file_path owners,
                     gs_owner_qualified_names = map ow_qualified_name owners,
                     gs_expected_consumer_count = fi_symbol_caller_count fanin,
                     gs_language = Some (lc_language (ai_language_capability inp))\<rparr>)
      | _ \<Rightarrow> None)"

definition hard_events :: "string list" where
  "hard_events = [''security_sensitive_change'', ''external_state_damage'', ''migration_failure'']"

definition has_patch :: "candidate_action \<Rightarrow> bool" where
  "has_patch action = (ca_proposed_patch action \<noteq> None \<and> ca_proposed_patch action \<noteq> Some [])"

definition rank_input :: "scored_action \<Rightarrow> assessment_input \<Rightarrow> candidate_rank_input" where
  "rank_input scored inp =
     (let scores = re_scores (sa_result scored); aggregate = fl_candidate_aggregate scores;
          patch = (case ca_proposed_patch (sa_action scored) of None \<Rightarrow> [] | Some p \<Rightarrow> p)
      in \<lparr>ri_action_id = ca_id (sa_action scored),
          ri_eligible = (rc_is_revision (ai_revision_completeness inp) \<and> graph_risk_scope_of inp \<noteq> None
            \<and> has_patch (sa_action scored) \<and> fl_benefit scores > 0
            \<and> cv_status (ai_candidate_verification inp) \<noteq> ''failed''
            \<and> list_all (\<lambda>e. ev_event e \<notin> set hard_events) (ai_events inp) \<and> ai_policy_violations inp = []),
          ri_needs_refinement = (decision_of scored \<noteq> PROCEED),
          ri_benefit = fl_benefit scores, ri_expected_loss = fl_expected_loss scores, ri_rau = fl_rau scores,
          ri_cumulative_exposure = cg_cumulative_exposure aggregate, ri_file_count = cg_file_count aggregate,
          ri_owner_count = cg_owner_count aggregate, ri_domain_count = cg_domain_count aggregate,
          ri_resolution_coverage = cg_resolution_coverage aggregate, ri_patch_hash = candidate_patch_hash patch\<rparr>)"

text \<open>A candidate with its input, its ports and its score.\<close>

record prepared_action =
  pa_action :: candidate_action
  pa_inp :: assessment_input
  pa_baseline_binding :: "pyval dict option"
  pa_revision_origin :: "pyval dict option"
  pa_scored :: scored_action

text \<open>The refinement provider; \<open>None\<close> when it raises.\<close>

type_synonym refinement = "candidate_action \<Rightarrow> string \<Rightarrow> graph_risk_scope \<Rightarrow> candidate_graph_risk_evidence option"

definition refined_evidence :: "refinement \<Rightarrow> string \<Rightarrow> candidate_action \<Rightarrow> graph_risk_scope \<Rightarrow> candidate_graph_risk_evidence" where
  "refined_evidence analyze repo_root action scope =
     (let evidence = (case analyze action repo_root scope of
            None \<Rightarrow> default_graph_risk_evidence
              \<lparr>ce_status := ''unavailable'', ce_reason := Some ''materialized graph refinement failed''\<rparr>
          | Some e \<Rightarrow> e)
      in case ca_proposed_patch action of
           None \<Rightarrow> evidence
         | Some patch \<Rightarrow>
             if ce_status evidence = ''available'' \<and> patch \<noteq> []
             then evidence\<lparr>ce_verified_patch_hash := Some (candidate_patch_hash patch)\<rparr> else evidence)"

text \<open>The prior layers are applied again, to the input that already carries them.\<close>

definition refine_action :: "assess_run \<Rightarrow> candidate_graph_risk_evidence \<Rightarrow> prepared_action \<Rightarrow> prepared_action res" where
  "refine_action run evidence p =
     rbind (apply_prior_layers (ax_cells run) (ax_snapshot run)
              ((pa_inp p)\<lparr>ai_candidate_graph_risk_evidence := evidence\<rparr>)) (\<lambda>inp.
     rbind (score_prepared_input run (sa_candidate_binding (pa_scored p)) inp (pa_action p)) (\<lambda>scored.
       Inr (p\<lparr>pa_inp := inp,
              pa_scored := scored
                \<lparr>sa_refinement_eligible := True, sa_refinement_rank := sa_refinement_rank (pa_scored p),
                 sa_refinement_selected := True, sa_refinement_status := ce_status evidence,
                 sa_refinement_rank_basis := sa_refinement_rank_basis (pa_scored p), sa_refinement_enabled := True\<rparr>\<rparr>)))"

definition replace_prepared :: "prepared_action \<Rightarrow> prepared_action list \<Rightarrow> prepared_action list" where
  "replace_prepared p ps = map (\<lambda>q. if ca_id (pa_action q) = ca_id (pa_action p) then p else q) ps"

text \<open>The ranked candidates in order, as long as the budget lasts; a proceed stops the search.\<close>

fun refine_loop ::
  "assess_run \<Rightarrow> refinement \<Rightarrow> nat \<Rightarrow> candidate_rank_input list \<Rightarrow> prepared_action list
    \<Rightarrow> (prepared_action list \<times> bool) res" where
  "refine_loop run analyze budget [] ps = Inr (ps, False)"
| "refine_loop run analyze budget (r # ranked) ps =
     (if budget = 0 then Inr (ps, False)
      else case find (\<lambda>p. ca_id (pa_action p) = ri_action_id r) ps of
             None \<Rightarrow> Inl (KeyError (ri_action_id r))
           | Some p \<Rightarrow>
               (case graph_risk_scope_of (pa_inp p) of
                  None \<Rightarrow> refine_loop run analyze budget ranked ps
                | Some scope \<Rightarrow>
                    rbind (refine_action run (refined_evidence analyze (ax_repo_root run) (pa_action p) scope) p) (\<lambda>p'.
                      if decision_of (pa_scored p') = PROCEED then Inr (replace_prepared p' ps, True)
                      else refine_loop run analyze (budget - 1) ranked (replace_prepared p' ps))))"

fun rank_of :: "nat \<Rightarrow> candidate_rank_input list \<Rightarrow> string \<Rightarrow> nat option" where
  "rank_of n [] action_id = None"
| "rank_of n (r # ranked) action_id = (if ri_action_id r = action_id then Some n else rank_of (n + 1) ranked action_id)"

definition mark_rank :: "candidate_rank_input list \<Rightarrow> prepared_action \<Rightarrow> prepared_action" where
  "mark_rank ranked p =
     (let scored = (pa_scored p)
            \<lparr>sa_refinement_enabled := True, sa_refinement_rank_basis := Some (rank_input (pa_scored p) (pa_inp p))\<rparr>
      in p\<lparr>pa_scored := (case rank_of 1 ranked (ca_id (pa_action p)) of
             None \<Rightarrow> scored
           | Some n \<Rightarrow> scored\<lparr>sa_refinement_eligible := True, sa_refinement_rank := Some n,
                              sa_refinement_status := ''pending''\<rparr>)\<rparr>)"

definition settle_pending :: "bool \<Rightarrow> prepared_action \<Rightarrow> prepared_action" where
  "settle_pending stopped p =
     (if sa_refinement_eligible (pa_scored p) \<and> sa_refinement_status (pa_scored p) = ''pending''
      then p\<lparr>pa_scored := (pa_scored p)
             \<lparr>sa_refinement_status := (if stopped then ''not_evaluated_after_proceed'' else ''budget_exhausted'')\<rparr>\<rparr>
      else p)"

definition refinement_budget :: "real dict \<Rightarrow> nat" where
  "refinement_budget thresholds =
     nat (max 0 (min 2 (py_int (dict_get thresholds ''max_materialized_candidates_per_assess'' 1))))"

definition refine_candidates ::
  "assess_run \<Rightarrow> refinement \<Rightarrow> real dict \<Rightarrow> prepared_action list \<Rightarrow> prepared_action list res" where
  "refine_candidates run analyze thresholds ps =
     (let ranked = rank_candidates (map (\<lambda>p. rank_input (pa_scored p) (pa_inp p)) ps)
      in rbind (refine_loop run analyze (refinement_budget thresholds) ranked (map (mark_rank ranked) ps))
           (\<lambda>(ps', stopped). Inr (map (settle_pending stopped) ps')))"

section \<open>The payload of the request\<close>

definition vreals :: "real dict \<Rightarrow> pyval" where
  "vreals d = VDict (map (\<lambda>(k, x). (k, vreal x)) d)"

definition action_dict :: "candidate_action \<Rightarrow> pyval dict" where
  "action_dict a =
     [(''id'', VStr (ca_id a)), (''label'', VStr (ca_label a)), (''action_type'', VStr (ca_action_type a)),
      (''proposed_patch'', vopt (ca_proposed_patch a)), (''affected_symbols'', vstrs (ca_affected_symbols a)),
      (''expected_files'', vstrs (ca_expected_files a)), (''is_dependency_change'', VBool (ca_is_dependency_change a)),
      (''is_schema_change'', VBool (ca_is_schema_change a)), (''is_migration'', VBool (ca_is_migration a))]"

definition obligations_dict :: "task_obligations \<Rightarrow> pyval dict" where
  "obligations_dict t =
     [(''required_files'', vstrs (to_required_files t)), (''required_symbols'', vstrs (to_required_symbols t)),
      (''required_checks'', vstrs (to_required_checks t))]"

definition graph_fact_dict :: "scoped_graph_risk_fact \<Rightarrow> pyval dict" where
  "graph_fact_dict f =
     [(''fact_kind'', VStr (sf_fact_kind f)), (''event'', VStr (sf_event f)), (''risk_source'', VStr (sf_risk_source f)),
      (''owner_node_ids'', vstrs (sf_owner_node_ids f)), (''confidence'', VFloat (sf_confidence f)),
      (''provenance'', VStr (sf_provenance f))]"

definition audited_graph_evidence :: "candidate_graph_risk_evidence \<Rightarrow> pyval dict" where
  "audited_graph_evidence e =
     [(''status'', VStr (ce_status e)), (''facts'', VList (map (VDict \<circ> graph_fact_dict) (ce_facts e))),
      (''verified_patch_hash'', vopt (ce_verified_patch_hash e)), (''provider'', vopt (ce_provider e)),
      (''language'', vopt (ce_language e)), (''witness'', vopt (ce_witness e)),
      (''witness_version'', vopt (ce_witness_version e)), (''engine_version'', vopt (ce_engine_version e)),
      (''reason'', vopt (ce_reason e)), (''retryable_infrastructure'', VBool (ce_retryable_infrastructure e)),
      (''manifest_hash'', vopt (ce_manifest_hash e)), (''context_file_count'', VInt (ce_context_file_count e)),
      (''context_bytes'', VInt (ce_context_bytes e)), (''context_truncated'', VBool (ce_context_truncated e))]"

text \<open>What a human later replays: the request narrowed to the recommended action, with the host evidence.\<close>

definition replay_bundle :: "assessment_request \<Rightarrow> real dict \<Rightarrow> scored_action \<Rightarrow> task_obligations \<Rightarrow> pyval dict" where
  "replay_bundle request thresholds best obligations =
     [(''request'', VDict
        [(''task'', VStr (ar_task request)), (''candidate_actions'', VList [VDict (action_dict (sa_action best))]),
         (''evidence'', VDict (ar_evidence request)), (''thresholds'', vreals thresholds),
         (''schema_version'', VStr (ar_schema_version request))]),
      (''trusted_candidate_verification'', VDict (verification_payload (sa_candidate_verification best))),
      (''trusted_task_obligations'', VDict (obligations_dict obligations))]"

definition replay_entry ::
  "(pyval dict \<Rightarrow> pyval dict option) option \<Rightarrow> assessment_request \<Rightarrow> real dict \<Rightarrow> scored_action \<Rightarrow> task_obligations
    \<Rightarrow> pyval dict" where
  "replay_entry cache request thresholds best obligations =
     (case cache of
        Some store_bundle \<Rightarrow>
          if has_patch (sa_action best)
          then (case store_bundle (replay_bundle request thresholds best obligations) of
                  None \<Rightarrow> [(''status'', VStr ''unavailable''), (''reason'', VStr ''cache_write_failed'')]
                | Some metadata \<Rightarrow> metadata)
          else [(''status'', VStr ''not_applicable'')]
      | None \<Rightarrow> [(''status'', VStr ''not_applicable'')])"

definition graph_refinement_entry :: "scored_action \<Rightarrow> pyval dict" where
  "graph_refinement_entry s =
     [(''eligible'', VBool (sa_refinement_eligible s)),
      (''rank'', (case sa_refinement_rank s of None \<Rightarrow> VNone | Some n \<Rightarrow> VInt (int n))),
      (''selected'', VBool (sa_refinement_selected s)), (''status'', VStr (sa_refinement_status s)),
      (''retryable_infrastructure'', VBool (ce_retryable_infrastructure (sa_graph_risk_evidence s))),
      (''evidence'', VDict (audited_graph_evidence (sa_graph_risk_evidence s)))]"

section \<open>The use case\<close>

record binding_provider =
  cb_bind_candidate :: "candidate_action \<Rightarrow> string \<Rightarrow> pyval dict option"
  cb_bind_baseline :: "candidate_action \<Rightarrow> string \<Rightarrow> pyval dict option"

text \<open>The arguments of a call besides the request: stores, providers and what the trusted host says.\<close>

record assess_host =
  ah_codec :: json_codec
  ah_ledger :: ledger
  ah_ports :: assess_ports
  ah_binding :: "binding_provider option"
  ah_verification :: "candidate_action \<Rightarrow> candidate_verification option"
  ah_obligations :: "pyval option"
  ah_refinement :: "refinement option"
  ah_replay_cache :: "(pyval dict \<Rightarrow> pyval dict option) option"

definition prepare_candidate ::
  "assess_run \<Rightarrow> assess_host \<Rightarrow> assessment_request \<Rightarrow> real dict \<Rightarrow> candidate_action \<Rightarrow> prepared_action res" where
  "prepare_candidate run host request thresholds action =
     (let repo_root = ax_repo_root run;
          baseline = (case ah_binding host of None \<Rightarrow> None | Some b \<Rightarrow> cb_bind_baseline b action repo_root);
          action_thresholds = thresholds_with_revise_attempt (ah_codec host) (ah_ledger host) run action baseline thresholds;
          attempt = revise_attempt action_thresholds;
          origin = revision_origin_for (ah_codec host) (ah_ledger host) run action (ah_binding host \<noteq> None) baseline attempt;
          binding = (case ah_binding host of None \<Rightarrow> None | Some b \<Rightarrow> cb_bind_candidate b action repo_root)
      in rbind (trusted_task_obligations_for_action (ah_obligations host) (ca_id action)) (\<lambda>obligations.
         rbind (prepare_action_input run (ah_ports host)
                  \<lparr>bc_trusted_verification = ah_verification host action, bc_graph_risk_evidence = None,
                   bc_trusted_obligations = Some obligations, bc_revision_origin = origin, bc_is_revision = attempt > 0\<rparr>
                  request action action_thresholds) (\<lambda>inp.
         rbind (score_prepared_input run binding inp action) (\<lambda>scored.
           Inr \<lparr>pa_action = action, pa_inp = inp, pa_baseline_binding = baseline, pa_revision_origin = origin,
                pa_scored = scored\<rparr>))))"

definition request_payload ::
  "assess_run \<Rightarrow> assess_host \<Rightarrow> assessment_request \<Rightarrow> real dict \<Rightarrow> prepared_action \<Rightarrow> task_obligations \<Rightarrow> pyval dict" where
  "request_payload run host request thresholds best obligations =
     (let scored = pa_scored best; verification = sa_candidate_verification scored
      in [(''task'', VStr (ar_task request)), (''action_id'', VStr (ca_id (sa_action scored))),
          (''thresholds'', vreals (sa_thresholds scored)),
          (''candidate_verification_status'', VStr (cv_status verification)),
          (''candidate_verification_retryable_infrastructure'', VBool (cv_retryable_infrastructure verification)),
          (''task_obligations'', VDict (obligations_dict obligations)),
          (''revision_envelope'', VDict (revision_envelope_payload (ah_codec host) run (po_str (ah_ports host))
             (sa_action scored) (sa_result scored) (pa_baseline_binding best) (pa_revision_origin best))),
          (''candidate_replay'', VDict (replay_entry (ah_replay_cache host) request thresholds scored obligations))]
         @ (if sa_refinement_enabled scored
            then [(''graph_refinement'', VDict (graph_refinement_entry scored))] else []))"

text \<open>The scored actions, the recommended one and its payload.\<close>

definition assess ::
  "assess_run \<Rightarrow> assess_host \<Rightarrow> assessment_request \<Rightarrow> real dict \<Rightarrow> (scored_action list \<times> scored_action \<times> pyval dict) res" where
  "assess run host request thresholds =
     rbind (validate request) (\<lambda>_.
     rbind (validate_trusted_task_obligations (ah_obligations host) (ar_candidate_actions request)) (\<lambda>_.
     rbind (map_res (prepare_candidate run host request thresholds) (ar_candidate_actions request)) (\<lambda>prepared.
     rbind (case ah_refinement host of
              None \<Rightarrow> Inr prepared
            | Some analyze \<Rightarrow> refine_candidates run analyze thresholds prepared) (\<lambda>refined.
       let best = recommended (map pa_scored refined)
       in rbind (trusted_task_obligations_for_action (ah_obligations host) (ca_id (sa_action best))) (\<lambda>obligations.
            Inr (map pa_scored refined, best,
                 (case find (\<lambda>p. ca_id (pa_action p) = ca_id (sa_action best)) refined of
                    None \<Rightarrow> []
                  | Some p \<Rightarrow> request_payload run host request thresholds (p\<lparr>pa_scored := best\<rparr>) obligations)))))))"

section \<open>Sample candidates\<close>

definition sample_flat :: "real \<Rightarrow> flat_scores" where
  "sample_flat rau =
     \<lparr>fl_expected_loss = 0.1, fl_expected_utility = 0.2, fl_utility_sd = 0.1, fl_rau = rau, fl_edit_confidence = 0.9,
      fl_risk_budget_used = 0.2, fl_effective_threshold = 0.45, fl_budget_threshold_key = [], fl_benefit = 0.5,
      fl_benefit_breakdown = resolve_benefit (vreal 0.5) [] ''projected'' (vreal 0) None, fl_benefit_file_deltas = [],
      fl_candidate_aggregate = default_candidate_aggregate, fl_criticality_stage = ''C1'', fl_criticality_value = 0.3,
      fl_confidence_band = ''high'', fl_loss_components = [], fl_verified_risk_events_removed = [],
      fl_risk_probability_updates = [], fl_graph_risk_events_updated = [], fl_symbol_scope_evidence = [],
      fl_variance_breakdown = [], fl_variance_source = []\<rparr>"

definition sample_scored :: "string \<Rightarrow> real \<Rightarrow> decision \<Rightarrow> scored_action" where
  "sample_scored i rau d =
     \<lparr>sa_action = sample_action\<lparr>ca_id := i\<rparr>,
      sa_result = \<lparr>re_recommended_decision = d, re_requires_confirmation = False, re_action_status = PENDING,
        re_risk_mode = NORMAL, re_scores = sample_flat rau, re_calibration_lanes = [], re_repo_id = ''id'',
        re_repo_root = ''/r'', re_gates_fired = [], re_high_risk_triggers = [], re_symbol_scope_evidence = [],
        re_graph_evidence = [], re_fanin_validity = [], re_provenance = [], re_decision_reason = PolicyReason []\<rparr>,
      sa_predictions = [], sa_thresholds = [], sa_candidate_verification = default_candidate_verification,
      sa_graph_risk_evidence = default_graph_risk_evidence, sa_candidate_binding = None, sa_refinement_eligible = False,
      sa_refinement_rank = None, sa_refinement_selected = False, sa_refinement_status = ''not_applicable'',
      sa_refinement_rank_basis = None, sa_refinement_enabled = False\<rparr>"

lemma sample_scored_fields [simp]:
  "ca_id (sa_action (sample_scored i rau d)) = i" "decision_of (sample_scored i rau d) = d"
  "sa_refinement_selected (sample_scored i rau d) = False"
  by (simp_all add: sample_scored_def decision_of_def)

section \<open>Properties of the recommendation\<close>

lemma pool_subset: "set (recommendation_pool scored) \<subseteq> set scored"
  by (auto simp: recommendation_pool_def Let_def split: if_splits)

lemma pool_nonempty: "scored \<noteq> [] \<Longrightarrow> recommendation_pool scored \<noteq> []"
  by (simp add: recommendation_pool_def Let_def)

lemma pool_perm: "mset scored = mset scored' \<Longrightarrow> mset (recommendation_pool scored) = mset (recommendation_pool scored')"
proof -
  assume same: "mset scored = mset scored'"
  have "filter P scored = [] \<longleftrightarrow> filter P scored' = []" for P :: "scored_action \<Rightarrow> bool"
    using arg_cong [OF same, of "filter_mset P"] by (metis mset_filter mset_zero_iff)
  then show ?thesis by (simp add: recommendation_pool_def Let_def same)
qed

lemma recommended_least:
  assumes "scored \<noteq> []"
  shows "recommended scored \<in> set (recommendation_pool scored)
    \<and> (\<forall>s \<in> set (recommendation_pool scored). recommendation_key (recommended scored) \<le> recommendation_key s)"
  using pool_nonempty [OF assms]
  by (auto simp: recommended_def arg_min_list_in f_arg_min_list_f)

lemma recommended_decision:
  assumes "scored \<noteq> []"
  shows "(PROCEED \<in> decision_of ` set scored \<longrightarrow> decision_of (recommended scored) = PROCEED)
    \<and> (decision_of (recommended scored) = REJECT \<longrightarrow> (\<forall>s \<in> set scored. decision_of s = REJECT))"
  using recommended_least [OF assms, THEN conjunct1]
  by (auto simp: recommendation_pool_def Let_def filter_empty_conv split: if_splits)

text \<open>The recommendation is a best candidate and does not depend on the order of the request. Among candidates with
  distinct ids any order yields the same one; it proceeds as soon as one candidate may, it is a reject only
  if all are, and in its pool none has a better utility, then loss, benefit, patch hash and id.\<close>

theorem recommendation_is_order_independent:
  assumes "mset scored = mset scored'" and "inj_on (ca_id \<circ> sa_action) (set scored)" and "scored \<noteq> []"
  shows "recommended scored = recommended scored' \<and> recommended scored \<in> set scored
    \<and> (PROCEED \<in> decision_of ` set scored \<longrightarrow> decision_of (recommended scored) = PROCEED)
    \<and> (decision_of (recommended scored) = REJECT \<longrightarrow> (\<forall>s \<in> set scored. decision_of s = REJECT))
    \<and> (\<forall>s \<in> set (recommendation_pool scored). recommendation_key (recommended scored) \<le> recommendation_key s)"
proof -
  have "scored' \<noteq> []" using assms(1,3) by auto
  have pools: "set (recommendation_pool scored) = set (recommendation_pool scored')"
    using pool_perm [OF assms(1)] by (metis set_mset_mset)
  note one = recommended_least [OF assms(3)] and two = recommended_least [OF \<open>scored' \<noteq> []\<close>]
  have "recommendation_key (recommended scored) = recommendation_key (recommended scored')"
    using one two pools by (blast intro: antisym)
  then have "ca_id (sa_action (recommended scored)) = ca_id (sa_action (recommended scored'))"
    by (simp add: recommendation_key_def)
  moreover have "recommended scored \<in> set scored" "recommended scored' \<in> set scored"
    using one two pools pool_subset by blast+
  ultimately have "recommended scored = recommended scored'"
    using assms(2) by (auto simp: inj_on_def)
  then show ?thesis using one pool_subset recommended_decision [OF assms(3)] by blast
qed

lemma recommendation_is_order_independent_witness:
  "let a = sample_scored ''a'' 0.9 ASK_HUMAN; b = sample_scored ''b'' 0.1 PROCEED
   in recommended [a, b] = recommended [b, a] \<and> decision_of (recommended [a, b]) = PROCEED"
proof -
  let ?a = "sample_scored ''a'' 0.9 ASK_HUMAN" and ?b = "sample_scored ''b'' 0.1 PROCEED"
  have "mset [?a, ?b] = mset [?b, ?a]" "inj_on (ca_id \<circ> sa_action) (set [?a, ?b])"
    by (simp_all add: inj_on_def)
  from recommendation_is_order_independent [OF this]
  have "recommended [?a, ?b] = recommended [?b, ?a]"
    "PROCEED \<in> decision_of ` set [?a, ?b] \<longrightarrow> decision_of (recommended [?a, ?b]) = PROCEED" by blast+
  moreover have "PROCEED \<in> decision_of ` set [?a, ?b]" by simp
  ultimately show ?thesis unfolding Let_def by blast
qed

section \<open>Properties of the obligations\<close>

lemma parse_obligations_requires:
  "parse_obligations v = Inr t \<Longrightarrow> to_required_files t \<noteq> [] \<or> to_required_symbols t \<noteq> [] \<or> to_required_checks t \<noteq> []"
  by (auto simp: parse_obligations_def rbind_Inr_iff obligation_error_def split: pyval.splits if_splits)

lemma map_res_each: "map_res f xs = Inr ys \<Longrightarrow> x \<in> set xs \<Longrightarrow> \<exists>y. f x = Inr y"
  unfolding map_res_Inr_iff by (induction rule: list_all2_induct) auto

text \<open>Obligations of the host that pass the check up front are parsed for every candidate, and none is lost: each
  candidate, whose id is not itself the name of an obligation, gets at least one requirement.\<close>

theorem validated_obligations_bind_every_action:
  assumes "validate_trusted_task_obligations (Some raw) actions = Inr ()" and "action \<in> set actions"
    and "\<forall>a \<in> set actions. ca_id a \<notin> set OBLIGATION_FIELDS"
  shows "\<exists>t. trusted_task_obligations_for_action (Some raw) (ca_id action) = Inr t
    \<and> (to_required_files t \<noteq> [] \<or> to_required_symbols t \<noteq> [] \<or> to_required_checks t \<noteq> [])"
proof -
  obtain d where d: "raw = VDict d" "d \<noteq> []"
    using assms(1) by (auto simp: validate_trusted_task_obligations_def obligation_error_def Let_def split: pyval.splits if_splits)
  have "\<exists>v. trusted_task_obligations_for_action (Some raw) (ca_id action) = parse_obligations v \<and> is_ok (parse_obligations v)"
  proof (cases "fst ` set d \<subseteq> set OBLIGATION_FIELDS")
    case True
    have none: "map_of d (ca_id a) = None" if "a \<in> set actions" for a
      using that True assms(3) by (auto simp: map_of_eq_None_iff)
    have "hd actions \<in> set actions" using assms(2) by (cases actions) auto
    then show ?thesis
      using assms(1,2) True none d
      by (auto simp: validate_trusted_task_obligations_def trusted_task_obligations_for_action_def Let_def is_ok_iff rbind_Inr_iff)
  next
    case False
    then have keys: "set (map ca_id actions) \<subseteq> fst ` set d"
      and each: "is_ok (map_res (\<lambda>(action_id, selected).
          trusted_task_obligations_for_action (Some (VDict [(action_id, selected)])) action_id) d)"
      using assms(1) d
      by (auto simp: validate_trusted_task_obligations_def obligation_error_def Let_def is_ok_iff rbind_Inr_iff split: if_splits)
    have "ca_id action \<in> fst ` set d" using keys assms(2) by auto
    then obtain v where v: "map_of d (ca_id action) = Some v" by (metis map_of_eq_None_iff option.exhaust)
    then have "(ca_id action, v) \<in> set d" by (rule map_of_SomeD)
    with each have "is_ok (parse_obligations v)"
      by (fastforce simp: is_ok_iff trusted_task_obligations_for_action_def dest!: map_res_each)
    with v d show ?thesis by (auto simp: trusted_task_obligations_for_action_def)
  qed
  then show ?thesis using parse_obligations_requires by (auto simp: is_ok_iff)
qed

lemma validated_obligations_bind_every_action_witness:
  "\<exists>t. trusted_task_obligations_for_action (Some (VDict [(''required_checks'', vstrs [''tests''])])) ''a1'' = Inr t
    \<and> (to_required_files t \<noteq> [] \<or> to_required_symbols t \<noteq> [] \<or> to_required_checks t \<noteq> [])"
proof -
  let ?raw = "VDict [(''required_checks'', vstrs [''tests''])]"
  have "validate_trusted_task_obligations (Some ?raw) [sample_action] = Inr ()"
    by (simp add: validate_trusted_task_obligations_def trusted_task_obligations_for_action_def parse_obligations_def
        obligation_strings_def OBLIGATION_FIELDS_def sample_action_def dedupe_def)
  from validated_obligations_bind_every_action [OF this, of sample_action] show ?thesis
    by (simp add: sample_action_def OBLIGATION_FIELDS_def)
qed

section \<open>Properties of the refinement\<close>

text \<open>What a refinement leaves of a candidate that it does not select.\<close>

definition untouched :: "prepared_action \<Rightarrow> prepared_action \<Rightarrow> bool" where
  "untouched p q =
     (pa_action q = pa_action p \<and> (sa_refinement_selected (pa_scored p) \<longrightarrow> sa_refinement_selected (pa_scored q))
      \<and> (sa_refinement_selected (pa_scored q)
         \<or> pa_inp q = pa_inp p \<and> sa_result (pa_scored q) = sa_result (pa_scored p)
           \<and> sa_predictions (pa_scored q) = sa_predictions (pa_scored p)))"

definition selected_count :: "prepared_action list \<Rightarrow> nat" where
  "selected_count ps = length (filter (\<lambda>p. sa_refinement_selected (pa_scored p)) ps)"

abbreviation prepared_ids :: "prepared_action list \<Rightarrow> string list" where
  "prepared_ids ps \<equiv> map (\<lambda>p. ca_id (pa_action p)) ps"

lemma refine_action_Inr:
  "refine_action run evidence p = Inr p' \<Longrightarrow> pa_action p' = pa_action p \<and> sa_refinement_selected (pa_scored p')"
  by (auto simp: refine_action_def rbind_Inr_iff)

lemma replace_prepared_absent: "ca_id (pa_action p) \<notin> set (prepared_ids ps) \<Longrightarrow> replace_prepared p ps = ps"
  by (induction ps) (auto simp: replace_prepared_def)

lemma replace_prepared_count:
  "distinct (prepared_ids ps) \<Longrightarrow> selected_count (replace_prepared p ps) \<le> Suc (selected_count ps)"
proof (induction ps)
  case (Cons q ps)
  show ?case
  proof (cases "ca_id (pa_action q) = ca_id (pa_action p)")
    case True
    then have "replace_prepared p ps = ps" using Cons.prems by (intro replace_prepared_absent) simp
    then show ?thesis by (simp add: selected_count_def replace_prepared_def)
  next
    case False
    with Cons show ?thesis by (simp add: selected_count_def replace_prepared_def)
  qed
qed (simp add: selected_count_def replace_prepared_def)

lemma replace_prepared_ids: "prepared_ids (replace_prepared p ps) = prepared_ids ps"
  by (induction ps) (auto simp: replace_prepared_def)

lemma untouched_refl [simp]: "untouched p p"
  by (simp add: untouched_def)

lemma replace_prepared_untouched:
  assumes "distinct (prepared_ids ps)" and "p \<in> set ps" and "pa_action p' = pa_action p"
    and "sa_refinement_selected (pa_scored p')"
  shows "list_all2 untouched ps (replace_prepared p' ps)"
proof -
  have "untouched q (if ca_id (pa_action q) = ca_id (pa_action p') then p' else q)" if "q \<in> set ps" for q
  proof -
    have "q = p" if "ca_id (pa_action q) = ca_id (pa_action p)"
      using assms(1,2) \<open>q \<in> set ps\<close> that by (auto simp: distinct_map inj_on_def)
    with assms(3,4) show ?thesis by (auto simp: untouched_def)
  qed
  then show ?thesis by (auto simp: replace_prepared_def list_all2_conv_all_nth)
qed

lemma untouched_trans: "untouched p q \<Longrightarrow> untouched q r \<Longrightarrow> untouched p r"
  by (auto simp: untouched_def)

lemma untouched_all_trans: "list_all2 untouched ps qs \<Longrightarrow> list_all2 untouched qs rs \<Longrightarrow> list_all2 untouched ps rs"
  by (rule list_all2_trans [of untouched untouched untouched]) (auto intro: untouched_trans)

lemma refine_loop_bounded:
  "refine_loop run analyze budget ranked ps = Inr (ps', stopped) \<Longrightarrow> distinct (prepared_ids ps) \<Longrightarrow>
     list_all2 untouched ps ps' \<and> selected_count ps' \<le> selected_count ps + budget"
proof (induction run analyze budget ranked ps rule: refine_loop.induct)
  case (1 run analyze budget ps)
  then show ?case by (auto simp: list_all2_same)
next
  case (2 run analyze budget r ranked ps)
  show ?case
  proof (cases "budget = 0")
    case True
    with 2 show ?thesis by (auto simp: list_all2_same)
  next
    case False
    obtain p where p: "find (\<lambda>p. ca_id (pa_action p) = ri_action_id r) ps = Some p"
      using 2(3) False by (auto split: option.splits)
    then have mem: "p \<in> set ps" by (auto simp: find_Some_iff)
    show ?thesis
    proof (cases "graph_risk_scope_of (pa_inp p)")
      case None
      with 2(1) [OF False p None] 2(3,4) False p show ?thesis by simp
    next
      case (Some scope)
      obtain p' where p': "refine_action run (refined_evidence analyze (ax_repo_root run) (pa_action p) scope) p = Inr p'"
        using 2(3) False p Some by (auto simp: rbind_Inr_iff)
      let ?qs = "replace_prepared p' ps"
      have one: "list_all2 untouched ps ?qs" "selected_count ?qs \<le> Suc (selected_count ps)"
        using replace_prepared_untouched [OF 2(4) mem] refine_action_Inr [OF p'] replace_prepared_count [OF 2(4)] by blast+
      show ?thesis
      proof (cases "decision_of (pa_scored p') = PROCEED")
        case True
        with 2(3) False p Some p' one show ?thesis by auto
      next
        case not_yet: False
        have rest: "refine_loop run analyze (budget - 1) ranked ?qs = Inr (ps', stopped)"
          using 2(3) False p Some p' not_yet by auto
        have "list_all2 untouched ?qs ps' \<and> selected_count ps' \<le> selected_count ?qs + (budget - 1)"
          using 2(2) [OF False p Some not_yet rest] 2(4) by (simp add: replace_prepared_ids)
        with one False untouched_all_trans show ?thesis by fastforce
      qed
    qed
  qed
qed

lemma mark_rank_untouched:
  "untouched p (mark_rank ranked p)" "pa_action (mark_rank ranked p) = pa_action p"
  "sa_refinement_selected (pa_scored (mark_rank ranked p)) = sa_refinement_selected (pa_scored p)"
  by (auto simp: mark_rank_def Let_def untouched_def split: option.split)

lemma settle_untouched:
  "untouched p (settle_pending stopped p)"
  "sa_refinement_selected (pa_scored (settle_pending stopped p)) = sa_refinement_selected (pa_scored p)"
  by (auto simp: settle_pending_def untouched_def)

lemma refinement_budget_two: "refinement_budget thresholds \<le> 2"
  by (simp add: refinement_budget_def)

lemma refine_bounded:
  assumes "refine_candidates run analyze thresholds ps = Inr ps'" and "distinct (prepared_ids ps)"
    and "selected_count ps = 0"
  shows "list_all2 untouched ps ps' \<and> selected_count ps' \<le> refinement_budget thresholds
    \<and> refinement_budget thresholds \<le> 2"
proof -
  obtain ranked qs stopped where
    loop: "refine_loop run analyze (refinement_budget thresholds) ranked (map (mark_rank ranked) ps) = Inr (qs, stopped)"
    and ps': "ps' = map (settle_pending stopped) qs"
    using assms(1) by (auto simp: refine_candidates_def Let_def rbind_Inr_iff)
  let ?ms = "map (mark_rank ranked) ps"
  have "distinct (prepared_ids ?ms)" using assms(2) by (simp add: o_def mark_rank_untouched)
  then have refined: "list_all2 untouched ?ms qs" "selected_count qs \<le> selected_count ?ms + refinement_budget thresholds"
    using refine_loop_bounded [OF loop] by blast+
  have "selected_count ?ms = selected_count ps" "selected_count ps' = selected_count qs"
    by (simp_all add: selected_count_def ps' filter_map o_def mark_rank_untouched settle_untouched)
  moreover have "list_all2 untouched ps ?ms" "list_all2 untouched qs ps'"
    by (simp_all add: ps' list_all2_map2 mark_rank_untouched settle_untouched list_all2_same)
  ultimately show ?thesis using refined assms(3) untouched_all_trans refinement_budget_two by (metis add_0)
qed

text \<open>Refinement is bounded and local. Of candidates with distinct ids, none of them refined before, at most as many
  are materialised as the budget says, which is never more than two; every other candidate keeps its input,
  its result and its predictions, and all keep their places.\<close>

theorem refinement_is_bounded_and_local:
  assumes "refine_candidates run analyze thresholds ps = Inr ps'" and "distinct (prepared_ids ps)"
    and "selected_count ps = 0"
  shows "list_all2 untouched ps ps' \<and> selected_count ps' \<le> refinement_budget thresholds
    \<and> refinement_budget thresholds \<le> 2"
  by (rule refine_bounded [OF assms])

definition sample_prepared :: prepared_action where
  "sample_prepared =
     \<lparr>pa_action = sample_action, pa_inp = sample_input, pa_baseline_binding = None, pa_revision_origin = None,
      pa_scored = sample_scored ''a1'' 0.1 TEST_FIRST\<rparr>"

definition sample_run :: assess_run where
  "sample_run =
     \<lparr>ax_assessed_commit = None, ax_worktree_dirty = Some False, ax_repo_root = ''/r'', ax_repo_id = ''id'',
      ax_cells = [], ax_snapshot = None, ax_graph_snapshot = None, ax_features = None\<rparr>"

lemma refinement_is_bounded_and_local_witness:
  "\<exists>ps'. refine_candidates sample_run (\<lambda>_ _ _. None) [] [sample_prepared] = Inr ps'
    \<and> list_all2 untouched [sample_prepared] ps' \<and> selected_count ps' \<le> 1"
proof -
  have "\<not> ri_eligible (rank_input (pa_scored sample_prepared) (pa_inp sample_prepared))"
    by (simp add: rank_input_def Let_def sample_prepared_def sample_input_def default_revision_completeness_def)
  then obtain ps' where refined: "refine_candidates sample_run (\<lambda>_ _ _. None) [] [sample_prepared] = Inr ps'"
    by (simp add: refine_candidates_def Let_def rank_candidates_def)
  have "distinct (prepared_ids [sample_prepared])" "selected_count [sample_prepared] = 0"
    by (simp_all add: selected_count_def sample_prepared_def)
  from refinement_is_bounded_and_local [OF refined this] refined show ?thesis
    by (auto simp: refinement_budget_def dict_get_def py_int_def)
qed

section \<open>Learned facts and the second pass\<close>

text \<open>A repository-wide fact about the measured benefit with its two variances.\<close>

definition benefit_fact :: "real \<Rightarrow> real \<Rightarrow> real \<Rightarrow> snapshot_fact" where
  "benefit_fact benefit epistemic aleatoric =
     (sample_fact ''measured_benefit'' benefit)
       \<lparr>ft_target_type := ''benefit_continuous'', ft_variance := Some (Fin epistemic),
        ft_aleatoric_variance := Some (Fin aleatoric)\<rparr>"

definition benefit_snapshot :: "real \<Rightarrow> real \<Rightarrow> real \<Rightarrow> snapshot_bundle" where
  "benefit_snapshot benefit epistemic aleatoric =
     \<lparr>sb_snapshot_id = ''rs_1'', sb_facts = [benefit_fact benefit epistemic aleatoric]\<rparr>"

lemma benefit_candidates:
  "0 \<le> e \<Longrightarrow> 0 \<le> a \<Longrightarrow> candidates [benefit_fact b e a] t inp features = (if t = ''measured_benefit'' then [benefit_fact b e a] else [])"
  by (simp add: candidates_def applicable_def TARGET_TYPES_def benefit_fact_def sample_fact_def auto_applies_def
      effective_fact_weight_def effective_weight_def weight_applies_def should_auto_apply_def
      MIN_EFFECTIVE_WEIGHT_def DEFAULT_DECAY_STRENGTH_def matches_def)

text \<open>The variance the fact contributes.\<close>

definition learned_variance_of :: "real \<Rightarrow> real \<Rightarrow> real" where
  "learned_variance_of epistemic aleatoric =
     (let cap = COLD_START_VARIANCES V_benefit
      in max (cap * LEARNED_VARIANCE_FLOOR_RATIO) (min cap (epistemic + aleatoric)))"

lemma benefit_resolved:
  "0 \<le> e \<Longrightarrow> 0 \<le> a \<Longrightarrow> resolve_target [benefit_fact b e a] t prior inp features None prob =
     (if t = ''measured_benefit''
      then Some (if prob then clamp_p b else b, fact_provenance t prior (if prob then clamp_p b else b) (benefit_fact b e a))
      else None)"
  by (simp add: resolve_target_def winner_def benefit_candidates Let_def) (simp add: benefit_fact_def sample_fact_def starts_with_def)

lemma benefit_variance:
  assumes "0 \<le> e" "0 \<le> a"
  shows "\<exists>prov. learned_benefit_variance (fact_provenance t prior new (benefit_fact b e a)) = Inr (learned_variance_of e a, prov)"
  using assms
  by (simp add: learned_benefit_variance_def bounded_learned_variance_def fact_provenance_def benefit_fact_def
      bound_predictive_variance_def LEARNED_VARIANCE_FLOOR_RATIO_def learned_variance_of_def Let_def)

lemma benefit_events:
  "0 \<le> e \<Longrightarrow> 0 \<le> a \<Longrightarrow> override_events inp [benefit_fact b e a] None events = Inr (events, [], [])"
  by (induction events) (simp_all add: override_event_def benefit_resolved Let_def)

lemma apply_benefit_snapshot:
  assumes "0 \<le> e" "0 \<le> a"
  shows "\<exists>out. apply_snapshot inp (Some (benefit_snapshot b e a)) None = Inr out
    \<and> ai_benefit_variance_override out = combine_benefit_variance (ai_benefit_variance_override inp) (learned_variance_of e a)"
proof -
  obtain prov where prov: "learned_benefit_variance (fact_provenance ''measured_benefit'' (benefit_prior inp) b (benefit_fact b e a))
      = Inr (learned_variance_of e a, prov)"
    using benefit_variance [OF assms] by blast
  have targets: "delta_targets [benefit_fact b e a] = []"
    by (simp add: delta_targets_def benefit_fact_def sample_fact_def DELTA_PREFIX_def starts_with_def sorted_set_def)
  show ?thesis
    by (simp add: apply_snapshot_def validate_pool_config_def benefit_snapshot_def Let_def override_p_success_def
        override_all_events_def override_immediate_benefit_def override_measured_benefit_def override_review_cost_def
        benefit_resolved [OF assms] benefit_events [OF assms] targets prov dict_merge.simps)
qed

text \<open>The second pass of a refinement counts learned uncertainty twice. A learned fact about the measured benefit gives an
  input a benefit variance \<open>x\<close>; refining the candidate applies the same fact to the input that already carries
  it, and the variance becomes the smaller of the cold-start cap and \<open>x + x\<close>.\<close>

theorem refinement_doubles_learned_variance:
  assumes "ai_benefit_variance_override inp = None" and "0 \<le> epistemic" and "0 \<le> aleatoric"
  shows "\<exists>once twice. apply_prior_layers [] (Some (benefit_snapshot benefit epistemic aleatoric)) inp = Inr once
    \<and> apply_prior_layers [] (Some (benefit_snapshot benefit epistemic aleatoric))
        (once\<lparr>ai_candidate_graph_risk_evidence := evidence\<rparr>) = Inr twice
    \<and> (let x = learned_variance_of epistemic aleatoric
       in ai_benefit_variance_override once = Some (vreal x)
          \<and> ai_benefit_variance_override twice = Some (vreal (min (COLD_START_VARIANCES V_benefit) (x + x))))"
proof -
  let ?s = "Some (benefit_snapshot benefit epistemic aleatoric)" and ?x = "learned_variance_of epistemic aleatoric"
  have layers: "\<exists>out. apply_prior_layers [] ?s i = Inr out
      \<and> ai_benefit_variance_override out = combine_benefit_variance (ai_benefit_variance_override i) ?x" for i
  proof -
    obtain out where "apply_snapshot i ?s None = Inr out"
      "ai_benefit_variance_override out = combine_benefit_variance (ai_benefit_variance_override i) ?x"
      using apply_benefit_snapshot [OF assms(2,3)] by blast
    then show ?thesis by (simp add: apply_prior_layers_def apply_warm_prior_def Let_def)
  qed
  obtain once where once: "apply_prior_layers [] ?s inp = Inr once" "ai_benefit_variance_override once = Some (vreal ?x)"
    using layers [of inp] assms(1) by (auto simp: combine_benefit_variance_def)
  obtain twice where "apply_prior_layers [] ?s (once\<lparr>ai_candidate_graph_risk_evidence := evidence\<rparr>) = Inr twice"
    "ai_benefit_variance_override twice = Some (vreal (min (COLD_START_VARIANCES V_benefit) (?x + ?x)))"
    using layers [of "once\<lparr>ai_candidate_graph_risk_evidence := evidence\<rparr>"] once(2)
    by (auto simp: combine_benefit_variance_def)
  with once show ?thesis by (auto simp: Let_def)
qed

lemma refinement_doubles_learned_variance_witness:
  "\<exists>once twice. apply_prior_layers [] (Some (benefit_snapshot 0.5 0.002 0.001)) sample_input = Inr once
    \<and> apply_prior_layers [] (Some (benefit_snapshot 0.5 0.002 0.001))
        (once\<lparr>ai_candidate_graph_risk_evidence := default_graph_risk_evidence\<rparr>) = Inr twice
    \<and> ai_benefit_variance_override once = Some (vreal 0.003) \<and> ai_benefit_variance_override twice = Some (vreal 0.006)"
proof -
  have "ai_benefit_variance_override sample_input = None" by (simp add: sample_input_def)
  moreover have x: "learned_variance_of (1 / 500) (1 / 1000) = 3 / 1000"
    by (simp add: learned_variance_of_def LEARNED_VARIANCE_FLOOR_RATIO_def)
  ultimately show ?thesis
    using refinement_doubles_learned_variance [of sample_input "0.002" "0.001" "0.5" default_graph_risk_evidence] by (simp add: Let_def x)
qed

section \<open>The whole use case\<close>

definition coherent :: "prepared_action \<Rightarrow> bool" where
  "coherent p = (sa_action (pa_scored p) = pa_action p)"

lemma score_fields:
  "score_prepared_input run binding inp action = Inr s \<Longrightarrow> sa_action s = action \<and> \<not> sa_refinement_selected s"
  by (auto simp: score_prepared_input_def rbind_Inr_iff Let_def)

lemma prepare_candidate_fields:
  "prepare_candidate run host request thresholds action = Inr p \<Longrightarrow>
     pa_action p = action \<and> coherent p \<and> \<not> sa_refinement_selected (pa_scored p)"
  by (auto simp: prepare_candidate_def rbind_Inr_iff Let_def coherent_def dest: score_fields)

lemma refine_action_coherent: "refine_action run evidence p = Inr p' \<Longrightarrow> coherent p'"
  by (auto simp: refine_action_def rbind_Inr_iff coherent_def dest: score_fields)

lemma replace_coherent: "list_all coherent ps \<Longrightarrow> coherent p \<Longrightarrow> list_all coherent (replace_prepared p ps)"
  by (auto simp: replace_prepared_def list_all_iff)

lemma refine_loop_coherent:
  "refine_loop run analyze budget ranked ps = Inr (ps', stopped) \<Longrightarrow> list_all coherent ps \<Longrightarrow> list_all coherent ps'"
proof (induction run analyze budget ranked ps rule: refine_loop.induct)
  case (2 run analyze budget r ranked ps)
  then show ?case
    by (auto simp: rbind_Inr_iff replace_coherent dest: refine_action_coherent split: if_splits option.splits)
qed auto

lemma mark_settle_coherent: "coherent (mark_rank ranked p) = coherent p" "coherent (settle_pending stopped p) = coherent p"
  by (auto simp: coherent_def mark_rank_def Let_def settle_pending_def split: option.split)

lemma refine_candidates_coherent:
  assumes "refine_candidates run analyze thresholds ps = Inr ps'" and "list_all coherent ps"
  shows "list_all coherent ps'"
proof -
  obtain ranked qs stopped where
    loop: "refine_loop run analyze (refinement_budget thresholds) ranked (map (mark_rank ranked) ps) = Inr (qs, stopped)"
    and ps': "ps' = map (settle_pending stopped) qs"
    using assms(1) by (auto simp: refine_candidates_def Let_def rbind_Inr_iff)
  have "list_all coherent (map (mark_rank ranked) ps)" using assms(2) by (simp add: list_all_iff mark_settle_coherent)
  with refine_loop_coherent [OF loop] show ?thesis by (simp add: ps' list_all_iff mark_settle_coherent)
qed

lemma coherent_actions: "list_all coherent ps \<Longrightarrow> map (sa_action \<circ> pa_scored) ps = map pa_action ps"
  by (simp add: coherent_def list_all_iff)

lemma prepared_fields:
  assumes "map_res (prepare_candidate run host request thresholds) actions = Inr ps"
  shows "map pa_action ps = actions \<and> list_all coherent ps \<and> selected_count ps = 0"
  using assms unfolding map_res_Inr_iff
  by (induction rule: list_all2_induct) (auto simp: selected_count_def dest: prepare_candidate_fields)

lemma untouched_actions: "list_all2 untouched ps qs \<Longrightarrow> map pa_action qs = map pa_action ps"
  by (induction rule: list_all2_induct) (auto simp: untouched_def)

lemma rbind_InrE: "rbind x f = Inr y \<Longrightarrow> (\<And>a. x = Inr a \<Longrightarrow> f a = Inr y \<Longrightarrow> P) \<Longrightarrow> P"
  by (auto simp: rbind_Inr_iff)

lemma refined_candidates:
  assumes "(case refinement of None \<Rightarrow> Inr ps | Some analyze \<Rightarrow> refine_candidates run analyze thresholds ps) = Inr qs"
    and "distinct (prepared_ids ps)" and "list_all coherent ps" and "selected_count ps = 0"
  shows "map pa_action qs = map pa_action ps \<and> list_all coherent qs \<and> selected_count qs \<le> 2"
proof (cases refinement)
  case None
  with assms show ?thesis by simp
next
  case (Some analyze)
  then have refined: "refine_candidates run analyze thresholds ps = Inr qs" using assms(1) by simp
  show ?thesis
    using refine_bounded [OF refined assms(2,4)] refine_candidates_coherent [OF refined assms(3)] untouched_actions
    by fastforce
qed

text \<open>C6: An assessment covers its request. When \<open>assess\<close> returns, every candidate of the request has been scored, in the
  order of the request and once; the recommendation is the best of them, the payload that is persisted names
  this very candidate and carries the host's obligations for it; and no more than two candidates have been
  materialised.\<close>

theorem assessment_covers_the_request:
  assumes "assess run host request thresholds = Inr (scored, best, payload)"
  shows "map sa_action scored = ar_candidate_actions request \<and> scored \<noteq> [] \<and> best = recommended scored \<and> best \<in> set scored
    \<and> dict_get payload ''action_id'' VNone = VStr (ca_id (sa_action best))
    \<and> (\<exists>obligations. trusted_task_obligations_for_action (ah_obligations host) (ca_id (sa_action best)) = Inr obligations
         \<and> dict_get payload ''task_obligations'' VNone = VDict (obligations_dict obligations))
    \<and> length (filter sa_refinement_selected scored) \<le> 2"
proof -
  have "validate request = Inr ()" using assms by (auto simp: assess_def rbind_Inr_iff)
  then have actions: "ar_candidate_actions request \<noteq> []" "distinct (map ca_id (ar_candidate_actions request))"
    by (auto simp: validate_def request_error_def validate_actions_ok split: if_splits)
  obtain ps qs obligations where
    ps: "map_res (prepare_candidate run host request thresholds) (ar_candidate_actions request) = Inr ps"
    and qs: "(case ah_refinement host of None \<Rightarrow> Inr ps | Some analyze \<Rightarrow> refine_candidates run analyze thresholds ps) = Inr qs"
    and obl: "trusted_task_obligations_for_action (ah_obligations host) (ca_id (sa_action (recommended (map pa_scored qs))))
      = Inr obligations"
    and out: "Inr (map pa_scored qs, recommended (map pa_scored qs),
        case find (\<lambda>p. ca_id (pa_action p) = ca_id (sa_action (recommended (map pa_scored qs)))) qs of None \<Rightarrow> []
        | Some p \<Rightarrow> request_payload run host request thresholds (p\<lparr>pa_scored := recommended (map pa_scored qs)\<rparr>) obligations)
      = (Inr (scored, best, payload) :: (scored_action list \<times> scored_action \<times> pyval dict) res)"
    using assms unfolding assess_def Let_def by (elim rbind_InrE) (rule that)
  note parts = sum.inject(2) [THEN iffD1, OF out]
  have best: "best = recommended (map pa_scored qs)" using arg_cong [OF parts, of "fst \<circ> snd"] by simp
  have scored: "scored = map pa_scored qs" using arg_cong [OF parts, of fst] by simp
  have p: "map pa_action ps = ar_candidate_actions request" "list_all coherent ps" "selected_count ps = 0"
    using prepared_fields [OF ps] by blast+
  have "prepared_ids ps = map ca_id (ar_candidate_actions request)" unfolding p(1) [symmetric] by simp
  then have q: "map pa_action qs = ar_candidate_actions request" "list_all coherent qs" "selected_count qs \<le> 2"
    using refined_candidates [OF qs _ p(2,3)] actions(2) p(1) by simp_all
  have same: "map sa_action scored = ar_candidate_actions request"
    using coherent_actions [OF q(2)] by (simp add: scored q(1))
  then have "scored \<noteq> []" using actions(1) by auto
  then have mem: "best \<in> set scored"
    using recommended_least pool_subset unfolding best scored [symmetric] by blast
  then obtain p where "p \<in> set qs" "best = pa_scored p" by (auto simp: scored)
  then have "ca_id (pa_action p) = ca_id (sa_action best)" using q(2) by (auto simp: coherent_def list_all_iff)
  with \<open>p \<in> set qs\<close> obtain r where "find (\<lambda>p. ca_id (pa_action p) = ca_id (sa_action best)) qs = Some r"
    by (cases "find (\<lambda>p. ca_id (pa_action p) = ca_id (sa_action best)) qs") (auto simp: find_None_iff)
  then have payload: "payload = request_payload run host request thresholds (r\<lparr>pa_scored := best\<rparr>) obligations"
    using arg_cong [OF parts, of "snd \<circ> snd"] by (simp add: best)
  have "dict_get payload ''action_id'' VNone = VStr (ca_id (sa_action best))"
    "dict_get payload ''task_obligations'' VNone = VDict (obligations_dict obligations)"
    by (simp_all add: payload request_payload_def Let_def dict_get_def)
  moreover have "length (filter sa_refinement_selected scored) \<le> 2"
    using q(3) by (simp add: selected_count_def scored filter_map o_def)
  ultimately show ?thesis using same \<open>scored \<noteq> []\<close> mem obl by (auto simp: best scored)
qed

text \<open>A run that returns.\<close>

lemma cold_target_priors:
  "list_all (\<lambda>(name, p). prior_block p ''warm_prior'' = None) ts \<Longrightarrow> \<exists>out. target_priors ts targets = Inr out"
  by (induction ts targets rule: target_priors.induct) (auto simp: target_prior_def Let_def)

lemma cold_target:
  assumes "mc_warm_prior_provenance ctx = None" and "mc_provenance ctx = None"
  shows "prior_block (pt_provenance (manifest_target ctx tt n val [])) ''warm_prior'' = None"
    "prior_block (pt_provenance (manifest_target ctx tt n val [(''source_type'', v), (''target_semantics'', w)])) ''warm_prior''
      = None"
  using assms
  by (auto simp: manifest_target_def warm_applies_def Let_def prior_block_def dict_get_set_other dict_get_def split: option.split)

lemma cold_manifest:
  assumes "ai_warm_prior_provenance inp = None" and "t \<in> set (manifest_of run inp result)"
  shows "prior_block (pt_provenance t) ''warm_prior'' = None"
  using assms by (auto simp: manifest_of_def build_prediction_manifest_def cold_target)

lemma score_returns:
  assumes "confidence_factors_valid (ai_edit_confidence_factors inp)" and "ai_variance_breakdown inp = None"
    and "event_variances_ok (ai_event_probability_variances inp)"
    and "0 < fst (effective_threshold (ai_criticality_stage inp) (ai_thresholds inp))"
    and "ai_sanction inp = None" and "ai_task_obligations inp = default_task_obligations"
    and "ai_warm_prior_provenance inp = None" and "ai_policy_violations inp = []"
    and "ordinary_input inp"
  shows "\<exists>s. score_prepared_input run binding inp action = Inr s"
proof -
  have "is_ok (build_assessment inp)"
    unfolding build_assessment_is_ok_iff
    using assms(1,2,4) ordinary_squares [OF assms(9)] ordinary_fsum [OF assms(9,3)] penalized_factors_valid
      variance_of_input_nonneg [OF _ assms(3)] by simp
  then obtain a where a: "build_assessment inp = Inr a" by (auto simp: is_ok_iff)
  then have "as_input a = inp" by (simp add: build_assessment_Inr)
  moreover obtain d c g gs where "gate_sequence a None = (d, c, g, gs)" by (metis prod_cases4)
  ultimately obtain r where r: "decide a (ai_policy_violations inp) = Inr r"
    using assms(5,6,8)
    by (simp add: decide_def task_obligations_issue_def default_task_obligations_def resolve_sanction_def)
  obtain out where "target_priors (map (\<lambda>t. (pt_target_name t, pt_provenance t)) (manifest_of run inp (with_provenance run inp r))) []
      = Inr out"
    using cold_target_priors cold_manifest [OF assms(7)] by (fastforce simp: list_all_iff)
  then show ?thesis by (simp add: score_prepared_input_def a r Let_def summarize_prior_provenance_def)
qed

definition sample_host :: assess_host where
  "sample_host =
     \<lparr>ah_codec = sample_codec, ah_ledger = empty_ledger, ah_ports = sample_ports default_fanin, ah_binding = None,
      ah_verification = (\<lambda>_. None), ah_obligations = None, ah_refinement = None, ah_replay_cache = None\<rparr>"

lemma sample_prepared_input:
  "\<exists>inp. prepare_action_input sample_run (sample_ports default_fanin) sample_context request sample_patchless_action [] = Inr inp
    \<and> confidence_factors_valid (ai_edit_confidence_factors inp) \<and> ai_variance_breakdown inp = None
    \<and> event_variances_ok (ai_event_probability_variances inp)
    \<and> 0 < fst (effective_threshold (ai_criticality_stage inp) (ai_thresholds inp))
    \<and> ai_sanction inp = None \<and> ai_task_obligations inp = default_task_obligations
    \<and> ai_warm_prior_provenance inp = None \<and> ai_policy_violations inp = [] \<and> ordinary_input inp"
proof -
  have "\<not> is_trusted_fanin (Some default_fanin)"
    by (simp add: is_trusted_fanin_def default_fanin_def TRUSTED_FANIN_RESOLUTION_METHODS_def)
  note parts = untrusted_parts [OF this] untrusted_symbol_diff [OF this]
  obtain aggregate where aggregate: "aggregate_candidate sample_patchless_action (Some default_fanin) = Inr aggregate"
    using sample_aggregate by blast
  obtain inp where inp: "build_input request sample_patchless_action ''id'' ''/r'' [] (sample_ports default_fanin) sample_context = Inr inp"
    using sample_built by blast
  have valid: "confidence_factors_valid (map (\<lambda>f. (f, 0.9 :: real)) EDIT_CONFIDENCE_FACTORS)"
    by (simp add: confidence_factors_valid_def EDIT_CONFIDENCE_FACTORS_def dict_get_def dict_has_def)
      (rule exI [of _ "9 / 10"], simp)
  have fields: "ai_edit_confidence_factors inp = blast_penalized (map (\<lambda>f. (f, 0.9)) EDIT_CONFIDENCE_FACTORS)
        (default_blast\<lparr>bl_graph_uncertainty_score := 0.1\<rparr>)"
      "ai_variance_breakdown inp = None" "ai_event_probability_variances inp = []" "ai_criticality_stage inp = ''C1''"
      "ai_thresholds inp = []" "ai_sanction inp = None" "ai_task_obligations inp = default_task_obligations"
      "ai_warm_prior_provenance inp = None" "ai_policy_violations inp = []" "ai_applied_snapshot_provenance inp = None"
      "ai_p_success inp = 0.9" "ai_criticality_value inp = 1" "ai_p_success_variance inp = None"
      "ai_review_cost_variance inp = None" "ai_events inp = [plain_event ''public_api_break'' 0.2 0.3]"
    using inp
    by (auto simp: build_input_def Let_def aggregate parts sample_evidence_def sample_ports_def sample_context_def
        operation_events_def operation_rollup_def default_symbol_diff_def merge_injected_def)
  have ordinary: "ordinary_input inp"
    unfolding ordinary_input_def fields by (simp add: ordinary_def plain_event_def)
  have factors: "confidence_factors_valid (ai_edit_confidence_factors inp)"
    unfolding fields(1) blast_penalized_def using valid by (auto intro: penalize_valid)
  have "prepare_action_input sample_run (sample_ports default_fanin) sample_context request sample_patchless_action [] = Inr inp"
    by (simp add: prepare_action_input_def sample_run_def inp apply_prior_layers_def apply_warm_prior_def apply_snapshot_def
        validate_pool_config_def Let_def legacy_targets_def fields)
  with factors fields ordinary show ?thesis
    by (auto simp: event_variances_ok_def effective_threshold_def)
qed

lemma assessment_covers_the_request_witness:
  "\<exists>scored best payload. assess sample_run sample_host (single_action ''t'' sample_patchless_action) [] = Inr (scored, best, payload)
    \<and> map sa_action scored = [sample_patchless_action] \<and> best \<in> set scored
    \<and> dict_get payload ''action_id'' VNone = VStr (ca_id (sa_action best))"
proof -
  let ?request = "single_action ''t'' sample_patchless_action"
  obtain inp where inp: "prepare_action_input sample_run (sample_ports default_fanin) sample_context ?request sample_patchless_action []
      = Inr inp"
    and ok: "\<exists>s. score_prepared_input sample_run None inp sample_patchless_action = Inr s"
    using sample_prepared_input [of ?request] score_returns by metis
  then obtain s where s: "score_prepared_input sample_run None inp sample_patchless_action = Inr s" by blast
  have the_context: "\<lparr>bc_trusted_verification = None, bc_graph_risk_evidence = None, bc_trusted_obligations = Some default_task_obligations,
      bc_revision_origin = None, bc_is_revision = False\<rparr> = sample_context"
    by (simp add: sample_context_def)
  have host: "ah_obligations sample_host = None" "ah_binding sample_host = None" "ah_refinement sample_host = None"
      "ah_ports sample_host = sample_ports default_fanin" "ah_verification sample_host a = None" for a
    by (simp_all add: sample_host_def)
  have thresholds: "thresholds_with_revise_attempt codec ledger sample_run sample_patchless_action None [] = []" for codec ledger
    by (simp add: thresholds_with_revise_attempt_def revise_safer_attempt_count_def sample_run_def Let_def dict_has_def)
  have attempt: "revise_attempt [] = 0" by (simp add: revise_attempt_def py_int_def)
  have "prepare_candidate sample_run sample_host ?request [] sample_patchless_action =
      Inr \<lparr>pa_action = sample_patchless_action, pa_inp = inp, pa_baseline_binding = None, pa_revision_origin = None, pa_scored = s\<rparr>"
    by (simp add: prepare_candidate_def Let_def host thresholds attempt revision_origin_for_def the_context inp s
        trusted_task_obligations_for_action_def)
  moreover have "validate ?request = Inr ()"
    by (simp add: validate_def single_action_def sample_patchless_action_def blank_def space_len_def is_ascii_space_def)
  ultimately obtain scored best payload where
    out: "assess sample_run sample_host ?request [] = Inr (scored, best, payload)"
    by (auto simp: assess_def host validate_trusted_task_obligations_def trusted_task_obligations_for_action_def
        single_action_def Let_def)
  from assessment_covers_the_request [OF this] out show ?thesis by (auto simp: single_action_def)
qed

end
