(* ===== verification/Pebra_Candidate_Application.thy ===== *)
theory Pebra_Candidate_Application
  imports Pebra_Gate_Check
begin

text \<open>
  \<open>pebra/adapters/candidate_application.py\<close>: how the files of an authorized candidate are replaced in the
  working tree, as a transaction over a disk on which every step may fail. A disk maps the paths under the
  root to files with their modes; directories are not modelled, a target that is one shows as a step that
  fails. The lock that serialises applications is not modelled either: one application is one step.
\<close>

section \<open>The disk and its faults\<close>

record disk_file =
  df_content :: string
  df_mode :: nat

type_synonym disk = "string \<Rightarrow> disk_file option"

text \<open>The steps that touch the disk, each for one path. A fault strikes before a step has had its effect, or
  after it: \<open>os.replace\<close> may have moved the file and raise all the same, and a temporary file may exist
  although writing it failed.\<close>

datatype file_step =
    Read_Original | Write_Staged | Unlink_Target | Replace_Target
  | Unlink_Created | Write_Rollback | Replace_Rollback | Unlink_Staged

datatype fault = No_Fault | Fault_Before | Fault_After

type_synonym faults = "file_step \<Rightarrow> string \<Rightarrow> fault"

text \<open>The temporary files \<open>.pebra-apply-*\<close> and \<open>.pebra-rollback-*\<close> that exist, by the path they are for.\<close>

datatype temp_file = Apply_Temp string | Rollback_Temp string

datatype application_error =
    Not_Materialized | Envelope_Mismatch | Rolled_Back | Rollback_Incomplete "string list"
  | Cleanup_Failed | Materialization_Raised pyerr

section \<open>The transaction\<close>

definition DEFAULT_MODE :: nat where "DEFAULT_MODE = 420"

definition staged_file :: "disk \<Rightarrow> string \<Rightarrow> string \<Rightarrow> disk_file" where
  "staged_file disk rel content =
     \<lparr>df_content = content, df_mode = (case disk rel of None \<Rightarrow> DEFAULT_MODE | Some f \<Rightarrow> df_mode f)\<rparr>"

text \<open>The first loop: the originals are read, the new contents are written to temporary files. The result says
  whether it came to its end.\<close>

fun stage_files ::
  "faults \<Rightarrow> disk \<Rightarrow> (string \<times> string option) list \<Rightarrow> (string \<times> disk_file option) list \<Rightarrow> disk_file dict
    \<Rightarrow> temp_file list \<Rightarrow> bool \<times> (string \<times> disk_file option) list \<times> disk_file dict \<times> temp_file list" where
  "stage_files faults disk [] originals staged temps = (True, originals, staged, temps)"
| "stage_files faults disk ((rel, content) # rest) originals staged temps =
     (if faults Read_Original rel \<noteq> No_Fault then (False, originals, staged, temps)
      else case content of
             None \<Rightarrow> stage_files faults disk rest (originals @ [(rel, disk rel)]) staged temps
           | Some c \<Rightarrow>
               (case faults Write_Staged rel of
                  Fault_Before \<Rightarrow> (False, originals @ [(rel, disk rel)], staged, temps)
                | Fault_After \<Rightarrow> (False, originals @ [(rel, disk rel)], staged, Apply_Temp rel # temps)
                | No_Fault \<Rightarrow>
                    stage_files faults disk rest (originals @ [(rel, disk rel)])
                      (staged @ [(rel, staged_file disk rel c)]) (Apply_Temp rel # temps)))"

text \<open>The second loop. A path counts as changed before it is touched.\<close>

fun commit_files ::
  "faults \<Rightarrow> (string \<times> string option) list \<Rightarrow> disk \<Rightarrow> disk_file dict \<Rightarrow> temp_file list \<Rightarrow> string list
    \<Rightarrow> bool \<times> disk \<times> disk_file dict \<times> temp_file list \<times> string list" where
  "commit_files faults [] disk staged temps changed = (True, disk, staged, temps, changed)"
| "commit_files faults ((rel, None) # rest) disk staged temps changed =
     (if disk rel = None then (False, disk, staged, temps, changed @ [rel])
      else case faults Unlink_Target rel of
             Fault_Before \<Rightarrow> (False, disk, staged, temps, changed @ [rel])
           | Fault_After \<Rightarrow> (False, disk(rel := None), staged, temps, changed @ [rel])
           | No_Fault \<Rightarrow> commit_files faults rest (disk(rel := None)) staged temps (changed @ [rel]))"
| "commit_files faults ((rel, Some c) # rest) disk staged temps changed =
     (case map_of staged rel of
        None \<Rightarrow> (False, disk, staged, temps, changed @ [rel])
      | Some f \<Rightarrow>
          (case faults Replace_Target rel of
             Fault_Before \<Rightarrow> (False, disk, staged, temps, changed @ [rel])
           | Fault_After \<Rightarrow> (False, disk(rel := Some f), staged, removeAll (Apply_Temp rel) temps, changed @ [rel])
           | No_Fault \<Rightarrow>
               commit_files faults rest (disk(rel := Some f)) (filter (\<lambda>(r, _). r \<noteq> rel) staged)
                 (removeAll (Apply_Temp rel) temps) (changed @ [rel])))"

text \<open>One restoration: whether it succeeded, the disk, the temporary files.\<close>

definition restore ::
  "faults \<Rightarrow> string \<Rightarrow> disk_file option \<Rightarrow> disk \<Rightarrow> temp_file list \<Rightarrow> bool \<times> disk \<times> temp_file list" where
  "restore faults rel original disk temps =
     (case original of
        None \<Rightarrow>
          (case faults Unlink_Created rel of
             Fault_Before \<Rightarrow> (False, disk, temps)
           | Fault_After \<Rightarrow> (False, disk(rel := None), temps)
           | No_Fault \<Rightarrow> (True, disk(rel := None), temps))
      | Some f \<Rightarrow>
          (case faults Write_Rollback rel of
             Fault_Before \<Rightarrow> (False, disk, temps)
           | Fault_After \<Rightarrow> (False, disk, Rollback_Temp rel # temps)
           | No_Fault \<Rightarrow>
               (case faults Replace_Rollback rel of
                  Fault_Before \<Rightarrow> (False, disk, Rollback_Temp rel # temps)
                | Fault_After \<Rightarrow> (False, disk(rel := Some f), temps)
                | No_Fault \<Rightarrow> (True, disk(rel := Some f), temps))))"

fun rollback ::
  "faults \<Rightarrow> (string \<times> disk_file option) list \<Rightarrow> string list \<Rightarrow> disk \<Rightarrow> temp_file list \<Rightarrow> string list
    \<Rightarrow> disk \<times> temp_file list \<times> string list" where
  "rollback faults originals [] disk temps errors = (disk, temps, errors)"
| "rollback faults originals (rel # rels) disk temps errors =
     (let original = (case map_of originals rel of None \<Rightarrow> None | Some f \<Rightarrow> f)
      in case restore faults rel original disk temps of
           (ok, disk', temps') \<Rightarrow> rollback faults originals rels disk' temps' (if ok then errors else errors @ [rel]))"

text \<open>The \<open>finally\<close> clause removes what is still staged; it may raise itself.\<close>

fun cleanup :: "faults \<Rightarrow> string list \<Rightarrow> temp_file list \<Rightarrow> bool \<times> temp_file list" where
  "cleanup faults [] temps = (True, temps)"
| "cleanup faults (rel # rels) temps =
     (case faults Unlink_Staged rel of
        Fault_Before \<Rightarrow> (False, temps)
      | Fault_After \<Rightarrow> (False, removeAll (Apply_Temp rel) temps)
      | No_Fault \<Rightarrow> cleanup faults rels (removeAll (Apply_Temp rel) temps))"

definition replace_transaction ::
  "faults \<Rightarrow> disk \<Rightarrow> temp_file list \<Rightarrow> string option dict
    \<Rightarrow> (application_error + string list) \<times> disk \<times> temp_file list" where
  "replace_transaction faults disk temps after =
     (let files = sort_key fst after
      in case stage_files faults disk files [] [] temps of
           (staged_all, originals, staged, temps1) \<Rightarrow>
             (case (if staged_all then commit_files faults files disk staged temps1 []
                    else (False, disk, staged, temps1, [])) of
                (committed, disk1, staged1, temps2, changed) \<Rightarrow>
                  (case (if committed then (disk1, temps2, []) else rollback faults originals (rev changed) disk1 temps2 []) of
                     (disk2, temps3, errors) \<Rightarrow>
                       (case cleanup faults (map fst staged1) temps3 of
                          (clean, temps4) \<Rightarrow>
                            (if \<not> clean then Inl Cleanup_Failed
                             else if committed then Inr (map fst files)
                             else if errors = [] then Inl Rolled_Back else Inl (Rollback_Incomplete errors),
                             disk2, temps4)))))"

section \<open>Applying a patch\<close>

text \<open>\<open>PurePosixPath(value.replace("\\", "/")).as_posix()\<close>, for a relative path.\<close>

definition posix_spelling :: "string \<Rightarrow> string" where
  "posix_spelling value = (case path_parts (slashes value) of [] \<Rightarrow> ''.'' | ps \<Rightarrow> join_with ''/'' ps)"

definition envelope_matches :: "string list \<Rightarrow> string list \<Rightarrow> bool" where
  "envelope_matches expected_files rels =
     (let expected = remdups (map posix_spelling (filter is_safe_repo_path expected_files));
          materialized = remdups (map slashes rels)
      in length expected = length expected_files \<and> length materialized = length rels \<and> set materialized = set expected)"

definition apply_patch ::
  "faults \<Rightarrow> worktree \<Rightarrow> string \<Rightarrow> string \<Rightarrow> string list \<Rightarrow> disk \<Rightarrow> temp_file list
    \<Rightarrow> (application_error + string list) \<times> disk \<times> temp_file list" where
  "apply_patch faults w repo_root patch expected_files disk temps =
     (case materialize_candidate_patch w repo_root (VStr patch) of
        Inl e \<Rightarrow> (Inl (Materialization_Raised e), disk, temps)
      | Inr None \<Rightarrow> (Inl Not_Materialized, disk, temps)
      | Inr (Some after) \<Rightarrow>
          if after = [] then (Inl Not_Materialized, disk, temps)
          else if \<not> envelope_matches expected_files (map fst after) then (Inl Envelope_Mismatch, disk, temps)
          else replace_transaction faults disk temps after)"

section \<open>The transaction is atomic\<close>

definition originals_of :: "disk \<Rightarrow> (string \<times> string option) list \<Rightarrow> (string \<times> disk_file option) list" where
  "originals_of disk files = map (\<lambda>(rel, _). (rel, disk rel)) files"

definition staged_of :: "disk \<Rightarrow> (string \<times> string option) list \<Rightarrow> disk_file dict" where
  "staged_of disk files = List.map_filter (\<lambda>(rel, c). map_option (\<lambda>t. (rel, staged_file disk rel t)) c) files"

lemma staged_of_Cons [simp]:
  "staged_of disk [] = []" "staged_of disk ((rel, None) # files) = staged_of disk files"
  "staged_of disk ((rel, Some c) # files) = (rel, staged_file disk rel c) # staged_of disk files"
  by (simp_all add: staged_of_def map_filter_simps)

lemma stage_files_True:
  "stage_files faults disk files originals staged temps = (True, originals', staged', temps') \<Longrightarrow>
     originals' = originals @ originals_of disk files \<and> staged' = staged @ staged_of disk files"
  by (induction faults disk files originals staged temps rule: stage_files.induct)
    (auto simp: originals_of_def split: if_splits option.splits fault.splits)

text \<open>What is not recorded as changed is untouched.\<close>

lemma commit_files_changed:
  "commit_files faults files disk staged temps changed = (ok, disk', staged', temps', changed') \<Longrightarrow>
     set changed \<subseteq> set changed' \<and> set changed' \<subseteq> set changed \<union> fst ` set files
     \<and> (\<forall>p. p \<notin> set changed' \<longrightarrow> disk' p = disk p)"
proof (induction faults files disk staged temps changed rule: commit_files.induct)
  case (2 faults rel rest disk staged temps changed)
  show ?case
  proof (cases "disk rel = None \<or> faults Unlink_Target rel \<noteq> No_Fault")
    case True
    with 2(2) show ?thesis by (cases "faults Unlink_Target rel") (auto split: if_splits)
  next
    case False
    then have step: "disk rel \<noteq> None" "faults Unlink_Target rel = No_Fault" by simp_all
    have "set (changed @ [rel]) \<subseteq> set changed' \<and> set changed' \<subseteq> set (changed @ [rel]) \<union> fst ` set rest
        \<and> (\<forall>p. p \<notin> set changed' \<longrightarrow> disk' p = (disk(rel := None)) p)"
      by (rule "2.IH" [OF step]) (use 2(2) step in \<open>simp add: fun_upd_def\<close>)
    then show ?thesis by auto
  qed
next
  case (3 faults rel c rest disk staged temps changed)
  show ?case
  proof (cases "map_of staged rel")
    case None
    with 3(2) show ?thesis by auto
  next
    case (Some f)
    show ?thesis
    proof (cases "faults Replace_Target rel")
      case No_Fault
      have "set (changed @ [rel]) \<subseteq> set changed' \<and> set changed' \<subseteq> set (changed @ [rel]) \<union> fst ` set rest
          \<and> (\<forall>p. p \<notin> set changed' \<longrightarrow> disk' p = (disk(rel := Some f)) p)"
        by (rule "3.IH" [OF Some No_Fault]) (use 3(2) Some No_Fault in \<open>simp add: fun_upd_def\<close>)
      then show ?thesis by auto
    qed (use 3(2) Some in auto)
  qed
qed simp

text \<open>A commit that comes to its end leaves the staged contents.\<close>

lemma commit_files_True:
  "commit_files faults files disk staged temps changed = (True, disk', staged', temps', changed') \<Longrightarrow>
   distinct (map fst files) \<Longrightarrow>
     (\<forall>(rel, c) \<in> set files. disk' rel = (case c of None \<Rightarrow> None | Some _ \<Rightarrow> map_of staged rel))
     \<and> (\<forall>p. p \<notin> fst ` set files \<longrightarrow> disk' p = disk p)"
proof (induction faults files disk staged temps changed rule: commit_files.induct)
  case (2 faults rel rest disk staged temps changed)
  then have step: "faults Unlink_Target rel = No_Fault" "disk rel \<noteq> None"
    by (auto split: if_splits fault.splits)
  have IH: "(\<forall>(q, c) \<in> set rest. disk' q = (case c of None \<Rightarrow> None | Some _ \<Rightarrow> map_of staged q))
      \<and> (\<forall>p. p \<notin> fst ` set rest \<longrightarrow> disk' p = (disk(rel := None)) p)"
    by (rule "2.IH" [OF step(2,1)]) (use 2(2,3) step in \<open>simp_all add: fun_upd_def\<close>)
  with 2(3) show ?case by auto
next
  case (3 faults rel c rest disk staged temps changed)
  then obtain f where step: "map_of staged rel = Some f" "faults Replace_Target rel = No_Fault"
    by (auto split: option.splits fault.splits)
  have other: "map_of (filter (\<lambda>(r, _). r \<noteq> rel) staged) q = map_of staged q" if "q \<noteq> rel" for q
    by (rule map_of_filter) (use that in auto)
  have IH: "(\<forall>(q, c) \<in> set rest. disk' q = (case c of None \<Rightarrow> None | Some _ \<Rightarrow> map_of (filter (\<lambda>(r, _). r \<noteq> rel) staged) q))
      \<and> (\<forall>p. p \<notin> fst ` set rest \<longrightarrow> disk' p = (disk(rel := Some f)) p)"
    by (rule "3.IH" [OF step]) (use 3(2,3) step in \<open>simp_all add: fun_upd_def\<close>)
  have "q \<noteq> rel" if "(q, d) \<in> set rest" for q d using 3(3) that by force
  with IH other 3(3) step show ?case by (auto split: option.splits)
qed simp

lemma restore_out:
  "restore faults rel original disk temps = (ok, disk', temps') \<Longrightarrow>
     (\<forall>p. p \<noteq> rel \<longrightarrow> disk' p = disk p) \<and> (ok \<longrightarrow> disk' rel = original)"
  by (auto simp: restore_def split: option.splits fault.splits)

lemma rollback_out:
  "rollback faults originals rels disk temps errors = (disk', temps', errors') \<Longrightarrow>
   \<forall>rel \<in> set rels. map_of originals rel = Some (before rel) \<Longrightarrow>
     set errors \<subseteq> set errors'
     \<and> (\<forall>p. p \<in> set rels \<longrightarrow> p \<notin> set errors' \<longrightarrow> disk' p = before p)
     \<and> (\<forall>p. p \<notin> set rels \<longrightarrow> disk' p = disk p)"
proof (induction faults originals rels disk temps errors rule: rollback.induct)
  case (2 faults originals rel rels disk temps errors)
  obtain ok disk1 temps1 where r: "restore faults rel (before rel) disk temps = (ok, disk1, temps1)"
    by (metis prod_cases3)
  have o: "(case map_of originals rel of None \<Rightarrow> None | Some f \<Rightarrow> f) = before rel" using 2(3) by simp
  have run: "rollback faults originals rels disk1 temps1 (if ok then errors else errors @ [rel]) = (disk', temps', errors')"
    using 2(2) by (simp only: rollback.simps Let_def o r prod.case)
  have "set (if ok then errors else errors @ [rel]) \<subseteq> set errors'
     \<and> (\<forall>p. p \<in> set rels \<longrightarrow> p \<notin> set errors' \<longrightarrow> disk' p = before p)
     \<and> (\<forall>p. p \<notin> set rels \<longrightarrow> disk' p = disk1 p)"
    by (rule "2.IH" [OF refl _ refl run]) (use 2(3) r o in auto)
  with restore_out [OF r] show ?case by (cases ok) auto
qed simp

lemma originals_lookup: "rel \<in> fst ` set files \<Longrightarrow> map_of (originals_of disk files) rel = Some (disk rel)"
  by (induction files) (auto simp: originals_of_def)

lemma staged_lookup:
  "(rel, Some c) \<in> set files \<Longrightarrow> distinct (map fst files) \<Longrightarrow>
     map_of (staged_of disk files) rel = Some (staged_file disk rel c)"
proof (induction files)
  case (Cons x files)
  obtain q d where x: "x = (q, d)" by fastforce
  have "rel \<noteq> q \<or> x = (rel, Some c)" using Cons.prems x by force
  with Cons x show ?case by (cases d) auto
qed simp

lemma map_fst_sort_key: "map fst (sort_key fst xs) = sort (map fst xs)"
  by (rule properties_for_sort [symmetric]) simp_all

text \<open>The tree the candidate describes: its files with their contents, modes kept, the others as they were.\<close>

definition target_tree :: "disk \<Rightarrow> string option dict \<Rightarrow> disk" where
  "target_tree disk after p =
     (case map_of after p of None \<Rightarrow> disk p | Some None \<Rightarrow> None | Some (Some c) \<Rightarrow> Some (staged_file disk p c))"

lemma transaction_outcome:
  assumes "replace_transaction faults disk temps after = (r, disk', temps')" and "distinct (map fst after)"
  shows "(\<forall>changed. r = Inr changed \<longrightarrow> changed = sort (map fst after) \<and> disk' = target_tree disk after)
    \<and> (r = Inl Rolled_Back \<longrightarrow> disk' = disk)
    \<and> (\<forall>rels. r = Inl (Rollback_Incomplete rels) \<longrightarrow> (\<forall>p. p \<notin> set rels \<longrightarrow> disk' p = disk p))
    \<and> (\<forall>p. p \<notin> fst ` set after \<longrightarrow> disk' p = disk p)"
proof -
  let ?files = "sort_key fst after"
  have d: "distinct (map fst ?files)" using assms(2) by (metis distinct_map distinct_sort set_sort)
  obtain staged_all originals staged temps1 where st:
    "stage_files faults disk ?files [] [] temps = (staged_all, originals, staged, temps1)" by (metis prod_cases4)
  obtain committed disk1 staged1 temps2 changed where co:
    "(if staged_all then commit_files faults ?files disk staged temps1 []
      else (False, disk, staged, temps1, [])) = (committed, disk1, staged1, temps2, changed)" by (metis prod_cases5)
  obtain disk2 temps3 errors where ro:
    "(if committed then (disk1, temps2, []) else rollback faults originals (rev changed) disk1 temps2 [])
      = (disk2, temps3, errors)" by (metis prod_cases3)
  obtain clean temps4 where cl: "cleanup faults (map fst staged1) temps3 = (clean, temps4)" by fastforce
  have out: "disk' = disk2" "r = (if \<not> clean then Inl Cleanup_Failed else if committed then Inr (map fst ?files)
      else if errors = [] then Inl Rolled_Back else Inl (Rollback_Incomplete errors))"
    using assms(1) by (simp_all add: replace_transaction_def Let_def st co ro cl)
  have touched: "set changed \<subseteq> fst ` set after" "\<And>p. p \<notin> set changed \<Longrightarrow> disk1 p = disk p"
    using co commit_files_changed by (auto split: if_splits) fastforce+
  have failed: "(\<forall>p. p \<notin> set errors \<longrightarrow> disk2 p = disk p) \<and> (\<forall>p. p \<notin> fst ` set after \<longrightarrow> disk2 p = disk p)" if "\<not> committed"
  proof (cases staged_all)
    case True
    have "originals = originals_of disk ?files" using stage_files_True [of faults disk ?files "[]" "[]" temps] st True by simp
    then have "\<forall>rel \<in> set (rev changed). map_of originals rel = Some (disk rel)"
      using touched(1) originals_lookup [of _ ?files disk] by auto
    from rollback_out [OF _ this] ro that touched show ?thesis by fastforce
  next
    case False
    with co have "changed = []" "disk1 = disk" by simp_all
    with ro that show ?thesis by simp
  qed
  have done_tree: "disk2 = target_tree disk after" if "committed"
  proof
    fix p
    have all: staged_all using that co by (cases staged_all) auto
    then have s: "staged = staged_of disk ?files" using stage_files_True [of faults disk ?files "[]" "[]" temps] st by simp
    have run: "commit_files faults ?files disk staged temps1 [] = (True, disk1, staged1, temps2, changed)"
      using co all that by simp
    have eq: "disk2 = disk1" using ro that by simp
    show "disk2 p = target_tree disk after p"
    proof (cases "map_of after p")
      case None
      then have "p \<notin> fst ` set ?files" by (simp add: map_of_eq_None_iff)
      with commit_files_True [OF run d] None eq show ?thesis by (simp add: target_tree_def)
    next
      case (Some c)
      then have "(p, c) \<in> set ?files" by (simp add: map_of_SomeD)
      then have "disk1 p = (case c of None \<Rightarrow> None | Some _ \<Rightarrow> map_of staged p)"
        using commit_files_True [OF run d] by blast
      with Some eq staged_lookup [OF _ d] \<open>(p, c) \<in> set ?files\<close> show ?thesis
        by (cases c) (simp_all add: target_tree_def s)
    qed
  qed
  have outside: "disk2 p = disk p" if "p \<notin> fst ` set after" for p
  proof (cases committed)
    case True
    moreover have "map_of after p = None" using that by (simp add: map_of_eq_None_iff)
    ultimately show ?thesis using done_tree by (simp add: target_tree_def)
  qed (use failed that in blast)
  have names: "map fst ?files = sort (map fst after)" by (rule map_fst_sort_key)
  show ?thesis using out failed done_tree outside by (auto simp: names fun_eq_iff split: if_splits)
qed

text \<open>C21: Applying a candidate is atomic. Whatever steps fail, before or after they had their effect: success means that
  the disk is the tree the candidate describes; a reported rollback means that every file is what it was; an
  incomplete rollback differs from the original in no file but the reported ones; and files outside the
  candidate are never touched.\<close>

theorem application_is_all_or_nothing:
  assumes "replace_transaction faults disk temps after = (r, disk', temps')" and "distinct (map fst after)"
  shows "(\<forall>changed. r = Inr changed \<longrightarrow> changed = sort (map fst after) \<and> disk' = target_tree disk after)
    \<and> (r = Inl Rolled_Back \<longrightarrow> disk' = disk)
    \<and> (\<forall>rels. r = Inl (Rollback_Incomplete rels) \<longrightarrow> (\<forall>p. p \<notin> set rels \<longrightarrow> disk' p = disk p))
    \<and> (\<forall>p. p \<notin> fst ` set after \<longrightarrow> disk' p = disk p)"
  by (rule transaction_outcome [OF assms])

text \<open>A fault after the replacement of the second file.\<close>

definition late_fault :: faults where
  "late_fault step rel = (if step = Replace_Target \<and> rel = ''b'' then Fault_After else No_Fault)"

lemma application_is_all_or_nothing_witness:
  "\<exists>disk' temps'. replace_transaction late_fault Map.empty [] [(''a'', Some ''x''), (''b'', Some ''y'')]
      = (Inl Rolled_Back, disk', temps') \<and> disk' = Map.empty"
proof -
  obtain r disk' temps' where run:
    "replace_transaction late_fault Map.empty [] [(''a'', Some ''x''), (''b'', Some ''y'')] = (r, disk', temps')"
    by (metis prod_cases3)
  have "fst (replace_transaction late_fault Map.empty [] [(''a'', Some ''x''), (''b'', Some ''y'')]) = Inl Rolled_Back"
    by code_simp
  with run have "r = Inl Rolled_Back" by simp
  with application_is_all_or_nothing [OF run] run show ?thesis by simp
qed

text \<open>Without a fault every candidate that deletes only what exists is applied.\<close>

lemma stage_files_faultless:
  assumes "\<And>step rel. faults step rel = No_Fault"
  shows "\<exists>originals' temps'. stage_files faults disk files originals staged temps
    = (True, originals', staged @ staged_of disk files, temps')"
proof (induction files arbitrary: originals staged temps)
  case (Cons x files)
  obtain rel c where x: "x = (rel, c)" by fastforce
  show ?case
  proof (cases c)
    case None
    with x assms Cons.IH [of "originals @ [(rel, disk rel)]" staged temps] show ?thesis by simp
  next
    case (Some t)
    with x assms Cons.IH [of "originals @ [(rel, disk rel)]" "staged @ [(rel, staged_file disk rel t)]" "Apply_Temp rel # temps"]
    show ?thesis by simp
  qed
qed simp

lemma commit_files_faultless:
  assumes "\<And>step rel. faults step rel = No_Fault"
  shows "distinct (map fst files) \<Longrightarrow> (\<forall>(rel, c) \<in> set files. case c of None \<Rightarrow> disk rel \<noteq> None | Some _ \<Rightarrow> map_of staged rel \<noteq> None)
    \<Longrightarrow> \<exists>disk' staged' temps' changed'. commit_files faults files disk staged temps changed = (True, disk', staged', temps', changed')"
proof (induction files arbitrary: disk staged temps changed)
  case (Cons x files)
  obtain rel c where x: "x = (rel, c)" by fastforce
  have other: "q \<noteq> rel" if "(q, d) \<in> set files" for q d using Cons.prems(1) that x by force
  have lookup: "map_of (filter (\<lambda>(r, _). r \<noteq> rel) staged) q = map_of staged q" if "q \<noteq> rel" for q
    by (rule map_of_filter) (use that in auto)
  show ?case
  proof (cases c)
    case None
    have "\<forall>(q, d) \<in> set files. case d of None \<Rightarrow> (disk(rel := None)) q \<noteq> None | Some _ \<Rightarrow> map_of staged q \<noteq> None"
      using Cons.prems(2) other by (auto split: option.splits)
    moreover have "distinct (map fst files)" "disk rel \<noteq> None" using Cons.prems x None by auto
    ultimately obtain disk' staged' temps' changed' where
      "commit_files faults files (disk(rel := None)) staged temps (changed @ [rel]) = (True, disk', staged', temps', changed')"
      using Cons.IH by blast
    with \<open>disk rel \<noteq> None\<close> x None assms [of Unlink_Target rel] show ?thesis by simp
  next
    case (Some t)
    then obtain f where f: "map_of staged rel = Some f" using Cons.prems(2) x by auto
    have "\<forall>(q, d) \<in> set files. case d of None \<Rightarrow> (disk(rel := Some f)) q \<noteq> None
        | Some _ \<Rightarrow> map_of (filter (\<lambda>(r, _). r \<noteq> rel) staged) q \<noteq> None"
      using Cons.prems(2) other lookup by (auto split: option.splits)
    moreover have "distinct (map fst files)" using Cons.prems(1) x by simp
    ultimately obtain disk' staged' temps' changed' where
      "commit_files faults files (disk(rel := Some f)) (filter (\<lambda>(r, _). r \<noteq> rel) staged) (removeAll (Apply_Temp rel) temps)
        (changed @ [rel]) = (True, disk', staged', temps', changed')"
      using Cons.IH by blast
    with f x Some assms [of Replace_Target rel] show ?thesis by simp
  qed
qed simp

lemma cleanup_faultless: "(\<And>step rel. faults step rel = No_Fault) \<Longrightarrow> \<exists>temps'. cleanup faults rels temps = (True, temps')"
  by (induction rels arbitrary: temps) simp_all

lemma faultless_application_succeeds:
  assumes "\<And>step rel. faults step rel = No_Fault" and "distinct (map fst after)"
    and "\<And>rel. (rel, None) \<in> set after \<Longrightarrow> disk rel \<noteq> None"
  shows "\<exists>disk' temps'. replace_transaction faults disk temps after = (Inr (sort (map fst after)), disk', temps')"
proof -
  let ?files = "sort_key fst after"
  have d: "distinct (map fst ?files)" using assms(2) by (metis distinct_map distinct_sort set_sort)
  obtain originals temps1 where st: "stage_files faults disk ?files [] [] temps = (True, originals, staged_of disk ?files, temps1)"
    using stage_files_faultless [of faults disk ?files "[]" "[]" temps, OF assms(1)] by auto
  have "\<forall>(rel, c) \<in> set ?files. case c of None \<Rightarrow> disk rel \<noteq> None | Some _ \<Rightarrow> map_of (staged_of disk ?files) rel \<noteq> None"
    using assms(3) staged_lookup [OF _ d] by (auto split: option.split)
  then obtain disk1 staged1 temps2 changed where
    "commit_files faults ?files disk (staged_of disk ?files) temps1 [] = (True, disk1, staged1, temps2, changed)"
    using commit_files_faultless [of faults ?files, OF assms(1) d] by blast
  moreover obtain temps3 where "cleanup faults (map fst staged1) temps2 = (True, temps3)"
    using cleanup_faultless [of faults, OF assms(1)] by blast
  ultimately show ?thesis by (simp add: replace_transaction_def Let_def st map_fst_sort_key)
qed

end
