(* ===== verification/Pebra_Candidate_Apply.thy ===== *)
theory Pebra_Candidate_Apply
  imports Pebra_Candidate_Application Pebra_Request_Validator
begin

text \<open>
  \<open>pebra/app/candidate_apply_controller.py\<close>, the use case that applies a stored, assessed candidate, with
  \<open>pebra/core/candidate_parser.py\<close>, which reads its request back. The store is the ledger, the replay cache
  that of \<open>Pebra_Replay_Cache\<close>, the gate \<open>gate_decide\<close>, the applier \<open>apply_patch\<close>. The parser copies JSON of any
  type; here a value that the request record cannot hold is an error, and each such value that reaches the
  patch or the expected files makes the validator, which runs next, raise as well. The chain of the learning
  context, a table outside the model, is an argument.
\<close>

section \<open>Parsing a request\<close>

definition untypable :: "'a res" where
  "untypable = Inl (TypeError ''value outside the model of a request'')"

definition typed_strings :: "pyval \<Rightarrow> string list res" where
  "typed_strings v =
     rbind (py_iter v) (\<lambda>xs.
       if list_all (\<lambda>x. case x of VStr _ \<Rightarrow> True | _ \<Rightarrow> False) xs
       then Inr (map (\<lambda>x. case x of VStr s \<Rightarrow> s | _ \<Rightarrow> []) xs) else untypable)"

definition typed_patch :: "pyval \<Rightarrow> string option res" where
  "typed_patch v = (case v of VNone \<Rightarrow> Inr None | VStr s \<Rightarrow> Inr (Some s) | _ \<Rightarrow> untypable)"

definition py_str_of :: "(pyval \<Rightarrow> string) \<Rightarrow> pyval \<Rightarrow> string" where
  "py_str_of str v = (case v of VStr s \<Rightarrow> s | _ \<Rightarrow> str v)"

definition parse_action :: "(pyval \<Rightarrow> string) \<Rightarrow> pyval \<Rightarrow> candidate_action res" where
  "parse_action str raw =
     rbind (as_dict raw) (\<lambda>d.
     rbind (typed_patch (dict_get d ''proposed_patch'' VNone)) (\<lambda>patch.
     rbind (typed_strings (dict_get d ''affected_symbols'' (VList []))) (\<lambda>symbols.
     rbind (typed_strings (dict_get d ''expected_files'' (VList []))) (\<lambda>files.
       Inr \<lparr>ca_id = py_str_of str (dict_get d ''id'' (VStr [])), ca_label = py_str_of str (dict_get d ''label'' (VStr [])),
            ca_action_type = py_str_of str (dict_get d ''action_type'' (VStr ''edit'')), ca_proposed_patch = patch,
            ca_affected_symbols = symbols, ca_expected_files = files,
            ca_is_dependency_change = truthy (dict_get d ''is_dependency_change'' (VBool False)),
            ca_is_schema_change = truthy (dict_get d ''is_schema_change'' (VBool False)),
            ca_is_migration = truthy (dict_get d ''is_migration'' (VBool False))\<rparr>))))"

definition typed_dict :: "pyval \<Rightarrow> pyval dict res" where
  "typed_dict v = (case v of VDict d \<Rightarrow> Inr d | VList [] \<Rightarrow> Inr [] | VStr [] \<Rightarrow> Inr [] | _ \<Rightarrow> untypable)"

fun typed_numbers :: "pyval dict \<Rightarrow> real dict res" where
  "typed_numbers [] = Inr []"
| "typed_numbers ((k, v) # d) =
     (case py_number v of
        Some (Fin x) \<Rightarrow> rbind (typed_numbers d) (\<lambda>rest. Inr ((k, x) # rest))
      | _ \<Rightarrow> untypable)"

definition parse_request :: "(pyval \<Rightarrow> string) \<Rightarrow> pyval \<Rightarrow> assessment_request res" where
  "parse_request str raw =
     rbind (as_dict raw) (\<lambda>d.
     rbind (py_iter (dict_get d ''candidate_actions'' (VList []))) (\<lambda>raws.
     rbind (map_res (parse_action str) raws) (\<lambda>actions.
     rbind (typed_dict (dict_get d ''evidence'' (VDict []))) (\<lambda>evidence.
     rbind (typed_dict (dict_get d ''thresholds'' (VDict []))) (\<lambda>raw_thresholds.
     rbind (typed_numbers raw_thresholds) (\<lambda>thresholds.
       Inr \<lparr>ar_task = py_str_of str (dict_get d ''task'' (VStr [])), ar_candidate_actions = actions,
            ar_evidence = evidence, ar_thresholds = thresholds,
            ar_schema_version = py_str_of str (dict_get d ''schema_version'' (VStr SCHEMA_VERSION))\<rparr>))))))"

section \<open>The integrity of the ledger\<close>

definition guardrail_text :: "json_codec \<Rightarrow> guardrail_row \<Rightarrow> string res" where
  "guardrail_text codec row =
     rbind (js_loads codec (gw_guardrails_json row)) (\<lambda>guardrails.
       Inr (js_compact codec [(''assessment_id'', VInt (int (gw_assessment_id row))),
              (''recorded_at'', VStr (gw_recorded_at row)), (''guardrails'', guardrails)]))"

fun all_valid :: "bool res list \<Rightarrow> bool res" where
  "all_valid [] = Inr True"
| "all_valid (r # rs) = rbind r (\<lambda>ok. if ok then all_valid rs else Inr False)"

definition validate_chain :: "json_codec \<Rightarrow> bool res \<Rightarrow> ledger \<Rightarrow> bool res" where
  "validate_chain codec learning_context ledger =
     all_valid
       [validate_assessment_chain codec ledger, Inr (validate_sanction_chain (lg_sanctions ledger)),
        chain_res (guardrail_text codec) gw_prev_hash gw_row_hash GENESIS (lg_guardrails ledger),
        validate_outcome_chain codec (lg_outcomes ledger), validate_prediction_chain codec (lg_predictions ledger),
        validate_prediction_error_chain codec (lg_errors ledger),
        validate_risk_snapshot_chain codec (lg_snapshots ledger),
        validate_learned_risk_fact_chain codec (lg_facts ledger), learning_context]"

section \<open>Loading the replay of an assessment\<close>

datatype apply_error = CandidateApplyError string | Apply_Raised pyerr | Application_Failed application_error

definition refused :: "string \<Rightarrow> apply_error + 'a" where
  "refused m = Inl (CandidateApplyError m)"

definition ebind :: "apply_error + 'a \<Rightarrow> ('a \<Rightarrow> apply_error + 'b) \<Rightarrow> apply_error + 'b" where
  "ebind r f = (case r of Inl e \<Rightarrow> Inl e | Inr x \<Rightarrow> f x)"

definition raising :: "'a res \<Rightarrow> apply_error + 'a" where
  "raising r = (case r of Inl e \<Rightarrow> Inl (Apply_Raised e) | Inr x \<Rightarrow> Inr x)"

lemma ebind_Inr_iff: "ebind r f = Inr y \<longleftrightarrow> (\<exists>x. r = Inr x \<and> f x = Inr y)"
  by (cases r) (simp_all add: ebind_def)

lemma raising_Inr_iff [simp]: "raising r = Inr x \<longleftrightarrow> r = Inr x"
  by (cases r) (simp_all add: raising_def)

lemma refused_not_Inr [simp]: "refused m \<noteq> Inr x"
  by (simp add: refused_def)

text \<open>The request and the host sidecars of one stored candidate.\<close>

record loaded_replay = candidate_replay +
  ly_verification :: "pyval dict option"
  ly_obligations :: "pyval dict option"

record apply_host =
  ao_env :: gate_env
  ao_ledger :: ledger
  ao_learning_context :: "bool res"
  ao_loads :: "string \<Rightarrow> pyval option"
  ao_str :: "pyval \<Rightarrow> string"
  ao_limits :: cache_limits
  ao_faults :: faults

text \<open>A sidecar is an object or absent.\<close>

definition sidecar :: "pyval dict \<Rightarrow> string \<Rightarrow> string \<Rightarrow> apply_error + pyval dict option" where
  "sidecar replay key message =
     (case dict_get replay key VNone of VNone \<Rightarrow> Inr None | VDict d \<Rightarrow> Inr (Some d) | _ \<Rightarrow> refused message)"

fun is_load_error :: "pyerr \<Rightarrow> bool" where
  "is_load_error (KeyError _) = True"
| "is_load_error (TypeError _) = True"
| "is_load_error (ValueError _) = True"
| "is_load_error _ = False"

definition load_stored :: "apply_host \<Rightarrow> string \<Rightarrow> apply_error + pyval dict" where
  "load_stored host assessment_id =
     (case load_assessment (ge_codec (ao_env host)) assessment_id (ao_ledger host) of
        Inl e \<Rightarrow> if is_load_error e then refused ''assessment could not be loaded'' else Inl (Apply_Raised e)
      | Inr v \<Rightarrow> raising (as_dict v))"

text \<open>The cached bundle with its request; whatever goes wrong is one refusal.\<close>

definition load_request ::
  "apply_host \<Rightarrow> real \<Rightarrow> pyval \<Rightarrow> replay_cache \<Rightarrow> apply_error + (pyval dict \<times> assessment_request)" where
  "load_request host now metadata cache =
     (case load_replay (ao_loads host) (ao_limits host) now metadata cache of
        Inl _ \<Rightarrow> refused ''candidate replay could not be validated''
      | Inr replay \<Rightarrow>
          (case (case map_of replay ''request'' of
                   None \<Rightarrow> Inl (KeyError ''request'')
                 | Some raw \<Rightarrow>
                     rbind (parse_request (ao_str host) raw) (\<lambda>request. rbind (validate request) (\<lambda>_. Inr request))) of
             Inl _ \<Rightarrow> refused ''candidate replay could not be validated''
           | Inr request \<Rightarrow> Inr (replay, request)))"

definition applicable_patch :: "assessment_request \<Rightarrow> apply_error + unit" where
  "applicable_patch request =
     (case ar_candidate_actions request of
        [action] \<Rightarrow>
          (case ca_proposed_patch action of
             None \<Rightarrow> refused ''candidate replay does not contain an applicable patch''
           | Some patch \<Rightarrow>
               if blank patch then refused ''candidate replay does not contain an applicable patch'' else Inr ())
      | _ \<Rightarrow> refused ''candidate replay must contain exactly one action'')"

definition load_candidate_replay ::
  "apply_host \<Rightarrow> real \<Rightarrow> string \<Rightarrow> string \<Rightarrow> replay_cache \<Rightarrow> apply_error + loaded_replay" where
  "load_candidate_replay host now assessment_id repo_id cache =
     ebind (raising (validate_chain (ge_codec (ao_env host)) (ao_learning_context host) (ao_ledger host))) (\<lambda>intact.
     if \<not> intact then refused ''assessment ledger integrity check failed''
     else ebind (load_stored host assessment_id) (\<lambda>assessment.
       if dict_get assessment ''repo_id'' VNone \<noteq> VStr repo_id then refused ''assessment belongs to a different repository''
       else ebind (raising (sub_dict assessment ''request'')) (\<lambda>stored_request.
         let metadata = dict_get stored_request ''candidate_replay'' VNone
         in ebind (load_request host now metadata cache) (\<lambda>(replay, request).
            ebind (applicable_patch request) (\<lambda>_.
            ebind (sidecar replay ''trusted_candidate_verification'' ''candidate replay verification sidecar is invalid'') (\<lambda>verification.
            ebind (sidecar replay ''trusted_task_obligations'' ''candidate replay obligations sidecar is invalid'') (\<lambda>obligations.
              Inr \<lparr>cr_assessment = assessment, cr_request = request, cr_metadata = dict_or_empty metadata,
                   ly_verification = verification, ly_obligations = obligations\<rparr>)))))))"

section \<open>Applying it\<close>

record apply_state =
  ts_disk :: disk
  ts_temps :: "temp_file list"
  ts_cache :: replay_cache

record apply_outcome =
  apo_assessment_id :: string
  apo_changed_files :: "string list"

definition patch_event :: "string \<Rightarrow> string \<Rightarrow> pyval" where
  "patch_event repo_root patch =
     VDict [(''tool_name'', VStr ''apply_patch''), (''cwd'', VStr repo_root),
            (''tool_input'', VDict [(''command'', VStr patch)])]"

definition authorizes :: "string \<Rightarrow> gate_decision \<Rightarrow> bool" where
  "authorizes assessment_id d =
     (gd_permission d = CONTINUE \<and> gd_tier d = GT_CONSULTED \<and> gd_matched_assessment_id d = Some assessment_id)"

text \<open>The replay is spent before the files are touched; the tombstone goes when they have been replaced.\<close>

definition spend_and_apply ::
  "apply_host \<Rightarrow> string \<Rightarrow> string \<Rightarrow> string \<Rightarrow> string list \<Rightarrow> pyval \<Rightarrow> apply_state
    \<Rightarrow> (apply_error + apply_outcome) \<times> apply_state" where
  "spend_and_apply host assessment_id repo_root patch expected_files metadata st =
     (case consume_replay metadata (ts_cache st) of
        Inl _ \<Rightarrow> (refused ''candidate replay is no longer applicable'', st)
      | Inr spent \<Rightarrow>
          (case apply_patch (ao_faults host) (ge_tree (ao_env host)) repo_root patch expected_files (ts_disk st) (ts_temps st) of
             (Inl e, disk, temps) \<Rightarrow>
               (Inl (Application_Failed e), \<lparr>ts_disk = disk, ts_temps = temps, ts_cache = spent\<rparr>)
           | (Inr changed, disk, temps) \<Rightarrow>
               (Inr \<lparr>apo_assessment_id = assessment_id, apo_changed_files = changed\<rparr>,
                \<lparr>ts_disk = disk, ts_temps = temps,
                 ts_cache = (case delete_replay metadata spent of Inl _ \<Rightarrow> spent | Inr cache \<Rightarrow> cache)\<rparr>)))"

definition apply_candidate ::
  "apply_host \<Rightarrow> real \<Rightarrow> string \<Rightarrow> string \<Rightarrow> string \<Rightarrow> string \<Rightarrow> apply_state
    \<Rightarrow> (apply_error + apply_outcome) \<times> apply_state" where
  "apply_candidate host now assessment_id repo_id repo_root db_path st =
     (case load_candidate_replay host now assessment_id repo_id (ts_cache st) of
        Inl e \<Rightarrow> (Inl e, st)
      | Inr replay \<Rightarrow>
          let action = hd (ar_candidate_actions (cr_request replay));
              patch = (case ca_proposed_patch action of None \<Rightarrow> [] | Some p \<Rightarrow> p)
          in (case gate_decide (ao_env host) (Some db_path) True True (patch_event repo_root patch) of
                Inl e \<Rightarrow> (Inl (Apply_Raised e), st)
              | Inr d \<Rightarrow>
                  if \<not> authorizes assessment_id d
                  then (refused ''exact assessment did not authorize candidate application'', st)
                  else spend_and_apply host assessment_id repo_root patch (ca_expected_files action)
                         (VDict (cr_metadata replay)) st))"

section \<open>What is applied is what was assessed\<close>

text \<open>The tier \<open>consulted\<close> comes from a consultation, hence from a row that lets the edit pass.\<close>

lemma open_tier:
  "fail_open warn = Inr d \<Longrightarrow> gd_tier d \<noteq> GT_CONSULTED" "store_unavailable = Inr d \<Longrightarrow> gd_tier d \<noteq> GT_CONSULTED"
  "unrestricted impact = Inr d \<Longrightarrow> gd_tier d \<noteq> GT_CONSULTED"
  by (auto simp: fail_open_def store_unavailable_def unrestricted_def dest!: plain_decision_Inr split: if_splits)

lemma authorized_by_assessment:
  assumes "gate_decide env db_path consult_only True event = Inr d" and "authorizes assessment_id d"
    and "ge_find_repo_root env (or_else (dict_get (dict_or_empty event) ''cwd'' VNone) (VStr ''.'')) = Some rr"
    and "ge_store env (database_path db_path rr) = Stored table"
  shows "\<exists>targets head rows row. query_assessments (Stored table) (ge_repo_id env rr) = Some rows
    \<and> assessed_and_passed env event rr targets head 0 rows row \<and> asm_id (aw_id row) = assessment_id"
proof -
  have d: "gd_permission d = CONTINUE" "gd_tier d = GT_CONSULTED" "gd_matched_assessment_id d = Some assessment_id"
    using assms(2) by (simp_all add: authorizes_def)
  obtain targets where "gate_in_repository env db_path consult_only True event targets rr = Inr d"
    using assms(1,3) d(2) by (auto simp: gate_decide_def rbind_Inr_iff dest!: plain_decision_Inr split: if_splits)
  then obtain head rows where rows: "query_assessments (Stored table) (ge_repo_id env rr) = Some rows"
    and "consult env consult_only event rr targets head rows 0 = Inr d"
    using open_tier d(2) assms(4) by (auto simp: gate_in_repository_def Let_def split: option.splits)
  from consult_continue [OF this(2) d(1)] rows d(3) show ?thesis by auto
qed

text \<open>The patch of the event is bound to what the applier materializes.\<close>

lemma applied_patch_bound:
  assumes "wk_resolve w repo_root = Some rt" and "wk_resolve w rt = Some rt" and "repo_root \<noteq> []"
    and "materialize_candidate_patch w repo_root (VStr patch) = Inr (Some after)"
  shows "binding_for_event w rt (patch_event repo_root patch) = Inr (candidate_binding after)"
proof -
  have "materialize_in w rt None (VStr patch) = Inr (Some after)"
    using assms(1,4) by (simp add: materialize_candidate_patch_def unverifiable_Some)
  then have "binding_for_patch w repo_root (VStr patch) = Inr (candidate_binding after)"
    by (cases "candidate_binding after") (simp_all add: binding_for_patch_def binding_in_def assms(1) unverifiable_def)
  then show ?thesis
    using hook_and_assessment_bind_alike [OF assms(1,2,1,3) refl, of patch] by (simp add: patch_event_def)
qed

lemma envelope_distinct:
  assumes "envelope_matches expected_files rels"
  shows "distinct rels"
proof -
  have "length (remdups (map slashes rels)) = length (map slashes rels)"
    using assms by (simp add: envelope_matches_def Let_def)
  then have "distinct (map slashes rels)" by (simp only: length_remdups_eq remdups_id_iff_distinct)
  then show ?thesis by (simp add: distinct_map)
qed

lemma apply_patch_cases:
  assumes "apply_patch faults w repo_root patch expected_files disk temps = (r, disk', temps')"
  obtains (refused) e where "r = Inl e" "e \<noteq> Rolled_Back" "e \<noteq> Cleanup_Failed" "\<And>rels. e \<noteq> Rollback_Incomplete rels" "disk' = disk"
  | (transaction) after where "materialize_candidate_patch w repo_root (VStr patch) = Inr (Some after)"
      "distinct (map fst after)" "replace_transaction faults disk temps after = (r, disk', temps')"
  using assms envelope_distinct
  by (auto simp: apply_patch_def split: sum.splits option.splits if_splits)

lemma target_content:
  "(rel, c) \<in> set after \<Longrightarrow> distinct (map fst after) \<Longrightarrow> map_option df_content (target_tree disk after rel) = c"
  by (auto simp: target_tree_def staged_file_def split: option.split)

text \<open>What a successful application went through.\<close>

lemma apply_candidate_Inr:
  assumes "apply_candidate host now assessment_id repo_id repo_root db_path st = (Inr outcome, st')"
  shows "\<exists>patch d expected_files temps'. gate_decide (ao_env host) (Some db_path) True True (patch_event repo_root patch) = Inr d
    \<and> authorizes assessment_id d \<and> apo_assessment_id outcome = assessment_id
    \<and> apply_patch (ao_faults host) (ge_tree (ao_env host)) repo_root patch expected_files (ts_disk st) (ts_temps st)
        = (Inr (apo_changed_files outcome), ts_disk st', temps')"
  using assms
  by (auto simp: apply_candidate_def spend_and_apply_def Let_def refused_def split: sum.splits if_splits prod.splits) blast+

text \<open>C7: What is applied is what was assessed. When \<open>apply_candidate\<close> returns, the store holds an assessment with the
  requested id that proceeds without confirmation, and its binding is the disk: each bound path has a changed
  file whose contents have the bound digest, each changed file is bound, and no other file has changed.\<close>

theorem applied_is_what_was_assessed:
  assumes "apply_candidate host now assessment_id repo_id repo_root db_path st = (Inr outcome, st')"
    and "wk_resolve (ge_tree (ao_env host)) repo_root = Some rt" and "wk_resolve (ge_tree (ao_env host)) rt = Some rt"
    and "repo_root \<noteq> []" and "ge_find_repo_root (ao_env host) (VStr repo_root) = Some rt"
    and "ge_store (ao_env host) (database_path (Some db_path) rt) = Stored (lg_assessments (ao_ledger host))"
  shows "\<exists>row assessed. row \<in> set (lg_assessments (ao_ledger host)) \<and> asm_id (aw_id row) = assessment_id
    \<and> aw_decision row = ''proceed'' \<and> \<not> requires_confirmation_row (ge_codec (ao_env host)) row
    \<and> row_candidate_binding (ge_codec (ao_env host)) row = Some assessed
    \<and> (\<forall>p v. bound_files assessed p = Some v \<longleftrightarrow>
          (\<exists>rel \<in> set (apo_changed_files outcome). slashes rel = p
             \<and> v = VStr (content_digest (map_option df_content (ts_disk st' rel)))))
    \<and> (\<forall>rel. rel \<notin> set (apo_changed_files outcome) \<longrightarrow> ts_disk st' rel = ts_disk st rel)"
proof -
  let ?env = "ao_env host"
  obtain patch d expected_files temps' where
    gate: "gate_decide ?env (Some db_path) True True (patch_event repo_root patch) = Inr d" "authorizes assessment_id d"
    and ap: "apply_patch (ao_faults host) (ge_tree ?env) repo_root patch expected_files (ts_disk st) (ts_temps st)
        = (Inr (apo_changed_files outcome), ts_disk st', temps')"
    using apply_candidate_Inr [OF assms(1)] by blast
  obtain after where after: "materialize_candidate_patch (ge_tree ?env) repo_root (VStr patch) = Inr (Some after)"
      "distinct (map fst after)"
      "replace_transaction (ao_faults host) (ts_disk st) (ts_temps st) after = (Inr (apo_changed_files outcome), ts_disk st', temps')"
    using ap by (cases rule: apply_patch_cases) auto
  have tree: "set (apo_changed_files outcome) = fst ` set after" "ts_disk st' = target_tree (ts_disk st) after"
    using transaction_outcome [OF after(3,2)] by simp_all
  have "ge_find_repo_root ?env (or_else (dict_get (dict_or_empty (patch_event repo_root patch)) ''cwd'' VNone) (VStr ''.'')) = Some rt"
    using assms(4,5) by (simp add: patch_event_def dict_or_empty_def dict_get_def or_else_def)
  from authorized_by_assessment [OF gate this assms(6)] obtain targets head rows row where
    rows: "query_assessments (Stored (lg_assessments (ao_ledger host))) (ge_repo_id ?env rt) = Some rows"
    and passed: "assessed_and_passed ?env (patch_event repo_root patch) rt targets head 0 rows row"
    and row: "asm_id (aw_id row) = assessment_id" by blast
  obtain attempted assessed where bound: "binding_for_event (ge_tree ?env) rt (patch_event repo_root patch) = Inr (Some attempted)"
      "row_candidate_binding (ge_codec ?env) row = Some assessed" "bound_files attempted = bound_files assessed"
      "row \<in> set rows" "aw_decision row = ''proceed''" "\<not> requires_confirmation_row (ge_codec ?env) row"
    using passed by (auto simp: assessed_and_passed_def)
  have same: "candidate_binding after = Some attempted"
    using applied_patch_bound [OF assms(2,3,4) after(1)] bound(1) by simp
  have digests: "bound_files assessed p = Some v \<longleftrightarrow> (\<exists>rel c. (rel, c) \<in> set after \<and> p = slashes rel \<and> v = VStr (content_digest c))" for p v
    using candidate_binding_dom [OF same, of p v] candidate_binding_bound [OF same] by (auto simp: bound(3))
  have disk: "(rel, map_option df_content (ts_disk st' rel)) \<in> set after" if "rel \<in> fst ` set after" for rel
    using that target_content [OF _ after(2), of rel _ "ts_disk st"] by (auto simp: tree(2))
  have content: "c = map_option df_content (ts_disk st' rel)" if "(rel, c) \<in> set after" for rel c
    using target_content [OF that after(2)] by (simp add: tree(2))
  have "bound_files assessed p = Some v \<longleftrightarrow> (\<exists>rel \<in> set (apo_changed_files outcome). slashes rel = p
      \<and> v = VStr (content_digest (map_option df_content (ts_disk st' rel))))" for p v
    unfolding digests tree(1) using disk content by force
  moreover have "ts_disk st' rel = ts_disk st rel" if "rel \<notin> set (apo_changed_files outcome)" for rel
    using transaction_outcome [OF after(3,2)] that tree(1) by blast
  moreover have "row \<in> set (lg_assessments (ao_ledger host))" using query_assessments_set [OF rows] bound(4) by blast
  ultimately show ?thesis using row bound(2,5,6) by blast
qed

lemma ebind_Inl_iff: "ebind r f = Inl e \<longleftrightarrow> r = Inl e \<or> (\<exists>x. r = Inr x \<and> f x = Inl e)"
  by (cases r) (simp_all add: ebind_def)

lemma loading_fails_early:
  "load_candidate_replay host now assessment_id repo_id cache = Inl e \<Longrightarrow> e \<noteq> Application_Failed x"
  by (auto simp: load_candidate_replay_def ebind_Inl_iff raising_def refused_def load_stored_def load_request_def
      applicable_patch_def sidecar_def Let_def
      split: sum.splits if_splits option.splits list.splits pyval.splits)

text \<open>A refused or failed application leaves the working tree alone: whatever the error, other than an incomplete
  rollback or a failed cleanup, the disk is what it was, and a refusal leaves the replay applicable.\<close>

theorem refused_application_changes_nothing:
  assumes "apply_candidate host now assessment_id repo_id repo_root db_path st = (Inl e, st')"
  shows "((\<forall>x. e \<noteq> Application_Failed x) \<longrightarrow> st' = st)
    \<and> (e \<noteq> Application_Failed Cleanup_Failed \<longrightarrow> (\<forall>rels. e \<noteq> Application_Failed (Rollback_Incomplete rels)) \<longrightarrow>
        ts_disk st' = ts_disk st)"
proof (cases "\<exists>x. e = Application_Failed x")
  case False
  with assms show ?thesis
    by (auto simp: apply_candidate_def spend_and_apply_def Let_def refused_def split: sum.splits if_splits prod.splits)
next
  case True
  then obtain x where e: "e = Application_Failed x" ..
  with assms obtain patch expected_files temps' where
    ap: "apply_patch (ao_faults host) (ge_tree (ao_env host)) repo_root patch expected_files (ts_disk st) (ts_temps st)
        = (Inl x, ts_disk st', temps')"
    by (auto simp: apply_candidate_def spend_and_apply_def Let_def refused_def
        split: sum.splits if_splits prod.splits dest: loading_fails_early)
  have "ts_disk st' = ts_disk st" if "x \<noteq> Cleanup_Failed" "\<And>rels. x \<noteq> Rollback_Incomplete rels"
    using ap
  proof (cases rule: apply_patch_cases)
    case (transaction after)
    have "x = Rolled_Back"
      using transaction(3) that by (auto simp: replace_transaction_def Let_def split: prod.splits if_splits)
    with transaction_outcome [OF transaction(3,2)] show ?thesis by simp
  qed
  with e show ?thesis by blast
qed

text \<open>A repository with one file, an assessed patch of it, and its cached replay.\<close>

definition sample_patch :: string where
  "sample_patch = join_with [LF] [''--- a/a'', ''+++ b/a'', ''@@ -1 +1 @@'', ''-x'', ''+y'', [] ]"

lemma sample_patch_facts:
  "touched_files sample_patch = Inr [''a'']" "codex_targets True sample_patch = []" "blank sample_patch = False"
  "list_ex (\<lambda>line. starts_with line ''*** '') (splitlines sample_patch) = False" "normal_text sample_patch = sample_patch"
  by code_simp+

lemma sample_patch_nonempty: "sample_patch \<noteq> []"
  by (simp add: sample_patch_def)

definition sample_tree :: worktree where
  "sample_tree = tiny_tree\<lparr>wk_apply := (\<lambda>_ _ _. Some [(''a'', Some ''y'')])\<rparr>"

definition sample_document :: "pyval dict" where
  "sample_document =
     [(''repo_id'', VStr ''id''), (''decision'', VStr ''proceed''), (''assessed_commit'', VStr ''c1''),
      (''request'', VDict [(''candidate_replay'', VDict (replay_metadata (sha256_hex ''{}'')))]),
      (''model_guidance_packet'', VDict [(''binding'', VDict
         [(''safe_scope'', VDict [(''files'', vstrs [''a''])]),
          (''candidate'', VDict (binding_of_files [(''a'', content_digest (Some ''y''))]))])])]"

definition sample_apply_codec :: json_codec where
  "sample_apply_codec = tiny_codec\<lparr>js_loads := (\<lambda>_. Inr (VDict sample_document))\<rparr>"

definition sample_apply_row :: assessment_row where
  "sample_apply_row = (tiny_row 3 ''proceed'')\<lparr>aw_prev_hash := GENESIS, aw_row_hash := row_hash GENESIS ''doc''\<rparr>"

definition sample_apply_env :: gate_env where
  "sample_apply_env = (tiny_env 1)\<lparr>ge_tree := sample_tree, ge_codec := sample_apply_codec, ge_store := (\<lambda>_. Stored [sample_apply_row])\<rparr>"

definition sample_replay :: "pyval dict" where
  "sample_replay =
     [(''request'', VDict [(''task'', VStr ''t''), (''candidate_actions'', VList [VDict
        [(''id'', VStr ''i''), (''proposed_patch'', VStr sample_patch), (''expected_files'', vstrs [''a''])]])])]"

definition sample_apply_host :: apply_host where
  "sample_apply_host =
     \<lparr>ao_env = sample_apply_env,
      ao_ledger = empty_ledger\<lparr>lg_assessments := [sample_apply_row],
        lg_packets := [\<lparr>pk_id = 1, pk_assessment_id = 3, pk_guidance_packet_id = None, pk_packet_json = []\<rparr>]\<rparr>,
      ao_learning_context = Inr True, ao_loads = (\<lambda>_. Some (VDict sample_replay)), ao_str = (\<lambda>_. []),
      ao_limits = one_limits, ao_faults = (\<lambda>_ _. No_Fault)\<rparr>"

definition sample_apply_state :: apply_state where
  "sample_apply_state =
     \<lparr>ts_disk = [''a'' \<mapsto> \<lparr>df_content = ''x'', df_mode = 420\<rparr>], ts_temps = [],
      ts_cache = [(json_file (sha256_hex ''{}''), \<lparr>ce_payload = ''{}'', ce_mtime = 0\<rparr>)]\<rparr>"

lemma sample_apply_fields [simp]:
  "ge_tree sample_apply_env = sample_tree" "ge_codec sample_apply_env = sample_apply_codec" "ge_realpath sample_apply_env = id"
  "ge_abspath sample_apply_env p = (if p = ''./a'' then ''/r/a'' else p)" "ge_find_repo_root sample_apply_env v = Some ''/r''"
  "ge_head sample_apply_env r = Some ''c1''" "ge_repo_id sample_apply_env r = ''id''"
  "ge_store sample_apply_env q = Stored [sample_apply_row]"
  "aw_id sample_apply_row = 3" "aw_repo_id sample_apply_row = ''id''" "aw_decision sample_apply_row = ''proceed''"
  "aw_content_json sample_apply_row = ''doc''" "content_text sample_apply_row = ''doc''"
  "js_loads sample_apply_codec t = Inr (VDict sample_document)"
  "wk_resolve sample_tree ''/r'' = Some ''/r''" "wk_apply sample_tree b p dir = Some [(''a'', Some ''y'')]"
  by (simp_all add: sample_apply_env_def tiny_env_def sample_apply_row_def tiny_row_def content_text_def
      sample_apply_codec_def tiny_codec_def sample_tree_def tiny_tree_def)

lemma sample_tree_facts: "has_unsupported_metadata sample_tree sample_patch = False"
  "safe_rel sample_tree ''/r'' None (VStr ''a'') = Some ''a''" "slashes ''a'' = ''a''" "blank ''t'' = False"
  "remove_prefix ''a'' ''./'' = ''a''" "is_safe_repo_path ''a''"
  by code_simp+

lemma sample_host_parts:
  "ao_env sample_apply_host = sample_apply_env" "ao_learning_context sample_apply_host = Inr True"
  "ao_faults sample_apply_host = (\<lambda>_ _. No_Fault)" "lg_assessments (ao_ledger sample_apply_host) = [sample_apply_row]"
  by (simp_all add: sample_apply_host_def)

lemma sample_materialized: "materialize_candidate_patch sample_tree ''/r'' (VStr sample_patch) = Inr (Some [(''a'', Some ''y'')])"
  by (simp add: materialize_candidate_patch_def materialize_in_def sample_patch_facts sample_tree_facts materialize_git_def
      apply_dir_of_def unverifiable_def)

lemma sample_event_binding:
  "binding_for_event sample_tree ''/r'' (patch_event ''/r'' sample_patch)
    = Inr (Some (binding_of_files [(''a'', content_digest (Some ''y''))]))"
  using applied_patch_bound [of sample_tree "''/r''" "''/r''", OF _ _ _ sample_materialized]
  by (simp add: candidate_binding_def dict_has_def sample_tree_facts)

lemma sample_row_binding:
  "row_candidate_binding sample_apply_codec sample_apply_row = Some (binding_of_files [(''a'', content_digest (Some ''y''))])"
  by (simp add: row_candidate_binding_def sample_document_def guidance_binding_def get_or_empty_def as_dict_def or_else_def
      dict_get_def binding_of_files_def content_digest_def sha256_hex_is_digest)

lemma sample_targets: "extract_target_paths sample_apply_env (patch_event ''/r'' sample_patch) = Inr [''/r/a'']"
  by (simp add: extract_target_paths_def patch_event_def named_paths_def dict_get_def or_else_def path_join_def
      starts_with_def ends_with_def sample_patch_facts sample_patch_nonempty Let_def)

lemma sample_matched:
  "matched_row sample_apply_env [sample_apply_row] [''/r/a''] ''c1'' ''/r'' 0
     (Some (binding_of_files [(''a'', content_digest (Some ''y''))])) = Some sample_apply_row"
proof -
  have "row_covers sample_apply_env [''/r/a''] ''c1'' ''/r'' sample_apply_row"
    by (simp add: row_covers_def sample_document_def dict_get_def safe_scope_files_def guidance_binding_def get_or_empty_def
        as_dict_def or_else_def filter_path_entries_def paths_match_def path_join_def starts_with_def ends_with_def)
  then show ?thesis by (simp add: matched_row_def sample_row_binding binding_of_files_def)
qed

lemma sample_authorized:
  "\<exists>d. gate_decide sample_apply_env (Some db) True True (patch_event ''/r'' sample_patch) = Inr d \<and> authorizes (asm_id 3) d"
proof -
  let ?b = "binding_of_files [(''a'', content_digest (Some ''y''))]"
  have rows: "query_assessments (Stored [sample_apply_row]) ''id'' = Some [sample_apply_row]"
    by (simp add: query_assessments_def QUERY_LIMIT_def)
  have "binding_verdict (Some ?b) (Some ?b) = None"
    by (simp add: binding_verdict_def binding_of_files_def dict_get_def dict_or_empty_def)
  moreover have "row_risk_summary sample_apply_codec sample_apply_row = None"
    by (simp add: row_risk_summary_def loaded_content_def sample_document_def dict_get_def)
  moreover have "\<not> requires_confirmation_row sample_apply_codec sample_apply_row"
    by (simp add: requires_confirmation_row_def sample_document_def dict_get_def)
  moreover have "decision_of_value ''proceed'' = Some PROCEED" using decision_of_value_value [of PROCEED] by simp
  ultimately have "consult sample_apply_env True (patch_event ''/r'' sample_patch) ''/r'' [''/r/a''] ''c1'' [sample_apply_row] 0
      = matched_decision sample_apply_row CONTINUE GT_CONSULTED None None"
    by (simp add: consult_def sample_event_binding sample_matched sample_row_binding judge_matched_def Let_def)
  then show ?thesis
    by (simp add: gate_decide_def sample_targets gate_in_repository_def Let_def rows matched_decision_def
        make_gate_decision_def allowed_tier_def authorizes_def)
qed

lemma sample_chain: "validate_chain sample_apply_codec (Inr True) (ao_ledger sample_apply_host) = Inr True"
  by (simp add: validate_chain_def validate_assessment_chain_def sample_apply_host_def empty_ledger_def sample_apply_row_def
      tiny_row_def assessment_row_ok_def loads_dict_def sample_document_def dict_get_def guidance_matches_content_def
      packet_of_def sample_apply_codec_def tiny_codec_def validate_sanction_chain_def validate_outcome_chain_def
      validate_prediction_chain_def validate_prediction_error_chain_def validate_risk_snapshot_chain_def
      validate_learned_risk_fact_chain_def)

lemma sample_request:
  "\<exists>request action. parse_request (\<lambda>_. []) (VDict [(''task'', VStr ''t''), (''candidate_actions'', VList [VDict
        [(''id'', VStr ''i''), (''proposed_patch'', VStr sample_patch), (''expected_files'', vstrs [''a''])]])]) = Inr request
    \<and> validate request = Inr () \<and> ar_candidate_actions request = [action]
    \<and> ca_proposed_patch action = Some sample_patch \<and> ca_expected_files action = [''a'']"
  by (simp add: parse_request_def parse_action_def as_dict_def dict_get_def typed_patch_def typed_strings_def typed_dict_def
        py_str_of_def validate_def validate_patch_def sample_patch_facts request_path_def sample_tree_facts sample_patch_nonempty
        Let_def)

lemma sample_loaded:
  "\<exists>replay action. load_candidate_replay sample_apply_host 0 (asm_id 3) ''id'' (ts_cache sample_apply_state) = Inr replay
    \<and> ar_candidate_actions (cr_request replay) = [action] \<and> ca_proposed_patch action = Some sample_patch
    \<and> ca_expected_files action = [''a''] \<and> cr_metadata replay = replay_metadata (sha256_hex ''{}'')"
proof -
  have "row_id (asm_id 3) = Inr 3" by code_simp
  then have stored: "load_stored sample_apply_host (asm_id 3) = Inr sample_document"
    by (simp add: load_stored_def load_assessment_def sample_apply_host_def raising_def as_dict_def)
  obtain request action where request:
    "parse_request (\<lambda>_. []) (VDict [(''task'', VStr ''t''), (''candidate_actions'', VList [VDict
        [(''id'', VStr ''i''), (''proposed_patch'', VStr sample_patch), (''expected_files'', vstrs [''a''])]])]) = Inr request"
    "validate request = Inr ()"
    and action: "ar_candidate_actions request = [action]" "ca_proposed_patch action = Some sample_patch"
    "ca_expected_files action = [''a'']" using sample_request by blast
  have limits: "cl_max_age one_limits = 60" "cl_max_bytes one_limits = 100" by (simp_all add: one_limits_def make_limits_def)
  have loaded: "load_request sample_apply_host 0 (VDict (replay_metadata (sha256_hex ''{}''))) (ts_cache sample_apply_state)
      = Inr (sample_replay, request)"
    by (simp add: load_request_def load_replay_def validated_metadata sha256_hex_is_digest sample_apply_state_def
        sample_apply_host_def limits sample_replay_def request(1) [simplified] request(2))
  have "load_candidate_replay sample_apply_host 0 (asm_id 3) ''id'' (ts_cache sample_apply_state)
      = Inr \<lparr>cr_assessment = sample_document, cr_request = request, cr_metadata = replay_metadata (sha256_hex ''{}''),
             ly_verification = None, ly_obligations = None\<rparr>"
    using sample_chain loaded
    by (simp add: load_candidate_replay_def ebind_def raising_def sample_document_def 
        stored dict_get_def sub_dict_def or_dict_def dict_or_empty_def applicable_patch_def action sample_patch_facts
        sidecar_def sample_replay_def sample_host_parts)
  with action show ?thesis by simp
qed

text \<open>It is applied: the gate matches the stored row, the replay is spent, the file is replaced.\<close>

lemma applied_is_what_was_assessed_witness:
  "\<exists>outcome st'. apply_candidate sample_apply_host 0 (asm_id 3) ''id'' ''/r'' ''db'' sample_apply_state = (Inr outcome, st')
    \<and> (\<exists>row assessed. row \<in> set (lg_assessments (ao_ledger sample_apply_host)) \<and> asm_id (aw_id row) = asm_id 3
        \<and> row_candidate_binding sample_apply_codec row = Some assessed)"
proof -
  obtain replay action where replay:
    "load_candidate_replay sample_apply_host 0 (asm_id 3) ''id'' (ts_cache sample_apply_state) = Inr replay"
    "ar_candidate_actions (cr_request replay) = [action]" "ca_proposed_patch action = Some sample_patch"
    "ca_expected_files action = [''a'']" "cr_metadata replay = replay_metadata (sha256_hex ''{}'')"
    using sample_loaded by blast
  obtain d where d: "gate_decide sample_apply_env (Some ''db'') True True (patch_event ''/r'' sample_patch) = Inr d"
    "authorizes (asm_id 3) d" using sample_authorized by blast
  obtain spent where spent: "consume_replay (VDict (replay_metadata (sha256_hex ''{}''))) (ts_cache sample_apply_state) = Inr spent"
    by (simp add: consume_replay_def validated_metadata sha256_hex_is_digest sample_apply_state_def)
  have "envelope_matches [''a''] [''a'']" by code_simp
  moreover obtain disk temps where "replace_transaction (\<lambda>_ _. No_Fault) (ts_disk sample_apply_state) [] [(''a'', Some ''y'')]
      = (Inr [''a''], disk, temps)"
    using faultless_application_succeeds [of "\<lambda>_ _. No_Fault" "[(''a'', Some ''y'')]" "ts_disk sample_apply_state" "[]"] by auto
  ultimately have "apply_patch (\<lambda>_ _. No_Fault) sample_tree ''/r'' sample_patch [''a''] (ts_disk sample_apply_state) []
      = (Inr [''a''], disk, temps)"
    by (simp add: apply_patch_def sample_materialized)
  moreover have "ts_temps sample_apply_state = []" by (simp add: sample_apply_state_def)
  ultimately obtain outcome st' where
    run: "apply_candidate sample_apply_host 0 (asm_id 3) ''id'' ''/r'' ''db'' sample_apply_state = (Inr outcome, st')"
    using d spent by (simp add: apply_candidate_def replay spend_and_apply_def sample_host_parts)
  from applied_is_what_was_assessed [OF run, of "''/r''"] run show ?thesis by (auto simp: sample_host_parts)
qed

end
