(* ===== verification/Pebra_Agent_Hook.thy ===== *)
theory Pebra_Agent_Hook
  imports Pebra_Gate_Contract
begin

text \<open>
  \<open>pebra/core/agent_hook_contract.py\<close>: whether the settings document of an agent host carries the hook that
  calls the gate, exactly as it is installed, in a form that conflicts with it, or not at all.
\<close>

definition HOOK_COMMAND :: string where "HOOK_COMMAND = ''pebra gate-hook''"

definition managed_hook_entry :: "string \<Rightarrow> pyval dict" where
  "managed_hook_entry matcher =
     [(''matcher'', VStr matcher),
      (''hooks'', VList [VDict [(''type'', VStr ''command''), (''command'', VStr HOOK_COMMAND)]])]"

definition is_managed_hook_entry :: "pyval \<Rightarrow> string \<Rightarrow> bool" where
  "is_managed_hook_entry value matcher = py_eq value (VDict (managed_hook_entry matcher))"

datatype hook_state = Hook_Absent | Hook_Exact | Hook_Conflicting | Hook_Malformed

fun hook_state_value :: "hook_state \<Rightarrow> string" where
  "hook_state_value Hook_Absent = ''absent''"
| "hook_state_value Hook_Exact = ''exact''"
| "hook_state_value Hook_Conflicting = ''conflicting''"
| "hook_state_value Hook_Malformed = ''malformed''"

datatype hook_host = Claude | Codex

definition nonblank_string :: "pyval \<Rightarrow> bool" where
  "nonblank_string value = (case value of VStr s \<Rightarrow> \<not> blank s | _ \<Rightarrow> False)"

definition valid_hook_handler :: "hook_host \<Rightarrow> pyval \<Rightarrow> bool" where
  "valid_hook_handler host value =
     (case value of
        VDict d \<Rightarrow>
          let hook_type = dict_get d ''type'' VNone
          in nonblank_string hook_type
             \<and> (if hook_type = VStr ''command'' then nonblank_string (dict_get d ''command'' VNone)
                else if hook_type = VStr ''prompt'' \<or> hook_type = VStr ''agent''
                then nonblank_string (dict_get d ''prompt'' VNone)
                else if host = Claude \<and> hook_type = VStr ''http'' then nonblank_string (dict_get d ''url'' VNone)
                else host = Claude \<and> hook_type = VStr ''mcp_tool''
                  \<and> nonblank_string (dict_get d ''server'' VNone) \<and> nonblank_string (dict_get d ''tool'' VNone))
      | _ \<Rightarrow> False)"

text \<open>What one entry contributes: a flag of the loop, or nothing.\<close>

definition runs_gate :: "pyval \<Rightarrow> bool" where
  "runs_gate handler =
     (case handler of VDict d \<Rightarrow> dict_get d ''command'' VNone = VStr HOOK_COMMAND | _ \<Rightarrow> False)"

definition classify_entry :: "string \<Rightarrow> hook_host \<Rightarrow> pyval \<Rightarrow> hook_state" where
  "classify_entry matcher host entry =
     (case entry of
        VDict d \<Rightarrow>
          (case (dict_get d ''matcher'' (VStr []), dict_get d ''hooks'' VNone) of
             (VStr _, VList handlers) \<Rightarrow>
               if handlers = [] \<or> list_ex (\<lambda>h. \<not> valid_hook_handler host h) handlers then Hook_Malformed
               else if is_managed_hook_entry entry matcher then Hook_Exact
               else if list_ex runs_gate handlers then Hook_Conflicting else Hook_Absent
           | _ \<Rightarrow> Hook_Malformed)
      | _ \<Rightarrow> Hook_Malformed)"

definition classify_entries :: "string \<Rightarrow> hook_host \<Rightarrow> pyval list \<Rightarrow> hook_state" where
  "classify_entries matcher host entries =
     (let flags = map (classify_entry matcher host) entries
      in if Hook_Malformed \<in> set flags then Hook_Malformed
         else if Hook_Conflicting \<in> set flags then Hook_Conflicting
         else if Hook_Exact \<in> set flags then Hook_Exact else Hook_Absent)"

definition classify_hook_document :: "pyval \<Rightarrow> string \<Rightarrow> hook_host \<Rightarrow> hook_state" where
  "classify_hook_document document matcher host =
     (case document of
        VDict d \<Rightarrow>
          (case map_of d ''hooks'' of
             None \<Rightarrow> Hook_Absent
           | Some (VDict hooks) \<Rightarrow>
               (case map_of hooks ''PreToolUse'' of
                  None \<Rightarrow> Hook_Absent
                | Some (VList entries) \<Rightarrow> classify_entries matcher host entries
                | Some _ \<Rightarrow> Hook_Malformed)
           | Some _ \<Rightarrow> Hook_Malformed)
      | _ \<Rightarrow> Hook_Malformed)"

section \<open>An exact hook is the installed one, alone\<close>

text \<open>The handlers of an entry of a well-formed document.\<close>

definition entry_handlers :: "pyval \<Rightarrow> pyval list" where
  "entry_handlers entry =
     (case entry of VDict d \<Rightarrow> (case dict_get d ''hooks'' VNone of VList hs \<Rightarrow> hs | _ \<Rightarrow> []) | _ \<Rightarrow> [])"

lemma classify_entry_exact: "classify_entry matcher host e = Hook_Exact \<Longrightarrow> is_managed_hook_entry e matcher"
  by (auto simp: classify_entry_def split: pyval.splits if_splits)

lemma classify_entry_absent: "classify_entry matcher host e = Hook_Absent \<Longrightarrow> \<not> list_ex runs_gate (entry_handlers e)"
  by (auto simp: classify_entry_def entry_handlers_def split: pyval.splits if_splits)

text \<open>When the document is classified as exact, an installed entry is there, and the gate is called by installed
  entries only, so nothing has to be changed and nothing of the user would be overwritten.\<close>

theorem exact_hook_is_ours_alone:
  assumes "classify_hook_document document matcher host = Hook_Exact"
  shows "\<exists>d hooks entries. document = VDict d \<and> map_of d ''hooks'' = Some (VDict hooks)
    \<and> map_of hooks ''PreToolUse'' = Some (VList entries)
    \<and> (\<exists>e \<in> set entries. is_managed_hook_entry e matcher)
    \<and> (\<forall>e \<in> set entries. list_ex runs_gate (entry_handlers e) \<longrightarrow> is_managed_hook_entry e matcher)"
proof -
  obtain d hooks entries where parts: "document = VDict d" "map_of d ''hooks'' = Some (VDict hooks)"
      "map_of hooks ''PreToolUse'' = Some (VList entries)" "classify_entries matcher host entries = Hook_Exact"
    using assms by (auto simp: classify_hook_document_def split: pyval.splits option.splits)
  let ?flags = "classify_entry matcher host ` set entries"
  have flags: "Hook_Malformed \<notin> ?flags" "Hook_Conflicting \<notin> ?flags" "Hook_Exact \<in> ?flags"
    using parts(4) by (auto simp: classify_entries_def Let_def split: if_splits)
  have "is_managed_hook_entry e matcher" if "e \<in> set entries" "list_ex runs_gate (entry_handlers e)" for e
    using flags(1,2) that classify_entry_exact classify_entry_absent by (cases "classify_entry matcher host e") force+
  moreover have "\<exists>e \<in> set entries. is_managed_hook_entry e matcher"
    using flags(3) by (metis imageE classify_entry_exact)
  ultimately show ?thesis using parts(1-3) by blast
qed

end
