(* ===== verification/Pebra_Guidance.thy ===== *)
theory Pebra_Guidance
  imports Pebra_Gate_Check Pebra_Assess_Controller
begin

text \<open>
  The binding part of the guidance packet, which the pre-edit gate and the verification read back:
  \<open>pebra/core/model_guidance.py\<close> up to the advisory wording, with \<open>pebra/core/high_risk_controls.py\<close>, which
  selects the controls of a high-risk envelope. \<open>pebra/core/weight_resolver.py\<close> is here as well.
\<close>

section \<open>Controls\<close>

definition BLUEPRINTS :: "(string \<times> string \<times> string list) list" where
  "BLUEPRINTS =
     [(''payment_side_effect'', ''payment_change'',
         [''sandbox_payment_tests'', ''idempotency_evidence'', ''reconciliation_baseline'']),
      (''external_state_write'', ''external_state_change'',
         [''dry_run_preview'', ''rollback_plan'', ''reconciliation_baseline'']),
      (''migration_side_effect'', ''schema_migration'',
         [''reversible_migration_proof'', ''backup_evidence'', ''staging_apply'']),
      (''architecture_anchor_behavioral_change'', ''broad_god_node_behavioral_edit'',
         [''targeted_tests'', ''impact_preview'']),
      (''public_api_contract_change'', ''api_contract_change'', [''consumer_impact_review'', ''contract_tests''])]"

definition DEFAULT_CONTROLS :: "string list" where
  "DEFAULT_CONTROLS = [''human_review'', ''impact_preview'']"

record control_selection =
  ct_required_controls :: "string list"
  ct_control_blueprint_ids :: "string list"

definition add_new :: "string list \<Rightarrow> string list \<Rightarrow> string list" where
  "add_new new xs = fold (\<lambda>c acc. if c \<in> set acc then acc else acc @ [c]) new xs"

text \<open>A list or an object as the risk class cannot be looked up in a dictionary.\<close>

definition select_control :: "pyval \<Rightarrow> control_selection \<Rightarrow> control_selection res" where
  "select_control trigger sel =
     rbind (as_dict trigger) (\<lambda>d.
       case dict_get d ''risk_class'' (VStr []) of
         VList _ \<Rightarrow> Inl (TypeError ''unhashable type'')
       | VDict _ \<Rightarrow> Inl (TypeError ''unhashable type'')
       | risk_class \<Rightarrow>
           (case (case risk_class of VStr c \<Rightarrow> map_of BLUEPRINTS c | _ \<Rightarrow> None) of
              None \<Rightarrow> Inr (sel\<lparr>ct_required_controls := add_new DEFAULT_CONTROLS (ct_required_controls sel)\<rparr>)
            | Some (bp_id, bp_controls) \<Rightarrow>
                Inr (sel\<lparr>ct_control_blueprint_ids := add_new [bp_id] (ct_control_blueprint_ids sel),
                         ct_required_controls := add_new bp_controls (ct_required_controls sel)\<rparr>)))"

fun select_controls_from :: "pyval list \<Rightarrow> control_selection \<Rightarrow> control_selection res" where
  "select_controls_from [] sel = Inr sel"
| "select_controls_from (t # ts) sel = rbind (select_control t sel) (select_controls_from ts)"

definition select_controls :: "pyval list \<Rightarrow> control_selection res" where
  "select_controls triggers = select_controls_from triggers \<lparr>ct_required_controls = [], ct_control_blueprint_ids = []\<rparr>"

section \<open>The packet\<close>

definition risky_change :: "string \<Rightarrow> string \<Rightarrow> pyval" where
  "risky_change change signal =
     VDict [(''change'', VStr change), (''action'', VStr ''requires_reassessment''), (''signal'', VStr signal)]"

definition DEFAULT_RISKY_SCOPE :: "pyval list" where
  "DEFAULT_RISKY_SCOPE =
     [risky_change ''public API changes'' ''contract_change'', risky_change ''dependency upgrades'' ''dependency_changed'',
      risky_change ''schema changes'' ''schema_changed'']"

definition guidance_scope :: "candidate_action \<Rightarrow> string list" where
  "guidance_scope action = add_new (ca_expected_files action) (ca_affected_symbols action)"

definition required_checks_for :: "decision \<Rightarrow> candidate_action \<Rightarrow> string list" where
  "required_checks_for d action =
     (if d \<in> {TEST_FIRST, PROCEED} \<and> ca_expected_files action \<noteq> []
      then [''run targeted tests for the touched scope before commit''] else [])"

definition binding_part :: "decision \<Rightarrow> candidate_action \<Rightarrow> string list \<Rightarrow> pyval dict option \<Rightarrow> pyval dict" where
  "binding_part d action controls candidate =
     [(''safe_scope'', VDict [(''files'', vstrs (guidance_scope action)),
         (''edit_policy'', VStr ''smallest_sufficient_edit; no broad refactor'')]),
      (''risky_scope'', VList DEFAULT_RISKY_SCOPE),
      (''required_checks_before_commit'', vstrs (required_checks_for d action)),
      (''required_controls'', vstrs controls),
      (''requires_dry_run'', VBool (ca_is_dependency_change action))]
     @ (case candidate of None \<Rightarrow> [] | Some b \<Rightarrow> [(''candidate'', VDict b)])"

text \<open>The packet of a result without its advisory and provenance entries; \<open>candidate\<close> is what
  \<open>_score_prepared_input\<close> adds to the binding.\<close>

definition guidance_packet :: "assessment_result \<Rightarrow> candidate_action \<Rightarrow> pyval dict option \<Rightarrow> pyval dict res" where
  "guidance_packet result action candidate =
     rbind (select_controls (re_high_risk_triggers result)) (\<lambda>selection.
       Inr [(''guidance_packet_id'', VStr (''gp_'' @ ca_id action)),
            (''decision'', VStr (decision_value (re_recommended_decision result))),
            (''risk_mode'', VStr (risk_mode_value (re_risk_mode result))),
            (''binding'', VDict (binding_part (re_recommended_decision result) action
               (ct_required_controls selection) candidate))])"

section \<open>Weights\<close>

record resolved_weights =
  rw_weights :: "real dict"
  rw_source :: string
  rw_missing :: "string list"
  rw_rescaled :: bool

text \<open>The two warnings are the missing criteria and whether the sum was off.\<close>

definition resolve_weights :: "real dict option \<Rightarrow> string list \<Rightarrow> resolved_weights res" where
  "resolve_weights weights criteria =
     (if criteria = [] then Inl (ValueError ''at least one criterion is required'')
      else case weights of
        None \<Rightarrow>
          Inr \<lparr>rw_weights = map (\<lambda>c. (c, 1 / real (length criteria))) (dedupe criteria), rw_source = ''cold_start'',
               rw_missing = [], rw_rescaled = False\<rparr>
      | Some ws \<Rightarrow>
          if list_ex (\<lambda>(_, v). v < 0) ws then Inl (ValueError ''negative weight'')
          else
            let resolved = map (\<lambda>c. (c, dict_get ws c 0)) (dedupe criteria);
                sum = sum_list (map snd resolved)
            in if sum \<le> 1 / 10 ^ 9 then Inl (ValueError ''weights sum to zero; cannot normalize'')
               else Inr \<lparr>rw_weights = map (\<lambda>(c, v). (c, v / sum)) resolved, rw_source = ''provided'',
                         rw_missing = filter (\<lambda>c. \<not> dict_has ws c) criteria,
                         rw_rescaled = (\<bar>sum - 1\<bar> > 1 / 10 ^ 6)\<rparr>)"

lemma sum_list_scaled: "sum_list (map (\<lambda>x. f x / c) xs) = sum_list (map f xs) / (c :: real)"
  by (induction xs) (simp_all add: add_divide_distrib)

text \<open>Provided weights are normalized: they are not negative and sum to one, whatever was missing.\<close>

theorem provided_weights_sum_to_one:
  assumes "resolve_weights (Some ws) criteria = Inr r"
  shows "sum_list (map snd (rw_weights r)) = 1 \<and> map fst (rw_weights r) = dedupe criteria
    \<and> (\<forall>(c, w) \<in> set (rw_weights r). 0 \<le> w)"
proof -
  let ?resolved = "map (\<lambda>c. (c, dict_get ws c 0)) (dedupe criteria)"
  let ?sum = "sum_list (map snd ?resolved)"
  have parts: "\<not> list_ex (\<lambda>(_, v). v < 0) ws" "\<not> ?sum \<le> 1 / 10 ^ 9"
      "rw_weights r = map (\<lambda>(c, v). (c, v / ?sum)) ?resolved"
    using assms by (auto simp: resolve_weights_def Let_def split: if_splits)
  have pos: "0 < ?sum"
  proof -
    have "(0 :: real) < 1 / 10 ^ 9" by simp
    also have "\<dots> < ?sum" using parts(2) by (rule not_le_imp_less)
    finally show ?thesis .
  qed
  have nonneg: "0 \<le> dict_get ws c 0" for c
  proof (cases "map_of ws c")
    case (Some v)
    then have "(c, v) \<in> set ws" by (rule map_of_SomeD)
    with parts(1) have "\<not> v < 0" by (fastforce simp: list_ex_iff)
    with Some show ?thesis by (simp add: dict_get_def)
  qed (simp add: dict_get_def)
  have "sum_list (map snd (rw_weights r)) = ?sum / ?sum"
    unfolding parts(3) by (simp add: o_def case_prod_beta sum_list_scaled)
  moreover have "map fst (rw_weights r) = dedupe criteria" by (simp add: parts(3) o_def)
  moreover have "\<forall>(c, w) \<in> set (rw_weights r). 0 \<le> w" using pos nonneg by (auto simp: parts(3))
  ultimately show ?thesis using pos by simp
qed

section \<open>The gate reads the scope and the binding that were published\<close>

lemma set_add_new [simp]: "set (add_new new xs) = set xs \<union> set new"
  unfolding add_new_def by (induction new arbitrary: xs) auto

lemma filter_paths_vstrs: "filter_path_entries (map VStr fs) = filter (\<lambda>f. \<not> contains f ''::'') fs"
  by (induction fs) (simp_all add: filter_path_entries_def)

lemma published_candidate:
  assumes "candidate_binding after = Some candidate" and "after \<noteq> []"
  shows "\<exists>files. candidate = [(''algorithm'', VStr CANDIDATE_BINDING_ALGORITHM), (''files'', VDict files)] \<and> files \<noteq> []
    \<and> list_all (\<lambda>(path, digest). case digest of VStr h \<Rightarrow> is_sha256_digest h | _ \<Rightarrow> False) files"
proof -
  obtain files where f: "candidate = binding_of_files files" "set files = (\<lambda>(rel, t). (slashes rel, content_digest t)) ` set after"
    using candidate_binding_files [OF assms(1)] by blast
  have "files \<noteq> []" using f(2) assms(2) by auto
  moreover have "is_sha256_digest d" if "(p, d) \<in> set files" for p d
    using that by (auto simp: f(2) content_digest_def sha256_hex_is_digest)
  ultimately show ?thesis by (auto simp: f(1) binding_of_files_def list_all_iff)
qed

text \<open>The envelope that was published is the one that is enforced. When a stored document carries the packet of
  a result, the gate finds in it as covered files exactly the published scope without symbol names, every
  expected file among them, and as binding exactly the binding of the assessed contents.\<close>

theorem published_envelope_is_enforced:
  assumes "guidance_packet result action (Some candidate) = Inr packet"
    and "candidate_binding after = Some candidate" and "after \<noteq> []"
    and "js_loads codec (content_text row) = Inr (VDict content)"
    and "dict_get content ''model_guidance_packet'' VNone = VDict stored_packet"
    and "dict_get stored_packet ''binding'' VNone = dict_get packet ''binding'' VNone"
  shows "safe_scope_files (VDict content) = Inr (filter (\<lambda>f. \<not> contains f ''::'') (guidance_scope action))
    \<and> (\<forall>f \<in> set (ca_expected_files action). \<not> contains f ''::'' \<longrightarrow>
          f \<in> set (filter (\<lambda>f. \<not> contains f ''::'') (guidance_scope action)))
    \<and> row_candidate_binding codec row = Some candidate"
proof -
  obtain selection where "select_controls (re_high_risk_triggers result) = Inr selection"
    using assms(1) by (auto simp: guidance_packet_def rbind_Inr_iff)
  with assms(1) have packet: "dict_get packet ''binding'' VNone
      = VDict (binding_part (re_recommended_decision result) action (ct_required_controls selection) (Some candidate))"
    by (auto simp: guidance_packet_def dict_get_def)
  have nonempty: "stored_packet \<noteq> []" using assms(6) packet by (auto simp: dict_get_def)
  have bound: "guidance_binding (VDict content)
      = Inr (VDict (binding_part (re_recommended_decision result) action (ct_required_controls selection) (Some candidate)))"
    using nonempty
    by (simp add: guidance_binding_def get_or_empty_def as_dict_def or_else_def assms(5,6) packet binding_part_def)
  have scope: "safe_scope_files (VDict content) = Inr (filter (\<lambda>f. \<not> contains f ''::'') (guidance_scope action))"
  proof (cases "guidance_scope action = []")
    case True
    then show ?thesis
      by (simp add: safe_scope_files_def bound binding_part_def get_or_empty_def as_dict_def or_else_def dict_get_def
          filter_path_entries_def)
  next
    case False
    then show ?thesis
      by (simp add: safe_scope_files_def bound binding_part_def get_or_empty_def as_dict_def or_else_def dict_get_def
          filter_paths_vstrs)
  qed
  obtain files where files: "candidate = [(''algorithm'', VStr CANDIDATE_BINDING_ALGORITHM), (''files'', VDict files)]" "files \<noteq> []"
      "list_all (\<lambda>(path, digest). case digest of VStr h \<Rightarrow> is_sha256_digest h | _ \<Rightarrow> False) files"
    using published_candidate [OF assms(2,3)] by blast
  have "dict_get (binding_part d action controls (Some candidate)) ''candidate'' VNone = VDict candidate" for d controls
    by (simp add: binding_part_def dict_get_def)
  then have "row_candidate_binding codec row = Some candidate"
    using files by (simp add: row_candidate_binding_def assms(4) bound as_dict_def)
  with scope show ?thesis by (auto simp: guidance_scope_def)
qed

lemma published_envelope_is_enforced_witness:
  "\<exists>packet content. guidance_packet (sa_result (sample_scored ''i'' 0 PROCEED)) sample_patchless_action
        (Some (binding_of_files [(''a'', content_digest (Some ''y''))])) = Inr packet
    \<and> content = [(''model_guidance_packet'', VDict packet)]
    \<and> row_candidate_binding (tiny_codec\<lparr>js_loads := (\<lambda>_. Inr (VDict content))\<rparr>) (tiny_row 3 ''proceed'')
        = Some (binding_of_files [(''a'', content_digest (Some ''y''))])"
proof -
  let ?b = "binding_of_files [(''a'', content_digest (Some ''y''))]"
  have a: "slashes ''a'' = ''a''" by code_simp
  have b: "candidate_binding [(''a'', Some ''y'')] = Some ?b" by (simp add: candidate_binding_def dict_has_def a)
  obtain packet where p: "guidance_packet (sa_result (sample_scored ''i'' 0 PROCEED)) sample_patchless_action (Some ?b) = Inr packet"
    by (simp add: guidance_packet_def select_controls_def sample_scored_def)
  let ?content = "[(''model_guidance_packet'', VDict packet)]"
  have c: "dict_get ?content ''model_guidance_packet'' VNone = VDict packet" by (simp add: dict_get_def)
  have l: "js_loads (tiny_codec\<lparr>js_loads := (\<lambda>_. Inr (VDict ?content))\<rparr>) (content_text (tiny_row 3 ''proceed'')) = Inr (VDict ?content)"
    by simp
  have "row_candidate_binding (tiny_codec\<lparr>js_loads := (\<lambda>_. Inr (VDict ?content))\<rparr>) (tiny_row 3 ''proceed'') = Some ?b"
    using published_envelope_is_enforced [OF p b _ l c refl] by blast
  with p show ?thesis by blast
qed

end
