(* ===== verification/Pebra_Assessment_History.thy ===== *)
theory Pebra_Assessment_History
  imports Pebra_Gate_Check
begin

text \<open>
  \<open>pebra/core/assessment_history.py\<close>: which task, action, files and candidate a stored assessment is shown
  with. Strings are UTF-8, so \<open>_utf8_encodable\<close> always holds; a mapping is an object of JSON. The canonical
  text of a binding, \<open>json.dumps\<close> with sorted keys, is an argument.
\<close>

datatype target_provenance = Candidate_Bound | Declared | Legacy_Guidance | Legacy_Graph | Provenance_Unavailable

fun target_provenance_value :: "target_provenance \<Rightarrow> string" where
  "target_provenance_value Candidate_Bound = ''candidate_bound''"
| "target_provenance_value Declared = ''declared''"
| "target_provenance_value Legacy_Guidance = ''legacy_guidance''"
| "target_provenance_value Legacy_Graph = ''legacy_graph''"
| "target_provenance_value Provenance_Unavailable = ''unavailable''"

record assessment_history_identity =
  hi_task :: "string option"
  hi_action_id :: "string option"
  hi_declared_files :: "string list"
  hi_bound_files :: "string list"
  hi_target_files :: "string list"
  hi_target_provenance :: target_provenance
  hi_candidate_fingerprint :: "string option"
  hi_assessed_at :: "string option"

definition label_of :: "pyval \<Rightarrow> string option" where
  "label_of value = (case value of VStr s \<Rightarrow> if s = [] then None else Some s | _ \<Rightarrow> None)"

section \<open>The time of an assessment\<close>

definition digits_value :: "string \<Rightarrow> nat option" where
  "digits_value s = (if list_all is_digit s then Some (number_of_digits 10 s) else None)"

definition days_in_month :: "nat \<Rightarrow> nat \<Rightarrow> nat" where
  "days_in_month year month =
     (if month = 2 then (if year mod 4 = 0 \<and> (year mod 100 \<noteq> 0 \<or> year mod 400 = 0) then 29 else 28)
      else if month \<in> {4, 6, 9, 11} then 30 else 31)"

text \<open>The texts \<open>YYYY-MM-DDTHH:MM:SS[.ffffff]+00:00\<close> that \<open>datetime.fromisoformat\<close> reads.\<close>

definition timestamp_ok :: "string \<Rightarrow> bool" where
  "timestamp_ok s =
     (let tail = drop 19 s
      in length s \<ge> 25 \<and> s ! 4 = CHR ''-'' \<and> s ! 7 = CHR ''-'' \<and> s ! 10 = CHR ''T'' \<and> s ! 13 = CHR '':'' \<and> s ! 16 = CHR '':''
         \<and> (tail = ''+00:00''
            \<or> length tail = 13 \<and> hd tail = CHR ''.'' \<and> list_all is_digit (take 6 (drop 1 tail)) \<and> drop 7 tail = ''+00:00'')
         \<and> (case (digits_value (take 4 s), digits_value (take 2 (drop 5 s)), digits_value (take 2 (drop 8 s)),
                   digits_value (take 2 (drop 11 s)), digits_value (take 2 (drop 14 s)), digits_value (take 2 (drop 17 s))) of
              (Some year, Some month, Some day, Some hour, Some minute, Some second) \<Rightarrow>
                1 \<le> year \<and> 1 \<le> month \<and> month \<le> 12 \<and> 1 \<le> day \<and> day \<le> days_in_month year month
                \<and> hour < 24 \<and> minute < 60 \<and> second < 60
            | _ \<Rightarrow> False))"

definition assessed_at_of :: "pyval \<Rightarrow> string option" where
  "assessed_at_of value =
     (case label_of value of None \<Rightarrow> None | Some timestamp \<Rightarrow> if timestamp_ok timestamp then Some timestamp else None)"

section \<open>Files\<close>

definition display_paths :: "string list \<Rightarrow> string list" where
  "display_paths values = dedupe (map slashes (filter (\<lambda>v. v \<noteq> [] \<and> \<not> contains v ''::'') values))"

definition file_path_record :: "bool \<Rightarrow> pyval \<Rightarrow> pyval" where
  "file_path_record allow value =
     (case value of VDict d \<Rightarrow> if allow then dict_get d ''file_path'' VNone else value | _ \<Rightarrow> value)"

definition paths_of :: "bool \<Rightarrow> pyval \<Rightarrow> string list" where
  "paths_of allow_file_path_records values =
     (case values of
        VList vs \<Rightarrow>
          display_paths (concat (map (\<lambda>v. case file_path_record allow_file_path_records v of VStr s \<Rightarrow> [s] | _ \<Rightarrow> []) vs))
      | _ \<Rightarrow> [])"

definition bound_file_ok :: "string \<times> pyval \<Rightarrow> bool" where
  "bound_file_ok f =
     (case f of (path, digest) \<Rightarrow>
        path \<noteq> [] \<and> \<not> contains path ''::'' \<and> (case digest of VStr h \<Rightarrow> is_sha256_digest h | _ \<Rightarrow> False))"

definition candidate_identity :: "(pyval dict \<Rightarrow> string) \<Rightarrow> pyval \<Rightarrow> string list \<times> string option" where
  "candidate_identity dumps binding =
     (case binding of
        VDict b \<Rightarrow>
          if dict_get b ''algorithm'' VNone \<noteq> VStr CANDIDATE_BINDING_ALGORITHM then ([], None)
          else (case dict_get b ''files'' VNone of
                  VDict files \<Rightarrow>
                    if files = [] \<or> \<not> list_all bound_file_ok files then ([], None)
                    else (display_paths (map fst files), Some (sha256_hex (dumps b)))
                | _ \<Rightarrow> ([], None))
      | _ \<Rightarrow> ([], None))"

section \<open>The projection\<close>

definition history_target :: "string list \<Rightarrow> bool \<Rightarrow> string list \<Rightarrow> string list \<Rightarrow> string list \<Rightarrow> string list \<times> target_provenance" where
  "history_target bound declared_scope_present declared legacy_guidance legacy_graph =
     (if bound \<noteq> [] then (bound, Candidate_Bound)
      else if declared_scope_present then (declared, if declared \<noteq> [] then Declared else Provenance_Unavailable)
      else if legacy_guidance \<noteq> [] then (legacy_guidance, Legacy_Guidance)
      else if legacy_graph \<noteq> [] then (legacy_graph, Legacy_Graph)
      else ([], Provenance_Unavailable))"

definition project_assessment_identity :: "(pyval dict \<Rightarrow> string) \<Rightarrow> pyval dict \<Rightarrow> assessment_history_identity" where
  "project_assessment_identity dumps content =
     (let sub = (\<lambda>d k. dict_or_empty (dict_get d k VNone));
          request = sub content ''request'';
          binding = sub (sub content ''model_guidance_packet'') ''binding'';
          (bound_files, fingerprint) = candidate_identity dumps (dict_get binding ''candidate'' VNone);
          revision_envelope = sub request ''revision_envelope'';
          declared_files = paths_of False (dict_get revision_envelope ''expected_files'' VNone);
          safe_scope = sub binding ''safe_scope'';
          legacy_guidance = dedupe (paths_of False (dict_get safe_scope ''files'' VNone)
            @ paths_of True (dict_get safe_scope ''symbols'' VNone));
          legacy_graph = paths_of False
            (dict_get (sub (sub (sub content ''scores'') ''symbol_scope_evidence'') ''symbol_fanin'') ''resolved_file_paths'' VNone);
          (target_files, provenance) = history_target bound_files (dict_has revision_envelope ''expected_files'') declared_files
            legacy_guidance legacy_graph
      in \<lparr>hi_task = label_of (dict_get request ''task'' VNone), hi_action_id = label_of (dict_get request ''action_id'' VNone),
          hi_declared_files = declared_files, hi_bound_files = bound_files, hi_target_files = target_files,
          hi_target_provenance = provenance, hi_candidate_fingerprint = fingerprint,
          hi_assessed_at = assessed_at_of (dict_get content ''assessed_at'' VNone)\<rparr>)"

section \<open>What is shown as bound is what the gate compares\<close>

lemma candidate_identity_bound:
  "candidate_identity dumps v = (fs, Some h) \<Longrightarrow>
     \<exists>b files. v = VDict b \<and> dict_get b ''algorithm'' VNone = VStr CANDIDATE_BINDING_ALGORITHM
       \<and> dict_get b ''files'' VNone = VDict files \<and> files \<noteq> [] \<and> list_all bound_file_ok files
       \<and> fs = display_paths (map fst files)"
  by (auto simp: candidate_identity_def split: pyval.splits if_splits)

lemma bound_paths_kept:
  "list_all bound_file_ok files \<Longrightarrow> filter (\<lambda>v. v \<noteq> [] \<and> \<not> contains v ''::'') (map fst files) = map fst files"
  by (induction files) (auto simp: bound_file_ok_def)

lemma set_display_paths:
  "list_all bound_file_ok files \<Longrightarrow> set (display_paths (map fst files)) = slashes ` fst ` set files"
  unfolding display_paths_def by (simp only: bound_paths_kept set_dedupe set_map)

lemma dict_or_empty_nonempty: "dict_or_empty v \<noteq> [] \<Longrightarrow> v = VDict (dict_or_empty v)"
  by (cases v) (simp_all add: dict_or_empty_def)

lemma bound_digests:
  "list_all bound_file_ok files \<Longrightarrow>
     list_all (\<lambda>(path, digest). case digest of VStr h \<Rightarrow> is_sha256_digest h | _ \<Rightarrow> False) files"
  by (auto simp: list_all_iff bound_file_ok_def)

text \<open>An assessment that is shown with a candidate fingerprint is bound for the gate, to the files it is shown with.\<close>

theorem shown_candidate_is_the_enforced_one:
  assumes "js_loads codec (content_text row) = Inr (VDict content)"
    and "hi_candidate_fingerprint (project_assessment_identity dumps content) = Some h"
  shows "\<exists>files. row_candidate_binding codec row
      = Some [(''algorithm'', VStr CANDIDATE_BINDING_ALGORITHM), (''files'', VDict files)]
    \<and> set (hi_bound_files (project_assessment_identity dumps content)) = slashes ` fst ` set files
    \<and> hi_target_provenance (project_assessment_identity dumps content) = Candidate_Bound"
proof -
  let ?sub = "\<lambda>d k. dict_or_empty (dict_get d k VNone)"
  let ?binding = "?sub (?sub content ''model_guidance_packet'') ''binding''"
  let ?candidate = "dict_get ?binding ''candidate'' VNone"
  obtain fs where ci: "candidate_identity dumps ?candidate = (fs, Some h)"
    and shown: "hi_bound_files (project_assessment_identity dumps content) = fs"
    using assms(2) by (auto simp: project_assessment_identity_def Let_def split: prod.splits)
  obtain b files where b: "?candidate = VDict b" "dict_get b ''algorithm'' VNone = VStr CANDIDATE_BINDING_ALGORITHM"
      "dict_get b ''files'' VNone = VDict files" "files \<noteq> []" "list_all bound_file_ok files" "fs = display_paths (map fst files)"
    using candidate_identity_bound [OF ci] by blast
  have files: "set fs = slashes ` fst ` set files" by (simp add: b(6) set_display_paths [OF b(5)])
  have "fs \<noteq> []" using files b(4) by force
  then have prov: "hi_target_provenance (project_assessment_identity dumps content) = Candidate_Bound"
    using ci by (simp add: project_assessment_identity_def Let_def history_target_def split: prod.splits)
  let ?packet = "?sub content ''model_guidance_packet''"
  have bound: "?binding \<noteq> []" using b(1) by (auto simp: dict_get_def)
  from dict_or_empty_nonempty [OF this] have p2: "dict_get ?packet ''binding'' VNone = VDict ?binding" .
  then have "?packet \<noteq> []" by (auto simp: dict_get_def)
  from dict_or_empty_nonempty [OF this] have p1: "dict_get content ''model_guidance_packet'' VNone = VDict ?packet" .
  obtain packet bd where p: "dict_get content ''model_guidance_packet'' VNone = VDict packet" "packet \<noteq> []"
      "dict_get packet ''binding'' VNone = VDict bd" "bd \<noteq> []" "bd = ?binding"
    using p1 p2 \<open>?packet \<noteq> []\<close> bound by blast
  have "guidance_binding (VDict content) = Inr (VDict bd)"
    by (simp add: guidance_binding_def get_or_empty_def as_dict_def or_else_def p(1-4))
  then have "row_candidate_binding codec row
      = Some [(''algorithm'', VStr CANDIDATE_BINDING_ALGORITHM), (''files'', VDict files)]"
    using b(1-4) bound_digests [OF b(5)] by (simp add: row_candidate_binding_def assms(1) as_dict_def p(5) [symmetric])
  with files shown prov show ?thesis by blast
qed

end
