(* ===== verification/Pebra_Evidence_Merge.thy ===== *)
theory Pebra_Evidence_Merge
  imports Pebra_Models Pebra_Score_Math Pebra_Fnmatch
begin

text \<open>
  Where the evidence of an assessment comes from: \<open>pebra/adapters/request_evidence.py\<close> reads the block the caller
  supplied, \<open>pebra/adapters/bandit_adapter.py\<close> turns security findings into an event, and
  \<open>pebra/adapters/evidence_merge.py\<close> merges both with the configuration (\<open>pebra/ports/config_port.py\<close>), as
  \<open>pebra/adapters/composite_evidence.py\<close> wires them. The bandit process, the measured benefit, the architecture
  map and the resolution of paths are arguments. A value of another type than the records of the model have
  is an error here; Python carries it on to where it is used.
\<close>

section \<open>Configuration\<close>

record criticality_glob =
  gb_pattern :: string
  gb_stage :: string

record policy_rule =
  ru_pattern :: string
  ru_violation :: string

record pebra_config =
  cf_criticality_globs :: "criticality_glob list"
  cf_policy_rules :: "policy_rule list"
  cf_thresholds :: "real dict"
  cf_strict_mode :: bool

definition default_config :: pebra_config where
  "default_config = \<lparr>cf_criticality_globs = [], cf_policy_rules = [], cf_thresholds = [], cf_strict_mode = False\<rparr>"

section \<open>The evidence of the request\<close>

definition foreign :: "'a res" where
  "foreign = Inl (TypeError ''value outside the typed evidence'')"

definition evidence_real :: "pyval \<Rightarrow> real res" where
  "evidence_real v = (case v of VInt i \<Rightarrow> Inr (of_int i) | VFloat (Fin x) \<Rightarrow> Inr x | _ \<Rightarrow> foreign)"

definition evidence_opt_real :: "pyval \<Rightarrow> real option res" where
  "evidence_opt_real v = (case v of VNone \<Rightarrow> Inr None | _ \<Rightarrow> rbind (evidence_real v) (\<lambda>x. Inr (Some x)))"

definition evidence_str :: "pyval \<Rightarrow> string res" where
  "evidence_str v = (case v of VStr s \<Rightarrow> Inr s | _ \<Rightarrow> foreign)"

definition evidence_opt_str :: "pyval \<Rightarrow> string option res" where
  "evidence_opt_str v = (case v of VNone \<Rightarrow> Inr None | VStr s \<Rightarrow> Inr (Some s) | _ \<Rightarrow> foreign)"

definition evidence_dict :: "pyval \<Rightarrow> pyval dict res" where
  "evidence_dict v = (case v of VDict d \<Rightarrow> Inr d | _ \<Rightarrow> foreign)"

fun evidence_reals :: "pyval dict \<Rightarrow> real dict res" where
  "evidence_reals [] = Inr []"
| "evidence_reals ((k, v) # d) = rbind (evidence_real v) (\<lambda>x. rbind (evidence_reals d) (\<lambda>xs. Inr ((k, x) # xs)))"

fun evidence_strs :: "pyval list \<Rightarrow> string list res" where
  "evidence_strs [] = Inr []"
| "evidence_strs (v # vs) = rbind (evidence_str v) (\<lambda>s. rbind (evidence_strs vs) (\<lambda>ss. Inr (s # ss)))"

definition evidence_floor :: "pyval \<Rightarrow> pyfloat option res" where
  "evidence_floor v =
     (case v of VNone \<Rightarrow> Inr None | VInt i \<Rightarrow> Inr (Some (Fin (of_int i))) | VFloat x \<Rightarrow> Inr (Some x) | _ \<Rightarrow> foreign)"

text \<open>One event row. The key \<open>graph_risk_update\<close> is written by the refinement only.\<close>

definition event_of_row :: "pyval \<Rightarrow> risk_event res" where
  "event_of_row v =
     rbind (evidence_dict v) (\<lambda>d.
     rbind (evidence_str (dict_get d ''event'' VNone)) (\<lambda>event.
     rbind (evidence_real (dict_get d ''p_event'' VNone)) (\<lambda>p.
     rbind (evidence_real (dict_get d ''elicited_disutility'' VNone)) (\<lambda>disutility.
     rbind (evidence_opt_str (dict_get d ''probability_source_type'' VNone)) (\<lambda>p_source.
     rbind (evidence_opt_str (dict_get d ''disutility_source_type'' VNone)) (\<lambda>d_source.
     rbind (evidence_opt_str (dict_get d ''risk_source'' VNone)) (\<lambda>source.
     rbind (case dict_get d ''owner_node_ids'' (VList []) of VList vs \<Rightarrow> evidence_strs vs | _ \<Rightarrow> foreign) (\<lambda>owners.
     rbind (evidence_floor (dict_get d ''independent_probability_floor'' VNone)) (\<lambda>floor.
       if dict_has d ''graph_risk_update'' then foreign
       else Inr \<lparr>ev_event = event, ev_p_event = p, ev_elicited_disutility = disutility,
                 ev_probability_source_type = p_source, ev_disutility_source_type = d_source, ev_risk_source = source,
                 ev_owner_node_ids = owners, ev_independent_probability_floor = floor,
                 ev_graph_risk_update = None\<rparr>)))))))))"

fun events_of_rows :: "pyval list \<Rightarrow> risk_event list res" where
  "events_of_rows [] = Inr []"
| "events_of_rows (v # vs) = rbind (event_of_row v) (\<lambda>e. rbind (events_of_rows vs) (\<lambda>es. Inr (e # es)))"

definition request_benefit :: "pyval dict \<Rightarrow> benefit_delta_evidence res" where
  "request_benefit raw =
     rbind (evidence_str (dict_get raw ''scope'' (VStr []))) (\<lambda>scope.
     rbind (evidence_str (dict_get raw ''source_type'' (VStr ''projected''))) (\<lambda>source_type.
     rbind (evidence_dict (dict_get raw ''deltas'' (VDict []))) (\<lambda>deltas.
       Inr (default_benefit_delta\<lparr>bd_scope := scope, bd_source_type := source_type, bd_deltas := deltas,
              bd_future_change_exposure := dict_get raw ''future_change_exposure'' (vreal 0),
              bd_future_change_exposure_explicit := dict_has raw ''future_change_exposure''\<rparr>))))"

definition COLD_START_FACTORS :: "real dict" where
  "COLD_START_FACTORS = map (\<lambda>f. (f, 0.5)) EDIT_CONFIDENCE_FACTORS"

text \<open>The criticality: a stage with its value from the map, unless the request gives a value of its own.\<close>

definition request_criticality :: "pyval dict \<Rightarrow> (string \<times> real) res" where
  "request_criticality evidence =
     rbind (evidence_str (dict_get evidence ''criticality_stage'' (VStr ''C2''))) (\<lambda>stage.
     rbind (evidence_real (dict_get evidence ''criticality_value'' (vreal (dict_get STAGE_MAP stage 0.5)))) (\<lambda>x.
       Inr (stage, x)))"

definition request_evidence :: "assessment_request \<Rightarrow> evidence_bundle res" where
  "request_evidence request =
     (let ev = ar_evidence request
      in rbind (request_criticality ev) (\<lambda>(stage, criticality_value).
         rbind (evidence_dict (dict_get ev ''benefit_delta_evidence'' (VDict [(''source_type'', VStr ''projected'')]))) (\<lambda>raw_benefit.
         rbind (request_benefit raw_benefit) (\<lambda>benefit.
         rbind (case dict_get ev ''events'' (VList []) of VList vs \<Rightarrow> events_of_rows vs | _ \<Rightarrow> foreign) (\<lambda>events.
         rbind (evidence_real (dict_get ev ''p_success'' (vreal 0.5))) (\<lambda>p_success.
         rbind (evidence_real (dict_get ev ''review_cost'' (vreal 0.2))) (\<lambda>review_cost.
         rbind (case dict_get ev ''edit_confidence_factors'' VNone of
                  VNone \<Rightarrow> (if dict_has ev ''edit_confidence_factors'' then foreign else Inr COLD_START_FACTORS)
                | v \<Rightarrow> rbind (evidence_dict v) evidence_reals) (\<lambda>factors.
         rbind (case dict_get ev ''variance_breakdown'' VNone of
                  VNone \<Rightarrow> Inr None
                | v \<Rightarrow> rbind (rbind (evidence_dict v) evidence_reals) (\<lambda>d. Inr (Some d))) (\<lambda>variances.
         rbind (evidence_opt_real (dict_get ev ''p_success_variance'' VNone)) (\<lambda>p_variance.
         rbind (evidence_opt_real (dict_get ev ''review_cost_variance'' VNone)) (\<lambda>cost_variance.
           Inr \<lparr>eb_events = events, eb_p_success = p_success,
                eb_immediate_benefit = dict_get ev ''immediate_benefit'' (vreal 0), eb_review_cost = review_cost,
                eb_criticality_stage = stage, eb_criticality_value = criticality_value,
                eb_edit_confidence_factors = factors, eb_thresholds = ar_thresholds request,
                eb_policy_violations = [], eb_variance_breakdown = variances, eb_p_success_variance = p_variance,
                eb_review_cost_variance = cost_variance, eb_benefit_delta_evidence = benefit,
                eb_architecture_evidence = default_architecture,
                eb_candidate_verification = default_candidate_verification\<rparr>)))))))))))"

section \<open>Security findings\<close>

definition SEVERITY_RANK :: "(string \<times> nat) list" where
  "SEVERITY_RANK = [(''LOW'', 1), (''MEDIUM'', 2), (''HIGH'', 3), (''CRITICAL'', 4)]"

definition HIGH_P_EVENT :: real where "HIGH_P_EVENT = 0.20"

definition SEVERITY_P_EVENT :: "real dict" where
  "SEVERITY_P_EVENT = [(''MEDIUM'', 0.08), (''HIGH'', HIGH_P_EVENT)]"

definition SECURITY_DISUTILITY :: real where "SECURITY_DISUTILITY = 0.80"

definition BANDIT_UNAVAILABLE_PENALTY :: real where "BANDIT_UNAVAILABLE_PENALTY = 0.15"

definition DEFAULT_TEST_PATTERNS :: "string list" where
  "DEFAULT_TEST_PATTERNS = [''tests/**'', ''test_*.py'', ''*_test.py'']"

definition is_test_file :: "string list \<Rightarrow> string \<Rightarrow> bool" where
  "is_test_file patterns rel =
     (starts_with rel ''tests/'' \<or> contains rel ''/tests/''
      \<or> list_ex (\<lambda>pat. fnmatch rel pat \<or> fnmatch (last (split_on (CHR ''/'') rel)) pat) patterns)"

text \<open>\<open>is_safe_relative\<close>: a path that starts with two separators has a drive; whether the path resolves inside the
  repository is an argument.\<close>

definition is_safe_relative :: "(string \<Rightarrow> bool) \<Rightarrow> string \<Rightarrow> bool" where
  "is_safe_relative inside rel =
     (if rel = [] \<or> starts_with (slashes rel) ''//'' \<or> CHR '':'' \<in> set rel then False
      else if starts_with rel ''/'' \<or> ''..'' \<in> set (split_on (CHR ''/'') rel) then False
      else inside rel)"

definition safe_relative_files :: "(string \<Rightarrow> bool) \<Rightarrow> string list \<Rightarrow> string list" where
  "safe_relative_files inside files = filter (is_safe_relative inside) files"

text \<open>\<open>str(r.get("issue_severity", "")).upper()\<close>; the text of a value that is not a string is no severity.\<close>

definition severity_text :: "pyval \<Rightarrow> string" where
  "severity_text r =
     (case r of VDict d \<Rightarrow> (case dict_get d ''issue_severity'' (VStr []) of VStr s \<Rightarrow> ascii_upper s | _ \<Rightarrow> []) | _ \<Rightarrow> [])"

definition severity_rank :: "string \<Rightarrow> nat" where
  "severity_rank s = (case map_of SEVERITY_RANK s of None \<Rightarrow> 0 | Some n \<Rightarrow> n)"

definition security_event :: "string list \<Rightarrow> risk_event" where
  "security_event severities =
     plain_event ''security_sensitive_change''
       (Max ((\<lambda>s. dict_get SEVERITY_P_EVENT s HIGH_P_EVENT) ` set severities)) SECURITY_DISUTILITY"

definition gather_security_events ::
  "(string \<Rightarrow> bool) \<Rightarrow> (string list \<Rightarrow> pyval dict option) \<Rightarrow> string list \<Rightarrow> (risk_event list \<times> real) res" where
  "gather_security_events inside run_bandit files =
     (let safe = map slashes (safe_relative_files inside files);
          py = filter (\<lambda>f. ends_with f ''.py'' \<and> \<not> is_test_file DEFAULT_TEST_PATTERNS f) safe
      in if py = [] then Inr ([], 0)
         else case run_bandit py of
                None \<Rightarrow> Inr ([], BANDIT_UNAVAILABLE_PENALTY)
              | Some report \<Rightarrow>
                  (case dict_get report ''results'' (VList []) of
                     VList results \<Rightarrow>
                       if list_ex (\<lambda>r. case r of VDict _ \<Rightarrow> False | _ \<Rightarrow> True) results
                       then Inl (AttributeError ''get'')
                       else let relevant = filter (\<lambda>s. severity_rank s \<ge> severity_rank ''MEDIUM'') (map severity_text results)
                            in Inr (if relevant = [] then [] else [security_event relevant], 0)
                   | _ \<Rightarrow> foreign))"

section \<open>The merge\<close>

definition merge_benefit_delta_evidence ::
  "benefit_delta_evidence \<Rightarrow> benefit_delta_evidence \<Rightarrow> benefit_delta_evidence" where
  "merge_benefit_delta_evidence base provider =
     (if bd_source_type base \<noteq> ''projected'' \<or> bd_deltas base \<noteq> [] \<or> bd_deltas provider = [] then base
      else \<lparr>bd_scope = (if bd_scope base \<noteq> [] then bd_scope base else bd_scope provider),
            bd_source_type = bd_source_type provider,
            bd_deltas = dict_merge (bd_deltas provider) (bd_deltas base),
            bd_future_change_exposure =
              (if bd_future_change_exposure_explicit base then bd_future_change_exposure base
               else if truthy (bd_future_change_exposure base) then bd_future_change_exposure base
               else bd_future_change_exposure provider),
            bd_future_change_exposure_explicit = bd_future_change_exposure_explicit base,
            bd_auto_exposure_allowed = bd_auto_exposure_allowed provider,
            bd_file_deltas = bd_file_deltas provider\<rparr>)"

definition stage_value :: "string \<Rightarrow> real" where
  "stage_value stage = dict_get STAGE_MAP stage 0"

fun highest_stage :: "criticality_glob list \<Rightarrow> string list \<Rightarrow> string option \<Rightarrow> string option" where
  "highest_stage [] files best = best"
| "highest_stage (glob # globs) files best =
     highest_stage globs files
       (if list_ex (\<lambda>f. fnmatch f (gb_pattern glob)) files
           \<and> (case best of None \<Rightarrow> True | Some b \<Rightarrow> stage_value (gb_stage glob) > stage_value b)
        then Some (gb_stage glob) else best)"

definition config_criticality :: "criticality_glob list \<Rightarrow> string list \<Rightarrow> string option" where
  "config_criticality globs files = highest_stage globs files None"

definition policy_violations_of :: "policy_rule list \<Rightarrow> string list \<Rightarrow> string list" where
  "policy_violations_of rules files =
     map ru_violation (filter (\<lambda>rule. list_ex (\<lambda>f. fnmatch f (ru_pattern rule)) files) rules)"

definition merged_criticality :: "evidence_bundle \<Rightarrow> string option \<Rightarrow> string \<times> real" where
  "merged_criticality base config_stage =
     (case config_stage of
        None \<Rightarrow> (eb_criticality_stage base, eb_criticality_value base)
      | Some stage \<Rightarrow>
          if stage \<noteq> [] \<and> stage_value stage > stage_value (eb_criticality_stage base)
          then (stage, dict_get STAGE_MAP stage (eb_criticality_value base))
          else (eb_criticality_stage base, eb_criticality_value base))"

definition merge_evidence ::
  "evidence_bundle \<Rightarrow> pebra_config \<Rightarrow> architecture_evidence \<Rightarrow> benefit_delta_evidence \<Rightarrow> risk_event list \<Rightarrow> real
    \<Rightarrow> string list \<Rightarrow> evidence_bundle" where
  "merge_evidence base config arch provider_benefit bandit_events evidence_quality_penalty affected_files =
     (let criticality = merged_criticality base (config_criticality (cf_criticality_globs config) affected_files)
      in base\<lparr>eb_events := eb_events base
                @ filter (\<lambda>e. ev_event e \<notin> ev_event ` set (eb_events base)) bandit_events,
              eb_criticality_stage := fst criticality, eb_criticality_value := snd criticality,
              eb_edit_confidence_factors :=
                (if evidence_quality_penalty > 0
                 then dict_set (eb_edit_confidence_factors base) ''evidence_quality''
                        (penalized_confidence_factor
                          (dict_get (eb_edit_confidence_factors base) ''evidence_quality'' 1) evidence_quality_penalty)
                 else eb_edit_confidence_factors base),
              eb_thresholds := dict_merge (cf_thresholds config) (eb_thresholds base),
              eb_policy_violations := policy_violations_of (cf_policy_rules config) affected_files,
              eb_benefit_delta_evidence := merge_benefit_delta_evidence (eb_benefit_delta_evidence base) provider_benefit,
              eb_architecture_evidence := arch\<rparr>)"

text \<open>The composite provider. The configuration, the measured benefit, the architecture map, the resolution of paths and
  the presence of a file are what the adapters around it return for the repository and the action.\<close>

record evidence_host =
  eh_config :: "pebra_config res"
  eh_benefit :: benefit_delta_evidence
  eh_inside :: "string \<Rightarrow> bool"
  eh_is_file :: "string \<Rightarrow> bool"
  eh_run_bandit :: "string list \<Rightarrow> pyval dict option"
  eh_architecture :: architecture_evidence

definition gather_evidence ::
  "evidence_host \<Rightarrow> assessment_request \<Rightarrow> candidate_action \<Rightarrow> evidence_bundle res" where
  "gather_evidence host request action =
     rbind (request_evidence request) (\<lambda>base.
     rbind (eh_config host) (\<lambda>config.
       let existing = filter (eh_is_file host) (safe_relative_files (eh_inside host) (ca_expected_files action))
       in rbind (gather_security_events (eh_inside host) (eh_run_bandit host) existing) (\<lambda>(bandit_events, raw_penalty).
         Inr (merge_evidence base config (eh_architecture host) (eh_benefit host) bandit_events
                (if cf_strict_mode config then raw_penalty else 0) (ca_expected_files action)))))"

section \<open>Lemmas\<close>

lemma request_evidence_untrusted:
  "request_evidence request = Inr base \<Longrightarrow>
     eb_candidate_verification base = default_candidate_verification \<and> eb_policy_violations base = []
     \<and> eb_architecture_evidence base = default_architecture \<and> eb_thresholds base = ar_thresholds request
     \<and> \<not> bd_auto_exposure_allowed (eb_benefit_delta_evidence base)"
  by (auto simp: request_evidence_def request_benefit_def Let_def rbind_Inr_iff default_benefit_delta_def
      split: prod.splits)

lemma highest_stage_ge:
  "highest_stage globs files best = Some s \<Longrightarrow>
     (\<forall>b. best = Some b \<longrightarrow> stage_value b \<le> stage_value s)
     \<and> (\<forall>g \<in> set globs. list_ex (\<lambda>f. fnmatch f (gb_pattern g)) files \<longrightarrow> stage_value (gb_stage g) \<le> stage_value s)"
proof (induction globs arbitrary: best)
  case (Cons g globs)
  let ?next = "if list_ex (\<lambda>f. fnmatch f (gb_pattern g)) files
      \<and> (case best of None \<Rightarrow> True | Some b \<Rightarrow> stage_value (gb_stage g) > stage_value b) then Some (gb_stage g) else best"
  have "highest_stage globs files ?next = Some s" using Cons.prems by simp
  from Cons.IH [OF this] show ?case by (auto split: if_splits option.splits)
qed simp

lemma highest_stage_Some:
  "best \<noteq> None \<or> (\<exists>g \<in> set globs. list_ex (\<lambda>f. fnmatch f (gb_pattern g)) files) \<Longrightarrow> highest_stage globs files best \<noteq> None"
  by (induction globs arbitrary: best) (auto split: option.split)

lemma merged_stage_ge: "stage_value (eb_criticality_stage base) \<le> stage_value (fst (merged_criticality base s))"
  by (auto simp: merged_criticality_def split: option.split)

text \<open>The stage of every matching glob is reached.\<close>

lemma merged_stage_covers:
  assumes "g \<in> set (cf_criticality_globs config)" and "f \<in> set files" and "fnmatch f (gb_pattern g)"
  shows "stage_value (gb_stage g) \<le> stage_value (eb_criticality_stage
    (merge_evidence base config arch benefit events penalty files))"
proof -
  let ?s = "config_criticality (cf_criticality_globs config) files"
  have "?s \<noteq> None" unfolding config_criticality_def by (rule highest_stage_Some) (use assms in \<open>auto simp: list_ex_iff\<close>)
  then obtain s where s: "?s = Some s" by blast
  then have "stage_value (gb_stage g) \<le> stage_value s"
    using highest_stage_ge [of "cf_criticality_globs config" files None s] assms
    by (auto simp: config_criticality_def list_ex_iff)
  moreover have "stage_value [] = 0" by (simp add: stage_value_def STAGE_MAP_def)
  moreover have "0 \<le> stage_value x" for x by (simp add: stage_value_def STAGE_MAP_def)
  ultimately show ?thesis using s merged_stage_ge [of base "?s"]
    by (cases "s = []") (force simp: merge_evidence_def Let_def merged_criticality_def intro: order_trans)+
qed

lemma dict_merge_Nil: "distinct (map fst d) \<Longrightarrow> dict_merge [] d = d"
proof -
  have "distinct (map fst (e @ d)) \<Longrightarrow> dict_merge e d = e @ d" for e :: "'a dict"
  proof (induction d arbitrary: e)
    case (Cons p d)
    obtain k v where p: "p = (k, v)" by (cases p)
    have "k \<notin> fst ` set e" using Cons.prems by (auto simp: p)
    then have "dict_set e k v = e @ [(k, v)]" by (induction e k v rule: dict_set.induct) auto
    then show ?case using Cons.IH [of "e @ [(k, v)]"] Cons.prems by (simp add: p)
  qed simp
  from this [of "[]"] show "distinct (map fst d) \<Longrightarrow> dict_merge [] d = d" by simp
qed

text \<open>Without repository evidence the merge changes nothing.\<close>

lemma merge_without_repository_evidence:
  assumes "request_evidence request = Inr base" and "distinct (map fst (ar_thresholds request))"
  shows "merge_evidence base default_config default_architecture default_benefit_delta [] 0 files = base"
proof -
  note base = request_evidence_untrusted [OF assms(1)]
  have "merged_criticality base None = (eb_criticality_stage base, eb_criticality_value base)"
    by (simp add: merged_criticality_def)
  moreover have "merge_benefit_delta_evidence (eb_benefit_delta_evidence base) default_benefit_delta = eb_benefit_delta_evidence base"
    by (simp add: merge_benefit_delta_evidence_def default_benefit_delta_def)
  ultimately show ?thesis
    using base assms(2) dict_merge_Nil [of "ar_thresholds request"]
    by (simp add: merge_evidence_def default_config_def config_criticality_def policy_violations_of_def Let_def)
qed

section \<open>Properties\<close>

text \<open>C11: A request cannot forge trust. Whatever its evidence says, the gathered bundle carries no passed verification;
  its policy violations are those of the configured rules that match an expected file and its architecture evidence is
  the host's; the stage is at least that of each matching glob; only a measured benefit may be exposed automatically;
  and its events are the request's own followed by exactly those of the scanner whose event name the request does not
  report itself. A scanner event whose name the request reports is dropped, whatever probability the request gives it.\<close>

theorem request_cannot_forge_trust:
  assumes "gather_evidence host request action = Inr b" and "eh_config host = Inr config"
  shows "eb_candidate_verification b = default_candidate_verification
    \<and> eb_policy_violations b = policy_violations_of (cf_policy_rules config) (ca_expected_files action)
    \<and> eb_architecture_evidence b = eh_architecture host
    \<and> (\<forall>g \<in> set (cf_criticality_globs config). list_ex (\<lambda>f. fnmatch f (gb_pattern g)) (ca_expected_files action)
         \<longrightarrow> stage_value (gb_stage g) \<le> stage_value (eb_criticality_stage b))
    \<and> (bd_auto_exposure_allowed (eb_benefit_delta_evidence b) \<longrightarrow>
         bd_deltas (eb_benefit_delta_evidence b) = bd_deltas (eh_benefit host)
         \<and> bd_source_type (eb_benefit_delta_evidence b) = bd_source_type (eh_benefit host))
    \<and> (\<exists>own scanned penalty. rbind (request_evidence request) (\<lambda>base. Inr (eb_events base)) = Inr own
         \<and> gather_security_events (eh_inside host) (eh_run_bandit host)
             (filter (eh_is_file host) (safe_relative_files (eh_inside host) (ca_expected_files action))) = Inr (scanned, penalty)
         \<and> eb_events b = own @ filter (\<lambda>e. ev_event e \<notin> ev_event ` set own) scanned)"
proof -
  let ?files = "ca_expected_files action"
  obtain base events penalty where base: "request_evidence request = Inr base"
    and found: "gather_security_events (eh_inside host) (eh_run_bandit host)
        (filter (eh_is_file host) (safe_relative_files (eh_inside host) ?files)) = Inr (events, penalty)"
    and b: "b = merge_evidence base config (eh_architecture host) (eh_benefit host) events
        (if cf_strict_mode config then penalty else 0) ?files"
    using assms by (auto simp: gather_evidence_def Let_def rbind_Inr_iff)
  note u = request_evidence_untrusted [OF base]
  have "\<forall>g \<in> set (cf_criticality_globs config). list_ex (\<lambda>f. fnmatch f (gb_pattern g)) ?files
      \<longrightarrow> stage_value (gb_stage g) \<le> stage_value (eb_criticality_stage b)"
    unfolding b list_ex_iff by (blast intro: merged_stage_covers)
  moreover have "bd_auto_exposure_allowed (eb_benefit_delta_evidence b) \<Longrightarrow>
      bd_deltas (eb_benefit_delta_evidence b) = bd_deltas (eh_benefit host)
      \<and> bd_source_type (eb_benefit_delta_evidence b) = bd_source_type (eh_benefit host)"
    using u by (auto simp: b merge_evidence_def Let_def merge_benefit_delta_evidence_def split: if_splits)
  moreover have "eb_events b = eb_events base @ filter (\<lambda>e. ev_event e \<notin> ev_event ` set (eb_events base)) events"
    by (simp add: b merge_evidence_def Let_def)
  moreover have "eb_candidate_verification b = default_candidate_verification
      \<and> eb_policy_violations b = policy_violations_of (cf_policy_rules config) ?files
      \<and> eb_architecture_evidence b = eh_architecture host"
    using u by (simp add: b merge_evidence_def Let_def)
  ultimately show ?thesis using base found by simp
qed

text \<open>So a request that reports the scanner's event at a low probability keeps the scanner's out of the evidence.\<close>

lemma request_hides_a_finding:
  assumes "own \<in> set (eb_events base)" and "ev_event own = ''security_sensitive_change''"
  shows "eb_events (merge_evidence base config arch benefit [security_event severities] penalty files) = eb_events base"
proof -
  have "ev_event (security_event severities) = ev_event own" by (simp add: security_event_def plain_event_def assms(2))
  then show ?thesis using assms(1) by (simp add: merge_evidence_def Let_def)
qed

definition sample_config :: pebra_config where
  "sample_config = default_config\<lparr>cf_criticality_globs := [\<lparr>gb_pattern = ''pay'', gb_stage = ''C3''\<rparr>],
     cf_policy_rules := [\<lparr>ru_pattern = ''key'', ru_violation = ''forbidden_path_edit''\<rparr>]\<rparr>"

definition sample_evidence_host :: evidence_host where
  "sample_evidence_host =
     \<lparr>eh_config = Inr sample_config, eh_benefit = default_benefit_delta, eh_inside = (\<lambda>_. True), eh_is_file = (\<lambda>_. True),
      eh_run_bandit = (\<lambda>_. None), eh_architecture = default_architecture\<rparr>"

definition touching :: "string list \<Rightarrow> candidate_action" where
  "touching files =
     \<lparr>ca_id = ''a'', ca_label = [], ca_action_type = ''edit'', ca_proposed_patch = None, ca_affected_symbols = [],
      ca_expected_files = files, ca_is_dependency_change = False, ca_is_schema_change = False, ca_is_migration = False\<rparr>"

lemma fnmatch_samples: "fnmatch ''pay'' ''pay''" "fnmatch ''key'' ''key''" "\<not> fnmatch ''pay'' ''key''" "\<not> fnmatch ''key'' ''pay''"
  by code_simp+

lemma request_cannot_forge_trust_witness:
  "\<exists>b. gather_evidence sample_evidence_host (single_action ''t'' (touching [''pay'', ''key''])) (touching [''pay'', ''key'']) = Inr b
    \<and> eb_policy_violations b = [''forbidden_path_edit''] \<and> 0.8 \<le> stage_value (eb_criticality_stage b)"
proof -
  let ?a = "touching [''pay'', ''key'']"
  have g: "gather_security_events (\<lambda>_. True) (\<lambda>_. None) [''pay'', ''key''] = Inr ([], 0)" by code_simp
  have s: "safe_relative_files (\<lambda>_. True) [''pay'', ''key''] = [''pay'', ''key'']" by code_simp
  have files: "ca_expected_files ?a = [''pay'', ''key'']" by (simp add: touching_def)
  obtain base where base: "request_evidence (single_action ''t'' ?a) = Inr base"
    by (simp add: request_evidence_def request_criticality_def request_benefit_def single_action_def
        evidence_str_def evidence_real_def evidence_dict_def evidence_opt_real_def)
  obtain b where b: "gather_evidence sample_evidence_host (single_action ''t'' ?a) ?a = Inr b"
    by (simp add: gather_evidence_def base sample_evidence_host_def s g files)
  have c: "eh_config sample_evidence_host = Inr sample_config" by (simp add: sample_evidence_host_def)
  show ?thesis
    using request_cannot_forge_trust [OF b c, THEN conjunct2, THEN conjunct1]
      request_cannot_forge_trust [OF b c, THEN conjunct2, THEN conjunct2, THEN conjunct2, THEN conjunct1] b fnmatch_samples
    by (auto simp: sample_config_def default_config_def policy_violations_of_def touching_def stage_value_def STAGE_MAP_def)
qed

text \<open>A glob that is meant to raise the criticality can lower it. When the request gives a value of its own above that
  of its stage, and the configuration raises the stage, the value of the higher stage replaces the larger one.\<close>

theorem config_may_lower_criticality:
  assumes "config_criticality (cf_criticality_globs config) files = Some stage" and "stage \<noteq> []"
    and "stage_value (eb_criticality_stage base) < stage_value stage" and "stage_value stage < eb_criticality_value base"
  shows "eb_criticality_stage (merge_evidence base config arch benefit events penalty files) = stage
    \<and> eb_criticality_value (merge_evidence base config arch benefit events penalty files) < eb_criticality_value base"
proof -
  have "map_of STAGE_MAP stage \<noteq> None"
    using assms(3) by (auto simp: stage_value_def dict_get_def STAGE_MAP_def split: option.splits if_splits)
  then show ?thesis
    using assms by (auto simp: merge_evidence_def Let_def merged_criticality_def stage_value_def dict_get_def)
qed

lemma config_may_lower_criticality_witness:
  "\<exists>base. request_evidence ((single_action ''t'' (touching [''pay'']))\<lparr>ar_evidence :=
        [(''criticality_stage'', VStr ''C1''), (''criticality_value'', VFloat (Fin 0.9))]\<rparr>) = Inr base
    \<and> eb_criticality_value (merge_evidence base sample_config default_architecture default_benefit_delta [] 0 [''pay'']) < 0.9"
proof -
  obtain base where base: "request_evidence ((single_action ''t'' (touching [''pay'']))\<lparr>ar_evidence :=
        [(''criticality_stage'', VStr ''C1''), (''criticality_value'', VFloat (Fin 0.9))]\<rparr>) = Inr base"
      "eb_criticality_stage base = ''C1''" "eb_criticality_value base = 0.9"
    by (simp add: request_evidence_def request_criticality_def request_benefit_def single_action_def
        evidence_str_def evidence_real_def evidence_dict_def evidence_opt_real_def)
  have c: "config_criticality (cf_criticality_globs sample_config) [''pay''] = Some ''C3''"
    using fnmatch_samples by (simp add: config_criticality_def sample_config_def)
  have v: "stage_value ''C1'' = 0.3" "stage_value ''C3'' = 0.8" by (simp_all add: stage_value_def STAGE_MAP_def)
  show ?thesis
    using base config_may_lower_criticality [OF c, of base default_architecture default_benefit_delta "[]" 0] by (auto simp: v)
qed

end
