(* ===== verification/Pebra_Ast_Diff.thy ===== *)
theory Pebra_Ast_Diff
  imports Pebra_Change_Classifier Pebra_Patch_Paths
begin

text \<open>
  \<open>pebra/adapters/ast_diff_adapter.py\<close> and \<open>pebra/adapters/patch_header_adapter.py\<close>: the symbol-diff rows of two
  versions of a Python file, and the file operations that the headers of a patch announce. \<open>ast.parse\<close>, the
  source text of a function body and the similarity ratio of \<open>difflib\<close> are the arguments of \<open>parser\<close>; the
  tree itself is a datatype. \<open>ast.dump\<close> writes every field of a node, so equal dumps are equal trees.
\<close>

section \<open>Trees\<close>

text \<open>A class has its bases, keywords and decorators, then its body; a function its arguments, body, decorators and
  return annotation. \<open>Text_Expr\<close> is a statement that is a string; a name or a constant is a node whose value is
  written out.\<close>

datatype py_ast =
    Class_Def string "py_ast list" "py_ast list"
  | Function_Def bool string py_ast "py_ast list" "py_ast list" "py_ast option"
  | Text_Expr string
  | Ast_Node string string "py_ast list"

definition CONTROL_FLOW :: "string list" where
  "CONTROL_FLOW = [''If'', ''For'', ''While'', ''Try'', ''With'', ''AsyncFor'', ''AsyncWith'']"

fun control_flow_count :: "py_ast \<Rightarrow> nat" where
  "control_flow_count (Class_Def _ heads body) = sum_list (map control_flow_count heads) + sum_list (map control_flow_count body)"
| "control_flow_count (Function_Def _ _ args body decorators returns) =
     control_flow_count args + sum_list (map control_flow_count body) + sum_list (map control_flow_count decorators)
     + (case returns of None \<Rightarrow> 0 | Some r \<Rightarrow> control_flow_count r)"
| "control_flow_count (Text_Expr _) = 0"
| "control_flow_count (Ast_Node kind _ children) =
     (if kind \<in> set CONTROL_FLOW then 1 else 0) + sum_list (map control_flow_count children)"

text \<open>\<open>".".join(names)\<close>.\<close>

fun dotted :: "string list \<Rightarrow> string" where
  "dotted [] = []"
| "dotted [name] = name"
| "dotted (name # names) = name @ ''.'' @ dotted names"

text \<open>The visitor: every function with its qualified name, in the order of the visit.\<close>

fun functions_in :: "string list \<Rightarrow> py_ast \<Rightarrow> (string \<times> py_ast) list" where
  "functions_in stack (Class_Def name heads body) =
     concat (map (functions_in (stack @ [name])) heads) @ concat (map (functions_in (stack @ [name])) body)"
| "functions_in stack (Function_Def is_async name args body decorators returns) =
     (dotted (stack @ [name]), Function_Def is_async name args body decorators returns)
     # functions_in (stack @ [name]) args @ concat (map (functions_in (stack @ [name])) body)
     @ concat (map (functions_in (stack @ [name])) decorators)
     @ (case returns of None \<Rightarrow> [] | Some r \<Rightarrow> functions_in (stack @ [name]) r)"
| "functions_in stack (Text_Expr _) = []"
| "functions_in stack (Ast_Node _ _ children) = concat (map (functions_in stack) children)"

text \<open>A later function of the same qualified name replaces the earlier one.\<close>

definition functions_of :: "py_ast list \<Rightarrow> py_ast dict" where
  "functions_of tree = fold (\<lambda>(qual, node) funcs. dict_set funcs qual node) (concat (map (functions_in []) tree)) []"

fun strip_docstring :: "py_ast list \<Rightarrow> py_ast list" where
  "strip_docstring (Text_Expr _ # body) = body"
| "strip_docstring body = body"

fun without_docstrings :: "py_ast \<Rightarrow> py_ast" where
  "without_docstrings (Class_Def name heads body) =
     Class_Def name (map without_docstrings heads) (strip_docstring (map without_docstrings body))"
| "without_docstrings (Function_Def is_async name args body decorators returns) =
     Function_Def is_async name (without_docstrings args) (strip_docstring (map without_docstrings body))
       (map without_docstrings decorators) (map_option without_docstrings returns)"
| "without_docstrings (Text_Expr s) = Text_Expr s"
| "without_docstrings (Ast_Node kind v children) = Ast_Node kind v (map without_docstrings children)"

definition normalized_module :: "py_ast list \<Rightarrow> py_ast list" where
  "normalized_module tree = strip_docstring (map without_docstrings tree)"

section \<open>Rows\<close>

record parser =
  pr_parse :: "string \<Rightarrow> py_ast list option"
  pr_body_source :: "string \<Rightarrow> string \<Rightarrow> string"
  pr_ratio :: "string \<Rightarrow> string \<Rightarrow> real"

definition IDENTITY_REPLACEMENT_THRESHOLD :: real where "IDENTITY_REPLACEMENT_THRESHOLD = 0.5"

definition source_given :: "string option \<Rightarrow> bool" where
  "source_given src = (src \<noteq> None \<and> src \<noteq> Some [])"

definition parses :: "parser \<Rightarrow> string option \<Rightarrow> bool" where
  "parses P src = (case src of None \<Rightarrow> True | Some s \<Rightarrow> pr_parse P s \<noteq> None)"

definition visibility_of :: "string \<Rightarrow> string" where
  "visibility_of qual = (if starts_with (last (split_on (CHR ''.'') qual)) ''_'' then ''private'' else ''internal'')"

definition ast_row :: "string \<Rightarrow> string \<Rightarrow> bool \<Rightarrow> bool \<Rightarrow> bool \<Rightarrow> bool \<Rightarrow> diff_row" where
  "ast_row symbol_id qual signature_changed body_changed control_flow_changed identity_replacement_suspected =
     empty_row\<lparr>dr_symbol_id := Some symbol_id, dr_visibility := Some (visibility_of qual),
       dr_signature_changed := signature_changed, dr_body_changed := body_changed,
       dr_control_flow_changed := control_flow_changed,
       dr_identity_replacement_suspected := identity_replacement_suspected\<rparr>"

definition NONE_CONSTANT :: py_ast where "NONE_CONSTANT = Ast_Node ''Constant'' ''None'' []"

fun signature_of :: "py_ast \<Rightarrow> py_ast \<times> py_ast" where
  "signature_of (Function_Def _ _ args _ _ returns) = (args, case returns of None \<Rightarrow> NONE_CONSTANT | Some r \<Rightarrow> r)"
| "signature_of node = (node, NONE_CONSTANT)"

fun body_of :: "py_ast \<Rightarrow> py_ast list" where
  "body_of (Function_Def _ _ _ body _ _) = strip_docstring body"
| "body_of node = []"

definition identity_suspected :: "parser \<Rightarrow> string option \<Rightarrow> string option \<Rightarrow> string \<Rightarrow> bool" where
  "identity_suspected P before after qual =
     (case (before, after) of
        (Some b, Some a) \<Rightarrow>
          let b_body = pr_body_source P b qual; a_body = pr_body_source P a qual
          in b_body \<noteq> [] \<and> a_body \<noteq> [] \<and> pr_ratio P b_body a_body < IDENTITY_REPLACEMENT_THRESHOLD
      | _ \<Rightarrow> False)"

definition function_row :: "parser \<Rightarrow> string option \<Rightarrow> string option \<Rightarrow> string \<Rightarrow> string \<Rightarrow> py_ast \<Rightarrow> py_ast \<Rightarrow> diff_row list" where
  "function_row P before after symbol_id qual b a =
     (let sig_changed = (signature_of b \<noteq> signature_of a);
          body_changed = (body_of b \<noteq> body_of a);
          cf_changed = (control_flow_count b \<noteq> control_flow_count a);
          suspected = (\<not> sig_changed \<and> body_changed \<and> identity_suspected P before after qual)
      in if sig_changed \<or> body_changed \<or> cf_changed
         then [ast_row symbol_id qual sig_changed body_changed cf_changed suspected] else [])"

definition symbol_rows ::
  "parser \<Rightarrow> string option \<Rightarrow> string option \<Rightarrow> string \<Rightarrow> py_ast dict \<Rightarrow> py_ast dict \<Rightarrow> string \<Rightarrow> diff_row list" where
  "symbol_rows P before after file_path befores afters qual =
     (let symbol_id = file_path @ ''::'' @ qual
      in case (map_of befores qual, map_of afters qual) of
           (Some b, Some a) \<Rightarrow> function_row P before after symbol_id qual b a
         | _ \<Rightarrow> [ast_row symbol_id qual False True False False])"

text \<open>The module of a source that is absent or empty has nothing in it.\<close>

definition module_of :: "parser \<Rightarrow> string option \<Rightarrow> py_ast list option" where
  "module_of P src = (if source_given src then pr_parse P (the src) else Some [])"

definition module_changed :: "string option \<Rightarrow> string option \<Rightarrow> py_ast list \<Rightarrow> py_ast list \<Rightarrow> bool" where
  "module_changed before after before_module after_module =
     (if source_given before \<and> source_given after
      then normalized_module before_module \<noteq> normalized_module after_module
      else if source_given before then strip_docstring before_module \<noteq> []
      else if source_given after then strip_docstring after_module \<noteq> []
      else False)"

definition compute_symbol_diff_rows ::
  "parser \<Rightarrow> string option \<Rightarrow> string option \<Rightarrow> string \<Rightarrow> diff_row list" where
  "compute_symbol_diff_rows P before after file_path =
     (case (module_of P before, module_of P after) of
        (Some b, Some a) \<Rightarrow>
          let befores = functions_of b; afters = functions_of a;
              rows = concat (map (symbol_rows P before after file_path befores afters)
                (sorted_set (map fst befores @ map fst afters)))
          in if rows \<noteq> [] then rows
             else if module_changed before after b a
             then [ast_row (file_path @ ''::__module__'') ''__module__'' False True False False] else []
      | _ \<Rightarrow> [])"

section \<open>File operations of a patch\<close>

record destructive_op =
  dp_kind :: string
  dp_old_path :: "string option"
  dp_new_path :: "string option"
  dp_similarity_index :: "nat option"

definition similarity_line :: "string \<Rightarrow> nat option" where
  "similarity_line line =
     (if starts_with line ''similarity index '' then
        (case digit_span (drop 17 line) of
           (digits, rest) \<Rightarrow> if digits \<noteq> [] \<and> rest = ''%'' then Some (number_of_digits 10 digits) else None)
      else None)"

record block_facts =
  bf_rename_from :: "string option"
  bf_rename_to :: "string option"
  bf_similarity :: "nat option"

definition block_line :: "string \<Rightarrow> block_facts \<Rightarrow> block_facts res" where
  "block_line line facts =
     (if starts_with line ''rename from '' then
        rbind (decode_git_path (drop 12 line)) (\<lambda>p. Inr (facts\<lparr>bf_rename_from := Some p\<rparr>))
      else if starts_with line ''rename to '' then
        rbind (decode_git_path (drop 10 line)) (\<lambda>p. Inr (facts\<lparr>bf_rename_to := Some p\<rparr>))
      else case similarity_line line of None \<Rightarrow> Inr facts | Some n \<Rightarrow> Inr (facts\<lparr>bf_similarity := Some n\<rparr>))"

fun block_lines :: "string list \<Rightarrow> block_facts \<Rightarrow> block_facts res" where
  "block_lines [] facts = Inr facts"
| "block_lines (line # lines) facts = rbind (block_line line facts) (block_lines lines)"

text \<open>\<open>PurePosixPath(p).parent\<close>, as whether it is absolute and its parts.\<close>

definition posix_parent :: "string \<Rightarrow> bool \<times> string list" where
  "posix_parent p = (starts_with p ''/'', butlast (path_parts p))"

definition classify_block :: "string list \<Rightarrow> string \<Rightarrow> string \<Rightarrow> destructive_op option res" where
  "classify_block block a_path b_path =
     rbind (block_lines block \<lparr>bf_rename_from = None, bf_rename_to = None, bf_similarity = None\<rparr>) (\<lambda>facts. Inr
       (if list_ex (\<lambda>line. starts_with line ''deleted file mode'') block
        then Some \<lparr>dp_kind = ''DELETE'', dp_old_path = Some a_path, dp_new_path = None, dp_similarity_index = None\<rparr>
        else if list_ex (\<lambda>line. starts_with line ''new file mode'') block
        then Some \<lparr>dp_kind = ''CREATE'', dp_old_path = None, dp_new_path = Some b_path, dp_similarity_index = None\<rparr>
        else if bf_rename_from facts \<noteq> None \<or> bf_rename_to facts \<noteq> None then
          let old_p = (case bf_rename_from facts of None \<Rightarrow> a_path | Some p \<Rightarrow> p);
              new_p = (case bf_rename_to facts of None \<Rightarrow> b_path | Some p \<Rightarrow> p)
          in Some \<lparr>dp_kind = (if posix_parent old_p = posix_parent new_p then ''RENAME'' else ''MOVE''),
                   dp_old_path = Some old_p, dp_new_path = Some new_p, dp_similarity_index = bf_similarity facts\<rparr>
        else None))"

text \<open>The loop over the lines; the current header is absent before the first one.\<close>

fun header_blocks :: "string list \<Rightarrow> (string \<times> string) option \<Rightarrow> string list \<Rightarrow> (string list \<times> string \<times> string) list
    \<Rightarrow> (string list \<times> string \<times> string) list res" where
  "header_blocks [] current block acc =
     Inr (case current of None \<Rightarrow> acc | Some (a, b) \<Rightarrow> acc @ [(block, a, b)])"
| "header_blocks (line # lines) current block acc =
     rbind (parse_diff_header line) (\<lambda>header.
       case header of
         Some h \<Rightarrow> header_blocks lines (Some h) [] (case current of None \<Rightarrow> acc | Some (a, b) \<Rightarrow> acc @ [(block, a, b)])
       | None \<Rightarrow> header_blocks lines current (if current = None then block else block @ [line]) acc)"

fun classify_blocks :: "(string list \<times> string \<times> string) list \<Rightarrow> destructive_op list res" where
  "classify_blocks [] = Inr []"
| "classify_blocks ((block, a, b) # blocks) =
     rbind (classify_block block a b) (\<lambda>op. rbind (classify_blocks blocks) (\<lambda>ops.
       Inr (case op of None \<Rightarrow> ops | Some x \<Rightarrow> x # ops)))"

definition parse_patch_headers :: "string \<Rightarrow> destructive_op list res" where
  "parse_patch_headers patch = rbind (header_blocks (splitlines patch) None [] []) classify_blocks"

definition FILE_OP_SEVERITY :: "(string \<times> nat) list" where
  "FILE_OP_SEVERITY = [(''CREATE'', 1), (''RENAME'', 2), (''MOVE'', 2), (''DELETE'', 3)]"

definition op_severity :: "destructive_op \<Rightarrow> nat" where
  "op_severity op = (case map_of FILE_OP_SEVERITY (dp_kind op) of None \<Rightarrow> 0 | Some n \<Rightarrow> n)"

text \<open>\<open>o.old_path or o.new_path\<close>.\<close>

definition op_path :: "destructive_op \<Rightarrow> string option" where
  "op_path op = (if source_given (dp_old_path op) then dp_old_path op else dp_new_path op)"

definition detect_file_operation :: "symbol_diff_evidence \<Rightarrow> candidate_action \<Rightarrow> symbol_diff_evidence res" where
  "detect_file_operation base action =
     (if sd_file_operation_kind base \<noteq> ''NONE'' \<or> \<not> source_given (ca_proposed_patch action) then Inr base
      else rbind (parse_patch_headers (the (ca_proposed_patch action))) (\<lambda>ops.
        case ops of
          [] \<Rightarrow> Inr base
        | op # rest \<Rightarrow>
            let dominant = first_max op_severity op rest
            in Inr (base\<lparr>sd_file_operation_kind := dp_kind dominant,
                 sd_file_operation_paths :=
                   List.map_filter (\<lambda>o'. if dp_kind o' = dp_kind dominant then op_path o' else None) ops\<rparr>)))"

text \<open>Without supplied evidence the symbols are those the action names, of unknown kind.\<close>

definition symbol_diff :: "symbol_diff_evidence option \<Rightarrow> candidate_action \<Rightarrow> symbol_diff_evidence res" where
  "symbol_diff supplied action =
     detect_file_operation
       (case supplied of
          Some e \<Rightarrow> e
        | None \<Rightarrow> default_symbol_diff\<lparr>sd_changed_symbols := ca_affected_symbols action,
            sd_fallback_reason := Some ''no symbol diff supplied; Phase-0 cold-start file/path-level risk''\<rparr>)
       action"

section \<open>No row means no change\<close>

text \<open>What a file means: its tree without docstrings.\<close>

definition meaning_of :: "parser \<Rightarrow> string option \<Rightarrow> py_ast list option" where
  "meaning_of P src = map_option normalized_module (module_of P src)"

text \<open>A row that says something changed is at least behavioral.\<close>

definition real_change :: "diff_row \<Rightarrow> bool" where
  "real_change r = (dr_body_changed r \<or> dr_signature_changed r \<or> dr_control_flow_changed r)"

lemma real_change_severity: "real_change r \<Longrightarrow> severity CK_BEHAVIORAL \<le> severity (classify_symbol r)"
  by (auto simp: real_change_def classify_symbol_def)

lemma real_change_ast_row [simp]: "real_change (ast_row i q sig body cf s) \<longleftrightarrow> body \<or> sig \<or> cf"
  by (auto simp: real_change_def ast_row_def empty_row_def)

lemma function_row_real: "r \<in> set (function_row P before after i q b a) \<Longrightarrow> real_change r"
  by (auto simp: function_row_def Let_def split: if_splits)

lemma symbol_rows_real: "r \<in> set (symbol_rows P before after f bs as q) \<Longrightarrow> real_change r"
  by (auto simp: symbol_rows_def Let_def split: option.splits dest: function_row_real)

lemma diff_rows_real: "r \<in> set (compute_symbol_diff_rows P before after f) \<Longrightarrow> real_change r"
  by (auto simp: compute_symbol_diff_rows_def Let_def split: option.splits if_splits dest: symbol_rows_real)

lemma without_docstrings_text: "without_docstrings x = Text_Expr s \<longleftrightarrow> x = Text_Expr s"
  by (cases x) auto

lemma normalized_module_empty: "normalized_module m = [] \<longleftrightarrow> strip_docstring m = []"
  by (cases m rule: strip_docstring.cases) (auto simp: normalized_module_def)

lemma no_rows_no_change:
  assumes "compute_symbol_diff_rows P before after f = []" and "parses P before" and "parses P after"
  shows "meaning_of P before = meaning_of P after"
proof -
  have parsed: "\<exists>m. module_of P src = Some m \<and> (\<not> source_given src \<longrightarrow> m = [])" if "parses P src" for src
    using that by (auto simp: parses_def module_of_def source_given_def)
  obtain b a where m: "module_of P before = Some b" "module_of P after = Some a"
    and empty: "\<not> source_given before \<longrightarrow> b = []" "\<not> source_given after \<longrightarrow> a = []"
    using parsed assms(2,3) by blast
  have "\<not> module_changed before after b a"
    using assms(1) by (auto simp: compute_symbol_diff_rows_def m Let_def split: if_splits)
  then have "normalized_module b = normalized_module a"
    using empty normalized_module_empty [of b] normalized_module_empty [of a] normalized_module_empty [of "[]"]
    by (auto simp: module_changed_def split: if_splits)
  then show ?thesis by (simp add: meaning_of_def m)
qed

text \<open>An operation is reported with the kind of the most severe one, and only with paths of that kind.\<close>

lemma detect_file_operation_dominates:
  assumes "detect_file_operation base action = Inr d" and "sd_file_operation_kind base = ''NONE''"
    and "ca_proposed_patch action = Some patch" and "patch \<noteq> []" and "parse_patch_headers patch = Inr ops"
    and "op \<in> set ops"
  shows "\<exists>top \<in> set ops. sd_file_operation_kind d = dp_kind top \<and> op_severity op \<le> op_severity top"
proof -
  obtain x rest where ops: "ops = x # rest" using assms(6) by (cases ops) auto
  have "d = base\<lparr>sd_file_operation_kind := dp_kind (first_max op_severity x rest),
      sd_file_operation_paths := List.map_filter (\<lambda>o'. if dp_kind o' = dp_kind (first_max op_severity x rest) then op_path o' else None) ops\<rparr>"
    using assms(1-5) ops by (simp add: detect_file_operation_def source_given_def Let_def)
  then show ?thesis
    using first_max_mem [of op_severity x rest] first_max_ge [of op x rest op_severity] assms(6)
    unfolding ops by (intro bexI [of _ "first_max op_severity x rest"]) simp_all
qed

end
