(* ===== verification/Pebra_Change_Verifier.thy ===== *)
theory Pebra_Change_Verifier
  imports Pebra_Verify Pebra_Ast_Diff
begin

text \<open>
  \<open>pebra/adapters/git_change_verifier.py\<close> with what it uses of \<open>pebra/adapters/git_adapter.py\<close>: the summary of the
  actual diff that the verification compares with the approved envelope. The Git command, the working tree,
  the parser, the graph engine and the complexity tool are arguments.
\<close>

section \<open>Git\<close>

definition DEPENDENCY_GLOBS :: "string list" where
  "DEPENDENCY_GLOBS =
     [''*requirements*.txt'', ''pyproject.toml'', ''poetry.lock'', ''Pipfile'', ''Pipfile.lock'', ''package.json'',
      ''package-lock.json'', ''yarn.lock'', ''pnpm-lock.yaml'', ''go.mod'', ''go.sum'', ''Cargo.toml'', ''Cargo.lock'']"

definition STRUCTURAL_SOURCE_EXTS :: "string list" where
  "STRUCTURAL_SOURCE_EXTS =
     [''.py'', ''.ts'', ''.tsx'', ''.js'', ''.jsx'', ''.cs'', ''.vb'', ''.java'', ''.kt'', ''.kts'', ''.go'', ''.rs'',
      ''.rb'', ''.php'', ''.c'', ''.h'', ''.cc'', ''.cpp'', ''.cxx'', ''.hpp'', ''.swift'', ''.scala'', ''.dart'',
      ''.lua'', ''.luau'', ''.r'', ''.erl'', ''.ex'', ''.exs'', ''.sol'', ''.tf'', ''.vue'', ''.svelte'', ''.astro'']"

text \<open>The standard output of \<open>git -C repo_root args\<close>, or nothing when it failed.\<close>

type_synonym git = "string list \<Rightarrow> string option"

definition head_commit :: "git \<Rightarrow> string option" where
  "head_commit git =
     (case git [''rev-parse'', ''HEAD''] of None \<Rightarrow> None | Some out \<Rightarrow> if out = [] then None else Some (strip out))"

definition file_at_rev :: "git \<Rightarrow> string \<Rightarrow> string \<Rightarrow> string option" where
  "file_at_rev git revision path = git [''show'', revision @ '':'' @ path]"

definition git_lines :: "string option \<Rightarrow> string list" where
  "git_lines out =
     (case out of None \<Rightarrow> [] | Some text \<Rightarrow> map (\<lambda>line. slashes (strip line)) (filter (\<lambda>line. \<not> blank line) (splitlines text)))"

definition git_changed_files :: "git \<Rightarrow> string \<Rightarrow> string list" where
  "git_changed_files git scope = dedupe
     (if scope = ''staged'' then git_lines (git [''diff'', ''--cached'', ''--name-only''])
      else git_lines (git [''diff'', ''--name-only'', ''HEAD''])
           @ (if scope = ''all'' then git_lines (git [''ls-files'', ''--others'', ''--exclude-standard'']) else []))"

section \<open>Reclassification\<close>

text \<open>The wired functions; an absent one is \<open>None\<close>. The inner option of \<open>vh_capability\<close>, \<open>vh_materialized\<close> and
  \<open>vh_fanin\<close> is \<open>None\<close> when the call raises, which the code catches; where it does not, the result is a sum.\<close>

record verify_host =
  vh_git :: git
  vh_read :: "string \<Rightarrow> string option res"
  vh_parser :: parser
  vh_structural :: "(string \<Rightarrow> string option \<Rightarrow> string option \<Rightarrow> fanin_evidence res) option"
  vh_materialized :: "(string \<Rightarrow> string \<Rightarrow> string \<Rightarrow> materialized_diff_result option) option"
  vh_capability :: "(string \<Rightarrow> language_capability option) option"
  vh_semantic_enabled :: bool
  vh_complexity :: "(string \<Rightarrow> string option \<Rightarrow> string option \<Rightarrow> (real \<times> real \<times> real option) option res) option"
  vh_fanin :: "(string list \<Rightarrow> real dict option) option"
  vh_reason :: "consequence_reason \<Rightarrow> string"

definition path_name :: "string \<Rightarrow> string" where
  "path_name path = last (split_on (CHR ''/'') path)"

text \<open>\<open>Path(path).suffix\<close>: what follows the last dot of the name, unless the dot is its first or last character.\<close>

definition path_suffix :: "string \<Rightarrow> string" where
  "path_suffix path =
     (case path_parts path of
        [] \<Rightarrow> []
      | parts \<Rightarrow>
          let extension = takeWhile (\<lambda>c. c \<noteq> CHR ''.'') (rev (last parts))
          in if extension = [] \<or> length extension + 1 \<ge> length (last parts) then [] else CHR ''.'' # rev extension)"

definition is_structural_source_file :: "string \<Rightarrow> bool" where
  "is_structural_source_file path = (lower (path_suffix path) \<in> set STRUCTURAL_SOURCE_EXTS)"

definition read_after :: "verify_host \<Rightarrow> string \<Rightarrow> string \<Rightarrow> string option res" where
  "read_after host scope f = (if scope = ''staged'' then Inr (file_at_rev (vh_git host) '':0'' f) else vh_read host f)"

definition semantic_wanted :: "verify_host \<Rightarrow> real dict \<Rightarrow> fanin_evidence \<Rightarrow> bool" where
  "semantic_wanted host thresholds ev =
     (vh_semantic_enabled host \<and> dict_get thresholds ''codegraph_semantic_diff_enabled'' 0 \<noteq> 0
      \<and> fi_resolution_method ev = ''location'')"

definition full_language :: "verify_host \<Rightarrow> fanin_evidence \<Rightarrow> bool" where
  "full_language host ev =
     (case vh_capability host of
        None \<Rightarrow> True
      | Some capability \<Rightarrow>
          (case fi_resolved_languages ev of
             [language] \<Rightarrow> (case capability language of None \<Rightarrow> False | Some cap \<Rightarrow> classify_tier cap = ''full'')
           | _ \<Rightarrow> False))"

definition semantic_rows ::
  "verify_host \<Rightarrow> string \<Rightarrow> string option \<Rightarrow> string option \<Rightarrow> fanin_evidence \<Rightarrow> real dict \<Rightarrow> diff_row list" where
  "semantic_rows host f before after ev thresholds =
     (case (vh_materialized host, before, after) of
        (Some materialized, Some b, Some a) \<Rightarrow>
          if \<not> semantic_wanted host thresholds ev \<or> \<not> full_language host ev then []
          else (case materialized f b a of
                  None \<Rightarrow> []
                | Some result \<Rightarrow>
                    let rows = rows_from_materialized_graph_diff result ev
                    in if \<not> mr_available result \<or> rows = rows_from_fanin ev then [] else rows)
      | _ \<Rightarrow> [])"

record reclass_state =
  xs_rows :: "diff_row list"
  xs_deltas :: "(real \<times> real \<times> real) dict"
  xs_analyzed :: bool
  xs_python_analyzed :: bool
  xs_unparsable :: bool
  xs_structural_unresolved :: bool
  xs_structural_attempted :: bool
  xs_used_semantic :: bool
  xs_parsed_ok :: bool

definition reclass_start :: reclass_state where
  "reclass_start =
     \<lparr>xs_rows = [], xs_deltas = [], xs_analyzed = False, xs_python_analyzed = False, xs_unparsable = False,
      xs_structural_unresolved = False, xs_structural_attempted = False, xs_used_semantic = False,
      xs_parsed_ok = False\<rparr>"

definition python_file :: "parser \<Rightarrow> string \<Rightarrow> string option \<Rightarrow> string option \<Rightarrow> reclass_state \<Rightarrow> reclass_state" where
  "python_file P f before after st =
     (let st = st\<lparr>xs_analyzed := True\<rparr>
      in if parses P before \<and> parses P after
         then st\<lparr>xs_parsed_ok := True, xs_python_analyzed := True,
                 xs_rows := xs_rows st @ compute_symbol_diff_rows P before after f\<rparr>
         else st\<lparr>xs_unparsable := True\<rparr>)"

definition structural_file ::
  "verify_host \<Rightarrow> real dict \<Rightarrow> string \<Rightarrow> string option \<Rightarrow> string option \<Rightarrow> fanin_evidence \<Rightarrow> reclass_state
    \<Rightarrow> reclass_state" where
  "structural_file host thresholds f before after ev st =
     (let fresh = (fi_graph_freshness ev = ''fresh'');
          st = (if fresh then st\<lparr>xs_analyzed := True, xs_structural_attempted := True,
                  xs_structural_unresolved := (xs_structural_unresolved st \<or> fi_resolution_method ev = ''unresolved'')\<rparr>
                else st);
          rows = semantic_rows host f before after ev thresholds
      in if rows \<noteq> [] then st\<lparr>xs_used_semantic := True, xs_rows := xs_rows st @ rows\<rparr>
         else st\<lparr>xs_rows := xs_rows st @ rows_from_fanin ev\<rparr>)"

definition measure_file ::
  "verify_host \<Rightarrow> string \<Rightarrow> string option \<Rightarrow> string option \<Rightarrow> reclass_state \<Rightarrow> reclass_state res" where
  "measure_file host f before after st =
     (case vh_complexity host of
        None \<Rightarrow> Inr st
      | Some complexity \<Rightarrow> rbind (complexity f before after) (\<lambda>d. Inr
          (case d of
             None \<Rightarrow> st
           | Some (cc, mi, weight) \<Rightarrow>
               st\<lparr>xs_deltas := dict_set (xs_deltas st) f (cc, mi, case weight of None \<Rightarrow> 0 | Some w \<Rightarrow> w)\<rparr>)))"

definition is_python :: "string \<Rightarrow> bool" where "is_python f = ends_with f ''.py''"

definition reclassify_file ::
  "verify_host \<Rightarrow> string \<Rightarrow> real dict \<Rightarrow> string \<Rightarrow> reclass_state \<Rightarrow> reclass_state res" where
  "reclassify_file host scope thresholds f st =
     (if \<not> is_python f \<and> (vh_structural host = None \<or> \<not> is_structural_source_file f) then Inr st
      else
        let before = file_at_rev (vh_git host) ''HEAD'' f
        in rbind (read_after host scope f) (\<lambda>after.
           rbind (if is_python f then Inr (python_file (vh_parser host) f before after st)
                  else rbind ((the (vh_structural host)) f before after) (\<lambda>ev.
                    Inr (structural_file host thresholds f before after ev st)))
             (measure_file host f before after)))"

fun reclassify_files ::
  "verify_host \<Rightarrow> string \<Rightarrow> real dict \<Rightarrow> string list \<Rightarrow> reclass_state \<Rightarrow> reclass_state res" where
  "reclassify_files host scope thresholds [] st = Inr st"
| "reclassify_files host scope thresholds (f # fs) st =
     rbind (reclassify_file host scope thresholds f st) (reclassify_files host scope thresholds fs)"

definition enrich_fanin :: "verify_host \<Rightarrow> diff_row list \<Rightarrow> diff_row list" where
  "enrich_fanin host rows =
     (case vh_fanin host of
        None \<Rightarrow> rows
      | Some lookup \<Rightarrow>
          (case lookup (map (\<lambda>r. the (dr_symbol_id r)) rows) of
             None \<Rightarrow> rows
           | Some percentiles \<Rightarrow>
               map (\<lambda>r. case map_of percentiles (the (dr_symbol_id r)) of
                          None \<Rightarrow> r | Some v \<Rightarrow> r\<lparr>dr_callers_percentile := v\<rparr>) rows))"

definition structure_tier :: "reclass_state \<Rightarrow> string" where
  "structure_tier st =
     (if xs_used_semantic st then ''codegraph_semantic''
      else if xs_structural_attempted st then ''codegraph_structural''
      else if xs_python_analyzed st \<or> xs_unparsable st then ''python_ast'' else ''unavailable'')"

record reclass_verdict =
  xv_max_kind :: string
  xv_changed_symbols :: "string list"
  xv_consequential :: bool
  xv_reason :: "consequence_reason list"

definition plain_verdict :: "string \<Rightarrow> reclass_verdict" where
  "plain_verdict kind = \<lparr>xv_max_kind = kind, xv_changed_symbols = [], xv_consequential = False, xv_reason = []\<rparr>"

definition reclass_verdict_of :: "verify_host \<Rightarrow> real dict \<Rightarrow> reclass_state \<Rightarrow> reclass_verdict" where
  "reclass_verdict_of host thresholds st =
     (if xs_unparsable st \<or> xs_structural_unresolved st then plain_verdict ''UNKNOWN''
      else if xs_rows st \<noteq> [] then
        let summary = classify_diff (enrich_fanin host (xs_rows st)) thresholds
        in \<lparr>xv_max_kind = sm_max_change_kind summary, xv_changed_symbols = sm_changed_symbols summary,
            xv_consequential = sm_consequential_symbol_changed summary, xv_reason = sm_consequence_reason summary\<rparr>
      else if xs_parsed_ok st then plain_verdict ''COSMETIC''
      else plain_verdict ''UNKNOWN'')"

section \<open>The summary of the diff\<close>

definition dependency_file :: "string \<Rightarrow> bool" where
  "dependency_file f = list_ex (fnmatch (path_name f)) DEPENDENCY_GLOBS"

definition schema_file :: "string \<Rightarrow> bool" where
  "schema_file f = (ends_with f ''.sql'' \<or> contains f ''/schema'' \<or> starts_with f ''schema/'')"

definition actual_diff :: "verify_host \<Rightarrow> string \<Rightarrow> real dict \<Rightarrow> actual_diff_summary res" where
  "actual_diff host scope thresholds =
     (let files = git_changed_files (vh_git host) scope
      in rbind (reclassify_files host scope thresholds files reclass_start) (\<lambda>st.
         let verdict = reclass_verdict_of host thresholds st
         in Inr \<lparr>ad_current_head = head_commit (vh_git host), ad_changed_files = files,
                 ad_dependency_changed = list_ex dependency_file files,
                 ad_schema_changed = list_ex schema_file (map lower files),
                 ad_migration_changed = list_ex (\<lambda>f. contains f ''migration'') (map lower files),
                 ad_actual_max_change_kind = xv_max_kind verdict,
                 ad_actual_changed_symbols = xv_changed_symbols verdict,
                 ad_actual_consequential_symbol_changed = xv_consequential verdict,
                 ad_actual_consequence_reason = map (vh_reason host) (xv_reason verdict),
                 ad_measured_benefit_deltas = aggregate_file_deltas (xs_deltas st),
                 ad_reclassification_attempted = xs_analyzed st,
                 ad_actual_structure_tier = structure_tier st\<rparr>))"

section \<open>Lemmas\<close>

text \<open>Flags are never cleared and rows never dropped while the files are gone through.\<close>

definition flags_grow :: "reclass_state \<Rightarrow> reclass_state \<Rightarrow> bool" where
  "flags_grow st st' =
     ((xs_unparsable st \<or> xs_structural_unresolved st \<longrightarrow> xs_unparsable st' \<or> xs_structural_unresolved st')
      \<and> (xs_analyzed st \<longrightarrow> xs_analyzed st') \<and> (\<exists>rows. xs_rows st' = xs_rows st @ rows))"

lemma flags_grow_refl [intro]: "flags_grow st st"
  by (simp add: flags_grow_def)

lemma flags_grow_trans: "flags_grow a b \<Longrightarrow> flags_grow b c \<Longrightarrow> flags_grow a c"
  unfolding flags_grow_def by (metis append.assoc)

lemma grows_python: "flags_grow st (python_file P f before after st)"
  by (simp add: flags_grow_def python_file_def Let_def)

lemma grows_structural: "flags_grow st (structural_file host thresholds f before after ev st)"
  by (simp add: flags_grow_def structural_file_def Let_def)

lemma measure_file_same:
  assumes "measure_file host f before after st = Inr st'"
  shows "xs_rows st' = xs_rows st \<and> xs_unparsable st' = xs_unparsable st
     \<and> xs_structural_unresolved st' = xs_structural_unresolved st \<and> xs_analyzed st' = xs_analyzed st
     \<and> xs_parsed_ok st' = xs_parsed_ok st"
proof (cases "vh_complexity host")
  case None
  then show ?thesis using assms by (simp add: measure_file_def)
next
  case (Some complexity)
  then obtain d where "complexity f before after = Inr d"
    using assms by (auto simp: measure_file_def rbind_Inr_iff)
  then show ?thesis using assms Some by (cases d) (auto simp: measure_file_def)
qed

lemma grows_file: "reclassify_file host scope thresholds f st = Inr st' \<Longrightarrow> flags_grow st st'"
proof -
  assume r: "reclassify_file host scope thresholds f st = Inr st'"
  show ?thesis
  proof (cases "\<not> is_python f \<and> (vh_structural host = None \<or> \<not> is_structural_source_file f)")
    case True
    then show ?thesis using r by (simp add: reclassify_file_def flags_grow_refl)
  next
    case False
    then obtain after mid where m: "measure_file host f (file_at_rev (vh_git host) ''HEAD'' f) after mid = Inr st'"
      and "flags_grow st mid"
      using r by (auto simp: reclassify_file_def Let_def rbind_Inr_iff intro: grows_python grows_structural split: if_splits)
    then show ?thesis using measure_file_same [OF m] by (simp add: flags_grow_def)
  qed
qed

lemma grows_files: "reclassify_files host scope thresholds fs st = Inr st' \<Longrightarrow> flags_grow st st'"
proof (induction fs arbitrary: st)
  case (Cons f fs)
  then obtain mid where "reclassify_file host scope thresholds f st = Inr mid"
    "reclassify_files host scope thresholds fs mid = Inr st'" by (auto simp: rbind_Inr_iff)
  then show ?case using Cons.IH grows_file flags_grow_trans by blast
qed auto

text \<open>Each file is gone through in some state, from which the rest flags_grow.\<close>

lemma reclassify_files_mem:
  assumes "reclassify_files host scope thresholds fs st = Inr st'" and "f \<in> set fs"
  shows "\<exists>s s'. reclassify_file host scope thresholds f s = Inr s' \<and> flags_grow s' st'"
  using assms
proof (induction fs arbitrary: st)
  case (Cons g fs)
  then obtain mid where m: "reclassify_file host scope thresholds g st = Inr mid"
    "reclassify_files host scope thresholds fs mid = Inr st'" by (auto simp: rbind_Inr_iff)
  then show ?case using Cons.IH [OF m(2)] Cons.prems(2) grows_files [OF m(2)] by auto
qed simp

text \<open>What reclassifying one Python file contributes.\<close>

lemma reclassify_python:
  assumes "reclassify_file host scope thresholds f s = Inr s'" and "is_python f"
  obtains after where "read_after host scope f = Inr after"
    "xs_analyzed s'"
    "parses (vh_parser host) (file_at_rev (vh_git host) ''HEAD'' f) \<and> parses (vh_parser host) after
       \<Longrightarrow> set (compute_symbol_diff_rows (vh_parser host) (file_at_rev (vh_git host) ''HEAD'' f) after f) \<subseteq> set (xs_rows s')"
    "\<not> (parses (vh_parser host) (file_at_rev (vh_git host) ''HEAD'' f) \<and> parses (vh_parser host) after) \<Longrightarrow> xs_unparsable s'"
proof -
  let ?before = "file_at_rev (vh_git host) ''HEAD'' f"
  obtain after where "read_after host scope f = Inr after"
    and m: "measure_file host f ?before after (python_file (vh_parser host) f ?before after s) = Inr s'"
    using assms by (auto simp: reclassify_file_def Let_def rbind_Inr_iff)
  then show ?thesis using measure_file_same [OF m] by (intro that [of after]) (auto simp: python_file_def Let_def)
qed

lemma reclassify_structural:
  assumes "reclassify_file host scope thresholds f s = Inr s'" and "\<not> is_python f"
    and "vh_structural host = Some structural" and "is_structural_source_file f"
  obtains after ev where "read_after host scope f = Inr after"
    "structural f (file_at_rev (vh_git host) ''HEAD'' f) after = Inr ev"
    "fi_graph_freshness ev = ''fresh'' \<and> fi_resolution_method ev = ''unresolved''
       \<Longrightarrow> xs_analyzed s' \<and> xs_structural_unresolved s'"
proof -
  let ?before = "file_at_rev (vh_git host) ''HEAD'' f"
  obtain after ev where "read_after host scope f = Inr after" "structural f ?before after = Inr ev"
    and m: "measure_file host f ?before after (structural_file host thresholds f ?before after ev s) = Inr s'"
    using assms by (auto simp: reclassify_file_def Let_def rbind_Inr_iff)
  then show ?thesis
    using measure_file_same [OF m] by (intro that [of after ev]) (auto simp: structural_file_def Let_def)
qed

lemma unknown_attempted_not_cleared:
  assumes "ad_actual_max_change_kind actual = ''UNKNOWN''" and "ad_reclassification_attempted actual"
    and "verify dumps loads wording recorded_at loader assessment_id completed preview actual contract_changes ledger
      = Inr (outcome, ledger')"
  shows "gr_pre_commit_decision (vo_result outcome) \<noteq> PROCEED \<and> drift (vo_result outcome)"
proof -
  obtain stored binding required inp result where
    i: "verify_input stored binding required actual contract_changes completed preview = Inr inp"
    and e: "evaluate inp = Inr result" and o: "vo_result outcome = result"
    using assms(3) by (auto simp: verify_def rbind_Inr_iff record_verification_def Let_def split: prod.splits)
  have "classification_failed inp"
    using i assms(1,2) by (auto simp: verify_input_def rbind_Inr_iff classification_failed_def)
  then have "drift result"
    using e by (auto simp: evaluate_def rbind_Inr_iff Let_def drift_def)
  with drift_not_cleared [OF e] o show ?thesis by simp
qed

section \<open>Properties\<close>

text \<open>A staged change of \<open>a.py\<close> from \<open>x\<close> to \<open>y\<close>.\<close>

definition one_file_git :: git where
  "one_file_git args =
     (if args = [''diff'', ''--cached'', ''--name-only''] then Some (''a.py'' @ [LF])
      else if args = [''rev-parse'', ''HEAD''] then Some ''c1''
      else if args = [''show'', ''HEAD:a.py''] then Some ''x''
      else if args = [''show'', '':0:a.py''] then Some ''y'' else None)"

definition one_file_host :: "(string \<Rightarrow> py_ast list option) \<Rightarrow> verify_host" where
  "one_file_host parse =
     \<lparr>vh_git = one_file_git, vh_read = (\<lambda>_. Inr None),
      vh_parser = \<lparr>pr_parse = parse, pr_body_source = (\<lambda>_ _. []), pr_ratio = (\<lambda>_ _. 1)\<rparr>, vh_structural = None,
      vh_materialized = None, vh_capability = None, vh_semantic_enabled = False, vh_complexity = None,
      vh_fanin = None, vh_reason = (\<lambda>_. [])\<rparr>"

definition one_file_summary :: "string \<Rightarrow> actual_diff_summary" where
  "one_file_summary kind =
     (diff_at ''c1'')\<lparr>ad_actual_max_change_kind := kind, ad_actual_changed_symbols := [], ad_actual_structure_tier := ''python_ast''\<rparr>"

lemma one_file_computed [simp]:
  "git_changed_files one_file_git ''staged'' = [''a.py'']" "head_commit one_file_git = Some ''c1''"
  "file_at_rev one_file_git ''HEAD'' ''a.py'' = Some ''x''" "file_at_rev one_file_git '':0'' ''a.py'' = Some ''y''"
  "is_python ''a.py''" "\<not> dependency_file ''a.py''" "\<not> schema_file ''a.py''" "\<not> contains ''a.py'' ''migration''" "lower ''a.py'' = ''a.py''"
  by code_simp+

lemmas one_file_defs =
  actual_diff_def reclassify_file_def read_after_def one_file_host_def python_file_def measure_file_def reclass_start_def
  reclass_verdict_of_def plain_verdict_def structure_tier_def one_file_summary_def diff_at_def aggregate_file_deltas_def parses_def Let_def

lemma unparsed_diff: "actual_diff (one_file_host (\<lambda>_. None)) ''staged'' [] = Inr (one_file_summary ''UNKNOWN'')"
  by (simp add: one_file_defs)

lemma docstring_diff:
  "actual_diff (one_file_host (\<lambda>s. Some [Text_Expr s])) ''staged'' [] = Inr (one_file_summary ''COSMETIC'')"
proof -
  have "compute_symbol_diff_rows (vh_parser (one_file_host (\<lambda>s. Some [Text_Expr s]))) (Some ''x'') (Some ''y'') ''a.py'' = []"
    by code_simp
  then show ?thesis by (simp add: one_file_defs)
qed

text \<open>A changed file that cannot be classified: a Python file that does not parse on both sides, or a source file of
  another language that a fresh graph does not resolve.\<close>

definition unproven_file :: "verify_host \<Rightarrow> string \<Rightarrow> string \<Rightarrow> bool" where
  "unproven_file host scope f =
     (let before = file_at_rev (vh_git host) ''HEAD'' f
      in case read_after host scope f of
           Inl _ \<Rightarrow> False
         | Inr after \<Rightarrow>
             if is_python f then \<not> (parses (vh_parser host) before \<and> parses (vh_parser host) after)
             else is_structural_source_file f
               \<and> (case vh_structural host of
                    None \<Rightarrow> False
                  | Some structural \<Rightarrow>
                      (case structural f before after of
                         Inl _ \<Rightarrow> False
                       | Inr ev \<Rightarrow> fi_graph_freshness ev = ''fresh'' \<and> fi_resolution_method ev = ''unresolved'')))"

lemma unproven_file_flagged:
  assumes "reclassify_file host scope thresholds f s = Inr s'" and "unproven_file host scope f"
  shows "xs_analyzed s' \<and> (xs_unparsable s' \<or> xs_structural_unresolved s')"
proof (cases "is_python f")
  case True
  show ?thesis
    by (rule reclassify_python [OF assms(1) True]) (use assms(2) True in \<open>simp add: unproven_file_def Let_def\<close>)
next
  case False
  then obtain structural where s: "vh_structural host = Some structural" "is_structural_source_file f"
    using assms(2) by (auto simp: unproven_file_def Let_def split: sum.splits option.splits)
  show ?thesis
    by (rule reclassify_structural [OF assms(1) False s])
      (use assms(2) False s in \<open>simp add: unproven_file_def Let_def\<close>)
qed

lemma actual_diff_Inr:
  assumes "actual_diff host scope thresholds = Inr actual"
  obtains st where "reclassify_files host scope thresholds (ad_changed_files actual) reclass_start = Inr st"
    "ad_actual_max_change_kind actual = xv_max_kind (reclass_verdict_of host thresholds st)"
    "ad_actual_changed_symbols actual = xv_changed_symbols (reclass_verdict_of host thresholds st)"
    "ad_reclassification_attempted actual = xs_analyzed st"
proof -
  let ?files = "git_changed_files (vh_git host) scope"
  obtain st where st: "reclassify_files host scope thresholds ?files reclass_start = Inr st"
    using assms by (cases "reclassify_files host scope thresholds ?files reclass_start") (simp_all add: actual_diff_def)
  from assms st have "ad_changed_files actual = ?files"
    "ad_actual_max_change_kind actual = xv_max_kind (reclass_verdict_of host thresholds st)"
    "ad_actual_changed_symbols actual = xv_changed_symbols (reclass_verdict_of host thresholds st)"
    "ad_reclassification_attempted actual = xs_analyzed st"
    by (auto simp: actual_diff_def Let_def)
  with st show ?thesis using that by simp
qed

text \<open>C9: One changed file that cannot be classified stops the commit. Whatever the other files of the diff show, the
  verification of the diff does not clear it, and counts it as drift.\<close>

theorem unproven_diff_is_not_cleared:
  assumes "actual_diff host scope thresholds = Inr actual"
    and "f \<in> set (ad_changed_files actual)" and "unproven_file host scope f"
    and "verify dumps loads wording recorded_at loader assessment_id completed preview actual contract_changes ledger
      = Inr (outcome, ledger')"
  shows "ad_actual_max_change_kind actual = ''UNKNOWN'' \<and> ad_reclassification_attempted actual
    \<and> gr_pre_commit_decision (vo_result outcome) \<noteq> PROCEED \<and> drift (vo_result outcome)"
proof -
  obtain st where st: "reclassify_files host scope thresholds (ad_changed_files actual) reclass_start = Inr st"
    and verdict: "ad_actual_max_change_kind actual = xv_max_kind (reclass_verdict_of host thresholds st)"
    and attempted: "ad_reclassification_attempted actual = xs_analyzed st"
    using actual_diff_Inr [OF assms(1)] by blast
  obtain s s' where s: "reclassify_file host scope thresholds f s = Inr s'" "flags_grow s' st"
    using reclassify_files_mem [OF st assms(2)] by blast
  have flags: "xs_analyzed st" "xs_unparsable st \<or> xs_structural_unresolved st"
    using unproven_file_flagged [OF s(1) assms(3)] s(2) by (auto simp: flags_grow_def)
  then have "ad_actual_max_change_kind actual = ''UNKNOWN''" "ad_reclassification_attempted actual"
    by (simp_all add: verdict attempted reclass_verdict_of_def plain_verdict_def)
  then show ?thesis using unknown_attempted_not_cleared [OF _ _ assms(4)] by simp
qed

lemma unproven_diff_is_not_cleared_witness:
  "\<exists>out ledger. verify (\<lambda>_. ''{}'') (\<lambda>_. rollback_sanction) (\<lambda>_. []) ''t'' (\<lambda>_. Inr controlled_record) ''asm_2''
      [(''rollback_plan'', ''passed'')] False (one_file_summary ''UNKNOWN'') [] sanctioned_ledger = Inr (out, ledger)
    \<and> gr_pre_commit_decision (vo_result out) \<noteq> PROCEED"
proof -
  obtain out ledger where v: "verify (\<lambda>_. ''{}'') (\<lambda>_. rollback_sanction) (\<lambda>_. []) ''t'' (\<lambda>_. Inr controlled_record) ''asm_2''
      [(''rollback_plan'', ''passed'')] False (one_file_summary ''UNKNOWN'') [] sanctioned_ledger = Inr (out, ledger)"
    by (simp add: one_file_summary_def verify_eval)
  have "''a.py'' \<in> set (ad_changed_files (one_file_summary ''UNKNOWN''))"
    by (simp add: one_file_summary_def diff_at_def)
  moreover have "unproven_file (one_file_host (\<lambda>_. None)) ''staged'' ''a.py''"
    by (simp add: unproven_file_def read_after_def one_file_host_def parses_def)
  ultimately show ?thesis using unproven_diff_is_not_cleared [OF unparsed_diff _ _ v] v by blast
qed

text \<open>A cosmetic verdict is a promise about every Python file: the versions before and after parse to the same tree,
  docstrings apart.\<close>

lemma rows_not_cosmetic:
  assumes "rows \<noteq> []" and "list_all real_change rows"
  shows "sm_max_change_kind (classify_diff rows thresholds) \<noteq> ''COSMETIC''"
proof
  assume "sm_max_change_kind (classify_diff rows thresholds) = ''COSMETIC''"
  then have "change_kind_value (max_kind rows) = change_kind_value CK_COSMETIC"
    using assms(1) by (simp add: classify_diff_def Let_def)
  then have "max_kind rows = CK_COSMETIC" by (cases "max_kind rows") simp_all
  moreover obtain r where "r \<in> set rows" using assms(1) by (cases rows) auto
  ultimately show False
    using max_kind_upper [of r rows] real_change_severity [of r] assms(2) by (simp add: list_all_iff)
qed

lemma fanin_rows_real: "list_all real_change (rows_from_fanin ev)"
  by (simp add: rows_from_fanin_def Let_def list_all_iff real_change_def)

lemma real_change_enriched [simp]:
  "real_change r \<Longrightarrow> dr_body_changed r \<Longrightarrow> real_change (enrich_changed r d) \<and> real_change (enrich_member r d)"
  by (simp add: real_change_def enrich_changed_def enrich_member_def)

lemma fanin_rows_body: "r \<in> set (rows_from_fanin ev) \<Longrightarrow> dr_body_changed r"
  by (auto simp: rows_from_fanin_def Let_def)

lemma materialized_rows_real: "list_all real_change (rows_from_materialized_graph_diff result ev)"
  using fanin_rows_real [of ev] fanin_rows_body [of _ ev]
  by (auto simp: rows_from_materialized_graph_diff_def Let_def split: list.splits)

lemma reclassify_file_rows:
  assumes "reclassify_file host scope thresholds f s = Inr s'" and "list_all real_change (xs_rows s)"
  shows "list_all real_change (xs_rows s')"
proof (cases "\<not> is_python f \<and> (vh_structural host = None \<or> \<not> is_structural_source_file f)")
  case True
  then show ?thesis using assms by (simp add: reclassify_file_def)
next
  case False
  have "list_all real_change (xs_rows (python_file P f before after s))" for P before after
    using assms(2) diff_rows_real by (auto simp: python_file_def Let_def list_all_iff)
  moreover have "list_all real_change (xs_rows (structural_file host thresholds f before after ev s))" for before after ev
    using assms(2) fanin_rows_real materialized_rows_real
    by (auto simp: structural_file_def semantic_rows_def Let_def split: option.splits)
  ultimately show ?thesis
    using assms(1) False
    by (auto simp: reclassify_file_def Let_def rbind_Inr_iff split: if_splits dest!: measure_file_same)
qed

lemma reclassify_files_rows:
  "reclassify_files host scope thresholds fs st = Inr st' \<Longrightarrow> list_all real_change (xs_rows st) \<Longrightarrow>
     list_all real_change (xs_rows st')"
  by (induction fs arbitrary: st) (auto simp: rbind_Inr_iff dest: reclassify_file_rows)

lemma enrich_fanin_real: "list_all real_change rows \<Longrightarrow> list_all real_change (enrich_fanin host rows)"
  by (auto simp: enrich_fanin_def list_all_iff real_change_def split: option.splits)

lemma enrich_fanin_Nil [simp]: "enrich_fanin host rows = [] \<longleftrightarrow> rows = []"
  by (simp add: enrich_fanin_def split: option.splits)

lemma cosmetic_verdict:
  assumes "xv_max_kind (reclass_verdict_of host thresholds st) = ''COSMETIC''" and "list_all real_change (xs_rows st)"
  shows "xs_rows st = [] \<and> \<not> xs_unparsable st \<and> \<not> xs_structural_unresolved st"
  using assms rows_not_cosmetic [of "enrich_fanin host (xs_rows st)" thresholds] enrich_fanin_real [of "xs_rows st" host]
  by (auto simp: reclass_verdict_of_def plain_verdict_def Let_def split: if_splits)

text \<open>C10: A cosmetic verdict is a promise about every Python file of the diff: both versions parse, and they are the same
  tree up to docstrings. No changed symbol is reported.\<close>

theorem cosmetic_verdict_is_sound:
  assumes "actual_diff host scope thresholds = Inr actual"
    and "ad_actual_max_change_kind actual = ''COSMETIC''"
    and "f \<in> set (ad_changed_files actual)" and "is_python f"
  shows "\<exists>after. read_after host scope f = Inr after
    \<and> parses (vh_parser host) (file_at_rev (vh_git host) ''HEAD'' f) \<and> parses (vh_parser host) after
    \<and> meaning_of (vh_parser host) (file_at_rev (vh_git host) ''HEAD'' f) = meaning_of (vh_parser host) after
    \<and> ad_actual_changed_symbols actual = []"
proof -
  let ?P = "vh_parser host" and ?before = "file_at_rev (vh_git host) ''HEAD'' f"
  obtain st where st: "reclassify_files host scope thresholds (ad_changed_files actual) reclass_start = Inr st"
    and kind: "xv_max_kind (reclass_verdict_of host thresholds st) = ''COSMETIC''"
    and symbols: "ad_actual_changed_symbols actual = xv_changed_symbols (reclass_verdict_of host thresholds st)"
    using actual_diff_Inr [OF assms(1)] assms(2) by metis
  have "list_all real_change (xs_rows st)"
    using reclassify_files_rows [OF st] by (simp add: reclass_start_def)
  from cosmetic_verdict [OF kind this] have quiet: "xs_rows st = []" "\<not> xs_unparsable st" "\<not> xs_structural_unresolved st"
    by simp_all
  obtain s s' where s: "reclassify_file host scope thresholds f s = Inr s'" "flags_grow s' st"
    using reclassify_files_mem [OF st assms(3)] by blast
  have quiet': "xs_rows s' = []" "\<not> xs_unparsable s'" using s(2) quiet by (auto simp: flags_grow_def)
  obtain after where after: "read_after host scope f = Inr after" "parses ?P ?before" "parses ?P after"
      "compute_symbol_diff_rows ?P ?before after f = []"
    using reclassify_python [OF s(1) assms(4)] quiet' by auto
  moreover have "ad_actual_changed_symbols actual = []"
    using quiet kind by (simp add: symbols reclass_verdict_of_def plain_verdict_def split: if_splits)
  ultimately show ?thesis using no_rows_no_change by blast
qed

lemma cosmetic_verdict_is_sound_witness:
  "meaning_of (vh_parser (one_file_host (\<lambda>s. Some [Text_Expr s]))) (Some ''x'')
    = meaning_of (vh_parser (one_file_host (\<lambda>s. Some [Text_Expr s]))) (Some ''y'')"
proof -
  let ?host = "one_file_host (\<lambda>s. Some [Text_Expr s])"
  have "''a.py'' \<in> set (ad_changed_files (one_file_summary ''COSMETIC''))" "ad_actual_max_change_kind (one_file_summary ''COSMETIC'') = ''COSMETIC''"
    by (simp_all add: one_file_summary_def diff_at_def)
  moreover have "read_after ?host ''staged'' ''a.py'' = Inr (Some ''y'')" "vh_git ?host = one_file_git"
    by (simp_all add: read_after_def one_file_host_def)
  ultimately show ?thesis using cosmetic_verdict_is_sound [OF docstring_diff, of "''a.py''"] by simp
qed

end
