(* ===== verification/Pebra_Graph_Reach.thy ===== *)
theory Pebra_Graph_Reach
  imports Pebra_Change_Classifier "HOL-Library.Multiset"
begin

text \<open>
  The reach of a change in \<open>pebra/adapters/codegraph_adapter.py\<close>, which computes it twice: by a recursive query of the
  database, for the change at hand, and by a search with a queue, for the distribution it is ranked in. The
  database is a record of its tables; a query is the list of its rows. An \<open>id\<close> is the primary key of a node,
  and a value of a column is the text \<open>str\<close> gives for it, \<open>None\<close> for NULL.
\<close>

section \<open>Tables\<close>

record graph_node =
  nd_id :: string
  nd_kind :: string
  nd_name :: string
  nd_qualified_name :: "string option"
  nd_file_path :: "string option"
  nd_language :: "string option"
  nd_start_line :: "int option"
  nd_end_line :: "int option"
  nd_start_column :: "int option"
  nd_signature :: "string option"
  nd_return_type :: "string option"
  nd_type_parameters :: "string option"
  nd_visibility :: "string option"
  nd_is_exported :: "string option"
  nd_is_abstract :: "string option"

record graph_edge =
  eg_source :: string
  eg_target :: string
  eg_kind :: string
  eg_line :: "int option"
  eg_col :: "int option"

record graph_file =
  gf_path :: string
  gf_size :: "int option"
  gf_node_count :: "int option"
  gf_errors :: "string option"

record graph_db =
  kg_nodes :: "graph_node list"
  kg_edges :: "graph_edge list"
  kg_files :: "graph_file list"
  kg_schema_versions :: "int list"
  kg_metadata :: "(string \<times> string) list"

definition FANIN_EDGE_KINDS :: "string list" where
  "FANIN_EDGE_KINDS = [''calls'', ''references'', ''instantiates'']"

definition MODIFY_IMPACT_EDGE_KINDS :: "string list" where
  "MODIFY_IMPACT_EDGE_KINDS = FANIN_EDGE_KINDS @ [''implements'', ''extends'']"

definition CALLABLE_KINDS :: "string list" where
  "CALLABLE_KINDS = [''function'', ''method'', ''class'', ''struct'', ''interface'', ''trait'', ''protocol'']"

definition OWNER_KINDS :: "string list" where
  "OWNER_KINDS = CALLABLE_KINDS @ [''component'', ''route'', ''namespace'', ''module'']"

definition CONTRACT_CONTAINER_KINDS :: "string list" where
  "CONTRACT_CONTAINER_KINDS = [''class'', ''struct'', ''interface'', ''trait'', ''protocol'']"

definition CONTAINER_HIERARCHY_KINDS :: "string list" where
  "CONTAINER_HIERARCHY_KINDS = CONTRACT_CONTAINER_KINDS @ [''namespace'', ''module'', ''file'', ''component'', ''route'']"

definition TRANSITIVE_REACH_MAX_DEPTH :: nat where "TRANSITIVE_REACH_MAX_DEPTH = 3"
definition CONTAINER_MAX_DEPTH :: nat where "CONTAINER_MAX_DEPTH = 8"

section \<open>Recursive queries\<close>

definition sources_into :: "graph_db \<Rightarrow> string list \<Rightarrow> string list \<Rightarrow> string list" where
  "sources_into db kinds ids =
     map eg_source (filter (\<lambda>e. eg_target e \<in> set ids \<and> eg_kind e \<in> set kinds) (kg_edges db))"

definition node_of_kind :: "graph_db \<Rightarrow> string list \<Rightarrow> string \<Rightarrow> bool" where
  "node_of_kind db kinds i = list_ex (\<lambda>n. nd_id n = i \<and> nd_kind n \<in> set kinds) (kg_nodes db)"

text \<open>\<open>WITH RECURSIVE ... UNION ...\<close>: the rows of each depth come from those of the depth before, without
  duplicates.\<close>

fun recursive_levels :: "(string list \<Rightarrow> string list) \<Rightarrow> string list \<Rightarrow> nat \<Rightarrow> string list list" where
  "recursive_levels step ids 0 = []"
| "recursive_levels step ids (Suc n) = (let found = dedupe (step ids) in found # recursive_levels step found n)"

fun with_depth :: "nat \<Rightarrow> string list list \<Rightarrow> (string \<times> nat) list" where
  "with_depth d [] = []"
| "with_depth d (ids # levels) = map (\<lambda>i. (i, d)) ids @ with_depth (Suc d) levels"

text \<open>\<open>SELECT id, MIN(depth) ... GROUP BY id\<close>.\<close>

definition nearest :: "(string \<times> nat) list \<Rightarrow> (string \<times> nat) list" where
  "nearest rows = map (\<lambda>i. (i, Min (set (map snd (filter (\<lambda>r. fst r = i) rows))))) (sorted_set (map fst rows))"

text \<open>The first depth is always queried, the others up to the bound.\<close>

definition transitive_impact_nodes :: "graph_db \<Rightarrow> nat \<Rightarrow> string list \<Rightarrow> string list \<Rightarrow> (string \<times> nat) list" where
  "transitive_impact_nodes db max_depth excluded_ids target_ids =
     (if target_ids = [] then []
      else nearest (with_depth 1 (recursive_levels
        (\<lambda>ids. filter (\<lambda>i. i \<notin> set target_ids \<union> set excluded_ids) (sources_into db MODIFY_IMPACT_EDGE_KINDS ids))
        target_ids (max 1 max_depth))))"

fun count_depth :: "nat \<Rightarrow> (nat \<times> nat) list \<Rightarrow> (nat \<times> nat) list" where
  "count_depth d [] = [(d, 1)]"
| "count_depth d ((a, n) # buckets) = (if a = d then (a, n + 1) # buckets else (a, n) # count_depth d buckets)"

definition depth_buckets :: "nat list \<Rightarrow> (nat \<times> nat) list" where
  "depth_buckets depths = sort_key fst (fold count_depth depths [])"

definition transitive_impact :: "graph_db \<Rightarrow> nat \<Rightarrow> string list \<Rightarrow> nat \<times> (nat \<times> nat) list" where
  "transitive_impact db max_depth target_ids =
     (let rows = transitive_impact_nodes db max_depth [] target_ids
      in (length rows, depth_buckets (map snd rows)))"

definition container_parents :: "graph_db \<Rightarrow> string list \<Rightarrow> string list" where
  "container_parents db ids = filter (node_of_kind db CONTAINER_HIERARCHY_KINDS) (sources_into db [''contains''] ids)"

definition container_hierarchy_rows :: "graph_db \<Rightarrow> string list \<Rightarrow> graph_node list" where
  "container_hierarchy_rows db node_ids =
     (if node_ids = [] then []
      else let ancestors = concat (recursive_levels (container_parents db) node_ids CONTAINER_MAX_DEPTH)
           in filter (\<lambda>n. nd_id n \<in> set ancestors) (kg_nodes db))"

definition modify_impact_target_ids :: "graph_db \<Rightarrow> string list \<Rightarrow> string list" where
  "modify_impact_target_ids db node_ids =
     (if node_ids = [] then []
      else node_ids @ filter (\<lambda>i. i \<notin> set node_ids) (dedupe (map nd_id (container_hierarchy_rows db node_ids))))"

section \<open>Searches\<close>

text \<open>The inner loop: sources not yet visited are, and enter the queue with their depth.\<close>

fun visit_all :: "string list \<Rightarrow> nat \<Rightarrow> string list \<Rightarrow> (string \<times> nat) list \<Rightarrow> string list \<times> (string \<times> nat) list" where
  "visit_all [] d visited new = (visited, new)"
| "visit_all (s # ss) d visited new =
     (if s \<in> set visited then visit_all ss d visited new else visit_all ss d (visited @ [s]) (new @ [(s, d)]))"

fun fresh :: "string list \<Rightarrow> string list \<Rightarrow> string list" where
  "fresh [] visited = []"
| "fresh (s # ss) visited = (if s \<in> set visited then fresh ss visited else s # fresh ss (visited @ [s]))"

lemma visit_all_fresh:
  "visit_all ss d visited new = (visited @ fresh ss visited, new @ map (\<lambda>s. (s, d)) (fresh ss visited))"
  by (induction ss d visited new rule: visit_all.induct) auto

lemma set_fresh [simp]: "set (fresh ss visited) = set ss - set visited"
  by (induction ss visited rule: fresh.induct) auto

lemma distinct_fresh [simp]: "distinct (fresh ss visited)"
  by (induction ss visited rule: fresh.induct) auto

lemma fresh_append: "fresh (as @ bs) visited = fresh as visited @ fresh bs (visited @ fresh as visited)"
  by (induction as visited rule: fresh.induct) auto

text \<open>The queue loop of both searches. The last argument lists what was visited on the way, with its depth: the
  nodes one search collects and the depths the other one counts.\<close>

function search_loop ::
  "nat \<Rightarrow> string list dict \<Rightarrow> (string \<times> nat) list \<Rightarrow> string list \<Rightarrow> (string \<times> nat) list
    \<Rightarrow> string list \<times> (string \<times> nat) list" where
  "search_loop max_depth adjacent [] visited found = (visited, found)"
| "search_loop max_depth adjacent ((node, depth) # frontier) visited found =
     (if max_depth \<le> depth then search_loop max_depth adjacent frontier visited found
      else case visit_all (dict_get adjacent node []) (Suc depth) visited [] of
        (visited', new) \<Rightarrow> search_loop max_depth adjacent (frontier @ new) visited' (found @ new))"
  by pat_completeness auto
termination
proof (relation "inv_image (less_than <*lex*> less_than)
    (\<lambda>(_, adjacent, frontier, visited, _). (card (set (concat (map snd adjacent)) - set visited), length frontier))",
    goal_cases)
  case (3 max_depth adjacent node depth frontier visited found visited' new)
  let ?all = "set (concat (map snd adjacent))"
  have visit: "visited' = visited @ fresh (dict_get adjacent node []) visited"
    "new = map (\<lambda>s. (s, Suc depth)) (fresh (dict_get adjacent node []) visited)"
    using 3 by (simp_all add: visit_all_fresh)
  show ?case
  proof (cases "fresh (dict_get adjacent node []) visited = []")
    case False
    have "set (dict_get adjacent node []) \<subseteq> ?all"
      by (cases "map_of adjacent node") (force simp: dict_get_def dest: map_of_SomeD)+
    moreover have "set (dict_get adjacent node []) - set visited \<noteq> {}" using False set_fresh by (metis set_empty)
    ultimately have "?all - set visited' \<subset> ?all - set visited" by (auto simp: visit(1))
    then show ?thesis by (simp add: psubset_card_mono)
  qed (simp add: visit)
qed auto

definition grouped_sources :: "graph_edge list \<Rightarrow> string list dict" where
  "grouped_sources edges =
     fold (\<lambda>e groups. dict_set groups (eg_target e) (dict_get groups (eg_target e) [] @ [eg_source e])) edges []"

definition container_targets :: "string \<Rightarrow> string list dict \<Rightarrow> string list" where
  "container_targets start contains_parents =
     start # map fst (snd (search_loop CONTAINER_MAX_DEPTH contains_parents [(start, 0)] [start] []))"

definition transitive_impact_from_reverse :: "nat \<Rightarrow> string list \<Rightarrow> string list dict \<Rightarrow> nat \<times> (nat \<times> nat) list" where
  "transitive_impact_from_reverse max_depth target_ids reverse =
     (case search_loop max_depth reverse (map (\<lambda>t. (t, 0)) target_ids) (dedupe target_ids) [] of
        (visited, found) \<Rightarrow>
          (length (filter (\<lambda>v. v \<notin> set target_ids) visited), depth_buckets (map snd found)))"

definition contains_parents_of :: "graph_db \<Rightarrow> string list dict" where
  "contains_parents_of db =
     grouped_sources (filter (\<lambda>e. eg_kind e = ''contains'' \<and> node_of_kind db CONTAINER_HIERARCHY_KINDS (eg_source e)) (kg_edges db))"

definition reverse_of :: "graph_db \<Rightarrow> string list dict" where
  "reverse_of db = grouped_sources (filter (\<lambda>e. eg_kind e \<in> set MODIFY_IMPACT_EDGE_KINDS) (kg_edges db))"

section \<open>Levels\<close>

definition neighbours :: "string list dict \<Rightarrow> string list \<Rightarrow> string list" where
  "neighbours adjacent xs = concat (map (\<lambda>x. dict_get adjacent x []) xs)"

fun search_levels :: "(string list \<Rightarrow> string list) \<Rightarrow> string list \<Rightarrow> string list \<Rightarrow> nat \<Rightarrow> string list list" where
  "search_levels step xs visited 0 = []"
| "search_levels step xs visited (Suc n) =
     (let found = fresh (step xs) visited in found # search_levels step found (visited @ found) n)"

lemma search_loop_batch:
  "d < m \<Longrightarrow> search_loop m adjacent (map (\<lambda>x. (x, d)) xs @ map (\<lambda>y. (y, Suc d)) ys) visited found
     = (let f = fresh (neighbours adjacent xs) visited
        in search_loop m adjacent (map (\<lambda>y. (y, Suc d)) (ys @ f)) (visited @ f) (found @ map (\<lambda>y. (y, Suc d)) f))"
proof (induction xs arbitrary: ys visited found)
  case (Cons x xs)
  let ?f = "fresh (dict_get adjacent x []) visited"
  show ?case
    using Cons.prems Cons.IH [of "ys @ ?f" "visited @ ?f" "found @ map (\<lambda>y. (y, Suc d)) ?f"]
    by (simp add: visit_all_fresh neighbours_def fresh_append Let_def)
qed (simp add: neighbours_def)

lemma search_loop_done: "m \<le> d \<Longrightarrow> search_loop m adjacent (map (\<lambda>x. (x, d)) xs) visited found = (visited, found)"
  by (induction xs) auto

lemma search_loop_levels:
  "search_loop m adjacent (map (\<lambda>x. (x, d)) xs) visited found
     = (let ls = search_levels (neighbours adjacent) xs visited (m - d)
        in (visited @ concat ls, found @ with_depth (Suc d) ls))"
proof (induction "m - d" arbitrary: d xs visited found)
  case 0
  then show ?case by (simp add: search_loop_done)
next
  case (Suc n)
  then have "d < m" "n = m - Suc d" by simp_all
  then show ?case
    using Suc(1) [of "Suc d"] search_loop_batch [of d m adjacent xs "[]" visited found] Suc(2) [symmetric]
    by (simp add: Let_def)
qed

lemma length_search_levels [simp]: "length (search_levels step xs visited n) = n"
  by (induction n arbitrary: xs visited) (simp_all add: Let_def)

lemma length_recursive_levels [simp]: "length (recursive_levels step ids n) = n"
  by (induction n arbitrary: ids) (simp_all add: Let_def)

lemma search_levels_distinct:
  "distinct (concat (search_levels step xs visited n)) \<and> set (concat (search_levels step xs visited n)) \<inter> set visited = {}"
proof (induction n arbitrary: xs visited)
  case (Suc n)
  show ?case using Suc [of "fresh (step xs) visited" "visited @ fresh (step xs) visited"] by (auto simp: Let_def)
qed simp

lemma map_fst_with_depth [simp]: "map fst (with_depth d ls) = concat ls"
  by (induction d ls rule: with_depth.induct) (simp_all add: o_def)

lemma with_depth_mem: "(i, e) \<in> set (with_depth d ls) \<longleftrightarrow> d \<le> e \<and> e < d + length ls \<and> i \<in> set (ls ! (e - d))"
proof (induction d ls rule: with_depth.induct)
  case (2 d ids levels)
  then show ?case by (cases "e = d") (auto simp: nth_Cons' Suc_diff_le not_less_eq_eq)
qed simp

section \<open>Both as sets\<close>

text \<open>The levels of the query: every step follows the edges and leaves out the blocked nodes.\<close>

fun level_set :: "(string \<Rightarrow> string set) \<Rightarrow> string set \<Rightarrow> string set \<Rightarrow> nat \<Rightarrow> string set" where
  "level_set P T X 0 = X"
| "level_set P T X (Suc n) = \<Union> (P ` level_set P T X n) - T"

text \<open>The levels of the search, and what it has seen by then.\<close>

fun front_set :: "(string \<Rightarrow> string set) \<Rightarrow> string set \<Rightarrow> string set \<Rightarrow> nat \<Rightarrow> string set"
  and seen_set :: "(string \<Rightarrow> string set) \<Rightarrow> string set \<Rightarrow> string set \<Rightarrow> nat \<Rightarrow> string set" where
  "front_set P X V 0 = X"
| "front_set P X V (Suc n) = \<Union> (P ` front_set P X V n) - seen_set P X V n"
| "seen_set P X V 0 = V"
| "seen_set P X V (Suc n) = seen_set P X V n \<union> \<Union> (P ` front_set P X V n)"

lemma level_set_shift: "level_set P T X (Suc n) = level_set P T (\<Union> (P ` X) - T) n"
  by (induction n) auto

lemma front_set_shift:
  "front_set P X V (Suc n) = front_set P (\<Union> (P ` X) - V) (V \<union> \<Union> (P ` X)) n
   \<and> seen_set P X V (Suc n) = seen_set P (\<Union> (P ` X) - V) (V \<union> \<Union> (P ` X)) n"
  by (induction n) auto

lemma recursive_levels_set:
  assumes "\<And>ids. set (step ids) = \<Union> (P ` set ids) - T" and "k < n"
  shows "set (recursive_levels step ids n ! k) = level_set P T (set ids) (Suc k)"
  using assms(2)
proof (induction n arbitrary: ids k)
  case (Suc n)
  have "set (recursive_levels step (dedupe (step ids)) n ! j) = level_set P T (\<Union> (P ` set ids) - T) (Suc j)" if "j < n" for j
    using Suc.IH [OF that, of "dedupe (step ids)"] assms(1) by simp
  then show ?case using Suc.prems assms(1) [of ids] level_set_shift [of P T "set ids"] by (cases k) (auto simp: Let_def)
qed simp

lemma search_levels_set:
  assumes "\<And>ids. set (step ids) = \<Union> (P ` set ids)" and "k < n"
  shows "set (search_levels step xs visited n ! k) = front_set P (set xs) (set visited) (Suc k)"
  using assms(2)
proof (induction n arbitrary: xs visited k)
  case (Suc n)
  let ?f = "fresh (step xs) visited"
  have later: "set (search_levels step ?f (visited @ ?f) n ! j)
     = front_set P (\<Union> (P ` set xs) - set visited) (set visited \<union> \<Union> (P ` set xs)) (Suc j)" if "j < n" for j
    using Suc.IH [OF that, of ?f "visited @ ?f"] assms(1) [of xs] by simp
  show ?case
  proof (cases k)
    case 0
    then show ?thesis using assms(1) [of xs] by (simp add: Let_def)
  next
    case (Suc j)
    then show ?thesis using later [of j] Suc.prems front_set_shift [of P "set xs" "set visited" "Suc j"] by (simp add: Let_def)
  qed
qed simp

lemma seen_keeps: "V \<subseteq> seen_set P X V n"
  by (induction n) auto

lemma seen_closed: "y \<in> seen_set P X X n \<Longrightarrow> P y \<subseteq> seen_set P X X (Suc n)"
proof (induction n)
  case (Suc n)
  then show ?case by (cases "y \<in> seen_set P X X n") auto
qed auto

lemma front_in_level: "T \<subseteq> X \<Longrightarrow> front_set P X X n \<subseteq> level_set P T X n"
proof (induction n)
  case (Suc n)
  then show ?case using seen_keeps [of X P X n] by auto
qed simp

lemma level_in_seen: "level_set P T X n \<subseteq> seen_set P X X n"
proof (induction n)
  case (Suc n)
  then show ?case using seen_closed [of _ P X n] by auto
qed simp

lemma grown_union:
  "S' \<subseteq> S \<union> F \<Longrightarrow> S \<subseteq> S' \<Longrightarrow> F \<subseteq> L \<Longrightarrow> L \<subseteq> S' \<Longrightarrow> S' = L \<union> S"
  by blast

lemma seen_is_levels:
  assumes "T \<subseteq> X" shows "seen_set P X X n = (\<Union>j \<le> n. level_set P T X j)"
proof (induction n)
  case (Suc n)
  have "seen_set P X X (Suc n) \<subseteq> seen_set P X X n \<union> front_set P X X (Suc n)"
    and "seen_set P X X n \<subseteq> seen_set P X X (Suc n)" by auto
  moreover have "(\<Union>j \<le> Suc n. level_set P T X j) = level_set P T X (Suc n) \<union> (\<Union>j \<le> n. level_set P T X j)"
    by (simp add: atMost_Suc del: level_set.simps)
  ultimately show ?case
    using grown_union [of "seen_set P X X (Suc n)" "seen_set P X X n" "front_set P X X (Suc n)" "level_set P T X (Suc n)"]
      Suc front_in_level [OF assms, of P "Suc n"] level_in_seen [of P T X "Suc n"] by (simp only:)
qed simp

lemma seen_is_fronts: "seen_set P X V n = V \<union> (\<Union>k < n. front_set P X V (Suc k))"
  by (induction n) (auto simp: lessThan_Suc)

lemma levels_from_zero: "(\<Union>j \<le> n. level_set P T X j) = X \<union> (\<Union>k < n. level_set P T X (Suc k))"
  by (induction n) (auto simp: atMost_Suc lessThan_Suc simp del: level_set.simps(2))

lemma front_is_new_level:
  assumes "T \<subseteq> X"
  shows "front_set P X X (Suc n) = level_set P T X (Suc n) - (\<Union>j \<le> n. level_set P T X j)"
  using front_in_level [OF assms, of P "Suc n"] level_in_seen [of P T X "Suc n"] seen_is_levels [OF assms, of P n]
  by auto

section \<open>The same reach\<close>

lemma nearest_mem: "(i, e) \<in> set (nearest rows) \<longleftrightarrow> (i, e) \<in> set rows \<and> (\<forall>e'. (i, e') \<in> set rows \<longrightarrow> e \<le> e')"
proof -
  let ?D = "set (map snd (filter (\<lambda>r. fst r = i) rows))"
  have D: "d \<in> ?D \<longleftrightarrow> (i, d) \<in> set rows" for d by force
  have "(i, e) \<in> set (nearest rows) \<longleftrightarrow> i \<in> fst ` set rows \<and> e = Min ?D" by (auto simp: nearest_def)
  also have "\<dots> \<longleftrightarrow> ?D \<noteq> {} \<and> e = Min ?D" by force
  also have "\<dots> \<longleftrightarrow> e \<in> ?D \<and> (\<forall>d \<in> ?D. e \<le> d)" by (metis List.finite_set Min_eq_iff Min_in Min_le equals0D)
  finally show ?thesis unfolding Ball_def D .
qed

lemma distinct_nearest [simp]: "distinct (map fst (nearest rows))"
  by (simp add: nearest_def o_def)

lemma map_of_count_depth:
  "map_of (count_depth d buckets) a = (if a = d then Some (case map_of buckets d of None \<Rightarrow> 1 | Some n \<Rightarrow> n + 1) else map_of buckets a)"
  by (induction d buckets rule: count_depth.induct) auto

lemma keys_count_depth: "fst ` set (count_depth d buckets) = insert d (fst ` set buckets)"
  by (induction d buckets rule: count_depth.induct) auto

lemma distinct_count_depth: "distinct (map fst buckets) \<Longrightarrow> distinct (map fst (count_depth d buckets))"
  by (induction d buckets rule: count_depth.induct) (auto simp: keys_count_depth)

lemma distinct_fold_count: "distinct (map fst buckets) \<Longrightarrow> distinct (map fst (fold count_depth ds buckets))"
  by (induction ds arbitrary: buckets) (auto intro: distinct_count_depth)

lemma map_of_fold_count:
  "map_of (fold count_depth ds buckets) a
     = (if a \<in> set ds \<or> map_of buckets a \<noteq> None
        then Some (count (mset ds) a + (case map_of buckets a of None \<Rightarrow> 0 | Some n \<Rightarrow> n)) else None)"
  by (induction ds arbitrary: buckets) (auto simp: map_of_count_depth split: option.splits)

lemma depth_buckets_mset: "mset ds = mset es \<Longrightarrow> depth_buckets ds = depth_buckets es"
proof -
  assume m: "mset ds = mset es"
  let ?a = "fold count_depth ds []" and ?b = "fold count_depth es []"
  have d: "distinct (map fst ?a)" "distinct (map fst ?b)" by (simp_all add: distinct_fold_count)
  have "map_of ?a = map_of ?b"
    using m mset_eq_setD [OF m] by (auto simp: map_of_fold_count)
  then have "set ?a = set ?b" using map_of_inject_set [OF d] by blast
  then show ?thesis
    using d unfolding depth_buckets_def
    by (intro map_sorted_distinct_set_unique [of fst]) (auto simp: distinct_map)
qed

lemma rows_as_found:
  assumes "distinct (map fst rows)" and "distinct (map fst found)" and "set rows = set found"
  shows "length rows = length found \<and> depth_buckets (map snd rows) = depth_buckets (map snd found)"
proof -
  have "mset rows = mset found" using assms by (auto simp: distinct_map set_eq_iff_mset_eq_distinct [symmetric])
  then have "mset (map snd rows) = mset (map snd found)" by (metis mset_map)
  then show ?thesis using \<open>mset rows = mset found\<close> depth_buckets_mset mset_eq_length by blast
qed

lemma grouped_sources_get:
  "dict_get (grouped_sources edges) x [] = map eg_source (filter (\<lambda>e. eg_target e = x) edges)"
proof -
  have "dict_get (fold (\<lambda>e groups. dict_set groups (eg_target e) (dict_get groups (eg_target e) [] @ [eg_source e])) edges groups) x []
     = dict_get groups x [] @ map eg_source (filter (\<lambda>e. eg_target e = x) edges)" for groups
    by (induction edges arbitrary: groups) (auto simp: dict_get_set_other)
  then show ?thesis by (simp add: grouped_sources_def)
qed

text \<open>Where the edges of the given kinds lead back to from a node.\<close>

definition impacted_by :: "graph_db \<Rightarrow> string \<Rightarrow> string set" where
  "impacted_by db x = eg_source ` {e \<in> set (kg_edges db). eg_target e = x \<and> eg_kind e \<in> set MODIFY_IMPACT_EDGE_KINDS}"

definition contained_in :: "graph_db \<Rightarrow> string \<Rightarrow> string set" where
  "contained_in db x =
     eg_source ` {e \<in> set (kg_edges db). eg_target e = x \<and> eg_kind e = ''contains''
       \<and> node_of_kind db CONTAINER_HIERARCHY_KINDS (eg_source e)}"

lemma set_sources_into: "set (sources_into db MODIFY_IMPACT_EDGE_KINDS ids) = \<Union> (impacted_by db ` set ids)"
  by (auto simp: sources_into_def impacted_by_def)

lemma set_neighbours_reverse: "set (neighbours (reverse_of db) ids) = \<Union> (impacted_by db ` set ids)"
  by (auto simp: neighbours_def reverse_of_def grouped_sources_get impacted_by_def)

lemma set_container_parents: "set (container_parents db ids) = \<Union> (contained_in db ` set ids)"
  by (auto simp: container_parents_def sources_into_def contained_in_def)

lemma set_neighbours_contains: "set (neighbours (contains_parents_of db) ids) = \<Union> (contained_in db ` set ids)"
  by (auto simp: neighbours_def contains_parents_of_def grouped_sources_get contained_in_def)

lemma transitive_impact_cong:
  assumes "set ts = set us" shows "transitive_impact db m ts = transitive_impact db m us"
proof -
  have "sources_into db MODIFY_IMPACT_EDGE_KINDS ts = sources_into db MODIFY_IMPACT_EDGE_KINDS us"
    by (simp add: sources_into_def assms)
  moreover have "\<exists>n. max 1 m = Suc n" by (cases m) (auto simp: max_def)
  ultimately have "recursive_levels step ts (max 1 m) = recursive_levels step us (max 1 m)"
    if "step = (\<lambda>ids. filter (\<lambda>i. i \<notin> set us \<union> set []) (sources_into db MODIFY_IMPACT_EDGE_KINDS ids))" for step
    using that by (auto simp: Let_def)
  moreover have "ts = [] \<longleftrightarrow> us = []" using assms by (metis set_empty)
  ultimately show ?thesis unfolding transitive_impact_def transitive_impact_nodes_def assms by simp
qed

lemma set_concat_nth: "set (concat ls) = (\<Union>k < length ls. set (ls ! k))"
  unfolding set_concat by (auto simp: set_conv_nth [of ls])

lemma found_by_search:
  assumes "snd (search_loop m adjacent (map (\<lambda>t. (t, 0)) ts) (dedupe ts) []) = found"
    and "\<And>ids. set (neighbours adjacent ids) = \<Union> (P ` set ids)"
  shows "distinct (map fst found) \<and> set (map fst found) \<inter> set ts = {}
    \<and> (\<forall>i e. (i, e) \<in> set found \<longleftrightarrow> 0 < e \<and> e \<le> m \<and> i \<in> front_set P (set ts) (set ts) e)"
proof -
  let ?ls = "search_levels (neighbours adjacent) ts (dedupe ts) m"
  have found: "found = with_depth 1 ?ls" using assms(1) by (simp add: search_loop_levels Let_def)
  have level: "set (?ls ! k) = front_set P (set ts) (set ts) (Suc k)" if "k < m" for k
    using search_levels_set [of "neighbours adjacent" P, OF assms(2) that, of ts "dedupe ts"] by simp
  have "(i, e) \<in> set found \<longleftrightarrow> 0 < e \<and> e \<le> m \<and> i \<in> front_set P (set ts) (set ts) e" for i e
    using level [of "e - 1"] by (cases e) (auto simp: found with_depth_mem)
  then show ?thesis using search_levels_distinct [of "neighbours adjacent" ts "dedupe ts" m] by (auto simp: found)
qed

lemma container_targets_set:
  "set (container_targets i (contains_parents_of db)) = set (modify_impact_target_ids db [i])"
proof -
  let ?P = "contained_in db" and ?levels = "recursive_levels (container_parents db) [i] CONTAINER_MAX_DEPTH"
  let ?found = "snd (search_loop CONTAINER_MAX_DEPTH (contains_parents_of db) (map (\<lambda>t. (t, 0)) [i]) (dedupe [i]) [])"
  have level: "set (?levels ! k) = level_set ?P {} {i} (Suc k)" if "k < CONTAINER_MAX_DEPTH" for k
    using recursive_levels_set [of "container_parents db" ?P "{}", OF _ that, of "[i]"] set_container_parents by simp
  have ancestors: "set (concat ?levels) = (\<Union>k < CONTAINER_MAX_DEPTH. level_set ?P {} {i} (Suc k))"
    using level by (simp add: set_concat_nth del: set_concat level_set.simps)
  have nodes: "x \<in> nd_id ` set (kg_nodes db)" if "x \<in> set (concat ?levels)" for x
    using that unfolding ancestors by (auto simp: contained_in_def node_of_kind_def list_ex_iff) (metis image_eqI)
  have mem: "(x, e) \<in> set ?found \<longleftrightarrow> 0 < e \<and> e \<le> CONTAINER_MAX_DEPTH \<and> x \<in> front_set ?P {i} {i} e" for x e
    using found_by_search [OF refl set_neighbours_contains, of CONTAINER_MAX_DEPTH db "[i]"] by (simp del: split_paired_All)
  have "fst ` set ?found = {x. \<exists>e. (x, e) \<in> set ?found}" by force
  also have "\<dots> = (\<Union>k < CONTAINER_MAX_DEPTH. front_set ?P {i} {i} (Suc k))"
    unfolding mem by (auto simp: gr0_conv_Suc Suc_le_eq simp del: front_set.simps)
  finally have found: "{i} \<union> fst ` set ?found = seen_set ?P {i} {i} CONTAINER_MAX_DEPTH"
    using seen_is_fronts [of ?P "{i}" "{i}"] by (simp only:)
  have "seen_set ?P {i} {i} CONTAINER_MAX_DEPTH = {i} \<union> set (concat ?levels)"
    using seen_is_levels [of "{}" "{i}" ?P] levels_from_zero [of ?P "{}" "{i}"] ancestors by (simp only: empty_subsetI simp_thms)
  moreover have "set (modify_impact_target_ids db [i]) = {i} \<union> set (concat ?levels)"
    using nodes by (auto simp: modify_impact_target_ids_def container_hierarchy_rows_def Let_def simp del: set_concat)
  moreover have "set (container_targets i (contains_parents_of db)) = {i} \<union> fst ` set ?found"
    by (simp add: container_targets_def dedupe_def)
  ultimately show ?thesis using found by (simp only:)
qed

lemma query_is_search:
  assumes "0 < max_depth"
  shows "transitive_impact db max_depth target_ids
    = transitive_impact_from_reverse max_depth target_ids (reverse_of db)"
proof (cases "target_ids = []")
  case True
  then show ?thesis
    by (simp add: transitive_impact_def transitive_impact_nodes_def transitive_impact_from_reverse_def)
next
  case False
  let ?T = "set target_ids" and ?P = "impacted_by db"
  let ?step = "\<lambda>ids. filter (\<lambda>i. i \<notin> set target_ids \<union> set []) (sources_into db MODIFY_IMPACT_EDGE_KINDS ids)"
  define rows where "rows = transitive_impact_nodes db max_depth [] target_ids"
  obtain visited found where loop: "search_loop max_depth (reverse_of db) (map (\<lambda>t. (t, 0)) target_ids) (dedupe target_ids) []
      = (visited, found)" by fastforce
  have search: "distinct (map fst found)" "set (map fst found) \<inter> ?T = {}"
    "\<And>i e. (i, e) \<in> set found \<longleftrightarrow> 0 < e \<and> e \<le> max_depth \<and> i \<in> front_set ?P ?T ?T e"
    using found_by_search [of max_depth "reverse_of db" target_ids found ?P] loop set_neighbours_reverse by simp_all
  have visited: "visited = dedupe target_ids @ map fst found"
    using loop by (auto simp: search_loop_levels Let_def)
  have level: "set (recursive_levels ?step target_ids max_depth ! k) = level_set ?P ?T ?T (Suc k)" if "k < max_depth" for k
    using that by (intro recursive_levels_set) (auto simp: set_sources_into)
  have raw: "(i, e) \<in> set (with_depth 1 (recursive_levels ?step target_ids max_depth))
      \<longleftrightarrow> 0 < e \<and> e \<le> max_depth \<and> i \<in> level_set ?P ?T ?T e" for i e
    using level [of "e - 1"] by (cases e) (auto simp: with_depth_mem)
  have rows: "rows = nearest (with_depth 1 (recursive_levels ?step target_ids max_depth))"
    using False assms by (simp add: rows_def transitive_impact_nodes_def max_def)
  have "(i, e) \<in> set rows \<longleftrightarrow> (i, e) \<in> set found" for i e
  proof (cases e)
    case (Suc k)
    have start: "i \<notin> level_set ?P ?T ?T 0" if "i \<in> level_set ?P ?T ?T e" using that by (simp add: Suc)
    have "(\<forall>d. 0 < d \<and> d \<le> max_depth \<and> i \<in> level_set ?P ?T ?T d \<longrightarrow> e \<le> d)
       \<longleftrightarrow> (\<forall>j \<le> k. i \<notin> level_set ?P ?T ?T j)" if "e \<le> max_depth" "i \<in> level_set ?P ?T ?T e"
    proof (intro iffI allI impI)
      fix j assume "\<forall>d. 0 < d \<and> d \<le> max_depth \<and> i \<in> level_set ?P ?T ?T d \<longrightarrow> e \<le> d" "j \<le> k"
      then show "i \<notin> level_set ?P ?T ?T j" using that start Suc by (cases "j = 0") (auto simp del: level_set.simps)
    next
      fix d assume "\<forall>j \<le> k. i \<notin> level_set ?P ?T ?T j" "0 < d \<and> d \<le> max_depth \<and> i \<in> level_set ?P ?T ?T d"
      then show "e \<le> d" using Suc not_less_eq_eq by blast
    qed
    then have "(i, e) \<in> set rows \<longleftrightarrow> e \<le> max_depth \<and> i \<in> level_set ?P ?T ?T e - (\<Union>j \<le> k. level_set ?P ?T ?T j)"
      unfolding rows nearest_mem raw using Suc by (auto simp del: level_set.simps)
    then show ?thesis using front_is_new_level [of ?T ?T ?P k] search(3) Suc by simp
  qed (unfold rows nearest_mem raw search(3), simp)
  then have "length rows = length found \<and> depth_buckets (map snd rows) = depth_buckets (map snd found)"
    using search(1) by (intro rows_as_found) (auto simp: rows)
  moreover have "filter (\<lambda>v. v \<notin> ?T) visited = map fst found"
    using search(2) by (auto simp: visited filter_id_conv)
  ultimately show ?thesis
    by (simp add: transitive_impact_def transitive_impact_from_reverse_def loop rows_def [symmetric] Let_def)
qed

section \<open>Properties\<close>

text \<open>C16: The recursive query of the database and the search with a queue compute the same reach: the same number of
  impacted nodes, and the same number at every distance. The count of a change and the distribution it is ranked
  in are measured alike.\<close>

theorem recursive_query_equals_search:
  assumes "0 < max_depth"
  shows "transitive_impact db max_depth target_ids
    = transitive_impact_from_reverse max_depth target_ids (reverse_of db)"
  using assms by (rule query_is_search)

text \<open>A cycle of three functions, one of which is called from outside.\<close>

definition cycle_graph :: graph_db where
  "cycle_graph =
     \<lparr>kg_nodes = [],
      kg_edges = map (\<lambda>(s, t). \<lparr>eg_source = s, eg_target = t, eg_kind = ''calls'', eg_line = None, eg_col = None\<rparr>)
        [(''b'', ''a''), (''c'', ''b''), (''a'', ''c''), (''d'', ''b'')],
      kg_files = [], kg_schema_versions = [5], kg_metadata = []\<rparr>"

lemma recursive_query_equals_search_witness:
  "transitive_impact cycle_graph TRANSITIVE_REACH_MAX_DEPTH [''a''] = (3, [(1, 1), (2, 2)])"
proof -
  have "0 < TRANSITIVE_REACH_MAX_DEPTH" by (simp add: TRANSITIVE_REACH_MAX_DEPTH_def)
  moreover have "transitive_impact_from_reverse TRANSITIVE_REACH_MAX_DEPTH [''a''] (reverse_of cycle_graph) = (3, [(1, 1), (2, 2)])"
    by code_simp
  ultimately show ?thesis by (simp only: recursive_query_equals_search)
qed

end
