(* ===== verification/Pebra_Codegraph_Status.thy ===== *)
theory Pebra_Codegraph_Status
  imports Pebra_Graph_Version Pebra_Graph_Reach Pebra_Sha256
begin

text \<open>
  The trust part of \<open>pebra/adapters/codegraph_adapter.py\<close>: when the index of the graph engine may be read. The engine,
  the repository and the file \<open>codegraph.json\<close> change while they are looked at, so each look is an observation of
  its own; \<open>json.loads\<close>, the canonical \<open>json.dumps\<close> and the database file behind a path are arguments.
\<close>

section \<open>Observations\<close>

datatype config_read = No_Config | Unreadable_Config | Config_Bytes string

definition config_digest_of :: "config_read \<Rightarrow> string option" where
  "config_digest_of r =
     (case r of No_Config \<Rightarrow> Some ''absent'' | Unreadable_Config \<Rightarrow> None | Config_Bytes raw \<Rightarrow> Some (sha256_hex raw))"

text \<open>What \<open>run_bounded\<close> returns of a process.\<close>

record bounded_result =
  bp_failed :: bool
  bp_returncode :: int
  bp_stdout_truncated :: bool
  bp_stdout :: string

text \<open>One attempt to prepare. A status is \<open>None\<close> when \<open>OSError\<close> was raised.\<close>

record attempt =
  gt_head_before :: "string option"
  gt_config_before :: config_read
  gt_initial :: "bounded_result option"
  gt_sync_resolved :: bool
  gt_sync :: bounded_result
  gt_post :: "bounded_result option"
  gt_head_after :: "string option"
  gt_config_after :: config_read

section \<open>The status\<close>

definition object_of :: "pyval \<Rightarrow> pyval dict" where
  "object_of v = (case v of VDict d \<Rightarrow> d | _ \<Rightarrow> [])"

definition is_dict_value :: "pyval \<Rightarrow> bool" where
  "is_dict_value v = (case v of VDict _ \<Rightarrow> True | _ \<Rightarrow> False)"

definition natural_number :: "pyval \<Rightarrow> bool" where
  "natural_number v = (case v of VInt n \<Rightarrow> 0 \<le> n | _ \<Rightarrow> False)"

definition nonblank_text :: "pyval \<Rightarrow> bool" where
  "nonblank_text v = (case v of VStr s \<Rightarrow> \<not> blank s | _ \<Rightarrow> False)"

definition well_formed_status :: "pyval dict \<Rightarrow> bool" where
  "well_formed_status status =
     (dict_get status ''initialized'' VNone = VBool True
      \<and> is_dict_value (dict_get status ''pendingChanges'' VNone)
      \<and> list_all (\<lambda>key. natural_number (dict_get (object_of (dict_get status ''pendingChanges'' VNone)) key VNone))
          [''added'', ''modified'', ''removed'']
      \<and> is_dict_value (dict_get status ''index'' VNone)
      \<and> (case dict_get (object_of (dict_get status ''index'' VNone)) ''reindexRecommended'' VNone of VBool _ \<Rightarrow> True | _ \<Rightarrow> False)
      \<and> is_release_version (dict_get status ''version'' VNone)
      \<and> dict_has status ''worktreeMismatch''
      \<and> (dict_get status ''worktreeMismatch'' VNone = VNone
         \<or> is_dict_value (dict_get status ''worktreeMismatch'' VNone)
           \<and> nonblank_text (dict_get (object_of (dict_get status ''worktreeMismatch'' VNone)) ''worktreeRoot'' VNone)
           \<and> nonblank_text (dict_get (object_of (dict_get status ''worktreeMismatch'' VNone)) ''indexRoot'' VNone))
      \<and> (dict_get status ''indexPath'' VNone = VNone \<or> nonblank_text (dict_get status ''indexPath'' VNone))
      \<and> natural_number (dict_get (object_of (dict_get status ''index'' VNone)) ''builtWithExtractionVersion'' VNone))"

definition validate_codegraph_status :: "pyval dict option \<Rightarrow> bool \<times> string option" where
  "validate_codegraph_status status =
     (case status of
        None \<Rightarrow> (False, Some ''codegraph status malformed'')
      | Some s \<Rightarrow> if well_formed_status s then (True, None) else (False, Some ''codegraph status malformed''))"

definition run_status :: "(string \<Rightarrow> pyval option) \<Rightarrow> bounded_result \<Rightarrow> pyval dict option" where
  "run_status loads p =
     (if bp_failed p \<or> bp_returncode p \<noteq> 0 \<or> bp_stdout_truncated p \<or> blank (bp_stdout p) then None
      else case loads (bp_stdout p) of Some (VDict d) \<Rightarrow> Some d | _ \<Rightarrow> None)"

definition index_version_of :: "pyval dict \<Rightarrow> string" where
  "index_version_of status =
     (case dict_get (object_of (dict_get status ''index'' VNone)) ''builtWithExtractionVersion'' VNone of
        VInt n \<Rightarrow> show_nat (nat n) | _ \<Rightarrow> [])"

definition version_text :: "pyval dict \<Rightarrow> string" where
  "version_text status = (case dict_get status ''version'' VNone of VStr s \<Rightarrow> s | _ \<Rightarrow> [])"

definition is_fresh :: "pyval dict \<Rightarrow> bool" where
  "is_fresh status =
     (if dict_get status ''initialized'' VNone = VBool False then False
      else if dict_get status ''worktreeMismatch'' VNone \<noteq> VNone then False
      else
        let pending = object_of (dict_get status ''pendingChanges'' VNone);
            has_pending = list_ex (\<lambda>k. truthy (dict_get pending k VNone)) [''added'', ''modified'', ''removed''];
            reindex = truthy (dict_get (object_of (dict_get status ''index'' VNone)) ''reindexRecommended'' VNone)
        in \<not> has_pending \<and> \<not> reindex)"

definition version_accepted :: "pyval dict \<Rightarrow> bool" where
  "version_accepted status = in_accepted_range (dict_get status ''version'' VNone)"

definition foreign_worktree :: "pyval dict \<Rightarrow> bool" where
  "foreign_worktree status = (dict_get status ''worktreeMismatch'' VNone \<noteq> VNone)"

text \<open>\<open>dumps\<close> writes an object with sorted keys and no blanks.\<close>

definition scope_digest :: "(pyval dict \<Rightarrow> string) \<Rightarrow> string \<Rightarrow> string option \<Rightarrow> string option \<Rightarrow> string \<Rightarrow> string" where
  "scope_digest dumps provider provider_version index_version config_digest =
     sha256_hex (dumps
       [(''config_digest'', VStr config_digest), (''index_version'', vopt index_version), (''provider'', VStr provider),
        (''provider_version'', vopt provider_version)])"

section \<open>Preparation\<close>

definition failed_snapshot :: "string \<Rightarrow> string option \<Rightarrow> string \<Rightarrow> bool \<Rightarrow> graph_snapshot" where
  "failed_snapshot status config_digest reason sync_performed =
     \<lparr>gn_status = status, gn_provider = Some ''CodeGraph'', gn_provider_version = None, gn_index_version = None,
      gn_repo_head = None, gn_config_digest = config_digest, gn_graph_scope_digest = None,
      gn_sync_performed = sync_performed, gn_fallback_reason = Some reason\<rparr>"

definition OUT_OF_RANGE :: string where
  "OUT_OF_RANGE =
     ''codegraph version outside the accepted range '' @ CODEGRAPH_ACCEPTED_RANGE @ ''; run: pebra setup-graph --fix''"

definition available_snapshot ::
  "(pyval dict \<Rightarrow> string) \<Rightarrow> pyval dict \<Rightarrow> string option \<Rightarrow> string \<Rightarrow> bool \<Rightarrow> graph_snapshot" where
  "available_snapshot dumps status head config_digest sync_performed =
     (let provider_version = Some (version_text status); index_version = Some (index_version_of status)
      in \<lparr>gn_status = ''available'', gn_provider = Some ''CodeGraph'', gn_provider_version = provider_version,
          gn_index_version = index_version, gn_repo_head = head, gn_config_digest = Some config_digest,
          gn_graph_scope_digest = Some (scope_digest dumps ''CodeGraph'' provider_version index_version config_digest),
          gn_sync_performed = sync_performed, gn_fallback_reason = None\<rparr>)"

text \<open>A status as far as it stops the preparation: the reason, or the status that may be used.\<close>

definition usable_status ::
  "(string \<Rightarrow> pyval option) \<Rightarrow> bounded_result option \<Rightarrow> string \<Rightarrow> string \<Rightarrow> string \<Rightarrow> string + pyval dict" where
  "usable_status loads result unavailable malformed foreign =
     (case Option.bind result (run_status loads) of
        None \<Rightarrow> Inl unavailable
      | Some status \<Rightarrow>
          if \<not> fst (validate_codegraph_status (Some status)) then Inl malformed
          else if \<not> version_accepted status then Inl OUT_OF_RANGE
          else if foreign_worktree status then Inl foreign
          else Inr status)"

text \<open>One turn of the loop; \<open>None\<close> when the repository moved and another turn is left.\<close>

definition prepare_attempt ::
  "(string \<Rightarrow> pyval option) \<Rightarrow> (pyval dict \<Rightarrow> string) \<Rightarrow> bool \<Rightarrow> attempt
    \<Rightarrow> (graph_snapshot \<times> pyval dict option) option" where
  "prepare_attempt loads dumps last_one a =
     (case config_digest_of (gt_config_before a) of
        None \<Rightarrow> Some (failed_snapshot ''unavailable'' None ''codegraph configuration unreadable'' False, None)
      | Some config_before \<Rightarrow>
          if gt_head_before a = None
          then Some (failed_snapshot ''unavailable'' (Some config_before) ''repository HEAD unavailable'' False, None)
          else case usable_status loads (gt_initial a) ''codegraph status unavailable'' ''codegraph status malformed''
                      ''codegraph index belongs to another worktree'' of
            Inl reason \<Rightarrow> Some (failed_snapshot ''unavailable'' (Some config_before) reason False, None)
          | Inr _ \<Rightarrow>
              if \<not> gt_sync_resolved a \<or> bp_failed (gt_sync a) \<or> bp_returncode (gt_sync a) \<noteq> 0
              then Some (failed_snapshot ''unavailable'' (Some config_before) ''codegraph sync failed'' True, None)
              else case usable_status loads (gt_post a) ''codegraph post-sync status unavailable''
                          ''codegraph post-sync status malformed'' ''codegraph index belongs to another worktree after sync'' of
                Inl reason \<Rightarrow> Some (failed_snapshot ''unavailable'' (Some config_before) reason True, None)
              | Inr post \<Rightarrow>
                  if \<not> is_fresh post
                  then Some (failed_snapshot ''stale'' (Some config_before) ''codegraph index stale after sync'' True, None)
                  else case config_digest_of (gt_config_after a) of
                    None \<Rightarrow> Some (failed_snapshot ''unavailable'' None ''codegraph configuration unreadable'' True, None)
                  | Some config_after \<Rightarrow>
                      if gt_head_before a = gt_head_after a \<and> config_before = config_after
                      then Some (available_snapshot dumps post (gt_head_after a) config_after True, Some post)
                      else if last_one
                      then Some (failed_snapshot ''stale'' (Some config_after)
                        ''repository HEAD or codegraph.json changed during graph preparation'' True, None)
                      else None)"

definition prepare_default ::
  "(string \<Rightarrow> pyval option) \<Rightarrow> (pyval dict \<Rightarrow> string) \<Rightarrow> bool \<Rightarrow> config_read \<Rightarrow> attempt \<times> attempt
    \<Rightarrow> graph_snapshot \<times> pyval dict option" where
  "prepare_default loads dumps engine_found initial_config attempts =
     (case config_digest_of initial_config of
        None \<Rightarrow> (failed_snapshot ''unavailable'' None ''codegraph configuration unreadable'' False, None)
      | Some config \<Rightarrow>
          if \<not> engine_found then (failed_snapshot ''unavailable'' (Some config) ''codegraph CLI not found'' False, None)
          else case prepare_attempt loads dumps False (fst attempts) of
            Some r \<Rightarrow> r
          | None \<Rightarrow> the (prepare_attempt loads dumps True (snd attempts)))"

section \<open>The adapter\<close>

text \<open>Where a status comes from: a function given to the adapter, or the engine.\<close>

datatype status_source = Injected "pyval dict option" | Engine

text \<open>What one call observes.\<close>

record observation =
  gp_source :: status_source
  gp_engine_found :: bool
  gp_config :: config_read
  gp_head :: "string option"
  gp_attempts :: "attempt \<times> attempt"
  gp_status_now :: "bounded_result option"

record graph_state =
  gy_snapshots :: "graph_snapshot dict"
  gy_statuses :: "pyval dict option dict"

definition injected_snapshot ::
  "(pyval dict \<Rightarrow> string) \<Rightarrow> observation \<Rightarrow> pyval dict option \<Rightarrow> graph_snapshot" where
  "injected_snapshot dumps obs status =
     (case config_digest_of (gp_config obs) of
        None \<Rightarrow> failed_snapshot ''unavailable'' None ''codegraph configuration unreadable'' False
      | Some config \<Rightarrow>
          (case status of
             None \<Rightarrow> failed_snapshot ''unavailable'' (Some config) ''codegraph CLI not found'' False
           | Some s \<Rightarrow>
               if \<not> fst (validate_codegraph_status status)
               then failed_snapshot ''unavailable'' (Some config) ''codegraph status malformed'' False
               else if \<not> version_accepted s then failed_snapshot ''unavailable'' (Some config) OUT_OF_RANGE False
               else if foreign_worktree s \<or> \<not> is_fresh s
               then failed_snapshot ''stale'' (Some config) ''codegraph index stale or worktree-mismatched'' False
               else available_snapshot dumps s (gp_head obs) config False))"

text \<open>A status is kept when the snapshot is available; a given one also when it is only stale.\<close>

definition prepare ::
  "(string \<Rightarrow> pyval option) \<Rightarrow> (pyval dict \<Rightarrow> string) \<Rightarrow> observation \<Rightarrow> string \<Rightarrow> graph_state \<Rightarrow> graph_snapshot \<times> graph_state" where
  "prepare loads dumps obs repo_root st =
     (case map_of (gy_snapshots st) repo_root of
        Some snapshot \<Rightarrow> (snapshot, st)
      | None \<Rightarrow>
          let (snapshot, status) =
                (case gp_source obs of
                   Engine \<Rightarrow> prepare_default loads dumps (gp_engine_found obs) (gp_config obs) (gp_attempts obs)
                 | Injected s \<Rightarrow> (injected_snapshot dumps obs s, s));
              kept = (if gn_status snapshot = ''available''
                        \<or> gp_source obs \<noteq> Engine \<and> fst (validate_codegraph_status status) \<and> version_accepted (the status)
                      then status else None)
          in (snapshot, st\<lparr>gy_snapshots := dict_set (gy_snapshots st) repo_root snapshot,
                           gy_statuses := dict_set (gy_statuses st) repo_root kept\<rparr>))"

definition prepared_status :: "string \<Rightarrow> graph_state \<Rightarrow> pyval dict option" where
  "prepared_status repo_root st = dict_get (gy_statuses st) repo_root None"

definition status_now :: "(string \<Rightarrow> pyval option) \<Rightarrow> observation \<Rightarrow> pyval dict option" where
  "status_now loads obs =
     (case gp_source obs of
        Injected s \<Rightarrow> s
      | Engine \<Rightarrow> if gp_engine_found obs then Option.bind (gp_status_now obs) (run_status loads) else None)"

definition revalidate_snapshot ::
  "(string \<Rightarrow> pyval option) \<Rightarrow> (pyval dict \<Rightarrow> string) \<Rightarrow> observation \<Rightarrow> string \<Rightarrow> graph_snapshot \<Rightarrow> graph_state \<Rightarrow> bool" where
  "revalidate_snapshot loads dumps obs repo_root snapshot st =
     (case prepared_status repo_root st of
        None \<Rightarrow> False
      | Some prepared \<Rightarrow>
          if gn_status snapshot \<noteq> ''available'' \<or> map_of (gy_snapshots st) repo_root \<noteq> Some snapshot then False
          else case status_now loads obs of
            None \<Rightarrow> False
          | Some s \<Rightarrow>
              if \<not> fst (validate_codegraph_status (Some s)) \<or> \<not> version_accepted s \<or> foreign_worktree s \<or> \<not> is_fresh s
                 \<or> dict_get s ''indexPath'' VNone \<noteq> dict_get prepared ''indexPath'' VNone
              then False
              else case config_digest_of (gp_config obs) of
                None \<Rightarrow> False
              | Some config \<Rightarrow>
                  gp_head obs = gn_repo_head snapshot \<and> gn_config_digest snapshot = Some config
                  \<and> gn_provider_version snapshot = Some (version_text s) \<and> gn_index_version snapshot = Some (index_version_of s)
                  \<and> gn_graph_scope_digest snapshot =
                      Some (scope_digest dumps ''CodeGraph'' (Some (version_text s)) (Some (index_version_of s)) config))"

definition bind_assessed_commit ::
  "(string \<Rightarrow> pyval option) \<Rightarrow> (pyval dict \<Rightarrow> string) \<Rightarrow> observation \<Rightarrow> string \<Rightarrow> string option \<Rightarrow> graph_state
    \<Rightarrow> bool \<times> graph_state" where
  "bind_assessed_commit loads dumps obs repo_root assessed_commit st =
     (let (snapshot, st) = prepare loads dumps obs repo_root st;
          trusted = (gn_status snapshot = ''available'' \<and> assessed_commit \<noteq> None \<and> assessed_commit = gn_repo_head snapshot)
      in (trusted, if trusted then st else st\<lparr>gy_statuses := dict_set (gy_statuses st) repo_root None\<rparr>))"

definition status_of ::
  "(string \<Rightarrow> pyval option) \<Rightarrow> (pyval dict \<Rightarrow> string) \<Rightarrow> observation \<Rightarrow> string \<Rightarrow> graph_state \<Rightarrow> pyval dict option \<times> graph_state" where
  "status_of loads dumps obs repo_root st =
     (let st = snd (prepare loads dumps obs repo_root st) in (prepared_status repo_root st, st))"

section \<open>Opening the database\<close>

text \<open>A database that cannot be opened, or opens and then fails to answer.\<close>

datatype db_file = Db_Missing | Db_Unopenable | Db_Broken | Db_Open graph_db

datatype gate_failure =
    No_Status | Bad_Version | Not_Initialized | Borrowed_Index | Stale_Index | No_Database | Unopenable_Database
  | Failed_Query | Old_Schema

definition MIN_SCHEMA_VERSION :: int where "MIN_SCHEMA_VERSION = 5"

definition db_path_from_status :: "string \<Rightarrow> pyval dict \<Rightarrow> string" where
  "db_path_from_status repo_root status =
     (case dict_get status ''indexPath'' VNone of
        VStr p \<Rightarrow> if blank p then repo_root @ ''/.codegraph/codegraph.db'' else p @ ''/codegraph.db''
      | _ \<Rightarrow> repo_root @ ''/.codegraph/codegraph.db'')"

definition schema_version :: "graph_db \<Rightarrow> int" where
  "schema_version db = (if kg_schema_versions db = [] then 0 else Max (set (kg_schema_versions db)))"

text \<open>The last of the keys \<open>indexed_with_version\<close> and \<open>indexed_with_extraction_version\<close> each.\<close>

definition versions_of :: "graph_db \<Rightarrow> string option \<times> string option" where
  "versions_of db =
     (map_of (rev (kg_metadata db)) ''indexed_with_version'', map_of (rev (kg_metadata db)) ''indexed_with_extraction_version'')"

definition open_graph :: "(string \<Rightarrow> db_file) \<Rightarrow> string \<Rightarrow> pyval dict \<Rightarrow> gate_failure + graph_db" where
  "open_graph files repo_root status =
     (case files (db_path_from_status repo_root status) of
        Db_Missing \<Rightarrow> Inl No_Database
      | Db_Unopenable \<Rightarrow> Inl Unopenable_Database
      | Db_Broken \<Rightarrow> Inl Failed_Query
      | Db_Open db \<Rightarrow> if schema_version db < MIN_SCHEMA_VERSION then Inl Old_Schema else Inr db)"

definition index_gate :: "pyval dict option \<Rightarrow> gate_failure + pyval dict" where
  "index_gate status =
     (case status of
        None \<Rightarrow> Inl No_Status
      | Some s \<Rightarrow>
          if truthy (dict_get s ''version'' VNone) \<and> \<not> version_accepted s then Inl Bad_Version
          else if dict_get s ''initialized'' VNone = VBool False then Inl Not_Initialized
          else if \<not> is_fresh s then Inl (if truthy (dict_get s ''worktreeMismatch'' VNone) then Borrowed_Index else Stale_Index)
          else Inr s)"

definition read_graph :: "(string \<Rightarrow> db_file) \<Rightarrow> string \<Rightarrow> pyval dict option \<Rightarrow> gate_failure + graph_db" where
  "read_graph files repo_root status =
     (case index_gate status of Inl e \<Rightarrow> Inl e | Inr s \<Rightarrow> open_graph files repo_root s)"

section \<open>Lemmas\<close>

lemma validated_iff: "fst (validate_codegraph_status status) \<longleftrightarrow> (\<exists>s. status = Some s \<and> well_formed_status s)"
  by (auto simp: validate_codegraph_status_def split: option.splits)

lemma usable_status_Inr:
  "usable_status loads result a b c = Inr status \<Longrightarrow>
     (\<exists>p. result = Some p \<and> run_status loads p = Some status)
     \<and> well_formed_status status \<and> version_accepted status \<and> \<not> foreign_worktree status"
  by (auto simp: usable_status_def validated_iff split: option.splits if_splits bind_splits)

lemma failed_snapshot_status [simp]: "gn_status (failed_snapshot status config reason sync) = status"
  by (simp add: failed_snapshot_def)

text \<open>What an attempt has seen when it ends with an available snapshot.\<close>

definition settled :: "(string \<Rightarrow> pyval option) \<Rightarrow> attempt \<Rightarrow> graph_snapshot \<Rightarrow> pyval dict \<Rightarrow> bool" where
  "settled loads a snapshot post =
     (gt_head_before a = gn_repo_head snapshot \<and> gt_head_after a = gn_repo_head snapshot \<and> gn_repo_head snapshot \<noteq> None
      \<and> config_digest_of (gt_config_before a) = gn_config_digest snapshot
      \<and> config_digest_of (gt_config_after a) = gn_config_digest snapshot \<and> gn_config_digest snapshot \<noteq> None
      \<and> bp_returncode (gt_sync a) = 0 \<and> (\<exists>p. gt_post a = Some p \<and> run_status loads p = Some post)
      \<and> well_formed_status post \<and> version_accepted post \<and> \<not> foreign_worktree post \<and> is_fresh post
      \<and> gn_provider_version snapshot = Some (version_text post) \<and> gn_index_version snapshot = Some (index_version_of post))"

lemma prepare_attempt_available:
  assumes "prepare_attempt loads dumps last_one a = Some (snapshot, status)" and "gn_status snapshot = ''available''"
  shows "\<exists>post. status = Some post \<and> settled loads a snapshot post"
proof -
  obtain config initial post after where
    config: "config_digest_of (gt_config_before a) = Some config"
    and "usable_status loads (gt_initial a) ''codegraph status unavailable'' ''codegraph status malformed''
           ''codegraph index belongs to another worktree'' = Inr initial"
    and sync: "gt_sync_resolved a" "\<not> bp_failed (gt_sync a)" "bp_returncode (gt_sync a) = 0"
    and post: "usable_status loads (gt_post a) ''codegraph post-sync status unavailable''
           ''codegraph post-sync status malformed'' ''codegraph index belongs to another worktree after sync'' = Inr post"
    and fresh: "is_fresh post" and after: "config_digest_of (gt_config_after a) = Some after"
    and same: "gt_head_before a = gt_head_after a" "config = after"
    and out: "snapshot = available_snapshot dumps post (gt_head_after a) after True" "status = Some post"
    using assms by (auto simp: prepare_attempt_def split: option.splits sum.splits if_splits)
  moreover have "gt_head_before a \<noteq> None"
    using assms by (cases "gt_head_before a") (auto simp: prepare_attempt_def split: option.splits)
  ultimately show ?thesis
    using usable_status_Inr [OF post] by (simp add: settled_def available_snapshot_def Let_def)
qed

lemma prepare_attempt_last: "prepare_attempt loads dumps True a \<noteq> None"
  by (simp add: prepare_attempt_def split: option.splits sum.splits)

text \<open>A turn is repeated only when the repository or the configuration moved during the first one.\<close>

lemma prepare_attempt_repeated:
  "prepare_attempt loads dumps last_one a = None \<Longrightarrow>
     gt_head_before a \<noteq> gt_head_after a \<or> config_digest_of (gt_config_before a) \<noteq> config_digest_of (gt_config_after a)"
  by (auto simp: prepare_attempt_def split: option.splits sum.splits if_splits)

lemma prepare_default_available:
  assumes "prepare_default loads dumps engine_found initial_config attempts = (snapshot, status)"
    and "gn_status snapshot = ''available''"
  shows "\<exists>a post. (a = fst attempts \<or> a = snd attempts) \<and> status = Some post \<and> settled loads a snapshot post"
proof -
  obtain r where r: "prepare_attempt loads dumps True (snd attempts) = Some r"
    using prepare_attempt_last by fast
  have "config_digest_of initial_config \<noteq> None \<and> engine_found"
    using assms by (cases "config_digest_of initial_config"; cases engine_found) (auto simp: prepare_default_def)
  then obtain config where "config_digest_of initial_config = Some config" "engine_found" by blast
  then have default: "prepare_default loads dumps engine_found initial_config attempts
      = (case prepare_attempt loads dumps False (fst attempts) of Some r' \<Rightarrow> r' | None \<Rightarrow> r)"
    by (cases "prepare_attempt loads dumps False (fst attempts)") (simp_all add: prepare_default_def r)
  show ?thesis
  proof (cases "prepare_attempt loads dumps False (fst attempts)")
    case None
    then have "prepare_attempt loads dumps True (snd attempts) = Some (snapshot, status)"
      using default assms(1) r by simp
    from prepare_attempt_available [OF this assms(2)] show ?thesis by blast
  next
    case (Some r')
    then have "prepare_attempt loads dumps False (fst attempts) = Some (snapshot, status)"
      using default assms(1) by simp
    from prepare_attempt_available [OF this assms(2)] show ?thesis by blast
  qed
qed

section \<open>The state of the adapter\<close>

definition fresh_adapter :: graph_state where
  "fresh_adapter = \<lparr>gy_snapshots = [], gy_statuses = []\<rparr>"

text \<open>The states an adapter can be in: preparation, for any repository and with anything observed, and binding.\<close>

inductive adapter_state :: "graph_state \<Rightarrow> bool" where
  adapter_start: "adapter_state fresh_adapter"
| adapter_prepare: "adapter_state st \<Longrightarrow> adapter_state (snd (prepare loads dumps obs repo_root st))"
| adapter_bind: "adapter_state st \<Longrightarrow> adapter_state (snd (bind_assessed_commit loads dumps obs repo_root commit st))"

text \<open>A kept status is well formed and accepted, and belongs to a snapshot; an available snapshot is that of a status
  that was fresh.\<close>

definition kept_ok :: "graph_state \<Rightarrow> string \<Rightarrow> bool" where
  "kept_ok st r =
     (\<forall>s. prepared_status r st = Some s \<longrightarrow>
        well_formed_status s \<and> version_accepted s
        \<and> (\<exists>snapshot. map_of (gy_snapshots st) r = Some snapshot
             \<and> (gn_status snapshot = ''available'' \<longrightarrow>
                  is_fresh s \<and> \<not> foreign_worktree s \<and> gn_provider_version snapshot = Some (version_text s)
                  \<and> gn_index_version snapshot = Some (index_version_of s))))"

lemma prepare_cached: "map_of (gy_snapshots st) r = Some snapshot \<Longrightarrow> prepare loads dumps obs r st = (snapshot, st)"
  by (simp add: prepare_def)

lemma prepare_recorded: "prepare loads dumps obs r st = (snapshot, st') \<Longrightarrow> map_of (gy_snapshots st') r = Some snapshot"
  by (auto simp: prepare_def Let_def map_of_dict_set split: option.splits prod.splits)

lemma available_of_injected:
  "gn_status (injected_snapshot dumps obs status) = ''available'' \<Longrightarrow>
     \<exists>s config. status = Some s \<and> well_formed_status s \<and> version_accepted s \<and> is_fresh s \<and> \<not> foreign_worktree s
       \<and> injected_snapshot dumps obs status = available_snapshot dumps s (gp_head obs) config False"
  by (auto simp: injected_snapshot_def validated_iff split: option.splits if_splits)

text \<open>Preparation keeps this, for the repository it prepares and for the others.\<close>

lemma prepared_status_set:
  "prepared_status r (st\<lparr>gy_snapshots := snapshots, gy_statuses := dict_set (gy_statuses st) k status\<rparr>)
     = (if r = k then status else prepared_status r st)"
  by (simp add: prepared_status_def dict_get_def map_of_dict_set)

lemma prepare_new_status:
  assumes "gp_source obs = Engine \<and> prepare_default loads dumps (gp_engine_found obs) (gp_config obs) (gp_attempts obs) = (snapshot, status)
      \<and> gn_status snapshot = ''available''
    \<or> (gp_source obs = Injected status \<and> snapshot = injected_snapshot dumps obs status
      \<and> well_formed_status (the status) \<and> version_accepted (the status) \<and> status \<noteq> None)"
  shows "\<exists>s. status = Some s \<and> well_formed_status s \<and> version_accepted s
    \<and> (gn_status snapshot = ''available'' \<longrightarrow> is_fresh s \<and> \<not> foreign_worktree s
         \<and> gn_provider_version snapshot = Some (version_text s) \<and> gn_index_version snapshot = Some (index_version_of s))"
  using assms
proof
  assume "gp_source obs = Engine \<and> prepare_default loads dumps (gp_engine_found obs) (gp_config obs) (gp_attempts obs) = (snapshot, status)
      \<and> gn_status snapshot = ''available''"
  then obtain a post where "status = Some post" "settled loads a snapshot post"
    using prepare_default_available by blast
  then show ?thesis by (simp add: settled_def)
next
  assume i: "gp_source obs = Injected status \<and> snapshot = injected_snapshot dumps obs status
      \<and> well_formed_status (the status) \<and> version_accepted (the status) \<and> status \<noteq> None"
  then obtain s where s: "status = Some s" by blast
  have "is_fresh s \<and> \<not> foreign_worktree s \<and> gn_provider_version snapshot = Some (version_text s)
      \<and> gn_index_version snapshot = Some (index_version_of s)" if "gn_status snapshot = ''available''"
    using available_of_injected [of dumps obs status] that i s by (auto simp: available_snapshot_def Let_def)
  then show ?thesis using i s by simp
qed

lemma kept_ok_prepare:
  assumes "kept_ok st r" shows "kept_ok (snd (prepare loads dumps obs k st)) r"
proof (cases "map_of (gy_snapshots st) k")
  case (Some snapshot)
  then show ?thesis using assms by (simp add: prepare_cached)
next
  case None
  obtain snapshot status where made:
    "(case gp_source obs of Engine \<Rightarrow> prepare_default loads dumps (gp_engine_found obs) (gp_config obs) (gp_attempts obs)
      | Injected s \<Rightarrow> (injected_snapshot dumps obs s, s)) = (snapshot, status)" by fastforce
  let ?kept = "if gn_status snapshot = ''available'' \<or> gp_source obs \<noteq> Engine \<and> fst (validate_codegraph_status status)
                  \<and> version_accepted (the status) then status else None"
  have st': "snd (prepare loads dumps obs k st)
      = st\<lparr>gy_snapshots := dict_set (gy_snapshots st) k snapshot, gy_statuses := dict_set (gy_statuses st) k ?kept\<rparr>"
    by (simp add: prepare_def None made)
  have "\<exists>s. ?kept = Some s \<and> well_formed_status s \<and> version_accepted s
    \<and> (gn_status snapshot = ''available'' \<longrightarrow> is_fresh s \<and> \<not> foreign_worktree s
         \<and> gn_provider_version snapshot = Some (version_text s) \<and> gn_index_version snapshot = Some (index_version_of s))"
    if "?kept \<noteq> None"
  proof -
    have "gp_source obs = Engine \<and> prepare_default loads dumps (gp_engine_found obs) (gp_config obs) (gp_attempts obs) = (snapshot, status)
        \<and> gn_status snapshot = ''available''
      \<or> (gp_source obs = Injected status \<and> snapshot = injected_snapshot dumps obs status
        \<and> well_formed_status (the status) \<and> version_accepted (the status) \<and> status \<noteq> None)"
    proof (cases "gp_source obs")
      case Engine
      then show ?thesis using that made by (auto split: if_splits)
    next
      case (Injected s)
      then have "s = status" "snapshot = injected_snapshot dumps obs status" using made by auto
      then show ?thesis
        using that Injected available_of_injected [of dumps obs status] by (auto simp: validated_iff split: if_splits)
    qed
    from prepare_new_status [OF this] that show ?thesis by (auto split: if_splits)
  qed
  then show ?thesis
    using assms unfolding kept_ok_def st' prepared_status_set by (auto simp: map_of_dict_set None split: if_splits)
qed

lemma bind_state:
  "snd (bind_assessed_commit loads dumps obs k commit st) = snd (prepare loads dumps obs k st)
   \<or> snd (bind_assessed_commit loads dumps obs k commit st)
       = (snd (prepare loads dumps obs k st))\<lparr>gy_statuses := dict_set (gy_statuses (snd (prepare loads dumps obs k st))) k None\<rparr>"
  by (simp add: bind_assessed_commit_def Let_def split: prod.splits)

lemma kept_ok_bind:
  assumes "kept_ok st r" shows "kept_ok (snd (bind_assessed_commit loads dumps obs k commit st)) r"
proof -
  have "kept_ok (snd (prepare loads dumps obs k st)) r" using assms by (rule kept_ok_prepare)
  then show ?thesis
    using bind_state [of loads dumps obs k commit st]
    by (auto simp: kept_ok_def prepared_status_def dict_get_def map_of_dict_set split: if_splits)
qed

lemma adapter_keeps_ok: "adapter_state st \<Longrightarrow> kept_ok st r"
proof (induction rule: adapter_state.induct)
  case adapter_start
  then show ?case by (simp add: kept_ok_def prepared_status_def fresh_adapter_def)
qed (simp_all add: kept_ok_prepare kept_ok_bind)

lemma read_graph_Inr:
  assumes "read_graph files r status = Inr db"
  obtains s where "status = Some s" "is_fresh s" "files (db_path_from_status r s) = Db_Open db"
    "MIN_SCHEMA_VERSION \<le> schema_version db"
  using assms by (auto simp: read_graph_def index_gate_def open_graph_def split: option.splits sum.splits if_splits db_file.splits)

lemma is_fresh_not_foreign: "is_fresh s \<Longrightarrow> \<not> foreign_worktree s"
  by (auto simp: is_fresh_def foreign_worktree_def split: if_splits)

end
