(* ===== verification/Pebra_Patch_Ranges.thy ===== *)
theory Pebra_Patch_Ranges
  imports Pebra_Patch_Paths
begin

text \<open>
  The line arithmetic of \<open>pebra/adapters/codegraph_adapter.py\<close>: which lines of the old files a patch changes, which
  lines of the new text differ, the merging of lines into ranges, and the normal form of a path. The opcodes of
  \<open>difflib.SequenceMatcher\<close> are an argument.
\<close>

section \<open>Ranges\<close>

type_synonym line_range = "nat \<times> nat"

fun merge_runs :: "nat \<Rightarrow> nat \<Rightarrow> nat list \<Rightarrow> line_range list" where
  "merge_runs lo prev [] = [(lo, prev)]"
| "merge_runs lo prev (n # ns) = (if n = Suc prev then merge_runs lo n ns else (lo, prev) # merge_runs n n ns)"

definition merge_contiguous :: "nat list \<Rightarrow> line_range list" where
  "merge_contiguous line_numbers =
     (case remdups (sort line_numbers) of [] \<Rightarrow> [] | n # ns \<Rightarrow> merge_runs n n ns)"

definition hunk_old_start :: "string \<Rightarrow> nat option" where
  "hunk_old_start line =
     (if match_hunk line = None then None else Some (number_of_digits 10 (fst (digit_span (drop 4 line)))))"

definition hunk_stop :: "string \<Rightarrow> bool" where
  "hunk_stop line = list_ex (starts_with line) [''@@'', ''--- '', ''+++ '', ''diff '']"

fun removed_lines :: "nat \<Rightarrow> string list \<Rightarrow> nat list" where
  "removed_lines old_ln [] = []"
| "removed_lines old_ln (body # rest) =
     (if starts_with body ''-'' then old_ln # removed_lines (Suc old_ln) rest
      else if starts_with body ''+'' then removed_lines old_ln rest
      else removed_lines (Suc old_ln) rest)"

text \<open>The path of a line \<open>--- path\<close>.\<close>

definition old_side_path :: "string \<Rightarrow> string option" where
  "old_side_path line =
     (let raw = strip (drop 4 line)
      in if raw = ''/dev/null'' then None else Some (slashes (remove_prefix raw ''a/'')))"

function range_loop :: "string list \<Rightarrow> string option \<Rightarrow> nat list dict \<Rightarrow> nat list dict" where
  "range_loop [] current per_file = per_file"
| "range_loop (line # lines) current per_file =
     (if starts_with line ''--- '' then range_loop lines (old_side_path line) per_file
      else case (hunk_old_start line, current) of
        (Some old_start, Some f) \<Rightarrow>
          let changed = removed_lines old_start (takeWhile (\<lambda>body. \<not> hunk_stop body) lines)
          in range_loop (dropWhile (\<lambda>body. \<not> hunk_stop body) lines) current
               (dict_set per_file f (dict_get per_file f [] @ (if changed = [] then [old_start] else changed)))
      | _ \<Rightarrow> range_loop lines current per_file)"
  by pat_completeness auto
termination
  by (relation "measure (\<lambda>(lines, _, _). length lines)") (auto simp: le_imp_less_Suc length_dropWhile_le)

definition parse_old_side_ranges :: "string \<Rightarrow> line_range list dict" where
  "parse_old_side_ranges patch =
     map (\<lambda>(f, ls). (f, merge_contiguous ls)) (range_loop (splitlines patch) None [])"

text \<open>An opcode is its tag with the range \<open>j1, j2\<close> of the new side.\<close>

fun opcode_lines :: "string \<times> nat \<times> nat \<Rightarrow> nat list" where
  "opcode_lines (tag, j1, j2) =
     (if tag = ''equal'' then [] else if tag = ''delete'' then [max 1 j1] else [j1 + 1 ..< j2 + 1])"

definition changed_after_side_ranges ::
  "(string list \<Rightarrow> string list \<Rightarrow> (string \<times> nat \<times> nat) list) \<Rightarrow> string \<Rightarrow> string \<Rightarrow> line_range list" where
  "changed_after_side_ranges opcodes before after =
     merge_contiguous (concat (map opcode_lines (opcodes (splitlines before) (splitlines after))))"

definition strip_trailing_slashes :: "string \<Rightarrow> string" where
  "strip_trailing_slashes s = rev (dropWhile (\<lambda>c. c = CHR ''/'') (rev s))"

definition repo_relative :: "string \<Rightarrow> string \<Rightarrow> string" where
  "repo_relative path repo_root =
     (let p = strip (slashes path); rr = strip_trailing_slashes (slashes repo_root);
          p = (if rr \<noteq> [] \<and> starts_with (lower p) (lower rr @ ''/'') then drop (length rr + 1) p else p)
      in remove_prefix p ''./'')"

section \<open>Merged ranges\<close>

definition covered :: "line_range list \<Rightarrow> nat set" where
  "covered ranges = (\<Union>(lo, hi) \<in> set ranges. {lo..hi})"

text \<open>Apart: in order, none empty, with a gap between two of them.\<close>

definition apart :: "line_range list \<Rightarrow> bool" where
  "apart ranges = (sorted_wrt (\<lambda>r s. Suc (snd r) < fst s) ranges \<and> list_all (\<lambda>r. fst r \<le> snd r) ranges)"

lemma covered_simps [simp]: "covered [] = {}" "covered ((lo, hi) # rs) = {lo..hi} \<union> covered rs"
  by (auto simp: covered_def)

lemma merge_runs_spec:
  assumes "lo \<le> prev" and "sorted_wrt (<) (prev # ns)"
  shows "covered (merge_runs lo prev ns) = {lo..prev} \<union> set ns \<and> apart (merge_runs lo prev ns)
     \<and> (\<forall>r \<in> set (merge_runs lo prev ns). lo \<le> fst r)"
  using assms
proof (induction lo prev ns rule: merge_runs.induct)
  case (2 lo prev n ns)
  show ?case
  proof (cases "n = Suc prev")
    case True
    then show ?thesis using 2 by (auto simp: atLeastAtMostSuc_conv)
  next
    case False
    have ih: "covered (merge_runs n n ns) = {n..n} \<union> set ns" "apart (merge_runs n n ns)"
      "\<forall>r \<in> set (merge_runs n n ns). n \<le> fst r"
      using "2.IH"(2) [OF False] "2.prems" by auto
    moreover have "Suc prev < n" using False "2.prems" by auto
    ultimately show ?thesis using False "2.prems" by (force simp: apart_def)
  qed
qed (auto simp: apart_def)

section \<open>Unified diffs\<close>

text \<open>A diff as what it says: files, hunks and lines that are kept, removed or added.\<close>

datatype diff_line = Kept string | Removed string | Added string

type_synonym hunk = "string \<times> diff_line list"

record file_diff =
  ff_preamble :: "string list"
  ff_path :: string
  ff_hunks :: "hunk list"

primrec line_text :: "diff_line \<Rightarrow> string" where
  "line_text (Kept s) = '' '' @ s"
| "line_text (Removed s) = ''-'' @ s"
| "line_text (Added s) = ''+'' @ s"

definition hunk_text :: "hunk \<Rightarrow> string list" where
  "hunk_text h = fst h # map line_text (snd h)"

definition file_text :: "file_diff \<Rightarrow> string list" where
  "file_text d = ff_preamble d @ (''--- a/'' @ ff_path d) # (''+++ b/'' @ ff_path d) # concat (map hunk_text (ff_hunks d))"

definition on_old_side :: "diff_line \<Rightarrow> bool" where
  "on_old_side l = (case l of Added _ \<Rightarrow> False | _ \<Rightarrow> True)"

definition is_removed :: "diff_line \<Rightarrow> bool" where
  "is_removed l = (case l of Removed _ \<Rightarrow> True | _ \<Rightarrow> False)"

text \<open>The numbers, from \<open>start\<close>, of the removed lines among those of the old file.\<close>

definition removed_numbers :: "nat \<Rightarrow> diff_line list \<Rightarrow> nat list" where
  "removed_numbers start ops =
     (let old = filter on_old_side ops in map (\<lambda>i. start + i) (filter (\<lambda>i. is_removed (old ! i)) [0 ..< length old]))"

definition hunk_changes :: "hunk \<Rightarrow> nat list" where
  "hunk_changes h =
     (let start = the (hunk_old_start (fst h)); removed = removed_numbers start (snd h)
      in if removed = [] then [start] else removed)"

text \<open>A removed line must not look like the header of a file, nor an added one.\<close>

definition safe_line :: "diff_line \<Rightarrow> bool" where
  "safe_line l = (\<not> hunk_stop (line_text l))"

definition plain_file :: "file_diff \<Rightarrow> bool" where
  "plain_file d =
     ((ff_preamble d \<noteq> [] \<longrightarrow> starts_with (hd (ff_preamble d)) ''diff '')
      \<and> list_all (\<lambda>line. \<not> starts_with line ''--- '' \<and> hunk_old_start line = None) (ff_preamble d)
      \<and> strip (''a/'' @ ff_path d) = ''a/'' @ ff_path d \<and> slashes (ff_path d) = ff_path d
      \<and> list_all (\<lambda>h. hunk_old_start (fst h) \<noteq> None) (ff_hunks d))"

lemma safe_line_iff:
  "safe_line l \<longleftrightarrow> (case l of Kept _ \<Rightarrow> True | Removed s \<Rightarrow> \<not> starts_with s ''-- '' | Added s \<Rightarrow> \<not> starts_with s ''++ '')"
  by (cases l) (simp_all add: safe_line_def hunk_stop_def)

lemma line_sides [simp]:
  "on_old_side (Kept s)" "on_old_side (Removed s)" "\<not> on_old_side (Added s)"
  "\<not> is_removed (Kept s)" "is_removed (Removed s)" "\<not> is_removed (Added s)"
  by (simp_all add: on_old_side_def is_removed_def)

lemma removed_positions_Cons:
  "filter (\<lambda>i. is_removed ((l # old) ! i)) [0 ..< Suc (length old)]
     = (if is_removed l then [0] else []) @ map Suc (filter (\<lambda>i. is_removed (old ! i)) [0 ..< length old])"
proof -
  have "[0 ..< Suc (length old)] = 0 # map Suc [0 ..< length old]"
    by (simp add: upt_conv_Cons map_Suc_upt del: upt_Suc)
  then show ?thesis by (simp add: filter_map o_def del: upt_Suc)
qed

lemma removed_numbers_Cons:
  "removed_numbers n (l # ops) =
     (case l of Kept _ \<Rightarrow> removed_numbers (Suc n) ops | Removed _ \<Rightarrow> n # removed_numbers (Suc n) ops
      | Added _ \<Rightarrow> removed_numbers n ops)"
  by (cases l) (simp_all add: removed_numbers_def Let_def removed_positions_Cons o_def del: upt_Suc)

lemma removed_lines_spec: "removed_lines n (map line_text ops) = removed_numbers n ops"
proof (induction ops arbitrary: n)
  case (Cons l ops)
  then show ?case by (cases l) (simp_all add: removed_numbers_Cons)
qed (simp add: removed_numbers_def)

lemma hunk_stop_header: "hunk_old_start line \<noteq> None \<Longrightarrow> hunk_stop line \<and> \<not> starts_with line ''--- ''"
proof -
  assume "hunk_old_start line \<noteq> None"
  then have "starts_with line ''@@ -''" by (auto simp: hunk_old_start_def match_hunk_def split: if_splits)
  then show ?thesis by (auto simp: starts_with_iff hunk_stop_def)
qed

text \<open>Lines that are appended to what is known of a file.\<close>

definition noted :: "string \<Rightarrow> nat list \<Rightarrow> nat list dict \<Rightarrow> nat list dict" where
  "noted f ls per_file = (if ls = [] then per_file else dict_set per_file f (dict_get per_file f [] @ ls))"

lemma dict_set_twice: "dict_set (dict_set d k v) k w = dict_set d k w"
  by (induction d k v rule: dict_set.induct) auto

lemma noted_append: "noted f b (noted f a per_file) = noted f (a @ b) per_file"
  by (simp add: noted_def dict_set_twice)

lemma hunk_changes_nonempty [simp]: "hunk_changes h \<noteq> []"
  by (simp add: hunk_changes_def Let_def)

lemma range_loop_header:
  assumes "hunk_old_start line = Some start" and "\<not> starts_with line ''--- ''"
    and "takeWhile (\<lambda>b. \<not> hunk_stop b) xs = ls" and "dropWhile (\<lambda>b. \<not> hunk_stop b) xs = rest"
  shows "range_loop (line # xs) (Some f) per_file
     = range_loop rest (Some f) (dict_set per_file f (dict_get per_file f []
         @ (if removed_lines start ls = [] then [start] else removed_lines start ls)))"
  by (subst range_loop.simps(2)) (simp only: assms if_False option.case Let_def prod.case)

lemma body_until_stop:
  assumes "list_all safe_line ops" and "rest = [] \<or> hunk_stop (hd rest)"
  shows "takeWhile (\<lambda>b. \<not> hunk_stop b) (map line_text ops @ rest) = map line_text ops"
    and "dropWhile (\<lambda>b. \<not> hunk_stop b) (map line_text ops @ rest) = rest"
proof -
  have lines: "\<forall>b \<in> set (map line_text ops). \<not> hunk_stop b" using assms(1) by (auto simp: list_all_iff safe_line_def)
  have stops: "takeWhile (\<lambda>b. \<not> hunk_stop b) rest = [] \<and> dropWhile (\<lambda>b. \<not> hunk_stop b) rest = rest"
    using assms(2) by (cases rest; simp)
  show "takeWhile (\<lambda>b. \<not> hunk_stop b) (map line_text ops @ rest) = map line_text ops"
    using takeWhile_append2 [of "map line_text ops" "\<lambda>b. \<not> hunk_stop b" rest] lines stops by simp
  show "dropWhile (\<lambda>b. \<not> hunk_stop b) (map line_text ops @ rest) = rest"
    using dropWhile_append2 [of "map line_text ops" "\<lambda>b. \<not> hunk_stop b" rest] lines stops by simp
qed

lemma range_loop_hunk:
  assumes "hunk_old_start (fst h) \<noteq> None" and "list_all safe_line (snd h)" and "rest = [] \<or> hunk_stop (hd rest)"
  shows "range_loop (hunk_text h @ rest) (Some f) per_file = range_loop rest (Some f) (noted f (hunk_changes h) per_file)"
proof -
  obtain start where start: "hunk_old_start (fst h) = Some start" using assms(1) by blast
  have "\<not> starts_with (fst h) ''--- ''" using hunk_stop_header [OF assms(1)] by blast
  note loop = range_loop_header [OF start this body_until_stop [OF assms(2,3)], of f per_file]
  have "hunk_text h @ rest = fst h # map line_text (snd h) @ rest" by (simp add: hunk_text_def)
  moreover have "hunk_changes h
      = (if removed_lines start (map line_text (snd h)) = [] then [start] else removed_lines start (map line_text (snd h)))"
    by (simp add: hunk_changes_def start removed_lines_spec Let_def)
  ultimately show ?thesis using loop hunk_changes_nonempty [of h] by (simp only: noted_def if_False)
qed

lemma range_loop_hunks:
  assumes "list_all (\<lambda>h. hunk_old_start (fst h) \<noteq> None \<and> list_all safe_line (snd h)) hs"
    and "rest = [] \<or> hunk_stop (hd rest)"
  shows "range_loop (concat (map hunk_text hs) @ rest) (Some f) per_file
    = range_loop rest (Some f) (noted f (concat (map hunk_changes hs)) per_file)"
  using assms(1)
proof (induction hs arbitrary: per_file)
  case (Cons h hs)
  have next_stops: "concat (map hunk_text hs) @ rest = [] \<or> hunk_stop (hd (concat (map hunk_text hs) @ rest))"
    using Cons.prems assms(2) hunk_stop_header by (cases hs) (auto simp: hunk_text_def)
  show ?case
    using Cons range_loop_hunk [OF _ _ next_stops, of h f per_file] by (simp add: noted_append)
qed (simp add: noted_def)

lemma range_loop_skip:
  "list_all (\<lambda>line. \<not> starts_with line ''--- '' \<and> hunk_old_start line = None) ls
    \<Longrightarrow> range_loop (ls @ rest) current per_file = range_loop rest current per_file"
  by (induction ls) (auto split: option.splits)

lemma hunk_old_start_body [simp]: "hunk_old_start (CHR ''+'' # s) = None" "hunk_old_start (line_text l) = None"
  by (cases l; simp add: hunk_old_start_def match_hunk_def)+

lemma range_loop_file:
  assumes "plain_file d" and "list_all (\<lambda>h. list_all safe_line (snd h)) (ff_hunks d)" and "rest = [] \<or> hunk_stop (hd rest)"
  shows "range_loop (file_text d @ rest) current per_file
    = range_loop rest (Some (ff_path d)) (noted (ff_path d) (concat (map hunk_changes (ff_hunks d))) per_file)"
proof -
  have path: "old_side_path (''--- a/'' @ ff_path d) = Some (ff_path d)"
    using assms(1) by (simp add: plain_file_def old_side_path_def Let_def remove_prefix_def)
  have hunks: "list_all (\<lambda>h. hunk_old_start (fst h) \<noteq> None \<and> list_all safe_line (snd h)) (ff_hunks d)"
    using assms(1,2) by (auto simp: plain_file_def list_all_iff)
  show ?thesis
    using assms(1) path range_loop_hunks [OF hunks assms(3)]
      range_loop_skip [of "ff_preamble d" "(''--- a/'' @ ff_path d) # (''+++ b/'' @ ff_path d) # concat (map hunk_text (ff_hunks d)) @ rest"]
    by (simp add: file_text_def plain_file_def)
qed






text \<open>Lines without a line break, each ended by a line feed, are split as they were joined.\<close>

definition plain_char :: "char \<Rightarrow> bool" where
  "plain_char c = ((of_char c :: nat) \<notin> {10, 11, 12, 13, 28, 29, 30, 194, 226})"

definition joined_lines :: "string list \<Rightarrow> string" where
  "joined_lines ls = concat (map (\<lambda>l. l @ [LF]) ls)"

lemma break_len_plain: "plain_char c \<Longrightarrow> break_len (c # s) = 0"
  by (auto simp: plain_char_def break_len_def split: list.splits)

lemma splitlines_loop_plain:
  "list_all plain_char l \<Longrightarrow> splitlines_loop acc (l @ LF # rest) = (rev acc @ l) # splitlines_loop [] rest"
proof (induction l arbitrary: acc)
  case Nil
  show ?case by (simp add: LF_def break_len_def)
qed (simp add: break_len_plain)

lemma splitlines_joined: "list_all (list_all plain_char) ls \<Longrightarrow> splitlines (joined_lines ls) = ls"
  unfolding splitlines_def joined_lines_def by (induction ls) (simp_all add: splitlines_loop_plain)

section \<open>Properties\<close>

text \<open>Merging keeps exactly the given lines, in ranges that are ordered and never touch.\<close>

lemma merged_ranges_are_exact:
  "covered (merge_contiguous ls) = set ls \<and> apart (merge_contiguous ls)"
proof (cases "remdups (sort ls)")
  case Nil
  then have "length (sort ls) = 0" by simp
  then have "ls = []" by (simp only: length_sort) simp
  then show ?thesis by (simp add: merge_contiguous_def apart_def)
next
  case (Cons n ns)
  have "sorted_wrt (<) (remdups (sort ls))" by (simp add: strict_sorted_iff)
  then have "sorted_wrt (<) (n # ns)" by (simp only: Cons)
  moreover have "set ls = set (n # ns)" using Cons by (metis set_remdups set_sort)
  ultimately show ?thesis
    using merge_runs_spec [of n n ns] Cons by (simp add: merge_contiguous_def)
qed


definition small_diff :: file_diff where
  "small_diff =
     \<lparr>ff_preamble = [''diff --git a/q.sql b/q.sql''], ff_path = ''q.sql'',
      ff_hunks = [(''@@ -3,3 +3,2 @@'', [Kept ''a'', Removed ''b'', Removed ''c'', Added ''d''])]\<rparr>"






lemma range_loop_body: "range_loop (map line_text ops) current per_file = per_file"
proof (induction ops arbitrary: current)
  case (Cons l ops)
  then show ?case by (simp split: option.splits)
qed simp

text \<open>C37: A removed line that begins with two dashes and a space (a comment of SQL, Lua or Haskell) is shown as a line
  with three dashes, which is taken for the header of a file. It ends its hunk: neither it nor anything after
  it in the hunk is located, and the symbols that own those lines are not looked up.\<close>

theorem removed_comment_ends_the_hunk:
  assumes "splitlines patch = file_text d" and "plain_file d"
    and "ff_hunks d = [(header, ops @ Removed (''-- '' @ comment) # later)]" and "list_all safe_line ops"
    and "list_ex on_old_side ops"
  shows "parse_old_side_ranges patch = [(ff_path d, merge_contiguous (hunk_changes (header, ops)))]
    \<and> the (hunk_old_start header) + length (filter on_old_side ops)
        \<notin> covered (merge_contiguous (hunk_changes (header, ops)))"
proof -
  let ?cut = "d\<lparr>ff_hunks := [(header, ops)]\<rparr>" and ?rest = "map line_text (Removed (''-- '' @ comment) # later)"
  have "file_text d = file_text ?cut @ ?rest" by (simp add: file_text_def assms(3) hunk_text_def)
  moreover have "plain_file ?cut" using assms(2,3) by (simp add: plain_file_def)
  moreover have "hunk_stop (hd ?rest)" by (simp add: hunk_stop_def)
  ultimately have "range_loop (file_text d) None [] = noted (ff_path d) (hunk_changes (header, ops)) []"
    using range_loop_file [of ?cut ?rest None "[]"] assms(4) by (simp only: range_loop_body) simp
  moreover have "the (hunk_old_start header) + length (filter on_old_side ops) \<notin> set (hunk_changes (header, ops))"
    using assms(5) by (auto simp: hunk_changes_def removed_numbers_def Let_def list_ex_iff filter_empty_conv)
  ultimately show ?thesis
    using merged_ranges_are_exact [of "hunk_changes (header, ops)"]
    by (simp add: parse_old_side_ranges_def assms(1) noted_def)
qed

definition comment_diff :: file_diff where
  "comment_diff = small_diff\<lparr>ff_hunks :=
     [(''@@ -3,4 +3,1 @@'', [Removed ''a'', Kept ''b''] @ Removed (''-- '' @ ''old'') # [Removed ''c''])]\<rparr>"

lemma removed_comment_ends_the_hunk_witness:
  "parse_old_side_ranges (joined_lines (file_text comment_diff)) = [(''q.sql'', [(3, 3)])]
    \<and> removed_numbers 3 (snd (hd (ff_hunks comment_diff))) = [3, 5, 6]"
proof -
  have "list_all (list_all plain_char) (file_text comment_diff)" by code_simp
  then have split: "splitlines (joined_lines (file_text comment_diff)) = file_text comment_diff" by (rule splitlines_joined)
  have plain: "plain_file comment_diff" by code_simp
  have "merge_contiguous (hunk_changes (''@@ -3,4 +3,1 @@'', [Removed ''a'', Kept ''b''])) = [(3, 3)]" by code_simp
  moreover have "removed_numbers 3 (snd (hd (ff_hunks comment_diff))) = [3, 5, 6]" by code_simp
  ultimately show ?thesis
    using removed_comment_ends_the_hunk [OF split plain, of "''@@ -3,4 +3,1 @@''" "[Removed ''a'', Kept ''b'']" "''old''" "[Removed ''c'']"]
    by (simp add: comment_diff_def small_diff_def safe_line_def hunk_stop_def on_old_side_def)
qed

end
