(* ===== verification/Pebra_Codegraph.thy ===== *)
theory Pebra_Codegraph
  imports Pebra_Codegraph_Status Pebra_Patch_Ranges Pebra_Risk_Models Pebra_Language_Capability
    "HOL-Library.Product_Lexorder"
begin

text \<open>
  The evidence part of \<open>pebra/adapters/codegraph_adapter.py\<close>: which symbols a change owns and how widely they are
  used. Each query is a function of the database of \<open>Pebra_Graph_Reach\<close>; the caches of the distributions, which are
  keyed by the file and its time, are left out. Rows without \<open>ORDER BY\<close> come in the order of the table.
\<close>

section \<open>Owners\<close>

definition callable_nodes :: "graph_db \<Rightarrow> graph_node list" where
  "callable_nodes db = filter (\<lambda>n. nd_kind n \<in> set CALLABLE_KINDS) (kg_nodes db)"

definition node_rows :: "graph_db \<Rightarrow> string list \<Rightarrow> graph_node list" where
  "node_rows db ids = filter (\<lambda>n. nd_id n \<in> set ids) (kg_nodes db)"

definition span_of :: "graph_node \<Rightarrow> int" where
  "span_of n = the (nd_end_line n) - the (nd_start_line n)"

definition overlaps :: "int \<Rightarrow> int \<Rightarrow> graph_node \<Rightarrow> bool" where
  "overlaps lo hi n =
     (case (nd_start_line n, nd_end_line n) of (Some s, Some e) \<Rightarrow> s \<le> hi \<and> lo \<le> e | _ \<Rightarrow> False)"

definition encloses :: "graph_node \<Rightarrow> graph_node \<Rightarrow> bool" where
  "encloses r other =
     (nd_id other \<noteq> nd_id r \<and> the (nd_start_line r) \<le> the (nd_start_line other)
      \<and> the (nd_end_line other) \<le> the (nd_end_line r) \<and> span_of other < span_of r)"

definition owner_rows_at :: "graph_db \<Rightarrow> string \<Rightarrow> int \<Rightarrow> int \<Rightarrow> graph_node list" where
  "owner_rows_at db file_path lo hi =
     sort_key span_of
       (filter (\<lambda>n. nd_file_path n = Some file_path \<and> overlaps lo hi n \<and> nd_kind n \<in> set OWNER_KINDS) (kg_nodes db))"

definition owners_at :: "graph_db \<Rightarrow> string \<Rightarrow> int \<Rightarrow> int \<Rightarrow> string list" where
  "owners_at db file_path lo hi =
     (let rows = owner_rows_at db file_path lo hi
      in map nd_id (filter (\<lambda>r. \<not> list_ex (encloses r) rows) rows))"

section \<open>Names\<close>

text \<open>\<open>symbol_id.partition("::")\<close>, first and last part.\<close>

fun partition_colons :: "string \<Rightarrow> string \<times> string" where
  "partition_colons [] = ([], [])"
| "partition_colons (c # s) =
     (if starts_with (c # s) ''::'' then ([], drop 1 s) else (case partition_colons s of (a, b) \<Rightarrow> (c # a, b)))"

definition dots_to_colons :: "string \<Rightarrow> string" where
  "dots_to_colons s = concat (map (\<lambda>c. if c = CHR ''.'' then ''::'' else [c]) s)"

fun colons_to_dots :: "string \<Rightarrow> string" where
  "colons_to_dots (c # d # s) =
     (if c = CHR '':'' \<and> d = CHR '':'' then CHR ''.'' # colons_to_dots s else c # colons_to_dots (d # s))"
| "colons_to_dots s = s"

definition resolve_named :: "graph_db \<Rightarrow> string \<Rightarrow> string \<Rightarrow> string list \<times> bool" where
  "resolve_named db symbol_id repo_root =
     (case partition_colons symbol_id of (file_part, qual) \<Rightarrow>
        if qual = [] then ([], False)
        else
          let rel = repo_relative file_part repo_root;
              exact = filter (\<lambda>n. nd_file_path n = Some rel
                  \<and> (nd_qualified_name n = Some qual \<or> nd_qualified_name n = Some (dots_to_colons qual))) (kg_nodes db);
              leaf = last (split_on (CHR ''.'') (colons_to_dots qual));
              rows = (if exact = [] then filter (\<lambda>n. nd_file_path n = Some rel \<and> nd_name n = leaf) (kg_nodes db) else exact);
              ids = map nd_id rows
          in (ids, length ids > 1))"

definition name_fallback :: "graph_db \<Rightarrow> candidate_action \<Rightarrow> string \<Rightarrow> string list \<times> string" where
  "name_fallback db action repo_root =
     (let found = map (\<lambda>sym. resolve_named db sym repo_root) (ca_affected_symbols action);
          resolved = dedupe (concat (map fst found))
      in if resolved = [] then ([], ''unresolved'')
         else (resolved, if list_ex snd found then ''name_fallback_ambiguous'' else ''name_fallback''))"

definition owners_of_ranges :: "graph_db \<Rightarrow> string \<Rightarrow> line_range list dict \<Rightarrow> string list" where
  "owners_of_ranges db repo_root ranges =
     dedupe (concat (map (\<lambda>(raw_path, spans).
       concat (map (\<lambda>(lo, hi). owners_at db (repo_relative raw_path repo_root) (int lo) (int hi)) spans)) ranges))"

text \<open>Whether the file of a symbol is one of the candidate, or of the patch when the candidate names none.\<close>

definition symbol_in_scope :: "candidate_action \<Rightarrow> string \<Rightarrow> line_range list dict \<Rightarrow> string \<Rightarrow> bool" where
  "symbol_in_scope action repo_root ranges symbol_id =
     (let file_part = fst (partition_colons symbol_id);
          rel = (if file_part = [] then [] else repo_relative file_part repo_root);
          candidate_files = map (\<lambda>p. repo_relative p repo_root) (filter (\<lambda>p. p \<noteq> []) (ca_expected_files action))
      in rel \<noteq> [] \<and> (if candidate_files \<noteq> [] then rel \<in> set candidate_files else dict_has ranges rel))"

definition resolve_owners :: "graph_db \<Rightarrow> candidate_action \<Rightarrow> string \<Rightarrow> string list \<times> string" where
  "resolve_owners db action repo_root =
     (let ranges = parse_old_side_ranges (case ca_proposed_patch action of None \<Rightarrow> [] | Some p \<Rightarrow> p);
          node_ids = owners_of_ranges db repo_root ranges;
          named = map (\<lambda>sym. resolve_named db sym repo_root)
            (filter (symbol_in_scope action repo_root ranges) (ca_affected_symbols action))
      in if node_ids = [] then name_fallback db action repo_root
         else (dedupe (node_ids @ concat (map fst (filter (\<lambda>r. \<not> snd r) named))), ''location''))"

section \<open>Counts and distributions\<close>

definition callers_of :: "graph_db \<Rightarrow> string list \<Rightarrow> string list" where
  "callers_of db ids = sorted_set (filter (\<lambda>s. s \<notin> set ids) (sources_into db FANIN_EDGE_KINDS ids))"

definition caller_distribution :: "graph_db \<Rightarrow> int list" where
  "caller_distribution db =
     (let targets = sorted_set (map eg_target
            (filter (\<lambda>e. eg_kind e \<in> set FANIN_EDGE_KINDS \<and> node_of_kind db CALLABLE_KINDS (eg_target e)) (kg_edges db)));
          nonzero = map (\<lambda>t. int (length (sorted_set (sources_into db FANIN_EDGE_KINDS [t])))) targets;
          zeros = length (callable_nodes db) - length nonzero
      in sort (replicate zeros 0 @ nonzero))"

definition fanin_of :: "graph_db \<Rightarrow> string list \<Rightarrow> int \<times> real" where
  "fanin_of db node_ids =
     (let caller_count = int (length (callers_of db node_ids))
      in (caller_count, fractional_rank caller_count (caller_distribution db)))"

definition impact_distribution :: "graph_db \<Rightarrow> int list" where
  "impact_distribution db =
     sort (map (\<lambda>n. int (length (sorted_set (sources_into db MODIFY_IMPACT_EDGE_KINDS
         (nd_id n # concat (recursive_levels (container_parents db) [nd_id n] CONTAINER_MAX_DEPTH))))))
       (callable_nodes db))"

definition transitive_impact_distribution :: "graph_db \<Rightarrow> int list" where
  "transitive_impact_distribution db =
     sort (map (\<lambda>n. int (fst (transitive_impact_from_reverse TRANSITIVE_REACH_MAX_DEPTH
         (container_targets (nd_id n) (contains_parents_of db)) (reverse_of db))))
       (callable_nodes db))"

definition file_targets :: "graph_db \<Rightarrow> string \<Rightarrow> string list" where
  "file_targets db file_path = map nd_id (filter (\<lambda>n. nd_file_path n = Some file_path) (callable_nodes db))"

definition file_rollup_distribution :: "graph_db \<Rightarrow> int list" where
  "file_rollup_distribution db =
     sort (map (\<lambda>f. int (length (sorted_set (sources_into db FANIN_EDGE_KINDS (file_targets db f)))))
       (sorted_set (List.map_filter nd_file_path (callable_nodes db))))"

text \<open>A rank is given only to a count that is not zero.\<close>

definition context_rank :: "nat \<Rightarrow> int list \<Rightarrow> real" where
  "context_rank n distribution = (if n = 0 then 0 else fractional_rank (int n) (if distribution = [] then [0] else distribution))"

section \<open>Context of the owners\<close>

definition nonempty_texts :: "string option list \<Rightarrow> string list" where
  "nonempty_texts xs = filter (\<lambda>x. x \<noteq> []) (List.map_filter id xs)"

definition column_truthy :: "string option \<Rightarrow> bool" where
  "column_truthy v =
     (case v of None \<Rightarrow> False | Some s \<Rightarrow> lower (strip s) \<notin> {[], ''0'', ''false'', ''none'', ''null''})"

definition column_nonempty :: "string option \<Rightarrow> bool" where
  "column_nonempty v = (case v of None \<Rightarrow> False | Some s \<Rightarrow> strip s \<noteq> [])"

definition kinds_of :: "graph_node list \<Rightarrow> string list" where
  "kinds_of rows = sorted_set (filter (\<lambda>k. k \<noteq> []) (map nd_kind rows))"

definition contract_container_rows :: "graph_db \<Rightarrow> string list \<Rightarrow> graph_node list" where
  "contract_container_rows db node_ids =
     filter (\<lambda>n. nd_id n \<in> set (sources_into db [''contains''] node_ids) \<and> nd_kind n \<in> set CONTRACT_CONTAINER_KINDS)
       (kg_nodes db)"

definition contract_surface :: "string list \<Rightarrow> string list \<Rightarrow> string" where
  "contract_surface owner_kinds container_kinds =
     (let all_kinds = owner_kinds @ container_kinds
      in if ''interface'' \<in> set container_kinds \<and> ''method'' \<in> set owner_kinds then ''interface_method''
         else if ''interface'' \<in> set all_kinds then ''interface''
         else if ''protocol'' \<in> set all_kinds then ''protocol''
         else if ''trait'' \<in> set all_kinds then ''trait''
         else if owner_kinds \<noteq> [] \<and> container_kinds \<noteq> [] then hd container_kinds @ ''_'' @ hd owner_kinds
         else if owner_kinds \<noteq> [] then hd owner_kinds else ''unknown'')"

record contract_facts =
  cm_surface_kind :: string
  cm_exported :: bool
  cm_abstract :: bool
  cm_signature :: bool

definition contract_metadata :: "graph_node list \<Rightarrow> graph_node list \<Rightarrow> contract_facts" where
  "contract_metadata owner_rows container_rows =
     (let all_rows = owner_rows @ container_rows;
          abstract = (list_ex (\<lambda>k. k \<in> {''interface'', ''protocol'', ''trait''}) (kinds_of all_rows)
                      \<or> list_ex (\<lambda>r. column_truthy (nd_is_abstract r)) all_rows)
      in \<lparr>cm_surface_kind = contract_surface (kinds_of owner_rows) (kinds_of container_rows),
          cm_exported = (abstract \<or> list_ex (\<lambda>r. column_truthy (nd_is_exported r)
              \<or> lower (case nd_visibility r of None \<Rightarrow> [] | Some v \<Rightarrow> v) \<in> {''public'', ''public_api'', ''exported''}) all_rows),
          cm_abstract = abstract,
          cm_signature = list_ex (\<lambda>r. column_nonempty (nd_signature r) \<or> column_nonempty (nd_return_type r)
              \<or> column_nonempty (nd_type_parameters r)) owner_rows\<rparr>)"

text \<open>\<open>int(value or 0)\<close>.\<close>

definition column_int :: "int option \<Rightarrow> int" where
  "column_int v = (case v of None \<Rightarrow> 0 | Some n \<Rightarrow> n)"

definition file_error_count :: "(string \<Rightarrow> pyval option) \<Rightarrow> string option \<Rightarrow> int" where
  "file_error_count loads value =
     (case value of
        None \<Rightarrow> 0
      | Some s \<Rightarrow>
          if strip s \<in> {[], ''[]'', ''{}''} then 0
          else case loads s of Some (VList xs) \<Rightarrow> int (length xs) | Some (VDict d) \<Rightarrow> int (length d) | _ \<Rightarrow> 1)"

definition file_rows_of :: "graph_db \<Rightarrow> graph_node list \<Rightarrow> graph_file list" where
  "file_rows_of db owner_rows =
     filter (\<lambda>f. gf_path f \<in> set (nonempty_texts (map nd_file_path owner_rows))) (kg_files db)"

text \<open>Distinct neighbours per edge kind.\<close>

definition edge_counts :: "(graph_edge \<Rightarrow> string) \<Rightarrow> graph_edge list \<Rightarrow> int dict" where
  "edge_counts side edges =
     map (\<lambda>k. (k, int (length (sorted_set (map side (filter (\<lambda>e. eg_kind e = k) edges))))))
       (sorted_set (map eg_kind edges))"

definition impact_edges :: "graph_db \<Rightarrow> string list \<Rightarrow> graph_edge list" where
  "impact_edges db targets =
     filter (\<lambda>e. eg_target e \<in> set targets \<and> eg_kind e \<in> set MODIFY_IMPACT_EDGE_KINDS \<and> eg_source e \<notin> set targets)
       (kg_edges db)"

text \<open>The rows of the owners in the order of the ids.\<close>

definition owner_rows :: "graph_db \<Rightarrow> string list \<Rightarrow> graph_node list" where
  "owner_rows db node_ids = List.map_filter (\<lambda>i. find (\<lambda>n. nd_id n = i) (kg_nodes db)) node_ids"

text \<open>A path is compared as stored, but kept with slashes.\<close>

definition note_path :: "string \<Rightarrow> string list \<Rightarrow> string list" where
  "note_path fp paths = (if fp \<in> set paths then paths else paths @ [slashes fp])"

definition owner_span :: "graph_node \<Rightarrow> int" where
  "owner_span r = (case (nd_start_line r, nd_end_line r) of (Some s, Some e) \<Rightarrow> e - s + 1 | _ \<Rightarrow> 0)"

definition repo_graph_node_count :: "graph_db \<Rightarrow> int" where
  "repo_graph_node_count db = int (length (filter (\<lambda>n. nd_kind n \<in> set OWNER_KINDS) (kg_nodes db)))"

definition changed_owner_edge_count :: "graph_db \<Rightarrow> string list \<Rightarrow> int" where
  "changed_owner_edge_count db node_ids =
     (if length node_ids < 2 then 0
      else int (length (remdups (map (\<lambda>e. (eg_source e, eg_target e, eg_kind e))
        (filter (\<lambda>e. eg_source e \<in> set node_ids \<and> eg_target e \<in> set node_ids \<and> eg_source e \<noteq> eg_target e
            \<and> eg_kind e \<noteq> ''contains'') (kg_edges db))))))"

text \<open>The facts around the owners, as the fields of the evidence they fill.\<close>

definition graph_context ::
  "(string \<Rightarrow> pyval option) \<Rightarrow> graph_db \<Rightarrow> string list \<Rightarrow> int list \<Rightarrow> int list \<Rightarrow> fanin_evidence" where
  "graph_context loads db node_ids impact_dist transitive_dist =
     (if node_ids = [] then default_fanin
      else
        let rows = owner_rows db node_ids;
            languages = dedupe (nonempty_texts (map nd_language rows));
            targets = modify_impact_target_ids db node_ids;
            reach = transitive_impact db TRANSITIVE_REACH_MAX_DEPTH targets;
            repo_nodes = repo_graph_node_count db;
            impacts = impact_edges db targets;
            impact_count = length (sorted_set (map eg_source impacts));
            contract = contract_metadata (node_rows db node_ids) (contract_container_rows db node_ids);
            files = file_rows_of db (node_rows db node_ids)
        in default_fanin\<lparr>
          fi_owner_kinds := dedupe (filter (\<lambda>k. k \<noteq> []) (map nd_kind rows)),
          fi_max_owner_span_lines := foldl max 0 (map owner_span rows),
          fi_resolved_symbol_count := int (length node_ids),
          fi_incoming_edge_counts := edge_counts eg_source (filter (\<lambda>e. eg_target e \<in> set node_ids) (kg_edges db)),
          fi_outgoing_edge_counts := edge_counts eg_target (filter (\<lambda>e. eg_source e \<in> set node_ids) (kg_edges db)),
          fi_modify_impact_count := int impact_count,
          fi_modify_impact_percentile := context_rank impact_count impact_dist,
          fi_modify_impact_edge_counts := edge_counts eg_source impacts,
          fi_modify_transitive_impact_count := int (fst reach),
          fi_modify_transitive_impact_percentile := context_rank (fst reach) transitive_dist,
          fi_modify_transitive_depth_buckets := map (\<lambda>(d, n). (int d, int n)) (snd reach),
          fi_modify_repo_blast_fraction := (if repo_nodes = 0 then 0 else min 1 (real (fst reach) / real_of_int repo_nodes)),
          fi_modify_repo_graph_node_count := repo_nodes,
          fi_container_hierarchy_kinds := kinds_of (container_hierarchy_rows db node_ids),
          fi_graph_file_size_bytes := sum_list (map (column_int \<circ> gf_size) files),
          fi_graph_file_node_count := sum_list (map (column_int \<circ> gf_node_count) files),
          fi_graph_file_error_count := sum_list (map (file_error_count loads \<circ> gf_errors) files),
          fi_contract_surface_kind := cm_surface_kind contract,
          fi_is_exported_contract := cm_exported contract,
          fi_is_abstract_or_interface_contract := cm_abstract contract,
          fi_has_signature_metadata := cm_signature contract,
          fi_resolved_language := (case languages of [] \<Rightarrow> None | l # _ \<Rightarrow> Some l),
          fi_resolved_languages := languages,
          fi_resolved_file_paths := fold note_path (nonempty_texts (map nd_file_path rows)) [],
          fi_resolved_qualified_names := nonempty_texts (map nd_qualified_name rows)\<rparr>)"

section \<open>Owners one by one\<close>

text \<open>The candidates, nearest first, then by file, name and id; the edge of a direct dependent that is shown is the
  first with a line, then the first of all. NULL sorts before every number.\<close>

definition column_text :: "string option \<Rightarrow> string" where
  "column_text v = (case v of None \<Rightarrow> [] | Some s \<Rightarrow> s)"

definition null_first :: "int option \<Rightarrow> nat \<times> int" where
  "null_first v = (case v of None \<Rightarrow> (0, 0) | Some n \<Rightarrow> (1, n))"

definition has_line :: "int option \<Rightarrow> bool" where
  "has_line v = (case v of None \<Rightarrow> False | Some n \<Rightarrow> n > 0)"

definition MAX_IMPACT_WITNESSES_PER_OWNER :: nat where "MAX_IMPACT_WITNESSES_PER_OWNER = 3"

definition shown_edge :: "graph_db \<Rightarrow> string list \<Rightarrow> string \<Rightarrow> graph_edge option" where
  "shown_edge db targets source =
     (case sort_key (\<lambda>e. (if has_line (eg_line e) then (0 :: nat) else 1, null_first (eg_line e), null_first (eg_col e),
                          eg_kind e, eg_target e))
             (filter (\<lambda>e. eg_source e = source \<and> eg_target e \<in> set targets \<and> eg_kind e \<in> set MODIFY_IMPACT_EDGE_KINDS)
               (kg_edges db)) of
        [] \<Rightarrow> None | e # _ \<Rightarrow> Some e)"

definition witness_of :: "graph_db \<Rightarrow> string list \<Rightarrow> nat \<times> graph_node \<Rightarrow> impact_witness" where
  "witness_of db targets found =
     (let depth = fst found; n = snd found; edge = (if depth = 1 then shown_edge db targets (nd_id n) else None);
          at_edge = (case edge of None \<Rightarrow> False | Some e \<Rightarrow> has_line (eg_line e))
      in \<lparr>iw_impacted_node_id = nd_id n, iw_qualified_name = column_text (nd_qualified_name n),
          iw_file_path = slashes (column_text (nd_file_path n)),
          iw_line = (if at_edge then eg_line (the edge) else nd_start_line n),
          iw_column = (if at_edge then eg_col (the edge) else nd_start_column n),
          iw_edge_kind = (case edge of None \<Rightarrow> [] | Some e \<Rightarrow> eg_kind e), iw_depth = int depth,
          iw_location_source = (if at_edge then ''edge_site'' else ''node_definition'')\<rparr>)"

definition impact_witnesses :: "graph_db \<Rightarrow> string list \<Rightarrow> (string \<times> nat) list \<Rightarrow> impact_witness list" where
  "impact_witnesses db targets reached =
     (let candidates = map (\<lambda>n. (the (map_of reached (nd_id n)), n)) (node_rows db (map fst reached));
          key = (\<lambda>(depth, n). (depth, slashes (column_text (nd_file_path n)), column_text (nd_qualified_name n), nd_id n))
      in map (witness_of db targets) (take MAX_IMPACT_WITNESSES_PER_OWNER (sort_key key candidates)))"

definition owner_risk_of :: "graph_db \<Rightarrow> string list \<Rightarrow> string \<Rightarrow> graph_node \<Rightarrow> owner_risk_evidence" where
  "owner_risk_of db node_ids node_id row =
     (let caller_count = length (sorted_set (filter (\<lambda>s. s \<notin> set node_ids) (sources_into db FANIN_EDGE_KINDS [node_id])));
          changed_targets = concat (map (\<lambda>i. modify_impact_target_ids db [i]) node_ids);
          targets = modify_impact_target_ids db [node_id];
          reached = transitive_impact_nodes db TRANSITIVE_REACH_MAX_DEPTH changed_targets targets;
          direct_count = length (filter (\<lambda>r. snd r = 1) reached);
          contract = contract_metadata [row] (contract_container_rows db [node_id])
      in \<lparr>ow_node_id = node_id, ow_file_path = slashes (column_text (nd_file_path row)),
          ow_language = column_text (nd_language row), ow_qualified_name = column_text (nd_qualified_name row),
          ow_fan_in_percentile =
            (if caller_count = 0 then 0 else fractional_rank (int caller_count) (caller_distribution db)),
          ow_impact_percentile =
            (if direct_count = 0 then 0 else fractional_rank (int direct_count) (impact_distribution db)),
          ow_transitive_impact_percentile =
            (if reached = [] then 0 else fractional_rank (int (length reached)) (transitive_impact_distribution db)),
          ow_impacted_node_ids = sort (map fst reached), ow_impact_witnesses = impact_witnesses db targets reached,
          ow_is_public_contract = (cm_exported contract \<or> cm_abstract contract)\<rparr>)"

definition owner_risk_evidence_of :: "graph_db \<Rightarrow> string list \<Rightarrow> owner_risk_evidence list" where
  "owner_risk_evidence_of db node_ids =
     List.map_filter (\<lambda>i. map_option (owner_risk_of db node_ids i) (find (\<lambda>n. nd_id n = i) (kg_nodes db))) (sort node_ids)"

section \<open>Evidence\<close>

definition INSTALL_HINT :: string where
  "INSTALL_HINT = ''install with: npm install -g @colbymchenry/codegraph (or run: pebra setup-graph)''"
definition INIT_HINT :: string where "INIT_HINT = ''run: pebra setup-graph''"

definition unresolved :: "string \<Rightarrow> string \<Rightarrow> fanin_evidence" where
  "unresolved freshness reason =
     default_fanin\<lparr>fi_resolution_method := ''unresolved'', fi_graph_freshness := freshness, fi_fallback_reason := Some reason\<rparr>"

text \<open>A failed gate as the freshness and the reason that are reported; a reason that is put together from data is
  given by its constant part.\<close>

definition failure_report :: "gate_failure \<Rightarrow> string \<times> string" where
  "failure_report e =
     (case e of
        No_Status \<Rightarrow> (''unknown'', ''codegraph CLI not found; '' @ INSTALL_HINT)
      | Bad_Version \<Rightarrow> (''unknown'', ''codegraph version is outside the accepted range'')
      | Not_Initialized \<Rightarrow> (''unknown'', ''codegraph index not initialized; '' @ INIT_HINT)
      | Borrowed_Index \<Rightarrow> (''stale'', ''codegraph worktree mismatch (index belongs to another worktree); run: pebra setup-graph --fix'')
      | Stale_Index \<Rightarrow> (''stale'', ''codegraph index stale after sync; run: pebra doctor --fix-graph'')
      | No_Database \<Rightarrow> (''unknown'', ''codegraph DB not found; '' @ INIT_HINT)
      | Unopenable_Database \<Rightarrow> (''unknown'', ''codegraph DB could not be opened'')
      | Failed_Query \<Rightarrow> (''unknown'', ''codegraph DB query failed'')
      | Old_Schema \<Rightarrow> (''fresh'', ''codegraph schema below v5''))"

definition missing_status_reason :: "graph_snapshot option \<Rightarrow> string" where
  "missing_status_reason snapshot =
     (case Option.bind snapshot gn_fallback_reason of
        Some r \<Rightarrow> if r \<noteq> [] \<and> r \<noteq> ''codegraph CLI not found'' then r else ''codegraph CLI not found; '' @ INSTALL_HINT
      | None \<Rightarrow> ''codegraph CLI not found; '' @ INSTALL_HINT)"

definition located_fanin ::
  "(string \<Rightarrow> pyval option) \<Rightarrow> graph_db \<Rightarrow> candidate_action \<Rightarrow> string \<Rightarrow> fanin_evidence" where
  "located_fanin loads db action repo_root =
     (let (cg_ver, ext_ver) = versions_of db;
          (node_ids, how) = resolve_owners db action repo_root;
          found = default_fanin\<lparr>fi_graph_freshness := ''fresh'', fi_provider_version := cg_ver, fi_index_version := ext_ver\<rparr>
      in if node_ids = []
         then found\<lparr>fi_resolution_method := ''unresolved'',
                    fi_fallback_reason := Some ''changed symbol could not be located in the graph''\<rparr>
         else if how = ''name_fallback_ambiguous''
         then found\<lparr>fi_resolution_method := how, fi_node_ids_resolved := node_ids,
                    fi_fallback_reason := Some ''ambiguous name match; fan-in not trusted (no location resolution)''\<rparr>
         else let (count, percentile) = fanin_of db node_ids
              in (graph_context loads db node_ids (impact_distribution db) (transitive_impact_distribution db))\<lparr>
                   fi_symbol_fan_in_percentile := percentile, fi_symbol_caller_count := count,
                   fi_resolution_method := how, fi_node_ids_resolved := node_ids, fi_provider_version := cg_ver,
                   fi_index_version := ext_ver, fi_graph_freshness := ''fresh'',
                   fi_owner_risk := owner_risk_evidence_of db node_ids,
                   fi_changed_owner_edge_count := changed_owner_edge_count db node_ids\<rparr>)"

text \<open>What the queries run on: the database files and \<open>json.loads\<close>, with the status source of the moment.\<close>

record graph_host =
  gh_files :: "string \<Rightarrow> db_file"
  gh_loads :: "string \<Rightarrow> pyval option"
  gh_dumps :: "pyval dict \<Rightarrow> string"
  gh_observed :: observation

definition graph_status :: "graph_host \<Rightarrow> string \<Rightarrow> graph_state \<Rightarrow> pyval dict option \<times> graph_state" where
  "graph_status host = status_of (gh_loads host) (gh_dumps host) (gh_observed host)"

definition graph_fanin :: "graph_host \<Rightarrow> candidate_action \<Rightarrow> string \<Rightarrow> graph_state \<Rightarrow> fanin_evidence \<times> graph_state" where
  "graph_fanin host action repo_root st =
     (let (status, st') = graph_status host repo_root st
      in (case read_graph (gh_files host) repo_root status of
            Inl No_Status \<Rightarrow> unresolved ''unknown'' (missing_status_reason (map_of (gy_snapshots st') repo_root))
          | Inl e \<Rightarrow> (case failure_report e of (freshness, reason) \<Rightarrow> unresolved freshness reason)
          | Inr db \<Rightarrow> located_fanin (gh_loads host) db action repo_root, st'))"

text \<open>The reports of the other queries where they differ.\<close>

definition structural_report :: "gate_failure \<Rightarrow> string \<times> string" where
  "structural_report e =
     (case e of
        Bad_Version \<Rightarrow> (''unknown'', ''codegraph version outside accepted range'')
      | Borrowed_Index \<Rightarrow> (''stale'', ''codegraph index stale; run: pebra doctor --fix-graph'')
      | Stale_Index \<Rightarrow> (''stale'', ''codegraph index stale; run: pebra doctor --fix-graph'')
      | _ \<Rightarrow> failure_report e)"

definition probe_reason :: "gate_failure \<Rightarrow> string" where
  "probe_reason e =
     (case e of
        No_Status \<Rightarrow> ''codegraph CLI not found''
      | Bad_Version \<Rightarrow> ''codegraph version outside accepted range''
      | Borrowed_Index \<Rightarrow> ''codegraph index belongs to another worktree''
      | Not_Initialized \<Rightarrow> ''codegraph index not initialized''
      | No_Database \<Rightarrow> ''codegraph DB not found''
      | _ \<Rightarrow> snd (failure_report e))"

text \<open>The owners of a change that was already made, from both texts.\<close>

definition edited_symbols ::
  "(string \<Rightarrow> pyval option) \<Rightarrow> (string list \<Rightarrow> string list \<Rightarrow> (string \<times> nat \<times> nat) list) \<Rightarrow> graph_db \<Rightarrow> string
    \<Rightarrow> string option \<Rightarrow> string \<Rightarrow> string \<Rightarrow> fanin_evidence" where
  "edited_symbols loads opcodes db file_path before after repo_root =
     (let (cg_ver, ext_ver) = versions_of db;
          node_ids = dedupe (concat (map (\<lambda>(lo, hi). owners_at db (repo_relative file_path repo_root) (int lo) (int hi))
            (changed_after_side_ranges opcodes (column_text before) after)))
      in if node_ids = []
         then default_fanin\<lparr>fi_resolution_method := ''unresolved'', fi_graph_freshness := ''fresh'',
                fi_provider_version := cg_ver, fi_index_version := ext_ver,
                fi_fallback_reason := Some ''changed lines did not resolve to a graph owner''\<rparr>
         else let (count, percentile) = fanin_of db node_ids;
                  blank = default_fanin
              in (graph_context loads db node_ids (impact_distribution db) [])\<lparr>
                   fi_symbol_fan_in_percentile := percentile, fi_symbol_caller_count := count,
                   fi_resolution_method := ''location'', fi_node_ids_resolved := node_ids, fi_provider_version := cg_ver,
                   fi_index_version := ext_ver, fi_graph_freshness := ''fresh'',
                   fi_modify_transitive_impact_count := fi_modify_transitive_impact_count blank,
                   fi_modify_transitive_impact_percentile := fi_modify_transitive_impact_percentile blank,
                   fi_modify_transitive_depth_buckets := fi_modify_transitive_depth_buckets blank,
                   fi_modify_repo_blast_fraction := fi_modify_repo_blast_fraction blank,
                   fi_modify_repo_graph_node_count := fi_modify_repo_graph_node_count blank\<rparr>)"

definition structural_symbols ::
  "graph_host \<Rightarrow> (string list \<Rightarrow> string list \<Rightarrow> (string \<times> nat \<times> nat) list) \<Rightarrow> string \<Rightarrow> string option \<Rightarrow> string option
    \<Rightarrow> string \<Rightarrow> graph_state \<Rightarrow> fanin_evidence \<times> graph_state" where
  "structural_symbols host opcodes file_path before after repo_root st =
     (let (status, st') = graph_status host repo_root st;
          failed = (\<lambda>e. case structural_report e of (freshness, reason) \<Rightarrow> unresolved freshness reason)
      in (case index_gate status of
            Inl e \<Rightarrow> failed e
          | Inr s \<Rightarrow>
              if gh_files host (db_path_from_status repo_root s) = Db_Missing then failed No_Database
              else case after of
                None \<Rightarrow> unresolved ''fresh'' ''file has no post-edit content (deleted); no current-graph owners''
              | Some text \<Rightarrow>
                  (case open_graph (gh_files host) repo_root s of
                     Inl e \<Rightarrow> failed e
                   | Inr db \<Rightarrow> edited_symbols (gh_loads host) opcodes db file_path before text repo_root), st'))"

definition percentiles_by_name :: "graph_host \<Rightarrow> string list \<Rightarrow> string \<Rightarrow> graph_state \<Rightarrow> real dict \<times> graph_state" where
  "percentiles_by_name host symbol_ids repo_root st =
     (if symbol_ids = [] then ([], st)
      else let (status, st') = graph_status host repo_root st
           in (case read_graph (gh_files host) repo_root status of
                 Inl _ \<Rightarrow> []
               | Inr db \<Rightarrow>
                   fold (\<lambda>sid out. case resolve_named db sid repo_root of (ids, ambiguous) \<Rightarrow>
                       if ids \<noteq> [] \<and> \<not> ambiguous then dict_set out sid (snd (fanin_of db ids)) else out)
                     symbol_ids [], st'))"

definition hottest_caller_count :: "graph_db \<Rightarrow> string \<Rightarrow> nat" where
  "hottest_caller_count db file_path =
     foldl max 0 (map (\<lambda>t. length (sorted_set (sources_into db FANIN_EDGE_KINDS [t]))) (file_targets db file_path))"

definition failed_rollup :: "gate_failure \<Rightarrow> file_fanin_rollup" where
  "failed_rollup e =
     default_file_rollup\<lparr>fr_graph_freshness :=
         (if e = Borrowed_Index \<or> e = Stale_Index then ''stale'' else if e = Old_Schema then ''fresh'' else ''unknown''),
       fr_fallback_reason := Some
         (case e of
            No_Status \<Rightarrow> ''codegraph CLI not found''
          | Bad_Version \<Rightarrow> ''codegraph version out of range''
          | Not_Initialized \<Rightarrow> ''codegraph index not initialized''
          | Borrowed_Index \<Rightarrow> ''codegraph index stale''
          | Stale_Index \<Rightarrow> ''codegraph index stale''
          | No_Database \<Rightarrow> ''codegraph DB not found''
          | Unopenable_Database \<Rightarrow> ''codegraph DB could not be opened''
          | Failed_Query \<Rightarrow> ''codegraph DB query failed''
          | Old_Schema \<Rightarrow> ''schema below v5'')\<rparr>"

definition file_fanin_rollup_of :: "graph_host \<Rightarrow> string \<Rightarrow> string \<Rightarrow> graph_state \<Rightarrow> file_fanin_rollup \<times> graph_state" where
  "file_fanin_rollup_of host file_path repo_root st =
     (let (status, st') = graph_status host repo_root st
      in (case read_graph (gh_files host) repo_root status of
            Inl e \<Rightarrow> failed_rollup e
          | Inr db \<Rightarrow>
              let rel = repo_relative file_path repo_root;
                  callers = sorted_set (sources_into db FANIN_EDGE_KINDS (file_targets db rel))
              in default_file_rollup\<lparr>fr_max_caller_count := int (hottest_caller_count db rel),
                   fr_distinct_caller_count := int (length callers),
                   fr_symbol_count := int (length (file_targets db rel)),
                   fr_percentile := fractional_rank (int (length callers)) (file_rollup_distribution db),
                   fr_resolution_method := ''file_location'', fr_graph_freshness := ''fresh'',
                   fr_caller_node_ids := callers\<rparr>, st'))"

definition highest_file_fanin_percentile :: "graph_host \<Rightarrow> string \<Rightarrow> string \<Rightarrow> graph_state \<Rightarrow> real option \<times> graph_state" where
  "highest_file_fanin_percentile host file_path repo_root st =
     (let (status, st') = graph_status host repo_root st
      in (case read_graph (gh_files host) repo_root status of
            Inl _ \<Rightarrow> None
          | Inr db \<Rightarrow>
              let mx = hottest_caller_count db (repo_relative file_path repo_root)
              in if mx = 0 then None else Some (fractional_rank (int mx) (caller_distribution db)), st'))"

section \<open>Dependents\<close>

record dependents_result =
  dq_available :: bool
  dq_graph_freshness :: string
  dq_dependent_files :: "string list"
  dq_count :: int
  dq_fallback_reason :: "string option"

definition dependents_unavailable :: "string \<Rightarrow> string \<Rightarrow> dependents_result" where
  "dependents_unavailable freshness reason =
     \<lparr>dq_available = False, dq_graph_freshness = freshness, dq_dependent_files = [], dq_count = 0,
      dq_fallback_reason = Some reason\<rparr>"

definition failed_dependents :: "gate_failure \<Rightarrow> dependents_result" where
  "failed_dependents e =
     (case e of
        No_Status \<Rightarrow> dependents_unavailable ''unknown'' ''codegraph CLI not found''
      | Bad_Version \<Rightarrow> dependents_unavailable ''unknown'' ''codegraph version out of range''
      | Not_Initialized \<Rightarrow> dependents_unavailable ''unknown'' ''codegraph index not initialized''
      | Borrowed_Index \<Rightarrow> dependents_unavailable ''stale'' ''codegraph index stale or worktree-mismatched''
      | Stale_Index \<Rightarrow> dependents_unavailable ''stale'' ''codegraph index stale or worktree-mismatched''
      | No_Database \<Rightarrow> dependents_unavailable ''unknown'' ''codegraph DB not found''
      | Unopenable_Database \<Rightarrow> dependents_unavailable ''unknown'' ''codegraph DB could not be opened''
      | Failed_Query \<Rightarrow> dependents_unavailable ''unknown'' ''codegraph DB query failed''
      | Old_Schema \<Rightarrow> dependents_unavailable ''fresh'' ''codegraph schema below v5'')"

definition dependents_found :: "string list \<Rightarrow> nat \<Rightarrow> dependents_result" where
  "dependents_found files n =
     \<lparr>dq_available = True, dq_graph_freshness = ''fresh'', dq_dependent_files = files, dq_count = int n,
      dq_fallback_reason = None\<rparr>"

definition file_of_node :: "graph_db \<Rightarrow> string \<Rightarrow> string option" where
  "file_of_node db i = Option.bind (find (\<lambda>n. nd_id n = i) (kg_nodes db)) nd_file_path"

definition dependent_files_result ::
  "graph_host \<Rightarrow> string \<Rightarrow> string \<Rightarrow> graph_state \<Rightarrow> dependents_result \<times> graph_state" where
  "dependent_files_result host file_path repo_root st =
     (let (status, st') = graph_status host repo_root st
      in (case read_graph (gh_files host) repo_root status of
            Inl e \<Rightarrow> failed_dependents e
          | Inr db \<Rightarrow>
              let rel = repo_relative file_path repo_root;
                  sources = sources_into db MODIFY_IMPACT_EDGE_KINDS (file_targets db rel);
                  files = filter (\<lambda>f. f \<noteq> rel \<and> f \<noteq> []) (sorted_set (List.map_filter (file_of_node db) sources))
              in dependents_found files (length files), st'))"

text \<open>The file of a direct caller: that of its node, else what follows \<open>file:\<close> in its id.\<close>

definition caller_file :: "graph_db \<Rightarrow> string \<Rightarrow> string option" where
  "caller_file db source =
     (case file_of_node db source of
        Some f \<Rightarrow> if f \<noteq> [] then Some (slashes f)
                  else if starts_with source ''file:'' \<and> drop 5 source \<noteq> [] then Some (slashes (drop 5 source)) else None
      | None \<Rightarrow> if starts_with source ''file:'' \<and> drop 5 source \<noteq> [] then Some (slashes (drop 5 source)) else None)"

definition direct_caller_files_result ::
  "graph_host \<Rightarrow> string list \<Rightarrow> string \<Rightarrow> graph_state \<Rightarrow> dependents_result \<times> graph_state" where
  "direct_caller_files_result host node_ids repo_root st =
     (if node_ids = [] then (dependents_unavailable ''unknown'' ''owner node scope is empty'', st)
      else let (status, st') = graph_status host repo_root st
           in (case read_graph (gh_files host) repo_root status of
                 Inl e \<Rightarrow> failed_dependents e
               | Inr db \<Rightarrow>
                   let callers = callers_of db node_ids
                   in if list_ex (\<lambda>c. caller_file db c = None) callers
                      then dependents_unavailable ''fresh'' ''direct caller has no resolvable source file''
                      else dependents_found (sorted_set (List.map_filter (caller_file db) callers)) (length callers), st'))"

section \<open>Measured capability\<close>

definition node_counts :: "graph_host \<Rightarrow> string \<Rightarrow> graph_state \<Rightarrow> (int \<times> int \<times> int) \<times> graph_state" where
  "node_counts host repo_root st =
     (let (status, st') = graph_status host repo_root st
      in (case status of
            None \<Rightarrow> (0, 0, 0)
          | Some s \<Rightarrow>
              if dict_get s ''initialized'' VNone = VBool False then (0, 0, 0)
              else case open_graph (gh_files host) repo_root s of
                Inl _ \<Rightarrow> (0, 0, 0)
              | Inr db \<Rightarrow>
                  (int (length (kg_nodes db)), int (length (callable_nodes db)),
                   int (length (filter (\<lambda>n. ends_with (lower (column_text (nd_file_path n))) ''.cs'') (callable_nodes db)))), st'))"

definition has_visibility_column :: "graph_node \<Rightarrow> bool" where
  "has_visibility_column n =
     (column_text (nd_visibility n) \<noteq> []
      \<or> (case nd_language n of None \<Rightarrow> False | Some l \<Rightarrow> l \<in> set EXPORT_AS_VISIBILITY_LANGUAGES) \<and> nd_is_exported n \<noteq> None)"

definition edge_kinds_of_language :: "graph_db \<Rightarrow> string \<Rightarrow> string list" where
  "edge_kinds_of_language db language =
     sorted_set (filter (\<lambda>k. k \<noteq> []) (map eg_kind (filter (\<lambda>e. list_ex (\<lambda>n. nd_id n = eg_source e
       \<and> nd_language n = Some language) (callable_nodes db)) (kg_edges db))))"

definition measured_capability :: "graph_db \<Rightarrow> string \<Rightarrow> language_capability" where
  "measured_capability db language =
     (let nodes = filter (\<lambda>n. nd_language n = Some language) (callable_nodes db); n = length nodes;
          sig = length (filter (\<lambda>m. column_text (nd_signature m) \<noteq> []) nodes);
          vis = length (filter has_visibility_column nodes)
      in default_language_capability\<lparr>lc_language := language, lc_probe_status := ''measured'', lc_node_count := int n,
           lc_signature_coverage_ratio := (if n = 0 then 0 else real sig / real n),
           lc_visibility_coverage_ratio := (if n = 0 then 0 else real vis / real n),
           lc_edge_kinds := edge_kinds_of_language db language\<rparr>)"

definition probe_uncached :: "graph_host \<Rightarrow> string \<Rightarrow> pyval dict option \<Rightarrow> gate_failure + language_capability dict" where
  "probe_uncached host repo_root status =
     (case status of
        None \<Rightarrow> Inl No_Status
      | Some s \<Rightarrow>
          if truthy (dict_get s ''version'' VNone) \<and> \<not> version_accepted s then Inl Bad_Version
          else if truthy (dict_get s ''worktreeMismatch'' VNone) then Inl Borrowed_Index
          else if dict_get s ''initialized'' VNone = VBool False then Inl Not_Initialized
          else case open_graph (gh_files host) repo_root s of
            Inl e \<Rightarrow> Inl e
          | Inr db \<Rightarrow> Inr (map (\<lambda>l. (l, measured_capability db l))
              (filter (\<lambda>l. l \<noteq> []) (sorted_set (List.map_filter nd_language (callable_nodes db))))))"

definition capability_for :: "graph_host \<Rightarrow> string \<Rightarrow> string \<Rightarrow> graph_state \<Rightarrow> language_capability \<times> graph_state" where
  "capability_for host language repo_root st =
     (let (status, st') = graph_status host repo_root st
      in (case probe_uncached host repo_root status of
            Inl e \<Rightarrow> default_language_capability\<lparr>lc_language := language, lc_probe_status := ''graph_unavailable'',
                       lc_fallback_reason := Some (probe_reason e)\<rparr>
          | Inr caps \<Rightarrow>
              (case map_of caps language of
                 Some cap \<Rightarrow> cap
               | None \<Rightarrow> default_language_capability\<lparr>lc_language := language, lc_probe_status := ''measured'',
                           lc_node_count := 0\<rparr>), st'))"

end
