(* ===== verification/Pebra_Graph_Evidence.thy ===== *)
theory Pebra_Graph_Evidence
  imports Pebra_Codegraph
begin

text \<open>
  Properties of the graph evidence: when it is trusted, which symbols answer for a change, and how a count relates to
  the distribution it is ranked in.
\<close>

section \<open>Owners\<close>

text \<open>Every symbol that a changed range touches is answered for: it is reported, or a symbol inside it is. What is
  reported has no touched symbol strictly inside.\<close>

lemma owners_answer_for_all:
  assumes "m \<in> set (owner_rows_at db f lo hi)"
  shows "\<exists>k \<in> set (owner_rows_at db f lo hi). nd_id k \<in> set (owners_at db f lo hi)
    \<and> the (nd_start_line m) \<le> the (nd_start_line k) \<and> the (nd_end_line k) \<le> the (nd_end_line m)"
proof -
  let ?rows = "owner_rows_at db f lo hi"
  let ?inside = "{k \<in> set ?rows. the (nd_start_line m) \<le> the (nd_start_line k) \<and> the (nd_end_line k) \<le> the (nd_end_line m)}"
  have "finite ?inside" "?inside \<noteq> {}" using assms by auto
  then obtain k where k: "k \<in> ?inside" "\<forall>j \<in> ?inside. span_of k \<le> span_of j"
    using ex_min_if_finite [of "span_of ` ?inside"] by (metis (mono_tags, lifting) arg_min_if_finite(1) arg_min_least)
  have "\<not> list_ex (encloses k) ?rows"
    using k by (fastforce simp: list_ex_iff encloses_def)
  then show ?thesis using k(1) by (auto simp: owners_at_def Let_def)
qed

section \<open>Ranks\<close>

lemma set_caller_targets:
  "edge \<in> set (kg_edges db) \<Longrightarrow> eg_kind edge \<in> set FANIN_EDGE_KINDS \<Longrightarrow> node_of_kind db CALLABLE_KINDS (eg_target edge)
    \<Longrightarrow> int (card (set (sources_into db FANIN_EDGE_KINDS [eg_target edge]))) \<in> set (caller_distribution db)"
  by (auto simp: caller_distribution_def Let_def length_sorted_set)

lemma rank_below_an_entry:
  assumes "sorted d" and "x \<in> set d" and "v < x"
  shows "fractional_rank v d < 1"
proof -
  have "length (filter (\<lambda>y. y \<le> v) d) < length d" using assms(2,3) by (intro length_filter_less) auto
  moreover have "d \<noteq> []" using assms(2) by auto
  ultimately show ?thesis using assms(1) by (simp add: fractional_rank_def bisect_right_count)
qed

text \<open>The transitive count of one symbol is an entry of the distribution it is ranked in.\<close>

lemma transitive_rank_is_fair:
  assumes "n \<in> set (callable_nodes db)"
  shows "int (fst (transitive_impact db TRANSITIVE_REACH_MAX_DEPTH (modify_impact_target_ids db [nd_id n])))
    \<in> set (transitive_impact_distribution db)"
proof -
  let ?m = TRANSITIVE_REACH_MAX_DEPTH
  have "transitive_impact db ?m (modify_impact_target_ids db [nd_id n])
      = transitive_impact db ?m (container_targets (nd_id n) (contains_parents_of db))"
    by (intro transitive_impact_cong) (simp only: container_targets_set)
  also have "\<dots> = transitive_impact_from_reverse ?m (container_targets (nd_id n) (contains_parents_of db)) (reverse_of db)"
    by (rule query_is_search) (simp add: TRANSITIVE_REACH_MAX_DEPTH_def)
  finally show ?thesis using assms by (simp add: transitive_impact_distribution_def)
qed

section \<open>Trust\<close>

lemma graph_status_cached:
  "map_of (gy_snapshots st) r = Some snapshot \<Longrightarrow> graph_status host r st = (prepared_status r st, st)"
  by (simp add: graph_status_def status_of_def prepare_cached)

lemma unresolved_untrusted [simp]: "\<not> is_trusted_fanin (Some (unresolved freshness reason))"
  by (simp add: is_trusted_fanin_def unresolved_def TRUSTED_FANIN_RESOLUTION_METHODS_def)

lemma located_trusted:
  assumes "is_trusted_fanin (Some (located_fanin loads db action r))"
  shows "fi_node_ids_resolved (located_fanin loads db action r) = fst (resolve_owners db action r)
    \<and> fst (resolve_owners db action r) \<noteq> []"
  using assms
  by (auto simp: located_fanin_def is_trusted_fanin_def TRUSTED_FANIN_RESOLUTION_METHODS_def Let_def
      split: prod.splits if_splits)

lemma bound_snapshot:
  assumes "bind_assessed_commit loads dumps obs r commit st = (bound, st')"
  shows "\<exists>snapshot. map_of (gy_snapshots st') r = Some snapshot
    \<and> (prepared_status r st' \<noteq> None \<longrightarrow>
         bound \<and> gn_status snapshot = ''available'' \<and> commit \<noteq> None \<and> commit = gn_repo_head snapshot)"
proof -
  obtain snapshot stp where p: "prepare loads dumps obs r st = (snapshot, stp)" by fastforce
  have "map_of (gy_snapshots stp) r = Some snapshot" using prepare_recorded [OF p] .
  then show ?thesis
    using assms p by (auto simp: bind_assessed_commit_def Let_def prepared_status_def dict_get_def map_of_dict_set split: if_splits)
qed

section \<open>Properties\<close>

text \<open>C12: Graph evidence is trusted only when it was earned. However the adapter was used before, evidence that the risk
  models trust, for a repository whose assessed commit was bound, stems from an available snapshot of exactly
  that commit, from a status that was well formed, of an accepted version, fresh and of this worktree, from a
  database of a known schema, and from at least one resolved owner.\<close>

theorem graph_evidence_is_earned:
  assumes "adapter_state st" and "bind_assessed_commit loads dumps obs r commit st = (bound, st')"
    and "graph_fanin host action r st' = (evidence, st'')" and "is_trusted_fanin (Some evidence)"
  shows "bound \<and> st'' = st' \<and> (\<exists>snapshot s db.
      map_of (gy_snapshots st') r = Some snapshot \<and> gn_status snapshot = ''available''
      \<and> commit \<noteq> None \<and> commit = gn_repo_head snapshot
      \<and> prepared_status r st' = Some s \<and> well_formed_status s \<and> version_accepted s \<and> is_fresh s \<and> \<not> foreign_worktree s
      \<and> gn_provider_version snapshot = Some (version_text s)
      \<and> gh_files host (db_path_from_status r s) = Db_Open db \<and> MIN_SCHEMA_VERSION \<le> schema_version db
      \<and> evidence = located_fanin (gh_loads host) db action r \<and> fi_node_ids_resolved evidence \<noteq> [])"
proof -
  obtain snapshot where snapshot: "map_of (gy_snapshots st') r = Some snapshot"
    and bound: "prepared_status r st' \<noteq> None \<Longrightarrow>
      bound \<and> gn_status snapshot = ''available'' \<and> commit \<noteq> None \<and> commit = gn_repo_head snapshot"
    using bound_snapshot [OF assms(2)] by blast
  have same: "st'' = st'" using assms(3) by (simp add: graph_fanin_def graph_status_cached [OF snapshot])
  have "\<exists>db. read_graph (gh_files host) r (prepared_status r st') = Inr db \<and> evidence = located_fanin (gh_loads host) db action r"
    using assms(3,4)
    by (auto simp: graph_fanin_def graph_status_cached [OF snapshot] split: sum.splits gate_failure.splits prod.splits)
  then obtain db s where "evidence = located_fanin (gh_loads host) db action r" "prepared_status r st' = Some s" "is_fresh s"
    "gh_files host (db_path_from_status r s) = Db_Open db" "MIN_SCHEMA_VERSION \<le> schema_version db"
    using read_graph_Inr by metis
  moreover have "kept_ok st' r"
    using adapter_keeps_ok [OF adapter_bind [OF assms(1), of loads dumps obs r commit]] assms(2) by simp
  ultimately show ?thesis
    using same bound snapshot located_trusted [of "gh_loads host" db action r] assms(4) is_fresh_not_foreign
    by (auto simp: kept_ok_def)
qed

text \<open>One function of one file that calls itself, an index that is fresh, and a change that names the function.\<close>

definition tiny_graph :: graph_db where
  "tiny_graph =
     \<lparr>kg_nodes = [\<lparr>nd_id = ''f'', nd_kind = ''function'', nd_name = ''f'', nd_qualified_name = Some ''f'',
        nd_file_path = Some ''a.go'', nd_language = Some ''go'', nd_start_line = Some 1, nd_end_line = Some 3,
        nd_start_column = None, nd_signature = None, nd_return_type = None, nd_type_parameters = None,
        nd_visibility = None, nd_is_exported = None, nd_is_abstract = None\<rparr>],
      kg_edges = [\<lparr>eg_source = ''f'', eg_target = ''f'', eg_kind = ''calls'', eg_line = Some 2, eg_col = None\<rparr>],
      kg_files = [], kg_schema_versions = [5], kg_metadata = []\<rparr>"

definition tiny_status :: "pyval dict" where
  "tiny_status =
     [(''initialized'', VBool True),
      (''pendingChanges'', VDict [(''added'', VInt 0), (''modified'', VInt 0), (''removed'', VInt 0)]),
      (''index'', VDict [(''reindexRecommended'', VBool False), (''builtWithExtractionVersion'', VInt 7)]),
      (''version'', VStr ''1.1.1''), (''worktreeMismatch'', VNone)]"

definition quiet_result :: bounded_result where
  "quiet_result = \<lparr>bp_failed = False, bp_returncode = 0, bp_stdout_truncated = False, bp_stdout = []\<rparr>"

definition tiny_attempt :: attempt where
  "tiny_attempt =
     \<lparr>gt_head_before = Some ''c1'', gt_config_before = No_Config, gt_initial = None, gt_sync_resolved = True,
      gt_sync = quiet_result, gt_post = None, gt_head_after = Some ''c1'', gt_config_after = No_Config\<rparr>"

definition tiny_observation :: observation where
  "tiny_observation =
     \<lparr>gp_source = Injected (Some tiny_status), gp_engine_found = False, gp_config = No_Config, gp_head = Some ''c1'',
      gp_attempts = (tiny_attempt, tiny_attempt), gp_status_now = None\<rparr>"

definition tiny_graph_host :: graph_host where
  "tiny_graph_host =
     \<lparr>gh_files = (\<lambda>_. Db_Open tiny_graph), gh_loads = (\<lambda>_. None), gh_dumps = (\<lambda>_. []), gh_observed = tiny_observation\<rparr>"

definition tiny_change :: candidate_action where
  "tiny_change =
     \<lparr>ca_id = ''a'', ca_label = [], ca_action_type = ''edit'', ca_proposed_patch = None, ca_affected_symbols = [''a.go::f''],
      ca_expected_files = [''a.go''], ca_is_dependency_change = False, ca_is_schema_change = False, ca_is_migration = False\<rparr>"

lemma tiny_status_facts:
  "well_formed_status tiny_status" "version_accepted tiny_status" "is_fresh tiny_status" "\<not> foreign_worktree tiny_status"
  by code_simp+

lemma tiny_graph_facts:
  "resolve_owners tiny_graph tiny_change [] = ([''f''], ''name_fallback'')" "schema_version tiny_graph = 5"
  "file_rows_of tiny_graph (node_rows tiny_graph [''f'']) = []"
  by code_simp+

lemma tiny_bound:
  "\<exists>st'. bind_assessed_commit (\<lambda>_. None) (\<lambda>_. []) tiny_observation [] (Some ''c1'') fresh_adapter = (True, st')
     \<and> prepared_status [] st' = Some tiny_status \<and> (\<exists>snapshot. map_of (gy_snapshots st') [] = Some snapshot)"
  using tiny_status_facts
  by (simp add: bind_assessed_commit_def prepare_def fresh_adapter_def tiny_observation_def injected_snapshot_def
      config_digest_of_def validate_codegraph_status_def available_snapshot_def prepared_status_def Let_def)

lemma tiny_trusted: "is_trusted_fanin (Some (located_fanin (\<lambda>_. None) tiny_graph tiny_change []))"
  by (simp add: located_fanin_def tiny_graph_facts is_trusted_fanin_def TRUSTED_FANIN_RESOLUTION_METHODS_def
      graph_context_def default_fanin_def Let_def split: prod.splits)

lemma tiny_read: "read_graph (\<lambda>_. Db_Open tiny_graph) [] (Some tiny_status) = Inr tiny_graph"
  using tiny_status_facts
  by (simp add: read_graph_def index_gate_def open_graph_def tiny_graph_facts MIN_SCHEMA_VERSION_def)
    (simp add: tiny_status_def)

lemma graph_evidence_is_earned_witness:
  "\<exists>st' snapshot. snd (bind_assessed_commit (\<lambda>_. None) (\<lambda>_. []) tiny_observation [] (Some ''c1'') fresh_adapter) = st'
     \<and> map_of (gy_snapshots st') [] = Some snapshot \<and> gn_status snapshot = ''available'' \<and> gn_repo_head snapshot = Some ''c1''"
proof -
  obtain st' snapshot where b: "bind_assessed_commit (\<lambda>_. None) (\<lambda>_. []) tiny_observation [] (Some ''c1'') fresh_adapter = (True, st')"
    "prepared_status [] st' = Some tiny_status" "map_of (gy_snapshots st') [] = Some snapshot"
    using tiny_bound by blast
  have "graph_fanin tiny_graph_host tiny_change [] st' = (located_fanin (\<lambda>_. None) tiny_graph tiny_change [], st')"
    by (simp add: graph_fanin_def graph_status_cached [OF b(3)] b(2) tiny_graph_host_def tiny_read)
  from graph_evidence_is_earned [OF adapter_start b(1) this tiny_trusted] show ?thesis using b(1) by auto
qed

text \<open>C38: A symbol that calls itself is ranked too low. Its own call is left out of its count but not of its entry in
  the distribution, so the entry is one more than the count, and even the symbol with the most callers of the
  repository never reaches the percentile one.\<close>

theorem recursive_symbol_is_ranked_too_low:
  assumes "edge \<in> set (kg_edges db)" and "eg_kind edge \<in> set FANIN_EDGE_KINDS"
    and "eg_source edge = symbol" and "eg_target edge = symbol" and "node_of_kind db CALLABLE_KINDS symbol"
  shows "fst (fanin_of db [symbol]) + 1 \<in> set (caller_distribution db) \<and> snd (fanin_of db [symbol]) < 1"
proof -
  let ?S = "set (sources_into db FANIN_EDGE_KINDS [symbol])"
  have self: "symbol \<in> ?S" using assms by (force simp: sources_into_def)
  have "fst (fanin_of db [symbol]) = int (card (?S - {symbol}))"
    by (simp add: fanin_of_def callers_of_def Let_def length_sorted_set set_diff_eq)
  also have "\<dots> + 1 = int (card ?S)" using self card_gt_0_iff [of ?S] by (auto simp: card_Diff_singleton)
  finally have entry: "fst (fanin_of db [symbol]) + 1 \<in> set (caller_distribution db)"
    using set_caller_targets [OF assms(1,2)] assms(4,5) by simp
  have "sorted (caller_distribution db)" by (simp add: caller_distribution_def Let_def)
  from rank_below_an_entry [OF this entry] show ?thesis using entry by (simp add: fanin_of_def Let_def)
qed

lemma recursive_symbol_is_ranked_too_low_witness:
  "fst (fanin_of tiny_graph [''f'']) + 1 \<in> set (caller_distribution tiny_graph) \<and> snd (fanin_of tiny_graph [''f'']) < 1"
  using recursive_symbol_is_ranked_too_low
    [of "\<lparr>eg_source = ''f'', eg_target = ''f'', eg_kind = ''calls'', eg_line = Some 2, eg_col = None\<rparr>" tiny_graph "''f''"]
  by (simp add: tiny_graph_def FANIN_EDGE_KINDS_def node_of_kind_def CALLABLE_KINDS_def)

end
