(* ===== verification/Pebra_Pattern.thy ===== *)
theory Pebra_Pattern
  imports Pebra_Patch_Paths
begin

text \<open>
  The regular expressions of Python, as far as \<open>pebra/adapters/continuity_witness.py\<close> uses them, and the functions of
  \<open>str\<close> beside them. A pattern is run by backtracking: \<open>pat_runs\<close> lists the ways it can match from a place, in the order in
  which the engine tries them, so that the first is the match.

  Text is a list of bytes. The classes of the patterns name ASCII characters; whether a character beyond ASCII is a
  letter or a digit is asked of a parameter.
\<close>

section \<open>Characters\<close>

record char_classes =
  wide_alpha :: "string \<Rightarrow> bool"
  wide_alnum :: "string \<Rightarrow> bool"

definition is_ascii_alpha :: "char \<Rightarrow> bool" where
  "is_ascii_alpha c = (let n = (of_char c :: nat) in 65 \<le> n \<and> n \<le> 90 \<or> 97 \<le> n \<and> n \<le> 122)"

definition is_ascii :: "char \<Rightarrow> bool" where
  "is_ascii c = (\<not> digit7 c)"

text \<open>The first character of a text, as its bytes.\<close>

fun first_point :: "string \<Rightarrow> string" where
  "first_point [] = []"
| "first_point (c # s) = c # takeWhile (\<lambda>d. is_cont (of_char d)) s"

fun alpha_at :: "char_classes \<Rightarrow> string \<Rightarrow> bool" where
  "alpha_at cc [] = False"
| "alpha_at cc (c # s) =
     (if is_ascii c then is_ascii_alpha c else \<not> is_cont (of_char c) \<and> wide_alpha cc (first_point (c # s)))"

fun alnum_at :: "char_classes \<Rightarrow> string \<Rightarrow> bool" where
  "alnum_at cc [] = False"
| "alnum_at cc (c # s) =
     (if is_ascii c then is_ascii_alpha c \<or> is_digit c
      else \<not> is_cont (of_char c) \<and> wide_alnum cc (first_point (c # s)))"

text \<open>\<open>\w\<close> at the front of a text.\<close>

definition word_at :: "char_classes \<Rightarrow> string \<Rightarrow> bool" where
  "word_at cc s = (alnum_at cc s \<or> starts_with s ''_'')"

text \<open>The last character of a text whose bytes are given backwards.\<close>

fun last_point :: "string \<Rightarrow> string \<Rightarrow> string" where
  "last_point acc [] = acc"
| "last_point acc (c # s) = (if is_cont (of_char c) then last_point (c # acc) s else c # acc)"

section \<open>Patterns\<close>

datatype pat =
    Lit string
  | Some_Of "char list"
  | None_Of "char list"
  | Space
  | Bound
  | Cat pat pat
  | Alt pat pat
  | Opt pat
  | Many pat
  | Group string pat

abbreviation cat :: "pat list \<Rightarrow> pat" where
  "cat ps \<equiv> foldr Cat ps (Lit [])"

abbreviation spaces :: pat where "spaces \<equiv> Many Space"

definition spaces1 :: pat where "spaces1 = Cat Space (Many Space)"

fun any_of :: "pat list \<Rightarrow> pat" where
  "any_of [] = Lit []"
| "any_of [p] = p"
| "any_of (p # ps) = Alt p (any_of ps)"

text \<open>A place in the text: the bytes before it, backwards, the bytes after it, and the groups so far with their bounds.\<close>

type_synonym place = "string \<times> string \<times> (string \<times> nat \<times> nat) list"

definition advance :: "nat \<Rightarrow> place \<Rightarrow> place" where
  "advance n p = (case p of (passed, rest, groups) \<Rightarrow> (rev (take n rest) @ passed, drop n rest, groups))"

definition fold_case :: "bool \<Rightarrow> char \<Rightarrow> char" where
  "fold_case ignore c = (if ignore then lower_char c else c)"

definition in_class :: "bool \<Rightarrow> char list \<Rightarrow> char \<Rightarrow> bool" where
  "in_class ignore cs c = (fold_case ignore c \<in> set (map (fold_case ignore) cs))"

definition at_bound :: "char_classes \<Rightarrow> place \<Rightarrow> bool" where
  "at_bound cc p = (case p of (passed, rest, _) \<Rightarrow> word_at cc (last_point [] passed) \<noteq> word_at cc rest)"

text \<open>Whether a text begins with a literal.\<close>

fun begins :: "bool \<Rightarrow> string \<Rightarrow> string \<Rightarrow> bool" where
  "begins ignore [] rest = True"
| "begins ignore (c # s) [] = False"
| "begins ignore (c # s) (d # rest) = (fold_case ignore c = fold_case ignore d \<and> begins ignore s rest)"

text \<open>A repetition takes as many turns as it can and gives them back one by one; a turn that consumes nothing ends it. The
  number bounds the turns.\<close>

primrec repeats :: "nat \<Rightarrow> (place \<Rightarrow> place list) \<Rightarrow> place \<Rightarrow> place list" where
  "repeats 0 f p = [p]"
| "repeats (Suc n) f p =
     concat (map (repeats n f) (filter (\<lambda>q. length (fst (snd q)) < length (fst (snd p))) (f p))) @ [p]"

primrec pat_runs :: "char_classes \<Rightarrow> bool \<Rightarrow> pat \<Rightarrow> place \<Rightarrow> place list" where
  "pat_runs cc ignore (Lit s) p =
     (if begins ignore s (fst (snd p)) then [advance (length s) p] else [])"
| "pat_runs cc ignore (Some_Of cs) p =
     (case fst (snd p) of [] \<Rightarrow> [] | c # _ \<Rightarrow> if in_class ignore cs c then [advance 1 p] else [])"
| "pat_runs cc ignore (None_Of cs) p =
     (case fst (snd p) of [] \<Rightarrow> [] | c # _ \<Rightarrow> if in_class ignore cs c then [] else [advance 1 p])"
| "pat_runs cc ignore Space p = (let n = space_len (fst (snd p)) in if n > 0 then [advance n p] else [])"
| "pat_runs cc ignore Bound p = (if at_bound cc p then [p] else [])"
| "pat_runs cc ignore (Cat a b) p = concat (map (pat_runs cc ignore b) (pat_runs cc ignore a p))"
| "pat_runs cc ignore (Alt a b) p = pat_runs cc ignore a p @ pat_runs cc ignore b p"
| "pat_runs cc ignore (Opt a) p = pat_runs cc ignore a p @ [p]"
| "pat_runs cc ignore (Many a) p = repeats (length (fst (snd p))) (pat_runs cc ignore a) p"
| "pat_runs cc ignore (Group g a) p =
     map (\<lambda>(passed, rest, groups). (passed, rest, (g, length (fst p), length passed) # groups)) (pat_runs cc ignore a p)"

section \<open>Searching\<close>

definition fullmatch :: "char_classes \<Rightarrow> bool \<Rightarrow> pat \<Rightarrow> string \<Rightarrow> place option" where
  "fullmatch cc ignore a s = find (\<lambda>p. fst (snd p) = []) (pat_runs cc ignore a ([], s, []))"

fun search_from :: "char_classes \<Rightarrow> bool \<Rightarrow> pat \<Rightarrow> string \<Rightarrow> string \<Rightarrow> place option" where
  "search_from cc ignore a passed rest =
     (case pat_runs cc ignore a (passed, rest, []) of
        p # _ \<Rightarrow> Some p
      | [] \<Rightarrow> (case rest of [] \<Rightarrow> None | c # s \<Rightarrow> search_from cc ignore a (c # passed) s))"

declare search_from.simps [simp del]

definition search :: "char_classes \<Rightarrow> bool \<Rightarrow> pat \<Rightarrow> string \<Rightarrow> bool" where
  "search cc ignore a s = (search_from cc ignore a [] s \<noteq> None)"

text \<open>\<open>re.finditer\<close>: each search begins where the last match ended. The number bounds the matches, which consume.\<close>

fun matches_from :: "nat \<Rightarrow> char_classes \<Rightarrow> bool \<Rightarrow> pat \<Rightarrow> string \<Rightarrow> string \<Rightarrow> place list" where
  "matches_from 0 cc ignore a passed rest = []"
| "matches_from (Suc n) cc ignore a passed rest =
     (case search_from cc ignore a passed rest of
        None \<Rightarrow> []
      | Some (passed', rest', groups) \<Rightarrow> (passed', rest', groups) # matches_from n cc ignore a passed' rest')"

definition finditer :: "char_classes \<Rightarrow> bool \<Rightarrow> pat \<Rightarrow> string \<Rightarrow> place list" where
  "finditer cc ignore a s = matches_from (Suc (length s)) cc ignore a [] s"

text \<open>The text of a group; the last match of the group comes first.\<close>

definition group_span :: "place \<Rightarrow> string \<Rightarrow> nat \<times> nat" where
  "group_span p g = (case map_of (snd (snd p)) g of None \<Rightarrow> (0, 0) | Some b \<Rightarrow> b)"

definition group_text :: "string \<Rightarrow> place \<Rightarrow> string \<Rightarrow> string" where
  "group_text s p g = (case group_span p g of (a, b) \<Rightarrow> take (b - a) (drop a s))"

section \<open>Strings\<close>

text \<open>\<open>s.split()\<close>; the number counts bytes of a whitespace character still to drop.\<close>

fun split_spaces :: "nat \<Rightarrow> string \<Rightarrow> string \<Rightarrow> string list" where
  "split_spaces n acc [] = (if acc = [] then [] else [rev acc])"
| "split_spaces (Suc n) acc (c # s) = split_spaces n acc s"
| "split_spaces 0 acc (c # s) =
     (if space_len (c # s) > 0
      then (if acc = [] then split_spaces (space_len (c # s) - 1) [] s
            else rev acc # split_spaces (space_len (c # s) - 1) [] s)
      else split_spaces 0 (c # acc) s)"

definition split_words :: "string \<Rightarrow> string list" where
  "split_words s = split_spaces 0 [] s"

text \<open>The index of the first occurrence, \<open>s.find(sub)\<close> with \<open>None\<close> for \<open>-1\<close>.\<close>

fun find_sub :: "string \<Rightarrow> string \<Rightarrow> nat option" where
  "find_sub p [] = (if p = [] then Some 0 else None)"
| "find_sub p (c # s) = (if starts_with (c # s) p then Some 0 else map_option Suc (find_sub p s))"

definition remove_suffix :: "string \<Rightarrow> string \<Rightarrow> string" where
  "remove_suffix s p = (if ends_with s p then take (length s - length p) s else s)"

text \<open>\<open>s.splitlines(keepends=True)\<close>.\<close>

function splitlines_keep_loop :: "string \<Rightarrow> string \<Rightarrow> string list" where
  "splitlines_keep_loop acc [] = (if acc = [] then [] else [rev acc])"
| "splitlines_keep_loop acc (c # s) =
     (let n = break_len (c # s)
      in if n > 0 then (rev acc @ take n (c # s)) # splitlines_keep_loop [] (drop n (c # s))
         else splitlines_keep_loop (c # acc) s)"
  by pat_completeness auto
termination
  by (relation "measure (\<lambda>(acc, s). length s)") auto

definition splitlines_keep :: "string \<Rightarrow> string list" where
  "splitlines_keep s = splitlines_keep_loop [] s"

section \<open>Lemmas\<close>

text \<open>Most characters are ASCII; evaluation need not look at the rest of the text for them.\<close>

definition wide_space_len :: "string \<Rightarrow> nat" where "wide_space_len s = space_len s"

lemma space_len_code [code]:
  "space_len [] = 0"
  "space_len (c # s) = (if is_ascii_space c then 1 else if is_ascii c then 0 else wide_space_len (c # s))"
proof -
  have "(of_char c :: nat) \<noteq> 194 \<and> (of_char c :: nat) \<noteq> 225 \<and> (of_char c :: nat) \<noteq> 226 \<and> (of_char c :: nat) \<noteq> 227" if "is_ascii c"
    using that by (cases c) (auto simp: is_ascii_def of_char_def)
  then show "space_len (c # s) = (if is_ascii_space c then 1 else if is_ascii c then 0 else wide_space_len (c # s))"
    by (auto simp: space_len_def wide_space_len_def split: list.split)
qed (simp add: space_len_def)

lemma wide_space_len_code [code]:
  "wide_space_len s =
     (case map of_char s of
        [] \<Rightarrow> 0
      | a # r \<Rightarrow>
          if is_ascii_space (hd s) then 1
          else (case r of
                  [] \<Rightarrow> 0
                | b # r' \<Rightarrow>
                    if a = (194 :: nat) \<and> b \<in> {133, 160} then 2
                    else (case r' of
                            [] \<Rightarrow> 0
                          | c # _ \<Rightarrow>
                              if a = 225 \<and> b = 154 \<and> c = 128
                                 \<or> a = 226 \<and> b = 128 \<and> (128 \<le> c \<and> c \<le> 138 \<or> c \<in> {168, 169, 175})
                                 \<or> a = 226 \<and> b = 129 \<and> c = 159
                                 \<or> a = 227 \<and> b = 128 \<and> c = 128
                              then 3 else 0)))"
  unfolding wide_space_len_def by (rule space_len_def)

definition wide_break_len :: "string \<Rightarrow> nat" where "wide_break_len s = break_len s"

lemma break_len_code [code]:
  "break_len [] = 0"
  "break_len (c # s) =
     (if is_ascii c
      then (let n = (of_char c :: nat)
            in if n = 13 then (case s of d # _ \<Rightarrow> if d = LF then 2 else 1 | [] \<Rightarrow> 1)
               else if n = 10 \<or> n = 11 \<or> n = 12 \<or> n = 28 \<or> n = 29 \<or> n = 30 then 1 else 0)
      else wide_break_len (c # s))"
proof -
  have "(of_char c :: nat) \<noteq> 194 \<and> (of_char c :: nat) \<noteq> 226" if "is_ascii c"
    using that by (cases c) (auto simp: is_ascii_def of_char_def)
  moreover have "(of_char d :: nat) = 10 \<longleftrightarrow> d = LF" for d
    using of_char_eq_iff [where ?'a = nat, of d "CHR 0x0A"] by (simp add: LF_def)
  ultimately show "break_len (c # s) =
     (if is_ascii c
      then (let n = (of_char c :: nat)
            in if n = 13 then (case s of d # _ \<Rightarrow> if d = LF then 2 else 1 | [] \<Rightarrow> 1)
               else if n = 10 \<or> n = 11 \<or> n = 12 \<or> n = 28 \<or> n = 29 \<or> n = 30 then 1 else 0)
      else wide_break_len (c # s))"
    by (cases s) (auto simp: break_len_def wide_break_len_def Let_def split: list.split)
qed (simp add: break_len_def)

lemma wide_break_len_code [code]:
  "wide_break_len s =
     (case map of_char s of
        [] \<Rightarrow> 0
      | a # r \<Rightarrow>
          if a = (13 :: nat) then (case r of b # _ \<Rightarrow> if b = 10 then 2 else 1 | [] \<Rightarrow> 1)
          else if a \<in> {10, 11, 12, 28, 29, 30} then 1
          else (case r of
                  b # r' \<Rightarrow>
                    if a = 194 \<and> b = 133 then 2
                    else (case r' of
                            c # _ \<Rightarrow> if a = 226 \<and> b = 128 \<and> c \<in> {168, 169} then 3 else 0
                          | [] \<Rightarrow> 0)
                | [] \<Rightarrow> 0))"
  unfolding wide_break_len_def by (rule break_len_def)

text \<open>Where a run may end: further on in the same text.\<close>

definition onward :: "place \<Rightarrow> place \<Rightarrow> bool" where
  "onward p q = (\<exists>n. fst q = rev (take n (fst (snd p))) @ fst p \<and> fst (snd q) = drop n (fst (snd p)) \<and> n \<le> length (fst (snd p)))"

lemma onward_refl [simp]: "onward p p"
  by (auto simp: onward_def intro: exI [of _ 0])

lemma onward_trans: "onward p q \<Longrightarrow> onward q r \<Longrightarrow> onward p r"
proof -
  assume "onward p q" and "onward q r"
  then obtain n m where q: "fst q = rev (take n (fst (snd p))) @ fst p" "fst (snd q) = drop n (fst (snd p))"
      "n \<le> length (fst (snd p))" and r: "fst r = rev (take m (fst (snd q))) @ fst q"
      "fst (snd r) = drop m (fst (snd q))" "m \<le> length (fst (snd q))"
    by (auto simp: onward_def)
  have "fst r = rev (take (n + m) (fst (snd p))) @ fst p" by (simp add: q r take_add)
  moreover have "fst (snd r) = drop (n + m) (fst (snd p))" by (simp add: q r add.commute)
  moreover have "n + m \<le> length (fst (snd p))" using q r by simp
  ultimately show "onward p r" by (auto simp: onward_def)
qed

lemma onward_advance: "n \<le> length (fst (snd p)) \<Longrightarrow> onward p (advance n p)"
  by (cases p) (auto simp: onward_def advance_def)

lemma begins_length: "begins ignore s rest \<Longrightarrow> length s \<le> length rest"
  by (induction ignore s rest rule: begins.induct) (auto split: if_splits)

lemma space_len_le: "space_len s \<le> length s"
proof (cases s)
  case (Cons a t)
  then show ?thesis
  proof (cases t)
    case (Cons b u)
    then show ?thesis using \<open>s = a # t\<close> by (cases u) (simp_all add: space_len_def)
  qed (simp add: space_len_def)
qed (simp add: space_len_def)

lemma repeats_onward:
  assumes "\<And>p q. q \<in> set (f p) \<Longrightarrow> onward p q"
  shows "q \<in> set (repeats n f p) \<Longrightarrow> onward p q"
proof (induction n arbitrary: p)
  case (Suc n)
  show ?case
  proof (cases "q = p")
    case False
    then obtain x where "x \<in> set (f p)" "q \<in> set (repeats n f x)" using Suc.prems by fastforce
    then show ?thesis by (blast intro: onward_trans assms Suc.IH)
  qed simp
qed simp

lemma pat_runs_onward: "q \<in> set (pat_runs cc ignore a p) \<Longrightarrow> onward p q"
proof (induction a arbitrary: p q)
  case (Lit s)
  then have "length s \<le> length (fst (snd p))" "q = advance (length s) p"
    by (auto split: if_splits dest: begins_length)
  then show ?case by (simp add: onward_advance)
next
  case Space
  then show ?case by (auto simp: Let_def space_len_le onward_advance split: if_splits)
next
  case (Cat a b)
  from Cat.prems obtain x where "x \<in> set (pat_runs cc ignore a p)" "q \<in> set (pat_runs cc ignore b x)"
    by (auto simp del: split_paired_Ex)
  then show ?case by (blast intro: onward_trans Cat.IH)
next
  case (Alt a b)
  then have "q \<in> set (pat_runs cc ignore a p) \<or> q \<in> set (pat_runs cc ignore b p)" by simp
  then show ?case by (blast intro: Alt.IH)
next
  case (Opt a)
  then have "q \<in> set (pat_runs cc ignore a p) \<or> q = p" by auto
  then show ?case by (blast intro: Opt.IH onward_refl)
next
  case (Many a)
  from Many.prems have "q \<in> set (repeats (length (fst (snd p))) (pat_runs cc ignore a) p)" by simp
  then show ?case by (rule repeats_onward [rotated]) (rule Many.IH)
next
  case (Group g a)
  from Group.prems obtain x where "x \<in> set (pat_runs cc ignore a p)" "fst q = fst x" "fst (snd q) = fst (snd x)"
    by auto
  then show ?case using Group.IH [of x p] by (simp add: onward_def)
qed (auto simp: onward_advance split: list.splits if_splits)

text \<open>What matched: the part of the text between two places.\<close>

lemma pat_runs_text:
  assumes "(passed', rest', groups') \<in> set (pat_runs cc ignore a (passed, rest, groups))"
  shows "\<exists>t. rest = t @ rest' \<and> passed' = rev t @ passed"
proof -
  from pat_runs_onward [OF assms] obtain n where "passed' = rev (take n rest) @ passed" "rest' = drop n rest"
    by (auto simp: onward_def)
  then show ?thesis by (intro exI [of _ "take n rest"]) simp
qed

lemma fullmatch_Some:
  "fullmatch cc ignore a s = Some p \<Longrightarrow> p \<in> set (pat_runs cc ignore a ([], s, [])) \<and> fst (snd p) = []"
  by (auto simp: fullmatch_def find_Some_iff)

end
