(* ===== verification/Pebra_Continuity_Witness.thy ===== *)
theory Pebra_Continuity_Witness
  imports Pebra_Pattern Pebra_Candidate_Binding Pebra_Learning_Ledger
begin

text \<open>
  \<open>pebra/adapters/continuity_witness.py\<close>: for each family of languages, whether two texts differ by the name of one
  symbol only, whether a line only forwards the old name to the new one, and whether a patch does nothing else.

  The field \<open>name\<close> of a witness, a string that the code compares with the names of the families, is the datatype
  \<open>family\<close>. The argument \<open>cc\<close> classifies the characters beyond ASCII.
\<close>

section \<open>Witnesses\<close>

datatype family = Ecmascript | Java | Rust | Go | Dart | Scala | Pascal

fun family_name :: "family \<Rightarrow> string" where
  "family_name Ecmascript = ''ecmascript''"
| "family_name Java = ''java''"
| "family_name Rust = ''rust''"
| "family_name Go = ''go''"
| "family_name Dart = ''dart''"
| "family_name Scala = ''scala''"
| "family_name Pascal = ''pascal''"

record continuity_witness =
  cw_name :: family
  cw_version :: string
  cw_languages :: "string list"
  cw_forwarder_kinds :: "string list"
  cw_declaration :: "string \<Rightarrow> pat"
  cw_case_sensitive :: bool
  cw_replace_all_identifiers :: bool

text \<open>The declaration patterns: a keyword before the name, or a parenthesis after it.\<close>

definition after_keyword :: "string \<Rightarrow> string \<Rightarrow> pat" where
  "after_keyword keyword name = cat [Bound, Lit keyword, spaces1, Group ''name'' (Lit name), Bound]"

definition before_parenthesis :: "string \<Rightarrow> pat" where
  "before_parenthesis name = cat [Bound, Group ''name'' (Lit name), spaces, Lit ''('']"

definition ECMASCRIPT :: continuity_witness where
  "ECMASCRIPT =
     \<lparr>cw_name = Ecmascript, cw_version = ''1'', cw_languages = [''javascript'', ''jsx'', ''typescript'', ''tsx''],
      cw_forwarder_kinds = [''constant'', ''variable''], cw_declaration = after_keyword ''function'',
      cw_case_sensitive = True, cw_replace_all_identifiers = False\<rparr>"

definition WITNESSES :: "continuity_witness list" where
  "WITNESSES =
     [ECMASCRIPT,
      \<lparr>cw_name = Java, cw_version = ''2'', cw_languages = [''java''], cw_forwarder_kinds = [''method''],
       cw_declaration = before_parenthesis, cw_case_sensitive = True, cw_replace_all_identifiers = False\<rparr>,
      \<lparr>cw_name = Rust, cw_version = ''1'', cw_languages = [''rust''], cw_forwarder_kinds = [''function'', ''method''],
       cw_declaration = after_keyword ''fn'', cw_case_sensitive = True, cw_replace_all_identifiers = False\<rparr>,
      \<lparr>cw_name = Go, cw_version = ''1'', cw_languages = [''go''], cw_forwarder_kinds = [''function'', ''method''],
       cw_declaration = after_keyword ''func'', cw_case_sensitive = True, cw_replace_all_identifiers = False\<rparr>,
      \<lparr>cw_name = Dart, cw_version = ''2'', cw_languages = [''dart''], cw_forwarder_kinds = [''function'', ''method''],
       cw_declaration = before_parenthesis, cw_case_sensitive = True, cw_replace_all_identifiers = False\<rparr>,
      \<lparr>cw_name = Scala, cw_version = ''1'', cw_languages = [''scala''], cw_forwarder_kinds = [''method''],
       cw_declaration = after_keyword ''def'', cw_case_sensitive = True, cw_replace_all_identifiers = False\<rparr>]"

definition witness_for_language :: "string option \<Rightarrow> continuity_witness option" where
  "witness_for_language language =
     find (\<lambda>w. lower (case language of None \<Rightarrow> [] | Some l \<Rightarrow> l) \<in> set (cw_languages w)) WITNESSES"

section \<open>Identifiers of a text\<close>

definition UNDERSCORE :: char where "UNDERSCORE = CHR ''_''"
definition DOLLAR :: char where "DOLLAR = CHR ''$''"

definition identifier_start :: "char list" where
  "identifier_start = ''ABCDEFGHIJKLMNOPQRSTUVWXYZabcdefghijklmnopqrstuvwxyz_$''"

definition identifier_part :: "char list" where
  "identifier_part = ''ABCDEFGHIJKLMNOPQRSTUVWXYZabcdefghijklmnopqrstuvwxyz0123456789_$''"

text \<open>\<open>re.fullmatch(r"[A-Za-z_$][A-Za-z0-9_$]*", name)\<close>.\<close>

definition plain_identifier :: "string \<Rightarrow> bool" where
  "plain_identifier name =
     (case name of [] \<Rightarrow> False | c # s \<Rightarrow> c \<in> set identifier_start \<and> list_all (\<lambda>d. d \<in> set identifier_part) s)"

text \<open>\<open>s.replace("\r\n", "\n")\<close>.\<close>

definition unix_lines :: "string \<Rightarrow> string" where
  "unix_lines s = join_with [LF] (split_str 0 [CHR 0x0D, LF] s)"

definition comment_marks :: "family \<Rightarrow> (string \<times> string) list" where
  "comment_marks f =
     (if f = Pascal then [(''//'', [LF]), (''(*'', ''*)''), (''{'', ''}'')] else [(''//'', [LF]), (''/*'', ''*/'')])"

definition quote_marks :: "family \<Rightarrow> char list" where
  "quote_marks f = [CHR 0x27, QUOTE] @ (if f = Ecmascript then [CHR 0x60] else [])"

text \<open>The nearest character that is not whitespace, before a place and from a place on.\<close>

definition previous_char :: "string \<Rightarrow> string" where
  "previous_char passed = last_point [] (rev (rstrip (rev passed)))"

definition following_char :: "string \<Rightarrow> string" where
  "following_char rest = first_point (lstrip_rest 0 rest)"

text \<open>The bytes of a literal after its opening quote; an escape may reach beyond the end.\<close>

fun literal_rest :: "char \<Rightarrow> string \<Rightarrow> nat" where
  "literal_rest q [] = 0"
| "literal_rest q [c] = (if c = BACKSLASH then 2 else 1)"
| "literal_rest q (c # d # s) =
     (if c = BACKSLASH then 2 + literal_rest q s else if c = q then 1 else Suc (literal_rest q (d # s)))"

text \<open>The bytes of a token after its first one.\<close>

fun token_rest :: "char_classes \<Rightarrow> string \<Rightarrow> string" where
  "token_rest cc [] = []"
| "token_rest cc (c # s) =
     (if is_cont (of_char c) \<or> alnum_at cc (c # s) \<or> c = UNDERSCORE \<or> c = DOLLAR then c # token_rest cc s else [])"

definition BINDING :: string where "BINDING = ''__PEBRA_BINDING__''"

definition comment_length :: "string \<Rightarrow> string \<times> string \<Rightarrow> nat" where
  "comment_length rest marks =
     (case marks of (start, marker) \<Rightarrow>
        (case find_sub marker (drop (length start) rest) of
           None \<Rightarrow> length rest
         | Some n \<Rightarrow> length start + n + (if marker = [LF] then 0 else length marker)))"

text \<open>One turn of the loop: what it appends, how many bytes it consumes and whether it met the name. \<open>None\<close> is the
  refusal of the whole text.\<close>

definition next_piece ::
  "continuity_witness \<Rightarrow> char_classes \<Rightarrow> string \<Rightarrow> string \<Rightarrow> string \<Rightarrow> (string \<times> nat \<times> bool) option" where
  "next_piece w cc name passed rest =
     (case find (\<lambda>(start, _). starts_with rest start) (comment_marks (cw_name w)) of
        Some marks \<Rightarrow>
          let n = comment_length rest marks in Some (filter (\<lambda>c. c = LF) (take n rest), n, False)
      | None \<Rightarrow>
          let c = hd rest; token = c # token_rest cc (tl rest)
          in if cw_name w = Ecmascript \<and> c = CHR ''/''
             then if previous_char passed \<noteq> ''<'' \<and> following_char (tl rest) \<noteq> ''>'' then None else Some ([c], 1, False)
             else if c \<in> set (quote_marks (cw_name w))
             then let n = Suc (literal_rest c (tl rest))
                  in if search cc (\<not> cw_case_sensitive w) (cat [Bound, Lit name, Bound]) (take n rest) then None
                     else Some (take n rest, n, False)
             else if alpha_at cc rest \<or> c = UNDERSCORE \<or> c = DOLLAR
             then if (if cw_case_sensitive w then token = name else lower token = lower name)
                  then if previous_char passed = ''.''
                          \<or> following_char (drop (length token) rest) = '':'' \<and> cw_name w \<noteq> Pascal
                       then None else Some (BINDING, length token, True)
                  else Some (token, length token, False)
             else Some ([c], 1, False))"

lemma comment_length_pos:
  assumes "find (\<lambda>(start, _). starts_with (c # s) start) (comment_marks f) = Some marks"
  shows "comment_length (c # s) marks > 0"
proof -
  have "marks \<in> set (comment_marks f)" using assms by (auto simp: find_Some_iff in_set_conv_nth)
  then have "fst marks \<noteq> []" by (auto simp: comment_marks_def split: if_splits)
  then show ?thesis by (cases marks) (simp add: comment_length_def split: option.split)
qed

lemma next_piece_consumes:
  assumes "next_piece w cc name passed (c # s) = Some (t, n, b)"
  shows "n > 0"
proof (cases "find (\<lambda>(start, _). starts_with (c # s) start) (comment_marks (cw_name w))")
  case None
  then show ?thesis using assms by (simp add: next_piece_def Let_def split: if_splits) auto
next
  case (Some marks)
  then show ?thesis using assms comment_length_pos [OF Some] by (simp add: next_piece_def Let_def)
qed

text \<open>The loop: the pieces, and how many of them are the name.\<close>

function scan_pieces ::
  "continuity_witness \<Rightarrow> char_classes \<Rightarrow> string \<Rightarrow> string \<Rightarrow> string \<Rightarrow> (string list \<times> nat) option" where
  "scan_pieces w cc name passed [] = Some ([], 0)"
| "scan_pieces w cc name passed (c # s) =
     (case next_piece w cc name passed (c # s) of
        None \<Rightarrow> None
      | Some (piece, n, met) \<Rightarrow>
          (case scan_pieces w cc name (rev (take n (c # s)) @ passed) (drop n (c # s)) of
             None \<Rightarrow> None
           | Some (pieces, occurrences) \<Rightarrow> Some (piece # pieces, (if met then 1 else 0) + occurrences)))"
  by pat_completeness auto
termination
  by (relation "measure (\<lambda>(w, cc, name, passed, rest). length rest)") (auto dest: next_piece_consumes)

definition raw_string_prefix :: pat where
  "raw_string_prefix = cat [Bound, Lit ''r'', Many (Lit ''#''), Lit [QUOTE]]"

definition canonical_identifier_source ::
  "continuity_witness \<Rightarrow> char_classes \<Rightarrow> string \<Rightarrow> string \<Rightarrow> (string \<times> nat) option" where
  "canonical_identifier_source w cc source name =
     (let normalized = unix_lines source
      in if \<not> plain_identifier name then None
         else if cw_name w = Rust \<and> search cc False raw_string_prefix normalized then None
         else map_option (\<lambda>(pieces, occurrences). (join_with '' '' (split_words (concat pieces)), occurrences))
                (scan_pieces w cc name [] normalized))"

section \<open>Implementations and migrations\<close>

definition canonical_implementation ::
  "continuity_witness \<Rightarrow> char_classes \<Rightarrow> string \<Rightarrow> string \<Rightarrow> string option" where
  "canonical_implementation w cc source name =
     (let normalized = unix_lines source
      in if cw_replace_all_identifiers w
         then (case canonical_identifier_source w cc normalized name of
                 None \<Rightarrow> None
               | Some (text, occurrences) \<Rightarrow> if occurrences = 0 then None else Some text)
         else (case finditer cc (\<not> cw_case_sensitive w) (cw_declaration w name) normalized of
                 [p] \<Rightarrow> (case group_span p ''name'' of (start, stop) \<Rightarrow>
                          Some (take start normalized @ ''__PEBRA_RENAMED__'' @ drop stop normalized))
               | _ \<Rightarrow> None))"

definition same_implementation ::
  "continuity_witness \<Rightarrow> char_classes \<Rightarrow> string \<Rightarrow> string \<Rightarrow> string \<Rightarrow> string \<Rightarrow> bool" where
  "same_implementation w cc old_source target_source old_name target_name =
     (let old = canonical_implementation w cc old_source old_name
      in old \<noteq> None \<and> old = canonical_implementation w cc target_source target_name)"

definition identifier_only_migration ::
  "continuity_witness \<Rightarrow> char_classes \<Rightarrow> string \<Rightarrow> string \<Rightarrow> string \<Rightarrow> string \<Rightarrow> bool" where
  "identifier_only_migration w cc before_source after_source old_name target_name =
     (case (canonical_identifier_source w cc before_source old_name,
            canonical_identifier_source w cc after_source target_name) of
        (Some (passed, m), Some (after, n)) \<Rightarrow> m > 0 \<and> m = n \<and> passed = after
      | _ \<Rightarrow> False)"

section \<open>Forwarders\<close>

definition parameter_name :: "continuity_witness \<Rightarrow> string \<Rightarrow> string option res" where
  "parameter_name w parameter =
     (let value = strip parameter;
          checked = (\<lambda>candidate. Inr (if plain_identifier candidate then Some candidate else None))
      in if value = [] then Inr None
         else if cw_name w \<in> {Rust, Scala, Pascal}
         then (if CHR '':'' \<in> set value then checked (strip (before_char (CHR '':'') value)) else Inr None)
         else if cw_name w = Go
         then checked (case split_words value of t # u # _ \<Rightarrow> t | _ \<Rightarrow> [])
         else (case split_words (join_with '' '' (split_str 0 ''...'' value)) of
                 [] \<Rightarrow> Inl (IndexError ''list index out of range'')
               | ts \<Rightarrow> checked (remove_suffix (last ts) ''[]'')))"

fun parameter_list :: "continuity_witness \<Rightarrow> string list \<Rightarrow> string list option res" where
  "parameter_list w [] = Inr (Some [])"
| "parameter_list w (p # ps) =
     (case parameter_name w p of
        Inl e \<Rightarrow> Inl e
      | Inr None \<Rightarrow> Inr None
      | Inr (Some n) \<Rightarrow> rbind (parameter_list w ps) (\<lambda>names. Inr (map_option (Cons n) names)))"

definition parameter_names :: "continuity_witness \<Rightarrow> string \<Rightarrow> string list option res" where
  "parameter_names w parameters =
     (if blank parameters then Inr (Some []) else parameter_list w (split_on (CHR '','') parameters))"

abbreviation any_but :: "char list \<Rightarrow> pat" where "any_but cs \<equiv> Many (None_Of cs)"

definition in_parentheses :: "string \<Rightarrow> pat" where
  "in_parentheses g = cat [Lit ''('', Group g (any_but ''()''), Lit '')'']"

definition type_name :: pat where
  "type_name = cat [Some_Of identifier_start, Many (Some_Of (identifier_part @ ''.''))]"

definition type_arguments :: pat where
  "type_arguments = Opt (cat [Lit ''<'', None_Of ''(){};'', any_but ''(){};'', Lit ''>''])"

definition optional_return :: pat where "optional_return = Opt (Cat (Lit ''return'') spaces1)"

definition modifiers :: "string list \<Rightarrow> pat" where
  "modifiers ws = Many (Cat (any_of (map Lit ws)) spaces1)"

definition java_modifiers :: pat where
  "java_modifiers = modifiers [''public'', ''protected'', ''private'', ''static'', ''final'', ''synchronized'', ''native'',
     ''abstract'', ''strictfp'', ''default'']"

definition java_return_type :: pat where
  "java_return_type = Alt (cat [type_name, type_arguments, Opt (Lit ''[]'')]) (Lit ''void'')"

definition dart_modifiers :: pat where
  "dart_modifiers = modifiers [''external'', ''static'', ''covariant'']"

definition dart_return_type :: pat where
  "dart_return_type = Opt (cat [type_name, type_arguments, Opt (Lit ''?''), spaces1])"

fun forwarder_pattern :: "family \<Rightarrow> string \<Rightarrow> string \<Rightarrow> pat" where
  "forwarder_pattern Ecmascript old target =
     cat [Lit ''export'', spaces1, Lit ''const'', spaces1, Lit old, spaces, Lit ''='', spaces, Lit target, spaces, Lit '';'']"
| "forwarder_pattern Java old target =
     cat [java_modifiers, java_return_type, spaces1, Lit old, spaces, in_parentheses ''params'', spaces, Lit ''{'', spaces,
       optional_return, Lit target, spaces, in_parentheses ''args'', spaces, Lit '';'', spaces, Lit ''}'']"
| "forwarder_pattern Rust old target =
     cat [Opt (cat [Lit ''pub'', Opt (cat [Lit ''('', any_but '')'', Lit '')'']), spaces1]), Lit ''fn'', spaces1, Lit old,
       spaces, in_parentheses ''params'', any_but ''{'', Lit ''{'', spaces, optional_return, Lit target, spaces,
       in_parentheses ''args'', spaces, Opt (Lit '';''), spaces, Lit ''}'']"
| "forwarder_pattern Go old target =
     cat [Lit ''func'', spaces1, Opt (cat [Lit ''('', any_but '')'', Lit '')'', spaces]), Lit old, spaces,
       in_parentheses ''params'', any_but ''{'', Lit ''{'', spaces, Lit ''return'', spaces1, Lit target, spaces,
       in_parentheses ''args'', spaces, Lit ''}'']"
| "forwarder_pattern Dart old target =
     cat [dart_modifiers, dart_return_type, Lit old, spaces, in_parentheses ''params'', spaces, Lit ''=>'', spaces,
       Lit target, spaces, in_parentheses ''args'', spaces, Lit '';'']"
| "forwarder_pattern Scala old target =
     cat [Lit ''def'', spaces1, Lit old, spaces, in_parentheses ''params'', any_but ''='', Lit ''='', spaces, Lit target,
       spaces, in_parentheses ''args'']"
| "forwarder_pattern Pascal old target =
     cat [Lit ''function'', spaces1, Lit old, spaces, in_parentheses ''params'', any_but '';'', Lit '';'', spaces,
       Lit ''begin'', spaces1, Lit old, spaces, Lit '':='', spaces, Lit target, spaces, in_parentheses ''args'', spaces,
       Lit '';'', spaces, Lit ''end;'']"

definition is_safe_forwarder ::
  "continuity_witness \<Rightarrow> char_classes \<Rightarrow> string \<Rightarrow> string \<Rightarrow> string \<Rightarrow> bool res" where
  "is_safe_forwarder w cc source old_name target_name =
     (let normalized = join_with '' '' (split_words (unix_lines source));
          found = fullmatch cc (\<not> cw_case_sensitive w) (forwarder_pattern (cw_name w) old_name target_name) normalized;
          cased = (\<lambda>s. if cw_case_sensitive w then s else lower s)
      in if cw_name w = Ecmascript then Inr (found \<noteq> None)
         else (case found of
                 None \<Rightarrow> Inr False
               | Some p \<Rightarrow>
                   let args = group_text normalized p ''args'';
                       arguments = (if blank args then [] else map strip (split_on (CHR '','') args))
                   in rbind (parameter_names w (group_text normalized p ''params'')) (\<lambda>parameters.
                        Inr (map_option (map cased) parameters = Some (map cased arguments)))))"

section \<open>Patches\<close>

text \<open>The variables of the loop over the lines.\<close>

record patch_scan =
  ps_removed :: "string list"
  ps_added :: "string list"
  ps_forwarder_count :: nat
  ps_saw_block :: bool
  ps_block_has_hunk :: bool
  ps_in_hunk :: bool

definition no_lines :: patch_scan where
  "no_lines = \<lparr>ps_removed = [], ps_added = [], ps_forwarder_count = 0, ps_saw_block = False, ps_block_has_hunk = False,
     ps_in_hunk = False\<rparr>"

text \<open>One line; \<open>None\<close> is the \<open>return False\<close> of the loop.\<close>

definition patch_line ::
  "continuity_witness \<Rightarrow> char_classes \<Rightarrow> string \<Rightarrow> string \<Rightarrow> patch_scan \<Rightarrow> string \<Rightarrow> patch_scan option res" where
  "patch_line w cc old_name target_name st line =
     (if starts_with line ''diff --git ''
      then Inr (if ps_saw_block st \<and> \<not> ps_block_has_hunk st then None
                else Some (st\<lparr>ps_saw_block := True, ps_block_has_hunk := False, ps_in_hunk := False\<rparr>))
      else if starts_with line ''@@ ''
      then Inr (if \<not> ps_saw_block st then None else Some (st\<lparr>ps_block_has_hunk := True, ps_in_hunk := True\<rparr>))
      else if \<not> ps_in_hunk st
      then Inr (if starts_with line ''index '' \<or> starts_with line ''--- '' \<or> starts_with line ''+++ '' \<or> blank line
                then Some st else None)
      else if starts_with line (BACKSLASH # '' No newline at end of file'') \<or> starts_with line '' '' then Inr (Some st)
      else if starts_with line ''--- '' \<or> starts_with line ''+++ '' then Inr (Some st)
      else if starts_with line ''-''
      then Inr (Some (if blank (tl line) then st else st\<lparr>ps_removed := ps_removed st @ [tl line]\<rparr>))
      else if starts_with line ''+''
      then rbind (is_safe_forwarder w cc (tl line) old_name target_name) (\<lambda>safe.
             Inr (Some (if safe then st\<lparr>ps_forwarder_count := ps_forwarder_count st + 1\<rparr>
                        else if blank (tl line) then st else st\<lparr>ps_added := ps_added st @ [tl line]\<rparr>)))
      else Inr (if line = [] then Some st else None))"

fun patch_lines ::
  "continuity_witness \<Rightarrow> char_classes \<Rightarrow> string \<Rightarrow> string \<Rightarrow> patch_scan \<Rightarrow> string list \<Rightarrow> patch_scan option res" where
  "patch_lines w cc old_name target_name st [] = Inr (Some st)"
| "patch_lines w cc old_name target_name st (line # lines) =
     (case patch_line w cc old_name target_name st line of
        Inl e \<Rightarrow> Inl e
      | Inr None \<Rightarrow> Inr None
      | Inr (Some st') \<Rightarrow> patch_lines w cc old_name target_name st' lines)"

definition patch_is_exhaustive_forwarder ::
  "continuity_witness \<Rightarrow> char_classes \<Rightarrow> string \<Rightarrow> string \<Rightarrow> string \<Rightarrow> bool res" where
  "patch_is_exhaustive_forwarder w cc patch old_name target_name =
     rbind (patch_lines w cc old_name target_name no_lines (splitlines patch)) (\<lambda>ended.
       Inr (case ended of
              None \<Rightarrow> False
            | Some st \<Rightarrow>
                ps_saw_block st \<and> ps_block_has_hunk st \<and> ps_forwarder_count st = 1
                \<and> identifier_only_migration w cc (join_with [LF] (ps_removed st)) (join_with [LF] (ps_added st))
                    old_name target_name))"

end
