(* ===== verification/Pebra_Continuity.thy ===== *)
theory Pebra_Continuity
  imports Pebra_Continuity_Witness Pebra_Evidence_Merge Pebra_Candidate_Apply Pebra_Graph_Reach
begin

text \<open>
  The part of \<open>pebra/adapters/codegraph_candidate_refinement.py\<close> that establishes the facts: the graph of the
  repository before the candidate and the graph after it are compared, and only when every owner and every consumer of
  the renamed symbol is found again is a fact given out.

  A database is its two tables. What \<open>json.loads\<close>, \<open>float\<close> of a text and \<open>str\<close> give is a parameter. \<open>None\<close> inside a
  result is the \<open>return ()\<close> or \<open>return None\<close> of the source, \<open>Inl\<close> what it raises.
\<close>

section \<open>Results that may be absent\<close>

definition andthen :: "'a option res \<Rightarrow> ('a \<Rightarrow> 'b option res) \<Rightarrow> 'b option res" where
  "andthen r f = rbind r (\<lambda>x. case x of None \<Rightarrow> Inr None | Some y \<Rightarrow> f y)"

definition require :: "bool \<Rightarrow> unit option res" where
  "require b = Inr (if b then Some () else None)"

named_theorems present_iff \<open>what a present result tells of its parts\<close>

lemma andthen_present [present_iff]: "andthen r f = Inr (Some y) \<longleftrightarrow> (\<exists>x. r = Inr (Some x) \<and> f x = Inr (Some y))"
  by (auto simp: andthen_def rbind_Inr_iff split: option.splits)

lemma require_present [present_iff]: "require b = Inr (Some u) \<longleftrightarrow> b"
  by (simp add: require_def)

lemma Inr_present [present_iff]: "rbind r f = Inr (Some y) \<longleftrightarrow> (\<exists>x. r = Inr x \<and> f x = Inr (Some y))"
  by (simp add: rbind_Inr_iff)

text \<open>All the parts, or nothing as soon as one of them is missing.\<close>

fun all_present :: "('a \<Rightarrow> 'b option res) \<Rightarrow> 'a list \<Rightarrow> 'b list option res" where
  "all_present f [] = Inr (Some [])"
| "all_present f (x # xs) = andthen (f x) (\<lambda>y. andthen (all_present f xs) (\<lambda>ys. Inr (Some (y # ys))))"

lemma all_present_iff: "all_present f xs = Inr (Some ys) \<longleftrightarrow> list_all2 (\<lambda>x y. f x = Inr (Some y)) xs ys"
proof (induction xs arbitrary: ys)
  case (Cons x xs)
  then show ?case by (cases ys) (auto simp: present_iff)
qed auto

section \<open>Snapshots\<close>

record snapshot_node =
  sn_id :: string
  sn_kind :: string
  sn_name :: string
  sn_qualified_name :: "string option"
  sn_file_path :: "string option"
  sn_start_line :: "int option"
  sn_end_line :: "int option"
  sn_start_column :: "int option"
  sn_end_column :: "int option"
  sn_visibility :: "string option"
  sn_is_exported :: "int option"
  sn_signature :: "string option"
  sn_language :: "string option"

record snapshot_edge =
  se_source :: string
  se_target :: string
  se_kind :: string
  se_line :: "int option"
  se_metadata :: "string option"

record snapshot_db =
  sd_nodes :: "snapshot_node list"
  sd_edges :: "snapshot_edge list"

record python_host =
  ph_loads :: "string \<Rightarrow> pyval option"
  ph_float :: "string \<Rightarrow> pyfloat option"
  ph_str :: "pyval \<Rightarrow> string"
  ph_chars :: char_classes

type_synonym file_texts = "string option dict"

definition CONTINUITY_EDGE_KINDS :: "string list" where
  "CONTINUITY_EDGE_KINDS = [''calls'', ''instantiates'', ''references'']"

definition text_of :: "string option \<Rightarrow> string" where
  "text_of v = (case v of None \<Rightarrow> [] | Some s \<Rightarrow> s)"

definition rstrip_breaks :: "string \<Rightarrow> string" where
  "rstrip_breaks s = rev (dropWhile (\<lambda>c. c = CR \<or> c = LF) (rev s))"

definition drop_points :: "nat \<Rightarrow> string \<Rightarrow> string" where
  "drop_points n s = concat (drop n (code_points s))"

definition take_points :: "nat \<Rightarrow> string \<Rightarrow> string" where
  "take_points n s = concat (take n (code_points s))"

definition column_of :: "int option \<Rightarrow> nat" where
  "column_of c = (case c of None \<Rightarrow> 0 | Some n \<Rightarrow> nat (max 0 n))"

text \<open>\<open>_node_source\<close>: the text of a symbol, or its whole line when it has only one.\<close>

definition node_source :: "file_texts \<Rightarrow> snapshot_node \<Rightarrow> string option res" where
  "node_source files row =
     (case map_of files (case sn_file_path row of None \<Rightarrow> ''None'' | Some p \<Rightarrow> p) of
        Some (Some content) \<Rightarrow>
          (case (sn_start_line row, sn_end_line row) of
             (Some s, Some e) \<Rightarrow>
               let lines = splitlines_keep content; first = nat (s - 1); last_line = nat (e - 1)
               in Inr (if s - 1 < 0 \<or> e < s \<or> e - 1 \<ge> int (length lines) then None
                       else if s = e then Some (rstrip_breaks (lines ! first))
                       else Some (drop_points (column_of (sn_start_column row)) (lines ! first)
                              @ concat (take (last_line - first - 1) (drop (first + 1) lines))
                              @ take_points (column_of (sn_end_column row)) (lines ! last_line)))
           | _ \<Rightarrow> Inl (TypeError ''int() argument must be a string or a real number''))
      | _ \<Rightarrow> Inr None)"

definition is_exported :: "snapshot_node \<Rightarrow> bool" where
  "is_exported row =
     ((case sn_is_exported row of None \<Rightarrow> False | Some n \<Rightarrow> n \<noteq> 0)
      \<or> text_of (sn_visibility row) \<in> {''public'', ''public_api'', ''exported''})"

section \<open>Edges\<close>

text \<open>The metadata of an edge and its \<open>float(metadata.get("confidence", 0.0))\<close>; absent when the \<open>try\<close> of the source
  catches the failure.\<close>

definition edge_confidence :: "python_host \<Rightarrow> string option \<Rightarrow> (pyval dict \<times> pyfloat) option res" where
  "edge_confidence host text =
     (case (if text_of text = [] then Some (VDict []) else ph_loads host (text_of text)) of
        None \<Rightarrow> Inr None
      | Some (VDict d) \<Rightarrow>
          Inr (map_option (Pair d)
            (case dict_get d ''confidence'' (vreal 0) of
               VStr s \<Rightarrow> ph_float host s
             | v \<Rightarrow> (case py_float v of Inl _ \<Rightarrow> None | Inr x \<Rightarrow> Some x)))
      | Some _ \<Rightarrow> Inl (AttributeError ''get''))"

fun trusted_number :: "pyfloat \<Rightarrow> real option" where
  "trusted_number (Fin x) = (if x < 0.90 then None else Some (min 1 x))"
| "trusted_number _ = None"

definition trusted_resolver :: "pyval dict \<Rightarrow> bool res" where
  "trusted_resolver d =
     (case dict_get d ''resolvedBy'' VNone of
        VNone \<Rightarrow> Inr False
      | VList _ \<Rightarrow> Inl (TypeError ''unhashable type'')
      | VDict _ \<Rightarrow> Inl (TypeError ''unhashable type'')
      | v \<Rightarrow> Inr (v \<noteq> VStr ''heuristic''))"

definition trusted_edge_confidence :: "python_host \<Rightarrow> string option \<Rightarrow> real option res" where
  "trusted_edge_confidence host text =
     andthen (edge_confidence host text) (\<lambda>(d, x).
       case trusted_number x of
         None \<Rightarrow> Inr None
       | Some c \<Rightarrow> rbind (trusted_resolver d) (\<lambda>trusted. Inr (if trusted then Some c else None)))"

text \<open>\<open>_continuity_edge_metadata\<close>: the resolver, the confidence, and whether it may raise the confidence of the proof.\<close>

definition resolver_text :: "python_host \<Rightarrow> pyval dict \<Rightarrow> string" where
  "resolver_text host d =
     (let v = dict_get d ''resolvedBy'' VNone in if truthy v then py_str_of (ph_str host) v else [])"

fun exact_match_edge :: "string \<Rightarrow> pyfloat \<Rightarrow> (string \<times> real \<times> bool) option" where
  "exact_match_edge resolver (Fin c) =
     (if resolver = ''exact-match'' \<and> c \<ge> 0.70 then Some (resolver, min 1 c, False) else None)"
| "exact_match_edge resolver _ = None"

definition continuity_edge_metadata :: "python_host \<Rightarrow> string option \<Rightarrow> (string \<times> real \<times> bool) option res" where
  "continuity_edge_metadata host text =
     andthen (edge_confidence host text) (\<lambda>(d, x).
       if \<not> is_finite_float x \<or> resolver_text host d \<in> {[], ''heuristic''} then Inr None
       else rbind (trusted_edge_confidence host text) (\<lambda>trusted.
              Inr (case trusted of
                     Some c \<Rightarrow> Some (resolver_text host d, c, True)
                   | None \<Rightarrow> exact_match_edge (resolver_text host d) x)))"

lemma trusted_edge_bounds: "trusted_edge_confidence host text = Inr (Some c) \<Longrightarrow> 0.90 \<le> c \<and> c \<le> 1"
  by (auto simp: trusted_edge_confidence_def present_iff split: option.splits if_splits elim!: trusted_number.elims)

text \<open>The two kinds of evidence an edge can give.\<close>

lemma continuity_edge_metadata_cases:
  assumes "continuity_edge_metadata host text = Inr (Some (r, c, proof_bearing))"
  shows "if proof_bearing then trusted_edge_confidence host text = Inr (Some c)
    else r = ''exact-match'' \<and> 0.70 \<le> c \<and> c \<le> 1"
proof -
  from assms obtain d x trusted where trusted: "trusted_edge_confidence host text = Inr trusted"
    and out: "(case trusted of Some c \<Rightarrow> Some (resolver_text host d, c, True)
                | None \<Rightarrow> exact_match_edge (resolver_text host d) x) = Some (r, c, proof_bearing)"
    unfolding continuity_edge_metadata_def andthen_present
    by (auto simp: rbind_Inr_iff split: if_splits)
  show ?thesis
  proof (cases trusted)
    case None
    then show ?thesis using out by (cases x) (auto split: if_splits)
  next
    case (Some t)
    then show ?thesis using out trusted by simp
  qed
qed

lemma proof_bearing_bounds:
  "continuity_edge_metadata host text = Inr (Some (r, c, True)) \<Longrightarrow> 0.90 \<le> c \<and> c \<le> 1"
  using continuity_edge_metadata_cases [of host "text" r c True] by (auto dest: trusted_edge_bounds)

section \<open>The renamed owner\<close>

definition language_of :: "snapshot_node \<Rightarrow> string" where
  "language_of row = lower (text_of (sn_language row))"

definition named_nodes :: "snapshot_db \<Rightarrow> string \<Rightarrow> string \<Rightarrow> snapshot_node list" where
  "named_nodes db file_path qualified_name =
     filter (\<lambda>row. sn_file_path row = Some file_path \<and> sn_qualified_name row = Some qualified_name) (sd_nodes db)"

text \<open>An owner of the scope: its identity in the repository's graph, its symbol before and the symbol of the same name
  after.\<close>

type_synonym owner_pair = "string \<times> snapshot_node \<times> snapshot_node"

definition owner_pair_of ::
  "snapshot_db \<Rightarrow> snapshot_db \<Rightarrow> string option \<Rightarrow> string \<times> string \<times> string \<Rightarrow> owner_pair option res" where
  "owner_pair_of before_db after_db language owner =
     (case owner of (real_id, file_path, qualified_name) \<Rightarrow>
        Inr (case (named_nodes before_db file_path qualified_name, named_nodes after_db file_path qualified_name) of
               ([old], [surviving]) \<Rightarrow>
                 if Some (language_of old) = language \<and> Some (language_of surviving) = language
                 then Some (real_id, old, surviving) else None
             | _ \<Rightarrow> None))"

definition owner_pairs ::
  "snapshot_db \<Rightarrow> snapshot_db \<Rightarrow> graph_risk_scope \<Rightarrow> owner_pair list option res" where
  "owner_pairs before_db after_db scope =
     andthen (all_present (owner_pair_of before_db after_db (gs_language scope))
         (zip (gs_owner_node_ids scope) (zip (gs_owner_file_paths scope) (gs_owner_qualified_names scope)))) (\<lambda>owners.
       if length (gs_owner_node_ids scope) = length (gs_owner_file_paths scope)
          \<and> length (gs_owner_file_paths scope) = length (gs_owner_qualified_names scope)
       then Inr (Some owners) else Inl (ValueError ''zip() arguments have different lengths''))"

text \<open>\<open>_binding_target\<close>: the one symbol that the lines of the binding refer to with a trusted edge.\<close>

definition binding_edges :: "snapshot_db \<Rightarrow> snapshot_node \<Rightarrow> (snapshot_edge \<times> snapshot_node) list" where
  "binding_edges db binding =
     concat (map (\<lambda>e. map (Pair e) (filter (\<lambda>n. sn_id n = se_target e) (sd_nodes db)))
       (filter (\<lambda>e. se_kind e \<in> {''references'', ''calls''}
           \<and> (case (se_line e, sn_start_line binding, sn_end_line binding) of
                (Some l, Some a, Some b) \<Rightarrow> a \<le> l \<and> l \<le> b | _ \<Rightarrow> False)
           \<and> se_source e \<in> {sn_id binding, ''file:'' @ (case sn_file_path binding of None \<Rightarrow> ''None'' | Some p \<Rightarrow> p)})
         (sd_edges db)))"

definition binding_ref :: "python_host \<Rightarrow> snapshot_edge \<times> snapshot_node \<Rightarrow> (snapshot_edge \<times> real) option res" where
  "binding_ref host ref =
     rbind (trusted_edge_confidence host (se_metadata (fst ref))) (\<lambda>c.
       Inr (if sn_kind (snd ref) \<in> set CALLABLE_KINDS then map_option (Pair (fst ref)) c else None))"

definition binding_target :: "python_host \<Rightarrow> snapshot_db \<Rightarrow> snapshot_node \<Rightarrow> (snapshot_node \<times> real) option res" where
  "binding_target host db binding =
     rbind (map_res (binding_ref host) (binding_edges db binding)) (\<lambda>refs.
       Inr (case List.map_filter id refs of
              [(e, c)] \<Rightarrow> map_option (\<lambda>n. (n, c)) (find (\<lambda>n. sn_id n = se_target e) (sd_nodes db))
            | _ \<Rightarrow> None))"

record renaming =
  rn_real_id :: string
  rn_old :: snapshot_node
  rn_binding :: snapshot_node
  rn_target :: snapshot_node
  rn_confidence :: real

definition is_alias_owner :: "continuity_witness \<Rightarrow> owner_pair \<Rightarrow> bool" where
  "is_alias_owner w owner =
     (case owner of (_, old, surviving) \<Rightarrow>
        sn_kind surviving \<in> set (cw_forwarder_kinds w) \<and> is_exported old \<and> is_exported surviving)"

text \<open>The one owner whose old name survives as a forwarder, with the symbol that took over its implementation.\<close>

definition renamed_owner ::
  "python_host \<Rightarrow> continuity_witness \<Rightarrow> string option \<Rightarrow> file_texts \<Rightarrow> file_texts \<Rightarrow> snapshot_db \<Rightarrow> string
    \<Rightarrow> owner_pair list \<Rightarrow> renaming option res" where
  "renamed_owner host w language before_files after_files after_db patch owners =
     (case filter (is_alias_owner w) owners of
        [(real_id, old, binding)] \<Rightarrow>
          andthen (binding_target host after_db binding) (\<lambda>(target, confidence).
          andthen (require (sn_kind old \<in> set CALLABLE_KINDS \<and> text_of (sn_signature old) \<noteq> [])) (\<lambda>_.
          rbind (node_source before_files old) (\<lambda>old_source.
          rbind (node_source after_files target) (\<lambda>target_source.
          rbind (node_source after_files binding) (\<lambda>forwarder_source.
          andthen (require (Some (language_of target) = language \<and> sn_signature target = sn_signature old
              \<and> text_of old_source \<noteq> [] \<and> text_of target_source \<noteq> [] \<and> text_of forwarder_source \<noteq> []
              \<and> same_implementation w (ph_chars host) (text_of old_source) (text_of target_source)
                  (sn_name old) (sn_name target))) (\<lambda>_.
          rbind (patch_is_exhaustive_forwarder w (ph_chars host) patch (sn_name old) (sn_name target)) (\<lambda>exhaustive.
            Inr (if exhaustive
                 then Some \<lparr>rn_real_id = real_id, rn_old = old, rn_binding = binding, rn_target = target,
                        rn_confidence = confidence\<rparr>
                 else None))))))))
      | _ \<Rightarrow> Inr None)"

section \<open>The other owners\<close>

definition same_reference_migration ::
  "python_host \<Rightarrow> continuity_witness \<Rightarrow> file_texts \<Rightarrow> file_texts \<Rightarrow> snapshot_node \<Rightarrow> snapshot_node \<Rightarrow> string \<Rightarrow> string
    \<Rightarrow> bool res" where
  "same_reference_migration host w before_files after_files old surviving old_name target_name =
     (if sn_kind old \<noteq> sn_kind surviving \<or> sn_signature old \<noteq> sn_signature surviving then Inr False
      else rbind (node_source before_files old) (\<lambda>before_source.
           rbind (node_source after_files surviving) (\<lambda>after_source.
             Inr (text_of before_source \<noteq> [] \<and> text_of after_source \<noteq> []
                  \<and> identifier_only_migration w (ph_chars host) (text_of before_source) (text_of after_source)
                      old_name target_name))))"

definition continuity_edges :: "snapshot_db \<Rightarrow> string \<Rightarrow> string list \<Rightarrow> string list \<Rightarrow> snapshot_edge list" where
  "continuity_edges db source targets kinds =
     filter (\<lambda>e. se_source e = source \<and> se_target e \<in> set targets \<and> se_kind e \<in> set kinds) (sd_edges db)"

text \<open>An owner beside the renamed one: it refers to the new symbol as it did to the old one. The result is the
  confidences of both sets of edges.\<close>

definition other_owner ::
  "python_host \<Rightarrow> continuity_witness \<Rightarrow> file_texts \<Rightarrow> file_texts \<Rightarrow> snapshot_db \<Rightarrow> snapshot_db \<Rightarrow> renaming \<Rightarrow> owner_pair
    \<Rightarrow> real list option res" where
  "other_owner host w before_files after_files before_db after_db rn owner =
     (case owner of (_, old, current) \<Rightarrow>
        rbind (same_reference_migration host w before_files after_files old current (sn_name (rn_old rn))
            (sn_name (rn_target rn))) (\<lambda>same.
          if \<not> same then Inr None
          else let before_edges = continuity_edges before_db (sn_id old) [sn_id (rn_old rn)] CONTINUITY_EDGE_KINDS;
                   after_edges = continuity_edges after_db (sn_id current) [sn_id (rn_target rn)] CONTINUITY_EDGE_KINDS
               in rbind (map_res (\<lambda>e. trusted_edge_confidence host (se_metadata e)) before_edges) (\<lambda>bs.
                  rbind (map_res (\<lambda>e. trusted_edge_confidence host (se_metadata e)) after_edges) (\<lambda>as.
                    Inr (if before_edges = [] \<or> mset (map se_kind before_edges) \<noteq> mset (map se_kind after_edges)
                            \<or> None \<in> set (bs @ as)
                         then None else Some (List.map_filter id (bs @ as)))))))"

section \<open>The consumers\<close>

definition same_external_source ::
  "python_host \<Rightarrow> continuity_witness \<Rightarrow> file_texts \<Rightarrow> file_texts \<Rightarrow> (snapshot_node \<times> snapshot_node) option \<Rightarrow> string
    \<Rightarrow> string \<Rightarrow> string \<Rightarrow> bool res" where
  "same_external_source host w before_files after_files nodes source_id old_name target_name =
     rbind (if starts_with source_id ''file:''
            then let path = remove_prefix source_id ''file:''
                 in Inr (dict_get before_files path None, dict_get after_files path None)
            else (case nodes of
                    None \<Rightarrow> Inr (None, None)
                  | Some (old, current) \<Rightarrow>
                      rbind (node_source before_files old) (\<lambda>b.
                      rbind (node_source after_files current) (\<lambda>a. Inr (b, a))))) (\<lambda>sources.
       Inr (case sources of
              (Some before_source, Some after_source) \<Rightarrow>
                unix_lines before_source = unix_lines after_source
                \<or> identifier_only_migration w (ph_chars host) (unix_lines before_source) (unix_lines after_source)
                    old_name target_name
            | _ \<Rightarrow> False))"

text \<open>The edges into the owners from elsewhere.\<close>

definition consumer_edges :: "snapshot_db \<Rightarrow> string list \<Rightarrow> snapshot_edge list" where
  "consumer_edges db owner_ids =
     filter (\<lambda>e. se_target e \<in> set owner_ids \<and> se_kind e \<in> set CONTINUITY_EDGE_KINDS \<and> se_source e \<notin> set owner_ids)
       (sd_edges db)"

definition edge_group :: "snapshot_edge \<Rightarrow> string \<times> string \<times> string" where
  "edge_group e = (se_source e, se_target e, se_kind e)"

text \<open>Where a consumer is after the change: itself if it is a file, else the one symbol of the same place and kind.\<close>

definition consumer_nodes ::
  "snapshot_db \<Rightarrow> snapshot_db \<Rightarrow> string \<Rightarrow> (snapshot_node \<times> snapshot_node) option option" where
  "consumer_nodes before_db after_db source =
     (if starts_with source ''file:'' then Some None
      else (case find (\<lambda>row. sn_id row = source) (rev (sd_nodes before_db)) of
              None \<Rightarrow> None
            | Some old \<Rightarrow>
                (case filter (\<lambda>row. sn_file_path row = sn_file_path old
                         \<and> sn_qualified_name row = sn_qualified_name old \<and> sn_kind row = sn_kind old) (sd_nodes after_db) of
                   [current] \<Rightarrow> Some (Some (old, current))
                 | _ \<Rightarrow> None)))"

text \<open>One consumer and the edges it has to one owner in one way: after the change it has as many, with the same
  resolvers and confidences. The result is the confidences that bear on the proof.\<close>

definition consumer_group ::
  "python_host \<Rightarrow> continuity_witness \<Rightarrow> file_texts \<Rightarrow> file_texts \<Rightarrow> snapshot_db \<Rightarrow> snapshot_db \<Rightarrow> renaming
    \<Rightarrow> (string \<times> string list) list \<Rightarrow> snapshot_edge list \<Rightarrow> string \<times> string \<times> string \<Rightarrow> real list option res" where
  "consumer_group host w before_files after_files before_db after_db rn after_targets callers key =
     (case key of (source, old_target, kind) \<Rightarrow>
        let before_group = filter (\<lambda>e. edge_group e = key) callers
        in andthen (rbind (map_res (\<lambda>e. continuity_edge_metadata host (se_metadata e)) before_group) (\<lambda>items.
               Inr (if None \<in> set items then None else Some (List.map_filter id items)))) (\<lambda>before_metadata.
           andthen (Inr (consumer_nodes before_db after_db source)) (\<lambda>nodes.
           rbind (same_external_source host w before_files after_files nodes source (sn_name (rn_old rn))
               (sn_name (rn_target rn))) (\<lambda>same.
           andthen (require same) (\<lambda>_.
           andthen (Inr (case map_of after_targets old_target of None \<Rightarrow> None | Some ts \<Rightarrow> if ts = [] then None else Some ts)) (\<lambda>targets.
             let continuity = continuity_edges after_db (case nodes of None \<Rightarrow> source | Some (_, current) \<Rightarrow> sn_id current)
                   targets [kind]
             in rbind (map_res (\<lambda>e. continuity_edge_metadata host (se_metadata e)) continuity) (\<lambda>items.
                  Inr (if length continuity \<noteq> length before_group \<or> None \<in> set items
                          \<or> mset before_metadata \<noteq> mset (List.map_filter id items)
                       then None
                       else Some (map (\<lambda>(_, c, _). c) (filter (\<lambda>(_, _, proof_bearing). proof_bearing)
                              (List.map_filter id items)))))))))))"

section \<open>The facts\<close>

definition continuity_fact :: "continuity_witness \<Rightarrow> graph_risk_scope \<Rightarrow> string list \<Rightarrow> real list \<Rightarrow> scoped_graph_risk_fact" where
  "continuity_fact w scope covered confidences =
     \<lparr>sf_fact_kind = ''exported_binding_continuity'', sf_event = gs_event scope, sf_risk_source = gs_risk_source scope,
      sf_owner_node_ids = sort covered, sf_confidence = Fin (Min (set confidences)),
      sf_provenance = ''materialized_codegraph:'' @ family_name (cw_name w) @ '':v'' @ cw_version w\<rparr>"

text \<open>Where the edges into an owner must lead after the change; a later entry replaces an earlier one.\<close>

definition after_targets_of :: "renaming \<Rightarrow> owner_pair list \<Rightarrow> (string \<times> string list) list" where
  "after_targets_of rn others =
     rev ((sn_id (rn_old rn), [sn_id (rn_binding rn), sn_id (rn_target rn)])
          # map (\<lambda>(_, old, current). (sn_id old, [sn_id current])) others)"

definition continuity_facts ::
  "python_host \<Rightarrow> snapshot_db \<Rightarrow> snapshot_db \<Rightarrow> graph_risk_scope \<Rightarrow> file_texts \<Rightarrow> file_texts \<Rightarrow> string
    \<Rightarrow> scoped_graph_risk_fact option res" where
  "continuity_facts host before_db after_db scope before_files after_files patch =
     andthen (Inr (witness_for_language (gs_language scope))) (\<lambda>w.
     andthen (owner_pairs before_db after_db scope) (\<lambda>owners.
     andthen (renamed_owner host w (gs_language scope) before_files after_files after_db patch owners) (\<lambda>rn.
       let others = filter (\<lambda>(real_id, _). real_id \<noteq> rn_real_id rn) owners;
           callers = consumer_edges before_db (map (\<lambda>(_, old, _). sn_id old) owners)
       in andthen (all_present (other_owner host w before_files after_files before_db after_db rn) others) (\<lambda>owner_edges.
          andthen (require (int (card (set (map se_source callers))) = gs_expected_consumer_count scope)) (\<lambda>_.
          andthen (all_present (consumer_group host w before_files after_files before_db after_db rn
              (after_targets_of rn others) callers) (dedupe (map edge_group callers))) (\<lambda>consumer_confidences.
            Inr (Some (continuity_fact w scope (rn_real_id rn # map fst others)
              (rn_confidence rn # concat owner_edges @ concat consumer_confidences)))))))))"

end
