(* ===== verification/Pebra_Continuity_Run.thy ===== *)
theory Pebra_Continuity_Run
  imports Pebra_Continuity Pebra_Change_Verifier Pebra_Codegraph Pebra_Decision_Engine
begin

text \<open>
  The rest of \<open>pebra/adapters/codegraph_candidate_refinement.py\<close> and \<open>pebra/adapters/patch_materializer.py\<close>: the files
  that are looked at, the materialised candidate, the cache on disk, and the run that puts them together.

  What \<open>git apply\<close> and the engine answer, the files of the repository, the encoder of \<open>json\<close>, the clock and the content
  of the cache are parameters of a run. The cache is the list of its entries, the oldest first; an entry that does not
  decode to a dataclass of the right fields is unreadable.
\<close>

section \<open>Limits\<close>

record refinement_limits =
  rl_enabled :: bool
  rl_max_context_files :: nat
  rl_max_context_bytes :: int
  rl_max_cache_entries :: int
  rl_max_cache_bytes :: int

text \<open>The constructor raises every limit to at least one.\<close>

definition refinement_limits_of :: "bool \<Rightarrow> int \<Rightarrow> int \<Rightarrow> int \<Rightarrow> int \<Rightarrow> refinement_limits" where
  "refinement_limits_of enabled files bytes entries cache_bytes =
     \<lparr>rl_enabled = enabled, rl_max_context_files = nat (max 1 files), rl_max_context_bytes = max 1 bytes,
      rl_max_cache_entries = max 1 entries, rl_max_cache_bytes = max 1 cache_bytes\<rparr>"

definition default_limits :: refinement_limits where
  "default_limits = refinement_limits_of True 40 (5 * 1024 * 1024) 128 (32 * 1024 * 1024)"

section \<open>Context\<close>

definition CONFIG_NAMES :: "string list" where
  "CONFIG_NAMES =
     [''package.json'', ''tsconfig.json'', ''jsconfig.json'', ''pyproject.toml'', ''Cargo.toml'', ''go.mod'', ''pom.xml'',
      ''build.gradle'', ''build.gradle.kts'']"

text \<open>A file of the repository: its size, and its text unless it cannot be read as UTF-8.\<close>

record context_file =
  fl_size :: int
  fl_text :: "string option"

text \<open>The directories from the one of an owner up to the root, and the configuration files in them.\<close>

definition directories_above :: "string \<Rightarrow> string list list" where
  "directories_above owner =
     (let parts = path_parts owner in map (\<lambda>n. take n parts) (rev [0..<length parts]))"

definition config_files :: "(string \<Rightarrow> context_file option) \<Rightarrow> string list \<Rightarrow> string list" where
  "config_files fs owner_files =
     filter (\<lambda>p. fs p \<noteq> None)
       (concat (map (\<lambda>owner. concat (map (\<lambda>d. map (\<lambda>name. join_with ''/'' (d @ [name])) CONFIG_NAMES)
          (directories_above owner))) owner_files))"

fun read_context ::
  "(string \<Rightarrow> context_file option) \<Rightarrow> int \<Rightarrow> int \<Rightarrow> file_texts \<Rightarrow> string list \<Rightarrow> file_texts \<times> string option" where
  "read_context fs max_bytes bytes files [] = (files, None)"
| "read_context fs max_bytes bytes files (rel # paths) =
     (case fs rel of
        None \<Rightarrow> read_context fs max_bytes bytes (files @ [(rel, None)]) paths
      | Some f \<Rightarrow>
          if bytes + fl_size f > max_bytes then (files, Some ''context byte cap exceeded'')
          else (case fl_text f of
                  None \<Rightarrow> ([], Some ''context file could not be read'')
                | Some t \<Rightarrow> read_context fs max_bytes (bytes + fl_size f) (files @ [(rel, Some t)]) paths))"

definition context_of ::
  "refinement_limits \<Rightarrow> (string \<Rightarrow> bool) \<Rightarrow> (string \<Rightarrow> context_file option) \<Rightarrow> string list option \<Rightarrow> candidate_action
    \<Rightarrow> graph_risk_scope \<Rightarrow> (file_texts \<times> string option) res" where
  "context_of limits inside fs expanded action scope =
     rbind (touched_files (text_of (ca_proposed_patch action))) (\<lambda>touched.
       let candidates = touched @ gs_owner_file_paths scope @ config_files fs (gs_owner_file_paths scope)
       in Inr (if length (sorted_set candidates) > rl_max_context_files limits then ([], Some ''context file cap exceeded'')
               else (case expanded of
                       None \<Rightarrow> ([], Some ''dependent graph context unavailable'')
                     | Some dependents \<Rightarrow>
                         let paths = sorted_set (candidates @ dependents)
                         in if length paths > rl_max_context_files limits then ([], Some ''context file cap exceeded'')
                            else if safe_relative_files inside paths \<noteq> paths then ([], Some ''invalid context file path'')
                            else read_context fs (rl_max_context_bytes limits) 0 [] paths)))"

section \<open>The materialised candidate\<close>

definition unsafe_rel :: "string \<Rightarrow> bool" where
  "unsafe_rel rel =
     (starts_with (slashes rel) ''//'' \<or> CHR '':'' \<in> set rel \<or> starts_with rel ''/''
      \<or> ''..'' \<in> set (split_on (CHR ''/'') (slashes rel)))"

text \<open>One \<open>git apply\<close> in the throwaway tree; a tree maps a path to its text.\<close>

datatype git_apply = Applied "string \<Rightarrow> string option" | Rejected | Not_Run

record git_tools =
  gi_init :: bool
  gi_apply :: "string \<Rightarrow> string \<Rightarrow> (string \<Rightarrow> string option) \<Rightarrow> string \<Rightarrow> git_apply"

fun apply_stripped ::
  "git_tools \<Rightarrow> string \<Rightarrow> (string \<Rightarrow> string option) \<Rightarrow> string \<Rightarrow> string list \<Rightarrow> (string \<Rightarrow> string option) option" where
  "apply_stripped git apply_dir tree patch [] = None"
| "apply_stripped git apply_dir tree patch (strip_arg # strips) =
     (case gi_apply git strip_arg apply_dir tree patch of
        Applied tree' \<Rightarrow> Some tree'
      | Rejected \<Rightarrow> apply_stripped git apply_dir tree patch strips
      | Not_Run \<Rightarrow> None)"

definition materialize_patch :: "git_tools \<Rightarrow> file_texts \<Rightarrow> string \<Rightarrow> string \<Rightarrow> file_texts option" where
  "materialize_patch git before_files patch apply_dir =
     (if list_ex unsafe_rel (map fst before_files) \<or> unsafe_rel apply_dir then None
      else if \<not> gi_init git then None
      else map_option (\<lambda>tree. map (\<lambda>(rel, _). (rel, tree rel)) before_files)
             (apply_stripped git apply_dir (\<lambda>rel. dict_get before_files rel None) patch [''-p1'', ''-p0'']))"

section \<open>The manifest\<close>

definition PROVIDER_VERSION :: string where "PROVIDER_VERSION = ''materialized-continuity-v10''"

definition scope_value :: "graph_risk_scope \<Rightarrow> pyval" where
  "scope_value scope =
     VDict [(''event'', VStr (gs_event scope)), (''risk_source'', VStr (gs_risk_source scope)),
       (''owner_node_ids'', vstrs (gs_owner_node_ids scope)), (''owner_file_paths'', vstrs (gs_owner_file_paths scope)),
       (''owner_qualified_names'', vstrs (gs_owner_qualified_names scope)),
       (''expected_consumer_count'', VInt (gs_expected_consumer_count scope)), (''language'', vopt (gs_language scope))]"

definition file_value :: "string \<times> string option \<Rightarrow> pyval" where
  "file_value entry =
     (case entry of (path, content) \<Rightarrow>
        VDict [(''path'', VStr path),
          (''sha256'', VStr (case content of None \<Rightarrow> ''absent'' | Some t \<Rightarrow> sha256_hex t))])"

definition manifest_value ::
  "refinement_limits \<Rightarrow> candidate_action \<Rightarrow> graph_risk_scope \<Rightarrow> file_texts \<Rightarrow> string option \<Rightarrow> pyval dict \<Rightarrow> pyval" where
  "manifest_value limits action scope files reason engine =
     VDict [(''schema'', VInt 1), (''provider'', VStr PROVIDER_VERSION), (''codegraph'', VDict engine),
       (''bounds'', VDict [(''files'', VInt (int (rl_max_context_files limits))),
          (''bytes'', VInt (rl_max_context_bytes limits))]),
       (''context_error'', vopt reason), (''files'', VList (map file_value (sort_key fst files))),
       (''patch_sha256'', VStr (sha256_hex (text_of (ca_proposed_patch action)))), (''scope'', scope_value scope)]"

section \<open>The cache\<close>

datatype disk_entry = Unreadable | Entry int candidate_graph_risk_evidence

record cached_file =
  ch_name :: string
  ch_size :: int
  ch_entry :: disk_entry

definition bounded_confidence :: "scoped_graph_risk_fact \<Rightarrow> bool" where
  "bounded_confidence gf = (case sf_confidence gf of Fin x \<Rightarrow> 0 \<le> x \<and> x \<le> 1 | _ \<Rightarrow> False)"

definition load_cache :: "disk_entry \<Rightarrow> candidate_graph_risk_evidence option" where
  "load_cache entry =
     (case entry of
        Unreadable \<Rightarrow> None
      | Entry schema evidence \<Rightarrow>
          if schema \<noteq> 1 \<or> ce_status evidence = ''available'' \<or> \<not> list_all bounded_confidence (ce_facts evidence) then None
          else Some (evidence\<lparr>ce_verified_patch_hash := None, ce_cache_hit := True\<rparr>))"

definition cached_entry :: "string \<Rightarrow> cached_file list \<Rightarrow> disk_entry" where
  "cached_entry name cache = (case find (\<lambda>e. ch_name e = name) cache of None \<Rightarrow> Unreadable | Some e \<Rightarrow> ch_entry e)"

text \<open>Where an \<open>OSError\<close> ends the save, which the source swallows: before the new entry is in place, when the entries
  are listed, or at a removal, given by the number of removals that succeed before it. Temporary files are not entries.\<close>

datatype save_fault = No_Fault | Write_Fault | Listing_Fault | Removal_Fault nat

definition removals_allowed :: "save_fault \<Rightarrow> nat option" where
  "removals_allowed fault = (case fault of Removal_Fault n \<Rightarrow> Some n | _ \<Rightarrow> None)"

fun evict_stale :: "nat option \<Rightarrow> int \<Rightarrow> int \<Rightarrow> int \<Rightarrow> cached_file list \<Rightarrow> cached_file list" where
  "evict_stale allowed max_bytes stale_count total_bytes [] = []"
| "evict_stale allowed max_bytes stale_count total_bytes (e # es) =
     (if stale_count \<le> 0 \<and> total_bytes \<le> max_bytes then e # es
      else case allowed of
             Some 0 \<Rightarrow> e # es
           | Some (Suc n) \<Rightarrow> evict_stale (Some n) max_bytes (stale_count - 1) (total_bytes - ch_size e) es
           | None \<Rightarrow> evict_stale None max_bytes (stale_count - 1) (total_bytes - ch_size e) es)"

definition save_cache ::
  "refinement_limits \<Rightarrow> save_fault \<Rightarrow> (candidate_graph_risk_evidence \<Rightarrow> int) \<Rightarrow> string
    \<Rightarrow> candidate_graph_risk_evidence \<Rightarrow> cached_file list \<Rightarrow> cached_file list" where
  "save_cache limits fault size_of name evidence cache =
     (if ce_status evidence = ''available'' \<or> fault = Write_Fault then cache
      else let payload = evidence\<lparr>ce_verified_patch_hash := None, ce_cache_hit := False\<rparr>;
               entries = filter (\<lambda>e. ch_name e \<noteq> name) cache
                 @ [\<lparr>ch_name = name, ch_size = size_of payload, ch_entry = Entry 1 payload\<rparr>]
           in if fault = Listing_Fault then entries
              else evict_stale (removals_allowed fault) (rl_max_cache_bytes limits)
                     (max 0 (int (length entries) - rl_max_cache_entries limits)) (sum_list (map ch_size entries)) entries)"

text \<open>What the loop promises when it runs to its end: the limits hold. In any case it keeps the newest entries.\<close>

lemma evict_stale_bounds:
  assumes "0 \<le> max_bytes" and "stale_count \<ge> int (length es) - max_entries" and "max_entries \<ge> 0"
  shows "int (length (evict_stale None max_bytes stale_count (sum_list (map ch_size es)) es)) \<le> max_entries
    \<and> sum_list (map ch_size (evict_stale None max_bytes stale_count (sum_list (map ch_size es)) es)) \<le> max_bytes"
  using assms(2) by (induction es arbitrary: stale_count) (use assms(1,3) in auto)

lemma evict_stale_suffix: "\<exists>dropped. es = dropped @ evict_stale allowed max_bytes stale_count total_bytes es"
proof (induction es arbitrary: allowed stale_count total_bytes)
  case (Cons e es)
  obtain dropped where "es = dropped @ evict_stale (map_option (\<lambda>n. n - 1) allowed) max_bytes (stale_count - 1) (total_bytes - ch_size e) es"
    using Cons.IH by blast
  then show ?case by (auto intro: exI [of _ "e # dropped"] split: option.split nat.split)
qed simp

section \<open>The run\<close>

definition SUPPORTED_EVENTS :: "string list" where "SUPPORTED_EVENTS = [''public_api_break'']"

definition LANGUAGE_BY_SUFFIX :: "string dict" where
  "LANGUAGE_BY_SUFFIX =
     [(''.dart'', ''dart''), (''.go'', ''go''), (''.java'', ''java''), (''.js'', ''javascript''), (''.jsx'', ''jsx''),
      (''.pas'', ''pascal''), (''.rs'', ''rust''), (''.scala'', ''scala''), (''.ts'', ''typescript''), (''.tsx'', ''tsx'')]"

text \<open>The language of the scope, or the one that all the suffixes of the owners agree on; only then is the scope changed.\<close>

definition scope_language :: "graph_risk_scope \<Rightarrow> string \<times> graph_risk_scope" where
  "scope_language scope =
     (let given = lower (text_of (gs_language scope));
          inferred = remdups (filter (\<lambda>l. l \<noteq> [])
            (map (\<lambda>p. dict_get LANGUAGE_BY_SUFFIX (lower (path_suffix p)) []) (gs_owner_file_paths scope)));
          guess = (case inferred of [l] \<Rightarrow> l | _ \<Rightarrow> [])
      in if given \<noteq> [] then (given, scope)
         else (guess, scope\<lparr>gs_language := (if guess = [] then None else Some guess)\<rparr>))"

text \<open>Why an index was not built. The first six are caught, a timeout being an \<open>OSError\<close> too.\<close>

datatype index_failure =
    Os_Failure | Sqlite_Failure | Subprocess_Failure | Timeout_Failure | Value_Failure | Type_Failure | Uncaught pyerr

record analysis_times =
  ty_prefilter :: real
  ty_materialize :: real
  ty_index :: real
  ty_query :: real
  ty_total :: real

text \<open>The surroundings of one run. \<open>rf_index\<close> is the engine on its first and second call, \<open>rf_late\<close> whether the deadline has
  passed before the candidate is materialised, after the first index and after the second.\<close>

record refinement_host =
  rf_limits :: refinement_limits
  rf_python :: python_host
  rf_inside :: "string \<Rightarrow> bool"
  rf_fs :: "string \<Rightarrow> context_file option"
  rf_expanded :: "graph_risk_scope \<Rightarrow> string list option"
  rf_git :: git_tools
  rf_engine :: "pyval dict"
  rf_dumps :: "pyval \<Rightarrow> string"
  rf_index :: "nat \<Rightarrow> file_texts \<Rightarrow> index_failure + snapshot_db"
  rf_late :: "bool \<times> bool \<times> bool"
  rf_times :: analysis_times
  rf_size :: "candidate_graph_risk_evidence \<Rightarrow> int"
  rf_save :: save_fault

definition unavailable_evidence :: "string \<Rightarrow> bool \<Rightarrow> candidate_graph_risk_evidence" where
  "unavailable_evidence reason retryable =
     default_graph_risk_evidence\<lparr>ce_status := ''unavailable'', ce_reason := Some reason,
       ce_retryable_infrastructure := retryable\<rparr>"

definition context_bytes_of :: "file_texts \<Rightarrow> int" where
  "context_bytes_of files = sum_list (map (\<lambda>(_, content). int (length (text_of content))) files)"

definition with_context :: "file_texts \<Rightarrow> candidate_graph_risk_evidence \<Rightarrow> candidate_graph_risk_evidence" where
  "with_context files evidence =
     evidence\<lparr>ce_context_file_count := int (length files), ce_context_bytes := context_bytes_of files\<rparr>"

text \<open>The public name must reappear in the file of its owner.\<close>

definition name_reappears :: "file_texts \<Rightarrow> string \<times> string \<Rightarrow> bool" where
  "name_reappears after_files owner =
     (case owner of (file_path, qualified_name) \<Rightarrow>
        contains (text_of (dict_get after_files file_path None))
          (last (split_on (CHR ''.'') (colons_to_dots qualified_name))))"

definition index_report ::
  "string \<Rightarrow> index_failure \<Rightarrow> index_failure list \<Rightarrow> candidate_graph_risk_evidence \<Rightarrow> candidate_graph_risk_evidence res" where
  "index_report reason failure retryable base =
     (case failure of
        Uncaught e \<Rightarrow> Inl e
      | _ \<Rightarrow> Inr (base\<lparr>ce_status := ''unavailable'', ce_reason := Some reason,
               ce_retryable_infrastructure := (failure \<in> set retryable)\<rparr>))"

fun caught_error :: "pyerr \<Rightarrow> index_failure" where
  "caught_error (ValueError _) = Value_Failure"
| "caught_error (TypeError _) = Type_Failure"
| "caught_error e = Uncaught e"

definition engine_version_of :: "pyval dict \<Rightarrow> string option" where
  "engine_version_of engine = (case dict_get engine ''version'' VNone of VStr v \<Rightarrow> Some v | _ \<Rightarrow> None)"

text \<open>Both graphs are built and compared.\<close>

definition compare_graphs ::
  "refinement_host \<Rightarrow> string \<Rightarrow> graph_risk_scope \<Rightarrow> file_texts \<Rightarrow> file_texts \<Rightarrow> string \<Rightarrow> string \<Rightarrow> continuity_witness
    \<Rightarrow> (candidate_graph_risk_evidence \<times> bool) res" where
  "compare_graphs host language scope before_files after_files patch manifest w =
     (let times = rf_times host;
          base = (with_context before_files default_graph_risk_evidence)\<lparr>ce_manifest_hash := Some manifest,
            ce_prefilter_latency_ms := ty_prefilter times, ce_materialize_latency_ms := ty_materialize times,
            ce_index_latency_ms := ty_index times, ce_total_latency_ms := ty_total times\<rparr>;
          timed = base\<lparr>ce_query_latency_ms := ty_query times\<rparr>;
          failed = (\<lambda>reason failure retryable b. rbind (index_report reason failure retryable b) (\<lambda>e. Inr (e, False)));
          before_failed = (\<lambda>failure. failed ''before-snapshot CodeGraph unavailable'' failure
            [Os_Failure, Sqlite_Failure, Subprocess_Failure, Timeout_Failure] base);
          after_failed = (\<lambda>failure. failed ''candidate after-graph unavailable'' failure
            [Os_Failure, Sqlite_Failure, Timeout_Failure] base)
      in case rf_index host 0 before_files of
           Inl failure \<Rightarrow> before_failed failure
         | Inr before_db \<Rightarrow>
             if fst (snd (rf_late host)) then before_failed Timeout_Failure
             else (case rf_index host 1 after_files of
                Inl failure \<Rightarrow> after_failed failure
              | Inr after_db \<Rightarrow>
                  if snd (snd (rf_late host)) then after_failed Timeout_Failure
                  else (case continuity_facts (rf_python host) before_db after_db scope before_files after_files patch of
                     Inl e \<Rightarrow> after_failed (caught_error e)
                   | Inr found \<Rightarrow>
                       Inr (timed\<lparr>
                         ce_status := (case found of None \<Rightarrow> ''ambiguous'' | Some _ \<Rightarrow> ''available''),
                         ce_facts := (case found of None \<Rightarrow> [] | Some gf \<Rightarrow> [gf]),
                         ce_provider := Some ''materialized_codegraph'', ce_language := Some language,
                         ce_witness := Some (family_name (cw_name w)), ce_witness_version := Some (cw_version w),
                         ce_engine_version := engine_version_of (rf_engine host),
                         ce_reason := (case found of None \<Rightarrow> Some ''structural continuity was not established'' | Some _ \<Rightarrow> None)\<rparr>,
                         True))))"

text \<open>The answer of the run and the cache it leaves.\<close>

definition analyze_candidate ::
  "refinement_host \<Rightarrow> candidate_action \<Rightarrow> graph_risk_scope \<Rightarrow> cached_file list
    \<Rightarrow> candidate_graph_risk_evidence res \<times> cached_file list" where
  "analyze_candidate host action given_scope cache =
     (let patch = text_of (ca_proposed_patch action); times = rf_times host;
          (language, scope) = scope_language given_scope
      in if \<not> rl_enabled (rf_limits host) \<or> patch = [] \<or> gs_owner_node_ids given_scope = []
            \<or> gs_event given_scope \<notin> set SUPPORTED_EVENTS
         then (Inr default_graph_risk_evidence, cache)
         else case witness_for_language (Some language) of
           None \<Rightarrow>
             (Inr (default_graph_risk_evidence\<lparr>ce_language := (if language = [] then None else Some language),
                ce_reason := Some (''no measured continuity witness for '' @ (if language = [] then ''unknown'' else language))\<rparr>),
              cache)
         | Some w \<Rightarrow>
             if \<not> (length (gs_owner_node_ids scope) = length (gs_owner_file_paths scope)
                    \<and> length (gs_owner_file_paths scope) = length (gs_owner_qualified_names scope))
             then (Inr (unavailable_evidence ''owner scope is malformed'' False), cache)
             else (case context_of (rf_limits host) (rf_inside host) (rf_fs host) (rf_expanded host scope) action scope of
               Inl e \<Rightarrow> (Inl e, cache)
             | Inr (before_files, Some failure) \<Rightarrow>
                 (Inr ((with_context before_files (unavailable_evidence failure (failure \<in>
                         {''dependent graph context unavailable'', ''context file could not be read''})))\<lparr>
                      ce_context_truncated := contains failure ''cap exceeded'',
                      ce_prefilter_latency_ms := ty_prefilter times, ce_total_latency_ms := ty_total times\<rparr>), cache)
             | Inr (before_files, None) \<Rightarrow>
                 if fst (rf_late host)
                 then (Inr ((unavailable_evidence ''materialized graph deadline exhausted'' True)\<lparr>
                         ce_total_latency_ms := ty_total times\<rparr>), cache)
                 else (case materialize_patch (rf_git host) (map (map_prod id (map_option unix_lines)) before_files) patch ''.'' of
                   None \<Rightarrow>
                     (Inr ((unavailable_evidence ''candidate patch did not apply cleanly'' False)\<lparr>
                        ce_materialize_latency_ms := ty_materialize times, ce_total_latency_ms := ty_total times\<rparr>), cache)
                 | Some after_files \<Rightarrow>
                     if \<not> list_all (name_reappears after_files)
                            (zip (gs_owner_file_paths scope) (gs_owner_qualified_names scope))
                     then (Inr ((with_context before_files default_graph_risk_evidence)\<lparr>ce_status := ''ambiguous'',
                             ce_reason := Some ''old public name does not reappear in candidate'',
                             ce_prefilter_latency_ms := ty_prefilter times, ce_materialize_latency_ms := ty_materialize times,
                             ce_total_latency_ms := ty_total times\<rparr>), cache)
                     else
                       let manifest = sha256_hex (rf_dumps host
                             (manifest_value (rf_limits host) action scope before_files None (rf_engine host)))
                       in (case load_cache (cached_entry manifest cache) of
                             Some evidence \<Rightarrow> (Inr evidence, cache)
                           | None \<Rightarrow>
                               (case compare_graphs host language scope before_files after_files patch manifest w of
                                  Inl e \<Rightarrow> (Inl e, cache)
                                | Inr (evidence, compared) \<Rightarrow>
                                    (Inr evidence,
                                     if compared then save_cache (rf_limits host) (rf_save host) (rf_size host) manifest evidence cache
                                     else cache))))))"

end
