(* ===== verification/Pebra_Continuity_Proof.thy ===== *)
theory Pebra_Continuity_Proof
  imports Pebra_Continuity_Run
begin

text \<open>
  Properties of the continuity evidence: what a fact stands for, when evidence is available, how far the cache grows, and
  what the proof of the patch does not see.
\<close>

section \<open>Confidences\<close>

definition trusted_range :: "real \<Rightarrow> bool" where "trusted_range c = (0.90 \<le> c \<and> c \<le> 1)"

lemma map_res_member: "map_res f xs = Inr ys \<Longrightarrow> y \<in> set ys \<Longrightarrow> \<exists>x \<in> set xs. f x = Inr y"
  by (induction xs arbitrary: ys) (auto simp: rbind_Inr_iff)

lemma map_res_image: "map_res f xs = Inr ys \<Longrightarrow> x \<in> set xs \<Longrightarrow> \<exists>y \<in> set ys. f x = Inr y"
  by (induction xs arbitrary: ys) (auto simp: rbind_Inr_iff)

lemma set_present: "v \<in> set (List.map_filter id xs) \<longleftrightarrow> Some v \<in> set xs"
  by (induction xs) (auto simp: List.map_filter_simps split: option.splits)

lemma map_res_present:
  assumes "map_res f xs = Inr ys" and "y \<in> set (List.map_filter id ys)"
  shows "\<exists>x \<in> set xs. f x = Inr (Some y)"
  using map_res_member [OF assms(1), of "Some y"] assms(2) by (auto simp: set_present)

lemma all_present_member: "all_present f xs = Inr (Some ys) \<Longrightarrow> y \<in> set ys \<Longrightarrow> \<exists>x \<in> set xs. f x = Inr (Some y)"
  by (induction xs arbitrary: ys) (auto simp: present_iff)

lemma all_present_each: "all_present f xs = Inr (Some ys) \<Longrightarrow> x \<in> set xs \<Longrightarrow> \<exists>y \<in> set ys. f x = Inr (Some y)"
  by (auto simp: all_present_iff list_all2_conv_all_nth in_set_conv_nth)

lemma trusted_edge_range: "trusted_edge_confidence host t = Inr (Some c) \<Longrightarrow> trusted_range c"
  unfolding trusted_range_def by (rule trusted_edge_bounds)

lemma binding_target_trusted:
  assumes "binding_target host db binding = Inr (Some (target, c))"
  shows "trusted_range c"
proof -
  obtain refs where refs: "map_res (binding_ref host) (binding_edges db binding) = Inr refs"
    and picked: "(case List.map_filter id refs of
              [(e, c)] \<Rightarrow> map_option (\<lambda>n. (n, c)) (find (\<lambda>n. sn_id n = se_target e) (sd_nodes db))
            | _ \<Rightarrow> None) = Some (target, c)"
    using assms unfolding binding_target_def Inr_present by auto
  then obtain e where "List.map_filter id refs = [(e, c)]"
    by (cases "List.map_filter id refs" rule: remdups_adj.cases) (auto split: prod.splits)
  then have "(e, c) \<in> set (List.map_filter id refs)" by simp
  from map_res_present [OF refs this] obtain x where "binding_ref host x = Inr (Some (e, c))" by blast
  then have "trusted_edge_confidence host (se_metadata e) = Inr (Some c)"
    by (auto simp: binding_ref_def rbind_Inr_iff split: if_splits)
  then show ?thesis by (rule trusted_edge_range)
qed

lemma renamed_owner_sound:
  assumes "renamed_owner host w language before_files after_files after_db patch owners = Inr (Some rn)"
  shows "(rn_real_id rn, rn_old rn, rn_binding rn) \<in> set owners \<and> trusted_range (rn_confidence rn)
    \<and> patch_is_exhaustive_forwarder w (ph_chars host) patch (sn_name (rn_old rn)) (sn_name (rn_target rn)) = Inr True
    \<and> sn_signature (rn_target rn) = sn_signature (rn_old rn) \<and> is_exported (rn_old rn) \<and> is_exported (rn_binding rn)"
proof -
  obtain real_id old binding where sole: "filter (is_alias_owner w) owners = [(real_id, old, binding)]"
    using assms by (cases "filter (is_alias_owner w) owners" rule: remdups_adj.cases)
      (auto simp: renamed_owner_def split: prod.splits)
  then have "(real_id, old, binding) \<in> set owners" "is_alias_owner w (real_id, old, binding)"
    using filter_eq_ConsD [OF sole] by auto
  moreover obtain target c where "binding_target host after_db binding = Inr (Some (target, c))"
    and "sn_signature target = sn_signature old"
    and "patch_is_exhaustive_forwarder w (ph_chars host) patch (sn_name old) (sn_name target) = Inr True"
    and "rn = \<lparr>rn_real_id = real_id, rn_old = old, rn_binding = binding, rn_target = target, rn_confidence = c\<rparr>"
    using assms unfolding renamed_owner_def sole by (auto simp: present_iff split: if_splits)
  ultimately show ?thesis by (auto simp: is_alias_owner_def dest: binding_target_trusted)
qed



section \<open>The lines of a patch\<close>








section \<open>Consumers\<close>

text \<open>An edge of the graph after the change that stands for an edge of the graph before it: of the same kind and weight,
  from the same file or the symbol of the same place, name and kind, into one of the given targets.\<close>

definition same_place :: "snapshot_node \<Rightarrow> snapshot_node \<Rightarrow> bool" where
  "same_place a b = (sn_file_path a = sn_file_path b \<and> sn_qualified_name a = sn_qualified_name b \<and> sn_kind a = sn_kind b)"

definition same_consumer :: "snapshot_db \<Rightarrow> snapshot_db \<Rightarrow> string \<Rightarrow> string \<Rightarrow> bool" where
  "same_consumer before_db after_db source source' =
     (if starts_with source ''file:'' then source' = source
      else \<exists>old \<in> set (sd_nodes before_db). \<exists>current \<in> set (sd_nodes after_db).
             sn_id old = source \<and> sn_id current = source' \<and> same_place current old)"

definition carries_over ::
  "python_host \<Rightarrow> snapshot_db \<Rightarrow> snapshot_db \<Rightarrow> string list \<Rightarrow> snapshot_edge \<Rightarrow> snapshot_edge \<Rightarrow> bool" where
  "carries_over host before_db after_db targets e e' =
     (e' \<in> set (sd_edges after_db) \<and> se_kind e' = se_kind e \<and> se_target e' \<in> set targets
      \<and> same_consumer before_db after_db (se_source e) (se_source e')
      \<and> continuity_edge_metadata host (se_metadata e') = continuity_edge_metadata host (se_metadata e))"

lemma find_member: "find P xs = Some x \<Longrightarrow> x \<in> set xs \<and> P x"
  by (induction xs) (auto split: if_splits)

lemma consumer_nodes_same:
  assumes "consumer_nodes before_db after_db source = Some nodes"
  shows "same_consumer before_db after_db source (case nodes of None \<Rightarrow> source | Some (_, current) \<Rightarrow> sn_id current)"
proof (cases "starts_with source ''file:''")
  case True
  then show ?thesis using assms by (simp add: consumer_nodes_def same_consumer_def)
next
  case False
  then obtain old where old: "find (\<lambda>row. sn_id row = source) (rev (sd_nodes before_db)) = Some old"
    using assms by (auto simp: consumer_nodes_def split: option.splits)
  then obtain current where one: "filter (\<lambda>row. sn_file_path row = sn_file_path old
      \<and> sn_qualified_name row = sn_qualified_name old \<and> sn_kind row = sn_kind old) (sd_nodes after_db) = [current]"
    and nodes: "nodes = Some (old, current)"
    using assms False by (auto simp: consumer_nodes_def split: list.splits)
  have "old \<in> set (sd_nodes before_db)" "sn_id old = source"
    using find_member [OF old] by auto
  moreover have "current \<in> set (sd_nodes after_db)" "same_place current old"
    using arg_cong [OF one, of set] by (auto simp: same_place_def)
  ultimately show ?thesis using False nodes by (auto simp: same_consumer_def)
qed

lemma consumer_group_sound:
  assumes "consumer_group host w before_files after_files before_db after_db rn after_targets callers key = Inr (Some cs)"
  shows "(\<forall>c \<in> set cs. trusted_range c)
    \<and> (\<forall>e \<in> set callers. edge_group e = key \<longrightarrow> (\<exists>targets e'. map_of after_targets (se_target e) = Some targets
          \<and> carries_over host before_db after_db targets e e'))"
proof -
  obtain source old_target kind where key: "key = (source, old_target, kind)" by (cases key)
  let ?group = "filter (\<lambda>e. edge_group e = key) callers"
  let ?meta = "\<lambda>e. continuity_edge_metadata host (se_metadata e)"
  obtain items nodes targets items' where
    items: "map_res ?meta ?group = Inr items" "None \<notin> set items"
    and nodes: "consumer_nodes before_db after_db source = Some nodes"
    and targets: "map_of after_targets old_target = Some targets"
    and items': "map_res ?meta (continuity_edges after_db (case nodes of None \<Rightarrow> source | Some (_, current) \<Rightarrow> sn_id current)
         targets [kind]) = Inr items'"
    and same: "mset (List.map_filter id items) = mset (List.map_filter id items')"
    and cs: "cs = map (\<lambda>(_, c, _). c) (filter (\<lambda>(_, _, proof_bearing). proof_bearing) (List.map_filter id items'))"
    using assms unfolding consumer_group_def key Let_def prod.case
    by (auto simp: present_iff split: if_splits option.splits)
  have "trusted_range c" if mem: "c \<in> set cs" for c
  proof -
    obtain r where "(r, c, True) \<in> set (List.map_filter id items')" using mem unfolding cs by auto
    from map_res_present [OF items' this] show ?thesis
      by (auto simp: trusted_range_def dest: proof_bearing_bounds)
  qed
  moreover have "\<exists>targets e'. map_of after_targets (se_target e) = Some targets
      \<and> carries_over host before_db after_db targets e e'" if e: "e \<in> set callers" "edge_group e = key" for e
  proof -
    have parts: "se_source e = source" "se_target e = old_target" "se_kind e = kind"
      using e(2) key by (auto simp: edge_group_def)
    obtain m where m: "?meta e = Inr m" "m \<in> set items"
      using map_res_image [OF items(1), of e] e by auto
    then obtain v where v: "m = Some v" using items(2) by (cases m) auto
    have "v \<in> set (List.map_filter id items)" using m(2) v by (simp add: set_present)
    then have "v \<in> set (List.map_filter id items')" using mset_eq_setD [OF same] by simp
    from map_res_present [OF items' this] obtain e' where
      e': "e' \<in> set (continuity_edges after_db (case nodes of None \<Rightarrow> source | Some (_, current) \<Rightarrow> sn_id current) targets [kind])"
      "?meta e' = Inr (Some v)" by blast
    then have "carries_over host before_db after_db targets e e'"
      using consumer_nodes_same [OF nodes] m(1) v parts by (auto simp: carries_over_def continuity_edges_def)
    then show ?thesis using targets parts by blast
  qed
  ultimately show ?thesis by blast
qed

section \<open>Facts\<close>

definition scope_symbols :: "snapshot_db \<Rightarrow> graph_risk_scope \<Rightarrow> snapshot_node list" where
  "scope_symbols db scope =
     concat (map (\<lambda>(path, name). named_nodes db path name) (zip (gs_owner_file_paths scope) (gs_owner_qualified_names scope)))"

lemma owner_pairs_sound:
  assumes "owner_pairs before_db after_db scope = Inr (Some owners)"
  shows "map fst owners = gs_owner_node_ids scope"
    and "list_all2 (\<lambda>(path, name) (_, old, current). named_nodes before_db path name = [old]
           \<and> named_nodes after_db path name = [current])
         (zip (gs_owner_file_paths scope) (gs_owner_qualified_names scope)) owners"
    and "map (\<lambda>(_, old, _). sn_id old) owners = map sn_id (scope_symbols before_db scope)"
proof -
  let ?names = "zip (gs_owner_file_paths scope) (gs_owner_qualified_names scope)"
  have same: "length (gs_owner_node_ids scope) = length ?names"
    and pairs: "list_all2 (\<lambda>x y. owner_pair_of before_db after_db (gs_language scope) x = Inr (Some y))
      (zip (gs_owner_node_ids scope) ?names) owners"
    using assms by (auto simp: owner_pairs_def present_iff all_present_iff split: if_splits)
  have step: "fst x = fst y \<and> named_nodes before_db (fst (snd x)) (snd (snd x)) = [fst (snd y)]
      \<and> named_nodes after_db (fst (snd x)) (snd (snd x)) = [snd (snd y)]"
    if "owner_pair_of before_db after_db (gs_language scope) x = Inr (Some y)" for x y
    using that by (auto simp: owner_pair_of_def split: prod.splits list.splits if_splits)
  have all: "length ids = length names \<Longrightarrow>
      list_all2 (\<lambda>x y. owner_pair_of before_db after_db (gs_language scope) x = Inr (Some y)) (zip ids names) owners \<Longrightarrow>
      map fst owners = ids
      \<and> list_all2 (\<lambda>(path, name) (_, old, current). named_nodes before_db path name = [old]
           \<and> named_nodes after_db path name = [current]) names owners
      \<and> map (\<lambda>(_, old, _). sn_id old) owners = map sn_id (concat (map (\<lambda>(path, name). named_nodes before_db path name) names))"
    for ids names owners
  proof (induction ids names arbitrary: owners rule: list_induct2)
    case (Cons i ids n names)
    then obtain y ys where "owners = y # ys" "owner_pair_of before_db after_db (gs_language scope) (i, n) = Inr (Some y)"
      "list_all2 (\<lambda>x y. owner_pair_of before_db after_db (gs_language scope) x = Inr (Some y)) (zip ids names) ys"
      by (auto simp: list_all2_Cons1)
    then show ?case using step [of "(i, n)" y] Cons.IH [of ys] by (cases n; cases y) auto
  qed simp
  from all [OF same pairs] show "map fst owners = gs_owner_node_ids scope"
    and "list_all2 (\<lambda>(path, name) (_, old, current). named_nodes before_db path name = [old]
           \<and> named_nodes after_db path name = [current]) ?names owners"
    and "map (\<lambda>(_, old, _). sn_id old) owners = map sn_id (scope_symbols before_db scope)"
    by (simp_all add: scope_symbols_def)
qed

lemma list_all2_right: "list_all2 P xs ys \<Longrightarrow> y \<in> set ys \<Longrightarrow> \<exists>x \<in> set xs. P x y"
  by (induction rule: list_all2_induct) auto


text \<open>The name in the scope under which an owner is found.\<close>

lemma owner_named:
  assumes "owner_pairs before_db after_db scope = Inr (Some owners)" and "(i, old, current) \<in> set owners"
  obtains path name where "(path, name) \<in> set (zip (gs_owner_file_paths scope) (gs_owner_qualified_names scope))"
    "named_nodes before_db path name = [old]" "named_nodes after_db path name = [current]"
  using list_all2_right [OF owner_pairs_sound(2) [OF assms(1)] assms(2)] by auto


text \<open>The parts of a fact.\<close>

lemma continuity_facts_parts:
  assumes "continuity_facts host before_db after_db scope before_files after_files patch = Inr (Some gf)"
  obtains w owners rn others callers owner_edges confidences where
    "witness_for_language (gs_language scope) = Some w"
    "owner_pairs before_db after_db scope = Inr (Some owners)"
    "renamed_owner host w (gs_language scope) before_files after_files after_db patch owners = Inr (Some rn)"
    "others = filter (\<lambda>(real_id, _). real_id \<noteq> rn_real_id rn) owners"
    "callers = consumer_edges before_db (map sn_id (scope_symbols before_db scope))"
    "all_present (other_owner host w before_files after_files before_db after_db rn) others = Inr (Some owner_edges)"
    "int (card (set (map se_source callers))) = gs_expected_consumer_count scope"
    "all_present (consumer_group host w before_files after_files before_db after_db rn (after_targets_of rn others) callers)
        (dedupe (map edge_group callers)) = Inr (Some confidences)"
    "gf = continuity_fact w scope (rn_real_id rn # map fst others) (rn_confidence rn # concat owner_edges @ concat confidences)"
proof -
  obtain w owners rn where
    w: "witness_for_language (gs_language scope) = Some w"
    and owners: "owner_pairs before_db after_db scope = Inr (Some owners)"
    and rn: "renamed_owner host w (gs_language scope) before_files after_files after_db patch owners = Inr (Some rn)"
    and rest: "(let others = filter (\<lambda>(real_id, _). real_id \<noteq> rn_real_id rn) owners;
           callers = consumer_edges before_db (map (\<lambda>(_, old, _). sn_id old) owners)
       in andthen (all_present (other_owner host w before_files after_files before_db after_db rn) others) (\<lambda>owner_edges.
          andthen (require (int (card (set (map se_source callers))) = gs_expected_consumer_count scope)) (\<lambda>_.
          andthen (all_present (consumer_group host w before_files after_files before_db after_db rn
              (after_targets_of rn others) callers) (dedupe (map edge_group callers))) (\<lambda>consumer_confidences.
            Inr (Some (continuity_fact w scope (rn_real_id rn # map fst others)
              (rn_confidence rn # concat owner_edges @ concat consumer_confidences))))))) = Inr (Some gf)"
    using assms unfolding continuity_facts_def andthen_present by blast
  show thesis
    using rest unfolding Let_def andthen_present require_present owner_pairs_sound(3) [OF owners]
    by (elim exE conjE) (rule that [OF w owners rn refl refl], assumption+, simp)
qed

lemma after_targets_sound:
  assumes "map_of (after_targets_of rn others) i = Some ts" and "set others \<subseteq> set owners"
    and "(rn_real_id rn, rn_old rn, rn_binding rn) \<in> set owners"
  shows "\<exists>(_, old, current) \<in> set owners. sn_id old = i \<and> set ts \<subseteq> {sn_id current, sn_id (rn_target rn)}"
proof -
  have "(i, ts) \<in> set (after_targets_of rn others)" using assms(1) by (rule map_of_SomeD)
  then consider "i = sn_id (rn_old rn)" "ts = [sn_id (rn_binding rn), sn_id (rn_target rn)]"
    | real_id old current where "(real_id, old, current) \<in> set others" "i = sn_id old" "ts = [sn_id current]"
    by (auto simp: after_targets_of_def)
  then show ?thesis
  proof cases
    case 1
    then show ?thesis using assms(3) by (intro bexI [of _ "(rn_real_id rn, rn_old rn, rn_binding rn)"]) auto
  next
    case (2 real_id old current)
    then show ?thesis using assms(2) by (intro bexI [of _ "(real_id, old, current)"]) auto
  qed
qed

lemma carries_over_mono: "carries_over host b a ts e e' \<Longrightarrow> set ts \<subseteq> set us \<Longrightarrow> carries_over host b a us e e'"
  by (auto simp: carries_over_def)

section \<open>A sample\<close>

text \<open>The function \<open>a\<close> becomes \<open>b\<close>, with \<open>a\<close> left behind as a forwarder; another file calls it.\<close>

definition ascii_classes :: char_classes where
  "ascii_classes = \<lparr>wide_alpha = (\<lambda>_. False), wide_alnum = (\<lambda>_. False)\<rparr>"

definition sample_python :: python_host where
  "sample_python = \<lparr>ph_loads = (\<lambda>_. Some (VDict [(''confidence'', VInt 1), (''resolvedBy'', VStr ''import'')])),
     ph_float = (\<lambda>_. None), ph_str = (\<lambda>_. []), ph_chars = ascii_classes\<rparr>"

definition renamed_before :: file_texts where
  "renamed_before = [(''a.ts'', Some ''function a() {}''), (''c.ts'', Some ''a();'')]"

definition renamed_after :: file_texts where
  "renamed_after = [(''a.ts'', Some (join_with [LF] [''function b() {}'', ''export const a = b;''])), (''c.ts'', Some ''a();'')]"

definition rename_lines :: "string list" where
  "rename_lines = [''diff --git a/a.ts b/a.ts'', ''--- a/a.ts'', ''+++ b/a.ts'', ''@@ -1 +1,2 @@'', ''-function a() {}'',
     ''+function b() {}'', ''+export const a = b;'']"

definition rename_patch :: string where "rename_patch = join_with [LF] rename_lines"

definition sample_symbol :: "string \<Rightarrow> string \<Rightarrow> string \<Rightarrow> int \<Rightarrow> snapshot_node" where
  "sample_symbol i kind name line =
     \<lparr>sn_id = i, sn_kind = kind, sn_name = name, sn_qualified_name = Some name, sn_file_path = Some ''a.ts'',
      sn_start_line = Some line, sn_end_line = Some line, sn_start_column = None, sn_end_column = None, sn_visibility = None,
      sn_is_exported = Some 1, sn_signature = Some ''()'', sn_language = Some ''typescript''\<rparr>"

definition sample_link :: "string \<Rightarrow> string \<Rightarrow> string \<Rightarrow> int \<Rightarrow> snapshot_edge" where
  "sample_link source target kind line =
     \<lparr>se_source = source, se_target = target, se_kind = kind, se_line = Some line, se_metadata = Some ''m''\<rparr>"

definition graph_before :: snapshot_db where
  "graph_before =
     \<lparr>sd_nodes = [sample_symbol ''n1'' ''function'' ''a'' 1], sd_edges = [sample_link ''file:c.ts'' ''n1'' ''calls'' 1]\<rparr>"

definition graph_after :: snapshot_db where
  "graph_after =
     \<lparr>sd_nodes = [sample_symbol ''n2'' ''function'' ''b'' 1, sample_symbol ''n3'' ''constant'' ''a'' 2],
      sd_edges = [sample_link ''file:c.ts'' ''n3'' ''calls'' 1, sample_link ''n3'' ''n2'' ''references'' 2]\<rparr>"

definition rename_scope :: graph_risk_scope where
  "rename_scope = \<lparr>gs_event = ''public_api_break'', gs_risk_source = ''graph_modify_risk'', gs_owner_node_ids = [''r1''],
     gs_owner_file_paths = [''a.ts''], gs_owner_qualified_names = [''a''], gs_expected_consumer_count = 1,
     gs_language = Some ''typescript''\<rparr>"

lemma sample_fact: "\<exists>gf. continuity_facts sample_python graph_before graph_after rename_scope renamed_before renamed_after
    rename_patch = Inr (Some gf)"
proof -
  have "(case continuity_facts sample_python graph_before graph_after rename_scope renamed_before renamed_after rename_patch of
      Inr (Some gf) \<Rightarrow> True | _ \<Rightarrow> False) = True" by code_simp
  then show ?thesis by (auto split: sum.splits option.splits)
qed

section \<open>What a fact stands for\<close>



text \<open>C14: No consumer is lost by a candidate that earns a continuity fact: there are as many consumers as the scope expects,
  and for each edge from a consumer into an owner before the change there is an edge of the same kind, resolver and
  confidence after it, from the same file or the symbol of the same place, into the symbol of that owner's name or into the
  one symbol that replaced it.\<close>

theorem consumers_survive_the_rename:
  assumes "continuity_facts host before_db after_db scope before_files after_files patch = Inr (Some gf)"
  defines "consumers \<equiv> consumer_edges before_db (map sn_id (scope_symbols before_db scope))"
  shows "int (card (se_source ` set consumers)) = gs_expected_consumer_count scope
    \<and> (\<exists>target. \<forall>e \<in> set consumers. \<exists>(path, name) \<in> set (zip (gs_owner_file_paths scope) (gs_owner_qualified_names scope)).
          \<exists>old current e'. named_nodes before_db path name = [old] \<and> sn_id old = se_target e
            \<and> named_nodes after_db path name = [current]
            \<and> carries_over host before_db after_db [sn_id current, target] e e')"
proof -
  from assms(1) obtain w owners rn others callers confidences where
    owners: "owner_pairs before_db after_db scope = Inr (Some owners)"
    and rn: "renamed_owner host w (gs_language scope) before_files after_files after_db patch owners = Inr (Some rn)"
    and others: "others = filter (\<lambda>(real_id, _). real_id \<noteq> rn_real_id rn) owners"
    and callers: "callers = consumer_edges before_db (map sn_id (scope_symbols before_db scope))"
    and expected: "int (card (set (map se_source callers))) = gs_expected_consumer_count scope"
    and groups: "all_present (consumer_group host w before_files after_files before_db after_db rn (after_targets_of rn others) callers)
        (dedupe (map edge_group callers)) = Inr (Some confidences)"
    by (rule continuity_facts_parts)
  let ?names = "zip (gs_owner_file_paths scope) (gs_owner_qualified_names scope)"
  have "\<exists>(path, name) \<in> set ?names. \<exists>old current e'. named_nodes before_db path name = [old] \<and> sn_id old = se_target e
      \<and> named_nodes after_db path name = [current]
      \<and> carries_over host before_db after_db [sn_id current, sn_id (rn_target rn)] e e'" if e: "e \<in> set callers" for e
  proof -
    obtain cs where "consumer_group host w before_files after_files before_db after_db rn (after_targets_of rn others) callers
        (edge_group e) = Inr (Some cs)"
      using all_present_each [OF groups, of "edge_group e"] e by auto
    from consumer_group_sound [OF this] e obtain ts e' where
      ts: "map_of (after_targets_of rn others) (se_target e) = Some ts" "carries_over host before_db after_db ts e e'" by blast
    have "set others \<subseteq> set owners" by (auto simp: others)
    from after_targets_sound [OF ts(1) this] renamed_owner_sound [OF rn] obtain i old current where
      o: "(i, old, current) \<in> set owners" "sn_id old = se_target e" "set ts \<subseteq> {sn_id current, sn_id (rn_target rn)}" by blast
    from owner_named [OF owners o(1)] obtain path name where
      "(path, name) \<in> set ?names" "named_nodes before_db path name = [old]" "named_nodes after_db path name = [current]"
      by blast
    moreover have "carries_over host before_db after_db [sn_id current, sn_id (rn_target rn)] e e'"
      by (rule carries_over_mono [OF ts(2)]) (simp add: o(3))
    ultimately show ?thesis using o(2) by (intro bexI [of _ "(path, name)"]) auto
  qed
  then show ?thesis
    using expected unfolding consumers_def callers by (intro conjI exI [of _ "sn_id (rn_target rn)"]) simp_all
qed

lemma consumers_survive_the_rename_witness:
  "\<exists>gf target e'. continuity_facts sample_python graph_before graph_after rename_scope renamed_before renamed_after rename_patch
      = Inr (Some gf)
    \<and> carries_over sample_python graph_before graph_after [''n3'', target] (sample_link ''file:c.ts'' ''n1'' ''calls'' 1) e'"
proof -
  obtain gf where gf: "continuity_facts sample_python graph_before graph_after rename_scope renamed_before renamed_after rename_patch
      = Inr (Some gf)" using sample_fact by blast
  have "sample_link ''file:c.ts'' ''n1'' ''calls'' 1
      \<in> set (consumer_edges graph_before (map sn_id (scope_symbols graph_before rename_scope)))"
    by (simp add: consumer_edges_def scope_symbols_def rename_scope_def graph_before_def named_nodes_def sample_symbol_def
        sample_link_def CONTINUITY_EDGE_KINDS_def)
  with consumers_survive_the_rename [OF gf] obtain current target e' where
    current: "named_nodes graph_after ''a.ts'' ''a'' = [current]"
    and carried: "carries_over sample_python graph_before graph_after [sn_id current, target]
      (sample_link ''file:c.ts'' ''n1'' ''calls'' 1) e'"
    by (fastforce simp: rename_scope_def)
  have "named_nodes graph_after ''a.ts'' ''a'' = [sample_symbol ''n3'' ''constant'' ''a'' 2]"
    by (simp add: named_nodes_def graph_after_def sample_symbol_def)
  with current have "sn_id current = sn_id (sample_symbol ''n3'' ''constant'' ''a'' 2)" by simp
  then have "sn_id current = ''n3''" by (simp add: sample_symbol_def)
  with gf carried show ?thesis by metis
qed

text \<open>A scope whose language has a capital letter finds its witness but never an owner.\<close>

lemma lower_idem: "lower (lower s) = lower s"
  by (simp add: lower_def lower_char_def Let_def)

lemma cased_language_never_earns:
  assumes "gs_language scope = Some l" and "lower l \<noteq> l"
  shows "continuity_facts host before_db after_db scope before_files after_files patch \<noteq> Inr (Some gf)"
proof
  assume "continuity_facts host before_db after_db scope before_files after_files patch = Inr (Some gf)"
  then obtain w owners rn where owners: "owner_pairs before_db after_db scope = Inr (Some owners)"
    and "renamed_owner host w (gs_language scope) before_files after_files after_db patch owners = Inr (Some rn)"
    by (rule continuity_facts_parts)
  from renamed_owner_sound [OF this(2)] owners obtain x i old binding where
    "owner_pair_of before_db after_db (gs_language scope) x = Inr (Some (i, old, binding))"
    by (auto simp: owner_pairs_def present_iff split: if_splits dest!: all_present_member)
  then have "lower (text_of (sn_language old)) = l"
    using assms(1) by (auto simp: owner_pair_of_def language_of_def split: prod.splits list.splits if_splits)
  with assms(2) show False using lower_idem by metis
qed

section \<open>What the proof of a patch does not see\<close>

lemma patch_lines_append:
  "patch_lines w cc old_name target_name st (ls @ rest) =
     (case patch_lines w cc old_name target_name st ls of
        Inl e \<Rightarrow> Inl e
      | Inr None \<Rightarrow> Inr None
      | Inr (Some st') \<Rightarrow> patch_lines w cc old_name target_name st' rest)"
  by (induction ls arbitrary: st) (auto split: sum.splits option.splits)

text \<open>C36: The proof that a patch does nothing but the rename is meant to see every changed line. It takes a line that
  begins with \<open>+++\<close> and a space for a file header wherever it stands, so that inside a hunk an added statement that
  begins with \<open>++\<close> and a space does not change its answer, whatever the statement is.\<close>

theorem smuggled_increment_is_not_seen:
  assumes "splitlines patch = ls @ rest" and "splitlines patch' = ls @ (''+++ '' @ statement) # rest"
    and "patch_lines w cc old_name target_name no_lines ls = Inr (Some st)" and "ps_in_hunk st"
  shows "patch_is_exhaustive_forwarder w cc patch' old_name target_name
    = patch_is_exhaustive_forwarder w cc patch old_name target_name"
proof -
  have "patch_line w cc old_name target_name st (''+++ '' @ statement) = Inr (Some st)"
    using assms(4) by (simp add: patch_line_def)
  then show ?thesis by (simp add: patch_is_exhaustive_forwarder_def assms(1-3) patch_lines_append)
qed

definition smuggling_patch :: string where
  "smuggling_patch = join_with [LF] (butlast rename_lines @ [''+++ c;'', last rename_lines])"

lemma smuggled_increment_is_not_seen_witness:
  "patch_is_exhaustive_forwarder ECMASCRIPT ascii_classes smuggling_patch ''a'' ''b'' = Inr True"
proof -
  let ?ls = "butlast rename_lines"
  let ?st = "no_lines\<lparr>ps_removed := [''function a() {}''], ps_added := [''function b() {}''], ps_saw_block := True,
      ps_block_has_hunk := True, ps_in_hunk := True\<rparr>"
  have "splitlines rename_patch = ?ls @ [last rename_lines]" by code_simp
  moreover have "splitlines smuggling_patch = ?ls @ (''+++ '' @ ''c;'') # [last rename_lines]" by code_simp
  moreover have "patch_lines ECMASCRIPT ascii_classes ''a'' ''b'' no_lines ?ls = Inr (Some ?st)" by code_simp
  moreover have "ps_in_hunk ?st" by simp
  ultimately have "patch_is_exhaustive_forwarder ECMASCRIPT ascii_classes smuggling_patch ''a'' ''b''
      = patch_is_exhaustive_forwarder ECMASCRIPT ascii_classes rename_patch ''a'' ''b''"
    by (rule smuggled_increment_is_not_seen)
  moreover have "patch_is_exhaustive_forwarder ECMASCRIPT ascii_classes rename_patch ''a'' ''b'' = Inr True" by code_simp
  ultimately show ?thesis by simp
qed

text \<open>Two more blind spots: a shorthand property carries its name to the outside, and the whitespace of a literal is part
  of its value.\<close>

lemma shorthand_property_migrates:
  "identifier_only_migration ECMASCRIPT ascii_classes ''x={a};'' ''x={b};'' ''a'' ''b'' = True"
  by code_simp

lemma literal_whitespace_migrates:
  "identifier_only_migration ECMASCRIPT ascii_classes
     (''a('' @ [QUOTE] @ ''x  y'' @ [QUOTE] @ '');'') (''b('' @ [QUOTE] @ ''x y'' @ [QUOTE] @ '');'') ''a'' ''b'' = True"
  by code_simp

text \<open>A parameter list of dots alone makes the proof raise.\<close>

lemma dots_raise:
  "is_safe_forwarder (WITNESSES ! 4) ascii_classes ''int a(...) => b();'' ''a'' ''b''
    = Inl (IndexError ''list index out of range'')"
  by code_simp

end
