(* ===== verification/Pebra_Continuity_Cache.thy ===== *)
theory Pebra_Continuity_Cache
  imports Pebra_Continuity_Proof
begin

text \<open>
  Properties of a whole run: evidence that lowers the risk is never read back from the disk, and the cache keeps to its
  limits.
\<close>

section \<open>Where available evidence comes from\<close>

lemma load_cache_conservative:
  "load_cache entry = Some ev \<Longrightarrow> ce_status ev \<noteq> ''available'' \<and> ce_cache_hit ev \<and> list_all bounded_confidence (ce_facts ev)"
  by (auto simp: load_cache_def split: disk_entry.splits if_splits)

lemma index_report_unavailable: "index_report reason failure retryable base = Inr ev \<Longrightarrow> ce_status ev = ''unavailable''"
  by (cases failure) (auto simp: index_report_def)

lemma compare_graphs_available:
  assumes "compare_graphs host language scope before_files after_files patch manifest w = Inr (ev, compared)"
    and "ce_status ev = ''available''"
  shows "\<exists>before_db after_db gf. rf_index host 0 before_files = Inr before_db \<and> rf_index host 1 after_files = Inr after_db
    \<and> continuity_facts (rf_python host) before_db after_db scope before_files after_files patch = Inr (Some gf)
    \<and> ce_facts ev = [gf] \<and> \<not> ce_cache_hit ev"
  using assms unfolding compare_graphs_def Let_def
  by (auto simp: rbind_Inr_iff with_context_def default_graph_risk_evidence_def dest: index_report_unavailable
      split: sum.splits if_splits option.splits)

lemma unavailable_evidence_status [simp]:
  "ce_status (unavailable_evidence reason retryable) = ''unavailable''"
  "ce_status (with_context files evidence) = ce_status evidence"
  "ce_status default_graph_risk_evidence = ''not_applicable''"
  by (simp_all add: unavailable_evidence_def with_context_def default_graph_risk_evidence_def)

section \<open>A sample run\<close>

definition rename_action :: candidate_action where
  "rename_action = \<lparr>ca_id = ''c1'', ca_label = [], ca_action_type = ''edit'', ca_proposed_patch = Some rename_patch,
     ca_affected_symbols = [], ca_expected_files = [''a.ts''], ca_is_dependency_change = False,
     ca_is_schema_change = False, ca_is_migration = False\<rparr>"

definition rename_files :: "string \<Rightarrow> context_file option" where
  "rename_files path = (case dict_get renamed_before path None of None \<Rightarrow> None | Some t \<Rightarrow> Some \<lparr>fl_size = int (length t), fl_text = Some t\<rparr>)"

definition rename_host :: refinement_host where
  "rename_host =
     \<lparr>rf_limits = default_limits, rf_python = sample_python, rf_inside = (\<lambda>_. True), rf_fs = rename_files,
      rf_expanded = (\<lambda>_. Some [''c.ts'']),
      rf_git = \<lparr>gi_init = True, gi_apply = (\<lambda>_ _ _ _. Applied (\<lambda>path. dict_get renamed_after path None))\<rparr>,
      rf_engine = [], rf_dumps = (\<lambda>_. []), rf_index = (\<lambda>n _. Inr (if n = 0 then graph_before else graph_after)),
      rf_late = (False, False, False),
      rf_times = \<lparr>ty_prefilter = 0, ty_materialize = 0, ty_index = 0, ty_query = 0, ty_total = 0\<rparr>, rf_size = (\<lambda>_. 1), rf_save = No_Fault\<rparr>"

lemma rename_context:
  "context_of default_limits (\<lambda>_. True) rename_files (Some [''c.ts'']) rename_action rename_scope = Inr (renamed_before, None)"
  by code_simp

lemma rename_materialized:
  "materialize_patch (rf_git rename_host) (map (map_prod id (map_option unix_lines)) renamed_before) rename_patch ''.'' = Some renamed_after"
  by code_simp

lemma rename_reappears: "name_reappears renamed_after (''a.ts'', ''a'') = True"
  by code_simp

lemma rename_witness: "witness_for_language (Some ''typescript'') = Some ECMASCRIPT"
  by (simp add: witness_for_language_def WITNESSES_def ECMASCRIPT_def lower_def lower_char_def)

lemma rename_language: "scope_language rename_scope = (''typescript'', rename_scope)"
  by code_simp

lemma rename_available:
  "\<exists>ev. analyze_candidate rename_host rename_action rename_scope [] = (Inr ev, []) \<and> ce_status ev = ''available''"
proof -
  obtain gf where facts: "continuity_facts sample_python graph_before graph_after rename_scope renamed_before renamed_after
      rename_patch = Inr (Some gf)" using sample_fact by blast
  have patch: "text_of (ca_proposed_patch rename_action) = rename_patch" by (simp add: rename_action_def text_of_def)
  have "rename_patch \<noteq> []" by (simp add: rename_patch_def rename_lines_def)
  have found: "context_of (rf_limits rename_host) (rf_inside rename_host) (rf_fs rename_host)
      (rf_expanded rename_host rename_scope) rename_action rename_scope = Inr (renamed_before, None)"
    using rename_context by (simp add: rename_host_def)
  obtain ev where compared: "compare_graphs rename_host ''typescript'' rename_scope renamed_before renamed_after rename_patch manifest
      ECMASCRIPT = Inr (ev manifest, True) \<and> ce_status (ev manifest) = ''available''" for manifest
    by (rule that [of "\<lambda>m. fst (projr (compare_graphs rename_host ''typescript'' rename_scope renamed_before renamed_after
          rename_patch m ECMASCRIPT))"])
      (simp add: compare_graphs_def Let_def rename_host_def facts)
  have "analyze_candidate rename_host rename_action rename_scope [] = (Inr (ev m), [])"
    if "m = sha256_hex (rf_dumps rename_host (manifest_value (rf_limits rename_host) rename_action rename_scope renamed_before None
        (rf_engine rename_host)))" for m
    unfolding analyze_candidate_def Let_def rename_language prod.case patch found
    using \<open>rename_patch \<noteq> []\<close> rename_materialized rename_reappears that compared [of m]
    by (simp add: rename_witness cached_entry_def load_cache_def save_cache_def)
      (simp add: rename_host_def rename_scope_def SUPPORTED_EVENTS_def default_limits_def refinement_limits_of_def)
  then show ?thesis using compared by blast
qed

text \<open>C15: Whatever the cache on disk holds, evidence is available only when it was computed in this very run: the candidate
  was applied to the files of the context, both graphs were built from the files before and after, their comparison gave the
  one fact that is reported, and the answer is not marked as read from the cache, which it leaves as it was.\<close>

theorem available_evidence_is_computed:
  assumes "analyze_candidate host action scope cache = (Inr ev, cache')" and "ce_status ev = ''available''"
  shows "\<exists>before_files after_files before_db after_db gf.
      context_of (rf_limits host) (rf_inside host) (rf_fs host) (rf_expanded host (snd (scope_language scope))) action
        (snd (scope_language scope)) = Inr (before_files, None)
      \<and> materialize_patch (rf_git host) (map (map_prod id (map_option unix_lines)) before_files)
          (text_of (ca_proposed_patch action)) ''.'' = Some after_files
      \<and> rf_index host 0 before_files = Inr before_db \<and> rf_index host 1 after_files = Inr after_db
      \<and> continuity_facts (rf_python host) before_db after_db (snd (scope_language scope)) before_files after_files
          (text_of (ca_proposed_patch action)) = Inr (Some gf)
      \<and> ce_facts ev = [gf] \<and> \<not> ce_cache_hit ev \<and> cache' = cache"
proof -
  let ?scope = "snd (scope_language scope)" and ?patch = "text_of (ca_proposed_patch action)"
  obtain before_files after_files w manifest compared where
    "context_of (rf_limits host) (rf_inside host) (rf_fs host) (rf_expanded host ?scope) action ?scope = Inr (before_files, None)"
    "materialize_patch (rf_git host) (map (map_prod id (map_option unix_lines)) before_files) ?patch ''.'' = Some after_files"
    and compared: "compare_graphs host (fst (scope_language scope)) ?scope before_files after_files ?patch manifest w = Inr (ev, compared)"
    and "cache' = (if compared then save_cache (rf_limits host) (rf_save host) (rf_size host) manifest ev cache else cache)"
    using assms unfolding analyze_candidate_def Let_def
    by (auto split: if_splits option.splits sum.splits prod.splits dest: load_cache_conservative)
  moreover have "save_cache (rf_limits host) (rf_save host) (rf_size host) manifest ev cache = cache"
    using assms(2) by (simp add: save_cache_def)
  ultimately show ?thesis using compare_graphs_available [OF compared assms(2)] by auto
qed

lemma available_evidence_is_computed_witness:
  "\<exists>ev gf. analyze_candidate rename_host rename_action rename_scope [] = (Inr ev, []) \<and> ce_status ev = ''available''
     \<and> ce_facts ev = [gf]"
proof -
  obtain ev where "analyze_candidate rename_host rename_action rename_scope [] = (Inr ev, [])" "ce_status ev = ''available''"
    using rename_available by blast
  with available_evidence_is_computed [OF this] show ?thesis by blast
qed

section \<open>The cache\<close>

text \<open>What holds of the cache between runs: one entry per name, and nothing in it that lowers a risk; and its limits.\<close>

definition conservative_entry :: "cached_file \<Rightarrow> bool" where
  "conservative_entry e =
     (case ch_entry e of
        Unreadable \<Rightarrow> True
      | Entry _ ev \<Rightarrow> ce_status ev \<noteq> ''available'' \<and> ce_verified_patch_hash ev = None)"

definition cache_safe :: "cached_file list \<Rightarrow> bool" where
  "cache_safe cache = (distinct (map ch_name cache) \<and> list_all conservative_entry cache)"

definition within_limits :: "refinement_limits \<Rightarrow> cached_file list \<Rightarrow> bool" where
  "within_limits limits cache =
     (int (length cache) \<le> rl_max_cache_entries limits \<and> sum_list (map ch_size cache) \<le> rl_max_cache_bytes limits)"

lemma save_cache_suffix:
  assumes "ce_status ev \<noteq> ''available''" and "fault \<noteq> Write_Fault"
  shows "\<exists>dropped. filter (\<lambda>e. ch_name e \<noteq> name) cache
      @ [\<lparr>ch_name = name, ch_size = size_of (ev\<lparr>ce_verified_patch_hash := None, ce_cache_hit := False\<rparr>),
          ch_entry = Entry 1 (ev\<lparr>ce_verified_patch_hash := None, ce_cache_hit := False\<rparr>)\<rparr>]
    = dropped @ save_cache limits fault size_of name ev cache"
  using assms evict_stale_suffix by (auto simp: save_cache_def Let_def)

lemma save_cache_safe:
  assumes "cache_safe cache"
  shows "cache_safe (save_cache limits fault size_of name ev cache)
    \<and> length (save_cache limits fault size_of name ev cache) \<le> Suc (length cache)"
proof (cases "ce_status ev = ''available'' \<or> fault = Write_Fault")
  case True
  then show ?thesis using assms by (simp add: save_cache_def)
next
  case False
  let ?payload = "ev\<lparr>ce_verified_patch_hash := None, ce_cache_hit := False\<rparr>"
  let ?entries = "filter (\<lambda>e. ch_name e \<noteq> name) cache
      @ [\<lparr>ch_name = name, ch_size = size_of ?payload, ch_entry = Entry 1 ?payload\<rparr>]"
  let ?kept = "save_cache limits fault size_of name ev cache"
  have "distinct (map ch_name ?entries)" "length ?entries \<le> Suc (length cache)"
    using assms by (auto simp: cache_safe_def intro: distinct_map_filter)
  moreover have "list_all conservative_entry ?entries"
    using assms False by (auto simp: cache_safe_def list_all_iff conservative_entry_def)
  moreover obtain dropped where "?entries = dropped @ ?kept"
    using save_cache_suffix False by blast
  ultimately show ?thesis unfolding cache_safe_def by (metis distinct_append map_append list_all_append length_append le_add2 order_trans)
qed

lemma save_cache_bounded:
  assumes "rl_max_cache_entries limits \<ge> 0" and "rl_max_cache_bytes limits \<ge> 0"
  shows "save_cache limits No_Fault size_of name ev cache = cache
    \<or> within_limits limits (save_cache limits No_Fault size_of name ev cache)"
proof (cases "ce_status ev = ''available''")
  case True
  then show ?thesis by (simp add: save_cache_def)
next
  case False
  let ?payload = "ev\<lparr>ce_verified_patch_hash := None, ce_cache_hit := False\<rparr>"
  let ?entries = "filter (\<lambda>e. ch_name e \<noteq> name) cache
      @ [\<lparr>ch_name = name, ch_size = size_of ?payload, ch_entry = Entry 1 ?payload\<rparr>]"
  have kept: "save_cache limits No_Fault size_of name ev cache
      = evict_stale None (rl_max_cache_bytes limits) (max 0 (int (length ?entries) - rl_max_cache_entries limits))
          (sum_list (map ch_size ?entries)) ?entries"
    using False by (simp add: save_cache_def removals_allowed_def Let_def)
  show ?thesis
    unfolding kept within_limits_def by (intro disjI2, rule evict_stale_bounds) (use assms in auto)
qed

text \<open>C34: With limits that are not negative: whatever a run is asked and however it ends, an error of the file system while it saves included, the cache on
  disk keeps one entry per manifest, holds nothing that lowers a risk or carries the hash of a patch, and grows by one entry
  at most. A run whose save meets no such error leaves the cache as it was or within its limits of entries and bytes, even
  when an earlier run left it above them; an error during the removal of old entries can leave it above its limits until
  the next save.\<close>

theorem refinement_cache_stays_bounded:
  assumes "rl_max_cache_entries (rf_limits host) \<ge> 0" and "rl_max_cache_bytes (rf_limits host) \<ge> 0"
    and "cache_safe cache"
  shows "cache_safe (snd (analyze_candidate host action scope cache))
    \<and> length (snd (analyze_candidate host action scope cache)) \<le> Suc (length cache)
    \<and> (rf_save host = No_Fault \<longrightarrow>
         snd (analyze_candidate host action scope cache) = cache
         \<or> within_limits (rf_limits host) (snd (analyze_candidate host action scope cache)))"
proof -
  have "snd (analyze_candidate host action scope cache) = cache
      \<or> (\<exists>name ev. snd (analyze_candidate host action scope cache)
            = save_cache (rf_limits host) (rf_save host) (rf_size host) name ev cache)"
    unfolding analyze_candidate_def Let_def
    by (auto split: option.split sum.split prod.split)
  then show ?thesis
    using save_cache_safe [OF assms(3)] save_cache_bounded [OF assms(1,2)] assms(3) by (elim disjE exE) auto
qed

lemma refinement_cache_stays_bounded_witness:
  "cache_safe (snd (analyze_candidate rename_host rename_action rename_scope []))
   \<and> (snd (analyze_candidate rename_host rename_action rename_scope []) = []
      \<or> within_limits default_limits (snd (analyze_candidate rename_host rename_action rename_scope [])))"
  using refinement_cache_stays_bounded [of rename_host "[]" rename_action rename_scope]
  by (simp add: cache_safe_def rename_host_def default_limits_def refinement_limits_of_def)

text \<open>An error at the first removal leaves the new entry beside the old one, above a limit of one entry.\<close>

lemma failed_removal_exceeds_the_limit:
  assumes "rl_max_cache_entries limits = 1" and "ch_name old \<noteq> name" and "ce_status ev \<noteq> ''available''"
  shows "length (save_cache limits (Removal_Fault 0) size_of name ev [old]) = 2"
  using assms by (simp add: save_cache_def removals_allowed_def Let_def)

end
