(* ===== verification/Spec2Isabelle.thy ===== *)
theory Spec2Isabelle
  imports Pebra_Verify Pebra_Request_Validator Pebra_Decision_Properties Pebra_Warm_Prior Pebra_Fact_Roundtrip
    Pebra_Finalization Pebra_Gate_Check Pebra_Assess_Controller Pebra_Candidate_Apply Pebra_Agent_Hook
    Pebra_Guidance Pebra_Assessment_History Pebra_Evidence_Merge Pebra_Change_Verifier Pebra_Graph_Evidence
    Pebra_Continuity_Cache
begin

text \<open>
  PEBRA (\<open>src/pebra\<close>) is a pre-edit risk and benefit engine for coding agents. Before an agent edits a
  repository it submits a request with candidate actions; the engine scores each action against the
  evidence other tools collected, sends it through an ordered list of gates and answers proceed,
  inspect first, test first, revise safer, ask a human, or reject. A human may accept the risk of a
  stopped candidate; the sanction this creates is bound to the exact candidate and spent by one
  reassessment. Before the commit the actual diff is compared with the approved envelope. Everything
  is kept in hash-chained ledgers.

  \<^bold>\<open>Parts, theories and code.\<close> The order is that of the program.

  \<^item> \<open>Pebra_Base\<close>: Python values, dictionaries, errors, strings, sorting; the interfaces \<open>py_dict\<close> and
    \<open>severity_scale\<close>.
  \<^item> \<open>Pebra_Sha256\<close>: the digest of \<open>hashlib\<close> on 32-bit words; the interface \<open>patch_digest\<close>.
  \<^item> \<open>Pebra_Constants\<close>, \<open>Pebra_Models\<close>: \<open>core/constants.py\<close> and \<open>core/models.py\<close>. Enumerations are
    datatypes with their wire values, dataclasses are records with a two-letter prefix.
  \<^item> \<open>Pebra_Patch_Paths\<close>: \<open>core/patch_paths.py\<close>, the header parser that says which files a patch touches,
    as a state machine over the lines (\<open>tf_step\<close>, \<open>tf_loop\<close>, \<open>touched_files\<close>) and the decoder of quoted
    paths.
  \<^item> \<open>Pebra_Request_Validator\<close>: \<open>core/request_validator.py\<close>.
  \<^item> \<open>Pebra_Change_Classifier\<close>: \<open>core/change_classifier.py\<close>, change kinds and consequence verdicts of a diff,
    the coarse and the semantic graph tier.
  \<^item> \<open>Pebra_Risk_Models\<close>: \<open>core/graph_trust.py\<close>, \<open>exposure_model.py\<close>, \<open>modify_risk_model.py\<close> and
    \<open>destructive_op_model.py\<close>; the interface \<open>event_model\<close> of the two event models.
  \<^item> \<open>Pebra_Aggregation\<close>: \<open>core/candidate_aggregation.py\<close>, \<open>file_risk_aggregation.py\<close>,
    \<open>benefit_aggregation.py\<close> and \<open>benefit_model.py\<close>.
  \<^item> \<open>Pebra_Score_Math\<close>: \<open>core/score_math.py\<close>, \<open>score_normalizer.py\<close>, \<open>variance_bounds.py\<close>,
    \<open>confidence_gate.py\<close>.
  \<^item> \<open>Pebra_Candidate_Refinement\<close>: \<open>core/candidate_refinement.py\<close>, scoped probability updates and ranking.
  \<^item> \<open>Pebra_Assessment_Builder\<close>: \<open>core/assessment_builder.py\<close>; \<open>build_assessment\<close> composes the scoring.
  \<^item> \<open>Pebra_Human_Review\<close>: \<open>core/human_review.py\<close>.
  \<^item> \<open>Pebra_Decision_Engine\<close>: \<open>core/decision_engine.py\<close>. \<open>decide\<close> is \<open>gate_sequence\<close> (revision outcome,
    \<open>risk_gates\<close>, obligations), the advisory entries, and \<open>resolve_sanction\<close>. \<open>Pebra_Decision_Properties\<close>
    holds its properties.
  \<^item> \<open>Pebra_Hash_Chain\<close>, \<open>Pebra_Sanction_Store\<close>: \<open>adapters/store/db.py\<close>, the chain all ledgers share (the
    interfaces \<open>chained_table\<close> and \<open>audited_table\<close>) and the sanction ledger with its operations; \<open>sanction_run\<close> is a sequence of
    them, one transaction each.
  \<^item> \<open>Pebra_Human_Approval\<close>: \<open>core/candidate_binding_contract.py\<close>, \<open>app/accept_risk_controller.py\<close>,
    \<open>app/human_approval_controller.py\<close>.
  \<^item> \<open>Pebra_Fnmatch\<close>, \<open>Pebra_Guardrails\<close>: glob patterns and \<open>core/post_assessment_guardrails.py\<close>.
  \<^item> \<open>Pebra_Verify\<close>: \<open>app/verify_controller.py\<close> with the guardrail ledger.
  \<^item> \<open>Pebra_Language_Capability\<close>, \<open>Pebra_Scope_Matching\<close>, \<open>Pebra_Learned_Overrides\<close>, \<open>Pebra_Warm_Prior\<close>:
    \<open>core/language_capability.py\<close>, \<open>scope_matching.py\<close>, \<open>risk_fact_decay.py\<close>, \<open>apply_snapshot.py\<close> and
    \<open>warm_prior.py\<close>, what learned facts and configured priors change of an input before it is scored.
  \<^item> \<open>Pebra_Float_Arith\<close>, \<open>Pebra_Prediction_Capture\<close>, \<open>Pebra_Prediction_Error\<close>, \<open>Pebra_Promotion_Gate\<close>,
    \<open>Pebra_Promotion\<close>: \<open>core/prediction_capture.py\<close>, \<open>structural_features.py\<close>, \<open>outcome_labels.py\<close>,
    \<open>prediction_error.py\<close>, \<open>learning_eval.py\<close> and \<open>promotion_evaluator.py\<close>, from the manifest of predictions
    to facts that earn promotion.
  \<^item> \<open>Pebra_Ledger\<close>, \<open>Pebra_Assessment_Ledger\<close>, \<open>Pebra_Learning_Ledger\<close>: the other tables of
    \<open>adapters/store/db.py\<close> with their chains; \<open>ledger\<close> is the state of the database.
  \<^item> \<open>Pebra_Learning_Runs\<close>: \<open>app/record_outcome_controller.py\<close>, \<open>learning_controller.py\<close>,
    \<open>promotion_controller.py\<close> and \<open>finalize_outcome_controller.py\<close> as actions on the ledger.
    \<open>Pebra_Learning_Integrity\<close> (the step relation \<open>ledger_step\<close> and its invariant), \<open>Pebra_Learning_Chains\<close>,
    \<open>Pebra_Fact_Roundtrip\<close> and \<open>Pebra_Finalization\<close> hold the properties of the learning loop.
  \<^item> \<open>Pebra_Candidate_Binding\<close>, \<open>Pebra_Replay_Cache\<close>: \<open>adapters/candidate_binding.py\<close>, which computes what files an
    edit or a patch leaves behind and binds their digests, and \<open>adapters/candidate_replay_cache.py\<close>. The
    working tree, path resolution and \<open>git apply\<close> are a record \<open>worktree\<close> of arguments.
  \<^item> \<open>Pebra_Gate_Contract\<close>, \<open>Pebra_Gate_Check\<close>: \<open>core/gate_contract.py\<close> and \<open>adapters/gate_check_adapter.py\<close>, the
    hook that runs before an agent edits: \<open>gate_decide\<close> is the function \<open>decide\<close>, split at its early returns
    into \<open>gate_in_repository\<close>, \<open>consult\<close>, \<open>binding_verdict\<close> and \<open>judge_matched\<close>.
  \<^item> \<open>Pebra_Assess_Input\<close>, \<open>Pebra_Assess_Controller\<close>: \<open>app/assess_controller.py\<close>. \<open>build_input\<close> assembles the input of
    the engine from the ports; \<open>assess\<close> prepares and scores every candidate, refines some of them
    (\<open>refine_candidates\<close>) and recommends one with the payload that is stored with it.
  \<^item> \<open>Pebra_Candidate_Application\<close>, \<open>Pebra_Candidate_Apply\<close>: \<open>adapters/candidate_application.py\<close>, which replaces the
    files of a candidate as a transaction on a disk where every step may fail (\<open>faults\<close>), and
    \<open>app/candidate_apply_controller.py\<close>, which loads a cached candidate (\<open>core/candidate_parser.py\<close>), asks the
    gate and applies it, with \<open>validate_chain\<close> over all ledgers.
  \<^item> \<open>Pebra_Agent_Hook\<close>: \<open>core/agent_hook_contract.py\<close>, how a settings document of an agent host is classified.
  \<^item> \<open>Pebra_Guidance\<close>: \<open>core/high_risk_controls.py\<close>, the binding part of \<open>core/model_guidance.py\<close>, and
    \<open>core/weight_resolver.py\<close>.
  \<^item> \<open>Pebra_Assessment_History\<close>: \<open>core/assessment_history.py\<close>, the identity a stored assessment is shown with.
  \<^item> \<open>Pebra_Evidence_Merge\<close>: \<open>ports/config_port.py\<close>, \<open>adapters/request_evidence.py\<close>, \<open>bandit_adapter.py\<close>,
    \<open>evidence_merge.py\<close> and \<open>composite_evidence.py\<close>: the evidence of a request, of the scanner and of the
    configuration, and \<open>gather_evidence\<close>, which merges them.
  \<^item> \<open>Pebra_Ast_Diff\<close>, \<open>Pebra_Change_Verifier\<close>: \<open>adapters/ast_diff_adapter.py\<close> and \<open>patch_header_adapter.py\<close> over a
    datatype of syntax trees, and \<open>adapters/git_change_verifier.py\<close> with \<open>git_adapter.py\<close>, whose \<open>actual_diff\<close>
    yields the summary that \<open>verify\<close> compares with the envelope.
  \<^item> \<open>Pebra_Graph_Version\<close>, \<open>Pebra_Patch_Ranges\<close>, \<open>Pebra_Graph_Reach\<close>, \<open>Pebra_Codegraph_Status\<close>, \<open>Pebra_Codegraph\<close>:
    \<open>core/graph_version.py\<close>, \<open>graph_snapshot.py\<close> and \<open>adapters/codegraph_adapter.py\<close>. The database of the graph engine
    is a record of its tables (\<open>graph_db\<close>) and a query the list of its rows; \<open>graph_state\<close> holds the cached
    snapshots, \<open>prepare\<close> and \<open>bind_assessed_commit\<close> change it, \<open>graph_fanin\<close> and \<open>structural_symbols\<close> give the evidence
    that the risk models and the change verifier read. \<open>Pebra_Graph_Evidence\<close> holds its properties.
  \<^item> \<open>Pebra_Pattern\<close>, \<open>Pebra_Continuity_Witness\<close>, \<open>Pebra_Continuity\<close>, \<open>Pebra_Continuity_Run\<close>:
    \<open>adapters/continuity_witness.py\<close>, \<open>codegraph_candidate_refinement.py\<close> and \<open>patch_materializer.py\<close>, the provider
    that \<open>refine_candidates\<close> of the assess use case asks. A regular expression is a \<open>pat\<close> that \<open>pat_runs\<close> runs by
    backtracking; \<open>continuity_facts\<close> compares the graphs of a \<open>snapshot_db\<close> before and after the candidate;
    \<open>analyze_candidate\<close> is one run, with the cache on disk as its state. \<open>Pebra_Continuity_Proof\<close> and
    \<open>Pebra_Continuity_Cache\<close> hold its properties.

  The engine hands the entries of its gates to the approval, which reads them back from the stored
  record and writes a sanction; the next \<open>decide\<close> reads that sanction from its input, and \<open>verify\<close> enforces
  its controls and ends it when the diff drifts. An assessment is persisted with the manifest of its
  predictions; an outcome, allowed only after a passing verification, lets a measurement join them to labels;
  a promotion turns the trusted rows into facts that the next assessment reads back and reapplies. The hook
  compares the edit an agent is about to make with the stored assessments through the same binding the
  assessment recorded. The application of a candidate asks the same gate, then spends the cached replay
  and touches the files.

  \<^bold>\<open>What the lemmas show.\<close> For the engine: the chain of conditions is the documented rule list, a proceed
  means that no gate objects, a policy violation is final, and a run with a sanction differs from the run
  without it only where the sanction has authority. For scoring: the formulas and bounds of the architecture on
  every valid input, and that valid input of ordinary size raises only on an explicit negative variance. For
  evidence: refinement only lowers risk, the finer tier is never milder, touched files stand in
  headers, decoding inverts quoting, aggregates do not depend on order. For the ledgers: chains stay
  valid in every run and are tamper evident, a sanction is claimed at most once and exactly for its
  candidate, invalidation is final. For approval and verification: an approval completes outside
  revisions, a failed one leaves no authority, a cleared commit is inside the envelope, drift revokes.
  For learning: only completed, verified, host-labelled experience enters a calibration view, each
  prediction is scored once, a promotion beats the recorded probabilities on held-out rows (and, for event targets,
  the replay that stands in for the decision lets no more harmful rows proceed), facts are read
  back as they were promoted and match what promotion counted (path globs apart), and a retried finalization writes nothing.
  For the hook: what passes after a consultation is exactly what was assessed, a pending restriction is not
  evaded, answers keep their contract, equal bindings are equal edits. For the assess use case: assembly
  never lowers a risk, an untrusted graph counts as none, every candidate is scored, refinement is bounded
  and local, the recommendation does not depend on the order of the request. For the application: what is on
  the disk afterwards is what was assessed, and it is all or nothing. For the packet: the scope and binding
  that were published are the ones enforced and shown. For the evidence of a change: a request cannot forge the
  trust of its evidence, a diff with a file that could not be classified is never cleared, and a cosmetic verdict
  means equal syntax trees. For the graph: trusted evidence was earned by a fresh index of the assessed commit,
  exactly the changed lines of a diff are located, the database query and the queue search reach the same nodes.
  For continuity: a fact that lowers a risk is earned by owners and consumers that are all found again, it is never
  read back from the disk, and every save that meets no error of the file system brings the cache to its limits.
  Some theorems record behaviour that is not intended: \<open>touched_files_raises_on_octal_overflow\<close>,
  \<open>gate_raises_on_hostile_input\<close>, \<open>refinement_doubles_learned_variance\<close>, \<open>stored_replay_may_be_unusable\<close>,
  \<open>config_may_lower_criticality\<close>, \<open>smuggled_increment_is_not_seen\<close>,
  \<open>cased_language_never_earns\<close>, \<open>removed_comment_ends_the_hunk\<close>, \<open>recursive_symbol_is_ranked_too_low\<close>,
  \<open>revision_approval_never_completes\<close>, \<open>revoked_sanction_drops_controls\<close>, \<open>validated_labels_are_sound\<close>,
  \<open>integer_prediction_breaks_the_chain\<close> and \<open>nan_label_poisons_the_ledger\<close>.

  \<^bold>\<open>Conventions and bounds.\<close> Strings are UTF-8 bytes. Floats that are computed with are reals: rounding is
  not modelled, and of overflow only where it raises in a score, at the squares and the sum of the variance
  (\<open>squares_overflow\<close>, \<open>fsum_overflows\<close>); where the code asks for finiteness of a foreign value the value is a
  \<open>pyfloat\<close> with infinities and NaN. Exceptions are \<open>Inl\<close> values, texts of messages only in their constant
  part, reasons as structured values. Every loop is structural recursion or has a termination proof,
  so no fuel is used, except that the repetitions and searches of a regular expression count down the length of the
  text, of which each turn consumes at least one byte; the depths 3 and 8 of the graph queries are those of the code. A value of another process
  that may change between two looks is an observation of its own. Paths and \<open>fnmatch\<close> are those of POSIX, digits
  of a regular expression those of ASCII. What is not under \<open>src\<close> is an argument where it appears: \<open>json.dumps\<close>
  and \<open>json.loads\<close>, the clock, the results of ports. The approval takes the reassessment and the application as
  arguments too, and its theorems hold for any behaviour of them.

  \<^bold>\<open>What is not modelled.\<close> The migrations of the store, its listings for the dashboard, its full-text
  search and the learning-context table, whose chain is an argument of \<open>validate_chain\<close>; the advisory part of
  the guidance packet and the explanations (mostly wording). Of the assess use case: the rendering of both,
  the \<open>candidate_refinements\<close> rows of the payload, the parsing of host verification (an argument) and the last
  call, which is \<open>persist_assessment\<close> of \<open>Pebra_Assessment_Ledger\<close>. Of the binding: \<open>baseline_binding_for_action\<close>,
  which hashes the working tree through Git. Of the application: its file lock and the creation of
  directories; of the parser: values outside the typed request record. Of the graph adapter:
  the processes and the caches of its distributions, which are keyed by the file and its time. Of the continuity
  evidence: the processes of git and of the engine, the identity of the engine, the decoding of the files of the
  cache and its temporary files, and which characters beyond ASCII are letters (an argument). The other adapters
  that run external engines; command line, dashboard, terminal and MCP surfaces.
\<close>

end
